(* ===== verification/Prelude.thy ===== *)
theory Prelude
  imports Main "HOL-Library.Sublist" "HOL-Library.Char_ord" "HOL-Library.List_Lexorder"
begin

section \<open>Shared vocabulary: identifiers, time, errors, tables, strings\<close>

text \<open>
  What every component of the model uses: row identifiers, instants, the error values of the
  Go services, the relational layer the SQL statements are translated to, and the functions of
  Go's \<open>strings\<close> package the code calls.

  The SQL text is program text of the repository (internal/**/*.go, with the schema in
  internal/db/migrations). A table is the list of its rows in insertion order; a statement is the
  list function it denotes. Where SQL leaves an order open (rows that tie in ORDER BY, the row a
  QueryRow scans out of several matches) the model takes insertion order.
\<close>

named_theorems sql \<open>unfolding rules of the relational layer\<close>
named_theorems go_strings \<open>facts about the string functions\<close>

subsection \<open>Identifiers and time\<close>

text \<open>
  A UUID is its 128-bit value read as a number; \<open>uuid.Nil\<close> is zero. ORDER BY compares them.
  Instants and durations are nanoseconds, as in Go's \<open>time\<close> package; \<open>unix\<close> is
  \<open>Time.Unix\<close>, which rounds down. Timestamps are stored exactly (Postgres keeps microseconds).
\<close>

datatype uuid = Uuid nat

definition uuid_nil :: uuid where "uuid_nil = Uuid 0"

instantiation uuid :: linorder
begin

fun less_eq_uuid :: "uuid \<Rightarrow> uuid \<Rightarrow> bool" where
  "less_eq_uuid (Uuid a) (Uuid b) = (a \<le> b)"

fun less_uuid :: "uuid \<Rightarrow> uuid \<Rightarrow> bool" where
  "less_uuid (Uuid a) (Uuid b) = (a < b)"

instance
proof
  fix x y z :: uuid
  show "(x < y) = (x \<le> y \<and> \<not> y \<le> x)" by (cases x; cases y) auto
  show "x \<le> x" by (cases x) simp
  show "x \<le> y \<Longrightarrow> y \<le> z \<Longrightarrow> x \<le> z" by (cases x; cases y; cases z) simp
  show "x \<le> y \<Longrightarrow> y \<le> x \<Longrightarrow> x = y" by (cases x; cases y) simp
  show "x \<le> y \<or> y \<le> x" by (cases x; cases y) auto
qed

end

type_synonym instant = int
type_synonym duration = int

definition second :: duration where "second = 1000000000"
definition minute :: duration where "minute = 60 * second"
definition hour :: duration where "hour = 60 * minute"

lemmas time_units = second_def minute_def hour_def

definition unix :: "instant \<Rightarrow> int" where "unix t = t div 1000000000"

lemma unix_mono: "a \<le> b \<Longrightarrow> unix a \<le> unix b"
  by (simp add: unix_def zdiv_mono1)

lemma unix_less: "a + second \<le> b \<Longrightarrow> unix a < unix b"
  by (simp add: unix_def second_def)

subsection \<open>Errors\<close>

text \<open>
  The error values of the services. \<open>NoRows\<close> is \<open>pgx.ErrNoRows\<close>; the violations are the errors
  Postgres raises for the constraints of the schema; the rest are the sentinel errors of the
  packages and \<open>ErrMsg\<close> any other error, with its text. A query that fails because the database
  cannot be reached is not modelled.
\<close>

datatype err =
    NoRows
  | UniqueViolation string
  | ForeignKeyViolation string
  | CheckViolation string
  | ErrInvalidCredentials
  | ErrUnauthorized
  | ErrForbidden
  | ErrUserExists
  | ErrAccountLocked
  | ErrInvalidKey
  | ErrDuplicateKey
  | ErrRepoNotFound
  | ErrWikiNotFound
  | ErrProtectionViolation string
  | ErrQueueStopped
  | ErrQueueFull
  | ErrMsg string

type_synonym 'a result = "err + 'a"

text \<open>The text of an error, as \<open>err.Error()\<close> gives it.\<close>

fun err_text :: "err \<Rightarrow> string" where
  "err_text NoRows = ''no rows in result set''"
| "err_text (UniqueViolation c) = ''ERROR: duplicate key value violates unique constraint '' @ c"
| "err_text (ForeignKeyViolation c) = ''ERROR: violates foreign key constraint '' @ c"
| "err_text (CheckViolation c) = ''ERROR: violates check constraint '' @ c"
| "err_text ErrInvalidCredentials = ''invalid credentials''"
| "err_text ErrUnauthorized = ''unauthorized''"
| "err_text ErrForbidden = ''forbidden''"
| "err_text ErrUserExists = ''user already exists''"
| "err_text ErrAccountLocked = ''account locked due to too many failed login attempts''"
| "err_text ErrInvalidKey = ''invalid public key''"
| "err_text ErrDuplicateKey = ''key already in use''"
| "err_text ErrRepoNotFound = ''repository not found''"
| "err_text ErrWikiNotFound = ''wiki page not found''"
| "err_text (ErrProtectionViolation t) = ''branch protection requirements not met: '' @ t"
| "err_text ErrQueueStopped = ''job queue stopped''"
| "err_text ErrQueueFull = ''job queue full''"
| "err_text (ErrMsg t) = t"

text \<open>
  The test \<open>strings.Contains(err.Error(), "duplicate")\<close> of the services: Postgres reports a
  unique violation as ``duplicate key value violates unique constraint'' and no other violation
  with that word.
\<close>

fun is_duplicate :: "err \<Rightarrow> bool" where
  "is_duplicate (UniqueViolation c) = True"
| "is_duplicate e = False"

fun is_ok :: "'a result \<Rightarrow> bool" where
  "is_ok (Inr x) = True"
| "is_ok (Inl e) = False"

lemma is_ok_iff: "is_ok r \<longleftrightarrow> (\<exists>x. r = Inr x)"
  by (cases r) auto

subsection \<open>Tables\<close>

definition rows_where :: "('r \<Rightarrow> bool) \<Rightarrow> 'r list \<Rightarrow> 'r list" where
  "rows_where P t = filter P t"

definition query_row :: "('r \<Rightarrow> bool) \<Rightarrow> 'r list \<Rightarrow> 'r option" where
  "query_row P t = List.find P t"

definition update_where :: "('r \<Rightarrow> bool) \<Rightarrow> ('r \<Rightarrow> 'r) \<Rightarrow> 'r list \<Rightarrow> 'r list" where
  "update_where P f t = map (\<lambda>r. if P r then f r else r) t"

definition delete_where :: "('r \<Rightarrow> bool) \<Rightarrow> 'r list \<Rightarrow> 'r list" where
  "delete_where P t = filter (\<lambda>r. \<not> P r) t"

definition rows_affected :: "('r \<Rightarrow> bool) \<Rightarrow> 'r list \<Rightarrow> nat" where
  "rows_affected P t = length (filter P t)"

definition insert_row :: "'r \<Rightarrow> 'r list \<Rightarrow> 'r list" where
  "insert_row r t = t @ [r]"

definition references :: "('r \<Rightarrow> 'k) \<Rightarrow> 'k \<Rightarrow> 'r list \<Rightarrow> bool" where
  "references f k t = list_ex (\<lambda>r. f r = k) t"

definition order_by :: "('r \<Rightarrow> 'k::linorder) \<Rightarrow> 'r list \<Rightarrow> 'r list" where
  "order_by f t = sort_key f t"

definition order_by_desc :: "('r \<Rightarrow> 'k::linorder) \<Rightarrow> 'r list \<Rightarrow> 'r list" where
  "order_by_desc f t = rev (sort_key f (rev t))"

text \<open>COALESCE(MAX(f), 0).\<close>

definition max_number :: "('r \<Rightarrow> int) \<Rightarrow> 'r list \<Rightarrow> int" where
  "max_number f t = (if t = [] then 0 else Max (f ` set t))"

text \<open>A Go list query that adds LIMIT and OFFSET only when they are positive.\<close>

definition page :: "int \<Rightarrow> int \<Rightarrow> 'r list \<Rightarrow> 'r list" where
  "page limit offset t =
     (let u = (if offset > 0 then drop (nat offset) t else t)
      in if limit > 0 then take (nat limit) u else u)"

definition key_free :: "('r \<Rightarrow> 'k) \<Rightarrow> 'k \<Rightarrow> 'r list \<Rightarrow> bool" where
  "key_free f k t = (\<not> references f k t)"

definition unique_on :: "('r \<Rightarrow> 'k) \<Rightarrow> 'r list \<Rightarrow> bool" where
  "unique_on f t = distinct (map f t)"

definition sql_exists :: "('r \<Rightarrow> bool) \<Rightarrow> 'r list \<Rightarrow> bool" where
  "sql_exists P t = list_ex P t"

text \<open>INSERT ... ON CONFLICT DO UPDATE and ON CONFLICT DO NOTHING, with the test for a conflict.\<close>

definition upsert_row :: "('r \<Rightarrow> bool) \<Rightarrow> ('r \<Rightarrow> 'r) \<Rightarrow> 'r \<Rightarrow> 'r list \<Rightarrow> 'r list" where
  "upsert_row P f r t = (if sql_exists P t then update_where P f t else insert_row r t)"

definition insert_new :: "('r \<Rightarrow> bool) \<Rightarrow> 'r \<Rightarrow> 'r list \<Rightarrow> 'r list" where
  "insert_new P r t = (if sql_exists P t then t else insert_row r t)"

definition coalesce :: "'a option \<Rightarrow> 'a \<Rightarrow> 'a" where
  "coalesce a x = (case a of None \<Rightarrow> x | Some y \<Rightarrow> y)"

definition or_else :: "'a option \<Rightarrow> 'a option \<Rightarrow> 'a option" where
  "or_else a b = (case a of None \<Rightarrow> b | Some y \<Rightarrow> Some y)"

lemma coalesce_simps [simp]: "coalesce None x = x" "coalesce (Some y) x = y"
  by (simp_all add: coalesce_def)

lemma or_else_simps [simp]: "or_else None b = b" "or_else (Some y) b = Some y"
  by (simp_all add: or_else_def)

lemma sql_exists_iff [sql]: "sql_exists P t \<longleftrightarrow> (\<exists>r\<in>set t. P r)"
  by (auto simp: sql_exists_def list_ex_iff)

text \<open>Joins: each row with every row of the other table that matches it.\<close>

definition join_on :: "('r \<Rightarrow> 's \<Rightarrow> bool) \<Rightarrow> 'r list \<Rightarrow> 's list \<Rightarrow> ('r \<times> 's) list" where
  "join_on P t u = concat (map (\<lambda>r. map (Pair r) (filter (P r) u)) t)"

lemma set_join_on [simp]: "set (join_on P t u) = {(r, s). r \<in> set t \<and> s \<in> set u \<and> P r s}"
  by (auto simp: join_on_def)

lemma references_iff [sql]: "references f k t \<longleftrightarrow> (\<exists>r\<in>set t. f r = k)"
  by (auto simp: references_def list_ex_iff)

lemma key_free_iff [sql]: "key_free f k t \<longleftrightarrow> k \<notin> f ` set t"
  by (auto simp: key_free_def references_iff)

lemma set_rows_where [simp]: "set (rows_where P t) = {r \<in> set t. P r}"
  by (simp add: rows_where_def)

lemma set_delete_where [simp]: "set (delete_where P t) = {r \<in> set t. \<not> P r}"
  by (simp add: delete_where_def)

lemma set_update_where [simp]: "set (update_where P f t) = (\<lambda>r. if P r then f r else r) ` set t"
  by (simp add: update_where_def)

lemma set_insert_row [simp]: "set (insert_row r t) = insert r (set t)"
  by (simp add: insert_row_def)

lemma set_order_by [simp]: "set (order_by f t) = set t"
  by (simp add: order_by_def)

lemma set_order_by_desc [simp]: "set (order_by_desc f t) = set t"
  by (simp add: order_by_desc_def)

lemma sorted_order_by: "sorted (map f (order_by f t))"
  by (simp add: order_by_def)

lemma sorted_order_by_desc: "sorted (rev (map f (order_by_desc f t)))"
  by (simp add: order_by_desc_def rev_map [symmetric])

lemma update_whereE:
  assumes "r \<in> set (update_where P f t)"
  obtains q where "q \<in> set t" and "r = (if P q then f q else q)"
  using assms by (simp only: set_update_where) (rule imageE)

lemma update_whereD: "r \<in> set (update_where P f t) \<Longrightarrow> \<exists>q\<in>set t. r = (if P q then f q else q)"
  by (auto elim!: update_whereE)

lemma length_update_where [simp]: "length (update_where P f t) = length t"
  by (simp add: update_where_def)

lemma map_update_where:
  assumes "\<And>r. P r \<Longrightarrow> g (f r) = g r"
  shows "map g (update_where P f t) = map g t"
  using assms by (simp add: update_where_def)

lemma query_row_Some: "query_row P t = Some r \<Longrightarrow> r \<in> set t \<and> P r"
  by (auto simp: query_row_def find_Some_iff in_set_conv_nth)

lemma query_row_None: "query_row P t = None \<longleftrightarrow> (\<forall>r\<in>set t. \<not> P r)"
  by (auto simp: query_row_def find_None_iff)

lemma query_row_cong: "(\<And>r. r \<in> set t \<Longrightarrow> P r = Q r) \<Longrightarrow> query_row P t = query_row Q t"
  unfolding query_row_def by (rule find_cong) auto

lemma query_row_Cons [simp]:
  "query_row P (r # t) = (if P r then Some r else query_row P t)"
  by (simp add: query_row_def)

lemma query_row_Nil [simp]: "query_row P [] = None"
  by (simp add: query_row_def)

lemma query_row_append:
  "query_row P (t @ u) = (case query_row P t of Some r \<Rightarrow> Some r | None \<Rightarrow> query_row P u)"
  by (induction t) auto

lemma query_row_insert:
  "query_row P (insert_row r t) =
     (case query_row P t of Some q \<Rightarrow> Some q | None \<Rightarrow> (if P r then Some r else None))"
  by (simp add: insert_row_def query_row_append split: option.split)

text \<open>A row found by a unique key is the row.\<close>

lemma query_row_unique:
  assumes "unique_on f t" and "r \<in> set t" and "f r = k"
  shows "query_row (\<lambda>q. f q = k) t = Some r"
  using assms by (induction t) (auto simp: unique_on_def)

lemma query_row_ex: "r \<in> set t \<Longrightarrow> P r \<Longrightarrow> \<exists>q. query_row P t = Some q \<and> q \<in> set t \<and> P q"
  by (induction t) auto

lemma query_row_the:
  "r \<in> set t \<Longrightarrow> P r \<Longrightarrow> (\<And>q. q \<in> set t \<Longrightarrow> P q \<Longrightarrow> q = r) \<Longrightarrow> query_row P t = Some r"
  using query_row_ex [of r t P] by metis

lemma query_row_none: "(\<And>q. q \<in> set t \<Longrightarrow> \<not> P q) \<Longrightarrow> query_row P t = None"
  by (simp add: query_row_None)

lemma rows_where_unique:
  "unique_on f t \<Longrightarrow> r \<in> set t \<Longrightarrow> f r = k \<Longrightarrow> rows_where (\<lambda>q. f q = k) t = [r]"
proof (induction t)
  case (Cons x xs)
  show ?case
  proof (cases "f x = k")
    case True
    have free: "k \<notin> f ` set xs" using Cons.prems(1) True by (simp add: unique_on_def)
    then have "r \<notin> set xs" using Cons.prems(3) by blast
    then have "x = r" using Cons.prems(2) by simp
    have "filter (\<lambda>q. f q = k) xs = []" using free by (simp add: filter_empty_conv) blast
    then show ?thesis using True \<open>x = r\<close> by (simp add: rows_where_def)
  next
    case False
    then have "r \<in> set xs" using Cons.prems by auto
    then show ?thesis using Cons False by (simp add: unique_on_def rows_where_def)
  qed
qed simp

lemma query_row_update:
  assumes "\<And>r. Q r \<Longrightarrow> P (f r) = P r"
  shows "query_row P (update_where Q f t) =
           map_option (\<lambda>r. if Q r then f r else r) (query_row P t)"
  using assms by (induction t) (auto simp: update_where_def)

lemma unique_on_insert:
  "unique_on f t \<Longrightarrow> key_free f (f r) t \<Longrightarrow> unique_on f (insert_row r t)"
  by (auto simp: unique_on_def insert_row_def key_free_iff)

lemma unique_on_update:
  "unique_on g t \<Longrightarrow> (\<And>r. P r \<Longrightarrow> g (f r) = g r) \<Longrightarrow> unique_on g (update_where P f t)"
  by (simp add: unique_on_def map_update_where)

lemma unique_on_delete: "unique_on f t \<Longrightarrow> unique_on f (delete_where P t)"
  by (simp add: unique_on_def delete_where_def distinct_map_filter)

lemma unique_on_inj: "unique_on f t \<Longrightarrow> r \<in> set t \<Longrightarrow> q \<in> set t \<Longrightarrow> f r = f q \<Longrightarrow> r = q"
  by (auto simp: unique_on_def distinct_map dest: inj_onD)

lemma rows_affected_0 [sql]: "rows_affected P t = 0 \<longleftrightarrow> (\<forall>r\<in>set t. \<not> P r)"
  by (auto simp: rows_affected_def filter_empty_conv)

lemma max_number_ge: "r \<in> set t \<Longrightarrow> f r \<le> max_number f t"
  by (auto simp: max_number_def)

lemma max_number_upto: "map f t = map int [1..<Suc n] \<Longrightarrow> max_number f t = int n"
proof (cases n)
  case 0
  assume "map f t = map int [1..<Suc n]"
  then show ?thesis using 0 by (simp add: max_number_def)
next
  case (Suc m)
  assume eq: "map f t = map int [1..<Suc n]"
  then have "f ` set t = int ` {1..<Suc n}" by (metis set_map set_upt)
  moreover have "t \<noteq> []" using eq Suc by auto
  moreover have "Max (int ` {1..<Suc n}) = int n"
    by (rule Max_eqI) (auto simp: Suc image_iff intro!: bexI [of _ "Suc m"])
  ultimately show ?thesis by (simp add: max_number_def)
qed

lemma max_number_fresh: "max_number f t + 1 \<notin> f ` set t"
proof
  assume "max_number f t + 1 \<in> f ` set t"
  then obtain r where "r \<in> set t" and "f r = max_number f t + 1" by auto
  with max_number_ge [of r t f] show False by simp
qed

lemma set_page: "set (page l k t) \<subseteq> set t"
  by (auto simp: page_def Let_def dest: in_set_takeD in_set_dropD split: if_splits)

lemma page_all [simp]: "page 0 0 t = t"
  by (simp add: page_def)

lemma length_page: "l > 0 \<Longrightarrow> length (page l k t) \<le> nat l"
  by (simp add: page_def Let_def)

end
