(* ===== verification/Schema.thy ===== *)
theory Schema
  imports Prelude
begin

section \<open>The database (internal/db/migrations)\<close>

text \<open>
  One record per table row, one field of \<open>db\<close> per table, and the operations of the schema itself:
  the cascades of ON DELETE and the checks of the foreign keys without one. Columns no statement
  of the code reads (surrogate keys of link tables, \<open>users.updated_at\<close>,
  \<open>branches.is_protected\<close>, \<open>pull_requests.mergeable\<close>, \<open>webhooks.created_at\<close>,
  \<open>repo_stars.created_at\<close>) are left out. Nullable columns are options.
\<close>

subsection \<open>Rows\<close>

record user_row =
  u_id :: uuid
  u_name :: string
  u_email :: string
  u_hash :: string
  u_avatar :: "string option"
  u_created :: instant
  u_role :: string
  u_fails :: int
  u_locked :: "instant option"
  u_pwd_changed :: instant

record pat_row =
  t_id :: uuid
  t_user :: uuid
  t_name :: string
  t_hash :: string
  t_scopes :: "string list"
  t_expires :: "instant option"
  t_created :: instant

record key_row =
  k_id :: uuid
  k_user :: uuid
  k_title :: string
  k_public :: string
  k_fingerprint :: string
  k_created :: instant

record org_row =
  o_id :: uuid
  o_name :: string
  o_display :: "string option"
  o_desc :: "string option"
  o_created :: instant

record member_row =
  om_org :: uuid
  om_user :: uuid
  om_role :: string

record team_row =
  tm_id :: uuid
  tm_org :: uuid
  tm_name :: string
  tm_desc :: "string option"

record repo_row =
  r_id :: uuid
  r_owner_type :: string
  r_owner :: uuid
  r_name :: string
  r_desc :: "string option"
  r_branch :: string
  r_private :: bool
  r_is_fork :: bool
  r_parent :: "uuid option"
  r_stars :: int
  r_created :: instant
  r_updated :: instant

record collab_row =
  cb_repo :: uuid
  cb_user :: uuid
  cb_perm :: string

record branch_row =
  b_repo :: uuid
  b_name :: string
  b_sha :: string

record protect_row =
  pb_repo :: uuid
  pb_branch :: string
  pb_checks :: "string list"
  pb_reviews :: int

record issue_row =
  i_id :: uuid
  i_repo :: uuid
  i_number :: int
  i_title :: string
  i_body :: "string option"
  i_state :: string
  i_author :: uuid
  i_assignee :: "uuid option"
  i_milestone :: "uuid option"
  i_created :: instant
  i_updated :: instant
  i_closed :: "instant option"

record comment_row =
  ic_id :: uuid
  ic_issue :: uuid
  ic_author :: uuid
  ic_body :: string
  ic_created :: instant

record label_row =
  l_id :: uuid
  l_repo :: uuid
  l_name :: string
  l_color :: string

record milestone_row =
  ms_id :: uuid
  ms_repo :: uuid
  ms_title :: string
  ms_desc :: "string option"
  ms_state :: string
  ms_due :: "instant option"
  ms_created :: instant

record issue_event_row =
  ie_id :: uuid
  ie_issue :: uuid
  ie_actor :: "uuid option"
  ie_type :: string
  ie_meta :: "string option"
  ie_created :: instant

record reaction_row =
  rx_id :: uuid
  rx_issue :: uuid
  rx_comment :: "uuid option"
  rx_user :: uuid
  rx_content :: string
  rx_created :: instant

record pull_row =
  pr_id :: uuid
  pr_repo :: uuid
  pr_number :: int
  pr_title :: string
  pr_body :: "string option"
  pr_state :: string
  pr_author :: uuid
  pr_head :: string
  pr_base :: string
  pr_head_sha :: string
  pr_merged :: "instant option"
  pr_merge_sha :: "string option"
  pr_created :: instant
  pr_updated :: instant

record review_row =
  rv_id :: uuid
  rv_pr :: uuid
  rv_reviewer :: uuid
  rv_state :: string
  rv_body :: "string option"
  rv_created :: instant

record pr_comment_row =
  pc_id :: uuid
  pc_pr :: uuid
  pc_author :: uuid
  pc_body :: string
  pc_path :: "string option"
  pc_line :: "int option"
  pc_created :: instant

record ai_review_row =
  ai_id :: uuid
  ai_pr :: uuid
  ai_model :: string
  ai_body :: string
  ai_created :: instant

record workflow_row =
  wf_id :: uuid
  wf_repo :: uuid
  wf_name :: string
  wf_path :: string
  wf_content :: string
  wf_active :: bool

record run_row =
  wr_id :: uuid
  wr_repo :: uuid
  wr_workflow :: uuid
  wr_number :: int
  wr_event :: string
  wr_sha :: string
  wr_branch :: string
  wr_status :: string
  wr_conclusion :: "string option"
  wr_created :: instant
  wr_started :: "instant option"
  wr_completed :: "instant option"

record job_row =
  wj_run :: uuid
  wj_job :: string
  wj_status :: string
  wj_conclusion :: "string option"
  wj_k8s :: "string option"
  wj_log :: "string option"
  wj_started :: "instant option"
  wj_completed :: "instant option"

record release_row =
  rl_id :: uuid
  rl_repo :: uuid
  rl_tag :: string
  rl_name :: "string option"
  rl_body :: "string option"
  rl_author :: uuid
  rl_draft :: bool
  rl_prerelease :: bool
  rl_created :: instant

record asset_row =
  as_id :: uuid
  as_release :: uuid
  as_name :: string
  as_ctype :: string
  as_size :: int
  as_path :: string

record package_row =
  pk_id :: uuid
  pk_repo :: uuid
  pk_name :: string
  pk_type :: string
  pk_version :: string
  pk_path :: string
  pk_created :: instant

record hook_row =
  h_id :: uuid
  h_repo :: uuid
  h_url :: string
  h_secret :: string
  h_events :: "string list"
  h_active :: bool

record delivery_row =
  d_id :: uuid
  d_hook :: uuid
  d_event :: string
  d_payload :: string
  d_status :: int
  d_at :: instant

record notification_row =
  n_id :: uuid
  n_user :: uuid
  n_title :: string
  n_body :: "string option"
  n_link :: "string option"
  n_read :: bool
  n_created :: instant

record wiki_row =
  wk_id :: uuid
  wk_repo :: uuid
  wk_slug :: string
  wk_title :: string
  wk_content :: string
  wk_author :: uuid
  wk_created :: instant
  wk_updated :: instant

record audit_row =
  au_id :: uuid
  au_actor :: "uuid option"
  au_action :: string
  au_rtype :: string
  au_rid :: string
  au_meta :: "string option"
  au_created :: instant

record event_row =
  ev_id :: uuid
  ev_type :: string
  ev_actor :: "uuid option"
  ev_repo :: "uuid option"
  ev_full_name :: "string option"
  ev_payload :: "string option"
  ev_created :: instant

record secret_row =
  sc_id :: uuid
  sc_repo :: uuid
  sc_name :: string
  sc_value :: string
  sc_created :: instant
  sc_updated :: instant

subsection \<open>The tables\<close>

record db =
  users :: "user_row list"
  pats :: "pat_row list"
  ssh_keys :: "key_row list"
  gpg_keys :: "key_row list"
  orgs :: "org_row list"
  members :: "member_row list"
  teams :: "team_row list"
  team_members :: "(uuid \<times> uuid) list"
  repos :: "repo_row list"
  collabs :: "collab_row list"
  watchers :: "(uuid \<times> uuid) list"
  stars :: "(uuid \<times> uuid) list"
  branches :: "branch_row list"
  protected :: "protect_row list"
  issues :: "issue_row list"
  comments :: "comment_row list"
  labels :: "label_row list"
  issue_labels :: "(uuid \<times> uuid) list"
  milestones :: "milestone_row list"
  assignees :: "(uuid \<times> uuid) list"
  issue_events :: "issue_event_row list"
  reactions :: "reaction_row list"
  pulls :: "pull_row list"
  reviews :: "review_row list"
  pr_comments :: "pr_comment_row list"
  ai_reviews :: "ai_review_row list"
  workflows :: "workflow_row list"
  runs :: "run_row list"
  jobs :: "job_row list"
  releases :: "release_row list"
  assets :: "asset_row list"
  packages :: "package_row list"
  hooks :: "hook_row list"
  deliveries :: "delivery_row list"
  notifications :: "notification_row list"
  wiki :: "wiki_row list"
  audits :: "audit_row list"
  events :: "event_row list"
  secrets :: "secret_row list"

definition empty_db :: db where
  "empty_db = \<lparr>users = [], pats = [], ssh_keys = [], gpg_keys = [], orgs = [], members = [],
     teams = [], team_members = [], repos = [], collabs = [], watchers = [], stars = [],
     branches = [], protected = [], issues = [], comments = [], labels = [], issue_labels = [],
     milestones = [], assignees = [], issue_events = [], reactions = [], pulls = [], reviews = [],
     pr_comments = [], ai_reviews = [], workflows = [], runs = [], jobs = [], releases = [],
     assets = [], packages = [], hooks = [], deliveries = [], notifications = [], wiki = [],
     audits = [], events = [], secrets = []\<rparr>"

subsection \<open>Deleting a user or a repository\<close>

text \<open>
  The foreign keys on \<open>users(id)\<close> without an ON DELETE clause: while one of these rows names
  the user, the DELETE fails. The others cascade.
\<close>

definition user_referenced :: "uuid \<Rightarrow> db \<Rightarrow> bool" where
  "user_referenced uid d =
     (references i_author uid (issues d) \<or> references i_assignee (Some uid) (issues d)
      \<or> references ic_author uid (comments d) \<or> references ie_actor (Some uid) (issue_events d)
      \<or> references pr_author uid (pulls d) \<or> references rv_reviewer uid (reviews d)
      \<or> references pc_author uid (pr_comments d) \<or> references rl_author uid (releases d)
      \<or> references wk_author uid (wiki d) \<or> references au_actor (Some uid) (audits d)
      \<or> references ev_actor (Some uid) (events d))"

definition cascade_user :: "uuid \<Rightarrow> db \<Rightarrow> db" where
  "cascade_user uid d =
     d\<lparr>users := delete_where (\<lambda>r. u_id r = uid) (users d),
       pats := delete_where (\<lambda>r. t_user r = uid) (pats d),
       ssh_keys := delete_where (\<lambda>r. k_user r = uid) (ssh_keys d),
       gpg_keys := delete_where (\<lambda>r. k_user r = uid) (gpg_keys d),
       members := delete_where (\<lambda>r. om_user r = uid) (members d),
       team_members := delete_where (\<lambda>r. snd r = uid) (team_members d),
       collabs := delete_where (\<lambda>r. cb_user r = uid) (collabs d),
       watchers := delete_where (\<lambda>r. snd r = uid) (watchers d),
       stars := delete_where (\<lambda>r. snd r = uid) (stars d),
       assignees := delete_where (\<lambda>r. snd r = uid) (assignees d),
       reactions := delete_where (\<lambda>r. rx_user r = uid) (reactions d),
       notifications := delete_where (\<lambda>r. n_user r = uid) (notifications d)\<rparr>"

definition delete_user_row :: "uuid \<Rightarrow> db \<Rightarrow> nat result \<times> db" where
  "delete_user_row uid d =
     (if key_free u_id uid (users d) then (Inr 0, d)
      else if user_referenced uid d then (Inl (ForeignKeyViolation ''users''), d)
      else (Inr (rows_affected (\<lambda>r. u_id r = uid) (users d)), cascade_user uid d))"

text \<open>
  A repository row is pinned by its forks (\<open>repos.fork_parent_id\<close>) and by public events
  (\<open>events.repo_id\<close>); everything it contains goes with it. A milestone that goes is set to NULL
  in the issues that name it.
\<close>

definition repo_referenced :: "uuid \<Rightarrow> db \<Rightarrow> bool" where
  "repo_referenced rid d =
     (references r_parent (Some rid) (delete_where (\<lambda>r. r_id r = rid) (repos d))
      \<or> references ev_repo (Some rid) (events d))"

definition ids_of :: "('r \<Rightarrow> uuid) \<Rightarrow> ('r \<Rightarrow> uuid) \<Rightarrow> uuid \<Rightarrow> 'r list \<Rightarrow> uuid list" where
  "ids_of rid owner x t = map rid (rows_where (\<lambda>r. owner r = x) t)"

definition cascade_repo :: "uuid \<Rightarrow> db \<Rightarrow> db" where
  "cascade_repo rid d =
     (let iids = ids_of i_id i_repo rid (issues d);
          lids = ids_of l_id l_repo rid (labels d);
          mids = ids_of ms_id ms_repo rid (milestones d);
          pids = ids_of pr_id pr_repo rid (pulls d);
          wids = ids_of wf_id wf_repo rid (workflows d);
          rids = ids_of rl_id rl_repo rid (releases d);
          hids = ids_of h_id h_repo rid (hooks d);
          gone_run = (\<lambda>w. wr_repo w = rid \<or> wr_workflow w \<in> set wids);
          run_ids = map wr_id (rows_where gone_run (runs d));
          gone_comment = (\<lambda>c. ic_issue c \<in> set iids);
          comment_ids = map ic_id (rows_where gone_comment (comments d))
      in d\<lparr>repos := delete_where (\<lambda>r. r_id r = rid) (repos d),
           collabs := delete_where (\<lambda>r. cb_repo r = rid) (collabs d),
           watchers := delete_where (\<lambda>r. fst r = rid) (watchers d),
           stars := delete_where (\<lambda>r. fst r = rid) (stars d),
           branches := delete_where (\<lambda>r. b_repo r = rid) (branches d),
           protected := delete_where (\<lambda>r. pb_repo r = rid) (protected d),
           issues := update_where (\<lambda>r. \<exists>m\<in>set mids. i_milestone r = Some m) (\<lambda>r. r\<lparr>i_milestone := None\<rparr>)
                       (delete_where (\<lambda>r. i_repo r = rid) (issues d)),
           comments := delete_where gone_comment (comments d),
           labels := delete_where (\<lambda>r. l_repo r = rid) (labels d),
           issue_labels := delete_where (\<lambda>r. fst r \<in> set iids \<or> snd r \<in> set lids) (issue_labels d),
           milestones := delete_where (\<lambda>r. ms_repo r = rid) (milestones d),
           assignees := delete_where (\<lambda>r. fst r \<in> set iids) (assignees d),
           issue_events := delete_where (\<lambda>r. ie_issue r \<in> set iids) (issue_events d),
           reactions := delete_where (\<lambda>r. rx_issue r \<in> set iids \<or> (\<exists>c\<in>set comment_ids. rx_comment r = Some c))
                          (reactions d),
           pulls := delete_where (\<lambda>r. pr_repo r = rid) (pulls d),
           reviews := delete_where (\<lambda>r. rv_pr r \<in> set pids) (reviews d),
           pr_comments := delete_where (\<lambda>r. pc_pr r \<in> set pids) (pr_comments d),
           ai_reviews := delete_where (\<lambda>r. ai_pr r \<in> set pids) (ai_reviews d),
           workflows := delete_where (\<lambda>r. wf_repo r = rid) (workflows d),
           runs := delete_where gone_run (runs d),
           jobs := delete_where (\<lambda>r. wj_run r \<in> set run_ids) (jobs d),
           releases := delete_where (\<lambda>r. rl_repo r = rid) (releases d),
           assets := delete_where (\<lambda>r. as_release r \<in> set rids) (assets d),
           packages := delete_where (\<lambda>r. pk_repo r = rid) (packages d),
           hooks := delete_where (\<lambda>r. h_repo r = rid) (hooks d),
           deliveries := delete_where (\<lambda>r. d_hook r \<in> set hids) (deliveries d),
           wiki := delete_where (\<lambda>r. wk_repo r = rid) (wiki d),
           secrets := delete_where (\<lambda>r. sc_repo r = rid) (secrets d)\<rparr>)"

definition delete_repo_row :: "uuid \<Rightarrow> db \<Rightarrow> nat result \<times> db" where
  "delete_repo_row rid d =
     (if key_free r_id rid (repos d) then (Inr 0, d)
      else if repo_referenced rid d then (Inl (ForeignKeyViolation ''repos''), d)
      else (Inr (rows_affected (\<lambda>r. r_id r = rid) (repos d)), cascade_repo rid d))"

definition user_exists :: "uuid \<Rightarrow> db \<Rightarrow> bool" where
  "user_exists uid d = references u_id uid (users d)"

definition repo_exists :: "uuid \<Rightarrow> db \<Rightarrow> bool" where
  "repo_exists rid d = references r_id rid (repos d)"

subsection \<open>A table of the database with a key\<close>

text \<open>
  The contract every service relies on when it reads and writes one table through one of its
  keys: a table is a field of the database with its update function, and what is written is
  what is read. The facts are proved once and instantiated for each table and key below.
\<close>

locale keyed_table =
  fixes rows :: "'d \<Rightarrow> 'r list"
    and upd :: "('r list \<Rightarrow> 'r list) \<Rightarrow> 'd \<Rightarrow> 'd"
    and key :: "'r \<Rightarrow> 'k"
  assumes rows_upd: "rows (upd f d) = f (rows d)"
begin

lemma insert_unique:
  "unique_on key (rows d) \<Longrightarrow> key_free key (key r) (rows d) \<Longrightarrow>
     unique_on key (rows (upd (insert_row r) d))"
  by (simp add: rows_upd unique_on_insert)

lemma insert_lookup:
  assumes "key_free key (key r) (rows d)"
  shows "query_row (\<lambda>q. key q = key r) (rows (upd (insert_row r) d)) = Some r"
proof -
  have "\<forall>q\<in>set (rows d). key q \<noteq> key r" using assms by (metis imageI key_free_iff)
  then have "query_row (\<lambda>q. key q = key r) (rows d) = None" by (simp add: query_row_None)
  then show ?thesis by (simp add: rows_upd query_row_insert)
qed

lemma insert_lookup_other:
  "key r \<noteq> k \<Longrightarrow>
     query_row (\<lambda>q. key q = k) (rows (upd (insert_row r) d)) = query_row (\<lambda>q. key q = k) (rows d)"
  by (simp add: rows_upd query_row_insert split: option.split)

lemma delete_lookup:
  "query_row (\<lambda>q. key q = k) (rows (upd (delete_where (\<lambda>q. key q = k)) d)) = None"
  by (simp add: rows_upd query_row_None)

lemma delete_unique: "unique_on key (rows d) \<Longrightarrow> unique_on key (rows (upd (delete_where P) d))"
  by (simp add: rows_upd unique_on_delete)

lemma update_unique:
  "unique_on key (rows d) \<Longrightarrow> (\<And>r. P r \<Longrightarrow> key (f r) = key r) \<Longrightarrow>
     unique_on key (rows (upd (update_where P f) d))"
  by (simp add: rows_upd unique_on_update)

lemma update_lookup:
  "(\<And>r. key r = k \<Longrightarrow> key (f r) = k) \<Longrightarrow>
     query_row (\<lambda>q. key q = k) (rows (upd (update_where (\<lambda>q. key q = k) f) d)) =
       map_option f (query_row (\<lambda>q. key q = k) (rows d))"
  by (auto simp: rows_upd query_row_update option.map_comp o_def
        intro!: option.map_cong dest: query_row_Some)

lemma lookup_iff:
  "unique_on key (rows d) \<Longrightarrow>
     query_row (\<lambda>q. key q = k) (rows d) = Some r \<longleftrightarrow> r \<in> set (rows d) \<and> key r = k"
  using query_row_Some query_row_unique by fastforce

end

interpretation users_by_id: keyed_table users users_update u_id
  by unfold_locales simp

interpretation users_by_name: keyed_table users users_update u_name
  by unfold_locales simp

interpretation users_by_email: keyed_table users users_update u_email
  by unfold_locales simp

interpretation pats_by_hash: keyed_table pats pats_update t_hash
  by unfold_locales simp

interpretation repos_by_id: keyed_table repos repos_update r_id
  by unfold_locales simp

interpretation branches_by_name: keyed_table branches branches_update "\<lambda>b. (b_repo b, b_name b)"
  by unfold_locales simp

interpretation collabs_by_user: keyed_table collabs collabs_update "\<lambda>c. (cb_repo c, cb_user c)"
  by unfold_locales simp

interpretation issues_by_number: keyed_table issues issues_update "\<lambda>i. (i_repo i, i_number i)"
  by unfold_locales simp

interpretation pulls_by_number: keyed_table pulls pulls_update "\<lambda>p. (pr_repo p, pr_number p)"
  by unfold_locales simp

interpretation wiki_by_slug: keyed_table wiki wiki_update "\<lambda>w. (wk_repo w, wk_slug w)"
  by unfold_locales simp

interpretation jobs_by_name: keyed_table jobs jobs_update "\<lambda>j. (wj_run j, wj_job j)"
  by unfold_locales simp

end
