(* ===== verification/Cache.thy ===== *)
theory Cache
  imports Prelude
begin

section \<open>The TTL cache (internal/cache/cache.go)\<close>

text \<open>
  The in-memory cache in front of user and repository lookups. The mutex makes every operation
  atomic, so each is a function of the cache; \<open>Get\<close> also returns the cache, since it deletes an
  expired entry. The clock is an argument. The locale states the contract the lookups of the
  services rely on, and is interpreted on the model at the end.
\<close>

record 'v cache_entry =
  ce_value :: 'v
  ce_expires :: instant

record 'v cache =
  c_entries :: "string \<rightharpoonup> 'v cache_entry"
  c_ttl :: duration
  c_stopped :: bool

definition cache_new :: "duration \<Rightarrow> 'v cache" where
  "cache_new ttl = \<lparr>c_entries = Map.empty, c_ttl = ttl, c_stopped = False\<rparr>"

definition cache_delete :: "string \<Rightarrow> 'v cache \<Rightarrow> 'v cache" where
  "cache_delete k c = c\<lparr>c_entries := (c_entries c)(k := None)\<rparr>"

definition cache_get :: "instant \<Rightarrow> string \<Rightarrow> 'v cache \<Rightarrow> 'v option \<times> 'v cache" where
  "cache_get now k c =
     (case c_entries c k of
        None \<Rightarrow> (None, c)
      | Some e \<Rightarrow> if now > ce_expires e then (None, cache_delete k c) else (Some (ce_value e), c))"

definition cache_set :: "instant \<Rightarrow> string \<Rightarrow> 'v \<Rightarrow> 'v cache \<Rightarrow> 'v cache" where
  "cache_set now k v c =
     c\<lparr>c_entries := (c_entries c)(k \<mapsto> \<lparr>ce_value = v, ce_expires = now + c_ttl c\<rparr>)\<rparr>"

definition cache_clear :: "'v cache \<Rightarrow> 'v cache" where
  "cache_clear c = c\<lparr>c_entries := Map.empty\<rparr>"

definition cache_stop :: "'v cache \<Rightarrow> 'v cache" where
  "cache_stop c = c\<lparr>c_stopped := True\<rparr>"

definition cache_evict_expired :: "instant \<Rightarrow> 'v cache \<Rightarrow> 'v cache" where
  "cache_evict_expired now c =
     c\<lparr>c_entries := (\<lambda>k. case c_entries c k of
                        None \<Rightarrow> None
                      | Some e \<Rightarrow> if now > ce_expires e then None else Some e)\<rparr>"

text \<open>One turn of the eviction goroutine: it evicts on a tick until the cache is stopped.\<close>

definition cache_tick :: "instant \<Rightarrow> 'v cache \<Rightarrow> 'v cache" where
  "cache_tick now c = (if c_stopped c then c else cache_evict_expired now c)"

text \<open>
  The abstract content: what a lookup at a given time would return. It is a partial map that
  only shrinks as time passes.
\<close>

definition cache_view :: "instant \<Rightarrow> 'v cache \<Rightarrow> string \<rightharpoonup> 'v" where
  "cache_view now c k =
     (case c_entries c k of
        None \<Rightarrow> None
      | Some e \<Rightarrow> if now > ce_expires e then None else Some (ce_value e))"

subsection \<open>The contract of a lookup cache\<close>

locale lookup_cache =
  fixes get :: "instant \<Rightarrow> string \<Rightarrow> 'c \<Rightarrow> 'v option \<times> 'c"
    and set :: "instant \<Rightarrow> string \<Rightarrow> 'v \<Rightarrow> 'c \<Rightarrow> 'c"
    and delete :: "string \<Rightarrow> 'c \<Rightarrow> 'c"
    and clear :: "'c \<Rightarrow> 'c"
    and view :: "instant \<Rightarrow> 'c \<Rightarrow> string \<rightharpoonup> 'v"
    and ttl :: "'c \<Rightarrow> duration"
  assumes get_value: "fst (get now k c) = view now c k"
    and get_view: "now \<le> t \<Longrightarrow> view t (snd (get now k c)) = view t c"
    and get_ttl: "ttl (snd (get now k c)) = ttl c"
    and set_view: "view t (set now k v c) =
          (view t c)(k := if t \<le> now + ttl c then Some v else None)"
    and set_ttl: "ttl (set now k v c) = ttl c"
    and delete_view: "view t (delete k c) = (view t c)(k := None)"
    and delete_ttl: "ttl (delete k c) = ttl c"
    and clear_view: "view t (clear c) = Map.empty"
    and clear_ttl: "ttl (clear c) = ttl c"
    and view_antimono: "t \<le> u \<Longrightarrow> view u c k = Some v \<Longrightarrow> view t c k = Some v"
begin

text \<open>A read-through lookup returns the cached value or, on a miss, the fetched one.\<close>

lemma get_hit: "view now c k = Some v \<Longrightarrow> \<exists>c'. get now k c = (Some v, c') \<and> (\<forall>t\<ge>now. view t c' = view t c)"
  using get_value [of now k c] get_view [of now _ k c] by (cases "get now k c") auto

lemma get_miss: "view now c k = None \<Longrightarrow> \<exists>c'. get now k c = (None, c') \<and> (\<forall>t\<ge>now. view t c' = view t c)"
  using get_value [of now k c] get_view [of now _ k c] by (cases "get now k c") auto

text \<open>A value that was set is served to the end of its time to live, and not after it.\<close>

lemma set_then_get: "t \<le> now + ttl c \<Longrightarrow> fst (get t k (set now k v c)) = Some v"
  by (simp add: get_value set_view)

lemma expired_get: "now + ttl c < t \<Longrightarrow> fst (get t k (set now k v c)) = None"
  by (simp add: get_value set_view)

lemma deleted_get: "fst (get t k (delete k c)) = None"
  by (simp add: get_value delete_view)

lemma cleared_get: "fst (get t k (clear c)) = None"
  by (simp add: get_value clear_view)

text \<open>
  Coherence with the source of truth: when every value in the cache is the value the source
  has, this stays so after a lookup, after caching what the source says, after deleting an entry
  and, for another source that agrees everywhere but at one key, after deleting that key.
\<close>

lemma coherent_get:
  "now \<le> t \<Longrightarrow> \<forall>k v. view t c k = Some v \<longrightarrow> src k = Some v \<Longrightarrow>
     \<forall>j v. view t (snd (get now k c)) j = Some v \<longrightarrow> src j = Some v"
  by (simp add: get_view)

lemma coherent_set:
  "\<forall>k v. view t c k = Some v \<longrightarrow> src k = Some v \<Longrightarrow> src k = Some x \<Longrightarrow>
     \<forall>j v. view t (set now k x c) j = Some v \<longrightarrow> src j = Some v"
  by (simp add: set_view)

lemma coherent_delete:
  "\<forall>k v. view t c k = Some v \<longrightarrow> src k = Some v \<Longrightarrow> \<forall>j. j \<noteq> k \<longrightarrow> src' j = src j \<Longrightarrow>
     \<forall>j v. view t (delete k c) j = Some v \<longrightarrow> src' j = Some v"
  by (simp add: delete_view)

lemma coherent_clear: "\<forall>j v. view t (clear c) j = Some v \<longrightarrow> src j = Some v"
  by (simp add: clear_view)

end

subsection \<open>The model meets the contract\<close>

lemma cache_view_evict: "now \<le> t \<Longrightarrow> cache_view t (cache_evict_expired now c) = cache_view t c"
  by (rule ext) (auto simp: cache_view_def cache_evict_expired_def split: option.split)

lemma cache_view_tick: "now \<le> t \<Longrightarrow> cache_view t (cache_tick now c) = cache_view t c"
  by (simp add: cache_tick_def cache_view_evict)

interpretation ttl_cache: lookup_cache cache_get cache_set cache_delete cache_clear cache_view c_ttl
proof (unfold_locales, goal_cases)
  case (2 now t k c)
  then show ?case
    by (intro ext) (auto simp: cache_get_def cache_view_def cache_delete_def split: option.split)
qed (auto simp: cache_get_def cache_view_def cache_set_def cache_delete_def cache_clear_def
       fun_eq_iff split: option.splits if_splits)

lemma cache_new_view [simp]: "cache_view t (cache_new ttl) = Map.empty"
  by (simp add: cache_new_def cache_view_def fun_eq_iff)

lemmas cache_defs = cache_get_def cache_set_def cache_delete_def cache_clear_def

text \<open>
  Expired entries leave the store, and only they: after an eviction at a time, exactly the
  entries whose expiry has not passed are stored.
\<close>

lemma evict_expired_dom:
  "dom (c_entries (cache_evict_expired now c)) = {k. \<exists>e. c_entries c k = Some e \<and> now \<le> ce_expires e}"
  by (force simp: cache_evict_expired_def dom_def split: option.splits if_splits)

end
