(* ===== verification/GoStrings.thy ===== *)
theory GoStrings
  imports Prelude
begin

section \<open>Strings: what the code uses of \<open>strings\<close>, \<open>strconv\<close> and \<open>fmt\<close>\<close>

text \<open>
  A Go string is a list of bytes. White space and letter case are those of ASCII: the bytes
  of a multi-byte UTF-8 character are neither.
\<close>

definition trim_prefix :: "string \<Rightarrow> string \<Rightarrow> string" where
  "trim_prefix p s = (if prefix p s then drop (length p) s else s)"

definition trim_suffix :: "string \<Rightarrow> string \<Rightarrow> string" where
  "trim_suffix p s = (if suffix p s then take (length s - length p) s else s)"

definition trim_left :: "(char \<Rightarrow> bool) \<Rightarrow> string \<Rightarrow> string" where
  "trim_left P s = dropWhile P s"

definition trim_right :: "(char \<Rightarrow> bool) \<Rightarrow> string \<Rightarrow> string" where
  "trim_right P s = rev (dropWhile P (rev s))"

definition trim :: "(char \<Rightarrow> bool) \<Rightarrow> string \<Rightarrow> string" where
  "trim P s = trim_right P (trim_left P s)"

definition is_space :: "char \<Rightarrow> bool" where
  "is_space c = (c \<in> {CHR 0x09, CHR 0x0A, CHR 0x0B, CHR 0x0C, CHR 0x0D, CHR '' ''})"

definition trim_space :: "string \<Rightarrow> string" where
  "trim_space s = trim is_space s"

fun split_pred :: "(char \<Rightarrow> bool) \<Rightarrow> string \<Rightarrow> string list" where
  "split_pred P [] = [[]]"
| "split_pred P (x # xs) =
     (if P x then [] # split_pred P xs
      else (case split_pred P xs of [] \<Rightarrow> [[x]] | w # ws \<Rightarrow> (x # w) # ws))"

definition split_char :: "char \<Rightarrow> string \<Rightarrow> string list" where
  "split_char c s = split_pred (\<lambda>x. x = c) s"

definition str_fields :: "string \<Rightarrow> string list" where
  "str_fields s = filter (\<lambda>w. w \<noteq> []) (split_pred is_space s)"

fun cut :: "string \<Rightarrow> string \<Rightarrow> (string \<times> string) option" where
  "cut sep [] = (if sep = [] then Some ([], []) else None)"
| "cut sep (c # cs) =
     (if prefix sep (c # cs) then Some ([], drop (length sep) (c # cs))
      else map_option (\<lambda>(a, b). (c # a, b)) (cut sep cs))"

text \<open>\<open>strings.SplitN\<close> for a positive count.\<close>

fun split_n :: "nat \<Rightarrow> string \<Rightarrow> string \<Rightarrow> string list" where
  "split_n 0 sep s = []"
| "split_n (Suc 0) sep s = [s]"
| "split_n (Suc (Suc n)) sep s =
     (case cut sep s of None \<Rightarrow> [s] | Some (a, b) \<Rightarrow> a # split_n (Suc n) sep b)"

definition contains :: "string \<Rightarrow> string \<Rightarrow> bool" where
  "contains s sub = (cut sub s \<noteq> None)"

fun join :: "string \<Rightarrow> string list \<Rightarrow> string" where
  "join sep [] = []"
| "join sep [w] = w"
| "join sep (w # v # ws) = w @ sep @ join sep (v # ws)"

definition index_byte :: "char \<Rightarrow> string \<Rightarrow> nat option" where
  "index_byte c s = (let n = length (takeWhile (\<lambda>x. x \<noteq> c) s) in if n < length s then Some n else None)"

definition replace_byte :: "char \<Rightarrow> char \<Rightarrow> string \<Rightarrow> string" where
  "replace_byte a b s = map (\<lambda>x. if x = a then b else x) s"

definition byte_lower :: "char \<Rightarrow> char" where
  "byte_lower c = (let n = of_char c :: nat in if 65 \<le> n \<and> n \<le> 90 then char_of (n + 32) else c)"

definition byte_upper :: "char \<Rightarrow> char" where
  "byte_upper c = (let n = of_char c :: nat in if 97 \<le> n \<and> n \<le> 122 then char_of (n - 32) else c)"

definition to_lower :: "string \<Rightarrow> string" where "to_lower s = map byte_lower s"
definition to_upper :: "string \<Rightarrow> string" where "to_upper s = map byte_upper s"

definition is_lower_letter :: "char \<Rightarrow> bool" where
  "is_lower_letter c = (let n = of_char c :: nat in 97 \<le> n \<and> n \<le> 122)"

definition is_upper_letter :: "char \<Rightarrow> bool" where
  "is_upper_letter c = (let n = of_char c :: nat in 65 \<le> n \<and> n \<le> 90)"

definition is_digit :: "char \<Rightarrow> bool" where
  "is_digit c = (let n = of_char c :: nat in 48 \<le> n \<and> n \<le> 57)"

definition digit_char :: "nat \<Rightarrow> char" where
  "digit_char d = char_of (48 + d)"

fun decimal :: "nat \<Rightarrow> string" where
  "decimal n = (if n < 10 then [digit_char n] else decimal (n div 10) @ [digit_char (n mod 10)])"

declare decimal.simps [simp del]

text \<open>\<open>strconv.Itoa\<close> and the verb \<open>%d\<close>.\<close>

definition int_string :: "int \<Rightarrow> string" where
  "int_string i = (if i < 0 then CHR ''-'' # decimal (nat (- i)) else decimal (nat i))"

definition hex_digit :: "nat \<Rightarrow> char" where
  "hex_digit d = (if d < 10 then char_of (48 + d) else char_of (87 + d))"

text \<open>
  The verb \<open>%q\<close> (\<open>strconv.Quote\<close>) and the verb \<open>%v\<close> on a slice of strings. Bytes above 127 are kept, as in
  valid UTF-8 text of printable characters.
\<close>

definition quote_char :: "char \<Rightarrow> string" where
  "quote_char c =
     (let n = of_char c :: nat
      in if n = 34 then [CHR 0x5C, CHR 0x22] else if n = 92 then [CHR 0x5C, CHR 0x5C]
         else if n = 7 then [CHR 0x5C, CHR ''a''] else if n = 8 then [CHR 0x5C, CHR ''b'']
         else if n = 12 then [CHR 0x5C, CHR ''f''] else if n = 10 then [CHR 0x5C, CHR ''n'']
         else if n = 13 then [CHR 0x5C, CHR ''r''] else if n = 9 then [CHR 0x5C, CHR ''t'']
         else if n = 11 then [CHR 0x5C, CHR ''v'']
         else if n < 32 \<or> n = 127 then [CHR 0x5C, CHR ''x'', hex_digit (n div 16), hex_digit (n mod 16)]
         else [c])"

definition quote :: "string \<Rightarrow> string" where
  "quote s = CHR 0x22 # concat (map quote_char s) @ [CHR 0x22]"

definition show_strings :: "string list \<Rightarrow> string" where
  "show_strings ws = ''['' @ join '' '' ws @ '']''"

text \<open>
  \<open>filepath.Clean\<close>, \<open>filepath.Join\<close>, \<open>filepath.Dir\<close> and \<open>strings.LastIndex\<close> of one byte.
\<close>

fun clean_parts :: "bool \<Rightarrow> string list \<Rightarrow> string list \<Rightarrow> string list" where
  "clean_parts rooted acc [] = rev acc"
| "clean_parts rooted acc (w # ws) =
     (if w = [] \<or> w = ''.'' then clean_parts rooted acc ws
      else if w = ''..'' then
        (case acc of
           [] \<Rightarrow> clean_parts rooted (if rooted then [] else [w]) ws
         | a # as \<Rightarrow> clean_parts rooted (if a = ''..'' then w # acc else as) ws)
      else clean_parts rooted (w # acc) ws)"

definition path_clean :: "string \<Rightarrow> string" where
  "path_clean p =
     (let rooted = prefix ''/'' p;
          q = (if rooted then ''/'' else []) @ join ''/'' (clean_parts rooted [] (split_char (CHR ''/'') p))
      in if q = [] then ''.'' else q)"

definition path_join :: "string list \<Rightarrow> string" where
  "path_join ws =
     (let us = filter (\<lambda>w. w \<noteq> []) ws in if us = [] then [] else path_clean (join ''/'' us))"

definition last_index :: "char \<Rightarrow> string \<Rightarrow> nat option" where
  "last_index c s =
     (let k = length (takeWhile (\<lambda>x. x \<noteq> c) (rev s)) in if k < length s then Some (length s - Suc k) else None)"

definition path_dir :: "string \<Rightarrow> string" where
  "path_dir p = path_clean (case last_index (CHR ''/'') p of None \<Rightarrow> [] | Some i \<Rightarrow> take (Suc i) p)"

subsection \<open>Go maps\<close>

text \<open>Assigning to a key of a Go map, kept as a list of pairs in the order of the first assignments.\<close>

definition assoc_put :: "'k \<Rightarrow> 'v \<Rightarrow> ('k \<times> 'v) list \<Rightarrow> ('k \<times> 'v) list" where
  "assoc_put k v m =
     (if k \<in> fst ` set m then map (\<lambda>p. if fst p = k then (k, v) else p) m else m @ [(k, v)])"

definition assoc_del :: "'k \<Rightarrow> ('k \<times> 'v) list \<Rightarrow> ('k \<times> 'v) list" where
  "assoc_del k m = filter (\<lambda>p. fst p \<noteq> k) m"

lemma map_of_overwrite:
  "map_of (map (\<lambda>p. if fst p = k then (k, v) else p) m) x =
     (if x = k then (if k \<in> fst ` set m then Some v else None) else map_of m x)"
proof (induction m)
  case (Cons p m)
  then show ?case by (cases p) (simp split del: if_split, force)
qed simp

lemma map_of_assoc_put [simp]: "map_of (assoc_put k v m) = (map_of m)(k \<mapsto> v)"
proof (rule ext)
  fix x
  have "map_of (m @ [(k, v)]) x = ((map_of m)(k \<mapsto> v)) x" if "k \<notin> fst ` set m"
  proof -
    have "map_of m k = None" using that by (simp add: map_of_eq_None_iff)
    then show ?thesis by (cases "map_of m x") (auto simp: map_add_def)
  qed
  then show "map_of (assoc_put k v m) x = ((map_of m)(k \<mapsto> v)) x"
    by (auto simp: assoc_put_def map_of_overwrite)
qed

lemma map_of_assoc_del: "map_of (assoc_del k m) = (map_of m)(k := None)"
  by (induction m) (auto simp: assoc_del_def fun_eq_iff)

lemma keys_assoc_put: "map fst (assoc_put k v m) = (if k \<in> fst ` set m then map fst m else map fst m @ [k])"
  by (auto simp: assoc_put_def)

lemma distinct_assoc_put: "distinct (map fst m) \<Longrightarrow> distinct (map fst (assoc_put k v m))"
  by (simp add: keys_assoc_put)

lemma distinct_assoc_filter: "distinct (map fst m) \<Longrightarrow> distinct (map fst (filter P m))"
  by (rule distinct_map_filter)

subsection \<open>Facts\<close>

lemma trim_prefix_append [simp, go_strings]: "trim_prefix p (p @ s) = s"
  by (simp add: trim_prefix_def)

lemma trim_prefix_other: "\<not> prefix p s \<Longrightarrow> trim_prefix p s = s"
  by (simp add: trim_prefix_def)

lemma trim_suffix_append [simp, go_strings]: "trim_suffix p (s @ p) = s"
  by (simp add: trim_suffix_def suffixI)

lemma trim_suffix_other: "\<not> suffix p s \<Longrightarrow> trim_suffix p s = s"
  by (simp add: trim_suffix_def)

lemma trim_right_id: "s = [] \<or> \<not> P (last s) \<Longrightarrow> trim_right P s = s"
  by (cases s rule: rev_cases) (auto simp: trim_right_def)

lemma trim_left_id: "s = [] \<or> \<not> P (hd s) \<Longrightarrow> trim_left P s = s"
  by (cases s) (auto simp: trim_left_def)

lemma split_pred_nonempty [simp]: "split_pred P s \<noteq> []"
  by (induction s) (auto split: list.splits)

lemma split_char_nonempty [simp]: "split_char c s \<noteq> []"
  by (simp add: split_char_def)

lemma split_pred_no_sep: "\<forall>x\<in>set s. \<not> P x \<Longrightarrow> split_pred P s = [s]"
  by (induction s) auto

lemma split_pred_append:
  "\<forall>x\<in>set s. \<not> P x \<Longrightarrow> P c \<Longrightarrow> split_pred P (s @ c # t) = s # split_pred P t"
  by (induction s) auto

lemma split_char_no_sep: "c \<notin> set s \<Longrightarrow> split_char c s = [s]"
  by (auto simp: split_char_def intro!: split_pred_no_sep)

lemma split_char_append: "c \<notin> set s \<Longrightarrow> split_char c (s @ c # t) = s # split_char c t"
  by (auto simp: split_char_def intro!: split_pred_append)

lemma split_pred_words: "\<forall>w\<in>set (split_pred P s). \<forall>x\<in>set w. \<not> P x"
  by (induction s) (auto split: list.splits)

lemma str_fields_words: "w \<in> set (str_fields s) \<Longrightarrow> w \<noteq> [] \<and> (\<forall>x\<in>set w. \<not> is_space x)"
  using split_pred_words [of is_space s] by (auto simp: str_fields_def)

lemma split_char_words: "w \<in> set (split_char c s) \<Longrightarrow> c \<notin> set w"
  using split_pred_words [of "\<lambda>x. x = c" s] by (auto simp: split_char_def)

text \<open>Joining what \<open>strings.Split\<close> cut apart gives the string back, and the converse.\<close>

lemma join_split_char: "join [c] (split_char c s) = s"
proof (induction s)
  case Nil
  then show ?case by (simp add: split_char_def)
next
  case (Cons x xs)
  obtain w ws where w: "split_char c xs = w # ws"
    using split_char_nonempty by (metis neq_Nil_conv)
  with Cons.IH have "join [c] (w # ws) = xs" by simp
  with w show ?case by (cases ws) (auto simp: split_char_def)
qed

lemma split_char_join:
  "ws \<noteq> [] \<Longrightarrow> \<forall>w\<in>set ws. c \<notin> set w \<Longrightarrow> split_char c (join [c] ws) = ws"
proof (induction "[c]" ws rule: join.induct)
  case (3 w v ws)
  then show ?case by (simp add: split_char_append)
qed (simp_all add: split_char_no_sep)

lemma cut_byte: "c \<notin> set a \<Longrightarrow> cut [c] (a @ c # b) = Some (a, b)"
  by (induction a) auto

lemma cut_byte_None: "cut [c] s = None \<longleftrightarrow> c \<notin> set s"
  by (induction s) auto

lemma contains_byte: "contains s [c] \<longleftrightarrow> c \<in> set s"
  by (simp add: contains_def cut_byte_None)

lemma index_byte_None: "index_byte c s = None \<longleftrightarrow> c \<notin> set s"
proof (cases "c \<in> set s")
  case True
  then have "length (takeWhile (\<lambda>x. x \<noteq> c) s) < length s" by (induction s) auto
  with True show ?thesis by (simp add: index_byte_def)
next
  case False
  then have "takeWhile (\<lambda>x. x \<noteq> c) s = s" by (induction s) auto
  then have "length (takeWhile (\<lambda>x. x \<noteq> c) s) = length s" by (rule arg_cong)
  with False show ?thesis by (simp add: index_byte_def)
qed

lemma index_byte_append: "c \<notin> set a \<Longrightarrow> index_byte c (a @ c # b) = Some (length a)"
proof -
  assume "c \<notin> set a"
  then have "takeWhile (\<lambda>x. x \<noteq> c) (a @ c # b) = a" by (induction a) auto
  then show ?thesis by (simp add: index_byte_def)
qed

lemma digit_char_digit: "d < 10 \<Longrightarrow> is_digit (digit_char d)"
  by (simp add: is_digit_def digit_char_def)

lemma decimal_digits: "c \<in> set (decimal n) \<Longrightarrow> is_digit c"
proof (induction n rule: decimal.induct)
  case (1 n)
  then show ?case
    by (cases "n < 10") (auto simp: decimal.simps [of n] intro: digit_char_digit)
qed

lemma decimal_nonempty [simp]: "decimal n \<noteq> []"
  by (simp add: decimal.simps [of n])

text \<open>Decimal numerals are read back by the usual fold, so they are pairwise different.\<close>

definition read_decimal :: "string \<Rightarrow> nat" where
  "read_decimal s = foldl (\<lambda>n c. 10 * n + (of_char c - 48)) 0 s"

lemma read_decimal_snoc: "read_decimal (s @ [c]) = 10 * read_decimal s + (of_char c - 48)"
  by (simp add: read_decimal_def)

lemma read_decimal_decimal [simp]: "read_decimal (decimal n) = n"
proof (induction n rule: decimal.induct)
  case (1 n)
  show ?case
  proof (cases "n < 10")
    case True
    then show ?thesis
      by (simp add: decimal.simps [of n] digit_char_def read_decimal_def)
  next
    case False
    then have "read_decimal (decimal n) = 10 * (n div 10) + (of_char (digit_char (n mod 10)) - 48)"
      using "1.IH" by (simp add: decimal.simps [of n] read_decimal_snoc)
    also have "\<dots> = n" by (simp add: digit_char_def)
    finally show ?thesis .
  qed
qed

lemma decimal_inject [simp]: "decimal m = decimal n \<longleftrightarrow> m = n"
  by (metis read_decimal_decimal)

lemma not_digit_minus: "\<not> is_digit (CHR ''-'')"
  by (simp add: is_digit_def)

lemma int_string_inject [simp]: "int_string i = int_string j \<longleftrightarrow> i = j"
proof
  have minus: "decimal n \<noteq> CHR ''-'' # s" for n s
    using decimal_digits [of "CHR ''-''" n] not_digit_minus by auto
  assume "int_string i = int_string j"
  with minus minus [symmetric] show "i = j"
    by (auto simp: int_string_def nat_eq_iff split: if_splits)
qed simp

text \<open>Reading an integer back.\<close>

definition read_int :: "string \<Rightarrow> int" where
  "read_int s = (case s of [] \<Rightarrow> 0 | c # t \<Rightarrow>
     if c = CHR ''-'' then - int (read_decimal t) else int (read_decimal s))"

lemma decimal_not_minus: "decimal n \<noteq> CHR ''-'' # s"
  using decimal_digits [of "CHR ''-''" n] not_digit_minus by auto

lemma read_int_string [simp]: "read_int (int_string i) = i"
proof (cases "i < 0")
  case False
  obtain c t where "decimal (nat i) = c # t" "c \<noteq> CHR ''-''"
    using decimal_not_minus [of "nat i"] decimal_nonempty [of "nat i"] by (metis neq_Nil_conv)
  then show ?thesis using False read_decimal_decimal [of "nat i"]
    by (simp add: read_int_def int_string_def)
qed (simp add: read_int_def int_string_def)

lemma int_string_nonempty [simp]: "int_string i \<noteq> []"
  by (simp add: int_string_def)

lemma int_string_bytes: "c \<in> set (int_string i) \<Longrightarrow> is_digit c \<or> c = CHR ''-''"
  by (auto simp: int_string_def dest: decimal_digits split: if_splits)

lemma bar_not_int: "CHR ''|'' \<notin> set (int_string i)"
  using int_string_bytes [of "CHR ''|''" i] by (auto simp: is_digit_def)

lemma bar_not_decimal: "CHR ''|'' \<notin> set (decimal n)"
  using decimal_digits [of "CHR ''|''" n] by (auto simp: is_digit_def)

subsection \<open>Runes\<close>

text \<open>The runes of a string: a byte that starts no valid sequence counts as the rune 0xFFFD, one byte wide.\<close>

definition follows :: "int \<Rightarrow> int \<Rightarrow> char \<Rightarrow> bool" where
  "follows lo hi c = (lo \<le> of_char c \<and> of_char c \<le> hi)"

definition tail_bits :: "char \<Rightarrow> int" where
  "tail_bits c = of_char c mod 64"

definition first_rune :: "char \<Rightarrow> string \<Rightarrow> int \<times> nat" where
  "first_rune c cs =
     (let b = of_char c :: int;
          lo = (if b = 0xE0 then 0xA0 else if b = 0xF0 then 0x90 else 0x80);
          hi = (if b = 0xED then 0x9F else if b = 0xF4 then 0x8F else 0xBF)
      in if b < 0x80 then (b, 0)
         else if 0xC2 \<le> b \<and> b \<le> 0xDF then
           (case cs of d # _ \<Rightarrow> if follows 0x80 0xBF d then ((b mod 32) * 64 + tail_bits d, 1) else (0xFFFD, 0) | _ \<Rightarrow> (0xFFFD, 0))
         else if 0xE0 \<le> b \<and> b \<le> 0xEF then
           (case cs of
              d # e # _ \<Rightarrow>
                if follows lo hi d \<and> follows 0x80 0xBF e
                then ((b mod 16) * 4096 + tail_bits d * 64 + tail_bits e, 2) else (0xFFFD, 0)
            | _ \<Rightarrow> (0xFFFD, 0))
         else if 0xF0 \<le> b \<and> b \<le> 0xF4 then
           (case cs of
              d # e # g # _ \<Rightarrow>
                if follows lo hi d \<and> follows 0x80 0xBF e \<and> follows 0x80 0xBF g
                then ((b mod 8) * 262144 + tail_bits d * 4096 + tail_bits e * 64 + tail_bits g, 3) else (0xFFFD, 0)
            | _ \<Rightarrow> (0xFFFD, 0))
         else (0xFFFD, 0))"

fun runes :: "string \<Rightarrow> int list" where
  "runes [] = []"
| "runes (c # cs) = (case first_rune c cs of (r, more_bytes) \<Rightarrow> r # runes (drop more_bytes cs))"

fun rune_widths :: "string \<Rightarrow> nat list" where
  "rune_widths [] = []"
| "rune_widths (c # cs) = (case first_rune c cs of (r, more_bytes) \<Rightarrow> Suc more_bytes # rune_widths (drop more_bytes cs))"

text \<open>Where the rune of a number begins.\<close>

definition rune_offset :: "string \<Rightarrow> nat \<Rightarrow> nat" where
  "rune_offset s i = sum_list (take i (rune_widths s))"

lemma length_rune_widths: "length (rune_widths s) = length (runes s)"
  by (induction s rule: runes.induct) (simp_all split: prod.split)

lemma first_rune_ascii: "(of_char c :: int) < 128 \<Longrightarrow> first_rune c cs = (of_char c, 0)"
  by (simp add: first_rune_def Let_def)

lemma rune_offset_byte:
  assumes "i < length (runes s)"
  shows "rune_offset s i < length s"
    and "runes s ! i \<noteq> of_char c \<Longrightarrow> (of_char c :: int) < 128 \<Longrightarrow> s ! rune_offset s i \<noteq> c"
proof -
  have "rune_offset s i < length s
      \<and> (runes s ! i \<noteq> of_char c \<longrightarrow> (of_char c :: int) < 128 \<longrightarrow> s ! rune_offset s i \<noteq> c)"
    using assms
  proof (induction s arbitrary: i rule: runes.induct)
    case (2 d ds)
    obtain r m where f: "first_rune d ds = (r, m)" by fastforce
    show ?case
    proof (cases i)
      case 0
      then show ?thesis using f first_rune_ascii [of d ds] by (auto simp: rune_offset_def)
    next
      case (Suc k)
      then have k: "k < length (runes (drop m ds))" using "2.prems" f by simp
      have off: "rune_offset (d # ds) i = Suc (m + rune_offset (drop m ds) k)"
        using Suc f by (simp add: rune_offset_def)
      note IH = "2.IH" [OF f [symmetric] k]
      then have "rune_offset (drop m ds) k < length ds - m" by simp
      then have "m + rune_offset (drop m ds) k < length ds" by (simp add: less_diff_conv)
      moreover from this have "(d # ds) ! rune_offset (d # ds) i = drop m ds ! rune_offset (drop m ds) k"
        unfolding off by simp
      moreover have "runes (d # ds) ! i = runes (drop m ds) ! k" using Suc f by simp
      ultimately show ?thesis using IH off by simp
    qed
  qed simp
  then show "rune_offset s i < length s"
    and "runes s ! i \<noteq> of_char c \<Longrightarrow> (of_char c :: int) < 128 \<Longrightarrow> s ! rune_offset s i \<noteq> c" by blast+
qed

end
