(* ===== verification/Auth.thy ===== *)
theory Auth
  imports Schema Cache GoStrings
begin

section \<open>Accounts (internal/auth/auth.go)\<close>

text \<open>
  Registration, login with lockout, roles, password change, and the cached user lookups. An
  operation takes the clock reading and the generated identifier it uses and returns its result
  and the database (and the lookup cache where it touches it). Password hashing and JWT signing
  are libraries: the record \<open>crypto\<close> holds the functions the code calls.
\<close>

subsection \<open>Libraries, configuration, results\<close>

record jwt_claims =
  jc_sub :: string
  jc_username :: string
  jc_exp :: int
  jc_iat :: "int option"

record jwt_token =
  jt_method :: string
  jt_claims :: jwt_claims

text \<open>
  \<open>bcrypt_hash\<close> and \<open>bcrypt_ok\<close> are bcrypt's GenerateFromPassword (one draw of the salt) and
  CompareHashAndPassword. \<open>jwt_sign\<close> signs claims with a secret, \<open>jwt_decode\<close> reads a token
  without checking it, \<open>jwt_verify\<close> says whether signature and expiry are valid at a time.
  \<open>token_hash\<close> is the hex SHA-256 of a string; \<open>uuid_string\<close> and \<open>uuid_parse\<close> are the
  text form of an identifier.
\<close>

record crypto =
  bcrypt_hash :: "string \<Rightarrow> string result"
  bcrypt_ok :: "string \<Rightarrow> string \<Rightarrow> bool"
  jwt_sign :: "string \<Rightarrow> jwt_claims \<Rightarrow> string result"
  jwt_decode :: "string \<Rightarrow> jwt_token option"
  jwt_verify :: "string \<Rightarrow> instant \<Rightarrow> string \<Rightarrow> bool"
  token_hash :: "string \<Rightarrow> string"
  uuid_string :: "uuid \<Rightarrow> string"
  uuid_parse :: "string \<Rightarrow> uuid option"

text \<open>
  What the code relies on of these libraries: a hash accepts its own password, the text form of
  an identifier is read back, and a token signed with HS256 decodes to its claims and is valid
  for that secret until it expires.
\<close>

definition crypto_laws :: "crypto \<Rightarrow> bool" where
  "crypto_laws cr =
     ((\<forall>p h. bcrypt_hash cr p = Inr h \<longrightarrow> bcrypt_ok cr h p)
      \<and> (\<forall>x. uuid_parse cr (uuid_string cr x) = Some x)
      \<and> (\<forall>k c tok. jwt_sign cr k c = Inr tok \<longrightarrow>
            jwt_decode cr tok = Some \<lparr>jt_method = ''HS256'', jt_claims = c\<rparr>
            \<and> (\<forall>now. jwt_verify cr k now tok = (now < jc_exp c * 1000000000))))"

lemma crypto_jwt:
  "crypto_laws cr \<Longrightarrow> jwt_sign cr k c = Inr tok \<Longrightarrow>
     jwt_decode cr tok = Some \<lparr>jt_method = ''HS256'', jt_claims = c\<rparr>"
  "crypto_laws cr \<Longrightarrow> jwt_sign cr k c = Inr tok \<Longrightarrow>
     jwt_verify cr k now tok = (now < jc_exp c * 1000000000)"
  by (simp_all add: crypto_laws_def)

lemma crypto_uuid: "crypto_laws cr \<Longrightarrow> uuid_parse cr (uuid_string cr x) = Some x"
  by (simp add: crypto_laws_def)

lemma crypto_bcrypt: "crypto_laws cr \<Longrightarrow> bcrypt_hash cr p = Inr h \<Longrightarrow> bcrypt_ok cr h p"
  by (simp add: crypto_laws_def)

record options =
  opt_public :: bool
  opt_max_attempts :: int
  opt_lockout :: duration

record auth_config =
  ac_secret :: string
  ac_public :: bool
  ac_max_attempts :: int
  ac_lockout :: duration

definition userCacheTTL :: duration where "userCacheTTL = 10 * minute"

definition NewService :: "string \<Rightarrow> options option \<Rightarrow> auth_config" where
  "NewService secret opts =
     (case opts of
        None \<Rightarrow> \<lparr>ac_secret = secret, ac_public = False, ac_max_attempts = 5, ac_lockout = 15 * minute\<rparr>
      | Some o1 \<Rightarrow> \<lparr>ac_secret = secret, ac_public = opt_public o1,
          ac_max_attempts = (if opt_max_attempts o1 > 0 then opt_max_attempts o1 else 5),
          ac_lockout = (if opt_lockout o1 > 0 then opt_lockout o1 else 15 * minute)\<rparr>)"

definition RoleAdmin :: string where "RoleAdmin = ''admin''"
definition RoleUser :: string where "RoleUser = ''user''"

lemmas role_defs = RoleAdmin_def RoleUser_def

record user =
  usr_id :: uuid
  usr_name :: string
  usr_email :: string
  usr_role :: string
  usr_avatar :: string
  usr_created :: instant

text \<open>The SELECT list of every user query, with COALESCE(avatar_url,'').\<close>

definition user_of_row :: "user_row \<Rightarrow> user" where
  "user_of_row r = \<lparr>usr_id = u_id r, usr_name = u_name r, usr_email = u_email r, usr_role = u_role r,
     usr_avatar = (case u_avatar r of None \<Rightarrow> [] | Some a \<Rightarrow> a), usr_created = u_created r\<rparr>"

lemma user_of_row_simps [simp]:
  "usr_id (user_of_row r) = u_id r" "usr_name (user_of_row r) = u_name r"
  "usr_email (user_of_row r) = u_email r" "usr_role (user_of_row r) = u_role r"
  "usr_created (user_of_row r) = u_created r"
  by (simp_all add: user_of_row_def)

subsection \<open>Creating users\<close>

text \<open>INSERT INTO users, with the CHECK of the role column and the three unique keys.\<close>

definition insert_user :: "user_row \<Rightarrow> db \<Rightarrow> user_row result \<times> db" where
  "insert_user r d =
     (if u_role r \<noteq> RoleAdmin \<and> u_role r \<noteq> RoleUser then (Inl (CheckViolation ''users_role_check''), d)
      else if \<not> key_free u_id (u_id r) (users d) then (Inl (UniqueViolation ''users_pkey''), d)
      else if \<not> key_free u_name (u_name r) (users d) then (Inl (UniqueViolation ''users_username_key''), d)
      else if \<not> key_free u_email (u_email r) (users d) then (Inl (UniqueViolation ''users_email_key''), d)
      else (Inr r, d\<lparr>users := insert_row r (users d)\<rparr>))"

definition createUser ::
  "crypto \<Rightarrow> instant \<Rightarrow> uuid \<Rightarrow> string \<Rightarrow> string \<Rightarrow> string \<Rightarrow> string \<Rightarrow> db \<Rightarrow> user result \<times> db" where
  "createUser cr now nid username email password role d =
     (case bcrypt_hash cr password of
        Inl e \<Rightarrow> (Inl e, d)
      | Inr hash \<Rightarrow>
          (case insert_user \<lparr>u_id = nid, u_name = username, u_email = email, u_hash = hash,
                   u_avatar = None, u_created = now, u_role = role, u_fails = 0, u_locked = None,
                   u_pwd_changed = now\<rparr> d of
             (Inl e, d1) \<Rightarrow> (Inl (if is_duplicate e then ErrUserExists else e), d1)
           | (Inr r, d1) \<Rightarrow> (Inr (user_of_row r), d1)))"

definition Register ::
  "crypto \<Rightarrow> instant \<Rightarrow> uuid \<Rightarrow> string \<Rightarrow> string \<Rightarrow> string \<Rightarrow> db \<Rightarrow> user result \<times> db" where
  "Register cr now nid username email password d =
     createUser cr now nid username email password RoleUser d"

definition CreateUser ::
  "crypto \<Rightarrow> instant \<Rightarrow> uuid \<Rightarrow> string \<Rightarrow> string \<Rightarrow> string \<Rightarrow> string \<Rightarrow> db \<Rightarrow> user result \<times> db" where
  "CreateUser cr now nid username email password role d =
     createUser cr now nid username email password
       (if role \<noteq> RoleAdmin \<and> role \<noteq> RoleUser then RoleUser else role) d"

definition BootstrapAdmin ::
  "crypto \<Rightarrow> instant \<Rightarrow> uuid \<Rightarrow> string \<Rightarrow> string \<Rightarrow> string \<Rightarrow> db \<Rightarrow> unit result \<times> db" where
  "BootstrapAdmin cr now nid username email password d =
     (if length (users d) > 0 then (Inr (), d)
      else (case createUser cr now nid username email password RoleAdmin d of
              (Inl e, d1) \<Rightarrow> (Inl e, d1)
            | (Inr u, d1) \<Rightarrow> (Inr (), d1)))"

subsection \<open>Login and sessions\<close>

definition issueJWT :: "crypto \<Rightarrow> auth_config \<Rightarrow> instant \<Rightarrow> uuid \<Rightarrow> string \<Rightarrow> string result" where
  "issueJWT cr cfg now uid username =
     jwt_sign cr (ac_secret cfg)
       \<lparr>jc_sub = uuid_string cr uid, jc_username = username,
        jc_exp = unix (now + 24 * hour), jc_iat = Some (unix now)\<rparr>"

definition login_match :: "string \<Rightarrow> user_row \<Rightarrow> bool" where
  "login_match name r = (u_name r = name \<or> u_email r = name)"

definition update_user :: "uuid \<Rightarrow> (user_row \<Rightarrow> user_row) \<Rightarrow> db \<Rightarrow> db" where
  "update_user uid f d = d\<lparr>users := update_where (\<lambda>r. u_id r = uid) f (users d)\<rparr>"

definition locked_at :: "instant \<Rightarrow> instant option \<Rightarrow> bool" where
  "locked_at now l = (case l of None \<Rightarrow> False | Some t \<Rightarrow> now < t)"

definition login_failed :: "auth_config \<Rightarrow> instant \<Rightarrow> uuid \<Rightarrow> db \<Rightarrow> db" where
  "login_failed cfg now uid d =
     (let d1 = update_user uid (\<lambda>r. r\<lparr>u_fails := u_fails r + 1\<rparr>) d;
          attempts = (case query_row (\<lambda>r. u_id r = uid) (users d1) of None \<Rightarrow> 0 | Some r \<Rightarrow> u_fails r)
      in if attempts \<ge> ac_max_attempts cfg
         then update_user uid (\<lambda>r. r\<lparr>u_locked := Some (now + ac_lockout cfg), u_fails := 0\<rparr>) d1
         else d1)"

definition Login ::
  "crypto \<Rightarrow> auth_config \<Rightarrow> instant \<Rightarrow> string \<Rightarrow> string \<Rightarrow> db \<Rightarrow> (string \<times> user) result \<times> db" where
  "Login cr cfg now username password d =
     (let lockedUntil = (case query_row (login_match username) (users d) of
                           None \<Rightarrow> None | Some r \<Rightarrow> u_locked r)
      in if locked_at now lockedUntil then (Inl ErrAccountLocked, d)
         else (case query_row (login_match username) (users d) of
            None \<Rightarrow> (Inl ErrInvalidCredentials, d)
          | Some r \<Rightarrow>
              if \<not> bcrypt_ok cr (u_hash r) password
              then (Inl ErrInvalidCredentials, login_failed cfg now (u_id r) d)
              else let d1 = update_user (u_id r) (\<lambda>q. q\<lparr>u_fails := 0, u_locked := None\<rparr>) d
                   in (case issueJWT cr cfg now (u_id r) (u_name r) of
                         Inl e \<Rightarrow> (Inl e, d1)
                       | Inr token \<Rightarrow> (Inr (token, user_of_row r), d1))))"

definition ValidateToken ::
  "crypto \<Rightarrow> auth_config \<Rightarrow> instant \<Rightarrow> string \<Rightarrow> db \<Rightarrow> (uuid \<times> string) result" where
  "ValidateToken cr cfg now tokenStr d =
     (case jwt_decode cr tokenStr of
        None \<Rightarrow> Inl ErrUnauthorized
      | Some t \<Rightarrow>
          if jt_method t \<noteq> ''HS256'' \<or> \<not> jwt_verify cr (ac_secret cfg) now tokenStr
          then Inl ErrUnauthorized
          else (let claims = jt_claims t
                in case uuid_parse cr (jc_sub claims) of
                     None \<Rightarrow> Inl ErrUnauthorized
                   | Some uid \<Rightarrow>
                       (case (jc_iat claims, query_row (\<lambda>r. u_id r = uid) (users d)) of
                          (Some iat, Some r) \<Rightarrow>
                            if iat < unix (u_pwd_changed r) then Inl ErrUnauthorized
                            else Inr (uid, jc_username claims)
                        | _ \<Rightarrow> Inr (uid, jc_username claims))))"

definition ChangePassword ::
  "crypto \<Rightarrow> instant \<Rightarrow> uuid \<Rightarrow> string \<Rightarrow> string \<Rightarrow> db \<Rightarrow> unit result \<times> db" where
  "ChangePassword cr now uid oldPassword newPassword d =
     (case query_row (\<lambda>r. u_id r = uid) (users d) of
        None \<Rightarrow> (Inl ErrUnauthorized, d)
      | Some r \<Rightarrow>
          if \<not> bcrypt_ok cr (u_hash r) oldPassword then (Inl ErrInvalidCredentials, d)
          else (case bcrypt_hash cr newPassword of
                  Inl e \<Rightarrow> (Inl e, d)
                | Inr h \<Rightarrow> (Inr (), update_user uid (\<lambda>q. q\<lparr>u_hash := h, u_pwd_changed := now\<rparr>) d)))"

definition IsLocked :: "instant \<Rightarrow> uuid \<Rightarrow> db \<Rightarrow> bool result" where
  "IsLocked now uid d =
     (case query_row (\<lambda>r. u_id r = uid) (users d) of
        None \<Rightarrow> Inl ErrUnauthorized
      | Some r \<Rightarrow> Inr (locked_at now (u_locked r)))"

definition UnlockUser :: "uuid \<Rightarrow> db \<Rightarrow> unit result \<times> db" where
  "UnlockUser uid d =
     (if rows_affected (\<lambda>r. u_id r = uid) (users d) = 0 then (Inl ErrUnauthorized, d)
      else (Inr (), update_user uid (\<lambda>r. r\<lparr>u_fails := 0, u_locked := None\<rparr>) d))"

subsection \<open>Roles\<close>

definition IsAdmin :: "uuid \<Rightarrow> db \<Rightarrow> bool result" where
  "IsAdmin uid d =
     (case query_row (\<lambda>r. u_id r = uid) (users d) of
        None \<Rightarrow> Inl ErrUnauthorized
      | Some r \<Rightarrow> Inr (u_role r = RoleAdmin))"

definition admin_count :: "db \<Rightarrow> nat" where
  "admin_count d = rows_affected (\<lambda>r. u_role r = RoleAdmin) (users d)"

text \<open>
  DeleteUser reads the target's role and the number of administrators and then deletes in a
  statement of its own; the two halves are separate definitions because another request can run
  between them.
\<close>

definition delete_check :: "uuid \<Rightarrow> uuid \<Rightarrow> db \<Rightarrow> unit result" where
  "delete_check actor target d =
     (if actor = target then Inl ErrForbidden
      else (case query_row (\<lambda>r. u_id r = target) (users d) of
              None \<Rightarrow> Inl ErrUnauthorized
            | Some r \<Rightarrow> if u_role r = RoleAdmin \<and> admin_count d \<le> 1 then Inl ErrForbidden else Inr ()))"

definition id_key :: "crypto \<Rightarrow> uuid \<Rightarrow> string" where
  "id_key cr uid = ''user:id:'' @ uuid_string cr uid"

definition name_key :: "string \<Rightarrow> string" where
  "name_key username = ''user:username:'' @ username"

definition delete_exec :: "crypto \<Rightarrow> uuid \<Rightarrow> user cache \<Rightarrow> db \<Rightarrow> unit result \<times> user cache \<times> db" where
  "delete_exec cr target c d =
     (case delete_user_row target d of
        (Inl e, d1) \<Rightarrow> (Inl e, c, d1)
      | (Inr n, d1) \<Rightarrow> if n = 0 then (Inl ErrUnauthorized, c, d1)
                    else (Inr (), cache_delete (id_key cr target) c, d1))"

definition DeleteUser ::
  "crypto \<Rightarrow> uuid \<Rightarrow> uuid \<Rightarrow> user cache \<Rightarrow> db \<Rightarrow> unit result \<times> user cache \<times> db" where
  "DeleteUser cr actor target c d =
     (case delete_check actor target d of
        Inl e \<Rightarrow> (Inl e, c, d)
      | Inr _ \<Rightarrow> delete_exec cr target c d)"

definition UpdateUserRole :: "uuid \<Rightarrow> uuid \<Rightarrow> string \<Rightarrow> db \<Rightarrow> user result \<times> db" where
  "UpdateUserRole actor target newRole d =
     (if newRole \<noteq> RoleAdmin \<and> newRole \<noteq> RoleUser
      then (Inl (ErrMsg (''invalid role: '' @ quote newRole)), d)
      else (case query_row (\<lambda>r. u_id r = target) (users d) of
              None \<Rightarrow> (Inl ErrUnauthorized, d)
            | Some r \<Rightarrow>
                if u_role r = RoleAdmin \<and> newRole \<noteq> RoleAdmin \<and> admin_count d \<le> 1
                then (Inl ErrForbidden, d)
                else (let d1 = update_user target (\<lambda>q. q\<lparr>u_role := newRole\<rparr>) d
                      in case query_row (\<lambda>q. u_id q = target) (users d1) of
                           None \<Rightarrow> (Inl ErrUnauthorized, d1)
                         | Some q \<Rightarrow> (Inr (user_of_row q), d1))))"

subsection \<open>Lookups\<close>

definition GetUserByUsername ::
  "instant \<Rightarrow> string \<Rightarrow> user cache \<Rightarrow> db \<Rightarrow> user result \<times> user cache" where
  "GetUserByUsername now username c d =
     (case cache_get now (name_key username) c of
        (Some v, c1) \<Rightarrow> (Inr v, c1)
      | (None, c1) \<Rightarrow>
          (case query_row (\<lambda>r. u_name r = username) (users d) of
             None \<Rightarrow> (Inl ErrUnauthorized, c1)
           | Some r \<Rightarrow> (Inr (user_of_row r), cache_set now (name_key username) (user_of_row r) c1)))"

definition GetUser ::
  "crypto \<Rightarrow> instant \<Rightarrow> uuid \<Rightarrow> user cache \<Rightarrow> db \<Rightarrow> user result \<times> user cache" where
  "GetUser cr now uid c d =
     (case cache_get now (id_key cr uid) c of
        (Some v, c1) \<Rightarrow> (Inr v, c1)
      | (None, c1) \<Rightarrow>
          (case query_row (\<lambda>r. u_id r = uid) (users d) of
             None \<Rightarrow> (Inl NoRows, c1)
           | Some r \<Rightarrow> (Inr (user_of_row r), cache_set now (id_key cr uid) (user_of_row r) c1)))"

text \<open>
  ILIKE with the pattern \<open>prefix || '%'\<close>: letter case is ignored and the wildcards \<open>%\<close> and
  \<open>_\<close> (and the escape) of the caller's text act as wildcards.
\<close>

fun like :: "string \<Rightarrow> string \<Rightarrow> bool" where
  "like [] s = (s = [])"
| "like (p # ps) [] = (p = CHR ''%'' \<and> like ps [])"
| "like (p # ps) (c # cs) =
     (if p = CHR ''%'' then like ps (c # cs) \<or> like (p # ps) cs
      else if p = CHR ''_'' then like ps cs
      else if p = CHR 0x5C then
        (case ps of [] \<Rightarrow> False | q # qs \<Rightarrow> q = c \<and> like qs cs)
      else p = c \<and> like ps cs)"

definition ilike :: "string \<Rightarrow> string \<Rightarrow> bool" where
  "ilike pat s = like (to_lower pat) (to_lower s)"

definition SearchUsers :: "string \<Rightarrow> int \<Rightarrow> db \<Rightarrow> user list" where
  "SearchUsers pfx limit d =
     map user_of_row
       (take (nat limit) (order_by u_name (rows_where (\<lambda>r. ilike (pfx @ ''%'') (u_name r)) (users d))))"

definition ListUsers :: "db \<Rightarrow> user list" where
  "ListUsers d = map user_of_row (order_by u_created (users d))"

subsection \<open>The invariant of the users table\<close>

text \<open>
  Identifiers, names and addresses are unique, a role is one of the two, and the failure counter
  stays below the limit that locks the account.
\<close>

definition users_ok :: "auth_config \<Rightarrow> db \<Rightarrow> bool" where
  "users_ok cfg d =
     (unique_on u_id (users d) \<and> unique_on u_name (users d) \<and> unique_on u_email (users d)
      \<and> (\<forall>r\<in>set (users d). u_role r = RoleAdmin \<or> u_role r = RoleUser)
      \<and> (\<forall>r\<in>set (users d). 0 \<le> u_fails r \<and> u_fails r < ac_max_attempts cfg))"

definition has_admin :: "db \<Rightarrow> bool" where
  "has_admin d = (\<exists>r\<in>set (users d). u_role r = RoleAdmin)"

named_theorems auth_defs \<open>the operations of the account service\<close>

lemmas account_ops [auth_defs] =
  createUser_def Register_def CreateUser_def BootstrapAdmin_def insert_user_def Login_def
  login_failed_def ChangePassword_def UnlockUser_def UpdateUserRole_def

lemma users_update_user [simp]:
  "users (update_user uid f d) = update_where (\<lambda>r. u_id r = uid) f (users d)"
  by (simp add: update_user_def)

lemma users_ok_update:
  assumes "users_ok cfg d"
    and "\<And>r. r \<in> set (users d) \<Longrightarrow> u_id r = uid \<Longrightarrow> u_id (f r) = u_id r \<and> u_name (f r) = u_name r
           \<and> u_email (f r) = u_email r \<and> (u_role (f r) = RoleAdmin \<or> u_role (f r) = RoleUser)
           \<and> 0 \<le> u_fails (f r) \<and> u_fails (f r) < ac_max_attempts cfg"
  shows "users_ok cfg (update_user uid f d)"
proof -
  have keys: "map g (update_where (\<lambda>r. u_id r = uid) f (users d)) = map g (users d)"
    if "\<And>r. r \<in> set (users d) \<Longrightarrow> u_id r = uid \<Longrightarrow> g (f r) = g r" for g :: "user_row \<Rightarrow> 'b"
    using that by (simp add: update_where_def)
  show ?thesis
    using assms(1) assms(2)
    by (auto simp: users_ok_def unique_on_def keys)
qed

lemma users_ok_insert:
  "users_ok cfg d \<Longrightarrow> insert_user r d = (Inr q, d1) \<Longrightarrow> u_fails r = 0 \<Longrightarrow> 0 < ac_max_attempts cfg \<Longrightarrow>
     users_ok cfg d1"
  by (auto simp: users_ok_def insert_user_def unique_on_insert split: if_splits)

lemma insert_user_error: "insert_user r d = (Inl e, d1) \<Longrightarrow> d1 = d"
  by (auto simp: insert_user_def split: if_splits)

lemma createUser_ok:
  assumes "users_ok cfg d" and "0 < ac_max_attempts cfg"
  shows "users_ok cfg (snd (createUser cr now nid n e p role d))"
proof (cases "bcrypt_hash cr p")
  case (Inl x)
  with assms(1) show ?thesis by (simp add: createUser_def)
next
  case (Inr h)
  let ?r = "\<lparr>u_id = nid, u_name = n, u_email = e, u_hash = h, u_avatar = None, u_created = now,
              u_role = role, u_fails = 0, u_locked = None, u_pwd_changed = now\<rparr>"
  obtain x d1 where ins: "insert_user ?r d = (x, d1)" by (cases "insert_user ?r d")
  show ?thesis
  proof (cases x)
    case (Inl y)
    with ins have "d1 = d" using insert_user_error by blast
    with Inl Inr ins assms(1) show ?thesis by (simp add: createUser_def)
  next
    case (Inr q)
    with ins have "users_ok cfg d1" using users_ok_insert [OF assms(1)] assms(2) by simp
    with Inr \<open>bcrypt_hash cr p = Inr h\<close> ins show ?thesis by (simp add: createUser_def)
  qed
qed

lemma BootstrapAdmin_ok:
  "users_ok cfg d \<Longrightarrow> 0 < ac_max_attempts cfg \<Longrightarrow> users_ok cfg (snd (BootstrapAdmin cr now nid n e p d))"
  using createUser_ok [of cfg d cr now nid n e p RoleAdmin]
  by (auto simp: BootstrapAdmin_def split: prod.splits sum.splits)

lemma login_failed_users:
  assumes "unique_on u_id (users d)" and "r \<in> set (users d)" and "u_id r = uid"
  shows "users (login_failed cfg now uid d) =
    update_where (\<lambda>q. u_id q = uid)
      (\<lambda>q. if u_fails r + 1 \<ge> ac_max_attempts cfg
           then q\<lparr>u_locked := Some (now + ac_lockout cfg), u_fails := 0\<rparr>
           else q\<lparr>u_fails := u_fails q + 1\<rparr>) (users d)"
proof -
  have "query_row (\<lambda>q. u_id q = uid) (users d) = Some r"
    using assms query_row_unique by metis
  then have "query_row (\<lambda>q. u_id q = uid)
               (update_where (\<lambda>q. u_id q = uid) (\<lambda>q. q\<lparr>u_fails := u_fails q + 1\<rparr>) (users d))
             = Some (r\<lparr>u_fails := u_fails r + 1\<rparr>)"
    using assms(3) by (simp add: query_row_update)
  then show ?thesis
    by (simp add: login_failed_def Let_def update_where_def comp_def cong: if_cong)
qed

lemma login_failed_ok:
  assumes "users_ok cfg d" and "r \<in> set (users d)" and "0 < ac_max_attempts cfg"
  shows "users_ok cfg (login_failed cfg now (u_id r) d)"
proof -
  let ?f = "\<lambda>q. if u_fails r + 1 \<ge> ac_max_attempts cfg
           then q\<lparr>u_locked := Some (now + ac_lockout cfg), u_fails := 0\<rparr>
           else q\<lparr>u_fails := u_fails q + 1\<rparr>"
  have uid: "unique_on u_id (users d)" using assms(1) by (simp add: users_ok_def)
  have same: "users (login_failed cfg now (u_id r) d) = users (update_user (u_id r) ?f d)"
    using login_failed_users [OF uid assms(2) refl] by simp
  have "users_ok cfg (update_user (u_id r) ?f d)"
  proof (rule users_ok_update [OF assms(1)])
    fix q assume "q \<in> set (users d)" and "u_id q = u_id r"
    with uid assms(2) have "q = r" by (metis unique_on_inj)
    with assms show "u_id (?f q) = u_id q \<and> u_name (?f q) = u_name q \<and> u_email (?f q) = u_email q
        \<and> (u_role (?f q) = RoleAdmin \<or> u_role (?f q) = RoleUser)
        \<and> 0 \<le> u_fails (?f q) \<and> u_fails (?f q) < ac_max_attempts cfg"
      by (auto simp: users_ok_def)
  qed
  with same show ?thesis by (simp add: users_ok_def)
qed

lemma Login_db:
  "snd (Login cr cfg now n p d) =
     (case query_row (login_match n) (users d) of
        None \<Rightarrow> d
      | Some r \<Rightarrow>
          if locked_at now (u_locked r) then d
          else if bcrypt_ok cr (u_hash r) p
               then update_user (u_id r) (\<lambda>q. q\<lparr>u_fails := 0, u_locked := None\<rparr>) d
               else login_failed cfg now (u_id r) d)"
  by (auto simp: Login_def Let_def locked_at_def split: option.splits sum.splits)

lemma Login_ok:
  assumes ok: "users_ok cfg d" and pos: "0 < ac_max_attempts cfg"
  shows "users_ok cfg (snd (Login cr cfg now n p d))"
proof (cases "query_row (login_match n) (users d)")
  case None
  with ok show ?thesis by (simp add: Login_db)
next
  case (Some r)
  then have r: "r \<in> set (users d)" using query_row_Some by metis
  have "users_ok cfg (update_user (u_id r) (\<lambda>q. q\<lparr>u_fails := 0, u_locked := None\<rparr>) d)"
    using ok pos by (intro users_ok_update) (auto simp: users_ok_def)
  with Some ok login_failed_ok [OF ok r pos] show ?thesis by (simp add: Login_db)
qed

lemma ChangePassword_ok: "users_ok cfg d \<Longrightarrow> users_ok cfg (snd (ChangePassword cr now uid p q d))"
  by (auto simp: ChangePassword_def users_ok_def unique_on_update split: option.splits sum.splits)

lemma UnlockUser_ok:
  "users_ok cfg d \<Longrightarrow> 0 < ac_max_attempts cfg \<Longrightarrow> users_ok cfg (snd (UnlockUser uid d))"
  by (auto simp: UnlockUser_def users_ok_def unique_on_update)

lemma UpdateUserRole_db:
  "snd (UpdateUserRole actor target role d) =
     (if (role = RoleAdmin \<or> role = RoleUser)
         \<and> (\<exists>r. query_row (\<lambda>r. u_id r = target) (users d) = Some r
               \<and> \<not> (u_role r = RoleAdmin \<and> role \<noteq> RoleAdmin \<and> admin_count d \<le> 1))
      then update_user target (\<lambda>q. q\<lparr>u_role := role\<rparr>) d else d)"
  by (auto simp: UpdateUserRole_def Let_def split: option.splits)

lemma UpdateUserRole_ok: "users_ok cfg d \<Longrightarrow> users_ok cfg (snd (UpdateUserRole actor target role d))"
  unfolding UpdateUserRole_db
  by (auto simp: users_ok_def unique_on_update)

lemma users_cascade_user: "users (cascade_user uid d) = delete_where (\<lambda>r. u_id r = uid) (users d)"
  by (simp add: cascade_user_def)

lemma delete_user_row_ok: "users_ok cfg d \<Longrightarrow> users_ok cfg (snd (delete_user_row uid d))"
  by (auto simp: delete_user_row_def users_ok_def users_cascade_user unique_on_delete)

lemma DeleteUser_db:
  "snd (snd (DeleteUser cr actor target c d)) =
     (if delete_check actor target d = Inr () then snd (delete_user_row target d) else d)"
  by (cases "delete_check actor target d"; cases "delete_user_row target d")
     (auto simp: DeleteUser_def delete_exec_def split: sum.splits)

lemma DeleteUser_ok: "users_ok cfg d \<Longrightarrow> users_ok cfg (snd (snd (DeleteUser cr actor target c d)))"
  by (simp add: DeleteUser_db delete_user_row_ok)

subsection \<open>Requests as steps\<close>

text \<open>
  Any request that changes an account: the crypto library, the clock and the generated
  identifier are whatever they are at that request.
\<close>

inductive auth_step :: "auth_config \<Rightarrow> db \<Rightarrow> db \<Rightarrow> bool" for cfg :: auth_config where
  register: "auth_step cfg d (snd (Register cr now nid n e p d))"
| create: "auth_step cfg d (snd (CreateUser cr now nid n e p role d))"
| bootstrap: "auth_step cfg d (snd (BootstrapAdmin cr now nid n e p d))"
| login: "auth_step cfg d (snd (Login cr cfg now n p d))"
| password: "auth_step cfg d (snd (ChangePassword cr now uid p q d))"
| unlock: "auth_step cfg d (snd (UnlockUser uid d))"
| role: "auth_step cfg d (snd (UpdateUserRole actor target role d))"
| delete: "auth_step cfg d (snd (snd (DeleteUser cr actor target c d)))"

lemma auth_step_ok:
  assumes "auth_step cfg d d'" and "users_ok cfg d" and "0 < ac_max_attempts cfg"
  shows "users_ok cfg d'"
  using assms
  by (induction rule: auth_step.induct)
     (simp_all add: Register_def CreateUser_def createUser_ok BootstrapAdmin_ok Login_ok
        ChangePassword_ok UnlockUser_ok UpdateUserRole_ok DeleteUser_ok del: One_nat_def)

lemma auth_run_ok:
  assumes "(auth_step cfg)\<^sup>*\<^sup>* d d'" and "users_ok cfg d" and "0 < ac_max_attempts cfg"
  shows "users_ok cfg d'"
  using assms by (induction rule: rtranclp_induct) (auto intro: auth_step_ok)

subsection \<open>There is always an administrator\<close>

lemma rows_affected_le_1:
  assumes "unique_on f t" and "\<forall>r\<in>set t. P r \<longrightarrow> f r = k"
  shows "rows_affected P t \<le> 1"
proof -
  have "distinct (map f (filter P t))" using assms(1) by (simp add: unique_on_def distinct_map_filter)
  moreover have "set (map f (filter P t)) \<subseteq> {k}" using assms(2) by auto
  ultimately have "length (map f (filter P t)) \<le> card {k}"
    by (metis card_mono distinct_card finite.emptyI finite.insertI)
  then show ?thesis by (simp add: rows_affected_def)
qed

text \<open>Two administrators: besides any one account there is another administrator.\<close>

lemma another_admin:
  assumes "unique_on u_id (users d)" and "\<not> admin_count d \<le> 1"
  shows "\<exists>r\<in>set (users d). u_role r = RoleAdmin \<and> u_id r \<noteq> target"
  using assms rows_affected_le_1 [of u_id "users d" "\<lambda>r. u_role r = RoleAdmin" target]
  by (auto simp: admin_count_def)

lemma has_admin_updateI:
  assumes "a \<in> set (users d)" and "u_role (if u_id a = uid then f a else a) = RoleAdmin"
  shows "has_admin (update_user uid f d)"
proof -
  have "(if u_id a = uid then f a else a) \<in> set (users (update_user uid f d))"
    using assms(1) unfolding users_update_user set_update_where by (rule imageI)
  with assms(2) show ?thesis unfolding has_admin_def by (rule bexI)
qed

lemma has_admin_update:
  assumes "has_admin d" and "\<And>r. u_id r = uid \<Longrightarrow> u_role (f r) = u_role r"
  shows "has_admin (update_user uid f d)"
proof -
  obtain a where "a \<in> set (users d)" "u_role a = RoleAdmin"
    using assms(1) by (auto simp: has_admin_def)
  with assms(2) [of a] show ?thesis by (auto intro: has_admin_updateI [of a])
qed

lemma has_admin_createUser: "has_admin d \<Longrightarrow> has_admin (snd (createUser cr now nid n e p role d))"
  by (auto simp: createUser_def insert_user_def has_admin_def split: sum.split)

lemma has_admin_UpdateUserRole:
  assumes "has_admin d" and uid: "unique_on u_id (users d)"
  shows "has_admin (snd (UpdateUserRole actor target role d))"
proof (cases "\<exists>r. query_row (\<lambda>r. u_id r = target) (users d) = Some r \<and> u_role r = RoleAdmin")
  case False
  obtain a where a: "a \<in> set (users d)" "u_role a = RoleAdmin"
    using assms(1) by (auto simp: has_admin_def)
  have "query_row (\<lambda>r. u_id r = target) (users d) = Some a" if "u_id a = target"
    using uid a(1) that by (rule query_row_unique)
  with False a have "u_id a \<noteq> target" by auto
  with a assms(1) show ?thesis
    by (auto simp: UpdateUserRole_db intro: has_admin_updateI [of a])
next
  case True
  then obtain r where r: "query_row (\<lambda>r. u_id r = target) (users d) = Some r" "u_role r = RoleAdmin"
    by blast
  show ?thesis
  proof (cases "role = RoleAdmin")
    case True
    moreover obtain a where "a \<in> set (users d)" "u_role a = RoleAdmin"
      using assms(1) by (auto simp: has_admin_def)
    ultimately show ?thesis using assms(1)
      by (auto simp: UpdateUserRole_db intro: has_admin_updateI [of a])
  next
    case False
    show ?thesis
    proof (cases "admin_count d \<le> 1")
      case True
      with r False assms(1) show ?thesis by (simp add: UpdateUserRole_db)
    next
      case False
      then obtain b where "b \<in> set (users d)" "u_role b = RoleAdmin" "u_id b \<noteq> target"
        using another_admin [OF uid] by blast
      then show ?thesis using assms(1)
        by (auto simp: UpdateUserRole_db intro: has_admin_updateI [of b])
    qed
  qed
qed

lemma has_admin_delete:
  assumes "has_admin d" and uid: "unique_on u_id (users d)" and chk: "delete_check actor target d = Inr ()"
  shows "has_admin (snd (delete_user_row target d))"
proof -
  obtain r where r: "query_row (\<lambda>r. u_id r = target) (users d) = Some r"
      "\<not> (u_role r = RoleAdmin \<and> admin_count d \<le> 1)"
    using chk by (auto simp: delete_check_def split: if_splits option.splits)
  obtain a where a: "a \<in> set (users d)" "u_role a = RoleAdmin"
    using assms(1) by (auto simp: has_admin_def)
  have "\<exists>b\<in>set (users d). u_role b = RoleAdmin \<and> u_id b \<noteq> target"
  proof (cases "u_id a = target")
    case True
    then have "r = a" using query_row_unique [OF uid a(1)] r(1) by simp
    with a r(2) show ?thesis using another_admin [OF uid] by blast
  qed (use a in blast)
  then show ?thesis using assms(1)
    by (auto simp: delete_user_row_def has_admin_def users_cascade_user)
qed

lemma auth_step_has_admin:
  assumes "auth_step cfg d d'" and "has_admin d" and "unique_on u_id (users d)"
  shows "has_admin d'"
  using assms
proof (induction rule: auth_step.induct)
  case (bootstrap d cr now nid n e p)
  then show ?case
    using has_admin_createUser [of d cr now nid n e p RoleAdmin]
    by (auto simp: BootstrapAdmin_def split: prod.splits sum.splits)
next
  case (login d cr now n p)
  have "has_admin (login_failed cfg now uid d)" for uid
    using login.prems(1) by (auto simp: login_failed_def Let_def intro!: has_admin_update)
  with login show ?case
    by (auto simp: Login_db intro: has_admin_update split: option.split)
next
  case (password d cr now uid p q)
  then show ?case
    by (auto simp: ChangePassword_def intro: has_admin_update split: option.split sum.split)
next
  case (delete d cr actor target c)
  then show ?case by (simp add: DeleteUser_db has_admin_delete)
qed (auto simp: Register_def CreateUser_def UnlockUser_def
       intro: has_admin_createUser has_admin_UpdateUserRole has_admin_update)


lemma auth_run_has_admin:
  assumes "(auth_step cfg)\<^sup>*\<^sup>* d d'" and "users_ok cfg d" and "0 < ac_max_attempts cfg" and "has_admin d"
  shows "has_admin d'"
  using assms
proof (induction rule: rtranclp_induct)
  case (step y z)
  then have "users_ok cfg y" using auth_run_ok by blast
  with step show ?case using auth_step_has_admin by (auto simp: users_ok_def)
qed

subsection \<open>Lockout against its specification\<close>

text \<open>
  The lock of one account, apart from tables and queries: a failure counter and the end of the
  lock. An attempt is its time and whether the password was right.
\<close>

record lock =
  lk_fails :: int
  lk_until :: "instant option"

datatype attempt_result = Granted | Denied | Locked

definition lock_step :: "auth_config \<Rightarrow> instant \<Rightarrow> bool \<Rightarrow> lock \<Rightarrow> attempt_result \<times> lock" where
  "lock_step cfg now right l =
     (if locked_at now (lk_until l) then (Locked, l)
      else if right then (Granted, \<lparr>lk_fails = 0, lk_until = None\<rparr>)
      else if lk_fails l + 1 \<ge> ac_max_attempts cfg
           then (Denied, \<lparr>lk_fails = 0, lk_until = Some (now + ac_lockout cfg)\<rparr>)
           else (Denied, l\<lparr>lk_fails := lk_fails l + 1\<rparr>))"

definition lock_of :: "user_row \<Rightarrow> lock" where
  "lock_of r = \<lparr>lk_fails = u_fails r, lk_until = u_locked r\<rparr>"

definition account_lock :: "string \<Rightarrow> db \<Rightarrow> lock option" where
  "account_lock name d = map_option lock_of (query_row (login_match name) (users d))"

fun login_outcome :: "'a result \<Rightarrow> attempt_result" where
  "login_outcome (Inl ErrAccountLocked) = Locked"
| "login_outcome (Inl ErrInvalidCredentials) = Denied"
| "login_outcome r = Granted"

lemma login_match_fields:
  "u_name r = u_name q \<Longrightarrow> u_email r = u_email q \<Longrightarrow> login_match n r = login_match n q"
  by (simp add: login_match_def)

lemma query_login_update:
  assumes "\<And>r. u_name (f r) = u_name r \<and> u_email (f r) = u_email r"
  shows "query_row (login_match n) (update_where (\<lambda>r. u_id r = uid) f t) =
     map_option (\<lambda>r. if u_id r = uid then f r else r) (query_row (login_match n) t)"
  by (simp add: query_row_update login_match_def assms)

lemma login_failed_match:
  assumes "unique_on u_id (users d)" and r: "query_row (login_match n) (users d) = Some r"
  shows "query_row (login_match n) (users (login_failed cfg now (u_id r) d)) =
    Some (if u_fails r + 1 \<ge> ac_max_attempts cfg
          then r\<lparr>u_locked := Some (now + ac_lockout cfg), u_fails := 0\<rparr>
          else r\<lparr>u_fails := u_fails r + 1\<rparr>)"
proof -
  have "r \<in> set (users d)" using r query_row_Some by metis
  with assms show ?thesis
    by (simp add: login_failed_users query_row_update login_match_def)
qed

text \<open>
  The request refines the specification: the lock of the account after a login is the lock the
  specification reaches, whatever the rest of the table holds.
\<close>

definition signs :: "crypto \<Rightarrow> auth_config \<Rightarrow> bool" where
  "signs cr cfg = (\<forall>c. \<exists>tok. jwt_sign cr (ac_secret cfg) c = Inr tok)"

lemma Login_row:
  assumes "unique_on u_id (users d)" and "query_row (login_match n) (users d) = Some r"
  shows "\<exists>q. query_row (login_match n) (users (snd (Login cr cfg now n p d))) = Some q
      \<and> u_hash q = u_hash r
      \<and> lock_of q = snd (lock_step cfg now (bcrypt_ok cr (u_hash r) p) (lock_of r))"
  using assms
  by (auto simp: Login_db lock_step_def lock_of_def login_failed_match query_login_update)

lemma Login_outcome:
  assumes "query_row (login_match n) (users d) = Some r" and "signs cr cfg"
  shows "login_outcome (fst (Login cr cfg now n p d)) =
           fst (lock_step cfg now (bcrypt_ok cr (u_hash r) p) (lock_of r))"
proof -
  obtain tok where "issueJWT cr cfg now (u_id r) (u_name r) = Inr tok"
    using assms(2) by (auto simp: signs_def issueJWT_def)
  with assms(1) show ?thesis by (simp add: Login_def lock_step_def lock_of_def Let_def)
qed

fun lock_run :: "auth_config \<Rightarrow> (instant \<times> bool) list \<Rightarrow> lock \<Rightarrow> attempt_result list \<times> lock" where
  "lock_run cfg [] l = ([], l)"
| "lock_run cfg ((t, b) # as) l =
     (let (x, l1) = lock_step cfg t b l; (xs, l2) = lock_run cfg as l1 in (x # xs, l2))"

fun guess_run ::
  "crypto \<Rightarrow> auth_config \<Rightarrow> string \<Rightarrow> (instant \<times> string) list \<Rightarrow> db \<Rightarrow> attempt_result list \<times> db" where
  "guess_run cr cfg n [] d = ([], d)"
| "guess_run cr cfg n ((t, p) # gs) d =
     (let (x, d1) = Login cr cfg t n p d; (xs, d2) = guess_run cr cfg n gs d1
      in (login_outcome x # xs, d2))"

lemma guess_run_lock_run:
  assumes "users_ok cfg d" and "0 < ac_max_attempts cfg" and "signs cr cfg"
    and "query_row (login_match n) (users d) = Some r"
  shows "fst (guess_run cr cfg n gs d) =
           fst (lock_run cfg (map (\<lambda>(t, p). (t, bcrypt_ok cr (u_hash r) p)) gs) (lock_of r))
      \<and> account_lock n (snd (guess_run cr cfg n gs d)) =
           Some (snd (lock_run cfg (map (\<lambda>(t, p). (t, bcrypt_ok cr (u_hash r) p)) gs) (lock_of r)))"
  using assms(1,4)
proof (induction gs arbitrary: d r)
  case Nil
  then show ?case by (simp add: account_lock_def)
next
  case (Cons g gs)
  obtain t p where g: "g = (t, p)" by (cases g)
  have "unique_on u_id (users d)" using Cons.prems(1) by (simp add: users_ok_def)
  then obtain q where q: "query_row (login_match n) (users (snd (Login cr cfg t n p d))) = Some q"
      "u_hash q = u_hash r" "lock_of q = snd (lock_step cfg t (bcrypt_ok cr (u_hash r) p) (lock_of r))"
    using Login_row Cons.prems(2) by blast
  have ok: "users_ok cfg (snd (Login cr cfg t n p d))" using Cons.prems(1) assms(2) by (rule Login_ok)
  show ?case
    using Cons.IH [OF ok q(1)] q(2,3) Login_outcome [OF Cons.prems(2) assms(3), of t p]
    by (simp add: g split_def Let_def)
qed

lemma lock_run_locked:
  "lk_until l = Some u \<Longrightarrow> \<forall>(t, b)\<in>set as. t < u \<Longrightarrow>
     lock_run cfg as l = (replicate (length as) Locked, l)"
  by (induction as) (auto simp: lock_step_def locked_at_def)

text \<open>
  A lock set inside a window of the lockout time outlasts the window, so the attempts denied there
  end with the first lock that one of them sets; a right password before it starts the count anew.
\<close>

lemma lock_run_denied_bound:
  assumes "\<forall>(t, b)\<in>set as. start \<le> t \<and> t < start + ac_lockout cfg"
    and "lk_fails l < ac_max_attempts cfg" and "0 < ac_max_attempts cfg"
  shows "int (count_list (fst (lock_run cfg as l)) Denied) \<le>
    ac_max_attempts cfg - lk_fails l + (ac_max_attempts cfg - 1) * int (count_list (fst (lock_run cfg as l)) Granted)"
  using assms(1,2)
proof (induction as arbitrary: l)
  case (Cons a as)
  obtain t b where a: "a = (t, b)" and t: "start \<le> t" "t < start + ac_lockout cfg"
    using Cons.prems(1) by (cases a) auto
  have rest: "\<forall>(t, b)\<in>set as. start \<le> t \<and> t < start + ac_lockout cfg" using Cons.prems(1) by simp
  consider (kept) "locked_at t (lk_until l)" | (right) "\<not> locked_at t (lk_until l)" b
    | (last) "\<not> locked_at t (lk_until l)" "\<not> b" "lk_fails l + 1 \<ge> ac_max_attempts cfg"
    | (wrong) "\<not> locked_at t (lk_until l)" "\<not> b" "\<not> lk_fails l + 1 \<ge> ac_max_attempts cfg" by blast
  then show ?case
  proof cases
    case kept
    with Cons.IH [OF rest Cons.prems(2)] show ?thesis by (simp add: a lock_step_def split_def Let_def)
  next
    case right
    with Cons.IH [OF rest, of "\<lparr>lk_fails = 0, lk_until = None\<rparr>"] Cons.prems(2) assms(3) show ?thesis
      by (simp add: a lock_step_def split_def Let_def algebra_simps)
  next
    case last
    let ?l = "\<lparr>lk_fails = 0, lk_until = Some (t + ac_lockout cfg)\<rparr>"
    have "lock_run cfg as ?l = (replicate (length as) Locked, ?l)"
      by (rule lock_run_locked) (use rest t in auto)
    with last Cons.prems(2) show ?thesis by (simp add: a lock_step_def)
  next
    case wrong
    with Cons.IH [OF rest, of "l\<lparr>lk_fails := lk_fails l + 1\<rparr>"] show ?thesis
      by (simp add: a lock_step_def split_def Let_def)
  qed
qed simp

lemma lock_run_reaches_lock:
  assumes "\<forall>(t, b)\<in>set as. \<not> b \<and> \<not> locked_at t (lk_until l)"
    and "int (length as) = ac_max_attempts cfg - lk_fails l" and "as \<noteq> []"
  shows "lock_run cfg as l =
    (replicate (length as) Denied, \<lparr>lk_fails = 0, lk_until = Some (fst (last as) + ac_lockout cfg)\<rparr>)"
  using assms
proof (induction as arbitrary: l)
  case (Cons a as)
  obtain t where a: "a = (t, False)" and t: "\<not> locked_at t (lk_until l)"
    using Cons.prems(1) by (cases a) auto
  show ?case
  proof (cases "as = []")
    case True
    with t Cons.prems(2) show ?thesis by (simp add: a lock_step_def)
  next
    case False
    then have "0 < int (length as)" by simp
    moreover have "1 + int (length as) = ac_max_attempts cfg - lk_fails l" using Cons.prems(2) by simp
    ultimately have "\<not> lk_fails l + 1 \<ge> ac_max_attempts cfg" by linarith
    with False Cons.IH [of "l\<lparr>lk_fails := lk_fails l + 1\<rparr>"] Cons.prems t show ?thesis
      by (simp add: a lock_step_def split_def)
  qed
qed simp


lemma rows_affected_ge_2:
  assumes "x \<in> set t" "y \<in> set t" "x \<noteq> y" "P x" "P y"
  shows "2 \<le> rows_affected P t"
proof -
  have "card {x, y} \<le> card (set (filter P t))" using assms by (intro card_mono) auto
  also have "\<dots> \<le> length (filter P t)" by (rule card_length)
  finally show ?thesis using assms(3) by (simp add: rows_affected_def)
qed

lemma delete_exec_db:
  assumes "y \<in> set (users d)" and "u_id y = b" and "\<not> user_referenced b d"
  shows "snd (snd (delete_exec cr b c d)) = cascade_user b d"
proof -
  have "\<not> key_free u_id b (users d)" using assms(1,2) by (auto simp: key_free_iff)
  then show ?thesis using assms by (auto simp: delete_exec_def delete_user_row_def)
qed

lemma user_referenced_cascade: "user_referenced a (cascade_user b d) = user_referenced a d"
  by (simp add: user_referenced_def cascade_user_def)

lemma delete_check_two_admins:
  assumes "unique_on u_id (users d)" and "actor \<noteq> u_id y"
    and "x \<in> set (users d)" "u_role x = RoleAdmin" "y \<in> set (users d)" "u_role y = RoleAdmin" "x \<noteq> y"
  shows "delete_check actor (u_id y) d = Inr ()"
  using assms rows_affected_ge_2 [of x "users d" y "\<lambda>r. u_role r = RoleAdmin"]
    query_row_unique [of u_id "users d" y]
  by (simp add: delete_check_def admin_count_def)

subsection \<open>Properties\<close>

text \<open>C1: whatever requests are served, in any order and number, an installation that has an
administrator keeps one: neither deleting users nor changing roles removes the last.\<close>

theorem auth_keeps_admin:
  assumes "(auth_step cfg)\<^sup>*\<^sup>* d d'" and "users_ok cfg d" and "0 < ac_max_attempts cfg" and "has_admin d"
  shows "has_admin d' \<and> users_ok cfg d'"
  using assms auth_run_has_admin auth_run_ok by blast

definition example_user :: "nat \<Rightarrow> string \<Rightarrow> string \<Rightarrow> user_row" where
  "example_user n name role = \<lparr>u_id = Uuid n, u_name = name, u_email = name @ ''@x'', u_hash = ''h'' @ name,
     u_avatar = None, u_created = 0, u_role = role, u_fails = 0, u_locked = None, u_pwd_changed = 0\<rparr>"

definition example_db :: db where
  "example_db = empty_db\<lparr>users := [example_user 1 ''ann'' ''admin'', example_user 2 ''bob'' ''admin'']\<rparr>"

definition example_cfg :: auth_config where
  "example_cfg = NewService ''k'' None"

text \<open>
  Stand-ins for the libraries that satisfy \<open>crypto_laws\<close>: a hash is its password behind an h,
  a token spells out its claims (with no signature), an identifier is written in decimal.
\<close>

definition plain_token :: "jwt_claims \<Rightarrow> string" where
  "plain_token c = int_string (jc_exp c) @ CHR ''|'' # (case jc_iat c of None \<Rightarrow> [] | Some i \<Rightarrow> int_string i)
     @ CHR ''|'' # decimal (length (jc_sub c)) @ CHR ''|'' # jc_sub c @ jc_username c"

definition plain_decode :: "string \<Rightarrow> jwt_token option" where
  "plain_decode s =
     (case split_n 4 ''|'' s of
        [e, i, n, rest] \<Rightarrow> Some \<lparr>jt_method = ''HS256'', jt_claims =
           \<lparr>jc_sub = take (read_decimal n) rest, jc_username = drop (read_decimal n) rest,
            jc_exp = read_int e, jc_iat = (if i = [] then None else Some (read_int i))\<rparr>\<rparr>
      | _ \<Rightarrow> None)"

lemma plain_decode_token: "plain_decode (plain_token c) = Some \<lparr>jt_method = ''HS256'', jt_claims = c\<rparr>"
proof -
  have iat: "CHR ''|'' \<notin> set (case jc_iat c of None \<Rightarrow> [] | Some i \<Rightarrow> int_string i)"
    by (auto simp: bar_not_int split: option.split)
  have "split_n 4 ''|'' (plain_token c) =
     [int_string (jc_exp c), case jc_iat c of None \<Rightarrow> [] | Some i \<Rightarrow> int_string i,
      decimal (length (jc_sub c)), jc_sub c @ jc_username c]"
    by (simp add: plain_token_def eval_nat_numeral cut_byte bar_not_int bar_not_decimal iat del: cut.simps)
  then show ?thesis by (simp add: plain_decode_def split: option.split)
qed

definition example_crypto :: crypto where
  "example_crypto = \<lparr>bcrypt_hash = (\<lambda>p. Inr (CHR ''h'' # p)), bcrypt_ok = (\<lambda>h p. h = CHR ''h'' # p),
     jwt_sign = (\<lambda>k c. Inr (plain_token c)), jwt_decode = plain_decode,
     jwt_verify = (\<lambda>k now s. case plain_decode s of None \<Rightarrow> False
                             | Some t \<Rightarrow> now < jc_exp (jt_claims t) * 1000000000),
     token_hash = (\<lambda>s. s), uuid_string = (\<lambda>u. case u of Uuid n \<Rightarrow> decimal n),
     uuid_parse = (\<lambda>s. Some (Uuid (read_decimal s)))\<rparr>"

lemma example_crypto_laws: "crypto_laws example_crypto"
  by (auto simp: crypto_laws_def example_crypto_def plain_decode_token split: uuid.split)

lemmas example_defs = example_user_def example_db_def example_cfg_def example_crypto_def NewService_def
  empty_db_def role_defs

lemma example_users_ok: "users_ok example_cfg example_db \<and> has_admin example_db"
  by (simp add: example_defs users_ok_def has_admin_def unique_on_def)

lemma example_max: "0 < ac_max_attempts example_cfg"
  by (simp add: example_defs)

lemma auth_keeps_admin_witness:
  "has_admin (snd (UpdateUserRole (Uuid 1) (Uuid 2) ''user'' example_db)) \<and>
   users_ok example_cfg (snd (UpdateUserRole (Uuid 1) (Uuid 2) ''user'' example_db))"
proof (rule auth_keeps_admin)
  show "(auth_step example_cfg)\<^sup>*\<^sup>* example_db (snd (UpdateUserRole (Uuid 1) (Uuid 2) ''user'' example_db))"
    by (rule r_into_rtranclp) (rule auth_step.role)
qed (use example_users_ok example_max in auto)

text \<open>The check for the last administrator and the DELETE are separate statements. Two
administrators who delete each other at the same time both pass the check, and the two DELETEs
leave no administrator.\<close>

theorem concurrent_deletes_remove_all_admins:
  assumes "unique_on u_id (users d)" and "x \<in> set (users d)" and "y \<in> set (users d)" and "x \<noteq> y"
    and "\<forall>r\<in>set (users d). u_role r = RoleAdmin \<longleftrightarrow> r = x \<or> r = y"
    and "\<not> user_referenced (u_id x) d" and "\<not> user_referenced (u_id y) d"
  shows "delete_check (u_id x) (u_id y) d = Inr () \<and> delete_check (u_id y) (u_id x) d = Inr ()
    \<and> \<not> has_admin (snd (snd (delete_exec cr (u_id x) c' (snd (snd (delete_exec cr (u_id y) c d))))))"
proof -
  have ids: "u_id x \<noteq> u_id y" using assms(1-4) by (metis unique_on_inj)
  have "snd (snd (delete_exec cr (u_id x) c' (cascade_user (u_id y) d))) = cascade_user (u_id x) (cascade_user (u_id y) d)"
    by (rule delete_exec_db [of x]) (use assms ids in \<open>auto simp: users_cascade_user user_referenced_cascade\<close>)
  then have "\<not> has_admin (snd (snd (delete_exec cr (u_id x) c' (snd (snd (delete_exec cr (u_id y) c d))))))"
    using assms by (auto simp: delete_exec_db [of y] has_admin_def users_cascade_user)
  with assms ids show ?thesis by (simp add: delete_check_two_admins)
qed

lemma concurrent_deletes_remove_all_admins_witness:
  "\<not> has_admin (snd (snd (delete_exec example_crypto (Uuid 1) (cache_new 0)
      (snd (snd (delete_exec example_crypto (Uuid 2) (cache_new 0) example_db))))))"
  using concurrent_deletes_remove_all_admins [of example_db "example_user 1 ''ann'' ''admin''"
      "example_user 2 ''bob'' ''admin''" example_crypto "cache_new 0" "cache_new 0"]
  by (simp add: example_defs unique_on_def user_referenced_def references_def)

text \<open>C2: a login request does to the account exactly what the lock specification says, with the
password check of the stored hash as its input: outcome and new lock agree.\<close>

theorem login_refines_lock:
  assumes "users_ok cfg d" and "signs cr cfg" and "query_row (login_match n) (users d) = Some r"
  shows "(login_outcome (fst (Login cr cfg now n p d)), account_lock n (snd (Login cr cfg now n p d))) =
     (case lock_step cfg now (bcrypt_ok cr (u_hash r) p) (lock_of r) of (x, l) \<Rightarrow> (x, Some l))"
proof -
  have "unique_on u_id (users d)" using assms(1) by (simp add: users_ok_def)
  then show ?thesis
    using Login_row [OF _ assms(3), of cr cfg now p] Login_outcome [OF assms(3,2), of now p]
    by (auto simp: account_lock_def split: prod.split)
qed

lemma example_signs: "signs example_crypto example_cfg"
  by (simp add: signs_def example_defs)

lemma example_row:
  "query_row (login_match ''ann'') (users example_db) = Some (example_user 1 ''ann'' ''admin'')"
  by (simp add: example_defs login_match_def)

lemma login_refines_lock_witness:
  "login_outcome (fst (Login example_crypto example_cfg 0 ''ann'' ''no'' example_db)) = Denied"
  using login_refines_lock [OF conjunct1 [OF example_users_ok] example_signs example_row, of 0 "''no''"]
  by (simp add: lock_step_def lock_of_def example_defs locked_at_def)



lemma guess_run_locks:
  assumes "users_ok cfg d" and "signs cr cfg" and r: "query_row (login_match n) (users d) = Some r"
    and "\<forall>(t, p)\<in>set gs. \<not> bcrypt_ok cr (u_hash r) p \<and> \<not> locked_at t (u_locked r)"
    and "int (length gs) = ac_max_attempts cfg - u_fails r"
    and "now < fst (last gs) + ac_lockout cfg"
  shows "fst (guess_run cr cfg n gs d) = replicate (length gs) Denied
    \<and> Login cr cfg now n p (snd (guess_run cr cfg n gs d)) = (Inl ErrAccountLocked, snd (guess_run cr cfg n gs d))"
proof -
  have row: "r \<in> set (users d)" using r query_row_Some by metis
  have fails: "u_fails r < ac_max_attempts cfg \<and> 0 < ac_max_attempts cfg"
    using assms(1) row by (force simp: users_ok_def)
  let ?as = "map (\<lambda>(t, p). (t, bcrypt_ok cr (u_hash r) p)) gs"
  have "gs \<noteq> []" using fails assms(5) by auto
  then have last: "fst (last ?as) = fst (last gs)" by (simp add: last_map split_def)
  have "lock_run cfg ?as (lock_of r) =
      (replicate (length gs) Denied, \<lparr>lk_fails = 0, lk_until = Some (fst (last gs) + ac_lockout cfg)\<rparr>)"
    using lock_run_reaches_lock [of ?as "lock_of r" cfg] assms(4,5) \<open>gs \<noteq> []\<close> last
    by (auto simp: lock_of_def split_def)
  then have run: "fst (guess_run cr cfg n gs d) = replicate (length gs) Denied"
      "account_lock n (snd (guess_run cr cfg n gs d)) =
         Some \<lparr>lk_fails = 0, lk_until = Some (fst (last gs) + ac_lockout cfg)\<rparr>"
    using guess_run_lock_run [OF assms(1) conjunct2 [OF fails] assms(2) r, of gs] by simp_all
  then have "locked_at now (case query_row (login_match n) (users (snd (guess_run cr cfg n gs d))) of
      None \<Rightarrow> None | Some r \<Rightarrow> u_locked r)"
    using assms(6) by (auto simp: account_lock_def lock_of_def locked_at_def)
  then show ?thesis using run(1) by (simp add: Login_def)
qed

text \<open>as many wrong passwords as the account has attempts left lock it: all are denied, and
from the last of them until the lockout time has passed every login fails with
\<open>ErrAccountLocked\<close>, the right password included, and changes nothing.\<close>

theorem wrong_passwords_lock:
  assumes "users_ok cfg d" and "signs cr cfg" and r: "query_row (login_match n) (users d) = Some r"
    and "\<forall>(t, p)\<in>set gs. \<not> bcrypt_ok cr (u_hash r) p \<and> \<not> locked_at t (u_locked r)"
    and "int (length gs) = ac_max_attempts cfg - u_fails r"
    and "now < fst (last gs) + ac_lockout cfg"
  shows "fst (guess_run cr cfg n gs d) = replicate (length gs) Denied
    \<and> Login cr cfg now n p (snd (guess_run cr cfg n gs d)) = (Inl ErrAccountLocked, snd (guess_run cr cfg n gs d))"
  using assms by (rule guess_run_locks)

lemma wrong_passwords_lock_witness:
  "fst (Login example_crypto example_cfg 10 ''ann'' ''ann''
     (snd (guess_run example_crypto example_cfg ''ann'' (replicate 5 (3, ''no'')) example_db))) = Inl ErrAccountLocked"
  using wrong_passwords_lock [OF conjunct1 [OF example_users_ok] example_signs example_row,
      where gs = "replicate 5 (3, ''no'')" and now = 10 and p = "''ann''"]
  by (simp add: example_defs time_units locked_at_def eval_nat_numeral)

text \<open>C34: a token a login returned is accepted, for that user, by every later request until it
expires after a day, as long as the account's password has not been changed in a later second.\<close>

theorem login_token_valid:
  assumes "crypto_laws cr" and "unique_on u_id (users d')"
    and "fst (Login cr cfg now n p d) = Inr (tok, u)"
    and "q \<in> set (users d')" and "u_id q = usr_id u" and "unix (u_pwd_changed q) \<le> unix now"
    and "later < unix (now + 24 * hour) * 1000000000"
  shows "ValidateToken cr cfg later tok d' = Inr (usr_id u, usr_name u)"
proof -
  obtain r where r: "query_row (login_match n) (users d) = Some r" "u = user_of_row r"
    "issueJWT cr cfg now (u_id r) (u_name r) = Inr tok"
    using assms(3) by (auto simp: Login_def Let_def split: if_splits option.splits sum.splits)
  let ?c = "\<lparr>jc_sub = uuid_string cr (u_id r), jc_username = u_name r, jc_exp = unix (now + 24 * hour),
             jc_iat = Some (unix now)\<rparr>"
  have sign: "jwt_sign cr (ac_secret cfg) ?c = Inr tok" using r(3) by (simp add: issueJWT_def)
  then have "jwt_decode cr tok = Some \<lparr>jt_method = ''HS256'', jt_claims = ?c\<rparr>"
      "jwt_verify cr (ac_secret cfg) later tok"
    using crypto_jwt [OF assms(1) sign] assms(7) by simp_all
  moreover have "uuid_parse cr (uuid_string cr (u_id r)) = Some (u_id r)"
    using assms(1) by (rule crypto_uuid)
  moreover have "query_row (\<lambda>x. u_id x = u_id r) (users d') = Some q"
    using assms(2,4,5) r(2) by (intro query_row_unique) auto
  ultimately show ?thesis using assms(6) r(2) by (simp add: ValidateToken_def)
qed

lemma ChangePassword_changes:
  assumes "fst (ChangePassword cr now uid p q d) = Inr ()"
  obtains h where "bcrypt_hash cr q = Inr h"
    and "snd (ChangePassword cr now uid p q d) = update_user uid (\<lambda>r. r\<lparr>u_hash := h, u_pwd_changed := now\<rparr>) d"
proof -
  obtain r where r: "query_row (\<lambda>r. u_id r = uid) (users d) = Some r" "bcrypt_ok cr (u_hash r) p"
    using assms by (cases "query_row (\<lambda>r. u_id r = uid) (users d)")
      (simp_all add: ChangePassword_def split: if_splits)
  then obtain h where "bcrypt_hash cr q = Inr h"
    using assms by (cases "bcrypt_hash cr q") (simp_all add: ChangePassword_def)
  with r that show ?thesis by (simp add: ChangePassword_def)
qed

text \<open>
  What may happen to accounts from a time on: the requests on accounts with clock readings from then
  on, and any statement of another component that leaves the identifiers and the change times of the
  rows in place, whatever it does to other columns, other rows and other tables.
\<close>

inductive account_step :: "auth_config \<Rightarrow> instant \<Rightarrow> db \<Rightarrow> db \<Rightarrow> bool" for cfg :: auth_config and t0 :: instant where
  register: "t0 \<le> now \<Longrightarrow> account_step cfg t0 d (snd (Register cr now nid n e p d))"
| create: "t0 \<le> now \<Longrightarrow> account_step cfg t0 d (snd (CreateUser cr now nid n e p role d))"
| bootstrap: "t0 \<le> now \<Longrightarrow> account_step cfg t0 d (snd (BootstrapAdmin cr now nid n e p d))"
| login: "account_step cfg t0 d (snd (Login cr cfg now n p d))"
| password: "t0 \<le> now \<Longrightarrow> account_step cfg t0 d (snd (ChangePassword cr now uid p q d))"
| unlock: "account_step cfg t0 d (snd (UnlockUser uid d))"
| role: "account_step cfg t0 d (snd (UpdateUserRole actor target role d))"
| delete: "account_step cfg t0 d (snd (snd (DeleteUser cr actor target c d)))"
| other: "(\<And>u'. u' \<in> set (users d') \<Longrightarrow>
      \<exists>u\<in>set (users d). u_id u = u_id u' \<and> u_pwd_changed u = u_pwd_changed u') \<Longrightarrow> account_step cfg t0 d d'"

definition changed_since :: "instant \<Rightarrow> uuid \<Rightarrow> db \<Rightarrow> bool" where
  "changed_since t0 uid d = (\<forall>u\<in>set (users d). u_id u = uid \<longrightarrow> t0 \<le> u_pwd_changed u)"

lemma changed_since_update:
  assumes "changed_since t0 uid d"
    and "\<And>u. u_id (f u) = u_id u \<and> (u_pwd_changed (f u) = u_pwd_changed u \<or> t0 \<le> u_pwd_changed (f u))"
  shows "changed_since t0 uid (update_user k f d)"
  unfolding changed_since_def users_update_user set_update_where
proof (intro ballI impI)
  fix u' assume "u' \<in> (\<lambda>u. if u_id u = k then f u else u) ` set (users d)" "u_id u' = uid"
  then obtain u where "u \<in> set (users d)" "u' = u \<or> u' = f u" "u_id u = uid" using assms(2) by auto
  with assms show "t0 \<le> u_pwd_changed u'" by (metis changed_since_def)
qed

lemma changed_since_createUser:
  assumes "changed_since t0 uid d" and "t0 \<le> now"
  shows "changed_since t0 uid (snd (createUser cr now nid n e p role d))"
  using assms by (auto simp: changed_since_def createUser_def insert_user_def Let_def split: sum.split if_splits)

lemma account_step_changed:
  assumes "account_step cfg t0 d d'" and "changed_since t0 uid d"
  shows "changed_since t0 uid d'"
  using assms
proof (induction rule: account_step.induct)
  case (bootstrap now d cr nid n e p)
  then show ?case
    using changed_since_createUser [of t0 uid d now cr nid n e p RoleAdmin]
    by (auto simp: BootstrapAdmin_def split: prod.splits sum.splits)
next
  case (login d cr now n p)
  have "changed_since t0 uid (login_failed cfg now k d)" for k
    using login.prems by (auto simp: login_failed_def Let_def intro!: changed_since_update)
  with login show ?case by (auto simp: Login_db intro: changed_since_update split: option.split)
next
  case (password now d cr k p q)
  then show ?case by (auto simp: ChangePassword_def intro: changed_since_update split: option.split sum.split)
next
  case (unlock k d)
  then show ?case by (auto simp: UnlockUser_def intro: changed_since_update)
next
  case (role actor target role d)
  then show ?case
    by (auto simp: UpdateUserRole_def Let_def intro!: changed_since_update split: option.split)
next
  case (delete d cr actor target c)
  then show ?case by (auto simp: DeleteUser_db delete_user_row_def users_cascade_user changed_since_def split: if_splits)
next
  case (other d' d)
  show ?case unfolding changed_since_def
  proof (intro ballI impI)
    fix u' assume u': "u' \<in> set (users d')" "u_id u' = uid"
    from other.hyps [OF u'(1)] obtain u where
      "u \<in> set (users d)" "u_id u = u_id u'" "u_pwd_changed u = u_pwd_changed u'" by blast
    with other.prems u'(2) show "t0 \<le> u_pwd_changed u'" by (auto simp: changed_since_def)
  qed
qed (simp_all add: Register_def CreateUser_def changed_since_createUser)

lemma account_steps_changed:
  "(account_step cfg t0)\<^sup>*\<^sup>* d d' \<Longrightarrow> changed_since t0 uid d \<Longrightarrow> changed_since t0 uid d'"
  by (induction rule: rtranclp_induct) (auto intro: account_step_changed)

lemma ChangePassword_changed_since:
  assumes "fst (ChangePassword cr now uid p q d) = Inr ()"
  shows "changed_since now uid (snd (ChangePassword cr now uid p q d))"
proof -
  obtain h where h: "snd (ChangePassword cr now uid p q d) =
      update_user uid (\<lambda>r. r\<lparr>u_hash := h, u_pwd_changed := now\<rparr>) d"
    using ChangePassword_changes [OF assms] .
  show ?thesis unfolding h changed_since_def users_update_user set_update_where by force
qed

text \<open>C26: after a password change, no token issued in an earlier second of the clock is accepted for
that user, at any later time and in any later database that still has the account, whatever requests
on accounts (further password changes, logins, locks, roles) and whatever changes to other columns,
rows and tables lie in between, as long as the clock is not set back before the change.\<close>

theorem password_change_revokes_sessions:
  assumes "crypto_laws cr" and "fst (ChangePassword cr' now uid p q d) = Inr ()"
    and "(account_step cfg' now)\<^sup>*\<^sup>* (snd (ChangePassword cr' now uid p q d)) d'"
    and "u \<in> set (users d')" and "u_id u = uid" and "unique_on u_id (users d')"
    and "issueJWT cr cfg issued uid name = Inr tok" and "unix issued < unix now"
  shows "ValidateToken cr cfg later tok d' = Inl ErrUnauthorized"
proof -
  have "now \<le> u_pwd_changed u"
    using account_steps_changed [OF assms(3) ChangePassword_changed_since [OF assms(2)]] assms(4,5)
    by (simp add: changed_since_def)
  then have "unix issued < unix (u_pwd_changed u)" using assms(8) unix_mono by fastforce
  moreover have "jwt_sign cr (ac_secret cfg) \<lparr>jc_sub = uuid_string cr uid, jc_username = name,
      jc_exp = unix (issued + 24 * hour), jc_iat = Some (unix issued)\<rparr> = Inr tok"
    using assms(7) by (simp add: issueJWT_def)
  then have "jwt_decode cr tok = Some \<lparr>jt_method = ''HS256'', jt_claims =
      \<lparr>jc_sub = uuid_string cr uid, jc_username = name,
       jc_exp = unix (issued + 24 * hour), jc_iat = Some (unix issued)\<rparr>\<rparr>"
    by (rule crypto_jwt(1) [OF assms(1)])
  moreover have "uuid_parse cr (uuid_string cr uid) = Some uid"
    using assms(1) by (rule crypto_uuid)
  moreover have "query_row (\<lambda>x. u_id x = uid) (users d') = Some u"
    using assms(4-6) by (intro query_row_unique) auto
  ultimately show ?thesis by (simp add: ValidateToken_def)
qed

subsection \<open>The lookup cache\<close>

text \<open>What the database says about a cache key, for the two kinds of key.\<close>

definition user_source :: "crypto \<Rightarrow> db \<Rightarrow> string \<rightharpoonup> user" where
  "user_source cr d k =
     map_option user_of_row
       (query_row (\<lambda>r. k = id_key cr (u_id r) \<or> k = name_key (u_name r)) (users d))"

lemma id_key_inj: "crypto_laws cr \<Longrightarrow> id_key cr a = id_key cr b \<longleftrightarrow> a = b"
  by (auto simp: crypto_laws_def id_key_def) (metis option.inject)

lemma name_key_inj [simp]: "name_key a = name_key b \<longleftrightarrow> a = b"
  by (simp add: name_key_def)

lemma key_kinds [simp]: "id_key cr a \<noteq> name_key b" "name_key b \<noteq> id_key cr a"
  by (simp_all add: id_key_def name_key_def)

lemma user_source_id:
  "crypto_laws cr \<Longrightarrow> user_source cr d (id_key cr uid) =
     map_option user_of_row (query_row (\<lambda>r. u_id r = uid) (users d))"
  by (auto simp: user_source_def id_key_inj intro!: arg_cong [where f = "map_option user_of_row"] query_row_cong)

lemma user_source_name:
  "user_source cr d (name_key n) = map_option user_of_row (query_row (\<lambda>r. u_name r = n) (users d))"
  by (auto simp: user_source_def intro!: arg_cong [where f = "map_option user_of_row"] query_row_cong)

definition coherent :: "crypto \<Rightarrow> instant \<Rightarrow> user cache \<Rightarrow> db \<Rightarrow> bool" where
  "coherent cr now c d = (\<forall>k v. cache_view now c k = Some v \<longrightarrow> user_source cr d k = Some v)"

lemma coherent_new [simp]: "coherent cr now (cache_new ttl) d"
  by (simp add: coherent_def)

lemma coherent_later: "coherent cr now c d \<Longrightarrow> now \<le> t \<Longrightarrow> coherent cr t c d"
  unfolding coherent_def by (intro allI impI) (drule ttl_cache.view_antimono, assumption, simp)

text \<open>a lookup through a coherent cache answers what the table says, whether it hits or misses,
and leaves the cache coherent.\<close>

theorem GetUser_coherent:
  assumes "crypto_laws cr" and "coherent cr now c d"
  shows "fst (GetUser cr now uid c d) =
           (case query_row (\<lambda>r. u_id r = uid) (users d) of None \<Rightarrow> Inl NoRows | Some r \<Rightarrow> Inr (user_of_row r))
      \<and> coherent cr now (snd (GetUser cr now uid c d)) d"
proof (cases "cache_view now c (id_key cr uid)")
  case None
  then obtain c1 where get: "cache_get now (id_key cr uid) c = (None, c1)"
    and view: "cache_view now c1 = cache_view now c"
    by (metis ttl_cache.get_miss order_refl)
  have c1: "coherent cr now c1 d" using assms(2) view by (simp add: coherent_def)
  show ?thesis
  proof (cases "query_row (\<lambda>r. u_id r = uid) (users d)")
    case None
    with get c1 show ?thesis by (simp add: GetUser_def)
  next
    case (Some r)
    then have "user_source cr d (id_key cr uid) = Some (user_of_row r)"
      by (simp add: user_source_id assms(1))
    then have "coherent cr now (cache_set now (id_key cr uid) (user_of_row r) c1) d"
      using c1 unfolding coherent_def by (intro ttl_cache.coherent_set)
    with Some get show ?thesis by (simp add: GetUser_def)
  qed
next
  case (Some v)
  then obtain c1 where get: "cache_get now (id_key cr uid) c = (Some v, c1)"
    and view: "cache_view now c1 = cache_view now c"
    by (metis ttl_cache.get_hit order_refl)
  have "user_source cr d (id_key cr uid) = Some v" using assms(2) Some by (simp add: coherent_def)
  then obtain r where "query_row (\<lambda>r. u_id r = uid) (users d) = Some r" "v = user_of_row r"
    by (auto simp: user_source_id assms(1))
  with get view assms(2) show ?thesis by (simp add: GetUser_def coherent_def)
qed


text \<open>
  The cache is not told about role changes, and not about deleted accounts under the user-name key.
\<close>

text \<open>Changing a role does not touch the lookup cache: a user looked up before keeps the old
role in every lookup by identifier until the ten minutes of the entry are over.\<close>

theorem role_change_stays_cached:
  assumes "UpdateUserRole actor uid role d = (Inr new, d')"
    and "cache_view now c (id_key cr uid) = Some old"
  shows "usr_role new = role \<and> fst (GetUser cr now uid c d') = Inr old"
proof -
  obtain c1 where hit: "cache_get now (id_key cr uid) c = (Some old, c1)"
    using assms(2) by (metis ttl_cache.get_hit)
  have "usr_role new = role"
    using assms(1)
    by (auto simp: UpdateUserRole_def Let_def query_row_update split: if_splits option.splits
          dest: query_row_Some)
  with hit show ?thesis by (simp add: GetUser_def)
qed

text \<open>A deleted user stays visible under the user name for as long as the entry under that key lives.\<close>

lemma deleted_user_stays_cached:
  assumes "DeleteUser cr actor target c d = (Inr (), c1, d1)" and "cache_view now c (name_key n) = Some old"
  shows "fst (GetUserByUsername now n c1 d1) = Inr old"
proof -
  have "c1 = cache_delete (id_key cr target) c"
    using assms(1) by (auto simp: DeleteUser_def delete_exec_def split: sum.splits prod.splits if_splits)
  then have "cache_view now c1 (name_key n) = Some old"
    using assms(2) by (simp add: ttl_cache.delete_view)
  then obtain c4 where "cache_get now (name_key n) c1 = (Some old, c4)"
    by (metis ttl_cache.get_hit)
  then show ?thesis by (simp add: GetUserByUsername_def)
qed

lemma DeleteUser_forgets_id:
  assumes "DeleteUser cr actor target c d = (Inr (), c1, d1)"
  shows "fst (GetUser cr now target c1 d1) = Inl NoRows"
proof -
  have c1: "c1 = cache_delete (id_key cr target) c" and d1: "d1 = cascade_user target d"
    using assms
    by (auto simp: DeleteUser_def delete_exec_def delete_user_row_def split: sum.splits prod.splits if_splits)
  have "cache_view now c1 (id_key cr target) = None" by (simp add: c1 ttl_cache.delete_view)
  then obtain c2 where "cache_get now (id_key cr target) c1 = (None, c2)" by (metis ttl_cache.get_miss)
  moreover have "query_row (\<lambda>r. u_id r = target) (users d1) = None"
    by (simp add: d1 users_cascade_user query_row_None)
  ultimately show ?thesis by (simp add: GetUser_def)
qed

subsection \<open>Witnesses for the session and cache properties\<close>

lemma login_token_valid_witness:
  "\<exists>tok. fst (Login example_crypto example_cfg 0 ''ann'' ''ann'' example_db) =
            Inr (tok, user_of_row (example_user 1 ''ann'' ''admin''))
       \<and> ValidateToken example_crypto example_cfg second tok example_db = Inr (Uuid 1, ''ann'')"
proof -
  obtain tok where tok: "fst (Login example_crypto example_cfg 0 ''ann'' ''ann'' example_db) =
            Inr (tok, user_of_row (example_user 1 ''ann'' ''admin''))"
    by (simp add: Login_def issueJWT_def example_defs login_match_def locked_at_def)
  have "ValidateToken example_crypto example_cfg second tok example_db =
      Inr (usr_id (user_of_row (example_user 1 ''ann'' ''admin'')), usr_name (user_of_row (example_user 1 ''ann'' ''admin'')))"
    by (rule login_token_valid [OF example_crypto_laws _ tok])
      (auto simp: example_defs unique_on_def unix_def time_units)
  with tok show ?thesis by (auto simp: example_user_def)
qed

text \<open>The change at second 2, then a failed login, which writes the row: the session of second 0 is
refused.\<close>

lemma password_change_revokes_sessions_witness:
  "\<exists>tok. issueJWT example_crypto example_cfg 0 (Uuid 1) ''ann'' = Inr tok
     \<and> ValidateToken example_crypto example_cfg (3 * second) tok
         (snd (Login example_crypto example_cfg (2 * second) ''ann'' ''ann''
           (snd (ChangePassword example_crypto (2 * second) (Uuid 1) ''ann'' ''new'' example_db)))) = Inl ErrUnauthorized"
proof -
  let ?d = "snd (ChangePassword example_crypto (2 * second) (Uuid 1) ''ann'' ''new'' example_db)"
  let ?d' = "snd (Login example_crypto example_cfg (2 * second) ''ann'' ''ann'' ?d)"
  let ?u = "(example_user 1 ''ann'' ''admin'')\<lparr>u_hash := ''hnew'', u_pwd_changed := 2 * second\<rparr>"
  obtain tok where tok: "issueJWT example_crypto example_cfg 0 (Uuid 1) ''ann'' = Inr tok"
    by (simp add: issueJWT_def example_crypto_def)
  have d: "fst (ChangePassword example_crypto (2 * second) (Uuid 1) ''ann'' ''new'' example_db) = Inr ()"
    "users ?d = [?u, example_user 2 ''bob'' ''admin'']"
    by (simp_all add: ChangePassword_def example_defs update_user_def update_where_def)
  have d': "users ?d' = [?u\<lparr>u_fails := 1\<rparr>, example_user 2 ''bob'' ''admin'']"
    using d(2) by (simp add: Login_db example_defs login_match_def locked_at_def login_failed_def
        update_user_def update_where_def Let_def)
  have "(account_step example_cfg (2 * second))\<^sup>*\<^sup>* ?d ?d'"
    by (rule r_into_rtranclp) (rule account_step.login)
  then have "ValidateToken example_crypto example_cfg (3 * second) tok ?d' = Inl ErrUnauthorized"
    by (rule password_change_revokes_sessions [OF example_crypto_laws d(1) _ _ _ _ tok, of _ _ "?u\<lparr>u_fails := 1\<rparr>"],
        unfold d') (auto simp: example_user_def unique_on_def unix_def time_units)
  with tok show ?thesis by blast
qed

lemma GetUser_coherent_witness:
  "fst (GetUser example_crypto 0 (Uuid 1) (cache_new userCacheTTL) example_db) =
     Inr (user_of_row (example_user 1 ''ann'' ''admin''))"
  using GetUser_coherent [OF example_crypto_laws coherent_new, of 0 "Uuid 1" userCacheTTL example_db]
  by (simp add: example_defs)

lemma role_change_stays_cached_witness:
  "\<exists>new d'. UpdateUserRole (Uuid 1) (Uuid 2) ''user'' example_db = (Inr new, d') \<and> usr_role new = ''user''
     \<and> fst (GetUser example_crypto 5 (Uuid 2)
          (snd (GetUser example_crypto 0 (Uuid 2) (cache_new userCacheTTL) example_db)) d') =
         Inr (user_of_row (example_user 2 ''bob'' ''admin''))"
proof -
  obtain new d' where upd: "UpdateUserRole (Uuid 1) (Uuid 2) ''user'' example_db = (Inr new, d')"
    by (simp add: UpdateUserRole_def Let_def example_defs admin_count_def rows_affected_def update_where_def)
  let ?c = "snd (GetUser example_crypto 0 (Uuid 2) (cache_new userCacheTTL) example_db)"
  have "cache_view 5 ?c (id_key example_crypto (Uuid 2)) = Some (user_of_row (example_user 2 ''bob'' ''admin''))"
    by (simp add: GetUser_def cache_get_def cache_new_def cache_set_def cache_view_def example_defs
        userCacheTTL_def time_units)
  from role_change_stays_cached [OF upd this] upd show ?thesis by blast
qed

end
