(* ===== verification/Tokens.thy ===== *)
theory Tokens
  imports Auth
begin

section \<open>Access tokens and keys (internal/auth: auth.go, ssh\_keys.go, gpg\_keys.go)\<close>

text \<open>
  Personal access tokens: creation, validation, introspection, scopes, expiry; SSH and GPG public
  keys. The 32 random bytes of a token arrive as their hex text; SHA-256 is \<open>token_hash\<close> of the
  record \<open>crypto\<close>. Parsing, fingerprinting and printing a public key are the libraries' and
  arrive as functions.
\<close>

subsection \<open>Scopes\<close>

definition ScopeRepo :: string where "ScopeRepo = ''repo''"
definition ScopeRepoWrite :: string where "ScopeRepoWrite = ''repo:write''"
definition ScopeWorkflow :: string where "ScopeWorkflow = ''workflow''"
definition ScopeReadUser :: string where "ScopeReadUser = ''read:user''"

lemmas scope_defs = ScopeRepo_def ScopeRepoWrite_def ScopeWorkflow_def ScopeReadUser_def

text \<open>\<open>randomToken\<close> is the hex text of 32 bytes of the random source, or its error.\<close>

fun hex_encode :: "nat list \<Rightarrow> string" where
  "hex_encode [] = []"
| "hex_encode (b # bs) = hex_digit (b div 16) # hex_digit (b mod 16) # hex_encode bs"

definition randomToken :: "nat list result \<Rightarrow> string result" where
  "randomToken rnd = (case rnd of Inl e \<Rightarrow> Inl e | Inr bs \<Rightarrow> Inr (hex_encode bs))"

definition hashToken :: "crypto \<Rightarrow> string \<Rightarrow> string" where
  "hashToken cr token = token_hash cr token"

fun scope_loop :: "string list \<Rightarrow> string \<Rightarrow> bool" where
  "scope_loop [] required = False"
| "scope_loop (s # ss) required =
     (if s = required then True
      else if required = ScopeRepo \<and> (s = ScopeRepoWrite \<or> s = ScopeWorkflow) then True
      else if required = ScopeRepoWrite \<and> s = ScopeRepoWrite then True
      else scope_loop ss required)"

definition HasScope :: "string list \<Rightarrow> string \<Rightarrow> bool" where
  "HasScope scopes required = (if length scopes = 0 then True else scope_loop scopes required)"

subsection \<open>Personal access tokens\<close>

record pat_introspection =
  pi_active :: bool
  pi_token :: uuid
  pi_user :: uuid
  pi_username :: string
  pi_name :: string
  pi_scopes :: "string list"
  pi_created :: instant
  pi_expires :: "instant option"

record pat_info =
  pti_id :: uuid
  pti_name :: string
  pti_scopes :: "string list"
  pti_expires :: "instant option"
  pti_created :: instant

definition zero_introspection :: pat_introspection where
  "zero_introspection = \<lparr>pi_active = False, pi_token = uuid_nil, pi_user = uuid_nil, pi_username = [],
     pi_name = [], pi_scopes = [], pi_created = 0, pi_expires = None\<rparr>"

definition pat_prefix :: string where "pat_prefix = ''ghp_''"

text \<open>INSERT INTO personal_access_tokens: the user must exist and the hash be new.\<close>

definition insert_pat :: "pat_row \<Rightarrow> db \<Rightarrow> unit result \<times> db" where
  "insert_pat r d =
     (if \<not> key_free t_hash (t_hash r) (pats d)
      then (Inl (UniqueViolation ''personal_access_tokens_token_hash_key''), d)
      else if \<not> user_exists (t_user r) d
      then (Inl (ForeignKeyViolation ''personal_access_tokens_user_id_fkey''), d)
      else (Inr (), d\<lparr>pats := insert_row r (pats d)\<rparr>))"

definition CreatePAT ::
  "crypto \<Rightarrow> instant \<Rightarrow> uuid \<Rightarrow> nat list result \<Rightarrow> uuid \<Rightarrow> string \<Rightarrow> string list \<Rightarrow> db
     \<Rightarrow> string result \<times> db" where
  "CreatePAT cr now nid rnd uid name scopes d =
     (case randomToken rnd of
        Inl e \<Rightarrow> (Inl e, d)
      | Inr raw \<Rightarrow>
          (case insert_pat \<lparr>t_id = nid, t_user = uid, t_name = name, t_hash = hashToken cr raw,
                   t_scopes = scopes, t_expires = Some (now + 90 * 24 * hour), t_created = now\<rparr> d of
             (Inl e, d1) \<Rightarrow> (Inl e, d1)
           | (Inr _, d1) \<Rightarrow> (Inr (pat_prefix @ raw), d1)))"

definition pat_live :: "instant \<Rightarrow> pat_row \<Rightarrow> bool" where
  "pat_live now r = (case t_expires r of None \<Rightarrow> True | Some e \<Rightarrow> e > now)"

definition ValidatePATWithScopes ::
  "crypto \<Rightarrow> instant \<Rightarrow> string \<Rightarrow> db \<Rightarrow> (uuid \<times> string list) result" where
  "ValidatePATWithScopes cr now token d =
     (let hash = hashToken cr (trim_prefix pat_prefix token)
      in case query_row (\<lambda>r. t_hash r = hash \<and> pat_live now r) (pats d) of
           None \<Rightarrow> Inl ErrUnauthorized
         | Some r \<Rightarrow> Inr (t_user r, t_scopes r))"

definition ValidatePAT :: "crypto \<Rightarrow> instant \<Rightarrow> string \<Rightarrow> db \<Rightarrow> uuid result" where
  "ValidatePAT cr now token d =
     (case ValidatePATWithScopes cr now token d of Inl e \<Rightarrow> Inl e | Inr (uid, scopes) \<Rightarrow> Inr uid)"

definition join_users :: "('r \<Rightarrow> uuid) \<Rightarrow> 'r list \<Rightarrow> db \<Rightarrow> ('r \<times> user_row) list" where
  "join_users f t d =
     join_on (\<lambda>r u. u_id u = f r) t (users d)"

definition IntrospectPAT :: "crypto \<Rightarrow> instant \<Rightarrow> string \<Rightarrow> db \<Rightarrow> pat_introspection result" where
  "IntrospectPAT cr now token d =
     (let hash = hashToken cr (trim_prefix pat_prefix token)
      in case query_row (\<lambda>(r, u). t_hash r = hash) (join_users t_user (pats d) d) of
           None \<Rightarrow> Inr zero_introspection
         | Some (r, u) \<Rightarrow>
             (let info = \<lparr>pi_active = False, pi_token = t_id r, pi_user = t_user r,
                           pi_username = u_name u, pi_name = t_name r, pi_scopes = t_scopes r,
                           pi_created = t_created r, pi_expires = t_expires r\<rparr>
              in if (case t_expires r of None \<Rightarrow> False | Some e \<Rightarrow> now > e) then Inr info
                 else Inr (info\<lparr>pi_active := True\<rparr>)))"

definition pat_info_of :: "pat_row \<Rightarrow> pat_info" where
  "pat_info_of r = \<lparr>pti_id = t_id r, pti_name = t_name r, pti_scopes = t_scopes r,
     pti_expires = t_expires r, pti_created = t_created r\<rparr>"

definition ListPATs :: "uuid \<Rightarrow> db \<Rightarrow> pat_info list" where
  "ListPATs uid d =
     map pat_info_of (order_by_desc t_created (rows_where (\<lambda>r. t_user r = uid) (pats d)))"

definition RevokePAT :: "uuid \<Rightarrow> uuid \<Rightarrow> db \<Rightarrow> unit result \<times> db" where
  "RevokePAT uid pid d =
     (let hit = (\<lambda>r. t_id r = pid \<and> t_user r = uid)
      in if rows_affected hit (pats d) = 0 then (Inl ErrUnauthorized, d)
         else (Inr (), d\<lparr>pats := delete_where hit (pats d)\<rparr>))"

text \<open>
  The rows arrive ordered by user and expiry; the loop appends each to its user's list. The Go
  map is the function from users to their lists, empty for a user without entry.
\<close>

definition expires_key :: "pat_row \<Rightarrow> instant" where
  "expires_key r = (case t_expires r of None \<Rightarrow> 0 | Some e \<Rightarrow> e)"

definition ListExpiringPATs :: "instant \<Rightarrow> duration \<Rightarrow> db \<Rightarrow> uuid \<Rightarrow> pat_info list" where
  "ListExpiringPATs now within d =
     (let cutoff = now + within;
          rs = order_by t_user (order_by expires_key
                 (rows_where (\<lambda>r. case t_expires r of None \<Rightarrow> False | Some e \<Rightarrow> e \<le> cutoff \<and> e > now) (pats d)))
      in foldl (\<lambda>m r. m(t_user r := m (t_user r) @ [pat_info_of r])) (\<lambda>_. []) rs)"

subsection \<open>SSH and GPG keys\<close>

text \<open>
  \<open>ssh_parse\<close> is \<open>ssh.ParseAuthorizedKey\<close> reduced to the key, \<open>ssh_print\<close> is
  \<open>ssh.MarshalAuthorizedKey\<close> and \<open>ssh_fp\<close> \<open>ssh.FingerprintSHA256\<close>; \<open>gpg_ring\<close> is
  \<open>openpgp.ReadArmoredKeyRing\<close> reduced to the bytes of each entity's primary fingerprint
  (\<open>None\<close> for a nil entity).
\<close>

record key_info =
  ki_id :: uuid
  ki_title :: string
  ki_fingerprint :: string
  ki_created :: instant

definition key_info_of :: "key_row \<Rightarrow> key_info" where
  "key_info_of r = \<lparr>ki_id = k_id r, ki_title = k_title r, ki_fingerprint = k_fingerprint r,
     ki_created = k_created r\<rparr>"

record 'k ssh_lib =
  ssh_parse :: "string \<Rightarrow> 'k option"
  ssh_print :: "'k \<Rightarrow> string"
  ssh_fp :: "'k \<Rightarrow> string"

definition parseSSHPublicKey :: "('k, 'z) ssh_lib_scheme \<Rightarrow> string \<Rightarrow> ('k \<times> string) result" where
  "parseSSHPublicKey lib raw0 =
     (let raw = trim_space raw0
      in if raw = [] then Inl ErrInvalidKey
         else (case ssh_parse lib raw of
                 None \<Rightarrow> Inl ErrInvalidKey
               | Some pub \<Rightarrow> Inr (pub, ssh_fp lib pub)))"

definition AddSSHKey ::
  "('k, 'z) ssh_lib_scheme \<Rightarrow> instant \<Rightarrow> uuid \<Rightarrow> uuid \<Rightarrow> string \<Rightarrow> string \<Rightarrow> db \<Rightarrow> key_info result \<times> db"
where
  "AddSSHKey lib now nid uid title0 key d =
     (let title = trim_space title0
      in if title = [] then (Inl (ErrMsg ''title is required''), d)
         else (case parseSSHPublicKey lib key of
                 Inl e \<Rightarrow> (Inl e, d)
               | Inr (pub, fingerprint) \<Rightarrow>
                   (let row = \<lparr>k_id = nid, k_user = uid, k_title = title,
                               k_public = trim_space (ssh_print lib pub),
                               k_fingerprint = fingerprint, k_created = now\<rparr>
                    in if \<not> key_free k_fingerprint fingerprint (ssh_keys d) then (Inl ErrDuplicateKey, d)
                       else if \<not> user_exists uid d
                       then (Inl (ForeignKeyViolation ''user_ssh_keys_user_id_fkey''), d)
                       else (Inr (key_info_of row), d\<lparr>ssh_keys := insert_row row (ssh_keys d)\<rparr>))))"

definition ListSSHKeys :: "uuid \<Rightarrow> db \<Rightarrow> key_info list" where
  "ListSSHKeys uid d =
     map key_info_of (order_by_desc k_created (rows_where (\<lambda>r. k_user r = uid) (ssh_keys d)))"

definition DeleteSSHKey :: "uuid \<Rightarrow> uuid \<Rightarrow> db \<Rightarrow> unit result \<times> db" where
  "DeleteSSHKey uid kid d =
     (let hit = (\<lambda>r. k_id r = kid \<and> k_user r = uid)
      in if rows_affected hit (ssh_keys d) = 0 then (Inl ErrUnauthorized, d)
         else (Inr (), d\<lparr>ssh_keys := delete_where hit (ssh_keys d)\<rparr>))"

definition lookup_key :: "string \<Rightarrow> key_row list \<Rightarrow> db \<Rightarrow> (uuid \<times> string) result" where
  "lookup_key fingerprint t d =
     (case query_row (\<lambda>(k, u). k_fingerprint k = fingerprint) (join_users k_user t d) of
        None \<Rightarrow> Inl ErrUnauthorized
      | Some (k, u) \<Rightarrow> Inr (u_id u, u_name u))"

definition LookupUserBySSHPublicKey ::
  "('k, 'z) ssh_lib_scheme \<Rightarrow> 'k \<Rightarrow> db \<Rightarrow> (uuid \<times> string) result" where
  "LookupUserBySSHPublicKey lib pub d = lookup_key (ssh_fp lib pub) (ssh_keys d) d"

definition hex_upper :: "nat list \<Rightarrow> string" where
  "hex_upper bs = to_upper (hex_encode bs)"

text \<open>
  The fingerprint is the 20 bytes of a version 4 key; bytes 12 to 19 are the key id. The flag 0
  and width 16 of the format change nothing on 8 bytes.
\<close>

definition parseGPGPublicKey ::
  "(string \<Rightarrow> nat list option list result) \<Rightarrow> string \<Rightarrow> string result" where
  "parseGPGPublicKey gpg_ring raw0 =
     (let raw = trim_space raw0
      in if raw = [] then Inl ErrInvalidKey
         else (case gpg_ring raw of
                 Inl e \<Rightarrow> Inl ErrInvalidKey
               | Inr [] \<Rightarrow> Inl ErrInvalidKey
               | Inr (None # _) \<Rightarrow> Inl ErrInvalidKey
               | Inr (Some fp # _) \<Rightarrow>
                   (let fingerprint = hex_upper (drop 12 fp)
                    in if fingerprint = [] then Inl ErrInvalidKey else Inr fingerprint)))"

definition AddGPGKey ::
  "(string \<Rightarrow> nat list option list result) \<Rightarrow> instant \<Rightarrow> uuid \<Rightarrow> uuid \<Rightarrow> string \<Rightarrow> string \<Rightarrow> db
     \<Rightarrow> key_info result \<times> db" where
  "AddGPGKey gpg_ring now nid uid title0 key d =
     (let title = trim_space title0
      in if title = [] then (Inl (ErrMsg ''title is required''), d)
         else (case parseGPGPublicKey gpg_ring key of
                 Inl e \<Rightarrow> (Inl e, d)
               | Inr fingerprint \<Rightarrow>
                   (let row = \<lparr>k_id = nid, k_user = uid, k_title = title, k_public = key,
                               k_fingerprint = fingerprint, k_created = now\<rparr>
                    in if \<not> key_free k_fingerprint fingerprint (gpg_keys d) then (Inl ErrDuplicateKey, d)
                       else if \<not> user_exists uid d
                       then (Inl (ForeignKeyViolation ''user_gpg_keys_user_id_fkey''), d)
                       else (Inr (key_info_of row), d\<lparr>gpg_keys := insert_row row (gpg_keys d)\<rparr>))))"

definition ListGPGKeys :: "uuid \<Rightarrow> db \<Rightarrow> key_info list" where
  "ListGPGKeys uid d =
     map key_info_of (order_by_desc k_created (rows_where (\<lambda>r. k_user r = uid) (gpg_keys d)))"

definition DeleteGPGKey :: "uuid \<Rightarrow> uuid \<Rightarrow> db \<Rightarrow> unit result \<times> db" where
  "DeleteGPGKey uid kid d =
     (let hit = (\<lambda>r. k_id r = kid \<and> k_user r = uid)
      in if rows_affected hit (gpg_keys d) = 0 then (Inl ErrUnauthorized, d)
         else (Inr (), d\<lparr>gpg_keys := delete_where hit (gpg_keys d)\<rparr>))"

definition LookupUserByGPGKeyFingerprint :: "string \<Rightarrow> db \<Rightarrow> (uuid \<times> string) result" where
  "LookupUserByGPGKeyFingerprint fingerprint d = lookup_key fingerprint (gpg_keys d) d"

subsection \<open>Properties of tokens\<close>

text \<open>A scope list grants its members; an empty list grants everything.\<close>

lemma scope_loop_iff:
  "scope_loop ss r \<longleftrightarrow> r \<in> set ss \<or> r = ScopeRepo \<and> (ScopeRepoWrite \<in> set ss \<or> ScopeWorkflow \<in> set ss)"
  by (induction ss) (auto simp: scope_defs)

lemma HasScope_iff:
  "HasScope ss r \<longleftrightarrow>
     ss = [] \<or> r \<in> set ss \<or> r = ScopeRepo \<and> (ScopeRepoWrite \<in> set ss \<or> ScopeWorkflow \<in> set ss)"
  by (auto simp: HasScope_def scope_loop_iff)

text \<open>Every row of the tokens belongs to a user, and no two rows share a hash.\<close>

definition pats_ok :: "db \<Rightarrow> bool" where
  "pats_ok d = (unique_on t_hash (pats d) \<and> unique_on u_id (users d)
      \<and> (\<forall>r\<in>set (pats d). user_exists (t_user r) d))"

lemma CreatePAT_Inr:
  assumes "CreatePAT cr now nid rnd uid name scopes d = (Inr tok, d1)"
  obtains raw row where "tok = pat_prefix @ raw" and "t_hash row = hashToken cr raw"
    and "row = \<lparr>t_id = nid, t_user = uid, t_name = name, t_hash = hashToken cr raw,
                   t_scopes = scopes, t_expires = Some (now + 90 * 24 * hour), t_created = now\<rparr>"
    and "key_free t_hash (t_hash row) (pats d)" and "user_exists uid d"
    and "d1 = d\<lparr>pats := insert_row row (pats d)\<rparr>"
  using assms by (auto simp: CreatePAT_def insert_pat_def split: sum.splits if_splits)

lemma CreatePAT_keeps_ok:
  assumes "pats_ok d" shows "pats_ok (snd (CreatePAT cr now nid rnd uid name scopes d))"
proof (cases "CreatePAT cr now nid rnd uid name scopes d")
  case (Pair res d1)
  show ?thesis
  proof (cases res)
    case (Inl e)
    then have "d1 = d"
      using Pair by (auto simp: CreatePAT_def insert_pat_def split: sum.splits if_splits)
    then show ?thesis using Pair assms by simp
  next
    case (Inr tok)
    with Pair have "CreatePAT cr now nid rnd uid name scopes d = (Inr tok, d1)" by simp
    then obtain row where row: "key_free t_hash (t_hash row) (pats d)" "t_user row = uid"
        "user_exists uid d" "d1 = d\<lparr>pats := insert_row row (pats d)\<rparr>"
      by (rule CreatePAT_Inr) (metis pat_row.select_convs(2))
    then have "unique_on t_hash (pats d1)"
      using assms by (simp add: pats_ok_def unique_on_insert)
    then show ?thesis
      using assms row Pair by (simp add: pats_ok_def user_exists_def)
  qed
qed

lemma RevokePAT_keeps_ok: "pats_ok d \<Longrightarrow> pats_ok (snd (RevokePAT uid pid d))"
  by (auto simp: RevokePAT_def pats_ok_def Let_def unique_on_delete user_exists_def)

lemma validate_row:
  assumes "pats_ok d" and "r \<in> set (pats d)" and "t_hash r = hashToken cr (trim_prefix pat_prefix tok)"
  shows "ValidatePATWithScopes cr now tok d =
           (if pat_live now r then Inr (t_user r, t_scopes r) else Inl ErrUnauthorized)"
proof -
  let ?h = "hashToken cr (trim_prefix pat_prefix tok)"
  have same: "q = r" if "q \<in> set (pats d)" "t_hash q = ?h" for q
    using that assms by (metis pats_ok_def unique_on_inj)
  have "query_row (\<lambda>q. t_hash q = ?h \<and> pat_live now q) (pats d) =
          (if pat_live now r then Some r else None)"
  proof (cases "pat_live now r")
    case True
    have "query_row (\<lambda>q. t_hash q = ?h \<and> pat_live now q) (pats d) = Some r"
    proof (rule query_row_the)
      show "t_hash r = ?h \<and> pat_live now r" using assms(3) True by simp
      show "q = r" if "q \<in> set (pats d)" "t_hash q = ?h \<and> pat_live now q" for q
        using same that by blast
    qed (rule assms(2))
    then show ?thesis using True by simp
  next
    case False
    have "query_row (\<lambda>q. t_hash q = ?h \<and> pat_live now q) (pats d) = None"
      by (rule query_row_none) (use False same in blast)
    then show ?thesis using False by simp
  qed
  then show ?thesis by (simp add: ValidatePATWithScopes_def Let_def)
qed

lemma validate_no_row:
  assumes "\<forall>r\<in>set (pats d). t_hash r \<noteq> hashToken cr (trim_prefix pat_prefix tok)"
  shows "ValidatePATWithScopes cr now tok d = Inl ErrUnauthorized"
proof -
  have "query_row (\<lambda>q. t_hash q = hashToken cr (trim_prefix pat_prefix tok) \<and> pat_live now q) (pats d) = None"
    unfolding query_row_None using assms by blast
  then show ?thesis by (simp add: ValidatePATWithScopes_def Let_def)
qed

lemma join_users_find:
  assumes "unique_on u_id (users d)" and "\<forall>r\<in>set t. user_exists (f r) d"
    and "query_row P t = Some r"
  shows "\<exists>u. query_row (\<lambda>(r, u). P r) (join_users f t d) = Some (r, u) \<and> u \<in> set (users d) \<and> u_id u = f r"
  using assms(2,3)
proof (induction t)
  case (Cons x xs)
  obtain u where u: "u \<in> set (users d)" "u_id u = f x"
    using Cons.prems by (auto simp: user_exists_def references_iff)
  have "filter (\<lambda>u. u_id u = f x) (users d) = [u]"
    using rows_where_unique [OF assms(1) u] by (simp add: rows_where_def)
  then show ?case using Cons u by (cases "P x") (auto simp: join_users_def join_on_def)
qed simp

text \<open>A token just created, at a later time, after its revocation, and when its row is gone.\<close>

lemma created_pat_row:
  assumes "pats_ok d" and "CreatePAT cr now nid rnd uid name scopes d = (Inr tok, d1)"
  obtains row where "pats_ok d1" and "row \<in> set (pats d1)" and "t_id row = nid" and "t_user row = uid"
    and "t_scopes row = scopes" and "t_expires row = Some (now + 90 * 24 * hour)"
    and "t_hash row = hashToken cr (trim_prefix pat_prefix tok)"
proof -
  have "pats_ok d1" using CreatePAT_keeps_ok [OF assms(1), of cr now nid rnd uid name scopes] assms(2) by simp
  moreover obtain raw row where "tok = pat_prefix @ raw"
      and "row = \<lparr>t_id = nid, t_user = uid, t_name = name, t_hash = hashToken cr raw,
                   t_scopes = scopes, t_expires = Some (now + 90 * 24 * hour), t_created = now\<rparr>"
      and "d1 = d\<lparr>pats := insert_row row (pats d)\<rparr>"
    using CreatePAT_Inr [OF assms(2)] by metis
  ultimately show ?thesis using that [of row] by simp
qed

lemma revoked_pat_gone:
  assumes "pats_ok d" and "row \<in> set (pats d)" and "t_id row = pid" and "t_user row = uid"
    and "t_hash row = hashToken cr (trim_prefix pat_prefix tok)"
  shows "ValidatePATWithScopes cr now tok (snd (RevokePAT uid pid d)) = Inl ErrUnauthorized"
proof (rule validate_no_row, rule ballI)
  fix r assume "r \<in> set (pats (snd (RevokePAT uid pid d)))"
  then have r: "r \<in> set (pats d)" "r \<noteq> row"
    using assms(2-4) by (auto simp: RevokePAT_def Let_def rows_affected_0 split: if_splits)
  show "t_hash r \<noteq> hashToken cr (trim_prefix pat_prefix tok)"
    using r assms unique_on_inj unfolding pats_ok_def by metis
qed

text \<open>C25: A created access token authenticates its user with the scopes asked for, strictly
  before 90 days have passed and never afterwards; once its owner revokes it, it authenticates
  nobody at any time.\<close>

theorem pat_lifecycle:
  assumes "pats_ok d" and "CreatePAT cr now nid rnd uid name scopes d = (Inr tok, d1)"
  shows "ValidatePATWithScopes cr t tok d1 =
           (if t < now + 90 * 24 * hour then Inr (uid, scopes) else Inl ErrUnauthorized)
         \<and> fst (RevokePAT uid nid d1) = Inr ()
         \<and> ValidatePATWithScopes cr t tok (snd (RevokePAT uid nid d1)) = Inl ErrUnauthorized"
proof -
  obtain row where row: "pats_ok d1" "row \<in> set (pats d1)" "t_id row = nid" "t_user row = uid"
    "t_scopes row = scopes" "t_expires row = Some (now + 90 * 24 * hour)"
    "t_hash row = hashToken cr (trim_prefix pat_prefix tok)"
    using created_pat_row [OF assms] by blast
  have "fst (RevokePAT uid nid d1) = Inr ()"
    using row by (auto simp: RevokePAT_def Let_def rows_affected_0)
  then show ?thesis
    using validate_row [OF row(1,2,7), of t] revoked_pat_gone [OF row(1-4,7), of t] row(4-6)
    by (simp add: pat_live_def)
qed

theorem pat_lifecycle_witness:
  "ValidatePATWithScopes example_crypto (5 * hour) ''ghp_0a''
      (snd (CreatePAT example_crypto 0 (Uuid 9) (Inr [10]) (Uuid 1) ''ci'' [ScopeRepo] example_db)) =
     Inr (Uuid 1, [ScopeRepo])"
proof -
  have "pats_ok example_db" by (simp add: pats_ok_def example_defs unique_on_def empty_db_def)
  moreover have "CreatePAT example_crypto 0 (Uuid 9) (Inr [10]) (Uuid 1) ''ci'' [ScopeRepo] example_db =
      (Inr ''ghp_0a'', snd (CreatePAT example_crypto 0 (Uuid 9) (Inr [10]) (Uuid 1) ''ci'' [ScopeRepo] example_db))"
    by (simp add: CreatePAT_def insert_pat_def randomToken_def example_defs empty_db_def key_free_def
          references_def user_exists_def pat_prefix_def hex_digit_def digit_char_def char_of_def bit_0)
  ultimately show ?thesis
    using pat_lifecycle [of example_db example_crypto 0 "Uuid 9" "Inr [10]" "Uuid 1" "''ci''" "[ScopeRepo]"
        "''ghp_0a''" _ "5 * hour"] by (simp add: time_units)
qed

text \<open>Introspection and validation agree on every token and at every time except one: at
  the instant a token expires, validation already rejects it and introspection still calls it
  active.\<close>

theorem introspect_agrees:
  assumes "pats_ok d"
  shows "\<exists>info. IntrospectPAT cr now tok d = Inr info
     \<and> (pi_active info \<longleftrightarrow>
          is_ok (ValidatePATWithScopes cr now tok d) \<or> pi_expires info = Some now)"
proof (cases "\<exists>r\<in>set (pats d). t_hash r = hashToken cr (trim_prefix pat_prefix tok)")
  case True
  then obtain r where r: "r \<in> set (pats d)" "t_hash r = hashToken cr (trim_prefix pat_prefix tok)" by blast
  let ?P = "\<lambda>r. t_hash r = hashToken cr (trim_prefix pat_prefix tok)"
  have "query_row ?P (pats d) = Some r"
    using r assms query_row_unique unfolding pats_ok_def by metis
  then obtain u where "query_row (\<lambda>(r, u). ?P r) (join_users t_user (pats d) d) = Some (r, u)"
    using join_users_find [of d "pats d" t_user ?P r] assms unfolding pats_ok_def by blast
  then show ?thesis
    using validate_row [OF assms r, of now] r(1)
    by (cases "t_expires r") (auto simp: IntrospectPAT_def pat_live_def Let_def)
next
  case False
  have "query_row (\<lambda>(r, u). t_hash r = hashToken cr (trim_prefix pat_prefix tok)) (join_users t_user (pats d) d) = None"
    by (rule query_row_none) (use False in \<open>auto simp: join_users_def\<close>)
  moreover have "ValidatePATWithScopes cr now tok d = Inl ErrUnauthorized"
    by (rule validate_no_row) (use False in blast)
  ultimately show ?thesis by (simp add: IntrospectPAT_def zero_introspection_def Let_def)
qed

theorem introspect_agrees_witness:
  "\<exists>info. IntrospectPAT example_crypto 7 ''ghp_x'' example_db = Inr info \<and>
     (pi_active info \<longleftrightarrow> is_ok (ValidatePATWithScopes example_crypto 7 ''ghp_x'' example_db)
        \<or> pi_expires info = Some 7)"
  by (rule introspect_agrees) (simp add: pats_ok_def example_defs unique_on_def empty_db_def)

interpretation ssh_by_fingerprint: keyed_table ssh_keys ssh_keys_update k_fingerprint
  by unfold_locales simp

text \<open>A key looks up the user who added it, and a fingerprint belongs to one user at most.\<close>

lemma added_key_found:
  assumes "unique_on u_id (users d)" and "\<forall>k\<in>set (ssh_keys d). user_exists (k_user k) d"
    and "AddSSHKey lib now nid uid title key d = (Inr info, d1)"
    and "ssh_parse lib (trim_space key) = Some pub"
  shows "\<exists>name. LookupUserBySSHPublicKey lib pub d1 = Inr (uid, name)"
proof -
  let ?row = "\<lparr>k_id = nid, k_user = uid, k_title = trim_space title,
     k_public = trim_space (ssh_print lib pub), k_fingerprint = ssh_fp lib pub, k_created = now\<rparr>"
  have "key_free k_fingerprint (ssh_fp lib pub) (ssh_keys d) \<and> user_exists uid d
      \<and> d1 = d\<lparr>ssh_keys := insert_row ?row (ssh_keys d)\<rparr>"
    using assms(3,4)
    by (auto simp: AddSSHKey_def parseSSHPublicKey_def Let_def split: sum.splits if_splits)
  then obtain row where row: "k_user row = uid" "k_fingerprint row = ssh_fp lib pub"
      "key_free k_fingerprint (k_fingerprint row) (ssh_keys d)" "user_exists uid d"
      "d1 = d\<lparr>ssh_keys := insert_row row (ssh_keys d)\<rparr>"
    by (metis key_row.select_convs(2,5))
  have "query_row (\<lambda>k. k_fingerprint k = ssh_fp lib pub) (ssh_keys d1) = Some row"
    using ssh_by_fingerprint.insert_lookup [OF row(3)] row(2,5) by simp
  moreover have "\<forall>k\<in>set (ssh_keys d1). user_exists (k_user k) d1" and "unique_on u_id (users d1)"
    using assms(1,2) row by (auto simp: user_exists_def)
  ultimately obtain u where "u_id u = uid"
      "query_row (\<lambda>(k, u). k_fingerprint k = ssh_fp lib pub) (join_users k_user (ssh_keys d1) d1) = Some (row, u)"
    using join_users_find [of d1 "ssh_keys d1" k_user "\<lambda>k. k_fingerprint k = ssh_fp lib pub" row] row(1)
    by blast
  then show ?thesis by (simp add: LookupUserBySSHPublicKey_def lookup_key_def)
qed

end
