(* ===== verification/Repo.thy ===== *)
theory Repo
  imports Schema Cache GoStrings
begin

section \<open>Repositories (internal/repo: repo.go, collaborators.go)\<close>

text \<open>
  Creating, looking up, changing and deleting repositories, forks, stars, watches, branches,
  collaborators and the permission check. The lookup by full name goes through a cache that the
  writing operations invalidate; a transaction that fails leaves the database as it was.
\<close>

subsection \<open>Data\<close>

definition repoCacheTTL :: duration where "repoCacheTTL = 5 * minute"

record repository =
  rp_id :: uuid
  rp_owner_type :: string
  rp_owner :: uuid
  rp_owner_name :: string
  rp_name :: string
  rp_full_name :: string
  rp_desc :: string
  rp_branch :: string
  rp_private :: bool
  rp_fork :: bool
  rp_stars :: int
  rp_created :: instant
  rp_updated :: instant

record update_repo_input =
  ui_desc :: "string option"
  ui_private :: "bool option"
  ui_branch :: "string option"

record branch_info =
  bi_name :: string
  bi_sha :: string

text \<open>The columns every query of a repository selects, with the owner's name and the full name.\<close>

definition full_name :: "string \<Rightarrow> string \<Rightarrow> string" where
  "full_name owner name = owner @ ''/'' @ name"

definition repository_of :: "string \<Rightarrow> repo_row \<Rightarrow> repository" where
  "repository_of owner r = \<lparr>rp_id = r_id r, rp_owner_type = r_owner_type r, rp_owner = r_owner r,
     rp_owner_name = owner, rp_name = r_name r, rp_full_name = full_name owner (r_name r),
     rp_desc = coalesce (r_desc r) [], rp_branch = r_branch r, rp_private = r_private r,
     rp_fork = r_is_fork r, rp_stars = r_stars r, rp_created = r_created r, rp_updated = r_updated r\<rparr>"

lemma repository_of_simps [simp]:
  "rp_id (repository_of n r) = r_id r" "rp_name (repository_of n r) = r_name r"
  "rp_owner_name (repository_of n r) = n" "rp_full_name (repository_of n r) = full_name n (r_name r)"
  "rp_stars (repository_of n r) = r_stars r" "rp_private (repository_of n r) = r_private r"
  by (simp_all add: repository_of_def)

text \<open>LEFT JOIN users and orgs on the owner: at most one of the two names is not NULL.\<close>

definition owner_user :: "db \<Rightarrow> repo_row \<Rightarrow> string option" where
  "owner_user d r =
     (if r_owner_type r = ''user'' then map_option u_name (query_row (\<lambda>u. u_id u = r_owner r) (users d))
      else None)"

definition owner_org :: "db \<Rightarrow> repo_row \<Rightarrow> string option" where
  "owner_org d r =
     (if r_owner_type r = ''org'' then map_option o_name (query_row (\<lambda>g. o_id g = r_owner r) (orgs d))
      else None)"

definition owner_name :: "db \<Rightarrow> repo_row \<Rightarrow> string option" where
  "owner_name d r = or_else (owner_user d r) (owner_org d r)"

definition zero_sha :: string where
  "zero_sha = replicate 40 (CHR ''0'')"

subsection \<open>Operations\<close>

text \<open>INSERT INTO repos, with the CHECK of the owner type and the unique keys.\<close>

definition insert_repo :: "repo_row \<Rightarrow> db \<Rightarrow> repo_row result \<times> db" where
  "insert_repo r d =
     (if r_owner_type r \<noteq> ''user'' \<and> r_owner_type r \<noteq> ''org'' then (Inl (CheckViolation ''repos_owner_type_check''), d)
      else if \<not> key_free r_id (r_id r) (repos d) then (Inl (UniqueViolation ''repos_pkey''), d)
      else if \<not> key_free (\<lambda>q. (r_owner_type q, r_owner q, r_name q)) (r_owner_type r, r_owner r, r_name r) (repos d)
      then (Inl (UniqueViolation ''repos_owner_type_owner_id_name_key''), d)
      else (Inr r, d\<lparr>repos := insert_row r (repos d)\<rparr>))"

definition same_branch :: "uuid \<Rightarrow> string \<Rightarrow> branch_row \<Rightarrow> bool" where
  "same_branch rid name b = (b_repo b = rid \<and> b_name b = name)"

definition new_repo_row :: "instant \<Rightarrow> uuid \<Rightarrow> string \<Rightarrow> uuid \<Rightarrow> string \<Rightarrow> string \<Rightarrow> bool \<Rightarrow> repo_row" where
  "new_repo_row now nid ownerType ownerID name description isPrivate =
     \<lparr>r_id = nid, r_owner_type = ownerType, r_owner = ownerID, r_name = name, r_desc = Some description,
      r_branch = ''main'', r_private = isPrivate, r_is_fork = False, r_parent = None, r_stars = 0,
      r_created = now, r_updated = now\<rparr>"

definition repo_Create ::
  "instant \<Rightarrow> uuid \<Rightarrow> string \<Rightarrow> uuid \<Rightarrow> string \<Rightarrow> string \<Rightarrow> string \<Rightarrow> bool \<Rightarrow> db \<Rightarrow> repository result \<times> db"
where
  "repo_Create now nid ownerType ownerID ownerName name description isPrivate d =
     (case insert_repo (new_repo_row now nid ownerType ownerID name description isPrivate) d of
        (Inl e, d1) \<Rightarrow> (Inl e, d1)
      | (Inr r, d1) \<Rightarrow>
          (Inr (repository_of ownerName r),
           d1\<lparr>branches := insert_new (same_branch (r_id r) (r_branch r))
                  \<lparr>b_repo = r_id r, b_name = r_branch r, b_sha = zero_sha\<rparr> (branches d1)\<rparr>))"

definition full_name_key :: "string \<Rightarrow> string \<Rightarrow> string" where
  "full_name_key owner name = ''repo:fullname:'' @ full_name owner name"

definition named_repo :: "db \<Rightarrow> string \<Rightarrow> string \<Rightarrow> repo_row \<Rightarrow> bool" where
  "named_repo d owner name r =
     ((owner_user d r = Some owner \<or> owner_org d r = Some owner) \<and> r_name r = name)"

definition GetByFullName ::
  "instant \<Rightarrow> string \<Rightarrow> string \<Rightarrow> repository cache \<Rightarrow> db \<Rightarrow> repository result \<times> repository cache" where
  "GetByFullName now owner name c d =
     (case cache_get now (full_name_key owner name) c of
        (Some v, c1) \<Rightarrow> (Inr v, c1)
      | (None, c1) \<Rightarrow>
          (case query_row (named_repo d owner name) (repos d) of
             None \<Rightarrow> (Inl ErrRepoNotFound, c1)
           | Some r \<Rightarrow>
               (let v = repository_of (coalesce (owner_name d r) []) r
                in (Inr v, cache_set now (full_name_key owner name) v c1))))"

definition scanRepos :: "(repo_row \<times> string) list \<Rightarrow> repository list" where
  "scanRepos rs = map (\<lambda>(r, n). repository_of n r) rs"

definition ListForUserPaginated :: "uuid \<Rightarrow> int \<Rightarrow> int \<Rightarrow> db \<Rightarrow> repository list" where
  "ListForUserPaginated uid limit offset d =
     (let mine = (\<lambda>r. r_owner_type r = ''user'' \<and> r_owner r = uid
                     \<or> r_id r \<in> set (map cb_repo (rows_where (\<lambda>c. cb_user c = uid) (collabs d))))
      in scanRepos (map (\<lambda>r. (r, coalesce (owner_name d r) []))
           (page limit offset (order_by_desc r_updated (rows_where mine (repos d))))))"

definition ListForUser :: "uuid \<Rightarrow> db \<Rightarrow> repository list" where
  "ListForUser uid d = ListForUserPaginated uid 0 0 d"

definition ListForOrg :: "uuid \<Rightarrow> db \<Rightarrow> repository list" where
  "ListForOrg oid d =
     scanRepos (map (\<lambda>(r, g). (r, o_name g))
       (order_by_desc (\<lambda>(r, g). r_updated r)
          (join_on (\<lambda>r g. r_owner_type r = ''org'' \<and> r_owner r = o_id g)
             (rows_where (\<lambda>r. r_owner r = oid) (repos d)) (orgs d))))"

definition permRank :: "string \<Rightarrow> int" where
  "permRank p = (if p = ''admin'' then 3 else if p = ''write'' then 2 else 1)"

text \<open>
  The outcome of the organization branch: \<open>True\<close> when it grants the access, otherwise the check
  goes on to the collaborators.
\<close>

definition org_grants :: "string \<Rightarrow> uuid \<Rightarrow> uuid \<Rightarrow> string \<Rightarrow> db \<Rightarrow> bool" where
  "org_grants ownerType ownerID uid minPerm d =
     (ownerType = ''org'' \<and>
      (case query_row (\<lambda>m. om_org m = ownerID \<and> om_user m = uid) (members d) of
         None \<Rightarrow> False
       | Some m \<Rightarrow> permRank (if om_role m = ''admin'' then ''admin'' else ''read'') \<ge> permRank minPerm))"

definition CanAccess :: "uuid \<Rightarrow> uuid \<Rightarrow> string \<Rightarrow> db \<Rightarrow> bool result" where
  "CanAccess rid uid minPerm d =
     (case query_row (\<lambda>r. r_id r = rid) (repos d) of
        None \<Rightarrow> Inl NoRows
      | Some r \<Rightarrow>
          if r_owner_type r = ''user'' \<and> r_owner r = uid then Inr True
          else if org_grants (r_owner_type r) (r_owner r) uid minPerm d then Inr True
          else (case query_row (\<lambda>c. cb_repo c = rid \<and> cb_user c = uid) (collabs d) of
                  Some c \<Rightarrow> Inr (permRank (cb_perm c) \<ge> permRank minPerm)
                | None \<Rightarrow> Inr (\<not> r_private r)))"

definition update_repo :: "uuid \<Rightarrow> (repo_row \<Rightarrow> repo_row) \<Rightarrow> db \<Rightarrow> db" where
  "update_repo rid f d = d\<lparr>repos := update_where (\<lambda>r. r_id r = rid) f (repos d)\<rparr>"

definition apply_repo_input :: "instant \<Rightarrow> update_repo_input \<Rightarrow> repo_row \<Rightarrow> repo_row" where
  "apply_repo_input now i r =
     r\<lparr>r_desc := or_else (ui_desc i) (r_desc r), r_private := coalesce (ui_private i) (r_private r),
       r_branch := coalesce (ui_branch i) (r_branch r), r_updated := now\<rparr>"

text \<open>
  The owner's name is read by a second query; a repository whose owner is gone has a NULL there,
  which does not scan into a string.
\<close>

definition repo_Update ::
  "instant \<Rightarrow> uuid \<Rightarrow> update_repo_input \<Rightarrow> repository cache \<Rightarrow> db
     \<Rightarrow> repository result \<times> repository cache \<times> db" where
  "repo_Update now rid input c d =
     (let d1 = update_repo rid (apply_repo_input now input) d
      in case query_row (\<lambda>r. r_id r = rid) (repos d1) of
           None \<Rightarrow> (Inl ErrRepoNotFound, c, d1)
         | Some r \<Rightarrow>
             (case owner_name d1 r of
                None \<Rightarrow> (Inl (ErrMsg ''cannot scan NULL into *string''), c, d1)
              | Some n \<Rightarrow> (Inr (repository_of n r), cache_delete (full_name_key n (r_name r)) c, d1)))"

definition UpdateBranchHead :: "uuid \<Rightarrow> string \<Rightarrow> string \<Rightarrow> db \<Rightarrow> unit result \<times> db" where
  "UpdateBranchHead rid branch sha d =
     (if \<not> repo_exists rid d then (Inl (ForeignKeyViolation ''branches_repo_id_fkey''), d)
      else (Inr (), d\<lparr>branches := upsert_row (same_branch rid branch) (\<lambda>b. b\<lparr>b_sha := sha\<rparr>)
                        \<lparr>b_repo = rid, b_name = branch, b_sha = sha\<rparr> (branches d)\<rparr>))"

definition Fork ::
  "instant \<Rightarrow> uuid \<Rightarrow> repository \<Rightarrow> string \<Rightarrow> uuid \<Rightarrow> string \<Rightarrow> db \<Rightarrow> repository result \<times> db" where
  "Fork now nid source ownerType ownerID ownerName d =
     (case repo_Create now nid ownerType ownerID ownerName (rp_name source @ ''-fork'')
             (''Forked from '' @ rp_full_name source) (rp_private source) d of
        (Inl e, d1) \<Rightarrow> (Inl e, d1)
      | (Inr r, d1) \<Rightarrow>
          if \<not> repo_exists (rp_id source) d1 then (Inl (ForeignKeyViolation ''repos_fork_parent_id_fkey''), d1)
          else (Inr (r\<lparr>rp_fork := True\<rparr>),
                update_repo (rp_id r) (\<lambda>q. q\<lparr>r_is_fork := True, r_parent := Some (rp_id source)\<rparr>) d1))"

text \<open>
  Star and Unstar run in a transaction. The star count is clamped at zero on the way down.
\<close>

definition Star :: "uuid \<Rightarrow> uuid \<Rightarrow> repository cache \<Rightarrow> db \<Rightarrow> unit result \<times> repository cache \<times> db" where
  "Star rid uid c d =
     (if (rid, uid) \<in> set (stars d) then (Inr (), c, d)
      else if \<not> repo_exists rid d then (Inl (ForeignKeyViolation ''repo_stars_repo_id_fkey''), c, d)
      else if \<not> user_exists uid d then (Inl (ForeignKeyViolation ''repo_stars_user_id_fkey''), c, d)
      else (Inr (), cache_clear c,
            update_repo rid (\<lambda>r. r\<lparr>r_stars := r_stars r + 1\<rparr>)
              (d\<lparr>stars := insert_row (rid, uid) (stars d)\<rparr>)))"

definition Unstar :: "uuid \<Rightarrow> uuid \<Rightarrow> repository cache \<Rightarrow> db \<Rightarrow> unit result \<times> repository cache \<times> db" where
  "Unstar rid uid c d =
     (let hit = (\<lambda>s. fst s = rid \<and> snd s = uid);
          d1 = d\<lparr>stars := delete_where hit (stars d)\<rparr>
      in if rows_affected hit (stars d) > 0
         then (Inr (), cache_clear c, update_repo rid (\<lambda>r. r\<lparr>r_stars := max (r_stars r - 1) 0\<rparr>) d1)
         else (Inr (), c, d1))"

definition IsStarred :: "uuid \<Rightarrow> uuid \<Rightarrow> db \<Rightarrow> bool" where
  "IsStarred rid uid d = sql_exists (\<lambda>s. fst s = rid \<and> snd s = uid) (stars d)"

definition Watch :: "uuid \<Rightarrow> uuid \<Rightarrow> db \<Rightarrow> unit result \<times> db" where
  "Watch rid uid d =
     (if (rid, uid) \<in> set (watchers d) then (Inr (), d)
      else if \<not> repo_exists rid d then (Inl (ForeignKeyViolation ''repo_watchers_repo_id_fkey''), d)
      else if \<not> user_exists uid d then (Inl (ForeignKeyViolation ''repo_watchers_user_id_fkey''), d)
      else (Inr (), d\<lparr>watchers := insert_row (rid, uid) (watchers d)\<rparr>))"

definition Unwatch :: "uuid \<Rightarrow> uuid \<Rightarrow> db \<Rightarrow> unit result \<times> db" where
  "Unwatch rid uid d =
     (Inr (), d\<lparr>watchers := delete_where (\<lambda>s. fst s = rid \<and> snd s = uid) (watchers d)\<rparr>)"

definition IsWatched :: "uuid \<Rightarrow> uuid \<Rightarrow> db \<Rightarrow> bool" where
  "IsWatched rid uid d = sql_exists (\<lambda>s. fst s = rid \<and> snd s = uid) (watchers d)"

definition ListBranches :: "uuid \<Rightarrow> db \<Rightarrow> branch_info list" where
  "ListBranches rid d =
     map (\<lambda>b. \<lparr>bi_name = b_name b, bi_sha = b_sha b\<rparr>)
       (order_by b_name (rows_where (\<lambda>b. b_repo b = rid) (branches d)))"

definition repo_Delete :: "uuid \<Rightarrow> repository cache \<Rightarrow> db \<Rightarrow> unit result \<times> repository cache \<times> db" where
  "repo_Delete rid c d =
     (case delete_repo_row rid d of
        (Inl e, d1) \<Rightarrow> (Inl e, c, d1)
      | (Inr n, d1) \<Rightarrow> if n = 0 then (Inl ErrRepoNotFound, c, d1) else (Inr (), cache_clear c, d1))"

definition ResolveOwnerID :: "string \<Rightarrow> db \<Rightarrow> (string \<times> uuid) result" where
  "ResolveOwnerID ownerName d =
     (case query_row (\<lambda>u. u_name u = ownerName) (users d) of
        Some u \<Rightarrow> Inr (''user'', u_id u)
      | None \<Rightarrow> (case query_row (\<lambda>g. o_name g = ownerName) (orgs d) of
                   Some g \<Rightarrow> Inr (''org'', o_id g)
                 | None \<Rightarrow> Inl (ErrMsg (''owner not found: '' @ ownerName))))"

subsection \<open>Collaborators\<close>

record collaborator =
  co_user :: uuid
  co_username :: string
  co_perm :: string

definition AddCollaborator :: "uuid \<Rightarrow> uuid \<Rightarrow> string \<Rightarrow> db \<Rightarrow> unit result \<times> db" where
  "AddCollaborator rid uid permission0 d =
     (let permission = (if permission0 \<noteq> ''read'' \<and> permission0 \<noteq> ''write'' then ''read'' else permission0)
      in if \<not> repo_exists rid d then (Inl (ForeignKeyViolation ''repo_collaborators_repo_id_fkey''), d)
         else if \<not> user_exists uid d then (Inl (ForeignKeyViolation ''repo_collaborators_user_id_fkey''), d)
         else (Inr (), d\<lparr>collabs := upsert_row (\<lambda>c. cb_repo c = rid \<and> cb_user c = uid)
                           (\<lambda>c. c\<lparr>cb_perm := permission\<rparr>)
                           \<lparr>cb_repo = rid, cb_user = uid, cb_perm = permission\<rparr> (collabs d)\<rparr>))"

definition RemoveCollaborator :: "uuid \<Rightarrow> uuid \<Rightarrow> db \<Rightarrow> unit result \<times> db" where
  "RemoveCollaborator rid uid d =
     (Inr (), d\<lparr>collabs := delete_where (\<lambda>c. cb_repo c = rid \<and> cb_user c = uid) (collabs d)\<rparr>)"

definition ListCollaborators :: "uuid \<Rightarrow> db \<Rightarrow> collaborator list" where
  "ListCollaborators rid d =
     map (\<lambda>(c, u). \<lparr>co_user = cb_user c, co_username = u_name u, co_perm = cb_perm c\<rparr>)
       (order_by (\<lambda>(c, u). u_name u)
          (join_on (\<lambda>c u. cb_user c = u_id u) (rows_where (\<lambda>c. cb_repo c = rid) (collabs d)) (users d)))"

subsection \<open>The star count is the number of stars\<close>

definition star_count :: "uuid \<Rightarrow> db \<Rightarrow> nat" where
  "star_count rid d = length (filter (\<lambda>s. fst s = rid) (stars d))"

definition stars_ok :: "db \<Rightarrow> bool" where
  "stars_ok d =
     (unique_on r_id (repos d) \<and> distinct (stars d)
      \<and> (\<forall>r\<in>set (repos d). r_stars r = int (star_count (r_id r) d))
      \<and> (\<forall>s\<in>set (stars d). repo_exists (fst s) d))"

lemma repos_update_repo: "repos (update_repo rid f d) = update_where (\<lambda>r. r_id r = rid) f (repos d)"
  by (simp add: update_repo_def)

lemma update_repo_simps [simp]:
  "users (update_repo rid f d) = users d" "orgs (update_repo rid f d) = orgs d"
  "stars (update_repo rid f d) = stars d" "branches (update_repo rid f d) = branches d"
  "collabs (update_repo rid f d) = collabs d" "members (update_repo rid f d) = members d"
  by (simp_all add: update_repo_def)

lemma repo_exists_update_repo:
  "(\<And>r. r_id (f r) = r_id r) \<Longrightarrow> repo_exists x (update_repo rid f d) = repo_exists x d"
  by (auto simp: repo_exists_def references_iff repos_update_repo)

lemma repo_exists_stars [simp]: "repo_exists x (d\<lparr>stars := s\<rparr>) = repo_exists x d"
  by (simp add: repo_exists_def)

lemma stars_ok_update:
  assumes "stars_ok d" and "\<And>r. r_id (f r) = r_id r" and "\<And>r. r_stars (f r) = r_stars r"
  shows "stars_ok (update_repo rid f d)"
  unfolding stars_ok_def
proof (intro conjI ballI)
  show "unique_on r_id (repos (update_repo rid f d))"
    using assms(1,2) by (simp add: repos_update_repo unique_on_update stars_ok_def)
  show "distinct (stars (update_repo rid f d))" using assms(1) by (simp add: stars_ok_def)
  show "r_stars r = int (star_count (r_id r) (update_repo rid f d))"
    if row: "r \<in> set (repos (update_repo rid f d))" for r
  proof -
    obtain q where q: "q \<in> set (repos d)" "r = (if r_id q = rid then f q else q)"
      using update_whereD [OF row [unfolded repos_update_repo]] by blast
    have "r_id r = r_id q" "r_stars r = r_stars q" using q(2) assms(2,3) by simp_all
    then show ?thesis using assms(1) q(1) by (simp add: stars_ok_def star_count_def)
  qed
  show "repo_exists (fst s) (update_repo rid f d)" if "s \<in> set (stars (update_repo rid f d))" for s
    using that assms by (simp add: repo_exists_update_repo stars_ok_def)
qed

lemma stars_ok_insert:
  assumes "stars_ok d" and "key_free r_id (r_id r) (repos d)" and "r_stars r = 0"
    and "repos d1 = insert_row r (repos d)" and "stars d1 = stars d"
  shows "stars_ok d1"
proof -
  have "\<not> repo_exists (r_id r) d"
    using assms(2) by (simp add: repo_exists_def key_free_def)
  then have "\<forall>s\<in>set (stars d). fst s \<noteq> r_id r" using assms(1) unfolding stars_ok_def by metis
  then have "star_count (r_id r) d = 0" by (simp add: star_count_def filter_empty_conv)
  then show ?thesis
    using assms by (simp add: stars_ok_def star_count_def unique_on_insert repo_exists_def references_iff)
qed

lemma insert_repo_cases:
  "(\<exists>e. insert_repo r d = (Inl e, d)) \<or>
     insert_repo r d = (Inr r, d\<lparr>repos := insert_row r (repos d)\<rparr>) \<and> key_free r_id (r_id r) (repos d)"
  by (simp add: insert_repo_def)

lemma repo_Create_cases:
  obtains (fail) e where "repo_Create now nid ot oid on name desc priv d = (Inl e, d)"
  | (made) r where "r = new_repo_row now nid ot oid name desc priv" "key_free r_id nid (repos d)"
      "fst (repo_Create now nid ot oid on name desc priv d) = Inr (repository_of on r)"
      "repos (snd (repo_Create now nid ot oid on name desc priv d)) = insert_row r (repos d)"
      "stars (snd (repo_Create now nid ot oid on name desc priv d)) = stars d"
      "users (snd (repo_Create now nid ot oid on name desc priv d)) = users d"
      "orgs (snd (repo_Create now nid ot oid on name desc priv d)) = orgs d"
proof -
  let ?r = "new_repo_row now nid ot oid name desc priv"
  show thesis
  proof (cases "\<exists>e. insert_repo ?r d = (Inl e, d)")
    case True
    then obtain e where "insert_repo ?r d = (Inl e, d)" ..
    then show thesis by (intro fail [of e]) (simp add: repo_Create_def)
  next
    case False
    then have "insert_repo ?r d = (Inr ?r, d\<lparr>repos := insert_row ?r (repos d)\<rparr>)"
        "key_free r_id (r_id ?r) (repos d)"
      using insert_repo_cases [of ?r d] by blast+
    then show thesis by (intro made [OF refl]) (simp_all add: repo_Create_def new_repo_row_def)
  qed
qed

lemma stars_ok_Create: "stars_ok d \<Longrightarrow> stars_ok (snd (repo_Create now nid ot oid on name desc priv d))"
proof (cases rule: repo_Create_cases [of now nid ot oid on name desc priv d])
  case (made r)
  then show "stars_ok d \<Longrightarrow> ?thesis"
    by (elim stars_ok_insert [where r = r]) (simp_all add: new_repo_row_def)
qed simp

lemma stars_ok_Fork: "stars_ok d \<Longrightarrow> stars_ok (snd (Fork now nid src ot oid on d))"
  using stars_ok_Create [of d now nid ot oid on "rp_name src @ ''-fork''"
      "''Forked from '' @ rp_full_name src" "rp_private src"]
  by (auto simp: Fork_def split: sum.split prod.split intro!: stars_ok_update)

lemma stars_ok_Update: "stars_ok d \<Longrightarrow> stars_ok (snd (snd (repo_Update now rid i c d)))"
  by (auto simp: repo_Update_def Let_def apply_repo_input_def split: option.split intro!: stars_ok_update)

lemma stars_ok_same: "stars_ok d \<Longrightarrow> repos d1 = repos d \<Longrightarrow> stars d1 = stars d \<Longrightarrow> stars_ok d1"
  by (simp add: stars_ok_def star_count_def repo_exists_def)

lemma star_count_insert:
  "stars d1 = insert_row (rid, uid) (stars d) \<Longrightarrow>
     star_count x d1 = star_count x d + (if x = rid then 1 else 0)"
  by (simp add: star_count_def insert_row_def)

lemma stars_ok_Star: "stars_ok d \<Longrightarrow> stars_ok (snd (snd (Star rid uid c d)))"
proof -
  assume ok: "stars_ok d"
  let ?d1 = "d\<lparr>stars := insert_row (rid, uid) (stars d)\<rparr>"
  let ?d2 = "update_repo rid (\<lambda>r. r\<lparr>r_stars := r_stars r + 1\<rparr>) ?d1"
  have "stars_ok ?d2" if new: "(rid, uid) \<notin> set (stars d)" and ex: "repo_exists rid d"
    unfolding stars_ok_def
  proof (intro conjI ballI)
    show "unique_on r_id (repos ?d2)"
      using ok by (simp add: repos_update_repo unique_on_update stars_ok_def)
    show "distinct (stars ?d2)" using ok new by (simp add: stars_ok_def insert_row_def)
    show "r_stars r = int (star_count (r_id r) ?d2)" if row: "r \<in> set (repos ?d2)" for r
    proof -
      obtain q where "q \<in> set (repos ?d1)" and r: "r = (if r_id q = rid then q\<lparr>r_stars := r_stars q + 1\<rparr> else q)"
        using update_whereD [OF row [unfolded repos_update_repo]] by blast
      then have q: "q \<in> set (repos d)" by simp
      have "r_stars q = int (star_count (r_id q) d)" using ok q by (simp add: stars_ok_def)
      moreover have "star_count (r_id r) ?d2 = star_count (r_id r) d + (if r_id r = rid then 1 else 0)"
        by (rule star_count_insert) simp
      ultimately show ?thesis using r by (cases "r_id q = rid") simp_all
    qed
    show "repo_exists (fst s) ?d2" if "s \<in> set (stars ?d2)" for s
      using that ok ex by (auto simp: repo_exists_update_repo stars_ok_def)
  qed
  then show ?thesis using ok by (simp add: Star_def)
qed

lemma star_count_delete:
  assumes "distinct (stars d)" and "(rid, uid) \<in> set (stars d)"
    and "stars d1 = delete_where (\<lambda>s. fst s = rid \<and> snd s = uid) (stars d)"
  shows "star_count x d1 = star_count x d - (if x = rid then 1 else 0)"
proof -
  have "filter (\<lambda>s. \<not> (fst s = rid \<and> snd s = uid)) (stars d) = remove1 (rid, uid) (stars d)"
    using assms(1) by (auto simp: distinct_remove1_removeAll removeAll_filter_not_eq prod_eq_iff
        intro!: filter_cong)
  then have "stars d1 = remove1 (rid, uid) (stars d)" using assms(3) by (simp add: delete_where_def)
  moreover have "filter (\<lambda>s. fst s = x) (remove1 (rid, uid) (stars d)) =
      (if x = rid then remove1 (rid, uid) (filter (\<lambda>s. fst s = x) (stars d))
       else filter (\<lambda>s. fst s = x) (stars d))"
    using assms(2) by (auto simp: filter_remove1 remove1_idem)
  ultimately show ?thesis using assms(2) by (simp add: star_count_def length_remove1)
qed

lemma stars_ok_Unstar: "stars_ok d \<Longrightarrow> stars_ok (snd (snd (Unstar rid uid c d)))"
proof -
  assume ok: "stars_ok d"
  let ?hit = "\<lambda>s. fst s = rid \<and> snd s = uid"
  let ?d1 = "d\<lparr>stars := delete_where ?hit (stars d)\<rparr>"
  let ?d2 = "update_repo rid (\<lambda>r. r\<lparr>r_stars := max (r_stars r - 1) 0\<rparr>) ?d1"
  have none: "stars_ok ?d1" if "rows_affected ?hit (stars d) = 0"
  proof -
    have "delete_where ?hit (stars d) = stars d"
      using that by (auto simp: rows_affected_0 delete_where_def intro!: filter_True)
    then show ?thesis using ok by (intro stars_ok_same [OF ok]) simp_all
  qed
  have "stars_ok ?d2" if "rows_affected ?hit (stars d) > 0"
    unfolding stars_ok_def
  proof (intro conjI ballI)
    have hit: "(rid, uid) \<in> set (stars d)"
    proof -
      have "rows_affected ?hit (stars d) \<noteq> 0" using that by simp
      then obtain s where "s \<in> set (stars d)" "?hit s" unfolding rows_affected_0 by blast
      then show ?thesis by (metis prod.collapse)
    qed
    show "unique_on r_id (repos ?d2)"
      using ok by (simp add: repos_update_repo unique_on_update stars_ok_def)
    show "distinct (stars ?d2)" using ok by (simp add: stars_ok_def delete_where_def)
    show "r_stars r = int (star_count (r_id r) ?d2)" if row: "r \<in> set (repos ?d2)" for r
    proof -
      obtain q where "q \<in> set (repos ?d1)" and r: "r = (if r_id q = rid then q\<lparr>r_stars := max (r_stars q - 1) 0\<rparr> else q)"
        using update_whereD [OF row [unfolded repos_update_repo]] by blast
      then have q: "q \<in> set (repos d)" by simp
      have "r_stars q = int (star_count (r_id q) d)" using ok q by (simp add: stars_ok_def)
      moreover have "star_count (r_id r) ?d2 = star_count (r_id r) d - (if r_id r = rid then 1 else 0)"
        by (rule star_count_delete [OF _ hit]) (use ok in \<open>simp_all add: stars_ok_def\<close>)
      ultimately show ?thesis using r by (cases "r_id q = rid") simp_all
    qed
    show "repo_exists (fst s) ?d2" if "s \<in> set (stars ?d2)" for s
      using that ok by (auto simp: repo_exists_update_repo stars_ok_def)
  qed
  with none show ?thesis by (simp add: Unstar_def Let_def)
qed

lemma stars_ok_cascade: "stars_ok d \<Longrightarrow> stars_ok (cascade_repo rid d)"
proof -
  assume ok: "stars_ok d"
  have rs: "repos (cascade_repo rid d) = delete_where (\<lambda>r. r_id r = rid) (repos d)"
    and ss: "stars (cascade_repo rid d) = delete_where (\<lambda>s. fst s = rid) (stars d)"
    by (simp_all add: cascade_repo_def Let_def)
  have cnt: "star_count x (cascade_repo rid d) = star_count x d" if "x \<noteq> rid" for x
    unfolding star_count_def ss delete_where_def filter_filter
    using that by (metis (mono_tags, lifting))
  show ?thesis
    unfolding stars_ok_def
  proof (intro conjI ballI)
    show "unique_on r_id (repos (cascade_repo rid d))"
      using ok by (simp add: rs stars_ok_def unique_on_delete)
    show "distinct (stars (cascade_repo rid d))" using ok by (simp add: ss stars_ok_def delete_where_def)
    show "r_stars r = int (star_count (r_id r) (cascade_repo rid d))"
      if "r \<in> set (repos (cascade_repo rid d))" for r
      using that ok by (simp add: rs cnt stars_ok_def)
    show "repo_exists (fst s) (cascade_repo rid d)" if "s \<in> set (stars (cascade_repo rid d))" for s
      using that ok unfolding rs ss stars_ok_def repo_exists_def references_iff by simp metis
  qed
qed

lemma stars_ok_Delete: "stars_ok d \<Longrightarrow> stars_ok (snd (snd (repo_Delete rid c d)))"
  by (simp add: repo_Delete_def delete_repo_row_def stars_ok_cascade)

subsection \<open>The service as a transition system\<close>

text \<open>
  One step is one completed operation of the service, by any client and with any arguments, or
  the passing of time. The state is the clock, the lookup cache and the database.
\<close>

inductive repo_step ::
  "instant \<times> repository cache \<times> db \<Rightarrow> instant \<times> repository cache \<times> db \<Rightarrow> bool" where
  time: "now \<le> later \<Longrightarrow> repo_step (now, c, d) (later, c, d)"
| create: "repo_step (now, c, d) (now, c, snd (repo_Create now nid ot oid on name desc priv d))"
| fork: "repo_step (now, c, d) (now, c, snd (Fork now nid src ot oid on d))"
| get: "repo_step (now, c, d) (now, snd (GetByFullName now owner name c d), d)"
| update: "repo_step (now, c, d) (now, snd (repo_Update now rid i c d))"
| star: "repo_step (now, c, d) (now, snd (Star rid uid c d))"
| unstar: "repo_step (now, c, d) (now, snd (Unstar rid uid c d))"
| remove: "repo_step (now, c, d) (now, snd (repo_Delete rid c d))"
| watch: "repo_step (now, c, d) (now, c, snd (Watch rid uid d))"
| unwatch: "repo_step (now, c, d) (now, c, snd (Unwatch rid uid d))"
| push: "repo_step (now, c, d) (now, c, snd (UpdateBranchHead rid branch sha d))"
| add_collab: "repo_step (now, c, d) (now, c, snd (AddCollaborator rid uid perm d))"
| remove_collab: "repo_step (now, c, d) (now, c, snd (RemoveCollaborator rid uid d))"

inductive_cases repo_stepE: "repo_step (now, c, d) s"

lemma side_ops_repos:
  "repos (snd (Watch rid uid d)) = repos d" "stars (snd (Watch rid uid d)) = stars d"
  "repos (snd (Unwatch rid uid d)) = repos d" "stars (snd (Unwatch rid uid d)) = stars d"
  "repos (snd (UpdateBranchHead rid b sha d)) = repos d" "stars (snd (UpdateBranchHead rid b sha d)) = stars d"
  "repos (snd (AddCollaborator rid uid p d)) = repos d" "stars (snd (AddCollaborator rid uid p d)) = stars d"
  "repos (snd (RemoveCollaborator rid uid d)) = repos d" "stars (snd (RemoveCollaborator rid uid d)) = stars d"
  by (simp_all add: Watch_def Unwatch_def UpdateBranchHead_def AddCollaborator_def RemoveCollaborator_def Let_def)

lemmas stars_ok_ops = stars_ok_Create stars_ok_Fork stars_ok_Update stars_ok_Star stars_ok_Unstar stars_ok_Delete

lemma repo_step_stars: "repo_step s t \<Longrightarrow> stars_ok (snd (snd s)) \<Longrightarrow> stars_ok (snd (snd t))"
  by (induction rule: repo_step.induct) (simp_all add: stars_ok_ops stars_ok_same [OF _ side_ops_repos(1,2)]
      stars_ok_same [OF _ side_ops_repos(3,4)] stars_ok_same [OF _ side_ops_repos(5,6)]
      stars_ok_same [OF _ side_ops_repos(7,8)] stars_ok_same [OF _ side_ops_repos(9,10)])

text \<open>C14: Whatever repository operations run and in whatever order, the star count stored with
  every repository stays the number of users who have starred it.\<close>

theorem star_count_exact:
  assumes "repo_step\<^sup>*\<^sup>* (now, c, d) (later, c', d')" and "stars_ok d" and "r \<in> set (repos d')"
  shows "r_stars r = int (star_count (r_id r) d')"
proof -
  have "stars_ok (snd (snd (later, c', d')))"
    using assms(1) by (induction rule: rtranclp_induct) (use assms(2) repo_step_stars in auto)
  then show ?thesis using assms(3) by (simp add: stars_ok_def)
qed

text \<open>
  Deleting a user takes the user's stars with it (ON DELETE CASCADE) and leaves the counts alone.
\<close>

text \<open>Deleting a user who starred a repository breaks that count: the star is gone and the
  stored count still includes it.\<close>

theorem user_deletion_breaks_star_count:
  assumes "stars_ok d" and "r \<in> set (repos d)" and "(r_id r, uid) \<in> set (stars d)"
    and "\<not> user_referenced uid d" and "user_exists uid d"
  shows "r \<in> set (repos (snd (delete_user_row uid d)))
       \<and> r_stars r = int (star_count (r_id r) (snd (delete_user_row uid d))) + 1"
proof -
  have del: "snd (delete_user_row uid d) = cascade_user uid d"
    using assms(4,5) by (simp add: delete_user_row_def user_exists_def key_free_def)
  have ss: "stars (cascade_user uid d) = delete_where (\<lambda>s. snd s = uid) (stars d)"
    and rs: "repos (cascade_user uid d) = repos d"
    by (simp_all add: cascade_user_def)
  have "filter (\<lambda>s. fst s = r_id r) (stars (cascade_user uid d)) =
      filter (\<lambda>s. fst s = r_id r) (delete_where (\<lambda>s. fst s = r_id r \<and> snd s = uid) (stars d))"
    unfolding ss delete_where_def filter_filter by (rule filter_cong) auto
  then have "star_count (r_id r) (cascade_user uid d) =
      star_count (r_id r) (d\<lparr>stars := delete_where (\<lambda>s. fst s = r_id r \<and> snd s = uid) (stars d)\<rparr>)"
    by (simp add: star_count_def)
  also have "\<dots> = star_count (r_id r) d - 1"
    using assms(1) star_count_delete [OF _ assms(3)] by (simp add: stars_ok_def)
  finally have "star_count (r_id r) (cascade_user uid d) = star_count (r_id r) d - 1" .
  moreover have "star_count (r_id r) d > 0"
    using assms(3) by (force simp: star_count_def filter_empty_conv)
  moreover have "r_stars r = int (star_count (r_id r) d)" using assms(1,2) by (simp add: stars_ok_def)
  ultimately show ?thesis using assms(2) by (simp add: del rs)
qed

subsection \<open>The lookup cache\<close>

text \<open>
  The key of a full name determines owner and name when neither contains a slash; the cache is
  coherent when what it serves for such a name is what the query would return. Nothing keeps slashes
  out of the stored names, and names with slashes share keys (\<open>slash_names_collide\<close>), but never
  the key of a name without.
\<close>

definition lookup_repo :: "db \<Rightarrow> string \<Rightarrow> string \<Rightarrow> repository option" where
  "lookup_repo d owner name =
     map_option (\<lambda>r. repository_of (coalesce (owner_name d r) []) r) (query_row (named_repo d owner name) (repos d))"

definition repo_coherent :: "instant \<Rightarrow> repository cache \<Rightarrow> db \<Rightarrow> bool" where
  "repo_coherent now c d =
     (\<forall>owner name v. CHR ''/'' \<notin> set owner \<union> set name \<longrightarrow> cache_view now c (full_name_key owner name) = Some v
        \<longrightarrow> lookup_repo d owner name = Some v)"

lemma full_name_key_inj:
  assumes "CHR ''/'' \<notin> set a \<union> set m"
  shows "full_name_key a m = full_name_key b n \<longleftrightarrow> a = b \<and> m = n"
proof
  assume "full_name_key a m = full_name_key b n"
  then have eq: "a @ CHR ''/'' # m = b @ CHR ''/'' # n" by (simp add: full_name_key_def full_name_def)
  have "count_list (a @ CHR ''/'' # m) (CHR ''/'') = 1" using assms by simp
  then have "CHR ''/'' \<notin> set b" unfolding eq by (simp add: count_list_0_iff)
  moreover have "cut ''/'' (a @ CHR ''/'' # m) = cut ''/'' (b @ CHR ''/'' # n)" using eq by simp
  ultimately show "a = b \<and> m = n" using cut_byte [of "CHR ''/''" a m] cut_byte [of "CHR ''/''" b n] assms by simp
qed simp

lemma named_repo_owner: "named_repo d owner name r \<Longrightarrow> owner_name d r = Some owner \<and> r_name r = name"
  by (auto simp: named_repo_def owner_name_def owner_user_def owner_org_def split: if_splits)

lemma named_repo_iff: "named_repo d owner name r \<longleftrightarrow> owner_name d r = Some owner \<and> r_name r = name"
  by (auto simp: named_repo_def owner_name_def owner_user_def owner_org_def or_else_def
      split: if_splits option.splits)

lemma lookup_repo_alt:
  "lookup_repo d owner name =
     map_option (repository_of owner) (query_row (\<lambda>r. owner_name d r = Some owner \<and> r_name r = name) (repos d))"
  by (cases "query_row (\<lambda>r. owner_name d r = Some owner \<and> r_name r = name) (repos d)")
    (auto simp: lookup_repo_def named_repo_iff [abs_def] dest: query_row_Some)

lemma owner_name_cong:
  "users d1 = users d \<Longrightarrow> orgs d1 = orgs d \<Longrightarrow> owner_name d1 = owner_name d"
  by (rule ext) (simp add: owner_name_def owner_user_def owner_org_def)

text \<open>What the writes do to the lookups: a new row hides nothing, an update touches one name.\<close>

lemma lookup_insert:
  assumes "repos d1 = insert_row r (repos d)" and "users d1 = users d" and "orgs d1 = orgs d"
    and "lookup_repo d owner name = Some v"
  shows "lookup_repo d1 owner name = Some v"
  using assms by (auto simp: lookup_repo_alt query_row_insert owner_name_cong [of d1 d])

lemma owner_name_row:
  "r_owner_type (f r) = r_owner_type r \<Longrightarrow> r_owner (f r) = r_owner r \<Longrightarrow> owner_name d (f r) = owner_name d r"
  by (simp add: owner_name_def owner_user_def owner_org_def)

lemma lookup_update:
  assumes "\<And>r. r_owner_type (f r) = r_owner_type r" and "\<And>r. r_owner (f r) = r_owner r"
    and "\<And>r. r_name (f r) = r_name r"
    and "lookup_repo d owner name = Some v" and "rp_id v \<noteq> rid"
  shows "lookup_repo (update_repo rid f d) owner name = Some v"
proof -
  have "owner_name (update_repo rid f d) = owner_name d" by (rule owner_name_cong) simp_all
  moreover have "owner_name d (f r) = owner_name d r" for r by (rule owner_name_row) (simp_all add: assms(1,2))
  moreover obtain z where "query_row (\<lambda>r. owner_name d r = Some owner \<and> r_name r = name) (repos d) = Some z"
      "v = repository_of owner z"
    using assms(4) by (auto simp: lookup_repo_alt)
  ultimately show ?thesis
    using assms(3,5) by (simp add: lookup_repo_alt repos_update_repo query_row_update)
qed

lemma coherent_mono:
  assumes "repo_coherent now c d"
    and "\<And>owner name v. CHR ''/'' \<notin> set owner \<union> set name \<Longrightarrow> lookup_repo d owner name = Some v \<Longrightarrow> lookup_repo d1 owner name = Some v"
  shows "repo_coherent now c d1"
  using assms unfolding repo_coherent_def by blast

lemma repo_coherent_clear [simp]: "repo_coherent now (cache_clear c) d"
  by (simp add: repo_coherent_def ttl_cache.clear_view)

lemma repo_coherent_later: "repo_coherent now c d \<Longrightarrow> now \<le> t \<Longrightarrow> repo_coherent t c d"
  unfolding repo_coherent_def using ttl_cache.view_antimono by metis

lemma repo_coherent_db:
  "repo_coherent now c d \<Longrightarrow> repos d1 = repos d \<Longrightarrow> users d1 = users d \<Longrightarrow> orgs d1 = orgs d \<Longrightarrow>
     repo_coherent now c d1"
  by (erule coherent_mono) (simp add: lookup_repo_alt owner_name_cong [of d1 d])

lemma coherent_repo_Create: "repo_coherent now c d \<Longrightarrow> repo_coherent now c (snd (repo_Create t nid ot oid on name desc priv d))"
proof (cases rule: repo_Create_cases [of t nid ot oid on name desc priv d])
  case (made r)
  assume "repo_coherent now c d"
  then show ?thesis by (rule coherent_mono) (rule lookup_insert [OF made(4,6,7)])
qed simp

lemma lookup_repo_id: "lookup_repo d owner name = Some v \<Longrightarrow> repo_exists (rp_id v) d"
  by (auto simp: lookup_repo_alt repo_exists_def references_iff dest!: query_row_Some)

lemma coherent_Fork:
  assumes "repo_coherent now c d"
  shows "repo_coherent now c (snd (Fork t nid src ot oid on d))"
proof -
  let ?name = "rp_name src @ ''-fork''" and ?desc = "''Forked from '' @ rp_full_name src"
  let ?made = "repo_Create t nid ot oid on ?name ?desc (rp_private src) d"
  show ?thesis
  proof (cases rule: repo_Create_cases [of t nid ot oid on ?name ?desc "rp_private src" d])
    case (fail e)
    then show ?thesis using assms by (simp add: Fork_def)
  next
    case (made r)
    have rid: "r_id r = nid" by (simp add: made(1) new_repo_row_def)
    let ?f = "\<lambda>q. q\<lparr>r_is_fork := True, r_parent := Some (rp_id src)\<rparr>"
    have "repo_coherent now c (update_repo nid ?f (snd ?made))"
    proof (rule coherent_mono [OF assms])
      fix owner name v assume v: "lookup_repo d owner name = Some v"
      have "rp_id v \<noteq> nid"
        using lookup_repo_id [OF v] made(2) by (auto simp: repo_exists_def key_free_def)
      then show "lookup_repo (update_repo nid ?f (snd ?made)) owner name = Some v"
        using lookup_insert [OF made(4,6,7) v] by (intro lookup_update) simp_all
    qed
    moreover have "repo_coherent now c (snd ?made)" by (rule coherent_repo_Create [OF assms])
    ultimately show ?thesis
      using made(3) rid by (cases ?made) (simp add: Fork_def)
  qed
qed

lemma coherent_Update:
  assumes "repo_coherent now c d" and "unique_on r_id (repos d)"
  shows "repo_coherent now (fst (snd (repo_Update t rid i c d))) (snd (snd (repo_Update t rid i c d)))"
proof -
  let ?f = "apply_repo_input t i"
  let ?d1 = "update_repo rid ?f d"
  have keep: "lookup_repo ?d1 owner name = Some v"
    if "lookup_repo d owner name = Some v" "rp_id v \<noteq> rid" for owner name v
    using that by (intro lookup_update) (simp_all add: apply_repo_input_def)
  have id_f: "\<And>r. r_id (?f r) = r_id r" by (simp add: apply_repo_input_def)
  have on1: "owner_name ?d1 (?f r) = owner_name d r" for r
  proof -
    have "owner_name d (?f r) = owner_name d r" by (rule owner_name_row) (simp_all add: apply_repo_input_def)
    then show ?thesis by (simp add: owner_name_cong [of ?d1 d])
  qed
  have q1: "query_row (\<lambda>r. r_id r = rid) (repos ?d1) = map_option ?f (query_row (\<lambda>r. r_id r = rid) (repos d))"
    unfolding repos_update_repo by (subst query_row_update) (auto simp: id_f option.map_comp o_def
        intro!: option.map_cong dest: query_row_Some)
  have the_row: "r = q" if "query_row (\<lambda>r. r_id r = rid) (repos d) = Some r" "q \<in> set (repos d)" "r_id q = rid" for r q
    using that assms(2) query_row_Some [OF that(1)] unique_on_inj by metis
  have found: "\<exists>q\<in>set (repos d). r_id q = rid \<and> owner_name d q = Some owner \<and> r_name q = name"
    if "lookup_repo d owner name = Some v" "rp_id v = rid" for owner name v
    using that by (auto simp: lookup_repo_alt dest!: query_row_Some)
  show ?thesis
  proof (cases "query_row (\<lambda>r. r_id r = rid) (repos d)")
    case None
    then have "\<forall>q\<in>set (repos d). r_id q \<noteq> rid" by (simp add: query_row_None)
    then have "repo_coherent now c ?d1"
      using found keep by (intro coherent_mono [OF assms(1)]) blast
    then show ?thesis using None q1 by (simp add: repo_Update_def Let_def)
  next
    case (Some r)
    show ?thesis
    proof (cases "owner_name d r")
      case None
      have "repo_coherent now c ?d1"
      proof (rule coherent_mono [OF assms(1)])
        fix owner name v assume v: "lookup_repo d owner name = Some v"
        have "rp_id v \<noteq> rid" using found [OF v] the_row [OF Some] None by fastforce
        with v show "lookup_repo ?d1 owner name = Some v" by (rule keep)
      qed
      then show ?thesis using Some q1 None on1 by (simp add: repo_Update_def Let_def)
    next
      case (Some n)
      have "repo_coherent now (cache_delete (full_name_key n (r_name r)) c) ?d1"
        unfolding repo_coherent_def
      proof (intro allI impI)
        fix owner name v
        assume o: "CHR ''/'' \<notin> set owner \<union> set name"
          and view: "cache_view now (cache_delete (full_name_key n (r_name r)) c) (full_name_key owner name) = Some v"
        have ne: "full_name_key owner name \<noteq> full_name_key n (r_name r)"
          and "cache_view now c (full_name_key owner name) = Some v"
          using view by (auto simp: ttl_cache.delete_view split: if_splits)
        then have v: "lookup_repo d owner name = Some v" using assms(1) o by (auto simp: repo_coherent_def)
        have "rp_id v \<noteq> rid"
          using found [OF v] the_row [OF \<open>query_row _ _ = Some r\<close>] Some ne by fastforce
        with v show "lookup_repo ?d1 owner name = Some v" by (rule keep)
      qed
      then show ?thesis
        using \<open>query_row _ _ = Some r\<close> q1 Some on1
        by (simp add: repo_Update_def Let_def apply_repo_input_def)
    qed
  qed
qed

lemma coherent_Get:
  assumes "repo_coherent now c d"
  shows "repo_coherent now (snd (GetByFullName now owner name c d)) d"
proof (cases "cache_view now c (full_name_key owner name)")
  case (Some v)
  then obtain c1 where "cache_get now (full_name_key owner name) c = (Some v, c1)"
      "cache_view now c1 = cache_view now c"
    by (metis ttl_cache.get_hit order_refl)
  then show ?thesis using assms by (simp add: GetByFullName_def repo_coherent_def)
next
  case None
  then obtain c1 where get: "cache_get now (full_name_key owner name) c = (None, c1)"
      "cache_view now c1 = cache_view now c"
    by (metis ttl_cache.get_miss order_refl)
  then have c1: "repo_coherent now c1 d" using assms by (simp add: repo_coherent_def)
  show ?thesis
  proof (cases "query_row (named_repo d owner name) (repos d)")
    case None
    then show ?thesis using get(1) c1 by (simp add: GetByFullName_def)
  next
    case (Some r)
    let ?v = "repository_of (coalesce (owner_name d r) []) r"
    have look: "lookup_repo d owner name = Some ?v" by (simp add: lookup_repo_def Some)
    have "repo_coherent now (cache_set now (full_name_key owner name) ?v c1) d"
      unfolding repo_coherent_def
    proof (intro allI impI)
      fix b n v
      assume b: "CHR ''/'' \<notin> set b \<union> set n"
        and view: "cache_view now (cache_set now (full_name_key owner name) ?v c1) (full_name_key b n) = Some v"
      show "lookup_repo d b n = Some v"
      proof (cases "b = owner \<and> n = name")
        case True
        then show ?thesis using view look by (simp add: ttl_cache.set_view split: if_splits)
      next
        case False
        then have "full_name_key b n \<noteq> full_name_key owner name" using b full_name_key_inj by metis
        then show ?thesis using view c1 b by (simp add: ttl_cache.set_view repo_coherent_def)
      qed
    qed
    then show ?thesis using get(1) Some by (simp add: GetByFullName_def Let_def)
  qed
qed

lemma GetByFullName_answer:
  assumes "repo_coherent now c d" and "CHR ''/'' \<notin> set owner \<union> set name"
  shows "fst (GetByFullName now owner name c d) =
           (case lookup_repo d owner name of None \<Rightarrow> Inl ErrRepoNotFound | Some v \<Rightarrow> Inr v)"
proof (cases "cache_view now c (full_name_key owner name)")
  case (Some v)
  then have "lookup_repo d owner name = Some v" using assms by (simp add: repo_coherent_def)
  moreover obtain c1 where "cache_get now (full_name_key owner name) c = (Some v, c1)"
    using Some by (metis ttl_cache.get_hit)
  ultimately show ?thesis by (simp add: GetByFullName_def)
next
  case None
  then obtain c1 where "cache_get now (full_name_key owner name) c = (None, c1)"
    by (metis ttl_cache.get_miss)
  then show ?thesis by (simp add: GetByFullName_def lookup_repo_def Let_def split: option.split)
qed

definition repo_inv :: "instant \<times> repository cache \<times> db \<Rightarrow> bool" where
  "repo_inv s = (case s of (now, c, d) \<Rightarrow> unique_on r_id (repos d) \<and> repo_coherent now c d)"

lemma repo_ops_owners:
  "users (snd (repo_Create now nid ot oid on name desc priv d)) = users d"
  "orgs (snd (repo_Create now nid ot oid on name desc priv d)) = orgs d"
  "users (snd (Fork now nid src ot oid on d)) = users d" "orgs (snd (Fork now nid src ot oid on d)) = orgs d"
  "users (snd (snd (repo_Update now rid i c d))) = users d" "orgs (snd (snd (repo_Update now rid i c d))) = orgs d"
  "users (snd (snd (Star rid uid c d))) = users d" "orgs (snd (snd (Star rid uid c d))) = orgs d"
  "users (snd (snd (Unstar rid uid c d))) = users d" "orgs (snd (snd (Unstar rid uid c d))) = orgs d"
  "users (snd (snd (repo_Delete rid c d))) = users d" "orgs (snd (snd (repo_Delete rid c d))) = orgs d"
  "users (snd (Watch rid uid d)) = users d" "orgs (snd (Watch rid uid d)) = orgs d"
  "users (snd (Unwatch rid uid d)) = users d" "orgs (snd (Unwatch rid uid d)) = orgs d"
  "users (snd (UpdateBranchHead rid b sha d)) = users d" "orgs (snd (UpdateBranchHead rid b sha d)) = orgs d"
  "users (snd (AddCollaborator rid uid p d)) = users d" "orgs (snd (AddCollaborator rid uid p d)) = orgs d"
  "users (snd (RemoveCollaborator rid uid d)) = users d" "orgs (snd (RemoveCollaborator rid uid d)) = orgs d"
  by (simp_all add: repo_Create_def insert_repo_def Fork_def repo_Update_def Let_def Star_def Unstar_def
      repo_Delete_def delete_repo_row_def cascade_repo_def Watch_def Unwatch_def UpdateBranchHead_def
      AddCollaborator_def RemoveCollaborator_def split: option.split sum.split prod.split)

text \<open>The primary key stays one.\<close>

lemma repo_ids_Create:
  "unique_on r_id (repos d) \<Longrightarrow> unique_on r_id (repos (snd (repo_Create now nid ot oid on name desc priv d)))"
proof (cases rule: repo_Create_cases [of now nid ot oid on name desc priv d])
  case (made r)
  then show "unique_on r_id (repos d) \<Longrightarrow> ?thesis" by (simp add: unique_on_insert new_repo_row_def)
qed simp

lemma repo_ids_update:
  "unique_on r_id (repos d) \<Longrightarrow> (\<And>r. r_id (f r) = r_id r) \<Longrightarrow> unique_on r_id (repos (update_repo rid f d))"
  by (simp add: repos_update_repo unique_on_update)

lemma repo_ids_Fork: "unique_on r_id (repos d) \<Longrightarrow> unique_on r_id (repos (snd (Fork now nid src ot oid on d)))"
  using repo_ids_Create [of d now nid ot oid on "rp_name src @ ''-fork''"
      "''Forked from '' @ rp_full_name src" "rp_private src"]
  by (auto simp: Fork_def split: sum.split prod.split intro!: repo_ids_update)

lemma repo_ids_others:
  assumes "unique_on r_id (repos d)"
  shows "unique_on r_id (repos (snd (snd (repo_Update now rid i c d))))"
    "unique_on r_id (repos (snd (snd (Star rid uid c d))))"
    "unique_on r_id (repos (snd (snd (Unstar rid uid c d))))"
    "unique_on r_id (repos (snd (snd (repo_Delete rid c d))))"
  using assms
  by (auto simp: repo_Update_def Let_def apply_repo_input_def Star_def Unstar_def repo_Delete_def delete_repo_row_def
      cascade_repo_def unique_on_delete split: option.split intro!: repo_ids_update)

lemma repo_step_ids: "repo_step s t \<Longrightarrow> unique_on r_id (repos (snd (snd s))) \<Longrightarrow> unique_on r_id (repos (snd (snd t)))"
  by (induction rule: repo_step.induct) (simp_all add: repo_ids_Create repo_ids_Fork repo_ids_others side_ops_repos)

lemma coherent_clearing_ops:
  assumes "repo_coherent now c d"
  shows "repo_coherent now (fst (snd (Star rid uid c d))) (snd (snd (Star rid uid c d)))"
    "repo_coherent now (fst (snd (Unstar rid uid c d))) (snd (snd (Unstar rid uid c d)))"
    "repo_coherent now (fst (snd (repo_Delete rid c d))) (snd (snd (repo_Delete rid c d)))"
  using assms
  by (auto simp: Star_def Unstar_def Let_def repo_Delete_def delete_repo_row_def key_free_iff rows_affected_0
      intro: repo_coherent_db)

lemma coherent_side_ops:
  assumes "repo_coherent now c d"
  shows "repo_coherent now c (snd (Watch rid uid d))" "repo_coherent now c (snd (Unwatch rid uid d))"
    "repo_coherent now c (snd (UpdateBranchHead rid b sha d))"
    "repo_coherent now c (snd (AddCollaborator rid uid p d))"
    "repo_coherent now c (snd (RemoveCollaborator rid uid d))"
  by (rule repo_coherent_db [OF assms]; simp add: side_ops_repos repo_ops_owners)+

lemma repo_step_inv: "repo_step s t \<Longrightarrow> repo_inv s \<Longrightarrow> repo_inv t"
proof -
  assume step: "repo_step s t" and inv: "repo_inv s"
  have ok: "unique_on r_id (repos (snd (snd s)))" "repo_coherent (fst s) (fst (snd s)) (snd (snd s))"
    using inv by (auto simp: repo_inv_def)
  have "repo_coherent (fst t) (fst (snd t)) (snd (snd t))"
    using step ok
    by (cases rule: repo_step.cases)
      (simp_all add: repo_coherent_later coherent_repo_Create coherent_Fork coherent_Get coherent_Update
        coherent_clearing_ops coherent_side_ops)
  then show ?thesis
    using repo_step_ids [OF step ok(1)] by (auto simp: repo_inv_def)
qed


text \<open>
  With slashes the cache mixes repositories up: after a lookup of \<open>a\<close> and \<open>b/c\<close>, the lookup of
  \<open>a/b\<close> and \<open>c\<close> is answered with the first one's repository, whatever the tables say.
\<close>

lemma lookup_after_set:
  assumes "query_row (named_repo d owner name) (repos d) = Some r" and "0 \<le> c_ttl c" and "t \<le> now + c_ttl c"
    and "full_name_key a m = full_name_key owner name"
  shows "fst (GetByFullName t a m (snd (GetByFullName now owner name (cache_clear c) d)) d1) =
           Inr (repository_of (coalesce (owner_name d r) []) r)"
proof -
  let ?k = "full_name_key owner name" and ?v = "repository_of (coalesce (owner_name d r) []) r"
  have "fst (cache_get now ?k (cache_clear c)) = None" by (rule ttl_cache.cleared_get)
  then obtain c1 where c1: "cache_get now ?k (cache_clear c) = (None, c1)"
    by (cases "cache_get now ?k (cache_clear c)") simp
  have "c_ttl c1 = c_ttl c"
    using ttl_cache.get_ttl [of now ?k "cache_clear c"] c1 by (simp add: ttl_cache.clear_ttl)
  then have "fst (cache_get t ?k (cache_set now ?k ?v c1)) = Some ?v"
    using assms(3) by (intro ttl_cache.set_then_get) simp
  then obtain c2 where "cache_get t ?k (cache_set now ?k ?v c1) = (Some ?v, c2)"
    by (cases "cache_get t ?k (cache_set now ?k ?v c1)") simp
  then show ?thesis using assms(1,4) c1 by (simp add: GetByFullName_def Let_def)
qed

lemma slash_names_collide:
  assumes "query_row (named_repo d a (b @ ''/'' @ n)) (repos d) = Some r" and "0 \<le> c_ttl c" and "t \<le> now + c_ttl c"
  shows "fst (GetByFullName t (a @ ''/'' @ b) n (snd (GetByFullName now a (b @ ''/'' @ n) (cache_clear c) d)) d1) =
           Inr (repository_of (coalesce (owner_name d r) []) r)"
  using assms by (rule lookup_after_set) (simp add: full_name_key_def full_name_def)

text \<open>
  Star clears the cache before its transaction commits. A lookup between the two reads the old
  row and stores it, so the count served afterwards is the old one until the entry expires; the
  operations are atomic in \<open>repo_step\<close>, and this is the interleaving that leaves out.
\<close>

lemma star_clear_before_commit:
  assumes "query_row (named_repo d owner name) (repos d) = Some r" and "0 \<le> c_ttl c"
    and "t \<le> now + c_ttl c"
  shows "fst (GetByFullName t owner name (snd (GetByFullName now owner name (cache_clear c) d)) d1) =
           Inr (repository_of (coalesce (owner_name d r) []) r)"
  using assms refl by (rule lookup_after_set)

subsection \<open>Permissions\<close>

text \<open>Who gets a given level of access to a repository, as a relation on the tables.\<close>

definition owns :: "repo_row \<Rightarrow> uuid \<Rightarrow> bool" where
  "owns r uid = (r_owner_type r = ''user'' \<and> r_owner r = uid)"

definition org_role :: "repo_row \<Rightarrow> uuid \<Rightarrow> db \<Rightarrow> string option" where
  "org_role r uid d =
     (if r_owner_type r = ''org'' then map_option om_role (query_row (\<lambda>m. om_org m = r_owner r \<and> om_user m = uid) (members d))
      else None)"

definition collab_perm :: "uuid \<Rightarrow> uuid \<Rightarrow> db \<Rightarrow> string option" where
  "collab_perm rid uid d = map_option cb_perm (query_row (\<lambda>c. cb_repo c = rid \<and> cb_user c = uid) (collabs d))"

lemma org_grants_role:
  "org_grants (r_owner_type r) (r_owner r) uid p d \<longleftrightarrow>
     (\<exists>role. org_role r uid d = Some role \<and> (role = ''admin'' \<or> permRank p \<le> 1))"
  by (auto simp: org_grants_def org_role_def permRank_def split: option.split)

lemma CanAccess_found:
  "query_row (\<lambda>r. r_id r = rid) (repos d) = Some r \<Longrightarrow>
     CanAccess rid uid p d =
       Inr (owns r uid \<or> org_grants (r_owner_type r) (r_owner r) uid p d
            \<or> (case collab_perm rid uid d of Some q \<Rightarrow> permRank p \<le> permRank q | None \<Rightarrow> \<not> r_private r))"
  by (auto simp: CanAccess_def owns_def collab_perm_def split: option.split)

text \<open>C16: A private repository opens only to its owner, to administrators of the owning
  organization (to its other members for reading), and to collaborators whose permission reaches
  the level asked for.\<close>

theorem private_access_sound:
  assumes "query_row (\<lambda>r. r_id r = rid) (repos d) = Some r" and "r_private r"
  shows "CanAccess rid uid p d = Inr True \<longleftrightarrow>
     owns r uid \<or> org_role r uid d = Some ''admin'' \<or> org_role r uid d \<noteq> None \<and> permRank p = 1
     \<or> (\<exists>q. collab_perm rid uid d = Some q \<and> permRank p \<le> permRank q)"
proof -
  have one: "permRank p \<le> 1 \<longleftrightarrow> permRank p = 1" by (simp add: permRank_def)
  show ?thesis
    using assms by (auto simp: CanAccess_found org_grants_role one split: option.splits)
qed

text \<open>Access is monotone in the level: whoever may administer may write, and whoever may
  write may read.\<close>

theorem access_monotone:
  assumes "CanAccess rid uid p d = Inr True" and "permRank q \<le> permRank p"
  shows "CanAccess rid uid q d = Inr True"
proof -
  obtain r where "query_row (\<lambda>r. r_id r = rid) (repos d) = Some r"
    using assms(1) by (auto simp: CanAccess_def split: option.splits)
  with assms show ?thesis by (auto simp: CanAccess_found org_grants_role split: option.splits)
qed

text \<open>On a public repository a user without any relation to it passes every permission check,
  the one for administration included; becoming a collaborator takes that away again: the
  collaborators of a public repository have less access than strangers.\<close>

theorem stranger_outranks_collaborator:
  assumes "query_row (\<lambda>r. r_id r = rid) (repos d) = Some r" and "\<not> r_private r"
    and "\<not> owns r uid" and "org_role r uid d = None" and "collab_perm rid uid d = None"
    and "user_exists uid d"
  shows "CanAccess rid uid ''admin'' d = Inr True
       \<and> CanAccess rid uid ''admin'' (snd (AddCollaborator rid uid perm d)) = Inr False"
proof -
  let ?d1 = "snd (AddCollaborator rid uid perm d)"
  let ?p = "if perm \<noteq> ''read'' \<and> perm \<noteq> ''write'' then ''read'' else perm"
  let ?row = "\<lparr>cb_repo = rid, cb_user = uid, cb_perm = ?p\<rparr>"
  have ex: "repo_exists rid d"
    using query_row_Some [OF assms(1)] by (auto simp: repo_exists_def references_iff)
  have none: "query_row (\<lambda>c. cb_repo c = rid \<and> cb_user c = uid) (collabs d) = None"
    using assms(5) by (simp add: collab_perm_def)
  have "\<not> sql_exists (\<lambda>c. cb_repo c = rid \<and> cb_user c = uid) (collabs d)"
    using none by (simp add: sql_exists_iff query_row_None)
  then have d1: "?d1 = d\<lparr>collabs := insert_row ?row (collabs d)\<rparr>"
    using ex assms(6) by (simp add: AddCollaborator_def Let_def upsert_row_def)
  have "collab_perm rid uid ?d1 = Some ?p"
    using none by (simp add: d1 collab_perm_def query_row_insert)
  moreover have "query_row (\<lambda>r. r_id r = rid) (repos ?d1) = Some r" "org_role r uid ?d1 = None"
    using assms(1,4) by (auto simp: d1 org_role_def split: if_splits)
  ultimately have "CanAccess rid uid ''admin'' ?d1 = Inr False"
    using assms(3) by (auto simp: CanAccess_found org_grants_role permRank_def)
  moreover have "CanAccess rid uid ''admin'' d = Inr True"
    using assms by (simp add: CanAccess_found)
  ultimately show ?thesis by blast
qed

subsection \<open>Witnesses\<close>

definition demo_user :: "nat \<Rightarrow> string \<Rightarrow> user_row" where
  "demo_user n name = \<lparr>u_id = Uuid n, u_name = name, u_email = name @ ''@x'', u_hash = ''h'',
     u_avatar = None, u_created = 0, u_role = ''user'', u_fails = 0, u_locked = None, u_pwd_changed = 0\<rparr>"

definition demo_repo :: "bool \<Rightarrow> int \<Rightarrow> repo_row" where
  "demo_repo priv n = (new_repo_row 0 (Uuid 10) ''user'' (Uuid 1) ''code'' [] priv)\<lparr>r_stars := n\<rparr>"

definition demo_db :: "bool \<Rightarrow> db" where
  "demo_db priv = empty_db\<lparr>users := [demo_user 1 ''ann'', demo_user 2 ''bob''], repos := [demo_repo priv 1],
     stars := [(Uuid 10, Uuid 2)]\<rparr>"

lemmas demo_defs = demo_user_def demo_repo_def demo_db_def new_repo_row_def empty_db_def

lemma demo_ok: "stars_ok (demo_db priv)"
  by (simp_all add: demo_defs stars_ok_def unique_on_def star_count_def repo_exists_def references_def)

lemma demo_row: "query_row (\<lambda>r. r_id r = Uuid 10) (repos (demo_db priv)) = Some (demo_repo priv 1)"
  by (simp add: demo_defs)

lemma star_count_exact_witness:
  "r_stars (demo_repo False 2) = int (star_count (Uuid 10) (snd (snd (Star (Uuid 10) (Uuid 1) (cache_new 5) (demo_db False)))))"
proof -
  define s where "s = Star (Uuid 10) (Uuid 1) (cache_new 5) (demo_db False)"
  have "repo_step (0, cache_new 5, demo_db False) (0, fst (snd s), snd (snd s))"
    using repo_step.star [of 0 "cache_new 5" "demo_db False" "Uuid 10" "Uuid 1"] by (simp add: s_def)
  moreover have "demo_repo False 2 \<in> set (repos (snd (snd s)))"
    by (simp add: s_def Star_def demo_defs user_exists_def repo_exists_def references_def update_repo_def update_where_def)
  ultimately have "r_stars (demo_repo False 2) = int (star_count (r_id (demo_repo False 2)) (snd (snd s)))"
    by (intro star_count_exact [OF r_into_rtranclp demo_ok(1)])
  then show ?thesis by (simp add: s_def demo_repo_def new_repo_row_def)
qed

lemma user_deletion_breaks_star_count_witness:
  "r_stars (demo_repo False 1) =
     int (star_count (Uuid 10) (snd (delete_user_row (Uuid 2) (demo_db False)))) + 1"
  using user_deletion_breaks_star_count [OF demo_ok(1), of "demo_repo False 1" False "Uuid 2"]
  by (simp add: demo_defs user_referenced_def references_def user_exists_def)


lemma private_access_sound_witness: "CanAccess (Uuid 10) (Uuid 2) ''read'' (demo_db True) \<noteq> Inr True"
  using private_access_sound [OF demo_row, of True "Uuid 2" "''read''"]
  by (simp add: demo_defs owns_def org_role_def collab_perm_def)

lemma access_monotone_witness: "CanAccess (Uuid 10) (Uuid 1) ''write'' (demo_db True) = Inr True"
  by (rule access_monotone [of _ _ "''admin''"]) (simp_all add: CanAccess_def demo_defs permRank_def)

lemma stranger_outranks_collaborator_witness:
  "CanAccess (Uuid 10) (Uuid 2) ''admin'' (demo_db False) = Inr True
   \<and> CanAccess (Uuid 10) (Uuid 2) ''admin'' (snd (AddCollaborator (Uuid 10) (Uuid 2) ''write'' (demo_db False))) = Inr False"
  by (rule stranger_outranks_collaborator [OF demo_row])
    (simp_all add: demo_defs owns_def org_role_def collab_perm_def user_exists_def references_def)

end
