(* ===== verification/GitProtocol.thy ===== *)
theory GitProtocol
  imports Prelude GoStrings
begin

section \<open>The git wire protocol (internal/git/protocol.go)\<close>

text \<open>
  Reading the reference updates at the head of a receive-pack request, framing pkt-lines, and the
  names of services and content types. A request body is a list of bytes, one character each. The
  loop over the body consumes at least four bytes a turn.
\<close>

record ref_update =
  ru_old :: string
  ru_new :: string
  ru_ref :: string

subsection \<open>Hexadecimal lengths\<close>

definition hex_value :: "char \<Rightarrow> nat option" where
  "hex_value c =
     (let n = of_char c :: nat
      in if 48 \<le> n \<and> n \<le> 57 then Some (n - 48)
         else if 97 \<le> n \<and> n \<le> 102 then Some (n - 87)
         else if 65 \<le> n \<and> n \<le> 70 then Some (n - 55) else None)"

fun hex_digits :: "nat \<Rightarrow> string \<Rightarrow> nat option" where
  "hex_digits acc [] = Some acc"
| "hex_digits acc (c # cs) =
     (case hex_value c of None \<Rightarrow> None | Some v \<Rightarrow> hex_digits (16 * acc + v) cs)"

text \<open>\<open>strconv.ParseInt(s, 16, 32)\<close> on four bytes: a sign is allowed, at least one digit is needed.\<close>

definition parse_hex :: "string \<Rightarrow> int option" where
  "parse_hex s =
     (case s of
        [] \<Rightarrow> None
      | c # cs \<Rightarrow>
          if c = CHR ''+'' then (if cs = [] then None else map_option int (hex_digits 0 cs))
          else if c = CHR ''-'' then (if cs = [] then None else map_option (\<lambda>n. - int n) (hex_digits 0 cs))
          else map_option int (hex_digits 0 s))"

text \<open>\<open>%04x\<close>.\<close>

fun hex_nat :: "nat \<Rightarrow> string" where
  "hex_nat n = (if n < 16 then [hex_digit n] else hex_nat (n div 16) @ [hex_digit (n mod 16)])"

declare hex_nat.simps [simp del]

definition pad_left :: "nat \<Rightarrow> string \<Rightarrow> string" where
  "pad_left w s = replicate (w - length s) (CHR ''0'') @ s"

definition formatPktLine :: "string \<Rightarrow> string" where
  "formatPktLine body = pad_left 4 (hex_nat (length body + 4)) @ body"

definition WriteServicePacket :: "string \<Rightarrow> string" where
  "WriteServicePacket service = formatPktLine (''# service='' @ service @ [CHR 0x0A]) @ ''0000''"

subsection \<open>Reference updates\<close>

text \<open>One pkt-line: the update it holds, or None where the loop goes on without one.\<close>

definition ref_of_line :: "string \<Rightarrow> ref_update option" where
  "ref_of_line line0 =
     (let line = trim_right (\<lambda>c. c = CHR 0x0A) line0;
          parts = split_n 3 '' '' line
      in if length parts < 3 then None
         else (let oldSHA = parts ! 0; newSHA = parts ! 1; ref0 = parts ! 2;
                   ref = (case index_byte (CHR 0x00) ref0 of None \<Rightarrow> ref0 | Some idx \<Rightarrow> take idx ref0)
               in if length oldSHA \<noteq> 40 \<or> length newSHA \<noteq> 40 then None
                  else Some \<lparr>ru_old = oldSHA, ru_new = newSHA, ru_ref = ref\<rparr>))"

function ParseRefUpdates :: "string \<Rightarrow> ref_update list" where
  "ParseRefUpdates data =
     (if length data < 4 then []
      else (case parse_hex (take 4 data) of
              None \<Rightarrow> []
            | Some n \<Rightarrow>
                if n \<le> 0 then []
                else if n = 4 then ParseRefUpdates (drop 4 data)
                else if n < 4 then []
                else (let rest = drop 4 data; len = nat (n - 4)
                      in if length rest < len then []
                         else (case ref_of_line (take len rest) of
                                 None \<Rightarrow> ParseRefUpdates (drop len rest)
                               | Some r \<Rightarrow> r # ParseRefUpdates (drop len rest)))))"
  by auto
termination by (relation "measure length") auto

declare ParseRefUpdates.simps [simp del]

subsection \<open>Names of services\<close>

definition packCommand :: "string \<Rightarrow> string" where
  "packCommand service =
     (if service = ''git-receive-pack'' \<or> service = ''receive-pack'' then ''receive-pack'' else ''upload-pack'')"

definition ServiceFromQuery :: "string \<Rightarrow> string" where
  "ServiceFromQuery service =
     (if service = ''git-upload-pack'' then ''git-upload-pack''
      else if service = ''git-receive-pack'' then ''git-receive-pack'' else [])"

definition AdvertisementContentType :: "string \<Rightarrow> string" where
  "AdvertisementContentType service =
     (if service = ''git-receive-pack'' then ''application/x-git-receive-pack-advertisement''
      else ''application/x-git-upload-pack-advertisement'')"

definition RequestContentType :: "string \<Rightarrow> string" where
  "RequestContentType service =
     (if service = ''git-receive-pack'' then ''application/x-git-receive-pack-request''
      else ''application/x-git-upload-pack-request'')"

definition ResultContentType :: "string \<Rightarrow> string" where
  "ResultContentType service =
     (if service = ''git-receive-pack'' then ''application/x-git-receive-pack-result''
      else ''application/x-git-upload-pack-result'')"

definition NormalizeService :: "string \<Rightarrow> string" where
  "NormalizeService segment =
     (let s = trim_prefix ''git-'' segment
      in if s = ''receive-pack'' then ''git-receive-pack''
         else if s = ''upload-pack'' then ''git-upload-pack''
         else segment)"

text \<open>\<open>AdvertiseRefs\<close> writes what the git command prints; \<open>run_git\<close> is that command.\<close>

definition AdvertiseRefs :: "(string list \<Rightarrow> string result) \<Rightarrow> string \<Rightarrow> string \<Rightarrow> string result" where
  "AdvertiseRefs run_git repoPath service =
     run_git [packCommand service, ''--stateless-rpc'', ''--advertise-refs'', repoPath]"

subsection \<open>Round trip of the framing\<close>

lemma hex_digit_value: "d < 16 \<Longrightarrow> hex_value (hex_digit d) = Some d"
  by (auto simp: hex_value_def hex_digit_def Let_def)

lemma hex_digits_append:
  "hex_digits acc (s @ t) = (case hex_digits acc s of None \<Rightarrow> None | Some a \<Rightarrow> hex_digits a t)"
  by (induction s arbitrary: acc) (auto split: option.split)

lemma hex_digits_hex_nat: "hex_digits 0 (hex_nat n) = Some n"
proof (induction n rule: hex_nat.induct)
  case (1 n)
  then show ?case
    by (subst hex_nat.simps) (auto simp: hex_digits_append hex_digit_value)
qed

lemma hex_digits_zeros: "hex_digits 0 (replicate k (CHR ''0'') @ s) = hex_digits 0 s"
  by (induction k) (auto simp: hex_value_def)

lemma hex_nat_length: "n < 16 ^ k \<Longrightarrow> 0 < k \<Longrightarrow> length (hex_nat n) \<le> k"
proof (induction n arbitrary: k rule: hex_nat.induct)
  case (1 n)
  show ?case
  proof (cases "n < 16")
    case True
    then show ?thesis using 1 by (subst hex_nat.simps) simp
  next
    case False
    with 1 have k: "1 < k" by (cases "k = 1") auto
    then have "n div 16 < 16 ^ (k - 1)"
      using 1(2) by (metis div_less_iff_less_mult less_imp_Suc_add power_Suc mult.commute diff_Suc_1 plus_1_eq_Suc zero_less_numeral)
    then have "length (hex_nat (n div 16)) \<le> k - 1" using 1 False k by simp
    then show ?thesis using False k by (subst hex_nat.simps) simp
  qed
qed

lemma hex_digit_not_sign: "d < 16 \<Longrightarrow> hex_digit d \<noteq> CHR ''+'' \<and> hex_digit d \<noteq> CHR ''-''"
  by (auto simp: hex_digit_def dest!: arg_cong [where f = "of_char :: char \<Rightarrow> nat"])

lemma hex_nat_chars: "c \<in> set (hex_nat n) \<Longrightarrow> c \<noteq> CHR ''+'' \<and> c \<noteq> CHR ''-''"
proof (induction n rule: hex_nat.induct)
  case (1 n)
  show ?case
  proof (cases "n < 16")
    case True
    then show ?thesis using 1 hex_digit_not_sign by (subst (asm) hex_nat.simps) auto
  next
    case False
    then have "c \<in> set (hex_nat (n div 16)) \<or> c = hex_digit (n mod 16)"
      using 1(2) by (subst (asm) hex_nat.simps) auto
    then show ?thesis using 1(1) False hex_digit_not_sign by auto
  qed
qed

lemma parse_hex_length:
  assumes "n < 65536"
  shows "length (pad_left 4 (hex_nat n)) = 4" and "parse_hex (pad_left 4 (hex_nat n)) = Some (int n)"
proof -
  have "length (hex_nat n) \<le> 4" using assms by (intro hex_nat_length) simp_all
  then show len: "length (pad_left 4 (hex_nat n)) = 4" by (simp add: pad_left_def)
  have val: "hex_digits 0 (pad_left 4 (hex_nat n)) = Some n"
    by (simp add: pad_left_def hex_digits_zeros hex_digits_hex_nat)
  have "\<forall>c\<in>set (pad_left 4 (hex_nat n)). c \<noteq> CHR ''+'' \<and> c \<noteq> CHR ''-''"
    using hex_nat_chars by (auto simp: pad_left_def)
  then show "parse_hex (pad_left 4 (hex_nat n)) = Some (int n)"
    using len val by (cases "pad_left 4 (hex_nat n)") (auto simp: parse_hex_def)
qed

text \<open>Reading one framed line leaves the rest.\<close>

lemma ParseRefUpdates_line:
  assumes "body \<noteq> []" and "length body + 4 < 65536"
  shows "ParseRefUpdates (formatPktLine body @ rest) =
           (case ref_of_line body of None \<Rightarrow> ParseRefUpdates rest | Some r \<Rightarrow> r # ParseRefUpdates rest)"
proof -
  let ?h = "pad_left 4 (hex_nat (length body + 4))"
  have h: "length ?h = 4" "parse_hex ?h = Some (int (length body + 4))"
    using parse_hex_length [OF assms(2)] by simp_all
  have d: "formatPktLine body @ rest = ?h @ body @ rest" by (simp add: formatPktLine_def)
  have "take 4 (?h @ body @ rest) = ?h" "drop 4 (?h @ body @ rest) = body @ rest" using h(1) by simp_all
  then show ?thesis
    unfolding d by (subst ParseRefUpdates.simps) (use h assms(1) in \<open>simp add: Let_def split: option.split\<close>)
qed

lemma ParseRefUpdates_flush: "ParseRefUpdates (''0000'' @ rest) = []"
  by (subst ParseRefUpdates.simps) (simp add: parse_hex_def hex_value_def)

lemma trim_right_snoc: "P c \<Longrightarrow> trim_right P (s @ [c]) = trim_right P s"
  by (simp add: trim_right_def)

text \<open>
  What a client sends for one update: the two object names, the reference, on some lines (git does it on the
  first) a NUL byte and the capabilities, and on some a newline. A shallow clone sends lines of its own
  before. Object names are those of SHA-1, 40 characters; a reference has no NUL byte and no newline in it,
  the capabilities no newline, and a line is shorter than 65532 bytes, as a pkt-line must be.
\<close>

definition ref_line :: "ref_update \<Rightarrow> string option \<Rightarrow> bool \<Rightarrow> string" where
  "ref_line u caps lf =
     ru_old u @ CHR '' '' # ru_new u @ CHR '' '' # ru_ref u
     @ (case caps of None \<Rightarrow> [] | Some c \<Rightarrow> CHR 0x00 # c) @ (if lf then [CHR 0x0A] else [])"

definition shallow_line :: "string \<Rightarrow> bool \<Rightarrow> string" where
  "shallow_line sha lf = ''shallow '' @ sha @ (if lf then [CHR 0x0A] else [])"

definition ref_ok :: "ref_update \<Rightarrow> bool" where
  "ref_ok u = (length (ru_old u) = 40 \<and> length (ru_new u) = 40 \<and> CHR '' '' \<notin> set (ru_old u)
     \<and> CHR '' '' \<notin> set (ru_new u) \<and> CHR 0x00 \<notin> set (ru_ref u) \<and> CHR 0x0A \<notin> set (ru_ref u))"

definition update_ok :: "ref_update \<times> string option \<times> bool \<Rightarrow> bool" where
  "update_ok = (\<lambda>(u, caps, lf). ref_ok u \<and> (case caps of None \<Rightarrow> True | Some c \<Rightarrow> CHR 0x0A \<notin> set c)
     \<and> length (ref_line u caps lf) < 65532)"

definition shallow_ok :: "string \<times> bool \<Rightarrow> bool" where
  "shallow_ok = (\<lambda>(sha, lf). CHR '' '' \<notin> set sha \<and> CHR 0x0A \<notin> set sha \<and> length (shallow_line sha lf) < 65532)"

lemma trim_right_no:
  assumes "\<not> P (last xs)" and "P c"
  shows "trim_right P (xs @ (if lf then [c] else [])) = xs"
proof -
  have "trim_right P xs = xs" using assms(1) by (intro trim_right_id) simp
  then show ?thesis using assms(2) by (simp add: trim_right_snoc)
qed

lemma last_notin: "x \<notin> set xs \<Longrightarrow> y \<noteq> x \<Longrightarrow> last (y # xs) \<noteq> x"
  by (metis last_in_set list.distinct(1) set_ConsD)

lemma ref_of_line_ref_line:
  assumes "update_ok (u, caps, lf)"
  shows "ref_of_line (ref_line u caps lf) = Some u"
proof -
  define tail where "tail = ru_ref u @ (case caps of None \<Rightarrow> [] | Some c \<Rightarrow> CHR 0x00 # c)"
  let ?line = "ru_old u @ CHR '' '' # ru_new u @ CHR '' '' # tail"
  have ok: "ref_ok u" using assms by (simp add: update_ok_def)
  have "CHR 0x0A \<notin> set tail" using assms by (auto simp: tail_def update_ok_def ref_ok_def split: option.splits)
  then have "last (CHR '' '' # tail) \<noteq> CHR 0x0A" by (rule last_notin) simp
  then have "last ?line \<noteq> CHR 0x0A" by simp
  then have t: "trim_right (\<lambda>c. c = CHR 0x0A) (ref_line u caps lf) = ?line"
    using trim_right_no [of "\<lambda>c. c = CHR 0x0A" ?line "CHR 0x0A" lf] by (simp add: ref_line_def tail_def)
  have "split_n 3 '' '' ?line = [ru_old u, ru_new u, tail]"
    using ok by (simp add: eval_nat_numeral ref_ok_def cut_byte)
  moreover have "(case index_byte (CHR 0x00) tail of None \<Rightarrow> tail | Some idx \<Rightarrow> take idx tail) = ru_ref u"
  proof (cases caps)
    case None
    then have "index_byte (CHR 0x00) tail = None" using ok by (simp add: tail_def ref_ok_def index_byte_None)
    then show ?thesis using None by (simp add: tail_def)
  next
    case (Some c)
    then show ?thesis using ok by (simp add: tail_def ref_ok_def index_byte_append)
  qed
  ultimately show ?thesis
    using ok by (simp add: ref_of_line_def t Let_def ref_ok_def)
qed

lemma shallow_line_skipped:
  assumes "shallow_ok (sha, lf)"
  shows "ref_of_line (shallow_line sha lf) = None"
proof -
  have sha: "CHR '' '' \<notin> set sha" "CHR 0x0A \<notin> set sha" using assms by (simp_all add: shallow_ok_def)
  have "last (CHR '' '' # sha) \<noteq> CHR 0x0A" by (rule last_notin) (use sha in simp_all)
  then have t: "trim_right (\<lambda>c. c = CHR 0x0A) (shallow_line sha lf) = ''shallow'' @ CHR '' '' # sha"
    using trim_right_no [of "\<lambda>c. c = CHR 0x0A" "''shallow'' @ CHR '' '' # sha" "CHR 0x0A" lf]
    by (simp add: shallow_line_def)
  have "split_n 3 '' '' (''shallow'' @ CHR '' '' # sha) = [''shallow'', sha]"
    using sha(1) cut_byte [of "CHR '' ''" "''shallow''" sha] cut_byte_None [of "CHR '' ''" sha]
    by (simp add: eval_nat_numeral del: cut.simps append.simps)
  then show ?thesis by (simp add: ref_of_line_def t Let_def)
qed

text \<open>The whole request: shallow lines, one pkt-line per update, the flush packet, the pack.\<close>

definition push_request ::
  "(string \<times> bool) list \<Rightarrow> (ref_update \<times> string option \<times> bool) list \<Rightarrow> string \<Rightarrow> string" where
  "push_request shallows us pack =
     concat (map (\<lambda>(sha, lf). formatPktLine (shallow_line sha lf)) shallows)
     @ concat (map (\<lambda>(u, caps, lf). formatPktLine (ref_line u caps lf)) us) @ ''0000'' @ pack"

lemma parse_push_request:
  assumes "list_all shallow_ok shallows" and "list_all update_ok us"
  shows "ParseRefUpdates (push_request shallows us pack) = map fst us"
proof -
  have lines: "ParseRefUpdates (push_request [] us pack) = map fst us"
    using assms(2)
  proof (induction us)
    case Nil
    then show ?case using ParseRefUpdates_flush [of pack] by (simp add: push_request_def)
  next
    case (Cons a us)
    obtain u caps lf where a: "a = (u, caps, lf)" by (cases a)
    have "ref_line u caps lf \<noteq> []" by (simp add: ref_line_def)
    moreover have ok: "update_ok (u, caps, lf)" using Cons.prems by (simp add: a)
    then have "length (ref_line u caps lf) + 4 < 65536" by (simp add: update_ok_def)
    ultimately have "ParseRefUpdates (formatPktLine (ref_line u caps lf) @ push_request [] us pack) =
        u # ParseRefUpdates (push_request [] us pack)"
      using ref_of_line_ref_line [OF ok] by (simp add: ParseRefUpdates_line)
    then show ?case using Cons by (simp add: a push_request_def)
  qed
  show ?thesis
    using assms(1)
  proof (induction shallows)
    case Nil
    show ?case by (rule lines)
  next
    case (Cons a shallows)
    obtain sha lf where a: "a = (sha, lf)" by (cases a)
    have "shallow_line sha lf \<noteq> []" by (simp add: shallow_line_def)
    moreover have ok: "shallow_ok (sha, lf)" using Cons.prems by (simp add: a)
    then have "length (shallow_line sha lf) + 4 < 65536" by (simp add: shallow_ok_def)
    ultimately have "ParseRefUpdates (formatPktLine (shallow_line sha lf) @ push_request shallows us pack) =
        ParseRefUpdates (push_request shallows us pack)"
      using shallow_line_skipped [OF ok] by (simp add: ParseRefUpdates_line)
    then show ?case using Cons by (simp add: a push_request_def)
  qed
qed

text \<open>C32: Parsing recovers exactly the reference updates a client sends, in order, whichever of the lines
  carry capabilities after a NUL byte (git's first does, the others do not), whichever end in a newline, whatever
  lines of a shallow clone come before them, and whatever pack follows the flush packet. (Object names of 40
  characters, as SHA-1 has them; references without NUL bytes and newlines; lines that fit into a pkt-line.)\<close>

theorem ref_updates_roundtrip:
  assumes "list_all shallow_ok shallows" and "list_all update_ok us"
  shows "ParseRefUpdates (push_request shallows us pack) = map fst us"
  using assms by (rule parse_push_request)

text \<open>Names of another length are passed over, so those of a SHA-256 repository are.\<close>

lemma other_lengths_skipped:
  assumes "length (ru_old u) \<noteq> 40" and "CHR '' '' \<notin> set (ru_old u)" and "CHR '' '' \<notin> set (ru_new u)"
    and "CHR 0x0A \<notin> set (ru_ref u)"
  shows "ref_of_line (ref_line u None False) = None"
proof -
  let ?line = "ru_old u @ CHR '' '' # ru_new u @ CHR '' '' # ru_ref u"
  have "last (CHR '' '' # ru_ref u) \<noteq> CHR 0x0A" using assms(4) by (rule last_notin) simp
  then have "trim_right (\<lambda>c. c = CHR 0x0A) ?line = ?line" by (intro trim_right_id) simp
  moreover have "split_n 3 '' '' ?line = [ru_old u, ru_new u, ru_ref u]"
    using assms(2,3) by (simp add: eval_nat_numeral cut_byte)
  ultimately show ?thesis using assms(1) by (simp add: ref_of_line_def ref_line_def Let_def)
qed

definition demo_update :: ref_update where
  "demo_update = \<lparr>ru_old = replicate 40 (CHR ''0''), ru_new = replicate 40 (CHR ''a''), ru_ref = ''refs/heads/main''\<rparr>"

definition demo_update2 :: ref_update where
  "demo_update2 = demo_update\<lparr>ru_ref := ''refs/tags/v1''\<rparr>"

lemma ref_updates_roundtrip_witness:
  "ParseRefUpdates (push_request [(replicate 40 (CHR ''b''), True)]
     [(demo_update, Some '' report-status side-band-64k'', False), (demo_update2, None, False)] ''PACK'') =
     [demo_update, demo_update2]"
  using ref_updates_roundtrip [of "[(replicate 40 (CHR ''b''), True)]"
      "[(demo_update, Some '' report-status side-band-64k'', False), (demo_update2, None, False)]" "''PACK''"]
  by (simp add: demo_update2_def demo_update_def update_ok_def shallow_ok_def shallow_line_def ref_ok_def ref_line_def)

end
