(* ===== verification/Protection.thy ===== *)
theory Protection
  imports Repo GitProtocol
begin

section \<open>Branch protection (internal/repo/protection.go)\<close>

text \<open>
  Required reviews and status checks for merging into a protected branch, and the rejection of
  pushes to one. The jobs of the workflow runs of a commit decide its checks; the query that reads
  them has no ORDER BY, so which of two jobs of the same name counts is up to the database. The
  model reads them in table order.
\<close>

record protected_branch =
  pbr_branch :: string
  pbr_checks :: "string list"
  pbr_reviews :: int

record check_result =
  cr_missing :: "string list"
  cr_pending :: "string list"
  cr_failed :: "string list"

definition HasBlockers :: "check_result \<Rightarrow> bool" where
  "HasBlockers r = (length (cr_failed r) + length (cr_pending r) + length (cr_missing r) > 0)"

definition protected_of :: "protect_row \<Rightarrow> protected_branch" where
  "protected_of r = \<lparr>pbr_branch = pb_branch r, pbr_checks = pb_checks r, pbr_reviews = pb_reviews r\<rparr>"

definition GetProtectedBranch :: "uuid \<Rightarrow> string \<Rightarrow> db \<Rightarrow> protected_branch option" where
  "GetProtectedBranch rid branch d =
     map_option protected_of (query_row (\<lambda>r. pb_repo r = rid \<and> pb_branch r = branch) (protected d))"

definition ListProtectedBranches :: "uuid \<Rightarrow> db \<Rightarrow> protected_branch list" where
  "ListProtectedBranches rid d =
     map protected_of (order_by pb_branch (rows_where (\<lambda>r. pb_repo r = rid) (protected d)))"

subsection \<open>Required checks\<close>

definition jobs_of_commit :: "uuid \<Rightarrow> string \<Rightarrow> db \<Rightarrow> job_row list" where
  "jobs_of_commit rid sha d =
     map fst (rows_where (\<lambda>(j, w). wr_repo w = rid \<and> wr_sha w = sha)
                (join_on (\<lambda>j w. wj_run j = wr_id w) (jobs d) (runs d)))"

definition job_state :: "job_row \<Rightarrow> string" where
  "job_state j =
     (if wj_status j \<noteq> ''completed'' then ''pending''
      else if wj_conclusion j = Some ''success'' then ''passed'' else ''failed'')"

definition status_by_check :: "job_row list \<Rightarrow> string \<rightharpoonup> string" where
  "status_by_check js = foldl (\<lambda>m j. m(wj_job j \<mapsto> job_state j)) Map.empty js"

text \<open>A missing key of the Go map reads as the empty string, which is the default case.\<close>

definition classify :: "(string \<rightharpoonup> string) \<Rightarrow> check_result \<Rightarrow> string \<Rightarrow> check_result" where
  "classify m res check =
     (let s = coalesce (m check) []
      in if s = ''passed'' then res
         else if s = ''failed'' then res\<lparr>cr_failed := cr_failed res @ [check]\<rparr>
         else if s = ''pending'' then res\<lparr>cr_pending := cr_pending res @ [check]\<rparr>
         else res\<lparr>cr_missing := cr_missing res @ [check]\<rparr>)"

definition no_checks :: check_result where
  "no_checks = \<lparr>cr_missing = [], cr_pending = [], cr_failed = []\<rparr>"

definition CheckRequiredChecks :: "uuid \<Rightarrow> string \<Rightarrow> string list \<Rightarrow> db \<Rightarrow> check_result" where
  "CheckRequiredChecks rid headSHA checks d =
     (if length checks = 0 then no_checks
      else foldl (classify (status_by_check (jobs_of_commit rid headSHA d))) no_checks checks)"

definition blockers_text :: "check_result \<Rightarrow> string" where
  "blockers_text res =
     join ''; ''
       ((if length (cr_failed res) > 0 then [''failed checks: '' @ show_strings (cr_failed res)] else [])
        @ (if length (cr_pending res) > 0 then [''pending checks: '' @ show_strings (cr_pending res)] else [])
        @ (if length (cr_missing res) > 0 then [''missing checks: '' @ show_strings (cr_missing res)] else []))"

definition ValidateMergeProtection ::
  "uuid \<Rightarrow> string \<Rightarrow> string \<Rightarrow> int \<Rightarrow> db \<Rightarrow> unit result" where
  "ValidateMergeProtection rid baseBranch headSHA approvedReviews d =
     (case GetProtectedBranch rid baseBranch d of
        None \<Rightarrow> Inr ()
      | Some pb \<Rightarrow>
          if pbr_reviews pb > 0 \<and> approvedReviews < pbr_reviews pb
          then Inl (ErrProtectionViolation (''need '' @ int_string (pbr_reviews pb) @ '' approvals, have ''
                      @ int_string approvedReviews))
          else (let res = CheckRequiredChecks rid headSHA (pbr_checks pb) d
                in if \<not> HasBlockers res then Inr ()
                   else Inl (ErrProtectionViolation (blockers_text res))))"

subsection \<open>Pushes\<close>

definition heads_prefix :: string where "heads_prefix = ''refs/heads/''"

fun push_errors :: "uuid \<Rightarrow> db \<Rightarrow> ref_update list \<Rightarrow> string list" where
  "push_errors rid d [] = []"
| "push_errors rid d (ref # refs) =
     (if \<not> prefix heads_prefix (ru_ref ref) then push_errors rid d refs
      else (let branch = trim_prefix heads_prefix (ru_ref ref)
            in case GetProtectedBranch rid branch d of
                 None \<Rightarrow> push_errors rid d refs
               | Some pb \<Rightarrow> (''cannot push to protected branch '' @ quote branch) # push_errors rid d refs))"

definition CheckPushProtection :: "uuid \<Rightarrow> ref_update list \<Rightarrow> db \<Rightarrow> unit result" where
  "CheckPushProtection rid refs d =
     (let errs = push_errors rid d refs
      in if length errs > 0 then Inl (ErrProtectionViolation (join ''; '' errs)) else Inr ())"

subsection \<open>Properties\<close>

text \<open>The jobs that share a name: the last one read decides.\<close>

definition last_job :: "string \<Rightarrow> job_row list \<Rightarrow> job_row option" where
  "last_job check js =
     (let ks = filter (\<lambda>j. wj_job j = check) js in if ks = [] then None else Some (last ks))"

lemma last_job_snoc: "last_job check (js @ [j]) = (if wj_job j = check then Some j else last_job check js)"
  by (simp add: last_job_def)

lemma status_by_check_last: "status_by_check js check = map_option job_state (last_job check js)"
proof (induction js rule: rev_induct)
  case Nil
  then show ?case by (simp add: status_by_check_def last_job_def)
next
  case (snoc j js)
  then show ?case by (simp add: status_by_check_def last_job_snoc)
qed

definition check_passed :: "uuid \<Rightarrow> string \<Rightarrow> db \<Rightarrow> string \<Rightarrow> bool" where
  "check_passed rid sha d check =
     (\<exists>j. last_job check (jobs_of_commit rid sha d) = Some j
        \<and> wj_status j = ''completed'' \<and> wj_conclusion j = Some ''success'')"

lemma classify_blockers:
  "HasBlockers (foldl (classify m) res checks) \<longleftrightarrow>
     HasBlockers res \<or> (\<exists>c\<in>set checks. m c \<noteq> Some ''passed'')"
proof (induction checks arbitrary: res)
  case (Cons c cs)
  have "HasBlockers (classify m res c) \<longleftrightarrow> HasBlockers res \<or> m c \<noteq> Some ''passed''"
    by (cases "m c") (auto simp: classify_def HasBlockers_def Let_def)
  then show ?case using Cons by auto
qed simp

lemma CheckRequiredChecks_iff:
  "HasBlockers (CheckRequiredChecks rid sha checks d) \<longleftrightarrow> (\<exists>c\<in>set checks. \<not> check_passed rid sha d c)"
proof -
  have "status_by_check (jobs_of_commit rid sha d) c = Some ''passed'' \<longleftrightarrow> check_passed rid sha d c" for c
    by (auto simp: status_by_check_last check_passed_def job_state_def)
  moreover have "\<not> HasBlockers no_checks" by (simp add: no_checks_def HasBlockers_def)
  ultimately show ?thesis by (auto simp: CheckRequiredChecks_def classify_blockers)
qed

text \<open>C17: A merge into a protected branch is let through exactly when the required number of
  approvals is reached and, for every required check, the last job of that name among the runs of
  the head commit has completed with success; without a protection rule it always is.\<close>

theorem merge_protection_iff:
  "ValidateMergeProtection rid base sha approvals d = Inr () \<longleftrightarrow>
     (case GetProtectedBranch rid base d of
        None \<Rightarrow> True
      | Some pb \<Rightarrow> (pbr_reviews pb \<le> 0 \<or> pbr_reviews pb \<le> approvals)
          \<and> list_all (check_passed rid sha d) (pbr_checks pb))"
  by (auto simp: list_all_iff ValidateMergeProtection_def CheckRequiredChecks_iff Let_def split: option.split)

lemma push_errors_iff:
  "push_errors rid d refs = [] \<longleftrightarrow>
     (\<forall>u\<in>set refs. \<forall>b. ru_ref u = heads_prefix @ b \<longrightarrow> GetProtectedBranch rid b d = None)"
proof (induction refs)
  case (Cons u us)
  show ?case
  proof (cases "prefix heads_prefix (ru_ref u)")
    case True
    then obtain b where "ru_ref u = heads_prefix @ b" by (auto elim: prefixE)
    moreover from this have "trim_prefix heads_prefix (ru_ref u) = b" by simp
    ultimately show ?thesis using Cons by (auto simp: Let_def split: option.split)
  next
    case False
    then have "\<forall>b. ru_ref u \<noteq> heads_prefix @ b" by (metis prefixI)
    then show ?thesis using Cons False by auto
  qed
qed simp

lemma CheckPushProtection_iff:
  "CheckPushProtection rid refs d = Inr () \<longleftrightarrow>
     (\<forall>u\<in>set refs. \<forall>b. ru_ref u = heads_prefix @ b \<longrightarrow> GetProtectedBranch rid b d = None)"
  unfolding push_errors_iff [symmetric] by (simp add: CheckPushProtection_def Let_def)

text \<open>A required check that failed is passed by a later job of the same name: adding a
  completed successful job, of any run on the commit, turns the check green whatever the jobs before
  it concluded.\<close>

theorem later_job_masks_failure:
  assumes "w \<in> set (runs d)" and "wr_repo w = rid" and "wr_sha w = sha" and "unique_on wr_id (runs d)"
    and "wj_run j = wr_id w" and "wj_job j = check"
    and "wj_status j = ''completed''" and "wj_conclusion j = Some ''success''"
  shows "check_passed rid sha (d\<lparr>jobs := insert_row j (jobs d)\<rparr>) check"
proof -
  have "filter (\<lambda>w. wj_run j = wr_id w) (runs d) = [w]"
    using rows_where_unique [OF assms(4,1) assms(5) [symmetric]] by (simp add: rows_where_def eq_commute)
  then have "jobs_of_commit rid sha (d\<lparr>jobs := insert_row j (jobs d)\<rparr>) = jobs_of_commit rid sha d @ [j]"
    using assms(2,3) by (simp add: jobs_of_commit_def rows_where_def join_on_def insert_row_def)
  then show ?thesis using assms(6-8) by (simp add: check_passed_def last_job_snoc)
qed

definition demo_run :: run_row where
  "demo_run = \<lparr>wr_id = Uuid 5, wr_repo = Uuid 10, wr_workflow = Uuid 6, wr_number = 1, wr_event = ''push'',
     wr_sha = ''abc'', wr_branch = ''main'', wr_status = ''completed'', wr_conclusion = None, wr_created = 0,
     wr_started = None, wr_completed = None\<rparr>"

definition demo_job :: "string \<Rightarrow> job_row" where
  "demo_job c = \<lparr>wj_run = Uuid 5, wj_job = ''build'', wj_status = ''completed'', wj_conclusion = Some c,
     wj_k8s = None, wj_log = None, wj_started = None, wj_completed = None\<rparr>"

lemma later_job_masks_failure_witness:
  "let d = (demo_db False)\<lparr>runs := [demo_run], jobs := [demo_job ''failure'']\<rparr>
   in \<not> check_passed (Uuid 10) ''abc'' d ''build''
      \<and> check_passed (Uuid 10) ''abc'' (d\<lparr>jobs := insert_row (demo_job ''success'') (jobs d)\<rparr>) ''build''"
proof -
  let ?d = "(demo_db False)\<lparr>runs := [demo_run], jobs := [demo_job ''failure'']\<rparr>"
  have "check_passed (Uuid 10) ''abc'' (?d\<lparr>jobs := insert_row (demo_job ''success'') (jobs ?d)\<rparr>) ''build''"
    by (rule later_job_masks_failure [of demo_run])
      (simp_all add: demo_run_def demo_job_def unique_on_def)
  moreover have "\<not> check_passed (Uuid 10) ''abc'' ?d ''build''"
    by (simp add: check_passed_def last_job_def jobs_of_commit_def rows_where_def join_on_def demo_run_def demo_job_def)
  ultimately show ?thesis by (simp add: Let_def)
qed

end
