(* ===== verification/GitServer.thy ===== *)
theory GitServer
  imports Tokens Protection
begin

section \<open>The git server (cmd/git-server: main.go, ssh.go)\<close>

text \<open>
  Smart HTTP and SSH access to the repositories: authentication, access checks, branch protection
  on HTTP pushes, and the bookkeeping after a push. The repository store runs the git program and
  is a parameter, the record \<open>git_store\<close>; its state has a type of its own. One clock reading serves
  a whole request.
\<close>

subsection \<open>The world of the server\<close>

text \<open>
  \<open>g_receive\<close> and \<open>g_upload\<close> give what git writes to the client and whether it succeeded.
  Branch lists are lists of pairs, in the order Go's map iteration happens to take.
\<close>

record 'g git_store =
  g_exists :: "'g \<Rightarrow> string \<Rightarrow> string \<Rightarrow> bool"
  g_branches :: "'g \<Rightarrow> string \<Rightarrow> string \<Rightarrow> (string \<times> string) list result"
  g_receive :: "'g \<Rightarrow> string \<Rightarrow> string \<Rightarrow> string \<Rightarrow> (string \<times> bool) \<times> 'g"
  g_upload :: "'g \<Rightarrow> string \<Rightarrow> string \<Rightarrow> string \<Rightarrow> (string \<times> bool) \<times> 'g"
  g_receive_ssh :: "'g \<Rightarrow> string \<Rightarrow> string \<Rightarrow> string list \<Rightarrow> bool \<Rightarrow> bool \<times> 'g"
  g_upload_ssh :: "'g \<Rightarrow> string \<Rightarrow> string \<Rightarrow> string list \<Rightarrow> bool \<Rightarrow> bool \<times> 'g"
  g_path :: "string \<Rightarrow> string \<Rightarrow> string"
  g_run :: "'g \<Rightarrow> string list \<Rightarrow> string result"

record push_event =
  pe_url :: string
  pe_repo :: uuid
  pe_owner :: string
  pe_name :: string
  pe_branch :: string
  pe_sha :: string
  pe_pusher :: string

record 'g git_world =
  gw_db :: db
  gw_users :: "user cache"
  gw_repos :: "repository cache"
  gw_git :: 'g
  gw_posts :: "push_event list"

record 'g git_server =
  sv_crypto :: crypto
  sv_auth :: auth_config
  sv_git :: "'g git_store"
  sv_webhook :: string

record http_request =
  rq_path :: string
  rq_method :: string
  rq_basic :: "(string \<times> string) option"
  rq_auth :: string
  rq_service :: string
  rq_body :: "string result"

record http_response =
  rs_status :: int
  rs_type :: string
  rs_body :: string

definition respond :: "int \<Rightarrow> string \<Rightarrow> http_response" where
  "respond code body = \<lparr>rs_status = code, rs_type = ''text/plain'', rs_body = body\<rparr>"

definition not_found :: http_response where "not_found = respond 404 ''404 page not found''"

subsection \<open>After a push\<close>

definition notifyPush ::
  "('g, 'z) git_server_scheme \<Rightarrow> repository \<Rightarrow> string \<Rightarrow> string \<Rightarrow> string \<Rightarrow> string \<Rightarrow> string
     \<Rightarrow> 'g git_world \<Rightarrow> 'g git_world" where
  "notifyPush sv r owner name branch sha pusher w =
     (if sv_webhook sv = [] then w
      else w\<lparr>gw_posts := gw_posts w @ [\<lparr>pe_url = trim_right (\<lambda>c. c = CHR ''/'') (sv_webhook sv) @ ''/events/push'',
               pe_repo = rp_id r, pe_owner = owner, pe_name = name, pe_branch = branch, pe_sha = sha,
               pe_pusher = pusher\<rparr>]\<rparr>)"

definition after_branch ::
  "('g, 'z) git_server_scheme \<Rightarrow> repository \<Rightarrow> string \<Rightarrow> string \<Rightarrow> string \<Rightarrow> (string \<times> string) list
     \<Rightarrow> 'g git_world \<Rightarrow> string \<times> string \<Rightarrow> 'g git_world" where
  "after_branch sv r owner name pusher before w bs =
     (if coalesce (map_of before (fst bs)) [] = snd bs then w
      else notifyPush sv r owner name (fst bs) (snd bs) pusher
             (w\<lparr>gw_db := snd (UpdateBranchHead (rp_id r) (fst bs) (snd bs) (gw_db w))\<rparr>))"

definition afterPush ::
  "('g, 'z) git_server_scheme \<Rightarrow> repository \<Rightarrow> string \<Rightarrow> string \<Rightarrow> string \<Rightarrow> (string \<times> string) list
     \<Rightarrow> 'g git_world \<Rightarrow> 'g git_world" where
  "afterPush sv r owner name pusher before w =
     (case g_branches (sv_git sv) (gw_git w) owner name of
        Inl e \<Rightarrow> w
      | Inr after \<Rightarrow> foldl (after_branch sv r owner name pusher before) w after)"

subsection \<open>HTTP\<close>

definition parseGitPath :: "string \<Rightarrow> (string \<times> string \<times> string) option" where
  "parseGitPath path =
     (let parts = split_char (CHR ''/'') (trim (\<lambda>c. c = CHR ''/'') path)
      in if length parts < 2 then None
         else (let owner = parts ! 0; name = trim_suffix ''.git'' (parts ! 1)
               in if length parts = 2 then Some (owner, name, ''info/refs'')
                  else if length parts \<ge> 4 \<and> parts ! 2 = ''info'' \<and> parts ! 3 = ''refs''
                  then Some (owner, name, ''info/refs'')
                  else Some (owner, name, NormalizeService (parts ! 2))))"

record identity =
  id_user :: uuid
  id_name :: string
  id_scopes :: "string list"
  id_pat :: bool

definition pat_identity ::
  "crypto \<Rightarrow> instant \<Rightarrow> string \<Rightarrow> string \<Rightarrow> 'g git_world \<Rightarrow> (identity \<times> 'g git_world) option" where
  "pat_identity cr now token fallback w =
     (if \<not> prefix pat_prefix token then None
      else (case ValidatePATWithScopes cr now token (gw_db w) of
              Inl e \<Rightarrow> None
            | Inr (uid, scopes) \<Rightarrow>
                (case GetUser cr now uid (gw_users w) (gw_db w) of
                   (res, c) \<Rightarrow>
                     Some (\<lparr>id_user = uid,
                            id_name = (case res of Inr u \<Rightarrow> usr_name u | Inl e \<Rightarrow> fallback),
                            id_scopes = scopes, id_pat = True\<rparr>, w\<lparr>gw_users := c\<rparr>))))"

definition bearer_identity ::
  "('g, 'z) git_server_scheme \<Rightarrow> instant \<Rightarrow> string \<Rightarrow> 'g git_world \<Rightarrow> identity option \<times> 'g git_world" where
  "bearer_identity sv now h w =
     (if \<not> prefix ''Bearer '' h then (None, w)
      else (let token = trim_prefix ''Bearer '' h
            in case pat_identity (sv_crypto sv) now token [] w of
                 Some (i, w1) \<Rightarrow> (Some i, w1)
               | None \<Rightarrow>
                   (case ValidateToken (sv_crypto sv) (sv_auth sv) now token (gw_db w) of
                      Inl e \<Rightarrow> (None, w)
                    | Inr (uid, username) \<Rightarrow>
                        (Some \<lparr>id_user = uid, id_name = username, id_scopes = [], id_pat = False\<rparr>, w))))"

definition git_authenticate ::
  "('g, 'z) git_server_scheme \<Rightarrow> instant \<Rightarrow> http_request \<Rightarrow> 'g git_world \<Rightarrow> identity option \<times> 'g git_world" where
  "git_authenticate sv now r w =
     (case rq_basic r of
        None \<Rightarrow> bearer_identity sv now (rq_auth r) w
      | Some (u, p) \<Rightarrow>
          (case Login (sv_crypto sv) (sv_auth sv) now u p (gw_db w) of
             (Inr (tok, usr), d1) \<Rightarrow>
               (Some \<lparr>id_user = usr_id usr, id_name = usr_name usr, id_scopes = [], id_pat = False\<rparr>, w\<lparr>gw_db := d1\<rparr>)
           | (Inl e, d1) \<Rightarrow>
               (case pat_identity (sv_crypto sv) now (if p = [] then u else p) u (w\<lparr>gw_db := d1\<rparr>) of
                  Some (i, w1) \<Rightarrow> (Some i, w1)
                | None \<Rightarrow> bearer_identity sv now (rq_auth r) (w\<lparr>gw_db := d1\<rparr>))))"

definition handleInfoRefs ::
  "('g, 'z) git_server_scheme \<Rightarrow> http_request \<Rightarrow> string \<Rightarrow> string \<Rightarrow> 'g git_world \<Rightarrow> http_response" where
  "handleInfoRefs sv r owner name w =
     (if rq_method r \<noteq> ''GET'' then respond 405 ''method not allowed''
      else (let service0 = ServiceFromQuery (rq_service r);
                service = (if service0 = [] then ''git-upload-pack'' else service0)
            in case AdvertiseRefs (g_run (sv_git sv) (gw_git w)) (g_path (sv_git sv) owner name) service of
                 Inl e \<Rightarrow> respond 500 (err_text e)
               | Inr out \<Rightarrow> \<lparr>rs_status = 200, rs_type = AdvertisementContentType service,
                             rs_body = WriteServicePacket service @ out\<rparr>))"

definition has_access :: "uuid \<Rightarrow> uuid \<Rightarrow> string \<Rightarrow> db \<Rightarrow> bool" where
  "has_access rid uid p d = (CanAccess rid uid p d = Inr True)"

text \<open>
  The push: the reference updates are read from the body, checked, and the whole body goes to git.
  When the branches cannot be listed nothing is written, which the server sends as an empty 200.
\<close>

definition http_push ::
  "('g, 'z) git_server_scheme \<Rightarrow> repository \<Rightarrow> string \<Rightarrow> string \<Rightarrow> string \<Rightarrow> string result \<Rightarrow> 'g git_world
     \<Rightarrow> http_response \<times> 'g git_world" where
  "http_push sv repo owner name pusher body0 w =
     (case body0 of
        Inl e \<Rightarrow> (respond 500 ''cannot read body'', w)
      | Inr body \<Rightarrow>
          (let refs = ParseRefUpdates body
           in case (if length refs > 0 then CheckPushProtection (rp_id repo) refs (gw_db w) else Inr ()) of
                Inl e \<Rightarrow> (respond 403 (err_text e), w)
              | Inr _ \<Rightarrow>
                  (case g_branches (sv_git sv) (gw_git w) owner name of
                     Inl e \<Rightarrow> (respond 200 [], w)
                   | Inr before \<Rightarrow>
                       (case g_receive (sv_git sv) (gw_git w) owner name body of
                          ((out, good), g1) \<Rightarrow>
                            (let w1 = w\<lparr>gw_git := g1\<rparr>
                             in (\<lparr>rs_status = 200, rs_type = ResultContentType ''git-receive-pack'', rs_body = out\<rparr>,
                                 if good then afterPush sv repo owner name pusher before w1 else w1))))))"

definition handleGit ::
  "('g, 'z) git_server_scheme \<Rightarrow> instant \<Rightarrow> http_request \<Rightarrow> 'g git_world \<Rightarrow> http_response \<times> 'g git_world" where
  "handleGit sv now r w =
     (if rq_path r = ''/healthz'' then (respond 200 ''ok'', w)
      else (case parseGitPath (rq_path r) of
        None \<Rightarrow> (not_found, w)
      | Some (owner, name, service) \<Rightarrow>
          (case git_authenticate sv now r w of
             (None, w1) \<Rightarrow> (respond 401 ''unauthorized'', w1)
           | (Some i, w1) \<Rightarrow>
               (case GetByFullName now owner name (gw_repos w1) (gw_db w1) of
                  (Inl e, rc) \<Rightarrow> (not_found, w1\<lparr>gw_repos := rc\<rparr>)
                | (Inr repo, rc) \<Rightarrow>
                    (let w2 = w1\<lparr>gw_repos := rc\<rparr>
                     in if \<not> has_access (rp_id repo) (id_user i) ''read'' (gw_db w2) then (respond 403 ''forbidden'', w2)
                        else if id_pat i \<and> \<not> HasScope (id_scopes i) ScopeRepo
                        then (respond 403 ''forbidden: insufficient token scope'', w2)
                        else if \<not> g_exists (sv_git sv) (gw_git w2) owner name then (not_found, w2)
                        else if service = ''info/refs'' then (handleInfoRefs sv r owner name w2, w2)
                        else if service = ''git-receive-pack'' then
                          (if \<not> has_access (rp_id repo) (id_user i) ''write'' (gw_db w2) then (respond 403 ''forbidden'', w2)
                           else if id_pat i \<and> \<not> HasScope (id_scopes i) ScopeRepoWrite
                           then (respond 403 ''forbidden: insufficient token scope'', w2)
                           else http_push sv repo owner name (id_name i) (rq_body r) w2)
                        else if service = ''git-upload-pack'' then
                          (case g_upload (sv_git sv) (gw_git w2) owner name (coalesce (case rq_body r of Inr b \<Rightarrow> Some b | _ \<Rightarrow> None) []) of
                             ((out, good), g1) \<Rightarrow>
                               (\<lparr>rs_status = 200, rs_type = ResultContentType service, rs_body = out\<rparr>, w2\<lparr>gw_git := g1\<rparr>))
                        else (not_found, w2))))))"

subsection \<open>SSH\<close>

definition last_word :: "string \<Rightarrow> string option" where
  "last_word cmd = (if CHR '' '' \<in> set cmd then Some (rev (takeWhile (\<lambda>c. c \<noteq> CHR '' '') (rev cmd))) else None)"

definition is_quote :: "char \<Rightarrow> bool" where
  "is_quote c = (c = CHR 0x22 \<or> c = CHR 0x27)"

definition parseGitSSHCommand :: "string \<Rightarrow> (string \<times> string \<times> bool) option" where
  "parseGitSSHCommand cmd0 =
     (let cmd = trim_space cmd0;
          service = (if prefix ''git-upload-pack'' cmd then Some ''upload-pack''
                     else if prefix ''git-receive-pack'' cmd then Some ''receive-pack'' else None)
      in case (service, last_word cmd) of
           (Some s, Some arg) \<Rightarrow>
             (let path = trim (\<lambda>c. c = CHR ''/'') (trim_suffix ''.git'' (trim is_quote arg))
              in if path \<noteq> [] then Some (s, path, contains cmd ''--stateless-rpc'') else None)
         | _ \<Rightarrow> None)"

definition acceptSSHEnv :: "string \<Rightarrow> string \<Rightarrow> string option" where
  "acceptSSHEnv name value = (if name = ''GIT_PROTOCOL'' then Some (name @ ''='' @ value) else None)"

definition sshPackEnv :: "string list \<Rightarrow> string list" where
  "sshPackEnv sessionEnv =
     (if list_ex (prefix ''GIT_PROTOCOL='') sessionEnv then sessionEnv
      else sessionEnv @ [''GIT_PROTOCOL=version=2''])"

definition be32 :: "string \<Rightarrow> nat" where
  "be32 s = foldl (\<lambda>a c. 256 * a + of_char c) 0 (take 4 s)"

text \<open>\<open>ssh_unmarshal\<close> is \<open>ssh.Unmarshal\<close> into a struct with one string.\<close>

definition parseExecCommand :: "(string \<Rightarrow> string option) \<Rightarrow> string \<Rightarrow> string" where
  "parseExecCommand ssh_unmarshal payload =
     (case ssh_unmarshal payload of
        Some c \<Rightarrow> trim_space c
      | None \<Rightarrow>
          if length payload \<ge> 4 \<and> length payload \<ge> 4 + be32 payload
          then trim_space (take (be32 payload) (drop 4 payload))
          else trim_space payload)"

definition sshPublicKeyCallback ::
  "crypto \<Rightarrow> ('k, 'z) ssh_lib_scheme \<Rightarrow> 'k \<Rightarrow> db \<Rightarrow> (string \<times> string) result" where
  "sshPublicKeyCallback cr lib key d =
     (case LookupUserBySSHPublicKey lib key d of
        Inl e \<Rightarrow> Inl (ErrMsg ''unauthorized'')
      | Inr (uid, username) \<Rightarrow> Inr (uuid_string cr uid, username))"

definition execGitSSH ::
  "('g, 'z) git_server_scheme \<Rightarrow> instant \<Rightarrow> string \<Rightarrow> uuid \<Rightarrow> string \<Rightarrow> string list \<Rightarrow> 'g git_world
     \<Rightarrow> nat \<times> 'g git_world" where
  "execGitSSH sv now cmd uid username sessionEnv w =
     (case parseGitSSHCommand cmd of
        None \<Rightarrow> (127, w)
      | Some (service, repoPath, stateless) \<Rightarrow>
          (let parts = split_n 2 ''/'' repoPath
           in if length parts \<noteq> 2 then (1, w)
              else (let owner = parts ! 0; name = parts ! 1
                    in case GetByFullName now owner name (gw_repos w) (gw_db w) of
                         (Inl e, rc) \<Rightarrow> (1, w\<lparr>gw_repos := rc\<rparr>)
                       | (Inr repo, rc) \<Rightarrow>
                           (let w1 = w\<lparr>gw_repos := rc\<rparr>
                            in if \<not> has_access (rp_id repo) uid ''read'' (gw_db w1) then (1, w1)
                               else if \<not> g_exists (sv_git sv) (gw_git w1) owner name then (1, w1)
                               else if service = ''upload-pack'' then
                                 (case g_upload_ssh (sv_git sv) (gw_git w1) owner name (sshPackEnv sessionEnv) stateless of
                                    (good, g1) \<Rightarrow> (if good then 0 else 1, w1\<lparr>gw_git := g1\<rparr>))
                               else if service = ''receive-pack'' then
                                 (if \<not> has_access (rp_id repo) uid ''write'' (gw_db w1) then (1, w1)
                                  else (case g_branches (sv_git sv) (gw_git w1) owner name of
                                          Inl e \<Rightarrow> (1, w1)
                                        | Inr before \<Rightarrow>
                                            (case g_receive_ssh (sv_git sv) (gw_git w1) owner name
                                                    (sshPackEnv sessionEnv) stateless of
                                               (good, g1) \<Rightarrow>
                                                 (let w2 = w1\<lparr>gw_git := g1\<rparr>
                                                  in if good then (0, afterPush sv repo owner name username before w2)
                                                     else (1, w2)))))
                               else (1, w1)))))"

text \<open>
  A session: environment requests before the command are answered and collected, the command is
  answered and run, what follows it is refused. The replies come in order; None is a session that
  ends without a command.
\<close>

record ssh_request =
  sr_type :: string
  sr_payload :: string
  sr_reply :: bool

definition reply_if :: "ssh_request \<Rightarrow> bool \<Rightarrow> bool list" where
  "reply_if r answer = (if sr_reply r then [answer] else [])"

fun handleSSHSession ::
  "('g, 'z) git_server_scheme \<Rightarrow> (string \<Rightarrow> (string \<times> string) option) \<Rightarrow> (string \<Rightarrow> string option) \<Rightarrow> instant
     \<Rightarrow> ssh_request list \<Rightarrow> uuid \<Rightarrow> string \<Rightarrow> string list \<Rightarrow> 'g git_world \<Rightarrow> bool list \<times> nat option \<times> 'g git_world"
where
  "handleSSHSession sv env_unm cmd_unm now [] uid username env w = ([], None, w)"
| "handleSSHSession sv env_unm cmd_unm now (r # rs) uid username env w =
     (if sr_type r = ''env'' then
        (let kv = (case env_unm (sr_payload r) of None \<Rightarrow> None | Some (n, v) \<Rightarrow> acceptSSHEnv n v)
         in case handleSSHSession sv env_unm cmd_unm now rs uid username
                   (case kv of None \<Rightarrow> env | Some e \<Rightarrow> env @ [e]) w of
              (replies, out) \<Rightarrow> (reply_if r (kv \<noteq> None) @ replies, out))
      else if sr_type r = ''exec'' then
        (case execGitSSH sv now (parseExecCommand cmd_unm (sr_payload r)) uid username env w of
           (status, w1) \<Rightarrow> (reply_if r True @ concat (map (\<lambda>q. reply_if q False) rs), Some status, w1))
      else
        (case handleSSHSession sv env_unm cmd_unm now rs uid username env w of
           (replies, out) \<Rightarrow> (reply_if r False @ replies, out)))"

text \<open>The four bytes of the exit status, big endian.\<close>

definition sendExitStatus :: "nat \<Rightarrow> nat list" where
  "sendExitStatus status =
     [status div 16777216 mod 256, status div 65536 mod 256, status div 256 mod 256, status mod 256]"

subsection \<open>Properties\<close>

definition same_repos :: "'g git_world \<Rightarrow> 'g git_world \<Rightarrow> bool" where
  "same_repos w w1 = (gw_git w1 = gw_git w \<and> gw_repos w1 = gw_repos w \<and> gw_posts w1 = gw_posts w)"

lemma same_repos_pat: "pat_identity cr now tok fb w = Some (i, w1) \<Longrightarrow> same_repos w w1"
  by (cases "ValidatePATWithScopes cr now tok (gw_db w)")
    (auto simp: pat_identity_def same_repos_def split: if_splits prod.splits)

lemma same_repos_bearer: "same_repos w (snd (bearer_identity sv now h w))"
proof (cases "prefix ''Bearer '' h")
  case True
  let ?tok = "trim_prefix ''Bearer '' h"
  show ?thesis
  proof (cases "pat_identity (sv_crypto sv) now ?tok [] w")
    case None
    then show ?thesis
      using True by (cases "ValidateToken (sv_crypto sv) (sv_auth sv) now ?tok (gw_db w)")
        (auto simp: bearer_identity_def same_repos_def)
  next
    case (Some x)
    then show ?thesis
      using True same_repos_pat [of "sv_crypto sv" now ?tok "[]" w "fst x" "snd x"]
      by (cases x) (simp add: bearer_identity_def)
  qed
qed (simp add: bearer_identity_def same_repos_def)

lemma same_repos_auth: "same_repos w (snd (git_authenticate sv now r w))"
proof (cases "rq_basic r")
  case None
  then show ?thesis by (simp add: git_authenticate_def same_repos_bearer)
next
  case (Some up)
  obtain u p where up: "rq_basic r = Some (u, p)" using Some by (cases up) simp
  obtain res d1 where l: "Login (sv_crypto sv) (sv_auth sv) now u p (gw_db w) = (res, d1)" by fastforce
  have tr: "same_repos (w\<lparr>gw_db := d1\<rparr>) w1 \<Longrightarrow> same_repos w w1" for w1 by (simp add: same_repos_def)
  show ?thesis
  proof (cases res)
    case (Inl e)
    let ?tok = "if p = [] then u else p"
    show ?thesis
    proof (cases "pat_identity (sv_crypto sv) now ?tok u (w\<lparr>gw_db := d1\<rparr>)")
      case None
      then show ?thesis using up l Inl tr [OF same_repos_bearer] by (simp add: git_authenticate_def)
    next
      case (Some x)
      then show ?thesis
        using up l Inl tr [OF same_repos_pat [of _ _ _ _ _ "fst x" "snd x"]]
        by (cases x) (auto simp: git_authenticate_def)
    qed
  next
    case (Inr x)
    then show ?thesis using up l by (cases x) (simp add: git_authenticate_def same_repos_def)
  qed
qed

lemma git_identity_git [simp]:
  "gw_git (snd (git_authenticate sv now r w)) = gw_git w"
  "gw_repos (snd (git_authenticate sv now r w)) = gw_repos w"
  "gw_posts (snd (git_authenticate sv now r w)) = gw_posts w"
  using same_repos_auth [of w sv now r] by (simp_all add: same_repos_def)

lemma afterPush_git [simp]: "gw_git (afterPush sv r owner name pusher before w) = gw_git w"
proof -
  have "gw_git (foldl (after_branch sv r owner name pusher before) w bs) = gw_git w" for bs
    by (induction bs arbitrary: w) (auto simp: after_branch_def notifyPush_def)
  then show ?thesis by (simp add: afterPush_def split: sum.split)
qed

text \<open>
  What an HTTP request that changed the repositories must have passed: the push goes through one
  branch of the handler.
\<close>

lemma http_push_changed:
  assumes "gw_git (snd (http_push sv repo owner name pusher b w)) \<noteq> gw_git w"
  obtains body where "b = Inr body"
    and "ParseRefUpdates body \<noteq> [] \<longrightarrow> CheckPushProtection (rp_id repo) (ParseRefUpdates body) (gw_db w) = Inr ()"
proof (cases b)
  case (Inl e)
  then show ?thesis using assms by (simp add: http_push_def)
next
  case (Inr body)
  have "CheckPushProtection (rp_id repo) (ParseRefUpdates body) (gw_db w) = Inr ()"
    if "ParseRefUpdates body \<noteq> []"
    using assms Inr that
    by (cases "CheckPushProtection (rp_id repo) (ParseRefUpdates body) (gw_db w)") (simp_all add: http_push_def)
  with Inr show ?thesis by (intro that [of body]) simp_all
qed

lemma handleGit_push:
  assumes "parseGitPath (rq_path r) = Some (owner, name, ''git-receive-pack'')"
    and "gw_git (snd (handleGit sv now r w)) \<noteq> gw_git w"
  obtains i w1 repo where "git_authenticate sv now r w = (Some i, w1)"
    and "fst (GetByFullName now owner name (gw_repos w) (gw_db w1)) = Inr repo"
    and "has_access (rp_id repo) (id_user i) ''write'' (gw_db w1)"
    and "id_pat i \<longrightarrow> HasScope (id_scopes i) ScopeRepoWrite"
    and "\<exists>w2. gw_db w2 = gw_db w1 \<and> gw_git w2 = gw_git w
           \<and> gw_git (snd (http_push sv repo owner name (id_name i) (rq_body r) w2)) \<noteq> gw_git w2"
proof -
  obtain ident w1 where auth: "git_authenticate sv now r w = (ident, w1)" by fastforce
  then have w1: "gw_git w1 = gw_git w" "gw_repos w1 = gw_repos w"
    using git_identity_git [of sv now r w] by simp_all
  obtain res rc where get: "GetByFullName now owner name (gw_repos w1) (gw_db w1) = (res, rc)" by fastforce
  have h: "rq_path r \<noteq> ''/healthz''" using assms(2) by (auto simp: handleGit_def)
  obtain i where i: "ident = Some i"
    using assms h auth w1 by (cases ident) (simp_all add: handleGit_def)
  obtain repo where repo: "res = Inr repo"
    using assms h auth w1 get i by (cases res) (simp_all add: handleGit_def)
  let ?w2 = "w1\<lparr>gw_repos := rc\<rparr>"
  have cond: "has_access (rp_id repo) (id_user i) ''write'' (gw_db w1)"
      "id_pat i \<longrightarrow> HasScope (id_scopes i) ScopeRepoWrite"
      "gw_git (snd (http_push sv repo owner name (id_name i) (rq_body r) ?w2)) \<noteq> gw_git ?w2"
    using assms h auth w1 get i repo by (simp_all add: handleGit_def Let_def split: if_splits)
  have "\<exists>w2. gw_db w2 = gw_db w1 \<and> gw_git w2 = gw_git w
           \<and> gw_git (snd (http_push sv repo owner name (id_name i) (rq_body r) w2)) \<noteq> gw_git w2"
    by (rule exI [of _ ?w2]) (use cond(3) w1 in simp)
  then show ?thesis
    using auth get i repo w1 cond(1,2) by (intro that [of i w1 repo]) simp_all
qed


text \<open>Over SSH no branch protection is consulted: a user with write access pushes whatever the
  client sends, protected branches included, and the repositories become what git makes of it.\<close>

theorem ssh_push_ignores_protection:
  assumes "parseGitSSHCommand cmd = Some (''receive-pack'', repoPath, stateless)"
    and "split_n 2 ''/'' repoPath = [owner, name]"
    and "fst (GetByFullName now owner name (gw_repos w) (gw_db w)) = Inr repo"
    and "has_access (rp_id repo) uid ''read'' (gw_db w)" and "has_access (rp_id repo) uid ''write'' (gw_db w)"
    and "g_exists (sv_git sv) (gw_git w) owner name"
    and "g_branches (sv_git sv) (gw_git w) owner name = Inr before"
    and "g_receive_ssh (sv_git sv) (gw_git w) owner name (sshPackEnv env) stateless = (True, g1)"
  shows "fst (execGitSSH sv now cmd uid user env w) = 0
       \<and> gw_git (snd (execGitSSH sv now cmd uid user env w)) = g1"
proof -
  obtain rc where "GetByFullName now owner name (gw_repos w) (gw_db w) = (Inr repo, rc)"
    using assms(3) by (cases "GetByFullName now owner name (gw_repos w) (gw_db w)") simp
  then show ?thesis using assms by (simp add: execGitSSH_def Let_def)
qed

subsection \<open>Tokens sent as a password count as wrong passwords\<close>

fun git_sessions ::
  "('g, 'z) git_server_scheme \<Rightarrow> instant list \<Rightarrow> http_request \<Rightarrow> 'g git_world \<Rightarrow> bool list \<times> 'g git_world" where
  "git_sessions sv [] r w = ([], w)"
| "git_sessions sv (t # ts) r w =
     (case git_authenticate sv t r w of
        (i, w1) \<Rightarrow> (case git_sessions sv ts r w1 of (is, w2) \<Rightarrow> ((i \<noteq> None) # is, w2)))"

lemma pats_update_user [simp]: "pats (update_user uid f d) = pats d"
  by (simp add: update_user_def)

lemma pats_Login [simp]: "pats (snd (Login cr cfg now n p d)) = pats d"
  by (auto simp: Login_def login_failed_def Let_def split: option.split sum.split)

lemma validate_pats: "pats d1 = pats d \<Longrightarrow> ValidatePATWithScopes cr now tok d1 = ValidatePATWithScopes cr now tok d"
  by (simp add: ValidatePATWithScopes_def)

lemma basic_pat_step:
  assumes "rq_basic r = Some (n, tok)" and "prefix pat_prefix tok"
    and "ValidatePATWithScopes (sv_crypto sv) now tok (gw_db w) = Inr (uid, scopes)"
  shows "fst (git_authenticate sv now r w) \<noteq> None"
    and "gw_db (snd (git_authenticate sv now r w)) = snd (Login (sv_crypto sv) (sv_auth sv) now n tok (gw_db w))"
proof -
  obtain res d1 where l: "Login (sv_crypto sv) (sv_auth sv) now n tok (gw_db w) = (res, d1)" by fastforce
  then have "pats d1 = pats (gw_db w)"
    using pats_Login [of "sv_crypto sv" "sv_auth sv" now n tok "gw_db w"] by simp
  then have v: "ValidatePATWithScopes (sv_crypto sv) now tok d1 = Inr (uid, scopes)"
    using assms(3) validate_pats by metis
  have "tok \<noteq> []" using assms(2) by (auto simp: pat_prefix_def)
  with l v assms(1,2)
  have "fst (git_authenticate sv now r w) \<noteq> None
      \<and> gw_db (snd (git_authenticate sv now r w)) = d1"
    by (auto simp: git_authenticate_def pat_identity_def split: sum.split prod.split)
  then show "fst (git_authenticate sv now r w) \<noteq> None"
    and "gw_db (snd (git_authenticate sv now r w)) = snd (Login (sv_crypto sv) (sv_auth sv) now n tok (gw_db w))"
    using l by simp_all
qed

lemma git_sessions_guess_run:
  assumes "rq_basic r = Some (n, tok)" and "prefix pat_prefix tok"
    and "\<forall>t\<in>set ts. ValidatePATWithScopes (sv_crypto sv) t tok (gw_db w) = Inr (uid, scopes)"
  shows "fst (git_sessions sv ts r w) = replicate (length ts) True
       \<and> gw_db (snd (git_sessions sv ts r w)) =
           snd (guess_run (sv_crypto sv) (sv_auth sv) n (map (\<lambda>t. (t, tok)) ts) (gw_db w))"
  using assms(3)
proof (induction ts arbitrary: w)
  case (Cons t ts)
  obtain i w1 where a: "git_authenticate sv t r w = (i, w1)" by fastforce
  have s: "i \<noteq> None" "gw_db w1 = snd (Login (sv_crypto sv) (sv_auth sv) t n tok (gw_db w))"
    using basic_pat_step [OF assms(1,2), of sv t w uid scopes] Cons.prems a by simp_all
  have "\<forall>t\<in>set ts. ValidatePATWithScopes (sv_crypto sv) t tok (gw_db w1) = Inr (uid, scopes)"
    using Cons.prems validate_pats [of "gw_db w1" "gw_db w"] s(2) by simp
  from Cons.IH [OF this] show ?case
    using a s by (simp add: split_def Let_def)
qed simp

text \<open>A valid access token sent as the password of HTTP basic authentication, as git clients do,
  is first tried as a password: as many git requests as the account has login attempts, all of them
  accepted, lock the account, and its owner can no longer log in with the right password.\<close>

theorem pat_over_basic_locks_account:
  assumes "users_ok (sv_auth sv) (gw_db w)" and "signs (sv_crypto sv) (sv_auth sv)"
    and "query_row (login_match n) (users (gw_db w)) = Some u"
    and "rq_basic r = Some (n, tok)" and "prefix pat_prefix tok"
    and "\<forall>t\<in>set ts. ValidatePATWithScopes (sv_crypto sv) t tok (gw_db w) = Inr (uid, scopes)"
    and "\<not> bcrypt_ok (sv_crypto sv) (u_hash u) tok" and "\<forall>t\<in>set ts. \<not> locked_at t (u_locked u)"
    and "int (length ts) = ac_max_attempts (sv_auth sv) - u_fails u"
    and "now < last ts + ac_lockout (sv_auth sv)"
  shows "fst (git_sessions sv ts r w) = replicate (length ts) True
       \<and> fst (Login (sv_crypto sv) (sv_auth sv) now n p (gw_db (snd (git_sessions sv ts r w)))) = Inl ErrAccountLocked"
proof -
  have "u \<in> set (users (gw_db w))" using assms(3) query_row_Some by metis
  then have "u_fails u < ac_max_attempts (sv_auth sv)" using assms(1) by (auto simp: users_ok_def)
  then have ne: "ts \<noteq> []" using assms(9) by auto
  let ?gs = "map (\<lambda>t. (t, tok)) ts"
  have "fst (Login (sv_crypto sv) (sv_auth sv) now n p
          (snd (guess_run (sv_crypto sv) (sv_auth sv) n ?gs (gw_db w)))) = Inl ErrAccountLocked"
    using guess_run_locks [OF assms(1-3), of ?gs now p] assms(7-10) ne by (simp add: last_map)
  then show ?thesis using git_sessions_guess_run [where ts = ts and sv = sv and w = w, OF assms(4-6)] by simp
qed

subsection \<open>Witnesses\<close>

text \<open>A store that counts what git received, and requests of the user \<open>ann\<close> to her repository.\<close>

definition demo_store :: "nat git_store" where
  "demo_store = \<lparr>g_exists = (\<lambda>g ow n. True), g_branches = (\<lambda>g ow n. Inr []),
     g_receive = (\<lambda>g ow n b. ((''ok'', True), Suc g)), g_upload = (\<lambda>g ow n b. (([], True), g)),
     g_receive_ssh = (\<lambda>g ow n e st. (True, Suc g)), g_upload_ssh = (\<lambda>g ow n e st. (True, g)),
     g_path = (\<lambda>ow n. ow @ n), g_run = (\<lambda>g cmd. Inr [])\<rparr>"

definition demo_server :: "nat git_server" where
  "demo_server = \<lparr>sv_crypto = example_crypto, sv_auth = example_cfg, sv_git = demo_store, sv_webhook = []\<rparr>"

definition demo_pat :: pat_row where
  "demo_pat = \<lparr>t_id = Uuid 30, t_user = Uuid 1, t_name = ''ci'', t_hash = token_hash example_crypto ''1'',
     t_scopes = [], t_expires = None, t_created = 0\<rparr>"

definition demo_world :: "nat git_world" where
  "demo_world = \<lparr>gw_db = (demo_db True)\<lparr>pats := [demo_pat]\<rparr>, gw_users = cache_new 5, gw_repos = cache_new 5,
     gw_git = 0, gw_posts = []\<rparr>"

definition demo_push :: "string \<Rightarrow> http_request" where
  "demo_push password = \<lparr>rq_path = ''/ann/code.git/git-receive-pack'', rq_method = ''POST'',
     rq_basic = Some (''ann'', password), rq_auth = [], rq_service = [],
     rq_body = Inr (push_request [] [(demo_update, Some ''report-status'', False)] ''PACK'')\<rparr>"

lemma demo_repo_row: "query_row (\<lambda>r. r_id r = Uuid 10) (repos (gw_db demo_world)) = Some (demo_repo True 1)"
  by (simp add: demo_world_def demo_defs)

lemma demo_lookup:
  "GetByFullName 0 ''ann'' ''code'' (cache_new 5) d =
     (case lookup_repo d ''ann'' ''code'' of
        None \<Rightarrow> (Inl ErrRepoNotFound, cache_new 5)
      | Some v \<Rightarrow> (Inr v, cache_set 0 (full_name_key ''ann'' ''code'') v (cache_new 5)))"
  by (simp add: GetByFullName_def cache_get_def cache_new_def lookup_repo_def Let_def split: option.split)

lemma demo_path: "parseGitPath ''/ann/code.git/git-receive-pack'' = Some (''ann'', ''code'', ''git-receive-pack'')"
  by (simp add: parseGitPath_def trim_def trim_left_def trim_right_def split_char_def trim_suffix_def
      NormalizeService_def trim_prefix_def Let_def suffix_def)

lemma demo_login:
  "\<exists>tok. Login example_crypto example_cfg 0 ''ann'' [] (gw_db demo_world) =
     (Inr (tok, user_of_row (demo_user 1 ''ann'')), gw_db demo_world)"
proof -
  obtain tok where "issueJWT example_crypto example_cfg 0 (Uuid 1) ''ann'' = Inr tok"
    by (simp add: issueJWT_def example_crypto_def)
  then show ?thesis
    by (simp add: Login_def login_match_def demo_world_def demo_defs locked_at_def example_crypto_def
        update_user_def update_where_def)
qed

lemma demo_repository: "lookup_repo (gw_db demo_world) ''ann'' ''code'' = Some (repository_of ''ann'' (demo_repo True 1))"
  by (simp add: lookup_repo_alt owner_name_def owner_user_def demo_world_def demo_defs)

lemma demo_access: "has_access (Uuid 10) (Uuid 1) perm (gw_db demo_world)"
  using demo_repo_row by (simp add: has_access_def CanAccess_def) (simp add: demo_defs)

lemma demo_refs: "ParseRefUpdates (push_request [] [(demo_update, Some ''report-status'', False)] ''PACK'') = [demo_update]"
  by (subst parse_push_request) (simp_all add: demo_update_def update_ok_def ref_ok_def ref_line_def)

lemma demo_auth:
  "git_authenticate demo_server 0 (demo_push []) demo_world =
     (Some \<lparr>id_user = Uuid 1, id_name = ''ann'', id_scopes = [], id_pat = False\<rparr>, demo_world)"
proof -
  obtain tok where "Login example_crypto example_cfg 0 ''ann'' [] (gw_db demo_world) =
     (Inr (tok, user_of_row (demo_user 1 ''ann'')), gw_db demo_world)"
    using demo_login by blast
  then show ?thesis
    by (simp add: git_authenticate_def demo_push_def demo_server_def) (simp add: demo_user_def demo_world_def)
qed

lemma demo_unprotected: "CheckPushProtection (Uuid 10) [demo_update] (gw_db demo_world) = Inr ()"
  by (simp add: CheckPushProtection_iff GetProtectedBranch_def demo_world_def demo_defs)

lemma demo_push_effect: "gw_git (snd (handleGit demo_server 0 (demo_push []) demo_world)) = 1"
proof -
  have rid: "r_id (demo_repo True 1) = Uuid 10" by (simp add: demo_defs)
  have "gw_repos demo_world = cache_new 5" "gw_git demo_world = 0" by (simp_all add: demo_world_def)
  moreover have "rq_path (demo_push []) = ''/ann/code.git/git-receive-pack''"
      "rq_body (demo_push []) = Inr (push_request [] [(demo_update, Some ''report-status'', False)] ''PACK'')"
    by (simp_all add: demo_push_def)
  moreover have "sv_git demo_server = demo_store" by (simp add: demo_server_def)
  ultimately show ?thesis
    by (simp add: handleGit_def demo_path demo_auth demo_lookup demo_repository rid demo_access [unfolded One_nat_def] http_push_def
        demo_refs demo_unprotected Let_def demo_store_def)
qed


lemma ssh_push_ignores_protection_witness:
  "let w = demo_world\<lparr>gw_db := (gw_db demo_world)\<lparr>protected :=
         [\<lparr>pb_repo = Uuid 10, pb_branch = ''main'', pb_checks = [], pb_reviews = 1\<rparr>]\<rparr>\<rparr>
   in gw_git (snd (execGitSSH demo_server 0 ''git-receive-pack ann/code.git'' (Uuid 1) ''ann'' [] w)) = 1"
proof -
  let ?d = "(gw_db demo_world)\<lparr>protected := [\<lparr>pb_repo = Uuid 10, pb_branch = ''main'', pb_checks = [], pb_reviews = 1\<rparr>]\<rparr>"
  let ?w = "demo_world\<lparr>gw_db := ?d\<rparr>"
  have "lookup_repo ?d ''ann'' ''code'' = Some (repository_of ''ann'' (demo_repo True 1))"
    by (simp add: lookup_repo_alt owner_name_def owner_user_def demo_world_def demo_defs)
  moreover have "gw_repos ?w = cache_new 5" "gw_git ?w = 0" by (simp_all add: demo_world_def)
  ultimately have get: "fst (GetByFullName 0 ''ann'' ''code'' (gw_repos ?w) (gw_db ?w)) =
      Inr (repository_of ''ann'' (demo_repo True 1))"
    by (simp add: demo_lookup)
  have acc: "has_access (rp_id (repository_of ''ann'' (demo_repo True 1))) (Uuid 1) perm (gw_db ?w)" for perm
    by (simp add: has_access_def CanAccess_def demo_world_def demo_defs)
  have cmd: "parseGitSSHCommand ''git-receive-pack ann/code.git'' = Some (''receive-pack'', ''ann/code'', False)"
    by (simp add: parseGitSSHCommand_def trim_space_def trim_def trim_left_def trim_right_def is_space_def
        last_word_def is_quote_def trim_suffix_def suffix_def contains_def Let_def)
  have path: "split_n 2 ''/'' ''ann/code'' = [''ann'', ''code'']" by (simp add: eval_nat_numeral)
  have sg: "sv_git demo_server = demo_store" by (simp add: demo_server_def)
  have "gw_git (snd (execGitSSH demo_server 0 ''git-receive-pack ann/code.git'' (Uuid 1) ''ann'' [] ?w)) = Suc 0"
    by (rule conjunct2 [OF ssh_push_ignores_protection [OF cmd path get acc acc, of demo_server "[]" "[]"]])
      (simp_all add: sg demo_store_def demo_world_def)
  then show ?thesis by (simp add: Let_def)
qed

lemma pat_over_basic_locks_account_witness:
  "fst (Login example_crypto example_cfg 4 ''ann'' []
     (gw_db (snd (git_sessions demo_server (replicate 5 3) (demo_push ''ghp_1'') demo_world)))) = Inl ErrAccountLocked"
proof -
  have u: "query_row (login_match ''ann'') (users (gw_db demo_world)) = Some (demo_user 1 ''ann'')"
    by (simp add: demo_world_def demo_defs login_match_def)
  have "users_ok example_cfg (gw_db demo_world)"
    by (simp add: users_ok_def demo_world_def demo_defs unique_on_def role_defs example_cfg_def NewService_def)
  moreover have "ValidatePATWithScopes example_crypto 3 ''ghp_1'' (gw_db demo_world) = Inr (Uuid 1, [])"
    by (simp add: ValidatePATWithScopes_def demo_world_def demo_pat_def pat_prefix_def trim_prefix_def hashToken_def
        pat_live_def)
  moreover have "rq_basic (demo_push ''ghp_1'') = Some (''ann'', ''ghp_1'')" by (simp add: demo_push_def)
  moreover have "int (length (replicate 5 (3::int))) = ac_max_attempts example_cfg - u_fails (demo_user 1 ''ann'')"
      "4 < last (replicate 5 3) + ac_lockout example_cfg"
    by (simp_all add: example_cfg_def NewService_def demo_user_def time_units last_replicate)
  moreover have "\<not> bcrypt_ok example_crypto (u_hash (demo_user 1 ''ann'')) ''ghp_1''"
      "\<not> locked_at 3 (u_locked (demo_user 1 ''ann''))"
    by (simp_all add: demo_user_def example_crypto_def locked_at_def)
  moreover have "sv_auth demo_server = example_cfg" "sv_crypto demo_server = example_crypto"
    by (simp_all add: demo_server_def)
  ultimately show ?thesis
    using pat_over_basic_locks_account [of demo_server demo_world "''ann''" "demo_user 1 ''ann''" "demo_push ''ghp_1''"
        "''ghp_1''" "replicate 5 3" "Uuid 1" "[]" 4 "[]"] u example_signs
    by (simp add: pat_prefix_def)
qed

end
