(* ===== verification/Actions.thy ===== *)
theory Actions
  imports Prelude GoStrings
begin

section \<open>Workflows (internal/actions: actions.go, uses.go)\<close>

text \<open>
  Triggers, the order of jobs, expressions, conditions and the shell scripts of steps. A workflow
  is what the YAML library decodes from the file; a Go map is an association list in the order
  its iteration takes, with distinct keys.
\<close>

subsection \<open>Data\<close>

text \<open>Values decoded into \<open>interface{}\<close>; numbers and booleans are \<open>YOther\<close>.\<close>

datatype yval = YNull | YStr string | YList "yval list" | YMap "(string \<times> yval) list" | YOther

type_synonym env = "(string \<times> string) list"

record strategy =
  sg_matrix :: "(string \<times> string list) list"

record step =
  st_name :: string
  st_uses :: string
  st_run :: string
  st_if :: string
  st_env :: env
  st_with :: env

record job =
  jb_runs_on :: string
  jb_needs :: yval
  jb_env :: env
  jb_steps :: "step list"
  jb_strategy :: "strategy option"

record workflow =
  wfl_name :: string
  wfl_on :: yval
  wfl_env :: env
  wfl_jobs :: "(string \<times> job) list"

record trigger_event =
  te_type :: string
  te_branch :: string
  te_sha :: string
  te_pr :: bool

text \<open>The YAML decoder is a library; \<open>yaml_decode\<close> stands for it.\<close>

definition ParseWorkflow :: "(string \<Rightarrow> workflow result) \<Rightarrow> string \<Rightarrow> workflow result" where
  "ParseWorkflow yaml_decode content =
     (case yaml_decode content of Inl e \<Rightarrow> Inl e | Inr w \<Rightarrow> Inr w)"

subsection \<open>Triggers\<close>

fun as_string :: "yval \<Rightarrow> string option" where
  "as_string (YStr s) = Some s"
| "as_string v = None"

fun branch_matched :: "bool \<Rightarrow> yval list \<Rightarrow> string \<Rightarrow> bool" where
  "branch_matched m [] branch = m"
| "branch_matched m (b # bs) branch =
     branch_matched (case as_string b of Some s \<Rightarrow> if s = branch \<or> s = ''*'' then True else m | None \<Rightarrow> m) bs branch"

fun matchEventConfig :: "yval \<Rightarrow> trigger_event \<Rightarrow> bool" where
  "matchEventConfig (YMap m) event =
     (case map_of m ''branches'' of
        Some (YList branches) \<Rightarrow> branch_matched False branches (te_branch event)
      | _ \<Rightarrow> True)"
| "matchEventConfig cfg event = True"

fun matches_on :: "yval \<Rightarrow> trigger_event \<Rightarrow> bool" where
  "matches_on (YStr v) event = (v = te_type event)"
| "matches_on (YList v) event = list_ex (\<lambda>item. as_string item = Some (te_type event)) v"
| "matches_on (YMap v) event =
     (case map_of v (te_type event) of None \<Rightarrow> False | Some cfg \<Rightarrow> matchEventConfig cfg event)"
| "matches_on v event = False"

definition MatchesTrigger :: "workflow \<Rightarrow> trigger_event \<Rightarrow> bool" where
  "MatchesTrigger w event = matches_on (wfl_on w) event"

subsection \<open>The order of the jobs\<close>

fun NormalizeNeeds :: "yval \<Rightarrow> string list" where
  "NormalizeNeeds (YStr n) = [n]"
| "NormalizeNeeds (YList n) = map the (filter (\<lambda>s. s \<noteq> None) (map as_string n))"
| "NormalizeNeeds v = []"

text \<open>
  \<open>visit\<close> applied to a list of jobs one after the other; the state is the set of visited jobs (as
  the list of the keys set in the Go map) and the order so far. A job is marked before its needs are
  visited, so a cycle is not noticed.
\<close>

type_synonym visit_state = "string list \<times> string list"

function visit_all :: "(string \<times> job) list \<Rightarrow> string list \<Rightarrow> visit_state \<Rightarrow> visit_state result" where
  "visit_all jbs [] st = Inr st"
| "visit_all jbs (i # is) (vis, ord) =
     (if i \<in> set vis then visit_all jbs is (vis, ord)
      else (case map_of jbs i of
              None \<Rightarrow> Inl (ErrMsg (''unknown job: '' @ i))
            | Some j \<Rightarrow>
                (case visit_all jbs (NormalizeNeeds (jb_needs j)) (i # vis, ord) of
                   Inl e \<Rightarrow> Inl e
                 | Inr (vis1, ord1) \<Rightarrow> visit_all jbs is (vis1, ord1 @ [i]))))"
  by pat_completeness auto

lemma visit_all_grows:
  "visit_all_dom (jbs, is, st) \<Longrightarrow> visit_all jbs is st = Inr st1 \<Longrightarrow> set (fst st) \<subseteq> set (fst st1)"
proof (induction arbitrary: st1 rule: visit_all.pinduct)
  case (2 jbs i "is" vis ord)
  show ?case
  proof (cases "i \<in> set vis")
    case True
    then show ?thesis using 2 by (simp add: visit_all.psimps)
  next
    case False
    then obtain j where j: "map_of jbs i = Some j"
      using 2 by (cases "map_of jbs i") (simp_all add: visit_all.psimps)
    then obtain vis1 ord1 where r: "visit_all jbs (NormalizeNeeds (jb_needs j)) (i # vis, ord) = Inr (vis1, ord1)"
        "visit_all jbs is (vis1, ord1 @ [i]) = Inr st1"
      using 2(1,5) False by (auto simp: visit_all.psimps split: sum.splits)
    have "set (i # vis) \<subseteq> set vis1" using 2(3) [OF False j r(1)] by simp
    moreover have "set vis1 \<subseteq> set (fst st1)" using 2(4) [OF False j r(1) refl r(2)] by simp
    ultimately show ?thesis by auto
  qed
qed (simp add: visit_all.psimps)

definition unvisited :: "(string \<times> job) list \<Rightarrow> string list \<Rightarrow> nat" where
  "unvisited jbs vis = card (fst ` set jbs - set vis)"

lemma unvisited_mono: "set vis \<subseteq> set vis1 \<Longrightarrow> unvisited jbs vis1 \<le> unvisited jbs vis"
  by (auto simp: unvisited_def intro!: card_mono)

lemma unvisited_less:
  assumes "i \<notin> set vis" and "map_of jbs i = Some j"
  shows "unvisited jbs (i # vis) < unvisited jbs vis"
proof -
  have "i \<in> fst ` set jbs" using map_of_SomeD [OF assms(2)] by (metis fst_conv imageI)
  then have "card (fst ` set jbs - set vis - {i}) < card (fst ` set jbs - set vis)"
    using assms(1) by (intro card_Diff1_less) simp_all
  moreover have "fst ` set jbs - set (i # vis) = fst ` set jbs - set vis - {i}" by auto
  ultimately show ?thesis by (simp add: unvisited_def)
qed

termination visit_all
proof (relation "(\<lambda>(jbs, is, st). unvisited jbs (fst st)) <*mlex*> measure (\<lambda>(jbs, is, st). length is)", goal_cases)
  case 1
  then show ?case by (simp add: wf_mlex)
next
  case (4 jbs i "is" vis ord j r vis1 ord1)
  have "visit_all jbs (NormalizeNeeds (jb_needs j)) (i # vis, ord) = Inr (vis1, ord1)" using 4 by simp
  then have "set (i # vis) \<subseteq> set vis1" using visit_all_grows [OF 4(5)] by simp
  then have "unvisited jbs vis1 \<le> unvisited jbs (i # vis)" by (rule unvisited_mono)
  also have "\<dots> < unvisited jbs vis" using 4(1,2) by (rule unvisited_less)
  finally show ?case by (intro mlex_less) simp
next
  case (3 jbs i "is" vis ord j)
  then show ?case by (intro mlex_less) (simp add: unvisited_less)
qed (auto intro: mlex_leq)

definition JobOrder :: "workflow \<Rightarrow> string list result" where
  "JobOrder w =
     (case visit_all (wfl_jobs w) (map fst (wfl_jobs w)) ([], []) of
        Inl e \<Rightarrow> Inl e
      | Inr (vis, ord) \<Rightarrow> Inr ord)"

subsection \<open>Correctness of the job order\<close>

text \<open>\<open>(i, d)\<close> is in the relation when job i needs d.\<close>

definition deps :: "(string \<times> job) list \<Rightarrow> string \<Rightarrow> string list" where
  "deps jbs i = (case map_of jbs i of None \<Rightarrow> [] | Some j \<Rightarrow> NormalizeNeeds (jb_needs j))"

definition needs_rel :: "(string \<times> job) list \<Rightarrow> (string \<times> string) set" where
  "needs_rel jbs = {(i, d). d \<in> set (deps jbs i)}"

lemma needs_rel_iff: "(i, d) \<in> needs_rel jbs \<longleftrightarrow> d \<in> set (deps jbs i)"
  by (simp add: needs_rel_def)

text \<open>
  What visiting a list of jobs adds: each of them and only what they reach, once, every job after
  its needs unless these were already marked.
\<close>

definition ordered_above :: "(string \<times> job) list \<Rightarrow> string set \<Rightarrow> string list \<Rightarrow> bool" where
  "ordered_above jbs vis new = (\<forall>xs i ys. new = xs @ i # ys \<longrightarrow> set (deps jbs i) \<subseteq> set xs \<union> vis)"

lemma ordered_above_append:
  assumes "ordered_above jbs vis a" and "ordered_above jbs (vis \<union> set a) b"
  shows "ordered_above jbs vis (a @ b)"
  unfolding ordered_above_def
proof (intro allI impI)
  fix xs i ys assume e: "a @ b = xs @ i # ys"
  obtain us where "a = xs @ us \<and> us @ b = i # ys \<or> a @ us = xs \<and> b = us @ i # ys"
    using e by (auto simp: append_eq_append_conv2)
  then consider (left) zs where "a = xs @ i # zs" | (right) us where "xs = a @ us" "b = us @ i # ys"
    by (cases us) auto
  then show "set (deps jbs i) \<subseteq> set xs \<union> vis"
  proof cases
    case left
    then show ?thesis using assms(1) unfolding ordered_above_def by blast
  next
    case right
    then have "set (deps jbs i) \<subseteq> set us \<union> (vis \<union> set a)"
      using assms(2) unfolding ordered_above_def by blast
    then show ?thesis using right(1) by auto
  qed
qed

lemma visit_all_adds:
  assumes "visit_all jbs is (vis, ord) = Inr (vis1, ord1)" and "acyclic (needs_rel jbs)"
  shows "\<exists>new. ord1 = ord @ new \<and> distinct new \<and> set new \<inter> set vis = {} \<and> set vis1 = set vis \<union> set new
     \<and> set is \<subseteq> set vis1 \<and> set new \<subseteq> fst ` set jbs \<and> ordered_above jbs (set vis) new
     \<and> (\<forall>x\<in>set new. \<exists>i\<in>set is. (i, x) \<in> (needs_rel jbs)\<^sup>*)"
  using assms
proof (induction jbs "is" "(vis, ord)" arbitrary: vis ord vis1 ord1 rule: visit_all.induct)
  case (1 jbs)
  then show ?case by (auto simp: ordered_above_def)
next
  case (2 jbs i "is" vis ord)
  show ?case
  proof (cases "i \<in> set vis")
    case True
    obtain new where new: "ord1 = ord @ new \<and> distinct new \<and> set new \<inter> set vis = {} \<and> set vis1 = set vis \<union> set new
     \<and> set is \<subseteq> set vis1 \<and> set new \<subseteq> fst ` set jbs \<and> ordered_above jbs (set vis) new
     \<and> (\<forall>x\<in>set new. \<exists>i\<in>set is. (i, x) \<in> (needs_rel jbs)\<^sup>*)"
      using 2(1) [OF True] 2(4,5) True by auto
    then show ?thesis using True by (intro exI [of _ new]) auto
  next
    case False
    then obtain j where j: "map_of jbs i = Some j" using 2(4) by (cases "map_of jbs i") simp_all
    then obtain vis2 ord2 where r: "visit_all jbs (NormalizeNeeds (jb_needs j)) (i # vis, ord) = Inr (vis2, ord2)"
        "visit_all jbs is (vis2, ord2 @ [i]) = Inr (vis1, ord1)"
      using 2(4) False by (auto split: sum.splits)
    obtain a where a: "ord2 = ord @ a" "distinct a" "set a \<inter> set (i # vis) = {}" "set vis2 = set (i # vis) \<union> set a"
        "set (NormalizeNeeds (jb_needs j)) \<subseteq> set vis2" "set a \<subseteq> fst ` set jbs" "ordered_above jbs (set (i # vis)) a"
        "\<forall>x\<in>set a. \<exists>d\<in>set (NormalizeNeeds (jb_needs j)). (d, x) \<in> (needs_rel jbs)\<^sup>*"
      using 2(2) [OF False j r(1) 2(5)] by blast
    obtain b where b: "ord1 = (ord2 @ [i]) @ b" "distinct b" "set b \<inter> set vis2 = {}" "set vis1 = set vis2 \<union> set b"
        "set is \<subseteq> set vis1" "set b \<subseteq> fst ` set jbs" "ordered_above jbs (set vis2) b"
        "\<forall>x\<in>set b. \<exists>k\<in>set is. (k, x) \<in> (needs_rel jbs)\<^sup>*"
      using 2(3) [OF False j r(1) refl r(2) 2(5)] by blast
    have di: "deps jbs i = NormalizeNeeds (jb_needs j)" by (simp add: deps_def j)
    have reach: "(i, x) \<in> (needs_rel jbs)\<^sup>+" if x: "x \<in> set a" for x
    proof -
      obtain d where "d \<in> set (deps jbs i)" "(d, x) \<in> (needs_rel jbs)\<^sup>*" using a(8) x unfolding di by blast
      then show ?thesis by (metis needs_rel_iff r_into_trancl rtrancl_into_trancl2)
    qed
    have no_cycle: "i \<notin> set (deps jbs x)" if "x = i \<or> x \<in> set a" for x
    proof
      assume "i \<in> set (deps jbs x)"
      then have "(x, i) \<in> needs_rel jbs" by (simp add: needs_rel_iff)
      then have "(i, i) \<in> (needs_rel jbs)\<^sup>+" using that reach by (metis r_into_trancl trancl_trans)
      then show False using 2(5) unfolding acyclic_def by blast
    qed
    have "ordered_above jbs (set vis) a"
      unfolding ordered_above_def
    proof (intro allI impI)
      fix xs x ys assume e: "a = xs @ x # ys"
      then have "set (deps jbs x) \<subseteq> set xs \<union> set (i # vis)" using a(7) by (simp add: ordered_above_def)
      moreover have "i \<notin> set (deps jbs x)" using no_cycle e by simp
      ultimately show "set (deps jbs x) \<subseteq> set xs \<union> set vis" by auto
    qed
    moreover have "ordered_above jbs (set vis \<union> set a) [i]"
    proof -
      have "set (deps jbs i) \<subseteq> insert i (set vis \<union> set a)" using a(4,5) di by auto
      then have "set (deps jbs i) \<subseteq> set vis \<union> set a" using no_cycle [of i] by auto
      then show ?thesis by (auto simp: ordered_above_def Cons_eq_append_conv)
    qed
    ultimately have "ordered_above jbs (set vis) (a @ [i])" by (rule ordered_above_append)
    moreover have "ordered_above jbs (set vis \<union> set (a @ [i])) b"
      using b(7) a(4) by (simp add: insert_commute Un_commute Un_left_commute)
    ultimately have "ordered_above jbs (set vis) ((a @ [i]) @ b)" by (rule ordered_above_append)
    moreover have "i \<in> fst ` set jbs" using map_of_SomeD [OF j] by (metis fst_conv imageI)
    moreover have "\<forall>x\<in>set a. (i, x) \<in> (needs_rel jbs)\<^sup>*" using reach by (blast intro: trancl_into_rtrancl)
    ultimately show ?thesis
      using a b False
      by (intro exI [of _ "(a @ [i]) @ b"]) auto
  qed
qed

text \<open>C12: For a workflow without cyclic needs, the job order lists every job exactly once and puts
  each job behind all the jobs it needs, whatever order the map of jobs is walked in.\<close>

theorem job_order_topological:
  assumes "JobOrder w = Inr ord" and "acyclic (needs_rel (wfl_jobs w))"
  shows "distinct ord \<and> set ord = fst ` set (wfl_jobs w)
     \<and> (\<forall>xs i ys. ord = xs @ i # ys \<longrightarrow> set (deps (wfl_jobs w) i) \<subseteq> set xs)"
proof -
  obtain vis where "visit_all (wfl_jobs w) (map fst (wfl_jobs w)) ([], []) = Inr (vis, ord)"
    using assms(1) by (auto simp: JobOrder_def split: sum.splits)
  from visit_all_adds [OF this assms(2)] obtain new where "ord = new" "distinct new" "set vis = set new"
      "fst ` set (wfl_jobs w) \<subseteq> set vis" "set new \<subseteq> fst ` set (wfl_jobs w)" "ordered_above (wfl_jobs w) {} new"
    by auto
  then show ?thesis by (simp add: ordered_above_def subset_antisym)
qed

text \<open>The order fails exactly when some job needs one that does not exist; a cycle is not an error.\<close>

lemma visit_all_fails:
  "(\<exists>e. visit_all jbs is (vis, ord) = Inl e) \<Longrightarrow>
     (\<exists>i\<in>set is. map_of jbs i = None) \<or> (\<exists>i d. (i, d) \<in> needs_rel jbs \<and> map_of jbs d = None)"
proof (induction jbs "is" "(vis, ord)" arbitrary: vis ord rule: visit_all.induct)
  case (2 jbs i "is" vis ord)
  show ?case
  proof (cases "i \<in> set vis")
    case True
    then show ?thesis using 2(1,4) by auto
  next
    case False
    show ?thesis
    proof (cases "map_of jbs i")
      case (Some j)
      show ?thesis
      proof (cases "visit_all jbs (NormalizeNeeds (jb_needs j)) (i # vis, ord)")
        case (Inl e)
        then have "(\<exists>i\<in>set (NormalizeNeeds (jb_needs j)). map_of jbs i = None)
            \<or> (\<exists>i d. (i, d) \<in> needs_rel jbs \<and> map_of jbs d = None)"
          using 2(2) [OF False Some] by blast
        moreover have "deps jbs i = NormalizeNeeds (jb_needs j)" by (simp add: deps_def Some)
        ultimately show ?thesis by (metis needs_rel_iff)
      next
        case (Inr st)
        obtain vis2 ord2 where st: "st = (vis2, ord2)" by (cases st)
        have "\<exists>e. visit_all jbs is (vis2, ord2 @ [i]) = Inl e"
          using 2(4) False Some Inr st by simp
        then show ?thesis using 2(3) [OF False Some Inr [unfolded st] refl] by auto
      qed
    qed auto
  qed
qed simp

lemma JobOrder_total:
  assumes "\<forall>(i, d)\<in>needs_rel (wfl_jobs w). d \<in> fst ` set (wfl_jobs w)"
  shows "\<exists>ord. JobOrder w = Inr ord"
proof (rule ccontr)
  assume "\<nexists>ord. JobOrder w = Inr ord"
  then have "\<exists>e. visit_all (wfl_jobs w) (map fst (wfl_jobs w)) ([], []) = Inl e"
    by (auto simp: JobOrder_def split: sum.splits)
  from visit_all_fails [OF this] show False using assms
    by (auto simp: map_of_eq_None_iff)
qed

subsection \<open>Expressions and conditions\<close>

definition EvalExpression :: "string \<Rightarrow> env \<Rightarrow> string" where
  "EvalExpression expr0 ctx =
     (let expr = trim_space expr0
      in if \<not> prefix ''${{'' expr then expr
         else (let e = trim_space (trim_suffix ''}}'' (trim_prefix ''${{'' expr));
                   parts = split_char (CHR ''.'') e;
                   github = (if length parts \<ge> 2 \<and> parts ! 0 = ''github''
                             then map_of ctx (''GITHUB_'' @ to_upper (parts ! 1)) else None)
               in case github of
                    Some v \<Rightarrow> v
                  | None \<Rightarrow> (case map_of ctx e of Some v \<Rightarrow> v | None \<Rightarrow> [])))"

definition EvalIf :: "string \<Rightarrow> env \<Rightarrow> bool" where
  "EvalIf cond0 ctx =
     (let cond = trim_space cond0
      in if cond = [] then True
         else if cond = ''true'' \<or> cond = ''always()'' then True
         else if cond = ''false'' then False
         else if cond = ''success()'' then True
         else if cond = ''failure()'' then False
         else (let result = EvalExpression cond ctx
               in \<not> (result = [] \<or> result = ''false'' \<or> result = ''0'')))"

definition GitHubContext ::
  "string \<Rightarrow> string \<Rightarrow> string \<Rightarrow> string \<Rightarrow> string \<Rightarrow> string \<Rightarrow> string \<Rightarrow> env" where
  "GitHubContext owner repo sha ref event runID artifactRoot =
     [(''GITHUB_REPOSITORY'', owner @ ''/'' @ repo), (''GITHUB_SHA'', sha),
      (''GITHUB_REF'', ''refs/heads/'' @ ref), (''GITHUB_EVENT_NAME'', event),
      (''GITHUB_WORKSPACE'', ''/github/workspace''), (''GITHUB_RUN_ID'', runID),
      (''GOVNOHUB_ARTIFACT_ROOT'', artifactRoot)]"

subsection \<open>The scripts of the known actions\<close>

definition nl :: string where "nl = [CHR 0x0A]"
definition dq :: string where "dq = [CHR 0x22]"
definition sq :: string where "sq = [CHR 0x27]"

definition lines_of :: "string list \<Rightarrow> string" where "lines_of ls = join nl ls"

definition or_default :: "string \<Rightarrow> string \<Rightarrow> string" where
  "or_default v x = (if v = [] then x else v)"

definition env_get :: "env \<Rightarrow> string \<Rightarrow> string" where
  "env_get m k = coalesce (map_of m k) []"

definition normalizeUses :: "string \<Rightarrow> string" where "normalizeUses ref = trim_space ref"

definition scriptCheckout :: "step \<Rightarrow> env \<Rightarrow> string" where
  "scriptCheckout s ctx =
     (let workspace = or_default (env_get ctx ''GITHUB_WORKSPACE'') ''/github/workspace''
      in lines_of [''echo '' @ dq @ ''Checking out repository'' @ dq,
           ''mkdir -p '' @ workspace,
           ''if [ -d /github/workspace/.git ]; then'',
           ''  cp -a /github/workspace/. '' @ workspace @ ''/ 2>/dev/null || true'',
           ''fi'',
           ''cd '' @ workspace,
           ''echo '' @ dq @ ''Checked out ${GITHUB_SHA:-unknown}'' @ dq])"

definition scriptSetupGo :: "step \<Rightarrow> env \<Rightarrow> string" where
  "scriptSetupGo s ctx =
     (let version = (case map_of (st_env s) ''go-version'' of Some v \<Rightarrow> EvalExpression v ctx | None \<Rightarrow> ''1.22'')
      in lines_of [''echo '' @ dq @ ''Setting up Go '' @ version @ dq,
           ''apk add --no-cache go >/dev/null 2>&1 || true'',
           ''export PATH='' @ dq @ ''/usr/lib/go/bin:$PATH'' @ dq,
           ''go version || echo '' @ dq @ ''Go '' @ version @ '' configured'' @ dq])"

definition scriptCache :: "step \<Rightarrow> env \<Rightarrow> string" where
  "scriptCache s ctx =
     (let key = coalesce (map_of (st_env s) ''key'') ''default''
      in lines_of [''echo '' @ dq @ ''Cache restore/save for key: '' @ key @ dq,
           ''mkdir -p /tmp/govnohub-cache/'' @ key])"

definition scriptSetupNode :: "step \<Rightarrow> env \<Rightarrow> string" where
  "scriptSetupNode s ctx =
     (let version = (case map_of (st_with s) ''node-version'' of Some v \<Rightarrow> EvalExpression v ctx | None \<Rightarrow> ''20'')
      in lines_of [''echo '' @ dq @ ''Setting up Node.js '' @ version @ dq,
           ''apk add --no-cache nodejs npm >/dev/null 2>&1 || true'',
           ''node --version || echo '' @ dq @ ''Node.js '' @ version @ '' configured'' @ dq])"

definition scriptUploadArtifact :: "step \<Rightarrow> env \<Rightarrow> string" where
  "scriptUploadArtifact s ctx =
     (let name = (case map_of (st_with s) ''name'' of Some v \<Rightarrow> EvalExpression v ctx | None \<Rightarrow> ''artifact'');
          path = (case map_of (st_with s) ''path'' of Some v \<Rightarrow> EvalExpression v ctx | None \<Rightarrow> ''.'');
          runID = or_default (env_get ctx ''GITHUB_RUN_ID'') ''local'';
          artifactRoot = or_default (env_get ctx ''GOVNOHUB_ARTIFACT_ROOT'') ''/github/artifacts'';
          dest = artifactRoot @ ''/runs/'' @ runID @ ''/artifacts/'' @ name
      in lines_of [''echo '' @ dq @ ''Uploading artifact '' @ name @ '' from '' @ path @ dq,
           ''mkdir -p '' @ dest,
           ''if [ -e '' @ dq @ path @ dq @ '' ]; then'',
           ''  cp -a '' @ path @ ''/. '' @ dest @ ''/ 2>/dev/null || cp -a '' @ path @ '' '' @ dest @ ''/ 2>/dev/null || true'',
           ''fi'',
           ''echo '' @ dq @ ''Artifact saved to '' @ dest @ dq])"

definition usesRegistry :: "(string \<times> (step \<Rightarrow> env \<Rightarrow> string)) list" where
  "usesRegistry =
     [(''actions/checkout@v4'', scriptCheckout), (''actions/checkout@v3'', scriptCheckout),
      (''actions/setup-go@v5'', scriptSetupGo), (''actions/setup-go@v4'', scriptSetupGo),
      (''actions/setup-node@v4'', scriptSetupNode), (''actions/setup-node@v3'', scriptSetupNode),
      (''actions/cache@v4'', scriptCache), (''actions/cache@v3'', scriptCache),
      (''actions/upload-artifact@v4'', scriptUploadArtifact), (''actions/upload-artifact@v3'', scriptUploadArtifact)]"

text \<open>The registry is walked in its list order; the entries with one base name agree.\<close>

definition BuildUsesScript :: "step \<Rightarrow> env \<Rightarrow> string" where
  "BuildUsesScript s ctx =
     (let ref = normalizeUses (st_uses s);
          unsupported = ''echo '' @ sq @ ''::warning::action '' @ ref @ '' is not supported; skipping'' @ sq
      in case map_of usesRegistry ref of
           Some fn \<Rightarrow> fn s ctx
         | None \<Rightarrow>
             (case last_index (CHR ''@'') ref of
                Some i \<Rightarrow>
                  if i > 0
                  then (case List.find (\<lambda>kf. prefix (take i ref @ ''@'') (fst kf)) usesRegistry of
                          Some kf \<Rightarrow> snd kf s ctx
                        | None \<Rightarrow> unsupported)
                  else unsupported
              | None \<Rightarrow> unsupported))"

definition BuildStepScript :: "step \<Rightarrow> env \<Rightarrow> string" where
  "BuildStepScript s ctx =
     (if st_if s \<noteq> [] \<and> \<not> EvalIf (st_if s) ctx
      then ''echo '' @ sq @ ''::warning::Skipping step '' @ quote (st_name s) @ '' (condition not met)'' @ sq
      else if st_run s \<noteq> [] then EvalExpression (st_run s) ctx
      else if st_uses s \<noteq> [] then BuildUsesScript s ctx
      else ''true'')"

definition step_block :: "env \<Rightarrow> step \<Rightarrow> string" where
  "step_block ctx s =
     ''echo '' @ sq @ ''::group::'' @ or_default (st_name s) ''step'' @ sq @ nl
     @ concat (map (\<lambda>(k, v). ''export '' @ k @ ''='' @ sq @ EvalExpression v ctx @ sq @ nl) (st_env s))
     @ BuildStepScript s ctx @ nl @ ''echo '' @ sq @ ''::endgroup::'' @ sq @ nl"

definition WriteJobScript :: "step list \<Rightarrow> env \<Rightarrow> string" where
  "WriteJobScript steps ctx = ''#!/bin/sh'' @ nl @ ''set -e'' @ nl @ concat (map (step_block ctx) steps)"

subsection \<open>Facts about expressions\<close>

text \<open>Text that is not an expression is kept, up to surrounding blanks.\<close>

lemma EvalExpression_text: "\<not> prefix ''${{'' (trim_space s) \<Longrightarrow> EvalExpression s ctx = trim_space s"
  by (simp add: EvalExpression_def Let_def)

text \<open>A skipped step runs none of its commands.\<close>

lemma skipped_step:
  "st_if s \<noteq> [] \<Longrightarrow> \<not> EvalIf (st_if s) ctx \<Longrightarrow>
     BuildStepScript s ctx = BuildStepScript (s\<lparr>st_run := r, st_uses := u, st_with := m\<rparr>) ctx"
  by (simp add: BuildStepScript_def)

text \<open>The order of the registry does not matter: entries with the same base name have one script.\<close>

lemma usesRegistry_base:
  "(k, f) \<in> set usesRegistry \<Longrightarrow> (k', f') \<in> set usesRegistry \<Longrightarrow>
     takeWhile (\<lambda>c. c \<noteq> CHR ''@'') k = takeWhile (\<lambda>c. c \<noteq> CHR ''@'') k' \<Longrightarrow> f = f'"
  unfolding usesRegistry_def by auto

definition demo_wf_job :: "yval \<Rightarrow> job" where
  "demo_wf_job needs = \<lparr>jb_runs_on = ''alpine'', jb_needs = needs, jb_env = [], jb_steps = [], jb_strategy = None\<rparr>"

definition demo_workflow :: workflow where
  "demo_workflow = \<lparr>wfl_name = ''ci'', wfl_on = YStr ''push'', wfl_env = [],
     wfl_jobs = [(''deploy'', demo_wf_job (YList [YStr ''build''])), (''build'', demo_wf_job YNull)]\<rparr>"

lemma demo_acyclic: "acyclic (needs_rel (wfl_jobs demo_workflow))"
proof -
  have "needs_rel (wfl_jobs demo_workflow) = {(''deploy'', ''build'')}"
    by (auto simp: needs_rel_def deps_def demo_workflow_def demo_wf_job_def split: if_splits)
  then show ?thesis by (simp add: acyclic_insert) (simp add: acyclic_def)
qed

lemma job_order_topological_witness:
  "JobOrder demo_workflow = Inr [''build'', ''deploy''] \<and> distinct [''build'', ''deploy'']"
proof -
  have "JobOrder demo_workflow = Inr [''build'', ''deploy'']"
    by (simp add: JobOrder_def demo_workflow_def demo_wf_job_def)
  with job_order_topological [OF this demo_acyclic] show ?thesis by blast
qed

end
