(* ===== verification/Controller.thy ===== *)
theory Controller
  imports Repo Actions
begin

section \<open>The actions controller (cmd/actions-controller/main.go)\<close>

text \<open>
  Claiming queued workflow runs, starting their jobs on Kubernetes as their needs complete, polling
  the jobs and closing the runs. The cluster is a parameter with a state of its own; the YAML decoder
  and the text of identifiers are library functions. One clock reading serves one pass.
\<close>

subsection \<open>The world of the controller\<close>

record k8s_job =
  kj_name :: string
  kj_ns :: string
  kj_backoff :: int
  kj_restart :: string
  kj_container :: string
  kj_image :: string
  kj_command :: "string list"
  kj_args :: "string list"
  kj_mounts :: "(string \<times> string) list"
  kj_volumes :: "(string \<times> string) list"

text \<open>
  \<open>cl_create\<close> submits a job and says whether the cluster accepted it; \<open>cl_get\<close> returns the counts
  of succeeded and failed pods, or nothing when the request fails.
\<close>

record 'k ctl_lib =
  cl_uuid :: "uuid \<Rightarrow> string"
  cl_yaml :: "string \<Rightarrow> workflow result"
  cl_create :: "'k \<Rightarrow> k8s_job \<Rightarrow> bool \<times> 'k"
  cl_get :: "'k \<Rightarrow> string \<Rightarrow> string \<Rightarrow> (int \<times> int) option"

record ctl_config =
  cc_artifacts :: string
  cc_ns :: string
  cc_image :: string

record 'k ctl_world =
  cw_db :: db
  cw_k8s :: 'k

record claimed_run =
  cr_id :: uuid
  cr_sha :: string
  cr_branch :: string
  cr_event :: string
  cr_content :: string
  cr_owner :: string
  cr_repo :: string

subsection \<open>Claiming and starting a run\<close>

definition run_is :: "uuid \<Rightarrow> run_row \<Rightarrow> bool" where
  "run_is rid w = (wr_id w = rid)"

definition update_runs :: "(run_row \<Rightarrow> bool) \<Rightarrow> (run_row \<Rightarrow> run_row) \<Rightarrow> db \<Rightarrow> db" where
  "update_runs P f d = d\<lparr>runs := update_where P f (runs d)\<rparr>"

definition oldest_queued :: "db \<Rightarrow> run_row option" where
  "oldest_queued d =
     (case order_by wr_created (rows_where (\<lambda>w. wr_status w = ''queued'') (runs d)) of
        [] \<Rightarrow> None | w # ws \<Rightarrow> Some w)"

definition run_context :: "db \<Rightarrow> run_row \<Rightarrow> (workflow_row \<times> repo_row) option" where
  "run_context d w =
     (case (query_row (\<lambda>f. wf_id f = wr_workflow w) (workflows d), query_row (\<lambda>r. r_id r = wr_repo w) (repos d)) of
        (Some f, Some r) \<Rightarrow> Some (f, r) | _ \<Rightarrow> None)"

definition claimed_of :: "run_row \<Rightarrow> workflow_row \<Rightarrow> repo_row \<Rightarrow> string \<Rightarrow> claimed_run" where
  "claimed_of w f r owner = \<lparr>cr_id = wr_id w, cr_sha = wr_sha w, cr_branch = wr_branch w, cr_event = wr_event w,
     cr_content = wf_content f, cr_owner = owner, cr_repo = r_name r\<rparr>"

definition null_string :: err where "null_string = ErrMsg ''cannot scan NULL into *string''"
definition null_bool :: err where "null_bool = ErrMsg ''cannot scan NULL into *bool''"

definition claimQueuedRun :: "instant \<Rightarrow> db \<Rightarrow> claimed_run result \<times> db" where
  "claimQueuedRun now d =
     (case oldest_queued d of
        None \<Rightarrow> (Inl NoRows, d)
      | Some w \<Rightarrow>
          (case run_context d w of
             None \<Rightarrow> (Inl NoRows, d)
           | Some (f, r) \<Rightarrow>
               (let d1 = update_runs (\<lambda>q. wr_id q = wr_id w \<and> wr_status q = ''queued'')
                           (\<lambda>q. q\<lparr>wr_status := ''in_progress'', wr_started := Some now\<rparr>) d
                in case owner_name d r of
                     None \<Rightarrow> (Inl null_string, d1)
                   | Some owner \<Rightarrow> (Inr (claimed_of w f r owner), d1))))"

definition fail_run :: "instant \<Rightarrow> uuid \<Rightarrow> db \<Rightarrow> db" where
  "fail_run now rid d =
     update_runs (run_is rid)
       (\<lambda>w. w\<lparr>wr_status := ''completed'', wr_conclusion := Some ''failure'', wr_completed := Some now\<rparr>) d"

definition job_is :: "uuid \<Rightarrow> string \<Rightarrow> job_row \<Rightarrow> bool" where
  "job_is rid j q = (wj_run q = rid \<and> wj_job q = j)"

definition queued_job :: "uuid \<Rightarrow> string \<Rightarrow> job_row" where
  "queued_job rid j = \<lparr>wj_run = rid, wj_job = j, wj_status = ''queued'', wj_conclusion = None,
     wj_k8s = None, wj_log = None, wj_started = None, wj_completed = None\<rparr>"

fun insert_jobs :: "uuid \<Rightarrow> string list \<Rightarrow> db \<Rightarrow> unit result \<times> db" where
  "insert_jobs rid [] d = (Inr (), d)"
| "insert_jobs rid (j # js) d =
     (if \<not> sql_exists (job_is rid j) (jobs d) \<and> \<not> references wr_id rid (runs d)
      then (Inl (ForeignKeyViolation ''workflow_jobs_run_id_fkey''), d)
      else insert_jobs rid js (d\<lparr>jobs := insert_new (job_is rid j) (queued_job rid j) (jobs d)\<rparr>))"

definition startRun ::
  "('k, 'z) ctl_lib_scheme \<Rightarrow> instant \<Rightarrow> uuid \<Rightarrow> string \<Rightarrow> db \<Rightarrow> unit result \<times> db" where
  "startRun lib now rid content d =
     (case ParseWorkflow (cl_yaml lib) content of
        Inl e \<Rightarrow> (Inr (), fail_run now rid d)
      | Inr w \<Rightarrow>
          (case JobOrder w of
             Inl e \<Rightarrow> (Inr (), fail_run now rid d)
           | Inr order \<Rightarrow> insert_jobs rid order d))"

subsection \<open>Dispatching jobs\<close>

definition completedJobs :: "uuid \<Rightarrow> db \<Rightarrow> string \<rightharpoonup> string" where
  "completedJobs rid d =
     foldl (\<lambda>m j. case wj_conclusion j of None \<Rightarrow> m | Some c \<Rightarrow> m(wj_job j \<mapsto> c)) Map.empty
       (rows_where (\<lambda>j. wj_run j = rid \<and> wj_status j = ''completed'') (jobs d))"

definition needsSatisfied :: "yval \<Rightarrow> (string \<rightharpoonup> string) \<Rightarrow> bool" where
  "needsSatisfied needs completed =
     list_all (\<lambda>dep. coalesce (completed dep) [] = ''success'') (NormalizeNeeds needs)"

definition sanitize_char :: "char \<Rightarrow> char" where
  "sanitize_char c = (if is_lower_letter c \<or> is_digit c \<or> c = CHR ''-'' then c else CHR ''-'')"

definition sanitize :: "string \<Rightarrow> string" where "sanitize s = map sanitize_char s"

definition buildJob :: "ctl_config \<Rightarrow> string \<Rightarrow> string \<Rightarrow> string \<Rightarrow> k8s_job" where
  "buildJob cfg name script logPath =
     \<lparr>kj_name = name, kj_ns = cc_ns cfg, kj_backoff = 0, kj_restart = ''Never'', kj_container = ''runner'',
      kj_image = or_default (cc_image cfg) ''alpine:3.20'', kj_command = [''/bin/sh'', ''-c''],
      kj_args = [script @ '' 2>&1 | tee '' @ logPath],
      kj_mounts = [(''workspace'', ''/github/workspace''), (''artifacts'', path_dir logPath)],
      kj_volumes = [(''workspace'', ''emptyDir''), (''artifacts'', ''hostPath '' @ cc_artifacts cfg)]\<rparr>"

definition update_jobs :: "(job_row \<Rightarrow> bool) \<Rightarrow> (job_row \<Rightarrow> job_row) \<Rightarrow> db \<Rightarrow> db" where
  "update_jobs P f d = d\<lparr>jobs := update_where P f (jobs d)\<rparr>"

definition log_path :: "('k, 'z) ctl_lib_scheme \<Rightarrow> ctl_config \<Rightarrow> uuid \<Rightarrow> string \<Rightarrow> string" where
  "log_path lib cfg rid jobID =
     (let logDir = path_join [cc_artifacts cfg, ''logs'', cl_uuid lib rid]
      in path_join [logDir, jobID @ ''.log''])"

definition k8s_name :: "('k, 'z) ctl_lib_scheme \<Rightarrow> uuid \<Rightarrow> string \<Rightarrow> string" where
  "k8s_name lib rid jobID = ''run-'' @ take 8 (cl_uuid lib rid) @ ''-'' @ sanitize jobID"

definition job_script :: "('k, 'z) ctl_lib_scheme \<Rightarrow> ctl_config \<Rightarrow> claimed_run \<Rightarrow> job \<Rightarrow> string" where
  "job_script lib cfg r jb =
     WriteJobScript (jb_steps jb)
       (GitHubContext (cr_owner r) (cr_repo r) (cr_sha r) (cr_branch r) (cr_event r)
          (cl_uuid lib (cr_id r)) (cc_artifacts cfg))"

definition dispatchJob ::
  "('k, 'z) ctl_lib_scheme \<Rightarrow> ctl_config \<Rightarrow> instant \<Rightarrow> claimed_run \<Rightarrow> string \<Rightarrow> job \<Rightarrow> 'k ctl_world \<Rightarrow> 'k ctl_world"
where
  "dispatchJob lib cfg now r jobID jb w =
     (let rid = cr_id r; logPath = log_path lib cfg rid jobID; jobName = k8s_name lib rid jobID;
          sent = cl_create lib (cw_k8s w) (buildJob cfg jobName (job_script lib cfg r jb) logPath)
      in if \<not> fst sent
         then w\<lparr>cw_k8s := snd sent, cw_db := update_jobs (job_is rid jobID)
                 (\<lambda>j. j\<lparr>wj_status := ''completed'', wj_conclusion := Some ''failure'', wj_log := Some logPath,
                       wj_completed := Some now\<rparr>) (cw_db w)\<rparr>
         else w\<lparr>cw_k8s := snd sent, cw_db := update_jobs (\<lambda>j. job_is rid jobID j \<and> wj_status j = ''queued'')
                 (\<lambda>j. j\<lparr>wj_status := ''in_progress'', wj_k8s := Some jobName, wj_log := Some logPath,
                       wj_started := Some now\<rparr>) (cw_db w)\<rparr>)"

text \<open>The queued jobs are read before the first is dispatched, and so are the completed ones.\<close>

fun dispatch_loop ::
  "('k, 'z) ctl_lib_scheme \<Rightarrow> ctl_config \<Rightarrow> instant \<Rightarrow> claimed_run \<Rightarrow> workflow \<Rightarrow> (string \<rightharpoonup> string)
     \<Rightarrow> string list \<Rightarrow> 'k ctl_world \<Rightarrow> 'k ctl_world" where
  "dispatch_loop lib cfg now r wfl completed [] w = w"
| "dispatch_loop lib cfg now r wfl completed (jobID # ids) w =
     (case map_of (wfl_jobs wfl) jobID of
        None \<Rightarrow> dispatch_loop lib cfg now r wfl completed ids w
      | Some jb \<Rightarrow>
          if \<not> needsSatisfied (jb_needs jb) completed then dispatch_loop lib cfg now r wfl completed ids w
          else dispatch_loop lib cfg now r wfl completed ids (dispatchJob lib cfg now r jobID jb w))"

definition queued_ids :: "uuid \<Rightarrow> db \<Rightarrow> string list" where
  "queued_ids rid d = map wj_job (rows_where (\<lambda>j. wj_run j = rid \<and> wj_status j = ''queued'') (jobs d))"

definition dispatchReadyJobs ::
  "('k, 'z) ctl_lib_scheme \<Rightarrow> ctl_config \<Rightarrow> instant \<Rightarrow> claimed_run \<Rightarrow> 'k ctl_world \<Rightarrow> unit result \<times> 'k ctl_world"
where
  "dispatchReadyJobs lib cfg now r w =
     (case ParseWorkflow (cl_yaml lib) (cr_content r) of
        Inl e \<Rightarrow> (Inl e, w)
      | Inr wfl \<Rightarrow>
          (let completed = completedJobs (cr_id r) (cw_db w)
           in (Inr (), dispatch_loop lib cfg now r wfl completed (queued_ids (cr_id r) (cw_db w)) w)))"

text \<open>
  The loop over the queued runs ends when none is left or claiming fails; every turn takes one run
  out of the queue, so as many turns as there are queued runs, and one more, are enough.
\<close>

fun process_loop ::
  "nat \<Rightarrow> ('k, 'z) ctl_lib_scheme \<Rightarrow> ctl_config \<Rightarrow> instant \<Rightarrow> 'k ctl_world \<Rightarrow> unit result option \<times> 'k ctl_world"
where
  "process_loop 0 lib cfg now w = (None, w)"
| "process_loop (Suc n) lib cfg now w =
     (case claimQueuedRun now (cw_db w) of
        (Inl e, d1) \<Rightarrow> (Some (if e = NoRows then Inr () else Inl e), w\<lparr>cw_db := d1\<rparr>)
      | (Inr r, d1) \<Rightarrow>
          (case startRun lib now (cr_id r) (cr_content r) d1 of
             (Inl e, d2) \<Rightarrow> process_loop n lib cfg now (w\<lparr>cw_db := d2\<rparr>)
           | (Inr _, d2) \<Rightarrow>
               process_loop n lib cfg now (snd (dispatchReadyJobs lib cfg now r (w\<lparr>cw_db := d2\<rparr>)))))"

definition queued_count :: "db \<Rightarrow> nat" where
  "queued_count d = rows_affected (\<lambda>w. wr_status w = ''queued'') (runs d)"

definition processQueuedRuns ::
  "('k, 'z) ctl_lib_scheme \<Rightarrow> ctl_config \<Rightarrow> instant \<Rightarrow> 'k ctl_world \<Rightarrow> unit result option \<times> 'k ctl_world" where
  "processQueuedRuns lib cfg now w = process_loop (Suc (queued_count (cw_db w))) lib cfg now w"

subsection \<open>Reconciling the runs in progress\<close>

definition pollJob :: "('k, 'z) ctl_lib_scheme \<Rightarrow> 'k \<Rightarrow> string \<Rightarrow> string \<Rightarrow> string" where
  "pollJob lib k ns name =
     (case cl_get lib k ns name of
        None \<Rightarrow> []
      | Some (succeeded, failed) \<Rightarrow>
          if succeeded > 0 then ''success'' else if failed > 0 then ''failure'' else [])"

definition poll_one ::
  "('k, 'z) ctl_lib_scheme \<Rightarrow> ctl_config \<Rightarrow> instant \<Rightarrow> uuid \<Rightarrow> 'k \<Rightarrow> db \<Rightarrow> job_row \<Rightarrow> db" where
  "poll_one lib cfg now rid k d st =
     (case wj_k8s st of
        None \<Rightarrow> d
      | Some name \<Rightarrow>
          if wj_status st \<noteq> ''in_progress'' then d
          else (let conclusion = pollJob lib k (cc_ns cfg) name
                in if conclusion = [] then d
                   else update_jobs (job_is rid (wj_job st))
                          (\<lambda>j. j\<lparr>wj_status := ''completed'', wj_conclusion := Some conclusion,
                                wj_completed := Some now\<rparr>) d))"

definition run_jobs :: "uuid \<Rightarrow> db \<Rightarrow> job_row list" where
  "run_jobs rid d = rows_where (\<lambda>j. wj_run j = rid) (jobs d)"

text \<open>\<open>BOOL_OR\<close> over the conclusions ignores NULLs and is NULL when all are.\<close>

definition any_failed :: "job_row list \<Rightarrow> bool option" where
  "any_failed js =
     (if list_all (\<lambda>j. wj_conclusion j = None) js then None
      else Some (list_ex (\<lambda>j. wj_conclusion j = Some ''failure'') js))"

definition close_run :: "instant \<Rightarrow> uuid \<Rightarrow> db \<Rightarrow> unit result \<times> db" where
  "close_run now rid d =
     (let js = run_jobs rid d;
          total = length js;
          fin = length (filter (\<lambda>j. wj_status j = ''completed'') js)
      in case any_failed js of
           None \<Rightarrow> (Inl null_bool, d)
         | Some failed \<Rightarrow>
             if total = 0 \<or> fin < total then (Inr (), d)
             else (Inr (), update_runs (\<lambda>w. run_is rid w \<and> wr_status w = ''in_progress'')
                             (\<lambda>w. w\<lparr>wr_status := ''completed'', wr_completed := Some now,
                                   wr_conclusion := Some (if failed then ''failure'' else ''success'')\<rparr>) d))"

definition reconcileRun ::
  "('k, 'z) ctl_lib_scheme \<Rightarrow> ctl_config \<Rightarrow> instant \<Rightarrow> uuid \<Rightarrow> 'k ctl_world \<Rightarrow> unit result \<times> 'k ctl_world" where
  "reconcileRun lib cfg now rid w =
     (case query_row (run_is rid) (runs (cw_db w)) of
        None \<Rightarrow> (Inl NoRows, w)
      | Some run \<Rightarrow>
          (case run_context (cw_db w) run of
             None \<Rightarrow> (Inl NoRows, w)
           | Some (f, rp) \<Rightarrow>
               (case owner_name (cw_db w) rp of
                  None \<Rightarrow> (Inl null_string, w)
                | Some owner \<Rightarrow>
                    (let d1 = foldl (poll_one lib cfg now rid (cw_k8s w)) (cw_db w) (run_jobs rid (cw_db w))
                     in case dispatchReadyJobs lib cfg now (claimed_of run f rp owner) (w\<lparr>cw_db := d1\<rparr>) of
                          (Inl e, w2) \<Rightarrow> (Inl e, w2)
                        | (Inr _, w2) \<Rightarrow>
                            (case close_run now rid (cw_db w2) of
                               (res, d3) \<Rightarrow> (res, w2\<lparr>cw_db := d3\<rparr>))))))"

definition reconcileInProgressRuns ::
  "('k, 'z) ctl_lib_scheme \<Rightarrow> ctl_config \<Rightarrow> instant \<Rightarrow> 'k ctl_world \<Rightarrow> 'k ctl_world" where
  "reconcileInProgressRuns lib cfg now w =
     foldl (\<lambda>v rid. snd (reconcileRun lib cfg now rid v)) w
       (map wr_id (rows_where (\<lambda>q. wr_status q = ''in_progress'') (runs (cw_db w))))"

subsection \<open>The scheduler the controller implements\<close>

text \<open>
  The specification, for the jobs of one run: a job is entered as queued, it starts (or is rejected
  by the cluster) once all its needs have passed, and a running job ends in success or failure.
  Nothing else happens to it.
\<close>

datatype job_status = Queued | Running | Passed | Failed

type_synonym sched = "string \<rightharpoonup> job_status"

inductive sched_step :: "(string \<Rightarrow> string list) \<Rightarrow> sched \<Rightarrow> sched \<Rightarrow> bool" for needs where
  add: "s j = None \<Longrightarrow> sched_step needs s (s(j \<mapsto> Queued))"
| start: "s j = Some Queued \<Longrightarrow> \<forall>d\<in>set (needs j). s d = Some Passed \<Longrightarrow> sched_step needs s (s(j \<mapsto> Running))"
| reject: "s j = Some Queued \<Longrightarrow> \<forall>d\<in>set (needs j). s d = Some Passed \<Longrightarrow> sched_step needs s (s(j \<mapsto> Failed))"
| pass: "s j = Some Running \<Longrightarrow> sched_step needs s (s(j \<mapsto> Passed))"
| fail: "s j = Some Running \<Longrightarrow> sched_step needs s (s(j \<mapsto> Failed))"

inductive_cases sched_stepE: "sched_step needs s t"

definition sound_sched :: "(string \<Rightarrow> string list) \<Rightarrow> sched \<Rightarrow> bool" where
  "sound_sched needs s =
     (\<forall>j x. s j = Some x \<and> x \<noteq> Queued \<longrightarrow> (\<forall>d\<in>set (needs j). s d = Some Passed))"

lemma sched_step_sound: "sched_step needs s t \<Longrightarrow> sound_sched needs s \<Longrightarrow> sound_sched needs t"
  by (induction rule: sched_step.induct) (auto simp: sound_sched_def)

lemma sched_run_sound: "(sched_step needs)\<^sup>*\<^sup>* s t \<Longrightarrow> sound_sched needs s \<Longrightarrow> sound_sched needs t"
  by (induction rule: rtranclp_induct) (auto intro: sched_step_sound)

lemma sched_step_passed: "sched_step needs s t \<Longrightarrow> s d = Some Passed \<Longrightarrow> t d = Some Passed"
  by (induction rule: sched_step.induct) auto

lemma sched_step_failed: "sched_step needs s t \<Longrightarrow> s d = Some Failed \<Longrightarrow> t d = Some Failed"
  by (induction rule: sched_step.induct) auto

lemma sched_step_blocked:
  "sched_step needs s t \<Longrightarrow> s j = Some Queued \<Longrightarrow> d \<in> set (needs j) \<Longrightarrow> s d = Some Failed \<Longrightarrow>
     t j = Some Queued \<and> t d = Some Failed"
  by (induction rule: sched_step.induct) auto

lemma sched_run_blocked:
  "(sched_step needs)\<^sup>*\<^sup>* s t \<Longrightarrow> s j = Some Queued \<Longrightarrow> d \<in> set (needs j) \<Longrightarrow> s d = Some Failed \<Longrightarrow>
     t j = Some Queued \<and> t d = Some Failed"
  by (induction rule: rtranclp_induct) (auto dest: sched_step_blocked)

subsection \<open>Abstraction\<close>

definition status_of :: "job_row \<Rightarrow> job_status" where
  "status_of j =
     (if wj_status j = ''queued'' then Queued
      else if wj_status j = ''completed'' then (if wj_conclusion j = Some ''success'' then Passed else Failed)
      else Running)"

definition abs_sched :: "uuid \<Rightarrow> db \<Rightarrow> sched" where
  "abs_sched rid d j = map_option status_of (query_row (job_is rid j) (jobs d))"

definition jobs_unique :: "db \<Rightarrow> bool" where
  "jobs_unique d = unique_on (\<lambda>j. (wj_run j, wj_job j)) (jobs d)"

lemma jobs_update_jobs [simp]: "jobs (update_jobs P f d) = update_where P f (jobs d)"
  by (simp add: update_jobs_def)

lemma runs_update_jobs [simp]:
  "runs (update_jobs P f d) = runs d" "workflows (update_jobs P f d) = workflows d"
  "repos (update_jobs P f d) = repos d" "users (update_jobs P f d) = users d" "orgs (update_jobs P f d) = orgs d"
  by (simp_all add: update_jobs_def)

lemma jobs_update_runs [simp]:
  "jobs (update_runs P f d) = jobs d" "workflows (update_runs P f d) = workflows d"
  "repos (update_runs P f d) = repos d" "users (update_runs P f d) = users d" "orgs (update_runs P f d) = orgs d"
  by (simp_all add: update_runs_def)

lemma job_query:
  "jobs_unique d \<Longrightarrow> query_row (job_is rid j) (jobs d) = Some q \<longleftrightarrow> q \<in> set (jobs d) \<and> wj_run q = rid \<and> wj_job q = j"
  using jobs_by_name.lookup_iff [of d "(rid, j)" q] by (simp add: jobs_unique_def job_is_def [abs_def])

lemma abs_update_job:
  assumes "\<And>q. wj_run (f q) = wj_run q \<and> wj_job (f q) = wj_job q"
    and "\<And>q. P q \<Longrightarrow> job_is rid j q"
  shows "abs_sched rid (update_jobs P f d) =
           (case query_row (job_is rid j) (jobs d) of
              None \<Rightarrow> abs_sched rid d
            | Some q \<Rightarrow> if P q then (abs_sched rid d)(j \<mapsto> status_of (f q)) else abs_sched rid d)"
proof (rule ext)
  fix i
  have "query_row (job_is rid i) (update_where P f (jobs d)) =
      map_option (\<lambda>r. if P r then f r else r) (query_row (job_is rid i) (jobs d))"
    by (rule query_row_update) (simp add: job_is_def assms(1))
  moreover have "\<not> P q" if "query_row (job_is rid i) (jobs d) = Some q" "i \<noteq> j" for q
    using query_row_Some [OF that(1)] assms(2) [of q] that(2) by (auto simp: job_is_def)
  ultimately show "abs_sched rid (update_jobs P f d) i =
      (case query_row (job_is rid j) (jobs d) of
              None \<Rightarrow> abs_sched rid d
            | Some q \<Rightarrow> if P q then (abs_sched rid d)(j \<mapsto> status_of (f q)) else abs_sched rid d) i"
    by (cases "i = j"; cases "query_row (job_is rid i) (jobs d)")
      (auto simp: abs_sched_def split: option.split)
qed

lemma jobs_unique_update:
  "jobs_unique d \<Longrightarrow> (\<And>q. wj_run (f q) = wj_run q \<and> wj_job (f q) = wj_job q) \<Longrightarrow> jobs_unique (update_jobs P f d)"
  by (simp add: jobs_unique_def unique_on_update)

text \<open>Dispatching a queued job whose needs have passed is a step of the scheduler.\<close>

lemma dispatchJob_step:
  assumes "abs_sched (cr_id r) (cw_db w) j = Some Queued"
    and "\<forall>d\<in>set (needs j). abs_sched (cr_id r) (cw_db w) d = Some Passed"
  shows "sched_step needs (abs_sched (cr_id r) (cw_db w))
           (abs_sched (cr_id r) (cw_db (dispatchJob lib cfg now r j jb w)))"
    and "\<exists>x. abs_sched (cr_id r) (cw_db (dispatchJob lib cfg now r j jb w)) = (abs_sched (cr_id r) (cw_db w))(j \<mapsto> x)"
    and "jobs_unique (cw_db w) \<Longrightarrow> jobs_unique (cw_db (dispatchJob lib cfg now r j jb w))"
proof -
  let ?s = "abs_sched (cr_id r) (cw_db w)"
  obtain q where q: "query_row (job_is (cr_id r) j) (jobs (cw_db w)) = Some q" "status_of q = Queued"
    using assms(1) by (auto simp: abs_sched_def)
  have qq: "wj_status q = ''queued''" using q(2) by (auto simp: status_of_def split: if_splits)
  have ji: "job_is (cr_id r) j q" using query_row_Some [OF q(1)] by simp
  let ?run = "\<lambda>i. i\<lparr>wj_status := ''in_progress'', wj_k8s := Some (k8s_name lib (cr_id r) j),
      wj_log := Some (log_path lib cfg (cr_id r) j), wj_started := Some now\<rparr>"
  let ?rej = "\<lambda>i. i\<lparr>wj_status := ''completed'', wj_conclusion := Some ''failure'',
      wj_log := Some (log_path lib cfg (cr_id r) j), wj_completed := Some now\<rparr>"
  let ?b = "fst (cl_create lib (cw_k8s w) (buildJob cfg (k8s_name lib (cr_id r) j) (job_script lib cfg r jb)
      (log_path lib cfg (cr_id r) j)))"
  have disp: "cw_db (dispatchJob lib cfg now r j jb w) =
      (if ?b then update_jobs (\<lambda>i. job_is (cr_id r) j i \<and> wj_status i = ''queued'') ?run (cw_db w)
       else update_jobs (job_is (cr_id r) j) ?rej (cw_db w))"
    by (simp add: dispatchJob_def Let_def)
  have abs: "abs_sched (cr_id r) (cw_db (dispatchJob lib cfg now r j jb w)) = ?s(j \<mapsto> (if ?b then Running else Failed))"
  proof (cases ?b)
    case True
    have "abs_sched (cr_id r) (update_jobs (\<lambda>i. job_is (cr_id r) j i \<and> wj_status i = ''queued'') ?run (cw_db w)) =
        ?s(j \<mapsto> status_of (?run q))"
      by (subst abs_update_job [where j = j]) (use q(1) qq ji in simp_all)
    then show ?thesis using True by (simp add: disp status_of_def)
  next
    case False
    have "abs_sched (cr_id r) (update_jobs (job_is (cr_id r) j) ?rej (cw_db w)) = ?s(j \<mapsto> status_of (?rej q))"
      by (subst abs_update_job [where j = j]) (use q(1) ji in simp_all)
    then show ?thesis using False by (simp add: disp status_of_def)
  qed
  show "sched_step needs ?s (abs_sched (cr_id r) (cw_db (dispatchJob lib cfg now r j jb w)))"
    unfolding abs using assms by (cases ?b) (auto intro: sched_step.intros)
  show "\<exists>x. abs_sched (cr_id r) (cw_db (dispatchJob lib cfg now r j jb w)) = ?s(j \<mapsto> x)" using abs by blast
  show "jobs_unique (cw_db w) \<Longrightarrow> jobs_unique (cw_db (dispatchJob lib cfg now r j jb w))"
    unfolding disp by (cases ?b) (simp_all add: jobs_unique_update)
qed

text \<open>The controller's writes leave everything but the jobs and the state of the runs alone.\<close>

definition same_frame :: "db \<Rightarrow> db \<Rightarrow> bool" where
  "same_frame d d1 = (workflows d1 = workflows d \<and> repos d1 = repos d \<and> users d1 = users d \<and> orgs d1 = orgs d)"

lemma same_frame_refl [simp]: "same_frame d d" by (simp add: same_frame_def)

lemma same_frame_trans: "same_frame d d1 \<Longrightarrow> same_frame d1 d2 \<Longrightarrow> same_frame d d2"
  by (simp add: same_frame_def)

lemma same_frame_updates [simp]:
  "same_frame d (update_jobs P f d)" "same_frame d (update_runs Q g d)"
  by (simp_all add: same_frame_def)

lemma abs_other_run:
  assumes "\<And>q. wj_run (f q) = wj_run q \<and> wj_job (f q) = wj_job q" and "\<And>q. P q \<Longrightarrow> wj_run q = rid" and "x \<noteq> rid"
  shows "abs_sched x (update_jobs P f d) = abs_sched x d"
proof (rule ext)
  fix i
  have "query_row (job_is x i) (update_where P f (jobs d)) =
      map_option (\<lambda>r. if P r then f r else r) (query_row (job_is x i) (jobs d))"
    by (rule query_row_update) (simp add: job_is_def assms(1))
  moreover have "\<not> P q" if "query_row (job_is x i) (jobs d) = Some q" for q
    using query_row_Some [OF that] assms(2) [of q] assms(3) by (auto simp: job_is_def)
  ultimately show "abs_sched x (update_jobs P f d) i = abs_sched x d i"
    by (cases "query_row (job_is x i) (jobs d)") (simp_all add: abs_sched_def)
qed

lemma dispatchJob_frame:
  "same_frame (cw_db w) (cw_db (dispatchJob lib cfg now r j jb w))"
  "runs (cw_db (dispatchJob lib cfg now r j jb w)) = runs (cw_db w)"
  "x \<noteq> cr_id r \<Longrightarrow> abs_sched x (cw_db (dispatchJob lib cfg now r j jb w)) = abs_sched x (cw_db w)"
proof -
  show "same_frame (cw_db w) (cw_db (dispatchJob lib cfg now r j jb w))"
    "runs (cw_db (dispatchJob lib cfg now r j jb w)) = runs (cw_db w)"
    by (simp_all add: dispatchJob_def Let_def)
  assume x: "x \<noteq> cr_id r"
  show "abs_sched x (cw_db (dispatchJob lib cfg now r j jb w)) = abs_sched x (cw_db w)"
    unfolding dispatchJob_def Let_def using x
    by simp (intro conjI impI; rule abs_other_run [where rid = "cr_id r"]; simp add: job_is_def)
qed

lemma dispatch_loop_frame:
  "same_frame (cw_db w) (cw_db (dispatch_loop lib cfg now r wfl completed ids w)) \<and>
   runs (cw_db (dispatch_loop lib cfg now r wfl completed ids w)) = runs (cw_db w) \<and>
   (x \<noteq> cr_id r \<longrightarrow> abs_sched x (cw_db (dispatch_loop lib cfg now r wfl completed ids w)) = abs_sched x (cw_db w))"
  by (induction ids arbitrary: w)
    (auto simp: dispatchJob_frame split: option.split intro: same_frame_trans [OF dispatchJob_frame(1)])

lemma dispatch_loop_refines:
  assumes "jobs_unique (cw_db w)" and "distinct ids"
    and "\<forall>j\<in>set ids. abs_sched (cr_id r) (cw_db w) j = Some Queued"
    and "\<forall>d. completed d = Some ''success'' \<longrightarrow> abs_sched (cr_id r) (cw_db w) d = Some Passed"
  shows "(sched_step (deps (wfl_jobs wfl)))\<^sup>*\<^sup>* (abs_sched (cr_id r) (cw_db w))
           (abs_sched (cr_id r) (cw_db (dispatch_loop lib cfg now r wfl completed ids w)))
       \<and> jobs_unique (cw_db (dispatch_loop lib cfg now r wfl completed ids w))"
  using assms
proof (induction ids arbitrary: w)
  case (Cons j ids)
  show ?case
  proof (cases "\<exists>jb. map_of (wfl_jobs wfl) j = Some jb \<and> needsSatisfied (jb_needs jb) completed")
    case False
    then show ?thesis using Cons by (auto split: option.split)
  next
    case True
    then obtain jb where jb: "map_of (wfl_jobs wfl) j = Some jb" "needsSatisfied (jb_needs jb) completed" by blast
    let ?w = "dispatchJob lib cfg now r j jb w"
    have q: "abs_sched (cr_id r) (cw_db w) j = Some Queued" using Cons.prems(3) by simp
    have "\<forall>d\<in>set (deps (wfl_jobs wfl) j). completed d = Some ''success''"
      using jb by (auto simp: deps_def needsSatisfied_def list_all_iff coalesce_def split: option.splits)
    then have need: "\<forall>d\<in>set (deps (wfl_jobs wfl) j). abs_sched (cr_id r) (cw_db w) d = Some Passed"
      using Cons.prems(4) by blast
    note st = dispatchJob_step [OF q, where needs = "deps (wfl_jobs wfl)", OF need, of lib cfg now jb]
    obtain x where x: "abs_sched (cr_id r) (cw_db ?w) = (abs_sched (cr_id r) (cw_db w))(j \<mapsto> x)" using st(2) by blast
    have "(sched_step (deps (wfl_jobs wfl)))\<^sup>*\<^sup>* (abs_sched (cr_id r) (cw_db ?w))
           (abs_sched (cr_id r) (cw_db (dispatch_loop lib cfg now r wfl completed ids ?w)))
       \<and> jobs_unique (cw_db (dispatch_loop lib cfg now r wfl completed ids ?w))"
    proof (rule Cons.IH)
      show "jobs_unique (cw_db ?w)" using st(3) Cons.prems(1) by blast
      show "distinct ids" using Cons.prems(2) by simp
      show "\<forall>i\<in>set ids. abs_sched (cr_id r) (cw_db ?w) i = Some Queued"
        using Cons.prems(2,3) by (auto simp: x)
      show "\<forall>d. completed d = Some ''success'' \<longrightarrow> abs_sched (cr_id r) (cw_db ?w) d = Some Passed"
        using Cons.prems(4) q by (auto simp: x)
    qed
    then show ?thesis using jb st(1) by (auto intro: converse_rtranclp_into_rtranclp)
  qed
qed simp

lemma completed_fold:
  "foldl (\<lambda>m j. case wj_conclusion j of None \<Rightarrow> m | Some c \<Rightarrow> m(wj_job j \<mapsto> c)) Map.empty js x = Some c \<Longrightarrow>
     \<exists>j\<in>set js. wj_job j = x \<and> wj_conclusion j = Some c"
proof (induction js rule: rev_induct)
  case (snoc j js)
  then show ?case by (cases "wj_conclusion j") (auto split: if_splits)
qed simp

lemma completedJobs_passed:
  assumes "jobs_unique d" and "completedJobs rid d x = Some ''success''"
  shows "abs_sched rid d x = Some Passed"
proof -
  obtain j where "j \<in> set (jobs d)" "wj_run j = rid" "wj_status j = ''completed''" "wj_job j = x"
      "wj_conclusion j = Some ''success''"
    using completed_fold [OF assms(2) [unfolded completedJobs_def]] by auto
  then show ?thesis using job_query [OF assms(1), of rid x j] by (simp add: abs_sched_def status_of_def)
qed

lemma queued_ids_queued:
  assumes "jobs_unique d"
  shows "distinct (queued_ids rid d)" and "\<forall>j\<in>set (queued_ids rid d). abs_sched rid d j = Some Queued"
proof -
  have "distinct (map (\<lambda>j. (wj_run j, wj_job j)) (rows_where (\<lambda>j. wj_run j = rid \<and> wj_status j = ''queued'') (jobs d)))"
    using assms by (simp add: jobs_unique_def unique_on_def rows_where_def distinct_map_filter)
  then show "distinct (queued_ids rid d)"
    by (auto simp: queued_ids_def distinct_map inj_on_def)
  show "\<forall>j\<in>set (queued_ids rid d). abs_sched rid d j = Some Queued"
  proof
    fix x assume "x \<in> set (queued_ids rid d)"
    then obtain j where "j \<in> set (jobs d)" "wj_run j = rid" "wj_status j = ''queued''" "wj_job j = x"
      by (auto simp: queued_ids_def)
    then show "abs_sched rid d x = Some Queued"
      using job_query [OF assms, of rid x j] by (simp add: abs_sched_def status_of_def)
  qed
qed

lemma dispatchReadyJobs_refines:
  assumes "jobs_unique (cw_db w)" and "cl_yaml lib (cr_content r) = Inr wfl"
  shows "(sched_step (deps (wfl_jobs wfl)))\<^sup>*\<^sup>* (abs_sched (cr_id r) (cw_db w))
           (abs_sched (cr_id r) (cw_db (snd (dispatchReadyJobs lib cfg now r w))))
       \<and> jobs_unique (cw_db (snd (dispatchReadyJobs lib cfg now r w)))"
proof -
  have "\<forall>d. completedJobs (cr_id r) (cw_db w) d = Some ''success'' \<longrightarrow> abs_sched (cr_id r) (cw_db w) d = Some Passed"
    using completedJobs_passed [OF assms(1)] by blast
  then show ?thesis
    using dispatch_loop_refines [OF assms(1) queued_ids_queued(1) [OF assms(1)] queued_ids_queued(2) [OF assms(1)],
        of "completedJobs (cr_id r) (cw_db w)"] assms(2)
    by (simp add: dispatchReadyJobs_def ParseWorkflow_def Let_def)
qed

lemma dispatchReadyJobs_frame:
  "same_frame (cw_db w) (cw_db (snd (dispatchReadyJobs lib cfg now r w)))"
  "runs (cw_db (snd (dispatchReadyJobs lib cfg now r w))) = runs (cw_db w)"
  "x \<noteq> cr_id r \<Longrightarrow> abs_sched x (cw_db (snd (dispatchReadyJobs lib cfg now r w))) = abs_sched x (cw_db w)"
  using dispatch_loop_frame [of w lib cfg now r]
  by (auto simp: dispatchReadyJobs_def Let_def split: sum.split)

text \<open>Polling ends running jobs only.\<close>

lemma pollJob_values: "pollJob lib k ns name = [] \<or> pollJob lib k ns name = ''success'' \<or> pollJob lib k ns name = ''failure''"
  by (auto simp: pollJob_def split: option.split)

lemma poll_one_step:
  assumes "jobs_unique d" and "wj_run st = rid"
    and "wj_status st = ''in_progress'' \<longrightarrow> abs_sched rid d (wj_job st) = Some Running"
  shows "abs_sched rid (poll_one lib cfg now rid k d st) = abs_sched rid d
       \<or> sched_step needs (abs_sched rid d) (abs_sched rid (poll_one lib cfg now rid k d st))
         \<and> (\<exists>x. abs_sched rid (poll_one lib cfg now rid k d st) = (abs_sched rid d)(wj_job st \<mapsto> x))"
    and "jobs_unique (poll_one lib cfg now rid k d st)"
    and "same_frame d (poll_one lib cfg now rid k d st)" and "runs (poll_one lib cfg now rid k d st) = runs d"
    and "x \<noteq> rid \<Longrightarrow> abs_sched x (poll_one lib cfg now rid k d st) = abs_sched x d"
proof -
  let ?c = "\<lambda>name. pollJob lib k (cc_ns cfg) name"
  let ?f = "\<lambda>c j. j\<lparr>wj_status := ''completed'', wj_conclusion := Some c, wj_completed := Some now\<rparr>"
  consider (same) "poll_one lib cfg now rid k d st = d"
    | (upd) c where "poll_one lib cfg now rid k d st = update_jobs (job_is rid (wj_job st)) (?f c) d"
        "wj_status st = ''in_progress''"
  proof (cases "wj_k8s st")
    case None
    then show thesis by (intro same) (simp add: poll_one_def)
  next
    case (Some name)
    show thesis
    proof (cases "wj_status st = ''in_progress'' \<and> ?c name \<noteq> []")
      case True
      then show thesis using Some by (intro upd [of "?c name"]) (simp_all add: poll_one_def Let_def)
    next
      case False
      then show thesis using Some by (intro same) (auto simp: poll_one_def Let_def)
    qed
  qed
  then have "(abs_sched rid (poll_one lib cfg now rid k d st) = abs_sched rid d
       \<or> sched_step needs (abs_sched rid d) (abs_sched rid (poll_one lib cfg now rid k d st))
         \<and> (\<exists>x. abs_sched rid (poll_one lib cfg now rid k d st) = (abs_sched rid d)(wj_job st \<mapsto> x)))
     \<and> jobs_unique (poll_one lib cfg now rid k d st) \<and> same_frame d (poll_one lib cfg now rid k d st)
     \<and> runs (poll_one lib cfg now rid k d st) = runs d
     \<and> (x \<noteq> rid \<longrightarrow> abs_sched x (poll_one lib cfg now rid k d st) = abs_sched x d)"
  proof cases
    case same
    then show ?thesis using assms(1) by simp
  next
    case (upd c)
    have run: "abs_sched rid d (wj_job st) = Some Running" using assms(3) upd(2) by blast
    then obtain q where q: "query_row (job_is rid (wj_job st)) (jobs d) = Some q" by (auto simp: abs_sched_def)
    have ji: "job_is rid (wj_job st) q" using query_row_Some [OF q] by simp
    have abs: "abs_sched rid (poll_one lib cfg now rid k d st) = (abs_sched rid d)(wj_job st \<mapsto> status_of (?f c q))"
      unfolding upd(1) by (subst abs_update_job [where j = "wj_job st"]) (use q ji in simp_all)
    have "status_of (?f c q) = Passed \<or> status_of (?f c q) = Failed" by (simp add: status_of_def)
    then have "sched_step needs (abs_sched rid d) (abs_sched rid (poll_one lib cfg now rid k d st))"
      unfolding abs using run by (auto intro: sched_step.intros)
    moreover have "x \<noteq> rid \<longrightarrow> abs_sched x (poll_one lib cfg now rid k d st) = abs_sched x d"
      unfolding upd(1) by (intro impI abs_other_run [where rid = rid]) (simp_all add: job_is_def)
    ultimately show ?thesis using abs assms(1) unfolding upd(1) by (auto intro!: jobs_unique_update)
  qed
  then show "abs_sched rid (poll_one lib cfg now rid k d st) = abs_sched rid d
       \<or> sched_step needs (abs_sched rid d) (abs_sched rid (poll_one lib cfg now rid k d st))
         \<and> (\<exists>x. abs_sched rid (poll_one lib cfg now rid k d st) = (abs_sched rid d)(wj_job st \<mapsto> x))"
    and "jobs_unique (poll_one lib cfg now rid k d st)"
    and "same_frame d (poll_one lib cfg now rid k d st)" and "runs (poll_one lib cfg now rid k d st) = runs d"
    and "x \<noteq> rid \<Longrightarrow> abs_sched x (poll_one lib cfg now rid k d st) = abs_sched x d"
    by blast+
qed

lemma poll_loop_refines:
  assumes "jobs_unique d" and "distinct (map wj_job sts)"
    and "\<forall>st\<in>set sts. wj_run st = rid \<and> (wj_status st = ''in_progress'' \<longrightarrow> abs_sched rid d (wj_job st) = Some Running)"
  shows "(sched_step needs)\<^sup>*\<^sup>* (abs_sched rid d) (abs_sched rid (foldl (poll_one lib cfg now rid k) d sts))
       \<and> jobs_unique (foldl (poll_one lib cfg now rid k) d sts)
       \<and> same_frame d (foldl (poll_one lib cfg now rid k) d sts)
       \<and> runs (foldl (poll_one lib cfg now rid k) d sts) = runs d
       \<and> (x \<noteq> rid \<longrightarrow> abs_sched x (foldl (poll_one lib cfg now rid k) d sts) = abs_sched x d)"
  using assms
proof (induction sts arbitrary: d)
  case (Cons st sts)
  have st: "wj_run st = rid" "wj_status st = ''in_progress'' \<longrightarrow> abs_sched rid d (wj_job st) = Some Running"
    using Cons.prems(3) by simp_all
  note one1 = poll_one_step(1) [OF Cons.prems(1) st, where needs = needs and lib = lib and cfg = cfg and now = now and k = k]
  note one = poll_one_step(2-5) [OF Cons.prems(1) st, where lib = lib and cfg = cfg and now = now and k = k]
  let ?d = "poll_one lib cfg now rid k d st"
  have other: "abs_sched rid ?d i = abs_sched rid d i" if "i \<noteq> wj_job st" for i
    using one1 that by auto
  have rest: "wj_job st \<notin> wj_job ` set sts" "distinct (map wj_job sts)" using Cons.prems(2) by simp_all
  have "\<forall>s\<in>set sts. wj_run s = rid \<and> (wj_status s = ''in_progress'' \<longrightarrow> abs_sched rid ?d (wj_job s) = Some Running)"
  proof
    fix s assume s: "s \<in> set sts"
    then have "wj_job s \<noteq> wj_job st" using rest(1) by (metis imageI)
    then show "wj_run s = rid \<and> (wj_status s = ''in_progress'' \<longrightarrow> abs_sched rid ?d (wj_job s) = Some Running)"
      using Cons.prems(3) s other by simp
  qed
  note ih = Cons.IH [OF one(1) rest(2) this]
  have "(sched_step needs)\<^sup>*\<^sup>* (abs_sched rid d) (abs_sched rid ?d)" using one1 by auto
  then show ?case using ih one(2-4) by (auto intro: rtranclp_trans same_frame_trans)
qed simp

lemma run_jobs_distinct: "jobs_unique d \<Longrightarrow> distinct (map wj_job (run_jobs rid d))"
proof -
  assume "jobs_unique d"
  then have "distinct (map (\<lambda>j. (wj_run j, wj_job j)) (run_jobs rid d))"
    by (simp add: jobs_unique_def unique_on_def rows_where_def distinct_map_filter run_jobs_def)
  then show ?thesis by (auto simp: distinct_map inj_on_def run_jobs_def)
qed

lemma run_jobs_running:
  "jobs_unique d \<Longrightarrow> \<forall>st\<in>set (run_jobs rid d). wj_run st = rid \<and>
     (wj_status st = ''in_progress'' \<longrightarrow> abs_sched rid d (wj_job st) = Some Running)"
proof
  fix st assume u: "jobs_unique d" and st: "st \<in> set (run_jobs rid d)"
  then have "query_row (job_is rid (wj_job st)) (jobs d) = Some st"
    using job_query [OF u] by (simp add: run_jobs_def)
  then show "wj_run st = rid \<and> (wj_status st = ''in_progress'' \<longrightarrow> abs_sched rid d (wj_job st) = Some Running)"
    using st by (auto simp: run_jobs_def abs_sched_def status_of_def)
qed

lemma close_run_frame:
  "same_frame d (snd (close_run now rid d))" "jobs (snd (close_run now rid d)) = jobs d"
  by (auto simp: close_run_def Let_def split: option.split)

lemma abs_sched_cong: "jobs d1 = jobs d \<Longrightarrow> abs_sched rid d1 = abs_sched rid d"
  by (rule ext) (simp add: abs_sched_def)

text \<open>The workflow of a run, as the database and the decoder have it.\<close>

definition run_workflow :: "('k, 'z) ctl_lib_scheme \<Rightarrow> db \<Rightarrow> uuid \<Rightarrow> workflow option" where
  "run_workflow lib d rid =
     (case query_row (run_is rid) (runs d) of
        None \<Rightarrow> None
      | Some w \<Rightarrow>
          (case run_context d w of
             None \<Rightarrow> None
           | Some (f, r) \<Rightarrow> (case cl_yaml lib (wf_content f) of Inl e \<Rightarrow> None | Inr wfl \<Rightarrow> Some wfl)))"

text \<open>
  What one reconciliation does to a database, run by run: the writes before the run is closed, and
  the closing.
\<close>

lemma reconcile_cases:
  assumes "jobs_unique (cw_db w)"
  obtains d1 where "cw_db (snd (reconcileRun lib cfg now rid w)) = d1 \<or>
      cw_db (snd (reconcileRun lib cfg now rid w)) = snd (close_run now rid d1)"
    and "jobs_unique d1" and "same_frame (cw_db w) d1" and "runs d1 = runs (cw_db w)"
    and "\<forall>x. x \<noteq> rid \<longrightarrow> abs_sched x d1 = abs_sched x (cw_db w)"
    and "\<forall>wfl. run_workflow lib (cw_db w) rid = Some wfl \<longrightarrow>
           (sched_step (deps (wfl_jobs wfl)))\<^sup>*\<^sup>* (abs_sched rid (cw_db w)) (abs_sched rid d1)"
    and "run_workflow lib (cw_db w) rid = None \<longrightarrow> cw_db (snd (reconcileRun lib cfg now rid w)) = d1"
proof (cases "\<exists>run f rp owner. query_row (run_is rid) (runs (cw_db w)) = Some run
      \<and> run_context (cw_db w) run = Some (f, rp) \<and> owner_name (cw_db w) rp = Some owner")
  case False
  then have "cw_db (snd (reconcileRun lib cfg now rid w)) = cw_db w"
    by (auto simp: reconcileRun_def split: option.split)
  then show ?thesis using assms by (intro that [of "cw_db w"]) auto
next
  case True
  then obtain run f rp owner where run: "query_row (run_is rid) (runs (cw_db w)) = Some run"
      "run_context (cw_db w) run = Some (f, rp)" "owner_name (cw_db w) rp = Some owner" by blast
  let ?r = "claimed_of run f rp owner"
  have rid: "cr_id ?r = rid" using query_row_Some [OF run(1)] by (simp add: claimed_of_def run_is_def)
  let ?d1 = "foldl (poll_one lib cfg now rid (cw_k8s w)) (cw_db w) (run_jobs rid (cw_db w))"
  note poll = poll_loop_refines [OF assms run_jobs_distinct [OF assms] run_jobs_running [OF assms],
      where lib = lib and cfg = cfg and now = now and k = "cw_k8s w" and rid = rid]
  have p: "jobs_unique ?d1" "same_frame (cw_db w) ?d1" "runs ?d1 = runs (cw_db w)"
      "\<And>x. x \<noteq> rid \<Longrightarrow> abs_sched x ?d1 = abs_sched x (cw_db w)" using poll by blast+
  let ?dr = "dispatchReadyJobs lib cfg now ?r (w\<lparr>cw_db := ?d1\<rparr>)"
  let ?d2 = "cw_db (snd ?dr)"
  have res: "cw_db (snd (reconcileRun lib cfg now rid w)) =
      (case fst ?dr of Inl e \<Rightarrow> ?d2 | Inr u \<Rightarrow> snd (close_run now rid ?d2))"
    using run by (simp add: reconcileRun_def Let_def split: sum.split prod.split)
  have frame: "same_frame (cw_db w) ?d2" "runs ?d2 = runs (cw_db w)"
  proof -
    have "same_frame ?d1 ?d2" "runs ?d2 = runs ?d1"
      using dispatchReadyJobs_frame(1,2) [where r = ?r and w = "w\<lparr>cw_db := ?d1\<rparr>" and lib = lib and cfg = cfg
          and now = now] by simp_all
    then show "same_frame (cw_db w) ?d2" "runs ?d2 = runs (cw_db w)"
      using same_frame_trans [OF p(2)] p(3) by simp_all
  qed
  have other: "\<forall>x. x \<noteq> rid \<longrightarrow> abs_sched x ?d2 = abs_sched x (cw_db w)"
    using dispatchReadyJobs_frame(3) [where r = ?r and w = "w\<lparr>cw_db := ?d1\<rparr>" and lib = lib and cfg = cfg
        and now = now] p(4) rid by simp
  show ?thesis
  proof (cases "cl_yaml lib (wf_content f)")
    case (Inl e)
    have d2: "fst ?dr = Inl e" "?d2 = ?d1"
      using Inl by (simp_all add: dispatchReadyJobs_def ParseWorkflow_def claimed_of_def)
    have none: "run_workflow lib (cw_db w) rid = None" using run(1,2) Inl by (simp add: run_workflow_def)
    show ?thesis by (rule that [of ?d2]) (use res d2 none p frame other in simp_all)
  next
    case (Inr wfl)
    have content: "cl_yaml lib (cr_content ?r) = Inr wfl" using Inr by (simp add: claimed_of_def)
    have wfl: "run_workflow lib (cw_db w) rid = Some wfl" using run(1,2) Inr by (simp add: run_workflow_def)
    have ok: "fst ?dr = Inr ()" using content by (simp add: dispatchReadyJobs_def ParseWorkflow_def Let_def)
    have u1: "jobs_unique (cw_db (w\<lparr>cw_db := ?d1\<rparr>))" using p(1) by simp
    note disp = dispatchReadyJobs_refines [OF u1 content, of cfg now, unfolded rid]
    have "(sched_step (deps (wfl_jobs wfl)))\<^sup>*\<^sup>* (abs_sched rid (cw_db w)) (abs_sched rid ?d2)"
      using poll [of "deps (wfl_jobs wfl)"] disp by (auto intro: rtranclp_trans)
    then show ?thesis by (intro that [of ?d2]) (use res ok wfl disp frame other in simp_all)
  qed
qed

subsection \<open>Every operation follows the scheduler\<close>

definition evolves :: "('k, 'z) ctl_lib_scheme \<Rightarrow> db \<Rightarrow> db \<Rightarrow> bool" where
  "evolves lib d d1 =
     (run_workflow lib d1 = run_workflow lib d \<and> same_frame d d1
      \<and> (unique_on wr_id (runs d) \<longrightarrow> unique_on wr_id (runs d1))
      \<and> (jobs_unique d \<longrightarrow> jobs_unique d1 \<and>
           (\<forall>rid wfl. run_workflow lib d rid = Some wfl \<longrightarrow>
              (sched_step (deps (wfl_jobs wfl)))\<^sup>*\<^sup>* (abs_sched rid d) (abs_sched rid d1))))"

lemma evolves_refl [simp]: "evolves lib d d" by (simp add: evolves_def)

lemma evolves_trans: "evolves lib d d1 \<Longrightarrow> evolves lib d1 d2 \<Longrightarrow> evolves lib d d2"
proof -
  assume a: "evolves lib d d1" and b: "evolves lib d1 d2"
  have "(sched_step (deps (wfl_jobs wfl)))\<^sup>*\<^sup>* (abs_sched rid d) (abs_sched rid d2)"
    if "jobs_unique d" and "run_workflow lib d rid = Some wfl" for rid wfl
  proof (rule rtranclp_trans)
    show "(sched_step (deps (wfl_jobs wfl)))\<^sup>*\<^sup>* (abs_sched rid d) (abs_sched rid d1)"
      using a that by (simp add: evolves_def)
    show "(sched_step (deps (wfl_jobs wfl)))\<^sup>*\<^sup>* (abs_sched rid d1) (abs_sched rid d2)"
      using a b that by (simp add: evolves_def)
  qed
  then show ?thesis using a b unfolding evolves_def by (auto intro: same_frame_trans)
qed

definition run_status :: "db \<Rightarrow> uuid \<Rightarrow> string option" where
  "run_status d rid = map_option wr_status (query_row (run_is rid) (runs d))"

text \<open>A run in progress stays so unless none of its jobs is queued any more.\<close>

definition keeps_open :: "db \<Rightarrow> db \<Rightarrow> bool" where
  "keeps_open d d1 =
     (\<forall>rid. run_status d rid = Some ''in_progress'' \<longrightarrow>
        run_status d1 rid = Some ''in_progress'' \<or> (\<forall>j. abs_sched rid d1 j \<noteq> Some Queued))"

lemma run_query_update:
  assumes "\<And>q. wr_id (f q) = wr_id q"
  shows "query_row (run_is rid) (runs (update_runs P f d)) =
           map_option (\<lambda>q. if P q then f q else q) (query_row (run_is rid) (runs d))"
  using assms by (simp add: update_runs_def query_row_update run_is_def)

lemma run_context_frame: "same_frame d d1 \<Longrightarrow> run_context d1 w = run_context d w"
  by (simp add: run_context_def same_frame_def)

lemma run_workflow_frame: "same_frame d d1 \<Longrightarrow> runs d1 = runs d \<Longrightarrow> run_workflow lib d1 = run_workflow lib d"
proof (rule ext)
  fix rid assume "same_frame d d1" and r: "runs d1 = runs d"
  then have "run_context d1 = run_context d" by (intro ext) (rule run_context_frame)
  then show "run_workflow lib d1 rid = run_workflow lib d rid" by (simp only: run_workflow_def r)
qed

lemma run_workflow_update_runs:
  assumes "\<And>q. wr_id (f q) = wr_id q \<and> wr_workflow (f q) = wr_workflow q \<and> wr_repo (f q) = wr_repo q"
  shows "run_workflow lib (update_runs P f d) = run_workflow lib d"
proof (rule ext)
  fix rid
  have "run_context (update_runs P f d) w = run_context d w" for w by (rule run_context_frame) simp
  moreover have "run_context d (f q) = run_context d q" for q using assms by (simp add: run_context_def)
  ultimately show "run_workflow lib (update_runs P f d) rid = run_workflow lib d rid"
    using assms by (cases "query_row (run_is rid) (runs d)") (simp_all add: run_workflow_def run_query_update)
qed

lemma evolves_update_runs:
  assumes "\<And>q. wr_id (f q) = wr_id q \<and> wr_workflow (f q) = wr_workflow q \<and> wr_repo (f q) = wr_repo q"
  shows "evolves lib d (update_runs P f d)"
  using assms run_workflow_update_runs [of f lib P d]
  by (simp add: evolves_def jobs_unique_def abs_sched_cong [of "update_runs P f d" d])
    (simp add: update_runs_def unique_on_update)

text \<open>Claiming and starting.\<close>

lemma claim_cases:
  obtains (same) "snd (claimQueuedRun now d) = d" and "\<exists>e. fst (claimQueuedRun now d) = Inl e"
  | (claimed) w where "oldest_queued d = Some w"
      and "snd (claimQueuedRun now d) = update_runs (\<lambda>q. wr_id q = wr_id w \<and> wr_status q = ''queued'')
             (\<lambda>q. q\<lparr>wr_status := ''in_progress'', wr_started := Some now\<rparr>) d"
      and "\<forall>r. fst (claimQueuedRun now d) = Inr r \<longrightarrow> cr_id r = wr_id w
             \<and> (\<exists>f rp. run_context d w = Some (f, rp) \<and> cr_content r = wf_content f)"
proof (cases "oldest_queued d")
  case None
  then show ?thesis by (intro same) (simp_all add: claimQueuedRun_def)
next
  case (Some w)
  show ?thesis
  proof (cases "run_context d w")
    case None
    then show ?thesis using Some by (intro same) (simp_all add: claimQueuedRun_def)
  next
    case (Some fr)
    show ?thesis
      by (rule claimed [of w])
        (use \<open>oldest_queued d = Some w\<close> Some in
          \<open>cases fr; auto simp: claimQueuedRun_def Let_def claimed_of_def split: option.splits\<close>)+
  qed
qed

lemma oldest_queued_row: "oldest_queued d = Some w \<Longrightarrow> w \<in> set (runs d) \<and> wr_status w = ''queued''"
proof -
  assume "oldest_queued d = Some w"
  then have "w \<in> set (order_by wr_created (rows_where (\<lambda>w. wr_status w = ''queued'') (runs d)))"
  proof -
    obtain ws where "order_by wr_created (rows_where (\<lambda>w. wr_status w = ''queued'') (runs d)) = w # ws"
      using \<open>oldest_queued d = Some w\<close> by (auto simp: oldest_queued_def split: list.splits)
    then show ?thesis by (metis list.set_intros(1))
  qed
  then show ?thesis by simp
qed

lemma run_query_unique: "unique_on wr_id (runs d) \<Longrightarrow> w \<in> set (runs d) \<Longrightarrow> query_row (run_is (wr_id w)) (runs d) = Some w"
  using query_row_unique [of wr_id "runs d" w "wr_id w"] by (simp add: run_is_def [abs_def])

lemma abs_insert_queued:
  assumes "\<not> sql_exists (job_is rid j) (jobs d)"
  shows "abs_sched x (d\<lparr>jobs := insert_row (queued_job rid j) (jobs d)\<rparr>) =
           (if x = rid then (abs_sched rid d)(j \<mapsto> Queued) else abs_sched x d)"
    and "abs_sched rid d j = None"
proof -
  have none: "query_row (job_is rid j) (jobs d) = None"
    using assms by (auto simp: sql_exists_iff query_row_None)
  then show "abs_sched rid d j = None" by (simp add: abs_sched_def)
  show "abs_sched x (d\<lparr>jobs := insert_row (queued_job rid j) (jobs d)\<rparr>) =
           (if x = rid then (abs_sched rid d)(j \<mapsto> Queued) else abs_sched x d)"
    using none
    by (auto simp: abs_sched_def query_row_insert queued_job_def job_is_def status_of_def fun_eq_iff split: option.split)
qed

lemma evolves_insert_job:
  assumes "\<not> sql_exists (job_is rid j) (jobs d)"
  shows "evolves lib d (d\<lparr>jobs := insert_row (queued_job rid j) (jobs d)\<rparr>)"
proof -
  let ?d = "d\<lparr>jobs := insert_row (queued_job rid j) (jobs d)\<rparr>"
  have "same_frame d ?d" by (simp add: same_frame_def)
  moreover have "run_workflow lib ?d = run_workflow lib d" by (rule run_workflow_frame) (simp_all add: same_frame_def)
  moreover have "jobs_unique ?d" if "jobs_unique d"
  proof -
    have "key_free (\<lambda>j. (wj_run j, wj_job j)) (rid, j) (jobs d)"
      using assms by (auto simp: key_free_iff sql_exists_iff job_is_def)
    then show ?thesis using that by (simp add: jobs_unique_def unique_on_insert queued_job_def)
  qed
  moreover have "(sched_step needs)\<^sup>*\<^sup>* (abs_sched x d) (abs_sched x ?d)" for x needs
    using abs_insert_queued [OF assms] by (auto intro: sched_step.add)
  ultimately show ?thesis by (simp add: evolves_def)
qed

lemma runs_insert_jobs [simp]: "runs (snd (insert_jobs rid js d)) = runs d"
  by (induction js arbitrary: d) simp_all

lemma evolves_insert_jobs: "evolves lib d (snd (insert_jobs rid js d))"
proof (induction js arbitrary: d)
  case (Cons j js)
  let ?d = "d\<lparr>jobs := insert_new (job_is rid j) (queued_job rid j) (jobs d)\<rparr>"
  have "evolves lib d ?d"
  proof (cases "sql_exists (job_is rid j) (jobs d)")
    case True
    then show ?thesis by (simp add: insert_new_def)
  next
    case False
    then show ?thesis using evolves_insert_job [OF False, of lib] by (simp add: insert_new_def)
  qed
  then have "evolves lib d (snd (insert_jobs rid js ?d))" using Cons by (rule evolves_trans)
  then show ?case by simp
qed simp

lemma startRun_cases:
  "snd (startRun lib now rid content d) = fail_run now rid d
   \<or> (\<exists>js. snd (startRun lib now rid content d) = snd (insert_jobs rid js d))"
  by (auto simp: startRun_def split: sum.split)

lemma evolves_startRun: "evolves lib d (snd (startRun lib now rid content d))"
  using startRun_cases [of lib now rid content d]
  by (auto simp: evolves_insert_jobs fail_run_def intro!: evolves_update_runs)

lemma run_status_update_other:
  assumes "\<And>q. wr_id (f q) = wr_id q" and "\<And>q. query_row (run_is rid) (runs d) = Some q \<Longrightarrow> \<not> P q"
  shows "run_status (update_runs P f d) rid = run_status d rid"
  using assms by (cases "query_row (run_is rid) (runs d)") (simp_all add: run_status_def run_query_update)

lemma claim_start_keeps:
  assumes "unique_on wr_id (runs d)" and "claimQueuedRun now d = (Inr r, d1)"
  shows "evolves lib d (snd (startRun lib now (cr_id r) (cr_content r) d1))"
    and "keeps_open d (snd (startRun lib now (cr_id r) (cr_content r) d1))"
    and "run_workflow lib d (cr_id r) = (case cl_yaml lib (cr_content r) of Inl e \<Rightarrow> None | Inr wfl \<Rightarrow> Some wfl)"
proof -
  obtain w where w: "oldest_queued d = Some w" and d1: "d1 = update_runs (\<lambda>q. wr_id q = wr_id w \<and> wr_status q = ''queued'')
             (\<lambda>q. q\<lparr>wr_status := ''in_progress'', wr_started := Some now\<rparr>) d"
    and r: "cr_id r = wr_id w" "\<exists>f rp. run_context d w = Some (f, rp) \<and> cr_content r = wf_content f"
    using assms(2) by (cases rule: claim_cases [of now d]) auto
  have q: "query_row (run_is (wr_id w)) (runs d) = Some w" "wr_status w = ''queued''"
    using oldest_queued_row [OF w] run_query_unique [OF assms(1)] by auto
  let ?d2 = "snd (startRun lib now (cr_id r) (cr_content r) d1)"
  have "evolves lib d d1" unfolding d1 by (rule evolves_update_runs) simp
  then show "evolves lib d ?d2" using evolves_startRun by (rule evolves_trans)
  show "run_workflow lib d (cr_id r) = (case cl_yaml lib (cr_content r) of Inl e \<Rightarrow> None | Inr wfl \<Rightarrow> Some wfl)"
    using q(1) r by (auto simp: run_workflow_def)
  have "run_status ?d2 x = run_status d x" if "run_status d x = Some ''in_progress''" for x
  proof -
    have ne: "x \<noteq> wr_id w" using that q by (auto simp: run_status_def)
    have "run_status d1 x = run_status d x"
      unfolding d1 by (rule run_status_update_other) (use ne in \<open>auto simp: run_is_def dest!: query_row_Some\<close>)
    moreover have "run_status ?d2 x = run_status d1 x"
      using startRun_cases [of lib now "cr_id r" "cr_content r" d1]
    proof
      assume "?d2 = fail_run now (cr_id r) d1"
      then show ?thesis unfolding fail_run_def
        by simp (rule run_status_update_other, use ne r(1) in \<open>auto simp: run_is_def dest!: query_row_Some\<close>)
    next
      assume "\<exists>js. ?d2 = snd (insert_jobs (cr_id r) js d1)"
      then show ?thesis by (auto simp: run_status_def)
    qed
    ultimately show ?thesis by simp
  qed
  then show "keeps_open d ?d2" by (simp add: keeps_open_def)
qed

lemma dispatch_keeps:
  assumes "run_workflow lib (cw_db w) (cr_id r) =
             (case cl_yaml lib (cr_content r) of Inl e \<Rightarrow> None | Inr wfl \<Rightarrow> Some wfl)"
  shows "evolves lib (cw_db w) (cw_db (snd (dispatchReadyJobs lib cfg now r w)))"
    and "keeps_open (cw_db w) (cw_db (snd (dispatchReadyJobs lib cfg now r w)))"
proof -
  let ?d = "cw_db w" and ?d1 = "cw_db (snd (dispatchReadyJobs lib cfg now r w))"
  have fr: "same_frame ?d ?d1" "runs ?d1 = runs ?d" by (simp_all add: dispatchReadyJobs_frame)
  show "keeps_open ?d ?d1" by (simp add: keeps_open_def run_status_def fr(2))
  have wfeq: "run_workflow lib ?d1 = run_workflow lib ?d" using fr by (rule run_workflow_frame)
  show "evolves lib ?d ?d1"
  proof (cases "cl_yaml lib (cr_content r)")
    case (Inl e)
    then have "?d1 = ?d" by (simp add: dispatchReadyJobs_def ParseWorkflow_def)
    then show ?thesis by simp
  next
    case (Inr wfl)
    have "jobs_unique ?d1 \<and> (\<forall>rid w'. run_workflow lib ?d rid = Some w' \<longrightarrow>
        (sched_step (deps (wfl_jobs w')))\<^sup>*\<^sup>* (abs_sched rid ?d) (abs_sched rid ?d1))" if u: "jobs_unique ?d"
    proof (intro conjI allI impI)
      show "jobs_unique ?d1" using dispatchReadyJobs_refines [OF u Inr] by blast
      fix rid w' assume w': "run_workflow lib ?d rid = Some w'"
      show "(sched_step (deps (wfl_jobs w')))\<^sup>*\<^sup>* (abs_sched rid ?d) (abs_sched rid ?d1)"
      proof (cases "rid = cr_id r")
        case True
        then have "w' = wfl" using assms Inr w' by simp
        then show ?thesis using dispatchReadyJobs_refines [OF u Inr] True by blast
      next
        case False
        then show ?thesis by (simp add: dispatchReadyJobs_frame(3))
      qed
    qed
    then show ?thesis using fr wfeq by (simp add: evolves_def)
  qed
qed

lemma close_run_cases:
  "snd (close_run now rid d) = d \<or>
     (\<exists>c. snd (close_run now rid d) = update_runs (\<lambda>w. run_is rid w \<and> wr_status w = ''in_progress'')
        (\<lambda>w. w\<lparr>wr_status := ''completed'', wr_completed := Some now, wr_conclusion := Some c\<rparr>) d)
     \<and> (\<forall>j\<in>set (run_jobs rid d). wj_status j = ''completed'')"
proof (cases "any_failed (run_jobs rid d)")
  case None
  then show ?thesis by (simp add: close_run_def Let_def)
next
  case (Some b)
  let ?js = "run_jobs rid d"
  let ?more = "length (filter (\<lambda>j. wj_status j = ''completed'') ?js) < length ?js"
  show ?thesis
  proof (cases "length ?js = 0 \<or> ?more")
    case True
    then have "snd (close_run now rid d) = d" using Some by (simp add: close_run_def Let_def)
    then show ?thesis ..
  next
    case False
    have all: "\<forall>j\<in>set ?js. wj_status j = ''completed''"
    proof
      fix j assume j: "j \<in> set ?js"
      show "wj_status j = ''completed''"
        using False length_filter_less [OF j, of "\<lambda>j. wj_status j = ''completed''"] by blast
    qed
    have "snd (close_run now rid d) = update_runs (\<lambda>w. run_is rid w \<and> wr_status w = ''in_progress'')
        (\<lambda>w. w\<lparr>wr_status := ''completed'', wr_completed := Some now,
             wr_conclusion := Some (if b then ''failure'' else ''success'')\<rparr>) d"
      using Some False by (simp add: close_run_def Let_def)
    then show ?thesis using all by (intro disjI2 conjI exI)
  qed
qed

lemma all_completed_not_queued:
  assumes "\<forall>j\<in>set (run_jobs rid d). wj_status j = ''completed''"
  shows "abs_sched rid d j \<noteq> Some Queued"
  using assms by (auto simp: abs_sched_def run_jobs_def job_is_def status_of_def dest!: query_row_Some split: if_splits)

lemma reconcile_keeps:
  assumes "jobs_unique (cw_db w)"
  shows "evolves lib (cw_db w) (cw_db (snd (reconcileRun lib cfg now rid w)))"
    and "keeps_open (cw_db w) (cw_db (snd (reconcileRun lib cfg now rid w)))"
proof -
  let ?d = "cw_db w" and ?d2 = "cw_db (snd (reconcileRun lib cfg now rid w))"
  obtain d1 where d1: "?d2 = d1 \<or> ?d2 = snd (close_run now rid d1)" "jobs_unique d1" "same_frame ?d d1"
      "runs d1 = runs ?d" "\<forall>x. x \<noteq> rid \<longrightarrow> abs_sched x d1 = abs_sched x ?d"
      "\<forall>wfl. run_workflow lib ?d rid = Some wfl \<longrightarrow>
           (sched_step (deps (wfl_jobs wfl)))\<^sup>*\<^sup>* (abs_sched rid ?d) (abs_sched rid d1)"
      "run_workflow lib ?d rid = None \<longrightarrow> ?d2 = d1"
    by (rule reconcile_cases [OF assms])
  have wfeq: "run_workflow lib d1 = run_workflow lib ?d" using d1(3,4) by (rule run_workflow_frame)
  have ev1: "evolves lib ?d d1"
    unfolding evolves_def
  proof (intro conjI impI allI)
    fix x wfl assume "run_workflow lib ?d x = Some wfl"
    then show "(sched_step (deps (wfl_jobs wfl)))\<^sup>*\<^sup>* (abs_sched x ?d) (abs_sched x d1)"
      using d1(5,6) by (cases "x = rid") simp_all
  qed (use d1 wfeq in simp_all)
  have ev2: "evolves lib d1 (snd (close_run now rid d1))"
    using close_run_cases [of now rid d1] by (auto intro!: evolves_update_runs)
  show "evolves lib ?d ?d2" using d1(1) ev1 evolves_trans [OF ev1 ev2] by metis
  have k1: "run_status d1 x = run_status ?d x" for x by (simp add: run_status_def d1(4))
  have k2: "run_status (snd (close_run now rid d1)) x = run_status d1 x
      \<or> (\<forall>j. abs_sched x (snd (close_run now rid d1)) j \<noteq> Some Queued)" for x
    using close_run_cases [of now rid d1]
  proof (elim disjE conjE exE)
    fix c assume c: "snd (close_run now rid d1) = update_runs (\<lambda>w. run_is rid w \<and> wr_status w = ''in_progress'')
        (\<lambda>w. w\<lparr>wr_status := ''completed'', wr_completed := Some now, wr_conclusion := Some c\<rparr>) d1"
      and all: "\<forall>j\<in>set (run_jobs rid d1). wj_status j = ''completed''"
    show ?thesis
    proof (cases "x = rid")
      case True
      have "abs_sched rid (snd (close_run now rid d1)) = abs_sched rid d1"
        by (rule abs_sched_cong) (rule close_run_frame(2))
      then show ?thesis using all_completed_not_queued [OF all] True by simp
    next
      case False
      have "run_status (snd (close_run now rid d1)) x = run_status d1 x"
        unfolding c by (rule run_status_update_other) (use False in \<open>auto simp: run_is_def dest!: query_row_Some\<close>)
      then show ?thesis ..
    qed
  qed simp
  show "keeps_open ?d ?d2"
    unfolding keeps_open_def
  proof (intro allI impI)
    fix x assume "run_status ?d x = Some ''in_progress''"
    then show "run_status ?d2 x = Some ''in_progress'' \<or> (\<forall>j. abs_sched x ?d2 j \<noteq> Some Queued)"
      using d1(1) k1 [of x] k2 [of x] by auto
  qed
qed

subsection \<open>The main loop\<close>

text \<open>
  One turn of the ticker dispatches the queued runs and reconciles those in progress; between turns
  the cluster changes as it likes.
\<close>

definition controller_tick :: "('k, 'z) ctl_lib_scheme \<Rightarrow> ctl_config \<Rightarrow> instant \<Rightarrow> 'k ctl_world \<Rightarrow> 'k ctl_world" where
  "controller_tick lib cfg now w = reconcileInProgressRuns lib cfg now (snd (processQueuedRuns lib cfg now w))"

inductive ctl_step :: "('k, 'z) ctl_lib_scheme \<Rightarrow> ctl_config \<Rightarrow> 'k ctl_world \<Rightarrow> 'k ctl_world \<Rightarrow> bool" for lib cfg where
  tick: "ctl_step lib cfg w (controller_tick lib cfg now w)"
| cluster: "ctl_step lib cfg w (w\<lparr>cw_k8s := k\<rparr>)"

definition ctl_ok :: "('k, 'z) ctl_lib_scheme \<Rightarrow> db \<Rightarrow> bool" where
  "ctl_ok lib d = (jobs_unique d \<and> unique_on wr_id (runs d)
     \<and> (\<forall>rid wfl. run_workflow lib d rid = Some wfl \<longrightarrow> sound_sched (deps (wfl_jobs wfl)) (abs_sched rid d)))"

text \<open>A property of the database that every unit of work keeps is kept by the main loop.\<close>

definition unit_step :: "('k, 'z) ctl_lib_scheme \<Rightarrow> db \<Rightarrow> db \<Rightarrow> bool" where
  "unit_step lib d d1 = (evolves lib d d1 \<and> keeps_open d d1)"

lemma unit_steps_ok:
  assumes "(unit_step lib)\<^sup>*\<^sup>* d d1" shows "evolves lib d d1"
  using assms by (induction rule: rtranclp_induct) (auto simp: unit_step_def intro: evolves_trans)

lemma evolves_unique:
  "evolves lib d d1 \<Longrightarrow> jobs_unique d \<and> unique_on wr_id (runs d) \<Longrightarrow> jobs_unique d1 \<and> unique_on wr_id (runs d1)"
  by (simp add: evolves_def)

lemma claim_fail_unit:
  assumes "claimQueuedRun now d = (Inl e, d1)" and "unique_on wr_id (runs d)"
  shows "unit_step lib d d1"
  using claim_cases [of now d]
proof cases
  case same
  then show ?thesis using assms(1) by (simp add: unit_step_def keeps_open_def)
next
  case (claimed w)
  have d1: "d1 = update_runs (\<lambda>q. wr_id q = wr_id w \<and> wr_status q = ''queued'')
             (\<lambda>q. q\<lparr>wr_status := ''in_progress'', wr_started := Some now\<rparr>) d"
    using claimed(2) assms(1) by simp
  have "evolves lib d d1" unfolding d1 by (rule evolves_update_runs) simp
  moreover have "run_status d1 x = run_status d x" if "run_status d x = Some ''in_progress''" for x
    unfolding d1 by (rule run_status_update_other) (use that in \<open>auto simp: run_status_def\<close>)
  ultimately show ?thesis by (simp add: unit_step_def keeps_open_def)
qed

lemma process_loop_units:
  assumes "jobs_unique (cw_db w) \<and> unique_on wr_id (runs (cw_db w))"
  shows "(unit_step lib)\<^sup>*\<^sup>* (cw_db w) (cw_db (snd (process_loop n lib cfg now w)))"
  using assms
proof (induction n arbitrary: w)
  case (Suc n)
  obtain res d1 where c: "claimQueuedRun now (cw_db w) = (res, d1)" by fastforce
  show ?case
  proof (cases res)
    case (Inl e)
    have "unit_step lib (cw_db w) d1" using c Inl Suc.prems by (intro claim_fail_unit) auto
    then show ?thesis using c Inl by simp
  next
    case (Inr r)
    obtain res2 d2 where st: "startRun lib now (cr_id r) (cr_content r) d1 = (res2, d2)" by fastforce
    have u: "unique_on wr_id (runs (cw_db w))" using Suc.prems by blast
    note cs = claim_start_keeps [OF u c [unfolded Inr], of lib, unfolded st snd_conv]
    have one: "unit_step lib (cw_db w) d2" using cs(1,2) by (simp add: unit_step_def)
    have u2: "jobs_unique d2 \<and> unique_on wr_id (runs d2)" using evolves_unique [OF cs(1) Suc.prems] .
    show ?thesis
    proof (cases res2)
      case (Inl e)
      then show ?thesis
        using Suc.IH [of "w\<lparr>cw_db := d2\<rparr>"] u2 one c \<open>res = Inr r\<close> st
        by (simp add: converse_rtranclp_into_rtranclp)
    next
      case (Inr x)
      let ?w2 = "w\<lparr>cw_db := d2\<rparr>"
      let ?w3 = "snd (dispatchReadyJobs lib cfg now r ?w2)"
      have "run_workflow lib d2 = run_workflow lib (cw_db w)" using cs(1) by (simp add: evolves_def)
      then have wfr: "run_workflow lib (cw_db ?w2) (cr_id r) =
          (case cl_yaml lib (cr_content r) of Inl e \<Rightarrow> None | Inr wfl \<Rightarrow> Some wfl)" using cs(3) by simp
      note dk = dispatch_keeps [OF wfr, of cfg now]
      have two: "unit_step lib d2 (cw_db ?w3)" using dk by (simp add: unit_step_def)
      have "jobs_unique (cw_db ?w3) \<and> unique_on wr_id (runs (cw_db ?w3))"
        using evolves_unique [OF dk(1)] u2 by simp
      from Suc.IH [OF this] show ?thesis
        using one two c \<open>res = Inr r\<close> st Inr by (auto intro: converse_rtranclp_into_rtranclp)
    qed
  qed
qed simp

lemma reconcile_all_units:
  assumes "jobs_unique (cw_db w) \<and> unique_on wr_id (runs (cw_db w))"
  shows "(unit_step lib)\<^sup>*\<^sup>* (cw_db w) (cw_db (foldl (\<lambda>v rid. snd (reconcileRun lib cfg now rid v)) w ids))"
  using assms
proof (induction ids arbitrary: w)
  case (Cons i ids)
  note rk = reconcile_keeps [OF conjunct1 [OF Cons.prems], of lib cfg now i]
  have "unit_step lib (cw_db w) (cw_db (snd (reconcileRun lib cfg now i w)))"
    using rk by (simp add: unit_step_def)
  moreover note Cons.IH [OF evolves_unique [OF rk(1) Cons.prems]]
  ultimately show ?case by (auto intro: converse_rtranclp_into_rtranclp)
qed simp

lemma tick_units:
  assumes "jobs_unique (cw_db w) \<and> unique_on wr_id (runs (cw_db w))"
  shows "(unit_step lib)\<^sup>*\<^sup>* (cw_db w) (cw_db (controller_tick lib cfg now w))"
proof -
  let ?w = "snd (processQueuedRuns lib cfg now w)"
  have a: "(unit_step lib)\<^sup>*\<^sup>* (cw_db w) (cw_db ?w)"
    unfolding processQueuedRuns_def by (rule process_loop_units [OF assms])
  have "jobs_unique (cw_db ?w) \<and> unique_on wr_id (runs (cw_db ?w))"
    using evolves_unique [OF unit_steps_ok [OF a] assms] .
  from rtranclp_trans [OF a reconcile_all_units [OF this]] show ?thesis
    by (simp add: controller_tick_def reconcileInProgressRuns_def)
qed

lemma run_units:
  assumes "(ctl_step lib cfg)\<^sup>*\<^sup>* w w1" and "jobs_unique (cw_db w) \<and> unique_on wr_id (runs (cw_db w))"
  shows "(unit_step lib)\<^sup>*\<^sup>* (cw_db w) (cw_db w1)"
  using assms(1)
proof (induction rule: rtranclp_induct)
  case (step v v1)
  have "jobs_unique (cw_db v) \<and> unique_on wr_id (runs (cw_db v))"
    using evolves_unique [OF unit_steps_ok [OF step.IH] assms(2)] .
  note ticks = tick_units [OF this, of lib cfg]
  have "(unit_step lib)\<^sup>*\<^sup>* (cw_db v) (cw_db v1)"
    using step.hyps(2) by cases (use ticks in auto)
  with step.IH show ?case by (rule rtranclp_trans)
qed simp

subsection \<open>Properties\<close>

lemma run_ok:
  assumes "(ctl_step lib cfg)\<^sup>*\<^sup>* w w1" and "ctl_ok lib (cw_db w)"
  shows "ctl_ok lib (cw_db w1)" and "run_workflow lib (cw_db w1) = run_workflow lib (cw_db w)"
proof -
  have u: "jobs_unique (cw_db w) \<and> unique_on wr_id (runs (cw_db w))" using assms(2) by (simp add: ctl_ok_def)
  have ev: "evolves lib (cw_db w) (cw_db w1)" using unit_steps_ok [OF run_units [OF assms(1) u]] .
  then show wfeq: "run_workflow lib (cw_db w1) = run_workflow lib (cw_db w)" by (simp add: evolves_def)
  have "sound_sched (deps (wfl_jobs wfl)) (abs_sched rid (cw_db w1))"
    if "run_workflow lib (cw_db w) rid = Some wfl" for rid wfl
    using ev assms(2) that u sched_run_sound unfolding evolves_def ctl_ok_def by blast
  then show "ctl_ok lib (cw_db w1)" using evolves_unique [OF ev u] wfeq by (simp add: ctl_ok_def)
qed

text \<open>C10: Whatever the cluster does and for any number of turns of the main loop, no job of a run
  leaves the queue before every job it needs has completed with success.\<close>

theorem jobs_start_after_needs:
  assumes "(ctl_step lib cfg)\<^sup>*\<^sup>* w w1" and "ctl_ok lib (cw_db w)"
    and "run_workflow lib (cw_db w1) rid = Some wfl"
    and "j \<in> set (jobs (cw_db w1))" and "wj_run j = rid" and "wj_status j \<noteq> ''queued''"
    and "dep \<in> set (deps (wfl_jobs wfl) (wj_job j))"
  shows "\<exists>q\<in>set (jobs (cw_db w1)). wj_run q = rid \<and> wj_job q = dep \<and> wj_status q = ''completed''
           \<and> wj_conclusion q = Some ''success''"
proof -
  have ok: "ctl_ok lib (cw_db w1)" using run_ok(1) [OF assms(1,2)] .
  then have "query_row (job_is rid (wj_job j)) (jobs (cw_db w1)) = Some j"
    using job_query assms(4,5) by (simp add: ctl_ok_def)
  then have "abs_sched rid (cw_db w1) (wj_job j) = Some (status_of j)" by (simp add: abs_sched_def)
  moreover have "status_of j \<noteq> Queued" using assms(6) by (simp add: status_of_def)
  ultimately have "abs_sched rid (cw_db w1) dep = Some Passed"
    using ok assms(3,7) unfolding ctl_ok_def sound_sched_def by blast
  then obtain q where "query_row (job_is rid dep) (jobs (cw_db w1)) = Some q" "status_of q = Passed"
    by (auto simp: abs_sched_def)
  then show ?thesis
    using query_row_Some [of "job_is rid dep" "jobs (cw_db w1)" q]
    by (auto simp: status_of_def job_is_def split: if_splits)
qed

definition stranded :: "('k, 'z) ctl_lib_scheme \<Rightarrow> uuid \<Rightarrow> string \<Rightarrow> string \<Rightarrow> db \<Rightarrow> bool" where
  "stranded lib rid j dep d =
     (run_status d rid = Some ''in_progress'' \<and> abs_sched rid d j = Some Queued \<and> abs_sched rid d dep = Some Failed
      \<and> (\<exists>wfl. run_workflow lib d rid = Some wfl \<and> dep \<in> set (deps (wfl_jobs wfl) j)))"

lemma stranded_unit:
  assumes "unit_step lib d d1" and "jobs_unique d" and "stranded lib rid j dep d"
  shows "stranded lib rid j dep d1"
proof -
  obtain wfl where wfl: "run_workflow lib d rid = Some wfl" "dep \<in> set (deps (wfl_jobs wfl) j)"
    using assms(3) by (auto simp: stranded_def)
  have "(sched_step (deps (wfl_jobs wfl)))\<^sup>*\<^sup>* (abs_sched rid d) (abs_sched rid d1)"
    using assms(1,2) wfl(1) by (simp add: unit_step_def evolves_def)
  then have "abs_sched rid d1 j = Some Queued \<and> abs_sched rid d1 dep = Some Failed"
    using sched_run_blocked wfl(2) assms(3) unfolding stranded_def by metis
  moreover have "run_status d1 rid = Some ''in_progress''"
    using assms(1,3) calculation unfolding unit_step_def keeps_open_def stranded_def by metis
  moreover have "run_workflow lib d1 rid = Some wfl" using assms(1) wfl(1) by (simp add: unit_step_def evolves_def)
  ultimately show ?thesis using wfl(2) by (auto simp: stranded_def)
qed

text \<open>C40: When a job fails that another job needs, the run is never closed: the dependent job stays
  in the queue and the run in progress through every later turn of the main loop.\<close>

theorem failed_need_strands_run:
  assumes "(ctl_step lib cfg)\<^sup>*\<^sup>* w w1" and "jobs_unique (cw_db w)" and "unique_on wr_id (runs (cw_db w))"
    and "stranded lib rid j dep (cw_db w)"
  shows "run_status (cw_db w1) rid = Some ''in_progress'' \<and> abs_sched rid (cw_db w1) j = Some Queued"
proof -
  have units: "(unit_step lib)\<^sup>*\<^sup>* (cw_db w) (cw_db w1)" using run_units [OF assms(1)] assms(2,3) by blast
  then have "jobs_unique (cw_db w1) \<and> stranded lib rid j dep (cw_db w1)"
  proof (induction rule: rtranclp_induct)
    case (step d d1)
    then have "stranded lib rid j dep d1" using stranded_unit by blast
    moreover have "jobs_unique d1" using step by (simp add: unit_step_def evolves_def)
    ultimately show ?case by blast
  qed (use assms in simp)
  then show ?thesis by (simp add: stranded_def)
qed

text \<open>C13: A reconciliation closes a run only when all its jobs have completed, there being at least
  one, and concludes failure exactly when one of them failed.\<close>

theorem run_conclusion:
  assumes "jobs_unique (cw_db w)" and "run_status (cw_db w) rid = Some ''in_progress''"
    and "query_row (run_is rid) (runs (cw_db (snd (reconcileRun lib cfg now rid w)))) = Some run"
    and "wr_status run \<noteq> ''in_progress''"
  shows "let js = run_jobs rid (cw_db (snd (reconcileRun lib cfg now rid w)))
         in js \<noteq> [] \<and> (\<forall>j\<in>set js. wj_status j = ''completed'')
            \<and> wr_conclusion run = Some (if \<exists>j\<in>set js. wj_conclusion j = Some ''failure'' then ''failure'' else ''success'')"
proof -
  let ?d2 = "cw_db (snd (reconcileRun lib cfg now rid w))"
  obtain d1 where d1: "?d2 = d1 \<or> ?d2 = snd (close_run now rid d1)" "jobs_unique d1" "same_frame (cw_db w) d1"
      "runs d1 = runs (cw_db w)" "\<forall>x. x \<noteq> rid \<longrightarrow> abs_sched x d1 = abs_sched x (cw_db w)"
      "\<forall>wfl. run_workflow lib (cw_db w) rid = Some wfl \<longrightarrow>
           (sched_step (deps (wfl_jobs wfl)))\<^sup>*\<^sup>* (abs_sched rid (cw_db w)) (abs_sched rid d1)"
      "run_workflow lib (cw_db w) rid = None \<longrightarrow> ?d2 = d1"
    by (rule reconcile_cases [OF assms(1)])
  obtain run0 where run0: "query_row (run_is rid) (runs d1) = Some run0" "wr_status run0 = ''in_progress''"
    using assms(2) d1(4) by (auto simp: run_status_def)
  have ne: "?d2 \<noteq> d1" using run0 assms(3,4) by auto
  then have d2: "?d2 = snd (close_run now rid d1)" using d1(1) by blast
  obtain b where b: "any_failed (run_jobs rid d1) = Some b"
    using ne d2 by (cases "any_failed (run_jobs rid d1)") (simp_all add: close_run_def Let_def)
  let ?js = "run_jobs rid d1"
  let ?more = "length (filter (\<lambda>j. wj_status j = ''completed'') ?js) < length ?js"
  have done_all: "length ?js \<noteq> 0" "\<not> ?more"
    using ne d2 b by (simp_all add: close_run_def Let_def split: if_splits)
  have all: "\<forall>j\<in>set ?js. wj_status j = ''completed''"
  proof
    fix j assume j: "j \<in> set ?js"
    show "wj_status j = ''completed''"
      using done_all(2) length_filter_less [OF j, of "\<lambda>j. wj_status j = ''completed''"] by blast
  qed
  have upd: "?d2 = update_runs (\<lambda>w. run_is rid w \<and> wr_status w = ''in_progress'')
        (\<lambda>w. w\<lparr>wr_status := ''completed'', wr_completed := Some now,
             wr_conclusion := Some (if b then ''failure'' else ''success'')\<rparr>) d1"
    unfolding d2 using b done_all by (simp add: close_run_def Let_def)
  have "wr_conclusion run = Some (if b then ''failure'' else ''success'')"
    using assms(3) run0 query_row_Some [OF run0(1)] unfolding upd by (auto simp: run_query_update)
  moreover have "run_jobs rid ?d2 = ?js" unfolding upd by (simp add: run_jobs_def)
  moreover have "b \<longleftrightarrow> (\<exists>j\<in>set ?js. wj_conclusion j = Some ''failure'')"
    using b by (auto simp: any_failed_def list_ex_iff split: if_splits)
  ultimately show ?thesis using done_all(1) all by (simp add: Let_def)
qed

subsection \<open>The queue is emptied\<close>

lemma rows_affected_update_le:
  "(\<And>q. Q q \<Longrightarrow> P (f q) \<Longrightarrow> P q) \<Longrightarrow> rows_affected P (update_where Q f t) \<le> rows_affected P t"
  by (induction t) (auto simp: rows_affected_def update_where_def)

lemma rows_affected_update_less:
  assumes "\<And>q. Q q \<Longrightarrow> P (f q) \<Longrightarrow> P q" and "r \<in> set t" "Q r" "P r" "\<not> P (f r)"
  shows "rows_affected P (update_where Q f t) < rows_affected P t"
  using assms(2)
proof (induction t)
  case (Cons x xs)
  have le: "rows_affected P (update_where Q f xs) \<le> rows_affected P xs" by (rule rows_affected_update_le) (rule assms(1))
  show ?case
  proof (cases "x = r")
    case True
    then show ?thesis using le assms(3-5) by (simp add: rows_affected_def update_where_def)
  next
    case False
    then have "rows_affected P (update_where Q f xs) < rows_affected P xs" using Cons by simp
    then show ?thesis using assms(1) [of x] by (auto simp: rows_affected_def update_where_def)
  qed
qed simp

lemma queued_count_claim:
  assumes "claimQueuedRun now d = (Inr r, d1)"
  shows "queued_count d1 < queued_count d"
proof -
  obtain w where w: "oldest_queued d = Some w" and d1: "d1 = update_runs (\<lambda>q. wr_id q = wr_id w \<and> wr_status q = ''queued'')
             (\<lambda>q. q\<lparr>wr_status := ''in_progress'', wr_started := Some now\<rparr>) d"
    using assms by (cases rule: claim_cases [of now d]) auto
  show ?thesis
    unfolding d1 queued_count_def update_runs_def using oldest_queued_row [OF w]
    by (simp, intro rows_affected_update_less [of _ _ _ w]) auto
qed

lemma queued_count_start: "queued_count (snd (startRun lib now rid content d)) \<le> queued_count d"
  using startRun_cases [of lib now rid content d]
  by (auto simp: queued_count_def fail_run_def update_runs_def intro!: rows_affected_update_le)

lemma process_loop_fuel:
  "queued_count (cw_db w) < n \<Longrightarrow> fst (process_loop n lib cfg now w) \<noteq> None"
proof (induction n arbitrary: w)
  case (Suc n)
  obtain res d1 where c: "claimQueuedRun now (cw_db w) = (res, d1)" by fastforce
  show ?case
  proof (cases res)
    case (Inr r)
    obtain res2 d2 where st: "startRun lib now (cr_id r) (cr_content r) d1 = (res2, d2)" by fastforce
    have "queued_count d2 \<le> queued_count d1" using queued_count_start [of lib now "cr_id r" "cr_content r" d1] st by simp
    also have "\<dots> < queued_count (cw_db w)" using c Inr by (intro queued_count_claim) simp
    finally have less: "queued_count d2 < n" using Suc.prems by simp
    have "queued_count (cw_db (snd (dispatchReadyJobs lib cfg now r (w\<lparr>cw_db := d2\<rparr>)))) = queued_count d2"
      by (simp add: queued_count_def dispatchReadyJobs_frame(2))
    then show ?thesis
      using Suc.IH [of "w\<lparr>cw_db := d2\<rparr>"] Suc.IH [of "snd (dispatchReadyJobs lib cfg now r (w\<lparr>cw_db := d2\<rparr>))"] less c Inr st
      by (cases res2) simp_all
  qed (use c in simp)
qed simp

text \<open>A run can be claimed: its workflow, its repository and the owner of that are still there.\<close>

definition claimable :: "db \<Rightarrow> run_row \<Rightarrow> bool" where
  "claimable d q = (case run_context d q of None \<Rightarrow> False | Some (f, r) \<Rightarrow> owner_name d r \<noteq> None)"

definition runs_claimable :: "db \<Rightarrow> bool" where
  "runs_claimable d = list_all (claimable d) (runs d)"

lemma claimable_cong:
  assumes "same_frame d d1" and "wr_workflow q1 = wr_workflow q" and "wr_repo q1 = wr_repo q"
  shows "claimable d1 q1 = claimable d q"
proof -
  have "owner_name d1 = owner_name d"
    using assms(1) by (simp add: fun_eq_iff same_frame_def owner_name_def owner_user_def owner_org_def)
  moreover have "run_context d1 q1 = run_context d q" using assms by (simp add: run_context_def same_frame_def)
  ultimately show ?thesis by (simp only: claimable_def)
qed

lemma claimable_update:
  assumes "runs_claimable d" and "\<And>q. wr_workflow (f q) = wr_workflow q \<and> wr_repo (f q) = wr_repo q"
  shows "runs_claimable (update_runs P f d)"
proof -
  have "same_frame d (update_runs P f d)" by (simp add: same_frame_def update_runs_def)
  then have "claimable (update_runs P f d) q = claimable d q" "claimable (update_runs P f d) (f q) = claimable d q" for q
    using assms(2) claimable_cong by blast+
  with assms(1) show ?thesis by (auto simp: runs_claimable_def update_runs_def update_where_def list_all_iff)
qed

lemma claimable_frame:
  assumes "runs_claimable d" and "same_frame d d1" and "runs d1 = runs d"
  shows "runs_claimable d1"
  using assms by (simp add: runs_claimable_def list_all_iff claimable_cong [OF assms(2) refl refl])

lemma insert_jobs_frame: "same_frame d (snd (insert_jobs rid js d))"
  by (induction js arbitrary: d) (auto simp: same_frame_def)

lemma claimable_start:
  assumes "runs_claimable d"
  shows "runs_claimable (snd (startRun lib now rid content d))"
proof -
  have "runs_claimable (fail_run now rid d)" unfolding fail_run_def by (rule claimable_update [OF assms]) simp
  moreover have "runs_claimable (snd (insert_jobs rid js d))" for js
    by (rule claimable_frame [OF assms insert_jobs_frame]) simp
  ultimately show ?thesis using startRun_cases [of lib now rid content d] by auto
qed

lemma claim_claimable:
  assumes "runs_claimable d"
  shows "(queued_count d = 0 \<and> claimQueuedRun now d = (Inl NoRows, d))
       \<or> (\<exists>r d1. claimQueuedRun now d = (Inr r, d1) \<and> runs_claimable d1)"
proof (cases "oldest_queued d")
  case None
  then have "order_by wr_created (rows_where (\<lambda>w. wr_status w = ''queued'') (runs d)) = []"
    by (auto simp: oldest_queued_def split: list.splits)
  then have "queued_count d = 0" by (simp add: queued_count_def rows_affected_def rows_where_def order_by_def flip: length_0_conv)
  with None show ?thesis by (simp add: claimQueuedRun_def)
next
  case (Some w)
  have "w \<in> set (runs d)" using oldest_queued_row [OF Some] by simp
  then obtain f r n where "run_context d w = Some (f, r)" "owner_name d r = Some n"
    using assms by (fastforce simp: runs_claimable_def claimable_def list_all_iff split: option.splits)
  then have "\<exists>c. claimQueuedRun now d = (Inr c, update_runs (\<lambda>q. wr_id q = wr_id w \<and> wr_status q = ''queued'')
       (\<lambda>q. q\<lparr>wr_status := ''in_progress'', wr_started := Some now\<rparr>) d)"
    using Some by (simp add: claimQueuedRun_def Let_def)
  then show ?thesis using claimable_update [OF assms] by fastforce
qed

lemma process_loop_drains:
  "runs_claimable (cw_db w) \<Longrightarrow> queued_count (cw_db w) < n \<Longrightarrow>
     fst (process_loop n lib cfg now w) = Some (Inr ()) \<and> queued_count (cw_db (snd (process_loop n lib cfg now w))) = 0"
proof (induction n arbitrary: w)
  case (Suc n)
  from claim_claimable [OF Suc.prems(1), of now] show ?case
  proof (elim disjE exE conjE)
    assume "queued_count (cw_db w) = 0" and "claimQueuedRun now (cw_db w) = (Inl NoRows, cw_db w)"
    then show ?case by simp
  next
    fix r d1 assume c: "claimQueuedRun now (cw_db w) = (Inr r, d1)" and ok: "runs_claimable d1"
    obtain res2 d2 where st: "startRun lib now (cr_id r) (cr_content r) d1 = (res2, d2)" by fastforce
    let ?w2 = "w\<lparr>cw_db := d2\<rparr>" and ?w3 = "snd (dispatchReadyJobs lib cfg now r (w\<lparr>cw_db := d2\<rparr>))"
    have "queued_count d2 \<le> queued_count d1" using queued_count_start [of lib now "cr_id r" "cr_content r" d1] st by simp
    also have "\<dots> < queued_count (cw_db w)" using c by (rule queued_count_claim)
    finally have less: "queued_count d2 < n" using Suc.prems by simp
    have ok2: "runs_claimable d2" using claimable_start [OF ok, of lib now "cr_id r" "cr_content r"] st by simp
    have "runs_claimable (cw_db ?w3)"
      using claimable_frame [OF _ dispatchReadyJobs_frame(1) [where w = ?w2 and lib = lib and cfg = cfg and now = now and r = r] dispatchReadyJobs_frame(2)] ok2 by simp
    moreover have "queued_count (cw_db ?w3) = queued_count d2"
      by (simp add: queued_count_def dispatchReadyJobs_frame(2))
    ultimately show ?case
      using Suc.IH [of ?w2] Suc.IH [of ?w3] less ok2 c st by (cases res2) simp_all
  qed
qed simp

lemma process_loop_more_fuel:
  "fst (process_loop n lib cfg now w) \<noteq> None \<Longrightarrow> n \<le> m \<Longrightarrow> process_loop m lib cfg now w = process_loop n lib cfg now w"
proof (induction n arbitrary: w m)
  case (Suc n)
  then obtain k where k: "m = Suc k" "n \<le> k" by (cases m) auto
  obtain res d1 where c: "claimQueuedRun now (cw_db w) = (res, d1)" by fastforce
  show ?case
  proof (cases res)
    case (Inr r)
    obtain res2 d2 where st: "startRun lib now (cr_id r) (cr_content r) d1 = (res2, d2)" by fastforce
    let ?w2 = "w\<lparr>cw_db := d2\<rparr>" and ?w3 = "snd (dispatchReadyJobs lib cfg now r (w\<lparr>cw_db := d2\<rparr>))"
    from Suc.prems(1) have "fst (process_loop n lib cfg now (case res2 of Inl e \<Rightarrow> ?w2 | Inr u \<Rightarrow> ?w3)) \<noteq> None"
      by (cases res2) (simp_all add: c Inr st)
    from Suc.IH [OF this k(2)] show ?thesis by (cases res2) (simp_all add: c Inr st k(1))
  qed (use c k in simp)
qed simp

text \<open>C11: The controller's pass over the queue always ends, with as many turns as there are queued runs
  and one more: any larger number of turns gives the same. When no run has lost its workflow, its repository
  or the owner of that, it ends without an error and leaves no run queued, whatever happened to the
  single runs on the way.
\<close>
theorem queue_drained:
  "fst (processQueuedRuns lib cfg now w) \<noteq> None
     \<and> (queued_count (cw_db w) < n \<longrightarrow> process_loop n lib cfg now w = processQueuedRuns lib cfg now w)
     \<and> (runs_claimable (cw_db w) \<longrightarrow>
          fst (processQueuedRuns lib cfg now w) = Some (Inr ())
        \<and> queued_count (cw_db (snd (processQueuedRuns lib cfg now w))) = 0)"
proof (intro conjI impI)
  show ends: "fst (processQueuedRuns lib cfg now w) \<noteq> None"
    unfolding processQueuedRuns_def by (rule process_loop_fuel) simp
  show "process_loop n lib cfg now w = processQueuedRuns lib cfg now w" if "queued_count (cw_db w) < n"
    using ends that unfolding processQueuedRuns_def by (intro process_loop_more_fuel) simp_all
  assume "runs_claimable (cw_db w)"
  from process_loop_drains [OF this lessI, of lib cfg now]
  show "fst (processQueuedRuns lib cfg now w) = Some (Inr ())"
      "queued_count (cw_db (snd (processQueuedRuns lib cfg now w))) = 0"
    unfolding processQueuedRuns_def by (rule conjunct1, rule conjunct2)
qed

subsection \<open>Witnesses\<close>

text \<open>A run of \<open>demo_workflow\<close> whose build has ended with the given conclusion.\<close>

definition demo_lib :: "nat ctl_lib" where
  "demo_lib = \<lparr>cl_uuid = (\<lambda>u. ''0123456789''), cl_yaml = (\<lambda>s. Inr demo_workflow),
     cl_create = (\<lambda>k j. (True, Suc k)), cl_get = (\<lambda>k ns n. None)\<rparr>"

definition demo_cfg :: ctl_config where
  "demo_cfg = \<lparr>cc_artifacts = ''/data'', cc_ns = ''runners'', cc_image = []\<rparr>"

definition demo_wf_row :: workflow_row where
  "demo_wf_row = \<lparr>wf_id = Uuid 6, wf_repo = Uuid 10, wf_name = ''ci'', wf_path = ''ci.yml'', wf_content = [], wf_active = True\<rparr>"

definition demo_wf_run :: run_row where
  "demo_wf_run = \<lparr>wr_id = Uuid 5, wr_repo = Uuid 10, wr_workflow = Uuid 6, wr_number = 1, wr_event = ''push'',
     wr_sha = ''abc'', wr_branch = ''main'', wr_status = ''in_progress'', wr_conclusion = None, wr_created = 0,
     wr_started = None, wr_completed = None\<rparr>"

definition ended_job :: "string \<Rightarrow> string \<Rightarrow> job_row" where
  "ended_job j c = (queued_job (Uuid 5) j)\<lparr>wj_status := ''completed'', wj_conclusion := Some c\<rparr>"

definition demo_ctl :: "job_row list \<Rightarrow> nat ctl_world" where
  "demo_ctl js = \<lparr>cw_db = (demo_db False)\<lparr>workflows := [demo_wf_row], runs := [demo_wf_run], jobs := js\<rparr>, cw_k8s = 0\<rparr>"

lemmas demo_ctl_defs = demo_ctl_def demo_wf_row_def demo_wf_run_def ended_job_def queued_job_def

lemma demo_run_workflow: "run_workflow demo_lib (cw_db (demo_ctl js)) rid = (if rid = Uuid 5 then Some demo_workflow else None)"
  by (simp add: run_workflow_def run_is_def run_context_def demo_ctl_defs demo_defs demo_lib_def)

lemma demo_deps: "deps (wfl_jobs demo_workflow) j = (if j = ''deploy'' then [''build''] else [])"
  by (simp add: deps_def demo_workflow_def demo_wf_job_def)

lemma demo_unique: "jobs_unique (cw_db (demo_ctl [ended_job ''build'' c, queued_job (Uuid 5) ''deploy'']))"
    "unique_on wr_id (runs (cw_db (demo_ctl js)))"
  by (simp_all add: jobs_unique_def unique_on_def demo_ctl_defs)

lemma jobs_start_after_needs_witness:
  "let d = cw_db (controller_tick demo_lib demo_cfg 7 (demo_ctl [ended_job ''build'' ''success'', queued_job (Uuid 5) ''deploy'']))
   in (\<exists>j\<in>set (jobs d). wj_job j = ''deploy'' \<and> wj_status j = ''in_progress'')
    \<and> (\<exists>q\<in>set (jobs d). wj_run q = Uuid 5 \<and> wj_job q = ''build'' \<and> wj_status q = ''completed''
         \<and> wj_conclusion q = Some ''success'')"
proof -
  let ?w = "demo_ctl [ended_job ''build'' ''success'', queued_job (Uuid 5) ''deploy'']"
  let ?w1 = "controller_tick demo_lib demo_cfg 7 ?w"
  have "\<exists>j\<in>set (jobs (cw_db ?w1)). wj_run j = Uuid 5 \<and> wj_job j = ''deploy'' \<and> wj_status j = ''in_progress''"
    by code_simp
  then obtain j where j: "j \<in> set (jobs (cw_db ?w1))" "wj_run j = Uuid 5" "wj_job j = ''deploy''"
      "wj_status j = ''in_progress''" by blast
  have st: "(ctl_step demo_lib demo_cfg)\<^sup>*\<^sup>* ?w ?w1" by (intro r_into_rtranclp ctl_step.tick)
  have ok: "ctl_ok demo_lib (cw_db ?w)"
    unfolding ctl_ok_def
  proof (intro conjI allI impI)
    fix rid wfl assume "run_workflow demo_lib (cw_db ?w) rid = Some wfl"
    then have "rid = Uuid 5" "wfl = demo_workflow" by (auto simp: demo_run_workflow split: if_splits)
    then show "sound_sched (deps (wfl_jobs wfl)) (abs_sched rid (cw_db ?w))"
      by (auto simp: sound_sched_def demo_deps abs_sched_def job_is_def status_of_def demo_ctl_defs)
  qed (rule demo_unique)+
  have "run_workflow demo_lib (cw_db ?w1) (Uuid 5) = Some demo_workflow"
    using run_ok(2) [OF st ok] by (simp add: demo_run_workflow)
  then have "\<exists>q\<in>set (jobs (cw_db ?w1)). wj_run q = Uuid 5 \<and> wj_job q = ''build'' \<and> wj_status q = ''completed''
      \<and> wj_conclusion q = Some ''success''"
    using jobs_start_after_needs [OF st ok _ j(1)] j(2-4) by (simp add: demo_deps)
  then show ?thesis using j unfolding Let_def by blast
qed

lemma failed_need_strands_run_witness:
  "run_status (cw_db (controller_tick demo_lib demo_cfg 7
      (demo_ctl [ended_job ''build'' ''failure'', queued_job (Uuid 5) ''deploy'']))) (Uuid 5) = Some ''in_progress''"
proof -
  let ?w = "demo_ctl [ended_job ''build'' ''failure'', queued_job (Uuid 5) ''deploy'']"
  have "stranded demo_lib (Uuid 5) ''deploy'' ''build'' (cw_db ?w)"
    by (simp add: stranded_def demo_run_workflow demo_deps)
      (simp add: run_status_def run_is_def abs_sched_def job_is_def status_of_def demo_ctl_defs)
  moreover have "(ctl_step demo_lib demo_cfg)\<^sup>*\<^sup>* ?w (controller_tick demo_lib demo_cfg 7 ?w)"
    by (intro r_into_rtranclp ctl_step.tick)
  ultimately show ?thesis using failed_need_strands_run demo_unique by blast
qed

lemma run_conclusion_witness:
  "let d = cw_db (snd (reconcileRun demo_lib demo_cfg 7 (Uuid 5) (demo_ctl [ended_job ''build'' ''success''])))
   in run_jobs (Uuid 5) d \<noteq> [] \<and> list_all (\<lambda>j. wj_status j = ''completed'') (run_jobs (Uuid 5) d)"
proof -
  let ?w = "demo_ctl [ended_job ''build'' ''success'']"
  have u: "jobs_unique (cw_db ?w)" by (simp add: jobs_unique_def unique_on_def demo_ctl_defs)
  have st: "run_status (cw_db ?w) (Uuid 5) = Some ''in_progress''"
    by (simp add: run_status_def run_is_def demo_ctl_defs)
  have "\<exists>run. query_row (run_is (Uuid 5)) (runs (cw_db (snd (reconcileRun demo_lib demo_cfg 7 (Uuid 5) ?w)))) = Some run
      \<and> wr_status run = ''completed''"
    by (simp add: reconcileRun_def run_is_def run_context_def demo_ctl_defs demo_defs owner_name_def owner_user_def
        run_jobs_def rows_where_def poll_one_def dispatchReadyJobs_def ParseWorkflow_def demo_lib_def queued_ids_def
        close_run_def any_failed_def Let_def update_runs_def update_where_def)
  then obtain run where "query_row (run_is (Uuid 5)) (runs (cw_db (snd (reconcileRun demo_lib demo_cfg 7 (Uuid 5) ?w)))) = Some run"
      "wr_status run \<noteq> ''in_progress''" by auto
  from run_conclusion [OF u st this] show ?thesis by (simp add: Let_def list_all_iff)
qed

lemma queue_drained_witness:
  "let w = (demo_ctl [])\<lparr>cw_db := (cw_db (demo_ctl []))\<lparr>runs := [demo_wf_run\<lparr>wr_status := ''queued''\<rparr>]\<rparr>\<rparr>
   in queued_count (cw_db w) = 1 \<and> queued_count (cw_db (snd (processQueuedRuns demo_lib demo_cfg 7 w))) = 0"
proof -
  let ?w = "(demo_ctl [])\<lparr>cw_db := (cw_db (demo_ctl []))\<lparr>runs := [demo_wf_run\<lparr>wr_status := ''queued''\<rparr>]\<rparr>\<rparr>"
  have "runs_claimable (cw_db ?w)"
    by (simp add: runs_claimable_def claimable_def run_context_def demo_ctl_defs demo_defs owner_name_def owner_user_def)
  then show ?thesis
    using queue_drained [of demo_lib demo_cfg 7 ?w 0] by (simp add: queued_count_def demo_wf_run_def rows_affected_def)
qed

end
