(* ===== verification/GitText.thy ===== *)
theory GitText
  imports GoStrings
begin

section \<open>Reading git's output (internal/git/store.go)\<close>

text \<open>
  The functions of the repository store that turn what the git program prints into values:
  branch and tag lists, numstat lines, log lines, porcelain blame. They are pure; the commands
  that produce the text are in \<open>GitStore\<close>.
\<close>

abbreviation nl :: char where "nl \<equiv> CHR 0x0A"
abbreviation tab :: char where "tab \<equiv> CHR 0x09"

subsection \<open>Integers\<close>

text \<open>
  \<open>strconv.Atoi\<close> and \<open>strconv.ParseInt(s, 10, 64)\<close> on a 64-bit machine: the value and whether there
  was no error. A syntax error gives zero, a value out of range the nearest bound.
\<close>

definition max_int64 :: int where "max_int64 = 2 ^ 63 - 1"

definition atoi_clamp :: "int \<Rightarrow> int \<times> bool" where
  "atoi_clamp v =
     (if v > max_int64 then (max_int64, False) else if v < - max_int64 - 1 then (- max_int64 - 1, False) else (v, True))"

definition atoi :: "string \<Rightarrow> int \<times> bool" where
  "atoi s =
     (let neg = prefix ''-'' s;
          ds = (if neg \<or> prefix ''+'' s then drop 1 s else s)
      in if ds = [] \<or> \<not> list_all is_digit ds then (0, False)
         else atoi_clamp (if neg then - int (read_decimal ds) else int (read_decimal ds)))"

definition atoiSafe :: "string \<Rightarrow> int" where
  "atoiSafe s = (if s = ''-'' then 0 else fst (atoi s))"

subsection \<open>Branches, tags and commits\<close>

definition out_lines :: "string \<Rightarrow> string list" where
  "out_lines out = split_char nl (trim_space out)"

definition branch_line :: "(string \<times> string) list \<Rightarrow> string \<Rightarrow> (string \<times> string) list" where
  "branch_line refs line =
     (if line = [] then refs
      else (case str_fields line of [name, sha] \<Rightarrow> assoc_put name sha refs | _ \<Rightarrow> refs))"

definition parse_branches :: "string \<Rightarrow> (string \<times> string) list" where
  "parse_branches out = foldl branch_line [] (out_lines out)"

record tag_info =
  tg_name :: string
  tg_ref :: string
  tg_sha :: string

definition tag_line :: "string \<Rightarrow> tag_info list" where
  "tag_line line =
     (case str_fields line of
        name # sha # rest \<Rightarrow>
          [\<lparr>tg_name = name, tg_ref = ''refs/tags/'' @ name, tg_sha = (case rest of [] \<Rightarrow> sha | c # _ \<Rightarrow> c)\<rparr>]
      | _ \<Rightarrow> [])"

definition parse_tags :: "string \<Rightarrow> tag_info list" where
  "parse_tags out = concat (map tag_line (out_lines out))"

record commit_info =
  ci_sha :: string
  ci_message :: string
  ci_author :: string
  ci_date :: string

definition commit_line :: "string \<Rightarrow> commit_info list" where
  "commit_line line =
     (case split_n 4 ''||'' line of
        [sha, msg, author, date] \<Rightarrow> [\<lparr>ci_sha = sha, ci_message = msg, ci_author = author, ci_date = date\<rparr>]
      | _ \<Rightarrow> [])"

definition parse_commits :: "string \<Rightarrow> commit_info list" where
  "parse_commits out = concat (map commit_line (out_lines out))"

subsection \<open>Changed files\<close>

record changed_file =
  cf_name :: string
  cf_status :: string
  cf_adds :: int
  cf_dels :: int
  cf_changes :: int

text \<open>The status \<open>GetPRFiles\<close> computes, from the two count columns of a numstat line.\<close>

definition pr_file_status :: "string \<Rightarrow> string \<Rightarrow> string" where
  "pr_file_status addsStr delsStr =
     (if addsStr = ''-'' \<or> delsStr = ''-'' then
        (if addsStr = ''0'' \<and> delsStr \<noteq> ''0'' then ''removed''
         else if delsStr = ''0'' \<and> addsStr \<noteq> ''0'' then ''added'' else ''modified'')
      else (let adds = fst (atoi addsStr); dels = fst (atoi delsStr)
            in if adds > 0 \<and> dels = 0 then ''added''
               else if adds = 0 \<and> dels > 0 then ''removed'' else ''modified''))"

definition pr_file_line :: "string \<Rightarrow> changed_file list" where
  "pr_file_line line =
     (case str_fields (trim_space line) of
        adds # dels # w # ws \<Rightarrow>
          [\<lparr>cf_name = join '' '' (w # ws), cf_status = pr_file_status adds dels,
            cf_adds = atoiSafe adds, cf_dels = atoiSafe dels, cf_changes = atoiSafe adds + atoiSafe dels\<rparr>]
      | _ \<Rightarrow> [])"

definition parse_pr_files :: "string \<Rightarrow> changed_file list" where
  "parse_pr_files out = concat (map pr_file_line (out_lines out))"

text \<open>The same lines as \<open>CompareCommits\<close> and \<open>GetCommitDetail\<close> read them.\<close>

definition numstat_status :: "int \<Rightarrow> int \<Rightarrow> string" where
  "numstat_status adds dels =
     (if adds > 0 \<and> dels = 0 then ''added'' else if adds = 0 \<and> dels > 0 then ''removed'' else ''modified'')"

definition numstat_line :: "string \<Rightarrow> changed_file list" where
  "numstat_line line =
     (case str_fields (trim_space line) of
        adds # dels # w # ws \<Rightarrow>
          [\<lparr>cf_name = join '' '' (w # ws), cf_status = numstat_status (atoiSafe adds) (atoiSafe dels),
            cf_adds = atoiSafe adds, cf_dels = atoiSafe dels, cf_changes = atoiSafe adds + atoiSafe dels\<rparr>]
      | _ \<Rightarrow> [])"

definition parse_numstat :: "string \<Rightarrow> changed_file list" where
  "parse_numstat out = concat (map numstat_line (out_lines out))"

definition first_line :: "string \<Rightarrow> string" where
  "first_line s = takeWhile (\<lambda>c. c \<noteq> nl) s"

definition parse_ahead_behind :: "string \<Rightarrow> int \<times> int" where
  "parse_ahead_behind out =
     (case str_fields out of [behind, ahead] \<Rightarrow> (fst (atoi ahead), fst (atoi behind)) | _ \<Rightarrow> (0, 0))"

definition compare_status :: "int \<Rightarrow> int \<Rightarrow> string" where
  "compare_status ahead behind =
     (if ahead > 0 \<and> behind = 0 then ''ahead''
      else if behind > 0 \<and> ahead = 0 then ''behind''
      else if ahead = 0 \<and> behind = 0 then ''identical'' else ''diverged'')"

subsection \<open>Signatures, modes, blame\<close>

definition shortSHA :: "string \<Rightarrow> string" where
  "shortSHA sha = (if length sha > 7 then take 7 sha else sha)"

fun key_id_of_lines :: "string list \<Rightarrow> string" where
  "key_id_of_lines [] = ''unknown''"
| "key_id_of_lines (line # ls) =
     (let trimmed = trim_space line; parts = str_fields trimmed
      in if (prefix ''KEY '' trimmed \<or> prefix ''KEY:'' trimmed) \<and> length parts \<ge> 2
         then trim_right (\<lambda>c. c = CHR 0x0D) (last parts)
         else key_id_of_lines ls)"

definition extractKeyIDFromPGPSignature :: "string \<Rightarrow> string" where
  "extractKeyIDFromPGPSignature sig = key_id_of_lines (split_char nl sig)"

datatype filemode = Regular | Executable | Dir | Symlink | Submodule

definition parseFileMode :: "string \<Rightarrow> filemode option" where
  "parseFileMode m =
     (if m = ''100644'' then Some Regular else if m = ''100755'' then Some Executable
      else if m = ''040000'' then Some Dir else if m = ''120000'' then Some Symlink
      else if m = ''160000'' then Some Submodule else None)"

record blame_line =
  bl_number :: nat
  bl_sha :: string
  bl_short :: string
  bl_author :: string
  bl_date :: string
  bl_content :: string

text \<open>
  The metadata lines of a group, up to the line that starts with a tab; empty lines are passed over.
  \<open>day\<close> is \<open>time.Unix(sec, 0).Format("2006-01-02")\<close>, a date in the local time zone of the server.
\<close>

definition meta_line :: "(int \<Rightarrow> string) \<Rightarrow> string \<times> string \<Rightarrow> string \<Rightarrow> string \<times> string" where
  "meta_line day ad m =
     (if prefix ''author '' m then (trim_prefix ''author '' m, snd ad)
      else if prefix ''author-time '' m then
        (fst ad, case atoi (trim_prefix ''author-time '' m) of (sec, good) \<Rightarrow> if good then day sec else snd ad)
      else ad)"

definition is_meta :: "string \<Rightarrow> bool" where "is_meta m = (\<not> prefix [tab] m)"

fun blame_lines :: "string \<Rightarrow> string \<Rightarrow> string \<Rightarrow> nat \<Rightarrow> string list \<Rightarrow> blame_line list" where
  "blame_lines sha author date n [] = []"
| "blame_lines sha author date n (l # ls) =
     \<lparr>bl_number = n, bl_sha = sha, bl_short = shortSHA sha, bl_author = author, bl_date = date,
      bl_content = trim_prefix [tab] l\<rparr> # blame_lines sha author date (Suc n) ls"

function blame_loop :: "(int \<Rightarrow> string) \<Rightarrow> nat \<Rightarrow> string list \<Rightarrow> blame_line list" where
  "blame_loop day n [] = []"
| "blame_loop day n (line # ls) =
     (let parts = str_fields line
      in if line = [] \<or> length parts < 4 then blame_loop day n ls
         else (let ad = foldl (meta_line day) ([], []) (takeWhile is_meta ls);
                   rest = dropWhile is_meta ls;
                   body = take (nat (fst (atoi (parts ! 3)))) rest
               in blame_lines (parts ! 0) (fst ad) (snd ad) n body
                  @ blame_loop day (n + length body) (drop (length body) rest)))"
  by pat_completeness auto
termination
  by (relation "measure (\<lambda>(day, n, ls). length ls)")
    (auto intro: le_imp_less_Suc le_trans [OF diff_le_self length_dropWhile_le])

definition parse_blame :: "(int \<Rightarrow> string) \<Rightarrow> string \<Rightarrow> blame_line list" where
  "parse_blame day out = blame_loop day 1 (split_char nl out)"

subsection \<open>Words and lines\<close>

definition word :: "string \<Rightarrow> bool" where
  "word w = (w \<noteq> [] \<and> (\<forall>c\<in>set w. \<not> is_space c))"

lemma word_nl: "word w \<Longrightarrow> nl \<notin> set w"
  by (auto simp: word_def is_space_def)

lemma word_decimal [intro]: "word (decimal n)"
proof -
  have "\<not> is_space c" if "c \<in> set (decimal n)" for c
    using decimal_digits [OF that] by (auto simp: is_space_def is_digit_def)
  then show ?thesis by (simp add: word_def)
qed

lemma str_fields_word: "word w \<Longrightarrow> str_fields w = [w]"
  by (auto simp: str_fields_def word_def split_pred_no_sep)

lemma str_fields_space: "word w \<Longrightarrow> is_space c \<Longrightarrow> str_fields (w @ c # t) = w # str_fields t"
  by (auto simp: str_fields_def word_def split_pred_append)

lemma trim_space_ends:
  assumes "s \<noteq> []" and "\<not> is_space (hd s)" and "\<not> is_space (last s)"
  shows "trim_space s = s" and "trim_space (s @ [nl]) = s"
proof -
  have "trim_left is_space s = s" "trim_right is_space s = s" using assms
    by (auto intro: trim_left_id trim_right_id)
  then show "trim_space s = s" by (simp add: trim_space_def trim_def)
  have "trim_left is_space (s @ [nl]) = s @ [nl]" using assms by (intro trim_left_id) simp
  moreover have "trim_right is_space (s @ [nl]) = trim_right is_space s"
    by (simp add: trim_right_def is_space_def)
  ultimately show "trim_space (s @ [nl]) = s"
    using \<open>trim_right is_space s = s\<close> by (simp add: trim_space_def trim_def)
qed

definition text_line :: "string \<Rightarrow> bool" where
  "text_line l = (l \<noteq> [] \<and> nl \<notin> set l \<and> \<not> is_space (hd l) \<and> \<not> is_space (last l))"

definition printed :: "string list \<Rightarrow> string" where
  "printed ls = concat (map (\<lambda>l. l @ [nl]) ls)"

lemma printed_join: "ls \<noteq> [] \<Longrightarrow> printed ls = join [nl] ls @ [nl]"
  unfolding printed_def by (induction "[nl]" ls rule: join.induct) auto

lemma join_ends:
  "ls \<noteq> [] \<Longrightarrow> \<forall>l\<in>set ls. l \<noteq> [] \<Longrightarrow> join sep ls \<noteq> [] \<and> hd (join sep ls) = hd (hd ls) \<and> last (join sep ls) = last (last ls)"
  by (induction sep ls rule: join.induct) auto

text \<open>What git prints line by line is cut into those lines again.\<close>

lemma out_lines_printed:
  assumes "ls \<noteq> []" and "\<forall>l\<in>set ls. text_line l"
  shows "out_lines (printed ls) = ls"
proof -
  have "join [nl] ls \<noteq> [] \<and> hd (join [nl] ls) = hd (hd ls) \<and> last (join [nl] ls) = last (last ls)"
    using assms by (intro join_ends) (auto simp: text_line_def)
  then have "trim_space (join [nl] ls @ [nl]) = join [nl] ls"
    using assms by (intro trim_space_ends) (auto simp: text_line_def)
  then show ?thesis using assms
    by (simp add: out_lines_def printed_join split_char_join text_line_def)
qed

lemma out_lines_empty: "out_lines (printed []) = [[]]"
  by (simp add: out_lines_def printed_def trim_space_def trim_def trim_left_def trim_right_def split_char_def)

lemma word_ends: "word w \<Longrightarrow> \<not> is_space (hd w) \<and> \<not> is_space (last w)"
  by (auto simp: word_def)

subsection \<open>Branch lists\<close>

definition branch_text :: "string \<times> string \<Rightarrow> string" where
  "branch_text b = fst b @ '' '' @ snd b"

lemma branch_text_fields:
  assumes "word n" and "word s"
  shows "str_fields (branch_text (n, s)) = [n, s]" and "text_line (branch_text (n, s))"
proof -
  show "str_fields (branch_text (n, s)) = [n, s]"
    using assms str_fields_space [of n "CHR '' ''" s] by (simp add: branch_text_def str_fields_word is_space_def)
  show "text_line (branch_text (n, s))"
    using assms word_ends [OF assms(1)] word_ends [OF assms(2)] word_nl
    by (auto simp: text_line_def branch_text_def word_def)
qed

lemma branch_lines:
  assumes "\<forall>b\<in>set bs. word (fst b) \<and> word (snd b)" and "distinct (map fst (refs @ bs))"
  shows "foldl branch_line refs (map branch_text bs) = refs @ bs"
  using assms
proof (induction bs arbitrary: refs)
  case (Cons b bs)
  obtain n s where b: "b = (n, s)" by (cases b)
  have "branch_line refs (branch_text b) = refs @ [b]"
    using Cons.prems branch_text_fields [of n s]
    by (auto simp: b branch_line_def assoc_put_def text_line_def)
  then show ?case using Cons.IH [of "refs @ [b]"] Cons.prems by simp
qed simp

text \<open>The branch list is read back exactly: for the lines \<open>name sha\<close> that \<open>git for-each-ref\<close> prints,
  with distinct names and no white space in names and hashes, \<open>ListBranchSHAs\<close> returns those pairs,
  the empty repository included.\<close>

theorem branch_list_roundtrip:
  assumes "\<forall>b\<in>set bs. word (fst b) \<and> word (snd b)" and "distinct (map fst bs)"
  shows "parse_branches (printed (map branch_text bs)) = bs"
proof (cases "bs = []")
  case True
  then show ?thesis by (simp add: parse_branches_def out_lines_empty branch_line_def)
next
  case False
  have "\<forall>l\<in>set (map branch_text bs). text_line l"
    using assms(1) branch_text_fields(2) by fastforce
  with False show ?thesis
    using branch_lines [of bs "[]"] assms by (simp add: parse_branches_def out_lines_printed)
qed

lemma branch_list_roundtrip_witness:
  "parse_branches (printed [''main 1f'', ''dev 2e'']) = [(''main'', ''1f''), (''dev'', ''2e'')]"
  using branch_list_roundtrip [of "[(''main'', ''1f''), (''dev'', ''2e'')]"]
  by (simp add: branch_text_def word_def is_space_def)

subsection \<open>Changed files\<close>

lemma atoi_decimal: "int n \<le> max_int64 \<Longrightarrow> atoi (decimal n) = (int n, True)"
proof -
  assume n: "int n \<le> max_int64"
  obtain c t where ct: "decimal n = c # t" using decimal_nonempty [of n] by (cases "decimal n") blast+
  have digits: "list_all is_digit (decimal n)" by (auto simp: list_all_iff intro: decimal_digits)
  then have "c \<noteq> CHR ''-''" "c \<noteq> CHR ''+''" unfolding ct by (auto simp: is_digit_def)
  then have "\<not> prefix ''-'' (decimal n)" "\<not> prefix ''+'' (decimal n)" by (simp_all add: ct)
  then show ?thesis using n digits
    by (simp add: atoi_def atoi_clamp_def max_int64_def)
qed

lemma atoiSafe_decimal: "int n \<le> max_int64 \<Longrightarrow> atoiSafe (decimal n) = int n"
  using decimal_not_minus [of n "[]"] by (simp add: atoiSafe_def atoi_decimal)

lemma str_fields_words_joined: "ws \<noteq> [] \<Longrightarrow> \<forall>w\<in>set ws. word w \<Longrightarrow> str_fields (join '' '' ws) = ws"
proof (induction "'' ''" ws rule: join.induct)
  case (3 w v ws)
  then show ?case using str_fields_space [of w "CHR '' ''"] by (simp add: is_space_def)
qed (simp_all add: str_fields_word)

text \<open>
  A line of \<open>git diff --numstat\<close>: the two counts, or a dash in both columns for a binary file, and
  the path, here as the list of its words.
\<close>

type_synonym numstat = "(nat \<times> nat) option \<times> string list"

definition numstat_columns :: "numstat \<Rightarrow> string \<times> string" where
  "numstat_columns f = (case fst f of None \<Rightarrow> (''-'', ''-'') | Some (a, d) \<Rightarrow> (decimal a, decimal d))"

definition numstat_text :: "numstat \<Rightarrow> string" where
  "numstat_text f = fst (numstat_columns f) @ tab # snd (numstat_columns f) @ tab # join '' '' (snd f)"

definition numstat_ok :: "numstat \<Rightarrow> bool" where
  "numstat_ok f = (snd f \<noteq> [] \<and> list_all word (snd f)
     \<and> (case fst f of None \<Rightarrow> True | Some (a, d) \<Rightarrow> int a \<le> max_int64 \<and> int d \<le> max_int64))"

definition file_of_numstat :: "numstat \<Rightarrow> changed_file" where
  "file_of_numstat f =
     (let counts = (case fst f of None \<Rightarrow> (0, 0) | Some (a, d) \<Rightarrow> (int a, int d))
      in \<lparr>cf_name = join '' '' (snd f), cf_status = numstat_status (fst counts) (snd counts),
          cf_adds = fst counts, cf_dels = snd counts, cf_changes = fst counts + snd counts\<rparr>)"

lemma numstat_columns_word: "word (fst (numstat_columns f)) \<and> word (snd (numstat_columns f))"
  by (cases f) (auto simp: numstat_columns_def word_def is_space_def split: option.split
      dest: decimal_digits simp: is_digit_def)

lemma numstat_text_fields:
  assumes "numstat_ok f"
  shows "str_fields (numstat_text f) = fst (numstat_columns f) # snd (numstat_columns f) # snd f"
    and "text_line (numstat_text f)"
proof -
  have ws: "snd f \<noteq> []" "\<forall>w\<in>set (snd f). word w" using assms by (auto simp: numstat_ok_def list_all_iff)
  show "str_fields (numstat_text f) = fst (numstat_columns f) # snd (numstat_columns f) # snd f"
    using ws numstat_columns_word [of f]
    by (simp add: numstat_text_def str_fields_space str_fields_words_joined is_space_def)
  have "join '' '' (snd f) \<noteq> [] \<and> \<not> is_space (last (join '' '' (snd f)))"
    using join_ends [OF ws(1), of "'' ''"] ws word_ends last_in_set by (metis word_def)
  moreover have "nl \<notin> set (join '' '' (snd f))"
    using ws(2) word_nl by (induction "'' ''" "snd f" arbitrary: f rule: join.induct) auto
  ultimately show "text_line (numstat_text f)"
    using numstat_columns_word [of f] word_ends [of "fst (numstat_columns f)"] word_nl
    by (auto simp: text_line_def numstat_text_def word_def)
qed

lemma pr_file_status_decimal:
  "int a \<le> max_int64 \<Longrightarrow> int d \<le> max_int64 \<Longrightarrow> pr_file_status (decimal a) (decimal d) = numstat_status (int a) (int d)"
  by (simp add: pr_file_status_def numstat_status_def atoi_decimal decimal_not_minus Let_def)

lemma pr_file_status_dash: "pr_file_status ''-'' ''-'' = numstat_status 0 0"
  by (simp add: pr_file_status_def numstat_status_def)

lemma numstat_line_text:
  assumes "numstat_ok f"
  shows "pr_file_line (numstat_text f) = [file_of_numstat f]"
    and "numstat_line (numstat_text f) = [file_of_numstat f]"
proof -
  obtain w ws where w: "snd f = w # ws" using assms by (cases "snd f") (auto simp: numstat_ok_def)
  have "trim_space (numstat_text f) = numstat_text f"
    using numstat_text_fields(2) [OF assms] by (intro trim_space_ends(1)) (auto simp: text_line_def)
  then have fields: "str_fields (trim_space (numstat_text f)) = fst (numstat_columns f) # snd (numstat_columns f) # w # ws"
    using numstat_text_fields(1) [OF assms] w by simp
  show "pr_file_line (numstat_text f) = [file_of_numstat f]"
    using assms unfolding pr_file_line_def fields
    by (cases "fst f") (auto simp: file_of_numstat_def w numstat_columns_def numstat_ok_def Let_def
        pr_file_status_decimal atoiSafe_decimal pr_file_status_dash, simp_all add: atoiSafe_def)
  show "numstat_line (numstat_text f) = [file_of_numstat f]"
    using assms unfolding numstat_line_def fields
    by (cases "fst f") (auto simp: file_of_numstat_def w numstat_columns_def numstat_ok_def Let_def
        numstat_status_def atoiSafe_decimal, simp_all add: atoiSafe_def)
qed

text \<open>The changed files are read back from the numstat output exactly, in order, by the parser of
  \<open>GetPRFiles\<close> and by the one \<open>CompareCommits\<close> and \<open>GetCommitDetail\<close> use: path, additions and deletions
  are those git printed, and binary files count zero. The status is worked out from the counts
  alone, \<open>added\<close> when lines were only added and \<open>removed\<close> when they were only deleted, so a file
  that existed and only grew is reported as added.\<close>

theorem numstat_roundtrip:
  assumes "\<forall>f\<in>set fs. numstat_ok f"
  shows "parse_pr_files (printed (map numstat_text fs)) = map file_of_numstat fs
    \<and> parse_numstat (printed (map numstat_text fs)) = map file_of_numstat fs"
proof -
  have empty: "pr_file_line [] = []" "numstat_line [] = []"
    by (simp_all add: pr_file_line_def numstat_line_def str_fields_def trim_space_def trim_def trim_left_def trim_right_def)
  have lines: "out_lines (printed (map numstat_text fs)) = map numstat_text fs" if "fs \<noteq> []"
    using that assms numstat_text_fields(2) by (intro out_lines_printed) auto
  have one: "concat (map (\<lambda>f. [file_of_numstat f]) gs) = map file_of_numstat gs" for gs by (induction gs) simp_all
  show ?thesis
    using lines empty assms numstat_line_text
    by (cases "fs = []")
      (simp_all add: parse_pr_files_def parse_numstat_def out_lines_empty comp_def one cong: map_cong)
qed

lemma numstat_roundtrip_witness:
  "parse_pr_files (printed (map numstat_text [(Some (3, 0), [''a.go'']), (None, [''logo.png''])]))
     = [\<lparr>cf_name = ''a.go'', cf_status = ''added'', cf_adds = 3, cf_dels = 0, cf_changes = 3\<rparr>,
        \<lparr>cf_name = ''logo.png'', cf_status = ''modified'', cf_adds = 0, cf_dels = 0, cf_changes = 0\<rparr>]"
  using numstat_roundtrip [of "[(Some (3, 0), [''a.go'']), (None, [''logo.png''])]"]
  by (simp add: numstat_ok_def word_def is_space_def max_int64_def file_of_numstat_def numstat_status_def)

subsection \<open>Blame\<close>

text \<open>
  What \<open>git blame --porcelain\<close> prints for a file: for each group of adjacent lines of one commit a
  header with the number of lines, the metadata of the commit the first time it appears, and the
  lines, each after the first with a header of its own that has no count.
\<close>

type_synonym blame_group = "string \<times> nat \<times> string list"

record blame_info =
  bi_author :: string
  bi_time :: nat
  bi_other :: "string list"

definition group_header :: "string \<Rightarrow> nat \<Rightarrow> nat \<Rightarrow> nat \<Rightarrow> string" where
  "group_header sha orig n k = join '' '' [sha, decimal orig, decimal n, decimal k]"

definition line_header :: "string \<Rightarrow> nat \<Rightarrow> nat \<Rightarrow> string" where
  "line_header sha orig n = join '' '' [sha, decimal orig, decimal n]"

definition info_lines :: "blame_info \<Rightarrow> string list" where
  "info_lines i = (''author '' @ bi_author i) # (''author-time '' @ decimal (bi_time i)) # bi_other i"

definition info_ok :: "blame_info \<Rightarrow> bool" where
  "info_ok i = (int (bi_time i) \<le> max_int64
     \<and> list_all (\<lambda>m. is_meta m \<and> \<not> prefix ''author '' m \<and> \<not> prefix ''author-time '' m) (bi_other i))"

fun group_lines :: "string \<Rightarrow> nat \<Rightarrow> nat \<Rightarrow> string list \<Rightarrow> string list" where
  "group_lines sha orig n [] = []"
| "group_lines sha orig n [c] = [tab # c]"
| "group_lines sha orig n (c # c2 # cs) =
     (tab # c) # line_header sha (Suc orig) (Suc n) # group_lines sha (Suc orig) (Suc n) (c2 # cs)"

fun porcelain :: "(string \<Rightarrow> blame_info) \<Rightarrow> string list \<Rightarrow> nat \<Rightarrow> blame_group list \<Rightarrow> string list" where
  "porcelain info seen n [] = []"
| "porcelain info seen n ((sha, orig, cs) # gs) =
     group_header sha orig n (length cs) # (if sha \<in> set seen then [] else info_lines (info sha))
     @ group_lines sha orig n cs @ porcelain info (sha # seen) (n + length cs) gs"

lemma split_printed: "\<forall>l\<in>set ls. nl \<notin> set l \<Longrightarrow> split_char nl (printed ls) = ls @ [[]]"
proof (induction ls)
  case (Cons l ls)
  then show ?case by (simp add: printed_def split_char_append)
qed (simp add: printed_def split_char_def)

lemma foldl_meta_other:
  "list_all (\<lambda>m. is_meta m \<and> \<not> prefix ''author '' m \<and> \<not> prefix ''author-time '' m) ms
     \<Longrightarrow> foldl (meta_line day) ad ms = ad"
  by (induction ms) (simp_all add: meta_line_def)

lemma info_lines_read:
  assumes "info_ok i"
  shows "foldl (meta_line day) ([], []) (info_lines i) = (bi_author i, day (int (bi_time i)))"
    and "\<forall>m\<in>set (info_lines i). is_meta m"
proof -
  have "meta_line day ([], []) (''author '' @ bi_author i) = (bi_author i, [])"
    by (simp add: meta_line_def trim_prefix_def)
  moreover have "meta_line day (bi_author i, []) (''author-time '' @ decimal (bi_time i)) = (bi_author i, day (int (bi_time i)))"
    using assms by (simp add: meta_line_def trim_prefix_def info_ok_def atoi_decimal)
  ultimately show "foldl (meta_line day) ([], []) (info_lines i) = (bi_author i, day (int (bi_time i)))"
    using assms by (simp add: info_lines_def info_ok_def foldl_meta_other)
  show "\<forall>m\<in>set (info_lines i). is_meta m"
    using assms by (auto simp: info_lines_def info_ok_def is_meta_def list_all_iff)
qed

lemma header_fields: "word sha \<Longrightarrow> str_fields (group_header sha orig n k) = [sha, decimal orig, decimal n, decimal k]"
  unfolding group_header_def by (rule str_fields_words_joined) (auto simp: word_decimal)

text \<open>One group: after the metadata the parser takes as many raw lines as the header counts.\<close>

lemma blame_group:
  assumes "word sha" and "int k \<le> max_int64" and "\<forall>m\<in>set ms. is_meta m"
  shows "blame_loop day n (group_header sha orig m k # ms @ (tab # c) # rs) =
    (let ad = foldl (meta_line day) ([], []) ms; body = take k ((tab # c) # rs)
     in blame_lines sha (fst ad) (snd ad) n body @ blame_loop day (n + length body) (drop (length body) ((tab # c) # rs)))"
proof -
  have "takeWhile is_meta (ms @ (tab # c) # rs) = ms" "dropWhile is_meta (ms @ (tab # c) # rs) = (tab # c) # rs"
    using assms(3) by (auto simp: is_meta_def)
  moreover have "group_header sha orig m k \<noteq> []"
    using header_fields [OF assms(1), of orig m k] by (auto simp: str_fields_def)
  ultimately show ?thesis using assms(1,2)
    by (simp add: header_fields atoi_decimal Let_def)
qed

text \<open>What the blame of the file is: every line with the commit, author and date of its group.\<close>

fun blamed :: "(int \<Rightarrow> string) \<Rightarrow> (string \<Rightarrow> blame_info) \<Rightarrow> nat \<Rightarrow> blame_group list \<Rightarrow> blame_line list" where
  "blamed day info n [] = []"
| "blamed day info n ((sha, orig, cs) # gs) =
     map (\<lambda>(i, c). \<lparr>bl_number = i, bl_sha = sha, bl_short = shortSHA sha, bl_author = bi_author (info sha),
        bl_date = day (int (bi_time (info sha))), bl_content = c\<rparr>) (enumerate n cs)
     @ blamed day info (n + length cs) gs"

lemma blame_loop_single:
  assumes "\<forall>g\<in>set gs. word (fst g) \<and> length (snd (snd g)) = 1 \<and> info_ok (info (fst g))"
    and "distinct (map fst gs)" and "set seen \<inter> fst ` set gs = {}"
  shows "blame_loop day n (porcelain info seen n gs @ [[]]) = blamed day info n gs"
  using assms
proof (induction gs arbitrary: n seen)
  case (Cons g gs)
  obtain sha orig c where g: "g = (sha, orig, [c])"
    using Cons.prems(1) by (cases g) (auto simp: length_Suc_conv)
  have IH: "blame_loop day (Suc n) (porcelain info (sha # seen) (Suc n) gs @ [[]]) = blamed day info (Suc n) gs"
    using Cons.prems by (intro Cons.IH) (auto simp: g)
  have ok: "word sha" "info_ok (info sha)" "sha \<notin> set seen" using Cons.prems by (auto simp: g)
  have "porcelain info seen n (g # gs) @ [[]] = group_header sha orig n 1 # info_lines (info sha)
      @ (tab # c) # (porcelain info (sha # seen) (Suc n) gs @ [[]])"
    using ok(3) by (simp add: g)
  then show ?case
    using blame_group [OF ok(1) _ info_lines_read(2) [OF ok(2)], of 1]
    by (simp add: max_int64_def info_lines_read(1) [OF ok(2)] IH g Let_def trim_prefix_def del: blame_loop.simps)
qed simp

text \<open>The blame view is right for a file each of whose lines comes from a commit of its own: every
  line gets the hash, author and date of its commit and its own text.\<close>

theorem blame_single_lines:
  assumes "\<forall>g\<in>set gs. word (fst g) \<and> length (snd (snd g)) = 1 \<and> info_ok (info (fst g))"
    and "distinct (map fst gs)" and "\<forall>l\<in>set (porcelain info [] 1 gs). nl \<notin> set l"
  shows "parse_blame day (printed (porcelain info [] 1 gs)) = blamed day info 1 gs"
  using blame_loop_single [of gs info "[]"] assms
  unfolding parse_blame_def split_printed [OF assms(3)] by simp

lemma blame_skip: "length (str_fields b) < 4 \<Longrightarrow> blame_loop day n [tab # b, []] = []"
proof -
  assume "length (str_fields b) < 4"
  moreover have "str_fields (tab # b) = str_fields b" by (simp add: str_fields_def is_space_def)
  ultimately show ?thesis by simp
qed

text \<open>When two adjacent lines come from one commit, which git prints as one group, the blame view is
  wrong: it shows git's header of the second line in place of the text of that line (given that
  the line has fewer than four words; else the text is taken for a header itself).\<close>

theorem blame_misreads_groups:
  assumes "word sha" and "info_ok (info sha)" and "length (str_fields b) < 4"
    and "\<forall>l\<in>set (porcelain info [] 1 [(sha, 1, [a, b])]). nl \<notin> set l"
  shows "map bl_content (parse_blame day (printed (porcelain info [] 1 [(sha, 1, [a, b])]))) = [a, line_header sha 2 2]"
proof -
  have "hd sha \<noteq> tab" "sha \<noteq> []" using assms(1) word_ends [of sha] by (auto simp: word_def is_space_def)
  then have header: "trim_prefix [tab] (line_header sha 2 2) = line_header sha 2 2"
    by (cases sha) (auto simp: line_header_def trim_prefix_def)
  have "porcelain info [] 1 [(sha, 1, [a, b])] @ [[]] = group_header sha 1 1 2 # info_lines (info sha)
      @ (tab # a) # [line_header sha 2 2, tab # b, []]"
    by (simp add: numeral_2_eq_2)
  then have "blame_loop day 1 (porcelain info [] 1 [(sha, 1, [a, b])] @ [[]]) =
      blame_lines sha (bi_author (info sha)) (day (int (bi_time (info sha)))) 1 [tab # a, line_header sha 2 2]"
    using blame_group [OF assms(1) _ info_lines_read(2) [OF assms(2)], of 2]
    by (simp add: max_int64_def info_lines_read(1) [OF assms(2)] blame_skip [OF assms(3)] Let_def numeral_2_eq_2
        del: blame_loop.simps)
  then show ?thesis
    unfolding parse_blame_def split_printed [OF assms(4)] by (simp add: header) (simp add: trim_prefix_def)
qed

definition example_info :: "string \<Rightarrow> blame_info" where
  "example_info sha = \<lparr>bi_author = ''ann'', bi_time = 9, bi_other = [''summary fix'']\<rparr>"

lemma example_info_ok: "info_ok (example_info sha)"
  by (simp add: info_ok_def example_info_def max_int64_def is_meta_def)

lemma blame_single_lines_witness:
  "map bl_content (parse_blame int_string (printed (porcelain example_info [] 1 [(''1f'', 1, [''x = 1'']), (''2e'', 5, [''end''])])))
     = [''x = 1'', ''end'']"
proof -
  let ?gs = "[(''1f'', 1, [''x = 1'']), (''2e'', 5, [''end''])] :: blame_group list"
  have 1: "\<forall>g\<in>set ?gs. word (fst g) \<and> length (snd (snd g)) = 1 \<and> info_ok (example_info (fst g))"
    by (simp add: word_def is_space_def example_info_ok)
  have 2: "distinct (map fst ?gs)" by simp
  have 3: "\<forall>l\<in>set (porcelain example_info [] 1 ?gs). nl \<notin> set l" by code_simp
  show ?thesis unfolding blame_single_lines [OF 1 2 3] by simp
qed

lemma blame_misreads_groups_witness:
  "map bl_content (parse_blame int_string (printed (porcelain example_info [] 1 [(''1f'', 1, [''x = 1'', ''y = 2''])])))
     = [''x = 1'', ''1f 2 2'']"
proof -
  have 1: "word ''1f''" "info_ok (example_info ''1f'')" "length (str_fields ''y = 2'') < 4"
    by (simp_all add: word_def is_space_def example_info_ok str_fields_def)
  have 2: "\<forall>l\<in>set (porcelain example_info [] 1 [(''1f'', 1, [''x = 1'', ''y = 2''])]). nl \<notin> set l" by code_simp
  have "line_header ''1f'' 2 2 = ''1f 2 2''" by code_simp
  then show ?thesis unfolding blame_misreads_groups [OF 1 2] by simp
qed

end
