(* ===== verification/PackCache.thy ===== *)
theory PackCache
  imports Prelude GoStrings
begin

section \<open>The pack cache (internal/git/pack_cache.go)\<close>

text \<open>
  A disk cache with an index in memory. The index is an association list with one entry per key,
  in the order Go's map iteration happens to take; entries of equal age are evicted in that order.
  The disk is a map from path to contents, and what creating a directory or a file answers is a
  parameter, as are SHA-256 and the clock. The eviction after a store runs in a goroutine of its
  own, and is an operation of its own here.
\<close>

type_synonym disk = "string \<rightharpoonup> string"

record pack_entry =
  pe_path :: string
  pe_size :: int
  pe_at :: instant

record pack_cache =
  pc_root :: string
  pc_max :: int
  pc_ttl :: duration
  pc_index :: "(string \<times> pack_entry) list"

record disk_lib =
  dl_sha256_hex :: "string \<Rightarrow> string"
  dl_mkdir :: "disk \<Rightarrow> string \<Rightarrow> err option"
  dl_write :: "disk \<Rightarrow> string \<Rightarrow> err option"

definition base_name :: "string \<Rightarrow> string" where
  "base_name path = rev (takeWhile (\<lambda>c. c \<noteq> CHR ''/'') (rev path))"

definition index_put :: "string \<Rightarrow> pack_entry \<Rightarrow> (string \<times> pack_entry) list \<Rightarrow> (string \<times> pack_entry) list" where
  "index_put k e m = filter (\<lambda>p. fst p \<noteq> k) m @ [(k, e)]"

definition index_del :: "string \<Rightarrow> (string \<times> pack_entry) list \<Rightarrow> (string \<times> pack_entry) list" where
  "index_del k m = filter (\<lambda>p. fst p \<noteq> k) m"

text \<open>The files below the root, as \<open>filepath.Walk\<close> visits them: path, size and modification time.\<close>

definition rebuildIndex :: "(string \<times> int \<times> instant) list \<Rightarrow> pack_cache \<Rightarrow> pack_cache" where
  "rebuildIndex found c =
     c\<lparr>pc_index := foldl (\<lambda>m (path, len, t). index_put (base_name path) \<lparr>pe_path = path, pe_size = len, pe_at = t\<rparr> m)
                   (pc_index c) found\<rparr>"

definition NewPackCache ::
  "disk_lib \<Rightarrow> disk \<Rightarrow> (string \<times> int \<times> instant) list \<Rightarrow> string \<Rightarrow> int \<Rightarrow> duration \<Rightarrow> pack_cache result" where
  "NewPackCache dl disk found dir maxSize ttl =
     (case dl_mkdir dl disk dir of
        Some e \<Rightarrow> Inl (ErrMsg (''pack cache dir: '' @ err_text e))
      | None \<Rightarrow> Inr (rebuildIndex found \<lparr>pc_root = dir, pc_max = maxSize, pc_ttl = ttl, pc_index = []\<rparr>))"

definition newline :: string where "newline = [CHR 0x0A]"

definition key_text :: "string \<Rightarrow> string \<Rightarrow> (string \<times> string) list \<Rightarrow> string" where
  "key_text owner name branchSHAs =
     owner @ ''/'' @ name @ newline
     @ concat (map (\<lambda>k. k @ '':'' @ coalesce (map_of branchSHAs k) [] @ newline) (sort (map fst branchSHAs)))"

definition pack_Key :: "disk_lib \<Rightarrow> string \<Rightarrow> string \<Rightarrow> (string \<times> string) list \<Rightarrow> string" where
  "pack_Key dl owner name branchSHAs = dl_sha256_hex dl (key_text owner name branchSHAs)"

definition pack_Delete :: "string \<Rightarrow> pack_cache \<Rightarrow> disk \<Rightarrow> pack_cache \<times> disk" where
  "pack_Delete key c disk =
     (c\<lparr>pc_index := index_del key (pc_index c)\<rparr>,
      case map_of (pc_index c) key of None \<Rightarrow> disk | Some e \<Rightarrow> disk(pe_path e := None))"

definition pack_Get :: "instant \<Rightarrow> string \<Rightarrow> pack_cache \<Rightarrow> disk \<Rightarrow> string option \<times> pack_cache \<times> disk" where
  "pack_Get now key c disk =
     (case map_of (pc_index c) key of
        None \<Rightarrow> (None, c, disk)
      | Some e \<Rightarrow>
          if pc_ttl c > 0 \<and> now - pe_at e > pc_ttl c then (None, pack_Delete key c disk)
          else (case disk (pe_path e) of
                  None \<Rightarrow> (None, pack_Delete key c disk)
                | Some data \<Rightarrow> (Some data, c, disk)))"

text \<open>
  A key of fewer than two bytes makes the slice expression panic, which is an error value here. The
  second component is the size the eviction is started with, when it is.
\<close>

definition pack_Set ::
  "disk_lib \<Rightarrow> instant \<Rightarrow> string \<Rightarrow> string \<Rightarrow> pack_cache \<Rightarrow> disk \<Rightarrow> unit result \<times> int option \<times> pack_cache \<times> disk" where
  "pack_Set dl now key data c disk =
     (if length key < 2 then (Inl (ErrMsg ''slice bounds out of range''), None, c, disk)
      else (let dir = path_join [pc_root c, take 2 key];
                path = path_join [dir, key]
            in case dl_mkdir dl disk dir of
                 Some e \<Rightarrow> (Inl (ErrMsg (''pack cache shard dir: '' @ err_text e)), None, c, disk)
               | None \<Rightarrow>
                   (case dl_write dl disk path of
                      Some e \<Rightarrow> (Inl (ErrMsg (''pack cache write: '' @ err_text e)), None, c, disk)
                    | None \<Rightarrow>
                        (let n = int (length data)
                         in (Inr (), if pc_max c > 0 then Some n else None,
                             c\<lparr>pc_index := index_put key \<lparr>pe_path = path, pe_size = n, pe_at = now\<rparr> (pc_index c)\<rparr>,
                             disk(path \<mapsto> data))))))"

definition InvalidateRepo :: "disk_lib \<Rightarrow> string \<Rightarrow> string \<Rightarrow> pack_cache \<Rightarrow> disk \<Rightarrow> pack_cache \<times> disk" where
  "InvalidateRepo dl owner name c disk =
     (let pre = dl_sha256_hex dl (owner @ ''/'' @ name);
          gone = filter (\<lambda>p. prefix pre (fst p)) (pc_index c)
      in (c\<lparr>pc_index := filter (\<lambda>p. \<not> prefix pre (fst p)) (pc_index c)\<rparr>,
          foldl (\<lambda>m p. m(pe_path (snd p) := None)) disk gone))"

definition total_size :: "(string \<times> pack_entry) list \<Rightarrow> int" where
  "total_size m = sum_list (map (\<lambda>p. pe_size (snd p)) m)"

fun evict_loop :: "int \<Rightarrow> (string \<times> pack_entry) list \<Rightarrow> pack_cache \<Rightarrow> disk \<Rightarrow> pack_cache \<times> disk" where
  "evict_loop over [] c disk = (c, disk)"
| "evict_loop over (ka # ages) c disk =
     (if over \<le> 0 then (c, disk)
      else (case map_of (pc_index c) (fst ka) of
              None \<Rightarrow> evict_loop over ages c disk
            | Some e \<Rightarrow> evict_loop (over - pe_size e) ages
                (c\<lparr>pc_index := index_del (fst ka) (pc_index c)\<rparr>) (disk(pe_path e := None))))"

definition evict :: "int \<Rightarrow> pack_cache \<Rightarrow> disk \<Rightarrow> pack_cache \<times> disk" where
  "evict newEntrySize c disk =
     (let total = total_size (pc_index c) + newEntrySize
      in if total \<le> pc_max c then (c, disk)
         else evict_loop (total - pc_max c) (order_by (\<lambda>p. pe_at (snd p)) (pc_index c)) c disk)"

definition pack_Stats :: "pack_cache \<Rightarrow> nat \<times> int" where
  "pack_Stats c = (length (pc_index c), total_size (pc_index c))"

subsection \<open>Eviction\<close>

definition index_ok :: "(string \<times> pack_entry) list \<Rightarrow> bool" where
  "index_ok m = (distinct (map fst m) \<and> (\<forall>p\<in>set m. 0 \<le> pe_size (snd p)))"

lemma total_size_nonneg: "index_ok m \<Longrightarrow> 0 \<le> total_size m"
  unfolding total_size_def index_ok_def by (intro sum_list_nonneg) auto

lemma index_del_absent: "k \<notin> fst ` set m \<Longrightarrow> index_del k m = m"
  by (force simp: index_del_def filter_id_conv)

lemma total_size_del:
  "distinct (map fst m) \<Longrightarrow> (k, e) \<in> set m \<Longrightarrow> total_size (index_del k m) = total_size m - pe_size e"
proof (induction m)
  case (Cons p m)
  show ?case
  proof (cases "p = (k, e)")
    case True
    then have "index_del k (p # m) = m"
      using Cons.prems(1) index_del_absent [of k m] by (simp add: index_del_def)
    then show ?thesis using True by (simp add: total_size_def)
  next
    case False
    then have "(k, e) \<in> set m" using Cons.prems(2) by simp
    moreover from this have "k \<in> fst ` set m" by force
    then have "fst p \<noteq> k" using Cons.prems(1) by auto
    ultimately show ?thesis using Cons by (simp add: index_del_def total_size_def)
  qed
qed simp

text \<open>The entries the loop removes: the oldest ones, as many as it takes.\<close>

fun victims :: "int \<Rightarrow> (string \<times> pack_entry) list \<Rightarrow> (string \<times> pack_entry) list" where
  "victims over [] = []"
| "victims over (p # ps) = (if over \<le> 0 then [] else p # victims (over - pe_size (snd p)) ps)"

lemma victims_take:
  "\<exists>n. victims over ps = take n ps \<and> (n = length ps \<or> over \<le> total_size (take n ps))"
proof (induction ps arbitrary: over)
  case (Cons p ps)
  show ?case
  proof (cases "over \<le> 0")
    case True
    then show ?thesis by (intro exI [of _ 0]) (simp add: total_size_def)
  next
    case False
    obtain n where "victims (over - pe_size (snd p)) ps = take n ps"
        "n = length ps \<or> over - pe_size (snd p) \<le> total_size (take n ps)"
      using Cons.IH by blast
    then show ?thesis using False by (intro exI [of _ "Suc n"]) (auto simp: total_size_def)
  qed
qed simp

text \<open>What a run of the loop has done when it removed a list of entries.\<close>

definition evicted :: "(string \<times> pack_entry) list \<Rightarrow> pack_cache \<Rightarrow> pack_cache \<Rightarrow> bool" where
  "evicted vs c c1 =
     (pc_index c1 = filter (\<lambda>p. p \<notin> set vs) (pc_index c) \<and> pc_max c1 = pc_max c
      \<and> total_size (pc_index c1) = total_size (pc_index c) - total_size vs)"

lemma index_del_entry:
  "distinct (map fst m) \<Longrightarrow> p \<in> set m \<Longrightarrow> index_del (fst p) m = filter (\<lambda>q. q \<noteq> p) m"
  unfolding index_del_def by (cases p, rule filter_cong) (auto dest: eq_key_imp_eq_value)

lemma evict_loop_victims:
  assumes "distinct (map fst (pc_index c))" and "distinct ages" and "set ages \<subseteq> set (pc_index c)"
  shows "evicted (victims over ages) c (fst (evict_loop over ages c disk))"
  using assms
proof (induction ages arbitrary: over c disk)
  case Nil
  then show ?case by (simp add: evicted_def total_size_def)
next
  case (Cons p ages)
  show ?case
  proof (cases "over \<le> 0")
    case True
    then show ?thesis by (simp add: evicted_def total_size_def)
  next
    case False
    obtain k e where p: "p = (k, e)" by (rule prod.exhaust)
    have mem: "(k, e) \<in> set (pc_index c)" using Cons.prems(3) p by simp
    then have look: "map_of (pc_index c) k = Some e" using Cons.prems(1) by simp
    let ?c1 = "c\<lparr>pc_index := index_del k (pc_index c)\<rparr>"
    have del: "index_del k (pc_index c) = filter (\<lambda>q. q \<noteq> p) (pc_index c)"
      using index_del_entry [OF Cons.prems(1) mem] p by simp
    let ?c2 = "fst (evict_loop (over - pe_size e) ages ?c1 (disk(pe_path e := None)))"
    let ?vs = "victims (over - pe_size e) ages"
    have ev: "evicted ?vs ?c1 ?c2"
    proof (rule Cons.IH)
      show "distinct (map fst (pc_index ?c1))" using Cons.prems(1) by (simp add: del distinct_map_filter)
      show "distinct ages" using Cons.prems(2) by simp
      show "set ages \<subseteq> set (pc_index ?c1)" using Cons.prems(2,3) by (auto simp: del)
    qed
    have "total_size (index_del k (pc_index c)) = total_size (pc_index c) - pe_size e"
      using Cons.prems(1) mem by (rule total_size_del)
    moreover have "total_size (pc_index ?c2) = total_size (pc_index ?c1) - total_size ?vs"
      using ev unfolding evicted_def by blast
    moreover have "total_size (p # ?vs) = pe_size e + total_size ?vs" by (simp add: p total_size_def)
    ultimately have "total_size (pc_index ?c2) = total_size (pc_index c) - total_size (p # ?vs)" by simp
    moreover have "pc_index ?c2 = filter (\<lambda>q. q \<notin> set (p # ?vs)) (pc_index c)"
      using ev unfolding evicted_def by (simp add: del conj_commute)
    moreover have "pc_max ?c2 = pc_max c" using ev unfolding evicted_def by simp
    ultimately have "evicted (p # ?vs) c ?c2" unfolding evicted_def by blast
    moreover have "evict_loop over (p # ages) c disk = evict_loop (over - pe_size e) ages ?c1 (disk(pe_path e := None))"
      using False look by (simp add: p)
    moreover have "victims over (p # ages) = p # ?vs" using False by (simp add: p)
    ultimately show ?thesis by simp
  qed
qed

lemma evict_spec:
  assumes "index_ok (pc_index c)"
  shows "(pc_index (fst (evict n c disk)) = []
            \<or> total_size (pc_index (fst (evict n c disk))) + n \<le> pc_max c)
     \<and> set (pc_index (fst (evict n c disk))) \<subseteq> set (pc_index c)
     \<and> (\<forall>p\<in>set (pc_index c) - set (pc_index (fst (evict n c disk))).
          \<forall>q\<in>set (pc_index (fst (evict n c disk))). pe_at (snd p) \<le> pe_at (snd q))
     \<and> (\<exists>P. pc_index (fst (evict n c disk)) = filter P (pc_index c))"
proof (cases "total_size (pc_index c) + n \<le> pc_max c")
  case True
  then show ?thesis by (auto simp: evict_def Let_def intro: exI [of _ "\<lambda>p. True"])
next
  case False
  let ?m = "pc_index c" and ?over = "total_size (pc_index c) + n - pc_max c"
  let ?ages = "order_by (\<lambda>p. pe_at (snd p)) ?m"
  let ?c1 = "fst (evict n c disk)"
  have dk: "distinct (map fst ?m)" using assms by (simp add: index_ok_def)
  then have d: "distinct ?m" "distinct ?ages" by (simp_all add: distinct_map order_by_def)
  have "evicted (victims ?over ?ages) c ?c1"
    using False evict_loop_victims [OF dk d(2), of ?over disk] by (simp add: evict_def Let_def)
  moreover obtain i where i: "victims ?over ?ages = take i ?ages"
      "i = length ?ages \<or> ?over \<le> total_size (take i ?ages)"
    using victims_take by blast
  ultimately have idx: "pc_index ?c1 = filter (\<lambda>p. p \<notin> set (take i ?ages)) ?m"
      and size: "total_size (pc_index ?c1) = total_size ?m - total_size (take i ?ages)"
    unfolding evicted_def by (metis, metis)
  have "pc_index ?c1 = [] \<or> total_size (pc_index ?c1) + n \<le> pc_max c"
    using i(2) size by (auto simp: idx filter_empty_conv)
  moreover have "pe_at (snd p) \<le> pe_at (snd q)"
    if "p \<in> set ?m - set (pc_index ?c1)" and "q \<in> set (pc_index ?c1)" for p q
  proof -
    have "p \<in> set (take i ?ages)" "q \<in> set ?ages" "q \<notin> set (take i ?ages)" using that by (auto simp: idx)
    then have "q \<in> set (drop i ?ages)" by (metis Un_iff append_take_drop_id set_append)
    moreover have "sorted (map (\<lambda>p. pe_at (snd p)) (take i ?ages @ drop i ?ages))"
      by (simp add: sorted_order_by)
    ultimately show ?thesis
      using \<open>p \<in> set (take i ?ages)\<close> unfolding map_append sorted_append by auto
  qed
  ultimately show ?thesis by (auto simp: idx)
qed

lemma index_ok_filter: "index_ok m \<Longrightarrow> index_ok (filter P m)"
  by (auto simp: index_ok_def distinct_map_filter)

lemma total_size_member: "index_ok m \<Longrightarrow> p \<in> set m \<Longrightarrow> pe_size (snd p) \<le> total_size m"
proof (induction m)
  case (Cons q m)
  then have "index_ok m" "0 \<le> pe_size (snd q)" by (simp_all add: index_ok_def)
  then show ?case
    using Cons total_size_nonneg [of m] by (auto simp: total_size_def)
qed simp

subsection \<open>Properties\<close>

text \<open>After an eviction the cache is empty or its total size plus the size the eviction was
  started with is within the budget; only entries were removed, and every entry that was removed is
  at least as old as every entry that was kept.\<close>

theorem pack_evict_budget:
  assumes "index_ok (pc_index c)"
  shows "(pc_index (fst (evict n c disk)) = []
            \<or> total_size (pc_index (fst (evict n c disk))) + n \<le> pc_max c)
     \<and> set (pc_index (fst (evict n c disk))) \<subseteq> set (pc_index c)
     \<and> (\<forall>p\<in>set (pc_index c) - set (pc_index (fst (evict n c disk))).
          \<forall>q\<in>set (pc_index (fst (evict n c disk))). pe_at (snd p) \<le> pe_at (snd q))"
  using evict_spec [OF assms] by blast

text \<open>The entry just stored is in the index when the eviction adds its size once more. So a
  pack of more than half the budget is evicted by the very eviction its own storing starts: it is
  never served, although it would fit.\<close>

theorem large_pack_evicted:
  assumes "index_ok (pc_index c)" and "2 * int (length data) > pc_max c"
    and "pack_Set dl now key data c disk = (Inr (), Some n, c1, disk1)"
  shows "fst (pack_Get later key (fst (evict n c1 disk1)) (snd (evict n c1 disk1))) = None"
proof -
  let ?c2 = "fst (evict n c1 disk1)"
  let ?e = "\<lparr>pe_path = path_join [path_join [pc_root c, take 2 key], key], pe_size = int (length data), pe_at = now\<rparr>"
  have n: "n = int (length data)" and c1: "pc_index c1 = index_put key ?e (pc_index c)" "pc_max c1 = pc_max c"
    using assms(3) by (auto simp: pack_Set_def Let_def split: if_splits option.splits)
  have ok: "index_ok (pc_index c1)"
    using assms(1) by (auto simp: c1 index_put_def index_ok_def distinct_map_filter)
  note spec = evict_spec [OF ok, of n disk1]
  have ok2: "index_ok (pc_index ?c2)" using spec ok index_ok_filter by metis
  have "map_of (pc_index ?c2) key = None"
  proof (rule ccontr)
    assume "map_of (pc_index ?c2) key \<noteq> None"
    then obtain e where e: "(key, e) \<in> set (pc_index ?c2)" by (meson map_of_SomeD not_None_eq)
    then have "(key, e) \<in> set (pc_index c1)" using spec by blast
    then have "pe_size e = n" by (auto simp: c1 index_put_def n)
    then have "n \<le> total_size (pc_index ?c2)" using total_size_member [OF ok2 e] by simp
    moreover have "pc_index ?c2 \<noteq> []" using e by auto
    then have "total_size (pc_index ?c2) + n \<le> pc_max c" using spec c1(2) by metis
    ultimately show False using assms(2) n by simp
  qed
  then show ?thesis by (simp add: pack_Get_def)
qed

subsection \<open>The properties at concrete inputs\<close>

definition demo_pack :: pack_cache where
  "demo_pack = \<lparr>pc_root = ''r'', pc_max = 4, pc_ttl = 0,
     pc_index = [(''aa'', \<lparr>pe_path = ''pa'', pe_size = 2, pe_at = 1\<rparr>), (''bb'', \<lparr>pe_path = ''pb'', pe_size = 1, pe_at = 2\<rparr>)]\<rparr>"

definition demo_disk :: disk_lib where
  "demo_disk = \<lparr>dl_sha256_hex = (\<lambda>s. s), dl_mkdir = (\<lambda>d p. None), dl_write = (\<lambda>d p. None)\<rparr>"

lemma demo_pack_ok: "index_ok (pc_index demo_pack)"
  by (simp add: demo_pack_def index_ok_def)

lemma pack_evict_budget_witness:
  "set (pc_index (fst (evict 3 demo_pack Map.empty))) \<subseteq> set (pc_index demo_pack)
   \<and> pc_index (fst (evict 3 demo_pack Map.empty)) = [(''bb'', \<lparr>pe_path = ''pb'', pe_size = 1, pe_at = 2\<rparr>)]"
proof -
  have "pc_index (fst (evict 3 demo_pack Map.empty)) = [(''bb'', \<lparr>pe_path = ''pb'', pe_size = 1, pe_at = 2\<rparr>)]"
    by (simp add: demo_pack_def evict_def order_by_def total_size_def index_del_def)
  then show ?thesis using pack_evict_budget [OF demo_pack_ok, of 3 Map.empty] by blast
qed

lemma large_pack_evicted_witness:
  "fst (pack_Get 9 ''cc'' (fst (evict 3 (demo_pack\<lparr>pc_index := pc_index demo_pack
        @ [(''cc'', \<lparr>pe_path = path_join [path_join [''r'', ''cc''], ''cc''], pe_size = 3, pe_at = 5\<rparr>)]\<rparr>)
        (Map.empty(path_join [path_join [''r'', ''cc''], ''cc''] \<mapsto> ''xyz''))))
      (snd (evict 3 (demo_pack\<lparr>pc_index := pc_index demo_pack
        @ [(''cc'', \<lparr>pe_path = path_join [path_join [''r'', ''cc''], ''cc''], pe_size = 3, pe_at = 5\<rparr>)]\<rparr>)
        (Map.empty(path_join [path_join [''r'', ''cc''], ''cc''] \<mapsto> ''xyz''))))) = None"
proof (rule large_pack_evicted [OF demo_pack_ok])
  show "2 * int (length ''xyz'') > pc_max demo_pack" by (simp add: demo_pack_def)
  show "pack_Set demo_disk 5 ''cc'' ''xyz'' demo_pack Map.empty
    = (Inr (), Some 3, demo_pack\<lparr>pc_index := pc_index demo_pack
        @ [(''cc'', \<lparr>pe_path = path_join [path_join [''r'', ''cc''], ''cc''], pe_size = 3, pe_at = 5\<rparr>)]\<rparr>,
       Map.empty(path_join [path_join [''r'', ''cc''], ''cc''] \<mapsto> ''xyz''))"
    by (simp add: pack_Set_def demo_pack_def demo_disk_def index_put_def Let_def)
qed

end
