(* ===== verification/GitStore.thy ===== *)
theory GitStore
  imports GitText PackCache
begin

section \<open>The repository store (internal/git/store.go)\<close>

text \<open>
  The store keeps one bare repository per \<open>owner/name\<close> below a root directory and works on them in
  two ways: through the git program, and through the go-git library. Both are parameters, fields of
  the record \<open>git_lib\<close>, with a state \<open>'g\<close> of their own: everything on disk below the root and in
  the temporary directory. A field that returns no new state is used by the code only for what it
  answers.

  Hashes are their hexadecimal text; \<open>gl_hash\<close> is \<open>plumbing.NewHash\<close>, which reads what it can of a
  text and pads with zeros. \<open>gl_ask\<close> gives what git writes to its standard output, \<open>gl_do_both\<close> that
  and its error output as they are interleaved, and \<open>gl_do\<close> the two apart. A time is the instant and the offset of its zone in seconds.
\<close>

subsection \<open>What the store relies on\<close>

type_synonym zoned = "instant \<times> int"

record signature =
  sg_name :: string
  sg_email :: string
  sg_when :: zoned

record commit_object =
  co_hash :: string
  co_message :: string
  co_tree :: string
  co_parents :: "string list"
  co_author :: signature
  co_committer :: signature
  co_pgp :: string

record tree_item =
  ti_name :: string
  ti_mode :: filemode
  ti_hash :: string

datatype git_object =
    BlobObject string
  | TreeObject "tree_item list"
  | CommitObject string string "string list" signature signature

datatype git_reference =
    HashReference string string
  | SymbolicReference string string

record git_cmd =
  gc_dir :: string
  gc_args :: "string list"
  gc_env :: "string list"
  gc_stdin :: string

record 'g git_lib =
  gl_ask :: "'g \<Rightarrow> git_cmd \<Rightarrow> string \<times> err option"
  gl_do_both :: "'g \<Rightarrow> git_cmd \<Rightarrow> (string \<times> err option) \<times> 'g"
  gl_do :: "'g \<Rightarrow> git_cmd \<Rightarrow> (string \<times> string \<times> err option) \<times> 'g"
  gl_exists :: "'g \<Rightarrow> string \<Rightarrow> bool"
  gl_mkdir :: "'g \<Rightarrow> string \<Rightarrow> err option \<times> 'g"
  gl_mkdtemp :: "'g \<Rightarrow> string \<Rightarrow> string result \<times> 'g"
  gl_rmtree :: "'g \<Rightarrow> string \<Rightarrow> err option \<times> 'g"
  gl_write :: "'g \<Rightarrow> string \<Rightarrow> string \<Rightarrow> err option \<times> 'g"
  gl_hook :: string
  gl_plain_init :: "'g \<Rightarrow> string \<Rightarrow> err option \<times> 'g"
  gl_open :: "'g \<Rightarrow> string \<Rightarrow> err option"
  gl_reference :: "'g \<Rightarrow> string \<Rightarrow> string \<Rightarrow> string result"
  gl_head :: "'g \<Rightarrow> string \<Rightarrow> string result"
  gl_commit :: "'g \<Rightarrow> string \<Rightarrow> string \<Rightarrow> commit_object result"
  gl_log :: "'g \<Rightarrow> string \<Rightarrow> string \<Rightarrow> (commit_object list \<times> err option) result"
  gl_tree :: "'g \<Rightarrow> string \<Rightarrow> string \<Rightarrow> tree_item list result"
  gl_walk :: "'g \<Rightarrow> string \<Rightarrow> string \<Rightarrow> bool \<Rightarrow> (string \<times> filemode) list \<times> err option"
  gl_file :: "'g \<Rightarrow> string \<Rightarrow> string \<Rightarrow> string \<Rightarrow> string result"
  gl_put :: "'g \<Rightarrow> string \<Rightarrow> git_object \<Rightarrow> string result \<times> 'g"
  gl_set_ref :: "'g \<Rightarrow> string \<Rightarrow> git_reference \<Rightarrow> err option \<times> 'g"
  gl_hash :: "string \<Rightarrow> string"
  gl_literal_z :: "zoned \<Rightarrow> string"
  gl_rfc3339 :: "zoned \<Rightarrow> string"
  gl_parse_rfc3339 :: "string \<Rightarrow> zoned option"
  gl_local_day :: "int \<Rightarrow> string"

record 'g store =
  st_root :: string
  st_git :: 'g
  st_cache :: "pack_cache option"
  st_disk :: disk

definition zero_hash :: string where "zero_hash = replicate 40 (CHR ''0'')"

definition wrapped :: "string \<Rightarrow> err \<Rightarrow> err" where
  "wrapped what e = ErrMsg (what @ '': '' @ err_text e)"

definition git_args :: "string list \<Rightarrow> git_cmd" where
  "git_args args = \<lparr>gc_dir = [], gc_args = args, gc_env = [], gc_stdin = []\<rparr>"

text \<open>\<open>cmd.Output()\<close>: the standard output, or the error when git fails.\<close>

definition git_output :: "('g, 'z) git_lib_scheme \<Rightarrow> 'g \<Rightarrow> string list \<Rightarrow> string result" where
  "git_output lib g args = (case gl_ask lib g (git_args args) of (out, None) \<Rightarrow> Inr out | (out, Some e) \<Rightarrow> Inl e)"

subsection \<open>Repositories on disk\<close>

definition NewStore :: "('g, 'z) git_lib_scheme \<Rightarrow> disk \<Rightarrow> string \<Rightarrow> 'g \<Rightarrow> 'g store result" where
  "NewStore lib disk root g =
     (case gl_mkdir lib g root of
        (Some e, g1) \<Rightarrow> Inl e
      | (None, g1) \<Rightarrow> Inr \<lparr>st_root = root, st_git = g1, st_cache = None, st_disk = disk\<rparr>)"

definition SetPackCache :: "pack_cache \<Rightarrow> 'g store \<Rightarrow> 'g store" where
  "SetPackCache c st = st\<lparr>st_cache := Some c\<rparr>"

definition RepoPath :: "'g store \<Rightarrow> string \<Rightarrow> string \<Rightarrow> string" where
  "RepoPath st owner name = path_join [st_root st, owner, name @ ''.git'']"

definition Exists :: "('g, 'z) git_lib_scheme \<Rightarrow> string \<Rightarrow> string \<Rightarrow> 'g store \<Rightarrow> bool" where
  "Exists lib owner name st = gl_exists lib (st_git st) (RepoPath st owner name)"

definition store_Remove :: "('g, 'z) git_lib_scheme \<Rightarrow> string \<Rightarrow> string \<Rightarrow> 'g store \<Rightarrow> unit result \<times> 'g store" where
  "store_Remove lib owner name st =
     (case gl_rmtree lib (st_git st) (RepoPath st owner name) of
        (None, g) \<Rightarrow> (Inr (), st\<lparr>st_git := g\<rparr>)
      | (Some e, g) \<Rightarrow> (Inl e, st\<lparr>st_git := g\<rparr>))"

definition InstallPreReceiveHook :: "('g, 'z) git_lib_scheme \<Rightarrow> string \<Rightarrow> 'g \<Rightarrow> unit result \<times> 'g" where
  "InstallPreReceiveHook lib path g =
     (let dir = path_join [path, ''hooks'']; hook = path_join [dir, ''pre-receive'']
      in case gl_mkdir lib g dir of
           (Some e, g1) \<Rightarrow> (Inl e, g1)
         | (None, g1) \<Rightarrow>
             if gl_exists lib g1 hook then (Inr (), g1)
             else (case gl_write lib g1 hook (gl_hook lib) of
                     (Some e, g2) \<Rightarrow> (Inl (wrapped ''write pre-receive hook'' e), g2)
                   | (None, g2) \<Rightarrow> (Inr (), g2)))"

definition store_Init :: "('g, 'z) git_lib_scheme \<Rightarrow> string \<Rightarrow> string \<Rightarrow> 'g store \<Rightarrow> unit result \<times> 'g store" where
  "store_Init lib owner name st =
     (let path = RepoPath st owner name
      in if Exists lib owner name st then (Inr (), st)
         else (case gl_mkdir lib (st_git st) (path_dir path) of
                 (Some e, g1) \<Rightarrow> (Inl e, st\<lparr>st_git := g1\<rparr>)
               | (None, g1) \<Rightarrow>
                   (case gl_plain_init lib g1 path of
                      (Some e, g2) \<Rightarrow> (Inl e, st\<lparr>st_git := g2\<rparr>)
                    | (None, g2) \<Rightarrow>
                        (case InstallPreReceiveHook lib path g2 of
                           (Inl e, g3) \<Rightarrow> (Inl (wrapped ''install pre-receive hook'' e), st\<lparr>st_git := g3\<rparr>)
                         | (Inr _, g3) \<Rightarrow> (Inr (), st\<lparr>st_git := g3\<rparr>)))))"

text \<open>A go-git repository is opened by its path; what follows works on that path.\<close>

definition opened :: "('g, 'z) git_lib_scheme \<Rightarrow> string \<Rightarrow> string \<Rightarrow> 'g store \<Rightarrow> string result" where
  "opened lib owner name st =
     (case gl_open lib (st_git st) (RepoPath st owner name) of
        Some e \<Rightarrow> Inl e | None \<Rightarrow> Inr (RepoPath st owner name))"

definition branch_ref :: "string \<Rightarrow> string" where "branch_ref b = ''refs/heads/'' @ b"

definition put_object :: "('g, 'z) git_lib_scheme \<Rightarrow> string \<Rightarrow> git_object \<Rightarrow> 'g store \<Rightarrow> string result \<times> 'g store" where
  "put_object lib path ob st =
     (case gl_put lib (st_git st) path ob of (res, g) \<Rightarrow> (res, st\<lparr>st_git := g\<rparr>))"

definition set_reference ::
  "('g, 'z) git_lib_scheme \<Rightarrow> string \<Rightarrow> git_reference \<Rightarrow> 'g store \<Rightarrow> unit result \<times> 'g store" where
  "set_reference lib path ref st =
     (case gl_set_ref lib (st_git st) path ref of
        (None, g) \<Rightarrow> (Inr (), st\<lparr>st_git := g\<rparr>) | (Some e, g) \<Rightarrow> (Inl e, st\<lparr>st_git := g\<rparr>))"

definition govnohub_sig :: "zoned \<Rightarrow> signature" where
  "govnohub_sig now = \<lparr>sg_name = ''govnohub'', sg_email = ''govnohub@local'', sg_when = now\<rparr>"

definition readme :: "string \<Rightarrow> string" where
  "readme name = ''# '' @ name @ [nl, nl] @ ''Initial commit.'' @ [nl]"

definition SeedMainBranch ::
  "('g, 'z) git_lib_scheme \<Rightarrow> zoned \<Rightarrow> string \<Rightarrow> string \<Rightarrow> string \<Rightarrow> 'g store \<Rightarrow> string result \<times> 'g store" where
  "SeedMainBranch lib now owner name branch st =
     (case opened lib owner name st of
        Inl e \<Rightarrow> (Inl e, st)
      | Inr path \<Rightarrow>
          (case put_object lib path (BlobObject (readme name)) st of
             (Inl e, st1) \<Rightarrow> (Inl e, st1)
           | (Inr blob, st1) \<Rightarrow>
               (case put_object lib path
                       (TreeObject [\<lparr>ti_name = ''README.md'', ti_mode = Regular, ti_hash = blob\<rparr>]) st1 of
                  (Inl e, st2) \<Rightarrow> (Inl e, st2)
                | (Inr tree, st2) \<Rightarrow>
                    (case put_object lib path
                            (CommitObject ''Initial commit'' tree [] (govnohub_sig now) (govnohub_sig now)) st2 of
                       (Inl e, st3) \<Rightarrow> (Inl e, st3)
                     | (Inr commit, st3) \<Rightarrow>
                         (case set_reference lib path (HashReference (branch_ref branch) commit) st3 of
                            (Inl e, st4) \<Rightarrow> (Inl e, st4)
                          | (Inr _, st4) \<Rightarrow>
                              (case set_reference lib path (SymbolicReference ''HEAD'' (branch_ref branch)) st4 of
                                 (Inl e, st5) \<Rightarrow> (Inl e, st5)
                               | (Inr _, st5) \<Rightarrow> (Inr commit, st5)))))))"

subsection \<open>Branches, tags and references\<close>

definition ListBranchSHAs ::
  "('g, 'z) git_lib_scheme \<Rightarrow> string \<Rightarrow> string \<Rightarrow> 'g store \<Rightarrow> (string \<times> string) list result" where
  "ListBranchSHAs lib owner name st =
     map_sum id parse_branches (git_output lib (st_git st)
       [''-C'', RepoPath st owner name, ''for-each-ref'', ''refs/heads'', ''--format=%(refname:short) %(objectname)''])"

definition ListTags :: "('g, 'z) git_lib_scheme \<Rightarrow> string \<Rightarrow> string \<Rightarrow> 'g store \<Rightarrow> tag_info list result" where
  "ListTags lib owner name st =
     map_sum id parse_tags (git_output lib (st_git st)
       [''-C'', RepoPath st owner name, ''for-each-ref'', ''refs/tags'',
        ''--format=%(refname:short) %(objectname) %(*objectname)''])"

definition UpdateHead ::
  "('g, 'z) git_lib_scheme \<Rightarrow> string \<Rightarrow> string \<Rightarrow> string \<Rightarrow> 'g store \<Rightarrow> string result" where
  "UpdateHead lib owner name branch st =
     (case opened lib owner name st of
        Inl e \<Rightarrow> Inl e
      | Inr path \<Rightarrow> gl_reference lib (st_git st) path (branch_ref branch))"

definition CreateBranch ::
  "('g, 'z) git_lib_scheme \<Rightarrow> string \<Rightarrow> string \<Rightarrow> string \<Rightarrow> string \<Rightarrow> 'g store \<Rightarrow> unit result \<times> 'g store" where
  "CreateBranch lib owner name branch base st =
     (case opened lib owner name st of
        Inl e \<Rightarrow> (Inl e, st)
      | Inr path \<Rightarrow>
          (case gl_reference lib (st_git st) path (branch_ref base) of
             Inl e \<Rightarrow> (Inl e, st)
           | Inr h \<Rightarrow> set_reference lib path (HashReference (branch_ref branch) h) st))"

definition resolveRef :: "('g, 'z) git_lib_scheme \<Rightarrow> string \<Rightarrow> string \<Rightarrow> 'g store \<Rightarrow> string result" where
  "resolveRef lib path ref st =
     (case gl_reference lib (st_git st) path (branch_ref ref) of
        Inr h \<Rightarrow> Inr h
      | Inl e \<Rightarrow>
          if gl_hash lib ref = zero_hash then Inl (ErrMsg (''cannot resolve ref: '' @ ref)) else Inr (gl_hash lib ref))"

definition CreateTag ::
  "('g, 'z) git_lib_scheme \<Rightarrow> string \<Rightarrow> string \<Rightarrow> string \<Rightarrow> string \<Rightarrow> 'g store \<Rightarrow> unit result \<times> 'g store" where
  "CreateTag lib owner name tagName ref st =
     (case opened lib owner name st of
        Inl e \<Rightarrow> (Inl e, st)
      | Inr path \<Rightarrow>
          (case resolveRef lib path ref st of
             Inl e \<Rightarrow> (Inl e, st)
           | Inr h \<Rightarrow> set_reference lib path (HashReference (''refs/tags/'' @ tagName) h) st))"

definition CreateRef ::
  "('g, 'z) git_lib_scheme \<Rightarrow> string \<Rightarrow> string \<Rightarrow> string \<Rightarrow> string \<Rightarrow> 'g store \<Rightarrow> unit result \<times> 'g store" where
  "CreateRef lib owner name ref sha st =
     (case opened lib owner name st of
        Inl e \<Rightarrow> (Inl e, st)
      | Inr path \<Rightarrow>
          if gl_hash lib sha = zero_hash then (Inl (ErrMsg (''invalid sha: '' @ sha)), st)
          else set_reference lib path (HashReference ref (gl_hash lib sha)) st)"

subsection \<open>Reading trees, files and history\<close>

record tree_entry =
  te_path :: string
  te_type :: string
  te_sha :: string

definition resolveCommit :: "('g, 'z) git_lib_scheme \<Rightarrow> string \<Rightarrow> string \<Rightarrow> 'g store \<Rightarrow> commit_object result" where
  "resolveCommit lib path ref st =
     (let g = st_git st
      in if ref = [] then (case gl_head lib g path of Inl e \<Rightarrow> Inl e | Inr h \<Rightarrow> gl_commit lib g path h)
         else (case gl_reference lib g path (branch_ref ref) of
                 Inl e \<Rightarrow> gl_commit lib g path (gl_hash lib ref)
               | Inr h \<Rightarrow> gl_commit lib g path h))"

definition commit_at ::
  "('g, 'z) git_lib_scheme \<Rightarrow> string \<Rightarrow> string \<Rightarrow> string \<Rightarrow> 'g store \<Rightarrow> commit_object result" where
  "commit_at lib owner name ref st =
     (case opened lib owner name st of Inl e \<Rightarrow> Inl e | Inr path \<Rightarrow> resolveCommit lib path ref st)"

fun descend ::
  "('g, 'z) git_lib_scheme \<Rightarrow> 'g \<Rightarrow> string \<Rightarrow> string list \<Rightarrow> tree_item list \<Rightarrow> tree_item list result" where
  "descend lib g repo [] items = Inr items"
| "descend lib g repo (part # parts) items =
     (case find (\<lambda>i. ti_name i = part) items of
        None \<Rightarrow> Inl (ErrMsg ''entry not found'')
      | Some i \<Rightarrow> (case gl_tree lib g repo (ti_hash i) of Inl e \<Rightarrow> Inl e | Inr next \<Rightarrow> descend lib g repo parts next))"

definition entry_of :: "tree_item \<Rightarrow> tree_entry" where
  "entry_of i = \<lparr>te_path = ti_name i, te_type = (if ti_mode i = Dir then ''dir'' else ''file''), te_sha = ti_hash i\<rparr>"

definition GetTree ::
  "('g, 'z) git_lib_scheme \<Rightarrow> string \<Rightarrow> string \<Rightarrow> string \<Rightarrow> string \<Rightarrow> 'g store \<Rightarrow> tree_entry list result" where
  "GetTree lib owner name ref path st =
     (case commit_at lib owner name ref st of
        Inl e \<Rightarrow> Inl e
      | Inr c \<Rightarrow>
          (let repo = RepoPath st owner name
           in case gl_tree lib (st_git st) repo (co_tree c) of
                Inl e \<Rightarrow> Inl e
              | Inr items \<Rightarrow>
                  map_sum id (map entry_of)
                    (if path \<noteq> [] \<and> path \<noteq> ''/'' then descend lib (st_git st) repo (split_char (CHR ''/'') path) items
                     else Inr items)))"

text \<open>The walker is made with \<open>recursive = false\<close>.\<close>

definition GetAllFiles ::
  "('g, 'z) git_lib_scheme \<Rightarrow> string \<Rightarrow> string \<Rightarrow> string \<Rightarrow> 'g store \<Rightarrow> string list result" where
  "GetAllFiles lib owner name ref st =
     (case commit_at lib owner name ref st of
        Inl e \<Rightarrow> Inl e
      | Inr c \<Rightarrow>
          (let repo = RepoPath st owner name
           in case gl_tree lib (st_git st) repo (co_tree c) of
                Inl e \<Rightarrow> Inl e
              | Inr _ \<Rightarrow>
                  (case gl_walk lib (st_git st) repo (co_tree c) False of
                     (found, Some e) \<Rightarrow> Inl e
                   | (found, None) \<Rightarrow>
                       Inr (map fst (filter (\<lambda>f. snd f \<in> {Regular, Executable, Symlink}) found)))))"

definition GetBlob ::
  "('g, 'z) git_lib_scheme \<Rightarrow> string \<Rightarrow> string \<Rightarrow> string \<Rightarrow> string \<Rightarrow> 'g store \<Rightarrow> string result" where
  "GetBlob lib owner name ref path st =
     (case commit_at lib owner name ref st of
        Inl e \<Rightarrow> Inl e
      | Inr c \<Rightarrow> gl_file lib (st_git st) (RepoPath st owner name) (co_hash c) path)"

definition info_of_commit :: "('g, 'z) git_lib_scheme \<Rightarrow> commit_object \<Rightarrow> commit_info" where
  "info_of_commit lib c = \<lparr>ci_sha = co_hash c, ci_message = first_line (co_message c),
     ci_author = sg_name (co_author c), ci_date = gl_literal_z lib (sg_when (co_author c))\<rparr>"

text \<open>
  The iteration stops with an error of the callback's own at the first commit past the limit, and
  an error of the log itself counts only when it comes before.
\<close>

definition GetCommits ::
  "('g, 'z) git_lib_scheme \<Rightarrow> string \<Rightarrow> string \<Rightarrow> string \<Rightarrow> int \<Rightarrow> 'g store \<Rightarrow> commit_info list result" where
  "GetCommits lib owner name ref limit st =
     (case opened lib owner name st of
        Inl e \<Rightarrow> Inl e
      | Inr path \<Rightarrow>
          (let g = st_git st
           in case (case gl_reference lib g path (branch_ref ref) of Inr h \<Rightarrow> Inr h | Inl e \<Rightarrow> gl_head lib g path) of
                Inl e \<Rightarrow> Inl e
              | Inr h \<Rightarrow>
                  (case gl_commit lib g path h of
                     Inl e \<Rightarrow> Inl e
                   | Inr c \<Rightarrow>
                       (case gl_log lib g path (co_hash c) of
                          Inl e \<Rightarrow> Inl e
                        | Inr (cs, failed) \<Rightarrow>
                            if int (length cs) > limit then Inr (map (info_of_commit lib) (take (nat limit) cs))
                            else (case failed of
                                    Some e \<Rightarrow> if err_text e \<noteq> ''done'' then Inl e else Inr (map (info_of_commit lib) cs)
                                  | None \<Rightarrow> Inr (map (info_of_commit lib) cs))))))"

definition numstat_args :: "string \<Rightarrow> string \<Rightarrow> string \<Rightarrow> string list" where
  "numstat_args path a b = [''-C'', path, ''diff'', ''--numstat'', a, b]"

definition log_args :: "string \<Rightarrow> int \<Rightarrow> string \<Rightarrow> string \<Rightarrow> string list" where
  "log_args path limit a b =
     [''-C'', path, ''log'', ''--format=%H||%s||%an||%aI'', ''--max-count='' @ int_string limit, a @ ''..'' @ b]"

definition GetPRFiles ::
  "('g, 'z) git_lib_scheme \<Rightarrow> string \<Rightarrow> string \<Rightarrow> string \<Rightarrow> string \<Rightarrow> 'g store \<Rightarrow> changed_file list result" where
  "GetPRFiles lib owner name base head st =
     (case git_output lib (st_git st) (numstat_args (RepoPath st owner name) base head) of
        Inl e \<Rightarrow> Inl (wrapped ''git diff --numstat'' e)
      | Inr out \<Rightarrow> Inr (parse_pr_files out))"

definition GetPRCommits ::
  "('g, 'z) git_lib_scheme \<Rightarrow> string \<Rightarrow> string \<Rightarrow> string \<Rightarrow> string \<Rightarrow> int \<Rightarrow> 'g store \<Rightarrow> commit_info list result" where
  "GetPRCommits lib owner name base head limit st =
     map_sum id parse_commits (git_output lib (st_git st) (log_args (RepoPath st owner name) limit base head))"

definition store_Diff ::
  "('g, 'z) git_lib_scheme \<Rightarrow> string \<Rightarrow> string \<Rightarrow> string \<Rightarrow> string \<Rightarrow> 'g store \<Rightarrow> string result" where
  "store_Diff lib owner name base head st =
     (case gl_ask lib (st_git st)
             \<lparr>gc_dir = RepoPath st owner name, gc_args = [''diff'', base, head], gc_env = [], gc_stdin = []\<rparr> of
        (out, Some e) \<Rightarrow> Inl e | (out, None) \<Rightarrow> Inr out)"

record compare_result =
  cmp_base :: commit_info
  cmp_head :: commit_info
  cmp_merge_base :: commit_info
  cmp_status :: string
  cmp_ahead :: int
  cmp_behind :: int
  cmp_total :: nat
  cmp_commits :: "commit_info list"
  cmp_files :: "changed_file list"
  cmp_diff :: string

definition no_commit :: commit_info where
  "no_commit = \<lparr>ci_sha = [], ci_message = [], ci_author = [], ci_date = []\<rparr>"

text \<open>The parsed output of a command, or a default when it fails.\<close>

definition asked :: "('g, 'z) git_lib_scheme \<Rightarrow> 'g \<Rightarrow> (string \<Rightarrow> 'a) \<Rightarrow> 'a \<Rightarrow> string list \<Rightarrow> 'a" where
  "asked lib g parse fallback args = (case git_output lib g args of Inl e \<Rightarrow> fallback | Inr out \<Rightarrow> parse out)"

definition CompareCommits ::
  "('g, 'z) git_lib_scheme \<Rightarrow> string \<Rightarrow> string \<Rightarrow> string \<Rightarrow> string \<Rightarrow> 'g store \<Rightarrow> compare_result result" where
  "CompareCommits lib owner name baseRef headRef st =
     (case opened lib owner name st of
        Inl e \<Rightarrow> Inl e
      | Inr path \<Rightarrow>
          (case resolveCommit lib path baseRef st of
             Inl e \<Rightarrow> Inl (wrapped (''resolve base ref '' @ quote baseRef) e)
           | Inr b \<Rightarrow>
               (case resolveCommit lib path headRef st of
                  Inl e \<Rightarrow> Inl (wrapped (''resolve head ref '' @ quote headRef) e)
                | Inr h \<Rightarrow>
                    (let g = st_git st; bs = co_hash b; hs = co_hash h;
                         merge_base = asked lib g trim_space [] [''-C'', path, ''merge-base'', bs, hs];
                         ab = asked lib g parse_ahead_behind (0, 0)
                                [''-C'', path, ''rev-list'', ''--count'', ''--left-right'', bs @ ''...'' @ hs];
                         cs = asked lib g parse_commits [] (log_args path 50 bs hs);
                         mbi = (if merge_base = [] then no_commit
                                else case gl_commit lib g path (gl_hash lib merge_base) of
                                       Inl e \<Rightarrow> no_commit | Inr c \<Rightarrow> info_of_commit lib c)
                     in Inr \<lparr>cmp_base = info_of_commit lib b, cmp_head = info_of_commit lib h, cmp_merge_base = mbi,
                             cmp_status = compare_status (fst ab) (snd ab), cmp_ahead = fst ab, cmp_behind = snd ab,
                             cmp_total = length cs, cmp_commits = cs,
                             cmp_files = asked lib g parse_numstat [] (numstat_args path bs hs),
                             cmp_diff = fst (gl_ask lib g (git_args [''-C'', path, ''diff'', bs, hs]))\<rparr>))))"

definition GetBlame ::
  "('g, 'z) git_lib_scheme \<Rightarrow> string \<Rightarrow> string \<Rightarrow> string \<Rightarrow> string \<Rightarrow> 'g store \<Rightarrow> blame_line list result" where
  "GetBlame lib owner name ref path st =
     (case git_output lib (st_git st) ([''-C'', RepoPath st owner name, ''blame'', ''--porcelain'']
             @ (if ref \<noteq> [] then [ref] else []) @ [''--'', path]) of
        Inl e \<Rightarrow> Inl (wrapped ''git blame'' e)
      | Inr out \<Rightarrow> Inr (parse_blame (gl_local_day lib) out))"

record commit_detail =
  cd_sha :: string
  cd_short :: string
  cd_message :: string
  cd_author :: signature
  cd_author_date :: string
  cd_committer :: signature
  cd_committer_date :: string
  cd_parents :: "string list"
  cd_tree :: string
  cd_changed :: nat
  cd_adds :: int
  cd_dels :: int
  cd_files :: "changed_file list"
  cd_diff :: string
  cd_pgp :: string
  cd_sig_status :: string
  cd_sig_key :: string

definition whole_file :: "string \<Rightarrow> changed_file" where
  "whole_file name = \<lparr>cf_name = name, cf_status = ''added'', cf_adds = 1, cf_dels = 0, cf_changes = 1\<rparr>"

text \<open>The files of the first commit are those of its whole tree, up to an error of the walk.\<close>

definition detail_files ::
  "('g, 'z) git_lib_scheme \<Rightarrow> string \<Rightarrow> commit_object \<Rightarrow> 'g store \<Rightarrow> changed_file list \<times> string" where
  "detail_files lib path c st =
     (case co_parents c of
        parent # _ \<Rightarrow>
          (asked lib (st_git st) parse_numstat [] (numstat_args path parent (co_hash c)),
           fst (gl_ask lib (st_git st) (git_args [''-C'', path, ''diff'', parent, co_hash c])))
      | [] \<Rightarrow>
          ((case gl_tree lib (st_git st) path (co_tree c) of
              Inl e \<Rightarrow> []
            | Inr _ \<Rightarrow> map (\<lambda>f. whole_file (fst f))
                (filter (\<lambda>f. snd f \<noteq> Dir \<and> snd f \<noteq> Submodule) (fst (gl_walk lib (st_git st) path (co_tree c) True)))), []))"

definition GetCommitDetail ::
  "('g, 'z) git_lib_scheme \<Rightarrow> string \<Rightarrow> string \<Rightarrow> string \<Rightarrow> 'g store \<Rightarrow> commit_detail result" where
  "GetCommitDetail lib owner name ref st =
     (case commit_at lib owner name ref st of
        Inl e \<Rightarrow> Inl e
      | Inr c \<Rightarrow>
          (let fd = detail_files lib (RepoPath st owner name) c st; signed = (co_pgp c \<noteq> [])
           in Inr \<lparr>cd_sha = co_hash c, cd_short = take 12 (co_hash c), cd_message = co_message c,
                   cd_author = co_author c, cd_author_date = gl_rfc3339 lib (sg_when (co_author c)),
                   cd_committer = co_committer c, cd_committer_date = gl_rfc3339 lib (sg_when (co_committer c)),
                   cd_parents = co_parents c, cd_tree = co_tree c, cd_changed = length (fst fd),
                   cd_adds = sum_list (map cf_adds (fst fd)), cd_dels = sum_list (map cf_dels (fst fd)),
                   cd_files = fst fd, cd_diff = snd fd, cd_pgp = co_pgp c,
                   cd_sig_status = (if signed then ''signed'' else []),
                   cd_sig_key = (if signed then extractKeyIDFromPGPSignature (co_pgp c) else [])\<rparr>))"

subsection \<open>Creating objects\<close>

definition CreateBlob :: "('g, 'z) git_lib_scheme \<Rightarrow> string \<Rightarrow> string \<Rightarrow> string \<Rightarrow> 'g store \<Rightarrow> string result \<times> 'g store" where
  "CreateBlob lib owner name content st =
     (case opened lib owner name st of
        Inl e \<Rightarrow> (Inl e, st) | Inr path \<Rightarrow> put_object lib path (BlobObject content) st)"

record tree_entry_input =
  tei_path :: string
  tei_mode :: string
  tei_type :: string
  tei_sha :: string

fun tree_items :: "('g, 'z) git_lib_scheme \<Rightarrow> tree_entry_input list \<Rightarrow> tree_item list result" where
  "tree_items lib [] = Inr []"
| "tree_items lib (e # es) =
     (case parseFileMode (tei_mode e) of
        None \<Rightarrow> Inl (ErrMsg (''invalid mode '' @ quote (tei_mode e) @ '': unknown mode '' @ quote (tei_mode e)))
      | Some mode \<Rightarrow>
          if gl_hash lib (tei_sha e) = zero_hash then Inl (ErrMsg (''invalid sha: '' @ tei_sha e))
          else map_sum id (\<lambda>more. \<lparr>ti_name = tei_path e, ti_mode = mode, ti_hash = gl_hash lib (tei_sha e)\<rparr> # more)
                 (tree_items lib es))"

definition CreateTree ::
  "('g, 'z) git_lib_scheme \<Rightarrow> string \<Rightarrow> string \<Rightarrow> tree_entry_input list \<Rightarrow> 'g store \<Rightarrow> string result \<times> 'g store" where
  "CreateTree lib owner name entries st =
     (case opened lib owner name st of
        Inl e \<Rightarrow> (Inl e, st)
      | Inr path \<Rightarrow>
          (case tree_items lib entries of
             Inl e \<Rightarrow> (Inl e, st) | Inr items \<Rightarrow> put_object lib path (TreeObject items) st))"

record commit_author =
  ca_name :: string
  ca_email :: string
  ca_date :: string

record create_commit =
  cc_message :: string
  cc_tree :: string
  cc_parents :: "string list"
  cc_author :: "commit_author option"
  cc_committer :: "commit_author option"

definition signature_of :: "('g, 'z) git_lib_scheme \<Rightarrow> zoned \<Rightarrow> commit_author option \<Rightarrow> signature" where
  "signature_of lib now a =
     (case a of
        None \<Rightarrow> govnohub_sig now
      | Some ca \<Rightarrow> \<lparr>sg_name = ca_name ca, sg_email = ca_email ca,
          sg_when = (if ca_date ca = [] then now else coalesce (gl_parse_rfc3339 lib (ca_date ca)) now)\<rparr>)"

definition CreateCommit ::
  "('g, 'z) git_lib_scheme \<Rightarrow> zoned \<Rightarrow> string \<Rightarrow> string \<Rightarrow> create_commit \<Rightarrow> 'g store \<Rightarrow> string result \<times> 'g store" where
  "CreateCommit lib now owner name req st =
     (case opened lib owner name st of
        Inl e \<Rightarrow> (Inl e, st)
      | Inr path \<Rightarrow>
          if gl_hash lib (cc_tree req) = zero_hash then (Inl (ErrMsg (''invalid tree sha: '' @ cc_tree req)), st)
          else put_object lib path
                 (CommitObject (cc_message req) (gl_hash lib (cc_tree req))
                    (filter (\<lambda>h. h \<noteq> zero_hash) (map (gl_hash lib) (cc_parents req)))
                    (signature_of lib now (cc_author req)) (signature_of lib now (cc_committer req))) st)"

subsection \<open>Merging\<close>

text \<open>
  Both merges work in a detached worktree in a temporary directory, which the deferred calls remove
  on every way out, whatever they answer.
\<close>

definition in_worktree ::
  "('g, 'z) git_lib_scheme \<Rightarrow> string \<Rightarrow> string \<Rightarrow> (string \<Rightarrow> 'g \<Rightarrow> string result \<times> 'g) \<Rightarrow> 'g store \<Rightarrow> string result \<times> 'g store"
where
  "in_worktree lib path branch body st =
     (case gl_mkdtemp lib (st_git st) ''govnohub-merge-*'' of
        (Inl e, g1) \<Rightarrow> (Inl e, st\<lparr>st_git := g1\<rparr>)
      | (Inr wt, g1) \<Rightarrow>
          (case gl_do lib g1 (git_args [''-C'', path, ''worktree'', ''add'', ''--detach'', wt, branch]) of
             ((_, _, Some e), g2) \<Rightarrow> (Inl (wrapped ''worktree add'' e), st\<lparr>st_git := snd (gl_rmtree lib g2 wt)\<rparr>)
           | ((_, _, None), g2) \<Rightarrow>
               (case body wt g2 of
                  (res, g3) \<Rightarrow>
                    (let g4 = snd (gl_do lib g3 (git_args [''-C'', path, ''worktree'', ''remove'', ''--force'', wt]))
                     in (res, st\<lparr>st_git := snd (gl_rmtree lib g4 wt)\<rparr>)))))"

definition committer_env :: "string list" where
  "committer_env = [''GIT_AUTHOR_NAME=govnohub'', ''GIT_AUTHOR_EMAIL=govnohub@local'',
     ''GIT_COMMITTER_NAME=govnohub'', ''GIT_COMMITTER_EMAIL=govnohub@local'']"

definition with_env :: "string list \<Rightarrow> git_cmd" where
  "with_env args = (git_args args)\<lparr>gc_env := committer_env\<rparr>"

text \<open>The hash of the merge is read in the worktree and the branch is set to it.\<close>

definition publish_head ::
  "('g, 'z) git_lib_scheme \<Rightarrow> string \<Rightarrow> string \<Rightarrow> string \<Rightarrow> string \<Rightarrow> 'g \<Rightarrow> string result \<times> 'g" where
  "publish_head lib path wt branch what g =
     (case git_output lib g [''-C'', wt, ''rev-parse'', ''HEAD''] of
        Inl e \<Rightarrow> (Inl e, g)
      | Inr out \<Rightarrow>
          (let sha = trim_space out
           in case gl_do lib g (git_args [''--git-dir'', path, ''update-ref'', branch_ref branch, sha]) of
                ((_, _, Some e), g1) \<Rightarrow> (Inl (wrapped what e), g1)
              | ((_, _, None), g1) \<Rightarrow> (Inr sha, g1)))"

definition store_Merge ::
  "('g, 'z) git_lib_scheme \<Rightarrow> string \<Rightarrow> string \<Rightarrow> string \<Rightarrow> string \<Rightarrow> bool \<Rightarrow> 'g store \<Rightarrow> string result \<times> 'g store" where
  "store_Merge lib owner name base head squash st =
     (let path = RepoPath st owner name
      in in_worktree lib path base
           (\<lambda>wt g. case gl_do lib g (with_env ([''-C'', wt, ''merge'', head] @ (if squash then [''--squash''] else []))) of
              ((_, _, Some e), g1) \<Rightarrow> (Inl (wrapped ''merge'' e), g1)
            | ((_, _, None), g1) \<Rightarrow>
                if \<not> squash then publish_head lib path wt base ''update-ref'' g1
                else (case gl_do lib g1 (with_env [''-C'', wt, ''commit'', ''-m'', ''Squash merge '' @ head]) of
                        ((_, _, Some e), g2) \<Rightarrow> (Inl (wrapped ''commit'' e), g2)
                      | ((_, _, None), g2) \<Rightarrow> publish_head lib path wt base ''update-ref'' g2)) st)"

definition MergeBaseIntoHead ::
  "('g, 'z) git_lib_scheme \<Rightarrow> string \<Rightarrow> string \<Rightarrow> string \<Rightarrow> string \<Rightarrow> 'g store \<Rightarrow> string result \<times> 'g store" where
  "MergeBaseIntoHead lib owner name head base st =
     (let path = RepoPath st owner name
      in in_worktree lib path head
           (\<lambda>wt g. case gl_do lib g (with_env [''-C'', wt, ''merge'', base]) of
              ((_, _, Some e), g1) \<Rightarrow> (Inl (wrapped ''merge base into head'' e), g1)
            | ((_, _, None), g1) \<Rightarrow> publish_head lib path wt head ''update-ref head'' g1) st)"

text \<open>The trial merge writes the tree it makes, and its blobs, into the repository.\<close>

definition CanMerge ::
  "('g, 'z) git_lib_scheme \<Rightarrow> string \<Rightarrow> string \<Rightarrow> string \<Rightarrow> string \<Rightarrow> 'g store \<Rightarrow> bool result \<times> 'g store" where
  "CanMerge lib owner name base head st =
     (case gl_do_both lib (st_git st) (git_args [''-C'', RepoPath st owner name, ''merge-tree'', ''--write-tree'', base, head]) of
        ((out, None), g) \<Rightarrow> (Inr True, st\<lparr>st_git := g\<rparr>)
      | ((out, Some e), g) \<Rightarrow>
          (if contains out ''CONFLICT'' \<or> contains out ''conflict'' then Inr False
           else Inl (ErrMsg (''merge-tree: '' @ err_text e @ '': '' @ out)), st\<lparr>st_git := g\<rparr>))"

text \<open>What the reader delivers and what closing it answers; starting git is taken to succeed.\<close>

definition store_Archive ::
  "('g, 'z) git_lib_scheme \<Rightarrow> string \<Rightarrow> string \<Rightarrow> string \<Rightarrow> 'g store \<Rightarrow> string \<times> err option" where
  "store_Archive lib owner name ref st =
     gl_ask lib (st_git st) (git_args [''-C'', RepoPath st owner name, ''archive'', ''--format=tar.gz'', ref])"

subsection \<open>Transport\<close>

text \<open>
  A request body is what could be read of it and the error that ended the reading. Writing to the
  client is taken to succeed.
\<close>

type_synonym request_body = "string \<times> err option"

definition pack_args :: "string \<Rightarrow> bool \<Rightarrow> string \<Rightarrow> string list" where
  "pack_args cmd stateless path =
     [''-c'', ''safe.directory=*'', cmd] @ (if stateless then [''--stateless-rpc''] else []) @ [path]"

definition runGit ::
  "('g, 'z) git_lib_scheme \<Rightarrow> string \<Rightarrow> string \<Rightarrow> string \<Rightarrow> bool \<Rightarrow> request_body \<Rightarrow> 'g store
     \<Rightarrow> (string \<times> err option) \<times> 'g store" where
  "runGit lib owner name cmd stateless body st =
     (let path = RepoPath st owner name
      in case gl_do lib (st_git st) \<lparr>gc_dir = path, gc_args = pack_args cmd stateless path, gc_env = [], gc_stdin = fst body\<rparr> of
           ((out, _, failed), g) \<Rightarrow>
             ((out, map_option (wrapped (''git '' @ cmd)) (if failed = None then snd body else failed)),
              st\<lparr>st_git := g\<rparr>))"

definition runGitBidirectional ::
  "('g, 'z) git_lib_scheme \<Rightarrow> string \<Rightarrow> string \<Rightarrow> string \<Rightarrow> string list \<Rightarrow> bool \<Rightarrow> string \<Rightarrow> 'g store
     \<Rightarrow> (string \<times> err option) \<times> 'g store" where
  "runGitBidirectional lib owner name cmd extraEnv stateless input st =
     (let path = RepoPath st owner name
      in case gl_do lib (st_git st) \<lparr>gc_dir = [], gc_args = pack_args cmd stateless path, gc_env = extraEnv, gc_stdin = input\<rparr> of
           ((out, errs, failed), g) \<Rightarrow>
             ((out, map_option (\<lambda>e. ErrMsg (''git '' @ cmd @ '': '' @ err_text e @ '': '' @ trim_space errs)) failed),
              st\<lparr>st_git := g\<rparr>))"

definition UploadPackSSH ::
  "('g, 'z) git_lib_scheme \<Rightarrow> string \<Rightarrow> string \<Rightarrow> string list \<Rightarrow> bool \<Rightarrow> string \<Rightarrow> 'g store \<Rightarrow> (string \<times> err option) \<times> 'g store"
where
  "UploadPackSSH lib owner name = runGitBidirectional lib owner name ''upload-pack''"

definition ReceivePackSSH ::
  "('g, 'z) git_lib_scheme \<Rightarrow> string \<Rightarrow> string \<Rightarrow> string list \<Rightarrow> bool \<Rightarrow> string \<Rightarrow> 'g store \<Rightarrow> (string \<times> err option) \<times> 'g store"
where
  "ReceivePackSSH lib owner name = runGitBidirectional lib owner name ''receive-pack''"

definition InvalidatePackCache ::
  "('g, 'z) git_lib_scheme \<Rightarrow> disk_lib \<Rightarrow> string \<Rightarrow> string \<Rightarrow> 'g store \<Rightarrow> 'g store" where
  "InvalidatePackCache lib dl owner name st =
     (case st_cache st of
        None \<Rightarrow> st
      | Some c \<Rightarrow>
          (case ListBranchSHAs lib owner name st of
             Inl e \<Rightarrow> st
           | Inr brs \<Rightarrow>
               if brs = [] then st
               else (case pack_Delete (pack_Key dl owner name brs) c (st_disk st) of
                       (c1, disk1) \<Rightarrow> st\<lparr>st_cache := Some c1, st_disk := disk1\<rparr>)))"

definition ReceivePack ::
  "('g, 'z) git_lib_scheme \<Rightarrow> disk_lib \<Rightarrow> string \<Rightarrow> string \<Rightarrow> request_body \<Rightarrow> 'g store \<Rightarrow> (string \<times> err option) \<times> 'g store" where
  "ReceivePack lib dl owner name body st =
     (case runGit lib owner name ''receive-pack'' True body st of
        ((out, None), st1) \<Rightarrow> ((out, None), InvalidatePackCache lib dl owner name st1)
      | ((out, Some e), st1) \<Rightarrow> ((out, Some e), st1))"

text \<open>
  The pack cache in front of \<open>upload-pack\<close>: the key is made of the repository and its branches, and
  the answer to one request is stored for the next.
\<close>

definition UploadPack ::
  "('g, 'z) git_lib_scheme \<Rightarrow> disk_lib \<Rightarrow> instant \<Rightarrow> string \<Rightarrow> string \<Rightarrow> request_body \<Rightarrow> 'g store
     \<Rightarrow> (string \<times> err option) \<times> 'g store" where
  "UploadPack lib dl now owner name body st =
     (case st_cache st of
        None \<Rightarrow> runGit lib owner name ''upload-pack'' True body st
      | Some c \<Rightarrow>
          (if snd body \<noteq> None then runGit lib owner name ''upload-pack'' True (fst body, None) st
           else (case ListBranchSHAs lib owner name st of
              Inl e \<Rightarrow> runGit lib owner name ''upload-pack'' True body st
            | Inr brs \<Rightarrow>
                if brs = [] then runGit lib owner name ''upload-pack'' True body st
                else (let key = pack_Key dl owner name brs
                      in case pack_Get now key c (st_disk st) of
                           (Some data, c1, disk1) \<Rightarrow> ((data, None), st\<lparr>st_cache := Some c1, st_disk := disk1\<rparr>)
                         | (None, c1, disk1) \<Rightarrow>
                             (case runGit lib owner name ''upload-pack'' True body (st\<lparr>st_cache := Some c1, st_disk := disk1\<rparr>) of
                                ((out, Some e), st1) \<Rightarrow> ((out, Some e), st1)
                              | ((out, None), st1) \<Rightarrow>
                                  (case pack_Set dl now key out c1 (st_disk st1) of
                                     (_, _, c2, disk2) \<Rightarrow> ((out, None), st1\<lparr>st_cache := Some c2, st_disk := disk2\<rparr>)))))))"

subsection \<open>Properties\<close>

text \<open>Uploading changes neither the root nor the cache directory, and no branch when git changes none.\<close>

lemma runGit_keeps [simp]:
  assumes "runGit lib owner name cmd b body st = (res, st1)"
  shows "st_root st1 = st_root st" and "st_cache st1 = st_cache st" and "st_disk st1 = st_disk st"
  using assms by (auto simp: runGit_def Let_def split: prod.splits)

lemma pack_Get_stored:
  assumes "pack_Set dl now key data c disk = (Inr (), ev, c1, disk1)" and "now2 - now \<le> pc_ttl c \<or> pc_ttl c \<le> 0"
  shows "pack_Get now2 key c1 disk1 = (Some data, c1, disk1)"
proof -
  have "map_of (index_put key e m) key = Some e" for e m
    by (auto simp: index_put_def map_add_Some_iff map_of_eq_None_iff)
  then show ?thesis using assms
    by (auto simp: pack_Set_def pack_Get_def Let_def split: if_splits option.splits)
qed

text \<open>With the pack cache on, the answer to a fetch does not depend on what the client asked for: once
  one request for a repository has been answered and stored, any other request (other wants, other
  haves, another capability, a plain listing of the references) is answered with the same bytes as long as the
  branches stay where they are and the entry has not expired.\<close>

theorem upload_pack_ignores_request:
  assumes "UploadPack lib dl now owner name (req1, None) st = ((out, None), st1)"
    and "st_cache st = Some c" and "\<forall>data. fst (pack_Get now (pack_Key dl owner name brs) c (st_disk st)) \<noteq> Some data"
    and "ListBranchSHAs lib owner name st = Inr brs" and "brs \<noteq> []"
    and "ListBranchSHAs lib owner name st1 = Inr brs"
    and "\<forall>disk path. dl_mkdir dl disk path = None \<and> dl_write dl disk path = None"
    and "2 \<le> length (pack_Key dl owner name brs)" and "now2 - now \<le> pc_ttl c \<or> pc_ttl c \<le> 0"
  shows "fst (UploadPack lib dl now2 owner name (req2, None) st1) = (out, None)"
proof -
  let ?key = "pack_Key dl owner name brs"
  obtain c1 disk1 where get: "pack_Get now ?key c (st_disk st) = (None, c1, disk1)"
    using assms(3) by (cases "pack_Get now ?key c (st_disk st)") (metis fst_conv not_None_eq)
  then have ttl: "pc_ttl c1 = pc_ttl c"
    by (auto simp: pack_Get_def pack_Delete_def split: option.splits if_splits)
  let ?st0 = "st\<lparr>st_cache := Some c1, st_disk := disk1\<rparr>"
  obtain res stg where run: "runGit lib owner name ''upload-pack'' True (req1, None) ?st0 = (res, stg)"
    by (cases "runGit lib owner name ''upload-pack'' True (req1, None) ?st0")
  obtain o1 f1 where res: "res = (o1, f1)" by (cases res)
  obtain ev c2 disk2 where set: "pack_Set dl now ?key o1 c1 (st_disk stg) = (Inr (), ev, c2, disk2)"
    using assms(7,8) by (auto simp: pack_Set_def Let_def)
  have "f1 = None \<and> o1 = out \<and> st1 = stg\<lparr>st_cache := Some c2, st_disk := disk2\<rparr>"
    using assms(1,2,4,5) get run res set
    by (cases f1) (auto simp: UploadPack_def Let_def)
  then show ?thesis
    using assms(5,6) pack_Get_stored [OF set, of now2] ttl assms(9)
    by (simp add: UploadPack_def Let_def)
qed

text \<open>A git program that lists one branch and answers a request with its own text.\<close>

definition example_git :: "unit git_lib" where
  "example_git = \<lparr>gl_ask = (\<lambda>g c. (''main 1f'', None)), gl_do_both = (\<lambda>g c. (([], None), g)),
     gl_do = (\<lambda>g c. ((gc_stdin c, [], None), g)), gl_exists = (\<lambda>g p. True), gl_mkdir = (\<lambda>g p. (None, g)),
     gl_mkdtemp = (\<lambda>g p. (Inr ''/tmp/w'', g)), gl_rmtree = (\<lambda>g p. (None, g)), gl_write = (\<lambda>g p t. (None, g)),
     gl_hook = [], gl_plain_init = (\<lambda>g p. (None, g)), gl_open = (\<lambda>g p. None),
     gl_reference = (\<lambda>g p r. Inr ''1f''), gl_head = (\<lambda>g p. Inr ''1f''), gl_commit = (\<lambda>g p h. Inl NoRows),
     gl_log = (\<lambda>g p h. Inl NoRows), gl_tree = (\<lambda>g p h. Inr []), gl_walk = (\<lambda>g p h b. ([], None)),
     gl_file = (\<lambda>g p h f. Inr []), gl_put = (\<lambda>g p ob. (Inr ''1f'', g)), gl_set_ref = (\<lambda>g p r. (None, g)),
     gl_hash = (\<lambda>s. s), gl_literal_z = (\<lambda>t. []), gl_rfc3339 = (\<lambda>t. []), gl_parse_rfc3339 = (\<lambda>s. None),
     gl_local_day = (\<lambda>n. [])\<rparr>"

definition example_disk :: disk_lib where
  "example_disk = \<lparr>dl_sha256_hex = (\<lambda>s. ''ab''), dl_mkdir = (\<lambda>d p. None), dl_write = (\<lambda>d p. None)\<rparr>"

definition example_store :: "unit store" where
  "example_store = \<lparr>st_root = ''/data'', st_git = (),
     st_cache = Some \<lparr>pc_root = ''/cache'', pc_max = 0, pc_ttl = 100, pc_index = []\<rparr>, st_disk = Map.empty\<rparr>"

lemma upload_pack_ignores_request_witness:
  "fst (UploadPack example_git example_disk 20 ''ann'' ''code'' (''want 2e'', None)
      (snd (UploadPack example_git example_disk 10 ''ann'' ''code'' (''want 1f'', None) example_store))) = (''want 1f'', None)"
proof -
  let ?u = "UploadPack example_git example_disk 10 ''ann'' ''code'' (''want 1f'', None) example_store"
  have brs: "ListBranchSHAs example_git ''ann'' ''code'' st = Inr [(''main'', ''1f'')]" for st
  proof -
    have "parse_branches ''main 1f'' = [(''main'', ''1f'')]" by code_simp
    then show ?thesis by (simp add: ListBranchSHAs_def git_output_def example_git_def)
  qed
  have key: "pack_Key example_disk ''ann'' ''code'' brs = ''ab''" for brs by (simp add: pack_Key_def example_disk_def)
  have disk: "dl_mkdir example_disk d p = None" "dl_write example_disk d p = None" for d p
    by (simp_all add: example_disk_def)
  have fst: "fst ?u = (''want 1f'', None)"
    by (simp add: UploadPack_def example_store_def brs key pack_Get_def runGit_def pack_Set_def Let_def)
      (simp add: example_git_def example_disk_def)
  have "?u = ((''want 1f'', None), snd ?u)" by (simp add: prod_eq_iff fst)
  moreover have "st_cache example_store = Some \<lparr>pc_root = ''/cache'', pc_max = 0, pc_ttl = 100, pc_index = []\<rparr>"
    by (simp add: example_store_def)
  ultimately show ?thesis
    by (rule upload_pack_ignores_request [where brs = "[(''main'', ''1f'')]"])
      (simp_all add: brs key pack_Get_def disk)
qed

end
