(* ===== verification/Numbering.thy ===== *)
theory Numbering
  imports Schema GoStrings
begin

section \<open>Numbers within a repository\<close>

text \<open>
  Issues and pull requests are numbered per repository with
  \<open>SELECT COALESCE(MAX(number),0)+1\<close> followed, in a statement of its own, by the INSERT. The
  contract of such a table is stated once: a table keyed by repository and number, with what the
  allocation promises to a single client and what happens to two that read the same maximum. Also
  here: the author's name that several services add to a row they return.
\<close>

definition next_number :: "('r \<Rightarrow> uuid) \<Rightarrow> ('r \<Rightarrow> int) \<Rightarrow> uuid \<Rightarrow> 'r list \<Rightarrow> int" where
  "next_number owner num rid t = max_number num (rows_where (\<lambda>r. owner r = rid) t) + 1"

definition numbers :: "('r \<Rightarrow> uuid) \<Rightarrow> ('r \<Rightarrow> int) \<Rightarrow> uuid \<Rightarrow> 'r list \<Rightarrow> int list" where
  "numbers owner num rid t = map num (rows_where (\<lambda>r. owner r = rid) t)"

definition consecutive :: "int list \<Rightarrow> bool" where
  "consecutive ns = (ns = map int [1..<Suc (length ns)])"

definition well_numbered :: "('r \<Rightarrow> uuid) \<Rightarrow> ('r \<Rightarrow> int) \<Rightarrow> 'r list \<Rightarrow> bool" where
  "well_numbered owner num t = (\<forall>rid. consecutive (numbers owner num rid t))"

lemma consecutive_Nil [simp]: "consecutive []"
  by (simp add: consecutive_def)

lemma consecutive_snoc: "consecutive ns \<Longrightarrow> consecutive (ns @ [int (length ns) + 1])"
proof -
  assume "consecutive ns"
  then have "ns = map int [1..<Suc (length ns)]" by (simp only: consecutive_def)
  moreover have "map int [1..<Suc (Suc (length ns))] = map int [1..<Suc (length ns)] @ [int (length ns) + 1]"
    by simp
  ultimately show ?thesis by (simp only: consecutive_def length_append_singleton)
qed

lemma consecutive_distinct: "consecutive ns \<Longrightarrow> distinct ns"
  unfolding consecutive_def by (metis distinct_map distinct_upt inj_on_of_nat)

lemma consecutive_member: "consecutive ns \<Longrightarrow> n \<in> set ns \<longleftrightarrow> 1 \<le> n \<and> n \<le> int (length ns)"
proof -
  assume "consecutive ns"
  then have "set ns = int ` {1..<Suc (length ns)}"
    unfolding consecutive_def by (metis set_map set_upt)
  then show ?thesis by (auto simp: image_iff intro!: bexI [of _ "nat n"])
qed

text \<open>Changing other columns, or removing all rows of a repository, keeps the numbers.\<close>

lemma numbers_update:
  assumes "\<And>r. owner (f r) = owner r" and "\<And>r. num (f r) = num r"
  shows "numbers owner num rid (update_where P f t) = numbers owner num rid t"
  using assms by (induction t) (auto simp: numbers_def rows_where_def update_where_def)

lemma numbers_delete:
  "numbers owner num rid (delete_where (\<lambda>r. owner r = x) t) = (if rid = x then [] else numbers owner num rid t)"
  by (induction t) (auto simp: numbers_def rows_where_def delete_where_def)

lemma numbers_insert:
  "numbers owner num rid (insert_row r t) = numbers owner num rid t @ (if owner r = rid then [num r] else [])"
  by (simp add: numbers_def rows_where_def insert_row_def)

lemma well_numbered_update:
  "well_numbered owner num t \<Longrightarrow> (\<And>r. owner (f r) = owner r) \<Longrightarrow> (\<And>r. num (f r) = num r) \<Longrightarrow>
     well_numbered owner num (update_where P f t)"
  by (simp add: well_numbered_def numbers_update)

lemma well_numbered_delete:
  "well_numbered owner num t \<Longrightarrow> well_numbered owner num (delete_where (\<lambda>r. owner r = x) t)"
  by (simp add: well_numbered_def numbers_delete)

lemma next_number_length:
  assumes "consecutive (numbers owner num rid t)"
  shows "next_number owner num rid t = int (length (numbers owner num rid t)) + 1"
proof -
  let ?u = "rows_where (\<lambda>r. owner r = rid) t"
  have "map num ?u = map int [1..<Suc (length ?u)]"
    using assms by (simp add: consecutive_def numbers_def)
  then have "max_number num ?u = int (length ?u)" by (rule max_number_upto)
  then show ?thesis by (simp add: next_number_def numbers_def)
qed

locale numbered_table = keyed_table rows upd "\<lambda>r. (owner r, num r)"
  for rows :: "'d \<Rightarrow> 'r list" and upd :: "('r list \<Rightarrow> 'r list) \<Rightarrow> 'd \<Rightarrow> 'd"
    and owner :: "'r \<Rightarrow> uuid" and num :: "'r \<Rightarrow> int"
begin

text \<open>A single client always gets a free number, and the numbers stay 1, 2, 3, ...\<close>

lemma next_free: "key_free (\<lambda>r. (owner r, num r)) (rid, next_number owner num rid (rows d)) (rows d)"
  using max_number_fresh [of num "rows_where (\<lambda>r. owner r = rid) (rows d)"]
  by (auto simp: key_free_iff next_number_def)

lemma insert_well_numbered:
  assumes "well_numbered owner num (rows d)" and "owner r = rid"
    and "num r = next_number owner num rid (rows d)"
  shows "well_numbered owner num (rows (upd (insert_row r) d))"
  unfolding well_numbered_def
proof
  fix x
  have ok: "consecutive (numbers owner num x (rows d))" using assms(1) by (simp add: well_numbered_def)
  show "consecutive (numbers owner num x (rows (upd (insert_row r) d)))"
  proof (cases "x = rid")
    case True
    then have "num r = int (length (numbers owner num x (rows d))) + 1"
      using next_number_length [OF ok] assms(3) by simp
    then show ?thesis using ok True assms(2) by (simp add: rows_upd numbers_insert consecutive_snoc)
  next
    case False
    then show ?thesis using ok assms(2) by (simp add: rows_upd numbers_insert)
  qed
qed

text \<open>Of two clients that read the same maximum, the second finds its number taken.\<close>

lemma next_taken:
  "owner r = rid \<Longrightarrow> num r = next_number owner num rid (rows d) \<Longrightarrow>
     \<not> key_free (\<lambda>r. (owner r, num r)) (rid, next_number owner num rid (rows d)) (rows (upd (insert_row r) d))"
  by (auto simp: rows_upd key_free_iff image_iff)

end

interpretation issue_numbers: numbered_table issues issues_update i_repo i_number
  by unfold_locales

interpretation pull_numbers: numbered_table pulls pulls_update pr_repo pr_number
  by unfold_locales

subsection \<open>The name of a user\<close>

text \<open>
  LEFT JOIN users with COALESCE(username, ''), and the separate query whose error is dropped.
\<close>

definition username :: "uuid \<Rightarrow> db \<Rightarrow> string" where
  "username uid d = coalesce (map_option u_name (query_row (\<lambda>u. u_id u = uid) (users d))) []"

definition username_opt :: "uuid option \<Rightarrow> db \<Rightarrow> string" where
  "username_opt uid d = (case uid of None \<Rightarrow> [] | Some x \<Rightarrow> username x d)"

end
