(* ===== verification/Webhook.thy ===== *)
theory Webhook
  imports Repo Actions Numbering
begin

section \<open>Webhooks and their service (internal/webhook/webhook.go, cmd/webhook-service/main.go)\<close>

text \<open>
  Delivering an event to the hooks of a repository and turning it into queued workflow runs. HMAC,
  the JSON encoder, the YAML decoder and the HTTP client are parameters; the client answers with the
  status code and the error of a request, 0 standing for no response. New rows take their ids from a
  supply that is read in order.
\<close>

subsection \<open>Data\<close>

record hook =
  hk_id :: uuid
  hk_repo :: uuid
  hk_url :: string
  hk_events :: "string list"
  hk_active :: bool

record delivery =
  dv_id :: uuid
  dv_hook :: uuid
  dv_event :: string
  dv_status :: int
  dv_at :: instant

record webhook_push =
  wp_ref :: string
  wp_repository :: string
  wp_pusher :: string
  wp_after :: string
  wp_timestamp :: instant

record post_request =
  po_url :: string
  po_event :: string
  po_signature :: string
  po_body :: string

record hook_lib =
  hl_hmac_hex :: "string \<Rightarrow> string \<Rightarrow> string"
  hl_push_json :: "webhook_push \<Rightarrow> string"
  hl_do :: "post_request \<Rightarrow> int \<times> err option"
  hl_yaml :: "string \<Rightarrow> workflow result"

definition hook_of :: "hook_row \<Rightarrow> hook" where
  "hook_of r = \<lparr>hk_id = h_id r, hk_repo = h_repo r, hk_url = h_url r, hk_events = h_events r, hk_active = h_active r\<rparr>"

subsection \<open>Hooks and deliveries\<close>

definition hook_Create :: "uuid \<Rightarrow> uuid \<Rightarrow> string \<Rightarrow> string \<Rightarrow> string list \<Rightarrow> db \<Rightarrow> hook result \<times> db" where
  "hook_Create nid rid url secret evs d =
     (let r = \<lparr>h_id = nid, h_repo = rid, h_url = url, h_secret = secret, h_events = evs, h_active = True\<rparr>
      in if \<not> key_free h_id nid (hooks d) then (Inl (UniqueViolation ''webhooks_pkey''), d)
         else if \<not> repo_exists rid d then (Inl (ForeignKeyViolation ''webhooks_repo_id_fkey''), d)
         else (Inr (hook_of r), d\<lparr>hooks := insert_row r (hooks d)\<rparr>))"

definition sign :: "hook_lib \<Rightarrow> string \<Rightarrow> string \<Rightarrow> string" where
  "sign hl secret body = hl_hmac_hex hl secret body"

definition hook_request :: "hook_lib \<Rightarrow> string \<Rightarrow> string \<Rightarrow> hook_row \<Rightarrow> post_request" where
  "hook_request hl event body h = \<lparr>po_url = h_url h, po_event = event,
     po_signature = ''sha256='' @ sign hl (h_secret h) body, po_body = body\<rparr>"

definition record_delivery :: "instant \<Rightarrow> uuid \<Rightarrow> uuid \<Rightarrow> string \<Rightarrow> string \<Rightarrow> int \<Rightarrow> db \<Rightarrow> db" where
  "record_delivery now nid hid event body status d =
     (if key_free d_id nid (deliveries d) \<and> references h_id hid (hooks d)
      then d\<lparr>deliveries := insert_row \<lparr>d_id = nid, d_hook = hid, d_event = event, d_payload = body,
               d_status = status, d_at = now\<rparr> (deliveries d)\<rparr>
      else d)"

text \<open>A hook that cannot be reached does not stop the others.\<close>

fun dispatch_hooks ::
  "hook_lib \<Rightarrow> instant \<Rightarrow> (nat \<Rightarrow> uuid) \<Rightarrow> nat \<Rightarrow> string \<Rightarrow> string \<Rightarrow> hook_row list \<Rightarrow> db \<Rightarrow> post_request list \<times> db" where
  "dispatch_hooks hl now fresh n event body [] d = ([], d)"
| "dispatch_hooks hl now fresh n event body (h # hs) d =
     (let req = hook_request hl event body h;
          status = fst (hl_do hl req);
          rest = dispatch_hooks hl now fresh (Suc n) event body hs
                   (record_delivery now (fresh n) (h_id h) event body status d)
      in (req # fst rest, snd rest))"

definition hooks_for :: "uuid \<Rightarrow> string \<Rightarrow> db \<Rightarrow> hook_row list" where
  "hooks_for rid event d = rows_where (\<lambda>h. h_repo h = rid \<and> h_active h = True \<and> event \<in> set (h_events h)) (hooks d)"

definition Dispatch ::
  "hook_lib \<Rightarrow> instant \<Rightarrow> (nat \<Rightarrow> uuid) \<Rightarrow> uuid \<Rightarrow> string \<Rightarrow> string \<Rightarrow> db \<Rightarrow> post_request list \<times> db" where
  "Dispatch hl now fresh rid event body d = dispatch_hooks hl now fresh 0 event body (hooks_for rid event d) d"

definition NewPushEvent :: "instant \<Rightarrow> string \<Rightarrow> string \<Rightarrow> string \<Rightarrow> string \<Rightarrow> string \<Rightarrow> webhook_push" where
  "NewPushEvent now owner name branch sha pusher =
     \<lparr>wp_ref = ''refs/heads/'' @ branch, wp_repository = owner @ ''/'' @ name, wp_pusher = pusher,
      wp_after = sha, wp_timestamp = now\<rparr>"

definition ListDeliveries :: "uuid \<Rightarrow> int \<Rightarrow> db \<Rightarrow> delivery list" where
  "ListDeliveries hid limit0 d =
     (let limit = (if limit0 \<le> 0 then 20 else limit0)
      in map (\<lambda>r. \<lparr>dv_id = d_id r, dv_hook = d_hook r, dv_event = d_event r, dv_status = d_status r, dv_at = d_at r\<rparr>)
           (take (nat limit) (order_by_desc d_at (rows_where (\<lambda>r. d_hook r = hid) (deliveries d)))))"

subsection \<open>The service\<close>

text \<open>
  The runs are inserted while the workflows that were active at the start are read. A run that
  cannot be inserted is logged and left out.
\<close>

definition run_number_of :: "uuid \<Rightarrow> db \<Rightarrow> int" where
  "run_number_of rid d = next_number wr_repo wr_number rid (runs d)"

definition new_run :: "instant \<Rightarrow> uuid \<Rightarrow> uuid \<Rightarrow> uuid \<Rightarrow> int \<Rightarrow> string \<Rightarrow> string \<Rightarrow> string \<Rightarrow> run_row" where
  "new_run now nid rid wfid number event sha branch =
     \<lparr>wr_id = nid, wr_repo = rid, wr_workflow = wfid, wr_number = number, wr_event = event, wr_sha = sha,
      wr_branch = branch, wr_status = ''queued'', wr_conclusion = None, wr_created = now,
      wr_started = None, wr_completed = None\<rparr>"

definition insert_run :: "run_row \<Rightarrow> db \<Rightarrow> unit result \<times> db" where
  "insert_run r d =
     (if \<not> key_free wr_id (wr_id r) (runs d) then (Inl (UniqueViolation ''workflow_runs_pkey''), d)
      else if \<not> key_free (\<lambda>q. (wr_repo q, wr_number q)) (wr_repo r, wr_number r) (runs d)
      then (Inl (UniqueViolation ''workflow_runs_repo_id_run_number_key''), d)
      else if \<not> repo_exists (wr_repo r) d then (Inl (ForeignKeyViolation ''workflow_runs_repo_id_fkey''), d)
      else if \<not> references wf_id (wr_workflow r) (workflows d)
      then (Inl (ForeignKeyViolation ''workflow_runs_workflow_id_fkey''), d)
      else (Inr (), d\<lparr>runs := insert_row r (runs d)\<rparr>))"

fun trigger_each ::
  "hook_lib \<Rightarrow> instant \<Rightarrow> (nat \<Rightarrow> uuid) \<Rightarrow> nat \<Rightarrow> uuid \<Rightarrow> string \<Rightarrow> string \<Rightarrow> string \<Rightarrow> workflow_row list \<Rightarrow> db \<Rightarrow> db" where
  "trigger_each hl now fresh n rid branch sha event [] d = d"
| "trigger_each hl now fresh n rid branch sha event (f # fs) d =
     (case ParseWorkflow (hl_yaml hl) (wf_content f) of
        Inl e \<Rightarrow> trigger_each hl now fresh n rid branch sha event fs d
      | Inr w \<Rightarrow>
          if \<not> MatchesTrigger w \<lparr>te_type = event, te_branch = branch, te_sha = sha, te_pr = False\<rparr>
          then trigger_each hl now fresh n rid branch sha event fs d
          else trigger_each hl now fresh (Suc n) rid branch sha event fs
                 (snd (insert_run (new_run now (fresh n) rid (wf_id f) (run_number_of rid d) event sha branch) d)))"

definition triggerWorkflows ::
  "hook_lib \<Rightarrow> instant \<Rightarrow> (nat \<Rightarrow> uuid) \<Rightarrow> uuid \<Rightarrow> string \<Rightarrow> string \<Rightarrow> string \<Rightarrow> db \<Rightarrow> db" where
  "triggerWorkflows hl now fresh rid branch sha event d =
     trigger_each hl now fresh 0 rid branch sha event
       (rows_where (\<lambda>f. wf_repo f = rid \<and> wf_active f = True) (workflows d)) d"

record service_event =
  se_repo :: uuid
  se_owner :: string
  se_name :: string
  se_branch :: string
  se_sha :: string
  se_pusher :: string

text \<open>The status of the answer, the requests sent to hooks, and the database afterwards.\<close>

definition handleEvent ::
  "hook_lib \<Rightarrow> instant \<Rightarrow> (nat \<Rightarrow> uuid) \<Rightarrow> (nat \<Rightarrow> uuid) \<Rightarrow> string \<Rightarrow> service_event result \<Rightarrow> db
     \<Rightarrow> int \<times> post_request list \<times> db" where
  "handleEvent hl now fresh_d fresh_r eventType decoded d =
     (case decoded of
        Inl e \<Rightarrow> (400, [], d)
      | Inr evt \<Rightarrow>
          (let pushed = (if eventType = ''push''
                         then Dispatch hl now fresh_d (se_repo evt) ''push''
                                (hl_push_json hl (NewPushEvent now (se_owner evt) (se_name evt) (se_branch evt)
                                                    (se_sha evt) (se_pusher evt))) d
                         else ([], d))
           in (202, fst pushed,
               triggerWorkflows hl now fresh_r (se_repo evt) (se_branch evt) (se_sha evt) eventType (snd pushed))))"

subsection \<open>Run numbers\<close>

interpretation run_numbers: numbered_table runs runs_update wr_repo wr_number
  by unfold_locales simp

lemma insert_run_numbered:
  assumes "well_numbered wr_repo wr_number (runs d)"
    and "wr_number r = run_number_of (wr_repo r) d"
  shows "well_numbered wr_repo wr_number (runs (snd (insert_run r d)))"
  using assms run_numbers.insert_well_numbered [of d r "wr_repo r"]
  by (simp add: insert_run_def run_number_of_def)

lemma trigger_numbered:
  "well_numbered wr_repo wr_number (runs d) \<Longrightarrow>
     well_numbered wr_repo wr_number (runs (trigger_each hl now fresh n rid branch sha event fs d))"
proof (induction fs arbitrary: n d)
  case (Cons f fs)
  let ?r = "new_run now (fresh n) rid (wf_id f) (run_number_of rid d) event sha branch"
  have "well_numbered wr_repo wr_number (runs (snd (insert_run ?r d)))"
    using Cons.prems by (intro insert_run_numbered) (simp_all add: new_run_def)
  then show ?case using Cons by (simp split: sum.split)
qed simp

lemma insert_run_next:
  assumes "repo_exists rid d" and "references wf_id wfid (workflows d)" and "key_free wr_id nid (runs d)"
  shows "insert_run (new_run now nid rid wfid (run_number_of rid d) event sha branch) d
     = (Inr (), d\<lparr>runs := insert_row (new_run now nid rid wfid (run_number_of rid d) event sha branch) (runs d)\<rparr>)"
  using assms run_numbers.next_free [of rid d]
  by (simp add: insert_run_def new_run_def run_number_of_def)

lemma dispatch_runs [simp]:
  "runs (snd (dispatch_hooks hl now fresh n event body hs d)) = runs d"
  "workflows (snd (dispatch_hooks hl now fresh n event body hs d)) = workflows d"
  "repos (snd (dispatch_hooks hl now fresh n event body hs d)) = repos d"
  by (induction hs arbitrary: n d) (simp_all add: record_delivery_def Let_def)

text \<open>Every hook of the event gets one request, signed with its own secret.\<close>

lemma dispatch_requests:
  "fst (dispatch_hooks hl now fresh n event body hs d) = map (hook_request hl event body) hs"
  by (induction hs arbitrary: n d) (simp_all add: Let_def)

end
