(* ===== verification/Artifacts.thy ===== *)
theory Artifacts
  imports Repo
begin

section \<open>Releases and packages (internal/release/release.go, internal/package/pkg.go)\<close>

text \<open>
  Both services keep rows in the database and contents in files below a root directory. The files
  are a map from path to contents; what the operating system answers when a directory or a file is
  created is a parameter, and a failed copy from the request body leaves the bytes read so far.
\<close>

type_synonym files = "string \<rightharpoonup> string"

record file_store =
  fo_root :: string
  fo_uuid :: "uuid \<Rightarrow> string"
  fo_mkdir :: "files \<Rightarrow> string \<Rightarrow> err option"
  fo_create :: "files \<Rightarrow> string \<Rightarrow> err option"

record release =
  rs_id :: uuid
  rs_repo :: uuid
  rs_tag :: string
  rs_name :: string
  rs_text :: string
  rs_author :: uuid
  rs_draft :: bool
  rs_prerelease :: bool
  rs_created :: instant

record asset =
  at_id :: uuid
  at_release :: uuid
  at_name :: string
  at_ctype :: string
  at_size :: int

record package =
  pa_id :: uuid
  pa_repo :: uuid
  pa_name :: string
  pa_type :: string
  pa_version :: string
  pa_created :: instant

definition release_of :: "release_row \<Rightarrow> release" where
  "release_of r = \<lparr>rs_id = rl_id r, rs_repo = rl_repo r, rs_tag = rl_tag r, rs_name = coalesce (rl_name r) [],
     rs_text = coalesce (rl_body r) [], rs_author = rl_author r, rs_draft = rl_draft r,
     rs_prerelease = rl_prerelease r, rs_created = rl_created r\<rparr>"

definition asset_of :: "asset_row \<Rightarrow> asset" where
  "asset_of r = \<lparr>at_id = as_id r, at_release = as_release r, at_name = as_name r, at_ctype = as_ctype r,
     at_size = as_size r\<rparr>"

definition package_of :: "package_row \<Rightarrow> package" where
  "package_of r = \<lparr>pa_id = pk_id r, pa_repo = pk_repo r, pa_name = pk_name r, pa_type = pk_type r,
     pa_version = pk_version r, pa_created = pk_created r\<rparr>"

subsection \<open>Releases\<close>

definition release_Create ::
  "instant \<Rightarrow> uuid \<Rightarrow> uuid \<Rightarrow> uuid \<Rightarrow> string \<Rightarrow> string \<Rightarrow> string \<Rightarrow> bool \<Rightarrow> bool \<Rightarrow> db \<Rightarrow> release result \<times> db" where
  "release_Create now nid rid author tag name body draft prerelease d =
     (let r = \<lparr>rl_id = nid, rl_repo = rid, rl_tag = tag, rl_name = Some name, rl_body = Some body,
               rl_author = author, rl_draft = draft, rl_prerelease = prerelease, rl_created = now\<rparr>
      in if \<not> key_free rl_id nid (releases d) then (Inl (UniqueViolation ''releases_pkey''), d)
         else if \<not> key_free (\<lambda>q. (rl_repo q, rl_tag q)) (rid, tag) (releases d)
         then (Inl (UniqueViolation ''releases_repo_id_tag_name_key''), d)
         else if \<not> repo_exists rid d then (Inl (ForeignKeyViolation ''releases_repo_id_fkey''), d)
         else if \<not> user_exists author d then (Inl (ForeignKeyViolation ''releases_author_id_fkey''), d)
         else (Inr (release_of r), d\<lparr>releases := insert_row r (releases d)\<rparr>))"

definition release_List :: "uuid \<Rightarrow> db \<Rightarrow> release list" where
  "release_List rid d = map release_of (order_by_desc rl_created (rows_where (\<lambda>r. rl_repo r = rid) (releases d)))"

definition GetByTag :: "uuid \<Rightarrow> string \<Rightarrow> db \<Rightarrow> release result" where
  "GetByTag rid tag d =
     (case query_row (\<lambda>r. rl_repo r = rid \<and> rl_tag r = tag) (releases d) of
        None \<Rightarrow> Inl NoRows
      | Some r \<Rightarrow> Inr (release_of r))"

text \<open>
  The body is what the request reader yields and whether it ended without an error. The row is
  inserted after the file is written, so a row that is refused leaves the file.
\<close>

definition UploadAsset ::
  "file_store \<Rightarrow> uuid \<Rightarrow> uuid \<Rightarrow> string \<Rightarrow> string \<Rightarrow> string \<times> err option \<Rightarrow> int \<Rightarrow> files \<Rightarrow> db
     \<Rightarrow> asset result \<times> files \<times> db" where
  "UploadAsset fo nid relid name contentType body nbytes fs d =
     (let dir = path_join [fo_root fo, fo_uuid fo relid];
          path = path_join [dir, name];
          fs1 = fs(path \<mapsto> fst body);
          r = \<lparr>as_id = nid, as_release = relid, as_name = name, as_ctype = contentType, as_size = nbytes,
               as_path = path\<rparr>
      in case (fo_mkdir fo fs dir, fo_create fo fs path, snd body) of
           (Some e, _, _) \<Rightarrow> (Inl e, fs, d)
         | (None, Some e, _) \<Rightarrow> (Inl e, fs, d)
         | (None, None, Some e) \<Rightarrow> (Inl e, fs1, d)
         | (None, None, None) \<Rightarrow>
             if \<not> key_free as_id nid (assets d) then (Inl (UniqueViolation ''release_assets_pkey''), fs1, d)
             else if \<not> references rl_id relid (releases d)
             then (Inl (ForeignKeyViolation ''release_assets_release_id_fkey''), fs1, d)
             else (Inr (asset_of r), fs1, d\<lparr>assets := insert_row r (assets d)\<rparr>))"

definition open_file :: "string \<Rightarrow> files \<Rightarrow> string result" where
  "open_file path fs =
     (case fs path of None \<Rightarrow> Inl (ErrMsg (''open '' @ path @ '': no such file or directory'')) | Some b \<Rightarrow> Inr b)"

definition OpenAsset :: "uuid \<Rightarrow> files \<Rightarrow> db \<Rightarrow> (string \<times> string) result" where
  "OpenAsset aid fs d =
     (case query_row (\<lambda>r. as_id r = aid) (assets d) of
        None \<Rightarrow> Inl NoRows
      | Some r \<Rightarrow> map_sum (\<lambda>e. e) (Pair (as_path r)) (open_file (as_path r) fs))"

definition ListAssets :: "uuid \<Rightarrow> db \<Rightarrow> asset list" where
  "ListAssets relid d = map asset_of (order_by as_name (rows_where (\<lambda>r. as_release r = relid) (assets d)))"

definition OpenAssetByName :: "uuid \<Rightarrow> string \<Rightarrow> files \<Rightarrow> db \<Rightarrow> (asset \<times> string) result" where
  "OpenAssetByName relid name fs d =
     (case query_row (\<lambda>r. as_release r = relid \<and> as_name r = name) (assets d) of
        None \<Rightarrow> Inl NoRows
      | Some r \<Rightarrow> map_sum (\<lambda>e. e) (Pair (asset_of r)) (open_file (as_path r) fs))"

subsection \<open>Packages\<close>

definition same_package :: "uuid \<Rightarrow> string \<Rightarrow> string \<Rightarrow> package_row \<Rightarrow> bool" where
  "same_package rid name version r = (pk_repo r = rid \<and> pk_name r = name \<and> pk_version r = version)"

definition Publish ::
  "file_store \<Rightarrow> instant \<Rightarrow> uuid \<Rightarrow> uuid \<Rightarrow> string \<Rightarrow> string \<Rightarrow> string \<Rightarrow> string \<times> err option
     \<Rightarrow> files \<Rightarrow> db \<Rightarrow> package result \<times> files \<times> db" where
  "Publish fo now nid rid name pkgType version body fs d =
     (let dir = path_join [fo_root fo, fo_uuid fo rid, name, version];
          path = path_join [dir, ''artifact''];
          fs1 = fs(path \<mapsto> fst body);
          new = \<lparr>pk_id = nid, pk_repo = rid, pk_name = name, pk_type = pkgType, pk_version = version,
                 pk_path = path, pk_created = now\<rparr>
      in case (fo_mkdir fo fs dir, fo_create fo fs path, snd body) of
           (Some e, _, _) \<Rightarrow> (Inl e, fs, d)
         | (None, Some e, _) \<Rightarrow> (Inl e, fs, d)
         | (None, None, Some e) \<Rightarrow> (Inl e, fs1, d)
         | (None, None, None) \<Rightarrow>
             (case query_row (same_package rid name version) (packages d) of
                Some r \<Rightarrow> (Inr (package_of r), fs1,
                           d\<lparr>packages := update_where (same_package rid name version) (\<lambda>q. q\<lparr>pk_path := path\<rparr>)
                               (packages d)\<rparr>)
              | None \<Rightarrow>
                  if \<not> key_free pk_id nid (packages d) then (Inl (UniqueViolation ''packages_pkey''), fs1, d)
                  else if \<not> repo_exists rid d then (Inl (ForeignKeyViolation ''packages_repo_id_fkey''), fs1, d)
                  else (Inr (package_of new), fs1, d\<lparr>packages := insert_row new (packages d)\<rparr>)))"

definition package_List :: "uuid \<Rightarrow> db \<Rightarrow> package list" where
  "package_List rid d = map package_of (order_by_desc pk_created (rows_where (\<lambda>r. pk_repo r = rid) (packages d)))"

definition package_Open :: "uuid \<Rightarrow> string \<Rightarrow> string \<Rightarrow> files \<Rightarrow> db \<Rightarrow> string result" where
  "package_Open rid name version fs d =
     (case query_row (same_package rid name version) (packages d) of
        None \<Rightarrow> Inl NoRows
      | Some r \<Rightarrow> open_file (pk_path r) fs)"

text \<open>What is published is what is opened, also when a version is published again.\<close>

lemma Publish_open:
  assumes "Publish fo now nid rid name ty version (bytes, None) fs d = (Inr p, fs1, d1)"
  shows "package_Open rid name version fs1 d1 = Inr bytes"
proof -
  let ?same = "same_package rid name version"
  let ?path = "path_join [path_join [fo_root fo, fo_uuid fo rid, name, version], ''artifact'']"
  have ok: "fo_mkdir fo fs (path_join [fo_root fo, fo_uuid fo rid, name, version]) = None"
      "fo_create fo fs ?path = None"
    using assms by (auto simp: Publish_def Let_def split: option.splits)
  note run = assms [unfolded Publish_def Let_def ok snd_conv option.case prod.case]
  have fs1: "fs1 = fs(?path \<mapsto> bytes)"
    using run by (auto split: option.splits if_splits)
  have "\<exists>r. query_row ?same (packages d1) = Some r \<and> pk_path r = ?path"
  proof (cases "query_row ?same (packages d)")
    case None
    then show ?thesis using run by (auto simp: query_row_insert same_package_def split: if_splits)
  next
    case (Some r)
    then have d1: "d1 = d\<lparr>packages := update_where ?same (\<lambda>q. q\<lparr>pk_path := ?path\<rparr>) (packages d)\<rparr>"
      using run by simp
    have "?same r" using query_row_Some [OF Some] by simp
    moreover have "query_row ?same (packages d1) = map_option (\<lambda>q. if ?same q then q\<lparr>pk_path := ?path\<rparr> else q) (Some r)"
      unfolding Some [symmetric] by (simp add: d1, rule query_row_update) (simp add: same_package_def)
    ultimately show ?thesis by simp
  qed
  then show ?thesis using fs1 by (auto simp: package_Open_def open_file_def)
qed

text \<open>The name of an asset is not checked: one with dots leaves the directory of the release.\<close>

lemma asset_path_escapes:
  "path_join [path_join [''/data'', ''r''], ''../../etc/passwd''] = ''/etc/passwd''"
  by code_simp

end
