(* ===== verification/Presence.thy ===== *)
theory Presence
  imports GoStrings
begin

section \<open>Presence (internal/presence/presence.go)\<close>

text \<open>
  Who is looking at a repository: heartbeats kept in memory per resource and user, forgotten after
  a minute. The nested maps are association lists in the order of first insertion; Go's iteration
  order is unspecified, so only the set of the viewers means anything. The mutex makes operations
  atomic, and \<open>cleanup\<close> is one turn of the goroutine.
\<close>

record presence_info =
  pi_user :: string
  pi_name :: string
  pi_resource :: string
  pi_seen :: instant

record tracker =
  tk_active :: "(string \<times> (string \<times> presence_info) list) list"
  tk_ttl :: duration

definition NewTracker :: tracker where
  "NewTracker = \<lparr>tk_active = [], tk_ttl = 60 * second\<rparr>"

definition Heartbeat :: "instant \<Rightarrow> string \<Rightarrow> string \<Rightarrow> string \<Rightarrow> tracker \<Rightarrow> tracker" where
  "Heartbeat now userID name resource tk =
     (let viewers = (case map_of (tk_active tk) resource of None \<Rightarrow> [] | Some us \<Rightarrow> us);
          info = \<lparr>pi_user = userID, pi_name = name, pi_resource = resource, pi_seen = now\<rparr>
      in tk\<lparr>tk_active := assoc_put resource (assoc_put userID info viewers) (tk_active tk)\<rparr>)"

definition GetActiveViewers :: "instant \<Rightarrow> string \<Rightarrow> tracker \<Rightarrow> string list" where
  "GetActiveViewers now resource tk =
     (case map_of (tk_active tk) resource of
        None \<Rightarrow> []
      | Some us \<Rightarrow> map pi_name (filter (\<lambda>i. now - pi_seen i \<le> tk_ttl tk) (map snd us)))"

definition presence_cleanup :: "instant \<Rightarrow> tracker \<Rightarrow> tracker" where
  "presence_cleanup now tk =
     tk\<lparr>tk_active := filter (\<lambda>ru. snd ru \<noteq> [])
        (map (\<lambda>ru. (fst ru, filter (\<lambda>ui. \<not> now - pi_seen (snd ui) > tk_ttl tk) (snd ru))) (tk_active tk))\<rparr>"

subsection \<open>What the tracker stands for\<close>

text \<open>
  The specification keeps, for every resource and user, the name and time of the last heartbeat, and
  forgets nothing. A step of the world is a heartbeat, a cleanup, or time going by.
\<close>

type_synonym beats = "string \<times> string \<rightharpoonup> string \<times> instant"

inductive presence_step :: "instant \<times> tracker \<times> beats \<Rightarrow> instant \<times> tracker \<times> beats \<Rightarrow> bool" where
  beat: "presence_step (t, tk, bs) (t, Heartbeat t uid name res tk, bs((res, uid) \<mapsto> (name, t)))"
| clean: "presence_step (t, tk, bs) (t, presence_cleanup t tk, bs)"
| wait: "t \<le> t1 \<Longrightarrow> presence_step (t, tk, bs) (t1, tk, bs)"

definition seen :: "tracker \<Rightarrow> string \<Rightarrow> string \<Rightarrow> (string \<times> instant) option" where
  "seen tk res uid =
     (case map_of (tk_active tk) res of
        None \<Rightarrow> None
      | Some us \<Rightarrow> map_option (\<lambda>i. (pi_name i, pi_seen i)) (map_of us uid))"

definition tracks :: "instant \<Rightarrow> tracker \<Rightarrow> beats \<Rightarrow> bool" where
  "tracks now tk bs =
     (tk_ttl tk = 60 * second
      \<and> distinct (map fst (tk_active tk))
      \<and> (\<forall>res us. map_of (tk_active tk) res = Some us \<longrightarrow> distinct (map fst us))
      \<and> (\<forall>res uid. seen tk res uid = bs (res, uid)
           \<or> seen tk res uid = None \<and> (\<forall>name at. bs (res, uid) = Some (name, at) \<longrightarrow> now - at > 60 * second)))"

lemma seen_Heartbeat:
  "seen (Heartbeat now u name r tk) res uid = (if res = r \<and> uid = u then Some (name, now) else seen tk res uid)"
  by (auto simp: seen_def Heartbeat_def split: option.split)

lemma map_of_active_cleanup:
  "distinct (map fst m) \<Longrightarrow> map_of (filter (\<lambda>ru. snd ru \<noteq> []) (map (\<lambda>ru. (fst ru, f (snd ru))) m)) res =
     (case map_of m res of None \<Rightarrow> None | Some us \<Rightarrow> if f us = [] then None else Some (f us))"
proof (induction m)
  case (Cons p m)
  have none: "map_of (filter (\<lambda>ru. snd ru \<noteq> []) (map (\<lambda>ru. (fst ru, f (snd ru))) m)) k = None"
    if "k \<notin> fst ` set m" for k
    using that by (force simp: map_of_eq_None_iff)
  show ?case using Cons none [of "fst p"] by (cases p) (auto split: option.split)
qed simp

lemma map_of_filter_distinct:
  "distinct (map fst m) \<Longrightarrow> map_of (filter P m) k =
     (case map_of m k of None \<Rightarrow> None | Some v \<Rightarrow> if P (k, v) then Some v else None)"
proof (induction m)
  case (Cons p m)
  have "map_of (filter P m) (fst p) = None" if "fst p \<notin> fst ` set m"
    using that by (force simp: map_of_eq_None_iff)
  then show ?case using Cons by (cases p) (auto split: option.split)
qed simp

lemma seen_cleanup:
  assumes "tracks now tk bs"
  shows "seen (presence_cleanup now tk) res uid =
    (case seen tk res uid of None \<Rightarrow> None | Some (n, at) \<Rightarrow> if now - at > tk_ttl tk then None else Some (n, at))"
proof -
  let ?f = "\<lambda>us. filter (\<lambda>ui. \<not> now - pi_seen (snd ui) > tk_ttl tk) us"
  have d: "distinct (map fst (tk_active tk))" using assms by (simp add: tracks_def)
  show ?thesis
  proof (cases "map_of (tk_active tk) res")
    case None
    then show ?thesis
      by (simp add: seen_def presence_cleanup_def map_of_active_cleanup [where f = ?f] d)
  next
    case (Some us)
    then have "distinct (map fst us)" using assms by (auto simp: tracks_def)
    then have "map_of (?f us) uid = (case map_of us uid of None \<Rightarrow> None
        | Some i \<Rightarrow> if \<not> now - pi_seen i > tk_ttl tk then Some i else None)"
      by (simp add: map_of_filter_distinct split: option.split)
    moreover have "map_of [] uid = None" by simp
    ultimately show ?thesis using Some
      by (auto simp: seen_def presence_cleanup_def map_of_active_cleanup [where f = ?f] d split: option.splits if_splits)
  qed
qed

lemma tracks_Heartbeat: "tracks now tk bs \<Longrightarrow> tracks now (Heartbeat now uid name res tk) (bs((res, uid) \<mapsto> (name, now)))"
  unfolding tracks_def
proof (elim conjE, intro conjI allI impI)
  fix r us
  assume d: "\<forall>res us. map_of (tk_active tk) res = Some us \<longrightarrow> distinct (map fst us)"
    and us: "map_of (tk_active (Heartbeat now uid name res tk)) r = Some us"
  show "distinct (map fst us)"
  proof (cases "r = res")
    case True
    with us show ?thesis using d by (auto simp: Heartbeat_def intro!: distinct_assoc_put split: option.splits)
  next
    case False
    with us show ?thesis using d by (simp add: Heartbeat_def)
  qed
next
  fix r u
  assume "\<forall>res uid. seen tk res uid = bs (res, uid)
      \<or> seen tk res uid = None \<and> (\<forall>name at. bs (res, uid) = Some (name, at) \<longrightarrow> now - at > 60 * second)"
  then show "seen (Heartbeat now uid name res tk) r u = (bs((res, uid) \<mapsto> (name, now))) (r, u)
      \<or> seen (Heartbeat now uid name res tk) r u = None
        \<and> (\<forall>n at. (bs((res, uid) \<mapsto> (name, now))) (r, u) = Some (n, at) \<longrightarrow> now - at > 60 * second)"
    by (simp add: seen_Heartbeat)
qed (simp_all add: Heartbeat_def distinct_assoc_put)

lemma tracks_cleanup: "tracks now tk bs \<Longrightarrow> tracks now (presence_cleanup now tk) bs"
proof -
  assume tr: "tracks now tk bs"
  let ?f = "\<lambda>us. filter (\<lambda>ui. \<not> now - pi_seen (snd ui) > tk_ttl tk) us"
  have d: "distinct (map fst (tk_active tk))" using tr by (simp add: tracks_def)
  have "distinct (map fst (filter (\<lambda>ru. snd ru \<noteq> []) (map (\<lambda>ru. (fst ru, ?f (snd ru))) (tk_active tk))))"
    using d by (intro distinct_map_filter) (simp add: comp_def)
  moreover have "distinct (map fst us)" if "map_of (tk_active (presence_cleanup now tk)) r = Some us" for r us
    using that tr
    by (auto simp: presence_cleanup_def map_of_active_cleanup [where f = ?f] d tracks_def intro!: distinct_map_filter
        split: option.splits if_splits)
  moreover have "seen (presence_cleanup now tk) r u = bs (r, u)
      \<or> seen (presence_cleanup now tk) r u = None \<and> (\<forall>n at. bs (r, u) = Some (n, at) \<longrightarrow> now - at > 60 * second)" for r u
  proof -
    have "seen tk r u = bs (r, u) \<or> seen tk r u = None \<and> (\<forall>n at. bs (r, u) = Some (n, at) \<longrightarrow> now - at > 60 * second)"
        "tk_ttl tk = 60 * second"
      using tr by (simp_all add: tracks_def)
    then show ?thesis unfolding seen_cleanup [OF tr]
      by (cases "seen tk r u"; cases "bs (r, u)") (auto split: if_splits)
  qed
  ultimately show ?thesis using tr by (auto simp: tracks_def presence_cleanup_def)
qed

lemma tracks_wait: "tracks now tk bs \<Longrightarrow> now \<le> t1 \<Longrightarrow> tracks t1 tk bs"
  unfolding tracks_def by fastforce

lemma tracks_run:
  "presence_step\<^sup>*\<^sup>* a b \<Longrightarrow> tracks (fst a) (fst (snd a)) (snd (snd a)) \<Longrightarrow> tracks (fst b) (fst (snd b)) (snd (snd b))"
proof (induction rule: rtranclp_induct)
  case (step y z)
  from step.hyps(2) show ?case
  proof (cases rule: presence_step.cases)
    case (beat t tk bs uid name res)
    show ?thesis using tracks_Heartbeat step.IH [OF step.prems] unfolding beat by (simp only: fst_conv snd_conv)
  next
    case (clean t tk bs)
    then show ?thesis using tracks_cleanup [of t tk bs] step.IH [OF step.prems] by simp
  next
    case (wait t t1 tk bs)
    then show ?thesis using tracks_wait [of t tk bs t1] step.IH [OF step.prems] by simp
  qed
qed

lemma viewers_seen:
  assumes "\<forall>us. map_of (tk_active tk) res = Some us \<longrightarrow> distinct (map fst us)"
  shows "set (GetActiveViewers now res tk) = {name. \<exists>uid at. seen tk res uid = Some (name, at) \<and> now - at \<le> tk_ttl tk}"
proof (cases "map_of (tk_active tk) res")
  case (Some us)
  then have d: "distinct (map fst us)" using assms by simp
  have "i \<in> snd ` set us \<longleftrightarrow> (\<exists>uid. map_of us uid = Some i)" for i
    using d by (force simp: map_of_eq_Some_iff)
  with Some show ?thesis by (auto simp: GetActiveViewers_def seen_def)
qed (simp add: GetActiveViewers_def seen_def)

lemma NewTracker_tracks: "tracks now NewTracker Map.empty"
  by (simp add: tracks_def NewTracker_def seen_def)

text \<open>C31: The presence tracker shows exactly the users whose last heartbeat for the resource is at most a
  minute old, whatever heartbeats and cleanups came before and however time passed between them.\<close>

theorem presence_exact:
  assumes "presence_step\<^sup>*\<^sup>* (start, NewTracker, Map.empty) (now, tk, bs)"
  shows "set (GetActiveViewers now res tk) = {name. \<exists>uid at. bs (res, uid) = Some (name, at) \<and> now - at \<le> 60 * second}"
proof -
  have tr: "tracks now tk bs" using tracks_run [OF assms] NewTracker_tracks by simp
  then have "set (GetActiveViewers now res tk) = {name. \<exists>uid at. seen tk res uid = Some (name, at) \<and> now - at \<le> tk_ttl tk}"
    by (intro viewers_seen) (auto simp: tracks_def)
  also have "\<dots> = {name. \<exists>uid at. bs (res, uid) = Some (name, at) \<and> now - at \<le> 60 * second}"
    using tr unfolding tracks_def by (intro Collect_cong iff_exI) (metis not_le option.distinct(1))
  finally show ?thesis .
qed

lemma presence_exact_witness:
  "set (GetActiveViewers (61 * second) ''ann/code'' (Heartbeat (30 * second) ''2'' ''bob'' ''ann/code''
      (Heartbeat 0 ''1'' ''ann'' ''ann/code'' NewTracker))) = {''bob''}"
proof -
  define b1 where "b1 = (Map.empty :: beats)((''ann/code'', ''1'') \<mapsto> (''ann'', 0))"
  define b2 where "b2 = b1((''ann/code'', ''2'') \<mapsto> (''bob'', 30 * second))"
  define t1 where "t1 = Heartbeat 0 ''1'' ''ann'' ''ann/code'' NewTracker"
  define t2 where "t2 = Heartbeat (30 * second) ''2'' ''bob'' ''ann/code'' t1"
  have "presence_step (0, NewTracker, Map.empty) (0, t1, b1)" unfolding t1_def b1_def by (rule beat)
  moreover have "presence_step (0, t1, b1) (30 * second, t1, b1)" by (rule wait) (simp add: second_def)
  moreover have "presence_step (30 * second, t1, b1) (30 * second, t2, b2)" unfolding t2_def b2_def by (rule beat)
  moreover have "presence_step (30 * second, t2, b2) (61 * second, t2, b2)" by (rule wait) (simp add: second_def)
  ultimately have run: "presence_step\<^sup>*\<^sup>* (0, NewTracker, Map.empty) (61 * second, t2, b2)"
    by (blast intro: converse_rtranclp_into_rtranclp)
  have "set (GetActiveViewers (61 * second) ''ann/code'' t2) = {''bob''}"
  proof -
    have b: "b2 (''ann/code'', uid) = Some (name, at) \<longleftrightarrow> uid = ''2'' \<and> name = ''bob'' \<and> at = 30 * second
        \<or> uid = ''1'' \<and> name = ''ann'' \<and> at = 0" for uid name at
      by (auto simp: b2_def b1_def)
    have "61 * second - 30 * second \<le> 60 * second" "\<not> 61 * second - 0 \<le> 60 * second" by (simp_all add: second_def)
    then have "{name. \<exists>uid at. b2 (''ann/code'', uid) = Some (name, at) \<and> 61 * second - at \<le> 60 * second} = {''bob''}"
      unfolding b by blast
    then show ?thesis using presence_exact [OF run, of "''ann/code''"] by simp
  qed
  then show ?thesis by (simp add: t2_def t1_def)
qed

end
