(* ===== verification/Aireview.thy ===== *)
theory Aireview
  imports Schema GoStrings
begin

section \<open>Reviews by a language model (internal/aireview: client.go, service.go)\<close>

text \<open>
  The client asks a chat service to review a diff; the service keeps the answers. The request and
  answer JSON and the HTTP exchange are parameters: \<open>lb_request\<close> encodes the model and the user prompt
  (with the fixed system prompt), \<open>lb_post\<close> sends it, \<open>lb_contents\<close> decodes the contents of the choices.
\<close>

record ai_config =
  acf_enabled :: bool
  acf_key :: string
  acf_base :: string
  acf_model :: string
  acf_auto :: bool

record ai_lib =
  lb_request :: "string \<Rightarrow> string \<Rightarrow> string result"
  lb_post :: "string \<Rightarrow> string \<Rightarrow> string \<Rightarrow> (int \<times> string) result"
  lb_contents :: "string \<Rightarrow> string list result"

definition maxDiffBytes :: nat where "maxDiffBytes = 100000"

definition NewClient :: "ai_config \<Rightarrow> ai_config" where
  "NewClient cfg = cfg\<lparr>
     acf_base := trim_right (\<lambda>c. c = CHR ''/'') (if acf_base cfg = [] then ''https://opencode.ai/zen/go/v1'' else acf_base cfg),
     acf_model := (if acf_model cfg = [] then ''deepseek-v4-flash'' else acf_model cfg)\<rparr>"

definition ai_Enabled :: "ai_config \<Rightarrow> bool" where
  "ai_Enabled c = (acf_enabled c \<and> acf_key c \<noteq> [])"

record review_input =
  ri_title :: string
  ri_body :: string
  ri_diff :: string
  ri_model :: string

definition truncate :: "string \<Rightarrow> nat \<Rightarrow> string" where
  "truncate s n = (if length s \<le> n then s else take n s @ ''...'')"

definition review_prompt :: "review_input \<Rightarrow> string" where
  "review_prompt inp =
     (let n = [CHR 0x0A]; fence = [CHR 0x60, CHR 0x60, CHR 0x60];
          long = length (ri_diff inp) > maxDiffBytes;
          diff = (if long then take maxDiffBytes (ri_diff inp) else ri_diff inp)
      in ''Review this pull request.'' @ n @ n @ ''Title: '' @ ri_title inp @ n @ n @ ''Description:'' @ n @ ri_body inp
         @ n @ n @ ''Diff:'' @ n @ fence @ n @ diff @ n @ fence
         @ (if long then n @ n @ ''(Note: diff was truncated due to size limits.)'' else []))"

definition ai_Review :: "ai_lib \<Rightarrow> ai_config \<Rightarrow> review_input \<Rightarrow> string result" where
  "ai_Review lb c inp =
     (if \<not> ai_Enabled c then Inl (ErrMsg ''ai review is not configured'')
      else (case lb_request lb (if ri_model inp = [] then acf_model c else ri_model inp) (review_prompt inp) of
              Inl e \<Rightarrow> Inl e
            | Inr raw \<Rightarrow>
                (case lb_post lb (acf_base c @ ''/chat/completions'') (acf_key c) raw of
                   Inl e \<Rightarrow> Inl (ErrMsg (''ai request: '' @ err_text e))
                 | Inr (code, body) \<Rightarrow>
                     if code \<noteq> 200
                     then Inl (ErrMsg (''ai request failed ('' @ int_string code @ ''): '' @ truncate body 500))
                     else (case lb_contents lb body of
                             Inl e \<Rightarrow> Inl (ErrMsg (''parse ai response: '' @ err_text e))
                           | Inr [] \<Rightarrow> Inl (ErrMsg ''empty ai response'')
                           | Inr (c # cs) \<Rightarrow> if c = [] then Inl (ErrMsg ''empty ai response'') else Inr c))))"

subsection \<open>Stored reviews\<close>

record ai_review =
  air_id :: uuid
  air_pr :: uuid
  air_model :: string
  air_body :: string
  air_created :: instant

definition ai_review_of :: "ai_review_row \<Rightarrow> ai_review" where
  "ai_review_of r = \<lparr>air_id = ai_id r, air_pr = ai_pr r, air_model = ai_model r, air_body = ai_body r, air_created = ai_created r\<rparr>"

definition ai_Save :: "instant \<Rightarrow> uuid \<Rightarrow> uuid \<Rightarrow> string \<Rightarrow> string \<Rightarrow> db \<Rightarrow> ai_review result \<times> db" where
  "ai_Save now nid pid model body d =
     (let r = \<lparr>ai_id = nid, ai_pr = pid, ai_model = model, ai_body = body, ai_created = now\<rparr>
      in if \<not> key_free ai_id nid (ai_reviews d) then (Inl (UniqueViolation ''pr_ai_reviews_pkey''), d)
         else if \<not> references pr_id pid (pulls d) then (Inl (ForeignKeyViolation ''pr_ai_reviews_pr_id_fkey''), d)
         else (Inr (ai_review_of r), d\<lparr>ai_reviews := insert_row r (ai_reviews d)\<rparr>))"

definition ai_List :: "uuid \<Rightarrow> db \<Rightarrow> ai_review list" where
  "ai_List pid d = map ai_review_of (order_by_desc ai_created (rows_where (\<lambda>r. ai_pr r = pid) (ai_reviews d)))"

lemma ai_List_saved:
  assumes "ai_Save now nid pid model body d = (Inr r, d1)"
  shows "air_body r = body \<and> r \<in> set (ai_List pid d1)"
proof -
  let ?row = "\<lparr>ai_id = nid, ai_pr = pid, ai_model = model, ai_body = body, ai_created = now\<rparr>"
  have "r = ai_review_of ?row" "?row \<in> set (ai_reviews d1)"
    using assms by (auto simp: ai_Save_def insert_row_def Let_def split: if_splits)
  then show ?thesis
    by (auto simp: ai_List_def ai_review_of_def order_by_desc_def rows_where_def intro!: image_eqI [where x = ?row])
qed

lemma review_prompt_bound:
  "length (review_prompt inp) \<le> length (ri_title inp) + length (ri_body inp) + maxDiffBytes + 200"
  by (simp add: review_prompt_def Let_def)

end
