(* ===== verification/Issue.thy ===== *)
theory Issue
  imports Repo Numbering
begin

section \<open>Issues (internal/issue/issue.go)\<close>

text \<open>
  Issues with their comments, labels, assignees, milestones, timeline and reactions. The columns
  a query joins in are looked up by key, since the keys they are joined on are unique. Foreign
  keys are checked after the unique keys, as Postgres does. The metadata of a timeline event is
  the JSON text it is stored as; its encoder is an argument.
\<close>

subsection \<open>Data\<close>

record label =
  lb_id :: uuid
  lb_name :: string
  lb_color :: string

record issue =
  iu_id :: uuid
  iu_repo :: uuid
  iu_number :: int
  iu_title :: string
  iu_body :: string
  iu_state :: string
  iu_author_id :: uuid
  iu_author :: string
  iu_assignee_id :: "uuid option"
  iu_assignee :: string
  iu_milestone_id :: "uuid option"
  iu_milestone :: string
  iu_labels :: "label list"
  iu_assignees :: "string list"
  iu_created :: instant
  iu_updated :: instant

record issue_comment =
  cm_id :: uuid
  cm_issue :: uuid
  cm_author_id :: uuid
  cm_author :: string
  cm_body :: string
  cm_created :: instant

record timeline_event =
  tl_id :: uuid
  tl_issue :: uuid
  tl_actor_id :: "uuid option"
  tl_actor :: string
  tl_type :: string
  tl_meta :: string
  tl_created :: instant

record reaction =
  re_id :: uuid
  re_issue :: uuid
  re_comment :: "uuid option"
  re_user :: uuid
  re_username :: string
  re_content :: string
  re_created :: instant

record milestone =
  ml_id :: uuid
  ml_repo :: uuid
  ml_title :: string
  ml_desc :: string
  ml_state :: string
  ml_due :: "instant option"
  ml_created :: instant

subsection \<open>Reading an issue\<close>

definition milestone_title :: "uuid option \<Rightarrow> db \<Rightarrow> string" where
  "milestone_title mid d =
     (case mid of None \<Rightarrow> []
      | Some m \<Rightarrow> coalesce (map_option ms_title (query_row (\<lambda>r. ms_id r = m) (milestones d))) [])"

definition scanIssue :: "db \<Rightarrow> issue_row \<Rightarrow> issue" where
  "scanIssue d r = \<lparr>iu_id = i_id r, iu_repo = i_repo r, iu_number = i_number r, iu_title = i_title r,
     iu_body = coalesce (i_body r) [], iu_state = i_state r, iu_author_id = i_author r,
     iu_author = username (i_author r) d, iu_assignee_id = i_assignee r,
     iu_assignee = username_opt (i_assignee r) d, iu_milestone_id = i_milestone r,
     iu_milestone = milestone_title (i_milestone r) d, iu_labels = [], iu_assignees = [],
     iu_created = i_created r, iu_updated = i_updated r\<rparr>"

definition label_of :: "label_row \<Rightarrow> label" where
  "label_of r = \<lparr>lb_id = l_id r, lb_name = l_name r, lb_color = l_color r\<rparr>"

definition loadLabels :: "uuid \<Rightarrow> db \<Rightarrow> label list" where
  "loadLabels iid d =
     map (\<lambda>(l, il). label_of l)
       (order_by (\<lambda>(l, il). l_name l)
          (rows_where (\<lambda>(l, il). fst il = iid)
             (join_on (\<lambda>l il. snd il = l_id l) (labels d) (issue_labels d))))"

definition loadAssignees :: "uuid \<Rightarrow> db \<Rightarrow> string list" where
  "loadAssignees iid d =
     map (\<lambda>(ia, u). u_name u)
       (order_by (\<lambda>(ia, u). u_name u)
          (rows_where (\<lambda>(ia, u). fst ia = iid)
             (join_on (\<lambda>ia u. snd ia = u_id u) (assignees d) (users d))))"

definition enrich :: "db \<Rightarrow> issue \<Rightarrow> issue" where
  "enrich d i = i\<lparr>iu_labels := loadLabels (iu_id i) d, iu_assignees := loadAssignees (iu_id i) d\<rparr>"

definition issue_GetByID :: "uuid \<Rightarrow> db \<Rightarrow> issue result" where
  "issue_GetByID id0 d =
     (case query_row (\<lambda>r. i_id r = id0) (issues d) of
        None \<Rightarrow> Inl NoRows
      | Some r \<Rightarrow> Inr (enrich d (scanIssue d r)))"

definition issue_Get :: "uuid \<Rightarrow> int \<Rightarrow> db \<Rightarrow> issue result" where
  "issue_Get rid number d =
     (case query_row (\<lambda>r. (i_repo r, i_number r) = (rid, number)) (issues d) of
        None \<Rightarrow> Inl NoRows
      | Some r \<Rightarrow> Inr (enrich d (scanIssue d r)))"

definition issue_ListPaginated :: "uuid \<Rightarrow> int \<Rightarrow> int \<Rightarrow> db \<Rightarrow> issue list" where
  "issue_ListPaginated rid limit offset d =
     map (\<lambda>r. enrich d (scanIssue d r))
       (page limit offset (order_by_desc i_number (rows_where (\<lambda>r. i_repo r = rid) (issues d))))"

definition issue_List :: "uuid \<Rightarrow> db \<Rightarrow> issue list" where
  "issue_List rid d = issue_ListPaginated rid 0 0 d"

definition CountByRepo :: "uuid \<Rightarrow> db \<Rightarrow> nat \<times> nat" where
  "CountByRepo rid d =
     (rows_affected (\<lambda>r. i_repo r = rid \<and> i_state r = ''open'') (issues d),
      rows_affected (\<lambda>r. i_repo r = rid \<and> i_state r = ''closed'') (issues d))"

subsection \<open>Creating an issue\<close>

definition issue_number_of :: "uuid \<Rightarrow> db \<Rightarrow> int" where
  "issue_number_of rid d = next_number i_repo i_number rid (issues d)"

definition new_issue_row :: "instant \<Rightarrow> uuid \<Rightarrow> uuid \<Rightarrow> int \<Rightarrow> uuid \<Rightarrow> string \<Rightarrow> string \<Rightarrow> issue_row" where
  "new_issue_row now nid rid number author title body =
     \<lparr>i_id = nid, i_repo = rid, i_number = number, i_title = title, i_body = Some body,
      i_state = ''open'', i_author = author, i_assignee = None, i_milestone = None,
      i_created = now, i_updated = now, i_closed = None\<rparr>"

definition insert_issue :: "issue_row \<Rightarrow> db \<Rightarrow> unit result \<times> db" where
  "insert_issue r d =
     (if \<not> key_free i_id (i_id r) (issues d) then (Inl (UniqueViolation ''issues_pkey''), d)
      else if \<not> key_free (\<lambda>q. (i_repo q, i_number q)) (i_repo r, i_number r) (issues d)
      then (Inl (UniqueViolation ''issues_repo_id_number_key''), d)
      else if \<not> repo_exists (i_repo r) d then (Inl (ForeignKeyViolation ''issues_repo_id_fkey''), d)
      else if \<not> user_exists (i_author r) d then (Inl (ForeignKeyViolation ''issues_author_id_fkey''), d)
      else (Inr (), d\<lparr>issues := insert_row r (issues d)\<rparr>))"

text \<open>
  The second half of Create, with the number the first statement read; another request may have
  run in between.
\<close>

definition issue_Create_at ::
  "instant \<Rightarrow> uuid \<Rightarrow> uuid \<Rightarrow> int \<Rightarrow> uuid \<Rightarrow> string \<Rightarrow> string \<Rightarrow> db \<Rightarrow> issue result \<times> db" where
  "issue_Create_at now nid rid number author title body d =
     (case insert_issue (new_issue_row now nid rid number author title body) d of
        (Inl e, d1) \<Rightarrow> (Inl e, d1)
      | (Inr u, d1) \<Rightarrow> (issue_GetByID nid d1, d1))"

definition issue_Create ::
  "instant \<Rightarrow> uuid \<Rightarrow> uuid \<Rightarrow> uuid \<Rightarrow> string \<Rightarrow> string \<Rightarrow> db \<Rightarrow> issue result \<times> db" where
  "issue_Create now nid rid author title body d =
     issue_Create_at now nid rid (issue_number_of rid d) author title body d"

subsection \<open>Comments and labels\<close>

definition issue_exists :: "uuid \<Rightarrow> db \<Rightarrow> bool" where
  "issue_exists iid d = references i_id iid (issues d)"

definition comment_of :: "string \<Rightarrow> comment_row \<Rightarrow> issue_comment" where
  "comment_of author r = \<lparr>cm_id = ic_id r, cm_issue = ic_issue r, cm_author_id = ic_author r,
     cm_author = author, cm_body = ic_body r, cm_created = ic_created r\<rparr>"

definition issue_AddComment ::
  "instant \<Rightarrow> uuid \<Rightarrow> uuid \<Rightarrow> uuid \<Rightarrow> string \<Rightarrow> db \<Rightarrow> issue_comment result \<times> db" where
  "issue_AddComment now nid iid author body d =
     (let r = \<lparr>ic_id = nid, ic_issue = iid, ic_author = author, ic_body = body, ic_created = now\<rparr>
      in if \<not> key_free ic_id nid (comments d) then (Inl (UniqueViolation ''issue_comments_pkey''), d)
         else if \<not> issue_exists iid d then (Inl (ForeignKeyViolation ''issue_comments_issue_id_fkey''), d)
         else if \<not> user_exists author d then (Inl (ForeignKeyViolation ''issue_comments_author_id_fkey''), d)
         else (let d1 = d\<lparr>comments := insert_row r (comments d)\<rparr>
               in (Inr (comment_of (username author d1) r), d1)))"

definition issue_ListComments :: "uuid \<Rightarrow> db \<Rightarrow> issue_comment list" where
  "issue_ListComments iid d =
     map (\<lambda>r. comment_of (username (ic_author r) d) r)
       (order_by ic_created (rows_where (\<lambda>r. ic_issue r = iid) (comments d)))"

definition ListLabels :: "uuid \<Rightarrow> db \<Rightarrow> label list" where
  "ListLabels rid d = map label_of (order_by l_name (rows_where (\<lambda>r. l_repo r = rid) (labels d)))"

definition update_issue :: "uuid \<Rightarrow> (issue_row \<Rightarrow> issue_row) \<Rightarrow> db \<Rightarrow> db" where
  "update_issue iid f d = d\<lparr>issues := update_where (\<lambda>r. i_id r = iid) f (issues d)\<rparr>"

definition issue_Close :: "instant \<Rightarrow> uuid \<Rightarrow> db \<Rightarrow> unit result \<times> db" where
  "issue_Close now iid d =
     (Inr (), update_issue iid (\<lambda>r. r\<lparr>i_state := ''closed'', i_closed := Some now, i_updated := now\<rparr>) d)"

definition CreateLabel :: "uuid \<Rightarrow> uuid \<Rightarrow> string \<Rightarrow> string \<Rightarrow> db \<Rightarrow> label result \<times> db" where
  "CreateLabel nid rid name color d =
     (let r = \<lparr>l_id = nid, l_repo = rid, l_name = name, l_color = color\<rparr>
      in if \<not> key_free l_id nid (labels d) then (Inl (UniqueViolation ''labels_pkey''), d)
         else if \<not> key_free (\<lambda>q. (l_repo q, l_name q)) (rid, name) (labels d)
         then (Inl (UniqueViolation ''labels_repo_id_name_key''), d)
         else if \<not> repo_exists rid d then (Inl (ForeignKeyViolation ''labels_repo_id_fkey''), d)
         else (Inr (label_of r), d\<lparr>labels := insert_row r (labels d)\<rparr>))"

definition AddLabel :: "uuid \<Rightarrow> uuid \<Rightarrow> db \<Rightarrow> unit result \<times> db" where
  "AddLabel iid lid d =
     (if (iid, lid) \<in> set (issue_labels d) then (Inr (), d)
      else if \<not> issue_exists iid d then (Inl (ForeignKeyViolation ''issue_labels_issue_id_fkey''), d)
      else if \<not> references l_id lid (labels d) then (Inl (ForeignKeyViolation ''issue_labels_label_id_fkey''), d)
      else (Inr (), d\<lparr>issue_labels := insert_row (iid, lid) (issue_labels d)\<rparr>))"

definition RemoveLabel :: "uuid \<Rightarrow> uuid \<Rightarrow> db \<Rightarrow> unit result \<times> db" where
  "RemoveLabel iid lid d =
     (Inr (), d\<lparr>issue_labels := delete_where (\<lambda>p. fst p = iid \<and> snd p = lid) (issue_labels d)\<rparr>)"

definition GetLabelByID :: "uuid \<Rightarrow> db \<Rightarrow> label result" where
  "GetLabelByID lid d =
     (case query_row (\<lambda>r. l_id r = lid) (labels d) of None \<Rightarrow> Inl NoRows | Some r \<Rightarrow> Inr (label_of r))"

subsection \<open>Assignees\<close>

text \<open>An UPDATE that matches no row checks no foreign key.\<close>

definition SetAssignee :: "instant \<Rightarrow> uuid \<Rightarrow> uuid option \<Rightarrow> db \<Rightarrow> unit result \<times> db" where
  "SetAssignee now iid assignee d =
     (if issue_exists iid d \<and> (case assignee of None \<Rightarrow> False | Some u \<Rightarrow> \<not> user_exists u d)
      then (Inl (ForeignKeyViolation ''issues_assignee_id_fkey''), d)
      else (Inr (), update_issue iid (\<lambda>r. r\<lparr>i_assignee := assignee, i_updated := now\<rparr>) d))"

definition insert_assignee :: "uuid \<Rightarrow> uuid \<Rightarrow> db \<Rightarrow> unit result \<times> db" where
  "insert_assignee iid uid d =
     (if (iid, uid) \<in> set (assignees d) then (Inr (), d)
      else if \<not> issue_exists iid d then (Inl (ForeignKeyViolation ''issue_assignees_issue_id_fkey''), d)
      else if \<not> user_exists uid d then (Inl (ForeignKeyViolation ''issue_assignees_user_id_fkey''), d)
      else (Inr (), d\<lparr>assignees := insert_row (iid, uid) (assignees d)\<rparr>))"

fun insert_assignees :: "uuid \<Rightarrow> uuid list \<Rightarrow> db \<Rightarrow> unit result \<times> db" where
  "insert_assignees iid [] d = (Inr (), d)"
| "insert_assignees iid (u # us) d =
     (case insert_assignee iid u d of
        (Inl e, d1) \<Rightarrow> (Inl e, d1)
      | (Inr x, d1) \<Rightarrow> insert_assignees iid us d1)"

text \<open>The whole of SetAssignees is one transaction: an error rolls it back.\<close>

definition SetAssignees :: "instant \<Rightarrow> uuid \<Rightarrow> uuid list \<Rightarrow> db \<Rightarrow> unit result \<times> db" where
  "SetAssignees now iid userIDs d =
     (let d1 = d\<lparr>assignees := delete_where (\<lambda>p. fst p = iid) (assignees d)\<rparr>
      in case insert_assignees iid userIDs d1 of
           (Inl e, d2) \<Rightarrow> (Inl e, d)
         | (Inr x, d2) \<Rightarrow>
             (let first = (if length userIDs > 0 then Some (hd userIDs) else None)
              in case SetAssignee now iid first d2 of
                   (Inl e, d3) \<Rightarrow> (Inl e, d)
                 | (Inr y, d3) \<Rightarrow> (Inr (), d3)))"

subsection \<open>Milestones\<close>

definition SetMilestone :: "instant \<Rightarrow> uuid \<Rightarrow> uuid option \<Rightarrow> db \<Rightarrow> unit result \<times> db" where
  "SetMilestone now iid mid d =
     (if issue_exists iid d \<and> (case mid of None \<Rightarrow> False | Some m \<Rightarrow> \<not> references ms_id m (milestones d))
      then (Inl (ForeignKeyViolation ''issues_milestone_fk''), d)
      else (Inr (), update_issue iid (\<lambda>r. r\<lparr>i_milestone := mid, i_updated := now\<rparr>) d))"

definition milestone_of :: "milestone_row \<Rightarrow> milestone" where
  "milestone_of r = \<lparr>ml_id = ms_id r, ml_repo = ms_repo r, ml_title = ms_title r,
     ml_desc = coalesce (ms_desc r) [], ml_state = ms_state r, ml_due = ms_due r, ml_created = ms_created r\<rparr>"

definition CreateMilestone ::
  "instant \<Rightarrow> uuid \<Rightarrow> uuid \<Rightarrow> string \<Rightarrow> string \<Rightarrow> instant option \<Rightarrow> db \<Rightarrow> milestone result \<times> db" where
  "CreateMilestone now nid rid title description due d =
     (let r = \<lparr>ms_id = nid, ms_repo = rid, ms_title = title, ms_desc = Some description,
               ms_state = ''open'', ms_due = due, ms_created = now\<rparr>
      in if \<not> key_free ms_id nid (milestones d) then (Inl (UniqueViolation ''milestones_pkey''), d)
         else if \<not> repo_exists rid d then (Inl (ForeignKeyViolation ''milestones_repo_id_fkey''), d)
         else (Inr (milestone_of r), d\<lparr>milestones := insert_row r (milestones d)\<rparr>))"

definition ListMilestones :: "uuid \<Rightarrow> db \<Rightarrow> milestone list" where
  "ListMilestones rid d =
     map milestone_of (order_by_desc ms_created (rows_where (\<lambda>r. ms_repo r = rid) (milestones d)))"

definition GetMilestone :: "uuid \<Rightarrow> uuid \<Rightarrow> db \<Rightarrow> milestone result" where
  "GetMilestone rid mid d =
     (case query_row (\<lambda>r. ms_repo r = rid \<and> ms_id r = mid) (milestones d) of
        None \<Rightarrow> Inl NoRows
      | Some r \<Rightarrow> Inr (milestone_of r))"

definition CloseMilestone :: "uuid \<Rightarrow> db \<Rightarrow> unit result \<times> db" where
  "CloseMilestone mid d =
     (Inr (), d\<lparr>milestones := update_where (\<lambda>r. ms_id r = mid) (\<lambda>r. r\<lparr>ms_state := ''closed''\<rparr>) (milestones d)\<rparr>)"

text \<open>The collaborators and the owning user, as a UNION, which drops duplicates.\<close>

definition ListRepoUsers :: "uuid \<Rightarrow> db \<Rightarrow> string list" where
  "ListRepoUsers rid d =
     (let cs = map (\<lambda>(u, c). u_name u)
                 (join_on (\<lambda>u c. cb_user c = u_id u \<and> cb_repo c = rid) (users d) (collabs d));
          os = map (\<lambda>(u, r). u_name u)
                 (join_on (\<lambda>u r. r_id r = rid \<and> r_owner_type r = ''user'' \<and> r_owner r = u_id u) (users d) (repos d))
      in order_by (\<lambda>n. n) (remdups (cs @ os)))"

subsection \<open>Timeline\<close>

definition RecordEvent ::
  "((string \<times> string) list \<Rightarrow> string result) \<Rightarrow> instant \<Rightarrow> uuid \<Rightarrow> uuid \<Rightarrow> uuid \<Rightarrow> string
     \<Rightarrow> (string \<times> string) list \<Rightarrow> db \<Rightarrow> unit result \<times> db" where
  "RecordEvent marshal now nid iid actor eventType metadata d =
     (case (if length metadata > 0 then map_sum (\<lambda>e. e) Some (marshal metadata) else Inr None) of
        Inl e \<Rightarrow> (Inl e, d)
      | Inr meta \<Rightarrow>
          if \<not> key_free ie_id nid (issue_events d) then (Inl (UniqueViolation ''issue_events_pkey''), d)
          else if \<not> issue_exists iid d then (Inl (ForeignKeyViolation ''issue_events_issue_id_fkey''), d)
          else if \<not> user_exists actor d then (Inl (ForeignKeyViolation ''issue_events_actor_id_fkey''), d)
          else (Inr (), d\<lparr>issue_events := insert_row
                 \<lparr>ie_id = nid, ie_issue = iid, ie_actor = Some actor, ie_type = eventType,
                  ie_meta = meta, ie_created = now\<rparr> (issue_events d)\<rparr>))"

definition GetTimeline :: "uuid \<Rightarrow> db \<Rightarrow> timeline_event list" where
  "GetTimeline iid d =
     map (\<lambda>r. \<lparr>tl_id = ie_id r, tl_issue = ie_issue r, tl_actor_id = ie_actor r,
               tl_actor = username_opt (ie_actor r) d, tl_type = ie_type r,
               tl_meta = coalesce (ie_meta r) ''null'', tl_created = ie_created r\<rparr>)
       (order_by ie_created (rows_where (\<lambda>r. ie_issue r = iid) (issue_events d)))"

subsection \<open>Reactions\<close>

definition ValidReactionContent :: "string \<Rightarrow> bool" where
  "ValidReactionContent content =
     (content \<in> set [''+1'', ''-1'', ''laugh'', ''confused'', ''heart'', ''hooray'', ''rocket'', ''eyes''])"

definition reaction_of :: "string \<Rightarrow> reaction_row \<Rightarrow> reaction" where
  "reaction_of name r = \<lparr>re_id = rx_id r, re_issue = rx_issue r, re_comment = rx_comment r,
     re_user = rx_user r, re_username = name, re_content = rx_content r, re_created = rx_created r\<rparr>"

text \<open>
  The two partial unique indexes: one reaction of a kind per user and issue, and per user and
  comment. Only the first is named by the ON CONFLICT clause.
\<close>

definition same_issue_reaction :: "reaction_row \<Rightarrow> reaction_row \<Rightarrow> bool" where
  "same_issue_reaction r q =
     (rx_comment r = None \<and> rx_comment q = None \<and> rx_issue q = rx_issue r \<and> rx_user q = rx_user r
      \<and> rx_content q = rx_content r)"

definition same_comment_reaction :: "reaction_row \<Rightarrow> reaction_row \<Rightarrow> bool" where
  "same_comment_reaction r q =
     (rx_comment r \<noteq> None \<and> rx_comment q = rx_comment r \<and> rx_user q = rx_user r
      \<and> rx_content q = rx_content r)"

text \<open>INSERT ... ON CONFLICT DO NOTHING RETURNING: no row comes back on a conflict.\<close>

definition insert_reaction :: "reaction_row \<Rightarrow> db \<Rightarrow> reaction_row result \<times> db" where
  "insert_reaction r d =
     (if sql_exists (same_issue_reaction r) (reactions d) then (Inl NoRows, d)
      else if \<not> key_free rx_id (rx_id r) (reactions d) then (Inl (UniqueViolation ''issue_reactions_pkey''), d)
      else if sql_exists (same_comment_reaction r) (reactions d)
      then (Inl (UniqueViolation ''idx_issue_reactions_comment_unique''), d)
      else if \<not> issue_exists (rx_issue r) d then (Inl (ForeignKeyViolation ''issue_reactions_issue_id_fkey''), d)
      else if \<not> user_exists (rx_user r) d then (Inl (ForeignKeyViolation ''issue_reactions_user_id_fkey''), d)
      else (Inr r, d\<lparr>reactions := insert_row r (reactions d)\<rparr>))"

text \<open>
  After a conflict the existing row is read, but the error tested afterwards is still the one of
  the INSERT, so the branch always ends in the same error.
\<close>

definition AddReaction ::
  "instant \<Rightarrow> uuid \<Rightarrow> uuid \<Rightarrow> uuid \<Rightarrow> uuid option \<Rightarrow> string \<Rightarrow> db \<Rightarrow> reaction result \<times> db" where
  "AddReaction now nid iid uid cid content d =
     (if \<not> ValidReactionContent content then (Inl (ErrMsg (''invalid reaction content: '' @ quote content)), d)
      else if (case cid of None \<Rightarrow> False
               | Some c \<Rightarrow> \<not> sql_exists (\<lambda>r. ic_id r = c \<and> ic_issue r = iid) (comments d))
      then (Inl (ErrMsg ''comment not found or does not belong to this issue''), d)
      else (case insert_reaction \<lparr>rx_id = nid, rx_issue = iid, rx_comment = cid, rx_user = uid,
                                  rx_content = content, rx_created = now\<rparr> d of
              (Inl e, d1) \<Rightarrow>
                if e = NoRows then (Inl (ErrMsg ''reaction already exists''), d1) else (Inl e, d1)
            | (Inr r, d1) \<Rightarrow> (Inr (reaction_of (username uid d1) r), d1)))"

definition ListReactions :: "uuid \<Rightarrow> uuid option \<Rightarrow> db \<Rightarrow> reaction list" where
  "ListReactions iid cid d =
     map (\<lambda>r. reaction_of (username (rx_user r) d) r)
       (order_by rx_created (rows_where (\<lambda>r. rx_issue r = iid \<and> rx_comment r = cid) (reactions d)))"

definition DeleteReaction :: "uuid \<Rightarrow> uuid \<Rightarrow> db \<Rightarrow> unit result \<times> db" where
  "DeleteReaction xid uid d =
     (let hit = (\<lambda>r. rx_id r = xid \<and> rx_user r = uid);
          d1 = d\<lparr>reactions := delete_where hit (reactions d)\<rparr>
      in if rows_affected hit (reactions d) = 0
         then (Inl (ErrMsg ''reaction not found or not owned by user''), d1)
         else (Inr (), d1))"

subsection \<open>Steps of the service\<close>

text \<open>
  The state is the database and the numbers requests have read for an issue they are about to
  insert. Creating an issue is two steps, so requests interleave; the other operations are one
  statement or one transaction each. Deleting the repository removes its issues.
\<close>

type_synonym issue_world = "db \<times> (uuid \<times> int) list"

inductive issue_step :: "issue_world \<Rightarrow> issue_world \<Rightarrow> bool" where
  number: "issue_step (d, ps) (d, (rid, issue_number_of rid d) # ps)"
| create: "(rid, n) \<in> set ps \<Longrightarrow>
     issue_step (d, ps) (snd (issue_Create_at now nid rid n author title body d), remove1 (rid, n) ps)"
| comment: "issue_step (d, ps) (snd (issue_AddComment now nid iid author body d), ps)"
| close: "issue_step (d, ps) (snd (issue_Close now iid d), ps)"
| new_label: "issue_step (d, ps) (snd (CreateLabel nid rid name color d), ps)"
| add_label: "issue_step (d, ps) (snd (AddLabel iid lid d), ps)"
| remove_label: "issue_step (d, ps) (snd (RemoveLabel iid lid d), ps)"
| assignee: "issue_step (d, ps) (snd (SetAssignee now iid a d), ps)"
| assignees: "issue_step (d, ps) (snd (SetAssignees now iid us d), ps)"
| milestone: "issue_step (d, ps) (snd (SetMilestone now iid m d), ps)"
| new_milestone: "issue_step (d, ps) (snd (CreateMilestone now nid rid title desc due d), ps)"
| close_milestone: "issue_step (d, ps) (snd (CloseMilestone mid d), ps)"
| event: "issue_step (d, ps) (snd (RecordEvent marshal now nid iid actor ty meta d), ps)"
| react: "issue_step (d, ps) (snd (AddReaction now nid iid uid cid content d), ps)"
| unreact: "issue_step (d, ps) (snd (DeleteReaction xid uid d), ps)"
| delete_repo: "issue_step (d, ps) (snd (snd (repo_Delete rid c d)), ps)"

text \<open>Most operations leave the issues as they are, or change neither repository nor number.\<close>

definition same_numbers :: "db \<Rightarrow> db \<Rightarrow> bool" where
  "same_numbers d d1 =
     ((\<forall>rid. numbers i_repo i_number rid (issues d1) = numbers i_repo i_number rid (issues d))
      \<and> (\<forall>rid. repo_exists rid d1 = repo_exists rid d))"

lemma same_numbers_refl [simp]: "same_numbers d d"
  by (simp add: same_numbers_def)

lemma same_numbersI: "issues d1 = issues d \<Longrightarrow> repos d1 = repos d \<Longrightarrow> same_numbers d d1"
  by (simp add: same_numbers_def repo_exists_def)

lemma same_numbers_update_issue:
  "(\<And>r. i_repo (f r) = i_repo r) \<Longrightarrow> (\<And>r. i_number (f r) = i_number r) \<Longrightarrow>
     same_numbers d (update_issue iid f d)"
  by (simp add: same_numbers_def update_issue_def numbers_update repo_exists_def)

lemma same_numbers_trans: "same_numbers d d1 \<Longrightarrow> same_numbers d1 d2 \<Longrightarrow> same_numbers d d2"
  by (simp add: same_numbers_def)

lemma insert_assignees_tables:
  "issues (snd (insert_assignees iid us d)) = issues d \<and> repos (snd (insert_assignees iid us d)) = repos d
   \<and> users (snd (insert_assignees iid us d)) = users d"
proof (induction us arbitrary: d)
  case (Cons u us)
  show ?case using Cons.IH by (auto simp: insert_assignee_def split: sum.splits prod.splits)
qed simp

lemma same_numbers_SetAssignee: "same_numbers d (snd (SetAssignee now iid a d))"
  by (auto simp: SetAssignee_def intro!: same_numbers_update_issue)

lemma same_numbers_SetAssignees: "same_numbers d (snd (SetAssignees now iid us d))"
proof -
  let ?d1 = "d\<lparr>assignees := delete_where (\<lambda>p. fst p = iid) (assignees d)\<rparr>"
  obtain r d2 where ins: "insert_assignees iid us ?d1 = (r, d2)" by (rule prod.exhaust)
  then have "issues d2 = issues d" "repos d2 = repos d"
    using insert_assignees_tables [of iid us ?d1] by simp_all
  then have "same_numbers d d2" by (rule same_numbersI)
  moreover have "same_numbers d2 (snd (SetAssignee now iid a d2))" for a
    by (rule same_numbers_SetAssignee)
  ultimately have "same_numbers d (snd (SetAssignee now iid a d2))" for a
    using same_numbers_trans by blast
  then show ?thesis
    using ins by (auto simp: SetAssignees_def Let_def split: sum.split prod.split) (metis snd_conv)+
qed

lemma same_numbers_others:
  "same_numbers d (snd (issue_AddComment now nid iid author body d))"
  "same_numbers d (snd (issue_Close now iid d))"
  "same_numbers d (snd (CreateLabel nid rid name color d))"
  "same_numbers d (snd (AddLabel iid lid d))"
  "same_numbers d (snd (RemoveLabel iid lid d))"
  "same_numbers d (snd (SetMilestone now iid m d))"
  "same_numbers d (snd (CreateMilestone now nid rid title desc due d))"
  "same_numbers d (snd (CloseMilestone mid d))"
  "same_numbers d (snd (RecordEvent marshal now nid iid actor ty meta d))"
  "same_numbers d (snd (AddReaction now nid iid uid cid content d))"
  "same_numbers d (snd (DeleteReaction xid uid d))"
  by (auto simp: issue_AddComment_def issue_Close_def CreateLabel_def AddLabel_def RemoveLabel_def
      SetMilestone_def CreateMilestone_def CloseMilestone_def RecordEvent_def AddReaction_def
      insert_reaction_def DeleteReaction_def Let_def
      intro!: same_numbersI same_numbers_update_issue split: sum.split)

text \<open>What holds of the numbers, those read by requests included.\<close>

definition numbers_ok :: "issue_world \<Rightarrow> bool" where
  "numbers_ok w =
     (well_numbered i_repo i_number (issues (fst w))
      \<and> (\<forall>(rid, n)\<in>set (snd w). repo_exists rid (fst w) \<longrightarrow> 1 \<le> n \<and> n \<le> issue_number_of rid (fst w)))"

lemma numbers_okD:
  "numbers_ok (d, ps) \<Longrightarrow> (x, n) \<in> set ps \<Longrightarrow> repo_exists x d \<Longrightarrow> 1 \<le> n \<and> n \<le> issue_number_of x d"
  by (auto simp: numbers_ok_def)

lemma issue_number_of_length:
  "well_numbered i_repo i_number (issues d) \<Longrightarrow>
     issue_number_of rid d = int (length (numbers i_repo i_number rid (issues d))) + 1"
  by (simp add: issue_number_of_def well_numbered_def next_number_length)

lemma numbers_ok_same:
  assumes "numbers_ok (d, ps)" and "same_numbers d d1"
  shows "numbers_ok (d1, ps)"
proof -
  have w: "well_numbered i_repo i_number (issues d)" using assms(1) by (simp add: numbers_ok_def)
  then have w1: "well_numbered i_repo i_number (issues d1)"
    using assms(2) by (simp add: well_numbered_def same_numbers_def)
  then have "issue_number_of rid d1 = issue_number_of rid d" for rid
    using w assms(2) by (simp add: issue_number_of_length same_numbers_def)
  then show ?thesis using assms w1 by (auto simp: numbers_ok_def same_numbers_def)
qed

lemma insert_issue_cases:
  "(\<exists>e. insert_issue r d = (Inl e, d)) \<or>
     insert_issue r d = (Inr (), d\<lparr>issues := insert_row r (issues d)\<rparr>)
     \<and> key_free (\<lambda>q. (i_repo q, i_number q)) (i_repo r, i_number r) (issues d)
     \<and> repo_exists (i_repo r) d \<and> key_free i_id (i_id r) (issues d)"
  by (simp add: insert_issue_def)

lemma issue_Create_at_cases:
  obtains (fail) e where "issue_Create_at now nid rid n author title body d = (Inl e, d)"
  | (made) "fst (issue_Create_at now nid rid n author title body d)
        = issue_GetByID nid (d\<lparr>issues := insert_row (new_issue_row now nid rid n author title body) (issues d)\<rparr>)"
      "snd (issue_Create_at now nid rid n author title body d)
        = d\<lparr>issues := insert_row (new_issue_row now nid rid n author title body) (issues d)\<rparr>"
      "key_free (\<lambda>q. (i_repo q, i_number q)) (rid, n) (issues d)" "repo_exists rid d"
      "key_free i_id nid (issues d)"
  using insert_issue_cases [of "new_issue_row now nid rid n author title body" d]
  by (auto simp: issue_Create_at_def new_issue_row_def)

text \<open>A number that was read is either still the next one or taken by now.\<close>

lemma stale_or_next:
  assumes "well_numbered i_repo i_number (issues d)" and "1 \<le> n" and "n \<le> issue_number_of rid d"
    and "key_free (\<lambda>q. (i_repo q, i_number q)) (rid, n) (issues d)"
  shows "n = issue_number_of rid d"
proof (rule ccontr)
  let ?ns = "numbers i_repo i_number rid (issues d)"
  assume "n \<noteq> issue_number_of rid d"
  then have "n \<le> int (length ?ns)" using assms(1,3) by (simp add: issue_number_of_length)
  then have "n \<in> set ?ns"
    using assms(1,2) by (simp add: well_numbered_def consecutive_member)
  then have "(rid, n) \<in> (\<lambda>q. (i_repo q, i_number q)) ` set (issues d)" by (auto simp: numbers_def)
  then show False using assms(4) by (simp add: key_free_iff)
qed

lemma numbers_ok_insert:
  assumes "numbers_ok (d, ps)" and "i_repo r = rid" and "i_number r = issue_number_of rid d"
    and "set qs \<subseteq> set ps"
  shows "numbers_ok (d\<lparr>issues := insert_row r (issues d)\<rparr>, qs)"
proof -
  let ?d1 = "d\<lparr>issues := insert_row r (issues d)\<rparr>"
  have w: "well_numbered i_repo i_number (issues d)" using assms(1) by (simp add: numbers_ok_def)
  have "well_numbered i_repo i_number (issues (issues_update (insert_row r) d))"
    using w assms(2,3) unfolding issue_number_of_def by (rule issue_numbers.insert_well_numbered)
  then have w1: "well_numbered i_repo i_number (issues ?d1)" by simp
  have "issue_number_of x d \<le> issue_number_of x ?d1" for x
    using w w1 by (simp add: issue_number_of_length numbers_insert)
  moreover have "repo_exists x ?d1 = repo_exists x d" for x by (simp add: repo_exists_def)
  ultimately have "1 \<le> n \<and> n \<le> issue_number_of x ?d1" if "(x, n) \<in> set qs" and "repo_exists x ?d1" for x n
    using numbers_okD [OF assms(1)] that assms(4) order_trans by (metis subsetD)
  then show ?thesis using w1 by (auto simp: numbers_ok_def)
qed

lemma numbers_ok_create:
  assumes "numbers_ok (d, ps)" and "(rid, n) \<in> set ps"
  shows "numbers_ok (snd (issue_Create_at now nid rid n author title body d), remove1 (rid, n) ps)"
proof (cases rule: issue_Create_at_cases [of now nid rid n author title body d])
  case (fail e)
  then show ?thesis using assms(1) set_remove1_subset [of "(rid, n)" ps] by (auto simp: numbers_ok_def)
next
  case made
  have "1 \<le> n \<and> n \<le> issue_number_of rid d"
    using assms made(4) by (auto simp: numbers_ok_def)
  then have "n = issue_number_of rid d"
    using stale_or_next made(3) assms(1) by (simp add: numbers_ok_def)
  then show ?thesis
    unfolding made(2)
    by (intro numbers_ok_insert [where rid = rid, OF assms(1)]) (simp_all add: new_issue_row_def set_remove1_subset)
qed

lemma numbers_ok_delete_repo: "numbers_ok (d, ps) \<Longrightarrow> numbers_ok (snd (snd (repo_Delete rid c d)), ps)"
proof -
  assume ok: "numbers_ok (d, ps)"
  let ?d1 = "cascade_repo rid d"
  have is1: "numbers i_repo i_number x (issues ?d1) = (if x = rid then [] else numbers i_repo i_number x (issues d))" for x
    by (simp add: cascade_repo_def Let_def numbers_update numbers_delete)
  have ex: "repo_exists x ?d1 \<longleftrightarrow> repo_exists x d \<and> x \<noteq> rid" for x
    by (auto simp: cascade_repo_def Let_def repo_exists_def references_iff)
  have w: "well_numbered i_repo i_number (issues d)" using ok by (simp add: numbers_ok_def)
  then have w1: "well_numbered i_repo i_number (issues ?d1)" by (simp add: well_numbered_def is1)
  have "issue_number_of x ?d1 = issue_number_of x d" if "x \<noteq> rid" for x
    using that w w1 by (simp add: issue_number_of_length is1)
  then have "numbers_ok (?d1, ps)" using ok w1 by (auto simp: numbers_ok_def ex)
  then show ?thesis using ok by (simp add: repo_Delete_def delete_repo_row_def)
qed

lemma numbers_ok_step: "issue_step w w1 \<Longrightarrow> numbers_ok w \<Longrightarrow> numbers_ok w1"
proof (induction rule: issue_step.induct)
  case (number d ps rid)
  then have "1 \<le> issue_number_of rid d" by (simp add: numbers_ok_def issue_number_of_length)
  then show ?case using number by (simp add: numbers_ok_def)
next
  case (create rid n ps d now nid author title body)
  then show ?case by (intro numbers_ok_create)
qed (elim numbers_ok_same; simp add: same_numbers_others same_numbers_SetAssignee same_numbers_SetAssignees
      numbers_ok_delete_repo; fail
   | rule numbers_ok_delete_repo; assumption)+

lemma numbers_ok_steps: "issue_step\<^sup>*\<^sup>* w w1 \<Longrightarrow> numbers_ok w \<Longrightarrow> numbers_ok w1"
  by (induction rule: rtranclp_induct) (auto intro: numbers_ok_step)

subsection \<open>Replacing the assignees\<close>

lemma update_issue_row:
  assumes "r \<in> set (issues (update_issue iid f d))" and "i_id r = iid" and "\<And>q. i_id (f q) = i_id q"
  shows "\<exists>q\<in>set (issues d). r = f q"
proof -
  have "r \<in> set (update_where (\<lambda>r. i_id r = iid) f (issues d))"
    using assms(1) by (simp add: update_issue_def)
  then obtain q where "q \<in> set (issues d)" "r = (if i_id q = iid then f q else q)" by (rule update_whereE)
  then show ?thesis using assms(2,3) by (cases "i_id q = iid") auto
qed

lemma insert_assignees_ok:
  assumes "issue_exists iid d \<or> us = []" and "\<forall>u\<in>set us. user_exists u d"
  shows "\<exists>as. insert_assignees iid us d = (Inr (), d\<lparr>assignees := as\<rparr>)
            \<and> set as = set (assignees d) \<union> Pair iid ` set us"
  using assms
proof (induction us arbitrary: d)
  case Nil
  then show ?case by (intro exI [of _ "assignees d"]) simp
next
  case (Cons u us)
  then have ok: "issue_exists iid d" "user_exists u d" by simp_all
  define d1 where "d1 = snd (insert_assignee iid u d)"
  have d1: "\<exists>as1. d1 = d\<lparr>assignees := as1\<rparr> \<and> set as1 = insert (iid, u) (set (assignees d))"
    using ok by (cases "(iid, u) \<in> set (assignees d)")
      (auto simp: d1_def insert_assignee_def intro: exI [of _ "assignees d"])
  then obtain as1 where as1: "d1 = d\<lparr>assignees := as1\<rparr>" "set as1 = insert (iid, u) (set (assignees d))" by blast
  have "insert_assignee iid u d = (Inr (), d1)" using ok by (simp add: d1_def insert_assignee_def)
  then have step: "insert_assignees iid (u # us) d = insert_assignees iid us d1" by simp
  have "issue_exists iid d1" "\<forall>u\<in>set us. user_exists u d1"
    using Cons.prems ok as1 by (simp_all add: issue_exists_def user_exists_def)
  then obtain as2 where "insert_assignees iid us d1 = (Inr (), d1\<lparr>assignees := as2\<rparr>)"
      "set as2 = set (assignees d1) \<union> Pair iid ` set us"
    using Cons.IH [of d1] by blast
  then show ?case using as1 step by (intro exI [of _ as2]) auto
qed

lemma insert_assignees_fail:
  assumes "\<not> (issue_exists iid d \<or> us = []) \<or> (\<exists>u\<in>set us. \<not> user_exists u d)"
    and "\<forall>u. (iid, u) \<in> set (assignees d) \<longrightarrow> issue_exists iid d \<and> user_exists u d"
  shows "\<exists>e. fst (insert_assignees iid us d) = Inl (ForeignKeyViolation e)"
  using assms
proof (induction us arbitrary: d)
  case (Cons u us)
  show ?case
  proof (cases "issue_exists iid d \<and> user_exists u d")
    case False
    then have "(iid, u) \<notin> set (assignees d)" using Cons.prems(2) by blast
    then show ?thesis using False by (auto simp: insert_assignee_def)
  next
    case True
    define d1 where "d1 = snd (insert_assignee iid u d)"
    have ins: "insert_assignee iid u d = (Inr (), d1)" using True by (simp add: d1_def insert_assignee_def)
    have same: "issue_exists iid d1 = issue_exists iid d" "user_exists x d1 = user_exists x d" for x
      by (simp_all add: d1_def insert_assignee_def issue_exists_def user_exists_def)
    have mem: "(iid, x) \<in> set (assignees d1) \<Longrightarrow> (iid, x) \<in> set (assignees d) \<or> x = u" for x
      by (auto simp: d1_def insert_assignee_def split: if_splits)
    have "\<exists>e. fst (insert_assignees iid us d1) = Inl (ForeignKeyViolation e)"
    proof (rule Cons.IH)
      show "\<not> (issue_exists iid d1 \<or> us = []) \<or> (\<exists>u\<in>set us. \<not> user_exists u d1)"
        using Cons.prems(1) True same by auto
      show "\<forall>x. (iid, x) \<in> set (assignees d1) \<longrightarrow> issue_exists iid d1 \<and> user_exists x d1"
        using Cons.prems(2) True same mem by blast
    qed
    then show ?thesis using ins by simp
  qed
qed simp

lemma set_loadAssignees:
  assumes "\<forall>u. (iid, u) \<in> set (assignees d) \<longrightarrow> user_exists u d" and "unique_on u_id (users d)"
  shows "set (loadAssignees iid d) = (\<lambda>u. username u d) ` {u. (iid, u) \<in> set (assignees d)}"
proof -
  have name: "u \<in> set (users d) \<Longrightarrow> username (u_id u) d = u_name u" for u
    using query_row_unique [OF assms(2), of u "u_id u"] by (simp add: username_def)
  have "set (loadAssignees iid d) = {u_name u | u. u \<in> set (users d) \<and> (iid, u_id u) \<in> set (assignees d)}"
    by (force simp: loadAssignees_def)
  also have "\<dots> = (\<lambda>u. username u d) ` {u. (iid, u) \<in> set (assignees d)}"
    using assms(1) name by (force simp: user_exists_def references_iff image_iff)
  finally show ?thesis .
qed

lemma sorted_loadAssignees: "sorted (loadAssignees iid d)"
proof -
  have "sorted (map (\<lambda>(ia, u). u_name u) (order_by (\<lambda>(ia, u). u_name u) xs))" for xs :: "((uuid \<times> uuid) \<times> user_row) list"
    by (rule sorted_order_by)
  then show ?thesis by (simp add: loadAssignees_def)
qed

subsection \<open>Properties\<close>

text \<open>C27: However requests to create issues interleave with each other and with the other
  operations, the issues of every repository are numbered 1, 2, 3, ... in the order of their
  insertion: no number is skipped and none is given twice.\<close>

theorem issue_numbers_consecutive:
  assumes "issue_step\<^sup>*\<^sup>* (d, []) (d1, ps)" and "well_numbered i_repo i_number (issues d)"
  shows "numbers i_repo i_number rid (issues d1)
           = map int [1..<Suc (length (rows_where (\<lambda>r. i_repo r = rid) (issues d1)))]"
proof -
  have "numbers_ok (d, [])" using assms(2) by (simp add: numbers_ok_def)
  then have "numbers_ok (d1, ps)" using numbers_ok_steps [OF assms(1)] by simp
  then have "consecutive (numbers i_repo i_number rid (issues d1))"
    by (simp add: numbers_ok_def well_numbered_def)
  then show ?thesis by (simp only: consecutive_def numbers_def length_map)
qed

text \<open>When two requests have read the same next number, the first insertion succeeds and the
  second fails with the violation of the unique key and changes nothing: the caller gets a
  database error although its request was valid.\<close>

theorem concurrent_issue_conflict:
  assumes "issue_Create_at now nid rid (issue_number_of rid d) author title body d = (Inr i, d1)"
    and "nid2 \<noteq> nid" and "key_free i_id nid2 (issues d)"
  shows "issue_Create_at now2 nid2 rid (issue_number_of rid d) author2 title2 body2 d1
           = (Inl (UniqueViolation ''issues_repo_id_number_key''), d1)"
proof -
  let ?r = "new_issue_row now nid rid (issue_number_of rid d) author title body"
  have d1: "d1 = d\<lparr>issues := insert_row ?r (issues d)\<rparr>"
    using assms(1) by (cases rule: issue_Create_at_cases [of now nid rid "issue_number_of rid d" author title body d]) simp_all
  have "\<not> key_free (\<lambda>r. (i_repo r, i_number r)) (rid, issue_number_of rid d) (issues (issues_update (insert_row ?r) d))"
    unfolding issue_number_of_def by (rule issue_numbers.next_taken) (simp_all add: new_issue_row_def)
  moreover have "key_free i_id nid2 (issues d1)"
    using assms(2,3) by (simp add: d1 key_free_iff new_issue_row_def)
  ultimately show ?thesis
    by (simp add: d1 issue_Create_at_def insert_issue_def new_issue_row_def)
qed

text \<open>An issue that was created is the one its number names: the next number of the
  repository, open, with no assignee or milestone, found again by repository and number, and
  counted as one more open issue.\<close>

theorem created_issue_found:
  assumes "issue_Create now nid rid author title body d = (Inr i, d1)"
    and "well_numbered i_repo i_number (issues d)"
  shows "iu_number i = int (length (numbers i_repo i_number rid (issues d))) + 1
    \<and> iu_title i = title \<and> iu_state i = ''open'' \<and> iu_assignee_id i = None \<and> iu_milestone_id i = None
    \<and> issue_Get rid (iu_number i) d1 = Inr i
    \<and> CountByRepo rid d1 = (Suc (fst (CountByRepo rid d)), snd (CountByRepo rid d))"
proof -
  let ?n = "issue_number_of rid d"
  let ?r = "new_issue_row now nid rid ?n author title body"
  have at: "issue_Create_at now nid rid ?n author title body d = (Inr i, d1)"
    using assms(1) by (simp add: issue_Create_def)
  then have d1: "d1 = d\<lparr>issues := insert_row ?r (issues d)\<rparr>" and i: "issue_GetByID nid d1 = Inr i"
      and free: "key_free i_id nid (issues d)" "key_free (\<lambda>q. (i_repo q, i_number q)) (rid, ?n) (issues d)"
    by (cases rule: issue_Create_at_cases [of now nid rid ?n author title body d]; simp)+
  have "query_row (\<lambda>q. i_id q = nid) (issues d) = None"
    using free(1) by (auto simp: query_row_None key_free_iff)
  then have byid: "query_row (\<lambda>q. i_id q = nid) (issues d1) = Some ?r"
    by (simp add: d1 query_row_insert new_issue_row_def)
  have bynum: "query_row (\<lambda>q. (i_repo q, i_number q) = (rid, ?n)) (issues d1) = Some ?r"
    using issues_by_number.insert_lookup [of ?r d] free(2) by (simp add: d1 new_issue_row_def)
  have i1: "i = enrich d1 (scanIssue d1 ?r)" using i by (simp add: issue_GetByID_def byid)
  then have num: "iu_number i = ?n" by (simp add: enrich_def scanIssue_def new_issue_row_def)
  have "issue_Get rid ?n d1 = Inr i" using bynum by (simp add: issue_Get_def i1)
  moreover have "CountByRepo rid d1 = (Suc (fst (CountByRepo rid d)), snd (CountByRepo rid d))"
    by (simp add: d1 CountByRepo_def rows_affected_def insert_row_def new_issue_row_def)
  moreover have "?n = int (length (numbers i_repo i_number rid (issues d))) + 1"
    using assms(2) by (rule issue_number_of_length)
  ultimately show ?thesis
    using num i1 by (simp add: enrich_def scanIssue_def new_issue_row_def)
qed

text \<open>
  What SetAssignees relies on: assignees are users and issues that exist, which the foreign keys
  of the table guarantee.
\<close>

definition assignees_ok :: "db \<Rightarrow> bool" where
  "assignees_ok d = (\<forall>p\<in>set (assignees d). issue_exists (fst p) d \<and> user_exists (snd p) d)"

text \<open>C33: SetAssignees succeeds exactly when all the users exist and, unless the list is empty,
  so does the issue. Then the assignees of the issue are exactly the listed users, other issues
  keep theirs, the assignee column holds the first of the list, and the names an issue is read
  with are those of the users in alphabetical order. Otherwise it fails with a foreign key
  violation and, being one transaction, changes nothing.\<close>

theorem set_assignees_exact:
  assumes "assignees_ok d" and "unique_on u_id (users d)"
  shows "if (issue_exists iid d \<or> us = []) \<and> (\<forall>u\<in>set us. user_exists u d)
    then \<exists>d1. SetAssignees now iid us d = (Inr (), d1)
      \<and> {u. (iid, u) \<in> set (assignees d1)} = set us
      \<and> (\<forall>p. fst p \<noteq> iid \<longrightarrow> (p \<in> set (assignees d1) \<longleftrightarrow> p \<in> set (assignees d)))
      \<and> (\<forall>r\<in>set (issues d1). i_id r = iid \<longrightarrow> i_assignee r = (if us = [] then None else Some (hd us)))
      \<and> set (loadAssignees iid d1) = (\<lambda>u. username u d1) ` set us \<and> sorted (loadAssignees iid d1)
    else \<exists>e. SetAssignees now iid us d = (Inl (ForeignKeyViolation e), d)"
proof -
  let ?ok = "(issue_exists iid d \<or> us = []) \<and> (\<forall>u\<in>set us. user_exists u d)"
  let ?d0 = "d\<lparr>assignees := delete_where (\<lambda>p. fst p = iid) (assignees d)\<rparr>"
  let ?first = "if us = [] then None else Some (hd us)"
  have ex: "issue_exists x ?d0 = issue_exists x d" "user_exists u ?d0 = user_exists u d" for x u
    by (simp_all add: issue_exists_def user_exists_def)
  show ?thesis
  proof (cases ?ok)
    case True
    then have "\<exists>as. insert_assignees iid us ?d0 = (Inr (), ?d0\<lparr>assignees := as\<rparr>)
        \<and> set as = set (assignees ?d0) \<union> Pair iid ` set us"
      by (intro insert_assignees_ok) (simp_all add: ex)
    then obtain as where ins: "insert_assignees iid us ?d0 = (Inr (), ?d0\<lparr>assignees := as\<rparr>)"
        and as: "set as = set (assignees ?d0) \<union> Pair iid ` set us" by blast
    let ?d2 = "?d0\<lparr>assignees := as\<rparr>"
    define d1 where "d1 = update_issue iid (\<lambda>r. r\<lparr>i_assignee := ?first, i_updated := now\<rparr>) ?d2"
    have "us \<noteq> [] \<Longrightarrow> user_exists (hd us) ?d2" using True by (simp add: user_exists_def)
    then have "SetAssignee now iid ?first ?d2 = (Inr (), d1)" by (simp add: SetAssignee_def d1_def)
    then have run: "SetAssignees now iid us d = (Inr (), d1)"
      using ins by (cases us) (simp_all add: SetAssignees_def Let_def)
    have asg: "assignees d1 = as" and usr: "users d1 = users d" by (simp_all add: d1_def update_issue_def)
    have mine: "{u. (iid, u) \<in> set (assignees d1)} = set us" by (auto simp: asg as)
    have "\<forall>u. (iid, u) \<in> set (assignees d1) \<longrightarrow> user_exists u d1"
      using True mine usr by (auto simp: user_exists_def)
    then have names: "set (loadAssignees iid d1) = (\<lambda>u. username u d1) ` set us"
      using set_loadAssignees [of iid d1] assms(2) mine usr by simp
    have others: "\<forall>p. fst p \<noteq> iid \<longrightarrow> (p \<in> set (assignees d1) \<longleftrightarrow> p \<in> set (assignees d))"
      by (auto simp: asg as)
    have col: "\<forall>r\<in>set (issues d1). i_id r = iid \<longrightarrow> i_assignee r = ?first"
    proof (intro ballI impI)
      fix r assume r: "r \<in> set (issues d1)" "i_id r = iid"
      then obtain q where "r = q\<lparr>i_assignee := ?first, i_updated := now\<rparr>"
        unfolding d1_def using update_issue_row [of r iid "\<lambda>r. r\<lparr>i_assignee := ?first, i_updated := now\<rparr>" ?d2] by auto
      then show "i_assignee r = ?first" by simp
    qed
    show ?thesis
      unfolding if_P [OF True]
      by (intro exI [of _ d1] conjI run mine others col names sorted_loadAssignees)
  next
    case False
    have "\<exists>e. fst (insert_assignees iid us ?d0) = Inl (ForeignKeyViolation e)"
      by (rule insert_assignees_fail) (use False ex in auto)
    then have "\<exists>e. SetAssignees now iid us d = (Inl (ForeignKeyViolation e), d)"
      by (auto simp: SetAssignees_def Let_def split: sum.split prod.split)
    then show ?thesis using False by (simp only: if_False)
  qed
qed

text \<open>Repeating a reaction fails and changes nothing, with two different errors: on the issue
  itself with ``reaction already exists'', on a comment with the violation of the unique index,
  because the ON CONFLICT clause names the index of the issue reactions only. The row the code
  reads after the conflict is never returned.\<close>

theorem repeated_reaction_error:
  assumes "AddReaction now nid iid uid cid content d = (Inr x, d1)"
    and "nid2 \<noteq> nid" and "key_free rx_id nid2 (reactions d)"
  shows "AddReaction now2 nid2 iid uid cid content d1
           = (Inl (case cid of None \<Rightarrow> ErrMsg ''reaction already exists''
                   | Some c \<Rightarrow> UniqueViolation ''idx_issue_reactions_comment_unique''), d1)"
proof -
  let ?r = "\<lparr>rx_id = nid, rx_issue = iid, rx_comment = cid, rx_user = uid, rx_content = content, rx_created = now\<rparr>"
  have valid: "ValidReactionContent content"
    and cmt: "\<And>c. cid = Some c \<Longrightarrow> sql_exists (\<lambda>r. ic_id r = c \<and> ic_issue r = iid) (comments d)"
    and d1: "d1 = d\<lparr>reactions := insert_row ?r (reactions d)\<rparr>"
    using assms(1) by (auto simp: AddReaction_def insert_reaction_def split: if_splits option.splits)
  have free: "key_free rx_id nid2 (reactions d1)" using assms(2,3) by (simp add: d1 key_free_iff)
  show ?thesis
  proof (cases cid)
    case None
    then have "sql_exists (same_issue_reaction (?r\<lparr>rx_id := nid2, rx_created := now2\<rparr>)) (reactions d1)"
      by (auto simp: d1 sql_exists_iff same_issue_reaction_def)
    then show ?thesis using valid None by (simp add: AddReaction_def insert_reaction_def)
  next
    case (Some c)
    then have "sql_exists (same_comment_reaction (?r\<lparr>rx_id := nid2, rx_created := now2\<rparr>)) (reactions d1)"
      by (auto simp: d1 sql_exists_iff same_comment_reaction_def)
    moreover have "\<not> sql_exists (same_issue_reaction (?r\<lparr>rx_id := nid2, rx_created := now2\<rparr>)) (reactions d1)"
      using Some by (auto simp: sql_exists_iff same_issue_reaction_def)
    moreover have "sql_exists (\<lambda>r. ic_id r = c \<and> ic_issue r = iid) (comments d1)"
      using cmt [OF Some] by (simp add: d1)
    ultimately show ?thesis
      using valid Some free by (simp add: AddReaction_def insert_reaction_def)
  qed
qed

subsection \<open>The properties at concrete inputs\<close>

definition demo_issue_db :: db where
  "demo_issue_db = (demo_db False)\<lparr>issues := [new_issue_row 5 (Uuid 20) (Uuid 10) 1 (Uuid 2) ''bug'' ''x'']\<rparr>"

lemmas issue_demo_defs = demo_issue_db_def demo_defs new_issue_row_def

lemma demo_number: "issue_number_of (Uuid 10) (demo_db p) = 1"
  by (simp add: issue_number_of_def next_number_def max_number_def rows_where_def demo_defs)

lemma demo_create:
  "issue_Create_at 5 (Uuid 20) (Uuid 10) 1 (Uuid 2) ''bug'' ''x'' (demo_db False)
     = (Inr (enrich demo_issue_db (scanIssue demo_issue_db (new_issue_row 5 (Uuid 20) (Uuid 10) 1 (Uuid 2) ''bug'' ''x''))),
        demo_issue_db)"
  by (simp add: issue_Create_at_def insert_issue_def issue_GetByID_def repo_exists_def user_exists_def
      references_iff key_free_iff insert_row_def issue_demo_defs)

lemma demo_numbered: "well_numbered i_repo i_number (issues (demo_db p))"
  by (simp add: well_numbered_def numbers_def rows_where_def demo_defs)

lemma issue_numbers_consecutive_witness:
  "numbers i_repo i_number (Uuid 10) (issues demo_issue_db)
     = map int [1..<Suc (length (rows_where (\<lambda>r. i_repo r = Uuid 10) (issues demo_issue_db)))]"
proof -
  have "issue_step (demo_db False, []) (demo_db False, [(Uuid 10, 1)])"
    using issue_step.number [of "demo_db False" "[]" "Uuid 10"] by (simp add: demo_number)
  moreover have "issue_step (demo_db False, [(Uuid 10, 1)]) (demo_issue_db, [])"
    using issue_step.create [of "Uuid 10" 1 "[(Uuid 10, 1)]" "demo_db False" 5 "Uuid 20" "Uuid 2" "''bug''" "''x''"]
    by (simp add: demo_create)
  ultimately have "issue_step\<^sup>*\<^sup>* (demo_db False, []) (demo_issue_db, [])" by simp
  then show ?thesis using demo_numbered by (rule issue_numbers_consecutive)
qed

lemma concurrent_issue_conflict_witness:
  "issue_Create_at 6 (Uuid 21) (Uuid 10) 1 (Uuid 2) ''other'' [] demo_issue_db
     = (Inl (UniqueViolation ''issues_repo_id_number_key''), demo_issue_db)"
proof -
  have "key_free i_id (Uuid 21) (issues (demo_db False))" by (simp add: key_free_iff demo_defs)
  from concurrent_issue_conflict [OF demo_create [folded demo_number [of False]] _ this, of 6 "Uuid 2" "''other''" "[]"]
  show ?thesis by (simp only: demo_number) simp
qed

lemma created_issue_found_witness:
  "issue_Get (Uuid 10) 1 demo_issue_db
     = Inr (enrich demo_issue_db (scanIssue demo_issue_db (new_issue_row 5 (Uuid 20) (Uuid 10) 1 (Uuid 2) ''bug'' ''x'')))
   \<and> CountByRepo (Uuid 10) demo_issue_db = (1, 0)"
proof -
  have "issue_Create 5 (Uuid 20) (Uuid 10) (Uuid 2) ''bug'' ''x'' (demo_db False)
     = (Inr (enrich demo_issue_db (scanIssue demo_issue_db (new_issue_row 5 (Uuid 20) (Uuid 10) 1 (Uuid 2) ''bug'' ''x''))),
        demo_issue_db)"
    by (simp add: issue_Create_def demo_number demo_create)
  from created_issue_found [OF this demo_numbered] show ?thesis
    by (simp add: enrich_def scanIssue_def new_issue_row_def CountByRepo_def rows_affected_def demo_defs)
qed

lemma set_assignees_exact_witness:
  "(\<exists>d1. SetAssignees 7 (Uuid 20) [Uuid 2, Uuid 1] demo_issue_db = (Inr (), d1)
      \<and> {u. (Uuid 20, u) \<in> set (assignees d1)} = {Uuid 1, Uuid 2})
   \<and> (\<exists>e. SetAssignees 7 (Uuid 20) [Uuid 2, Uuid 3] demo_issue_db = (Inl (ForeignKeyViolation e), demo_issue_db))"
proof -
  have ok: "assignees_ok demo_issue_db" "unique_on u_id (users demo_issue_db)"
    by (simp_all add: assignees_ok_def unique_on_def issue_demo_defs)
  have ex: "issue_exists (Uuid 20) demo_issue_db" "user_exists (Uuid 1) demo_issue_db"
      "user_exists (Uuid 2) demo_issue_db" "\<not> user_exists (Uuid 3) demo_issue_db"
    by (simp_all add: issue_exists_def user_exists_def references_iff issue_demo_defs)
  have "\<exists>d1. SetAssignees 7 (Uuid 20) [Uuid 2, Uuid 1] demo_issue_db = (Inr (), d1)
      \<and> {u. (Uuid 20, u) \<in> set (assignees d1)} = {Uuid 1, Uuid 2}"
    using set_assignees_exact [OF ok, of "Uuid 20" "[Uuid 2, Uuid 1]" 7] ex by (auto simp: insert_commute)
  moreover have "\<exists>e. SetAssignees 7 (Uuid 20) [Uuid 2, Uuid 3] demo_issue_db = (Inl (ForeignKeyViolation e), demo_issue_db)"
    using set_assignees_exact [OF ok, of "Uuid 20" "[Uuid 2, Uuid 3]" 7] ex by simp
  ultimately show ?thesis ..
qed

lemma repeated_reaction_error_witness:
  "AddReaction 9 (Uuid 31) (Uuid 20) (Uuid 2) None ''heart''
      (snd (AddReaction 8 (Uuid 30) (Uuid 20) (Uuid 2) None ''heart'' demo_issue_db))
     = (Inl (ErrMsg ''reaction already exists''),
        snd (AddReaction 8 (Uuid 30) (Uuid 20) (Uuid 2) None ''heart'' demo_issue_db))"
proof -
  have "\<exists>x. AddReaction 8 (Uuid 30) (Uuid 20) (Uuid 2) None ''heart'' demo_issue_db
      = (Inr x, snd (AddReaction 8 (Uuid 30) (Uuid 20) (Uuid 2) None ''heart'' demo_issue_db))"
    by (simp add: AddReaction_def insert_reaction_def ValidReactionContent_def sql_exists_iff key_free_iff
        issue_exists_def user_exists_def references_iff issue_demo_defs)
  then obtain x where "AddReaction 8 (Uuid 30) (Uuid 20) (Uuid 2) None ''heart'' demo_issue_db
      = (Inr x, snd (AddReaction 8 (Uuid 30) (Uuid 20) (Uuid 2) None ''heart'' demo_issue_db))" ..
  from repeated_reaction_error [OF this, of "Uuid 31" 9] show ?thesis
    by (simp add: key_free_iff issue_demo_defs)
qed

end
