(* ===== verification/Feeds.thy ===== *)
theory Feeds
  imports Repo Numbering
begin

section \<open>Notifications, audit log and public events (internal/notification, audit, events)\<close>

text \<open>
  Append-only feeds and their listings. A notification is written by a goroutine whose errors are
  dropped; the model runs it at once. Metadata is the JSON text of the value; the encoder is applied
  by the caller, None standing for a nil value.
\<close>

subsection \<open>Notifications\<close>

record notification =
  nf_id :: uuid
  nf_user :: uuid
  nf_title :: string
  nf_body :: string
  nf_link :: string
  nf_read :: bool
  nf_created :: instant

definition notification_of :: "notification_row \<Rightarrow> notification" where
  "notification_of r = \<lparr>nf_id = n_id r, nf_user = n_user r, nf_title = n_title r,
     nf_body = coalesce (n_body r) [], nf_link = coalesce (n_link r) [], nf_read = n_read r,
     nf_created = n_created r\<rparr>"

definition notification_Create ::
  "instant \<Rightarrow> uuid \<Rightarrow> uuid \<Rightarrow> string \<Rightarrow> string \<Rightarrow> string \<Rightarrow> db \<Rightarrow> unit result \<times> db" where
  "notification_Create now nid uid title body link d =
     (if \<not> key_free n_id nid (notifications d) then (Inl (UniqueViolation ''notifications_pkey''), d)
      else if \<not> user_exists uid d then (Inl (ForeignKeyViolation ''notifications_user_id_fkey''), d)
      else (Inr (), d\<lparr>notifications := insert_row
             \<lparr>n_id = nid, n_user = uid, n_title = title, n_body = Some body, n_link = Some link,
              n_read = False, n_created = now\<rparr> (notifications d)\<rparr>))"

definition NotifyAsync :: "instant \<Rightarrow> uuid \<Rightarrow> uuid \<Rightarrow> string \<Rightarrow> string \<Rightarrow> string \<Rightarrow> db \<Rightarrow> db" where
  "NotifyAsync now nid uid title body link d =
     (if uid = uuid_nil then d else snd (notification_Create now nid uid title body link d))"

definition notification_List :: "uuid \<Rightarrow> int \<Rightarrow> db \<Rightarrow> notification list" where
  "notification_List uid limit0 d =
     (let limit = (if limit0 \<le> 0 then 20 else limit0)
      in map notification_of
           (take (nat limit) (order_by_desc n_created (rows_where (\<lambda>r. n_user r = uid) (notifications d)))))"

definition UnreadCount :: "uuid \<Rightarrow> db \<Rightarrow> nat" where
  "UnreadCount uid d = rows_affected (\<lambda>r. n_user r = uid \<and> n_read r = False) (notifications d)"

definition MarkRead :: "uuid \<Rightarrow> uuid \<Rightarrow> db \<Rightarrow> unit result \<times> db" where
  "MarkRead nid uid d =
     (Inr (), d\<lparr>notifications := update_where (\<lambda>r. n_id r = nid \<and> n_user r = uid) (\<lambda>r. r\<lparr>n_read := True\<rparr>)
                 (notifications d)\<rparr>)"

subsection \<open>The audit log\<close>

record audit_entry =
  ae_id :: uuid
  ae_actor :: "uuid option"
  ae_action :: string
  ae_rtype :: string
  ae_rid :: string
  ae_meta :: "string option"
  ae_created :: instant

record list_filter =
  lf_action :: string
  lf_rtype :: string
  lf_actor :: "uuid option"

definition audit_of :: "audit_row \<Rightarrow> audit_entry" where
  "audit_of r = \<lparr>ae_id = au_id r, ae_actor = au_actor r, ae_action = au_action r, ae_rtype = au_rtype r,
     ae_rid = au_rid r, ae_meta = au_meta r, ae_created = au_created r\<rparr>"

definition audit_Record ::
  "instant \<Rightarrow> uuid \<Rightarrow> uuid \<Rightarrow> string \<Rightarrow> string \<Rightarrow> string \<Rightarrow> string result option \<Rightarrow> db \<Rightarrow> unit result \<times> db" where
  "audit_Record now nid actor action resourceType resourceID metadata d =
     (case metadata of
        Some (Inl e) \<Rightarrow> (Inl e, d)
      | m \<Rightarrow>
          (let meta = (case m of Some (Inr t) \<Rightarrow> Some t | _ \<Rightarrow> None)
           in if \<not> key_free au_id nid (audits d) then (Inl (UniqueViolation ''audit_log_pkey''), d)
              else if \<not> user_exists actor d then (Inl (ForeignKeyViolation ''audit_log_actor_id_fkey''), d)
              else (Inr (), d\<lparr>audits := insert_row
                     \<lparr>au_id = nid, au_actor = Some actor, au_action = action, au_rtype = resourceType,
                      au_rid = resourceID, au_meta = meta, au_created = now\<rparr> (audits d)\<rparr>)))"

definition filter_matches :: "list_filter \<Rightarrow> audit_row \<Rightarrow> bool" where
  "filter_matches f r =
     ((lf_action f = [] \<or> au_action r = lf_action f)
      \<and> (lf_rtype f = [] \<or> au_rtype r = lf_rtype f)
      \<and> (case lf_actor f of None \<Rightarrow> True | Some a \<Rightarrow> au_actor r = Some a))"

definition ListFiltered :: "list_filter \<Rightarrow> int \<Rightarrow> db \<Rightarrow> audit_entry list" where
  "ListFiltered f limit0 d =
     (let limit = (if limit0 \<le> 0 then 50 else limit0)
      in map audit_of (take (nat limit) (order_by_desc au_created (rows_where (filter_matches f) (audits d)))))"

definition audit_List :: "int \<Rightarrow> db \<Rightarrow> audit_entry list" where
  "audit_List limit d = ListFiltered \<lparr>lf_action = [], lf_rtype = [], lf_actor = None\<rparr> limit d"

subsection \<open>Public events\<close>

record public_event =
  pv_id :: uuid
  pv_type :: string
  pv_actor_id :: "uuid option"
  pv_actor :: string
  pv_repo :: "uuid option"
  pv_full_name :: string
  pv_payload :: string
  pv_created :: instant

definition events_Record ::
  "instant \<Rightarrow> uuid \<Rightarrow> string \<Rightarrow> uuid \<Rightarrow> uuid option \<Rightarrow> string \<Rightarrow> string result option \<Rightarrow> db \<Rightarrow> unit result \<times> db" where
  "events_Record now nid eventType actor rid fullName payload d =
     (case payload of
        Some (Inl e) \<Rightarrow> (Inl e, d)
      | p \<Rightarrow>
          if \<not> key_free ev_id nid (events d) then (Inl (UniqueViolation ''events_pkey''), d)
          else if \<not> user_exists actor d then (Inl (ForeignKeyViolation ''events_actor_id_fkey''), d)
          else if (case rid of None \<Rightarrow> False | Some x \<Rightarrow> \<not> repo_exists x d)
          then (Inl (ForeignKeyViolation ''events_repo_id_fkey''), d)
          else (Inr (), d\<lparr>events := insert_row
                 \<lparr>ev_id = nid, ev_type = eventType, ev_actor = Some actor, ev_repo = rid,
                  ev_full_name = Some fullName,
                  ev_payload = (case p of Some (Inr t) \<Rightarrow> Some t | _ \<Rightarrow> None), ev_created = now\<rparr> (events d)\<rparr>))"

definition event_of :: "db \<Rightarrow> event_row \<Rightarrow> public_event" where
  "event_of d r = \<lparr>pv_id = ev_id r, pv_type = ev_type r, pv_actor_id = ev_actor r,
     pv_actor = username_opt (ev_actor r) d, pv_repo = ev_repo r, pv_full_name = coalesce (ev_full_name r) [],
     pv_payload = coalesce (ev_payload r) ''null'', pv_created = ev_created r\<rparr>"

definition events_List :: "int \<Rightarrow> db \<Rightarrow> public_event list" where
  "events_List limit0 d =
     (let limit = (if limit0 \<le> 0 \<or> limit0 > 100 then 30 else limit0)
      in map (event_of d) (take (nat limit) (order_by_desc ev_created (events d))))"

text \<open>An account that appears in the audit log can no longer be deleted.\<close>

lemma audited_user_referenced:
  "audit_Record now nid actor action rt r m d = (Inr (), d1) \<Longrightarrow> user_referenced actor d1"
  by (auto simp: audit_Record_def user_referenced_def references_iff Let_def split: option.splits sum.splits if_splits)

end
