(* ===== verification/Pull.thy ===== *)
theory Pull
  imports Protection Numbering
begin

section \<open>Pull requests (internal/pull/pull.go)\<close>

text \<open>
  Pull requests with their reviews and comments. Create and the single-row queries hand back the
  half-filled struct together with the error; the model keeps the error. The integer columns hold
  the Go ints as they are.
\<close>

record pull_request =
  pq_id :: uuid
  pq_repo :: uuid
  pq_number :: int
  pq_title :: string
  pq_body :: string
  pq_state :: string
  pq_author :: uuid
  pq_head :: string
  pq_base :: string
  pq_head_sha :: string
  pq_merged :: "instant option"
  pq_merge_sha :: string
  pq_created :: instant
  pq_updated :: instant

record review =
  rw_id :: uuid
  rw_pr :: uuid
  rw_reviewer_id :: uuid
  rw_reviewer :: string
  rw_state :: string
  rw_body :: string
  rw_created :: instant

record line_comment =
  lc_id :: uuid
  lc_pr :: uuid
  lc_author_id :: uuid
  lc_author :: string
  lc_body :: string
  lc_path :: string
  lc_line :: int
  lc_created :: instant

definition pull_of :: "pull_row \<Rightarrow> pull_request" where
  "pull_of r = \<lparr>pq_id = pr_id r, pq_repo = pr_repo r, pq_number = pr_number r, pq_title = pr_title r,
     pq_body = coalesce (pr_body r) [], pq_state = pr_state r, pq_author = pr_author r, pq_head = pr_head r,
     pq_base = pr_base r, pq_head_sha = pr_head_sha r, pq_merged = pr_merged r,
     pq_merge_sha = coalesce (pr_merge_sha r) [], pq_created = pr_created r, pq_updated = pr_updated r\<rparr>"

definition pull_number_of :: "uuid \<Rightarrow> db \<Rightarrow> int" where
  "pull_number_of rid d = next_number pr_repo pr_number rid (pulls d)"

definition insert_pull :: "pull_row \<Rightarrow> db \<Rightarrow> unit result \<times> db" where
  "insert_pull r d =
     (if \<not> key_free pr_id (pr_id r) (pulls d) then (Inl (UniqueViolation ''pull_requests_pkey''), d)
      else if \<not> key_free (\<lambda>q. (pr_repo q, pr_number q)) (pr_repo r, pr_number r) (pulls d)
      then (Inl (UniqueViolation ''pull_requests_repo_id_number_key''), d)
      else if \<not> repo_exists (pr_repo r) d then (Inl (ForeignKeyViolation ''pull_requests_repo_id_fkey''), d)
      else if \<not> user_exists (pr_author r) d then (Inl (ForeignKeyViolation ''pull_requests_author_id_fkey''), d)
      else (Inr (), d\<lparr>pulls := insert_row r (pulls d)\<rparr>))"

definition pull_Create ::
  "instant \<Rightarrow> uuid \<Rightarrow> uuid \<Rightarrow> uuid \<Rightarrow> string \<Rightarrow> string \<Rightarrow> string \<Rightarrow> string \<Rightarrow> string \<Rightarrow> db
     \<Rightarrow> pull_request result \<times> db" where
  "pull_Create now nid rid author title body head base headSHA d =
     (let r = \<lparr>pr_id = nid, pr_repo = rid, pr_number = pull_number_of rid d, pr_title = title,
               pr_body = Some body, pr_state = ''open'', pr_author = author, pr_head = head, pr_base = base,
               pr_head_sha = headSHA, pr_merged = None, pr_merge_sha = None, pr_created = now, pr_updated = now\<rparr>
      in case insert_pull r d of
           (Inl e, d1) \<Rightarrow> (Inl e, d1)
         | (Inr u, d1) \<Rightarrow> (Inr (pull_of r), d1))"

definition pulls_of :: "uuid \<Rightarrow> db \<Rightarrow> pull_row list" where
  "pulls_of rid d = order_by_desc pr_number (rows_where (\<lambda>r. pr_repo r = rid) (pulls d))"

definition pull_List :: "uuid \<Rightarrow> db \<Rightarrow> pull_request list" where
  "pull_List rid d = map pull_of (pulls_of rid d)"

definition pull_ListPaginated :: "uuid \<Rightarrow> int \<Rightarrow> int \<Rightarrow> db \<Rightarrow> pull_request list" where
  "pull_ListPaginated rid limit0 offset d =
     (let limit = (if limit0 \<le> 0 then 30 else limit0)
      in map pull_of (page limit offset (pulls_of rid d)))"

definition pull_Get :: "uuid \<Rightarrow> int \<Rightarrow> db \<Rightarrow> pull_request result" where
  "pull_Get rid number d =
     (case query_row (\<lambda>r. (pr_repo r, pr_number r) = (rid, number)) (pulls d) of
        None \<Rightarrow> Inl NoRows
      | Some r \<Rightarrow> Inr (pull_of r))"

definition pull_exists :: "uuid \<Rightarrow> db \<Rightarrow> bool" where
  "pull_exists prid d = references pr_id prid (pulls d)"

definition review_of :: "string \<Rightarrow> review_row \<Rightarrow> review" where
  "review_of name r = \<lparr>rw_id = rv_id r, rw_pr = rv_pr r, rw_reviewer_id = rv_reviewer r, rw_reviewer = name,
     rw_state = rv_state r, rw_body = coalesce (rv_body r) [], rw_created = rv_created r\<rparr>"

definition AddReview ::
  "instant \<Rightarrow> uuid \<Rightarrow> uuid \<Rightarrow> uuid \<Rightarrow> string \<Rightarrow> string \<Rightarrow> db \<Rightarrow> review result \<times> db" where
  "AddReview now nid prid reviewer state body d =
     (let r = \<lparr>rv_id = nid, rv_pr = prid, rv_reviewer = reviewer, rv_state = state, rv_body = Some body,
               rv_created = now\<rparr>
      in if \<not> key_free rv_id nid (reviews d) then (Inl (UniqueViolation ''pr_reviews_pkey''), d)
         else if \<not> pull_exists prid d then (Inl (ForeignKeyViolation ''pr_reviews_pr_id_fkey''), d)
         else if \<not> user_exists reviewer d then (Inl (ForeignKeyViolation ''pr_reviews_reviewer_id_fkey''), d)
         else (Inr (review_of [] r), d\<lparr>reviews := insert_row r (reviews d)\<rparr>))"

definition ListReviews :: "uuid \<Rightarrow> db \<Rightarrow> review list" where
  "ListReviews prid d =
     map (\<lambda>r. review_of (username (rv_reviewer r) d) r)
       (order_by rv_created (rows_where (\<lambda>r. rv_pr r = prid) (reviews d)))"

definition pull_Merge :: "instant \<Rightarrow> uuid \<Rightarrow> string \<Rightarrow> db \<Rightarrow> unit result \<times> db" where
  "pull_Merge now prid mergeSHA d =
     (Inr (), d\<lparr>pulls := update_where (\<lambda>r. pr_id r = prid)
                  (\<lambda>r. r\<lparr>pr_state := ''closed'', pr_merged := Some now, pr_merge_sha := Some mergeSHA,
                         pr_updated := now\<rparr>) (pulls d)\<rparr>)"

definition ReviewCount :: "uuid \<Rightarrow> string \<Rightarrow> db \<Rightarrow> nat" where
  "ReviewCount prid state d = rows_affected (\<lambda>r. rv_pr r = prid \<and> rv_state r = state) (reviews d)"

definition line_comment_of :: "string \<Rightarrow> pr_comment_row \<Rightarrow> line_comment" where
  "line_comment_of name r = \<lparr>lc_id = pc_id r, lc_pr = pc_pr r, lc_author_id = pc_author r, lc_author = name,
     lc_body = pc_body r, lc_path = coalesce (pc_path r) [], lc_line = coalesce (pc_line r) 0,
     lc_created = pc_created r\<rparr>"

definition pull_AddComment ::
  "instant \<Rightarrow> uuid \<Rightarrow> uuid \<Rightarrow> uuid \<Rightarrow> string \<Rightarrow> string \<Rightarrow> int \<Rightarrow> db \<Rightarrow> line_comment result \<times> db" where
  "pull_AddComment now nid prid author body path line d =
     (let r = \<lparr>pc_id = nid, pc_pr = prid, pc_author = author, pc_body = body, pc_path = Some path,
               pc_line = Some line, pc_created = now\<rparr>
      in if \<not> key_free pc_id nid (pr_comments d) then (Inl (UniqueViolation ''pr_comments_pkey''), d)
         else if \<not> pull_exists prid d then (Inl (ForeignKeyViolation ''pr_comments_pr_id_fkey''), d)
         else if \<not> user_exists author d then (Inl (ForeignKeyViolation ''pr_comments_author_id_fkey''), d)
         else (let d1 = d\<lparr>pr_comments := insert_row r (pr_comments d)\<rparr>
               in (Inr (line_comment_of (username author d1) r), d1)))"

definition pull_ListComments :: "uuid \<Rightarrow> db \<Rightarrow> line_comment list" where
  "pull_ListComments prid d =
     map (\<lambda>r. line_comment_of (username (pc_author r) d) r)
       (order_by pc_created (rows_where (\<lambda>r. pc_pr r = prid) (pr_comments d)))"

end
