(* ===== verification/Org.thy ===== *)
theory Org
  imports Repo
begin

section \<open>Organizations and teams (internal/org/org.go)\<close>

text \<open>
  Organizations, their members and teams. None of these operations checks who asks: that is left
  to the callers. A list query without LIMIT has no ORDER BY and comes in table order.
\<close>

record org =
  og_id :: uuid
  og_name :: string
  og_display :: string
  og_desc :: string
  og_created :: instant

record team =
  te_id :: uuid
  te_org :: uuid
  te_name :: string
  te_desc :: string

record member =
  me_user :: uuid
  me_username :: string
  me_role :: string

definition org_of :: "org_row \<Rightarrow> org" where
  "org_of r = \<lparr>og_id = o_id r, og_name = o_name r, og_display = coalesce (o_display r) [],
     og_desc = coalesce (o_desc r) [], og_created = o_created r\<rparr>"

definition team_of :: "team_row \<Rightarrow> team" where
  "team_of r = \<lparr>te_id = tm_id r, te_org = tm_org r, te_name = tm_name r, te_desc = coalesce (tm_desc r) []\<rparr>"

definition org_exists :: "uuid \<Rightarrow> db \<Rightarrow> bool" where
  "org_exists oid d = references o_id oid (orgs d)"

definition org_Create :: "instant \<Rightarrow> uuid \<Rightarrow> string \<Rightarrow> string \<Rightarrow> string \<Rightarrow> db \<Rightarrow> org result \<times> db" where
  "org_Create now nid name displayName description d =
     (let r = \<lparr>o_id = nid, o_name = name, o_display = Some displayName, o_desc = Some description, o_created = now\<rparr>
      in if \<not> key_free o_id nid (orgs d) then (Inl (UniqueViolation ''orgs_pkey''), d)
         else if \<not> key_free o_name name (orgs d) then (Inl (UniqueViolation ''orgs_name_key''), d)
         else (Inr (org_of r), d\<lparr>orgs := insert_row r (orgs d)\<rparr>))"

definition same_member :: "uuid \<Rightarrow> uuid \<Rightarrow> member_row \<Rightarrow> bool" where
  "same_member oid uid m = (om_org m = oid \<and> om_user m = uid)"

definition AddMember :: "uuid \<Rightarrow> uuid \<Rightarrow> string \<Rightarrow> db \<Rightarrow> unit result \<times> db" where
  "AddMember oid uid role d =
     (if sql_exists (same_member oid uid) (members d) then (Inr (), d)
      else if \<not> org_exists oid d then (Inl (ForeignKeyViolation ''org_members_org_id_fkey''), d)
      else if \<not> user_exists uid d then (Inl (ForeignKeyViolation ''org_members_user_id_fkey''), d)
      else (Inr (), d\<lparr>members := insert_row \<lparr>om_org = oid, om_user = uid, om_role = role\<rparr> (members d)\<rparr>))"

definition CreateTeam :: "uuid \<Rightarrow> uuid \<Rightarrow> string \<Rightarrow> string \<Rightarrow> db \<Rightarrow> team result \<times> db" where
  "CreateTeam nid oid name description d =
     (let r = \<lparr>tm_id = nid, tm_org = oid, tm_name = name, tm_desc = Some description\<rparr>
      in if \<not> key_free tm_id nid (teams d) then (Inl (UniqueViolation ''teams_pkey''), d)
         else if \<not> key_free (\<lambda>t. (tm_org t, tm_name t)) (oid, name) (teams d)
         then (Inl (UniqueViolation ''teams_org_id_name_key''), d)
         else if \<not> org_exists oid d then (Inl (ForeignKeyViolation ''teams_org_id_fkey''), d)
         else (Inr (team_of r), d\<lparr>teams := insert_row r (teams d)\<rparr>))"

definition AddTeamMember :: "uuid \<Rightarrow> uuid \<Rightarrow> db \<Rightarrow> unit result \<times> db" where
  "AddTeamMember tid uid d =
     (if (tid, uid) \<in> set (team_members d) then (Inr (), d)
      else if \<not> references tm_id tid (teams d) then (Inl (ForeignKeyViolation ''team_members_team_id_fkey''), d)
      else if \<not> user_exists uid d then (Inl (ForeignKeyViolation ''team_members_user_id_fkey''), d)
      else (Inr (), d\<lparr>team_members := insert_row (tid, uid) (team_members d)\<rparr>))"

definition IsMember :: "uuid \<Rightarrow> uuid \<Rightarrow> db \<Rightarrow> bool" where
  "IsMember oid uid d =
     (case query_row (same_member oid uid) (members d) of None \<Rightarrow> False | Some m \<Rightarrow> True)"

definition org_ListPaginated :: "int \<Rightarrow> int \<Rightarrow> db \<Rightarrow> org list" where
  "org_ListPaginated limit offset d =
     map org_of (page limit offset (if limit > 0 then order_by_desc o_created (orgs d) else orgs d))"

definition org_List :: "db \<Rightarrow> org list" where
  "org_List d = org_ListPaginated 0 0 d"

definition GetByName :: "string \<Rightarrow> db \<Rightarrow> org result" where
  "GetByName name d =
     (case query_row (\<lambda>r. o_name r = name) (orgs d) of
        None \<Rightarrow> Inl (ErrMsg ''org not found'')
      | Some r \<Rightarrow> Inr (org_of r))"

definition ListMembers :: "uuid \<Rightarrow> db \<Rightarrow> member list" where
  "ListMembers oid d =
     map (\<lambda>(m, u). \<lparr>me_user = om_user m, me_username = u_name u, me_role = om_role m\<rparr>)
       (order_by (\<lambda>(m, u). u_name u)
          (join_on (\<lambda>m u. om_user m = u_id u) (rows_where (\<lambda>m. om_org m = oid) (members d)) (users d)))"

definition ListTeams :: "uuid \<Rightarrow> db \<Rightarrow> team list" where
  "ListTeams oid d = map team_of (order_by tm_name (rows_where (\<lambda>t. tm_org t = oid) (teams d)))"

definition GetTeam :: "uuid \<Rightarrow> string \<Rightarrow> db \<Rightarrow> team result" where
  "GetTeam oid teamName d =
     (case query_row (\<lambda>t. tm_org t = oid \<and> tm_name t = teamName) (teams d) of
        None \<Rightarrow> Inl (ErrMsg ''team not found'')
      | Some r \<Rightarrow> Inr (team_of r))"

definition ListTeamMembers :: "uuid \<Rightarrow> db \<Rightarrow> member list" where
  "ListTeamMembers tid d =
     map (\<lambda>(p, u). \<lparr>me_user = snd p, me_username = u_name u, me_role = ''member''\<rparr>)
       (order_by (\<lambda>(p, u). u_name u)
          (join_on (\<lambda>p u. snd p = u_id u) (rows_where (\<lambda>p. fst p = tid) (team_members d)) (users d)))"

definition org_ListForUser :: "uuid \<Rightarrow> db \<Rightarrow> org list" where
  "org_ListForUser uid d =
     map (\<lambda>(g, m). org_of g)
       (order_by (\<lambda>(g, m). o_name g)
          (rows_where (\<lambda>(g, m). om_user m = uid) (join_on (\<lambda>g m. om_org m = o_id g) (orgs d) (members d))))"

text \<open>Adding a member keeps an existing membership, its role included.\<close>

lemma IsMember_iff: "IsMember oid uid d \<longleftrightarrow> (\<exists>m\<in>set (members d). om_org m = oid \<and> om_user m = uid)"
proof (cases "query_row (same_member oid uid) (members d)")
  case None
  then have "\<not> (\<exists>m\<in>set (members d). om_org m = oid \<and> om_user m = uid)"
    by (auto simp: query_row_None same_member_def)
  then show ?thesis using None by (simp add: IsMember_def)
next
  case (Some m)
  then show ?thesis
    using query_row_Some [OF Some] by (auto simp: IsMember_def same_member_def)
qed

lemma AddMember_member: "AddMember oid uid role d = (Inr (), d1) \<Longrightarrow> IsMember oid uid d1"
  by (auto simp: AddMember_def IsMember_iff sql_exists_iff same_member_def split: if_splits)

lemma AddMember_new:
  assumes "\<not> IsMember oid uid d" and "org_exists oid d" and "user_exists uid d"
  shows "AddMember oid uid role d
      = (Inr (), d\<lparr>members := insert_row \<lparr>om_org = oid, om_user = uid, om_role = role\<rparr> (members d)\<rparr>)"
  using assms by (auto simp: AddMember_def IsMember_iff sql_exists_iff same_member_def)

lemma AddMember_keeps: "IsMember oid uid d \<Longrightarrow> AddMember oid uid role d = (Inr (), d)"
  by (auto simp: AddMember_def IsMember_iff sql_exists_iff same_member_def)

end
