(* ===== verification/Wiki.thy ===== *)
theory Wiki
  imports Repo Numbering
begin

section \<open>Wiki pages (internal/wiki/wiki.go)\<close>

text \<open>
  Pages keyed by repository and slug. The regular expression \<open>[^a-z0-9-]+\<close> replaced by nothing
  removes every byte outside the class. Saving over an existing page keeps its first author.
\<close>

record wiki_page =
  wp_id :: uuid
  wp_repo :: uuid
  wp_slug :: string
  wp_title :: string
  wp_content :: string
  wp_author_id :: uuid
  wp_author :: string
  wp_created :: instant
  wp_updated :: instant

definition slug_char :: "char \<Rightarrow> bool" where
  "slug_char c = (is_lower_letter c \<or> is_digit c \<or> c = CHR ''-'')"

definition Slugify :: "string \<Rightarrow> string" where
  "Slugify title =
     (let s = to_lower (trim_space title);
          s1 = replace_byte (CHR '' '') (CHR ''-'') s
      in filter slug_char s1)"

definition page_of :: "string \<Rightarrow> wiki_row \<Rightarrow> wiki_page" where
  "page_of name r = \<lparr>wp_id = wk_id r, wp_repo = wk_repo r, wp_slug = wk_slug r, wp_title = wk_title r,
     wp_content = wk_content r, wp_author_id = wk_author r, wp_author = name, wp_created = wk_created r,
     wp_updated = wk_updated r\<rparr>"

definition same_page :: "uuid \<Rightarrow> string \<Rightarrow> wiki_row \<Rightarrow> bool" where
  "same_page rid slug r = ((wk_repo r, wk_slug r) = (rid, slug))"

definition wiki_List :: "uuid \<Rightarrow> db \<Rightarrow> wiki_page list" where
  "wiki_List rid d =
     map (\<lambda>r. page_of (username (wk_author r) d) r) (order_by wk_title (rows_where (\<lambda>r. wk_repo r = rid) (wiki d)))"

definition wiki_Get :: "uuid \<Rightarrow> string \<Rightarrow> db \<Rightarrow> wiki_page result" where
  "wiki_Get rid slug d =
     (case query_row (same_page rid slug) (wiki d) of
        None \<Rightarrow> Inl ErrWikiNotFound
      | Some r \<Rightarrow> Inr (page_of (username (wk_author r) d) r))"

text \<open>
  INSERT ... ON CONFLICT (repo_id, slug) DO UPDATE ... RETURNING: the row returned is the one now
  in the table. The author's name is not filled in.
\<close>

definition wiki_Upsert ::
  "instant \<Rightarrow> uuid \<Rightarrow> uuid \<Rightarrow> uuid \<Rightarrow> string \<Rightarrow> string \<Rightarrow> string \<Rightarrow> db \<Rightarrow> wiki_page result \<times> db" where
  "wiki_Upsert now nid rid author slug0 title content d =
     (let slug = (if slug0 = [] then Slugify title else slug0);
          new = \<lparr>wk_id = nid, wk_repo = rid, wk_slug = slug, wk_title = title, wk_content = content,
                 wk_author = author, wk_created = now, wk_updated = now\<rparr>;
          change = (\<lambda>r. r\<lparr>wk_title := title, wk_content := content, wk_updated := now\<rparr>)
      in case query_row (same_page rid slug) (wiki d) of
           Some r \<Rightarrow> (Inr (page_of [] (change r)), d\<lparr>wiki := update_where (same_page rid slug) change (wiki d)\<rparr>)
         | None \<Rightarrow>
             if \<not> key_free wk_id nid (wiki d) then (Inl (UniqueViolation ''wiki_pages_pkey''), d)
             else if \<not> repo_exists rid d then (Inl (ForeignKeyViolation ''wiki_pages_repo_id_fkey''), d)
             else if \<not> user_exists author d then (Inl (ForeignKeyViolation ''wiki_pages_author_id_fkey''), d)
             else (Inr (page_of [] new), d\<lparr>wiki := insert_row new (wiki d)\<rparr>))"

definition wiki_Delete :: "uuid \<Rightarrow> string \<Rightarrow> db \<Rightarrow> unit result \<times> db" where
  "wiki_Delete rid slug d =
     (let d1 = d\<lparr>wiki := delete_where (same_page rid slug) (wiki d)\<rparr>
      in if rows_affected (same_page rid slug) (wiki d) = 0 then (Inl ErrWikiNotFound, d1) else (Inr (), d1))"

subsection \<open>Slugs\<close>

lemma Slugify_chars: "c \<in> set (Slugify t) \<Longrightarrow> slug_char c"
  by (auto simp: Slugify_def Let_def)

lemma slug_char_fixed: "slug_char c \<Longrightarrow> byte_lower c = c \<and> c \<noteq> CHR '' ''"
  by (auto simp: slug_char_def is_lower_letter_def is_digit_def byte_lower_def Let_def)

end
