(* ===== verification/ApiCore.thy ===== *)
theory ApiCore
  imports Tokens Protection GitStore Webhook Artifacts Presence Aireview Issue Feeds Pull Org Wiki
begin

section \<open>The API server: requests, answers, access (internal/api/server.go)\<close>

text \<open>
  The state the handlers of the REST API share, the middleware that identifies the caller, and the
  checks at the head of every handler. A handler takes the request and the world and gives the
  answer and the world afterwards.

  A decoded body is the value its struct has after \<open>Decode\<close> and whether decoding failed, since
  many handlers go on with what they got. The identifiers Postgres generates are drawn from
  \<open>cx_fresh\<close>, by their place in the handler. One clock reading serves a request. Goroutines a handler
  starts (notifications, reviews) run at once; documents sent to the search index are collected. The
  audit service is always there, as the server's main program sets it up.
\<close>

subsection \<open>The world of the server\<close>

record document =
  dc_id :: string
  dc_type :: string
  dc_title :: string
  dc_body :: string
  dc_repo :: string
  dc_ref :: string

record 'g api_world =
  ap_db :: db
  ap_users :: "user cache"
  ap_repos :: "repository cache"
  ap_store :: "'g store"
  ap_files :: files
  ap_presence :: tracker
  ap_docs :: "document list"

record ('g, 'k) server =
  sr_crypto :: crypto
  sr_auth :: auth_config
  sr_git :: "'g git_lib"
  sr_disk :: disk_lib
  sr_ssh :: "'k ssh_lib"
  sr_releases :: file_store
  sr_packages :: file_store
  sr_json :: "(string \<times> string) list \<Rightarrow> string result"
  sr_yaml :: "string \<Rightarrow> workflow result"
  sr_base64 :: "string \<Rightarrow> string option"
  sr_rfc3339 :: "string \<Rightarrow> instant option"
  sr_ai :: "(ai_config \<times> ai_lib) option"
  sr_zone :: int

record request =
  cx_now :: instant
  cx_fresh :: "nat \<Rightarrow> uuid"
  cx_user :: uuid
  cx_pat :: bool
  cx_scopes :: "string list"
  cx_owner :: string
  cx_repo :: string
  cx_number :: string

datatype 'a reply = OK 'a | NoContent | JsonError int string

type_synonym ('a, 'g) outcome = "'a reply \<times> 'g api_world"

type_synonym 'r body = "'r \<times> bool"

definition zoned_now :: "('g, 'k) server \<Rightarrow> request \<Rightarrow> zoned" where
  "zoned_now sv r = (cx_now r, sr_zone sv)"

subsection \<open>Answers\<close>

text \<open>The two ways out after a call of a service: its error with a status, or its value.\<close>

definition answer :: "int \<Rightarrow> ('a \<Rightarrow> 'b) \<Rightarrow> 'a result \<times> 'g api_world \<Rightarrow> ('b, 'g) outcome" where
  "answer code f out =
     (case out of (Inl e, w) \<Rightarrow> (JsonError code (err_text e), w) | (Inr x, w) \<Rightarrow> (OK (f x), w))"

definition and_then ::
  "int \<Rightarrow> 'a result \<times> 'g api_world \<Rightarrow> ('a \<Rightarrow> 'g api_world \<Rightarrow> ('b, 'g) outcome) \<Rightarrow> ('b, 'g) outcome" where
  "and_then code out k =
     (case out of (Inl e, w) \<Rightarrow> (JsonError code (err_text e), w) | (Inr x, w) \<Rightarrow> k x w)"

text \<open>The same when the handler has a message of its own for the failure.\<close>

definition or_fail ::
  "int \<Rightarrow> string \<Rightarrow> 'a result \<times> 'g api_world \<Rightarrow> ('a \<Rightarrow> 'g api_world \<Rightarrow> ('b, 'g) outcome) \<Rightarrow> ('b, 'g) outcome" where
  "or_fail code msg out k = (case out of (Inl e, w) \<Rightarrow> (JsonError code msg, w) | (Inr x, w) \<Rightarrow> k x w)"

text \<open>Running an operation of a service on its part of the world.\<close>

definition on_db :: "(db \<Rightarrow> 'a \<times> db) \<Rightarrow> 'g api_world \<Rightarrow> 'a \<times> 'g api_world" where
  "on_db f w = (case f (ap_db w) of (x, d) \<Rightarrow> (x, w\<lparr>ap_db := d\<rparr>))"

definition on_repos :: "(repository cache \<Rightarrow> db \<Rightarrow> 'a \<times> repository cache \<times> db) \<Rightarrow> 'g api_world \<Rightarrow> 'a \<times> 'g api_world" where
  "on_repos f w = (case f (ap_repos w) (ap_db w) of (x, c, d) \<Rightarrow> (x, w\<lparr>ap_repos := c, ap_db := d\<rparr>))"

definition on_users :: "(user cache \<Rightarrow> db \<Rightarrow> 'a \<times> user cache) \<Rightarrow> 'g api_world \<Rightarrow> 'a \<times> 'g api_world" where
  "on_users f w = (case f (ap_users w) (ap_db w) of (x, c) \<Rightarrow> (x, w\<lparr>ap_users := c\<rparr>))"

definition on_store :: "('g store \<Rightarrow> 'a \<times> 'g store) \<Rightarrow> 'g api_world \<Rightarrow> 'a \<times> 'g api_world" where
  "on_store f w = (case f (ap_store w) of (x, st) \<Rightarrow> (x, w\<lparr>ap_store := st\<rparr>))"

definition on_files :: "(files \<Rightarrow> db \<Rightarrow> 'a \<times> files \<times> db) \<Rightarrow> 'g api_world \<Rightarrow> 'a \<times> 'g api_world" where
  "on_files f w = (case f (ap_files w) (ap_db w) of (x, fs, d) \<Rightarrow> (x, w\<lparr>ap_files := fs, ap_db := d\<rparr>))"

definition from_db :: "(db \<Rightarrow> 'a) \<Rightarrow> 'g api_world \<Rightarrow> 'a \<times> 'g api_world" where
  "from_db f w = (f (ap_db w), w)"

definition from_store :: "('g store \<Rightarrow> 'a) \<Rightarrow> 'g api_world \<Rightarrow> 'a \<times> 'g api_world" where
  "from_store f w = (f (ap_store w), w)"

text \<open>A service call whose error the handler drops.\<close>

definition quietly :: "(db \<Rightarrow> 'a \<times> db) \<Rightarrow> 'g api_world \<Rightarrow> 'g api_world" where
  "quietly f w = w\<lparr>ap_db := snd (f (ap_db w))\<rparr>"

definition index_doc :: "document \<Rightarrow> 'g api_world \<Rightarrow> 'g api_world" where
  "index_doc doc w = w\<lparr>ap_docs := ap_docs w @ [doc]\<rparr>"

definition lookup_user :: "('g, 'k) server \<Rightarrow> request \<Rightarrow> uuid \<Rightarrow> 'g api_world \<Rightarrow> user result \<times> 'g api_world" where
  "lookup_user sv r uid = on_users (GetUser (sr_crypto sv) (cx_now r) uid)"

definition lookup_username :: "request \<Rightarrow> string \<Rightarrow> 'g api_world \<Rightarrow> user result \<times> 'g api_world" where
  "lookup_username r name = on_users (GetUserByUsername (cx_now r) name)"

definition record_event ::
  "('g, 'k) server \<Rightarrow> request \<Rightarrow> nat \<Rightarrow> uuid \<Rightarrow> string \<Rightarrow> (string \<times> string) list \<Rightarrow> 'g api_world \<Rightarrow> 'g api_world" where
  "record_event sv r n iid ty meta = quietly (RecordEvent (sr_json sv) (cx_now r) (cx_fresh r n) iid (cx_user r) ty meta)"

definition notify :: "request \<Rightarrow> nat \<Rightarrow> uuid \<Rightarrow> string \<Rightarrow> string \<Rightarrow> string \<Rightarrow> 'g api_world \<Rightarrow> 'g api_world" where
  "notify r n uid title text link w = w\<lparr>ap_db := NotifyAsync (cx_now r) (cx_fresh r n) uid title text link (ap_db w)\<rparr>"

subsection \<open>Who asks\<close>

text \<open>\<open>base\<close> carries the parts of the request that do not depend on the caller.\<close>

definition authenticate :: "('g, 'k) server \<Rightarrow> string \<Rightarrow> request \<Rightarrow> 'g api_world \<Rightarrow> request option" where
  "authenticate sv header base w =
     (if header = [] then None
      else (let token = trim_prefix ''Bearer '' header
            in if prefix ''ghp_'' token then
                 (case ValidatePATWithScopes (sr_crypto sv) (cx_now base) token (ap_db w) of
                    Inl e \<Rightarrow> None
                  | Inr (uid, scopes) \<Rightarrow> Some (base\<lparr>cx_user := uid, cx_pat := True, cx_scopes := scopes\<rparr>))
               else (case ValidateToken (sr_crypto sv) (sr_auth sv) (cx_now base) token (ap_db w) of
                       Inl e \<Rightarrow> None
                     | Inr (uid, name) \<Rightarrow> Some (base\<lparr>cx_user := uid, cx_pat := False, cx_scopes := []\<rparr>))))"

text \<open>A request that is not identified never reaches its handler.\<close>

definition authenticated ::
  "('g, 'k) server \<Rightarrow> string \<Rightarrow> request \<Rightarrow> (request \<Rightarrow> 'g api_world \<Rightarrow> ('a, 'g) outcome) \<Rightarrow> 'g api_world \<Rightarrow> ('a, 'g) outcome" where
  "authenticated sv header base handler w =
     (case authenticate sv header base w of
        None \<Rightarrow> (JsonError 401 (if header = [] then ''missing authorization'' else ''invalid token''), w)
      | Some r \<Rightarrow> handler r w)"

definition isPATAuth :: "request \<Rightarrow> bool" where "isPATAuth r = cx_pat r"

definition scopesFrom :: "request \<Rightarrow> string list" where "scopesFrom r = cx_scopes r"

definition userIDFrom :: "request \<Rightarrow> uuid" where "userIDFrom r = cx_user r"

definition scope_ok :: "request \<Rightarrow> string \<Rightarrow> bool" where
  "scope_ok r scope = (\<not> isPATAuth r \<or> HasScope (scopesFrom r) scope)"

definition requireScope :: "request \<Rightarrow> string \<Rightarrow> ('g api_world \<Rightarrow> ('a, 'g) outcome) \<Rightarrow> 'g api_world \<Rightarrow> ('a, 'g) outcome" where
  "requireScope r scope k w =
     (if \<not> scope_ok r scope then (JsonError 403 ''insufficient token scope'', w) else k w)"

definition requireJWT :: "request \<Rightarrow> ('g api_world \<Rightarrow> ('a, 'g) outcome) \<Rightarrow> 'g api_world \<Rightarrow> ('a, 'g) outcome" where
  "requireJWT r k w =
     (if isPATAuth r then (JsonError 403 ''use account login to manage SSH keys'', w) else k w)"

definition requireAdmin :: "request \<Rightarrow> ('g api_world \<Rightarrow> ('a, 'g) outcome) \<Rightarrow> 'g api_world \<Rightarrow> ('a, 'g) outcome" where
  "requireAdmin r k w =
     (if isPATAuth r then (JsonError 403 ''admin access requires account login'', w)
      else (case IsAdmin (userIDFrom r) (ap_db w) of
              Inl e \<Rightarrow> (JsonError 401 (err_text e), w)
            | Inr b \<Rightarrow> if \<not> b then (JsonError 403 ''admin access required'', w) else k w))"

subsection \<open>The repository of a request\<close>

definition getRepoPerm ::
  "string \<Rightarrow> request \<Rightarrow> (repository \<Rightarrow> 'g api_world \<Rightarrow> ('a, 'g) outcome) \<Rightarrow> 'g api_world \<Rightarrow> ('a, 'g) outcome" where
  "getRepoPerm perm r k w =
     (case GetByFullName (cx_now r) (cx_owner r) (cx_repo r) (ap_repos w) (ap_db w) of
        (Inl e, c) \<Rightarrow> (JsonError 404 ''repo not found'', w\<lparr>ap_repos := c\<rparr>)
      | (Inr repo, c) \<Rightarrow>
          (let w1 = w\<lparr>ap_repos := c\<rparr>
           in if \<not> scope_ok r (if perm = ''write'' then ScopeRepoWrite else ScopeRepo)
              then (JsonError 403 ''insufficient token scope'', w1)
              else if CanAccess (rp_id repo) (userIDFrom r) perm (ap_db w1) \<noteq> Inr True
              then (JsonError 403 ''forbidden'', w1)
              else k repo w1))"

definition getRepo :: "request \<Rightarrow> (repository \<Rightarrow> 'g api_world \<Rightarrow> ('a, 'g) outcome) \<Rightarrow> 'g api_world \<Rightarrow> ('a, 'g) outcome" where
  "getRepo r = getRepoPerm ''read'' r"

definition getRepoWrite :: "request \<Rightarrow> (repository \<Rightarrow> 'g api_world \<Rightarrow> ('a, 'g) outcome) \<Rightarrow> 'g api_world \<Rightarrow> ('a, 'g) outcome" where
  "getRepoWrite r = getRepoPerm ''write'' r"

definition parseNumber :: "request \<Rightarrow> (int \<Rightarrow> 'g api_world \<Rightarrow> ('a, 'g) outcome) \<Rightarrow> 'g api_world \<Rightarrow> ('a, 'g) outcome" where
  "parseNumber r k w =
     (case atoi (cx_number r) of
        (n, good) \<Rightarrow> if \<not> good \<or> n \<le> 0 then (JsonError 400 ''invalid number'', w) else k n w)"

definition parse_id ::
  "('g, 'k) server \<Rightarrow> string \<Rightarrow> string \<Rightarrow> (uuid \<Rightarrow> 'g api_world \<Rightarrow> ('a, 'g) outcome) \<Rightarrow> 'g api_world \<Rightarrow> ('a, 'g) outcome" where
  "parse_id sv text msg k w =
     (case uuid_parse (sr_crypto sv) text of None \<Rightarrow> (JsonError 400 msg, w) | Some x \<Rightarrow> k x w)"

definition maxPageLimit :: int where "maxPageLimit = 100"
definition defaultPageLimit :: int where "defaultPageLimit = 30"

definition parsePagination :: "string \<Rightarrow> string \<Rightarrow> int \<times> int" where
  "parsePagination limit offset =
     ((if limit \<noteq> [] then (case atoi limit of (n, good) \<Rightarrow>
         if good \<and> n > 0 \<and> n \<le> maxPageLimit then n else defaultPageLimit) else defaultPageLimit),
      (if offset \<noteq> [] then (case atoi offset of (n, good) \<Rightarrow> if good \<and> n \<ge> 0 then n else 0) else 0))"

lemma parsePagination_bounds:
  "0 < fst (parsePagination limit offset) \<and> fst (parsePagination limit offset) \<le> 100 \<and> 0 \<le> snd (parsePagination limit offset)"
  by (auto simp: parsePagination_def maxPageLimit_def defaultPageLimit_def split: prod.split)

text \<open>Links and names of the notifications.\<close>

definition issue_link :: "repository \<Rightarrow> string \<Rightarrow> int \<Rightarrow> string" where
  "issue_link repo part n = ''/'' @ rp_owner_name repo @ ''/'' @ rp_name repo @ ''/'' @ part @ ''/'' @ int_string n"

definition in_repo :: "string \<Rightarrow> int \<Rightarrow> string \<Rightarrow> repository \<Rightarrow> string" where
  "in_repo what n how repo = what @ int_string n @ how @ rp_full_name repo"

end
