(* ===== verification/ApiUser.thy ===== *)
theory ApiUser
  imports ApiCore
begin

section \<open>Accounts, keys, organisations, administration (internal/api)\<close>

text \<open>
  The handlers that are not about a repository: server.go (accounts and tokens),
  ssh_key_handlers.go, org_handlers.go, admin_handlers.go, events.go, presence_handlers.go and the
  notifications of extra_handlers.go. Arguments are the parts of the URL and the decoded body.
\<close>

subsection \<open>Accounts\<close>

record register_body =
  rb_username :: string
  rb_email :: string
  rb_password :: string

definition handleRegister :: "('g, 'k) server \<Rightarrow> register_body body \<Rightarrow> request \<Rightarrow> 'g api_world \<Rightarrow> (user, 'g) outcome" where
  "handleRegister sv b r w =
     (if \<not> ac_public (sr_auth sv) then (JsonError 403 ''public registration is disabled'', w)
      else if \<not> snd b then (JsonError 400 ''invalid body'', w)
      else answer 409 id
        (on_db (Register (sr_crypto sv) (cx_now r) (cx_fresh r 0) (rb_username (fst b)) (rb_email (fst b))
            (rb_password (fst b))) w))"

definition handleLogin ::
  "('g, 'k) server \<Rightarrow> (string \<times> string) body \<Rightarrow> request \<Rightarrow> 'g api_world \<Rightarrow> (string \<times> user, 'g) outcome" where
  "handleLogin sv b r w =
     (if \<not> snd b then (JsonError 400 ''invalid body'', w)
      else (case on_db (Login (sr_crypto sv) (sr_auth sv) (cx_now r) (fst (fst b)) (snd (fst b))) w of
              (Inl e, w1) \<Rightarrow> (if e = ErrAccountLocked then JsonError 429 (err_text e)
                              else JsonError 401 ''invalid credentials'', w1)
            | (Inr tu, w1) \<Rightarrow> (OK tu, w1)))"

definition handleCurrentUser :: "('g, 'k) server \<Rightarrow> request \<Rightarrow> 'g api_world \<Rightarrow> (user, 'g) outcome" where
  "handleCurrentUser sv r w =
     (if isPATAuth r \<and> \<not> HasScope (scopesFrom r) ScopeReadUser \<and> \<not> HasScope (scopesFrom r) ScopeRepo
      then (JsonError 403 ''insufficient token scope'', w)
      else or_fail 404 ''user not found'' (lookup_user sv r (userIDFrom r) w) (\<lambda>u w1. (OK u, w1)))"

definition handleChangePassword ::
  "('g, 'k) server \<Rightarrow> (string \<times> string) body \<Rightarrow> request \<Rightarrow> 'g api_world \<Rightarrow> (string, 'g) outcome" where
  "handleChangePassword sv b r w =
     (if \<not> snd b then (JsonError 400 ''invalid body'', w)
      else if fst (fst b) = [] \<or> snd (fst b) = []
      then (JsonError 400 ''old_password and new_password are required'', w)
      else (case on_db (ChangePassword (sr_crypto sv) (cx_now r) (userIDFrom r) (fst (fst b)) (snd (fst b))) w of
              (Inl e, w1) \<Rightarrow> (if e = ErrInvalidCredentials then JsonError 401 ''old password is incorrect''
                              else JsonError 500 (err_text e), w1)
            | (Inr _, w1) \<Rightarrow> (OK ''password changed'', w1)))"

subsection \<open>Tokens\<close>

text \<open>\<open>rnd\<close> is what the random generator gives. The scopes of the body are taken as they come.\<close>

definition handleCreatePAT ::
  "('g, 'k) server \<Rightarrow> nat list result \<Rightarrow> (string \<times> string list) body \<Rightarrow> request \<Rightarrow> 'g api_world \<Rightarrow> (string, 'g) outcome"
where
  "handleCreatePAT sv rnd b r w =
     answer 500 id (on_db (CreatePAT (sr_crypto sv) (cx_now r) (cx_fresh r 0) rnd (userIDFrom r) (fst (fst b)) (snd (fst b))) w)"

definition handleListPATs :: "request \<Rightarrow> 'g api_world \<Rightarrow> (pat_info list, 'g) outcome" where
  "handleListPATs r w = (OK (ListPATs (userIDFrom r) (ap_db w)), w)"

definition handleRevokePAT :: "('g, 'k) server \<Rightarrow> string \<Rightarrow> request \<Rightarrow> 'g api_world \<Rightarrow> (string, 'g) outcome" where
  "handleRevokePAT sv tokenID r =
     parse_id sv tokenID ''invalid token id''
       (\<lambda>pid w. answer 404 (\<lambda>_. ''revoked'') (on_db (RevokePAT (userIDFrom r) pid) w))"

definition handleIntrospectToken ::
  "('g, 'k) server \<Rightarrow> string body \<Rightarrow> request \<Rightarrow> 'g api_world \<Rightarrow> (pat_introspection, 'g) outcome" where
  "handleIntrospectToken sv b r w =
     (if \<not> snd b \<or> fst b = [] then (JsonError 400 ''token is required'', w)
      else (case IntrospectPAT (sr_crypto sv) (cx_now r) (fst b) (ap_db w) of
              Inl e \<Rightarrow> (OK zero_introspection, w) | Inr i \<Rightarrow> (OK i, w)))"

subsection \<open>SSH keys\<close>

definition handleCreateSSHKey ::
  "('g, 'k) server \<Rightarrow> (string \<times> string) body \<Rightarrow> request \<Rightarrow> 'g api_world \<Rightarrow> (key_info, 'g) outcome" where
  "handleCreateSSHKey sv b r =
     requireJWT r (\<lambda>w.
       if \<not> snd b then (JsonError 400 ''invalid body'', w)
       else (case on_db (AddSSHKey (sr_ssh sv) (cx_now r) (cx_fresh r 0) (userIDFrom r) (fst (fst b)) (snd (fst b))) w of
               (Inl e, w1) \<Rightarrow> (JsonError (if e = ErrInvalidKey then 400 else if e = ErrDuplicateKey then 409 else 500)
                                 (err_text e), w1)
             | (Inr k, w1) \<Rightarrow> (OK k, w1)))"

definition handleListSSHKeys :: "request \<Rightarrow> 'g api_world \<Rightarrow> (key_info list, 'g) outcome" where
  "handleListSSHKeys r = requireJWT r (\<lambda>w. (OK (ListSSHKeys (userIDFrom r) (ap_db w)), w))"

definition handleDeleteSSHKey :: "('g, 'k) server \<Rightarrow> string \<Rightarrow> request \<Rightarrow> 'g api_world \<Rightarrow> (string, 'g) outcome" where
  "handleDeleteSSHKey sv keyID r =
     requireJWT r (parse_id sv keyID ''invalid key id''
       (\<lambda>kid w. answer 404 (\<lambda>_. ''deleted'') (on_db (DeleteSSHKey (userIDFrom r) kid) w)))"

subsection \<open>Organisations\<close>

definition handleListOrgs :: "string \<Rightarrow> string \<Rightarrow> 'g api_world \<Rightarrow> (org list, 'g) outcome" where
  "handleListOrgs limit offset w =
     (OK (org_ListPaginated (fst (parsePagination limit offset)) (snd (parsePagination limit offset)) (ap_db w)), w)"

record org_body =
  ob_name :: string
  ob_display :: string
  ob_desc :: string

definition handleCreateOrg :: "org_body body \<Rightarrow> request \<Rightarrow> 'g api_world \<Rightarrow> (org, 'g) outcome" where
  "handleCreateOrg b r w =
     and_then 500 (on_db (org_Create (cx_now r) (cx_fresh r 0) (ob_name (fst b)) (ob_display (fst b)) (ob_desc (fst b))) w)
       (\<lambda>o1 w1. answer 500 (\<lambda>_. o1) (on_db (AddMember (og_id o1) (userIDFrom r) ''admin'') w1))"

definition org_named :: "string \<Rightarrow> (uuid \<Rightarrow> 'g api_world \<Rightarrow> ('a, 'g) outcome) \<Rightarrow> 'g api_world \<Rightarrow> ('a, 'g) outcome" where
  "org_named name k w =
     (case ResolveOwnerID name (ap_db w) of
        Inl e \<Rightarrow> (JsonError 404 ''org not found'', w)
      | Inr (ownerType, oid) \<Rightarrow> if ownerType \<noteq> ''org'' then (JsonError 404 ''org not found'', w) else k oid w)"

text \<open>No handler below looks at who is asking.\<close>

definition handleAddOrgMember :: "string \<Rightarrow> (uuid \<times> string) body \<Rightarrow> request \<Rightarrow> 'g api_world \<Rightarrow> (string, 'g) outcome" where
  "handleAddOrgMember name b r =
     org_named name (\<lambda>oid w. answer 500 (\<lambda>_. ''added'') (on_db (AddMember oid (fst (fst b)) (snd (fst b))) w))"

definition handleCreateTeam :: "string \<Rightarrow> (string \<times> string) body \<Rightarrow> request \<Rightarrow> 'g api_world \<Rightarrow> (team, 'g) outcome" where
  "handleCreateTeam name b r =
     org_named name (\<lambda>oid w. answer 500 id (on_db (CreateTeam (cx_fresh r 0) oid (fst (fst b)) (snd (fst b))) w))"

definition team_named :: "string \<Rightarrow> string \<Rightarrow> db \<Rightarrow> team_row option" where
  "team_named orgName teamName d =
     query_row (\<lambda>t. tm_name t = teamName \<and> sql_exists (\<lambda>g. o_id g = tm_org t \<and> o_name g = orgName) (orgs d)) (teams d)"

definition handleAddTeamMember :: "string \<Rightarrow> string \<Rightarrow> uuid body \<Rightarrow> request \<Rightarrow> 'g api_world \<Rightarrow> (string, 'g) outcome" where
  "handleAddTeamMember orgName teamName b r w =
     (case team_named orgName teamName (ap_db w) of
        None \<Rightarrow> (JsonError 404 ''team not found'', w)
      | Some t \<Rightarrow> answer 500 (\<lambda>_. ''added'') (on_db (AddTeamMember (tm_id t) (fst b)) w))"

subsection \<open>Administration\<close>

definition audit ::
  "('g, 'k) server \<Rightarrow> request \<Rightarrow> nat \<Rightarrow> string \<Rightarrow> string \<Rightarrow> string \<Rightarrow> string result option \<Rightarrow> 'g api_world \<Rightarrow> 'g api_world"
where
  "audit sv r n action rtype rid meta = quietly (audit_Record (cx_now r) (cx_fresh r n) (userIDFrom r) action rtype rid meta)"

definition handleListUsers :: "request \<Rightarrow> 'g api_world \<Rightarrow> (user list, 'g) outcome" where
  "handleListUsers r = requireAdmin r (\<lambda>w. (OK (ListUsers (ap_db w)), w))"

definition handleAdminCreateUser ::
  "('g, 'k) server \<Rightarrow> (register_body \<times> string) body \<Rightarrow> request \<Rightarrow> 'g api_world \<Rightarrow> (user, 'g) outcome" where
  "handleAdminCreateUser sv b r =
     requireAdmin r (\<lambda>w.
       let req = fst (fst b); role = snd (fst b)
       in if \<not> snd b then (JsonError 400 ''invalid body'', w)
          else if rb_username req = [] \<or> rb_email req = [] \<or> rb_password req = []
          then (JsonError 400 ''username, email, and password are required'', w)
          else (case on_db (CreateUser (sr_crypto sv) (cx_now r) (cx_fresh r 0) (rb_username req) (rb_email req)
                      (rb_password req) (if role = [] then RoleUser else role)) w of
                  (Inl e, w1) \<Rightarrow> (JsonError (if e = ErrUserExists then 409 else 500) (err_text e), w1)
                | (Inr u, w1) \<Rightarrow>
                    (OK u, audit sv r 1 ''user.create'' ''user'' (uuid_string (sr_crypto sv) (usr_id u))
                             (Some (sr_json sv [(''username'', usr_name u)])) w1)))"

definition account_error :: "err \<Rightarrow> 'a reply" where
  "account_error e =
     (if e = ErrForbidden then JsonError 403 (err_text e)
      else if e = ErrUnauthorized then JsonError 404 ''user not found''
      else JsonError 500 (err_text e))"

definition handleUpdateUserRole ::
  "('g, 'k) server \<Rightarrow> string \<Rightarrow> string body \<Rightarrow> request \<Rightarrow> 'g api_world \<Rightarrow> (user, 'g) outcome" where
  "handleUpdateUserRole sv userID b r =
     requireAdmin r (parse_id sv userID ''invalid user id'' (\<lambda>target w.
       if \<not> snd b then (JsonError 400 ''invalid body'', w)
       else if fst b = [] then (JsonError 400 ''role is required'', w)
       else (case on_db (UpdateUserRole (userIDFrom r) target (fst b)) w of
               (Inl e, w1) \<Rightarrow> (account_error e, w1)
             | (Inr u, w1) \<Rightarrow>
                 (OK u, audit sv r 0 ''user.role_change'' ''user'' (uuid_string (sr_crypto sv) target)
                          (Some (sr_json sv [(''new_role'', usr_role u)])) w1))))"

definition handleDeleteUser :: "('g, 'k) server \<Rightarrow> string \<Rightarrow> request \<Rightarrow> 'g api_world \<Rightarrow> (unit, 'g) outcome" where
  "handleDeleteUser sv userID r =
     requireAdmin r (parse_id sv userID ''invalid user id'' (\<lambda>target w.
       case DeleteUser (sr_crypto sv) (userIDFrom r) target (ap_users w) (ap_db w) of
         (Inl e, c, d) \<Rightarrow> (account_error e, w\<lparr>ap_users := c, ap_db := d\<rparr>)
       | (Inr _, c, d) \<Rightarrow>
           (NoContent, audit sv r 0 ''user.delete'' ''user'' (uuid_string (sr_crypto sv) target) None
                         (w\<lparr>ap_users := c, ap_db := d\<rparr>))))"

definition handleListAuditLog :: "request \<Rightarrow> 'g api_world \<Rightarrow> (audit_entry list, 'g) outcome" where
  "handleListAuditLog r = requireAdmin r (\<lambda>w. (OK (audit_List 100 (ap_db w)), w))"

subsection \<open>Notifications, events, presence\<close>

definition handleListNotifications :: "request \<Rightarrow> 'g api_world \<Rightarrow> (notification list, 'g) outcome" where
  "handleListNotifications r w = (OK (notification_List (userIDFrom r) 30 (ap_db w)), w)"

definition handleMarkNotificationRead ::
  "('g, 'k) server \<Rightarrow> string \<Rightarrow> request \<Rightarrow> 'g api_world \<Rightarrow> (string, 'g) outcome" where
  "handleMarkNotificationRead sv text r =
     parse_id sv text ''invalid id'' (\<lambda>nid w. answer 500 (\<lambda>_. ''read'') (on_db (MarkRead nid (userIDFrom r)) w))"

definition handleEvents :: "string \<Rightarrow> 'g api_world \<Rightarrow> (public_event list, 'g) outcome" where
  "handleEvents limitStr w = (OK (events_List (fst (parsePagination limitStr [])) (ap_db w)), w)"

definition handlePresenceHeartbeat :: "('g, 'k) server \<Rightarrow> request \<Rightarrow> 'g api_world \<Rightarrow> (string, 'g) outcome" where
  "handlePresenceHeartbeat sv r w =
     or_fail 500 ''user not found'' (lookup_user sv r (userIDFrom r) w)
       (\<lambda>u w1. (OK ''ok'', w1\<lparr>ap_presence := Heartbeat (cx_now r) (uuid_string (sr_crypto sv) (userIDFrom r)) (usr_name u)
                               (cx_owner r @ ''/'' @ cx_repo r) (ap_presence w1)\<rparr>))"

definition handlePresence :: "request \<Rightarrow> 'g api_world \<Rightarrow> (string list \<times> nat, 'g) outcome" where
  "handlePresence r w =
     (let viewers = GetActiveViewers (cx_now r) (cx_owner r @ ''/'' @ cx_repo r) (ap_presence w)
      in (OK (viewers, length viewers), w))"

end
