(* ===== verification/ApiRepo.thy ===== *)
theory ApiRepo
  imports ApiUser
begin

section \<open>Repositories, wiki and git data over the API (internal/api)\<close>

text \<open>
  The handlers of server.go, collab_handlers.go, extra_handlers.go (wiki), gitdata_handlers.go and
  actions_handlers.go that are about a repository as a whole, its collaborators, its protection
  rules and its git objects.
\<close>

subsection \<open>Creating repositories\<close>

record create_repo_body =
  cr_name :: string
  cr_desc :: string
  cr_private :: bool

text \<open>The row goes in first; when git fails it is deleted again, and the answer of that is dropped.\<close>

definition forget_repo :: "uuid \<Rightarrow> 'g api_world \<Rightarrow> 'g api_world" where
  "forget_repo rid = quietly (delete_repo_row rid)"

definition set_branch_sha :: "uuid \<Rightarrow> string \<Rightarrow> string \<Rightarrow> db \<Rightarrow> db" where
  "set_branch_sha rid name sha d =
     d\<lparr>branches := update_where (\<lambda>b. b_repo b = rid \<and> b_name b = name) (\<lambda>b. b\<lparr>b_sha := sha\<rparr>) (branches d)\<rparr>"

definition repo_document :: "('g, 'k) server \<Rightarrow> repository \<Rightarrow> document" where
  "repo_document sv repo = \<lparr>dc_id = ''repo-'' @ uuid_string (sr_crypto sv) (rp_id repo), dc_type = ''repo'',
     dc_title = rp_name repo, dc_body = rp_desc repo, dc_repo = rp_full_name repo, dc_ref = []\<rparr>"

definition createRepo ::
  "('g, 'k) server \<Rightarrow> create_repo_body body \<Rightarrow> string \<Rightarrow> uuid \<Rightarrow> string \<Rightarrow> request \<Rightarrow> 'g api_world
     \<Rightarrow> (repository, 'g) outcome" where
  "createRepo sv b ownerType ownerID ownerName r w =
     (if \<not> snd b then (JsonError 400 ''invalid body'', w)
      else and_then 500
        (on_db (repo_Create (cx_now r) (cx_fresh r 0) ownerType ownerID ownerName (cr_name (fst b)) (cr_desc (fst b))
           (cr_private (fst b))) w)
        (\<lambda>repo w1.
          case on_store (store_Init (sr_git sv) ownerName (cr_name (fst b))) w1 of
            (Inl e, w2) \<Rightarrow> (JsonError 500 (err_text e), forget_repo (rp_id repo) w2)
          | (Inr _, w2) \<Rightarrow>
              (case on_store (SeedMainBranch (sr_git sv) (zoned_now sv r) ownerName (cr_name (fst b)) (rp_branch repo)) w2 of
                 (Inl e, w3) \<Rightarrow> (JsonError 500 (err_text e), forget_repo (rp_id repo) w3)
               | (Inr sha, w3) \<Rightarrow>
                   (OK repo, index_doc (repo_document sv repo)
                      (w3\<lparr>ap_db := set_branch_sha (rp_id repo) (rp_branch repo) sha (ap_db w3)\<rparr>)))))"

definition handleCreateUserRepo ::
  "('g, 'k) server \<Rightarrow> string \<Rightarrow> create_repo_body body \<Rightarrow> request \<Rightarrow> 'g api_world \<Rightarrow> (repository, 'g) outcome" where
  "handleCreateUserRepo sv uname b r =
     requireScope r ScopeRepoWrite (\<lambda>w.
       or_fail 401 ''unauthorized'' (lookup_user sv r (userIDFrom r) w)
         (\<lambda>u w1. if usr_name u \<noteq> uname then (JsonError 403 ''forbidden'', w1)
                 else createRepo sv b ''user'' (usr_id u) uname r w1))"

definition handleCreateOrgRepo ::
  "('g, 'k) server \<Rightarrow> string \<Rightarrow> create_repo_body body \<Rightarrow> request \<Rightarrow> 'g api_world \<Rightarrow> (repository, 'g) outcome" where
  "handleCreateOrgRepo sv orgName b r w =
     (case ResolveOwnerID orgName (ap_db w) of
        Inl e \<Rightarrow> (JsonError 404 (err_text e), w)
      | Inr (ownerType, oid) \<Rightarrow>
          if ownerType \<noteq> ''org'' then (JsonError 404 ''org not found'', w)
          else if \<not> IsMember oid (userIDFrom r) (ap_db w) then (JsonError 403 ''forbidden'', w)
          else createRepo sv b ownerType oid orgName r w)"

definition handleListUserRepos :: "string \<Rightarrow> string \<Rightarrow> request \<Rightarrow> 'g api_world \<Rightarrow> (repository list, 'g) outcome" where
  "handleListUserRepos limit offset r w =
     (OK (ListForUserPaginated (userIDFrom r) (fst (parsePagination limit offset)) (snd (parsePagination limit offset)) (ap_db w)), w)"

subsection \<open>One repository\<close>

definition handleGetRepo :: "request \<Rightarrow> 'g api_world \<Rightarrow> (repository, 'g) outcome" where
  "handleGetRepo r = getRepo r (\<lambda>repo w. (OK repo, w))"

definition handleUpdateRepo :: "update_repo_input body \<Rightarrow> request \<Rightarrow> 'g api_world \<Rightarrow> (repository, 'g) outcome" where
  "handleUpdateRepo b r =
     getRepoWrite r (\<lambda>repo w.
       if \<not> snd b then (JsonError 400 ''invalid body'', w)
       else requireScope r ScopeRepoWrite
              (\<lambda>w1. answer 500 id (on_repos (repo_Update (cx_now r) (rp_id repo) (fst b)) w1)) w)"

definition handleDeleteRepo :: "('g, 'k) server \<Rightarrow> request \<Rightarrow> 'g api_world \<Rightarrow> (string, 'g) outcome" where
  "handleDeleteRepo sv r =
     getRepoWrite r (\<lambda>repo. requireScope r ScopeRepoWrite (\<lambda>w.
       and_then 500 (on_store (store_Remove (sr_git sv) (cx_owner r) (cx_repo r)) w) (\<lambda>_ w1.
         and_then 500 (on_repos (repo_Delete (rp_id repo)) w1) (\<lambda>_ w2.
           (OK ''deleted'', audit sv r 0 ''repo.delete'' ''repo'' (uuid_string (sr_crypto sv) (rp_id repo))
                              (Some (sr_json sv [(''full_name'', rp_full_name repo)])) w2)))))"

datatype contents = Entries "tree_entry list" | FileBytes string

definition handleGetContents :: "('g, 'k) server \<Rightarrow> string \<Rightarrow> string \<Rightarrow> request \<Rightarrow> 'g api_world \<Rightarrow> (contents, 'g) outcome" where
  "handleGetContents sv wildcard ref0 r =
     getRepo r (\<lambda>repo w.
       let path = trim_prefix ''/'' wildcard; ref = (if ref0 = [] then rp_branch repo else ref0)
       in if path = []
          then answer 404 Entries (from_store (GetTree (sr_git sv) (rp_owner_name repo) (rp_name repo) ref []) w)
          else answer 404 FileBytes (from_store (GetBlob (sr_git sv) (rp_owner_name repo) (rp_name repo) ref path) w))"

definition handleGetCommits :: "('g, 'k) server \<Rightarrow> string \<Rightarrow> request \<Rightarrow> 'g api_world \<Rightarrow> (commit_info list, 'g) outcome" where
  "handleGetCommits sv ref0 r =
     getRepo r (\<lambda>repo w. answer 404 id
       (from_store (GetCommits (sr_git sv) (rp_owner_name repo) (rp_name repo) (if ref0 = [] then rp_branch repo else ref0) 50) w))"

definition handleCompareCommits :: "('g, 'k) server \<Rightarrow> string \<Rightarrow> request \<Rightarrow> 'g api_world \<Rightarrow> (compare_result, 'g) outcome" where
  "handleCompareCommits sv path r =
     getRepo r (\<lambda>repo w.
       case split_n 2 ''...'' path of
         [base, head] \<Rightarrow>
           if base = [] \<or> head = [] then (JsonError 400 ''expected {base}...{head} format'', w)
           else answer 500 id (from_store (CompareCommits (sr_git sv) (rp_owner_name repo) (rp_name repo) base head) w)
       | _ \<Rightarrow> (JsonError 400 ''expected {base}...{head} format'', w))"

definition handleArchive :: "('g, 'k) server \<Rightarrow> string \<Rightarrow> request \<Rightarrow> 'g api_world \<Rightarrow> (string, 'g) outcome" where
  "handleArchive sv ref0 r =
     getRepo r (\<lambda>repo w. (OK (fst (store_Archive (sr_git sv) (rp_owner_name repo) (rp_name repo)
       (if ref0 = [] then rp_branch repo else ref0) (ap_store w))), w))"

subsection \<open>Stars, watches, forks\<close>

definition handleStar :: "request \<Rightarrow> 'g api_world \<Rightarrow> (string, 'g) outcome" where
  "handleStar r = getRepoWrite r (\<lambda>repo w. answer 500 (\<lambda>_. ''starred'') (on_repos (Star (rp_id repo) (userIDFrom r)) w))"

definition handleUnstar :: "request \<Rightarrow> 'g api_world \<Rightarrow> (string, 'g) outcome" where
  "handleUnstar r = getRepoWrite r (\<lambda>repo w. answer 500 (\<lambda>_. ''unstarred'') (on_repos (Unstar (rp_id repo) (userIDFrom r)) w))"

definition handleWatch :: "request \<Rightarrow> 'g api_world \<Rightarrow> (string, 'g) outcome" where
  "handleWatch r = getRepoWrite r (\<lambda>repo w. answer 500 (\<lambda>_. ''watching'') (on_db (Watch (rp_id repo) (userIDFrom r)) w))"

definition handleUnwatch :: "request \<Rightarrow> 'g api_world \<Rightarrow> (string, 'g) outcome" where
  "handleUnwatch r = getRepoWrite r (\<lambda>repo w. answer 500 (\<lambda>_. ''unwatched'') (on_db (Unwatch (rp_id repo) (userIDFrom r)) w))"

text \<open>The fork is a row; no git repository is made for it.\<close>

definition handleFork :: "('g, 'k) server \<Rightarrow> request \<Rightarrow> 'g api_world \<Rightarrow> (repository, 'g) outcome" where
  "handleFork sv r =
     getRepoWrite r (\<lambda>repo w.
       or_fail 401 ''unauthorized'' (lookup_user sv r (userIDFrom r) w)
         (\<lambda>u w1. answer 500 id (on_db (Fork (cx_now r) (cx_fresh r 0) repo ''user'' (usr_id u) (usr_name u)) w1)))"

subsection \<open>Branches and tags\<close>

definition handleListBranches :: "request \<Rightarrow> 'g api_world \<Rightarrow> (branch_info list, 'g) outcome" where
  "handleListBranches r = getRepo r (\<lambda>repo w. (OK (ListBranches (rp_id repo) (ap_db w)), w))"

definition handleListTags :: "('g, 'k) server \<Rightarrow> request \<Rightarrow> 'g api_world \<Rightarrow> (tag_info list, 'g) outcome" where
  "handleListTags sv r =
     getRepo r (\<lambda>repo w. answer 500 id (from_store (ListTags (sr_git sv) (rp_owner_name repo) (rp_name repo)) w))"

definition handleCreateTag :: "('g, 'k) server \<Rightarrow> (string \<times> string) body \<Rightarrow> request \<Rightarrow> 'g api_world \<Rightarrow> (string, 'g) outcome" where
  "handleCreateTag sv b r =
     getRepoWrite r (\<lambda>repo w.
       let name = fst (fst b); ref = (if snd (fst b) = [] then rp_branch repo else snd (fst b))
       in if \<not> snd b then (JsonError 400 ''invalid request body'', w)
          else if name = [] then (JsonError 400 ''tag name is required'', w)
          else answer 500 (\<lambda>_. name) (on_store (CreateTag (sr_git sv) (rp_owner_name repo) (rp_name repo) name ref) w))"

definition handleCreateBranch ::
  "('g, 'k) server \<Rightarrow> (string \<times> string) body \<Rightarrow> request \<Rightarrow> 'g api_world \<Rightarrow> (string \<times> string, 'g) outcome" where
  "handleCreateBranch sv b r =
     getRepoWrite r (\<lambda>repo w.
       let name = fst (fst b); base = (if snd (fst b) = [] then rp_branch repo else snd (fst b))
       in and_then 500 (on_store (CreateBranch (sr_git sv) (rp_owner_name repo) (rp_name repo) name base) w) (\<lambda>_ w1.
            and_then 500 (from_store (UpdateHead (sr_git sv) (rp_owner_name repo) (rp_name repo) name) w1) (\<lambda>sha w2.
              answer 500 (\<lambda>_. (name, sha)) (on_db (UpdateBranchHead (rp_id repo) name sha) w2))))"

definition handleListProtectedBranches :: "request \<Rightarrow> 'g api_world \<Rightarrow> (protected_branch list, 'g) outcome" where
  "handleListProtectedBranches r = getRepo r (\<lambda>repo w. (OK (ListProtectedBranches (rp_id repo) (ap_db w)), w))"

definition same_rule :: "uuid \<Rightarrow> string \<Rightarrow> protect_row \<Rightarrow> bool" where
  "same_rule rid branch p = (pb_repo p = rid \<and> pb_branch p = branch)"

definition protect_branch :: "uuid \<Rightarrow> string \<Rightarrow> string list \<Rightarrow> int \<Rightarrow> db \<Rightarrow> unit result \<times> db" where
  "protect_branch rid branch checks needed d =
     (if sql_exists (same_rule rid branch) (protected d)
      then (Inr (), d\<lparr>protected := update_where (same_rule rid branch)
                        (\<lambda>p. p\<lparr>pb_checks := checks, pb_reviews := needed\<rparr>) (protected d)\<rparr>)
      else if \<not> repo_exists rid d then (Inl (ForeignKeyViolation ''protected_branches_repo_id_fkey''), d)
      else (Inr (), d\<lparr>protected := insert_row
              \<lparr>pb_repo = rid, pb_branch = branch, pb_checks = checks, pb_reviews = needed\<rparr> (protected d)\<rparr>))"

definition handleProtectBranch ::
  "(string \<times> string list \<times> int) body \<Rightarrow> request \<Rightarrow> 'g api_world \<Rightarrow> (string, 'g) outcome" where
  "handleProtectBranch b r =
     getRepoWrite r (\<lambda>repo w. answer 500 (\<lambda>_. ''protected'')
       (on_db (protect_branch (rp_id repo) (fst (fst b)) (fst (snd (fst b))) (snd (snd (fst b)))) w))"

subsection \<open>Collaborators\<close>

definition handleListCollaborators :: "request \<Rightarrow> 'g api_world \<Rightarrow> (collaborator list, 'g) outcome" where
  "handleListCollaborators r = getRepo r (\<lambda>repo w. (OK (ListCollaborators (rp_id repo) (ap_db w)), w))"

definition handleAddCollaborator :: "string \<Rightarrow> string body \<Rightarrow> request \<Rightarrow> 'g api_world \<Rightarrow> (string, 'g) outcome" where
  "handleAddCollaborator name b r =
     getRepoWrite r (\<lambda>repo w. or_fail 404 ''user not found'' (lookup_username r name w)
       (\<lambda>u w1. answer 500 (\<lambda>_. name) (on_db (AddCollaborator (rp_id repo) (usr_id u) (fst b)) w1)))"

definition handleRemoveCollaborator :: "string \<Rightarrow> request \<Rightarrow> 'g api_world \<Rightarrow> (string, 'g) outcome" where
  "handleRemoveCollaborator name r =
     getRepoWrite r (\<lambda>repo w. or_fail 404 ''user not found'' (lookup_username r name w)
       (\<lambda>u w1. answer 500 (\<lambda>_. ''removed'') (on_db (RemoveCollaborator (rp_id repo) (usr_id u)) w1)))"

subsection \<open>Wiki\<close>

definition handleListWikiPages :: "request \<Rightarrow> 'g api_world \<Rightarrow> (wiki_page list, 'g) outcome" where
  "handleListWikiPages r = getRepo r (\<lambda>repo w. (OK (wiki_List (rp_id repo) (ap_db w)), w))"

definition handleGetWikiPage :: "string \<Rightarrow> request \<Rightarrow> 'g api_world \<Rightarrow> (wiki_page, 'g) outcome" where
  "handleGetWikiPage slug r = getRepo r (\<lambda>repo w. answer 404 id (from_db (wiki_Get (rp_id repo) slug) w))"

record wiki_body =
  wb_slug :: string
  wb_title :: string
  wb_content :: string

definition handleUpsertWikiPage :: "string \<Rightarrow> wiki_body body \<Rightarrow> request \<Rightarrow> 'g api_world \<Rightarrow> (wiki_page, 'g) outcome" where
  "handleUpsertWikiPage slug0 b r =
     getRepoWrite r (\<lambda>repo w.
       let slug = (if slug0 = [] \<or> slug0 = ''new'' then wb_slug (fst b) else slug0)
       in answer 500 id (on_db (wiki_Upsert (cx_now r) (cx_fresh r 0) (rp_id repo) (userIDFrom r) slug (wb_title (fst b))
            (wb_content (fst b))) w))"

definition handleDeleteWikiPage :: "string \<Rightarrow> request \<Rightarrow> 'g api_world \<Rightarrow> (string, 'g) outcome" where
  "handleDeleteWikiPage slug r =
     getRepoWrite r (\<lambda>repo w. answer 404 (\<lambda>_. ''deleted'') (on_db (wiki_Delete (rp_id repo) slug) w))"

subsection \<open>Git data\<close>

definition handleCreateGitBlob :: "('g, 'k) server \<Rightarrow> (string \<times> string) body \<Rightarrow> request \<Rightarrow> 'g api_world \<Rightarrow> (string, 'g) outcome" where
  "handleCreateGitBlob sv b r =
     getRepoWrite r (\<lambda>repo w.
       let text = fst (fst b)
       in if \<not> snd b then (JsonError 400 ''invalid request body'', w)
          else if text = [] then (JsonError 400 ''content is required'', w)
          else (case (if snd (fst b) = ''base64'' then sr_base64 sv text else Some text) of
                  None \<Rightarrow> (JsonError 400 ''invalid base64 content'', w)
                | Some content \<Rightarrow>
                    answer 500 id (on_store (CreateBlob (sr_git sv) (rp_owner_name repo) (rp_name repo) content) w)))"

definition handleCreateGitTree ::
  "('g, 'k) server \<Rightarrow> tree_entry_input list body \<Rightarrow> request \<Rightarrow> 'g api_world \<Rightarrow> (string, 'g) outcome" where
  "handleCreateGitTree sv b r =
     getRepoWrite r (\<lambda>repo w.
       if \<not> snd b then (JsonError 400 ''invalid request body'', w)
       else if fst b = [] then (JsonError 400 ''tree entries are required'', w)
       else answer 500 id (on_store (CreateTree (sr_git sv) (rp_owner_name repo) (rp_name repo) (fst b)) w))"

definition handleCreateGitCommit ::
  "('g, 'k) server \<Rightarrow> create_commit body \<Rightarrow> request \<Rightarrow> 'g api_world \<Rightarrow> (string, 'g) outcome" where
  "handleCreateGitCommit sv b r =
     getRepoWrite r (\<lambda>repo w.
       if \<not> snd b then (JsonError 400 ''invalid request body'', w)
       else if cc_message (fst b) = [] then (JsonError 400 ''message is required'', w)
       else if cc_tree (fst b) = [] then (JsonError 400 ''tree is required'', w)
       else answer 500 id
         (on_store (CreateCommit (sr_git sv) (zoned_now sv r) (rp_owner_name repo) (rp_name repo) (fst b)) w))"

definition handleCreateGitRef ::
  "('g, 'k) server \<Rightarrow> (string \<times> string) body \<Rightarrow> request \<Rightarrow> 'g api_world \<Rightarrow> (string \<times> string, 'g) outcome" where
  "handleCreateGitRef sv b r =
     getRepoWrite r (\<lambda>repo w.
       let ref = fst (fst b); sha = snd (fst b)
       in if \<not> snd b then (JsonError 400 ''invalid request body'', w)
          else if ref = [] then (JsonError 400 ''ref is required'', w)
          else if sha = [] then (JsonError 400 ''sha is required'', w)
          else answer 500 (\<lambda>_. (ref, sha)) (on_store (CreateRef (sr_git sv) (rp_owner_name repo) (rp_name repo) ref sha) w))"

end
