(* ===== verification/ApiIssue.thy ===== *)
theory ApiIssue
  imports ApiUser
begin

section \<open>Issues over the API (internal/api)\<close>

text \<open>
  The issue handlers of server.go, extra_handlers.go (assignees), milestone_handlers.go and
  reaction_handlers.go. Errors of \<open>RecordEvent\<close> and of notifications are dropped by the code, and so
  is the error of the last \<open>Get\<close> of a handler, whose answer is then null: None here.
\<close>

definition get_issue ::
  "request \<Rightarrow> (repository \<Rightarrow> int \<Rightarrow> issue \<Rightarrow> 'g api_world \<Rightarrow> ('a, 'g) outcome) \<Rightarrow> repository \<Rightarrow> 'g api_world \<Rightarrow> ('a, 'g) outcome"
where
  "get_issue r k repo = parseNumber r (\<lambda>n w. and_then 404 (from_db (issue_Get (rp_id repo) n) w) (k repo n))"

definition updated_issue :: "repository \<Rightarrow> int \<Rightarrow> 'g api_world \<Rightarrow> (issue option, 'g) outcome" where
  "updated_issue repo n w = (OK (case issue_Get (rp_id repo) n (ap_db w) of Inl e \<Rightarrow> None | Inr i \<Rightarrow> Some i), w)"

subsection \<open>Issues and comments\<close>

definition handleListIssues :: "string \<Rightarrow> string \<Rightarrow> request \<Rightarrow> 'g api_world \<Rightarrow> (issue list, 'g) outcome" where
  "handleListIssues limit offset r =
     getRepo r (\<lambda>repo w. (OK (issue_ListPaginated (rp_id repo) (fst (parsePagination limit offset))
       (snd (parsePagination limit offset)) (ap_db w)), w))"

definition issue_document :: "('g, 'k) server \<Rightarrow> repository \<Rightarrow> issue \<Rightarrow> document" where
  "issue_document sv repo i = \<lparr>dc_id = ''issue-'' @ uuid_string (sr_crypto sv) (iu_id i), dc_type = ''issue'',
     dc_title = iu_title i, dc_body = iu_body i, dc_repo = rp_full_name repo, dc_ref = int_string (iu_number i)\<rparr>"

definition handleCreateIssue :: "('g, 'k) server \<Rightarrow> (string \<times> string) body \<Rightarrow> request \<Rightarrow> 'g api_world \<Rightarrow> (issue, 'g) outcome" where
  "handleCreateIssue sv b r =
     getRepoWrite r (\<lambda>repo w.
       and_then 500
         (on_db (issue_Create (cx_now r) (cx_fresh r 0) (rp_id repo) (userIDFrom r) (fst (fst b)) (snd (fst b))) w)
         (\<lambda>i w1. (OK i, index_doc (issue_document sv repo i)
            (record_event sv r 1 (iu_id i) ''opened'' [(''title'', iu_title i), (''body'', iu_body i)] w1))))"

definition handleGetIssue :: "request \<Rightarrow> 'g api_world \<Rightarrow> (issue, 'g) outcome" where
  "handleGetIssue r = getRepo r (get_issue r (\<lambda>repo n i w. (OK i, w)))"

definition handleAddIssueComment :: "('g, 'k) server \<Rightarrow> string body \<Rightarrow> request \<Rightarrow> 'g api_world \<Rightarrow> (issue_comment, 'g) outcome" where
  "handleAddIssueComment sv b r =
     getRepoWrite r (get_issue r (\<lambda>repo n i w.
       and_then 500 (on_db (issue_AddComment (cx_now r) (cx_fresh r 0) (iu_id i) (userIDFrom r) (fst b)) w) (\<lambda>c w1.
         let w2 = record_event sv r 1 (iu_id i) ''commented'' [(''comment_id'', uuid_string (sr_crypto sv) (cm_id c))] w1
         in (OK c, if iu_author_id i \<noteq> userIDFrom r
                   then notify r 2 (iu_author_id i) ''Issue comment'' (in_repo ''New comment on #'' n '' in '' repo)
                          (issue_link repo ''issues'' n) w2
                   else w2))))"

definition handleListIssueComments :: "request \<Rightarrow> 'g api_world \<Rightarrow> (issue_comment list, 'g) outcome" where
  "handleListIssueComments r = getRepo r (get_issue r (\<lambda>repo n i w. (OK (issue_ListComments (iu_id i) (ap_db w)), w)))"

definition handleCloseIssue :: "('g, 'k) server \<Rightarrow> request \<Rightarrow> 'g api_world \<Rightarrow> (string, 'g) outcome" where
  "handleCloseIssue sv r =
     getRepoWrite r (get_issue r (\<lambda>repo n i w.
       and_then 500 (on_db (issue_Close (cx_now r) (iu_id i)) w) (\<lambda>_ w1.
         let w2 = record_event sv r 0 (iu_id i) ''closed'' [] w1
         in (OK ''closed'', if iu_author_id i \<noteq> userIDFrom r
                            then notify r 1 (iu_author_id i) ''Issue closed'' (in_repo ''Issue #'' n '' was closed in '' repo)
                                   (issue_link repo ''issues'' n) w2
                            else w2))))"

definition handleGetIssueTimeline :: "request \<Rightarrow> 'g api_world \<Rightarrow> (timeline_event list, 'g) outcome" where
  "handleGetIssueTimeline r = getRepo r (get_issue r (\<lambda>repo n i w. (OK (GetTimeline (iu_id i) (ap_db w)), w)))"

subsection \<open>Assignees\<close>

text \<open>Names are resolved one by one through the user cache; the first unknown one ends the request.\<close>

fun resolve_names :: "request \<Rightarrow> string list \<Rightarrow> 'g api_world \<Rightarrow> (string + uuid list) \<times> 'g api_world" where
  "resolve_names r [] w = (Inr [], w)"
| "resolve_names r (name # names) w =
     (case lookup_username r name w of
        (Inl e, w1) \<Rightarrow> (Inl name, w1)
      | (Inr u, w1) \<Rightarrow>
          (case resolve_names r names w1 of (Inl n, w2) \<Rightarrow> (Inl n, w2) | (Inr us, w2) \<Rightarrow> (Inr (usr_id u # us), w2)))"

fun record_assigned :: "('g, 'k) server \<Rightarrow> request \<Rightarrow> nat \<Rightarrow> uuid \<Rightarrow> string list \<Rightarrow> 'g api_world \<Rightarrow> 'g api_world" where
  "record_assigned sv r n iid [] w = w"
| "record_assigned sv r n iid (name # names) w =
     record_assigned sv r (Suc n) iid names (record_event sv r n iid ''assigned'' [(''assignee'', name)] w)"

fun notify_assigned :: "request \<Rightarrow> nat \<Rightarrow> repository \<Rightarrow> int \<Rightarrow> string list \<Rightarrow> 'g api_world \<Rightarrow> 'g api_world" where
  "notify_assigned r n repo num [] w = w"
| "notify_assigned r n repo num (name # names) w =
     (case lookup_username r name w of
        (Inl e, w1) \<Rightarrow> notify_assigned r (Suc n) repo num names w1
      | (Inr u, w1) \<Rightarrow>
          notify_assigned r (Suc n) repo num names
            (if usr_id u \<noteq> userIDFrom r
             then notify r n (usr_id u) ''Issue assigned'' (in_repo ''You were assigned to #'' num '' in '' repo)
                    (issue_link repo ''issues'' num) w1
             else w1))"

definition handleSetIssueAssignees ::
  "('g, 'k) server \<Rightarrow> string list body \<Rightarrow> request \<Rightarrow> 'g api_world \<Rightarrow> (issue option, 'g) outcome" where
  "handleSetIssueAssignees sv b r =
     getRepoWrite r (get_issue r (\<lambda>repo n i w.
       case resolve_names r (fst b) w of
         (Inl name, w1) \<Rightarrow> (JsonError 400 (''assignee not found: '' @ name), w1)
       | (Inr uids, w1) \<Rightarrow>
           and_then 500 (on_db (SetAssignees (cx_now r) (iu_id i) uids) w1) (\<lambda>_ w2.
             let k = length (fst b);
                 w3 = record_assigned sv r 0 (iu_id i) (fst b) w2;
                 w4 = (if fst b = [] \<and> iu_assignee_id i \<noteq> None then record_event sv r k (iu_id i) ''unassigned'' [] w3 else w3)
             in updated_issue repo n (notify_assigned r (Suc k) repo n (fst b) w4))))"

text \<open>
  PATCH: the assignee first (an empty name clears it), then the milestone. The notification goes out
  before the assignment is stored. \<open>GetMilestone\<close> returns an empty milestone beside its error, so the
  event is recorded for a milestone of another repository too, without its title.
\<close>

record patch_body =
  pt_assignee :: "string option"
  pt_milestone :: "uuid option"
  pt_clear :: bool

definition patch_assignee ::
  "('g, 'k) server \<Rightarrow> request \<Rightarrow> repository \<Rightarrow> int \<Rightarrow> issue \<Rightarrow> string \<Rightarrow> ('g api_world \<Rightarrow> ('a, 'g) outcome)
     \<Rightarrow> 'g api_world \<Rightarrow> ('a, 'g) outcome" where
  "patch_assignee sv r repo n i name k w =
     (if name = [] then
        and_then 500 (on_db (SetAssignee (cx_now r) (iu_id i) None) w)
          (\<lambda>_ w1. k (record_event sv r 0 (iu_id i) ''unassigned'' [] w1))
      else or_fail 400 ''assignee not found'' (lookup_username r name w) (\<lambda>u w1.
        let w2 = (if iu_assignee_id i \<noteq> Some (usr_id u)
                  then notify r 1 (usr_id u) ''Issue assigned'' (in_repo ''You were assigned to #'' n '' in '' repo)
                         (issue_link repo ''issues'' n) w1
                  else w1)
        in and_then 500 (on_db (SetAssignee (cx_now r) (iu_id i) (Some (usr_id u))) w2)
             (\<lambda>_ w3. k (record_event sv r 0 (iu_id i) ''assigned'' [(''assignee'', name)] w3))))"

definition patch_milestone ::
  "('g, 'k) server \<Rightarrow> request \<Rightarrow> repository \<Rightarrow> issue \<Rightarrow> patch_body \<Rightarrow> ('g api_world \<Rightarrow> ('a, 'g) outcome)
     \<Rightarrow> 'g api_world \<Rightarrow> ('a, 'g) outcome" where
  "patch_milestone sv r repo i b k w =
     (if pt_clear b then
        and_then 500 (on_db (SetMilestone (cx_now r) (iu_id i) None) w)
          (\<lambda>_ w1. k (record_event sv r 2 (iu_id i) ''demilestoned'' [] w1))
      else (case pt_milestone b of
              None \<Rightarrow> k w
            | Some mid \<Rightarrow>
                and_then 500 (on_db (SetMilestone (cx_now r) (iu_id i) (Some mid)) w)
                  (\<lambda>_ w1. k (record_event sv r 2 (iu_id i) ''milestoned''
                     [(''milestone_title'', case GetMilestone (rp_id repo) mid (ap_db w1) of Inl e \<Rightarrow> [] | Inr m \<Rightarrow> ml_title m)]
                     w1))))"

definition handlePatchIssue ::
  "('g, 'k) server \<Rightarrow> patch_body body \<Rightarrow> request \<Rightarrow> 'g api_world \<Rightarrow> (issue option, 'g) outcome" where
  "handlePatchIssue sv b r =
     getRepoWrite r (get_issue r (\<lambda>repo n i.
       let rest = patch_milestone sv r repo i (fst b) (updated_issue repo n)
       in case pt_assignee (fst b) of None \<Rightarrow> rest | Some name \<Rightarrow> patch_assignee sv r repo n i name rest))"

subsection \<open>Labels\<close>

definition handleListLabels :: "request \<Rightarrow> 'g api_world \<Rightarrow> (label list, 'g) outcome" where
  "handleListLabels r = getRepo r (\<lambda>repo w. (OK (ListLabels (rp_id repo) (ap_db w)), w))"

definition handleCreateLabel :: "(string \<times> string) body \<Rightarrow> request \<Rightarrow> 'g api_world \<Rightarrow> (label, 'g) outcome" where
  "handleCreateLabel b r =
     getRepoWrite r (\<lambda>repo w. answer 500 id (on_db (CreateLabel (cx_fresh r 0) (rp_id repo) (fst (fst b)) (snd (fst b))) w))"

definition label_event :: "('g, 'k) server \<Rightarrow> request \<Rightarrow> uuid \<Rightarrow> string \<Rightarrow> label result \<Rightarrow> 'g api_world \<Rightarrow> 'g api_world" where
  "label_event sv r iid ty l w =
     (case l of
        Inl e \<Rightarrow> w
      | Inr x \<Rightarrow> record_event sv r 0 iid ty [(''label_name'', lb_name x), (''label_color'', lb_color x)] w)"

definition handleAddIssueLabel :: "('g, 'k) server \<Rightarrow> string \<Rightarrow> request \<Rightarrow> 'g api_world \<Rightarrow> (issue option, 'g) outcome" where
  "handleAddIssueLabel sv labelID r =
     getRepoWrite r (get_issue r (\<lambda>repo n i. parse_id sv labelID ''invalid label id'' (\<lambda>lid w.
       and_then 500 (on_db (AddLabel (iu_id i) lid) w)
         (\<lambda>_ w1. updated_issue repo n (label_event sv r (iu_id i) ''labeled'' (GetLabelByID lid (ap_db w1)) w1)))))"

definition handleRemoveIssueLabel :: "('g, 'k) server \<Rightarrow> string \<Rightarrow> request \<Rightarrow> 'g api_world \<Rightarrow> (issue option, 'g) outcome" where
  "handleRemoveIssueLabel sv labelID r =
     getRepoWrite r (get_issue r (\<lambda>repo n i. parse_id sv labelID ''invalid label id'' (\<lambda>lid w.
       and_then 500 (on_db (RemoveLabel (iu_id i) lid) w)
         (\<lambda>_ w1. updated_issue repo n (label_event sv r (iu_id i) ''unlabeled'' (GetLabelByID lid (ap_db w)) w1)))))"

subsection \<open>Milestones\<close>

definition handleListMilestones :: "request \<Rightarrow> 'g api_world \<Rightarrow> (milestone list, 'g) outcome" where
  "handleListMilestones r = getRepo r (\<lambda>repo w. (OK (ListMilestones (rp_id repo) (ap_db w)), w))"

record milestone_body =
  mb_title :: string
  mb_desc :: string
  mb_due :: string

definition handleCreateMilestone ::
  "('g, 'k) server \<Rightarrow> milestone_body body \<Rightarrow> request \<Rightarrow> 'g api_world \<Rightarrow> (milestone, 'g) outcome" where
  "handleCreateMilestone sv b r =
     getRepoWrite r (\<lambda>repo w.
       let due = (if mb_due (fst b) = [] then None else sr_rfc3339 sv (mb_due (fst b)))
       in answer 500 id
            (on_db (CreateMilestone (cx_now r) (cx_fresh r 0) (rp_id repo) (mb_title (fst b)) (mb_desc (fst b)) due) w))"

definition handleCloseMilestone :: "('g, 'k) server \<Rightarrow> string \<Rightarrow> request \<Rightarrow> 'g api_world \<Rightarrow> (string, 'g) outcome" where
  "handleCloseMilestone sv milestoneID r =
     getRepoWrite r (\<lambda>repo. parse_id sv milestoneID ''invalid milestone id'' (\<lambda>mid w.
       or_fail 404 ''milestone not found'' (from_db (GetMilestone (rp_id repo) mid) w)
         (\<lambda>_ w1. answer 500 (\<lambda>_. ''closed'') (on_db (CloseMilestone mid) w1))))"

subsection \<open>Reactions\<close>

record reaction_body =
  xb_content :: string
  xb_comment :: string

definition optional_id ::
  "('g, 'k) server \<Rightarrow> string \<Rightarrow> (uuid option \<Rightarrow> 'g api_world \<Rightarrow> ('a, 'g) outcome) \<Rightarrow> 'g api_world \<Rightarrow> ('a, 'g) outcome" where
  "optional_id sv text k =
     (if text = [] then k None else parse_id sv text ''invalid comment_id'' (\<lambda>x. k (Some x)))"

definition handleAddIssueReaction ::
  "('g, 'k) server \<Rightarrow> reaction_body body \<Rightarrow> request \<Rightarrow> 'g api_world \<Rightarrow> (reaction, 'g) outcome" where
  "handleAddIssueReaction sv b r =
     getRepoWrite r (get_issue r (\<lambda>repo n i w.
       if \<not> snd b then (JsonError 400 ''invalid body'', w)
       else if \<not> ValidReactionContent (xb_content (fst b))
       then (JsonError 400 (''invalid reaction content; valid values: +1, -1, laugh, confused, heart, hooray, rocket, eyes''), w)
       else optional_id sv (xb_comment (fst b)) (\<lambda>cid w1.
         and_then 500
           (on_db (AddReaction (cx_now r) (cx_fresh r 0) (iu_id i) (userIDFrom r) cid (xb_content (fst b))) w1)
           (\<lambda>x w2. (OK x, record_event sv r 1 (iu_id i) ''reaction_added''
              [(''reaction_id'', uuid_string (sr_crypto sv) (re_id x)), (''content'', re_content x)] w2))) w))"

definition handleListIssueReactions :: "('g, 'k) server \<Rightarrow> string \<Rightarrow> request \<Rightarrow> 'g api_world \<Rightarrow> (reaction list, 'g) outcome" where
  "handleListIssueReactions sv commentID r =
     getRepo r (get_issue r (\<lambda>repo n i. optional_id sv commentID (\<lambda>cid w. (OK (ListReactions (iu_id i) cid (ap_db w)), w))))"

definition handleDeleteIssueReaction :: "('g, 'k) server \<Rightarrow> string \<Rightarrow> request \<Rightarrow> 'g api_world \<Rightarrow> (string, 'g) outcome" where
  "handleDeleteIssueReaction sv reactionID r =
     getRepoWrite r (get_issue r (\<lambda>repo n i. parse_id sv reactionID ''invalid reaction id'' (\<lambda>xid w.
       answer 404 (\<lambda>_. ''deleted'') (on_db (DeleteReaction xid (userIDFrom r)) w))))"

end
