(* ===== verification/ApiPull.thy ===== *)
theory ApiPull
  imports ApiUser
begin

section \<open>Pull requests over the API (internal/api)\<close>

text \<open>
  The pull request handlers of server.go, the comments of extra_handlers.go and the reviews by a
  language model of ai_review_handlers.go.
\<close>

definition get_pull ::
  "request \<Rightarrow> (repository \<Rightarrow> int \<Rightarrow> pull_request \<Rightarrow> 'g api_world \<Rightarrow> ('a, 'g) outcome) \<Rightarrow> repository
     \<Rightarrow> 'g api_world \<Rightarrow> ('a, 'g) outcome" where
  "get_pull r k repo = parseNumber r (\<lambda>n w. and_then 404 (from_db (pull_Get (rp_id repo) n) w) (k repo n))"

subsection \<open>Reviews by a language model\<close>

definition ask_review ::
  "('g, 'k) server \<Rightarrow> ai_config \<Rightarrow> ai_lib \<Rightarrow> pull_request \<Rightarrow> string \<Rightarrow> string result" where
  "ask_review sv cfg lb pr diff =
     ai_Review lb cfg \<lparr>ri_title = pq_title pr, ri_body = pq_body pr, ri_diff = diff, ri_model = acf_model cfg\<rparr>"

text \<open>The goroutine started by a new pull request; every error ends it silently.\<close>

definition runAutoAIReview ::
  "('g, 'k) server \<Rightarrow> request \<Rightarrow> string \<Rightarrow> string \<Rightarrow> int \<Rightarrow> 'g api_world \<Rightarrow> 'g api_world" where
  "runAutoAIReview sv r owner name number w =
     (case sr_ai sv of
        None \<Rightarrow> w
      | Some (cfg, lb) \<Rightarrow>
          if \<not> ai_Enabled cfg \<or> \<not> acf_auto cfg then w
          else (case GetByFullName (cx_now r) owner name (ap_repos w) (ap_db w) of
            (Inl e, c) \<Rightarrow> w\<lparr>ap_repos := c\<rparr>
          | (Inr repo, c) \<Rightarrow>
              (let w1 = w\<lparr>ap_repos := c\<rparr>; st = ap_store w
               in case pull_Get (rp_id repo) number (ap_db w1) of
                 Inl e \<Rightarrow> w1
               | Inr pr \<Rightarrow>
                   (case UpdateHead (sr_git sv) (rp_owner_name repo) (rp_name repo) (pq_base pr) st of
                      Inl e \<Rightarrow> w1
                    | Inr baseSHA \<Rightarrow>
                        (case store_Diff (sr_git sv) (rp_owner_name repo) (rp_name repo) baseSHA (pq_head_sha pr) st of
                           Inl e \<Rightarrow> w1
                         | Inr diff \<Rightarrow>
                             (case ask_review sv cfg lb pr diff of
                                Inl e \<Rightarrow> w1
                              | Inr text \<Rightarrow> quietly (ai_Save (cx_now r) (cx_fresh r 5) (pq_id pr) (acf_model cfg) text) w1))))))"

definition handleAIReviewConfig :: "('g, 'k) server \<Rightarrow> 'g api_world \<Rightarrow> ((string \<times> bool) option, 'g) outcome" where
  "handleAIReviewConfig sv w =
     (OK (case sr_ai sv of
            None \<Rightarrow> None
          | Some (cfg, lb) \<Rightarrow> if ai_Enabled cfg then Some (acf_model cfg, acf_auto cfg) else None), w)"

definition handleListAIReviews :: "('g, 'k) server \<Rightarrow> request \<Rightarrow> 'g api_world \<Rightarrow> (ai_review list, 'g) outcome" where
  "handleListAIReviews sv r w =
     (if sr_ai sv = None then (OK [], w)
      else getRepo r (get_pull r (\<lambda>repo n pr w1. (OK (ai_List (pq_id pr) (ap_db w1)), w1))) w)"

definition handleCreateAIReview :: "('g, 'k) server \<Rightarrow> request \<Rightarrow> 'g api_world \<Rightarrow> (ai_review, 'g) outcome" where
  "handleCreateAIReview sv r w =
     (case sr_ai sv of
        None \<Rightarrow> (JsonError 503 ''ai review is not configured'', w)
      | Some (cfg, lb) \<Rightarrow>
          if \<not> ai_Enabled cfg then (JsonError 503 ''ai review is not configured'', w)
          else getRepoWrite r (get_pull r (\<lambda>repo n pr w1.
            or_fail 400 ''invalid base branch''
              (from_store (UpdateHead (sr_git sv) (rp_owner_name repo) (rp_name repo) (pq_base pr)) w1) (\<lambda>baseSHA w2.
                and_then 500
                  (from_store (store_Diff (sr_git sv) (rp_owner_name repo) (rp_name repo) baseSHA (pq_head_sha pr)) w2)
                  (\<lambda>diff w3. and_then 502 (ask_review sv cfg lb pr diff, w3) (\<lambda>text w4.
                     answer 500 id (on_db (ai_Save (cx_now r) (cx_fresh r 0) (pq_id pr) (acf_model cfg) text) w4)))))) w)"

subsection \<open>Pull requests\<close>

definition handleListPRs :: "string \<Rightarrow> string \<Rightarrow> request \<Rightarrow> 'g api_world \<Rightarrow> (pull_request list, 'g) outcome" where
  "handleListPRs limit offset r =
     getRepo r (\<lambda>repo w. (OK (pull_ListPaginated (rp_id repo) (fst (parsePagination limit offset))
       (snd (parsePagination limit offset)) (ap_db w)), w))"

record pull_body =
  qb_title :: string
  qb_body :: string
  qb_head :: string
  qb_base :: string

definition handleCreatePR :: "('g, 'k) server \<Rightarrow> pull_body body \<Rightarrow> request \<Rightarrow> 'g api_world \<Rightarrow> (pull_request, 'g) outcome" where
  "handleCreatePR sv b r =
     getRepoWrite r (\<lambda>repo w.
       or_fail 400 ''invalid head branch''
         (from_store (UpdateHead (sr_git sv) (rp_owner_name repo) (rp_name repo) (qb_head (fst b))) w) (\<lambda>sha w1.
           and_then 500
             (on_db (pull_Create (cx_now r) (cx_fresh r 0) (rp_id repo) (userIDFrom r) (qb_title (fst b)) (qb_body (fst b))
                (qb_head (fst b)) (qb_base (fst b)) sha) w1)
             (\<lambda>pr w2. (OK pr, runAutoAIReview sv r (rp_owner_name repo) (rp_name repo) (pq_number pr) w2))))"

definition handleGetPR :: "('g, 'k) server \<Rightarrow> request \<Rightarrow> 'g api_world \<Rightarrow> (pull_request \<times> bool, 'g) outcome" where
  "handleGetPR sv r =
     getRepo r (get_pull r (\<lambda>repo n pr w.
       if pq_state pr = ''open''
       then (case on_store (CanMerge (sr_git sv) (rp_owner_name repo) (rp_name repo) (pq_base pr) (pq_head pr)) w of
               (Inl e, w1) \<Rightarrow> (OK (pr, True), w1)
             | (Inr mergeable, w1) \<Rightarrow> (OK (pr, mergeable), w1))
       else (OK (pr, True), w)))"

definition handleListPRReviews :: "request \<Rightarrow> 'g api_world \<Rightarrow> (review list, 'g) outcome" where
  "handleListPRReviews r = getRepo r (get_pull r (\<lambda>repo n pr w. (OK (ListReviews (pq_id pr) (ap_db w)), w)))"

text \<open>Whoever may write may review, the author included; the state of the pull request is not looked at.\<close>

definition handleAddReview :: "(string \<times> string) body \<Rightarrow> request \<Rightarrow> 'g api_world \<Rightarrow> (review, 'g) outcome" where
  "handleAddReview b r =
     getRepoWrite r (get_pull r (\<lambda>repo n pr w.
       and_then 500 (on_db (AddReview (cx_now r) (cx_fresh r 0) (pq_id pr) (userIDFrom r) (fst (fst b)) (snd (fst b))) w)
         (\<lambda>rv w1. (OK rv, if pq_author pr \<noteq> userIDFrom r
                          then notify r 1 (pq_author pr) ''PR review'' (in_repo ''New review on PR #'' n '' in '' repo)
                                 (issue_link repo ''pulls'' n) w1
                          else w1))))"

text \<open>The protection is checked against the stored head, the merge takes the head branch as it is now.\<close>

definition handleMergePR :: "('g, 'k) server \<Rightarrow> bool body \<Rightarrow> request \<Rightarrow> 'g api_world \<Rightarrow> (string, 'g) outcome" where
  "handleMergePR sv b r =
     getRepoWrite r (get_pull r (\<lambda>repo n pr w.
       let approved = int (ReviewCount (pq_id pr) ''approved'' (ap_db w))
       in and_then 403 (from_db (ValidateMergeProtection (rp_id repo) (pq_base pr) (pq_head_sha pr) approved) w) (\<lambda>_ w1.
            and_then 409
              (on_store (store_Merge (sr_git sv) (rp_owner_name repo) (rp_name repo) (pq_base pr) (pq_head pr) (fst b)) w1)
              (\<lambda>sha w2. and_then 500 (on_db (pull_Merge (cx_now r) (pq_id pr) sha) w2) (\<lambda>_ w3.
                 and_then 500 (on_db (UpdateBranchHead (rp_id repo) (pq_base pr) sha) w3) (\<lambda>_ w4.
                   (OK sha, notify r 0 (pq_author pr) ''PR merged'' (in_repo ''PR #'' n '' was merged in '' repo)
                              (issue_link repo ''pulls'' n) w4)))))))"

definition set_head_sha :: "instant \<Rightarrow> uuid \<Rightarrow> string \<Rightarrow> db \<Rightarrow> db" where
  "set_head_sha now pid sha d =
     d\<lparr>pulls := update_where (\<lambda>p. pr_id p = pid) (\<lambda>p. p\<lparr>pr_head_sha := sha, pr_updated := now\<rparr>) (pulls d)\<rparr>"

definition handleUpdatePRBranch :: "('g, 'k) server \<Rightarrow> request \<Rightarrow> 'g api_world \<Rightarrow> (string, 'g) outcome" where
  "handleUpdatePRBranch sv r =
     getRepoWrite r (\<lambda>repo. parseNumber r (\<lambda>n w.
       or_fail 404 ''pull request not found'' (from_db (pull_Get (rp_id repo) n) w) (\<lambda>pr w1.
         if pq_state pr \<noteq> ''open'' then (JsonError 409 ''pull request is not open'', w1)
         else (case on_store (MergeBaseIntoHead (sr_git sv) (rp_owner_name repo) (rp_name repo) (pq_head pr) (pq_base pr)) w1 of
                 (Inl e, w2) \<Rightarrow> (JsonError 409 (''failed to update branch: '' @ err_text e), w2)
               | (Inr sha, w2) \<Rightarrow> (OK sha, w2\<lparr>ap_db := set_head_sha (cx_now r) (pq_id pr) sha (ap_db w2)\<rparr>)))))"

definition handlePRDiff :: "('g, 'k) server \<Rightarrow> request \<Rightarrow> 'g api_world \<Rightarrow> (string, 'g) outcome" where
  "handlePRDiff sv r =
     getRepo r (get_pull r (\<lambda>repo n pr w.
       or_fail 400 ''invalid base branch''
         (from_store (UpdateHead (sr_git sv) (rp_owner_name repo) (rp_name repo) (pq_base pr)) w) (\<lambda>baseSHA w1.
           answer 500 id (from_store (store_Diff (sr_git sv) (rp_owner_name repo) (rp_name repo) baseSHA (pq_head_sha pr)) w1))))"

definition handlePRCommits :: "('g, 'k) server \<Rightarrow> request \<Rightarrow> 'g api_world \<Rightarrow> (commit_info list, 'g) outcome" where
  "handlePRCommits sv r =
     getRepo r (get_pull r (\<lambda>repo n pr w. answer 500 id
       (from_store (GetPRCommits (sr_git sv) (rp_owner_name repo) (rp_name repo) (pq_base pr) (pq_head pr) 100) w)))"

definition handlePRFiles :: "('g, 'k) server \<Rightarrow> request \<Rightarrow> 'g api_world \<Rightarrow> (changed_file list, 'g) outcome" where
  "handlePRFiles sv r =
     getRepo r (get_pull r (\<lambda>repo n pr w. answer 500 id
       (from_store (GetPRFiles (sr_git sv) (rp_owner_name repo) (rp_name repo) (pq_base pr) (pq_head pr)) w)))"

subsection \<open>Comments\<close>

definition handleListPRComments :: "request \<Rightarrow> 'g api_world \<Rightarrow> (line_comment list, 'g) outcome" where
  "handleListPRComments r = getRepo r (get_pull r (\<lambda>repo n pr w. (OK (pull_ListComments (pq_id pr) (ap_db w)), w)))"

definition handleAddPRComment ::
  "(string \<times> string \<times> int) body \<Rightarrow> request \<Rightarrow> 'g api_world \<Rightarrow> (line_comment, 'g) outcome" where
  "handleAddPRComment b r =
     getRepoWrite r (get_pull r (\<lambda>repo n pr w.
       and_then 500
         (on_db (pull_AddComment (cx_now r) (cx_fresh r 0) (pq_id pr) (userIDFrom r) (fst (fst b)) (fst (snd (fst b)))
            (snd (snd (fst b)))) w)
         (\<lambda>c w1. (OK c, if pq_author pr \<noteq> userIDFrom r
                        then notify r 1 (pq_author pr) ''PR comment'' (in_repo ''New comment on PR #'' n '' in '' repo)
                               (issue_link repo ''pulls'' n) w1
                        else w1))))"

end
