(* ===== verification/ApiActions.thy ===== *)
theory ApiActions
  imports ApiUser
begin

section \<open>Workflows, releases, packages, hooks and secrets over the API (internal/api/actions_handlers.go)\<close>

text \<open>Where a query has no ORDER BY the rows come in insertion order.\<close>

subsection \<open>Workflows and runs\<close>

record workflow_info =
  wi_id :: uuid
  wi_name :: string
  wi_path :: string
  wi_active :: bool

definition handleListWorkflows :: "request \<Rightarrow> 'g api_world \<Rightarrow> (workflow_info list, 'g) outcome" where
  "handleListWorkflows r =
     getRepo r (\<lambda>repo w.
       (OK (map (\<lambda>f. \<lparr>wi_id = wf_id f, wi_name = wf_name f, wi_path = wf_path f, wi_active = wf_active f\<rparr>)
              (rows_where (\<lambda>f. wf_repo f = rp_id repo) (workflows (ap_db w)))), w))"

definition same_workflow :: "uuid \<Rightarrow> string \<Rightarrow> workflow_row \<Rightarrow> bool" where
  "same_workflow rid path f = (wf_repo f = rid \<and> wf_path f = path)"

definition upsert_workflow :: "uuid \<Rightarrow> uuid \<Rightarrow> string \<Rightarrow> string \<Rightarrow> string \<Rightarrow> db \<Rightarrow> uuid result \<times> db" where
  "upsert_workflow nid rid name path content d =
     (case query_row (same_workflow rid path) (workflows d) of
        Some f \<Rightarrow> (Inr (wf_id f), d\<lparr>workflows := update_where (same_workflow rid path)
                     (\<lambda>q. q\<lparr>wf_name := name, wf_content := content\<rparr>) (workflows d)\<rparr>)
      | None \<Rightarrow>
          if \<not> key_free wf_id nid (workflows d) then (Inl (UniqueViolation ''workflows_pkey''), d)
          else if \<not> repo_exists rid d then (Inl (ForeignKeyViolation ''workflows_repo_id_fkey''), d)
          else (Inr nid, d\<lparr>workflows := insert_row
                  \<lparr>wf_id = nid, wf_repo = rid, wf_name = name, wf_path = path, wf_content = content, wf_active = True\<rparr>
                  (workflows d)\<rparr>))"

record workflow_body =
  fb_name :: string
  fb_path :: string
  fb_content :: string

definition handleUpsertWorkflow :: "('g, 'k) server \<Rightarrow> workflow_body body \<Rightarrow> request \<Rightarrow> 'g api_world \<Rightarrow> (uuid, 'g) outcome" where
  "handleUpsertWorkflow sv b r =
     getRepoWrite r (\<lambda>repo w.
       case ParseWorkflow (sr_yaml sv) (fb_content (fst b)) of
         Inl e \<Rightarrow> (JsonError 400 (err_text e), w)
       | Inr wfl \<Rightarrow> answer 500 id
           (on_db (upsert_workflow (cx_fresh r 0) (rp_id repo) (fb_name (fst b)) (fb_path (fst b)) (fb_content (fst b))) w))"

record run_info =
  ui_id :: uuid
  ui_number :: int
  ui_event :: string
  ui_sha :: string
  ui_head :: string
  ui_status :: string
  ui_conclusion :: "string option"
  ui_created :: instant

definition run_info_of :: "run_row \<Rightarrow> run_info" where
  "run_info_of q = \<lparr>ui_id = wr_id q, ui_number = wr_number q, ui_event = wr_event q, ui_sha = wr_sha q, ui_head = wr_branch q,
     ui_status = wr_status q, ui_conclusion = wr_conclusion q, ui_created = wr_created q\<rparr>"

definition handleListRuns :: "request \<Rightarrow> 'g api_world \<Rightarrow> (run_info list, 'g) outcome" where
  "handleListRuns r =
     getRepo r (\<lambda>repo w.
       (OK (map run_info_of (take 50 (order_by_desc wr_number (rows_where (\<lambda>q. wr_repo q = rp_id repo) (runs (ap_db w)))))), w))"

record trigger_body =
  gb_workflow :: uuid
  gb_event :: string
  gb_branch :: string
  gb_sha :: string

text \<open>The workflow of the body is not looked up in the repository.\<close>

definition handleTriggerRun :: "('g, 'k) server \<Rightarrow> trigger_body body \<Rightarrow> request \<Rightarrow> 'g api_world \<Rightarrow> (uuid \<times> int, 'g) outcome" where
  "handleTriggerRun sv b r =
     getRepoWrite r (\<lambda>repo. requireScope r ScopeWorkflow (\<lambda>w.
       let branch = (if gb_branch (fst b) = [] then rp_branch repo else gb_branch (fst b))
       in or_fail 400 ''invalid branch''
            (if gb_sha (fst b) = []
             then from_store (UpdateHead (sr_git sv) (rp_owner_name repo) (rp_name repo) branch) w
             else (Inr (gb_sha (fst b)), w)) (\<lambda>sha w1.
              let n = run_number_of (rp_id repo) (ap_db w1)
              in answer 500 (\<lambda>_. (cx_fresh r 0, n))
                   (on_db (insert_run (new_run (cx_now r) (cx_fresh r 0) (rp_id repo) (gb_workflow (fst b)) n
                      (gb_event (fst b)) sha branch)) w1))))"

record job_log =
  jl_job :: string
  jl_name :: string
  jl_status :: string
  jl_log :: string

text \<open>The name column of a job is written with the id of the job. A log that cannot be read is empty.\<close>

definition job_log_of :: "files \<Rightarrow> job_row \<Rightarrow> job_log" where
  "job_log_of fs j = \<lparr>jl_job = wj_job j, jl_name = wj_job j, jl_status = wj_status j,
     jl_log = (case wj_log j of None \<Rightarrow> [] | Some path \<Rightarrow> coalesce (fs path) [])\<rparr>"

definition handleRunLogs :: "('g, 'k) server \<Rightarrow> string \<Rightarrow> request \<Rightarrow> 'g api_world \<Rightarrow> (job_log list, 'g) outcome" where
  "handleRunLogs sv runID r =
     getRepo r (\<lambda>repo. parse_id sv runID ''invalid run id'' (\<lambda>rid w.
       case query_row (\<lambda>q. wr_id q = rid) (runs (ap_db w)) of
         None \<Rightarrow> (JsonError 404 ''run not found'', w)
       | Some q \<Rightarrow>
           if wr_repo q \<noteq> rp_id repo then (JsonError 404 ''run not found'', w)
           else (OK (map (job_log_of (ap_files w)) (rows_where (\<lambda>j. wj_run j = rid) (jobs (ap_db w)))), w)))"

subsection \<open>Releases\<close>

definition handleListReleases :: "request \<Rightarrow> 'g api_world \<Rightarrow> (release list, 'g) outcome" where
  "handleListReleases r = getRepo r (\<lambda>repo w. (OK (release_List (rp_id repo) (ap_db w)), w))"

record release_body =
  eb_tag :: string
  eb_name :: string
  eb_body :: string
  eb_draft :: bool
  eb_prerelease :: bool

definition handleCreateRelease :: "release_body body \<Rightarrow> request \<Rightarrow> 'g api_world \<Rightarrow> (release, 'g) outcome" where
  "handleCreateRelease b r =
     getRepoWrite r (\<lambda>repo w.
       if \<not> snd b then (JsonError 400 ''invalid body'', w)
       else if eb_tag (fst b) = [] then (JsonError 400 ''tag_name required'', w)
       else answer 500 id
         (on_db (release_Create (cx_now r) (cx_fresh r 0) (rp_id repo) (userIDFrom r) (eb_tag (fst b)) (eb_name (fst b))
            (eb_body (fst b)) (eb_draft (fst b)) (eb_prerelease (fst b))) w))"

definition get_release ::
  "string \<Rightarrow> (release \<Rightarrow> 'g api_world \<Rightarrow> ('a, 'g) outcome) \<Rightarrow> repository \<Rightarrow> 'g api_world \<Rightarrow> ('a, 'g) outcome" where
  "get_release tag k repo w = or_fail 404 ''release not found'' (from_db (GetByTag (rp_id repo) tag) w) k"

text \<open>The uploaded part of the form: its name, content type, content and size.\<close>

record form_file =
  ff_name :: string
  ff_type :: string
  ff_body :: request_body
  ff_size :: int

definition handleUploadAsset ::
  "('g, 'k) server \<Rightarrow> string \<Rightarrow> form_file option \<Rightarrow> request \<Rightarrow> 'g api_world \<Rightarrow> (asset, 'g) outcome" where
  "handleUploadAsset sv tag form r =
     getRepoWrite r (get_release tag (\<lambda>rel w.
       case form of
         None \<Rightarrow> (JsonError 400 ''missing file'', w)
       | Some f \<Rightarrow> answer 500 id
           (on_files (UploadAsset (sr_releases sv) (cx_fresh r 0) (rs_id rel) (ff_name f) (ff_type f) (ff_body f) (ff_size f)) w)))"

definition handleListReleaseAssets :: "string \<Rightarrow> request \<Rightarrow> 'g api_world \<Rightarrow> (asset list, 'g) outcome" where
  "handleListReleaseAssets tag r = getRepo r (get_release tag (\<lambda>rel w. (OK (ListAssets (rs_id rel) (ap_db w)), w)))"

text \<open>The content type of the answer, the file name it is offered under, and the content.\<close>

definition handleDownloadReleaseAsset ::
  "string \<Rightarrow> string \<Rightarrow> request \<Rightarrow> 'g api_world \<Rightarrow> (string \<times> string \<times> string, 'g) outcome" where
  "handleDownloadReleaseAsset tag name r =
     getRepo r (get_release tag (\<lambda>rel w.
       or_fail 404 ''asset not found'' (OpenAssetByName (rs_id rel) name (ap_files w) (ap_db w), w) (\<lambda>(a, bytes) w1.
         (OK (if at_ctype a = [] then ''application/octet-stream'' else at_ctype a, at_name a, bytes), w1))))"

subsection \<open>Packages\<close>

definition handleListPackages :: "request \<Rightarrow> 'g api_world \<Rightarrow> (package list, 'g) outcome" where
  "handleListPackages r = getRepo r (\<lambda>repo w. (OK (package_List (rp_id repo) (ap_db w)), w))"

definition handlePublishPackage ::
  "('g, 'k) server \<Rightarrow> string \<Rightarrow> string \<Rightarrow> string \<Rightarrow> request_body \<Rightarrow> request \<Rightarrow> 'g api_world \<Rightarrow> (package, 'g) outcome" where
  "handlePublishPackage sv name version pkgType content r =
     getRepoWrite r (\<lambda>repo w. answer 500 id
       (on_files (Publish (sr_packages sv) (cx_now r) (cx_fresh r 0) (rp_id repo) name
          (if pkgType = [] then ''container'' else pkgType) version content) w))"

definition handleDownloadPackage :: "string \<Rightarrow> string \<Rightarrow> request \<Rightarrow> 'g api_world \<Rightarrow> (string, 'g) outcome" where
  "handleDownloadPackage name version r =
     getRepo r (\<lambda>repo w. answer 404 id (package_Open (rp_id repo) name version (ap_files w) (ap_db w), w))"

subsection \<open>Webhooks\<close>

definition handleListWebhooks :: "request \<Rightarrow> 'g api_world \<Rightarrow> (hook list, 'g) outcome" where
  "handleListWebhooks r =
     getRepo r (\<lambda>repo w. (OK (map hook_of (rows_where (\<lambda>h. h_repo h = rp_id repo) (hooks (ap_db w)))), w))"

record webhook_body =
  hb_url :: string
  hb_secret :: string
  hb_events :: "string list"

definition handleCreateWebhook :: "webhook_body body \<Rightarrow> request \<Rightarrow> 'g api_world \<Rightarrow> (hook, 'g) outcome" where
  "handleCreateWebhook b r =
     getRepoWrite r (\<lambda>repo w. answer 500 id
       (on_db (hook_Create (cx_fresh r 0) (rp_id repo) (hb_url (fst b)) (hb_secret (fst b)) (hb_events (fst b))) w))"

text \<open>The repository is checked, and then any hook may be named.\<close>

definition handleListWebhookDeliveries ::
  "('g, 'k) server \<Rightarrow> string \<Rightarrow> request \<Rightarrow> 'g api_world \<Rightarrow> (delivery list, 'g) outcome" where
  "handleListWebhookDeliveries sv webhookID r =
     getRepo r (\<lambda>repo. parse_id sv webhookID ''invalid webhook id'' (\<lambda>hid w. (OK (ListDeliveries hid 20 (ap_db w)), w)))"

subsection \<open>Secrets\<close>

record secret_info =
  sn_id :: uuid
  sn_name :: string
  sn_created :: instant
  sn_updated :: instant

definition handleListSecrets :: "request \<Rightarrow> 'g api_world \<Rightarrow> (secret_info list, 'g) outcome" where
  "handleListSecrets r =
     getRepo r (\<lambda>repo w.
       (OK (map (\<lambda>s. \<lparr>sn_id = sc_id s, sn_name = sc_name s, sn_created = sc_created s, sn_updated = sc_updated s\<rparr>)
              (order_by sc_name (rows_where (\<lambda>s. sc_repo s = rp_id repo) (secrets (ap_db w))))), w))"

definition same_secret :: "uuid \<Rightarrow> string \<Rightarrow> secret_row \<Rightarrow> bool" where
  "same_secret rid name s = (sc_repo s = rid \<and> sc_name s = name)"

definition upsert_secret :: "instant \<Rightarrow> uuid \<Rightarrow> uuid \<Rightarrow> string \<Rightarrow> string \<Rightarrow> db \<Rightarrow> unit result \<times> db" where
  "upsert_secret now nid rid name value d =
     (if sql_exists (same_secret rid name) (secrets d)
      then (Inr (), d\<lparr>secrets := update_where (same_secret rid name)
                        (\<lambda>s. s\<lparr>sc_value := value, sc_updated := now\<rparr>) (secrets d)\<rparr>)
      else if \<not> key_free sc_id nid (secrets d) then (Inl (UniqueViolation ''actions_secrets_pkey''), d)
      else if \<not> repo_exists rid d then (Inl (ForeignKeyViolation ''actions_secrets_repo_id_fkey''), d)
      else (Inr (), d\<lparr>secrets := insert_row
              \<lparr>sc_id = nid, sc_repo = rid, sc_name = name, sc_value = value, sc_created = now, sc_updated = now\<rparr> (secrets d)\<rparr>))"

definition handleCreateSecret :: "(string \<times> string) body \<Rightarrow> request \<Rightarrow> 'g api_world \<Rightarrow> (string, 'g) outcome" where
  "handleCreateSecret b r =
     getRepoWrite r (\<lambda>repo. requireScope r ScopeWorkflow (\<lambda>w.
       if \<not> snd b then (JsonError 400 ''invalid body'', w)
       else if fst (fst b) = [] then (JsonError 400 ''name required'', w)
       else if snd (fst b) = [] then (JsonError 400 ''value required'', w)
       else answer 500 (\<lambda>_. ''created'') (on_db (upsert_secret (cx_now r) (cx_fresh r 0) (rp_id repo) (fst (fst b)) (snd (fst b))) w)))"

definition handleDeleteSecret :: "string \<Rightarrow> request \<Rightarrow> 'g api_world \<Rightarrow> (string, 'g) outcome" where
  "handleDeleteSecret name r =
     getRepoWrite r (\<lambda>repo. requireScope r ScopeWorkflow (\<lambda>w.
       if name = [] then (JsonError 400 ''secret name required'', w)
       else (let hit = same_secret (rp_id repo) name; d = ap_db w
             in if rows_affected hit (secrets d) = 0 then (JsonError 404 ''secret not found'', w)
                else (OK ''deleted'', w\<lparr>ap_db := d\<lparr>secrets := delete_where hit (secrets d)\<rparr>\<rparr>))))"

end
