(* ===== verification/Api.thy ===== *)
theory Api
  imports ApiRepo ApiIssue ApiPull ApiActions
begin

section \<open>What the API guarantees, and what it does not\<close>

text \<open>
  The requests below a repository's URL, and the properties that hold of them together.
\<close>

subsection \<open>Requests below /repos/{owner}/{repo}\<close>

text \<open>
  One rule per route of the router; the caller is \<open>r\<close>, which the middleware made. Of an answer only its
  success is kept. The truth value says whether the handler looks the repository up: three do not, the
  two of the presence tracker and the one that shows the settings of the reviewing model.
\<close>

definition success :: "'a reply \<Rightarrow> bool" where
  "success a = (case a of OK x \<Rightarrow> True | NoContent \<Rightarrow> True | JsonError c m \<Rightarrow> False)"

definition shown :: "('a, 'g) outcome \<Rightarrow> bool \<times> 'g api_world" where
  "shown out = (success (fst out), snd out)"

inductive repo_request :: "('g, 'k) server \<Rightarrow> request \<Rightarrow> 'g api_world \<Rightarrow> bool \<Rightarrow> bool \<times> 'g api_world \<Rightarrow> bool"
  for sv r w where
  get_repo: "repo_request sv r w True (shown (handleGetRepo r w))"
| update_repo: "repo_request sv r w True (shown (handleUpdateRepo b r w))"
| delete_repo: "repo_request sv r w True (shown (handleDeleteRepo sv r w))"
| get_contents: "repo_request sv r w True (shown (handleGetContents sv path ref r w))"
| get_commits: "repo_request sv r w True (shown (handleGetCommits sv ref r w))"
| compare: "repo_request sv r w True (shown (handleCompareCommits sv path r w))"
| archive: "repo_request sv r w True (shown (handleArchive sv ref r w))"
| star: "repo_request sv r w True (shown (handleStar r w))"
| unstar: "repo_request sv r w True (shown (handleUnstar r w))"
| watch: "repo_request sv r w True (shown (handleWatch r w))"
| unwatch: "repo_request sv r w True (shown (handleUnwatch r w))"
| fork: "repo_request sv r w True (shown (handleFork sv r w))"
| list_branches: "repo_request sv r w True (shown (handleListBranches r w))"
| list_tags: "repo_request sv r w True (shown (handleListTags sv r w))"
| create_tag: "repo_request sv r w True (shown (handleCreateTag sv bt r w))"
| create_branch: "repo_request sv r w True (shown (handleCreateBranch sv bt r w))"
| list_protected: "repo_request sv r w True (shown (handleListProtectedBranches r w))"
| protect: "repo_request sv r w True (shown (handleProtectBranch bp r w))"
| list_collaborators: "repo_request sv r w True (shown (handleListCollaborators r w))"
| add_collaborator: "repo_request sv r w True (shown (handleAddCollaborator name bs r w))"
| remove_collaborator: "repo_request sv r w True (shown (handleRemoveCollaborator name r w))"
| list_wiki: "repo_request sv r w True (shown (handleListWikiPages r w))"
| get_wiki: "repo_request sv r w True (shown (handleGetWikiPage slug r w))"
| upsert_wiki: "repo_request sv r w True (shown (handleUpsertWikiPage slug bw r w))"
| delete_wiki: "repo_request sv r w True (shown (handleDeleteWikiPage slug r w))"
| git_blob: "repo_request sv r w True (shown (handleCreateGitBlob sv bt r w))"
| git_tree: "repo_request sv r w True (shown (handleCreateGitTree sv be r w))"
| git_commit: "repo_request sv r w True (shown (handleCreateGitCommit sv bc r w))"
| git_ref: "repo_request sv r w True (shown (handleCreateGitRef sv bt r w))"
| list_issues: "repo_request sv r w True (shown (handleListIssues limit offset r w))"
| create_issue: "repo_request sv r w True (shown (handleCreateIssue sv bt r w))"
| get_issue: "repo_request sv r w True (shown (handleGetIssue r w))"
| list_comments: "repo_request sv r w True (shown (handleListIssueComments r w))"
| add_comment: "repo_request sv r w True (shown (handleAddIssueComment sv bs r w))"
| close_issue: "repo_request sv r w True (shown (handleCloseIssue sv r w))"
| patch_issue: "repo_request sv r w True (shown (handlePatchIssue sv bpi r w))"
| timeline: "repo_request sv r w True (shown (handleGetIssueTimeline r w))"
| set_assignees: "repo_request sv r w True (shown (handleSetIssueAssignees sv bl r w))"
| add_reaction: "repo_request sv r w True (shown (handleAddIssueReaction sv br r w))"
| list_reactions: "repo_request sv r w True (shown (handleListIssueReactions sv ident r w))"
| delete_reaction: "repo_request sv r w True (shown (handleDeleteIssueReaction sv ident r w))"
| add_label: "repo_request sv r w True (shown (handleAddIssueLabel sv ident r w))"
| remove_label: "repo_request sv r w True (shown (handleRemoveIssueLabel sv ident r w))"
| list_labels: "repo_request sv r w True (shown (handleListLabels r w))"
| create_label: "repo_request sv r w True (shown (handleCreateLabel bt r w))"
| list_milestones: "repo_request sv r w True (shown (handleListMilestones r w))"
| create_milestone: "repo_request sv r w True (shown (handleCreateMilestone sv bm r w))"
| close_milestone: "repo_request sv r w True (shown (handleCloseMilestone sv ident r w))"
| list_pulls: "repo_request sv r w True (shown (handleListPRs limit offset r w))"
| create_pull: "repo_request sv r w True (shown (handleCreatePR sv bq r w))"
| get_pull: "repo_request sv r w True (shown (handleGetPR sv r w))"
| list_reviews: "repo_request sv r w True (shown (handleListPRReviews r w))"
| add_review: "repo_request sv r w True (shown (handleAddReview bt r w))"
| merge: "repo_request sv r w True (shown (handleMergePR sv bb r w))"
| update_pull: "repo_request sv r w True (shown (handleUpdatePRBranch sv r w))"
| pull_diff: "repo_request sv r w True (shown (handlePRDiff sv r w))"
| pull_commits: "repo_request sv r w True (shown (handlePRCommits sv r w))"
| pull_files: "repo_request sv r w True (shown (handlePRFiles sv r w))"
| list_pr_comments: "repo_request sv r w True (shown (handleListPRComments r w))"
| add_pr_comment: "repo_request sv r w True (shown (handleAddPRComment bcm r w))"
| list_ai: "repo_request sv r w True (shown (handleListAIReviews sv r w))"
| create_ai: "repo_request sv r w True (shown (handleCreateAIReview sv r w))"
| list_workflows: "repo_request sv r w True (shown (handleListWorkflows r w))"
| upsert_workflow: "repo_request sv r w True (shown (handleUpsertWorkflow sv bwf r w))"
| list_runs: "repo_request sv r w True (shown (handleListRuns r w))"
| trigger: "repo_request sv r w True (shown (handleTriggerRun sv btr r w))"
| run_logs: "repo_request sv r w True (shown (handleRunLogs sv ident r w))"
| list_secrets: "repo_request sv r w True (shown (handleListSecrets r w))"
| create_secret: "repo_request sv r w True (shown (handleCreateSecret bt r w))"
| delete_secret: "repo_request sv r w True (shown (handleDeleteSecret name r w))"
| list_releases: "repo_request sv r w True (shown (handleListReleases r w))"
| create_release: "repo_request sv r w True (shown (handleCreateRelease brl r w))"
| upload_asset: "repo_request sv r w True (shown (handleUploadAsset sv tag form r w))"
| list_assets: "repo_request sv r w True (shown (handleListReleaseAssets tag r w))"
| download_asset: "repo_request sv r w True (shown (handleDownloadReleaseAsset tag name r w))"
| list_packages: "repo_request sv r w True (shown (handleListPackages r w))"
| publish: "repo_request sv r w True (shown (handlePublishPackage sv name version ty content r w))"
| download_package: "repo_request sv r w True (shown (handleDownloadPackage name version r w))"
| list_hooks: "repo_request sv r w True (shown (handleListWebhooks r w))"
| create_hook: "repo_request sv r w True (shown (handleCreateWebhook bh r w))"
| list_deliveries: "repo_request sv r w True (shown (handleListWebhookDeliveries sv ident r w))"
| heartbeat: "repo_request sv r w False (shown (handlePresenceHeartbeat sv r w))"
| viewers: "repo_request sv r w False (shown (handlePresence r w))"
| ai_config: "repo_request sv r w False (shown (handleAIReviewConfig sv w))"

text \<open>What is stored: everything but the two caches and the presence tracker.\<close>

definition same_data :: "'g api_world \<Rightarrow> 'g api_world \<Rightarrow> bool" where
  "same_data w w1 = (ap_db w1 = ap_db w \<and> ap_store w1 = ap_store w \<and> ap_files w1 = ap_files w \<and> ap_docs w1 = ap_docs w)"

text \<open>The same, but for what a trial merge of two branches leaves in the git directory.\<close>

definition merge_tried :: "('g, 'k) server \<Rightarrow> 'g api_world \<Rightarrow> 'g api_world \<Rightarrow> bool" where
  "merge_tried sv w w1 =
     (ap_db w1 = ap_db w \<and> ap_files w1 = ap_files w \<and> ap_docs w1 = ap_docs w
      \<and> (ap_store w1 = ap_store w
         \<or> (\<exists>owner name base head. ap_store w1 = snd (CanMerge (sr_git sv) owner name base head (ap_store w)))))"

lemma merge_tried_same: "same_data w w1 \<Longrightarrow> merge_tried sv w w1"
  by (simp add: same_data_def merge_tried_def)

definition may :: "string \<Rightarrow> request \<Rightarrow> 'g api_world \<Rightarrow> bool" where
  "may perm r w =
     (case fst (GetByFullName (cx_now r) (cx_owner r) (cx_repo r) (ap_repos w) (ap_db w)) of
        Inl e \<Rightarrow> False
      | Inr repo \<Rightarrow> scope_ok r (if perm = ''write'' then ScopeRepoWrite else ScopeRepo)
                    \<and> CanAccess (rp_id repo) (cx_user r) perm (ap_db w) = Inr True)"

lemma shown_simps [simp]: "fst (shown out) = success (fst out)" "snd (shown out) = snd out"
  by (simp_all add: shown_def)

lemma success_simps [simp]: "success (OK x)" "\<not> success (JsonError c m)"
  by (simp_all add: success_def)

lemma getRepoPerm_denied:
  assumes "\<not> may perm r w"
  shows "same_data w (snd (getRepoPerm perm r k w)) \<and> \<not> success (fst (getRepoPerm perm r k w))"
proof (cases "GetByFullName (cx_now r) (cx_owner r) (cx_repo r) (ap_repos w) (ap_db w)")
  case (Pair out c)
  define scope where "scope = (if perm = ''write'' then ScopeRepoWrite else ScopeRepo)"
  from assms Pair show ?thesis
    unfolding may_def getRepoPerm_def scope_def [symmetric] same_data_def
    by (simp add: userIDFrom_def Let_def split: sum.splits)
qed

lemma write_scope_reads: "HasScope scopes ScopeRepoWrite \<Longrightarrow> HasScope scopes ScopeRepo"
proof -
  have "scope_loop ss ScopeRepoWrite \<Longrightarrow> scope_loop ss ScopeRepo" for ss
    by (induction ss) (auto split: if_splits)
  then show "HasScope scopes ScopeRepoWrite \<Longrightarrow> HasScope scopes ScopeRepo" by (simp add: HasScope_def split: if_splits)
qed

lemma may_write_reads: "may ''write'' r w \<Longrightarrow> may ''read'' r w"
  using access_monotone [of _ _ "''write''" _ "''read''"] write_scope_reads [of "scopesFrom r"]
  by (auto simp: may_def scope_ok_def permRank_def split: sum.splits)

text \<open>A handler that changes none of it. The lemmas follow the way handlers are put together.\<close>

definition read_only :: "('g api_world \<Rightarrow> ('a, 'g) outcome) \<Rightarrow> bool" where
  "read_only h = (\<forall>w. same_data w (snd (h w)))"

named_theorems reading \<open>handlers that only read\<close>

lemma read_onlyI: "(\<And>w. same_data w (snd (h w))) \<Longrightarrow> read_only h"
  by (simp add: read_only_def)

lemma read_onlyD: "read_only h \<Longrightarrow> same_data w (snd (h w))"
  by (simp add: read_only_def)

lemma same_data_refl [simp]: "same_data w w"
  by (simp add: same_data_def)

lemma read_perm [reading]: "(\<And>repo. read_only (k repo)) \<Longrightarrow> read_only (getRepoPerm perm r k)"
  by (auto simp: read_only_def getRepoPerm_def same_data_def Let_def split: prod.split sum.split)

lemma read_repo [reading]: "(\<And>repo. read_only (k repo)) \<Longrightarrow> read_only (getRepo r k)"
  unfolding getRepo_def by (rule read_perm)

lemma read_number [reading]: "(\<And>n. read_only (k n)) \<Longrightarrow> read_only (parseNumber r k)"
  by (auto simp: read_only_def parseNumber_def split: prod.split)

lemma read_id [reading]: "(\<And>x. read_only (k x)) \<Longrightarrow> read_only (parse_id sv text msg k)"
  by (auto simp: read_only_def parse_id_def split: option.split)

lemma read_optional_id [reading]: "(\<And>x. read_only (k x)) \<Longrightarrow> read_only (optional_id sv text k)"
  by (auto simp: optional_id_def intro: read_id)

lemma read_answer [reading]:
  "read_only (\<lambda>w. (x w, w))"
  "read_only (\<lambda>w. answer code f (y w, w))"
  by (auto simp: read_only_def answer_def split: sum.split)

lemma read_then [reading]:
  "(\<And>w x. same_data w (snd (k w x w))) \<Longrightarrow> read_only (\<lambda>w. and_then code (y w, w) (k w))"
  "(\<And>w x. same_data w (snd (k2 w x w))) \<Longrightarrow> read_only (\<lambda>w. or_fail code msg (y2 w, w) (k2 w))"
  by (auto simp: read_only_def and_then_def or_fail_def split: sum.split)

lemmas answers = answer_def and_then_def or_fail_def from_db_def from_store_def

lemma read_gets [reading]:
  "(\<And>n i. read_only (k repo n i)) \<Longrightarrow> read_only (get_issue r k repo)"
  "(\<And>n p. read_only (k2 repo n p)) \<Longrightarrow> read_only (get_pull r k2 repo)"
  "(\<And>rel. read_only (k3 rel)) \<Longrightarrow> read_only (get_release tag k3 repo)"
  unfolding get_issue_def get_pull_def get_release_def
  by (auto simp: read_only_def answers parseNumber_def split: sum.split prod.split)

lemma read_only_handlers:
  "read_only (handleGetRepo r)" "read_only (handleGetContents sv path ref r)" "read_only (handleGetCommits sv ref r)"
  "read_only (handleCompareCommits sv path r)" "read_only (handleArchive sv ref r)" "read_only (handleListBranches r)"
  "read_only (handleListTags sv r)" "read_only (handleListProtectedBranches r)" "read_only (handleListCollaborators r)"
  "read_only (handleListWikiPages r)" "read_only (handleGetWikiPage slug r)"
  unfolding handleGetRepo_def handleGetContents_def handleGetCommits_def handleCompareCommits_def handleArchive_def
    handleListBranches_def handleListTags_def handleListProtectedBranches_def handleListCollaborators_def
    handleListWikiPages_def handleGetWikiPage_def
  by (rule read_repo; auto simp: read_only_def answers Let_def split: sum.split list.split)+

lemma read_only_issues:
  "read_only (handleListIssues limit offset r)" "read_only (handleGetIssue r)" "read_only (handleListIssueComments r)"
  "read_only (handleGetIssueTimeline r)" "read_only (handleListIssueReactions sv ident r)" "read_only (handleListLabels r)"
  "read_only (handleListMilestones r)"
  unfolding handleListIssues_def handleGetIssue_def handleListIssueComments_def handleGetIssueTimeline_def
    handleListIssueReactions_def handleListLabels_def handleListMilestones_def
  by (intro reading)+

lemma read_only_pulls:
  "read_only (handleListPRs limit offset r)" "read_only (handleListPRReviews r)"
  "read_only (handlePRDiff sv r)" "read_only (handlePRCommits sv r)" "read_only (handlePRFiles sv r)"
  "read_only (handleListPRComments r)" "read_only (handleListAIReviews sv r)" "read_only (handleAIReviewConfig sv)"
proof -
  show "read_only (handleListPRs limit offset r)" unfolding handleListPRs_def by (intro reading)
  show "read_only (handleListPRReviews r)" unfolding handleListPRReviews_def by (intro reading)
  show "read_only (handlePRDiff sv r)"
    unfolding handlePRDiff_def from_store_def by (intro reading) (auto simp: answer_def split: sum.split)
  show "read_only (handlePRCommits sv r)" unfolding handlePRCommits_def from_store_def by (intro reading)
  show "read_only (handlePRFiles sv r)" unfolding handlePRFiles_def from_store_def by (intro reading)
  show "read_only (handleListPRComments r)" unfolding handleListPRComments_def by (intro reading)
  have "read_only (getRepo r (get_pull r (\<lambda>repo n pr w1. (OK (ai_List (pq_id pr) (ap_db w1)), w1))))"
    by (intro reading)
  then show "read_only (handleListAIReviews sv r)"
    by (auto simp: handleListAIReviews_def read_only_def)
  show "read_only (handleAIReviewConfig sv)" by (simp add: handleAIReviewConfig_def read_only_def)
qed

lemma read_only_actions:
  "read_only (handleListWorkflows r)" "read_only (handleListRuns r)" "read_only (handleRunLogs sv ident r)"
  "read_only (handleListReleases r)" "read_only (handleListReleaseAssets tag r)"
  "read_only (handleDownloadReleaseAsset tag name r)" "read_only (handleListPackages r)"
  "read_only (handleDownloadPackage name version r)" "read_only (handleListWebhooks r)"
  "read_only (handleListWebhookDeliveries sv ident r)" "read_only (handleListSecrets r)"
proof -
  show "read_only (handleListWorkflows r)" unfolding handleListWorkflows_def by (intro reading)
  show "read_only (handleListRuns r)" unfolding handleListRuns_def by (intro reading)
  show "read_only (handleRunLogs sv ident r)"
    unfolding handleRunLogs_def by (intro reading read_onlyI) (auto split: option.split)
  show "read_only (handleListReleases r)" unfolding handleListReleases_def by (intro reading)
  show "read_only (handleListReleaseAssets tag r)" unfolding handleListReleaseAssets_def by (intro reading)
  show "read_only (handleDownloadReleaseAsset tag name r)"
    unfolding handleDownloadReleaseAsset_def by (intro reading) auto
  show "read_only (handleListPackages r)" unfolding handleListPackages_def by (intro reading)
  show "read_only (handleDownloadPackage name version r)" unfolding handleDownloadPackage_def by (intro reading)
  show "read_only (handleListWebhooks r)" unfolding handleListWebhooks_def by (intro reading)
  show "read_only (handleListWebhookDeliveries sv ident r)" unfolding handleListWebhookDeliveries_def by (intro reading)
  show "read_only (handleListSecrets r)" unfolding handleListSecrets_def by (intro reading)
qed

lemmas write_handlers =
  handleUpdateRepo_def handleDeleteRepo_def handleStar_def handleUnstar_def handleWatch_def handleUnwatch_def handleFork_def
  handleCreateTag_def handleCreateBranch_def handleProtectBranch_def handleAddCollaborator_def handleRemoveCollaborator_def
  handleUpsertWikiPage_def handleDeleteWikiPage_def handleCreateGitBlob_def handleCreateGitTree_def
  handleCreateGitCommit_def handleCreateGitRef_def
  handleCreateIssue_def handleAddIssueComment_def handleCloseIssue_def handlePatchIssue_def handleSetIssueAssignees_def
  handleAddIssueReaction_def handleDeleteIssueReaction_def handleAddIssueLabel_def handleRemoveIssueLabel_def
  handleCreateLabel_def handleCreateMilestone_def handleCloseMilestone_def
  handleCreatePR_def handleAddReview_def handleMergePR_def handleUpdatePRBranch_def handleAddPRComment_def
  handleUpsertWorkflow_def handleTriggerRun_def handleCreateSecret_def handleDeleteSecret_def handleCreateRelease_def
  handleUploadAsset_def handlePublishPackage_def handleCreateWebhook_def

lemmas read_handlers =
  handleGetRepo_def handleGetContents_def handleGetCommits_def handleCompareCommits_def handleArchive_def
  handleListBranches_def handleListTags_def handleListProtectedBranches_def handleListCollaborators_def
  handleListWikiPages_def handleGetWikiPage_def
  handleListIssues_def handleGetIssue_def handleListIssueComments_def handleGetIssueTimeline_def
  handleListIssueReactions_def handleListLabels_def handleListMilestones_def
  handleListPRs_def handleGetPR_def handleListPRReviews_def handlePRDiff_def handlePRCommits_def handlePRFiles_def
  handleListPRComments_def
  handleListWorkflows_def handleListRuns_def handleRunLogs_def handleListReleases_def handleListReleaseAssets_def
  handleDownloadReleaseAsset_def handleListPackages_def handleDownloadPackage_def handleListWebhooks_def
  handleListWebhookDeliveries_def handleListSecrets_def

text \<open>Looking at a pull request is the one reading that may leave something behind.\<close>

lemma get_pr_tries:
  fixes w :: "'a api_world"
  shows "merge_tried sv w (snd (handleGetPR sv r w))"
proof -
  define k :: "repository \<Rightarrow> int \<Rightarrow> pull_request \<Rightarrow> 'a api_world \<Rightarrow> (pull_request \<times> bool, 'a) outcome"
    where "k = (\<lambda>repo n pr w. if pq_state pr = ''open''
       then (case on_store (CanMerge (sr_git sv) (rp_owner_name repo) (rp_name repo) (pq_base pr) (pq_head pr)) w of
               (Inl e, w1) \<Rightarrow> (OK (pr, True), w1)
             | (Inr mergeable, w1) \<Rightarrow> (OK (pr, mergeable), w1))
       else (OK (pr, True), w))"
  have whole: "handleGetPR sv r = getRepo r (get_pull r k)" by (simp add: handleGetPR_def k_def)
  have k: "merge_tried sv v (snd (k repo n pr v))" for repo n pr and v :: "'a api_world"
  proof -
    obtain res st where m: "CanMerge (sr_git sv) (rp_owner_name repo) (rp_name repo) (pq_base pr) (pq_head pr) (ap_store v) = (res, st)"
      by fastforce
    then have "merge_tried sv v (v\<lparr>ap_store := st\<rparr>)" unfolding merge_tried_def by (simp, metis snd_conv)
    then show ?thesis by (simp add: k_def on_store_def m merge_tried_same split: sum.split)
  qed
  have body: "merge_tried sv v (snd (get_pull r k repo v))" for repo v
    using k by (auto simp: get_pull_def parseNumber_def answers merge_tried_same split: prod.split sum.split)
  have "merge_tried sv w (snd (get_pull r k repo (w\<lparr>ap_repos := c\<rparr>)))" for repo c
    using body [of "w\<lparr>ap_repos := c\<rparr>" repo] by (simp add: merge_tried_def)
  moreover have "merge_tried sv w (w\<lparr>ap_repos := c\<rparr>)" for c by (simp add: merge_tried_def)
  ultimately show ?thesis
    by (auto simp: whole getRepo_def getRepoPerm_def Let_def split: prod.split sum.split)
qed

text \<open>The three handlers that look no repository up leave the stored data alone.\<close>

lemma unchecked_handlers:
  "same_data w (snd (handlePresenceHeartbeat sv r w))" "same_data w (snd (handlePresence r w))"
  "same_data w (snd (handleAIReviewConfig sv w))"
  by (auto simp: handlePresenceHeartbeat_def handlePresence_def handleAIReviewConfig_def or_fail_def lookup_user_def
      on_users_def same_data_def Let_def split: prod.split sum.split)

text \<open>Every other handler asks for one of the two permissions before anything else.\<close>

lemma repo_request_writes:
  assumes "repo_request sv r w checked out" and "\<not> may ''write'' r w"
  shows "merge_tried sv w (snd out)"
proof -
  note writes = getRepoPerm_denied [OF assms(2), THEN conjunct1, THEN merge_tried_same]
  note reads = read_only_handlers [THEN read_onlyD] read_only_issues [THEN read_onlyD] read_only_pulls [THEN read_onlyD]
    read_only_actions [THEN read_onlyD] unchecked_handlers
  from assms(1) show ?thesis
  proof cases
    case create_ai
    then show ?thesis
      by (auto simp: writes handleCreateAIReview_def getRepoWrite_def merge_tried_same split: option.split)
  qed (simp_all add: reads [THEN merge_tried_same] get_pr_tries writes getRepoWrite_def write_handlers)
qed

lemma repo_request_reads:
  assumes "repo_request sv r w checked out" and "\<not> may ''read'' r w"
  shows "same_data w (snd out)" and "checked \<Longrightarrow> sr_ai sv \<noteq> None \<Longrightarrow> \<not> fst out"
proof -
  note refused = getRepoPerm_denied [OF assms(2)]
  have "\<not> may ''write'' r w" using assms(2) may_write_reads by blast
  note writes = getRepoPerm_denied [OF this]
  note reads = read_only_handlers [THEN read_onlyD] read_only_issues [THEN read_onlyD] read_only_pulls [THEN read_onlyD]
    read_only_actions [THEN read_onlyD] unchecked_handlers
  from assms(1) show "same_data w (snd out)"
  proof cases
    case create_ai
    then show ?thesis by (auto simp: writes handleCreateAIReview_def getRepoWrite_def split: option.split)
  qed (simp_all add: reads refused writes getRepo_def getRepoWrite_def write_handlers handleGetPR_def)
  assume ai: "checked" "sr_ai sv \<noteq> None"
  from assms(1) show "\<not> fst out"
  proof cases
    case create_ai
    then show ?thesis by (auto simp: writes handleCreateAIReview_def getRepoWrite_def split: option.split)
  next
    case list_ai
    with ai show ?thesis by (simp add: refused handleListAIReviews_def getRepo_def)
  qed (use ai in \<open>simp_all add: refused writes getRepo_def getRepoWrite_def write_handlers read_handlers\<close>)
qed



text \<open>
  Who is present is told to every caller, for private repositories too and whether they exist or not.
\<close>

lemma presence_unchecked:
  "fst (handlePresence r w) = OK (GetActiveViewers (cx_now r) (cx_owner r @ ''/'' @ cx_repo r) (ap_presence w),
     length (GetActiveViewers (cx_now r) (cx_owner r @ ''/'' @ cx_repo r) (ap_presence w)))"
  by (simp add: handlePresence_def Let_def)

subsection \<open>Tokens that make tokens\<close>

text \<open>C35: Making a token asks for no scope and does not look at the scopes the caller's own token has: a
  request that came in with a token of any scopes, none of them repo:write say, gets a token with whatever scopes
  it asks for, and for the next 90 days that one is accepted as the same user's with those scopes.
\<close>
theorem pat_scope_escalation:
  assumes "authenticate sv header base w = Some r" and "pats_ok (ap_db w)"
    and "handleCreatePAT sv rnd ((name, scopes), ok) r w = (OK token, w1)"
    and "cx_now base2 < cx_now r + 90 * 24 * hour"
  shows "authenticate sv (''Bearer '' @ token) base2 w1 = Some (base2\<lparr>cx_user := cx_user r, cx_pat := True, cx_scopes := scopes\<rparr>)"
proof -
  obtain d1 where made: "CreatePAT (sr_crypto sv) (cx_now r) (cx_fresh r 0) rnd (cx_user r) name scopes (ap_db w) = (Inr token, d1)"
      and w1: "w1 = w\<lparr>ap_db := d1\<rparr>"
    using assms(3) by (auto simp: handleCreatePAT_def answer_def on_db_def userIDFrom_def split: prod.splits sum.splits)
  obtain row where row: "pats_ok d1" "row \<in> set (pats d1)" "t_user row = cx_user r" "t_scopes row = scopes"
      "t_expires row = Some (cx_now r + 90 * 24 * hour)" "t_hash row = hashToken (sr_crypto sv) (trim_prefix pat_prefix token)"
    using created_pat_row [OF assms(2) made] by metis
  have "ValidatePATWithScopes (sr_crypto sv) (cx_now base2) token d1 = Inr (cx_user r, scopes)"
    using validate_row [OF row(1,2,6), of "cx_now base2"] row(3-5) assms(4) by (simp add: pat_live_def)
  moreover have "prefix ''ghp_'' token"
    using CreatePAT_Inr [OF made] by (metis pat_prefix_def prefixI)
  moreover have "trim_prefix ''Bearer '' (''Bearer '' @ token) = token" by (simp add: trim_prefix_def)
  ultimately show ?thesis by (simp add: authenticate_def Let_def w1)
qed

subsection \<open>Organisations\<close>

text \<open>C36: Anybody who is logged in may make anybody, himself included, an administrator of any
  organisation he is not a member of yet, and so gets every access to all of its repositories,
  private ones included: the handler looks at the organisation's name and not at who asks.
\<close>
theorem org_takeover:
  assumes "query_row (\<lambda>q. r_id q = rid) (repos (ap_db w)) = Some q" and "r_owner_type q = ''org''"
    and "ResolveOwnerID name (ap_db w) = Inr (''org'', r_owner q)"
    and "org_role q uid (ap_db w) = None" and "user_exists uid (ap_db w)"
  shows "fst (handleAddOrgMember name ((uid, ''admin''), ok) r w) = OK ''added''
       \<and> CanAccess rid uid perm (ap_db (snd (handleAddOrgMember name ((uid, ''admin''), ok) r w))) = Inr True"
proof -
  let ?d = "ap_db w" and ?m = "\<lparr>om_org = r_owner q, om_user = uid, om_role = ''admin''\<rparr>"
  have none: "query_row (\<lambda>m. om_org m = r_owner q \<and> om_user m = uid) (members ?d) = None"
    using assms(2,4) by (simp add: org_role_def)
  have "org_exists (r_owner q) ?d"
    using assms(3) query_row_Some [of _ "orgs ?d"]
    by (auto simp: ResolveOwnerID_def org_exists_def references_iff split: option.splits)
  moreover have "\<not> sql_exists (same_member (r_owner q) uid) (members ?d)"
    using none by (auto simp: sql_exists_iff query_row_None same_member_def)
  ultimately have add: "AddMember (r_owner q) uid ''admin'' ?d = (Inr (), ?d\<lparr>members := insert_row ?m (members ?d)\<rparr>)"
    using assms(5) by (simp add: AddMember_def)
  have "org_grants (r_owner_type q) (r_owner q) uid perm (?d\<lparr>members := insert_row ?m (members ?d)\<rparr>)"
    using none by (simp add: org_grants_def assms(2) query_row_insert permRank_def)
  then show ?thesis
    using assms(1,3) add by (simp add: handleAddOrgMember_def org_named_def answer_def on_db_def CanAccess_def)
qed

subsection \<open>Deleting a repository\<close>

lemma audit_keeps [simp]: "repos (snd (audit_Record now nid actor action rtype rid meta d)) = repos d"
  by (auto simp: audit_Record_def Let_def split: sum.split option.split)

lemma getRepoPerm_allowed:
  assumes "may perm r w" and "GetByFullName (cx_now r) (cx_owner r) (cx_repo r) (ap_repos w) (ap_db w) = (Inr repo, c)"
  shows "getRepoPerm perm r k w = k repo (w\<lparr>ap_repos := c\<rparr>)"
proof -
  define scope where "scope = (if perm = ''write'' then ScopeRepoWrite else ScopeRepo)"
  from assms show ?thesis
    unfolding may_def getRepoPerm_def scope_def [symmetric] by (simp add: userIDFrom_def Let_def)
qed

text \<open>A user who is neither owner, member nor collaborator can delete a public repository: with an
  account login the request succeeds, the directory is removed and the row is gone.
\<close>
theorem stranger_deletes_public_repo:
  assumes "query_row (\<lambda>q. r_id q = rid) (repos (ap_db w)) = Some q" and "\<not> r_private q"
    and "\<not> owns q (cx_user r)" and "org_role q (cx_user r) (ap_db w) = None" and "collab_perm rid (cx_user r) (ap_db w) = None"
    and "fst (GetByFullName (cx_now r) (cx_owner r) (cx_repo r) (ap_repos w) (ap_db w)) = Inr repo" and "rp_id repo = rid"
    and "\<not> cx_pat r" and "\<not> repo_referenced rid (ap_db w)"
    and "fst (store_Remove (sr_git sv) (cx_owner r) (cx_repo r) (ap_store w)) = Inr ()"
  shows "fst (handleDeleteRepo sv r w) = OK ''deleted''
       \<and> ap_store (snd (handleDeleteRepo sv r w)) = snd (store_Remove (sr_git sv) (cx_owner r) (cx_repo r) (ap_store w))
       \<and> \<not> repo_exists rid (ap_db (snd (handleDeleteRepo sv r w)))"
proof -
  let ?d = "ap_db w"
  obtain c where get: "GetByFullName (cx_now r) (cx_owner r) (cx_repo r) (ap_repos w) ?d = (Inr repo, c)"
    using assms(6) by (cases "GetByFullName (cx_now r) (cx_owner r) (cx_repo r) (ap_repos w) ?d") simp
  obtain st where rm: "store_Remove (sr_git sv) (cx_owner r) (cx_repo r) (ap_store w) = (Inr (), st)"
    using assms(10) by (cases "store_Remove (sr_git sv) (cx_owner r) (cx_repo r) (ap_store w)") simp
  have can: "CanAccess rid (cx_user r) ''write'' ?d = Inr True"
    using assms(1-5) by (simp add: CanAccess_found org_grants_role)
  have "\<not> key_free r_id rid (repos ?d)"
    using query_row_Some [OF assms(1)] by (auto simp: key_free_def references_iff)
  then obtain n where del: "delete_repo_row rid ?d = (Inr (Suc n), cascade_repo rid ?d)"
    using assms(9) rows_affected_0 [of "\<lambda>q. r_id q = rid" "repos ?d"]
    by (cases "rows_affected (\<lambda>q. r_id q = rid) (repos ?d)") (auto simp: delete_repo_row_def key_free_def references_iff)
  have "\<not> repo_exists rid (cascade_repo rid ?d)"
    by (simp add: repo_exists_def cascade_repo_def Let_def references_iff)
  then have gone: "\<not> repo_exists rid (snd (audit_Record now nid actor action rtype rs meta (cascade_repo rid ?d)))" for now nid actor action rtype rs meta
    by (simp add: repo_exists_def)
  then show ?thesis
    using get rm can del assms(7,8) gone
    by (simp add: handleDeleteRepo_def getRepoWrite_def getRepoPerm_def scope_ok_def isPATAuth_def userIDFrom_def
        requireScope_def and_then_def on_store_def on_repos_def repo_Delete_def audit_def quietly_def Let_def)
qed

text \<open>C39: Deleting a repository that has forks, or that an event names, is refused by the database, but
  only after its git directory has been removed: the request fails with status 500, every row
  stays, and the files are gone.
\<close>
theorem failed_delete_loses_files:
  assumes "may ''write'' r w"
    and "fst (GetByFullName (cx_now r) (cx_owner r) (cx_repo r) (ap_repos w) (ap_db w)) = Inr repo"
    and "repo_exists (rp_id repo) (ap_db w)" and "repo_referenced (rp_id repo) (ap_db w)"
    and "fst (store_Remove (sr_git sv) (cx_owner r) (cx_repo r) (ap_store w)) = Inr ()"
  shows "fst (handleDeleteRepo sv r w) = JsonError 500 (err_text (ForeignKeyViolation ''repos''))
       \<and> ap_db (snd (handleDeleteRepo sv r w)) = ap_db w
       \<and> ap_store (snd (handleDeleteRepo sv r w)) = snd (store_Remove (sr_git sv) (cx_owner r) (cx_repo r) (ap_store w))"
proof -
  obtain c where get: "GetByFullName (cx_now r) (cx_owner r) (cx_repo r) (ap_repos w) (ap_db w) = (Inr repo, c)"
    using assms(2) by (cases "GetByFullName (cx_now r) (cx_owner r) (cx_repo r) (ap_repos w) (ap_db w)") simp
  obtain st where rm: "store_Remove (sr_git sv) (cx_owner r) (cx_repo r) (ap_store w) = (Inr (), st)"
    using assms(5) by (cases "store_Remove (sr_git sv) (cx_owner r) (cx_repo r) (ap_store w)") simp
  have "scope_ok r ScopeRepoWrite" using assms(1,2) by (simp add: may_def)
  moreover have "delete_repo_row (rp_id repo) (ap_db w) = (Inl (ForeignKeyViolation ''repos''), ap_db w)"
    using assms(3,4) by (simp add: delete_repo_row_def key_free_def repo_exists_def)
  ultimately show ?thesis
    using rm by (simp add: handleDeleteRepo_def getRepoWrite_def getRepoPerm_allowed [OF assms(1) get] requireScope_def
        and_then_def on_store_def on_repos_def repo_Delete_def)
qed

subsection \<open>Reviews and references\<close>

text \<open>A sequence of approving reviews of one pull request, every one of them accepted.\<close>

fun approvals :: "request list \<Rightarrow> uuid \<Rightarrow> 'g api_world \<Rightarrow> 'g api_world option" where
  "approvals [] pid w = Some w"
| "approvals (r # rs) pid w =
     (case handleAddReview ((''approved'', []), True) r w of
        (OK rv, w1) \<Rightarrow> if rw_pr rv = pid then approvals rs pid w1 else None
      | _ \<Rightarrow> None)"

lemma NotifyAsync_keeps [simp]: "reviews (NotifyAsync now nid uid title text link d) = reviews d"
  by (auto simp: NotifyAsync_def notification_Create_def Let_def split: sum.split)

lemma approval_counts:
  assumes "handleAddReview ((''approved'', []), True) r w = (OK rv, w1)"
  shows "ReviewCount (rw_pr rv) ''approved'' (ap_db w1) = Suc (ReviewCount (rw_pr rv) ''approved'' (ap_db w))"
  using assms
  by (auto simp: handleAddReview_def getRepoWrite_def getRepoPerm_def get_pull_def parseNumber_def and_then_def from_db_def
      on_db_def AddReview_def review_of_def notify_def ReviewCount_def rows_affected_def insert_row_def Let_def
      split: prod.splits sum.splits if_splits)

text \<open>C38: The approvals a protected branch asks for are counted by the reviews, not by the
  reviewers, and the author's own count: whoever may write gets a pull request past any number
  of required approvals by approving it that many times.
\<close>
theorem self_approval_merges:
  assumes "approvals rs pid w = Some w1"
    and "GetProtectedBranch rid base (ap_db w1) = Some pb" and "pbr_checks pb = []"
    and "pbr_reviews pb \<le> int (length rs)"
  shows "ReviewCount pid ''approved'' (ap_db w1) = ReviewCount pid ''approved'' (ap_db w) + length rs
       \<and> ValidateMergeProtection rid base sha (int (ReviewCount pid ''approved'' (ap_db w1))) (ap_db w1) = Inr ()"
proof -
  have count: "approvals rs pid w = Some w1 \<Longrightarrow>
      ReviewCount pid ''approved'' (ap_db w1) = ReviewCount pid ''approved'' (ap_db w) + length rs" for w
    by (induction rs pid w rule: approvals.induct)
      (auto dest: approval_counts split: prod.splits reply.splits if_splits)
  show ?thesis
    using count [OF assms(1)] assms(2-4)
    by (simp add: ValidateMergeProtection_def CheckRequiredChecks_def HasBlockers_def no_checks_def Let_def)
qed

text \<open>The world with other protection rules, and the handlers for which that makes no difference.\<close>

definition with_rules :: "protect_row list \<Rightarrow> 'g api_world \<Rightarrow> 'g api_world" where
  "with_rules rules w = w\<lparr>ap_db := (ap_db w)\<lparr>protected := rules\<rparr>\<rparr>"

definition unprotected :: "('g api_world \<Rightarrow> ('a, 'g) outcome) \<Rightarrow> bool" where
  "unprotected h = (\<forall>rules w. fst (h (with_rules rules w)) = fst (h w)
     \<and> ap_store (snd (h (with_rules rules w))) = ap_store (snd (h w)))"

lemma unprotected_perm:
  fixes k :: "repository \<Rightarrow> 'g api_world \<Rightarrow> ('a, 'g) outcome"
  assumes "\<And>repo. unprotected (k repo)"
  shows "unprotected (getRepoPerm perm r k)"
proof -
  have names: "named_repo (d\<lparr>protected := rules\<rparr>) = named_repo d" "owner_name (d\<lparr>protected := rules\<rparr>) = owner_name d"
    "repos (d\<lparr>protected := rules\<rparr>) = repos d" for d :: db and rules
    by (simp_all add: fun_eq_iff named_repo_def owner_name_def owner_user_def owner_org_def)
  have get: "GetByFullName now owner name c (d\<lparr>protected := rules\<rparr>) = GetByFullName now owner name c d" for now owner name c d rules
    unfolding GetByFullName_def names by (rule refl)
  have can: "CanAccess rid uid p (d\<lparr>protected := rules\<rparr>) = CanAccess rid uid p d" for rid uid p d rules
    by (simp add: CanAccess_def org_grants_def split: option.split)
  have comm: "w\<lparr>ap_db := d, ap_repos := c\<rparr> = w\<lparr>ap_repos := c, ap_db := d\<rparr>" for w :: "'g api_world" and c d
    by simp
  have k: "fst (k repo (w\<lparr>ap_db := (ap_db w)\<lparr>protected := rules\<rparr>, ap_repos := c\<rparr>)) = fst (k repo (w\<lparr>ap_repos := c\<rparr>))"
      "ap_store (snd (k repo (w\<lparr>ap_db := (ap_db w)\<lparr>protected := rules\<rparr>, ap_repos := c\<rparr>))) = ap_store (snd (k repo (w\<lparr>ap_repos := c\<rparr>)))"
    for repo w c rules
    using assms [of repo, unfolded unprotected_def with_rules_def, rule_format, of rules "w\<lparr>ap_repos := c\<rparr>"]
    unfolding comm by simp_all
  show ?thesis
    unfolding unprotected_def
  proof (intro allI)
    fix rules and w :: "'g api_world"
    obtain out c where "GetByFullName (cx_now r) (cx_owner r) (cx_repo r) (ap_repos w) (ap_db w) = (out, c)" by fastforce
    then show "fst (getRepoPerm perm r k (with_rules rules w)) = fst (getRepoPerm perm r k w)
        \<and> ap_store (snd (getRepoPerm perm r k (with_rules rules w))) = ap_store (snd (getRepoPerm perm r k w))"
      by (simp add: getRepoPerm_def with_rules_def get can k Let_def split: sum.split)
  qed
qed

lemma with_rules_store [simp]:
  "(with_rules rules w)\<lparr>ap_store := st\<rparr> = with_rules rules (w\<lparr>ap_store := st\<rparr>)"
  "ap_store (with_rules rules w) = ap_store w"
  by (simp_all add: with_rules_def)

lemma unprotected_store:
  "unprotected (\<lambda>w. answer code f (on_store h w))"
  "(\<And>x. unprotected (k x)) \<Longrightarrow> unprotected (\<lambda>w. and_then code (on_store h w) k)"
  "(\<And>x. unprotected (k2 x)) \<Longrightarrow> unprotected (\<lambda>w. and_then code (from_store h2 w) k2)"
  "unprotected (\<lambda>w. (JsonError code msg, w))"
proof -
  show "unprotected (\<lambda>w. answer code f (on_store h w))"
    by (auto simp: unprotected_def answer_def on_store_def split: prod.split sum.split)
  show "(\<And>x. unprotected (k x)) \<Longrightarrow> unprotected (\<lambda>w. and_then code (on_store h w) k)"
    by (auto simp: unprotected_def and_then_def on_store_def split: prod.split sum.split)
  show "(\<And>x. unprotected (k2 x)) \<Longrightarrow> unprotected (\<lambda>w. and_then code (from_store h2 w) k2)"
    by (auto simp: unprotected_def and_then_def from_store_def split: sum.split)
  show "unprotected (\<lambda>w. (JsonError code msg, w))" by (simp add: unprotected_def)
qed

lemma unprotected_head: "unprotected (\<lambda>w. answer code f (on_db (UpdateBranchHead rid name sha) w))"
  by (auto simp: unprotected_def with_rules_def answer_def on_db_def UpdateBranchHead_def repo_exists_def
      split: prod.split sum.split)

lemma unprotected_if: "unprotected h \<Longrightarrow> unprotected h2 \<Longrightarrow> unprotected (\<lambda>w. if P then h w else h2 w)"
  by (simp add: unprotected_def)

text \<open>The references an API client sets, and the branches it creates, are not subject to branch protection: the answer
  and what happens in the git repository are the same whatever branches are protected. (A push over
  HTTP to the same branch is checked.)
\<close>
theorem ref_api_ignores_protection:
  "unprotected (handleCreateGitRef sv b r) \<and> unprotected (handleCreateBranch sv b r)"
proof
  show "unprotected (handleCreateGitRef sv b r)"
    unfolding handleCreateGitRef_def getRepoWrite_def Let_def
    by (intro unprotected_perm unprotected_if unprotected_store)
  show "unprotected (handleCreateBranch sv b r)"
    unfolding handleCreateBranch_def getRepoWrite_def Let_def
    by (intro unprotected_perm unprotected_store unprotected_head)
qed

subsection \<open>The properties at concrete inputs\<close>

definition demo_files :: file_store where
  "demo_files = \<lparr>fo_root = ''/data'', fo_uuid = (\<lambda>u. ''u''), fo_mkdir = (\<lambda>fs p. None), fo_create = (\<lambda>fs p. None)\<rparr>"

definition demo_api :: "(unit, unit) server" where
  "demo_api = \<lparr>sr_crypto = example_crypto, sr_auth = example_cfg, sr_git = example_git, sr_disk = example_disk,
     sr_ssh = \<lparr>ssh_parse = (\<lambda>s. None), ssh_print = (\<lambda>k. []), ssh_fp = (\<lambda>k. [])\<rparr>,
     sr_releases = demo_files, sr_packages = demo_files, sr_json = (\<lambda>kv. Inr ''{}''), sr_yaml = (\<lambda>s. Inl NoRows),
     sr_base64 = (\<lambda>s. None), sr_rfc3339 = (\<lambda>s. None),
     sr_ai = Some (\<lparr>acf_enabled = False, acf_key = [], acf_base = [], acf_model = [], acf_auto = False\<rparr>,
                   \<lparr>lb_request = (\<lambda>m p. Inl NoRows), lb_post = (\<lambda>u k b. Inl NoRows), lb_contents = (\<lambda>s. Inl NoRows)\<rparr>),
     sr_zone = 0\<rparr>"

definition demo_state :: "db \<Rightarrow> unit api_world" where
  "demo_state d = \<lparr>ap_db = d, ap_users = cache_new userCacheTTL, ap_repos = cache_new repoCacheTTL, ap_store = example_store,
     ap_files = Map.empty, ap_presence = NewTracker, ap_docs = []\<rparr>"

definition demo_request :: "nat \<Rightarrow> nat \<Rightarrow> request" where
  "demo_request uid n = \<lparr>cx_now = 0, cx_fresh = (\<lambda>k. Uuid (n + k)), cx_user = Uuid uid, cx_pat = False, cx_scopes = [],
     cx_owner = ''ann'', cx_repo = ''code'', cx_number = ''1''\<rparr>"

lemmas demo_api_defs = demo_api_def demo_state_def demo_request_def

lemma demo_get:
  assumes "repos d = [demo_repo priv n]" and "users d = users (demo_db p)"
  shows "fst (GetByFullName 0 ''ann'' ''code'' (cache_new repoCacheTTL) d) = Inr (repository_of ''ann'' (demo_repo priv n))"
  using assms
  by (simp add: GetByFullName_def cache_get_def cache_new_def named_repo_def owner_name_def owner_user_def owner_org_def
      demo_defs Let_def)

lemma demo_owner_may:
  assumes "repos d = [demo_repo priv n]" and "users d = users (demo_db p)"
  shows "may perm (demo_request 1 k) (demo_state d)"
  using demo_get [OF assms] assms(1)
  by (simp add: may_def demo_request_def demo_state_def scope_ok_def isPATAuth_def CanAccess_def repository_of_def demo_repo_def
      new_repo_row_def)



definition demo_token :: "nat \<Rightarrow> string list \<Rightarrow> pat_row" where
  "demo_token n scopes = \<lparr>t_id = Uuid 40, t_user = Uuid n, t_name = ''ci'', t_hash = ''0b'', t_scopes = scopes,
     t_expires = None, t_created = 0\<rparr>"

lemma pat_scope_escalation_witness:
  "let w = demo_state ((demo_db True)\<lparr>pats := [demo_token 2 [''read:user'']]\<rparr>);
       r = (demo_request 2 60)\<lparr>cx_pat := True, cx_scopes := [''read:user'']\<rparr>;
       w1 = snd (handleCreatePAT demo_api (Inr [10]) ((''x'', [ScopeRepoWrite]), True) r w)
   in authenticate demo_api ''Bearer ghp_0b'' (demo_request 0 60) w = Some r
      \<and> authenticate demo_api ''Bearer ghp_0a'' (demo_request 0 60) w1 = Some (r\<lparr>cx_scopes := [ScopeRepoWrite]\<rparr>)"
proof -
  let ?w = "demo_state ((demo_db True)\<lparr>pats := [demo_token 2 [''read:user'']]\<rparr>)"
  let ?r = "(demo_request 2 60)\<lparr>cx_pat := True, cx_scopes := [''read:user'']\<rparr>"
  let ?h = "handleCreatePAT demo_api (Inr [10]) ((''x'', [ScopeRepoWrite]), True) ?r ?w"
  have auth: "authenticate demo_api ''Bearer ghp_0b'' (demo_request 0 60) ?w = Some ?r"
    by (simp add: authenticate_def ValidatePATWithScopes_def hashToken_def pat_prefix_def trim_prefix_def demo_api_defs
        demo_token_def example_crypto_def pat_live_def Let_def)
  have "pats_ok (ap_db ?w)"
    by (simp add: pats_ok_def demo_state_def demo_token_def unique_on_def user_exists_def references_def demo_defs)
  moreover have "fst ?h = OK ''ghp_0a''" by code_simp
  then have "?h = (OK ''ghp_0a'', snd ?h)" by (simp add: prod_eq_iff)
  moreover have "cx_now (demo_request 0 60) < cx_now ?r + 90 * 24 * hour"
    by (simp add: demo_request_def time_units)
  ultimately have "authenticate demo_api (''Bearer '' @ ''ghp_0a'') (demo_request 0 60) (snd ?h)
      = Some ((demo_request 0 60)\<lparr>cx_user := cx_user ?r, cx_pat := True, cx_scopes := [ScopeRepoWrite]\<rparr>)"
    by (rule pat_scope_escalation [OF auth])
  with auth show ?thesis by (simp add: Let_def) (simp add: demo_request_def)
qed

definition demo_org_db :: db where
  "demo_org_db = (demo_db True)\<lparr>orgs := [\<lparr>o_id = Uuid 70, o_name = ''acme'', o_display = None, o_desc = None, o_created = 0\<rparr>],
     repos := [(demo_repo True 0)\<lparr>r_owner_type := ''org'', r_owner := Uuid 70\<rparr>]\<rparr>"

lemma org_takeover_witness:
  "let w = demo_state demo_org_db; r = demo_request 2 60
   in CanAccess (Uuid 10) (Uuid 2) ''read'' (ap_db w) = Inr False
    \<and> CanAccess (Uuid 10) (Uuid 2) ''admin'' (ap_db (snd (handleAddOrgMember ''acme'' ((Uuid 2, ''admin''), True) r w))) = Inr True"
proof -
  let ?w = "demo_state demo_org_db"
  have "CanAccess (Uuid 10) (Uuid 2) ''read'' (ap_db ?w) = Inr False" by code_simp
  moreover have "query_row (\<lambda>q. r_id q = Uuid 10) (repos (ap_db ?w)) = Some ((demo_repo True 0)\<lparr>r_owner_type := ''org'', r_owner := Uuid 70\<rparr>)"
    by (simp add: demo_state_def demo_org_db_def demo_defs)
  then have "CanAccess (Uuid 10) (Uuid 2) ''admin'' (ap_db (snd (handleAddOrgMember ''acme'' ((Uuid 2, ''admin''), True) (demo_request 2 60) ?w))) = Inr True"
    by (rule org_takeover [THEN conjunct2])
      (simp_all add: demo_state_def demo_org_db_def demo_defs ResolveOwnerID_def org_role_def user_exists_def references_def)
  ultimately show ?thesis by (simp add: Let_def)
qed

lemma demo_remove: "store_Remove (sr_git demo_api) owner name (ap_store (demo_state d)) = (Inr (), example_store)"
  by (simp add: store_Remove_def demo_api_def demo_state_def example_git_def)

lemma stranger_deletes_public_repo_witness:
  "fst (handleDeleteRepo demo_api (demo_request 2 60) (demo_state (demo_db False))) = OK ''deleted''"
proof (rule stranger_deletes_public_repo [THEN conjunct1])
  show "query_row (\<lambda>q. r_id q = Uuid 10) (repos (ap_db (demo_state (demo_db False)))) = Some (demo_repo False 1)"
    by (simp add: demo_state_def demo_defs)
  show "fst (GetByFullName (cx_now (demo_request 2 60)) (cx_owner (demo_request 2 60)) (cx_repo (demo_request 2 60))
      (ap_repos (demo_state (demo_db False))) (ap_db (demo_state (demo_db False)))) = Inr (repository_of ''ann'' (demo_repo False 1))"
    using demo_get [of "demo_db False" False 1 False] by (simp add: demo_request_def demo_state_def) (simp add: demo_db_def)
qed (simp_all add: demo_remove, simp_all add: demo_request_def demo_state_def demo_defs owns_def org_role_def collab_perm_def
    repository_of_def repo_referenced_def references_def delete_where_def)

definition demo_event_db :: db where
  "demo_event_db = (demo_db False)\<lparr>events := [\<lparr>ev_id = Uuid 44, ev_type = ''push'', ev_actor = None, ev_repo = Some (Uuid 10),
     ev_full_name = None, ev_payload = None, ev_created = 0\<rparr>]\<rparr>"

lemma failed_delete_loses_files_witness:
  "let out = handleDeleteRepo demo_api (demo_request 1 60) (demo_state demo_event_db)
   in fst out = JsonError 500 (err_text (ForeignKeyViolation ''repos'')) \<and> ap_db (snd out) = demo_event_db"
proof -
  let ?w = "demo_state demo_event_db"
  have rows: "repos demo_event_db = [demo_repo False 1]" "users demo_event_db = users (demo_db False)"
    by (simp_all add: demo_event_db_def) (simp add: demo_db_def)
  have "fst (GetByFullName (cx_now (demo_request 1 60)) (cx_owner (demo_request 1 60)) (cx_repo (demo_request 1 60))
      (ap_repos ?w) (ap_db ?w)) = Inr (repository_of ''ann'' (demo_repo False 1))"
    using demo_get [OF rows] by (simp add: demo_request_def demo_state_def)
  moreover have "may ''write'' (demo_request 1 60) ?w" by (rule demo_owner_may [OF rows])
  moreover have "repo_exists (Uuid 10) demo_event_db" "repo_referenced (Uuid 10) demo_event_db"
    by (simp_all add: demo_event_db_def repo_exists_def repo_referenced_def references_def) (simp add: demo_defs)
  ultimately show ?thesis
    using failed_delete_loses_files [of "demo_request 1 60" ?w "repository_of ''ann'' (demo_repo False 1)" demo_api]
    by (simp add: demo_remove Let_def) (simp add: demo_state_def repository_of_def demo_repo_def new_repo_row_def)
qed

definition demo_pull_db :: db where
  "demo_pull_db = (demo_db True)\<lparr>
     pulls := [\<lparr>pr_id = Uuid 30, pr_repo = Uuid 10, pr_number = 1, pr_title = ''x'', pr_body = None, pr_state = ''open'',
       pr_author = Uuid 1, pr_head = ''f'', pr_base = ''main'', pr_head_sha = ''1f'', pr_merged = None, pr_merge_sha = None,
       pr_created = 0, pr_updated = 0\<rparr>],
     protected := [\<lparr>pb_repo = Uuid 10, pb_branch = ''main'', pb_checks = [], pb_reviews = 2\<rparr>]\<rparr>"

lemma self_approval_merges_witness:
  "let w = demo_state demo_pull_db; w1 = the (approvals [demo_request 1 4, demo_request 1 6] (Uuid 30) w)
   in ValidateMergeProtection (Uuid 10) ''main'' ''1f'' (int (ReviewCount (Uuid 30) ''approved'' (ap_db w))) (ap_db w) \<noteq> Inr ()
    \<and> ValidateMergeProtection (Uuid 10) ''main'' ''1f'' (int (ReviewCount (Uuid 30) ''approved'' (ap_db w1))) (ap_db w1) = Inr ()"
proof -
  let ?w = "demo_state demo_pull_db" and ?a = "approvals [demo_request 1 4, demo_request 1 6] (Uuid 30) (demo_state demo_pull_db)"
  have "?a \<noteq> None" by code_simp
  then have "?a = Some (the ?a)" by simp
  moreover have "GetProtectedBranch (Uuid 10) ''main'' (ap_db (the ?a))
      = Some (protected_of \<lparr>pb_repo = Uuid 10, pb_branch = ''main'', pb_checks = [], pb_reviews = 2\<rparr>)"
    by code_simp
  ultimately have "ValidateMergeProtection (Uuid 10) ''main'' ''1f'' (int (ReviewCount (Uuid 30) ''approved'' (ap_db (the ?a)))) (ap_db (the ?a)) = Inr ()"
    by (rule self_approval_merges [THEN conjunct2]) (simp_all add: protected_of_def)
  moreover have "ValidateMergeProtection (Uuid 10) ''main'' ''1f'' (int (ReviewCount (Uuid 30) ''approved'' (ap_db ?w))) (ap_db ?w) \<noteq> Inr ()"
    by (simp add: ValidateMergeProtection_def GetProtectedBranch_def demo_state_def demo_pull_db_def protected_of_def
        ReviewCount_def rows_affected_def demo_db_def empty_db_def)
  ultimately show ?thesis by (simp add: Let_def)
qed

end
