(* ===== verification/GoUrl.thy ===== *)
theory GoUrl
  imports GoStrings
begin

section \<open>URLs: what the code uses of \<open>net/url\<close>\<close>

text \<open>
  Escaping of a query component and of a path segment, and the values of a query: a list of keys and
  values in the order of the text. \<open>Get\<close> gives the first value of a key, \<open>Encode\<close> prints the keys in order.
\<close>

subsection \<open>Escaping\<close>

definition hex_digit_upper :: "nat \<Rightarrow> char" where
  "hex_digit_upper d = (if d < 10 then char_of (48 + d) else char_of (55 + d))"

definition percent :: "char \<Rightarrow> string" where
  "percent c = (let n = of_char c :: nat in [CHR ''%'', hex_digit_upper (n div 16), hex_digit_upper (n mod 16)])"

definition unreserved :: "char \<Rightarrow> bool" where
  "unreserved c = (is_digit c \<or> is_lower_letter c \<or> is_upper_letter c \<or> c \<in> {CHR ''-'', CHR ''_'', CHR ''.'', CHR ''~''})"

definition query_byte :: "char \<Rightarrow> string" where
  "query_byte c = (if unreserved c then [c] else if c = CHR '' '' then ''+'' else percent c)"

definition query_escape :: "string \<Rightarrow> string" where
  "query_escape s = concat (map query_byte s)"

definition path_escape :: "string \<Rightarrow> string" where
  "path_escape s = concat (map (\<lambda>c. if unreserved c \<or> c \<in> {CHR ''$'', CHR ''&'', CHR ''+'', CHR ''='', CHR '':'', CHR ''@''}
     then [c] else percent c) s)"

definition unhex :: "char \<Rightarrow> nat option" where
  "unhex c =
     (let n = of_char c :: nat
      in if 48 \<le> n \<and> n \<le> 57 then Some (n - 48) else if 97 \<le> n \<and> n \<le> 102 then Some (n - 87)
         else if 65 \<le> n \<and> n \<le> 70 then Some (n - 55) else None)"

fun query_unescape :: "string \<Rightarrow> string option" where
  "query_unescape [] = Some []"
| "query_unescape (c # s) =
     (if c = CHR ''%'' then
        (case s of
           a # b # t \<Rightarrow>
             (case (unhex a, unhex b) of
                (Some x, Some y) \<Rightarrow> map_option (\<lambda>r. char_of (16 * x + y) # r) (query_unescape t)
              | _ \<Rightarrow> None)
         | _ \<Rightarrow> None)
      else map_option (\<lambda>r. (if c = CHR ''+'' then CHR '' '' else c) # r) (query_unescape s))"

subsection \<open>Queries\<close>

type_synonym url_values = "(string \<times> string) list"

definition values_get :: "url_values \<Rightarrow> string \<Rightarrow> string" where
  "values_get q k = (case map_of q k of None \<Rightarrow> [] | Some v \<Rightarrow> v)"

definition values_del :: "string \<Rightarrow> url_values \<Rightarrow> url_values" where
  "values_del k q = filter (\<lambda>p. fst p \<noteq> k) q"

definition values_set :: "string \<Rightarrow> string \<Rightarrow> url_values \<Rightarrow> url_values" where
  "values_set k v q = values_del k q @ [(k, v)]"

definition query_part :: "string \<Rightarrow> url_values" where
  "query_part w =
     (if w = [] \<or> CHR '';'' \<in> set w then []
      else (let kv = (case cut ''='' w of None \<Rightarrow> (w, []) | Some kv \<Rightarrow> kv)
            in case (query_unescape (fst kv), query_unescape (snd kv)) of (Some k, Some v) \<Rightarrow> [(k, v)] | _ \<Rightarrow> []))"

definition parse_query :: "string \<Rightarrow> url_values" where
  "parse_query s = concat (map query_part (split_char (CHR ''&'') s))"

definition query_pair :: "string \<times> string \<Rightarrow> string" where
  "query_pair p = query_escape (fst p) @ ''='' @ query_escape (snd p)"

text \<open>A stable sort by key: the values of one key keep their order.\<close>

definition values_encode :: "url_values \<Rightarrow> string" where
  "values_encode q = join ''&'' (map query_pair (sort_key fst q))"

subsection \<open>A query survives being printed and parsed\<close>

lemma byte_less: "(of_char c :: nat) < 256"
  using of_char_mod_256 [of c] mod_less_divisor [of 256 "of_char c :: nat"] by simp

lemma unhex_digit: "d < 16 \<Longrightarrow> unhex (hex_digit_upper d) = Some d"
  by (auto simp: unhex_def hex_digit_upper_def Let_def)

lemma unescape_byte: "query_unescape (query_byte c @ s) = map_option (\<lambda>r. c # r) (query_unescape s)"
proof -
  have n: "(of_char c :: nat) div 16 < 16" using byte_less [of c] by linarith
  have "query_unescape (percent c @ s) = map_option (\<lambda>r. c # r) (query_unescape s)"
    using n by (simp add: percent_def Let_def unhex_digit)
  moreover have "unreserved c \<Longrightarrow> c \<noteq> CHR ''%'' \<and> c \<noteq> CHR ''+''"
    by (auto simp: unreserved_def is_digit_def is_lower_letter_def is_upper_letter_def)
  ultimately show ?thesis by (auto simp: query_byte_def)
qed

lemma unescape_escape [simp]: "query_unescape (query_escape s) = Some s"
  by (induction s) (simp_all add: query_escape_def unescape_byte)

lemma query_byte_chars: "x \<in> set (query_byte c) \<Longrightarrow> unreserved x \<or> x = CHR ''%'' \<or> x = CHR ''+''"
proof -
  have hex: "unreserved (hex_digit_upper d)" if "d < 16" for d
    using that by (auto simp: hex_digit_upper_def unreserved_def is_digit_def is_upper_letter_def Let_def)
  have n: "(of_char c :: nat) div 16 < 16" using byte_less [of c] by linarith
  have "x \<in> set (percent c) \<Longrightarrow> unreserved x \<or> x = CHR ''%''"
    using hex [of "of_char c div 16"] hex [of "of_char c mod 16"] n by (auto simp: percent_def Let_def)
  then show "x \<in> set (query_byte c) \<Longrightarrow> unreserved x \<or> x = CHR ''%'' \<or> x = CHR ''+''"
    by (auto simp: query_byte_def split: if_splits)
qed

lemma query_escape_chars: "x \<in> set (query_escape s) \<Longrightarrow> x \<notin> {CHR ''&'', CHR ''='', CHR '';''}"
  by (auto simp: query_escape_def unreserved_def is_digit_def is_lower_letter_def is_upper_letter_def dest!: query_byte_chars)

lemma query_part_pair: "query_part (query_pair p) = [p]"
proof -
  have "cut ''='' (query_escape (fst p) @ CHR ''='' # query_escape (snd p)) = Some (query_escape (fst p), query_escape (snd p))"
    using query_escape_chars [of "CHR ''=''" "fst p"] by (intro cut_byte) auto
  moreover have "CHR '';'' \<notin> set (query_pair p)"
    using query_escape_chars [of "CHR '';''"] by (auto simp: query_pair_def)
  ultimately show ?thesis by (simp add: query_part_def query_pair_def)
qed

lemma query_pair_plain: "CHR ''&'' \<notin> set (query_pair p)"
  using query_escape_chars [of "CHR ''&''"] by (auto simp: query_pair_def)

lemma query_roundtrip: "parse_query (values_encode q) = sort_key fst q"
proof (cases "q = []")
  case False
  let ?ws = "map query_pair (sort_key fst q)"
  have "?ws \<noteq> []" using False by (metis list.map_disc_iff length_0_conv length_sort)
  moreover have "\<forall>w\<in>set ?ws. CHR ''&'' \<notin> set w" using query_pair_plain by auto
  ultimately have "split_char (CHR ''&'') (join ''&'' ?ws) = ?ws" by (rule split_char_join)
  moreover have "concat (map query_part (map query_pair ps)) = ps" for ps
    by (induction ps) (simp_all add: query_part_pair)
  ultimately show ?thesis by (simp add: parse_query_def values_encode_def)
qed (simp add: parse_query_def values_encode_def split_char_def query_part_def)

text \<open>Sorting by key keeps the values of a key, so what is set is read back.\<close>

lemma map_of_sort_key: "map_of (sort_key fst q) k = map_of q k" for q :: url_values
proof -
  have find: "map_of ps k = (case filter (\<lambda>p. fst p = k) ps of [] \<Rightarrow> None | p # rest \<Rightarrow> Some (snd p))" for ps :: url_values and k :: string
    by (induction ps) auto
  have "filter (\<lambda>p. fst p = k) (sort_key fst q) = filter (\<lambda>p. fst p = k) q"
    by (rule sort_key_stable)
  then show ?thesis unfolding find [of "sort_key fst q" k] find [of q k] by simp
qed

lemma values_get_encoded: "values_get (parse_query (values_encode q)) k = values_get q k"
  by (simp add: query_roundtrip values_get_def map_of_sort_key)

lemma map_of_values_del: "map_of (values_del k q) x = (if x = k then None else map_of q x)"
  by (induction q) (auto simp: values_del_def)

lemma values_get_set [simp]: "values_get (values_set k v q) x = (if x = k then v else values_get q x)"
  by (simp add: values_get_def values_set_def map_add_def map_of_values_del split: option.split)

lemma values_get_del [simp]: "values_get (values_del k q) x = (if x = k then [] else values_get q x)"
  by (simp add: values_get_def map_of_values_del)

end
