(* ===== verification/WebText.thy ===== *)
theory WebText
  imports GitText
begin

section \<open>Text the pages are made of (internal/web: render.go, badge.go)\<close>

text \<open>
  The pure functions of the web front end: relative times, page numbers from the query, the badge of
  the last run. \<open>fmt\<close> is \<open>Time.Format\<close> in the server's zone, \<open>now\<close> the clock reading of \<open>time.Since\<close>.
\<close>

subsection \<open>Times\<close>

text \<open>
  \<open>Minutes\<close> and \<open>Hours\<close> of a duration are float64; for the ages that reach those branches (below 30 days) the
  rounding never reaches the next whole number, so truncating them is the division here.
\<close>

definition relativeTime :: "(string \<Rightarrow> instant \<Rightarrow> string) \<Rightarrow> instant \<Rightarrow> instant \<Rightarrow> string" where
  "relativeTime fmt now t =
     (let d = now - t
      in if d < minute then ''just now''
         else if d < 2 * minute then ''1m ago''
         else if d < hour then int_string (d div minute) @ ''m ago''
         else if d < 2 * hour then ''1h ago''
         else if d < 24 * hour then int_string (d div hour) @ ''h ago''
         else if d < 48 * hour then ''yesterday''
         else if d < 30 * 24 * hour then int_string (d div (24 * hour)) @ ''d ago''
         else fmt ''Jan 2'' t)"

definition timeAttr :: "(string \<Rightarrow> instant \<Rightarrow> string) \<Rightarrow> instant \<Rightarrow> string" where
  "timeAttr fmt t = fmt ''2006-01-02T15:04:05Z07:00'' t"

definition timeTooltip :: "(string \<Rightarrow> instant \<Rightarrow> string) \<Rightarrow> instant \<Rightarrow> string" where
  "timeTooltip fmt t = fmt ''Jan 2, 2006 3:04 PM'' t"

text \<open>The ages that are shown with a number are the numbers 2 to 59, 2 to 23 and 2 to 29.\<close>

lemma relativeTime_minutes:
  "2 \<le> n \<Longrightarrow> n < 60 \<Longrightarrow> relativeTime fmt (t + n * minute + s) t = int_string n @ ''m ago''" if "0 \<le> s" "s < minute"
  using that by (simp add: relativeTime_def Let_def time_units)

subsection \<open>Pages of a list\<close>

definition parsePageLimit :: "string \<Rightarrow> string \<Rightarrow> int \<Rightarrow> int \<Rightarrow> int \<times> int" where
  "parsePageLimit p l defaultPage defaultLimit =
     ((if p \<noteq> [] then (case atoi p of (n, good) \<Rightarrow> if good \<and> n \<ge> 1 then n else defaultPage) else defaultPage),
      (if l \<noteq> [] then (case atoi l of (n, good) \<Rightarrow> if good \<and> n \<ge> 1 \<and> n \<le> 100 then n else defaultLimit) else defaultLimit))"

lemma parsePageLimit_bounds:
  "1 \<le> dp \<Longrightarrow> 1 \<le> dl \<Longrightarrow> dl \<le> 100 \<Longrightarrow>
     1 \<le> fst (parsePageLimit p l dp dl) \<and> 1 \<le> snd (parsePageLimit p l dp dl) \<and> snd (parsePageLimit p l dp dl) \<le> 100"
  by (auto simp: parsePageLimit_def split: prod.split)

definition isBinaryContent :: "string \<Rightarrow> bool" where
  "isBinaryContent bytes = (index_byte (CHR 0x00) bytes \<noteq> None)"

lemma isBinaryContent_iff: "isBinaryContent bytes \<longleftrightarrow> CHR 0x00 \<in> set bytes"
  by (simp add: isBinaryContent_def index_byte_None)

subsection \<open>The badge of the last run\<close>

definition badge_lines :: "string \<Rightarrow> string \<Rightarrow> string \<Rightarrow> string \<Rightarrow> string \<Rightarrow> string \<Rightarrow> string \<Rightarrow> string \<Rightarrow> string list" where
  \<open>badge_lines label value color totalW labelW valueW labelMid valueMid =
     [''<svg xmlns="http://www.w3.org/2000/svg" width="'' @ totalW @ ''" height="20" role="img" aria-label="''
        @ label @ '': '' @ value @ ''">'',
      ''  <linearGradient id="s" x2="0" y2="100%">'',
      ''    <stop offset="0" stop-color="#bbb" stop-opacity=".1"/>'',
      ''    <stop offset="1" stop-opacity=".1"/>'',
      ''  </linearGradient>'',
      ''  <clipPath id="r">'',
      ''    <rect width="'' @ totalW @ ''" height="20" rx="3" fill="#fff"/>'',
      ''  </clipPath>'',
      ''  <g clip-path="url(#r)">'',
      ''    <rect width="'' @ labelW @ ''" height="20" fill="#555"/>'',
      ''    <rect x="'' @ labelW @ ''" width="'' @ valueW @ ''" height="20" fill="'' @ color @ ''"/>'',
      ''    <rect width="'' @ totalW @ ''" height="20" fill="url(#s)"/>'',
      ''  </g>'',
      ''  <g fill="#fff" text-anchor="middle" font-family="Verdana,DejaVu Sans,sans-serif" font-size="11">'',
      ''    <text x="'' @ labelMid @ ''" y="15" fill="#010101" fill-opacity=".3">'' @ label @ ''</text>'',
      ''    <text x="'' @ labelMid @ ''" y="14">'' @ label @ ''</text>'',
      ''    <text x="'' @ valueMid @ ''" y="15" fill="#010101" fill-opacity=".3">'' @ value @ ''</text>'',
      ''    <text x="'' @ valueMid @ ''" y="14">'' @ value @ ''</text>'',
      ''  </g>'',
      ''</svg>'']\<close>

definition badgeSVG :: "string \<Rightarrow> string \<Rightarrow> string \<Rightarrow> string" where
  "badgeSVG label0 value color =
     (let label = to_upper label0;
          labelW = int (length label) * 7 + 14;
          valueW = int (length value) * 7 + 14;
          labelMid = labelW div 2;
          valueMid = labelW + valueW div 2
      in join [nl] (badge_lines label value color (int_string (labelW + valueW)) (int_string labelW) (int_string valueW)
           (int_string labelMid) (int_string valueMid)))"

definition badgeColor :: "string \<Rightarrow> string \<Rightarrow> string" where
  "badgeColor conclusion status =
     (if conclusion = ''success'' then ''#1a7f37''
      else if conclusion = ''failure'' then ''#cf222e''
      else if conclusion = ''cancelled'' \<or> conclusion = ''skipped'' then ''#656d76''
      else if status = ''in_progress'' \<or> status = ''queued'' \<or> status = ''pending'' then ''#bf8700''
      else ''#656d76'')"

definition badgeValue :: "string \<Rightarrow> string \<Rightarrow> string" where
  "badgeValue conclusion status =
     (if conclusion = ''success'' then ''passing''
      else if conclusion = ''failure'' then ''failing''
      else if conclusion = ''cancelled'' then ''cancelled''
      else if status = ''in_progress'' then ''running''
      else if status = ''queued'' \<or> status = ''pending'' \<or> status = ''waiting'' then ''pending''
      else ''unknown'')"

text \<open>
  The two do not agree on every run: one that waits is called pending and coloured as unknown.
\<close>

lemma waiting_badge: "badgeValue [] ''waiting'' = ''pending''" "badgeColor [] ''waiting'' \<noteq> badgeColor [] ''pending''"
  by (simp_all add: badgeValue_def badgeColor_def)

end
