(* ===== verification/WebDiff.thy ===== *)
theory WebDiff
  imports GitText
begin

section \<open>Reading a unified diff (internal/web/diff.go)\<close>

text \<open>
  The page of a pull request shows the diff git prints, cut into files and numbered lines. The model
  keeps the parser's state (the files finished, the open one, the two line counters) and takes one
  line at a time; the counters are Go ints, which wrap around.
\<close>

record diff_line =
  dl_type :: string
  dl_old :: int
  dl_new :: int
  dl_content :: string

record diff_file =
  df_old :: string
  df_new :: string
  df_lines :: "diff_line list"

definition parseHunkStart :: "string \<Rightarrow> int" where
  "parseHunkStart s0 =
     (let s1 = trim_prefix ''-'' (trim_prefix ''+'' s0);
          s = (case index_byte (CHR '','') s1 of None \<Rightarrow> s1 | Some i \<Rightarrow> take i s1);
          n = fst (atoi s)
      in if n < 0 then 0 else n)"

definition next_line :: "int \<Rightarrow> int" where
  "next_line n = (if n = max_int64 then - max_int64 - 1 else n + 1)"

definition header_path :: "string \<Rightarrow> string \<Rightarrow> string \<Rightarrow> string" where
  "header_path mark side line =
     (let p = trim_prefix mark line
      in trim_prefix side (case index_byte tab p of None \<Rightarrow> p | Some i \<Rightarrow> take i p))"

record diff_state =
  ds_files :: "diff_file list"
  ds_cur :: "diff_file option"
  ds_old :: int
  ds_new :: int

definition add_line :: "diff_line \<Rightarrow> diff_file \<Rightarrow> diff_file" where
  "add_line l f = f\<lparr>df_lines := df_lines f @ [l]\<rparr>"

definition zero_file :: diff_file where
  "zero_file = \<lparr>df_old = [], df_new = [], df_lines = []\<rparr>"

fun content_line :: "diff_file \<Rightarrow> string \<Rightarrow> diff_state \<Rightarrow> diff_state" where
  "content_line f [] s =
     s\<lparr>ds_cur := Some (add_line \<lparr>dl_type = ''ctx'', dl_old = ds_old s, dl_new = ds_new s, dl_content = []\<rparr> f),
       ds_old := next_line (ds_old s), ds_new := next_line (ds_new s)\<rparr>"
| "content_line f (c # rest) s =
     (if c = CHR ''+'' then
        s\<lparr>ds_cur := Some (add_line \<lparr>dl_type = ''add'', dl_old = 0, dl_new = ds_new s, dl_content = rest\<rparr> f),
          ds_new := next_line (ds_new s)\<rparr>
      else if c = CHR ''-'' then
        s\<lparr>ds_cur := Some (add_line \<lparr>dl_type = ''del'', dl_old = ds_old s, dl_new = 0, dl_content = rest\<rparr> f),
          ds_old := next_line (ds_old s)\<rparr>
      else if c = CHR '' '' then
        s\<lparr>ds_cur := Some (add_line \<lparr>dl_type = ''ctx'', dl_old = ds_old s, dl_new = ds_new s, dl_content = rest\<rparr> f),
          ds_old := next_line (ds_old s), ds_new := next_line (ds_new s)\<rparr>
      else s\<lparr>ds_cur := Some (add_line \<lparr>dl_type = ''ctx'', dl_old = 0, dl_new = 0, dl_content = c # rest\<rparr> f)\<rparr>)"

definition hunk_header :: "diff_file \<Rightarrow> string \<Rightarrow> diff_state \<Rightarrow> diff_state" where
  "hunk_header f line s =
     (let parts = str_fields line;
          s1 = (if length parts \<ge> 3
                then s\<lparr>ds_old := parseHunkStart (parts ! 1), ds_new := parseHunkStart (parts ! 2)\<rparr> else s)
      in s1\<lparr>ds_cur := Some (add_line \<lparr>dl_type = ''hunk'', dl_old = 0, dl_new = 0, dl_content = line\<rparr> f)\<rparr>)"

definition open_files :: "diff_state \<Rightarrow> diff_file list" where
  "open_files s = (case ds_cur s of None \<Rightarrow> [] | Some f \<Rightarrow> [f])"

definition diff_step :: "diff_state \<Rightarrow> string \<Rightarrow> diff_state" where
  "diff_step s line =
     (if prefix ''diff --git'' line
      then s\<lparr>ds_files := ds_files s @ open_files s, ds_cur := Some zero_file\<rparr>
      else (case ds_cur s of
              None \<Rightarrow> s
            | Some f \<Rightarrow>
                if prefix ''--- '' line then s\<lparr>ds_cur := Some (f\<lparr>df_old := header_path ''--- '' ''a/'' line\<rparr>)\<rparr>
                else if prefix ''+++ '' line then s\<lparr>ds_cur := Some (f\<lparr>df_new := header_path ''+++ '' ''b/'' line\<rparr>)\<rparr>
                else if prefix ''@@'' line then hunk_header f line s
                else content_line f line s))"

definition no_diff :: diff_state where
  "no_diff = \<lparr>ds_files = [], ds_cur = None, ds_old = 0, ds_new = 0\<rparr>"

definition diff_result :: "diff_state \<Rightarrow> diff_file list" where
  "diff_result s = ds_files s @ open_files s"

definition ParseUnifiedDiff :: "string \<Rightarrow> diff_file list" where
  "ParseUnifiedDiff diff = diff_result (foldl diff_step no_diff (split_char nl diff))"

subsection \<open>What a diff is\<close>

text \<open>
  What \<open>git diff\<close> prints for changes of files. A file has the rest of the line that opens it (\<open>fc_git\<close>), git's extended header
  lines (\<open>fc_ext\<close>: index, mode, rename, the line of a binary file) and, where lines of it differ, its two paths and its hunks:
  a mode that changed, a file that moved, an empty one and a binary one have none. A file that is made or removed has the null
  device for a path, and a path with a space in it is followed by a tab. A hunk has its two start lines, the enclosing function
  and its lines; its header gives a length only where it is not one. Every line ends with a line break.
\<close>

datatype hunk_line = Kept string | Added string | Removed string | NoNewline

record hunk =
  hk_old :: nat
  hk_new :: nat
  hk_section :: string
  hk_lines :: "hunk_line list"

record file_change =
  fc_git :: string
  fc_ext :: "string list"
  fc_body :: "(string \<times> string \<times> hunk list) option"

fun in_old :: "hunk_line \<Rightarrow> bool" where
  "in_old (Kept c) = True" | "in_old (Removed c) = True" | "in_old (Added c) = False" | "in_old NoNewline = False"

fun in_new :: "hunk_line \<Rightarrow> bool" where
  "in_new (Kept c) = True" | "in_new (Added c) = True" | "in_new (Removed c) = False" | "in_new NoNewline = False"

definition old_len :: "hunk \<Rightarrow> nat" where "old_len h = length (filter in_old (hk_lines h))"

definition new_len :: "hunk \<Rightarrow> nat" where "new_len h = length (filter in_new (hk_lines h))"

fun line_text :: "hunk_line \<Rightarrow> string" where
  "line_text (Kept c) = CHR '' '' # c"
| "line_text (Added c) = CHR ''+'' # c"
| "line_text (Removed c) = CHR ''-'' # c"
| "line_text NoNewline = CHR 0x5C # '' No newline at end of file''"

definition range_text :: "char \<Rightarrow> nat \<Rightarrow> nat \<Rightarrow> string" where
  "range_text sign start len = sign # decimal start @ (if len = 1 then [] else CHR '','' # decimal len)"

definition header_text :: "hunk \<Rightarrow> string" where
  "header_text h =
     ''@@ '' @ range_text (CHR ''-'') (hk_old h) (old_len h) @ '' '' @ range_text (CHR ''+'') (hk_new h) (new_len h) @ '' @@''
       @ (if hk_section h = [] then [] else CHR '' '' # hk_section h)"

definition hunk_text :: "hunk \<Rightarrow> string list" where
  "hunk_text h = header_text h # map line_text (hk_lines h)"

definition side_path :: "string \<Rightarrow> string \<Rightarrow> string" where
  "side_path side p = (if p = ''/dev/null'' then p else side @ p @ (if CHR '' '' \<in> set p then [tab] else []))"

definition body_text :: "string \<times> string \<times> hunk list \<Rightarrow> string list" where
  "body_text = (\<lambda>(old, new, hs).
     (''--- '' @ side_path ''a/'' old) # (''+++ '' @ side_path ''b/'' new) # concat (map hunk_text hs))"

definition change_text :: "file_change \<Rightarrow> string list" where
  "change_text c =
     (''diff --git'' @ fc_git c) # fc_ext c @ (case fc_body c of None \<Rightarrow> [] | Some b \<Rightarrow> body_text b)"

definition diff_text :: "file_change list \<Rightarrow> string" where
  "diff_text cs = printed (concat (map change_text cs))"

text \<open>The lines a reader should see: each with its number in the old file, in the new one, or in both.\<close>

fun numbered :: "int \<Rightarrow> int \<Rightarrow> hunk_line list \<Rightarrow> diff_line list" where
  "numbered old new [] = []"
| "numbered old new (Kept c # ls) =
     \<lparr>dl_type = ''ctx'', dl_old = old, dl_new = new, dl_content = c\<rparr> # numbered (old + 1) (new + 1) ls"
| "numbered old new (Added c # ls) =
     \<lparr>dl_type = ''add'', dl_old = 0, dl_new = new, dl_content = c\<rparr> # numbered old (new + 1) ls"
| "numbered old new (Removed c # ls) =
     \<lparr>dl_type = ''del'', dl_old = old, dl_new = 0, dl_content = c\<rparr> # numbered (old + 1) new ls"
| "numbered old new (NoNewline # ls) =
     \<lparr>dl_type = ''ctx'', dl_old = 0, dl_new = 0, dl_content = line_text NoNewline\<rparr> # numbered old new ls"

definition seen_hunk :: "hunk \<Rightarrow> diff_line list" where
  "seen_hunk h = \<lparr>dl_type = ''hunk'', dl_old = 0, dl_new = 0, dl_content = header_text h\<rparr>
     # numbered (int (hk_old h)) (int (hk_new h)) (hk_lines h)"

definition seen_ext :: "string \<Rightarrow> diff_line" where
  "seen_ext e = \<lparr>dl_type = ''ctx'', dl_old = 0, dl_new = 0, dl_content = e\<rparr>"

definition seen_change :: "file_change \<Rightarrow> diff_file" where
  "seen_change c =
     (case fc_body c of
        None \<Rightarrow> \<lparr>df_old = [], df_new = [], df_lines = map seen_ext (fc_ext c)\<rparr>
      | Some (old, new, hs) \<Rightarrow>
          \<lparr>df_old = old, df_new = new, df_lines = map seen_ext (fc_ext c) @ concat (map seen_hunk hs)\<rparr>)"

text \<open>
  The line break at the end makes the parser see one more line, empty and with the numbers that follow the last hunk.
\<close>

definition change_hunks :: "file_change \<Rightarrow> hunk list" where
  "change_hunks c = (case fc_body c of None \<Rightarrow> [] | Some (old, new, hs) \<Rightarrow> hs)"

definition numbers_after :: "int \<times> int \<Rightarrow> hunk list \<Rightarrow> int \<times> int" where
  "numbers_after p hs =
     (if hs = [] then p else (int (hk_old (last hs) + old_len (last hs)), int (hk_new (last hs) + new_len (last hs))))"

definition blank_line :: "int \<times> int \<Rightarrow> diff_line" where
  "blank_line p = \<lparr>dl_type = ''ctx'', dl_old = fst p, dl_new = snd p, dl_content = []\<rparr>"

definition shown_diff :: "file_change list \<Rightarrow> diff_file list" where
  "shown_diff cs =
     (if cs = [] then []
      else map seen_change (butlast cs)
        @ [add_line (blank_line (numbers_after (0, 0) (concat (map change_hunks cs)))) (seen_change (last cs))])"

text \<open>
  What the parser needs: no line break in a text, no character in a path that git would write in quotation marks, numbers that
  fit, and no removed line that starts with two dashes and a space and no added line that starts with two plus signs and
  a space. The extended headers start with a letter.
\<close>

fun plain_line :: "hunk_line \<Rightarrow> bool" where
  "plain_line (Kept c) = (nl \<notin> set c)"
| "plain_line (Added c) = (nl \<notin> set c \<and> \<not> prefix ''++ '' c)"
| "plain_line (Removed c) = (nl \<notin> set c \<and> \<not> prefix ''-- '' c)"
| "plain_line NoNewline = True"

definition plain_hunk :: "hunk \<Rightarrow> bool" where
  "plain_hunk h = (nl \<notin> set (hk_section h) \<and> list_all plain_line (hk_lines h)
     \<and> int (hk_old h + length (hk_lines h)) \<le> max_int64 \<and> int (hk_new h + length (hk_lines h)) \<le> max_int64)"

definition plain_path :: "string \<Rightarrow> bool" where
  "plain_path p = list_all (\<lambda>c. 32 \<le> (of_char c :: nat) \<and> (of_char c :: nat) < 127 \<and> c \<noteq> CHR 0x22 \<and> c \<noteq> CHR 0x5C) p"

fun plain_ext :: "string \<Rightarrow> bool" where
  "plain_ext [] = False"
| "plain_ext (x # e) = ((is_lower_letter x \<or> is_upper_letter x) \<and> nl \<notin> set e \<and> \<not> prefix ''diff --git'' (x # e))"

definition plain_change :: "file_change \<Rightarrow> bool" where
  "plain_change c = (nl \<notin> set (fc_git c) \<and> list_all plain_ext (fc_ext c)
     \<and> (case fc_body c of None \<Rightarrow> True | Some (old, new, hs) \<Rightarrow> plain_path old \<and> plain_path new \<and> list_all plain_hunk hs))"

subsection \<open>The parser shows it\<close>

lemma next_line_small: "n + 1 \<le> max_int64 \<Longrightarrow> next_line n = n + 1"
  by (simp add: next_line_def)

text \<open>\<open>opened s f\<close> is the state with the file \<open>f\<close> open.\<close>

definition with_file :: "diff_file list \<Rightarrow> diff_file \<Rightarrow> int \<Rightarrow> int \<Rightarrow> diff_state" where
  "with_file fs f old new = \<lparr>ds_files = fs, ds_cur = Some f, ds_old = old, ds_new = new\<rparr>"

definition add_lines :: "diff_line list \<Rightarrow> diff_file \<Rightarrow> diff_file" where
  "add_lines ls f = f\<lparr>df_lines := df_lines f @ ls\<rparr>"

lemma add_lines_simps [simp]: "add_lines [] f = f" "add_lines ls (add_line l f) = add_lines (l # ls) f"
    "add_lines us (add_lines ls f) = add_lines (ls @ us) f" "add_line l f = add_lines [l] f"
  by (simp_all add: add_lines_def add_line_def)

lemma step_line:
  assumes "plain_line l" and "old + 1 \<le> max_int64" and "new + 1 \<le> max_int64"
  shows "\<exists>d. diff_step (with_file fs f old new) (line_text l)
       = with_file fs (add_lines [d] f) (old + (if in_old l then 1 else 0)) (new + (if in_new l then 1 else 0))
     \<and> (\<forall>ls. numbered old new (l # ls)
          = d # numbered (old + (if in_old l then 1 else 0)) (new + (if in_new l then 1 else 0)) ls)"
  using assms by (cases l) (auto simp: diff_step_def with_file_def next_line_small)

lemma steps_lines:
  assumes "list_all plain_line ls" and "old + int (length ls) \<le> max_int64" and "new + int (length ls) \<le> max_int64"
  shows "foldl diff_step (with_file fs f old new) (map line_text ls)
           = with_file fs (add_lines (numbered old new ls) f)
               (old + int (length (filter in_old ls))) (new + int (length (filter in_new ls)))"
  using assms
proof (induction ls arbitrary: f old new)
  case (Cons l ls)
  let ?old = "old + (if in_old l then 1 else 0)" and ?new = "new + (if in_new l then 1 else 0)"
  from Cons.prems have pre: "plain_line l" "old + 1 \<le> max_int64" "new + 1 \<le> max_int64" by auto
  obtain d where step: "diff_step (with_file fs f old new) (line_text l) = with_file fs (add_lines [d] f) ?old ?new"
      and num: "\<forall>us. numbered old new (l # us) = d # numbered ?old ?new us"
    using step_line [OF pre] by blast
  have "list_all plain_line ls" "?old + int (length ls) \<le> max_int64" "?new + int (length ls) \<le> max_int64"
    using Cons.prems by auto
  from Cons.IH [OF this, of "add_lines [d] f"] step num show ?case by (simp add: add.assoc)
qed simp

lemma field_start:
  "x \<noteq> [] \<Longrightarrow> list_all (\<lambda>c. \<not> is_space c) x \<Longrightarrow> str_fields (x @ CHR '' '' # t) = x # str_fields t"
  unfolding str_fields_def list_all_iff
  by (subst split_pred_append) (auto simp: is_space_def)

lemma range_word: "list_all (\<lambda>c. \<not> is_space c) (range_text x m n)" if "\<not> is_space x"
proof -
  have "\<not> is_space c" if "c \<in> set (decimal k)" for c k
    using decimal_digits [OF that] by (auto simp: is_digit_def is_space_def)
  moreover have "\<not> is_space (CHR '','')" by (simp add: is_space_def)
  ultimately show ?thesis using that by (auto simp: list_all_iff range_text_def)
qed

lemma comma_not_decimal: "CHR '','' \<notin> set (decimal n)"
  using decimal_digits [of "CHR '',''" n] by (auto simp: is_digit_def)

lemma hunk_start:
  assumes "int m \<le> max_int64"
  shows "parseHunkStart (range_text (CHR ''-'') m n) = int m"
    and "parseHunkStart (range_text (CHR ''+'') m n) = int m"
proof -
  let ?t = "if n = 1 then [] else CHR '','' # decimal n"
  have "decimal m \<noteq> CHR ''-'' # t" for t by (rule decimal_not_minus)
  then have dash: "\<not> prefix ''-'' (decimal m @ ?t)" using decimal_nonempty [of m]
    by (cases "decimal m") auto
  have cut: "(case index_byte (CHR '','') (decimal m @ ?t) of None \<Rightarrow> decimal m @ ?t | Some i \<Rightarrow> take i (decimal m @ ?t)) = decimal m"
    using index_byte_append [OF comma_not_decimal, of m "decimal n"] index_byte_None [THEN iffD2, OF comma_not_decimal [of m]]
    by simp
  have digits: "parseHunkStart w = int m"
    if "trim_prefix ''-'' (trim_prefix ''+'' w) = decimal m @ ?t" for w
    unfolding parseHunkStart_def that Let_def cut using atoi_decimal [OF assms] by simp
  show "parseHunkStart (range_text (CHR ''-'') m n) = int m"
    by (rule digits) (simp add: trim_prefix_def range_text_def)
  show "parseHunkStart (range_text (CHR ''+'') m n) = int m"
    by (rule digits) (use dash in \<open>simp add: trim_prefix_def range_text_def\<close>)
qed

lemma hunk_header_fields:
  "\<exists>t. str_fields (header_text h) = ''@@'' # range_text (CHR ''-'') (hk_old h) (old_len h)
     # range_text (CHR ''+'') (hk_new h) (new_len h) # t"
proof -
  let ?a = "range_text (CHR ''-'') (hk_old h) (old_len h)" and ?b = "range_text (CHR ''+'') (hk_new h) (new_len h)"
  let ?r = "''@@'' @ (if hk_section h = [] then [] else CHR '' '' # hk_section h)"
  have eq: "header_text h = ''@@'' @ CHR '' '' # (?a @ CHR '' '' # (?b @ CHR '' '' # ?r))"
    by (simp add: header_text_def)
  have ne: "range_text x m n \<noteq> []" for x m n by (simp add: range_text_def)
  have 1: "str_fields (?b @ CHR '' '' # ?r) = ?b # str_fields ?r"
    by (intro field_start ne range_word) (simp add: is_space_def)
  have 2: "str_fields (?a @ CHR '' '' # u) = ?a # str_fields u" for u
    by (intro field_start ne range_word) (simp add: is_space_def)
  have 3: "str_fields (''@@'' @ CHR '' '' # u) = ''@@'' # str_fields u" for u
    by (rule field_start) (simp_all add: is_space_def)
  show ?thesis unfolding eq 1 2 3 by blast
qed

lemma steps_hunk:
  assumes "plain_hunk h"
  shows "foldl diff_step (with_file fs f old new) (hunk_text h)
    = with_file fs (add_lines (seen_hunk h) f) (int (hk_old h + old_len h)) (int (hk_new h + new_len h))"
proof -
  have fit: "int (hk_old h) \<le> max_int64" "int (hk_new h) \<le> max_int64"
      "int (hk_old h) + int (length (hk_lines h)) \<le> max_int64" "int (hk_new h) + int (length (hk_lines h)) \<le> max_int64"
      "list_all plain_line (hk_lines h)"
    using assms by (auto simp: plain_hunk_def)
  obtain t where fields: "str_fields (header_text h) = ''@@'' # range_text (CHR ''-'') (hk_old h) (old_len h)
     # range_text (CHR ''+'') (hk_new h) (new_len h) # t"
    using hunk_header_fields by blast
  have shape: "\<not> prefix ''diff --git'' (header_text h)" "\<not> prefix ''--- '' (header_text h)"
      "\<not> prefix ''+++ '' (header_text h)" "prefix ''@@'' (header_text h)"
    by (simp_all add: header_text_def)
  let ?l = "\<lparr>dl_type = ''hunk'', dl_old = 0, dl_new = 0, dl_content = header_text h\<rparr>"
  have "diff_step (with_file fs f old new) (header_text h)
      = with_file fs (add_lines [?l] f) (int (hk_old h)) (int (hk_new h))"
    using shape fields hunk_start(1) [OF fit(1), of "old_len h"] hunk_start(2) [OF fit(2), of "new_len h"]
    by (simp add: diff_step_def with_file_def hunk_header_def Let_def)
  then show ?thesis
    using steps_lines [OF fit(5,3,4), of fs "add_lines [?l] f"] by (simp add: hunk_text_def seen_hunk_def old_len_def new_len_def)
qed

lemma numbers_after_append: "numbers_after (numbers_after p hs) gs = numbers_after p (hs @ gs)"
  by (simp add: numbers_after_def)

lemma steps_hunks:
  assumes "list_all plain_hunk hs"
  shows "foldl diff_step (with_file fs f old new) (concat (map hunk_text hs))
    = with_file fs (add_lines (concat (map seen_hunk hs)) f) (fst (numbers_after (old, new) hs)) (snd (numbers_after (old, new) hs))"
  using assms
proof (induction hs arbitrary: f old new)
  case (Cons h hs)
  then have "foldl diff_step (with_file fs f old new) (hunk_text h)
      = with_file fs (add_lines (seen_hunk h) f) (int (hk_old h + old_len h)) (int (hk_new h + new_len h))"
    using steps_hunk by simp
  then show ?case using Cons by (simp add: numbers_after_def)
qed (simp add: numbers_after_def)

lemma steps_ext:
  assumes "list_all plain_ext es"
  shows "foldl diff_step (with_file fs f old new) es = with_file fs (add_lines (map seen_ext es) f) old new"
  using assms
proof (induction es arbitrary: f)
  case (Cons e es)
  obtain x r where e: "e = x # r" using Cons.prems by (cases e) auto
  have x: "is_lower_letter x \<or> is_upper_letter x" "\<not> prefix ''diff --git'' e" using Cons.prems by (simp_all add: e)
  have "x \<noteq> CHR ''-''" "x \<noteq> CHR ''+''" "x \<noteq> CHR ''@''" "x \<noteq> CHR '' ''"
    using x(1) by (auto simp: is_lower_letter_def is_upper_letter_def)
  then have "diff_step (with_file fs f old new) e = with_file fs (add_lines [seen_ext e] f) old new"
    using x(2) by (auto simp: diff_step_def with_file_def e seen_ext_def)
  then show ?case using Cons by simp
qed simp

lemma plain_path_bytes: "plain_path p \<Longrightarrow> tab \<notin> set p \<and> nl \<notin> set p"
proof -
  have "\<not> 32 \<le> (of_char tab :: nat)" "\<not> 32 \<le> (of_char nl :: nat)" by code_simp+
  then show "plain_path p \<Longrightarrow> tab \<notin> set p \<and> nl \<notin> set p" unfolding plain_path_def list_all_iff by blast
qed

lemma header_path_text:
  assumes "plain_path p" and "side \<in> {''a/'', ''b/''}"
  shows "header_path mark side (mark @ side_path side p) = p"
proof -
  have t: "tab \<notin> set (side @ p)" using assms plain_path_bytes by auto
  then have "index_byte tab (side @ p) = None" "index_byte tab (side @ p @ [tab]) = Some (length (side @ p))"
    using index_byte_append [OF t, of "[]"] by (simp_all add: index_byte_None)
  moreover have "index_byte tab ''/dev/null'' = None" by (simp add: index_byte_None)
  ultimately show ?thesis using assms(2) by (auto simp: header_path_def side_path_def trim_prefix_def Let_def)
qed

lemma steps_change:
  assumes "plain_change c"
  shows "foldl diff_step s (change_text c)
    = with_file (ds_files s @ open_files s) (seen_change c)
        (fst (numbers_after (ds_old s, ds_new s) (change_hunks c))) (snd (numbers_after (ds_old s, ds_new s) (change_hunks c)))"
proof -
  let ?fs = "ds_files s @ open_files s" and ?o = "ds_old s" and ?n = "ds_new s"
  have ext: "list_all plain_ext (fc_ext c)" using assms by (simp add: plain_change_def)
  define f1 where "f1 = add_lines (map seen_ext (fc_ext c)) zero_file"
  have "diff_step s (''diff --git'' @ fc_git c) = with_file ?fs zero_file ?o ?n"
    by (simp add: diff_step_def with_file_def)
  then have head: "foldl diff_step s (change_text c)
      = foldl diff_step (with_file ?fs f1 ?o ?n) (case fc_body c of None \<Rightarrow> [] | Some b \<Rightarrow> body_text b)"
    using steps_ext [OF ext] by (simp add: f1_def change_text_def)
  show ?thesis
  proof (cases "fc_body c")
    case None
    then show ?thesis using head
      by (simp add: seen_change_def change_hunks_def numbers_after_def f1_def add_lines_def zero_file_def)
  next
    case (Some b)
    obtain old new hs where b: "b = (old, new, hs)" by (cases b)
    have paths: "plain_path old" "plain_path new" and hs: "list_all plain_hunk hs"
      using assms Some b by (simp_all add: plain_change_def)
    define f2 where "f2 = f1\<lparr>df_old := old\<rparr>"
    define f3 where "f3 = f2\<lparr>df_new := new\<rparr>"
    have "diff_step (with_file ?fs f1 ?o ?n) (''--- '' @ side_path ''a/'' old) = with_file ?fs f2 ?o ?n"
      using header_path_text [OF paths(1), of "''a/''" "''--- ''"] by (simp add: diff_step_def with_file_def f2_def)
    moreover have "diff_step (with_file ?fs f2 ?o ?n) (''+++ '' @ side_path ''b/'' new) = with_file ?fs f3 ?o ?n"
      using header_path_text [OF paths(2), of "''b/''" "''+++ ''"] by (simp add: diff_step_def with_file_def f3_def)
    moreover have "add_lines (concat (map seen_hunk hs)) f3 = seen_change c"
      using Some b by (simp add: seen_change_def add_lines_def f3_def f2_def f1_def zero_file_def)
    ultimately show ?thesis using head steps_hunks [OF hs, of ?fs f3 ?o ?n] Some b
      by (simp add: body_text_def change_hunks_def)
  qed
qed

lemma steps_changes:
  assumes "list_all plain_change cs" and "cs \<noteq> []"
  shows "foldl diff_step s (concat (map change_text cs))
    = with_file (ds_files s @ open_files s @ map seen_change (butlast cs)) (seen_change (last cs))
        (fst (numbers_after (ds_old s, ds_new s) (concat (map change_hunks cs))))
        (snd (numbers_after (ds_old s, ds_new s) (concat (map change_hunks cs))))"
  using assms
proof (induction cs arbitrary: s)
  case (Cons c cs)
  then have c: "plain_change c" by simp
  show ?case
  proof (cases "cs = []")
    case True
    then show ?thesis using steps_change [OF c] by simp
  next
    case False
    then show ?thesis using Cons.IH Cons.prems steps_change [OF c, of s]
      by (simp add: with_file_def open_files_def numbers_after_append)
  qed
qed simp

lemma no_newline_text:
  assumes "list_all plain_change cs"
  shows "l \<in> set (concat (map change_text cs)) \<Longrightarrow> nl \<notin> set l"
proof -
  have dec: "nl \<notin> set (decimal n)" for n using decimal_digits [of nl n] by (auto simp: is_digit_def)
  have line: "plain_line x \<Longrightarrow> nl \<notin> set (line_text x)" for x by (cases x) auto
  have path: "plain_path p \<Longrightarrow> nl \<notin> set (side_path ''a/'' p) \<and> nl \<notin> set (side_path ''b/'' p)" for p
    using plain_path_bytes by (auto simp: side_path_def)
  have ext: "plain_ext e \<Longrightarrow> nl \<notin> set e" for e
    by (cases e) (auto simp: is_lower_letter_def is_upper_letter_def)
  have header: "plain_hunk h \<Longrightarrow> nl \<notin> set (header_text h)" for h
    using dec by (auto simp: plain_hunk_def header_text_def range_text_def)
  have hunk: "plain_hunk h \<Longrightarrow> l \<in> set (hunk_text h) \<Longrightarrow> nl \<notin> set l" for h l
    using header line by (auto simp: plain_hunk_def hunk_text_def list_all_iff)
  have body: "plain_path old \<Longrightarrow> plain_path new \<Longrightarrow> list_all plain_hunk hs \<Longrightarrow> l \<in> set (body_text (old, new, hs)) \<Longrightarrow> nl \<notin> set l"
    for old new hs l
    using hunk path by (auto simp: body_text_def list_all_iff)
  have "plain_change c \<Longrightarrow> l \<in> set (change_text c) \<Longrightarrow> nl \<notin> set l" for c
    using body ext by (auto simp: plain_change_def change_text_def list_all_iff split: option.splits prod.splits)
  with assms show "l \<in> set (concat (map change_text cs)) \<Longrightarrow> nl \<notin> set l" by (auto simp: list_all_iff)
qed


text \<open>
  The condition on removed and added lines is needed: a removed SQL or Lua comment is taken for the header of
  the file, so the line is not shown and the file gets its text for a name.
\<close>

definition comment_removed :: file_change where
  "comment_removed = \<lparr>fc_git = '' a/q.sql b/q.sql'', fc_ext = [],
     fc_body = Some (''q.sql'', ''q.sql'',
       [\<lparr>hk_old = 1, hk_new = 1, hk_section = [], hk_lines = [Removed ''-- drop'', Kept ''go'']\<rparr>])\<rparr>"

lemma removed_comment_lost:
  "map (\<lambda>f. (df_old f, map dl_type (df_lines f))) (ParseUnifiedDiff (diff_text [comment_removed]))
     = [(''drop'', [''hunk'', ''ctx'', ''ctx''])]"
  by code_simp

text \<open>A binary file has no name on the page.\<close>

definition image_changed :: file_change where
  "image_changed = \<lparr>fc_git = '' a/x.png b/x.png'', fc_ext = [''index 1f..2e 100644'', ''Binary files a/x.png and b/x.png differ''],
     fc_body = None\<rparr>"

definition small_change :: file_change where
  "small_change = \<lparr>fc_git = '' a/my q.sql b/my q.sql'', fc_ext = [''index 1f..2e 100644''],
     fc_body = Some (''my q.sql'', ''my q.sql'',
       [\<lparr>hk_old = 1, hk_new = 1, hk_section = ''f'', hk_lines = [Kept ''a'', Removed ''b'', Added ''c'']\<rparr>,
        \<lparr>hk_old = 9, hk_new = 9, hk_section = [], hk_lines = [Removed ''d'', Added ''e'', NoNewline]\<rparr>])\<rparr>"

lemma git_prints:
  "diff_text [small_change] = printed
     [''diff --git a/my q.sql b/my q.sql'', ''index 1f..2e 100644'', ''--- a/my q.sql'' @ [tab], ''+++ b/my q.sql'' @ [tab],
      ''@@ -1,2 +1,2 @@ f'', '' a'', ''-b'', ''+c'', ''@@ -9 +9 @@'', ''-d'', ''+e'', CHR 0x5C # '' No newline at end of file'']"
  by code_simp


end
