(* ===== verification/Search.thy ===== *)
theory Search
  imports GitText Repo
begin

section \<open>The search client and the indexer (internal/search/search.go, cmd/search-indexer)\<close>

text \<open>
  Documents are put into an external index and looked up there over HTTP. \<open>sl_do k rq\<close> is what the k-th
  try of a request gives: a status and a body, or a transport error; \<open>sl_url\<close> is the error of
  \<open>http.NewRequest\<close>, \<open>sl_cancel k\<close> the error of the context when it ends during the wait before try k, and
  \<open>sl_jitter k n\<close> is \<open>rand.Int63n(n)\<close>. The JSON encoders and the decoder of the answer are parameters, and a
  score is kept as the text of its number, since nothing computes with it.
\<close>

record search_document =
  sd_id :: string
  sd_type :: string
  sd_title :: string
  sd_body :: string
  sd_repo :: string
  sd_path :: string
  sd_full :: string
  sd_ref :: string

record hit =
  ht_id :: string
  ht_type :: string
  ht_title :: string
  ht_repo :: string
  ht_ref :: string
  ht_score :: string
  ht_snippet :: string

record search_options =
  so_limit :: int
  so_offset :: int
  so_type :: string
  so_sort :: string

record search_result =
  sr_hits :: "hit list"
  sr_total :: int

record search_query =
  sq_text :: string
  sq_fields :: "string list"
  sq_filter :: "string option"
  sq_size :: int
  sq_from :: int
  sq_recent :: bool

record http_request =
  hr_method :: string
  hr_url :: string
  hr_body :: string
  hr_ctype :: string

record search_lib =
  sl_jitter :: "nat \<Rightarrow> int \<Rightarrow> int"
  sl_cancel :: "nat \<Rightarrow> err option"
  sl_url :: "string \<Rightarrow> err option"
  sl_do :: "nat \<Rightarrow> http_request \<Rightarrow> (int \<times> string) result"
  sl_doc_json :: "search_document \<Rightarrow> string result"
  sl_query_json :: "search_query \<Rightarrow> string result"
  sl_decode :: "string \<Rightarrow> (int \<times> (string \<times> search_document) list) result"

record search_service =
  ss_base :: string
  ss_retries :: int
  ss_delay :: duration

definition search_NewService :: "string \<Rightarrow> search_service" where
  "search_NewService baseURL =
     \<lparr>ss_base = trim_right (\<lambda>c. c = CHR ''/'') baseURL, ss_retries = 3, ss_delay = 500000000\<rparr>"

subsection \<open>Requests with retries\<close>

text \<open>What a request does on the way: it waits, and it sends.\<close>

datatype try_event = Waited duration | Sent

fun lastErr_text :: "err option \<Rightarrow> string" where
  "lastErr_text None = ''%!w(<nil>)''"
| "lastErr_text (Some e) = err_text e"

definition backoff :: "search_lib \<Rightarrow> search_service \<Rightarrow> nat \<Rightarrow> duration" where
  "backoff lb s k = (let delay = ss_delay s * 2 ^ (k - 1) in delay + sl_jitter lb k (delay div 2))"

fun request_loop ::
  "search_lib \<Rightarrow> search_service \<Rightarrow> http_request \<Rightarrow> nat \<Rightarrow> nat \<Rightarrow> err option \<Rightarrow> (int \<times> string) result \<times> try_event list" where
  "request_loop lb s rq 0 k lastErr =
     (Inl (ErrMsg (''request failed after '' @ int_string (ss_retries s) @ '' retries: '' @ lastErr_text lastErr)), [])"
| "request_loop lb s rq (Suc left) k lastErr =
     (case (if k > 0 then sl_cancel lb k else None) of
        Some e \<Rightarrow> (Inl e, [])
      | None \<Rightarrow>
          (let waits = (if k > 0 then [Waited (backoff lb s k)] else [])
           in case sl_url lb (hr_url rq) of
                Some e \<Rightarrow> (Inl (ErrMsg (''create request: '' @ err_text e)), waits)
              | None \<Rightarrow>
                  (case sl_do lb k rq of
                     Inr resp \<Rightarrow> (Inr resp, waits @ [Sent])
                   | Inl e \<Rightarrow>
                       (case request_loop lb s rq left (Suc k) (Some e) of (out, tr) \<Rightarrow> (out, waits @ Sent # tr)))))"

definition doRequest :: "search_lib \<Rightarrow> search_service \<Rightarrow> http_request \<Rightarrow> (int \<times> string) result \<times> try_event list" where
  "doRequest lb s rq = request_loop lb s rq (nat (ss_retries s + 1)) 0 None"

subsection \<open>Documents and queries\<close>

definition put_json :: "search_service \<Rightarrow> string \<Rightarrow> string \<Rightarrow> string \<Rightarrow> http_request" where
  "put_json s verb path body =
     \<lparr>hr_method = verb, hr_url = ss_base s @ path, hr_body = body, hr_ctype = ''application/json''\<rparr>"

definition Index :: "search_lib \<Rightarrow> search_service \<Rightarrow> search_document \<Rightarrow> unit result" where
  "Index lb s doc =
     (case sl_doc_json lb doc of
        Inl e \<Rightarrow> Inl (ErrMsg (''marshal document: '' @ err_text e))
      | Inr body \<Rightarrow>
          (case fst (doRequest lb s (put_json s ''PUT'' (''/govnohub/_doc/'' @ sd_id doc) body)) of
             Inl e \<Rightarrow> Inl (ErrMsg (''index document: '' @ err_text e))
           | Inr (status, b) \<Rightarrow>
               if status \<ge> 300 then Inl (ErrMsg (''index failed (status '' @ int_string status @ ''): '' @ b)) else Inr ()))"

definition index_mapping :: "string list" where
  \<open>index_mapping =
     [''{'', ''"mappings": {"properties": {'', ''"type": {"type": "keyword"},'', ''"title": {"type": "text"},'',
      ''"body": {"type": "text"},'', ''"repo": {"type": "keyword"},'', ''"path": {"type": "keyword"}'', ''}}'', ''}'']\<close>

definition tabs :: "nat list" where "tabs = [0, 2, 3, 3, 3, 3, 3, 2, 1]"

text \<open>Whatever the server answers, an answer is enough.\<close>

definition EnsureIndex :: "search_lib \<Rightarrow> search_service \<Rightarrow> unit result" where
  "EnsureIndex lb s =
     (case fst (doRequest lb s (put_json s ''PUT'' ''/govnohub''
              (join [nl] (map2 (\<lambda>n l. replicate n tab @ l) tabs index_mapping)))) of
        Inl e \<Rightarrow> Inl (ErrMsg (''ensure index: '' @ err_text e))
      | Inr resp \<Rightarrow> Inr ())"

definition no_result :: search_result where "no_result = \<lparr>sr_hits = [], sr_total = 0\<rparr>"

definition make_query :: "string \<Rightarrow> search_options \<Rightarrow> search_query" where
  "make_query q opts =
     \<lparr>sq_text = q, sq_fields = [''title^3'', ''body'', ''repo'', ''path''],
      sq_filter = (if so_type opts \<noteq> [] then Some (so_type opts) else None),
      sq_size = (if so_limit opts \<le> 0 then 20 else so_limit opts),
      sq_from = (if so_offset opts < 0 then 0 else so_offset opts),
      sq_recent = (so_sort opts = ''recently_updated'')\<rparr>"

definition snippet :: "string \<Rightarrow> string" where
  "snippet body = (if length body > 120 then take 120 body @ ''...'' else body)"

definition hit_of :: "string \<times> search_document \<Rightarrow> hit" where
  "hit_of h = (case h of (score, d) \<Rightarrow>
     \<lparr>ht_id = sd_id d, ht_type = sd_type d, ht_title = sd_title d, ht_repo = sd_repo d, ht_ref = sd_ref d,
      ht_score = score, ht_snippet = snippet (sd_body d)\<rparr>)"

definition run_search :: "search_lib \<Rightarrow> search_service \<Rightarrow> string \<Rightarrow> search_options \<Rightarrow> search_result result" where
  "run_search lb s q opts =
     (if q = [] then Inr no_result
      else (case sl_query_json lb (make_query q opts) of
              Inl e \<Rightarrow> Inl (ErrMsg (''marshal query: '' @ err_text e))
            | Inr body \<Rightarrow>
                (case fst (doRequest lb s (put_json s ''POST'' ''/govnohub/_search'' body)) of
                   Inl e \<Rightarrow> Inl (ErrMsg (''search request: '' @ err_text e))
                 | Inr (status, b) \<Rightarrow>
                     if status \<ge> 300 then Inl (ErrMsg (''search failed (status '' @ int_string status @ ''): '' @ b))
                     else (case sl_decode lb b of
                             Inl e \<Rightarrow> Inl (ErrMsg (''decode response: '' @ err_text e))
                           | Inr (n, hs) \<Rightarrow> Inr \<lparr>sr_hits = map hit_of hs, sr_total = n\<rparr>))))"

subsection \<open>The indexer\<close>

text \<open>
  Each pass reads all rows and puts one document per row; the answers of the index are dropped, so a pass is
  the list of the documents it puts. \<open>uid\<close> prints an identifier. A NULL owner (of a repository whose owner is gone)
  does not fit the string it is scanned into: the row is indexed with what was scanned before it, and the rows end there.
\<close>

definition plain_document :: "string \<Rightarrow> string \<Rightarrow> search_document" where
  "plain_document i ty = \<lparr>sd_id = i, sd_type = ty, sd_title = [], sd_body = [], sd_repo = [], sd_path = [], sd_full = [], sd_ref = []\<rparr>"

fun scan_rows :: "('r \<Rightarrow> string option) \<Rightarrow> 'r list \<Rightarrow> ('r \<times> string option) list" where
  "scan_rows owner [] = []"
| "scan_rows owner (q # qs) =
     (case owner q of None \<Rightarrow> [(q, None)] | Some o1 \<Rightarrow> (q, Some o1) # scan_rows owner qs)"

definition repo_doc :: "(uuid \<Rightarrow> string) \<Rightarrow> repo_row \<times> string option \<Rightarrow> search_document" where
  "repo_doc uid qo =
     (case qo of (q, o1) \<Rightarrow>
        let full = coalesce o1 [] @ ''/'' @ r_name q
        in (plain_document (''repo-'' @ uid (r_id q)) ''repo'')
             \<lparr>sd_title := full, sd_body := coalesce (r_desc q) [], sd_repo := full, sd_full := full\<rparr>)"

definition indexRepos :: "(uuid \<Rightarrow> string) \<Rightarrow> db \<Rightarrow> search_document list" where
  "indexRepos uid d = map (repo_doc uid) (scan_rows (owner_name d) (repos d))"

definition in_repo_doc ::
  "string \<Rightarrow> string \<Rightarrow> string \<Rightarrow> int \<Rightarrow> string option \<Rightarrow> repo_row \<Rightarrow> string option \<Rightarrow> search_document" where
  "in_repo_doc ident ty title number body q o1 =
     (plain_document ident ty)\<lparr>sd_title := title, sd_body := coalesce body [],
        sd_repo := (case o1 of None \<Rightarrow> ''/'' | Some owner \<Rightarrow> owner @ ''/'' @ r_name q), sd_ref := int_string number\<rparr>"

definition indexIssues :: "(uuid \<Rightarrow> string) \<Rightarrow> db \<Rightarrow> search_document list" where
  "indexIssues uid d =
     map (\<lambda>((i, q), o1). in_repo_doc (''issue-'' @ uid (i_id i)) ''issue'' (i_title i) (i_number i) (i_body i) q o1)
       (scan_rows (\<lambda>(i, q). owner_name d q) (join_on (\<lambda>i q. r_id q = i_repo i) (issues d) (repos d)))"

definition indexPRs :: "(uuid \<Rightarrow> string) \<Rightarrow> db \<Rightarrow> search_document list" where
  "indexPRs uid d =
     map (\<lambda>((p, q), o1). in_repo_doc (''pr-'' @ uid (pr_id p)) ''pull_request'' (pr_title p) (pr_number p) (pr_body p) q o1)
       (scan_rows (\<lambda>(p, q). owner_name d q) (join_on (\<lambda>p q. r_id q = pr_repo p) (pulls d) (repos d)))"

definition indexAll :: "(uuid \<Rightarrow> string) \<Rightarrow> db \<Rightarrow> search_document list" where
  "indexAll uid d = indexRepos uid d @ indexIssues uid d @ indexPRs uid d"

subsection \<open>What a request costs and gives\<close>

definition waited :: "try_event list \<Rightarrow> duration" where
  "waited tr = (\<Sum>e\<leftarrow>tr. case e of Waited d \<Rightarrow> d | Sent \<Rightarrow> 0)"

definition sends :: "try_event list \<Rightarrow> nat" where
  "sends tr = length (filter (\<lambda>e. e = Sent) tr)"

text \<open>What \<open>rand.Int63n\<close> promises: a number from zero up to its argument, without it.\<close>

definition jitter_ok :: "search_lib \<Rightarrow> bool" where
  "jitter_ok lb = (\<forall>k n. 0 < n \<longrightarrow> 0 \<le> sl_jitter lb k n \<and> sl_jitter lb k n < n)"

lemma trace_simps [simp]:
  "waited [] = 0" "waited (Waited d # tr) = d + waited tr" "waited (Sent # tr) = waited tr"
  "sends [] = 0" "sends (Waited d # tr) = sends tr" "sends (Sent # tr) = Suc (sends tr)"
  by (simp_all add: waited_def sends_def)

lemma halved: "(500000000 * x) div 2 = (250000000 * x :: int)"
  by presburger

lemma backoff_bound: "jitter_ok lb \<Longrightarrow> 0 \<le> backoff lb (search_NewService base) k
    \<and> backoff lb (search_NewService base) k < 750000000 * 2 ^ (k - 1)"
proof -
  assume "jitter_ok lb"
  moreover have half: "(500000000 * 2 ^ (k - 1)) div 2 = (250000000 * 2 ^ (k - 1) :: int)" by (rule halved)
  moreover have "(0::int) < 250000000 * 2 ^ (k - 1)" by simp
  ultimately have "0 \<le> sl_jitter lb k (250000000 * 2 ^ (k - 1))" "sl_jitter lb k (250000000 * 2 ^ (k - 1)) < 250000000 * 2 ^ (k - 1)"
    by (auto simp: jitter_ok_def)
  then show ?thesis
    using half by (simp add: backoff_def search_NewService_def Let_def)
qed

lemma loop_trace:
  "snd (request_loop lb s rq (Suc left) k e) \<in>
     (let waits = (if k > 0 then [Waited (backoff lb s k)] else []); rest = snd (request_loop lb s rq left (Suc k) (Some f))
      in {[], waits, waits @ [Sent], waits @ Sent # rest})" if "\<And>a. sl_do lb k rq = Inl a \<Longrightarrow> f = a"
  using that by (auto simp: Let_def split: option.split sum.split prod.split)

lemma trace_append [simp]: "waited (a @ b) = waited a + waited b" "sends (a @ b) = sends a + sends b"
  by (simp_all add: waited_def sends_def)

lemma loop_bound:
  assumes "jitter_ok lb"
  shows "sends (snd (request_loop lb (search_NewService base) rq left k e)) \<le> left
       \<and> waited (snd (request_loop lb (search_NewService base) rq left k e)) \<le> (\<Sum>j\<leftarrow>[k..<k + left]. if j = 0 then 0 else 750000000 * 2 ^ (j - 1))"
proof (induction left arbitrary: k e)
  case (Suc left)
  let ?s = "search_NewService base"
  let ?sum = "\<lambda>k n. (\<Sum>j\<leftarrow>[k..<k + n]. if j = 0 then 0 else 750000000 * 2 ^ (j - 1)) :: int"
  define f where "f = (case sl_do lb k rq of Inl a \<Rightarrow> a | Inr r \<Rightarrow> NoRows)"
  define tr where "tr = snd (request_loop lb ?s rq left (Suc k) (Some f))"
  have rest: "sends tr \<le> left" "waited tr \<le> ?sum (Suc k) left" using Suc.IH [of "Suc k" "Some f"] by (simp_all add: tr_def)
  have sum: "?sum k (Suc left) = (if k = 0 then 0 else 750000000 * 2 ^ (k - 1)) + ?sum (Suc k) left"
    by (simp add: upt_rec [of k])
  have nonneg: "0 \<le> ?sum (Suc k) left" by (intro sum_list_nonneg) auto
  have bo: "0 \<le> backoff lb ?s k" "backoff lb ?s k \<le> 750000000 * 2 ^ (k - 1)"
    using backoff_bound [OF assms, of base k] by auto
  define out where "out = snd (request_loop lb ?s rq (Suc left) k e)"
  have "out \<in> (let waits = (if k > 0 then [Waited (backoff lb ?s k)] else [])
      in {[], waits, waits @ [Sent], waits @ Sent # tr})"
    using loop_trace [of lb k rq f ?s left e] by (simp add: f_def tr_def out_def)
  then show ?case unfolding sum out_def [symmetric] using rest bo nonneg
    by (cases "k = 0") (auto simp: Let_def)
qed simp

text \<open>C22: A request to the search index is sent at most four times, and the waits between the tries
  add up to at most five and a quarter seconds, whatever the index does.
\<close>
theorem search_retry_bound:
  assumes "jitter_ok lb"
  shows "sends (snd (doRequest lb (search_NewService base) rq)) \<le> 4
       \<and> waited (snd (doRequest lb (search_NewService base) rq)) \<le> 5250000000"
  using loop_bound [OF assms, of base rq 4 0 None]
  by (simp add: doRequest_def search_NewService_def upt_rec)

text \<open>The first try that gets an answer gives the result, and an answer with an error status is an answer.\<close>

lemma loop_first:
  assumes "\<forall>k. sl_cancel lb k = None" and "sl_url lb (hr_url rq) = None"
  shows "fst (request_loop lb s rq left k e) =
     (case List.find (\<lambda>j. is_ok (sl_do lb j rq)) [k..<k + left] of
        Some j \<Rightarrow> sl_do lb j rq
      | None \<Rightarrow> fst (request_loop lb s rq 0 k (if left = 0 then e else Some (projl (sl_do lb (k + left - 1) rq)))))"
proof (induction left arbitrary: k e)
  case (Suc left)
  have list: "[k..<k + Suc left] = k # [Suc k..<Suc k + left]" by (simp add: upt_rec)
  show ?case
  proof (cases "sl_do lb k rq")
    case (Inl a)
    have "fst (request_loop lb s rq (Suc left) k e) = fst (request_loop lb s rq left (Suc k) (Some a))"
      using assms Inl by (cases "k = 0") (simp_all add: Let_def split: prod.split)
    moreover have "(if left = 0 then Some a else Some (projl (sl_do lb (Suc k + left - 1) rq)))
        = Some (projl (sl_do lb (k + Suc left - 1) rq))" using Inl by simp
    ultimately show ?thesis using Inl Suc.IH [of "Suc k" "Some a"] unfolding list by (simp split: option.split)
  next
    case (Inr b)
    then have "fst (request_loop lb s rq (Suc left) k e) = Inr b"
      using assms by (cases "k = 0") (simp_all add: Let_def)
    then show ?thesis unfolding list using Inr by simp
  qed
qed simp

text \<open>A search request gives the answer of the first of the four tries that gets one, errors of the
  server included, and fails, with the last error, exactly when none of the four does (when the
  context lasts and the address is one).
\<close>
theorem search_first_answer:
  assumes "\<forall>k. sl_cancel lb k = None" and "sl_url lb (hr_url rq) = None"
  shows "fst (doRequest lb (search_NewService base) rq) =
     (case List.find (\<lambda>k. is_ok (sl_do lb k rq)) [0..<4] of
        Some k \<Rightarrow> sl_do lb k rq
      | None \<Rightarrow> Inl (ErrMsg (''request failed after 3 retries: '' @ err_text (projl (sl_do lb 3 rq)))))"
proof -
  have three: "int_string 3 = ''3''" by code_simp
  show ?thesis
    using loop_first [OF assms, of "search_NewService base" 4 0 None]
    by (simp add: doRequest_def search_NewService_def three split: option.split)
qed

subsection \<open>What is found and what is indexed\<close>

lemma snippet_bound: "length (snippet body) \<le> 123"
  by (simp add: snippet_def)

text \<open>
  The order by time asks for a field no document has: nothing the program indexes carries it, and the
  mapping does not declare it.
\<close>

lemma scan_rows_all: "list_all (\<lambda>q. owner q \<noteq> None) qs \<Longrightarrow> map fst (scan_rows owner qs) = qs"
  by (induction qs) auto

definition owned :: "db \<Rightarrow> bool" where
  "owned d = list_all (\<lambda>q. owner_name d q \<noteq> None) (repos d)"

lemma scan_rows_named: "qo \<in> set (scan_rows owner qs) \<Longrightarrow> fst qo \<in> set qs \<and> snd qo = owner (fst qo)"
  by (induction owner qs rule: scan_rows.induct) (auto split: option.splits)

text \<open>
  When every repository has an owner, a pass puts one document for every repository, under its full name.
\<close>

lemma indexRepos_all:
  assumes "owned d"
  shows "indexRepos uid d = map (\<lambda>q. repo_doc uid (q, owner_name d q)) (repos d)"
proof -
  have "list_all (\<lambda>q. owner_name d q \<noteq> None) qs \<Longrightarrow> scan_rows (owner_name d) qs = map (\<lambda>q. (q, owner_name d q)) qs" for qs
    by (induction qs) auto
  then show ?thesis using assms by (simp add: indexRepos_def owned_def)
qed

text \<open>An ownerless repository hides all rows behind it from the index.\<close>

lemma ownerless_row_ends_the_pass:
  assumes "repos d = qs @ q # rest" and "owner_name d q = None" and "list_all (\<lambda>p. owner_name d p \<noteq> None) qs"
  shows "length (indexRepos uid d) = Suc (length qs)"
proof -
  have "list_all (\<lambda>p. owner p \<noteq> None) qs \<Longrightarrow> owner q = None \<Longrightarrow> length (scan_rows owner (qs @ q # rest)) = Suc (length qs)"
    for owner :: "repo_row \<Rightarrow> string option"
    by (induction qs) auto
  then show ?thesis using assms by (simp add: indexRepos_def)
qed

definition demo_search :: search_lib where
  "demo_search = \<lparr>sl_jitter = (\<lambda>k n. 0), sl_cancel = (\<lambda>k. None), sl_url = (\<lambda>u. None),
     sl_do = (\<lambda>k rq. if k < 2 then Inl (ErrMsg ''refused'') else Inr (200, ''{}'')), sl_doc_json = (\<lambda>x. Inr ''{}''),
     sl_query_json = (\<lambda>q. Inr ''{}''), sl_decode = (\<lambda>b. Inr (0, []))\<rparr>"

lemma search_retry_bound_witness:
  "snd (doRequest demo_search (search_NewService ''http://s'') (put_json (search_NewService ''http://s'') ''PUT'' ''/x'' []))
     = [Sent, Waited 500000000, Sent, Waited 1000000000, Sent]
   \<and> waited [Sent, Waited 500000000, Sent, Waited 1000000000, Sent] \<le> 5250000000"
proof
  have "jitter_ok demo_search" by (simp add: jitter_ok_def demo_search_def)
  from search_retry_bound [OF this, of "''http://s''" "put_json (search_NewService ''http://s'') ''PUT'' ''/x'' []"]
  show "waited [Sent, Waited 500000000, Sent, Waited 1000000000, Sent] \<le> 5250000000" by simp
qed (simp add: doRequest_def search_NewService_def demo_search_def eval_nat_numeral backoff_def)

lemma search_first_answer_witness:
  "fst (doRequest demo_search (search_NewService ''http://s'') (put_json (search_NewService ''http://s'') ''PUT'' ''/x'' []))
     = Inr (200, ''{}'')"
  using search_first_answer [of demo_search "put_json (search_NewService ''http://s'') ''PUT'' ''/x'' []" "''http://s''"]
  by (simp add: demo_search_def upt_rec)

end
