(* ===== verification/WebCore.thy ===== *)
theory WebCore
  imports ApiRepo ApiIssue ApiPull ApiActions Config GoUrl WebText WebDiff Search
begin

section \<open>The web front end: sessions, form tokens, the frame of every page (internal/web)\<close>

text \<open>
  The front end serves HTML over the services the API uses, so its handlers work on the same world. A
  handler takes the request with what the middleware found out about it and gives an answer and the world
  afterwards. The answer is not the HTML text but the page with the data it is made of (\<open>'p\<close>, one
  constructor per template); redirects, errors and plain answers are themselves. A nil pointer that is followed is the
  answer \<open>Panic\<close>, which the router's recovery turns into an error 500.

  The form of a request is what \<open>ParseForm\<close> or \<open>ParseMultipartForm\<close> made of its body, None when it could not. Cookies
  that are missing are empty. HMAC-SHA256, the markdown renderer, the parser of addresses and the formatting of a time
  are parameters.
\<close>

subsection \<open>Requests and answers\<close>

record web_lib =
  wl_env :: environment
  wl_hmac :: "string \<Rightarrow> string \<Rightarrow> string"
  wl_url :: "string \<Rightarrow> (string \<times> string \<times> string) option"
  wl_markdown :: "string \<Rightarrow> string result"
  wl_format :: "string \<Rightarrow> instant \<Rightarrow> string"
  wl_search :: search_lib
  wl_search_service :: search_service
  wl_upload_dir :: string
  wl_detect :: "string \<Rightarrow> string"
  wl_mkdir :: "files \<Rightarrow> string \<Rightarrow> err option"
  wl_create :: "files \<Rightarrow> string \<Rightarrow> err option"

record session_user =
  su_id :: uuid
  su_name :: string
  su_user :: "user option"

record web_request =
  wq_now :: instant
  wq_fresh :: "nat \<Rightarrow> uuid"
  wq_random :: "nat \<Rightarrow> nat list result"
  wq_method :: string
  wq_path :: string
  wq_params :: "string \<Rightarrow> string"
  wq_query :: url_values
  wq_form :: "url_values option"
  wq_multipart :: bool
  wq_large :: bool
  wq_session :: string
  wq_csrf_cookie :: string
  wq_csrf_header :: string
  wq_referer :: string
  wq_htmx :: bool
  wq_file :: "form_file option"

text \<open>
  \<open>wq_large\<close> tells that the body is longer than the limit of the image upload, 10 MB.
\<close>

text \<open>The request as it goes through the middleware: the values of its context.\<close>

record web_ctx =
  wx_req :: web_request
  wx_user :: "session_user option"
  wx_csrf :: string

datatype cookie = SessionCookie string | SessionCleared | CsrfCookie string

datatype 'p web_answer =
    Page 'p
  | Redirect string
  | HttpError int string
  | Svg string
  | Html string
  | Plain string
  | Names "string list"
  | Panic
  | Both "'p web_answer" "'p web_answer"

record 'p web_reply =
  wr_cookies :: "cookie list"
  wr_answer :: "'p web_answer"

type_synonym ('p, 'g) web_out = "'p web_reply \<times> 'g api_world"

definition reply :: "'p web_answer \<Rightarrow> 'g api_world \<Rightarrow> ('p, 'g) web_out" where
  "reply ans w = (\<lparr>wr_cookies = [], wr_answer = ans\<rparr>, w)"

definition set_cookies :: "cookie list \<Rightarrow> ('p, 'g) web_out \<Rightarrow> ('p, 'g) web_out" where
  "set_cookies cs out = (case out of (r, w) \<Rightarrow> (r\<lparr>wr_cookies := cs @ wr_cookies r\<rparr>, w))"

definition http_error :: "int \<Rightarrow> string \<Rightarrow> 'g api_world \<Rightarrow> ('p, 'g) web_out" where
  "http_error code msg = reply (HttpError code msg)"

definition not_found :: "'g api_world \<Rightarrow> ('p, 'g) web_out" where
  "not_found = http_error 404 ''404 page not found''"

definition redirect :: "string \<Rightarrow> 'g api_world \<Rightarrow> ('p, 'g) web_out" where
  "redirect url = reply (Redirect url)"

definition url_param :: "web_ctx \<Rightarrow> string \<Rightarrow> string" where
  "url_param c k = wq_params (wx_req c) k"

definition query_value :: "web_ctx \<Rightarrow> string \<Rightarrow> string" where
  "query_value c k = values_get (wq_query (wx_req c)) k"

text \<open>
  The values of \<open>r.Form\<close>: a form in the body comes before the query, the parts of a multipart body
  come after it.
\<close>

definition form_values :: "web_request \<Rightarrow> url_values" where
  "form_values q =
     (case wq_form q of
        None \<Rightarrow> wq_query q
      | Some f \<Rightarrow> if wq_multipart q then wq_query q @ f else f @ wq_query q)"

definition form_value :: "web_ctx \<Rightarrow> string \<Rightarrow> string" where
  "form_value c k = values_get (form_values (wx_req c)) k"

definition form_all :: "web_ctx \<Rightarrow> string \<Rightarrow> string list" where
  "form_all c k = map snd (filter (\<lambda>p. fst p = k) (form_values (wx_req c)))"

text \<open>What the services need to know of a request.\<close>

definition user_id_of :: "web_ctx \<Rightarrow> uuid" where
  "user_id_of c = (case wx_user c of None \<Rightarrow> uuid_nil | Some su \<Rightarrow> su_id su)"

definition request_of :: "web_ctx \<Rightarrow> request" where
  "request_of c =
     \<lparr>cx_now = wq_now (wx_req c), cx_fresh = wq_fresh (wx_req c), cx_user = user_id_of c, cx_pat = False, cx_scopes = [],
      cx_owner = url_param c ''owner'', cx_repo = url_param c ''repo'', cx_number = url_param c ''number''\<rparr>"

text \<open>The user of the session, whom a handler behind the login relies on.\<close>

definition with_user :: "web_ctx \<Rightarrow> (session_user \<Rightarrow> 'g api_world \<Rightarrow> ('p, 'g) web_out) \<Rightarrow> 'g api_world \<Rightarrow> ('p, 'g) web_out" where
  "with_user c k w = (case wx_user c of None \<Rightarrow> reply Panic w | Some su \<Rightarrow> k su w)"

definition drop_error :: "'a \<Rightarrow> 'a result \<Rightarrow> 'a" where
  "drop_error z r = (case r of Inl e \<Rightarrow> z | Inr x \<Rightarrow> x)"

subsection \<open>Form tokens (csrf.go)\<close>

definition fixed_key :: string where "fixed_key = ''govnohub-csrf-v2''"

definition randomHex :: "nat list result \<Rightarrow> string result" where
  "randomHex bytes = (case bytes of Inl e \<Rightarrow> Inl e | Inr bs \<Rightarrow> Inr (hex_encode bs))"

definition csrfKey :: "web_lib \<Rightarrow> web_request \<Rightarrow> string" where
  "csrfKey wb q = (if wq_session q \<noteq> [] then wl_hmac wb fixed_key (wq_session q) else fixed_key)"

definition signCSRF :: "web_lib \<Rightarrow> string \<Rightarrow> string \<Rightarrow> string" where
  "signCSRF wb token key = hex_encode (map of_char (wl_hmac wb key token))"

definition newCSRFToken :: "web_lib \<Rightarrow> web_request \<Rightarrow> nat \<Rightarrow> string result \<times> cookie list" where
  "newCSRFToken wb q i =
     (case randomHex (wq_random q i) of
        Inl e \<Rightarrow> (Inl e, [])
      | Inr raw \<Rightarrow> (let token = raw @ ''.'' @ signCSRF wb raw (csrfKey wb q) in (Inr token, [CsrfCookie token])))"

definition csrf_valid :: "web_lib \<Rightarrow> web_request \<Rightarrow> string \<Rightarrow> bool" where
  "csrf_valid wb q token =
     (case split_n 2 ''.'' token of
        [raw, sig] \<Rightarrow> length raw = 32 \<and> sig = signCSRF wb raw (csrfKey wb q)
      | _ \<Rightarrow> False)"

definition ensureCSRF :: "web_lib \<Rightarrow> web_request \<Rightarrow> nat \<Rightarrow> string result \<times> cookie list" where
  "ensureCSRF wb q i =
     (if wq_csrf_cookie q \<noteq> [] \<and> csrf_valid wb q (wq_csrf_cookie q) then (Inr (wq_csrf_cookie q), [])
      else newCSRFToken wb q i)"

definition rotateCSRF :: "web_lib \<Rightarrow> web_request \<Rightarrow> nat \<Rightarrow> string result \<times> cookie list" where
  "rotateCSRF wb q i = newCSRFToken wb q i"

definition validateCSRF :: "web_ctx \<Rightarrow> bool" where
  "validateCSRF c =
     (let got = (if form_value c ''csrf_token'' = [] then wq_csrf_header (wx_req c) else form_value c ''csrf_token'')
      in wx_csrf c \<noteq> [] \<and> got \<noteq> [] \<and> got = wx_csrf c)"

definition parseFormCSRF :: "web_request \<Rightarrow> bool" where
  "parseFormCSRF q = (wq_form q \<noteq> None)"

subsection \<open>Middleware (auth.go)\<close>

definition withUser ::
  "('g, 'k) server \<Rightarrow> web_ctx \<Rightarrow> 'g api_world \<Rightarrow> session_user option \<times> 'g api_world" where
  "withUser sv c w =
     (let token = wq_session (wx_req c)
      in if token = [] then (None, w)
         else (case ValidateToken (sr_crypto sv) (sr_auth sv) (wq_now (wx_req c)) token (ap_db w) of
                 Inl e \<Rightarrow> (None, w)
               | Inr (uid, name) \<Rightarrow>
                   (case lookup_user sv (request_of c) uid w of
                      (found, w1) \<Rightarrow>
                        (Some \<lparr>su_id = uid, su_name = name, su_user = (case found of Inl e \<Rightarrow> None | Inr u \<Rightarrow> Some u)\<rparr>, w1))))"

definition optionalAuth ::
  "('g, 'k) server \<Rightarrow> web_lib \<Rightarrow> (web_ctx \<Rightarrow> 'g api_world \<Rightarrow> ('p, 'g) web_out) \<Rightarrow> web_ctx \<Rightarrow> 'g api_world \<Rightarrow> ('p, 'g) web_out" where
  "optionalAuth sv wb k c w =
     (case withUser sv c w of
        (su, w1) \<Rightarrow>
          (case ensureCSRF wb (wx_req c) 0 of
             (token, cs) \<Rightarrow> set_cookies cs
               (k (c\<lparr>wx_user := or_else su (wx_user c), wx_csrf := drop_error [] token\<rparr>) w1)))"

definition requireAuth ::
  "('g, 'k) server \<Rightarrow> web_lib \<Rightarrow> (web_ctx \<Rightarrow> 'g api_world \<Rightarrow> ('p, 'g) web_out) \<Rightarrow> web_ctx \<Rightarrow> 'g api_world \<Rightarrow> ('p, 'g) web_out" where
  "requireAuth sv wb k c w =
     (case withUser sv c w of
        (None, w1) \<Rightarrow> redirect (''/login?next='' @ wq_path (wx_req c)) w1
      | (Some su, w1) \<Rightarrow>
          (case ensureCSRF wb (wx_req c) 1 of
             (token, cs) \<Rightarrow> set_cookies cs (k (c\<lparr>wx_user := Some su, wx_csrf := drop_error [] token\<rparr>) w1)))"

definition web_requireAdmin ::
  "(web_ctx \<Rightarrow> 'g api_world \<Rightarrow> ('p, 'g) web_out) \<Rightarrow> web_ctx \<Rightarrow> 'g api_world \<Rightarrow> ('p, 'g) web_out" where
  "web_requireAdmin k c w =
     (case wx_user c of
        None \<Rightarrow> http_error 403 ''forbidden'' w
      | Some su \<Rightarrow>
          (case su_user su of
             None \<Rightarrow> http_error 403 ''forbidden'' w
           | Some u \<Rightarrow> if usr_role u \<noteq> RoleAdmin then http_error 403 ''forbidden'' w else k c w))"

text \<open>A request before any middleware, and the three ways the router leads to a handler.\<close>

definition fresh_ctx :: "web_request \<Rightarrow> web_ctx" where
  "fresh_ctx q = \<lparr>wx_req = q, wx_user = None, wx_csrf = []\<rparr>"

definition open_route ::
  "('g, 'k) server \<Rightarrow> web_lib \<Rightarrow> (web_ctx \<Rightarrow> 'g api_world \<Rightarrow> ('p, 'g) web_out) \<Rightarrow> web_request \<Rightarrow> 'g api_world \<Rightarrow> ('p, 'g) web_out" where
  "open_route sv wb h q w = optionalAuth sv wb h (fresh_ctx q) w"

definition user_route ::
  "('g, 'k) server \<Rightarrow> web_lib \<Rightarrow> (web_ctx \<Rightarrow> 'g api_world \<Rightarrow> ('p, 'g) web_out) \<Rightarrow> web_request \<Rightarrow> 'g api_world \<Rightarrow> ('p, 'g) web_out" where
  "user_route sv wb h q w = optionalAuth sv wb (requireAuth sv wb h) (fresh_ctx q) w"

definition admin_route ::
  "('g, 'k) server \<Rightarrow> web_lib \<Rightarrow> (web_ctx \<Rightarrow> 'g api_world \<Rightarrow> ('p, 'g) web_out) \<Rightarrow> web_request \<Rightarrow> 'g api_world \<Rightarrow> ('p, 'g) web_out" where
  "admin_route sv wb h q w = optionalAuth sv wb (requireAuth sv wb (web_requireAdmin h)) (fresh_ctx q) w"

subsection \<open>The head of a handler (render.go)\<close>

definition requirePOST ::
  "web_lib \<Rightarrow> web_ctx \<Rightarrow> (web_ctx \<Rightarrow> 'g api_world \<Rightarrow> ('p, 'g) web_out) \<Rightarrow> 'g api_world \<Rightarrow> ('p, 'g) web_out" where
  "requirePOST wb c k w =
     (if wq_method (wx_req c) \<noteq> ''POST'' then http_error 405 ''method not allowed'' w
      else if \<not> parseFormCSRF (wx_req c) then http_error 400 ''bad form'' w
      else if \<not> validateCSRF c then http_error 403 ''invalid csrf'' w
      else (case rotateCSRF wb (wx_req c) 2 of
              (Inl e, cs) \<Rightarrow> k c w
            | (Inr token, cs) \<Rightarrow> set_cookies cs (k (c\<lparr>wx_csrf := token\<rparr>) w)))"

text \<open>Go's \<open>int\<close> wraps around at 64 bits; pages are numbered with it.\<close>

definition wrap64 :: "int \<Rightarrow> int" where
  "wrap64 i = (i + 2 ^ 63) mod 2 ^ 64 - 2 ^ 63"

text \<open>
  The repository of the address and the right to it; or the answer the request gets instead.
\<close>

definition repo_access :: "string \<Rightarrow> web_ctx \<Rightarrow> 'g api_world \<Rightarrow> ('p web_answer + repository) \<times> 'g api_world" where
  "repo_access perm c w =
     (case GetByFullName (wq_now (wx_req c)) (url_param c ''owner'') (url_param c ''repo'') (ap_repos w) (ap_db w) of
        (Inl e, rc) \<Rightarrow> (Inl (HttpError 404 ''404 page not found''), w\<lparr>ap_repos := rc\<rparr>)
      | (Inr repo, rc) \<Rightarrow>
          (case wx_user c of
             None \<Rightarrow> (Inl (Redirect ''/login''), w\<lparr>ap_repos := rc\<rparr>)
           | Some su \<Rightarrow>
               if \<not> drop_error False (CanAccess (rp_id repo) (su_id su) perm (ap_db w))
               then (Inl (HttpError 403 ''forbidden''), w\<lparr>ap_repos := rc\<rparr>)
               else (Inr repo, w\<lparr>ap_repos := rc\<rparr>)))"

definition web_getRepo ::
  "string \<Rightarrow> web_ctx \<Rightarrow> (repository \<Rightarrow> 'g api_world \<Rightarrow> ('p, 'g) web_out) \<Rightarrow> 'g api_world \<Rightarrow> ('p, 'g) web_out" where
  "web_getRepo perm c k w = (case repo_access perm c w of (Inl ans, w1) \<Rightarrow> reply ans w1 | (Inr repo, w1) \<Rightarrow> k repo w1)"

text \<open>A handler that goes on after a refusal writes a second answer behind the first.\<close>

definition web_getRepo_or ::
  "'p web_answer \<Rightarrow> string \<Rightarrow> web_ctx \<Rightarrow> (repository \<Rightarrow> 'g api_world \<Rightarrow> ('p, 'g) web_out) \<Rightarrow> 'g api_world \<Rightarrow> ('p, 'g) web_out" where
  "web_getRepo_or ans2 perm c k w =
     (case repo_access perm c w of (Inl ans, w1) \<Rightarrow> reply (Both ans ans2) w1 | (Inr repo, w1) \<Rightarrow> k repo w1)"

definition parseNum ::
  "web_ctx \<Rightarrow> string \<Rightarrow> (int \<Rightarrow> 'g api_world \<Rightarrow> ('p, 'g) web_out) \<Rightarrow> 'g api_world \<Rightarrow> ('p, 'g) web_out" where
  "parseNum c key k w =
     (case atoi (url_param c key) of
        (n, good) \<Rightarrow> if \<not> good \<or> n \<le> 0 then http_error 400 ''invalid number'' w else k n w)"

definition parseUUIDParam ::
  "('g, 'k) server \<Rightarrow> web_ctx \<Rightarrow> string \<Rightarrow> (uuid \<Rightarrow> 'g api_world \<Rightarrow> ('p, 'g) web_out) \<Rightarrow> 'g api_world \<Rightarrow> ('p, 'g) web_out" where
  "parseUUIDParam sv c key k w =
     (case uuid_parse (sr_crypto sv) (url_param c key) of
        None \<Rightarrow> http_error 400 ''invalid id'' w | Some x \<Rightarrow> k x w)"

text \<open>\<open>redirectWithFlash\<close>: the message goes into the query of the address, in the place of an older one.\<close>

definition flash_query :: "string \<Rightarrow> bool \<Rightarrow> url_values \<Rightarrow> url_values" where
  "flash_query msg isErr q =
     (if isErr then values_del ''ok'' (values_set ''err'' msg q) else values_del ''err'' (values_set ''ok'' msg q))"

definition redirectWithFlash :: "web_lib \<Rightarrow> string \<Rightarrow> string \<Rightarrow> bool \<Rightarrow> 'g api_world \<Rightarrow> ('p, 'g) web_out" where
  "redirectWithFlash wb path msg isErr =
     (case wl_url wb path of
        None \<Rightarrow> redirect path
      | Some (base, query, fragment) \<Rightarrow>
          redirect (base @ ''?'' @ values_encode (flash_query msg isErr (parse_query query)) @ fragment))"

definition redirectReferer :: "web_ctx \<Rightarrow> string \<Rightarrow> string" where
  "redirectReferer c fallback = (if wq_referer (wx_req c) \<noteq> [] then wq_referer (wx_req c) else fallback)"

subsection \<open>The frame of a page (render.go, layout.templ, components.templ)\<close>

record layout_data =
  ly_title :: string
  ly_user :: "session_user option"
  ly_csrf :: string
  ly_unread :: int
  ly_flash :: string
  ly_flash_err :: bool

definition web_layout :: "web_ctx \<Rightarrow> string \<Rightarrow> 'g api_world \<Rightarrow> layout_data" where
  "web_layout c title w =
     (let ok = query_value c ''ok''; bad = query_value c ''err''
      in \<lparr>ly_title = title, ly_user = wx_user c, ly_csrf = wx_csrf c,
          ly_unread = (case wx_user c of None \<Rightarrow> 0 | Some su \<Rightarrow> int (UnreadCount (su_id su) (ap_db w))),
          ly_flash = (if ok = [] then bad else ok), ly_flash_err = (ok = [] \<and> bad \<noteq> [])\<rparr>)"

record repo_header =
  rh_repo :: repository
  rh_csrf :: string
  rh_starred :: bool
  rh_watched :: bool
  rh_https :: string
  rh_ssh :: string

record repo_nav =
  rn_owner :: string
  rn_repo :: string
  rn_tab :: string
  rn_full :: string
  rn_issues :: nat
  rn_pulls :: nat

type_synonym repo_frame = "repo_header \<times> repo_nav"

definition repoPageCtx :: "web_lib \<Rightarrow> web_ctx \<Rightarrow> repository \<Rightarrow> string \<Rightarrow> 'g api_world \<Rightarrow> repo_frame" where
  "repoPageCtx wb c repo tabname w =
     (\<lparr>rh_repo = repo, rh_csrf = wx_csrf c,
       rh_starred = (case wx_user c of None \<Rightarrow> False | Some su \<Rightarrow> IsStarred (rp_id repo) (su_id su) (ap_db w)),
       rh_watched = (case wx_user c of None \<Rightarrow> False | Some su \<Rightarrow> IsWatched (rp_id repo) (su_id su) (ap_db w)),
       rh_https = cloneHTTPSURL (wl_env wb) (rp_owner_name repo) (rp_name repo),
       rh_ssh = cloneSSHURL (wl_env wb) (rp_owner_name repo) (rp_name repo)\<rparr>,
      \<lparr>rn_owner = rp_owner_name repo, rn_repo = rp_name repo, rn_tab = tabname, rn_full = rp_full_name repo,
       rn_issues = length (issue_List (rp_id repo) (ap_db w)), rn_pulls = length (pull_List (rp_id repo) (ap_db w))\<rparr>)"

definition repoBranches :: "repository \<Rightarrow> 'g api_world \<Rightarrow> string list" where
  "repoBranches repo w =
     (let bs = ListBranches (rp_id repo) (ap_db w) in if bs = [] then [rp_branch repo] else map bi_name bs)"

definition isHTMX :: "web_ctx \<Rightarrow> bool" where "isHTMX c = wq_htmx (wx_req c)"

definition skipWeb :: "string \<Rightarrow> bool" where
  "skipWeb path = (prefix ''/api'' path \<or> path = ''/healthz'')"

definition RenderMarkdown :: "web_lib \<Rightarrow> string \<Rightarrow> string result" where
  "RenderMarkdown wb src = wl_markdown wb src"

definition content_security_policy :: string where
  "content_security_policy =
     (let q = [CHR 0x27] in concat [''default-src '', q, ''self'', q, ''; script-src '', q, ''self'', q, '' '', q, ''unsafe-inline'', q, ''; style-src '', q, ''self'', q,
       '' '', q, ''unsafe-inline'', q, ''; img-src '', q, ''self'', q, '' data:; font-src '', q, ''self'', q, ''; connect-src '', q, ''self'', q,
       ''; frame-src '', q, ''none'', q, ''; object-src '', q, ''none'', q, ''; base-uri '', q, ''self'', q, ''; form-action '', q, ''self'', q])"


end
