(* ===== verification/WebUser.thy ===== *)
theory WebUser
  imports WebCore
begin

section \<open>Pages that are not about a repository (internal/web/handlers.go)\<close>

text \<open>
  Login, dashboard, profile, settings, notifications, search, organisations and administration. The pages are
  the templates of the same names with the data the handlers hand them.
\<close>

datatype user_page =
    LoginPage string string string
  | DashboardPage layout_data "repository list" "org list" string string
  | UserProfilePage layout_data user "repository list" bool
  | SearchPage layout_data string string string "hit list" int int int
  | SettingsPage layout_data "pat_info list" "key_info list" string string
  | NotificationsPartial "notification list" string
  | NotifBadge nat
  | OrgsPage layout_data "org list" string
  | OrgDetailPage layout_data org "member list" "repository list" string
  | OrgTeamsPage layout_data string "team list" string
  | TeamDetailPage layout_data string team "member list" string
  | AdminUsersPage layout_data "user list" string
  | AdminAuditPage layout_data "audit_entry list"

type_synonym 'g user_out = "(user_page, 'g) web_out"

subsection \<open>Login\<close>

definition web_handleLoginGet :: "web_ctx \<Rightarrow> 'g api_world \<Rightarrow> 'g user_out" where
  "web_handleLoginGet c w =
     (if wx_user c \<noteq> None then redirect ''/'' w
      else reply (Page (LoginPage (wx_csrf c) [] (query_value c ''next''))) w)"

text \<open>Where a login leads: to a path of this site, as far as its first two characters tell.\<close>

definition local_next :: "string \<Rightarrow> string" where
  "local_next next = (if next = [] \<or> \<not> prefix ''/'' next \<or> prefix ''//'' next then ''/'' else next)"

definition web_handleLoginPost :: "('g, 'k) server \<Rightarrow> web_lib \<Rightarrow> web_ctx \<Rightarrow> 'g api_world \<Rightarrow> 'g user_out" where
  "web_handleLoginPost sv wb c0 =
     requirePOST wb c0 (\<lambda>c w.
       case on_db (Login (sr_crypto sv) (sr_auth sv) (wq_now (wx_req c)) (form_value c ''username'') (form_value c ''password'')) w of
         (Inl e, w1) \<Rightarrow>
           reply (Page (LoginPage (wx_csrf c) (if e = ErrAccountLocked then err_text e else ''Invalid credentials'')
                          (form_value c ''next''))) w1
       | (Inr (token, u), w1) \<Rightarrow>
           set_cookies [SessionCookie token] (redirect (local_next (form_value c ''next'')) w1))"

text \<open>The form is parsed and its token is not looked at.\<close>

definition web_handleLogout :: "web_ctx \<Rightarrow> 'g api_world \<Rightarrow> 'g user_out" where
  "web_handleLogout c w = set_cookies [SessionCleared] (redirect ''/login'' w)"

subsection \<open>Dashboard, profile, search\<close>

definition dashboard :: "web_ctx \<Rightarrow> repository list \<Rightarrow> org list \<Rightarrow> string \<Rightarrow> 'g api_world \<Rightarrow> 'g user_out" where
  "dashboard c rs os errMsg w = reply (Page (DashboardPage (web_layout c ''Dashboard'' w) rs os (wx_csrf c) errMsg)) w"

definition web_handleDashboard :: "web_ctx \<Rightarrow> 'g api_world \<Rightarrow> 'g user_out" where
  "web_handleDashboard c =
     with_user c (\<lambda>su w. dashboard c (ListForUser (su_id su) (ap_db w)) (org_ListForUser (su_id su) (ap_db w)) [] w)"

text \<open>The repositories of the profile, newest change first: all of them for their owner, the public ones for others.\<close>

definition profile_repos :: "uuid \<Rightarrow> bool \<Rightarrow> db \<Rightarrow> repository list" where
  "profile_repos uid isOwner d =
     map (\<lambda>q. repository_of (coalesce (owner_name d q) []) q)
       (order_by_desc r_updated (rows_where (\<lambda>q. r_owner q = uid \<and> r_owner_type q = ''user'' \<and> (\<not> r_private q \<or> isOwner)) (repos d)))"

definition web_handleUserProfile :: "web_ctx \<Rightarrow> 'g api_world \<Rightarrow> 'g user_out" where
  "web_handleUserProfile c w =
     (case lookup_username (request_of c) (url_param c ''username'') w of
        (Inl e, w1) \<Rightarrow> not_found w1
      | (Inr u, w1) \<Rightarrow>
          (let isOwner = (case wx_user c of None \<Rightarrow> False | Some su \<Rightarrow> su_id su = usr_id u)
           in reply (Page (UserProfilePage (web_layout c (usr_name u) w1) u (profile_repos (usr_id u) isOwner (ap_db w1)) isOwner)) w1))"

definition web_zoned_now :: "('g, 'k) server \<Rightarrow> web_ctx \<Rightarrow> zoned" where
  "web_zoned_now sv c = (wq_now (wx_req c), sr_zone sv)"

text \<open>
  The row stays when git fails. An empty name makes a row too, and then neither a directory nor a redirect.
\<close>

definition web_handleCreateUserRepo :: "('g, 'k) server \<Rightarrow> web_lib \<Rightarrow> web_ctx \<Rightarrow> 'g api_world \<Rightarrow> 'g user_out" where
  "web_handleCreateUserRepo sv wb c0 =
     requirePOST wb c0 (\<lambda>c. with_user c (\<lambda>su w.
       let name = trim_space (form_value c ''name'');
           (made, w1) = on_db (repo_Create (wq_now (wx_req c)) (wq_fresh (wx_req c) 0) ''user'' (su_id su) (su_name su) name
                                 (form_value c ''description'') False) w;
           rs = ListForUser (su_id su) (ap_db w1);
           os = org_ListForUser (su_id su) (ap_db w1)
       in case made of
            Inl e \<Rightarrow> dashboard c rs os (err_text e) w1
          | Inr repo \<Rightarrow>
              if name = [] then dashboard c rs os [] w1
              else (case on_store (store_Init (sr_git sv) (su_name su) name) w1 of
                      (Inl e, w2) \<Rightarrow> dashboard c rs os (err_text e) w2
                    | (Inr _, w2) \<Rightarrow>
                        (case on_store (SeedMainBranch (sr_git sv) (web_zoned_now sv c) (su_name su) name ''main'') w2 of
                           (Inl e, w3) \<Rightarrow> dashboard c rs os (err_text e) w3
                         | (Inr sha, w3) \<Rightarrow> redirect (''/'' @ su_name su @ ''/'' @ name) w3))))"

definition web_handleUserSearch :: "web_ctx \<Rightarrow> 'g api_world \<Rightarrow> 'g user_out" where
  "web_handleUserSearch c w =
     (let q = trim_space (query_value c ''q'')
      in if q = [] then reply (Names []) w else reply (Names (map usr_name (SearchUsers q 10 (ap_db w)))) w)"

definition web_handleSearch :: "web_lib \<Rightarrow> web_ctx \<Rightarrow> 'g api_world \<Rightarrow> 'g user_out" where
  "web_handleSearch wb c w =
     (let q = query_value c ''q''; typ = query_value c ''type''; srt = query_value c ''sort'';
          n = fst (atoi (query_value c ''page''));
          page = (if n < 1 then 1 else n);
          perPage = 20;
          offset = wrap64 ((page - 1) * perPage);
          res = (if q = [] then no_result
                 else drop_error no_result (run_search (wl_search wb) (wl_search_service wb) q
                        \<lparr>so_limit = perPage, so_offset = offset, so_type = typ, so_sort = srt\<rparr>))
      in reply (Page (SearchPage (web_layout c ''Search'' w) q typ srt (sr_hits res) (sr_total res) page perPage)) w)"

subsection \<open>Settings\<close>

definition settings_page :: "web_ctx \<Rightarrow> session_user \<Rightarrow> string \<Rightarrow> string \<Rightarrow> 'g api_world \<Rightarrow> 'g user_out" where
  "settings_page c su token errMsg w =
     reply (Page (SettingsPage (web_layout c ''Settings'' w) (ListPATs (su_id su) (ap_db w)) (ListSSHKeys (su_id su) (ap_db w)) token errMsg)) w"

text \<open>
  Looking at the settings writes: every token that expires within a week gives a notification, each
  time the page is shown. The days left are whole ones, rounded towards zero.
\<close>

definition expiry_notice :: "web_lib \<Rightarrow> instant \<Rightarrow> pat_info \<Rightarrow> instant \<Rightarrow> string" where
  "expiry_notice wb now p t =
     (let daysLeft = (let d = (if t \<ge> now then (t - now) div (24 * hour) else - ((now - t) div (24 * hour))) in if d < 0 then 0 else d)
      in ''Your token '' @ [CHR 0x22] @ pti_name p @ [CHR 0x22] @ '' expires in '' @ int_string daysLeft @ '' day(s) on ''
           @ wl_format wb ''2006-01-02'' t @ ''. Create a new token before it expires.'')"

fun expiry_notices ::
  "web_lib \<Rightarrow> instant \<Rightarrow> (nat \<Rightarrow> uuid) \<Rightarrow> nat \<Rightarrow> uuid \<Rightarrow> pat_info list \<Rightarrow> db \<Rightarrow> db" where
  "expiry_notices wb now fresh i uid [] d = d"
| "expiry_notices wb now fresh i uid (p # ps) d =
     (case pti_expires p of
        None \<Rightarrow> expiry_notices wb now fresh i uid ps d
      | Some t \<Rightarrow>
          expiry_notices wb now fresh (Suc i) uid ps
            (snd (notification_Create now (fresh i) uid ''Personal access token expiring soon'' (expiry_notice wb now p t) ''/settings'' d)))"

definition web_handleSettings :: "web_lib \<Rightarrow> web_ctx \<Rightarrow> 'g api_world \<Rightarrow> 'g user_out" where
  "web_handleSettings wb c =
     with_user c (\<lambda>su w.
       let now = wq_now (wx_req c);
           w1 = w\<lparr>ap_db := expiry_notices wb now (wq_fresh (wx_req c)) 0 (su_id su)
                             (ListExpiringPATs now (7 * 24 * hour) (ap_db w) (su_id su)) (ap_db w)\<rparr>
       in settings_page c su [] [] w1)"

definition web_handleCreatePAT :: "('g, 'k) server \<Rightarrow> web_lib \<Rightarrow> web_ctx \<Rightarrow> 'g api_world \<Rightarrow> 'g user_out" where
  "web_handleCreatePAT sv wb c0 =
     requirePOST wb c0 (\<lambda>c. with_user c (\<lambda>su w.
       case on_db (CreatePAT (sr_crypto sv) (wq_now (wx_req c)) (wq_fresh (wx_req c) 0) (wq_random (wx_req c) 3) (su_id su)
                     (form_value c ''name'') (form_all c ''scope'')) w of
         (Inl e, w1) \<Rightarrow> settings_page c su [] (err_text e) w1
       | (Inr token, w1) \<Rightarrow> settings_page c su token [] w1))"

definition web_handleRevokePAT :: "('g, 'k) server \<Rightarrow> web_lib \<Rightarrow> web_ctx \<Rightarrow> 'g api_world \<Rightarrow> 'g user_out" where
  "web_handleRevokePAT sv wb c0 =
     requirePOST wb c0 (\<lambda>c. parseUUIDParam sv c ''id'' (\<lambda>pid. with_user c (\<lambda>su w.
       redirectWithFlash wb ''/settings'' ''Token revoked'' False (quietly (RevokePAT (su_id su) pid) w))))"

definition web_handleAddSSHKey :: "('g, 'k) server \<Rightarrow> web_lib \<Rightarrow> web_ctx \<Rightarrow> 'g api_world \<Rightarrow> 'g user_out" where
  "web_handleAddSSHKey sv wb c0 =
     requirePOST wb c0 (\<lambda>c. with_user c (\<lambda>su w.
       case on_db (AddSSHKey (sr_ssh sv) (wq_now (wx_req c)) (wq_fresh (wx_req c) 0) (su_id su) (form_value c ''title'') (form_value c ''key'')) w of
         (Inl e, w1) \<Rightarrow> settings_page c su [] (err_text e) w1
       | (Inr key, w1) \<Rightarrow> settings_page c su [] [] w1))"

definition web_handleDeleteSSHKey :: "('g, 'k) server \<Rightarrow> web_lib \<Rightarrow> web_ctx \<Rightarrow> 'g api_world \<Rightarrow> 'g user_out" where
  "web_handleDeleteSSHKey sv wb c0 =
     requirePOST wb c0 (\<lambda>c. parseUUIDParam sv c ''id'' (\<lambda>kid. with_user c (\<lambda>su w.
       redirectWithFlash wb ''/settings'' ''SSH key removed'' False (quietly (DeleteSSHKey (su_id su) kid) w))))"

subsection \<open>Notifications\<close>

definition web_handleNotifications :: "web_ctx \<Rightarrow> 'g api_world \<Rightarrow> 'g user_out" where
  "web_handleNotifications c =
     with_user c (\<lambda>su w. reply (Page (NotificationsPartial (notification_List (su_id su) 20 (ap_db w)) (wx_csrf c))) w)"

definition web_handleNotificationsCount :: "web_ctx \<Rightarrow> 'g api_world \<Rightarrow> 'g user_out" where
  "web_handleNotificationsCount c = with_user c (\<lambda>su w. reply (Page (NotifBadge (UnreadCount (su_id su) (ap_db w)))) w)"

definition web_handleMarkNotificationRead :: "('g, 'k) server \<Rightarrow> web_lib \<Rightarrow> web_ctx \<Rightarrow> 'g api_world \<Rightarrow> 'g user_out" where
  "web_handleMarkNotificationRead sv wb c0 =
     requirePOST wb c0 (\<lambda>c. parseUUIDParam sv c ''id'' (\<lambda>nid. with_user c (\<lambda>su w.
       let w1 = quietly (MarkRead nid (su_id su)) w
       in if isHTMX c then web_handleNotifications c w1 else redirect ''/'' w1)))"

subsection \<open>Organisations\<close>

text \<open>None of the handlers that change an organisation looks at who asks.\<close>

definition web_handleOrgs :: "web_ctx \<Rightarrow> 'g api_world \<Rightarrow> 'g user_out" where
  "web_handleOrgs c w = reply (Page (OrgsPage (web_layout c ''Organizations'' w) (org_List (ap_db w)) (wx_csrf c))) w"

definition web_handleCreateOrg :: "web_lib \<Rightarrow> web_ctx \<Rightarrow> 'g api_world \<Rightarrow> 'g user_out" where
  "web_handleCreateOrg wb c0 =
     requirePOST wb c0 (\<lambda>c w.
       case on_db (org_Create (wq_now (wx_req c)) (wq_fresh (wx_req c) 0) (form_value c ''name'') (form_value c ''display_name'')
                     (form_value c ''description'')) w of
         (Inl e, w1) \<Rightarrow> redirectWithFlash wb ''/orgs'' (err_text e) True w1
       | (Inr o1, w1) \<Rightarrow>
           with_user c (\<lambda>su w2.
             redirectWithFlash wb (''/orgs/'' @ og_name o1) ''Organization created'' False
               (quietly (AddMember (og_id o1) (su_id su) ''admin'') w2)) w1)"

definition org_param :: "web_ctx \<Rightarrow> (org \<Rightarrow> 'g api_world \<Rightarrow> 'g user_out) \<Rightarrow> 'g api_world \<Rightarrow> 'g user_out" where
  "org_param c k w = (case GetByName (url_param c ''org'') (ap_db w) of Inl e \<Rightarrow> not_found w | Inr o1 \<Rightarrow> k o1 w)"

definition web_handleOrgDetail :: "web_ctx \<Rightarrow> 'g api_world \<Rightarrow> 'g user_out" where
  "web_handleOrgDetail c =
     org_param c (\<lambda>o1 w. reply (Page (OrgDetailPage (web_layout c (og_name o1) w) o1 (ListMembers (og_id o1) (ap_db w))
       (ListForOrg (og_id o1) (ap_db w)) (wx_csrf c))) w)"

definition web_handleAddOrgMember :: "web_lib \<Rightarrow> web_ctx \<Rightarrow> 'g api_world \<Rightarrow> 'g user_out" where
  "web_handleAddOrgMember wb c0 =
     requirePOST wb c0 (\<lambda>c. org_param c (\<lambda>o1 w.
       let back = ''/orgs/'' @ og_name o1
       in case lookup_username (request_of c) (form_value c ''username'') w of
            (Inl e, w1) \<Rightarrow> redirectWithFlash wb back ''User not found'' True w1
          | (Inr u, w1) \<Rightarrow>
              (case on_db (AddMember (og_id o1) (usr_id u) (form_value c ''role'')) w1 of
                 (Inl e, w2) \<Rightarrow> redirectWithFlash wb back (err_text e) True w2
               | (Inr _, w2) \<Rightarrow> redirectWithFlash wb back ''Member added'' False w2)))"

definition web_handleOrgTeams :: "web_ctx \<Rightarrow> 'g api_world \<Rightarrow> 'g user_out" where
  "web_handleOrgTeams c =
     org_param c (\<lambda>o1 w. reply (Page (OrgTeamsPage (web_layout c ''Teams'' w) (og_name o1) (ListTeams (og_id o1) (ap_db w)) (wx_csrf c))) w)"

definition web_handleCreateTeam :: "web_lib \<Rightarrow> web_ctx \<Rightarrow> 'g api_world \<Rightarrow> 'g user_out" where
  "web_handleCreateTeam wb c0 =
     requirePOST wb c0 (\<lambda>c. org_param c (\<lambda>o1 w.
       redirect (''/orgs/'' @ og_name o1 @ ''/teams'')
         (quietly (CreateTeam (wq_fresh (wx_req c) 0) (og_id o1) (form_value c ''name'') (form_value c ''description'')) w)))"

definition team_param :: "web_ctx \<Rightarrow> (org \<Rightarrow> team \<Rightarrow> 'g api_world \<Rightarrow> 'g user_out) \<Rightarrow> 'g api_world \<Rightarrow> 'g user_out" where
  "team_param c k =
     org_param c (\<lambda>o1 w. case GetTeam (og_id o1) (url_param c ''team'') (ap_db w) of Inl e \<Rightarrow> not_found w | Inr t \<Rightarrow> k o1 t w)"

definition web_handleTeamDetail :: "web_ctx \<Rightarrow> 'g api_world \<Rightarrow> 'g user_out" where
  "web_handleTeamDetail c =
     team_param c (\<lambda>o1 t w. reply (Page (TeamDetailPage (web_layout c (te_name t) w) (og_name o1) t
       (ListTeamMembers (te_id t) (ap_db w)) (wx_csrf c))) w)"

definition web_handleAddTeamMember :: "web_lib \<Rightarrow> web_ctx \<Rightarrow> 'g api_world \<Rightarrow> 'g user_out" where
  "web_handleAddTeamMember wb c0 =
     requirePOST wb c0 (\<lambda>c. team_param c (\<lambda>o1 t w.
       redirect (''/orgs/'' @ og_name o1 @ ''/teams/'' @ te_name t)
         (case lookup_username (request_of c) (form_value c ''username'') w of
            (Inl e, w1) \<Rightarrow> w1
          | (Inr u, w1) \<Rightarrow> quietly (AddTeamMember (te_id t) (usr_id u)) w1)))"

text \<open>A repository of an organisation; the row stays when git fails, and the seed's outcome is dropped.\<close>

definition web_handleCreateOrgRepo :: "('g, 'k) server \<Rightarrow> web_lib \<Rightarrow> web_ctx \<Rightarrow> 'g api_world \<Rightarrow> 'g user_out" where
  "web_handleCreateOrgRepo sv wb c0 =
     requirePOST wb c0 (\<lambda>c. org_param c (\<lambda>o1 w.
       case on_db (repo_Create (wq_now (wx_req c)) (wq_fresh (wx_req c) 0) ''org'' (og_id o1) (og_name o1) (form_value c ''name'')
                     (form_value c ''description'') False) w of
         (Inl e, w1) \<Rightarrow> redirect (''/orgs/'' @ og_name o1) w1
       | (Inr repo, w1) \<Rightarrow>
           (case on_store (store_Init (sr_git sv) (rp_owner_name repo) (rp_name repo)) w1 of
              (Inl e, w2) \<Rightarrow> redirect (''/orgs/'' @ og_name o1) w2
            | (Inr _, w2) \<Rightarrow>
                redirect (''/'' @ rp_full_name repo)
                  (snd (on_store (SeedMainBranch (sr_git sv) (web_zoned_now sv c) (rp_owner_name repo) (rp_name repo) (rp_branch repo)) w2)))))"

subsection \<open>Administration\<close>

definition web_audit ::
  "web_ctx \<Rightarrow> session_user \<Rightarrow> nat \<Rightarrow> string \<Rightarrow> string \<Rightarrow> string \<Rightarrow> string result option \<Rightarrow> 'g api_world \<Rightarrow> 'g api_world" where
  "web_audit c su n action rtype rid meta =
     quietly (audit_Record (wq_now (wx_req c)) (wq_fresh (wx_req c) n) (su_id su) action rtype rid meta)"

definition admin_users :: "web_ctx \<Rightarrow> user list \<Rightarrow> string \<Rightarrow> 'g api_world \<Rightarrow> 'g user_out" where
  "admin_users c us errMsg w = reply (Page (AdminUsersPage (web_layout c ''Admin'' w) us errMsg)) w"

definition web_handleAdminUsers :: "web_ctx \<Rightarrow> 'g api_world \<Rightarrow> 'g user_out" where
  "web_handleAdminUsers c w = admin_users c (ListUsers (ap_db w)) [] w"

text \<open>The role is taken as it comes; the check constraint of the table is the only test.\<close>

definition web_handleAdminCreateUser :: "('g, 'k) server \<Rightarrow> web_lib \<Rightarrow> web_ctx \<Rightarrow> 'g api_world \<Rightarrow> 'g user_out" where
  "web_handleAdminCreateUser sv wb c0 =
     requirePOST wb c0 (\<lambda>c w.
       case on_db (CreateUser (sr_crypto sv) (wq_now (wx_req c)) (wq_fresh (wx_req c) 0) (form_value c ''username'') (form_value c ''email'')
                     (form_value c ''password'') (form_value c ''role'')) w of
         (Inl e, w1) \<Rightarrow> admin_users c (ListUsers (ap_db w1)) (err_text e) w1
       | (Inr made, w1) \<Rightarrow>
           (case lookup_username (request_of c) (form_value c ''username'') w1 of
              (Inl e, w2) \<Rightarrow> admin_users c (ListUsers (ap_db w1)) [] w2
            | (Inr u, w2) \<Rightarrow>
                with_user c (\<lambda>su w3. admin_users c (ListUsers (ap_db w1)) []
                  (web_audit c su 1 ''user.create'' ''user'' (uuid_string (sr_crypto sv) (usr_id u))
                     (Some (sr_json sv [(''username'', usr_name u)])) w3)) w2))"

definition delete_user :: "('g, 'k) server \<Rightarrow> uuid \<Rightarrow> uuid \<Rightarrow> 'g api_world \<Rightarrow> 'g api_world" where
  "delete_user sv actor target w =
     (case DeleteUser (sr_crypto sv) actor target (ap_users w) (ap_db w) of (out, uc, d) \<Rightarrow> w\<lparr>ap_users := uc, ap_db := d\<rparr>)"

text \<open>The outcome of the deletion is dropped, and the log says it happened.\<close>

definition web_handleAdminDeleteUser :: "('g, 'k) server \<Rightarrow> web_lib \<Rightarrow> web_ctx \<Rightarrow> 'g api_world \<Rightarrow> 'g user_out" where
  "web_handleAdminDeleteUser sv wb c0 =
     requirePOST wb c0 (\<lambda>c. parseUUIDParam sv c ''id'' (\<lambda>target. with_user c (\<lambda>su w.
       redirect ''/admin/users''
         (web_audit c su 0 ''user.delete'' ''user'' (uuid_string (sr_crypto sv) target) None (delete_user sv (su_id su) target w)))))"

definition web_handleAdminChangeUserRole :: "('g, 'k) server \<Rightarrow> web_lib \<Rightarrow> web_ctx \<Rightarrow> 'g api_world \<Rightarrow> 'g user_out" where
  "web_handleAdminChangeUserRole sv wb c0 =
     requirePOST wb c0 (\<lambda>c. parseUUIDParam sv c ''id'' (\<lambda>target. with_user c (\<lambda>su w.
       let newRole = form_value c ''role''
       in if newRole \<noteq> ''admin'' \<and> newRole \<noteq> ''user''
          then redirectWithFlash wb ''/admin/users'' (''Invalid role: '' @ newRole) True w
          else (case on_db (UpdateUserRole (su_id su) target newRole) w of
                  (Inl e, w1) \<Rightarrow> redirectWithFlash wb ''/admin/users'' (''Failed to change role: '' @ err_text e) True w1
                | (Inr u, w1) \<Rightarrow>
                    redirectWithFlash wb ''/admin/users'' (''Role changed to '' @ usr_role u) False
                      (web_audit c su 0 ''user.role_change'' ''user'' (uuid_string (sr_crypto sv) target)
                         (Some (sr_json sv [(''new_role'', usr_role u)])) w1)))))"

definition web_handleAdminAudit :: "web_ctx \<Rightarrow> 'g api_world \<Rightarrow> 'g user_out" where
  "web_handleAdminAudit c w = reply (Page (AdminAuditPage (web_layout c ''Audit log'' w) (audit_List 100 (ap_db w)))) w"

subsection \<open>The preview of a text\<close>

text \<open>
  The route of this handler is outside the groups with the middleware, so its context is the one of a fresh request.
\<close>

definition web_handlePreviewMarkdown :: "web_lib \<Rightarrow> web_ctx \<Rightarrow> 'g api_world \<Rightarrow> 'g user_out" where
  "web_handlePreviewMarkdown wb c0 =
     requirePOST wb c0 (\<lambda>c w.
       case RenderMarkdown wb (form_value c ''body'') of
         Inl e \<Rightarrow> http_error 500 (err_text e) w
       | Inr html \<Rightarrow> reply (Html html) w)"

end
