(* ===== verification/WebRepo.thy ===== *)
theory WebRepo
  imports WebCore
begin

section \<open>The pages of a repository (internal/web/handlers.go)\<close>

text \<open>
  Code, commits, tags, settings, wiki, packages and the uploads. A page is the template of the same name with
  the data the handler hands it; an error of a service that the handler drops leaves the zero value of its result.
\<close>

record repo_page_data =
  rg_layout :: layout_data
  rg_frame :: repo_frame
  rg_repo :: repository
  rg_path :: string
  rg_ref :: string
  rg_branches :: "string list"
  rg_entries :: "tree_entry list"
  rg_content :: string
  rg_binary :: bool
  rg_blame :: "blame_line list"
  rg_flash :: string
  rg_flash_err :: bool

record fork_namespace =
  fn_kind :: string
  fn_name :: string
  fn_display :: string

record webhook_row =
  wk_id :: string
  wk_url :: string
  wk_events :: string
  wk_active :: bool

record repo_settings_data =
  rd_frame :: repo_frame
  rd_csrf :: string
  rd_webhooks :: "(webhook_row \<times> delivery list) list"
  rd_collaborators :: "collaborator list"
  rd_protected :: "protected_branch list"
  rd_labels :: "label list"

datatype repo_page =
    RepoPage repo_page_data
  | FileTableChildren string string string "tree_entry list"
  | CommitDetailPage layout_data repo_frame commit_detail string
  | ComparePage layout_data repo_frame compare_result string string string
  | ForkDialog repository string "fork_namespace list"
  | TagsPage layout_data repo_frame "tag_info list" string
  | RepoSettingsPage layout_data repo_settings_data
  | WikiPage layout_data repo_frame "wiki_page list"
  | WikiViewPage layout_data repo_frame wiki_page string string
  | WikiEditPage layout_data repo_frame string string string string
  | PackagesPage layout_data repo_frame "package list" string

type_synonym 'g repo_out = "(repo_page, 'g) web_out"

definition repo_url :: "repository \<Rightarrow> string \<Rightarrow> string" where
  "repo_url repo part = ''/'' @ rp_full_name repo @ part"

text \<open>Between the parts of a title stands a middle dot, in UTF-8.\<close>

definition middle_dot :: string where "middle_dot = [CHR 0x20, CHR 0xC2, CHR 0xB7, CHR 0x20]"

subsection \<open>Files\<close>

definition ref_of :: "web_ctx \<Rightarrow> repository \<Rightarrow> string" where
  "ref_of c repo = (if query_value c ''ref'' = [] then rp_branch repo else query_value c ''ref'')"

definition path_of :: "web_ctx \<Rightarrow> string" where
  "path_of c = trim_prefix ''/'' (url_param c ''*'')"

text \<open>The data every view of the code starts from.\<close>

definition repo_page :: "web_lib \<Rightarrow> web_ctx \<Rightarrow> repository \<Rightarrow> 'g api_world \<Rightarrow> repo_page_data" where
  "repo_page wb c repo w =
     \<lparr>rg_layout = web_layout c (rp_full_name repo) w, rg_frame = repoPageCtx wb c repo ''code'' w, rg_repo = repo, rg_path = [],
      rg_ref = ref_of c repo, rg_branches = repoBranches repo w, rg_entries = [], rg_content = [], rg_binary = False,
      rg_blame = [], rg_flash = [], rg_flash_err = False\<rparr>"

definition tree_at :: "('g, 'k) server \<Rightarrow> repository \<Rightarrow> string \<Rightarrow> string \<Rightarrow> 'g api_world \<Rightarrow> tree_entry list result" where
  "tree_at sv repo ref path w = GetTree (sr_git sv) (rp_owner_name repo) (rp_name repo) ref path (ap_store w)"

definition web_handleRepo :: "('g, 'k) server \<Rightarrow> web_lib \<Rightarrow> web_ctx \<Rightarrow> 'g api_world \<Rightarrow> 'g repo_out" where
  "web_handleRepo sv wb c =
     web_getRepo ''read'' c (\<lambda>repo w.
       reply (Page (RepoPage ((repo_page wb c repo w)\<lparr>rg_entries := drop_error [] (tree_at sv repo (ref_of c repo) [] w)\<rparr>))) w)"

definition web_handleRepoTree :: "('g, 'k) server \<Rightarrow> web_lib \<Rightarrow> web_ctx \<Rightarrow> 'g api_world \<Rightarrow> 'g repo_out" where
  "web_handleRepoTree sv wb c =
     web_getRepo ''read'' c (\<lambda>repo w.
       reply (Page (RepoPage ((repo_page wb c repo w)
         \<lparr>rg_path := path_of c, rg_entries := drop_error [] (tree_at sv repo (ref_of c repo) (path_of c) w)\<rparr>))) w)"

definition web_handleRepoTreeLazy :: "('g, 'k) server \<Rightarrow> web_ctx \<Rightarrow> 'g api_world \<Rightarrow> 'g repo_out" where
  "web_handleRepoTreeLazy sv c =
     web_getRepo ''read'' c (\<lambda>repo w.
       case tree_at sv repo (ref_of c repo) (path_of c) w of
         Inl e \<Rightarrow> http_error 500 (''Failed to load directory: '' @ err_text e) w
       | Inr entries \<Rightarrow> reply (Page (FileTableChildren (rp_full_name repo) (ref_of c repo) (path_of c) entries)) w)"

definition web_handleRepoBlob :: "('g, 'k) server \<Rightarrow> web_lib \<Rightarrow> web_ctx \<Rightarrow> 'g api_world \<Rightarrow> 'g repo_out" where
  "web_handleRepoBlob sv wb c =
     web_getRepo ''read'' c (\<lambda>repo w.
       let bytes = drop_error [] (GetBlob (sr_git sv) (rp_owner_name repo) (rp_name repo) (ref_of c repo) (path_of c) (ap_store w));
           binary = isBinaryContent bytes
       in reply (Page (RepoPage ((repo_page wb c repo w)
            \<lparr>rg_path := path_of c, rg_content := (if binary then [] else bytes), rg_binary := binary\<rparr>))) w)"

text \<open>Without a blame the file itself is shown, and the repository is looked up once more.\<close>

definition web_handleRepoBlame :: "('g, 'k) server \<Rightarrow> web_lib \<Rightarrow> web_ctx \<Rightarrow> 'g api_world \<Rightarrow> 'g repo_out" where
  "web_handleRepoBlame sv wb c =
     web_getRepo ''read'' c (\<lambda>repo w.
       case GetBlame (sr_git sv) (rp_owner_name repo) (rp_name repo) (ref_of c repo) (path_of c) (ap_store w) of
         Inl e \<Rightarrow> web_handleRepoBlob sv wb c w
       | Inr ls \<Rightarrow> reply (Page (RepoPage ((repo_page wb c repo w)\<lparr>rg_path := path_of c, rg_blame := ls\<rparr>))) w)"

definition web_handleFileFinder :: "('g, 'k) server \<Rightarrow> web_ctx \<Rightarrow> 'g api_world \<Rightarrow> 'g repo_out" where
  "web_handleFileFinder sv c =
     web_getRepo ''read'' c (\<lambda>repo w.
       case GetAllFiles (sr_git sv) (rp_owner_name repo) (rp_name repo) (ref_of c repo) (ap_store w) of
         Inl e \<Rightarrow> http_error 500 (err_text e) w
       | Inr fs \<Rightarrow> reply (Names fs) w)"

subsection \<open>Commits\<close>

definition web_handleCommitDetail :: "('g, 'k) server \<Rightarrow> web_lib \<Rightarrow> web_ctx \<Rightarrow> 'g api_world \<Rightarrow> 'g repo_out" where
  "web_handleCommitDetail sv wb c =
     web_getRepo ''read'' c (\<lambda>repo w.
       if url_param c ''sha'' = [] then not_found w
       else (case GetCommitDetail (sr_git sv) (rp_owner_name repo) (rp_name repo) (url_param c ''sha'') (ap_store w) of
               Inl e \<Rightarrow> not_found w
             | Inr commit \<Rightarrow>
                 reply (Page (CommitDetailPage (web_layout c (cd_short commit @ middle_dot @ rp_full_name repo) w)
                   (repoPageCtx wb c repo ''code'' w) commit (wx_csrf c))) w))"

definition web_handleCompare :: "('g, 'k) server \<Rightarrow> web_lib \<Rightarrow> web_ctx \<Rightarrow> 'g api_world \<Rightarrow> 'g repo_out" where
  "web_handleCompare sv wb c =
     web_getRepo ''read'' c (\<lambda>repo w.
       case split_n 2 ''...'' (url_param c ''*'') of
         [base, head] \<Rightarrow>
           if base = [] \<or> head = [] then http_error 400 ''expected {base}...{head} format'' w
           else (case CompareCommits (sr_git sv) (rp_owner_name repo) (rp_name repo) base head (ap_store w) of
                   Inl e \<Rightarrow> http_error 500 (err_text e) w
                 | Inr res \<Rightarrow>
                     reply (Page (ComparePage
                       (web_layout c (''Comparing '' @ base @ ''...'' @ head @ middle_dot @ rp_full_name repo) w)
                       (repoPageCtx wb c repo ''code'' w) res base head (wx_csrf c))) w)
       | _ \<Rightarrow> http_error 400 ''expected {base}...{head} format'' w)"

subsection \<open>Stars, watches, forks\<close>

text \<open>
  Reading is enough for these. The outcome of the operation is dropped, and the way back is the referring
  page, whatever site it is on.
\<close>

definition mark_repo ::
  "(uuid \<Rightarrow> uuid \<Rightarrow> 'g api_world \<Rightarrow> 'g api_world) \<Rightarrow> string \<Rightarrow> web_lib \<Rightarrow> web_ctx \<Rightarrow> 'g api_world \<Rightarrow> 'g repo_out" where
  "mark_repo f msg wb c0 =
     requirePOST wb c0 (\<lambda>c. web_getRepo ''read'' c (\<lambda>repo. with_user c (\<lambda>su w.
       redirectWithFlash wb (redirectReferer c (repo_url repo [])) msg False (f (rp_id repo) (su_id su) w))))"

definition web_handleStar :: "web_lib \<Rightarrow> web_ctx \<Rightarrow> 'g api_world \<Rightarrow> 'g repo_out" where
  "web_handleStar = mark_repo (\<lambda>rid uid w. snd (on_repos (Star rid uid) w)) ''Repository starred''"

definition web_handleUnstar :: "web_lib \<Rightarrow> web_ctx \<Rightarrow> 'g api_world \<Rightarrow> 'g repo_out" where
  "web_handleUnstar = mark_repo (\<lambda>rid uid w. snd (on_repos (Unstar rid uid) w)) ''Unstarred''"

definition web_handleWatch :: "web_lib \<Rightarrow> web_ctx \<Rightarrow> 'g api_world \<Rightarrow> 'g repo_out" where
  "web_handleWatch = mark_repo (\<lambda>rid uid. quietly (Watch rid uid)) ''Watching''"

definition web_handleUnwatch :: "web_lib \<Rightarrow> web_ctx \<Rightarrow> 'g api_world \<Rightarrow> 'g repo_out" where
  "web_handleUnwatch = mark_repo (\<lambda>rid uid. quietly (Unwatch rid uid)) ''Unwatched''"

text \<open>A namespace that is none of the user's organisations means the user's own.\<close>

definition fork_target :: "session_user \<Rightarrow> string \<Rightarrow> db \<Rightarrow> string \<times> uuid \<times> string" where
  "fork_target su namespace d =
     (if namespace \<noteq> [] \<and> namespace \<noteq> su_name su
      then (case find (\<lambda>o1. og_name o1 = namespace) (org_ListForUser (su_id su) d) of
              Some o1 \<Rightarrow> (''org'', og_id o1, og_name o1)
            | None \<Rightarrow> (''user'', su_id su, su_name su))
      else (''user'', su_id su, su_name su))"

definition web_handleFork :: "('g, 'k) server \<Rightarrow> web_lib \<Rightarrow> web_ctx \<Rightarrow> 'g api_world \<Rightarrow> 'g repo_out" where
  "web_handleFork sv wb c0 =
     requirePOST wb c0 (\<lambda>c. web_getRepo ''read'' c (\<lambda>repo. with_user c (\<lambda>su w.
       let (ownerType, oid, oname) = fork_target su (form_value c ''namespace'') (ap_db w)
       in case on_db (Fork (wq_now (wx_req c)) (wq_fresh (wx_req c) 0) repo ownerType oid oname) w of
            (Inr made, w1) \<Rightarrow> redirect (repo_url made []) w1
          | (Inl e, w1) \<Rightarrow>
              reply (Page (RepoPage ((repo_page wb c repo w1)
                \<lparr>rg_entries := drop_error [] (tree_at sv repo (ref_of c repo) [] w1), rg_flash := err_text e, rg_flash_err := True\<rparr>)))
                w1)))"

definition fork_namespaces :: "session_user \<Rightarrow> db \<Rightarrow> fork_namespace list" where
  "fork_namespaces su d =
     \<lparr>fn_kind = ''user'', fn_name = su_name su, fn_display = su_name su\<rparr>
     # map (\<lambda>o1. \<lparr>fn_kind = ''org'', fn_name = og_name o1, fn_display = (if og_display o1 = [] then og_name o1 else og_display o1)\<rparr>)
         (org_ListForUser (su_id su) d)"

definition web_handleForkDialog :: "web_ctx \<Rightarrow> 'g api_world \<Rightarrow> 'g repo_out" where
  "web_handleForkDialog c =
     web_getRepo_or (HttpError 404 ''Repository not found'') ''read'' c (\<lambda>repo w.
       case wx_user c of
         None \<Rightarrow> http_error 401 ''Unauthorized'' w
       | Some su \<Rightarrow> reply (Page (ForkDialog repo (wx_csrf c) (fork_namespaces su (ap_db w)))) w)"

subsection \<open>Tags\<close>

definition web_handleTags :: "('g, 'k) server \<Rightarrow> web_lib \<Rightarrow> web_ctx \<Rightarrow> 'g api_world \<Rightarrow> 'g repo_out" where
  "web_handleTags sv wb c =
     web_getRepo ''read'' c (\<lambda>repo w.
       reply (Page (TagsPage (web_layout c ''Tags'' w) (repoPageCtx wb c repo ''tags'' w)
         (drop_error [] (ListTags (sr_git sv) (rp_owner_name repo) (rp_name repo) (ap_store w))) (wx_csrf c))) w)"

definition web_handleCreateTag :: "('g, 'k) server \<Rightarrow> web_lib \<Rightarrow> web_ctx \<Rightarrow> 'g api_world \<Rightarrow> 'g repo_out" where
  "web_handleCreateTag sv wb c0 =
     requirePOST wb c0 (\<lambda>c. web_getRepo ''write'' c (\<lambda>repo w.
       let name = form_value c ''name'';
           ref = (if form_value c ''ref'' = [] then rp_branch repo else form_value c ''ref'')
       in if name = [] then redirectWithFlash wb (repo_url repo ''/tags'') ''Tag name is required'' True w
          else (case on_store (CreateTag (sr_git sv) (rp_owner_name repo) (rp_name repo) name ref) w of
                  (Inl e, w1) \<Rightarrow> redirectWithFlash wb (repo_url repo ''/tags'') (err_text e) True w1
                | (Inr _, w1) \<Rightarrow> redirectWithFlash wb (repo_url repo ''/tags'') ''Tag created'' False w1)))"

subsection \<open>Settings\<close>

text \<open>Every reader of the repository sees this page, with the hooks and what was sent to them.\<close>

definition web_hook :: "('g, 'k) server \<Rightarrow> db \<Rightarrow> hook_row \<Rightarrow> webhook_row \<times> delivery list" where
  "web_hook sv d h =
     (\<lparr>wk_id = uuid_string (sr_crypto sv) (h_id h), wk_url = h_url h, wk_events = join '', '' (h_events h), wk_active = h_active h\<rparr>,
      ListDeliveries (h_id h) 5 d)"

definition web_handleRepoSettings :: "('g, 'k) server \<Rightarrow> web_lib \<Rightarrow> web_ctx \<Rightarrow> 'g api_world \<Rightarrow> 'g repo_out" where
  "web_handleRepoSettings sv wb c =
     web_getRepo ''read'' c (\<lambda>repo w.
       let d = ap_db w; rid = rp_id repo
       in reply (Page (RepoSettingsPage (web_layout c ''Settings'' w)
            \<lparr>rd_frame = repoPageCtx wb c repo ''settings'' w, rd_csrf = wx_csrf c,
             rd_webhooks = map (web_hook sv d) (rows_where (\<lambda>h. h_repo h = rid) (hooks d)),
             rd_collaborators = ListCollaborators rid d, rd_protected = ListProtectedBranches rid d, rd_labels = ListLabels rid d\<rparr>)) w)"

text \<open>The forms of the settings drop the outcome of what they do and lead back to the page.\<close>

definition settings_form ::
  "web_lib \<Rightarrow> web_ctx \<Rightarrow> (web_ctx \<Rightarrow> repository \<Rightarrow> 'g api_world \<Rightarrow> 'g api_world) \<Rightarrow> 'g api_world \<Rightarrow> 'g repo_out" where
  "settings_form wb c0 f =
     requirePOST wb c0 (\<lambda>c. web_getRepo ''write'' c (\<lambda>repo w. redirect (repo_url repo ''/settings'') (f c repo w)))"

definition web_handleCreateWebhook :: "web_lib \<Rightarrow> web_ctx \<Rightarrow> 'g api_world \<Rightarrow> 'g repo_out" where
  "web_handleCreateWebhook wb c0 =
     settings_form wb c0 (\<lambda>c repo.
       quietly (hook_Create (wq_fresh (wx_req c) 0) (rp_id repo) (form_value c ''url'') []
         (map trim_space (split_char (CHR '','') (form_value c ''events'')))))"

definition web_handleAddCollaborator :: "web_lib \<Rightarrow> web_ctx \<Rightarrow> 'g api_world \<Rightarrow> 'g repo_out" where
  "web_handleAddCollaborator wb c0 =
     settings_form wb c0 (\<lambda>c repo w.
       case lookup_username (request_of c) (form_value c ''username'') w of
         (Inl e, w1) \<Rightarrow> w1
       | (Inr u, w1) \<Rightarrow>
           quietly (AddCollaborator (rp_id repo) (usr_id u)
             (if form_value c ''permission'' = [] then ''read'' else form_value c ''permission'')) w1)"

definition web_handleRemoveCollaborator :: "web_lib \<Rightarrow> web_ctx \<Rightarrow> 'g api_world \<Rightarrow> 'g repo_out" where
  "web_handleRemoveCollaborator wb c0 =
     settings_form wb c0 (\<lambda>c repo w.
       case lookup_username (request_of c) (url_param c ''username'') w of
         (Inl e, w1) \<Rightarrow> w1
       | (Inr u, w1) \<Rightarrow> quietly (RemoveCollaborator (rp_id repo) (usr_id u)) w1)"

definition required_checks :: "string \<Rightarrow> string list" where
  "required_checks text =
     (if trim_space text = [] then []
      else filter (\<lambda>s. s \<noteq> []) (map trim_space (split_char (CHR '','') (trim_space text))))"

definition web_handleProtectBranch :: "web_lib \<Rightarrow> web_ctx \<Rightarrow> 'g api_world \<Rightarrow> 'g repo_out" where
  "web_handleProtectBranch wb c0 =
     settings_form wb c0 (\<lambda>c repo.
       quietly (protect_branch (rp_id repo) (form_value c ''branch'') (required_checks (form_value c ''required_checks''))
         (fst (atoi (form_value c ''require_reviews'')))))"

definition web_handleCreateLabel :: "web_lib \<Rightarrow> web_ctx \<Rightarrow> 'g api_world \<Rightarrow> 'g repo_out" where
  "web_handleCreateLabel wb c0 =
     settings_form wb c0 (\<lambda>c repo.
       quietly (CreateLabel (wq_fresh (wx_req c) 0) (rp_id repo) (form_value c ''name'')
         (if form_value c ''color'' = [] then ''#0366d6'' else form_value c ''color'')))"

definition web_handleDeleteRepo :: "('g, 'k) server \<Rightarrow> web_lib \<Rightarrow> web_ctx \<Rightarrow> 'g api_world \<Rightarrow> 'g repo_out" where
  "web_handleDeleteRepo sv wb c0 =
     requirePOST wb c0 (\<lambda>c. web_getRepo ''write'' c (\<lambda>repo w.
       let back = repo_url repo ''/settings''
       in if form_value c ''confirm'' \<noteq> rp_name repo
          then redirectWithFlash wb back ''Repository name does not match'' True w
          else (case on_store (store_Remove (sr_git sv) (rp_owner_name repo) (rp_name repo)) w of
                  (Inl e, w1) \<Rightarrow> redirectWithFlash wb back (''Failed to remove git data: '' @ err_text e) True w1
                | (Inr _, w1) \<Rightarrow>
                    (case on_repos (repo_Delete (rp_id repo)) w1 of
                       (Inl e, w2) \<Rightarrow> redirectWithFlash wb back (''Failed to delete repository: '' @ err_text e) True w2
                     | (Inr _, w2) \<Rightarrow>
                         with_user c (\<lambda>su w3.
                           redirectWithFlash wb ''/'' ''Repository deleted'' False
                             (quietly (audit_Record (wq_now (wx_req c)) (wq_fresh (wx_req c) 0) (su_id su) ''repo.delete'' ''repo''
                                (uuid_string (sr_crypto sv) (rp_id repo)) (Some (sr_json sv [(''full_name'', rp_full_name repo)]))) w3)) w2))))"

subsection \<open>Wiki\<close>

definition web_handleWiki :: "web_lib \<Rightarrow> web_ctx \<Rightarrow> 'g api_world \<Rightarrow> 'g repo_out" where
  "web_handleWiki wb c =
     web_getRepo ''read'' c (\<lambda>repo w.
       reply (Page (WikiPage (web_layout c ''Wiki'' w) (repoPageCtx wb c repo ''wiki'' w) (wiki_List (rp_id repo) (ap_db w)))) w)"

definition web_handleWikiPage :: "web_lib \<Rightarrow> web_ctx \<Rightarrow> 'g api_world \<Rightarrow> 'g repo_out" where
  "web_handleWikiPage wb c =
     web_getRepo ''read'' c (\<lambda>repo w.
       case wiki_Get (rp_id repo) (url_param c ''slug'') (ap_db w) of
         Inl e \<Rightarrow> not_found w
       | Inr pg \<Rightarrow>
           reply (Page (WikiViewPage (web_layout c (wp_title pg) w) (repoPageCtx wb c repo ''wiki'' w) pg
             (drop_error [] (RenderMarkdown wb (wp_content pg))) (wx_csrf c))) w)"

definition web_handleWikiEdit :: "web_lib \<Rightarrow> web_ctx \<Rightarrow> 'g api_world \<Rightarrow> 'g repo_out" where
  "web_handleWikiEdit wb c =
     web_getRepo ''write'' c (\<lambda>repo w.
       let slug = url_param c ''slug'';
           (title, content) =
             (if slug \<noteq> ''home''
              then (case wiki_Get (rp_id repo) slug (ap_db w) of Inl e \<Rightarrow> ([], []) | Inr pg \<Rightarrow> (wp_title pg, wp_content pg))
              else ([], []))
       in reply (Page (WikiEditPage (web_layout c ''Edit wiki'' w) (repoPageCtx wb c repo ''wiki'' w) slug title content (wx_csrf c))) w)"

text \<open>When the page could not be stored there is none to lead to.\<close>

definition web_handleWikiSave :: "web_lib \<Rightarrow> web_ctx \<Rightarrow> 'g api_world \<Rightarrow> 'g repo_out" where
  "web_handleWikiSave wb c0 =
     requirePOST wb c0 (\<lambda>c. web_getRepo ''write'' c (\<lambda>repo. with_user c (\<lambda>su w.
       let slug0 = url_param c ''slug''; title = form_value c ''title'';
           slug = (if slug0 = ''home'' \<or> slug0 = [] then Slugify title else slug0)
       in case on_db (wiki_Upsert (wq_now (wx_req c)) (wq_fresh (wx_req c) 0) (rp_id repo) (su_id su) slug title
                        (form_value c ''content'')) w of
            (Inl e, w1) \<Rightarrow> reply Panic w1
          | (Inr pg, w1) \<Rightarrow> redirect (repo_url repo (''/wiki/'' @ wp_slug pg)) w1)))"

definition web_handleWikiDelete :: "web_lib \<Rightarrow> web_ctx \<Rightarrow> 'g api_world \<Rightarrow> 'g repo_out" where
  "web_handleWikiDelete wb c0 =
     requirePOST wb c0 (\<lambda>c. web_getRepo ''write'' c (\<lambda>repo w.
       redirect (repo_url repo ''/wiki'') (quietly (wiki_Delete (rp_id repo) (url_param c ''slug'')) w)))"

subsection \<open>Uploads and packages\<close>

definition web_handleUploadReleaseAsset :: "('g, 'k) server \<Rightarrow> web_lib \<Rightarrow> web_ctx \<Rightarrow> 'g api_world \<Rightarrow> 'g repo_out" where
  "web_handleUploadReleaseAsset sv wb c0 =
     requirePOST wb c0 (\<lambda>c. web_getRepo ''write'' c (\<lambda>repo w.
       case GetByTag (rp_id repo) (url_param c ''tag'') (ap_db w) of
         Inl e \<Rightarrow> not_found w
       | Inr rel \<Rightarrow>
           (case wq_file (wx_req c) of
              None \<Rightarrow> redirect (repo_url repo ''/releases'') w
            | Some f \<Rightarrow>
                redirect (repo_url repo ''/releases'')
                  (snd (on_files (UploadAsset (sr_releases sv) (wq_fresh (wx_req c) 0) (rs_id rel) (ff_name f) (ff_type f) (ff_body f)
                                    (ff_size f)) w)))))"

text \<open>
  The one form without a token: the image goes to the upload directory of the server under a new name, which
  ends as the name of the upload does. Neither the token nor the repository of the address is looked at. What was
  written before reading failed stays in the file.
\<close>

definition upload_dir :: "web_lib \<Rightarrow> string" where
  "upload_dir wb = (if wl_upload_dir wb = [] then ''/data/uploads'' else wl_upload_dir wb)"

definition image_type :: "web_lib \<Rightarrow> form_file \<Rightarrow> string" where
  "image_type wb f = (if ff_type f = [] then wl_detect wb (take 512 (fst (ff_body f))) else ff_type f)"

definition image_ext :: "string \<Rightarrow> string" where
  "image_ext name = (case last_index (CHR ''.'') name of None \<Rightarrow> ''.png'' | Some i \<Rightarrow> drop i name)"

definition web_handleUploadImage :: "('g, 'k) server \<Rightarrow> web_lib \<Rightarrow> web_ctx \<Rightarrow> 'g api_world \<Rightarrow> 'g repo_out" where
  "web_handleUploadImage sv wb c w =
     (let q = wx_req c
      in if wq_method q \<noteq> ''POST'' then http_error 405 ''method not allowed'' w
         else if wq_form q = None \<or> \<not> wq_multipart q \<or> wq_large q then http_error 413 ''file too large'' w
         else (case wq_file q of
                 None \<Rightarrow> http_error 400 ''missing file'' w
               | Some f \<Rightarrow>
                   if \<not> prefix ''image/'' (image_type wb f) then http_error 400 ''file must be an image'' w
                   else (case wl_mkdir wb (ap_files w) (upload_dir wb) of
                           Some e \<Rightarrow> http_error 500 ''server error'' w
                         | None \<Rightarrow>
                             (let name = uuid_string (sr_crypto sv) (wq_fresh q 0) @ image_ext (ff_name f);
                                  path = upload_dir wb @ ''/'' @ name
                              in case wl_create wb (ap_files w) path of
                                   Some e \<Rightarrow> http_error 500 ''server error'' w
                                 | None \<Rightarrow>
                                     (let w1 = w\<lparr>ap_files := (ap_files w)(path \<mapsto> fst (ff_body f))\<rparr>
                                      in case snd (ff_body f) of
                                           Some e \<Rightarrow> http_error 500 ''server error'' w1
                                         | None \<Rightarrow> reply (Plain (''/uploads/'' @ name)) w1)))))"

definition web_handlePackages :: "web_lib \<Rightarrow> web_ctx \<Rightarrow> 'g api_world \<Rightarrow> 'g repo_out" where
  "web_handlePackages wb c =
     web_getRepo ''read'' c (\<lambda>repo w.
       reply (Page (PackagesPage (web_layout c ''Packages'' w) (repoPageCtx wb c repo ''packages'' w)
         (package_List (rp_id repo) (ap_db w)) (wx_csrf c))) w)"

text \<open>The file is read to its end or to the first error, which is dropped.\<close>

definition web_handlePublishPackage :: "('g, 'k) server \<Rightarrow> web_lib \<Rightarrow> web_ctx \<Rightarrow> 'g api_world \<Rightarrow> 'g repo_out" where
  "web_handlePublishPackage sv wb c0 =
     requirePOST wb c0 (\<lambda>c. web_getRepo ''write'' c (\<lambda>repo w.
       redirect (repo_url repo ''/packages'')
         (case wq_file (wx_req c) of
            None \<Rightarrow> w
          | Some f \<Rightarrow>
              snd (on_files (Publish (sr_packages sv) (wq_now (wx_req c)) (wq_fresh (wx_req c) 0) (rp_id repo) (form_value c ''name'')
                     (if form_value c ''type'' = [] then ''generic'' else form_value c ''type'') (form_value c ''version'')
                     (fst (ff_body f), None)) w))))"

end
