(* ===== verification/WebIssue.thy ===== *)
theory WebIssue
  imports WebCore
begin

section \<open>Issues, pull requests, runs and releases of a repository (internal/web/handlers.go)\<close>

text \<open>
  The handlers that change something drop the errors of the services; two of them then follow a nil pointer.
\<close>

record web_workflow =
  ww_id :: string
  ww_name :: string
  ww_path :: string
  ww_active :: bool

record web_run =
  rw_id :: string
  rw_number :: int
  rw_event :: string
  rw_head :: string
  rw_status :: string
  rw_conclusion :: string
  rw_created :: instant

record pr_detail_data =
  pd_frame :: repo_frame
  pd_pr :: pull_request
  pd_author :: string
  pd_reviews :: "review list"
  pd_comments :: "line_comment list"
  pd_files :: "diff_file list"
  pd_csrf :: string
  pd_mergeable :: bool

datatype issue_page =
    IssuesPage layout_data repo_frame "issue list" string string int int nat nat
  | IssueDetailPage layout_data repo_frame issue "issue_comment list" "label list" "milestone list" "string list" string
  | MilestonesPage layout_data repo_frame "milestone list" string
  | PullsPage layout_data repo_frame "pull_request list" string string string
  | PRDetailPage layout_data pr_detail_data
  | ActionsPage layout_data repo_frame "web_workflow list" "web_run list" string
  | ActionLogsPartial string string
  | ReleasesPage layout_data repo_frame "(release \<times> asset list) list" string
  | Toast string string

type_synonym 'g issue_out = "(issue_page, 'g) web_out"

definition numbered_url :: "repository \<Rightarrow> string \<Rightarrow> int \<Rightarrow> string" where
  "numbered_url repo part n = ''/'' @ rp_full_name repo @ ''/'' @ part @ ''/'' @ int_string n"

subsection \<open>Issues\<close>

definition web_handleIssues :: "web_lib \<Rightarrow> web_ctx \<Rightarrow> 'g api_world \<Rightarrow> 'g issue_out" where
  "web_handleIssues wb c =
     web_getRepo ''read'' c (\<lambda>repo w.
       let shown = (if query_value c ''state'' = [] then ''open'' else query_value c ''state'');
           (nr, limit) = parsePageLimit (query_value c ''page'') (query_value c ''limit'') 1 25;
           offset = wrap64 ((nr - 1) * limit);
           (opened, closed) = CountByRepo (rp_id repo) (ap_db w)
       in reply (Page (IssuesPage (web_layout c ''Issues'' w) (repoPageCtx wb c repo ''issues'' w)
            (issue_ListPaginated (rp_id repo) limit offset (ap_db w)) shown (wx_csrf c) nr limit opened closed)) w)"

definition web_handleCreateIssue :: "web_lib \<Rightarrow> web_ctx \<Rightarrow> 'g api_world \<Rightarrow> 'g issue_out" where
  "web_handleCreateIssue wb c0 =
     requirePOST wb c0 (\<lambda>c. web_getRepo ''write'' c (\<lambda>repo. with_user c (\<lambda>su w.
       case on_db (issue_Create (wq_now (wx_req c)) (wq_fresh (wx_req c) 0) (rp_id repo) (su_id su) (form_value c ''title'')
                     (form_value c ''body'')) w of
         (Inl e, w1) \<Rightarrow> reply Panic w1
       | (Inr i, w1) \<Rightarrow> redirect (numbered_url repo ''issues'' (iu_number i)) w1)))"

definition web_issue ::
  "web_ctx \<Rightarrow> repository \<Rightarrow> int \<Rightarrow> (issue \<Rightarrow> 'g api_world \<Rightarrow> 'g issue_out) \<Rightarrow> 'g api_world \<Rightarrow> 'g issue_out" where
  "web_issue c repo n k w = (case issue_Get (rp_id repo) n (ap_db w) of Inl e \<Rightarrow> not_found w | Inr i \<Rightarrow> k i w)"

definition web_handleIssueDetail :: "web_lib \<Rightarrow> web_ctx \<Rightarrow> 'g api_world \<Rightarrow> 'g issue_out" where
  "web_handleIssueDetail wb c =
     web_getRepo ''read'' c (\<lambda>repo. parseNum c ''number'' (\<lambda>n. web_issue c repo n (\<lambda>i w.
       let d = ap_db w; rid = rp_id repo
       in reply (Page (IssueDetailPage (web_layout c (iu_title i) w) (repoPageCtx wb c repo ''issues'' w) i
            (issue_ListComments (iu_id i) d) (ListLabels rid d) (ListMilestones rid d) (ListRepoUsers rid d) (wx_csrf c))) w)))"

text \<open>What the forms on an issue have in common: the access, the number, and the issue.\<close>

definition issue_form ::
  "web_lib \<Rightarrow> web_ctx \<Rightarrow> (web_ctx \<Rightarrow> repository \<Rightarrow> int \<Rightarrow> issue \<Rightarrow> 'g api_world \<Rightarrow> 'g issue_out) \<Rightarrow> 'g api_world \<Rightarrow> 'g issue_out" where
  "issue_form wb c0 k =
     requirePOST wb c0 (\<lambda>c. web_getRepo ''write'' c (\<lambda>repo. parseNum c ''number'' (\<lambda>n. web_issue c repo n (k c repo n))))"

definition web_handleIssueComment :: "web_lib \<Rightarrow> web_ctx \<Rightarrow> 'g api_world \<Rightarrow> 'g issue_out" where
  "web_handleIssueComment wb c0 =
     issue_form wb c0 (\<lambda>c repo n i. with_user c (\<lambda>su w.
       redirect (numbered_url repo ''issues'' n)
         (quietly (issue_AddComment (wq_now (wx_req c)) (wq_fresh (wx_req c) 0) (iu_id i) (su_id su) (form_value c ''body'')) w)))"

definition web_handleCloseIssue :: "web_lib \<Rightarrow> web_ctx \<Rightarrow> 'g api_world \<Rightarrow> 'g issue_out" where
  "web_handleCloseIssue wb c0 =
     issue_form wb c0 (\<lambda>c repo n i w.
       let w1 = quietly (issue_Close (wq_now (wx_req c)) (iu_id i)) w
       in with_user c (\<lambda>su w2.
            redirect (numbered_url repo ''issues'' n)
              (if iu_author_id i \<noteq> su_id su
               then notify (request_of c) 0 (iu_author_id i) ''Issue closed'' (in_repo ''Issue #'' n '' was closed in '' repo)
                      (numbered_url repo ''issues'' n) w2
               else w2)) w1)"

text \<open>A name nobody has clears the assignee, and the answer is that of a success.\<close>

definition web_handleIssueAssignee :: "web_lib \<Rightarrow> web_ctx \<Rightarrow> 'g api_world \<Rightarrow> 'g issue_out" where
  "web_handleIssueAssignee wb c0 =
     issue_form wb c0 (\<lambda>c repo n i w.
       let name = form_value c ''assignee'';
           (uid, w1) =
             (if name = [] then (None, w)
              else (case lookup_username (request_of c) name w of (Inl e, w1) \<Rightarrow> (None, w1) | (Inr u, w1) \<Rightarrow> (Some (usr_id u), w1)))
       in reply (Page (Toast ''Assignee updated'' ''success''))
            (quietly (SetAssignee (wq_now (wx_req c)) (iu_id i) uid) w1))"

definition web_handleIssueMilestone :: "('g, 'k) server \<Rightarrow> web_lib \<Rightarrow> web_ctx \<Rightarrow> 'g api_world \<Rightarrow> 'g issue_out" where
  "web_handleIssueMilestone sv wb c0 =
     issue_form wb c0 (\<lambda>c repo n i w.
       let mid = form_value c ''milestone_id'';
           parsed = (if mid = [] then None else uuid_parse (sr_crypto sv) mid)
       in reply (Page (Toast ''Milestone updated'' ''success''))
            (quietly (SetMilestone (wq_now (wx_req c)) (iu_id i) parsed) w))"

definition label_form ::
  "('g, 'k) server \<Rightarrow> web_lib \<Rightarrow> web_ctx \<Rightarrow> (uuid \<Rightarrow> uuid \<Rightarrow> db \<Rightarrow> unit result \<times> db) \<Rightarrow> 'g api_world \<Rightarrow> 'g issue_out" where
  "label_form sv wb c0 f =
     requirePOST wb c0 (\<lambda>c. web_getRepo ''write'' c (\<lambda>repo. parseNum c ''number'' (\<lambda>n. parseUUIDParam sv c ''labelID'' (\<lambda>lid.
       web_issue c repo n (\<lambda>i w. redirect (numbered_url repo ''issues'' n) (quietly (f (iu_id i) lid) w))))))"

definition web_handleIssueAddLabel :: "('g, 'k) server \<Rightarrow> web_lib \<Rightarrow> web_ctx \<Rightarrow> 'g api_world \<Rightarrow> 'g issue_out" where
  "web_handleIssueAddLabel sv wb c0 = label_form sv wb c0 AddLabel"

definition web_handleIssueRemoveLabel :: "('g, 'k) server \<Rightarrow> web_lib \<Rightarrow> web_ctx \<Rightarrow> 'g api_world \<Rightarrow> 'g issue_out" where
  "web_handleIssueRemoveLabel sv wb c0 = label_form sv wb c0 RemoveLabel"

subsection \<open>Milestones\<close>

definition web_handleMilestones :: "web_lib \<Rightarrow> web_ctx \<Rightarrow> 'g api_world \<Rightarrow> 'g issue_out" where
  "web_handleMilestones wb c =
     web_getRepo ''read'' c (\<lambda>repo w.
       reply (Page (MilestonesPage (web_layout c ''Milestones'' w) (repoPageCtx wb c repo ''milestones'' w)
         (ListMilestones (rp_id repo) (ap_db w)) (wx_csrf c))) w)"

definition web_handleCreateMilestone :: "web_lib \<Rightarrow> web_ctx \<Rightarrow> 'g api_world \<Rightarrow> 'g issue_out" where
  "web_handleCreateMilestone wb c0 =
     requirePOST wb c0 (\<lambda>c. web_getRepo ''write'' c (\<lambda>repo w.
       redirect (''/'' @ rp_full_name repo @ ''/milestones'')
         (quietly (CreateMilestone (wq_now (wx_req c)) (wq_fresh (wx_req c) 0) (rp_id repo) (form_value c ''title'')
                     (form_value c ''description'') None) w)))"

text \<open>The repository is checked, and then any milestone may be named.\<close>

definition web_handleCloseMilestone :: "('g, 'k) server \<Rightarrow> web_lib \<Rightarrow> web_ctx \<Rightarrow> 'g api_world \<Rightarrow> 'g issue_out" where
  "web_handleCloseMilestone sv wb c0 =
     requirePOST wb c0 (\<lambda>c. web_getRepo ''write'' c (\<lambda>repo. parseUUIDParam sv c ''id'' (\<lambda>mid w.
       redirect (''/'' @ rp_full_name repo @ ''/milestones'') (quietly (CloseMilestone mid) w))))"

subsection \<open>Pull requests\<close>

definition web_handlePulls :: "web_lib \<Rightarrow> web_ctx \<Rightarrow> 'g api_world \<Rightarrow> 'g issue_out" where
  "web_handlePulls wb c =
     web_getRepo ''read'' c (\<lambda>repo w.
       reply (Page (PullsPage (web_layout c ''Pull requests'' w) (repoPageCtx wb c repo ''pulls'' w) (pull_List (rp_id repo) (ap_db w))
         (query_value c ''state'') (rp_branch repo) (wx_csrf c))) w)"

definition web_handleCreatePR :: "('g, 'k) server \<Rightarrow> web_lib \<Rightarrow> web_ctx \<Rightarrow> 'g api_world \<Rightarrow> 'g issue_out" where
  "web_handleCreatePR sv wb c0 =
     requirePOST wb c0 (\<lambda>c. web_getRepo ''write'' c (\<lambda>repo. with_user c (\<lambda>su w.
       let head = form_value c ''head'';
           base = (if form_value c ''base'' = [] then rp_branch repo else form_value c ''base'')
       in case UpdateHead (sr_git sv) (rp_owner_name repo) (rp_name repo) head (ap_store w) of
            Inl e \<Rightarrow> redirect (''/'' @ rp_full_name repo @ ''/pulls'') w
          | Inr sha \<Rightarrow>
              (case on_db (pull_Create (wq_now (wx_req c)) (wq_fresh (wx_req c) 0) (rp_id repo) (su_id su) (form_value c ''title'')
                             (form_value c ''body'') head base sha) w of
                 (Inl e, w1) \<Rightarrow> reply Panic w1
               | (Inr pr, w1) \<Rightarrow> redirect (numbered_url repo ''pulls'' (pq_number pr)) w1))))"

definition web_pull ::
  "web_ctx \<Rightarrow> repository \<Rightarrow> int \<Rightarrow> (pull_request \<Rightarrow> 'g api_world \<Rightarrow> 'g issue_out) \<Rightarrow> 'g api_world \<Rightarrow> 'g issue_out" where
  "web_pull c repo n k w = (case pull_Get (rp_id repo) n (ap_db w) of Inl e \<Rightarrow> not_found w | Inr pr \<Rightarrow> k pr w)"

definition web_handlePRDetail :: "('g, 'k) server \<Rightarrow> web_lib \<Rightarrow> web_ctx \<Rightarrow> 'g api_world \<Rightarrow> 'g issue_out" where
  "web_handlePRDetail sv wb c =
     web_getRepo ''read'' c (\<lambda>repo. parseNum c ''number'' (\<lambda>n. web_pull c repo n (\<lambda>pr w.
       let st = ap_store w; d = ap_db w;
           baseSHA = drop_error [] (UpdateHead (sr_git sv) (rp_owner_name repo) (rp_name repo) (pq_base pr) st);
           diff = drop_error [] (store_Diff (sr_git sv) (rp_owner_name repo) (rp_name repo) baseSHA (pq_head_sha pr) st);
           (mergeable, w0) = (if pq_state pr = ''open''
                        then on_store (CanMerge (sr_git sv) (rp_owner_name repo) (rp_name repo) (pq_base pr) (pq_head pr)) w
                        else (Inr True, w));
           frame = repoPageCtx wb c repo ''pulls'' w0;
           (found, w1) = lookup_user sv (request_of c) (pq_author pr) w0
       in reply (Page (PRDetailPage (web_layout c (pq_title pr) w1)
            \<lparr>pd_frame = frame, pd_pr = pr, pd_author = (case found of Inl e \<Rightarrow> ''author'' | Inr u \<Rightarrow> usr_name u),
             pd_reviews = ListReviews (pq_id pr) d, pd_comments = pull_ListComments (pq_id pr) d,
             pd_files = ParseUnifiedDiff diff, pd_csrf = wx_csrf c, pd_mergeable = drop_error True mergeable\<rparr>)) w1)))"

definition pull_form ::
  "web_lib \<Rightarrow> web_ctx \<Rightarrow> (web_ctx \<Rightarrow> repository \<Rightarrow> int \<Rightarrow> pull_request \<Rightarrow> 'g api_world \<Rightarrow> 'g issue_out) \<Rightarrow> 'g api_world \<Rightarrow> 'g issue_out" where
  "pull_form wb c0 k =
     requirePOST wb c0 (\<lambda>c. web_getRepo ''write'' c (\<lambda>repo. parseNum c ''number'' (\<lambda>n. web_pull c repo n (k c repo n))))"

definition web_handlePRComment :: "web_lib \<Rightarrow> web_ctx \<Rightarrow> 'g api_world \<Rightarrow> 'g issue_out" where
  "web_handlePRComment wb c0 =
     pull_form wb c0 (\<lambda>c repo n pr. with_user c (\<lambda>su w.
       redirect (numbered_url repo ''pulls'' n)
         (quietly (pull_AddComment (wq_now (wx_req c)) (wq_fresh (wx_req c) 0) (pq_id pr) (su_id su) (form_value c ''body'')
                     (form_value c ''path'') (fst (atoi (form_value c ''line'')))) w)))"

definition web_handlePRReview :: "web_lib \<Rightarrow> web_ctx \<Rightarrow> 'g api_world \<Rightarrow> 'g issue_out" where
  "web_handlePRReview wb c0 =
     pull_form wb c0 (\<lambda>c repo n pr. with_user c (\<lambda>su w.
       redirect (numbered_url repo ''pulls'' n)
         (quietly (AddReview (wq_now (wx_req c)) (wq_fresh (wx_req c) 0) (pq_id pr) (su_id su) (form_value c ''state'')
                     (form_value c ''body'')) w)))"

definition web_handlePRMerge :: "('g, 'k) server \<Rightarrow> web_lib \<Rightarrow> web_ctx \<Rightarrow> 'g api_world \<Rightarrow> 'g issue_out" where
  "web_handlePRMerge sv wb c0 =
     pull_form wb c0 (\<lambda>c repo n pr w.
       let approved = int (ReviewCount (pq_id pr) ''approved'' (ap_db w))
       in case ValidateMergeProtection (rp_id repo) (pq_base pr) (pq_head_sha pr) approved (ap_db w) of
            Inl e \<Rightarrow> http_error 403 (err_text e) w
          | Inr _ \<Rightarrow>
              (case on_store (store_Merge (sr_git sv) (rp_owner_name repo) (rp_name repo) (pq_base pr) (pq_head pr) False) w of
                 (Inl e, w1) \<Rightarrow> http_error 409 (err_text e) w1
               | (Inr sha, w1) \<Rightarrow>
                   redirect (numbered_url repo ''pulls'' n)
                     (notify (request_of c) 0 (pq_author pr) ''PR merged'' (in_repo ''PR #'' n '' was merged in '' repo)
                        (numbered_url repo ''pulls'' n)
                        (quietly (UpdateBranchHead (rp_id repo) (pq_base pr) sha)
                           (quietly (pull_Merge (wq_now (wx_req c)) (pq_id pr) sha) w1)))))"

subsection \<open>Workflow runs\<close>

definition web_workflow_of :: "('g, 'k) server \<Rightarrow> workflow_row \<Rightarrow> web_workflow" where
  "web_workflow_of sv f =
     \<lparr>ww_id = uuid_string (sr_crypto sv) (wf_id f), ww_name = wf_name f, ww_path = wf_path f, ww_active = wf_active f\<rparr>"

definition web_run_of :: "('g, 'k) server \<Rightarrow> run_row \<Rightarrow> web_run" where
  "web_run_of sv q =
     \<lparr>rw_id = uuid_string (sr_crypto sv) (wr_id q), rw_number = wr_number q, rw_event = wr_event q, rw_head = wr_branch q,
      rw_status = wr_status q, rw_conclusion = coalesce (wr_conclusion q) [], rw_created = wr_created q\<rparr>"

definition web_handleActions :: "('g, 'k) server \<Rightarrow> web_lib \<Rightarrow> web_ctx \<Rightarrow> 'g api_world \<Rightarrow> 'g issue_out" where
  "web_handleActions sv wb c =
     web_getRepo ''read'' c (\<lambda>repo w.
       let d = ap_db w
       in reply (Page (ActionsPage (web_layout c ''Actions'' w) (repoPageCtx wb c repo ''actions'' w)
            (map (web_workflow_of sv) (order_by wf_name (rows_where (\<lambda>f. wf_repo f = rp_id repo) (workflows d))))
            (map (web_run_of sv) (take 50 (order_by_desc wr_number (rows_where (\<lambda>q. wr_repo q = rp_id repo) (runs d)))))
            (wx_csrf c))) w)"

text \<open>After a refusal the badge of an unknown repository follows the first answer.\<close>

definition web_handleBadge :: "web_ctx \<Rightarrow> 'g api_world \<Rightarrow> 'g issue_out" where
  "web_handleBadge c =
     web_getRepo_or (Svg (badgeSVG ''CI'' ''inactive'' ''#656d76'')) ''read'' c (\<lambda>repo w.
       case order_by_desc wr_created (rows_where (\<lambda>q. wr_repo q = rp_id repo) (runs (ap_db w))) of
         [] \<Rightarrow> reply (Svg (badgeSVG ''CI'' ''not run'' ''#656d76'')) w
       | q # qs \<Rightarrow>
           (let conclusion = coalesce (wr_conclusion q) []
            in reply (Svg (badgeSVG ''CI'' (badgeValue conclusion (wr_status q)) (badgeColor conclusion (wr_status q)))) w))"

definition web_handleTriggerAction :: "('g, 'k) server \<Rightarrow> web_lib \<Rightarrow> web_ctx \<Rightarrow> 'g api_world \<Rightarrow> 'g issue_out" where
  "web_handleTriggerAction sv wb c0 =
     requirePOST wb c0 (\<lambda>c. web_getRepo ''write'' c (\<lambda>repo w.
       let back = ''/'' @ rp_full_name repo @ ''/actions'';
           branch = (if form_value c ''branch'' = [] then rp_branch repo else form_value c ''branch'')
       in case uuid_parse (sr_crypto sv) (form_value c ''workflow_id'') of
            None \<Rightarrow> redirect back w
          | Some wid \<Rightarrow>
              (case UpdateHead (sr_git sv) (rp_owner_name repo) (rp_name repo) branch (ap_store w) of
                 Inl e \<Rightarrow> redirect back w
               | Inr sha \<Rightarrow>
                   (case on_db (insert_run (new_run (wq_now (wx_req c)) (wq_fresh (wx_req c) 0) (rp_id repo) wid
                                  (run_number_of (rp_id repo) (ap_db w)) ''workflow_dispatch'' sha branch)) w of
                      (Inl e, w1) \<Rightarrow> redirect back w1
                    | (Inr _, w1) \<Rightarrow> redirectWithFlash wb back ''Workflow triggered'' False w1))))"

text \<open>The run of the address is not looked up, only its jobs: they may belong to another repository.\<close>

definition job_log_text :: "files \<Rightarrow> job_row \<Rightarrow> string" where
  "job_log_text fs j =
     ''=== '' @ wj_job j @ '' ==='' @ newline
     @ (case wj_log j of None \<Rightarrow> [] | Some path \<Rightarrow> coalesce (fs path) [] @ newline)"

definition web_handleActionLogs :: "('g, 'k) server \<Rightarrow> web_ctx \<Rightarrow> 'g api_world \<Rightarrow> 'g issue_out" where
  "web_handleActionLogs sv c =
     web_getRepo ''read'' c (\<lambda>repo w.
       case uuid_parse (sr_crypto sv) (url_param c ''runID'') of
         None \<Rightarrow> http_error 400 ''invalid run'' w
       | Some rid \<Rightarrow>
           reply (Page (ActionLogsPartial (concat (map (job_log_text (ap_files w)) (rows_where (\<lambda>j. wj_run j = rid) (jobs (ap_db w)))))
             (''/'' @ rp_owner_name repo @ ''/'' @ rp_name repo @ ''/actions/runs/'' @ uuid_string (sr_crypto sv) rid @ ''/logs''))) w)"

subsection \<open>Releases\<close>

definition web_handleReleases :: "web_lib \<Rightarrow> web_ctx \<Rightarrow> 'g api_world \<Rightarrow> 'g issue_out" where
  "web_handleReleases wb c =
     web_getRepo ''read'' c (\<lambda>repo w.
       reply (Page (ReleasesPage (web_layout c ''Releases'' w) (repoPageCtx wb c repo ''releases'' w)
         (map (\<lambda>rel. (rel, ListAssets (rs_id rel) (ap_db w))) (release_List (rp_id repo) (ap_db w))) (wx_csrf c))) w)"

definition web_handleCreateRelease :: "web_lib \<Rightarrow> web_ctx \<Rightarrow> 'g api_world \<Rightarrow> 'g issue_out" where
  "web_handleCreateRelease wb c0 =
     requirePOST wb c0 (\<lambda>c. web_getRepo ''write'' c (\<lambda>repo. with_user c (\<lambda>su w.
       let back = ''/'' @ rp_full_name repo @ ''/releases''
       in case on_db (release_Create (wq_now (wx_req c)) (wq_fresh (wx_req c) 0) (rp_id repo) (su_id su) (form_value c ''tag'')
                        (form_value c ''name'') (form_value c ''body'') False False) w of
            (Inl e, w1) \<Rightarrow> redirectWithFlash wb back (err_text e) True w1
          | (Inr rel, w1) \<Rightarrow> redirectWithFlash wb back ''Release created'' False w1)))"

end
