(* ===== verification/WebGuard.thy ===== *)
theory WebGuard
  imports Api WebUser WebRepo WebIssue
begin

section \<open>What the web front end guarantees, and what it does not\<close>

text \<open>
  The routes below a repository's address, as two relations: the forms, which change something, and the
  pages. The properties are about the whole way of a request, from the cookies to the data stored.
\<close>

subsection \<open>Who asks, and whether the form is the server's\<close>

definition web_caller :: "('g, 'k) server \<Rightarrow> web_request \<Rightarrow> 'g api_world \<Rightarrow> uuid option" where
  "web_caller sv q w =
     (if wq_session q = [] then None
      else (case ValidateToken (sr_crypto sv) (sr_auth sv) (wq_now q) (wq_session q) (ap_db w) of
              Inl e \<Rightarrow> None | Inr (uid, name) \<Rightarrow> Some uid))"

definition web_may :: "string \<Rightarrow> ('g, 'k) server \<Rightarrow> web_request \<Rightarrow> 'g api_world \<Rightarrow> bool" where
  "web_may perm sv q w =
     (case web_caller sv q w of
        None \<Rightarrow> False
      | Some uid \<Rightarrow>
          (case fst (GetByFullName (wq_now q) (wq_params q ''owner'') (wq_params q ''repo'') (ap_repos w) (ap_db w)) of
             Inl e \<Rightarrow> False
           | Inr repo \<Rightarrow> CanAccess (rp_id repo) uid perm (ap_db w) = Inr True))"

definition sent_token :: "web_request \<Rightarrow> string" where
  "sent_token q = (let got = values_get (form_values q) ''csrf_token'' in if got = [] then wq_csrf_header q else got)"

definition form_genuine :: "web_lib \<Rightarrow> web_request \<Rightarrow> bool" where
  "form_genuine wb q = (wq_method q = ''POST'' \<and> sent_token q = wq_csrf_cookie q \<and> csrf_valid wb q (sent_token q))"

text \<open>The token the server draws for a request whose cookie is missing or wrong.\<close>

definition drawn_token :: "web_lib \<Rightarrow> web_request \<Rightarrow> string result" where
  "drawn_token wb q = fst (newCSRFToken wb q 1)"

subsection \<open>The way to a handler\<close>

lemma lookup_user_frame:
  assumes "lookup_user sv r uid w = (out, w1)"
  shows "ap_db w1 = ap_db w" "ap_repos w1 = ap_repos w" "ap_store w1 = ap_store w" "ap_files w1 = ap_files w" "ap_docs w1 = ap_docs w"
  using assms by (auto simp: lookup_user_def on_users_def split: prod.splits)

lemma lookup_username_frame:
  assumes "lookup_username r name w = (out, w1)"
  shows "ap_db w1 = ap_db w" "ap_repos w1 = ap_repos w" "ap_store w1 = ap_store w" "ap_files w1 = ap_files w" "ap_docs w1 = ap_docs w"
  using assms by (auto simp: lookup_username_def on_users_def split: prod.splits)

definition same_repos :: "'g api_world \<Rightarrow> 'g api_world \<Rightarrow> bool" where
  "same_repos w w1 = (same_data w w1 \<and> ap_repos w1 = ap_repos w)"

lemma withUser_frame: "withUser sv c w = (su, w1) \<Longrightarrow> same_repos w w1"
  by (auto simp: withUser_def same_repos_def same_data_def Let_def lookup_user_frame split: if_splits sum.splits prod.splits)

lemma withUser_caller:
  "withUser sv c w = (su, w1) \<Longrightarrow> web_caller sv (wx_req c) w = map_option su_id su"
  by (auto simp: withUser_def web_caller_def Let_def split: if_splits sum.splits prod.splits)

lemma same_repos_caller: "same_repos w w1 \<Longrightarrow> web_caller sv q w1 = web_caller sv q w"
  by (simp add: web_caller_def same_repos_def same_data_def)

lemma set_cookies_simps [simp]:
  "snd (set_cookies cs out) = snd out" "wr_answer (fst (set_cookies cs out)) = wr_answer (fst out)"
  by (simp_all add: set_cookies_def split: prod.split)

lemma reply_simps [simp]: "snd (reply a w) = w" "wr_answer (fst (reply a w)) = a"
  by (simp_all add: reply_def)

lemma refusal_simps [simp]:
  "redirect u w = reply (Redirect u) w" "not_found w = reply (HttpError 404 ''404 page not found'') w"
  "http_error n m w = reply (HttpError n m) w"
  by (simp_all add: redirect_def not_found_def http_error_def)

text \<open>A request without a valid session gets the login page, whatever page it asks for.\<close>

lemma login_required:
  assumes "web_caller sv q w = None"
  shows "wr_answer (fst (user_route sv wb h q w)) = Redirect (''/login?next='' @ wq_path q)
    \<and> same_data w (snd (user_route sv wb h q w))"
proof -
  obtain su w1 where 1: "withUser sv (fresh_ctx q) w = (su, w1)" by fastforce
  obtain token cs where 2: "ensureCSRF wb q 0 = (token, cs)" by fastforce
  define c where "c = (fresh_ctx q)\<lparr>wx_user := or_else su None, wx_csrf := drop_error [] token\<rparr>"
  have req: "wx_req (fresh_ctx q) = q" "wx_req c = q" "wx_user (fresh_ctx q) = None" by (simp_all add: c_def fresh_ctx_def)
  obtain su2 w2 where 3: "withUser sv c w1 = (su2, w2)" by fastforce
  have "su2 = None"
    using withUser_caller [OF 3] assms same_repos_caller [OF withUser_frame [OF 1], of sv q] by (simp add: req)
  moreover have "same_data w w2"
    using withUser_frame [OF 1] withUser_frame [OF 3] by (simp add: same_repos_def same_data_def)
  moreover have "user_route sv wb h q w = set_cookies cs (requireAuth sv wb h c w1)"
    unfolding user_route_def optionalAuth_def 1 prod.case req 2 c_def by (rule refl)
  ultimately show ?thesis using 3 by (simp add: requireAuth_def req)
qed

text \<open>With a session the handler runs, on the same data, with the caller and a token for forms.\<close>

definition user_ctx :: "web_lib \<Rightarrow> web_request \<Rightarrow> session_user \<Rightarrow> web_ctx" where
  "user_ctx wb q su = \<lparr>wx_req = q, wx_user = Some su, wx_csrf = drop_error [] (fst (ensureCSRF wb q 1))\<rparr>"

lemma user_route_runs:
  assumes "web_caller sv q w = Some uid"
  obtains su w2 where "su_id su = uid" "same_repos w w2"
    "wr_answer (fst (user_route sv wb h q w)) = wr_answer (fst (h (user_ctx wb q su) w2))"
    "snd (user_route sv wb h q w) = snd (h (user_ctx wb q su) w2)"
proof -
  obtain su w1 where 1: "withUser sv (fresh_ctx q) w = (su, w1)" by fastforce
  obtain token cs where 2: "ensureCSRF wb q 0 = (token, cs)" by fastforce
  obtain token2 cs2 where 4: "ensureCSRF wb q 1 = (token2, cs2)" by fastforce
  define c where "c = (fresh_ctx q)\<lparr>wx_user := or_else su None, wx_csrf := drop_error [] token\<rparr>"
  have req: "wx_req (fresh_ctx q) = q" "wx_req c = q" "wx_user (fresh_ctx q) = None" by (simp_all add: c_def fresh_ctx_def)
  obtain su2 w2 where 3: "withUser sv c w1 = (su2, w2)" by fastforce
  have "map_option su_id su2 = Some uid"
    using withUser_caller [OF 3] assms same_repos_caller [OF withUser_frame [OF 1], of sv q] by (simp add: req)
  then obtain su3 where su: "su2 = Some su3" "su_id su3 = uid" by auto
  have frame: "same_repos w w2"
    using withUser_frame [OF 1] withUser_frame [OF 3] by (simp add: same_repos_def same_data_def)
  have ctx: "c\<lparr>wx_user := Some su3, wx_csrf := drop_error [] token2\<rparr> = user_ctx wb q su3"
    using 4 by (simp add: c_def fresh_ctx_def user_ctx_def)
  have "user_route sv wb h q w = set_cookies cs (requireAuth sv wb h c w1)"
    unfolding user_route_def optionalAuth_def 1 prod.case req 2 c_def by (rule refl)
  also have "requireAuth sv wb h c w1 = set_cookies cs2 (h (user_ctx wb q su3) w2)"
    unfolding requireAuth_def req 3 prod.case su(1) option.case 4 ctx by (rule refl)
  finally show ?thesis using that [OF su(2) frame] by simp
qed

lemma repo_access_user_ctx:
  assumes "same_repos w w2" and "web_caller sv q w = Some (su_id su)" and "repo_access perm (user_ctx wb q su) w2 = (out, w3)"
  shows "same_data w w3"
    and "out = Inr repo \<Longrightarrow> web_may perm sv q w"
    and "out = Inl a \<Longrightarrow> \<exists>n m. a = HttpError n m"
proof -
  obtain found rc where get: "GetByFullName (wq_now q) (wq_params q ''owner'') (wq_params q ''repo'') (ap_repos w) (ap_db w) = (found, rc)"
    by fastforce
  have [simp]: "ap_repos w2 = ap_repos w" "ap_db w2 = ap_db w" "same_data w w2"
    using assms(1) by (simp_all add: same_repos_def same_data_def)
  have frame: "same_data w (w2\<lparr>ap_repos := rc\<rparr>)"
    using \<open>same_data w w2\<close> by (simp add: same_data_def)
  from get assms(2,3) show "same_data w w3"
    by (auto simp: repo_access_def user_ctx_def url_param_def frame split: sum.splits if_splits)
  from get assms(2,3) show "out = Inr repo \<Longrightarrow> web_may perm sv q w"
    by (auto simp: repo_access_def user_ctx_def url_param_def web_may_def drop_error_def split: sum.splits if_splits)
  from get assms(2,3) show "out = Inl a \<Longrightarrow> \<exists>n m. a = HttpError n m"
    by (auto simp: repo_access_def user_ctx_def url_param_def split: sum.splits if_splits)
qed

lemma repo_access_csrf: "repo_access perm (c\<lparr>wx_csrf := x\<rparr>) w = repo_access perm c w"
proof -
  have ctx: "wx_user (c\<lparr>wx_csrf := x\<rparr>) = wx_user c" "wx_req (c\<lparr>wx_csrf := x\<rparr>) = wx_req c" by simp_all
  show ?thesis unfolding repo_access_def url_param_def ctx by (rule refl)
qed

lemma requirePOST_cases:
  obtains n m where "wr_answer (fst (requirePOST wb c k w)) = HttpError n m" "snd (requirePOST wb c k w) = w"
  | x where "wq_method (wx_req c) = ''POST''" "validateCSRF c"
      "wr_answer (fst (requirePOST wb c k w)) = wr_answer (fst (k (c\<lparr>wx_csrf := x\<rparr>) w))"
      "snd (requirePOST wb c k w) = snd (k (c\<lparr>wx_csrf := x\<rparr>) w)"
proof (cases "wq_method (wx_req c) = ''POST'' \<and> parseFormCSRF (wx_req c) \<and> validateCSRF c")
  case False
  then have "\<exists>n m. requirePOST wb c k w = reply (HttpError n m) w"
    unfolding requirePOST_def refusal_simps
    by (cases "wq_method (wx_req c) \<noteq> ''POST''"; cases "parseFormCSRF (wx_req c)"; cases "validateCSRF c") auto
  then show ?thesis using that(1) by auto
next
  case True
  obtain r cs where rot: "rotateCSRF wb (wx_req c) 2 = (r, cs)" by fastforce
  have same: "c = c\<lparr>wx_csrf := wx_csrf c\<rparr>" by simp
  show ?thesis
  proof (cases r)
    case (Inl e)
    then have "requirePOST wb c k w = k c w" using True rot by (simp add: requirePOST_def)
    then show ?thesis using that(2) [of "wx_csrf c"] True same by simp
  next
    case (Inr x)
    then have "requirePOST wb c k w = set_cookies cs (k (c\<lparr>wx_csrf := x\<rparr>) w)" using True rot by (simp add: requirePOST_def)
    then show ?thesis using that(2) [of x] True by simp
  qed
qed

lemma validateCSRF_genuine:
  assumes "validateCSRF (user_ctx wb q su)" and "wq_method q = ''POST''" and "drawn_token wb q \<noteq> Inr (sent_token q)"
  shows "form_genuine wb q"
proof -
  have got: "sent_token q = drop_error [] (fst (ensureCSRF wb q 1))" "sent_token q \<noteq> []"
    using assms(1) by (auto simp: validateCSRF_def sent_token_def form_value_def user_ctx_def Let_def split: if_splits)
  show ?thesis
  proof (cases "wq_csrf_cookie q \<noteq> [] \<and> csrf_valid wb q (wq_csrf_cookie q)")
    case True
    then show ?thesis using got assms(2) by (simp add: form_genuine_def ensureCSRF_def drop_error_def)
  next
    case False
    then have "ensureCSRF wb q 1 = newCSRFToken wb q 1" unfolding ensureCSRF_def by (rule if_not_P)
    then have "sent_token q = drop_error [] (drawn_token wb q)" using got(1) unfolding drawn_token_def by (rule subst)
    then show ?thesis using got(2) assms(3) by (cases "drawn_token wb q") (simp_all add: drop_error_def)
  qed
qed

text \<open>A form below a repository: the head every handler of one has.\<close>

definition form_head :: "string \<Rightarrow> web_lib \<Rightarrow> (web_ctx \<Rightarrow> repository \<Rightarrow> 'g api_world \<Rightarrow> ('p, 'g) web_out)
     \<Rightarrow> web_ctx \<Rightarrow> 'g api_world \<Rightarrow> ('p, 'g) web_out" where
  "form_head perm wb k c0 = requirePOST wb c0 (\<lambda>c. web_getRepo perm c (k c))"

lemma form_guard:
  fixes k :: "web_ctx \<Rightarrow> repository \<Rightarrow> 'g api_world \<Rightarrow> ('p, 'g) web_out"
  assumes changed: "\<not> same_data w (snd (user_route sv wb (form_head perm wb k) q w))"
    and token: "drawn_token wb q \<noteq> Inr (sent_token q)"
  shows "web_may perm sv q w \<and> form_genuine wb q"
proof (cases "web_caller sv q w")
  case None
  then show ?thesis using login_required changed by blast
next
  case (Some uid)
  let ?h = "form_head perm wb k"
  obtain su w2 where su: "su_id su = uid" "same_repos w w2"
    and run: "snd (user_route sv wb ?h q w) = snd (?h (user_ctx wb q su) w2)"
    using user_route_runs [OF Some] by metis
  have req: "wx_req (user_ctx wb q su) = q" by (simp add: user_ctx_def)
  show ?thesis
  proof (cases rule: requirePOST_cases [of wb "user_ctx wb q su" "\<lambda>c. web_getRepo perm c (k c)" w2])
    case (1 n m)
    then show ?thesis using changed run su(2) by (simp add: form_head_def same_repos_def)
  next
    case (2 x)
    let ?c = "(user_ctx wb q su)\<lparr>wx_csrf := x\<rparr>"
    obtain out :: "'p web_answer + repository" and w3 where acc: "repo_access perm (user_ctx wb q su) w2 = (out, w3)" by fastforce
    then have acc2: "repo_access perm ?c w2 = (out, w3)" by (simp only: repo_access_csrf)
    note facts = repo_access_user_ctx [OF su(2) _ acc, of sv]
    have "\<exists>repo. out = Inr repo"
    proof (cases out)
      case (Inl a)
      have "snd (?h (user_ctx wb q su) w2) = w3" unfolding form_head_def 2(4) web_getRepo_def acc2 Inl by simp
      then show ?thesis using changed run facts(1) Some su(1) by simp
    qed simp
    then show ?thesis using facts(2) Some su(1) validateCSRF_genuine [OF 2(2)] 2(1) req token by auto
  qed
qed

subsection \<open>Forms below a repository\<close>

text \<open>
  One rule per route that takes a form, with the permission its handler asks for, and the world afterwards. The upload
  of images asks for none: it looks at neither the token nor the repository.
\<close>

inductive repo_form :: "('g, 'k) server \<Rightarrow> web_lib \<Rightarrow> web_request \<Rightarrow> 'g api_world \<Rightarrow> string \<Rightarrow> 'g api_world \<Rightarrow> bool" for sv wb q w where
  star: "repo_form sv wb q w ''read'' (snd (user_route sv wb (web_handleStar wb) q w))"
| unstar: "repo_form sv wb q w ''read'' (snd (user_route sv wb (web_handleUnstar wb) q w))"
| watch: "repo_form sv wb q w ''read'' (snd (user_route sv wb (web_handleWatch wb) q w))"
| unwatch: "repo_form sv wb q w ''read'' (snd (user_route sv wb (web_handleUnwatch wb) q w))"
| fork: "repo_form sv wb q w ''read'' (snd (user_route sv wb (web_handleFork sv wb) q w))"
| create_tag: "repo_form sv wb q w ''write'' (snd (user_route sv wb (web_handleCreateTag sv wb) q w))"
| create_webhook: "repo_form sv wb q w ''write'' (snd (user_route sv wb (web_handleCreateWebhook wb) q w))"
| add_collaborator: "repo_form sv wb q w ''write'' (snd (user_route sv wb (web_handleAddCollaborator wb) q w))"
| remove_collaborator: "repo_form sv wb q w ''write'' (snd (user_route sv wb (web_handleRemoveCollaborator wb) q w))"
| protect_branch: "repo_form sv wb q w ''write'' (snd (user_route sv wb (web_handleProtectBranch wb) q w))"
| create_label: "repo_form sv wb q w ''write'' (snd (user_route sv wb (web_handleCreateLabel wb) q w))"
| delete_repo: "repo_form sv wb q w ''write'' (snd (user_route sv wb (web_handleDeleteRepo sv wb) q w))"
| wiki_save: "repo_form sv wb q w ''write'' (snd (user_route sv wb (web_handleWikiSave wb) q w))"
| wiki_delete: "repo_form sv wb q w ''write'' (snd (user_route sv wb (web_handleWikiDelete wb) q w))"
| upload_asset: "repo_form sv wb q w ''write'' (snd (user_route sv wb (web_handleUploadReleaseAsset sv wb) q w))"
| publish: "repo_form sv wb q w ''write'' (snd (user_route sv wb (web_handlePublishPackage sv wb) q w))"
| create_issue: "repo_form sv wb q w ''write'' (snd (user_route sv wb (web_handleCreateIssue wb) q w))"
| comment: "repo_form sv wb q w ''write'' (snd (user_route sv wb (web_handleIssueComment wb) q w))"
| close_issue: "repo_form sv wb q w ''write'' (snd (user_route sv wb (web_handleCloseIssue wb) q w))"
| assignee: "repo_form sv wb q w ''write'' (snd (user_route sv wb (web_handleIssueAssignee wb) q w))"
| set_milestone: "repo_form sv wb q w ''write'' (snd (user_route sv wb (web_handleIssueMilestone sv wb) q w))"
| add_label: "repo_form sv wb q w ''write'' (snd (user_route sv wb (web_handleIssueAddLabel sv wb) q w))"
| remove_label: "repo_form sv wb q w ''write'' (snd (user_route sv wb (web_handleIssueRemoveLabel sv wb) q w))"
| create_milestone: "repo_form sv wb q w ''write'' (snd (user_route sv wb (web_handleCreateMilestone wb) q w))"
| close_milestone: "repo_form sv wb q w ''write'' (snd (user_route sv wb (web_handleCloseMilestone sv wb) q w))"
| create_pull: "repo_form sv wb q w ''write'' (snd (user_route sv wb (web_handleCreatePR sv wb) q w))"
| pull_comment: "repo_form sv wb q w ''write'' (snd (user_route sv wb (web_handlePRComment wb) q w))"
| review: "repo_form sv wb q w ''write'' (snd (user_route sv wb (web_handlePRReview wb) q w))"
| merge: "repo_form sv wb q w ''write'' (snd (user_route sv wb (web_handlePRMerge sv wb) q w))"
| trigger: "repo_form sv wb q w ''write'' (snd (user_route sv wb (web_handleTriggerAction sv wb) q w))"
| create_release: "repo_form sv wb q w ''write'' (snd (user_route sv wb (web_handleCreateRelease wb) q w))"
| upload_image: "repo_form sv wb q w ''none'' (snd (user_route sv wb (web_handleUploadImage sv wb) q w))"

definition is_form :: "string \<Rightarrow> web_lib \<Rightarrow> (web_ctx \<Rightarrow> 'g api_world \<Rightarrow> ('p, 'g) web_out) \<Rightarrow> bool" where
  "is_form perm wb h = (\<exists>k. h = form_head perm wb k)"

lemma repo_forms:
  "is_form ''read'' wb (web_handleStar wb)" "is_form ''read'' wb (web_handleUnstar wb)"
  "is_form ''read'' wb (web_handleWatch wb)" "is_form ''read'' wb (web_handleUnwatch wb)"
  "is_form ''read'' wb (web_handleFork sv wb)" "is_form ''write'' wb (web_handleCreateTag sv wb)"
  "is_form ''write'' wb (web_handleCreateWebhook wb)" "is_form ''write'' wb (web_handleAddCollaborator wb)"
  "is_form ''write'' wb (web_handleRemoveCollaborator wb)" "is_form ''write'' wb (web_handleProtectBranch wb)"
  "is_form ''write'' wb (web_handleCreateLabel wb)" "is_form ''write'' wb (web_handleDeleteRepo sv wb)"
  "is_form ''write'' wb (web_handleWikiSave wb)" "is_form ''write'' wb (web_handleWikiDelete wb)"
  "is_form ''write'' wb (web_handleUploadReleaseAsset sv wb)" "is_form ''write'' wb (web_handlePublishPackage sv wb)"
  unfolding is_form_def form_head_def [abs_def] web_handleStar_def [abs_def] web_handleUnstar_def [abs_def] web_handleWatch_def [abs_def] web_handleUnwatch_def [abs_def] web_handleFork_def [abs_def] web_handleCreateTag_def [abs_def] web_handleCreateWebhook_def [abs_def] web_handleAddCollaborator_def [abs_def] web_handleRemoveCollaborator_def [abs_def] web_handleProtectBranch_def [abs_def] web_handleCreateLabel_def [abs_def] web_handleDeleteRepo_def [abs_def] web_handleWikiSave_def [abs_def] web_handleWikiDelete_def [abs_def] web_handleUploadReleaseAsset_def [abs_def] web_handlePublishPackage_def [abs_def] mark_repo_def [abs_def] settings_form_def [abs_def]
  by (rule exI, rule refl)+

lemma issue_forms:
  "is_form ''write'' wb (web_handleCreateIssue wb)" "is_form ''write'' wb (web_handleIssueComment wb)"
  "is_form ''write'' wb (web_handleCloseIssue wb)" "is_form ''write'' wb (web_handleIssueAssignee wb)"
  "is_form ''write'' wb (web_handleIssueMilestone sv wb)" "is_form ''write'' wb (web_handleIssueAddLabel sv wb)"
  "is_form ''write'' wb (web_handleIssueRemoveLabel sv wb)" "is_form ''write'' wb (web_handleCreateMilestone wb)"
  "is_form ''write'' wb (web_handleCloseMilestone sv wb)" "is_form ''write'' wb (web_handleCreatePR sv wb)"
  "is_form ''write'' wb (web_handlePRComment wb)" "is_form ''write'' wb (web_handlePRReview wb)"
  "is_form ''write'' wb (web_handlePRMerge sv wb)" "is_form ''write'' wb (web_handleTriggerAction sv wb)"
  "is_form ''write'' wb (web_handleCreateRelease wb)"
  unfolding is_form_def form_head_def [abs_def] web_handleCreateIssue_def [abs_def] web_handleIssueComment_def [abs_def] web_handleCloseIssue_def [abs_def] web_handleIssueAssignee_def [abs_def] web_handleIssueMilestone_def [abs_def] web_handleIssueAddLabel_def [abs_def] web_handleIssueRemoveLabel_def [abs_def] web_handleCreateMilestone_def [abs_def] web_handleCloseMilestone_def [abs_def] web_handleCreatePR_def [abs_def] web_handlePRComment_def [abs_def] web_handlePRReview_def [abs_def] web_handlePRMerge_def [abs_def] web_handleTriggerAction_def [abs_def] web_handleCreateRelease_def [abs_def] issue_form_def [abs_def] label_form_def [abs_def] pull_form_def [abs_def]
  by (rule exI, rule refl)+

lemma is_form_guard:
  assumes "is_form perm wb h" and "\<not> same_data w (snd (user_route sv wb h q w))" and "drawn_token wb q \<noteq> Inr (sent_token q)"
  shows "web_may perm sv q w \<and> form_genuine wb q"
  using assms form_guard unfolding is_form_def by blast

text \<open>The upload of an image writes one file, below the directory of the uploads, and nothing else.\<close>

definition image_stored :: "('g, 'k) server \<Rightarrow> web_lib \<Rightarrow> web_request \<Rightarrow> 'g api_world \<Rightarrow> 'g api_world \<Rightarrow> bool" where
  "image_stored sv wb q w w1 =
     (ap_db w1 = ap_db w \<and> ap_store w1 = ap_store w \<and> ap_docs w1 = ap_docs w
      \<and> (\<exists>f. wq_file q = Some f
           \<and> ap_files w1 = (ap_files w)(upload_dir wb @ ''/'' @ uuid_string (sr_crypto sv) (wq_fresh q 0) @ image_ext (ff_name f)
                              \<mapsto> fst (ff_body f))))"

lemma upload_effect:
  "wx_req c = q \<Longrightarrow> snd (web_handleUploadImage sv wb c w) = w \<or> image_stored sv wb q w (snd (web_handleUploadImage sv wb c w))"
  by (auto simp: web_handleUploadImage_def image_stored_def Let_def split: option.split)

lemma upload_guard:
  assumes "\<not> same_data w (snd (user_route sv wb (web_handleUploadImage sv wb) q w))"
  shows "web_caller sv q w \<noteq> None \<and> image_stored sv wb q w (snd (user_route sv wb (web_handleUploadImage sv wb) q w))"
proof (cases "web_caller sv q w")
  case None
  then show ?thesis using login_required assms by blast
next
  case (Some uid)
  let ?h = "web_handleUploadImage sv wb"
  obtain su w2 where su: "same_repos w w2" and run: "snd (user_route sv wb ?h q w) = snd (?h (user_ctx wb q su) w2)"
    using user_route_runs [OF Some] by metis
  have "wx_req (user_ctx wb q su) = q" by (simp add: user_ctx_def)
  from upload_effect [OF this, of sv wb w2] show ?thesis
    using su assms Some unfolding run by (auto simp: same_repos_def image_stored_def same_data_def)
qed


subsection \<open>Pages below a repository\<close>

fun displays :: "'p web_answer \<Rightarrow> bool" where
  "displays (Page p) = True"
| "displays (Names ns) = True"
| "displays (Svg s) = True"
| "displays (Html s) = True"
| "displays (Plain s) = True"
| "displays (Both a b) = (displays a \<or> displays b)"
| "displays _ = False"

text \<open>The badge of an unknown repository, behind a refusal.\<close>

definition late_badge :: "'p web_answer \<Rightarrow> bool" where
  "late_badge a = (case a of
     Both refusal (Svg s) \<Rightarrow> s = badgeSVG ''CI'' ''inactive'' ''#656d76'' \<and> \<not> displays refusal | _ \<Rightarrow> False)"

text \<open>Of a page only is kept that it is one.\<close>

definition page_shown :: "('p, 'g) web_out \<Rightarrow> unit web_answer \<times> 'g api_world" where
  "page_shown out = (map_web_answer (\<lambda>p. ()) (wr_answer (fst out)), snd out)"

lemma displays_map [simp]: "displays (map_web_answer f a) = displays a"
  by (induction a) simp_all

lemma late_badge_map [simp]: "late_badge (map_web_answer f a) = late_badge a"
  by (cases a) (auto simp: late_badge_def split: web_answer.splits)

inductive repo_view :: "('g, 'k) server \<Rightarrow> web_lib \<Rightarrow> web_request \<Rightarrow> 'g api_world \<Rightarrow> string \<Rightarrow> unit web_answer \<times> 'g api_world \<Rightarrow> bool" for sv wb q w where
  view_code: "repo_view sv wb q w ''read'' (page_shown (user_route sv wb (web_handleRepo sv wb) q w))"
| view_tree: "repo_view sv wb q w ''read'' (page_shown (user_route sv wb (web_handleRepoTree sv wb) q w))"
| view_tree_rows: "repo_view sv wb q w ''read'' (page_shown (user_route sv wb (web_handleRepoTreeLazy sv) q w))"
| view_blob: "repo_view sv wb q w ''read'' (page_shown (user_route sv wb (web_handleRepoBlob sv wb) q w))"
| view_blame: "repo_view sv wb q w ''read'' (page_shown (user_route sv wb (web_handleRepoBlame sv wb) q w))"
| view_files: "repo_view sv wb q w ''read'' (page_shown (user_route sv wb (web_handleFileFinder sv) q w))"
| view_commit: "repo_view sv wb q w ''read'' (page_shown (user_route sv wb (web_handleCommitDetail sv wb) q w))"
| view_compare: "repo_view sv wb q w ''read'' (page_shown (user_route sv wb (web_handleCompare sv wb) q w))"
| view_fork_dialog: "repo_view sv wb q w ''read'' (page_shown (user_route sv wb (web_handleForkDialog) q w))"
| view_tags: "repo_view sv wb q w ''read'' (page_shown (user_route sv wb (web_handleTags sv wb) q w))"
| view_settings: "repo_view sv wb q w ''read'' (page_shown (user_route sv wb (web_handleRepoSettings sv wb) q w))"
| view_wiki: "repo_view sv wb q w ''read'' (page_shown (user_route sv wb (web_handleWiki wb) q w))"
| view_wiki_page: "repo_view sv wb q w ''read'' (page_shown (user_route sv wb (web_handleWikiPage wb) q w))"
| view_wiki_edit: "repo_view sv wb q w ''write'' (page_shown (user_route sv wb (web_handleWikiEdit wb) q w))"
| view_packages: "repo_view sv wb q w ''read'' (page_shown (user_route sv wb (web_handlePackages wb) q w))"
| view_issues: "repo_view sv wb q w ''read'' (page_shown (user_route sv wb (web_handleIssues wb) q w))"
| view_issue: "repo_view sv wb q w ''read'' (page_shown (user_route sv wb (web_handleIssueDetail wb) q w))"
| view_milestones: "repo_view sv wb q w ''read'' (page_shown (user_route sv wb (web_handleMilestones wb) q w))"
| view_pulls: "repo_view sv wb q w ''read'' (page_shown (user_route sv wb (web_handlePulls wb) q w))"
| view_pull: "repo_view sv wb q w ''read'' (page_shown (user_route sv wb (web_handlePRDetail sv wb) q w))"
| view_actions: "repo_view sv wb q w ''read'' (page_shown (user_route sv wb (web_handleActions sv wb) q w))"
| view_badge: "repo_view sv wb q w ''read'' (page_shown (user_route sv wb (web_handleBadge) q w))"
| view_logs: "repo_view sv wb q w ''read'' (page_shown (user_route sv wb (web_handleActionLogs sv) q w))"
| view_releases: "repo_view sv wb q w ''read'' (page_shown (user_route sv wb (web_handleReleases wb) q w))"

text \<open>What a handler of a page does with a refusal and with a grant.\<close>

definition is_view :: "('g, 'k) server \<Rightarrow> string \<Rightarrow> (web_ctx \<Rightarrow> 'g api_world \<Rightarrow> ('p, 'g) web_out) \<Rightarrow> bool" where
  "is_view sv perm h =
     (\<forall>c w. case (repo_access perm c w :: ('p web_answer + repository) \<times> 'g api_world) of
              (Inl ans, w1) \<Rightarrow> snd (h c w) = w1
                \<and> (\<not> displays (wr_answer (fst (h c w))) \<or> late_badge (wr_answer (fst (h c w))))
            | (Inr repo, w1) \<Rightarrow> merge_tried sv w1 (snd (h c w)))"

lemma refusal_not_shown: "repo_access perm c w = (Inl ans, w1) \<Longrightarrow> \<not> displays ans"
  by (auto simp: repo_access_def split: sum.splits prod.splits option.splits if_splits)

lemma view_getRepo_tries:
  assumes "\<And>c repo w. merge_tried sv w (snd (k c repo w))"
  shows "is_view sv perm (\<lambda>c. web_getRepo perm c (k c))"
  unfolding is_view_def web_getRepo_def
  by (auto simp: assms refusal_not_shown split: sum.split prod.split)

lemma view_getRepo:
  assumes "\<And>c repo w. same_data w (snd (k c repo w))"
  shows "is_view sv perm (\<lambda>c. web_getRepo perm c (k c))"
  using assms by (intro view_getRepo_tries merge_tried_same)

lemma view_getRepo_or:
  assumes "\<And>c repo w. same_data w (snd (k c repo w))"
    and "\<not> displays ans2 \<or> ans2 = Svg (badgeSVG ''CI'' ''inactive'' ''#656d76'')"
  shows "is_view sv perm (\<lambda>c. web_getRepo_or ans2 perm c (k c))"
proof -
  have "\<not> displays (Both ans ans2) \<or> late_badge (Both ans ans2)" if "\<not> displays ans" for ans
    using assms(2) that by (auto simp: late_badge_def)
  then show ?thesis
    unfolding is_view_def web_getRepo_or_def
    using assms(1) by (auto simp del: displays.simps simp: refusal_not_shown merge_tried_same split: sum.split prod.split)
qed

lemma same_data_trans: "same_data w w1 \<Longrightarrow> same_data w1 w2 \<Longrightarrow> same_data w w2"
  by (simp add: same_data_def)

lemma repo_access_frame: "repo_access perm c w = (out, w1) \<Longrightarrow> same_data w w1"
  by (auto simp: repo_access_def same_data_def split: sum.splits prod.splits option.splits if_splits)

lemma merge_tried_from: "same_data w w1 \<Longrightarrow> merge_tried sv w1 w2 \<Longrightarrow> merge_tried sv w w2"
  by (simp add: same_data_def merge_tried_def)

lemma view_keeps:
  fixes h :: "web_ctx \<Rightarrow> 'g api_world \<Rightarrow> ('p, 'g) web_out"
  assumes "is_view sv perm h"
  shows "merge_tried sv w (snd (h c w))"
proof -
  obtain out :: "'p web_answer + repository" and w1 where acc: "repo_access perm c w = (out, w1)" by fastforce
  then have "merge_tried sv w1 (snd (h c w))"
    using assms [unfolded is_view_def, rule_format, of c w] by (cases out) (simp_all add: merge_tried_same)
  with repo_access_frame [OF acc] show ?thesis by (rule merge_tried_from)
qed

lemma view_guard:
  fixes h :: "web_ctx \<Rightarrow> 'g api_world \<Rightarrow> ('p, 'g) web_out"
  assumes "is_view sv perm h"
  shows "merge_tried sv w (snd (user_route sv wb h q w))"
    and "\<not> web_may perm sv q w \<Longrightarrow> same_data w (snd (user_route sv wb h q w))
      \<and> (\<not> displays (wr_answer (fst (user_route sv wb h q w))) \<or> late_badge (wr_answer (fst (user_route sv wb h q w))))"
proof -
  let ?out = "user_route sv wb h q w"
  have "merge_tried sv w (snd ?out) \<and> (\<not> web_may perm sv q w \<longrightarrow> same_data w (snd ?out)
      \<and> (\<not> displays (wr_answer (fst ?out)) \<or> late_badge (wr_answer (fst ?out))))"
  proof (cases "web_caller sv q w")
    case None
    from login_required [OF this, of wb h] show ?thesis by (simp add: merge_tried_same)
  next
    case (Some uid)
    obtain su w2 where su: "su_id su = uid" "same_repos w w2"
      and run: "wr_answer (fst ?out) = wr_answer (fst (h (user_ctx wb q su) w2))"
        "snd ?out = snd (h (user_ctx wb q su) w2)"
      using user_route_runs [OF Some] by metis
    obtain out :: "'p web_answer + repository" and w3 where acc: "repo_access perm (user_ctx wb q su) w2 = (out, w3)" by fastforce
    note facts = repo_access_user_ctx [OF su(2) _ acc, of sv]
    note view = assms [unfolded is_view_def, rule_format, of "user_ctx wb q su" w2, unfolded acc]
    show ?thesis
    proof (cases out)
      case (Inl a)
      then show ?thesis using view facts(1) Some su(1) run by (simp add: merge_tried_same)
    next
      case (Inr repo)
      then have "web_may perm sv q w" using facts(2) Some su(1) by simp
      moreover have "merge_tried sv w (snd ?out)"
        using view Inr facts(1) Some su(1) merge_tried_from unfolding run by auto
      ultimately show ?thesis by simp
    qed
  qed
  then show "merge_tried sv w (snd ?out)"
    and "\<not> web_may perm sv q w \<Longrightarrow> same_data w (snd ?out)
      \<and> (\<not> displays (wr_answer (fst ?out)) \<or> late_badge (wr_answer (fst ?out)))" by simp_all
qed

lemma view_out:
  "is_view sv perm h \<Longrightarrow>
     merge_tried sv w (snd (page_shown (user_route sv wb h q w)))
     \<and> (\<not> web_may perm sv q w \<longrightarrow> same_data w (snd (page_shown (user_route sv wb h q w)))
          \<and> (\<not> displays (fst (page_shown (user_route sv wb h q w))) \<or> late_badge (fst (page_shown (user_route sv wb h q w)))))"
  using view_guard(1) [of sv perm h w wb q] view_guard(2) [of sv perm h q w wb] by (simp add: page_shown_def)

lemma parse_views_tries:
  "(\<And>n w. merge_tried sv w (snd (k n w))) \<Longrightarrow> merge_tried sv w (snd (parseNum c key k w))"
  "(\<And>p w. merge_tried sv w (snd (k3 p w))) \<Longrightarrow> merge_tried sv w (snd (web_pull c repo n k3 w))"
  by (auto simp: parseNum_def web_pull_def merge_tried_same split: prod.split sum.split)

lemma parse_views:
  "(\<And>n w. same_data w (snd (k n w))) \<Longrightarrow> same_data w (snd (parseNum c key k w))"
  "(\<And>i w. same_data w (snd (k2 i w))) \<Longrightarrow> same_data w (snd (web_issue c repo n k2 w))"
  "(\<And>p w. same_data w (snd (k3 p w))) \<Longrightarrow> same_data w (snd (web_pull c repo n k3 w))"
  by (auto simp: parseNum_def web_issue_def web_pull_def split: prod.split sum.split)

lemma repo_views:
  "is_view sv ''read'' (web_handleRepo sv wb)"
  "is_view sv ''read'' (web_handleRepoTree sv wb)"
  "is_view sv ''read'' (web_handleRepoTreeLazy sv)"
  "is_view sv ''read'' (web_handleRepoBlob sv wb)"
  "is_view sv ''read'' (web_handleFileFinder sv)"
  "is_view sv ''read'' (web_handleCommitDetail sv wb)"
  "is_view sv ''read'' (web_handleCompare sv wb)"
  "is_view sv ''read'' (web_handleForkDialog)"
  "is_view sv ''read'' (web_handleTags sv wb)"
  "is_view sv ''read'' (web_handleRepoSettings sv wb)"
  "is_view sv ''read'' (web_handleWiki wb)"
  "is_view sv ''read'' (web_handleWikiPage wb)"
  "is_view sv ''write'' (web_handleWikiEdit wb)"
  "is_view sv ''read'' (web_handlePackages wb)"
  unfolding web_handleRepo_def [abs_def] web_handleRepoTree_def [abs_def] web_handleRepoTreeLazy_def [abs_def] web_handleRepoBlob_def [abs_def] web_handleFileFinder_def [abs_def] web_handleCommitDetail_def [abs_def] web_handleCompare_def [abs_def] web_handleForkDialog_def [abs_def] web_handleTags_def [abs_def] web_handleRepoSettings_def [abs_def] web_handleWiki_def [abs_def] web_handleWikiPage_def [abs_def] web_handleWikiEdit_def [abs_def] web_handlePackages_def [abs_def]
  by (rule view_getRepo view_getRepo_or; auto simp: Let_def split: sum.split list.split option.split prod.split)+

lemma blame_view: "is_view sv ''read'' (web_handleRepoBlame sv wb)"
  unfolding web_handleRepoBlame_def [abs_def]
  by (rule view_getRepo_tries) (auto simp: view_keeps [OF repo_views(4)] merge_tried_same split: sum.split)

lemma issue_views:
  "is_view sv ''read'' (web_handleIssues wb)"
  "is_view sv ''read'' (web_handleMilestones wb)"
  "is_view sv ''read'' (web_handlePulls wb)"
  "is_view sv ''read'' (web_handleActions sv wb)"
  "is_view sv ''read'' (web_handleBadge)"
  "is_view sv ''read'' (web_handleActionLogs sv)"
  "is_view sv ''read'' (web_handleReleases wb)"
  unfolding web_handleIssues_def [abs_def] web_handleMilestones_def [abs_def] web_handlePulls_def [abs_def] web_handleActions_def [abs_def] web_handleBadge_def [abs_def] web_handleActionLogs_def [abs_def] web_handleReleases_def [abs_def]
  by (rule view_getRepo view_getRepo_or; auto simp: Let_def split: sum.split list.split option.split prod.split)+

lemma number_views:
  "is_view sv ''read'' (web_handleIssueDetail wb)"
  "is_view sv ''read'' (web_handlePRDetail sv wb)"
proof -
  show "is_view sv ''read'' (web_handleIssueDetail wb)"
    unfolding web_handleIssueDetail_def [abs_def]
    by (rule view_getRepo) (intro parse_views; simp add: Let_def)
  show "is_view sv ''read'' (web_handlePRDetail sv wb)"
    unfolding web_handlePRDetail_def [abs_def]
    by (rule view_getRepo_tries)
      (intro parse_views_tries; auto simp: Let_def merge_tried_def on_store_def lookup_user_frame split: prod.split;
        metis snd_conv)
qed


subsection \<open>Form tokens\<close>

text \<open>Drawing a new token after a form was accepted takes nothing away from the old one.\<close>

lemma old_tokens_stay_valid: "wq_session q2 = wq_session q \<Longrightarrow> csrf_valid wb q2 token = csrf_valid wb q token"
  by (simp only: csrf_valid_def csrfKey_def)

text \<open>Without a session the key is a constant of the program.\<close>

lemma anonymous_key: "wq_session q = [] \<Longrightarrow> csrfKey wb q = fixed_key"
  by (simp add: csrfKey_def)

lemma length_hex: "length (hex_encode bs) = 2 * length bs"
  by (induction bs) simp_all

lemma hex_plain:
  assumes "list_all (\<lambda>b. b < 256) bs"
  shows "CHR ''.'' \<notin> set (hex_encode bs)"
proof -
  have digit: "hex_digit n \<noteq> CHR ''.''" if "n < 16" for n
  proof
    assume "hex_digit n = CHR ''.''"
    moreover have "hex_value (CHR ''.'') = None" by (simp add: hex_value_def)
    ultimately show False using hex_digit_value [OF that] by simp
  qed
  from assms show ?thesis by (induction bs) (auto simp: digit [symmetric])
qed

lemma split_token: "CHR ''.'' \<notin> set a \<Longrightarrow> split_n 2 ''.'' (a @ ''.'' @ b) = [a, b]"
  by (simp add: eval_nat_numeral cut_byte del: cut.simps)

text \<open>C20: The token the server hands out with a page is accepted with the form of that page: a browser that stores the cookie the
  answer set and sends the token back in the form passes the check, and so does one that had a valid cookie before.
\<close>
theorem csrf_roundtrip:
  assumes "ensureCSRF wb q i = (Inr token, cs)" and "wq_csrf_cookie q2 = token" and "wq_session q2 = wq_session q"
    and "sent_token q2 = token" and "length bytes = 16" and "wq_random q i = Inr bytes"
    and "list_all (\<lambda>b. b < 256) bytes"
  shows "csrf_valid wb q2 token \<and> validateCSRF (user_ctx wb q2 su)"
proof -
  have valid: "csrf_valid wb q token"
  proof (cases "wq_csrf_cookie q \<noteq> [] \<and> csrf_valid wb q (wq_csrf_cookie q)")
    case True
    then show ?thesis using assms(1) by (simp add: ensureCSRF_def)
  next
    case False
    then have "ensureCSRF wb q i = newCSRFToken wb q i" unfolding ensureCSRF_def by (rule if_not_P)
    then have token: "token = hex_encode bytes @ ''.'' @ signCSRF wb (hex_encode bytes) (csrfKey wb q)"
      using assms(1,6) by (simp add: newCSRFToken_def randomHex_def Let_def)
    show ?thesis
      unfolding token csrf_valid_def split_token [OF hex_plain [OF assms(7)]] by (simp add: length_hex assms(5))
  qed
  then have "csrf_valid wb q2 token" using old_tokens_stay_valid [OF assms(3)] by simp
  moreover from this have "token \<noteq> []" by (auto simp: csrf_valid_def eval_nat_numeral)
  ultimately show ?thesis
    using assms(2,4)
    by (auto simp: validateCSRF_def user_ctx_def ensureCSRF_def drop_error_def form_value_def sent_token_def Let_def
        split: if_splits)
qed

text \<open>The preview of a text never works: the route is outside the middleware that puts a token into the context of a request,
  so a well-formed request is refused for its token, whatever cookie and token it carries.
\<close>
theorem preview_always_refused:
  "wr_answer (fst (web_handlePreviewMarkdown wb (fresh_ctx q) w)) =
     (if wq_method q \<noteq> ''POST'' then HttpError 405 ''method not allowed''
      else if wq_form q = None then HttpError 400 ''bad form''
      else HttpError 403 ''invalid csrf'')"
  by (simp add: web_handlePreviewMarkdown_def requirePOST_def parseFormCSRF_def validateCSRF_def fresh_ctx_def)

subsection \<open>Messages across a redirect\<close>

text \<open>A message a handler sends along with a redirect is the message of the page the browser then asks for, as an error or as a
  success as it was meant, whatever characters it is made of and whatever the address already carried.
\<close>
theorem flash_roundtrip:
  assumes "wl_url wb path = Some (base, query, fragment)" and "msg \<noteq> []"
  shows "\<exists>text. wr_answer (fst (redirectWithFlash wb path msg isErr w)) = Redirect (base @ ''?'' @ text @ fragment)
    \<and> (wq_query (wx_req c) = parse_query text
       \<longrightarrow> ly_flash (web_layout c title w) = msg \<and> ly_flash_err (web_layout c title w) = isErr)"
  using assms
  by (intro exI [of _ "values_encode (flash_query msg isErr (parse_query query))"])
    (simp add: redirectWithFlash_def web_layout_def query_value_def values_get_encoded flash_query_def Let_def)

subsection \<open>What is not checked\<close>

text \<open>Where a login leads is a path of the site for every browser that takes a backslash for itself.\<close>

lemma local_next_slash: "prefix ''/'' (local_next next) \<and> \<not> prefix ''//'' (local_next next)"
  by (simp add: local_next_def)

lemma local_next_backslash: "local_next (CHR ''/'' # CHR 0x5C # host) = CHR ''/'' # CHR 0x5C # host"
  by (simp add: local_next_def)

text \<open>Any user with a session may put a file on the server through the upload of images, for any repository name and without a
  form token: its content is what was sent, its type is what the client says it is, and its name ends as the client's
  name does, for instance in .html. The front end then serves it from its own address.
\<close>
theorem image_upload_unchecked:
  assumes "web_caller sv q w \<noteq> None" and "wq_method q = ''POST''" and "wq_form q \<noteq> None" and "wq_multipart q" and "\<not> wq_large q"
    and "wq_file q = Some f" and "prefix ''image/'' (ff_type f)" and "snd (ff_body f) = None"
    and "wl_mkdir wb (ap_files w) (upload_dir wb) = None"
    and "wl_create wb (ap_files w) (upload_dir wb @ ''/'' @ uuid_string (sr_crypto sv) (wq_fresh q 0) @ image_ext (ff_name f)) = None"
  shows "ap_files (snd (user_route sv wb (web_handleUploadImage sv wb) q w))
           (upload_dir wb @ ''/'' @ uuid_string (sr_crypto sv) (wq_fresh q 0) @ image_ext (ff_name f)) = Some (fst (ff_body f))"
proof -
  obtain uid where "web_caller sv q w = Some uid" using assms(1) by blast
  then obtain su w2 where frame: "same_repos w w2"
    and run: "snd (user_route sv wb (web_handleUploadImage sv wb) q w) = snd (web_handleUploadImage sv wb (user_ctx wb q su) w2)"
    using user_route_runs by metis
  have ctx: "wx_req (user_ctx wb q su) = q" by (simp add: user_ctx_def)
  have files: "ap_files w2 = ap_files w" using frame by (simp add: same_repos_def same_data_def)
  have ty: "image_type wb f = ff_type f" using assms(7) by (auto simp: image_type_def)
  show ?thesis
    unfolding run web_handleUploadImage_def ctx Let_def files assms(6,8,9,10) option.case ty using assms(2-5,7) by auto
qed

text \<open>The logs of a run can be read through any repository: the API answers that the run does not exist when it belongs to
  another repository than the one of the address, the page shows its jobs' names and logs to everyone who may read the repository of the
  address.
\<close>
theorem logs_of_other_repositories:
  assumes "web_may ''read'' sv q w" and "uuid_parse (sr_crypto sv) (wq_params q ''runID'') = Some rid"
    and "query_row (\<lambda>x. wr_id x = rid) (runs (ap_db w)) = Some run"
    and "GetByFullName (cx_now r) (cx_owner r) (cx_repo r) (ap_repos w) (ap_db w) = (Inr repo, rc)" and "wr_repo run \<noteq> rp_id repo"
  shows "\<not> success (fst (handleRunLogs sv (wq_params q ''runID'') r w))
    \<and> (\<exists>url. wr_answer (fst (user_route sv wb (web_handleActionLogs sv) q w)) =
              Page (ActionLogsPartial (concat (map (job_log_text (ap_files w)) (rows_where (\<lambda>j. wj_run j = rid) (jobs (ap_db w))))) url))"
proof
  show "\<not> success (fst (handleRunLogs sv (wq_params q ''runID'') r w))"
    using assms(2-5) by (simp add: handleRunLogs_def getRepo_def getRepoPerm_def parse_id_def Let_def)
  obtain uid where caller: "web_caller sv q w = Some uid" using assms(1) by (auto simp: web_may_def split: option.splits)
  then obtain su w2 where su: "su_id su = uid" and frame: "same_repos w w2"
    and run: "wr_answer (fst (user_route sv wb (web_handleActionLogs sv) q w)) = wr_answer (fst (web_handleActionLogs sv (user_ctx wb q su) w2))"
    using user_route_runs by metis
  obtain repo2 rc2 where get: "GetByFullName (wq_now q) (wq_params q ''owner'') (wq_params q ''repo'') (ap_repos w) (ap_db w) = (Inr repo2, rc2)"
    and can: "CanAccess (rp_id repo2) uid ''read'' (ap_db w) = Inr True"
    using assms(1) caller by (auto simp: web_may_def split: sum.splits prod.splits) (metis fst_conv prod.collapse)
  have same: "ap_repos w2 = ap_repos w" "ap_db w2 = ap_db w" "ap_files w2 = ap_files w"
    using frame by (simp_all add: same_repos_def same_data_def)
  have "repo_access ''read'' (user_ctx wb q su) w2 = (Inr repo2 :: issue_page web_answer + repository, w2\<lparr>ap_repos := rc2\<rparr>)"
    using get can su same by (simp add: repo_access_def user_ctx_def url_param_def drop_error_def)
  then show "\<exists>url. wr_answer (fst (user_route sv wb (web_handleActionLogs sv) q w)) =
              Page (ActionLogsPartial (concat (map (job_log_text (ap_files w)) (rows_where (\<lambda>j. wj_run j = rid) (jobs (ap_db w))))) url)"
    using run assms(2) same
    by (simp add: web_handleActionLogs_def web_getRepo_def url_param_def) (simp add: user_ctx_def)
qed

subsection \<open>The properties at concrete inputs\<close>

definition demo_web :: web_lib where
  "demo_web = \<lparr>wl_env = (\<lambda>k. []), wl_hmac = (\<lambda>k s. take 1 (k @ s)), wl_url = (\<lambda>p. Some (p, [], [])), wl_markdown = Inr,
     wl_format = (\<lambda>layout t. []),
     wl_search = \<lparr>sl_jitter = (\<lambda>n d. 0), sl_cancel = (\<lambda>n. None), sl_url = (\<lambda>u. None), sl_do = (\<lambda>n r. Inl NoRows),
       sl_doc_json = (\<lambda>d. Inl NoRows), sl_query_json = (\<lambda>x. Inl NoRows), sl_decode = (\<lambda>b. Inl NoRows)\<rparr>,
     wl_search_service = search_NewService [], wl_upload_dir = ''/up'', wl_detect = (\<lambda>b. ''text/plain''),
     wl_mkdir = (\<lambda>fs d. None), wl_create = (\<lambda>fs p. None)\<rparr>"

definition demo_cookie :: string where "demo_cookie = replicate 32 (CHR ''0'') @ ''.67''"

definition demo_post :: web_request where
  "demo_post = \<lparr>wq_now = 0, wq_fresh = (\<lambda>n. Uuid (60 + n)), wq_random = (\<lambda>i. Inr (replicate 16 0)), wq_method = ''POST'',
     wq_path = ''/ann/code/star'',
     wq_params = (\<lambda>k. if k = ''owner'' then ''ann'' else if k = ''repo'' then ''code'' else if k = ''runID'' then ''88'' else []),
     wq_query = [], wq_form = Some [(''csrf_token'', demo_cookie)], wq_multipart = False, wq_large = False,
     wq_session = ''9|0|1|1ann'', wq_csrf_cookie = demo_cookie, wq_csrf_header = [], wq_referer = [], wq_htmx = False, wq_file = None\<rparr>"

lemma demo_drawn: "drawn_token demo_web (demo_post\<lparr>wq_random := (\<lambda>i. Inl NoRows)\<rparr>) = Inl NoRows"
  by (simp add: drawn_token_def newCSRFToken_def randomHex_def)



lemma csrf_roundtrip_witness:
  "validateCSRF (user_ctx demo_web demo_post \<lparr>su_id = Uuid 1, su_name = ''ann'', su_user = None\<rparr>)"
proof (rule csrf_roundtrip [where bytes = "replicate 16 0", THEN conjunct2])
  show "ensureCSRF demo_web (demo_post\<lparr>wq_csrf_cookie := []\<rparr>) 0 = (Inr demo_cookie, [CsrfCookie demo_cookie])"
    by code_simp
qed (simp_all add: demo_post_def sent_token_def form_values_def values_get_def demo_cookie_def list_all_iff)

lemma flash_roundtrip_witness:
  "let c = (user_ctx demo_web (demo_post\<lparr>wq_query := parse_query ''err=a+%26+b''\<rparr>) \<lparr>su_id = Uuid 1, su_name = ''ann'', su_user = None\<rparr>)
   in ly_flash (web_layout c ''x'' (demo_state (demo_db True))) = ''a & b''"
proof -
  let ?c = "user_ctx demo_web (demo_post\<lparr>wq_query := parse_query ''err=a+%26+b''\<rparr>) \<lparr>su_id = Uuid 1, su_name = ''ann'', su_user = None\<rparr>"
  obtain tx where tx: "wr_answer (fst (redirectWithFlash demo_web ''/'' ''a & b'' True (demo_state (demo_db True)) :: (repo_page, unit) web_out))
        = Redirect (''/'' @ ''?'' @ tx @ [])"
    and shown: "wq_query (wx_req ?c) = parse_query tx
       \<longrightarrow> ly_flash (web_layout ?c ''x'' (demo_state (demo_db True))) = ''a & b'' \<and> ly_flash_err (web_layout ?c ''x'' (demo_state (demo_db True))) = True"
    using flash_roundtrip [of demo_web "''/''" "''/''" "[]" "[]" "''a & b''" True "demo_state (demo_db True)" ?c "''x''"]
    by (auto simp: demo_web_def)
  have "wr_answer (fst (redirectWithFlash demo_web ''/'' ''a & b'' True (demo_state (demo_db True)) :: (repo_page, unit) web_out))
      = Redirect ''/?err=a+%26+b''" by code_simp
  with tx have "tx = ''err=a+%26+b''" by simp
  then show ?thesis using shown by (simp add: user_ctx_def Let_def)
qed

lemma image_upload_unchecked_witness:
  "let q = demo_post\<lparr>wq_form := Some [], wq_multipart := True, wq_params := (\<lambda>k. ''none''),
             wq_file := Some \<lparr>ff_name = ''x.html'', ff_type = ''image/png'', ff_body = (''<script>'', None), ff_size = 8\<rparr>\<rparr>
   in ap_files (snd (user_route demo_api demo_web (web_handleUploadImage demo_api demo_web) q (demo_state (demo_db True)))) ''/up/60.html''
      = Some ''<script>''"
proof -
  let ?f = "\<lparr>ff_name = ''x.html'', ff_type = ''image/png'', ff_body = (''<script>'', None), ff_size = 8\<rparr>"
  let ?q = "demo_post\<lparr>wq_form := Some [], wq_multipart := True, wq_params := (\<lambda>k. ''none''), wq_file := Some ?f\<rparr>"
  have path: "upload_dir demo_web @ ''/'' @ uuid_string (sr_crypto demo_api) (wq_fresh ?q 0) @ image_ext (ff_name ?f) = ''/up/60.html''"
    by code_simp
  have "web_caller demo_api ?q (demo_state (demo_db True)) = Some (Uuid 1)" by code_simp
  then have "ap_files (snd (user_route demo_api demo_web (web_handleUploadImage demo_api demo_web) ?q (demo_state (demo_db True))))
      (upload_dir demo_web @ ''/'' @ uuid_string (sr_crypto demo_api) (wq_fresh ?q 0) @ image_ext (ff_name ?f)) = Some (fst (ff_body ?f))"
    by (intro image_upload_unchecked) (simp_all add: demo_post_def demo_web_def)
  then show ?thesis unfolding path Let_def by simp
qed

definition demo_log_db :: db where
  "demo_log_db = (demo_db True)\<lparr>
     runs := [\<lparr>wr_id = Uuid 88, wr_repo = Uuid 99, wr_workflow = Uuid 98, wr_number = 1, wr_event = ''push'', wr_sha = [], wr_branch = ''main'',
               wr_status = ''completed'', wr_conclusion = None, wr_created = 0, wr_started = None, wr_completed = None\<rparr>],
     jobs := [(demo_job ''build'')\<lparr>wj_run := Uuid 88\<rparr>]\<rparr>"

lemma logs_of_other_repositories_witness:
  "\<exists>text url. wr_answer (fst (user_route demo_api demo_web (web_handleActionLogs demo_api) demo_post (demo_state demo_log_db))) =
     Page (ActionLogsPartial (''=== build'' @ text) url)"
proof -
  have repo: "GetByFullName (cx_now (demo_request 1 60)) (cx_owner (demo_request 1 60)) (cx_repo (demo_request 1 60))
      (ap_repos (demo_state demo_log_db)) (ap_db (demo_state demo_log_db))
      = (Inr (repository_of ''ann'' (demo_repo True 1)),
         snd (GetByFullName 0 ''ann'' ''code'' (cache_new repoCacheTTL) demo_log_db))"
    using demo_get [of demo_log_db True 1 True]
    by (simp add: demo_request_def demo_state_def prod_eq_iff) (simp add: demo_log_db_def demo_db_def)
  have may: "web_may ''read'' demo_api demo_post (demo_state demo_log_db)" by code_simp
  have run: "query_row (\<lambda>x. wr_id x = Uuid 88) (runs (ap_db (demo_state demo_log_db))) = Some (hd (runs demo_log_db))"
    by (simp add: demo_state_def demo_log_db_def)
  have key: "uuid_parse (sr_crypto demo_api) (wq_params demo_post ''runID'') = Some (Uuid 88)" by code_simp
  have other: "wr_repo (hd (runs demo_log_db)) \<noteq> rp_id (repository_of ''ann'' (demo_repo True 1))"
    by (simp add: demo_log_db_def repository_of_def demo_defs)
  have name: "wj_job (demo_job ''build'') = ''build''" by (simp add: demo_job_def)
  have logs: "concat (map (job_log_text (ap_files (demo_state demo_log_db)))
        (rows_where (\<lambda>j. wj_run j = Uuid 88) (jobs (ap_db (demo_state demo_log_db))))) = ''=== build'' @ '' ==='' @ newline"
    by (simp add: demo_state_def demo_log_db_def job_log_text_def rows_where_def demo_job_def)
  show ?thesis
    using logs_of_other_repositories [OF may key run repo other, of demo_web] unfolding logs by blast
qed

end
