(* ===== verification/RunTypes.thy ===== *)
theory RunTypes
  imports Controller WebGuard
begin

section \<open>The rows of runs and jobs\<close>

text \<open>
  The columns of a workflow run and of a job stand for a state machine: queued, in progress,
  completed. The schema does not say which combinations of status, conclusion and times belong
  together; this theory proves that the writers of these rows (the webhook service, the controller, and
  the two handlers that start a run by hand, of the API and of the web pages) only produce sensible ones.
\<close>

definition run_typed :: "run_row \<Rightarrow> bool" where
  "run_typed r =
     (wr_status r = ''queued'' \<and> wr_conclusion r = None \<and> wr_started r = None \<and> wr_completed r = None
      \<or> wr_status r = ''in_progress'' \<and> wr_conclusion r = None \<and> wr_started r \<noteq> None \<and> wr_completed r = None
      \<or> wr_status r = ''completed'' \<and> wr_conclusion r \<in> {Some ''success'', Some ''failure''}
        \<and> wr_completed r \<noteq> None)"

definition job_typed :: "job_row \<Rightarrow> bool" where
  "job_typed j =
     (wj_status j = ''queued'' \<and> wj_conclusion j = None \<and> wj_k8s j = None \<and> wj_started j = None \<and> wj_completed j = None
      \<or> wj_status j = ''in_progress'' \<and> wj_conclusion j = None \<and> wj_k8s j \<noteq> None \<and> wj_started j \<noteq> None
        \<and> wj_completed j = None
      \<or> wj_status j = ''completed'' \<and> wj_conclusion j \<in> {Some ''success'', Some ''failure''}
        \<and> wj_completed j \<noteq> None)"

definition rows_typed :: "db \<Rightarrow> bool" where
  "rows_typed d = ((\<forall>r\<in>set (runs d). run_typed r) \<and> (\<forall>j\<in>set (jobs d). job_typed j))"

lemma rows_typed_runs:
  assumes "rows_typed d" and "\<And>r. run_typed r \<Longrightarrow> P r \<Longrightarrow> run_typed (f r)"
  shows "rows_typed (update_runs P f d)"
  using assms by (auto simp: rows_typed_def update_runs_def)

lemma rows_typed_jobs:
  assumes "rows_typed d" and "\<And>j. job_typed j \<Longrightarrow> P j \<Longrightarrow> job_typed (f j)"
  shows "rows_typed (update_jobs P f d)"
  using assms by (auto simp: rows_typed_def update_jobs_def)

lemma rows_typed_claim: "rows_typed d \<Longrightarrow> rows_typed (snd (claimQueuedRun now d))"
  by (auto simp: claimQueuedRun_def Let_def run_typed_def intro!: rows_typed_runs split: option.split)

lemma rows_typed_fail: "rows_typed d \<Longrightarrow> rows_typed (fail_run now rid d)"
  unfolding fail_run_def by (rule rows_typed_runs) (auto simp: run_typed_def)

lemma rows_typed_insert_jobs: "rows_typed d \<Longrightarrow> rows_typed (snd (insert_jobs rid js d))"
proof (induction js arbitrary: d)
  case (Cons j js)
  have "rows_typed (d\<lparr>jobs := insert_new (job_is rid j) (queued_job rid j) (jobs d)\<rparr>)"
    using Cons.prems by (auto simp: rows_typed_def insert_new_def queued_job_def job_typed_def)
  then show ?case using Cons by simp
qed simp

lemma rows_typed_start: "rows_typed d \<Longrightarrow> rows_typed (snd (startRun lib now rid content d))"
  by (simp add: startRun_def rows_typed_fail rows_typed_insert_jobs split: sum.split)

lemma rows_typed_dispatchJob: "rows_typed (cw_db w) \<Longrightarrow> rows_typed (cw_db (dispatchJob lib cfg now r i jb w))"
  by (auto simp: dispatchJob_def Let_def job_typed_def intro!: rows_typed_jobs)

lemma rows_typed_dispatch_loop:
  "rows_typed (cw_db w) \<Longrightarrow> rows_typed (cw_db (dispatch_loop lib cfg now r wfl completed ids w))"
  by (induction lib cfg now r wfl completed ids w rule: dispatch_loop.induct)
    (simp_all add: rows_typed_dispatchJob split: option.split)

lemma rows_typed_dispatchReady:
  "rows_typed (cw_db w) \<Longrightarrow> rows_typed (cw_db (snd (dispatchReadyJobs lib cfg now r w)))"
  by (simp add: dispatchReadyJobs_def Let_def rows_typed_dispatch_loop split: sum.split)

lemma rows_typed_process_loop:
  "rows_typed (cw_db w) \<Longrightarrow> rows_typed (cw_db (snd (process_loop n lib cfg now w)))"
proof (induction n arbitrary: w)
  case (Suc n)
  obtain res d1 where c: "claimQueuedRun now (cw_db w) = (res, d1)" by fastforce
  have d1: "rows_typed d1" using rows_typed_claim [OF Suc.prems, of now] c by simp
  show ?case
  proof (cases res)
    case (Inl e)
    then show ?thesis using c d1 by simp
  next
    case (Inr r)
    obtain res2 d2 where st: "startRun lib now (cr_id r) (cr_content r) d1 = (res2, d2)" by fastforce
    have d2: "rows_typed d2" using rows_typed_start [OF d1, of lib now "cr_id r" "cr_content r"] st by simp
    then have "rows_typed (cw_db (snd (dispatchReadyJobs lib cfg now r (w\<lparr>cw_db := d2\<rparr>))))"
      by (intro rows_typed_dispatchReady) simp
    then show ?thesis using c Inr st d2 Suc.IH by (cases res2) simp_all
  qed
qed simp

lemma pollJob_ended: "pollJob lib k ns name \<noteq> [] \<Longrightarrow> pollJob lib k ns name \<in> {''success'', ''failure''}"
  by (auto simp: pollJob_def split: option.splits if_splits)

lemma rows_typed_poll: "rows_typed d \<Longrightarrow> rows_typed (poll_one lib cfg now rid k d st)"
proof (cases "wj_k8s st")
  case (Some name)
  assume ok: "rows_typed d"
  have "rows_typed (update_jobs P (\<lambda>j. j\<lparr>wj_status := ''completed'',
      wj_conclusion := Some (pollJob lib k (cc_ns cfg) name), wj_completed := Some now\<rparr>) d)"
    if "pollJob lib k (cc_ns cfg) name \<noteq> []" for P
    using ok pollJob_ended [OF that] by (intro rows_typed_jobs) (auto simp: job_typed_def)
  then show ?thesis using ok Some by (simp add: poll_one_def Let_def)
qed (simp add: poll_one_def)

lemma rows_typed_polls: "rows_typed d \<Longrightarrow> rows_typed (foldl (poll_one lib cfg now rid k) d js)"
  by (induction js arbitrary: d) (simp_all add: rows_typed_poll)

lemma rows_typed_close: "rows_typed d \<Longrightarrow> rows_typed (snd (close_run now rid d))"
  by (auto simp: close_run_def Let_def run_typed_def intro!: rows_typed_runs split: option.split)

lemma rows_typed_reconcile: "rows_typed (cw_db w) \<Longrightarrow> rows_typed (cw_db (snd (reconcileRun lib cfg now rid w)))"
proof -
  assume ok: "rows_typed (cw_db w)"
  let ?d1 = "foldl (poll_one lib cfg now rid (cw_k8s w)) (cw_db w) (run_jobs rid (cw_db w))"
  have "rows_typed (cw_db (w\<lparr>cw_db := ?d1\<rparr>))" using rows_typed_polls [OF ok] by simp
  then have two: "rows_typed (cw_db (snd (dispatchReadyJobs lib cfg now r (w\<lparr>cw_db := ?d1\<rparr>))))" for r
    by (rule rows_typed_dispatchReady)
  have three: "rows_typed (snd (close_run now rid (cw_db v)))"
    if "dispatchReadyJobs lib cfg now r (w\<lparr>cw_db := ?d1\<rparr>) = (x, v)" for r x v
    using two [of r] that by (simp add: rows_typed_close)
  show ?thesis
    using ok two three
    by (auto simp: reconcileRun_def Let_def split: option.split sum.split prod.split) (metis snd_conv)+
qed

lemma rows_typed_tick: "rows_typed (cw_db w) \<Longrightarrow> rows_typed (cw_db (controller_tick lib cfg now w))"
proof -
  assume "rows_typed (cw_db w)"
  then have "rows_typed (cw_db (snd (processQueuedRuns lib cfg now w)))"
    unfolding processQueuedRuns_def by (rule rows_typed_process_loop)
  moreover have "rows_typed (cw_db v) \<Longrightarrow> rows_typed (cw_db (foldl (\<lambda>v rid. snd (reconcileRun lib cfg now rid v)) v ids))"
    for v ids by (induction ids arbitrary: v) (simp_all add: rows_typed_reconcile)
  ultimately show ?thesis by (simp add: controller_tick_def reconcileInProgressRuns_def)
qed

lemma rows_typed_insert_run:
  "rows_typed d \<Longrightarrow> rows_typed (snd (insert_run (new_run now nid rid wfid n ev sha br) d))"
  by (auto simp: insert_run_def rows_typed_def new_run_def run_typed_def)

lemma rows_typed_trigger: "rows_typed d \<Longrightarrow> rows_typed (trigger_each hl now fresh n rid branch sha event fs d)"
proof (induction fs arbitrary: n d)
  case (Cons f fs)
  then show ?case using rows_typed_insert_run [OF Cons.prems] by (simp split: sum.split)
qed simp

lemma dispatch_jobs [simp]: "jobs (snd (dispatch_hooks hl now fresh n event body hs d)) = jobs d"
  by (induction hs arbitrary: n d) (simp_all add: record_delivery_def Let_def)

lemma rows_typed_event: "rows_typed d \<Longrightarrow> rows_typed (snd (snd (handleEvent hl now fd fr ty decoded d)))"
proof (cases decoded)
  case (Inr evt)
  assume ok: "rows_typed d"
  have "rows_typed (snd (Dispatch hl now fd rid e body d))" for rid e body
    using ok by (simp add: rows_typed_def Dispatch_def)
  then show ?thesis using Inr ok by (simp add: handleEvent_def Let_def triggerWorkflows_def rows_typed_trigger)
qed (simp add: handleEvent_def)

lemma rows_typed_inserted:
  "insert_run (new_run now nid rid wfid n ev sha br) d = (out, d1) \<Longrightarrow> rows_typed d \<Longrightarrow> rows_typed d1"
  using rows_typed_insert_run [of d now nid rid wfid n ev sha br] by simp

lemma rows_typed_insert_on:
  "rows_typed (ap_db w) \<Longrightarrow> rows_typed (ap_db (snd (on_db (insert_run (new_run now nid rid wfid n ev sha br)) w)))"
  using rows_typed_inserted by (auto simp: on_db_def split: prod.split)

lemma rows_typed_insert_eq:
  "on_db (insert_run (new_run now nid rid wfid n ev sha br)) w = (out, w1) \<Longrightarrow>
     rows_typed (ap_db w) \<longrightarrow> rows_typed (ap_db w1)"
  using rows_typed_insert_on [of w now nid rid wfid n ev sha br] by simp

lemma rows_typed_getRepoPerm:
  assumes "rows_typed (ap_db w)" and "\<And>repo v. ap_db v = ap_db w \<Longrightarrow> rows_typed (ap_db (snd (k repo v)))"
  shows "rows_typed (ap_db (snd (getRepoPerm perm r k w)))"
  using assms by (simp add: getRepoPerm_def Let_def split: prod.split sum.split)

lemma rows_typed_answer: "rows_typed (ap_db (snd out)) \<Longrightarrow> rows_typed (ap_db (snd (answer code f out)))"
  by (cases out) (simp add: answer_def split: sum.split)

lemma rows_typed_or_fail:
  "rows_typed (ap_db (snd out)) \<Longrightarrow> (\<And>x v. ap_db v = ap_db (snd out) \<Longrightarrow> rows_typed (ap_db (snd (k x v)))) \<Longrightarrow>
     rows_typed (ap_db (snd (or_fail code msg out k)))"
  by (cases out) (simp add: or_fail_def split: sum.split)

lemma rows_typed_api_trigger:
  assumes "rows_typed (ap_db w)"
  shows "rows_typed (ap_db (snd (handleTriggerRun sv b r w)))"
  unfolding handleTriggerRun_def getRepoWrite_def
proof (rule rows_typed_getRepoPerm [OF assms])
  fix repo and v :: "'a api_world" assume v: "ap_db v = ap_db w"
  show "rows_typed (ap_db (snd (requireScope r ScopeWorkflow (\<lambda>w.
       let branch = (if gb_branch (fst b) = [] then rp_branch repo else gb_branch (fst b))
       in or_fail 400 ''invalid branch''
            (if gb_sha (fst b) = []
             then from_store (UpdateHead (sr_git sv) (rp_owner_name repo) (rp_name repo) branch) w
             else (Inr (gb_sha (fst b)), w)) (\<lambda>sha w1.
              let n = run_number_of (rp_id repo) (ap_db w1)
              in answer 500 (\<lambda>_. (cx_fresh r 0, n))
                   (on_db (insert_run (new_run (cx_now r) (cx_fresh r 0) (rp_id repo) (gb_workflow (fst b)) n
                      (gb_event (fst b)) sha branch)) w1))) v)))"
    unfolding requireScope_def Let_def from_store_def
    using v assms by (auto intro!: rows_typed_or_fail rows_typed_answer rows_typed_insert_on)
qed

lemma rows_typed_requirePOST:
  assumes "rows_typed (ap_db w)" and "\<And>c1. rows_typed (ap_db (snd (k c1 w)))"
  shows "rows_typed (ap_db (snd (requirePOST wb c k w)))"
  by (cases rule: requirePOST_cases [of wb c k w]) (simp_all add: assms)

lemma rows_typed_web_getRepo:
  assumes "rows_typed (ap_db w)" and "\<And>repo v. ap_db v = ap_db w \<Longrightarrow> rows_typed (ap_db (snd (k repo v)))"
  shows "rows_typed (ap_db (snd (web_getRepo perm c k w)))"
proof -
  obtain out :: "'b web_answer + repository" and w1 where acc: "repo_access perm c w = (out, w1)" by fastforce
  have "ap_db w1 = ap_db w" using repo_access_frame [OF acc] by (simp add: same_data_def)
  with acc assms show ?thesis by (cases out) (simp_all add: web_getRepo_def)
qed

lemma redirectWithFlash_world [simp]: "snd (redirectWithFlash wb path msg isErr w) = w"
  by (simp add: redirectWithFlash_def split: option.split prod.split)

lemma rows_typed_web_trigger:
  assumes "rows_typed (ap_db w)"
  shows "rows_typed (ap_db (snd (web_handleTriggerAction sv wb c w)))"
  unfolding web_handleTriggerAction_def
  by (intro rows_typed_requirePOST rows_typed_web_getRepo)
    (auto simp: Let_def assms dest!: rows_typed_insert_eq split: option.split sum.split prod.split)

text \<open>
  Events of the webhook service, steps of the controller, requests for a run to the API and to the web
  pages, whose other parts of the world may be any, and changes by all others, which may take rows away
  (with a repository or an account) but write none.
\<close>

inductive ci_step ::
  "('k, 'z) ctl_lib_scheme \<Rightarrow> ctl_config \<Rightarrow> hook_lib \<Rightarrow> ('g, 's) server \<Rightarrow> web_lib \<Rightarrow> 'k ctl_world \<Rightarrow> 'k ctl_world \<Rightarrow> bool"
  for lib cfg hl sv wb where
  control: "ctl_step lib cfg w w1 \<Longrightarrow> ci_step lib cfg hl sv wb w w1"
| event: "ci_step lib cfg hl sv wb w (w\<lparr>cw_db := snd (snd (handleEvent hl now fd fr ty decoded (cw_db w)))\<rparr>)"
| api_trigger: "ap_db v = cw_db w \<Longrightarrow>
     ci_step lib cfg hl sv wb w (w\<lparr>cw_db := ap_db (snd (handleTriggerRun sv b r v))\<rparr>)"
| web_trigger: "ap_db v = cw_db w \<Longrightarrow>
     ci_step lib cfg hl sv wb w (w\<lparr>cw_db := ap_db (snd (web_handleTriggerAction sv wb c v))\<rparr>)"
| other: "set (runs d) \<subseteq> set (runs (cw_db w)) \<Longrightarrow> set (jobs d) \<subseteq> set (jobs (cw_db w)) \<Longrightarrow>
     ci_step lib cfg hl sv wb w (w\<lparr>cw_db := d\<rparr>)"

lemma rows_typed_ci: "ci_step lib cfg hl sv wb w w1 \<Longrightarrow> rows_typed (cw_db w) \<Longrightarrow> rows_typed (cw_db w1)"
proof (induction rule: ci_step.induct)
  case (other d w)
  then show ?case by (auto simp: rows_typed_def)
qed (auto elim: ctl_step.cases simp: rows_typed_tick rows_typed_event rows_typed_api_trigger rows_typed_web_trigger)

subsection \<open>Properties\<close>

text \<open>C28: In every run of all writers of these rows together, a workflow run is either queued with no
  start, conclusion or end, or in progress with a start and no conclusion or end, or completed with an end
  and the conclusion success or failure. The same holds of jobs, of which a queued one has no Kubernetes
  job recorded and one in progress has.\<close>

theorem run_rows_typed:
  assumes "(ci_step lib cfg hl sv wb)\<^sup>*\<^sup>* w w1" and "rows_typed (cw_db w)"
  shows "(\<forall>r\<in>set (runs (cw_db w1)).
            wr_status r = ''queued'' \<and> wr_conclusion r = None \<and> wr_started r = None \<and> wr_completed r = None
            \<or> wr_status r = ''in_progress'' \<and> wr_conclusion r = None \<and> wr_started r \<noteq> None \<and> wr_completed r = None
            \<or> wr_status r = ''completed'' \<and> wr_conclusion r \<in> {Some ''success'', Some ''failure''}
              \<and> wr_completed r \<noteq> None)
    \<and> (\<forall>j\<in>set (jobs (cw_db w1)).
            wj_status j = ''queued'' \<and> wj_conclusion j = None \<and> wj_k8s j = None \<and> wj_started j = None \<and> wj_completed j = None
            \<or> wj_status j = ''in_progress'' \<and> wj_conclusion j = None \<and> wj_k8s j \<noteq> None \<and> wj_started j \<noteq> None
              \<and> wj_completed j = None
            \<or> wj_status j = ''completed'' \<and> wj_conclusion j \<in> {Some ''success'', Some ''failure''}
              \<and> wj_completed j \<noteq> None)"
proof -
  have "rows_typed (cw_db w1)" using assms
    by (induction rule: rtranclp_induct) (auto intro: rows_typed_ci)
  then show ?thesis by (simp add: rows_typed_def run_typed_def job_typed_def)
qed

definition demo_hooks :: hook_lib where
  "demo_hooks = \<lparr>hl_hmac_hex = (\<lambda>k b. []), hl_push_json = (\<lambda>p. []), hl_do = (\<lambda>r. (200, None)),
     hl_yaml = (\<lambda>c. Inl (ErrMsg c))\<rparr>"

definition demo_ci :: "nat ctl_world" where
  "demo_ci = \<lparr>cw_db = (demo_db False)\<lparr>workflows := [demo_wf_row],
     runs := [new_run 0 (Uuid 5) (Uuid 10) (Uuid 6) 1 ''push'' ''abc'' ''main'']\<rparr>, cw_k8s = 0\<rparr>"

lemma run_rows_typed_witness:
  "list_all run_typed (runs (cw_db (controller_tick demo_lib demo_cfg 9 demo_ci)))"
proof -
  have "(ci_step demo_lib demo_cfg demo_hooks demo_api demo_web)\<^sup>*\<^sup>* demo_ci (controller_tick demo_lib demo_cfg 9 demo_ci)"
    by (intro r_into_rtranclp ci_step.control ctl_step.tick)
  moreover have "rows_typed (cw_db demo_ci)"
    by (simp add: demo_ci_def demo_defs new_run_def rows_typed_def run_typed_def)
  ultimately show ?thesis using run_rows_typed unfolding list_all_iff run_typed_def by blast
qed

end
