(* ===== verification/RateLimit.thy ===== *)
theory RateLimit
  imports Prelude GoStrings
begin

section \<open>The rate limiter (internal/api/rate_limit.go)\<close>

text \<open>
  A counter per key with the start of its window. Counting a request and cleaning up run under the
  mutex, so each is one function of the limiter; the clock is an argument. The rate limit headers
  are the remaining count and the reset time of \<open>AllowIfPossible\<close>.
\<close>

definition defaultLimit :: int where "defaultLimit = 5000"
definition anonLimit :: int where "anonLimit = 60"
definition searchLimit :: int where "searchLimit = 100"
definition limitWindow :: duration where "limitWindow = hour"

record rate_bucket =
  bk_count :: int
  bk_start :: instant

record rate_limiter =
  rt_buckets :: "string \<rightharpoonup> rate_bucket"
  rt_limit :: int
  rt_window :: duration
  rt_stopped :: bool

definition NewRateLimiter :: "int \<Rightarrow> duration \<Rightarrow> rate_limiter" where
  "NewRateLimiter limit window =
     \<lparr>rt_buckets = Map.empty, rt_limit = limit, rt_window = window, rt_stopped = False\<rparr>"

text \<open>One turn of the cleanup goroutine: a tick that finds the limiter running.\<close>

definition cleanupLoop :: "instant \<Rightarrow> rate_limiter \<Rightarrow> rate_limiter" where
  "cleanupLoop now rl =
     (if rt_stopped rl then rl
      else rl\<lparr>rt_buckets := (\<lambda>k. case rt_buckets rl k of
                None \<Rightarrow> None
              | Some b \<Rightarrow> if bk_start b < now - rt_window rl then None else Some b)\<rparr>)"

definition AllowIfPossible :: "instant \<Rightarrow> string \<Rightarrow> rate_limiter \<Rightarrow> (int \<times> int \<times> int) \<times> rate_limiter" where
  "AllowIfPossible now key rl =
     (let b = (case rt_buckets rl key of None \<Rightarrow> \<lparr>bk_count = 0, bk_start = now\<rparr> | Some b \<Rightarrow> b);
          b1 = (if now - bk_start b \<ge> rt_window rl then \<lparr>bk_count = 0, bk_start = now\<rparr> else b);
          b2 = b1\<lparr>bk_count := bk_count b1 + 1\<rparr>;
          remaining0 = rt_limit rl - bk_count b2;
          remaining = (if remaining0 < 0 then 0 else remaining0);
          resetUnix = unix (bk_start b2 + rt_window rl)
      in ((bk_count b2, remaining, resetUnix), rl\<lparr>rt_buckets := (rt_buckets rl)(key \<mapsto> b2)\<rparr>))"

definition rl_Stop :: "rate_limiter \<Rightarrow> rate_limiter" where
  "rl_Stop rl = rl\<lparr>rt_stopped := True\<rparr>"

record client =
  cl_forwarded :: string
  cl_real_ip :: string
  cl_remote :: string

definition rateLimitKey :: "(uuid \<Rightarrow> string) \<Rightarrow> client \<Rightarrow> uuid \<Rightarrow> string" where
  "rateLimitKey show_uuid r uid =
     (if uid \<noteq> uuid_nil then ''user:'' @ show_uuid uid
      else (let ip0 = cl_forwarded r;
                ip1 = (if ip0 = [] then cl_real_ip r else ip0);
                ip = (if ip1 = [] then takeWhile (\<lambda>c. c \<noteq> CHR '':'') (cl_remote r) else ip1)
            in ''ip:'' @ ip))"

text \<open>
  The middleware: None when the request is passed on to the next handler, otherwise the seconds of
  Retry-After on the 429. The clock is read again for them, at \<open>later\<close>.
\<close>

definition RateLimitMiddleware ::
  "instant \<Rightarrow> instant \<Rightarrow> string \<Rightarrow> rate_limiter \<Rightarrow> int option \<times> rate_limiter" where
  "RateLimitMiddleware now later key rl =
     (case AllowIfPossible now key rl of
        ((_, remaining, resetUnix), rl1) \<Rightarrow>
          (if remaining = 0
           then Some (let retryAfter = resetUnix - unix later in if retryAfter < 0 then 0 else retryAfter)
           else None, rl1))"

definition rateLimitByMethod ::
  "string list \<Rightarrow> string \<Rightarrow> instant \<Rightarrow> instant \<Rightarrow> string \<Rightarrow> rate_limiter \<Rightarrow> int option \<times> rate_limiter" where
  "rateLimitByMethod methods meth now later key rl =
     (if meth \<in> set methods then RateLimitMiddleware now later key rl else (None, rl))"

record rate_limit_resource =
  rr_limit :: int
  rr_remaining :: int
  rr_reset :: int
  rr_used :: int

text \<open>The status endpoint, with the limiter and the limit that go with the kind of client.\<close>

definition handleRateLimit ::
  "(uuid \<Rightarrow> string) \<Rightarrow> instant \<Rightarrow> client \<Rightarrow> uuid \<Rightarrow> rate_limiter \<Rightarrow> rate_limiter
     \<Rightarrow> rate_limit_resource \<times> rate_limiter \<times> rate_limiter" where
  "handleRateLimit show_uuid now r uid anon core =
     (let isAnon = (uid = uuid_nil);
          key = rateLimitKey show_uuid r uid;
          limiter = (if isAnon then anon else core);
          limit = (if isAnon then anonLimit else defaultLimit)
      in case AllowIfPossible now key limiter of
           ((used0, remaining0, resetUnix), limiter1) \<Rightarrow>
             (let used = (if used0 > 0 then used0 - 1 else used0);
                  remaining = (if used0 > 0 then min (remaining0 + 1) limit else remaining0)
              in (\<lparr>rr_limit = limit, rr_remaining = remaining, rr_reset = resetUnix, rr_used = used\<rparr>,
                  if isAnon then limiter1 else anon, if isAnon then core else limiter1)))"

subsection \<open>Runs\<close>

text \<open>
  What the limiter sees over time: requests with their keys and turns of the cleanup, in the order
  of the mutex. \<open>served\<close> lists the times at which requests of a key are passed on.
\<close>

datatype rate_event = Request instant string | Cleanup instant | Halt instant

fun event_time :: "rate_event \<Rightarrow> instant" where
  "event_time (Request t k) = t"
| "event_time (Cleanup t) = t"
| "event_time (Halt t) = t"

fun served :: "string \<Rightarrow> rate_event list \<Rightarrow> rate_limiter \<Rightarrow> instant list" where
  "served key [] rl = []"
| "served key (Request t k # es) rl =
     (case RateLimitMiddleware t t k rl of
        (None, rl1) \<Rightarrow> (if k = key then t # served key es rl1 else served key es rl1)
      | (Some _, rl1) \<Rightarrow> served key es rl1)"
| "served key (Cleanup t # es) rl = served key es (cleanupLoop t rl)"
| "served key (Halt t # es) rl = served key es (rl_Stop rl)"

definition in_window :: "instant \<Rightarrow> duration \<Rightarrow> instant list \<Rightarrow> nat" where
  "in_window a w ts = length (filter (\<lambda>t. a \<le> t \<and> t < a + w) ts)"

lemma in_window_simps [simp]:
  "in_window a w [] = 0"
  "in_window a w (t # ts) = (if a \<le> t \<and> t < a + w then Suc (in_window a w ts) else in_window a w ts)"
  by (simp_all add: in_window_def)

text \<open>How many requests can still be served in the window from a on, by the state of the bucket.\<close>

definition slack :: "int \<Rightarrow> int \<Rightarrow> int" where
  "slack l c = max 0 (l - 1 - c)"

definition budget :: "instant \<Rightarrow> instant \<Rightarrow> int \<Rightarrow> duration \<Rightarrow> rate_bucket option \<Rightarrow> int" where
  "budget a now l w b =
     (if now \<ge> a + w then 0
      else if now < a then slack l 1 + slack l 0
      else (case b of None \<Rightarrow> slack l 0
            | Some q \<Rightarrow> if bk_start q \<ge> a then slack l (bk_count q) else slack l (bk_count q) + slack l 0))"

definition counts_ok :: "rate_limiter \<Rightarrow> bool" where
  "counts_ok rl = (\<forall>k b. rt_buckets rl k = Some b \<longrightarrow> 1 \<le> bk_count b)"

lemma slack_bounds: "0 \<le> slack l c" "1 \<le> c \<Longrightarrow> slack l c \<le> slack l 1"
  by (simp_all add: slack_def)

lemma budget_mono:
  assumes "t \<le> now" and "\<And>q. b = Some q \<Longrightarrow> 1 \<le> bk_count q"
  shows "budget a now l w b \<le> budget a t l w b"
proof -
  have b0: "0 \<le> budget a x l w b" for x
    using slack_bounds(1) by (auto simp: budget_def split: option.split intro: add_nonneg_nonneg)
  have le: "budget a now l w b \<le> slack l 1 + slack l 0" if "now \<ge> a" "now < a + w"
    using that assms(2) slack_bounds(1) [of l 1] slack_bounds(1) [of l 0] slack_bounds(2) [of "bk_count (the b)" l]
    by (auto simp: budget_def split: option.split)
  show ?thesis
  proof (cases "a + w \<le> now")
    case True
    then have "budget a now l w b = 0" by (simp add: budget_def)
    then show ?thesis using b0 by simp
  next
    case False
    show ?thesis
    proof (cases "t < a")
      case True
      then have "budget a t l w b = slack l 1 + slack l 0" using False assms(1) by (simp add: budget_def)
      moreover have "budget a now l w b \<le> slack l 1 + slack l 0"
        using le False by (cases "a \<le> now") (simp_all add: budget_def)
      ultimately show ?thesis by simp
    next
      case not_before: False
      then show ?thesis using False assms(1) by (simp add: budget_def)
    qed
  qed
qed

lemma counts_ok_Allow: "counts_ok rl \<Longrightarrow> counts_ok (snd (AllowIfPossible t k rl))"
  unfolding counts_ok_def AllowIfPossible_def Let_def
  by (auto split: option.split if_splits) (metis order_trans zero_le_one)

lemma counts_ok_cleanup: "counts_ok rl \<Longrightarrow> counts_ok (cleanupLoop t rl)"
  by (auto simp: counts_ok_def cleanupLoop_def split: option.splits if_splits)

lemma Allow_simps [simp]:
  "rt_limit (snd (AllowIfPossible t k rl)) = rt_limit rl"
  "rt_window (snd (AllowIfPossible t k rl)) = rt_window rl"
  "k \<noteq> key \<Longrightarrow> rt_buckets (snd (AllowIfPossible t k rl)) key = rt_buckets rl key"
  by (simp_all add: AllowIfPossible_def Let_def)

lemma cleanup_simps [simp]:
  "rt_limit (cleanupLoop t rl) = rt_limit rl" "rt_window (cleanupLoop t rl) = rt_window rl"
  "rt_limit (rl_Stop rl) = rt_limit rl" "rt_window (rl_Stop rl) = rt_window rl"
  "rt_buckets (rl_Stop rl) = rt_buckets rl"
  by (simp_all add: cleanupLoop_def rl_Stop_def)

lemma Middleware_limiter: "snd (RateLimitMiddleware t u k rl) = snd (AllowIfPossible t k rl)"
  by (simp add: RateLimitMiddleware_def split: prod.split)

definition counted :: "instant \<Rightarrow> string \<Rightarrow> rate_limiter \<Rightarrow> rate_bucket" where
  "counted t k rl = the (rt_buckets (snd (AllowIfPossible t k rl)) k)"

lemma counted_bucket: "rt_buckets (snd (AllowIfPossible t k rl)) k = Some (counted t k rl)"
  by (simp add: counted_def AllowIfPossible_def Let_def)

lemma counted_cases:
  "counted t k rl =
     (case rt_buckets rl k of
        None \<Rightarrow> \<lparr>bk_count = 1, bk_start = t\<rparr>
      | Some b \<Rightarrow> if t - bk_start b \<ge> rt_window rl then \<lparr>bk_count = 1, bk_start = t\<rparr>
                  else b\<lparr>bk_count := bk_count b + 1\<rparr>)"
  by (simp add: counted_def AllowIfPossible_def Let_def split: option.split)

lemma Middleware_pass:
  "fst (RateLimitMiddleware t u k rl) = None \<longleftrightarrow> bk_count (counted t k rl) < rt_limit rl"
  by (auto simp: RateLimitMiddleware_def counted_def AllowIfPossible_def Let_def split: option.split)

text \<open>Counting one request uses up at least what it may serve.\<close>

lemma budget_step:
  assumes "counts_ok rl" and "a \<le> t" and "t < a + rt_window rl"
  shows "(if bk_count (counted t k rl) < rt_limit rl then 1 else 0)
           + budget a t (rt_limit rl) (rt_window rl) (Some (counted t k rl))
         \<le> budget a t (rt_limit rl) (rt_window rl) (rt_buckets rl k)"
proof (cases "rt_buckets rl k")
  case None
  then show ?thesis using assms(2,3) by (simp add: counted_cases budget_def slack_def)
next
  case (Some b)
  then have "1 \<le> bk_count b" using assms(1) by (auto simp: counts_ok_def)
  then show ?thesis using Some assms(2,3) by (auto simp: counted_cases budget_def slack_def)
qed

lemma served_bound:
  assumes "counts_ok rl" and "sorted (map event_time es)" and "\<forall>e\<in>set es. now \<le> event_time e"
  shows "int (in_window a (rt_window rl) (served key es rl))
           \<le> budget a now (rt_limit rl) (rt_window rl) (rt_buckets rl key)"
  using assms
proof (induction es arbitrary: rl now)
  case Nil
  then show ?case using slack_bounds(1) by (auto simp: budget_def split: option.split intro: add_nonneg_nonneg)
next
  case (Cons e es)
  let ?l = "rt_limit rl" and ?w = "rt_window rl"
  have later: "now \<le> event_time e" "\<forall>x\<in>set es. event_time e \<le> event_time x" "sorted (map event_time es)"
    using Cons.prems by auto
  have mono: "budget a (event_time e) ?l ?w (rt_buckets rl key) \<le> budget a now ?l ?w (rt_buckets rl key)"
    using later(1) Cons.prems(1) by (intro budget_mono) (auto simp: counts_ok_def)
  show ?case
  proof (cases e)
    case (Halt t)
    have "counts_ok (rl_Stop rl)" using Cons.prems(1) by (simp add: counts_ok_def)
    then show ?thesis using Cons.IH [of "rl_Stop rl" t] later mono Halt by simp
  next
    case (Cleanup t)
    have "budget a t ?l ?w (rt_buckets (cleanupLoop t rl) key) \<le> budget a t ?l ?w (rt_buckets rl key)"
      using slack_bounds(1)
      by (auto simp: cleanupLoop_def budget_def split: option.split)
    then show ?thesis
      using Cons.IH [of "cleanupLoop t rl" t] later mono Cleanup counts_ok_cleanup [OF Cons.prems(1)] by simp
  next
    case (Request t k)
    let ?rl1 = "snd (AllowIfPossible t k rl)"
    have IH: "int (in_window a ?w (served key es ?rl1)) \<le> budget a t ?l ?w (rt_buckets ?rl1 key)"
      using Cons.IH [of ?rl1 t] later Request counts_ok_Allow [OF Cons.prems(1)] by simp
    have run: "served key (e # es) rl
        = (if k = key \<and> bk_count (counted t k rl) < ?l then [t] else []) @ served key es ?rl1"
      using Middleware_pass [of t t k rl] Middleware_limiter [of t t k rl]
      by (auto simp: Request split: prod.split option.split)
    show ?thesis
    proof (cases "k = key \<and> a \<le> t \<and> t < a + ?w")
      case True
      then show ?thesis
        using IH run budget_step [OF Cons.prems(1), of a t k] mono Request
        by (simp add: counted_bucket split: if_splits)
    next
      case False
      show ?thesis
      proof (cases "k = key")
        case True
        then have "budget a t ?l ?w (rt_buckets ?rl1 key) \<le> budget a t ?l ?w (rt_buckets rl key)"
          using False by (auto simp: budget_def)
        moreover have "in_window a ?w (served key (e # es) rl) = in_window a ?w (served key es ?rl1)"
          using False True unfolding run by (auto split: if_splits)
        ultimately show ?thesis using IH mono Request by simp
      next
        case other: False
        then have "served key (e # es) rl = served key es ?rl1" using run by simp
        then show ?thesis using IH other mono Request by simp
      qed
    qed
  qed
qed

subsection \<open>Properties\<close>

text \<open>C29: However requests and cleanups interleave, a limiter with limit \<open>l\<close> passes on at most
  \<open>2 l - 3\<close> requests of a key in any interval of one window length. The windows are fixed, not
  sliding, so this is almost twice the limit; and since the request that uses up the budget is
  itself refused, one window passes \<open>l - 1\<close> requests. Both numbers are reached: with limit 3 and
  window 10, two of three requests are served in a first window, and three requests are served in
  the interval from 5 to 15.\<close>

theorem rate_limit_bound:
  "(sorted (map event_time es) \<longrightarrow>
     in_window a w (served key es (NewRateLimiter l w)) \<le> nat (l - 2) + nat (l - 1))
   \<and> served key [Request 0 key, Request 1 key, Request 2 key] (NewRateLimiter 3 10) = [0, 1]
   \<and> in_window 5 10 (served key [Request 0 key, Request 9 key, Request 10 key, Request 11 key]
        (NewRateLimiter 3 10)) = 3"
proof (intro conjI impI)
  assume "sorted (map event_time es)"
  let ?now = "if es = [] then a else min a (event_time (hd es))"
  have "\<forall>e\<in>set es. event_time (hd es) \<le> event_time e"
    using \<open>sorted (map event_time es)\<close> by (cases es) auto
  then have "\<forall>e\<in>set es. ?now \<le> event_time e" by auto
  moreover have "counts_ok (NewRateLimiter l w)" by (simp add: counts_ok_def NewRateLimiter_def)
  ultimately have "int (in_window a w (served key es (NewRateLimiter l w)))
      \<le> budget a ?now l w (rt_buckets (NewRateLimiter l w) key)"
    using served_bound [of "NewRateLimiter l w" es ?now a key] \<open>sorted (map event_time es)\<close>
    by (simp add: NewRateLimiter_def)
  also have "\<dots> \<le> slack l 1 + slack l 0"
    using slack_bounds(1) by (auto simp: budget_def NewRateLimiter_def intro: add_nonneg_nonneg)
  also have "\<dots> = int (nat (l - 2) + nat (l - 1))" by (simp add: slack_def)
  finally show "in_window a w (served key es (NewRateLimiter l w)) \<le> nat (l - 2) + nat (l - 1)"
    by (simp only: of_nat_le_iff)
qed (simp_all add: NewRateLimiter_def RateLimitMiddleware_def AllowIfPossible_def Let_def)

text \<open>A client that is not logged in names its own key, and so gets a new budget at will.\<close>

lemma forwarded_names_key:
  "f \<noteq> [] \<Longrightarrow> rateLimitKey show_uuid \<lparr>cl_forwarded = f, cl_real_ip = r, cl_remote = a\<rparr> uuid_nil = ''ip:'' @ f"
  by (simp add: rateLimitKey_def)

lemma rate_limit_bound_witness:
  "in_window 0 10 (served ''ip:x'' [Request 0 ''ip:x'', Cleanup 1, Request 2 ''ip:x''] (NewRateLimiter 2 10)) \<le> 1"
  using rate_limit_bound [of "[Request 0 ''ip:x'', Cleanup 1, Request 2 ''ip:x'']" 0 10 "''ip:x''" 2] by simp

end
