(* ===== verification/JobQueue.thy ===== *)
theory JobQueue
  imports Prelude GoStrings "HOL-Library.Multiset"
begin

section \<open>The background job queue (internal/jobqueue)\<close>

text \<open>
  A buffered channel read by a fixed number of workers, with atomic counters. Every atomic action of
  the code is a step of its own: a call of Enqueue or EnqueueNonBlocking tests the flag, counts, sends
  (or waits, or takes the count back) in separate steps; a worker receives a job, counts its start,
  runs it, and counts the outcome; \<open>Stop\<close> sets the flag, then cancels the context; \<open>Stats\<close> loads
  eight times. Which ready case a \<open>select\<close> takes is left open. The ten minute timeout is the job's own
  affair: it ends with an outcome.
\<close>

subsection \<open>The queue\<close>

text \<open>A worker between its receive and the count of the start holds a job as \<open>Received\<close>.\<close>

datatype 'j worker = Idle | Received 'j | Busy 'j | Exited

datatype outcome = Succeeded | Failed | Panicked

record 'j queue =
  jq_cap :: nat
  jq_ch :: "'j list"
  jq_workers :: "'j worker list"
  jq_stopped :: bool
  jq_cancelled :: bool
  jq_enqueued :: int
  jq_started :: int
  jq_completed :: int
  jq_failed :: int

record queue_stats =
  st_enqueued :: int
  st_started :: int
  st_completed :: int
  st_failed :: int
  st_queued :: int
  st_busy :: int

definition jq_New :: "int \<Rightarrow> int \<Rightarrow> 'j queue" where
  "jq_New bufferSize0 numWorkers0 =
     (let bufferSize = (if bufferSize0 \<le> 0 then 100 else bufferSize0);
          numWorkers = (if numWorkers0 \<le> 0 then 2 else numWorkers0)
      in \<lparr>jq_cap = nat bufferSize, jq_ch = [], jq_workers = replicate (nat numWorkers) Idle,
          jq_stopped = False, jq_cancelled = False,
          jq_enqueued = 0, jq_started = 0, jq_completed = 0, jq_failed = 0\<rparr>)"

text \<open>
  Where a call stands: before the test of the flag, before the counter is raised, in the \<open>select\<close>, before
  the rollback of the counter, or returned: with the job sent, turned away by the cancelled context,
  refused by the flag, or refused because the buffer is full.
\<close>

datatype phase = Called | Counting | Selecting | RollingBack | Sent | GaveUp | Refused | Full

definition can_send :: "'j queue \<Rightarrow> bool" where
  "can_send q = (length (jq_ch q) < jq_cap q)"

definition send :: "'j \<Rightarrow> 'j queue \<Rightarrow> 'j queue" where
  "send j q = q\<lparr>jq_ch := jq_ch q @ [j]\<rparr>"

text \<open>One atomic action of a call: the outcomes it may have. A call that waits has none.\<close>

fun Enqueue :: "'j \<Rightarrow> phase \<Rightarrow> 'j queue \<Rightarrow> (phase \<times> 'j queue) list" where
  "Enqueue j Called q = [if jq_stopped q then (Refused, q) else (Counting, q)]"
| "Enqueue j Counting q = [(Selecting, q\<lparr>jq_enqueued := jq_enqueued q + 1\<rparr>)]"
| "Enqueue j Selecting q =
     (if can_send q then [(Sent, send j q)] else []) @ (if jq_cancelled q then [(GaveUp, q)] else [])"
| "Enqueue j _ q = []"

fun EnqueueNonBlocking :: "'j \<Rightarrow> phase \<Rightarrow> 'j queue \<Rightarrow> (phase \<times> 'j queue) list" where
  "EnqueueNonBlocking j Called q = [if jq_stopped q then (Refused, q) else (Counting, q)]"
| "EnqueueNonBlocking j Counting q = [(Selecting, q\<lparr>jq_enqueued := jq_enqueued q + 1\<rparr>)]"
| "EnqueueNonBlocking j Selecting q = [if can_send q then (Sent, send j q) else (RollingBack, q)]"
| "EnqueueNonBlocking j RollingBack q = [(Full, q\<lparr>jq_enqueued := jq_enqueued q + (- 1)\<rparr>)]"
| "EnqueueNonBlocking j _ q = []"

text \<open>What a returned call answers.\<close>

fun call_result :: "phase \<Rightarrow> unit result option" where
  "call_result Sent = Some (Inr ())"
| "call_result GaveUp = Some (Inl ErrQueueStopped)"
| "call_result Refused = Some (Inl ErrQueueStopped)"
| "call_result Full = Some (Inl ErrQueueFull)"
| "call_result _ = None"

definition worker_take :: "nat \<Rightarrow> 'j queue \<Rightarrow> 'j queue" where
  "worker_take i q =
     (case jq_ch q of
        [] \<Rightarrow> q
      | j # js \<Rightarrow> q\<lparr>jq_ch := js, jq_workers := (jq_workers q)[i := Received j]\<rparr>)"

definition worker_exit :: "nat \<Rightarrow> 'j queue \<Rightarrow> 'j queue" where
  "worker_exit i q = q\<lparr>jq_workers := (jq_workers q)[i := Exited]\<rparr>"

definition process_start :: "nat \<Rightarrow> 'j \<Rightarrow> 'j queue \<Rightarrow> 'j queue" where
  "process_start i j q = q\<lparr>jq_workers := (jq_workers q)[i := Busy j], jq_started := jq_started q + 1\<rparr>"

definition process_end :: "nat \<Rightarrow> outcome \<Rightarrow> 'j queue \<Rightarrow> 'j queue" where
  "process_end i r q =
     (let q1 = q\<lparr>jq_workers := (jq_workers q)[i := Idle]\<rparr>
      in case r of
           Succeeded \<Rightarrow> q1\<lparr>jq_completed := jq_completed q1 + 1\<rparr>
         | _ \<Rightarrow> q1\<lparr>jq_failed := jq_failed q1 + 1\<rparr>)"

definition jq_Stop_flag :: "'j queue \<Rightarrow> 'j queue" where
  "jq_Stop_flag q = q\<lparr>jq_stopped := True\<rparr>"

definition jq_Stop_cancel :: "'j queue \<Rightarrow> 'j queue" where
  "jq_Stop_cancel q = q\<lparr>jq_cancelled := True\<rparr>"

text \<open>Stop returns when every worker has.\<close>

definition jq_Stop_waits :: "'j queue \<Rightarrow> bool" where
  "jq_Stop_waits q = list_ex (\<lambda>v. case v of Exited \<Rightarrow> False | _ \<Rightarrow> True) (jq_workers q)"

text \<open>\<open>qs k\<close> is the queue at the k-th of the eight loads, from 0.\<close>

definition jq_Stats :: "(nat \<Rightarrow> 'j queue) \<Rightarrow> queue_stats" where
  "jq_Stats qs = \<lparr>st_enqueued = jq_enqueued (qs 0), st_started = jq_started (qs 1),
     st_completed = jq_completed (qs 2), st_failed = jq_failed (qs 3), st_queued = int (length (jq_ch (qs 4))),
     st_busy = jq_started (qs 5) - jq_completed (qs 6) - jq_failed (qs 7)\<rparr>"

subsection \<open>Jobs\<close>

text \<open>
  The two jobs, with the effect of the store as an argument: the archive job writes a file named
  after repository, reference and time, the merge job keeps the commit it made.
\<close>

record archive_job =
  aj_owner :: string
  aj_repo :: string
  aj_ref :: string
  aj_result :: string
  aj_err :: "err option"
  aj_done :: bool

record merge_job =
  mj_owner :: string
  mj_repo :: string
  mj_base :: string
  mj_head :: string
  mj_squash :: bool
  mj_sha :: string
  mj_err :: "err option"
  mj_done :: bool

definition NewArchiveJob :: "string \<Rightarrow> string \<Rightarrow> string \<Rightarrow> archive_job" where
  "NewArchiveJob owner repoName ref = \<lparr>aj_owner = owner, aj_repo = repoName, aj_ref = ref, aj_result = [],
     aj_err = None, aj_done = False\<rparr>"

definition archive_Name :: "archive_job \<Rightarrow> string" where
  "archive_Name j = ''archive/'' @ aj_owner j @ ''/'' @ aj_repo j @ ''@'' @ aj_ref j"

definition ref_char :: "char \<Rightarrow> bool" where
  "ref_char c = (is_lower_letter c \<or> is_upper_letter c \<or> is_digit c \<or> c = CHR ''-'' \<or> c = CHR ''_'' \<or> c = CHR ''.'')"

definition sanitizeRef :: "string \<Rightarrow> string" where
  "sanitizeRef ref = map (\<lambda>c. if ref_char c then c else CHR ''_'') ref"

text \<open>
  \<open>archive\<close> is what the store answers, \<open>create\<close> and \<open>copy\<close> how creating and filling the file end.
\<close>

definition archive_Execute ::
  "string \<Rightarrow> instant \<Rightarrow> unit result \<Rightarrow> err option \<Rightarrow> err option \<Rightarrow> archive_job \<Rightarrow> unit result \<times> archive_job" where
  "archive_Execute tmpDir now archive create copy j =
     (let fail = (\<lambda>pre e. (Inl (ErrMsg (pre @ err_text e)),
                           j\<lparr>aj_err := Some (ErrMsg (pre @ err_text e)), aj_done := True\<rparr>));
          outPath = path_join [tmpDir, aj_repo j @ ''-'' @ sanitizeRef (aj_ref j) @ ''-'' @ int_string now @ ''.tar.gz'']
      in case archive of
           Inl e \<Rightarrow> fail ''git archive: '' e
         | Inr _ \<Rightarrow>
             (case create of
                Some e \<Rightarrow> fail ''create temp file: '' e
              | None \<Rightarrow>
                  (case copy of
                     Some e \<Rightarrow> fail ''write archive: '' e
                   | None \<Rightarrow> (Inr (), j\<lparr>aj_result := outPath, aj_done := True\<rparr>))))"

definition NewMergeJob :: "string \<Rightarrow> string \<Rightarrow> string \<Rightarrow> string \<Rightarrow> bool \<Rightarrow> merge_job" where
  "NewMergeJob owner repoName baseBranch headBranch squash =
     \<lparr>mj_owner = owner, mj_repo = repoName, mj_base = baseBranch, mj_head = headBranch, mj_squash = squash,
      mj_sha = [], mj_err = None, mj_done = False\<rparr>"

definition merge_Execute :: "string result \<Rightarrow> merge_job \<Rightarrow> unit result \<times> merge_job" where
  "merge_Execute merged j =
     (case merged of
        Inl e \<Rightarrow> (Inl e, j\<lparr>mj_err := Some e, mj_done := True\<rparr>)
      | Inr sha \<Rightarrow> (Inr (), j\<lparr>mj_sha := sha, mj_done := True\<rparr>))"

lemma sanitizeRef_safe: "c \<in> set (sanitizeRef r) \<Longrightarrow> ref_char c"
  by (auto simp: sanitizeRef_def ref_char_def)

subsection \<open>Runs of the queue\<close>

text \<open>
  The queue with all calls made so far (blocking or not, the job, where the call stands), and two
  histories: the jobs sent to the channel and the jobs taken from it.
\<close>

record 'j queue_world =
  qw_q :: "'j queue"
  qw_calls :: "(bool \<times> 'j \<times> phase) list"
  qw_sent :: "'j list"
  qw_taken :: "'j list"

definition call_step :: "bool \<Rightarrow> 'j \<Rightarrow> phase \<Rightarrow> 'j queue \<Rightarrow> (phase \<times> 'j queue) list" where
  "call_step blocking j ph q = (if blocking then Enqueue j ph q else EnqueueNonBlocking j ph q)"

inductive jq_step :: "'j queue_world \<Rightarrow> 'j queue_world \<Rightarrow> bool" where
  call: "jq_step w (w\<lparr>qw_calls := qw_calls w @ [(b, j, Called)]\<rparr>)"
| act: "i < length (qw_calls w) \<Longrightarrow> qw_calls w ! i = (b, j, ph) \<Longrightarrow> (ph', q') \<in> set (call_step b j ph (qw_q w)) \<Longrightarrow>
     jq_step w (w\<lparr>qw_q := q', qw_calls := (qw_calls w)[i := (b, j, ph')],
       qw_sent := (if ph' = Sent then qw_sent w @ [j] else qw_sent w)\<rparr>)"
| take_job: "i < length (jq_workers (qw_q w)) \<Longrightarrow> jq_workers (qw_q w) ! i = Idle \<Longrightarrow> jq_ch (qw_q w) = j # js \<Longrightarrow>
     jq_step w (w\<lparr>qw_q := worker_take i (qw_q w), qw_taken := qw_taken w @ [j]\<rparr>)"
| start_job: "i < length (jq_workers (qw_q w)) \<Longrightarrow> jq_workers (qw_q w) ! i = Received j \<Longrightarrow>
     jq_step w (w\<lparr>qw_q := process_start i j (qw_q w)\<rparr>)"
| end_job: "i < length (jq_workers (qw_q w)) \<Longrightarrow> jq_workers (qw_q w) ! i = Busy j \<Longrightarrow>
     jq_step w (w\<lparr>qw_q := process_end i r (qw_q w)\<rparr>)"
| leave: "i < length (jq_workers (qw_q w)) \<Longrightarrow> jq_workers (qw_q w) ! i = Idle \<Longrightarrow> jq_cancelled (qw_q w) \<Longrightarrow>
     jq_step w (w\<lparr>qw_q := worker_exit i (qw_q w)\<rparr>)"
| stop: "jq_step w (w\<lparr>qw_q := jq_Stop_flag (qw_q w)\<rparr>)"
| cancel: "jq_stopped (qw_q w) \<Longrightarrow> jq_step w (w\<lparr>qw_q := jq_Stop_cancel (qw_q w)\<rparr>)"

definition queue_world_new :: "int \<Rightarrow> int \<Rightarrow> 'j queue_world" where
  "queue_world_new b n = \<lparr>qw_q = jq_New b n, qw_calls = [], qw_sent = [], qw_taken = []\<rparr>"

fun busy_worker :: "'j worker \<Rightarrow> bool" where
  "busy_worker (Busy j) = True"
| "busy_worker w = False"

fun holding_worker :: "'j worker \<Rightarrow> bool" where
  "holding_worker (Received j) = True"
| "holding_worker w = False"

text \<open>The calls whose count the counter of enqueued jobs holds, and the jobs of the calls that sent.\<close>

fun call_counted :: "bool \<times> 'j \<times> phase \<Rightarrow> bool" where
  "call_counted (b, j, ph) = (ph \<in> {Selecting, RollingBack, Sent, GaveUp})"

definition sent_jobs :: "(bool \<times> 'j \<times> phase) list \<Rightarrow> 'j list" where
  "sent_jobs cs = map (fst \<circ> snd) (filter (\<lambda>c. snd (snd c) = Sent) cs)"

primrec count_of :: "('a \<Rightarrow> bool) \<Rightarrow> 'a list \<Rightarrow> nat" where
  "count_of P [] = 0"
| "count_of P (x # xs) = (if P x then 1 else 0) + count_of P xs"

lemma count_update:
  "i < length xs \<Longrightarrow> int (count_of P (xs[i := x])) =
     int (count_of P xs) - (if P (xs ! i) then 1 else 0) + (if P x then 1 else 0)"
proof (induction xs arbitrary: i)
  case (Cons v xs)
  then show ?case by (cases i) auto
qed simp

lemma count_append [simp]: "count_of P (xs @ ys) = count_of P xs + count_of P ys"
  by (induction xs) auto

lemma count_replicate: "\<not> P x \<Longrightarrow> count_of P (replicate k x) = 0"
  by (induction k) auto

lemma sent_jobs_append [simp]: "sent_jobs (cs @ [(b, j, Called)]) = sent_jobs cs"
  by (simp add: sent_jobs_def)

lemma sent_jobs_update:
  assumes "i < length cs" and "snd (snd (cs ! i)) \<noteq> Sent"
  shows "mset (sent_jobs (cs[i := (b, j, ph)])) = mset (sent_jobs cs) + (if ph = Sent then {#j#} else {#})"
  using assms
proof (induction cs arbitrary: i)
  case (Cons c cs)
  then show ?case by (cases i) (auto simp: sent_jobs_def)
qed simp

definition queue_ok :: "'j queue_world \<Rightarrow> bool" where
  "queue_ok w =
     (qw_sent w = qw_taken w @ jq_ch (qw_q w)
      \<and> mset (sent_jobs (qw_calls w)) = mset (qw_taken w) + mset (jq_ch (qw_q w))
      \<and> length (jq_ch (qw_q w)) \<le> jq_cap (qw_q w)
      \<and> jq_enqueued (qw_q w) = int (count_of call_counted (qw_calls w))
      \<and> jq_started (qw_q w) + int (count_of holding_worker (jq_workers (qw_q w))) = int (length (qw_taken w))
      \<and> jq_started (qw_q w) - jq_completed (qw_q w) - jq_failed (qw_q w)
          = int (count_of busy_worker (jq_workers (qw_q w))))"

lemma queue_ok_new: "queue_ok (queue_world_new b n)"
  by (simp add: queue_ok_def queue_world_new_def jq_New_def Let_def sent_jobs_def count_replicate)

lemma call_step_cases:
  assumes "(ph', q') \<in> set (call_step b j ph q)"
  obtains (flag) "ph = Called" "ph' \<in> {Refused, Counting}" "q' = q"
  | (adds) "ph = Counting" "ph' = Selecting" "q' = q\<lparr>jq_enqueued := jq_enqueued q + 1\<rparr>"
  | (sends) "ph = Selecting" "ph' = Sent" "can_send q" "q' = send j q"
  | (gives_up) "ph = Selecting" "ph' \<in> {GaveUp, RollingBack}" "q' = q"
  | (takes_back) "ph = RollingBack" "ph' = Full" "q' = q\<lparr>jq_enqueued := jq_enqueued q + (- 1)\<rparr>"
  using assms by (cases b; cases ph) (auto simp: call_step_def split: if_splits)

lemma queue_ok_act:
  assumes "queue_ok w" and i: "i < length (qw_calls w)" "qw_calls w ! i = (b, j, ph)"
    and step: "(ph', q') \<in> set (call_step b j ph (qw_q w))"
  shows "queue_ok (w\<lparr>qw_q := q', qw_calls := (qw_calls w)[i := (b, j, ph')],
       qw_sent := (if ph' = Sent then qw_sent w @ [j] else qw_sent w)\<rparr>)"
  using step
proof (cases rule: call_step_cases)
  case flag
  with assms(1) i show ?thesis by (auto simp: queue_ok_def count_update sent_jobs_update)
next
  case adds
  with assms(1) i show ?thesis by (auto simp: queue_ok_def count_update sent_jobs_update)
next
  case sends
  with assms(1) i show ?thesis
    by (auto simp: queue_ok_def count_update sent_jobs_update send_def can_send_def)
next
  case gives_up
  with assms(1) i show ?thesis by (auto simp: queue_ok_def count_update sent_jobs_update)
next
  case takes_back
  with assms(1) i show ?thesis by (auto simp: queue_ok_def count_update sent_jobs_update)
qed

lemma queue_ok_step: "jq_step w w1 \<Longrightarrow> queue_ok w \<Longrightarrow> queue_ok w1"
proof (induction rule: jq_step.induct)
  case (call w b j)
  then show ?case by (simp add: queue_ok_def)
next
  case (act i w b j ph ph' q')
  then show ?case by (intro queue_ok_act)
next
  case (take_job i w j js)
  then show ?case by (simp add: queue_ok_def worker_take_def count_update)
next
  case (start_job i w j)
  then show ?case by (simp add: queue_ok_def process_start_def count_update)
next
  case (end_job i w j r)
  then show ?case by (cases r) (simp_all add: queue_ok_def process_end_def Let_def count_update)
next
  case (leave i w)
  then show ?case by (simp add: queue_ok_def worker_exit_def count_update)
qed (auto simp: queue_ok_def jq_Stop_flag_def jq_Stop_cancel_def)

lemma queue_ok_reach: "jq_step\<^sup>*\<^sup>* w w1 \<Longrightarrow> queue_ok w \<Longrightarrow> queue_ok w1"
  by (induction rule: rtranclp_induct) (auto intro: queue_ok_step)

text \<open>The sizes stay and the counters of started and ended jobs only grow.\<close>

definition queue_le :: "'j queue \<Rightarrow> 'j queue \<Rightarrow> bool" where
  "queue_le q q' = (jq_cap q' = jq_cap q \<and> length (jq_workers q') = length (jq_workers q)
     \<and> jq_started q \<le> jq_started q' \<and> jq_completed q \<le> jq_completed q' \<and> jq_failed q \<le> jq_failed q')"

lemma jq_step_le: "jq_step w w1 \<Longrightarrow> queue_le (qw_q w) (qw_q w1)"
proof (induction rule: jq_step.induct)
  case (act i w b j ph ph' q')
  from act(3) show ?case by (cases rule: call_step_cases) (auto simp: queue_le_def send_def)
qed (auto simp: queue_le_def worker_take_def worker_exit_def process_start_def process_end_def
      jq_Stop_flag_def jq_Stop_cancel_def Let_def split: list.split outcome.split)

lemma jq_reach_le: "jq_step\<^sup>*\<^sup>* w w1 \<Longrightarrow> queue_le (qw_q w) (qw_q w1)"
  by (induction rule: rtranclp_induct) (auto simp: queue_le_def dest: jq_step_le)

lemma count_le: "count_of P xs \<le> length xs"
  by (induction xs) auto

subsection \<open>Properties\<close>


text \<open>
  A run for the next two lemmas, with one worker: two calls send their jobs; the worker takes and
  counts the first.
\<close>

definition demo_calls :: "nat queue_world" where
  "demo_calls = \<lparr>qw_q = \<lparr>jq_cap = 2, jq_ch = [8], jq_workers = [Busy 7], jq_stopped = False, jq_cancelled = False,
       jq_enqueued = 2, jq_started = 1, jq_completed = 0, jq_failed = 0\<rparr>,
     qw_calls = [(True, 7, Sent), (False, 8, Sent)], qw_sent = [7, 8], qw_taken = [7]\<rparr>"

lemma act_step:
  assumes "i < length (qw_calls w)" "qw_calls w ! i = (b, j, ph)" "(ph', q') \<in> set (call_step b j ph (qw_q w))"
    and "w' = w\<lparr>qw_q := q', qw_calls := (qw_calls w)[i := (b, j, ph')],
       qw_sent := (if ph' = Sent then qw_sent w @ [j] else qw_sent w)\<rparr>"
  shows "jq_step w w'"
  unfolding assms(4) using assms(1-3) by (rule jq_step.act)

definition demo_world :: "nat list \<Rightarrow> nat worker \<Rightarrow> int \<Rightarrow> int \<Rightarrow> (bool \<times> nat \<times> phase) list \<Rightarrow> nat list \<Rightarrow>
    nat list \<Rightarrow> int \<Rightarrow> nat queue_world" where
  "demo_world ch v enq st cs sent taken compl =
     \<lparr>qw_q = \<lparr>jq_cap = 2, jq_ch = ch, jq_workers = [v], jq_stopped = False, jq_cancelled = False,
       jq_enqueued = enq, jq_started = st, jq_completed = compl, jq_failed = 0\<rparr>,
     qw_calls = cs, qw_sent = sent, qw_taken = taken\<rparr>"

lemmas demo_simps = demo_world_def call_step_def can_send_def send_def

lemma demo_calls_reachable: "jq_step\<^sup>*\<^sup>* (queue_world_new 2 1) demo_calls"
proof -
  have "jq_step (queue_world_new 2 1) (demo_world [] Idle 0 0 [(True, 7, Called)] [] [] 0)"
    using jq_step.call [of "queue_world_new 2 1" True 7]
    by (simp add: demo_simps queue_world_new_def jq_New_def Let_def)
  moreover have "jq_step (demo_world [] Idle 0 0 [(True, 7, Called)] [] [] 0)
      (demo_world [] Idle 0 0 [(True, 7, Counting)] [] [] 0)"
    by (rule act_step [where i = 0]) (auto simp: demo_simps)
  moreover have "jq_step (demo_world [] Idle 0 0 [(True, 7, Counting)] [] [] 0)
      (demo_world [] Idle 1 0 [(True, 7, Selecting)] [] [] 0)"
    by (rule act_step [where i = 0]) (auto simp: demo_simps)
  moreover have "jq_step (demo_world [] Idle 1 0 [(True, 7, Selecting)] [] [] 0)
      (demo_world [7] Idle 1 0 [(True, 7, Sent)] [7] [] 0)"
    by (rule act_step [where i = 0]) (auto simp: demo_simps)
  moreover have "jq_step (demo_world [7] Idle 1 0 [(True, 7, Sent)] [7] [] 0)
      (demo_world [] (Received 7) 1 0 [(True, 7, Sent)] [7] [7] 0)"
    using jq_step.take_job [of 0 "demo_world [7] Idle 1 0 [(True, 7, Sent)] [7] [] 0" 7 "[]"]
    by (simp add: demo_simps worker_take_def)
  moreover have "jq_step (demo_world [] (Received 7) 1 0 [(True, 7, Sent)] [7] [7] 0)
      (demo_world [] (Busy 7) 1 1 [(True, 7, Sent)] [7] [7] 0)"
    using jq_step.start_job [of 0 "demo_world [] (Received 7) 1 0 [(True, 7, Sent)] [7] [7] 0" 7]
    by (simp add: demo_simps process_start_def)
  moreover have "jq_step (demo_world [] (Busy 7) 1 1 [(True, 7, Sent)] [7] [7] 0)
      (demo_world [] (Busy 7) 1 1 [(True, 7, Sent), (False, 8, Called)] [7] [7] 0)"
    using jq_step.call [of "demo_world [] (Busy 7) 1 1 [(True, 7, Sent)] [7] [7] 0" False 8]
    by (simp add: demo_simps)
  moreover have "jq_step (demo_world [] (Busy 7) 1 1 [(True, 7, Sent), (False, 8, Called)] [7] [7] 0)
      (demo_world [] (Busy 7) 1 1 [(True, 7, Sent), (False, 8, Counting)] [7] [7] 0)"
    by (rule act_step [where i = 1]) (auto simp: demo_simps)
  moreover have "jq_step (demo_world [] (Busy 7) 1 1 [(True, 7, Sent), (False, 8, Counting)] [7] [7] 0)
      (demo_world [] (Busy 7) 2 1 [(True, 7, Sent), (False, 8, Selecting)] [7] [7] 0)"
    by (rule act_step [where i = 1]) (auto simp: demo_simps)
  moreover have "jq_step (demo_world [] (Busy 7) 2 1 [(True, 7, Sent), (False, 8, Selecting)] [7] [7] 0)
      (demo_world [8] (Busy 7) 2 1 [(True, 7, Sent), (False, 8, Sent)] [7, 8] [7] 0)"
    by (rule act_step [where i = 1]) (auto simp: demo_simps)
  moreover have "demo_calls = demo_world [8] (Busy 7) 2 1 [(True, 7, Sent), (False, 8, Sent)] [7, 8] [7] 0"
    by (simp add: demo_calls_def demo_world_def)
  ultimately show ?thesis by simp
qed

text \<open>
  From there the worker ends the first job and takes, counts and ends the second. A Stats call that
  loads \<open>started\<close> before and the ends after it reports minus one busy worker.
\<close>

definition demo_end :: "nat queue_world" where
  "demo_end = demo_world [] Idle 2 2 [(True, 7, Sent), (False, 8, Sent)] [7, 8] [7, 8] 2"

lemma demo_end_reachable: "jq_step\<^sup>*\<^sup>* demo_calls demo_end"
proof -
  let ?cs = "[(True, 7, Sent), (False, 8, Sent)]"
  have start: "demo_calls = demo_world [8] (Busy 7) 2 1 ?cs [7, 8] [7] 0"
    by (simp add: demo_calls_def demo_world_def)
  have "jq_step demo_calls (demo_world [8] Idle 2 1 ?cs [7, 8] [7] 1)"
    using jq_step.end_job [of 0 demo_calls 7 Succeeded]
    by (simp add: start demo_simps process_end_def)
  moreover have "jq_step (demo_world [8] Idle 2 1 ?cs [7, 8] [7] 1) (demo_world [] (Received 8) 2 1 ?cs [7, 8] [7, 8] 1)"
    using jq_step.take_job [of 0 "demo_world [8] Idle 2 1 ?cs [7, 8] [7] 1" 8 "[]"]
    by (simp add: demo_simps worker_take_def)
  moreover have "jq_step (demo_world [] (Received 8) 2 1 ?cs [7, 8] [7, 8] 1) (demo_world [] (Busy 8) 2 2 ?cs [7, 8] [7, 8] 1)"
    using jq_step.start_job [of 0 "demo_world [] (Received 8) 2 1 ?cs [7, 8] [7, 8] 1" 8]
    by (simp add: demo_simps process_start_def)
  moreover have "jq_step (demo_world [] (Busy 8) 2 2 ?cs [7, 8] [7, 8] 1) demo_end"
    using jq_step.end_job [of 0 "demo_world [] (Busy 8) 2 2 ?cs [7, 8] [7, 8] 1" 8 Succeeded]
    by (simp add: demo_end_def demo_simps process_end_def)
  ultimately show ?thesis by simp
qed

text \<open>The reported number of busy workers can be negative.\<close>

lemma busy_below_zero:
  "\<exists>ws :: nat \<Rightarrow> nat queue_world. jq_step\<^sup>*\<^sup>* (queue_world_new 2 1) (ws 0) \<and> (\<forall>i. jq_step\<^sup>*\<^sup>* (ws i) (ws (Suc i)))
     \<and> st_busy (jq_Stats (\<lambda>i. qw_q (ws i))) = - 1"
proof -
  let ?ws = "\<lambda>i. if i \<le> 5 then demo_calls else demo_end"
  have "jq_step\<^sup>*\<^sup>* (?ws i) (?ws (Suc i))" for i using demo_end_reachable by simp
  moreover have "st_busy (jq_Stats (\<lambda>i. qw_q (?ws i))) = - 1"
    by (simp add: jq_Stats_def demo_calls_def demo_end_def demo_world_def)
  ultimately show ?thesis using demo_calls_reachable by (intro exI [of _ ?ws]) simp
qed


end
