(* ===== verification/Startup.thy ===== *)
theory Startup
  imports Config Auth GitStore JobQueue Search Presence
begin

section \<open>Migrations and the start of the API server (internal/db/db.go, cmd/api-server)\<close>

text \<open>
  At its start the server connects to the database, runs the migrations that have not run yet, makes the
  first administrator, and opens the store. Postgres running a file of SQL is a parameter; the data it changes has any
  type, since the server's tables are what the files make. A migration and its mark are one transaction.
\<close>

subsection \<open>Migrations\<close>

record 'd migration_lib =
  mg_read :: "string \<Rightarrow> string result"
  mg_exec :: "string \<Rightarrow> 'd \<Rightarrow> 'd result"

record 'd migrated =
  mw_applied :: "string list"
  mw_data :: 'd

text \<open>The entries of the embedded directory, with whether they are directories.\<close>

definition migration_files :: "(string \<times> bool) list \<Rightarrow> string list" where
  "migration_files entries = sort (map fst (filter (\<lambda>e. \<not> snd e \<and> suffix ''.sql'' (fst e)) entries))"

fun migrate_loop :: "'d migration_lib \<Rightarrow> string list \<Rightarrow> 'd migrated \<Rightarrow> unit result \<times> 'd migrated" where
  "migrate_loop lb [] w = (Inr (), w)"
| "migrate_loop lb (f # fs) w =
     (if f \<in> set (mw_applied w) then migrate_loop lb fs w
      else (case mg_read lb f of
              Inl e \<Rightarrow> (Inl e, w)
            | Inr sql \<Rightarrow>
                (case mg_exec lb sql (mw_data w) of
                   Inl e \<Rightarrow> (Inl (ErrMsg (''migrate '' @ f @ '': '' @ err_text e)), w)
                 | Inr d \<Rightarrow> migrate_loop lb fs (w\<lparr>mw_applied := mw_applied w @ [f], mw_data := d\<rparr>))))"

definition Migrate :: "'d migration_lib \<Rightarrow> (string \<times> bool) list \<Rightarrow> 'd migrated \<Rightarrow> unit result \<times> 'd migrated" where
  "Migrate lb entries w = migrate_loop lb (migration_files entries) w"

text \<open>The pool has room for as many connections as the setting says, when it says more than none.\<close>

definition pool_size :: "int \<Rightarrow> int \<Rightarrow> int" where
  "pool_size standard maxConns =
     (if maxConns > 0 then (maxConns + 2 ^ 31) mod 2 ^ 32 - 2 ^ 31 else standard)"

record connect_lib =
  cn_parse :: "string \<Rightarrow> int result"
  cn_open :: "int \<Rightarrow> err option"
  cn_ping :: "err option"

definition Connect :: "connect_lib \<Rightarrow> string \<Rightarrow> int \<Rightarrow> int result" where
  "Connect lb url maxConns =
     (case cn_parse lb url of
        Inl e \<Rightarrow> Inl (ErrMsg (''parse db config: '' @ err_text e))
      | Inr standard \<Rightarrow>
          (let n = pool_size standard maxConns
           in case cn_open lb n of
                Some e \<Rightarrow> Inl (ErrMsg (''connect db: '' @ err_text e))
              | None \<Rightarrow> (case cn_ping lb of Some e \<Rightarrow> Inl (ErrMsg (''ping db: '' @ err_text e)) | None \<Rightarrow> Inr n)))"

lemma pool_size_small: "0 < n \<Longrightarrow> n < 2 ^ 31 \<Longrightarrow> pool_size s n = n"
  by (simp add: pool_size_def)

text \<open>A setting beyond 32 bits wraps around, to a pool with no room or less.\<close>

lemma pool_size_wraps: "pool_size s (2 ^ 31) = - (2 ^ 31)" "pool_size s (2 ^ 32) = 0"
  by (simp_all add: pool_size_def)

subsection \<open>Each migration runs once, in order\<close>

definition pending :: "(string \<times> bool) list \<Rightarrow> 'd migrated \<Rightarrow> string list" where
  "pending entries w = filter (\<lambda>f. f \<notin> set (mw_applied w)) (migration_files entries)"

fun run_files :: "'d migration_lib \<Rightarrow> string list \<Rightarrow> 'd \<Rightarrow> 'd result" where
  "run_files lb [] d = Inr d"
| "run_files lb (f # fs) d =
     (case mg_read lb f of Inl e \<Rightarrow> Inl e | Inr sql \<Rightarrow> (case mg_exec lb sql d of Inl e \<Rightarrow> Inl e | Inr d1 \<Rightarrow> run_files lb fs d1))"

text \<open>Why a file stops the pass, and how the pass answers when \<open>left\<close> are the files it did not get to.\<close>

definition file_error :: "'d migration_lib \<Rightarrow> string \<Rightarrow> 'd \<Rightarrow> err option" where
  "file_error lb f d =
     (case mg_read lb f of
        Inl e \<Rightarrow> Some e
      | Inr sql \<Rightarrow>
          (case mg_exec lb sql d of Inl e \<Rightarrow> Some (ErrMsg (''migrate '' @ f @ '': '' @ err_text e)) | Inr d1 \<Rightarrow> None))"

definition stops_with :: "'d migration_lib \<Rightarrow> string list \<Rightarrow> 'd \<Rightarrow> unit result \<Rightarrow> bool" where
  "stops_with lb left d out =
     (case left of [] \<Rightarrow> out = Inr () | f # fs \<Rightarrow> \<exists>e. file_error lb f d = Some e \<and> out = Inl e)"

lemma migrate_loop_exact:
  assumes "distinct fs"
  shows "\<exists>k. k \<le> length (filter (\<lambda>f. f \<notin> set (mw_applied w)) fs)
     \<and> mw_applied (snd (migrate_loop lb fs w)) = mw_applied w @ take k (filter (\<lambda>f. f \<notin> set (mw_applied w)) fs)
     \<and> run_files lb (take k (filter (\<lambda>f. f \<notin> set (mw_applied w)) fs)) (mw_data w) = Inr (mw_data (snd (migrate_loop lb fs w)))
     \<and> stops_with lb (drop k (filter (\<lambda>f. f \<notin> set (mw_applied w)) fs)) (mw_data (snd (migrate_loop lb fs w)))
         (fst (migrate_loop lb fs w))"
  using assms
proof (induction fs arbitrary: w)
  case (Cons f fs)
  let ?todo = "filter (\<lambda>g. g \<notin> set (mw_applied w)) fs"
  show ?case
  proof (cases "f \<in> set (mw_applied w)")
    case True
    then show ?thesis using Cons.IH [of w] Cons.prems by simp
  next
    case False
    show ?thesis
    proof (cases "\<exists>sql d. mg_read lb f = Inr sql \<and> mg_exec lb sql (mw_data w) = Inr d")
      case True
      then obtain sql d where run: "mg_read lb f = Inr sql" "mg_exec lb sql (mw_data w) = Inr d" by blast
      let ?w = "w\<lparr>mw_applied := mw_applied w @ [f], mw_data := d\<rparr>"
      have same: "filter (\<lambda>g. g \<notin> set (mw_applied ?w)) fs = ?todo"
        using Cons.prems by (intro filter_cong) auto
      have step: "migrate_loop lb (f # fs) w = migrate_loop lb fs ?w" using False run by simp
      have "distinct fs" using Cons.prems by simp
      from Cons.IH [OF this, of ?w] obtain k where k: "k \<le> length ?todo"
          "mw_applied (snd (migrate_loop lb fs ?w)) = mw_applied ?w @ take k ?todo"
          "run_files lb (take k ?todo) d = Inr (mw_data (snd (migrate_loop lb fs ?w)))"
          "stops_with lb (drop k ?todo) (mw_data (snd (migrate_loop lb fs ?w))) (fst (migrate_loop lb fs ?w))"
        unfolding same by auto
      show ?thesis by (rule exI [of _ "Suc k"]) (use k False run step in simp)
    next
      case fails: False
      then have "\<exists>e. file_error lb f (mw_data w) = Some e \<and> migrate_loop lb (f # fs) w = (Inl e, w)"
        using False by (auto simp: file_error_def split: sum.split)
      then show ?thesis using False by (intro exI [of _ 0]) (auto simp: stops_with_def)
    qed
  qed
qed (simp add: stops_with_def)

text \<open>C23: Starting the server applies every migration exactly once and in the order of the names, whatever
  happened before: the ones that have not run yet are run one after the other, each is marked, the data is what
  those files make of it, and a later start goes on with exactly the ones that are left. The pass stops early only
  at a file that cannot be read or whose SQL fails on the data the files before it made, and answers with that error;
  otherwise it runs them all and succeeds.
\<close>
theorem migrations_applied_once:
  assumes "distinct (map fst entries)" and "Migrate lb entries w = (out, w1)"
  shows "\<exists>k. mw_applied w1 = mw_applied w @ take k (pending entries w)
     \<and> run_files lb (take k (pending entries w)) (mw_data w) = Inr (mw_data w1)
     \<and> pending entries w1 = drop k (pending entries w)
     \<and> stops_with lb (pending entries w1) (mw_data w1) out"
proof -
  let ?fs = "migration_files entries"
  have "distinct ?fs" using assms(1) by (simp add: migration_files_def distinct_map_filter)
  from migrate_loop_exact [OF this, of w lb] obtain k where k: "k \<le> length (pending entries w)"
      "mw_applied w1 = mw_applied w @ take k (pending entries w)"
      "run_files lb (take k (pending entries w)) (mw_data w) = Inr (mw_data w1)"
      "stops_with lb (drop k (pending entries w)) (mw_data w1) out"
    using assms(2) by (auto simp: Migrate_def pending_def)
  have dist: "distinct (pending entries w)" using \<open>distinct ?fs\<close> by (simp add: pending_def)
  have "pending entries w1 = filter (\<lambda>f. f \<notin> set (take k (pending entries w))) (pending entries w)"
    unfolding pending_def k(2) by (simp add: filter_filter conj_commute)
  also have "\<dots> = drop k (pending entries w)"
  proof -
    let ?p = "pending entries w"
    have "filter (\<lambda>f. f \<notin> set (take k ?p)) (take k ?p @ drop k ?p) = drop k ?p"
      using dist set_take_disj_set_drop_if_distinct [OF dist, of k k]
      by (auto simp: filter_empty_conv filter_id_conv simp del: append_take_drop_id)
    then show ?thesis by simp
  qed
  finally show ?thesis using k by (intro exI [of _ k]) simp
qed

definition demo_migrations :: "nat migration_lib" where
  "demo_migrations = \<lparr>mg_read = (\<lambda>f. Inr f), mg_exec = (\<lambda>sql n. if sql = ''3.sql'' then Inl NoRows else Inr (10 * n + length sql))\<rparr>"

lemma migrations_applied_once_witness:
  "let entries = [(''2.sql'', False), (''a'', False), (''1.sql'', False), (''3.sql'', False)];
       w1 = snd (Migrate demo_migrations entries \<lparr>mw_applied = [''1.sql''], mw_data = 1\<rparr>)
   in mw_applied w1 = [''1.sql'', ''2.sql''] \<and> pending entries w1 = [''3.sql'']
      \<and> file_error demo_migrations ''3.sql'' (mw_data w1) \<noteq> None"
proof -
  let ?e = "[(''2.sql'', False), (''a'', False), (''1.sql'', False), (''3.sql'', False)]"
  let ?m = "Migrate demo_migrations ?e \<lparr>mw_applied = [''1.sql''], mw_data = 1\<rparr>"
  have dist: "distinct (map fst ?e)" by simp
  have run: "fst ?m = Inl (ErrMsg ''migrate 3.sql: no rows in result set'')" "mw_applied (snd ?m) = [''1.sql'', ''2.sql'']"
    by code_simp+
  have todo: "pending ?e \<lparr>mw_applied = [''1.sql''], mw_data = 1 :: nat\<rparr> = [''2.sql'', ''3.sql'']" by code_simp
  have "?m = (fst ?m, snd ?m)" by simp
  from migrations_applied_once [OF dist this] obtain k
    where k: "mw_applied (snd ?m) = [''1.sql''] @ take k [''2.sql'', ''3.sql'']"
      "pending ?e (snd ?m) = drop k [''2.sql'', ''3.sql'']"
      "stops_with demo_migrations (pending ?e (snd ?m)) (mw_data (snd ?m)) (fst ?m)"
    unfolding todo by auto
  from k(1) have "k = 1" unfolding run(2) by (cases k; cases "k - 1") auto
  then show ?thesis using k(2,3) run(2) by (auto simp: Let_def stops_with_def)
qed

subsection \<open>The API server\<close>

text \<open>What the main program puts together from its settings, for the services that keep something of them.\<close>

record 'g api_process =
  ps_auth :: auth_config
  ps_store :: "'g store"
  ps_search :: search_service
  ps_tracker :: tracker
  ps_queue :: "unit queue"
  ps_cors :: "string list"
  ps_releases :: string
  ps_packages :: string
  ps_uploads :: string
  ps_ai :: ai_config

record 'g startup_lib =
  su_connect :: connect_lib
  su_migrations :: "db migration_lib"
  su_entries :: "(string \<times> bool) list"
  su_crypto :: crypto
  su_git :: "'g git_lib"
  su_disk :: disk
  su_files :: 'g

text \<open>
  A fatal error ends the program with its message. Making the search index is tried and its outcome dropped.
\<close>

definition api_main ::
  "'g startup_lib \<Rightarrow> environment \<Rightarrow> instant \<Rightarrow> uuid \<Rightarrow> db migrated \<Rightarrow> (string + 'g api_process) \<times> db migrated" where
  "api_main lb env now nid w =
     (let cfg = Load env
      in case Connect (su_connect lb) (cf_db cfg) (cf_conns cfg) of
           Inl e \<Rightarrow> (Inl (''db connect: '' @ err_text e), w)
         | Inr n \<Rightarrow>
             (case Migrate (su_migrations lb) (su_entries lb) w of
                (Inl e, w1) \<Rightarrow> (Inl (''migrate: '' @ err_text e), w1)
              | (Inr _, w1) \<Rightarrow>
                  (case BootstrapAdmin (su_crypto lb) now nid (cf_admin cfg) (cf_admin_email cfg) (cf_admin_password cfg) (mw_data w1) of
                     (Inl e, d) \<Rightarrow> (Inl (''bootstrap admin: '' @ err_text e), w1\<lparr>mw_data := d\<rparr>)
                   | (Inr _, d) \<Rightarrow>
                       (case NewStore (su_git lb) (su_disk lb) (cf_git cfg) (su_files lb) of
                          Inl e \<Rightarrow> (Inl (''git store: '' @ err_text e), w1\<lparr>mw_data := d\<rparr>)
                        | Inr st \<Rightarrow>
                            (Inr \<lparr>ps_auth = NewService (cf_secret cfg) (Some \<lparr>opt_public = cf_public cfg, opt_max_attempts = 0, opt_lockout = 0\<rparr>),
                                  ps_store = st, ps_search = search_NewService (cf_search cfg), ps_tracker = NewTracker,
                                  ps_queue = jq_New 100 4, ps_cors = cors_origins (cf_cors cfg),
                                  ps_releases = cf_artifacts cfg, ps_packages = cf_artifacts cfg @ ''/packages'',
                                  ps_uploads = cf_artifacts cfg @ ''/uploads'', ps_ai = Aireview.NewClient (cf_ai cfg)\<rparr>,
                             w1\<lparr>mw_data := d\<rparr>)))))"

lemma created_admin:
  assumes "createUser cr now nid name email pw role d = (Inr u, d1)" and "users d = []"
  shows "\<exists>h. bcrypt_hash cr pw = Inr h \<and> (\<exists>r. users d1 = [r] \<and> u_name r = name \<and> u_hash r = h \<and> u_role r = role
     \<and> u_locked r = None \<and> user_of_row r = u)"
  using assms by (auto simp: createUser_def insert_user_def insert_row_def split: sum.splits if_splits prod.splits)

text \<open>A server started for the first time with nothing configured can be entered by anybody: the administrator
  it makes has the name and the password ``admin'', so that login gives a session of an administrator.
\<close>
theorem default_admin_login:
  assumes "\<forall>k. env k = []" and "crypto_laws (su_crypto lb)" and "\<forall>k c. is_ok (jwt_sign (su_crypto lb) k c)"
    and "api_main lb env now nid w = (Inr p, w1)" and "users (mw_data (snd (Migrate (su_migrations lb) (su_entries lb) w))) = []"
  shows "\<exists>token u. fst (Login (su_crypto lb) (ps_auth p) later ''admin'' ''admin'' (mw_data w1)) = Inr (token, u) \<and> usr_role u = RoleAdmin"
proof -
  let ?cr = "su_crypto lb"
  have cfg: "cf_admin (Load env) = ''admin''" "cf_admin_password (Load env) = ''admin''"
    using assms(1) by (simp_all add: Load_def getEnv_def Let_def)
  define w0 where "w0 = snd (Migrate (su_migrations lb) (su_entries lb) w)"
  have empty: "users (mw_data w0) = []" using assms(5) by (simp add: w0_def)
  obtain d where d: "BootstrapAdmin ?cr now nid ''admin'' (cf_admin_email (Load env)) ''admin'' (mw_data w0) = (Inr (), d)"
      "mw_data w1 = d"
    using assms(4) unfolding api_main_def Let_def cfg w0_def by (auto split: sum.splits prod.splits)
  then obtain u where "createUser ?cr now nid ''admin'' (cf_admin_email (Load env)) ''admin'' RoleAdmin (mw_data w0) = (Inr u, d)"
    using empty by (auto simp: BootstrapAdmin_def split: sum.splits prod.splits)
  from created_admin [OF this empty] obtain h r where h: "bcrypt_hash ?cr ''admin'' = Inr h"
      and r: "users d = [r]" "u_name r = ''admin''" "u_hash r = h" "u_role r = RoleAdmin" "u_locked r = None"
    by blast
  have "bcrypt_ok ?cr h ''admin''" using assms(2) h by (auto simp: crypto_laws_def)
  moreover obtain token where "issueJWT ?cr (ps_auth p) later (u_id r) (u_name r) = Inr token"
    using assms(3) by (auto simp: issueJWT_def is_ok_iff)
  ultimately have "fst (Login ?cr (ps_auth p) later ''admin'' ''admin'' d) = Inr (token, user_of_row r)"
    using r by (simp add: Login_def login_match_def locked_at_def Let_def)
  then show ?thesis using d(2) r(4) by (auto simp: user_of_row_def)
qed

definition first_start :: "unit startup_lib" where
  "first_start = \<lparr>su_connect = \<lparr>cn_parse = (\<lambda>u. Inr 4), cn_open = (\<lambda>n. None), cn_ping = None\<rparr>,
     su_migrations = \<lparr>mg_read = (\<lambda>f. Inr f), mg_exec = (\<lambda>sql d. Inr (d\<lparr>users := []\<rparr>))\<rparr>, su_entries = [(''001_init.sql'', False)],
     su_crypto = example_crypto, su_git = example_git, su_disk = Map.empty, su_files = ()\<rparr>"

lemma default_admin_login_witness:
  "let run = api_main first_start (\<lambda>k. []) 0 (Uuid 7) \<lparr>mw_applied = [], mw_data = demo_db True\<rparr>
   in (\<exists>p. fst run = Inr p \<and> (\<exists>token u. fst (Login example_crypto (ps_auth p) 5 ''admin'' ''admin'' (mw_data (snd run))) = Inr (token, u)
        \<and> usr_role u = RoleAdmin))"
proof -
  let ?run = "api_main first_start (\<lambda>k. []) 0 (Uuid 7) \<lparr>mw_applied = [], mw_data = demo_db True\<rparr>"
  have ok: "\<exists>p. fst ?run = Inr p"
    by (simp add: api_main_def first_start_def Connect_def pool_size_def Load_def Let_def getEnv_def GetEnvInt_def Migrate_def
        migration_files_def BootstrapAdmin_def createUser_def example_crypto_def insert_user_def NewStore_def example_git_def
        suffix_def RoleAdmin_def key_free_def references_def)
  then obtain p where p: "fst ?run = Inr p" by blast
  then have run: "?run = (Inr p, snd ?run)" by (metis prod.collapse)
  have "users (mw_data (snd (Migrate (su_migrations first_start) (su_entries first_start)
      \<lparr>mw_applied = [], mw_data = demo_db True\<rparr>))) = []"
    by (simp add: first_start_def Migrate_def migration_files_def suffix_def)
  then have "\<exists>token u. fst (Login (su_crypto first_start) (ps_auth p) 5 ''admin'' ''admin'' (mw_data (snd ?run))) = Inr (token, u)
      \<and> usr_role u = RoleAdmin"
    using example_crypto_laws by (intro default_admin_login [OF _ _ _ run]) (simp_all add: first_start_def example_crypto_def)
  then show ?thesis using p by (simp add: first_start_def Let_def)
qed

end
