(* ===== verification/ApiMeta.thy ===== *)
theory ApiMeta
  imports JobQueue Search ApiUser
begin

section \<open>Search, server information and queue statistics over the API (internal/api/server.go, meta.go)\<close>

text \<open>
  Three handlers behind the authentication that look at no repository. The version and the platform are
  variables of the build.
\<close>

definition handleSearch :: "search_lib \<Rightarrow> search_service \<Rightarrow> string \<Rightarrow> 'g api_world \<Rightarrow> (search_result, 'g) outcome" where
  "handleSearch lb ss q w =
     answer 500 id (run_search lb ss q \<lparr>so_limit = 30, so_offset = 0, so_type = [], so_sort = []\<rparr>, w)"

record build_info =
  bd_version :: string
  bd_time :: string
  bd_go :: string
  bd_platform :: string

record meta_response =
  mt_build :: build_info
  mt_password_auth :: bool
  mt_protocols :: "string list"
  mt_capabilities :: "string list"
  mt_auth_methods :: "string list"
  mt_registration :: bool
  mt_now :: instant

definition handleMeta :: "('g, 'k) server \<Rightarrow> build_info \<Rightarrow> instant \<Rightarrow> 'g api_world \<Rightarrow> (meta_response, 'g) outcome" where
  "handleMeta sv build now w =
     (OK \<lparr>mt_build = build, mt_password_auth = True, mt_protocols = [''http'', ''ssh''],
          mt_capabilities = [''actions'', ''packages'', ''issues'', ''pull_requests'', ''wiki'', ''releases'', ''search'', ''webhooks'',
                             ''ai_review'', ''audit_log''],
          mt_auth_methods = [''token'', ''jwt''], mt_registration = ac_public (sr_auth sv), mt_now = now\<rparr>, w)"

text \<open>Without a queue the answer says so; with one, any caller gets its statistics;
\<open>jq\<close> gives the queue at each load of Stats.\<close>

definition handleJobQueueStats :: "(nat \<Rightarrow> 'j queue) option \<Rightarrow> 'g api_world \<Rightarrow> (queue_stats option, 'g) outcome" where
  "handleJobQueueStats jq w = (OK (case jq of None \<Rightarrow> None | Some qu \<Rightarrow> Some (jq_Stats qu)), w)"

end
