(* ===== verification/Cli.thy ===== *)
theory Cli
  imports GitText GoUrl
begin

section \<open>The command line client: settings and requests (internal/cli: config.go, client.go)\<close>

text \<open>
  The client reads a settings file, sends requests to the API and prints answers. A command is what it
  gives, a value or an error, with the list of the things it does to the outside, in order. The outside itself, the
  environment, the files, the server, git and the JSON and YAML encoders, is the record \<open>cli_lib\<close>.
\<close>

subsection \<open>The outside\<close>

datatype json =
    JNull
  | JBool bool
  | JNum string
  | JStr string
  | JArr "json list"
  | JObj "(string \<times> json) list"

type_synonym json_map = "(string \<times> json) list"

record cli_config =
  kf_api :: string
  kf_git :: string
  kf_token :: string
  kf_user :: string

datatype request_content = NoContents | JsonBody json | FileBody string string string

record cli_request =
  cq_method :: string
  cq_url :: string
  cq_body :: request_content
  cq_auth :: string

datatype cli_event =
    Asked cli_request
  | Printed string
  | Complained string
  | Saved string cli_config
  | Cloned "string list"

datatype file_read = Absent | Unreadable err | Contents string

record cli_lib =
  kl_env :: "string \<Rightarrow> string"
  kl_config_dir :: "string result"
  kl_mkdir :: "string \<Rightarrow> err option"
  kl_read :: "string \<Rightarrow> file_read"
  kl_yaml :: "string \<Rightarrow> cli_config \<Rightarrow> cli_config result"
  kl_yaml_out :: "cli_config \<Rightarrow> string result"
  kl_write :: "string \<Rightarrow> string \<Rightarrow> err option"
  kl_stdin :: "string \<times> string"
  kl_new :: "string \<Rightarrow> err option"
  kl_do :: "cli_request \<Rightarrow> (int \<times> string \<times> string result) result"
  kl_parse :: "string \<Rightarrow> json result"
  kl_indent :: "json \<Rightarrow> string"
  kl_show :: "json option \<Rightarrow> string"
  kl_git :: "string list \<Rightarrow> err option"

type_synonym 'a cmd = "'a result \<times> cli_event list"

definition cmd_ok :: "'a \<Rightarrow> 'a cmd" where "cmd_ok x = (Inr x, [])"

definition cmd_fail :: "string \<Rightarrow> 'a cmd" where "cmd_fail msg = (Inl (ErrMsg msg), [])"

definition cmd_of :: "'a result \<Rightarrow> 'a cmd" where "cmd_of r = (r, [])"

definition cmd_bind :: "'a cmd \<Rightarrow> ('a \<Rightarrow> 'b cmd) \<Rightarrow> 'b cmd" where
  "cmd_bind c k =
     (case c of (Inl e, tr) \<Rightarrow> (Inl e, tr) | (Inr x, tr) \<Rightarrow> (case k x of (out, tr2) \<Rightarrow> (out, tr @ tr2)))"

definition say :: "string \<Rightarrow> unit cmd" where "say s = (Inr (), [Printed s])"

subsection \<open>Settings\<close>

definition defaultAPIURL :: string where "defaultAPIURL = ''http://localhost:8080''"
definition defaultGitURL :: string where "defaultGitURL = ''http://localhost:8081''"

definition configDir :: "cli_lib \<Rightarrow> string result" where
  "configDir lb =
     (let xdg = kl_env lb ''XDG_CONFIG_HOME''
      in case (if xdg = [] then kl_config_dir lb else Inr xdg) of
           Inl e \<Rightarrow> Inl e
         | Inr base \<Rightarrow>
             (let dir = path_join [base, ''govnohub'']
              in case kl_mkdir lb dir of Some e \<Rightarrow> Inl e | None \<Rightarrow> Inr dir))"

definition ConfigPath :: "cli_lib \<Rightarrow> string result" where
  "ConfigPath lb = (case configDir lb of Inl e \<Rightarrow> Inl e | Inr dir \<Rightarrow> Inr (path_join [dir, ''config.yaml'']))"

definition default_config :: cli_config where
  "default_config = \<lparr>kf_api = defaultAPIURL, kf_git = defaultGitURL, kf_token = [], kf_user = []\<rparr>"

definition LoadConfig :: "cli_lib \<Rightarrow> string \<Rightarrow> cli_config result" where
  "LoadConfig lb path0 =
     (case (if path0 = [] then ConfigPath lb else Inr path0) of
        Inl e \<Rightarrow> Inr default_config
      | Inr path \<Rightarrow>
          (case kl_read lb path of
             Absent \<Rightarrow> Inr default_config
           | Unreadable e \<Rightarrow> Inl e
           | Contents bytes \<Rightarrow>
               (case kl_yaml lb bytes default_config of
                  Inl e \<Rightarrow> Inl e
                | Inr cfg \<Rightarrow> Inr (cfg\<lparr>kf_api := (if kf_api cfg = [] then defaultAPIURL else kf_api cfg),
                                      kf_git := (if kf_git cfg = [] then defaultGitURL else kf_git cfg)\<rparr>))))"

definition SaveConfig :: "cli_lib \<Rightarrow> cli_config \<Rightarrow> string \<Rightarrow> unit cmd" where
  "SaveConfig lb cfg path0 =
     (case (if path0 = [] then ConfigPath lb else Inr path0) of
        Inl e \<Rightarrow> (Inl e, [])
      | Inr path \<Rightarrow>
          (case kl_yaml_out lb cfg of
             Inl e \<Rightarrow> (Inl e, [])
           | Inr bytes \<Rightarrow> (case kl_write lb path bytes of Some e \<Rightarrow> (Inl e, []) | None \<Rightarrow> (Inr (), [Saved path cfg]))))"

definition MergeFlags :: "string \<Rightarrow> string \<Rightarrow> string \<Rightarrow> cli_config \<Rightarrow> cli_config" where
  "MergeFlags apiURL gitURL token c =
     c\<lparr>kf_api := (if apiURL \<noteq> [] then apiURL else kf_api c), kf_git := (if gitURL \<noteq> [] then gitURL else kf_git c),
       kf_token := (if token \<noteq> [] then token else kf_token c)\<rparr>"

definition RequireToken :: "cli_config \<Rightarrow> unit result" where
  "RequireToken c =
     (if kf_token c = [] then Inl (ErrMsg ''not authenticated: run `govnohub auth login` or set --token'') else Inr ())"

definition url_scheme :: "string \<Rightarrow> string" where
  "url_scheme raw = (if length raw > 8 \<and> take 8 raw = ''https://'' then ''https'' else ''http'')"

definition stringsTrimPrefix :: "string \<Rightarrow> string \<Rightarrow> string" where
  "stringsTrimPrefix s p = (if length s \<ge> length p \<and> take (length p) s = p then drop (length p) s else s)"

fun stringsTrimSlash_rev :: "string \<Rightarrow> string" where
  "stringsTrimSlash_rev [] = []"
| "stringsTrimSlash_rev (c # s) = (if c = CHR ''/'' then stringsTrimSlash_rev s else c # s)"

definition stringsTrimSlash :: "string \<Rightarrow> string" where
  "stringsTrimSlash s = rev (stringsTrimSlash_rev (rev s))"

definition hostWithoutScheme :: "string \<Rightarrow> string" where
  "hostWithoutScheme raw = stringsTrimPrefix (stringsTrimPrefix raw ''https://'') ''http://''"

definition CloneURL :: "cli_config \<Rightarrow> string \<Rightarrow> string \<Rightarrow> string" where
  "CloneURL cfg owner repo =
     (if kf_token cfg \<noteq> []
      then url_scheme (kf_git cfg) @ ''://x-access-token:'' @ kf_token cfg @ ''@'' @ hostWithoutScheme (kf_git cfg)
             @ ''/'' @ owner @ ''/'' @ repo @ ''.git''
      else stringsTrimSlash (kf_git cfg) @ ''/'' @ owner @ ''/'' @ repo @ ''.git'')"

lemma trim_helpers: "stringsTrimPrefix s p = trim_prefix p s" "stringsTrimSlash s = trim_right (\<lambda>c. c = CHR ''/'') s"
proof -
  have "take (length p) s = p \<longleftrightarrow> prefix p s" if "length p \<le> length s"
    by (metis append_eq_conv_conj append_take_drop_id prefix_def)
  then show "stringsTrimPrefix s p = trim_prefix p s"
    by (auto simp: stringsTrimPrefix_def trim_prefix_def dest: prefix_length_le)
  have "stringsTrimSlash_rev t = dropWhile (\<lambda>c. c = CHR ''/'') t" for t by (induction t) auto
  then show "stringsTrimSlash s = trim_right (\<lambda>c. c = CHR ''/'') s" by (simp add: stringsTrimSlash_def trim_right_def)
qed

subsection \<open>JSON values\<close>

definition json_get :: "json_map \<Rightarrow> string \<Rightarrow> json option" where
  "json_get m k = map_of (rev m) k"

definition json_str :: "json option \<Rightarrow> string" where
  "json_str v = (case v of Some (JStr s) \<Rightarrow> s | _ \<Rightarrow> [])"

definition json_bool :: "json option \<Rightarrow> bool" where
  "json_bool v = (case v of Some (JBool b) \<Rightarrow> b | _ \<Rightarrow> False)"

fun as_map :: "json \<Rightarrow> json_map result" where
  "as_map (JObj m) = Inr m"
| "as_map JNull = Inr []"
| "as_map v = Inl (ErrMsg ''json: cannot unmarshal into Go value of type map[string]interface {}'')"

fun as_maps_list :: "json list \<Rightarrow> json_map list result" where
  "as_maps_list [] = Inr []"
| "as_maps_list (v # vs) =
     (case as_map v of
        Inl e \<Rightarrow> Inl e
      | Inr m \<Rightarrow> (case as_maps_list vs of Inl e \<Rightarrow> Inl e | Inr ms \<Rightarrow> Inr (m # ms)))"

fun as_maps :: "json \<Rightarrow> json_map list result" where
  "as_maps (JArr vs) = as_maps_list vs"
| "as_maps JNull = Inr []"
| "as_maps v = Inl (ErrMsg ''json: cannot unmarshal into Go value of type []map[string]interface {}'')"

definition string_or_null :: "json \<Rightarrow> bool" where
  "string_or_null v = (case v of JStr s \<Rightarrow> True | JNull \<Rightarrow> True | _ \<Rightarrow> False)"

fun as_strings :: "json \<Rightarrow> json_map result" where
  "as_strings (JObj m) = (if list_all (\<lambda>p. string_or_null (snd p)) m then Inr m
     else Inl (ErrMsg ''json: cannot unmarshal into Go value of type string''))"
| "as_strings JNull = Inr []"
| "as_strings v = Inl (ErrMsg ''json: cannot unmarshal into Go value of type map[string]string'')"

subsection \<open>Requests\<close>

record client =
  cl_base :: string
  cl_token :: string

definition cli_NewClient :: "string \<Rightarrow> string \<Rightarrow> client" where
  "cli_NewClient baseURL token = \<lparr>cl_base = stringsTrimSlash baseURL, cl_token = token\<rparr>"

definition bearer :: "string \<Rightarrow> string" where
  "bearer token = (if token \<noteq> [] then ''Bearer '' @ token else [])"

definition error_text :: "cli_lib \<Rightarrow> string \<Rightarrow> string" where
  "error_text lb bytes =
     (let msg = (case kl_parse lb bytes of Inr (JObj m) \<Rightarrow> json_str (json_get m ''error'') | _ \<Rightarrow> [])
      in if msg = [] then bytes else msg)"

text \<open>\<open>zero\<close> is what the target holds before decoding, \<open>decode\<close> puts a JSON value into it.\<close>

definition client_do ::
  "cli_lib \<Rightarrow> client \<Rightarrow> string \<Rightarrow> string \<Rightarrow> string \<Rightarrow> request_content \<Rightarrow> 'a \<Rightarrow> (json \<Rightarrow> 'a result) \<Rightarrow> 'a cmd" where
  "client_do lb c verb path token content zero decode =
     (let rq = \<lparr>cq_method = verb, cq_url = cl_base c @ path, cq_body = content, cq_auth = bearer token\<rparr>
      in case kl_new lb (cl_base c @ path) of
           Some e \<Rightarrow> (Inl e, [])
         | None \<Rightarrow>
             (case kl_do lb rq of
                Inl e \<Rightarrow> (Inl e, [Asked rq])
              | Inr (code, status, Inl e) \<Rightarrow> (Inl e, [Asked rq])
              | Inr (code, status, Inr bytes) \<Rightarrow>
                  (if code \<ge> 400 then (Inl (ErrMsg (status @ '': '' @ error_text lb bytes)), [Asked rq])
                   else if bytes = [] then (Inr zero, [Asked rq])
                   else (case kl_parse lb bytes of
                           Inl e \<Rightarrow> (Inl e, [Asked rq])
                         | Inr v \<Rightarrow> (decode v, [Asked rq])))))"

definition client_get :: "cli_lib \<Rightarrow> client \<Rightarrow> string \<Rightarrow> string \<Rightarrow> 'a \<Rightarrow> (json \<Rightarrow> 'a result) \<Rightarrow> 'a cmd" where
  "client_get lb c path token zero decode = client_do lb c ''GET'' path token NoContents zero decode"

definition client_post :: "cli_lib \<Rightarrow> client \<Rightarrow> string \<Rightarrow> string \<Rightarrow> json_map \<Rightarrow> 'a \<Rightarrow> (json \<Rightarrow> 'a result) \<Rightarrow> 'a cmd" where
  "client_post lb c path token kvs zero decode = client_do lb c ''POST'' path token (JsonBody (JObj kvs)) zero decode"

definition repo_path :: "string \<Rightarrow> string \<Rightarrow> string \<Rightarrow> string" where
  "repo_path owner repo rest = ''/api/v1/repos/'' @ owner @ ''/'' @ repo @ rest"

definition cli_Login :: "cli_lib \<Rightarrow> client \<Rightarrow> string \<Rightarrow> string \<Rightarrow> (string \<times> json_map) cmd" where
  "cli_Login lb c uname password =
     cmd_bind (client_post lb c ''/api/v1/auth/login'' [] [(''username'', JStr uname), (''password'', JStr password)] [] as_map)
       (\<lambda>out. cmd_ok (json_str (json_get out ''token''), (case json_get out ''user'' of Some (JObj u) \<Rightarrow> u | _ \<Rightarrow> [])))"

definition cli_CreatePAT :: "cli_lib \<Rightarrow> client \<Rightarrow> string \<Rightarrow> string list \<Rightarrow> string cmd" where
  "cli_CreatePAT lb c name scopes =
     cmd_bind (client_post lb c ''/api/v1/user/tokens'' (cl_token c) [(''name'', JStr name), (''scopes'', JArr (map JStr scopes))] [] as_strings)
       (\<lambda>out. cmd_ok (json_str (json_get out ''token'')))"

definition cli_ListRepos :: "cli_lib \<Rightarrow> client \<Rightarrow> json_map list cmd" where
  "cli_ListRepos lb c = client_get lb c ''/api/v1/user/repos'' (cl_token c) [] as_maps"

definition cli_CurrentUser :: "cli_lib \<Rightarrow> client \<Rightarrow> json_map cmd" where
  "cli_CurrentUser lb c = client_get lb c ''/api/v1/user'' (cl_token c) [] as_map"

definition cli_CreateRepo :: "cli_lib \<Rightarrow> client \<Rightarrow> string \<Rightarrow> string \<Rightarrow> bool \<Rightarrow> json_map cmd" where
  "cli_CreateRepo lb c name description priv =
     cmd_bind (cli_CurrentUser lb c) (\<lambda>u.
       client_post lb c (''/api/v1/users/'' @ path_escape (json_str (json_get u ''username'')) @ ''/repos'') (cl_token c)
         [(''name'', JStr name), (''description'', JStr description), (''private'', JBool priv)] [] as_map)"

definition cli_ListIssues :: "cli_lib \<Rightarrow> client \<Rightarrow> string \<Rightarrow> string \<Rightarrow> json_map list cmd" where
  "cli_ListIssues lb c owner repo = client_get lb c (repo_path owner repo ''/issues'') (cl_token c) [] as_maps"

definition cli_CreateIssue :: "cli_lib \<Rightarrow> client \<Rightarrow> string \<Rightarrow> string \<Rightarrow> string \<Rightarrow> string \<Rightarrow> json_map cmd" where
  "cli_CreateIssue lb c owner repo title body =
     client_post lb c (repo_path owner repo ''/issues'') (cl_token c) [(''title'', JStr title), (''body'', JStr body)] [] as_map"

definition cli_ListPRs :: "cli_lib \<Rightarrow> client \<Rightarrow> string \<Rightarrow> string \<Rightarrow> json_map list cmd" where
  "cli_ListPRs lb c owner repo = client_get lb c (repo_path owner repo ''/pulls'') (cl_token c) [] as_maps"

definition cli_CreatePR ::
  "cli_lib \<Rightarrow> client \<Rightarrow> string \<Rightarrow> string \<Rightarrow> string \<Rightarrow> string \<Rightarrow> string \<Rightarrow> string \<Rightarrow> json_map cmd" where
  "cli_CreatePR lb c owner repo title body head base =
     client_post lb c (repo_path owner repo ''/pulls'') (cl_token c)
       [(''title'', JStr title), (''body'', JStr body), (''head'', JStr head), (''base'', JStr base)] [] as_map"

definition cli_MergePR :: "cli_lib \<Rightarrow> client \<Rightarrow> string \<Rightarrow> string \<Rightarrow> int \<Rightarrow> bool \<Rightarrow> json_map cmd" where
  "cli_MergePR lb c owner repo number squash =
     client_post lb c (repo_path owner repo (''/pulls/'' @ int_string number @ ''/merge'')) (cl_token c)
       [(''squash'', JBool squash)] [] as_map"

definition cli_CreateRelease ::
  "cli_lib \<Rightarrow> client \<Rightarrow> string \<Rightarrow> string \<Rightarrow> string \<Rightarrow> string \<Rightarrow> string \<Rightarrow> json_map cmd" where
  "cli_CreateRelease lb c owner repo tag name body =
     client_post lb c (repo_path owner repo ''/releases'') (cl_token c)
       [(''tag_name'', JStr tag), (''name'', JStr name), (''body'', JStr body)] [] as_map"

definition path_base :: "string \<Rightarrow> string" where
  "path_base p =
     (if p = [] then ''.''
      else (let q = stringsTrimSlash p
            in if q = [] then ''/'' else (case last_index (CHR ''/'') q of None \<Rightarrow> q | Some i \<Rightarrow> drop (Suc i) q)))"

text \<open>
  Writing the form to memory cannot fail; the answer is decoded whatever its length, and the decoded value is
  what the return statement, which decodes it, hands back.
\<close>

definition cli_UploadReleaseAsset ::
  "cli_lib \<Rightarrow> client \<Rightarrow> string \<Rightarrow> string \<Rightarrow> string \<Rightarrow> string \<Rightarrow> json_map cmd" where
  "cli_UploadReleaseAsset lb c owner repo tag filePath =
     (case kl_read lb filePath of
        Absent \<Rightarrow> cmd_fail (''open '' @ filePath @ '': no such file or directory'')
      | Unreadable e \<Rightarrow> (Inl e, [])
      | Contents bytes \<Rightarrow>
          (let url = cl_base c @ repo_path owner repo (''/releases/'' @ path_escape tag @ ''/assets'');
               rq = \<lparr>cq_method = ''POST'', cq_url = url, cq_body = FileBody ''file'' (path_base filePath) bytes,
                     cq_auth = ''Bearer '' @ cl_token c\<rparr>
           in case kl_new lb url of
                Some e \<Rightarrow> (Inl e, [])
              | None \<Rightarrow>
                  (case kl_do lb rq of
                     Inl e \<Rightarrow> (Inl e, [Asked rq])
                   | Inr (code, status, read) \<Rightarrow>
                       (let answer = (case read of Inl e \<Rightarrow> [] | Inr b \<Rightarrow> b)
                        in if code \<ge> 400 then (Inl (ErrMsg (status @ '': '' @ answer)), [Asked rq])
                           else (case kl_parse lb answer of
                                   Inl e \<Rightarrow> (Inl e, [Asked rq])
                                 | Inr v \<Rightarrow> (as_map v, [Asked rq]))))))"

definition cli_ListRuns :: "cli_lib \<Rightarrow> client \<Rightarrow> string \<Rightarrow> string \<Rightarrow> json_map list cmd" where
  "cli_ListRuns lb c owner repo = client_get lb c (repo_path owner repo ''/actions/runs'') (cl_token c) [] as_maps"

definition cli_TriggerRun ::
  "cli_lib \<Rightarrow> client \<Rightarrow> string \<Rightarrow> string \<Rightarrow> string \<Rightarrow> string \<Rightarrow> string \<Rightarrow> json_map cmd" where
  "cli_TriggerRun lb c owner repo workflowID event branch =
     client_post lb c (repo_path owner repo ''/actions/runs'') (cl_token c)
       [(''workflow_id'', JStr workflowID), (''event'', JStr event), (''branch'', JStr branch)] [] as_map"

definition cli_Search :: "cli_lib \<Rightarrow> client \<Rightarrow> string \<Rightarrow> json_map list cmd" where
  "cli_Search lb c query = client_get lb c (''/api/v1/search?q='' @ query_escape query) (cl_token c) [] as_maps"

definition ParseOwnerRepo :: "string \<Rightarrow> (string \<times> string) result" where
  "ParseOwnerRepo spec0 =
     (let spec = trim_suffix ''.git'' spec0
      in case split_char (CHR ''/'') spec of
           [owner, repo] \<Rightarrow>
             if owner = [] \<or> repo = [] then Inl (ErrMsg (''expected owner/repo, got '' @ quote spec)) else Inr (owner, repo)
         | _ \<Rightarrow> Inl (ErrMsg (''expected owner/repo, got '' @ quote spec)))"

definition GitClone :: "cli_lib \<Rightarrow> string \<Rightarrow> string \<Rightarrow> unit cmd" where
  "GitClone lb cloneURL dir =
     (let args = [''clone'', cloneURL] @ (if dir \<noteq> [] then [dir] else [])
      in (case kl_git lb args of Some e \<Rightarrow> Inl e | None \<Rightarrow> Inr (), [Cloned args]))"

end
