(* ===== verification/CliApp.thy ===== *)
theory CliApp
  imports Cli
begin

section \<open>The commands of the command line client (internal/cli/app.go, cmd/govnohub)\<close>

text \<open>
  One definition per command. The settings are loaded once in the program; nothing between two loads of one
  command changes them, so loading again gives the same. The loops over the flags are recursive
  functions over the arguments.
\<close>

record app =
  kp_path :: string
  kp_api :: string
  kp_git :: string
  kp_token :: string

definition app_load :: "cli_lib \<Rightarrow> app \<Rightarrow> cli_config result" where
  "app_load lb a =
     (case LoadConfig lb (kp_path a) of
        Inl e \<Rightarrow> Inl e
      | Inr cfg \<Rightarrow> Inr (MergeFlags (kp_api a) (kp_git a) (kp_token a) cfg))"

definition app_client :: "cli_lib \<Rightarrow> app \<Rightarrow> client result" where
  "app_client lb a =
     (case app_load lb a of
        Inl e \<Rightarrow> Inl e
      | Inr cfg \<Rightarrow> (case RequireToken cfg of Inl e \<Rightarrow> Inl e | Inr _ \<Rightarrow> Inr (cli_NewClient (kf_api cfg) (kf_token cfg))))"

text \<open>A command that needs the client: nothing is done without a token.\<close>

definition with_client :: "cli_lib \<Rightarrow> app \<Rightarrow> (client \<Rightarrow> 'a cmd) \<Rightarrow> 'a cmd" where
  "with_client lb a k = (case app_client lb a of Inl e \<Rightarrow> (Inl e, []) | Inr c \<Rightarrow> k c)"

definition printJSON :: "cli_lib \<Rightarrow> json_map \<Rightarrow> unit cmd" where
  "printJSON lb m = say (kl_indent lb (JObj m) @ [nl])"

subsection \<open>Accounts\<close>

definition authLogin :: "cli_lib \<Rightarrow> app \<Rightarrow> unit cmd" where
  "authLogin lb a =
     (case app_load lb a of
        Inl e \<Rightarrow> (Inl e, [])
      | Inr cfg \<Rightarrow>
          cmd_bind (say ''Username: '') (\<lambda>_. cmd_bind (say ''Password: '') (\<lambda>_.
            cmd_bind (cli_Login lb (cli_NewClient (kf_api cfg) []) (trim_space (fst (kl_stdin lb))) (trim_space (snd (kl_stdin lb))))
              (\<lambda>(token, u).
                 let cfg1 = cfg\<lparr>kf_token := token\<rparr>;
                     cfg2 = (case json_get u ''username'' of Some (JStr n) \<Rightarrow> cfg1\<lparr>kf_user := n\<rparr> | _ \<Rightarrow> cfg1)
                 in cmd_bind (SaveConfig lb cfg2 (kp_path a)) (\<lambda>_. say (''Logged in as '' @ kf_user cfg2 @ [nl]))))))"

fun token_flags :: "string \<Rightarrow> string list \<Rightarrow> string" where
  "token_flags name (a # b # rest) = (if a = ''--name'' then token_flags b rest else token_flags name (b # rest))"
| "token_flags name rest = name"

definition authTokenCreate :: "cli_lib \<Rightarrow> app \<Rightarrow> string list \<Rightarrow> unit cmd" where
  "authTokenCreate lb a args =
     with_client lb a (\<lambda>c.
       cmd_bind (cli_CreatePAT lb c (token_flags ''cli'' args) [''repo'', ''workflow'']) (\<lambda>token. say (token @ [nl])))"

definition runAuth :: "cli_lib \<Rightarrow> app \<Rightarrow> string list \<Rightarrow> unit cmd" where
  "runAuth lb a args =
     (case args of
        [] \<Rightarrow> cmd_fail ''usage: govnohub auth login|token create''
      | x # rest \<Rightarrow>
          if x = ''login'' then authLogin lb a
          else if x = ''token'' then
            (case rest of
               y # others \<Rightarrow> if y \<noteq> ''create'' then cmd_fail ''usage: govnohub auth token create [--name NAME]''
                            else authTokenCreate lb a others
             | [] \<Rightarrow> cmd_fail ''usage: govnohub auth token create [--name NAME]'')
          else cmd_fail (''unknown auth command: '' @ x))"

subsection \<open>Repositories\<close>

definition repo_line :: "json_map \<Rightarrow> string" where
  "repo_line r = json_str (json_get r ''full_name'') @ (if json_bool (json_get r ''is_private'') then '' (private)'' else []) @ [nl]"

definition print_each :: "('a \<Rightarrow> string) \<Rightarrow> 'a list \<Rightarrow> unit cmd" where
  "print_each f xs = (Inr (), map (\<lambda>x. Printed (f x)) xs)"

definition repoList :: "cli_lib \<Rightarrow> app \<Rightarrow> unit cmd" where
  "repoList lb a = with_client lb a (\<lambda>c. cmd_bind (cli_ListRepos lb c) (print_each repo_line))"

fun create_flags :: "bool \<times> string \<Rightarrow> string list \<Rightarrow> bool \<times> string" where
  "create_flags (priv, desc) [] = (priv, desc)"
| "create_flags (priv, desc) (a # rest) =
     (if a = ''--private'' then create_flags (True, desc) rest
      else if a = ''--description'' then
        (case rest of [] \<Rightarrow> (priv, desc) | b # others \<Rightarrow> create_flags (priv, b) others)
      else create_flags (priv, desc) rest)"

definition repoCreate :: "cli_lib \<Rightarrow> app \<Rightarrow> string \<Rightarrow> string list \<Rightarrow> unit cmd" where
  "repoCreate lb a name args =
     with_client lb a (\<lambda>c.
       let (priv, desc) = create_flags (False, []) args
       in cmd_bind (cli_CreateRepo lb c name desc priv)
            (\<lambda>r. say (''Created '' @ json_str (json_get r ''full_name'') @ [nl])))"

definition repoClone :: "cli_lib \<Rightarrow> app \<Rightarrow> string \<Rightarrow> string \<Rightarrow> unit cmd" where
  "repoClone lb a spec dir =
     (case app_load lb a of
        Inl e \<Rightarrow> (Inl e, [])
      | Inr cfg \<Rightarrow>
          (case RequireToken cfg of
             Inl e \<Rightarrow> (Inl e, [])
           | Inr _ \<Rightarrow>
               (case ParseOwnerRepo spec of
                  Inl e \<Rightarrow> (Inl e, [])
                | Inr (owner, repo) \<Rightarrow> GitClone lb (CloneURL cfg owner repo) dir)))"

definition runRepo :: "cli_lib \<Rightarrow> app \<Rightarrow> string list \<Rightarrow> unit cmd" where
  "runRepo lb a args =
     (case args of
        [] \<Rightarrow> cmd_fail ''usage: govnohub repo list|create|clone''
      | x # rest \<Rightarrow>
          if x = ''list'' then repoList lb a
          else if x = ''create'' then
            (case rest of [] \<Rightarrow> cmd_fail ''usage: govnohub repo create <name>'' | name # others \<Rightarrow> repoCreate lb a name others)
          else if x = ''clone'' then
            (case rest of
               [] \<Rightarrow> cmd_fail ''usage: govnohub repo clone <owner/repo> [dir]''
             | spec # others \<Rightarrow> repoClone lb a spec (case others of [] \<Rightarrow> [] | d # ds \<Rightarrow> d))
          else cmd_fail (''unknown repo command: '' @ x))"

subsection \<open>Commands on a repository\<close>

text \<open>Issues, pull requests, releases and runs share their start: the repository is parsed, then the client is made.\<close>

definition on_repo ::
  "cli_lib \<Rightarrow> app \<Rightarrow> string \<Rightarrow> string list \<Rightarrow> (client \<Rightarrow> string \<Rightarrow> string \<Rightarrow> string \<Rightarrow> string list \<Rightarrow> unit cmd) \<Rightarrow> unit cmd" where
  "on_repo lb a usage args k =
     (case args of
        sub # spec # rest \<Rightarrow>
          (case ParseOwnerRepo spec of
             Inl e \<Rightarrow> (Inl e, [])
           | Inr (owner, repo) \<Rightarrow> with_client lb a (\<lambda>c. k c owner repo sub rest))
      | _ \<Rightarrow> cmd_fail usage)"

definition shown_fields :: "cli_lib \<Rightarrow> json_map \<Rightarrow> string \<Rightarrow> string" where
  "shown_fields lb m k = kl_show lb (json_get m k)"

definition issue_line :: "cli_lib \<Rightarrow> json_map \<Rightarrow> string" where
  "issue_line lb i = ''#'' @ shown_fields lb i ''number'' @ '' '' @ shown_fields lb i ''title'' @ [nl]"

definition runIssue :: "cli_lib \<Rightarrow> app \<Rightarrow> string list \<Rightarrow> unit cmd" where
  "runIssue lb a args =
     on_repo lb a ''usage: govnohub issue list|create <owner/repo> ...'' args (\<lambda>c owner repo sub rest.
       if sub = ''list'' then cmd_bind (cli_ListIssues lb c owner repo) (print_each (issue_line lb))
       else if sub = ''create'' then
         (case rest of
            [] \<Rightarrow> cmd_fail ''usage: govnohub issue create <owner/repo> <title> [body]''
          | title # others \<Rightarrow> cmd_bind (cli_CreateIssue lb c owner repo title (join '' '' others)) (printJSON lb))
       else cmd_fail (''unknown issue command: '' @ sub))"

fun pr_flags :: "string \<times> string \<Rightarrow> string list \<Rightarrow> string \<times> string \<times> string" where
  "pr_flags (head, base) [] = (head, base, [])"
| "pr_flags (head, base) (a # rest) =
     (if a = ''--head'' then (case rest of [] \<Rightarrow> (head, base, []) | b # others \<Rightarrow> pr_flags (b, base) others)
      else if a = ''--base'' then (case rest of [] \<Rightarrow> (head, base, []) | b # others \<Rightarrow> pr_flags (head, b) others)
      else (head, base, join '' '' (a # rest)))"

definition pr_line :: "cli_lib \<Rightarrow> json_map \<Rightarrow> string" where
  "pr_line lb p = ''#'' @ shown_fields lb p ''number'' @ '' '' @ shown_fields lb p ''title'' @ '' ('' @ shown_fields lb p ''head_branch''
     @ '' -> '' @ shown_fields lb p ''base_branch'' @ '')'' @ [nl]"

definition runPR :: "cli_lib \<Rightarrow> app \<Rightarrow> string list \<Rightarrow> unit cmd" where
  "runPR lb a args =
     on_repo lb a ''usage: govnohub pr list|create <owner/repo> ...'' args (\<lambda>c owner repo sub rest.
       if sub = ''list'' then cmd_bind (cli_ListPRs lb c owner repo) (print_each (pr_line lb))
       else if sub = ''create'' then
         (case rest of
            [] \<Rightarrow> cmd_fail ''usage: govnohub pr create <owner/repo> <title> [--head BR] [--base BR] [body]''
          | title # others \<Rightarrow>
              (case pr_flags (''feature'', ''main'') others of
                 (head, base, body) \<Rightarrow> cmd_bind (cli_CreatePR lb c owner repo title body head base) (printJSON lb)))
       else if sub = ''merge'' then
         (case rest of
            [] \<Rightarrow> cmd_fail ''usage: govnohub pr merge <owner/repo> <number>''
          | number # others \<Rightarrow>
              (case atoi number of
                 (n, good) \<Rightarrow> if \<not> good then cmd_fail ''invalid PR number''
                              else cmd_bind (cli_MergePR lb c owner repo n False) (printJSON lb)))
       else cmd_fail (''unknown pr command: '' @ sub))"

fun release_flags :: "string \<times> string \<times> string \<Rightarrow> string list \<Rightarrow> string \<times> string \<times> string" where
  "release_flags (tag, name, body) (a # b # rest) =
     (if a = ''--tag'' then release_flags (b, name, body) rest
      else if a = ''--name'' then release_flags (tag, b, body) rest
      else if a = ''--body'' then release_flags (tag, name, b) rest
      else release_flags (tag, name, body) (b # rest))"
| "release_flags flags rest = flags"

definition runRelease :: "cli_lib \<Rightarrow> app \<Rightarrow> string list \<Rightarrow> unit cmd" where
  "runRelease lb a args =
     on_repo lb a ''usage: govnohub release create|upload <owner/repo> ...'' args (\<lambda>c owner repo sub rest.
       if sub = ''create'' then
         (case release_flags ([], [], []) rest of
            (tag, name, body) \<Rightarrow>
              if tag = [] then cmd_fail ''--tag is required''
              else cmd_bind (cli_CreateRelease lb c owner repo tag name body) (printJSON lb))
       else if sub = ''upload'' then
         (case rest of
            tag # file # others \<Rightarrow> cmd_bind (cli_UploadReleaseAsset lb c owner repo tag file) (printJSON lb)
          | _ \<Rightarrow> cmd_fail ''usage: govnohub release upload <owner/repo> <tag> <file>'')
       else cmd_fail (''unknown release command: '' @ sub))"

fun run_flags :: "string \<times> string \<Rightarrow> string list \<Rightarrow> string \<times> string" where
  "run_flags (wfl, branch) (a # b # rest) =
     (if a = ''--workflow'' then run_flags (b, branch) rest
      else if a = ''--branch'' then run_flags (wfl, b) rest
      else run_flags (wfl, branch) (b # rest))"
| "run_flags flags rest = flags"

definition run_line :: "cli_lib \<Rightarrow> json_map \<Rightarrow> string" where
  "run_line lb r = ''#'' @ shown_fields lb r ''run_number'' @ '' '' @ shown_fields lb r ''status'' @ '' '' @ shown_fields lb r ''head_branch''
     @ '' ('' @ shown_fields lb r ''head_sha'' @ '')'' @ [nl]"

definition runWorkflow :: "cli_lib \<Rightarrow> app \<Rightarrow> string list \<Rightarrow> unit cmd" where
  "runWorkflow lb a args =
     on_repo lb a ''usage: govnohub run list|trigger <owner/repo> ...'' args (\<lambda>c owner repo sub rest.
       if sub = ''list'' then cmd_bind (cli_ListRuns lb c owner repo) (print_each (run_line lb))
       else if sub = ''trigger'' then
         (case run_flags ([], ''main'') rest of
            (workflowID, branch) \<Rightarrow>
              if workflowID = [] then cmd_fail ''--workflow is required''
              else cmd_bind (cli_TriggerRun lb c owner repo workflowID ''workflow_dispatch'' branch) (printJSON lb))
       else cmd_fail (''unknown run command: '' @ sub))"

subsection \<open>Search and the program\<close>

text \<open>The dash in the middle of a line is the three bytes of its UTF-8 form. A value that is no string prints as Go prints it for the verb.\<close>

definition hit_line :: "cli_lib \<Rightarrow> json_map \<Rightarrow> string" where
  "hit_line lb h = ''['' @ shown_fields lb h ''type'' @ ''] '' @ shown_fields lb h ''title'' @ '' '' @ [CHR 0xE2, CHR 0x80, CHR 0x94]
     @ '' '' @ shown_fields lb h ''repo'' @ [nl]"

definition runSearch :: "cli_lib \<Rightarrow> app \<Rightarrow> string list \<Rightarrow> unit cmd" where
  "runSearch lb a args =
     (if args = [] then cmd_fail ''usage: govnohub search <query>''
      else with_client lb a (\<lambda>c. cmd_bind (cli_Search lb c (join '' '' args)) (print_each (hit_line lb))))"

definition usage_lines :: "string list" where
  "usage_lines =
     [''Govnohub CLI'', [], ''Usage:'', ''  govnohub [flags] <command> [args]'', [], ''Commands:'', ''  auth login'',
      ''  auth token create [--name NAME]'', ''  repo list'', ''  repo create <name> [--private] [--description TEXT]'',
      ''  repo clone <owner/repo> [dir]'', ''  issue list <owner/repo>'', ''  issue create <owner/repo> <title> [body]'',
      ''  pr list <owner/repo>'', ''  pr create <owner/repo> <title> [--head BR] [--base BR] [body]'',
      ''  pr merge <owner/repo> <number>'', ''  release create <owner/repo> --tag TAG [--name NAME] [--body TEXT]'',
      ''  release upload <owner/repo> <tag> <file>'', ''  run list <owner/repo>'',
      ''  run trigger <owner/repo> --workflow ID [--branch BR]'', ''  search <query>'', [], ''Flags:'',
      ''  --api-url URL    API base URL (default http://localhost:8080)'',
      ''  --git-url URL    Git HTTP URL (default http://localhost:8081)'',
      ''  --token TOKEN    API token or PAT'', ''  --config PATH    Config file path'']"

definition printUsage :: cli_event where "printUsage = Printed (join [nl] usage_lines @ [nl])"

definition app_command :: "cli_lib \<Rightarrow> app \<Rightarrow> string \<Rightarrow> string list \<Rightarrow> unit cmd option" where
  "app_command lb a name args =
     (if name = ''auth'' then Some (runAuth lb a args)
      else if name = ''repo'' then Some (runRepo lb a args)
      else if name = ''issue'' then Some (runIssue lb a args)
      else if name = ''pr'' then Some (runPR lb a args)
      else if name = ''release'' then Some (runRelease lb a args)
      else if name = ''run'' then Some (runWorkflow lb a args)
      else if name = ''search'' then Some (runSearch lb a args)
      else None)"

text \<open>The exit code and what was done.\<close>

definition Run :: "cli_lib \<Rightarrow> app \<Rightarrow> string list \<Rightarrow> int \<times> cli_event list" where
  "Run lb a args =
     (case args of
        [] \<Rightarrow> (1, [printUsage])
      | name # rest \<Rightarrow>
          (case app_command lb a name rest of
             Some (Inl e, tr) \<Rightarrow> (1, tr @ [Complained (''error: '' @ err_text e @ [nl])])
           | Some (Inr _, tr) \<Rightarrow> (0, tr)
           | None \<Rightarrow>
               if name \<in> {''help'', ''-h'', ''--help''} then (0, [printUsage])
               else (1, [Complained (''unknown command: '' @ name @ [nl]), printUsage])))"

text \<open>The main program hands the flags and the rest of the arguments over.\<close>

definition cli_main :: "cli_lib \<Rightarrow> string \<Rightarrow> string \<Rightarrow> string \<Rightarrow> string \<Rightarrow> string list \<Rightarrow> int \<times> cli_event list" where
  "cli_main lb apiURL gitURL token configPath args =
     Run lb \<lparr>kp_path = configPath, kp_api = apiURL, kp_git = gitURL, kp_token = token\<rparr> args"

subsection \<open>What the commands do to the outside\<close>

definition event_ok :: "cli_lib \<Rightarrow> app \<Rightarrow> cli_event \<Rightarrow> bool" where
  "event_ok lb a ev =
     (case app_load lb a of
        Inl e \<Rightarrow> (case ev of Asked rq \<Rightarrow> False | Cloned args \<Rightarrow> False | _ \<Rightarrow> True)
      | Inr cfg \<Rightarrow>
          (case ev of
             Asked rq \<Rightarrow> kf_token cfg \<noteq> [] \<and> cq_auth rq = ''Bearer '' @ kf_token cfg \<and> prefix (stringsTrimSlash (kf_api cfg)) (cq_url rq)
           | Cloned args \<Rightarrow> kf_token cfg \<noteq> []
           | _ \<Rightarrow> True))"

definition events_ok :: "cli_lib \<Rightarrow> app \<Rightarrow> 'a cmd \<Rightarrow> bool" where
  "events_ok lb a c = list_all (event_ok lb a) (snd c)"

named_theorems events \<open>commands that only do what they may\<close>

lemma snd_cmd_bind: "snd (cmd_bind c k) = snd c @ (case fst c of Inl e \<Rightarrow> [] | Inr x \<Rightarrow> snd (k x))"
  by (auto simp: cmd_bind_def split: prod.split sum.split)

lemma events_bind [events]:
  "events_ok lb a c \<Longrightarrow> (\<And>x. events_ok lb a (k x)) \<Longrightarrow> events_ok lb a (cmd_bind c k)"
  by (simp add: events_ok_def snd_cmd_bind split: sum.split)

lemma print_ok [simp]: "event_ok lb a (Printed s)"
  by (simp add: event_ok_def split: sum.split)

lemma events_say [events]: "events_ok lb a (say s)" "events_ok lb a (printJSON lb2 m)" "events_ok lb a (cmd_fail msg)"
    "events_ok lb a (print_each f xs)" "events_ok lb a (cmd_ok x)" "events_ok lb a (Inl e, [])"
  by (simp_all add: events_ok_def say_def printJSON_def cmd_fail_def print_each_def cmd_ok_def list_all_iff)

text \<open>\<open>made c\<close> is the client the settings give.\<close>

definition made :: "cli_lib \<Rightarrow> app \<Rightarrow> client \<Rightarrow> bool" where
  "made lb a c = (app_client lb a = Inr c)"

lemma made_request:
  assumes "made lb a c" and "cq_auth rq = ''Bearer '' @ cl_token c" and "prefix (cl_base c) (cq_url rq)"
  shows "event_ok lb a (Asked rq)"
  using assms
  by (auto simp: made_def event_ok_def app_client_def RequireToken_def cli_NewClient_def split: sum.splits if_splits)

lemma made_token: "made lb a c \<Longrightarrow> cl_token c \<noteq> []"
  by (auto simp: made_def app_client_def RequireToken_def cli_NewClient_def split: sum.splits if_splits)

lemma events_do [events]: "made lb a c \<Longrightarrow> events_ok lb a (client_do lb2 c verb path (cl_token c) content zero dec)"
  using made_token [of lb a c] made_request [of lb a c]
  by (auto simp: client_do_def events_ok_def Let_def bearer_def split: option.split sum.split prod.split)

lemma events_get [events]: "made lb a c \<Longrightarrow> events_ok lb a (client_get lb2 c path (cl_token c) zero dec)"
  unfolding client_get_def by (rule events_do)

lemma events_post [events]: "made lb a c \<Longrightarrow> events_ok lb a (client_post lb2 c path (cl_token c) kvs zero dec)"
  unfolding client_post_def by (rule events_do)

lemma events_upload [events]: "made lb a c \<Longrightarrow> events_ok lb a (cli_UploadReleaseAsset lb2 c owner repo tag path)"
  using made_request [of lb a c]
  by (auto simp: cli_UploadReleaseAsset_def events_ok_def cmd_fail_def Let_def split: file_read.split option.split sum.split prod.split)

lemma events_client [events]: "(\<And>c. made lb a c \<Longrightarrow> events_ok lb a (k c)) \<Longrightarrow> events_ok lb a (with_client lb a k)"
  by (auto simp: with_client_def made_def events_say split: sum.split)

lemma events_on_repo [events]:
  "(\<And>c owner repo sub rest. made lb a c \<Longrightarrow> events_ok lb a (k c owner repo sub rest)) \<Longrightarrow> events_ok lb a (on_repo lb a msg args k)"
  by (auto simp: on_repo_def events_say split: list.split sum.split prod.split intro!: events_client)

lemma events_clone [events]: "events_ok lb a (repoClone lb a spec dir)"
proof -
  have "events_ok lb a (GitClone lb url dir)" if "app_load lb a = Inr cfg" "RequireToken cfg = Inr u" for cfg u url
    using that by (auto simp: events_ok_def GitClone_def event_ok_def RequireToken_def Let_def split: if_splits)
  then show ?thesis by (auto simp: repoClone_def events_say split: sum.split prod.split)
qed

lemmas client_calls = cli_CreatePAT_def cli_ListRepos_def cli_CurrentUser_def cli_CreateRepo_def cli_ListIssues_def
  cli_CreateIssue_def cli_ListPRs_def cli_CreatePR_def cli_MergePR_def cli_CreateRelease_def cli_ListRuns_def cli_TriggerRun_def
  cli_Search_def

lemma events_repo: "events_ok lb a (runRepo lb a args)"
proof -
  have "events_ok lb a (repoList lb a)" unfolding repoList_def client_calls by (intro events)
  moreover have "events_ok lb a (repoCreate lb a name flags)" for name flags
    unfolding repoCreate_def client_calls Let_def by (intro events) (simp split: prod.split, intro allI impI events)
  ultimately show ?thesis by (simp add: runRepo_def events_say events_clone split: list.split)
qed

lemma events_issue: "events_ok lb a (runIssue lb a args)"
  unfolding runIssue_def client_calls by (intro events) (auto split: list.split intro!: events)

lemma events_pr: "events_ok lb a (runPR lb a args)"
  unfolding runPR_def client_calls by (intro events) (auto split: list.split prod.split intro!: events)

lemma events_release: "events_ok lb a (runRelease lb a args)"
  unfolding runRelease_def client_calls by (intro events) (auto split: list.split prod.split intro!: events)

lemma events_workflow: "events_ok lb a (runWorkflow lb a args)"
  unfolding runWorkflow_def client_calls by (intro events) (auto split: list.split prod.split intro!: events)

lemma events_search: "events_ok lb a (runSearch lb a args)"
  unfolding runSearch_def client_calls by (auto intro!: events)

lemma events_auth: "take 1 args \<noteq> [''login''] \<Longrightarrow> events_ok lb a (runAuth lb a args)"
  unfolding runAuth_def authTokenCreate_def client_calls by (auto split: list.split intro!: events)

text \<open>C24: Every command but the login acts for the user of the token and for nobody without one: each request it
  sends goes to the configured server and carries the configured token, and without a token, or with settings
  that cannot be read, it sends nothing and clones nothing.
\<close>
theorem cli_acts_with_token:
  assumes "take 2 args \<noteq> [''auth'', ''login'']"
  shows "list_all (event_ok lb a) (snd (Run lb a args))"
proof (cases args)
  case (Cons name rest)
  have auth: "events_ok lb a (runAuth lb a rest)" if "name = ''auth''"
    using that assms Cons by (intro events_auth) (auto simp: numeral_2_eq_2)
  have "events_ok lb a c" if "app_command lb a name rest = Some c" for c
    using that auth events_repo events_issue events_pr events_release events_workflow events_search
    by (auto simp: app_command_def split: if_splits)
  moreover have "event_ok lb a printUsage" "event_ok lb a (Complained s)" for s
    by (simp_all add: printUsage_def event_ok_def split: sum.split)
  ultimately show ?thesis
    by (auto simp: Run_def Cons events_ok_def split: option.split sum.split)
qed (simp add: Run_def printUsage_def)

text \<open>The name of a repository is read back from its full name, with or without the suffix of its clone address.\<close>

theorem owner_repo_roundtrip:
  assumes "owner \<noteq> []" and "repo \<noteq> []" and "CHR ''/'' \<notin> set owner" and "CHR ''/'' \<notin> set repo" and "\<not> suffix ''.git'' repo"
  shows "ParseOwnerRepo (owner @ ''/'' @ repo) = Inr (owner, repo)
       \<and> ParseOwnerRepo (owner @ ''/'' @ repo @ ''.git'') = Inr (owner, repo)"
proof -
  have split: "split_char (CHR ''/'') (owner @ CHR ''/'' # repo) = [owner, repo]"
    using assms by (simp add: split_char_append split_char_no_sep)
  have "\<not> suffix ''.git'' (owner @ CHR ''/'' # repo)"
  proof
    assume "suffix ''.git'' (owner @ CHR ''/'' # repo)"
    then have "suffix ''.git'' repo \<or> suffix (CHR ''/'' # repo) ''.git''"
      by (metis suffix_Cons suffix_same_cases suffixI not_Cons_self2 append.assoc)
    moreover have "\<not> suffix (CHR ''/'' # repo) ''.git''"
      using in_set_conv_decomp [of "CHR ''/''" "''.git''"] by (auto simp: suffix_def)
    ultimately show False using assms(5) by simp
  qed
  then have one: "trim_suffix ''.git'' (owner @ CHR ''/'' # repo) = owner @ CHR ''/'' # repo" by (rule trim_suffix_other)
  have two: "trim_suffix ''.git'' (owner @ CHR ''/'' # repo @ ''.git'') = owner @ CHR ''/'' # repo"
    using trim_suffix_append [of "''.git''" "owner @ CHR ''/'' # repo"] by simp
  show ?thesis using split one two assms(1,2) by (simp add: ParseOwnerRepo_def Let_def)
qed

text \<open>
  The server answers a search with an object, which holds the list; the client decodes a list, so a search that
  succeeds on the server fails here.
\<close>

lemma search_object_rejected:
  assumes "app_client lb a = Inr c" and "kl_new lb url = None" and "url = cl_base c @ ''/api/v1/search?q='' @ query_escape (join '' '' args)"
    and "\<forall>rq. kl_do lb rq = Inr (200, ''200 OK'', Inr bytes)" and "bytes \<noteq> []" and "kl_parse lb bytes = Inr (JObj m)" and "args \<noteq> []"
  shows "fst (Run lb a (''search'' # args)) = 1"
  using assms
  by (simp add: Run_def app_command_def runSearch_def with_client_def cli_Search_def client_get_def client_do_def Let_def cmd_bind_def)

text \<open>A token in the clone address is followed by the configured one as it is, a slash at its end included.\<close>

lemma clone_double_slash:
  "kf_token cfg = ''t'' \<Longrightarrow> kf_git cfg = ''https://git.x/'' \<Longrightarrow> CloneURL cfg ''o'' ''r'' = ''https://x-access-token:t@git.x//o/r.git''"
  by (simp add: CloneURL_def url_scheme_def hostWithoutScheme_def stringsTrimPrefix_def)

definition demo_cli :: cli_lib where
  "demo_cli = \<lparr>kl_env = (\<lambda>k. ''/c''), kl_config_dir = Inr ''/c'', kl_mkdir = (\<lambda>p. None), kl_read = (\<lambda>p. Absent),
     kl_yaml = (\<lambda>b c. Inr c), kl_yaml_out = (\<lambda>c. Inr []), kl_write = (\<lambda>p b. None), kl_stdin = ([], []), kl_new = (\<lambda>u. None),
     kl_do = (\<lambda>rq. Inr (200, ''200 OK'', Inr ''[]'')), kl_parse = (\<lambda>s. Inr (JArr [])), kl_indent = (\<lambda>v. []), kl_show = (\<lambda>v. []),
     kl_git = (\<lambda>w. None)\<rparr>"

definition demo_app :: "string \<Rightarrow> app" where
  "demo_app token = \<lparr>kp_path = [], kp_api = ''http://h/'', kp_git = [], kp_token = token\<rparr>"

lemma cli_acts_with_token_witness:
  "snd (Run demo_cli (demo_app ''t'') [''repo'', ''list''])
     = [Asked \<lparr>cq_method = ''GET'', cq_url = ''http://h/api/v1/user/repos'', cq_body = NoContents, cq_auth = ''Bearer t''\<rparr>]
   \<and> list_all (event_ok demo_cli (demo_app [])) (snd (Run demo_cli (demo_app []) [''repo'', ''list'']))"
proof
  show "snd (Run demo_cli (demo_app ''t'') [''repo'', ''list''])
     = [Asked \<lparr>cq_method = ''GET'', cq_url = ''http://h/api/v1/user/repos'', cq_body = NoContents, cq_auth = ''Bearer t''\<rparr>]"
    by code_simp
  show "list_all (event_ok demo_cli (demo_app [])) (snd (Run demo_cli (demo_app []) [''repo'', ''list'']))"
    by (rule cli_acts_with_token) simp
qed

lemma owner_repo_roundtrip_witness:
  "ParseOwnerRepo ''ann/code'' = Inr (''ann'', ''code'') \<and> ParseOwnerRepo ''ann/code.git'' = Inr (''ann'', ''code'')"
  using owner_repo_roundtrip [of "''ann''" "''code''"] by (simp add: suffix_def)

end
