(* ===== verification/Templ.thy ===== *)
theory Templ
  imports WebCore
begin

section \<open>What a template writes (internal/web/*_templ.go)\<close>

text \<open>
  The templates are compiled to Go functions that return a component; rendering one writes constant text and
  the values of expressions, in the order of the file. A component here is that sequence of pieces. The library
  behind the generated code (templ) is not part of the repository: what it makes of a value is the record
  \<open>runtime\<close>, and what the pages rely on are the laws of the locale below.

  Every generated component asks first whether the request has been given up; this is the constructor \<open>Call\<close>, and
  \<open>render\<close> counts down to the moment at which the answer is yes.
\<close>

subsection \<open>Pieces\<close>

datatype val = VStr string | VUrl string | VInt int | VBool bool | VClass "string list"

text \<open>
  \<open>Lit\<close> is the constant text of \<open>templruntime.WriteString\<close>, \<open>Esc\<close> a value behind \<open>templ.EscapeString\<close>, \<open>Attr\<close> one
  that is written as \<open>ResolveAttributeValue\<close> left it, \<open>Style\<close> one that went through \<open>SanitizeStyleAttributeValues\<close> and
  \<open>EscapeString\<close>, \<open>Css\<close> the classes given to \<open>RenderCSSItems\<close>, \<open>RawHtml\<close> the text of \<open>templ.Raw\<close>. \<open>Abort\<close> stands for an
  expression that panics.
\<close>

datatype piece =
    Lit string
  | Esc val
  | Attr val
  | Style string
  | Css "string list"
  | RawHtml string
  | Abort
  | Call "piece list"

type_synonym component = "piece list"

record runtime =
  rt_text :: "val \<Rightarrow> string"
  rt_escape :: "string \<Rightarrow> string"
  rt_attr :: "val \<Rightarrow> string"
  rt_style :: "string \<Rightarrow> string"
  rt_css :: "string list \<Rightarrow> string"

fun emit :: "runtime \<Rightarrow> piece \<Rightarrow> string" where
  "emit rt (Lit s) = s"
| "emit rt (Esc v) = rt_escape rt (rt_text rt v)"
| "emit rt (Attr v) = rt_attr rt v"
| "emit rt (Style s) = rt_escape rt (rt_style rt s)"
| "emit rt (Css cs) = rt_css rt cs"
| "emit rt (RawHtml s) = s"
| "emit rt Abort = []"
| "emit rt (Call ps) = []"

text \<open>
  \<open>render rt n ps\<close>: the text written, and how many more components may begin before the request is given up; None when
  rendering ended early.
\<close>

fun render :: "runtime \<Rightarrow> nat \<Rightarrow> component \<Rightarrow> string \<times> nat option" where
  "render rt n [] = ([], Some n)"
| "render rt n (Call body # ps) =
     (case n of
        0 \<Rightarrow> ([], None)
      | Suc m \<Rightarrow>
          (case render rt m body of
             (out1, None) \<Rightarrow> (out1, None)
           | (out1, Some m1) \<Rightarrow> (case render rt m1 ps of (out2, r) \<Rightarrow> (out1 @ out2, r))))"
| "render rt n (Abort # ps) = ([], None)"
| "render rt n (p # ps) = (case render rt n ps of (out, r) \<Rightarrow> (emit rt p @ out, r))"

text \<open>The text of the whole page, when nothing stops it.\<close>

fun full_text :: "runtime \<Rightarrow> component \<Rightarrow> string" where
  "full_text rt [] = []"
| "full_text rt (Call body # ps) = full_text rt body @ full_text rt ps"
| "full_text rt (p # ps) = emit rt p @ full_text rt ps"

lemma render_full: "render rt n ps = (out, Some m) \<Longrightarrow> out = full_text rt ps"
  by (induction rt n ps arbitrary: out m rule: render.induct)
     (auto split: nat.splits prod.splits option.splits)

text \<open>A page that is given up has been written up to some point and not changed otherwise.\<close>

lemma render_prefix: "prefix (fst (render rt n ps)) (full_text rt ps)"
proof (induction rt n ps rule: render.induct)
  case (2 rt n body ps)
  show ?case
  proof (cases n)
    case (Suc m)
    obtain out1 r1 where one: "render rt m body = (out1, r1)" by fastforce
    show ?thesis
    proof (cases r1)
      case None
      then show ?thesis using 2(1)[OF Suc] one Suc by (simp add: prefix_prefix)
    next
      case (Some m1)
      obtain out2 r2 where two: "render rt m1 ps = (out2, r2)" by fastforce
      have "out1 = full_text rt body" using render_full one Some by blast
      moreover have "prefix out2 (full_text rt ps)" using 2(2)[OF Suc one[symmetric] Some] two by simp
      ultimately show ?thesis using one two Suc Some by simp
    qed
  qed simp
qed (auto split: prod.splits)

subsection \<open>Where in a page a piece stands\<close>

text \<open>
  The part of HTML the templates are written in, as an automaton over the characters: text, tag names,
  attributes with values in double quotes, scripts, comments and the document type.
\<close>

datatype place =
    Body
  | TagName string
  | InTag string
  | AttrName string string
  | AttrEq string string
  | Val string string
  | Script string
  | Decl
  | Bad

definition white :: "char \<Rightarrow> bool" where
  "white c = (c = CHR '' '' \<or> c = CHR 0x0A \<or> c = CHR 0x09)"

definition element :: "string \<Rightarrow> place" where
  "element t = (if t = ''script'' then Script [] else Body)"

definition stray :: "char \<Rightarrow> bool" where
  "stray c = (c = CHR ''<'' \<or> c = CHR 0x22)"

definition end_script :: string where "end_script = ''</script>''"

fun html_step :: "place \<Rightarrow> char \<Rightarrow> place" where
  "html_step Body c = (if c = CHR ''<'' then TagName [] else Body)"
| "html_step (TagName t) c =
     (if white c then InTag t else if c = CHR ''>'' then element t
      else if c = CHR ''!'' \<and> t = [] then Decl else if stray c then Bad else TagName (t @ [c]))"
| "html_step (InTag t) c =
     (if white c then InTag t else if c = CHR ''>'' then element t else if stray c then Bad else AttrName t [c])"
| "html_step (AttrName t a) c =
     (if c = CHR ''='' then AttrEq t a else if white c then InTag t else if c = CHR ''>'' then element t
      else if stray c then Bad else AttrName t (a @ [c]))"
| "html_step (AttrEq t a) c = (if c = CHR 0x22 then Val t a else Bad)"
| "html_step (Val t a) c = (if c = CHR 0x22 then InTag t else Val t a)"
| "html_step (Script m) c =
     (if m @ [c] = end_script then Body else if prefix (m @ [c]) end_script then Script (m @ [c])
      else if c = CHR ''<'' then Script [c] else Script [])"
| "html_step Decl c = (if c = CHR ''>'' then Body else Decl)"
| "html_step Bad c = Bad"

definition places :: "place \<Rightarrow> string \<Rightarrow> place" where
  "places = foldl html_step"

lemma places_Nil [simp]: "places p [] = p"
  and places_Cons [simp]: "places p (c # cs) = places (html_step p c) cs"
  and places_append [simp]: "places p (s @ t) = places (places p s) t"
  by (simp_all add: places_def)

lemma places_Bad [simp]: "places Bad s = Bad"
  by (induction s) simp_all

text \<open>The skeleton of a page: its characters without the text between the tags and without the values of attributes.\<close>

fun content :: "place \<Rightarrow> char \<Rightarrow> bool" where
  "content Body c = (c \<noteq> CHR ''<'')"
| "content (Val t a) c = (c \<noteq> CHR 0x22)"
| "content p c = False"

fun skeleton :: "place \<Rightarrow> string \<Rightarrow> string" where
  "skeleton p [] = []"
| "skeleton p (c # cs) = (if content p c then skeleton (html_step p c) cs else c # skeleton (html_step p c) cs)"

lemma skeleton_append: "skeleton p (s @ t) = skeleton p s @ skeleton (places p s) t"
  by (induction s arbitrary: p) simp_all

definition plain_text :: "string \<Rightarrow> bool" where
  "plain_text s = list_all (\<lambda>c. c \<notin> {CHR ''<'', CHR ''>'', CHR 0x22, CHR 0x27}) s"

text \<open>Clean text neither leaves the place it stands in nor shows in the skeleton.\<close>

definition quiet :: "place \<Rightarrow> bool" where
  "quiet p = (case p of Body \<Rightarrow> True | Val t a \<Rightarrow> True | _ \<Rightarrow> False)"

lemma quiet_cases: "quiet p \<Longrightarrow> (p = Body \<Longrightarrow> P) \<Longrightarrow> (\<And>t a. p = Val t a \<Longrightarrow> P) \<Longrightarrow> P"
  by (cases p) (auto simp: quiet_def)

lemma plain_stays: "plain_text s \<Longrightarrow> quiet p \<Longrightarrow> places p s = p \<and> skeleton p s = []"
  by (erule quiet_cases; induction s) (auto simp: plain_text_def)

subsection \<open>Forms and their tokens\<close>

text \<open>
  Inside a form: whether it posts, whether it has the token already, whether the tag being read is the input named
  \<open>csrf_token\<close>, and the constant value being read where it matters.
\<close>

datatype forms = Outside | Inside bool bool bool "string option" | Unguarded

definition watched :: "string \<Rightarrow> string \<Rightarrow> bool" where
  "watched t a = (t = ''form'' \<and> a = ''method'' \<or> t = ''input'' \<and> a = ''name'')"

fun tag_read :: "string \<Rightarrow> forms \<Rightarrow> forms" where
  "tag_read t Outside = (if t = ''form'' then Inside False False False None else if t = ''/form'' then Unguarded else Outside)"
| "tag_read t (Inside post token named v) =
     (if t = ''form'' then Unguarded
      else if t = ''/form'' then (if post \<and> \<not> token then Unguarded else Outside)
      else Inside post token named v)"
| "tag_read t Unguarded = Unguarded"

fun value_read :: "string \<Rightarrow> string \<Rightarrow> forms \<Rightarrow> forms" where
  "value_read a w (Inside post token named v) =
     Inside (post \<or> a = ''method'' \<and> w = ''post'') token (named \<or> a = ''name'' \<and> w = ''csrf_token'') None"
| "value_read a w f = f"

fun tag_done :: "forms \<Rightarrow> forms" where
  "tag_done (Inside post token named v) = Inside post token False None"
| "tag_done f = f"

fun watch :: "place \<Rightarrow> char \<Rightarrow> forms \<Rightarrow> forms" where
  "watch (TagName t) c f = (if white c \<or> c = CHR ''>'' then tag_read t f else f)"
| "watch (InTag t) c f = (if c = CHR ''>'' then tag_done f else f)"
| "watch (AttrName t a) c f = (if c = CHR ''>'' then tag_done f else f)"
| "watch (AttrEq t a) c (Inside post token named v) = Inside post token named (if watched t a then Some [] else None)"
| "watch (Val t a) c (Inside post token named (Some w)) =
     (if c = CHR 0x22 then value_read a w (Inside post token named None) else Inside post token named (Some (w @ [c])))"
| "watch p c f = f"

fun run :: "string \<Rightarrow> place \<times> forms \<Rightarrow> place \<times> forms" where
  "run [] s = s"
| "run (c # cs) (p, f) = run cs (html_step p c, watch p c f)"

lemma run_append: "run (a @ b) s = run b (run a s)"
  by (induction a s rule: run.induct) simp_all

lemma run_places: "fst (run t s) = places (fst s) t"
  by (induction t s rule: run.induct) simp_all

subsection \<open>Where a value may stand\<close>

text \<open>
  A value may stand in the text or inside the quotes of an attribute: not in one that holds a script, in one that
  holds an address only when it leads to a path of this site, in \<open>style\<close> only what was sanitised for it.
\<close>

definition address_attr :: "string \<Rightarrow> bool" where
  "address_attr a = (a \<in> {''href'', ''src'', ''action'', ''hx-get'', ''hx-post'', ''data-url''})"

definition local_address :: "string \<Rightarrow> bool" where
  "local_address s = (prefix ''/'' s \<or> prefix ''../'' s)"

fun may_hold :: "string \<Rightarrow> val \<Rightarrow> bool" where
  "may_hold a v =
     (\<not> prefix ''on'' a \<and> a \<noteq> ''style'' \<and>
      (address_attr a \<longrightarrow> (case v of VStr s \<Rightarrow> local_address s | VUrl s \<Rightarrow> local_address s | _ \<Rightarrow> False)))"

definition broken :: "place \<times> forms" where "broken = (Bad, Unguarded)"

fun token_in :: "string \<Rightarrow> string \<Rightarrow> string \<Rightarrow> val \<Rightarrow> forms \<Rightarrow> forms" where
  "token_in k t a v (Inside post token named w) =
     Inside post (token \<or> t = ''input'' \<and> a = ''value'' \<and> named \<and> v = VStr k) named None"
| "token_in k t a v f = f"

fun in_value :: "string \<Rightarrow> val \<Rightarrow> place \<times> forms \<Rightarrow> place \<times> forms" where
  "in_value k v (Val t a, f) = (if may_hold a v then (Val t a, token_in k t a v f) else broken)"
| "in_value k v s = broken"

fun in_text :: "string \<Rightarrow> val \<Rightarrow> place \<times> forms \<Rightarrow> place \<times> forms" where
  "in_text k v (Body, f) = (Body, f)"
| "in_text k v s = in_value k v s"

fun in_style :: "place \<times> forms \<Rightarrow> place \<times> forms" where
  "in_style (Val t a, f) = (if a = ''style'' then (Val t a, f) else broken)"
| "in_style s = broken"

definition closed_html :: "string \<Rightarrow> bool" where
  "closed_html h = (places Body h = Body)"

fun in_body :: "string \<Rightarrow> place \<times> forms \<Rightarrow> place \<times> forms" where
  "in_body h (Body, f) = (if closed_html h then (Body, f) else broken)"
| "in_body h s = broken"

text \<open>The walk over the pieces of a page; \<open>k\<close> is the token its forms have to carry.\<close>

fun scan :: "string \<Rightarrow> component \<Rightarrow> place \<times> forms \<Rightarrow> place \<times> forms" where
  "scan k [] s = s"
| "scan k (Lit t # ps) s = scan k ps (run t s)"
| "scan k (Esc v # ps) s = scan k ps (in_text k v s)"
| "scan k (Attr v # ps) s = scan k ps (in_value k v s)"
| "scan k (Style t # ps) s = scan k ps (in_style s)"
| "scan k (Css cs # ps) s = scan k ps s"
| "scan k (RawHtml h # ps) s = scan k ps (in_body h s)"
| "scan k (Abort # ps) s = scan k ps s"
| "scan k (Call b # ps) s = scan k ps (scan k b s)"

lemma scan_append: "scan k (ps @ qs) s = scan k qs (scan k ps s)"
  by (induction k ps s rule: scan.induct) simp_all

lemma scan_loop: "(\<And>x. x \<in> set xs \<Longrightarrow> scan k (f x) s = s) \<Longrightarrow> scan k (concat (map f xs)) s = s"
  by (induction xs) (simp_all add: scan_append)

text \<open>A page that has gone wrong stays so.\<close>

lemma in_value_Bad: "fst s = Bad \<Longrightarrow> fst (in_value k v s) = Bad"
  and in_text_Bad: "fst s = Bad \<Longrightarrow> fst (in_text k v s) = Bad"
  and in_style_Bad: "fst s = Bad \<Longrightarrow> fst (in_style s) = Bad"
  and in_body_Bad: "fst s = Bad \<Longrightarrow> fst (in_body h s) = Bad"
  by (cases s; simp add: broken_def)+

lemma scan_Bad: "fst s = Bad \<Longrightarrow> fst (scan k ps s) = Bad"
  by (induction k ps s rule: scan.induct)
     (simp_all add: run_places in_value_Bad in_text_Bad in_style_Bad in_body_Bad)

subsection \<open>The library behind the templates\<close>

text \<open>The constant text of a page and the text that is put into it as it is.\<close>

fun fixed_text :: "component \<Rightarrow> string" where
  "fixed_text [] = []"
| "fixed_text (Lit s # ps) = s @ fixed_text ps"
| "fixed_text (RawHtml h # ps) = h @ fixed_text ps"
| "fixed_text (Call b # ps) = fixed_text b @ fixed_text ps"
| "fixed_text (p # ps) = fixed_text ps"

text \<open>
  What the pages rely on: an escaped value and an attribute value hold neither angle brackets nor quotes, and classes
  given by name need no style sheet of their own.
\<close>

locale template_library =
  fixes rt :: runtime
  assumes escape_plain: "plain_text (rt_escape rt s)"
    and attr_plain: "plain_text (rt_attr rt v)"
    and css_empty: "rt_css rt cs = []"
begin

lemma in_value_quiet:
  assumes "fst (in_value k v (p, f)) \<noteq> Bad"
  shows "quiet p \<and> fst (in_value k v (p, f)) = p"
  using assms by (cases p) (auto simp: quiet_def broken_def split: if_splits)

lemma in_text_quiet:
  assumes "fst (in_text k v (p, f)) \<noteq> Bad"
  shows "quiet p \<and> fst (in_text k v (p, f)) = p"
  using assms in_value_quiet[of k v p f] by (cases p) (auto simp: quiet_def)

lemma in_style_quiet:
  assumes "fst (in_style (p, f)) \<noteq> Bad"
  shows "quiet p \<and> fst (in_style (p, f)) = p"
  using assms by (cases p) (auto simp: quiet_def broken_def split: if_splits)

lemma in_body_body:
  assumes "fst (in_body h (p, f)) \<noteq> Bad"
  shows "p = Body \<and> fst (in_body h (p, f)) = Body \<and> places Body h = Body"
  using assms by (cases p) (auto simp: broken_def closed_html_def split: if_splits)

text \<open>
  When the walk over the pieces goes well, the browser reads the page the way the walk did, and the skeleton of the
  page is that of its fixed text: no value adds a tag, an attribute or a script.
\<close>

lemma scan_places:
  "fst (scan k ps (p, f)) \<noteq> Bad \<Longrightarrow>
     places p (full_text rt ps) = fst (scan k ps (p, f)) \<and>
     places p (fixed_text ps) = fst (scan k ps (p, f)) \<and>
     skeleton p (full_text rt ps) = skeleton p (fixed_text ps)"
proof (induction k ps "(p, f)" arbitrary: p f rule: scan.induct)
  case (2 k t ps p f)
  obtain f1 where s: "run t (p, f) = (places p t, f1)" using run_places[of t "(p, f)"] by (cases "run t (p, f)") simp
  have h: "run t (p, f) = (places p t, f1)" by (fact s)
  show ?case using 2(1)[OF h] 2(2) by (simp add: s skeleton_append)
next
  case (3 k v ps p f)
  have nb: "fst (in_text k v (p, f)) \<noteq> Bad" using 3(2) scan_Bad[of "in_text k v (p, f)"] by auto
  obtain f1 where s: "in_text k v (p, f) = (p, f1)" using in_text_quiet[OF nb] by (cases "in_text k v (p, f)") simp
  have "plain_text (rt_escape rt (rt_text rt v))" by (rule escape_plain)
  then show ?case using 3(1)[OF s] 3(2) in_text_quiet[OF nb] plain_stays[of _ p] by (simp add: s skeleton_append)
next
  case (4 k v ps p f)
  have nb: "fst (in_value k v (p, f)) \<noteq> Bad" using 4(2) scan_Bad[of "in_value k v (p, f)"] by auto
  obtain f1 where s: "in_value k v (p, f) = (p, f1)" using in_value_quiet[OF nb] by (cases "in_value k v (p, f)") simp
  have "plain_text (rt_attr rt v)" by (rule attr_plain)
  then show ?case using 4(1)[OF s] 4(2) in_value_quiet[OF nb] plain_stays[of _ p] by (simp add: s skeleton_append)
next
  case (5 k t ps p f)
  have nb: "fst (in_style (p, f)) \<noteq> Bad" using 5(2) scan_Bad[of "in_style (p, f)"] by auto
  obtain f1 where s: "in_style (p, f) = (p, f1)" using in_style_quiet[OF nb] by (cases "in_style (p, f)") simp
  have "plain_text (rt_escape rt (rt_style rt t))" by (rule escape_plain)
  then show ?case using 5(1)[OF s] 5(2) in_style_quiet[OF nb] plain_stays[of _ p] by (simp add: s skeleton_append)
next
  case (7 k h ps p f)
  have nb: "fst (in_body h (p, f)) \<noteq> Bad" using 7(2) scan_Bad[of "in_body h (p, f)"] by auto
  have b: "p = Body" "places Body h = Body" using in_body_body[OF nb] by simp_all
  have s: "in_body h (p, f) = (Body, f)" using b by (simp add: closed_html_def)
  show ?case using 7(1)[OF s] 7(2) by (simp add: b closed_html_def skeleton_append)
next
  case (9 k b ps p f)
  obtain p1 f1 where s: "scan k b (p, f) = (p1, f1)" by fastforce
  have "p1 \<noteq> Bad" using 9(3) scan_Bad[of "(p1, f1)" k ps] s by auto
  then show ?case using 9(1) 9(2)[OF s] 9(3) by (simp add: s skeleton_append)
qed (simp_all add: css_empty)

text \<open>A page as a whole: from text to text, with no form open.\<close>

theorem page_skeleton:
  assumes "scan k pg (Body, Outside) = (Body, Outside)" and "render rt n pg = (out, Some m)"
  shows "places Body out = Body \<and> skeleton Body out = skeleton Body (fixed_text pg)"
  using scan_places[of k pg Body Outside] assms render_full[OF assms(2)] by simp

end

text \<open>
  The library as its documentation describes it: \<open>html.EscapeString\<close> of the standard library over the text of a value.
\<close>

definition html_char :: "char \<Rightarrow> string" where
  "html_char c =
     (if c = CHR ''&'' then ''&amp;'' else if c = CHR ''<'' then ''&lt;'' else if c = CHR ''>'' then ''&gt;''
      else if c = CHR 0x22 then ''&#34;'' else if c = CHR 0x27 then ''&#39;'' else [c])"

definition html_escape :: "string \<Rightarrow> string" where
  "html_escape s = concat (map html_char s)"

fun val_text :: "val \<Rightarrow> string" where
  "val_text (VStr s) = s"
| "val_text (VUrl s) = s"
| "val_text (VInt n) = int_string n"
| "val_text (VBool b) = (if b then ''true'' else ''false'')"
| "val_text (VClass cs) = join '' '' cs"

definition html_library :: runtime where
  "html_library =
     \<lparr>rt_text = val_text, rt_escape = html_escape, rt_attr = (\<lambda>v. html_escape (val_text v)), rt_style = (\<lambda>s. s), rt_css = (\<lambda>cs. [])\<rparr>"

lemma html_escape_plain: "plain_text (html_escape s)"
  by (induction s) (auto simp: html_escape_def html_char_def plain_text_def)

interpretation html: template_library html_library
  by unfold_locales (simp_all add: html_library_def html_escape_plain)

subsection \<open>Walking over a template\<close>

text \<open>
  The walk over a page is evaluated by rewriting; the congruences keep the simplifier away from what has
  not been reached yet, and the two branches of a template that meet again are walked on from once.
\<close>

lemma scan_here [cong]: "s = s' \<Longrightarrow> scan k ps s = scan k ps s'" by simp
lemma run_here [cong]: "s = s' \<Longrightarrow> run t s = run t s'" by simp

declare scan_append [simp] run_append [simp]

lemma scan_branch [simp]: "scan k (if b then ps else qs) s = (if b then scan k ps s else scan k qs s)" by simp
lemma run_branch [simp]: "run t (if b then s else s') = (if b then run t s else run t s')" by simp

lemma scan_repeat [simp]:
  "(\<And>x. x \<in> set xs \<Longrightarrow> scan k (f x) s = s) \<Longrightarrow> scan k (concat (map f xs)) s = s"
  by (rule scan_loop)

text \<open>A component that may stand anywhere in the text of a page.\<close>

definition sound_part :: "string \<Rightarrow> component \<Rightarrow> bool" where
  "sound_part k c = (scan k c (Body, Outside) = (Body, Outside))"

lemma sound_partI [simp]: "scan k c (Body, Outside) = (Body, Outside) \<Longrightarrow> sound_part k c"
  by (simp add: sound_part_def)

lemma step_script [simp]: "html_step (Script []) c = (if c = CHR ''<'' then Script [c] else Script [])"
  by (simp add: end_script_def)

lemma step_script_more [simp]:
  "html_step (Script (d # m)) c =
     (if d # m @ [c] = end_script then Body else if prefix (d # m @ [c]) end_script then Script (d # m @ [c])
      else if c = CHR ''<'' then Script [c] else Script [])"
  by simp

declare html_step.simps(7) [simp del]
declare white_def [simp] element_def [simp] stray_def [simp] end_script_def [simp] watched_def [simp]
  address_attr_def [simp] local_address_def [simp]

text \<open>
  Rules that decide a character by one bit in which it differs, so that a step over it is a rewrite without conditions: text
  has no \<open><\<close>, a value no quotation mark, and what ends a name has no letter's bit.
\<close>

lemma char_bits [simp]:
  "(Char False b c d e f g h = Char True b' c' d' e' f' g' h') = False"
  "(Char True b c d e f g h = Char False b' c' d' e' f' g' h') = False"
  "(Char a False c d e f g h = Char a' True c' d' e' f' g' h') = False"
  "(Char a True c d e f g h = Char a' False c' d' e' f' g' h') = False"
  "(Char a b False d e f g h = Char a' b' True d' e' f' g' h') = False"
  "(Char a b True d e f g h = Char a' b' False d' e' f' g' h') = False"
  "(Char a b c False e f g h = Char a' b' c' True e' f' g' h') = False"
  "(Char a b c True e f g h = Char a' b' c' False e' f' g' h') = False"
  "(Char a b c d False f g h = Char a' b' c' d' True f' g' h') = False"
  "(Char a b c d True f g h = Char a' b' c' d' False f' g' h') = False"
  "(Char a b c d e False g h = Char a' b' c' d' e' True g' h') = False"
  "(Char a b c d e True g h = Char a' b' c' d' e' False g' h') = False"
  "(Char a b c d e f False h = Char a' b' c' d' e' f' True h') = False"
  "(Char a b c d e f True h = Char a' b' c' d' e' f' False h') = False"
  by simp_all

lemma char_here [cong]: "Char a b c d e f g h = Char a b c d e f g h" by (rule refl)
lemma val_here [cong]: "Val t a = Val t a" by (rule refl)
lemma attr_here [cong]: "a = a' \<Longrightarrow> AttrName t a = AttrName t a'" by simp
lemma eq_here [cong]: "AttrEq t a = AttrEq t a" by (rule refl)
lemma intag_here [cong]: "InTag t = InTag t" by (rule refl)

lemma run_text:
  "run (Char True b1 b2 b3 b4 b5 b6 b7 # cs) (Body, f) = run cs (Body, f)"
  "run (Char b0 True b2 b3 b4 b5 b6 b7 # cs) (Body, f) = run cs (Body, f)"
  "run (Char b0 b1 False b3 b4 b5 b6 b7 # cs) (Body, f) = run cs (Body, f)"
  "run (Char b0 b1 b2 False b4 b5 b6 b7 # cs) (Body, f) = run cs (Body, f)"
  "run (Char b0 b1 b2 b3 False b5 b6 b7 # cs) (Body, f) = run cs (Body, f)"
  "run (Char b0 b1 b2 b3 b4 False b6 b7 # cs) (Body, f) = run cs (Body, f)"
  "run (Char b0 b1 b2 b3 b4 b5 True b7 # cs) (Body, f) = run cs (Body, f)"
  "run (Char b0 b1 b2 b3 b4 b5 b6 True # cs) (Body, f) = run cs (Body, f)"
  "run (CHR ''<'' # cs) (Body, f) = run cs (TagName [], f)"
  by simp_all

lemma run_script:
  "run (Char True b1 b2 b3 b4 b5 b6 b7 # cs) (Script [], f) = run cs (Script [], f)"
  "run (Char b0 True b2 b3 b4 b5 b6 b7 # cs) (Script [], f) = run cs (Script [], f)"
  "run (Char b0 b1 False b3 b4 b5 b6 b7 # cs) (Script [], f) = run cs (Script [], f)"
  "run (Char b0 b1 b2 False b4 b5 b6 b7 # cs) (Script [], f) = run cs (Script [], f)"
  "run (Char b0 b1 b2 b3 False b5 b6 b7 # cs) (Script [], f) = run cs (Script [], f)"
  "run (Char b0 b1 b2 b3 b4 False b6 b7 # cs) (Script [], f) = run cs (Script [], f)"
  "run (Char b0 b1 b2 b3 b4 b5 True b7 # cs) (Script [], f) = run cs (Script [], f)"
  "run (Char b0 b1 b2 b3 b4 b5 b6 True # cs) (Script [], f) = run cs (Script [], f)"
  "run (CHR ''<'' # cs) (Script [], f) = run cs (Script ''<'', f)"
  by simp_all

lemma run_value_outside:
  "run (Char True b1 b2 b3 b4 b5 b6 b7 # cs) (Val t a, Outside) = run cs (Val t a, Outside)"
  "run (Char b0 False b2 b3 b4 b5 b6 b7 # cs) (Val t a, Outside) = run cs (Val t a, Outside)"
  "run (Char b0 b1 True b3 b4 b5 b6 b7 # cs) (Val t a, Outside) = run cs (Val t a, Outside)"
  "run (Char b0 b1 b2 True b4 b5 b6 b7 # cs) (Val t a, Outside) = run cs (Val t a, Outside)"
  "run (Char b0 b1 b2 b3 True b5 b6 b7 # cs) (Val t a, Outside) = run cs (Val t a, Outside)"
  "run (Char b0 b1 b2 b3 b4 False b6 b7 # cs) (Val t a, Outside) = run cs (Val t a, Outside)"
  "run (Char b0 b1 b2 b3 b4 b5 True b7 # cs) (Val t a, Outside) = run cs (Val t a, Outside)"
  "run (Char b0 b1 b2 b3 b4 b5 b6 True # cs) (Val t a, Outside) = run cs (Val t a, Outside)"
  by simp_all

lemma run_value_inside:
  "run (Char True b1 b2 b3 b4 b5 b6 b7 # cs) (Val t a, Inside p k n None) = run cs (Val t a, Inside p k n None)"
  "run (Char b0 False b2 b3 b4 b5 b6 b7 # cs) (Val t a, Inside p k n None) = run cs (Val t a, Inside p k n None)"
  "run (Char b0 b1 True b3 b4 b5 b6 b7 # cs) (Val t a, Inside p k n None) = run cs (Val t a, Inside p k n None)"
  "run (Char b0 b1 b2 True b4 b5 b6 b7 # cs) (Val t a, Inside p k n None) = run cs (Val t a, Inside p k n None)"
  "run (Char b0 b1 b2 b3 True b5 b6 b7 # cs) (Val t a, Inside p k n None) = run cs (Val t a, Inside p k n None)"
  "run (Char b0 b1 b2 b3 b4 False b6 b7 # cs) (Val t a, Inside p k n None) = run cs (Val t a, Inside p k n None)"
  "run (Char b0 b1 b2 b3 b4 b5 True b7 # cs) (Val t a, Inside p k n None) = run cs (Val t a, Inside p k n None)"
  "run (Char b0 b1 b2 b3 b4 b5 b6 True # cs) (Val t a, Inside p k n None) = run cs (Val t a, Inside p k n None)"
  by simp_all

lemma run_value_watched:
  "run (Char True b1 b2 b3 b4 b5 b6 b7 # cs) (Val t a, Inside p k n (Some w)) = run cs (Val t a, Inside p k n (Some (w @ [(Char True b1 b2 b3 b4 b5 b6 b7)])))"
  "run (Char b0 False b2 b3 b4 b5 b6 b7 # cs) (Val t a, Inside p k n (Some w)) = run cs (Val t a, Inside p k n (Some (w @ [(Char b0 False b2 b3 b4 b5 b6 b7)])))"
  "run (Char b0 b1 True b3 b4 b5 b6 b7 # cs) (Val t a, Inside p k n (Some w)) = run cs (Val t a, Inside p k n (Some (w @ [(Char b0 b1 True b3 b4 b5 b6 b7)])))"
  "run (Char b0 b1 b2 True b4 b5 b6 b7 # cs) (Val t a, Inside p k n (Some w)) = run cs (Val t a, Inside p k n (Some (w @ [(Char b0 b1 b2 True b4 b5 b6 b7)])))"
  "run (Char b0 b1 b2 b3 True b5 b6 b7 # cs) (Val t a, Inside p k n (Some w)) = run cs (Val t a, Inside p k n (Some (w @ [(Char b0 b1 b2 b3 True b5 b6 b7)])))"
  "run (Char b0 b1 b2 b3 b4 False b6 b7 # cs) (Val t a, Inside p k n (Some w)) = run cs (Val t a, Inside p k n (Some (w @ [(Char b0 b1 b2 b3 b4 False b6 b7)])))"
  "run (Char b0 b1 b2 b3 b4 b5 True b7 # cs) (Val t a, Inside p k n (Some w)) = run cs (Val t a, Inside p k n (Some (w @ [(Char b0 b1 b2 b3 b4 b5 True b7)])))"
  "run (Char b0 b1 b2 b3 b4 b5 b6 True # cs) (Val t a, Inside p k n (Some w)) = run cs (Val t a, Inside p k n (Some (w @ [(Char b0 b1 b2 b3 b4 b5 b6 True)])))"
  by simp_all

lemma run_tag:
  "run (CHR 0x22 # cs) (Val t a, f) = run cs (InTag t, watch (Val t a) (CHR 0x22) f)"
  "run (CHR '' '' # cs) (TagName t, f) = run cs (InTag t, tag_read t f)"
  "run (CHR 0x0A # cs) (TagName t, f) = run cs (InTag t, tag_read t f)"
  "run (CHR 0x09 # cs) (TagName t, f) = run cs (InTag t, tag_read t f)"
  "run (CHR ''>'' # cs) (TagName t, f) = run cs (element t, tag_read t f)"
  "run (CHR ''!'' # cs) (TagName [], f) = run cs (Decl, f)"
  "\<not> white c \<Longrightarrow> c \<noteq> CHR ''>'' \<Longrightarrow> c \<noteq> CHR ''!'' \<Longrightarrow> \<not> stray c \<Longrightarrow> run (c # cs) (TagName t, f) = run cs (TagName (t @ [c]), f)"
  "run (CHR '' '' # cs) (InTag t, f) = run cs (InTag t, f)"
  "run (CHR 0x0A # cs) (InTag t, f) = run cs (InTag t, f)"
  "run (CHR 0x09 # cs) (InTag t, f) = run cs (InTag t, f)"
  "run (CHR ''>'' # cs) (InTag t, f) = run cs (element t, tag_done f)"
  "\<not> white c \<Longrightarrow> c \<noteq> CHR ''>'' \<Longrightarrow> \<not> stray c \<Longrightarrow> run (c # cs) (InTag t, f) = run cs (AttrName t [c], f)"
  "run (CHR ''='' # cs) (AttrName t a, f) = run cs (AttrEq t a, f)"
  "run (CHR '' '' # cs) (AttrName t a, f) = run cs (InTag t, f)"
  "run (CHR 0x0A # cs) (AttrName t a, f) = run cs (InTag t, f)"
  "run (CHR 0x09 # cs) (AttrName t a, f) = run cs (InTag t, f)"
  "run (CHR ''>'' # cs) (AttrName t a, f) = run cs (element t, tag_done f)"
  "c \<noteq> CHR ''='' \<Longrightarrow> \<not> white c \<Longrightarrow> c \<noteq> CHR ''>'' \<Longrightarrow> \<not> stray c \<Longrightarrow> run (c # cs) (AttrName t a, f) = run cs (AttrName t (a @ [c]), f)"
  "run (CHR 0x22 # cs) (AttrEq t a, f) = run cs (Val t a, watch (AttrEq t a) (CHR 0x22) f)"
  "run (c # cs) (Script (x # m), f) = run cs (html_step (Script (x # m)) c, f)"
  "run (CHR ''>'' # cs) (Decl, f) = run cs (Body, f)"
  "c \<noteq> CHR ''>'' \<Longrightarrow> run (c # cs) (Decl, f) = run cs (Decl, f)"
  by simp_all

lemma run_letter:
  "run (Char b0 b1 b2 b3 b4 b5 True b7 # cs) (TagName t, f) = run cs (TagName (t @ [Char b0 b1 b2 b3 b4 b5 True b7]), f)"
  "run (Char b0 b1 b2 b3 b4 b5 True b7 # cs) (InTag t, f) = run cs (AttrName t [Char b0 b1 b2 b3 b4 b5 True b7], f)"
  "run (Char b0 b1 b2 b3 b4 b5 True b7 # cs) (AttrName t a, f) = run cs (AttrName t (a @ [Char b0 b1 b2 b3 b4 b5 True b7]), f)"
  by simp_all

lemmas run_fast [simp] = run_tag run_letter run_value_watched run_value_inside run_value_outside run_script run_text

declare run.simps(2) [simp del]

end
