(* ===== verification/ViewText.thy ===== *)
theory ViewText
  imports Templ WebUser WebRepo WebIssue
begin

section \<open>The words the templates compute (internal/web/*.templ)\<close>

text \<open>
  The plain functions of the templates: classes, labels, counts, addresses. What they need from outside is
  the record \<open>view\<close>: the markdown renderer and the formatter of times (in \<open>web_lib\<close>), the text of a uuid, the clock
  and \<open>fmt.Sscanf\<close> with the format \<open>%02x%02x%02x\<close>, which gives the three numbers it left behind.
\<close>

record view =
  vw_web :: web_lib
  vw_uuid :: "uuid \<Rightarrow> string"
  vw_now :: instant
  vw_scan_hex :: "string \<Rightarrow> int \<times> int \<times> int"

definition v_ago :: "view \<Rightarrow> instant \<Rightarrow> string" where
  "v_ago vw t = relativeTime (wl_format (vw_web vw)) (vw_now vw) t"

definition v_attr :: "view \<Rightarrow> instant \<Rightarrow> string" where
  "v_attr vw t = timeAttr (wl_format (vw_web vw)) t"

definition v_tooltip :: "view \<Rightarrow> instant \<Rightarrow> string" where
  "v_tooltip vw t = timeTooltip (wl_format (vw_web vw)) t"

subsection \<open>The frame (layout.templ, components.templ)\<close>

text \<open>What the frame of every page shows, and the page in it.\<close>

record layout_view = layout_data +
  lv_content :: component
  lv_full :: bool
  lv_hide :: bool
  lv_nav :: string

definition layoutMainClass :: "layout_view \<Rightarrow> string" where
  "layoutMainClass ld = (if lv_full ld then ''p-4'' else ''max-w-7xl mx-auto p-4'')"

definition globalNavClass :: "string \<Rightarrow> string \<Rightarrow> string" where
  "globalNavClass active tb = (if active = tb then ''active'' else [])"

definition unreadLabel :: "int \<Rightarrow> string" where
  "unreadLabel n = (if n > 99 then ''99+'' else int_string n)"

definition avatarClass :: "string \<Rightarrow> string" where
  "avatarClass sz = (if sz = ''lg'' then ''gh-avatar gh-avatar-lg'' else ''gh-avatar'')"

text \<open>The first byte in upper case; one that is not ASCII is no character, and becomes the replacement character.\<close>

definition replacement :: string where "replacement = [CHR 0xEF, CHR 0xBF, CHR 0xBD]"

fun avatarInitial :: "string \<Rightarrow> string" where
  "avatarInitial [] = ''?''"
| "avatarInitial (c # cs) = (if of_char c < (128 :: nat) then [byte_upper c] else replacement)"

definition avatar_colors :: "string list" where
  "avatar_colors = [''#bf3989'', ''#0969da'', ''#1a7f37'', ''#8250df'', ''#fb8500'', ''#cf222e'', ''#0550ae'', ''#6639ba'']"

definition avatarColor :: "string \<Rightarrow> string" where
  "avatarColor name = avatar_colors ! nat (sum_list (runes name) mod int (length avatar_colors))"

lemma avatarColor_listed: "avatarColor name \<in> set avatar_colors"
proof -
  have n: "0 < int (length avatar_colors)" by (simp add: avatar_colors_def)
  then have "nat (sum_list (runes name) mod int (length avatar_colors)) < length avatar_colors"
    using pos_mod_bound [OF n, of "sum_list (runes name)"] by (simp add: nat_less_iff)
  then show ?thesis unfolding avatarColor_def by (rule nth_mem)
qed

definition tabAriaCurrent :: "string \<Rightarrow> string \<Rightarrow> string" where
  "tabAriaCurrent active tb = (if active = tb then ''page'' else [])"

definition iconName :: "string \<Rightarrow> string \<Rightarrow> string" where
  "iconName icon tb = (if icon \<noteq> [] then icon else tb)"

definition tabClass :: "string \<Rightarrow> string \<Rightarrow> string" where
  "tabClass active tb = (if active = tb then ''active'' else [])"

definition subheadPillClass :: "string \<Rightarrow> string \<Rightarrow> string" where
  "subheadPillClass current pill =
     (if current = pill \<or> (current = [] \<and> pill = ''open'') then ''gh-subhead-pill active'' else ''gh-subhead-pill'')"

definition subheadAriaCurrent :: "string \<Rightarrow> string \<Rightarrow> string" where
  "subheadAriaCurrent current pill = (if current = pill \<or> (current = [] \<and> pill = ''open'') then ''page'' else [])"

fun countIssuesByState :: "issue list \<Rightarrow> string \<Rightarrow> int" where
  "countIssuesByState [] st = 0"
| "countIssuesByState (i # is) st = (if iu_state i = st then 1 else 0) + countIssuesByState is st"

fun countPRsByState :: "pull_request list \<Rightarrow> string \<Rightarrow> int" where
  "countPRsByState [] st = 0"
| "countPRsByState (pr # prs) st = (if pq_state pr = st then 1 else 0) + countPRsByState prs st"

definition issueIconClass :: "string \<Rightarrow> string" where
  "issueIconClass st = (if st = ''open'' then ''open'' else ''closed'')"

definition prIconClass :: "pull_request \<Rightarrow> string" where
  "prIconClass pr = (if pq_state pr = ''open'' then ''open'' else if pq_merged pr \<noteq> None then ''closed'' else ''closed'')"

definition prIconName :: "pull_request \<Rightarrow> string" where
  "prIconName pr = (if pq_merged pr \<noteq> None then ''git-merge'' else ''git-pull-request'')"

definition labelColor :: "string \<Rightarrow> string" where
  "labelColor color = (if color = [] then ''#656d76'' else if hd color \<noteq> CHR ''#'' then ''#'' @ color else color)"

text \<open>
  The luminance is a float64; on the values two hex digits can give its comparison with 0.6 is this one between
  whole numbers.
\<close>

definition labelTextColor :: "view \<Rightarrow> string \<Rightarrow> string" where
  "labelTextColor vw color =
     (let c = labelColor color
      in if length c \<noteq> 7 then ''#fff''
         else (case vw_scan_hex vw (tl c) of
                 (r, g, b) \<Rightarrow> if 299 * r + 587 * g + 114 * b > 153000 then ''#1f2328'' else ''#fff''))"

definition skeletonAvatarClass :: "bool \<Rightarrow> string" where
  "skeletonAvatarClass isTitle = (if isTitle then ''gh-skeleton gh-skeleton-avatar-sm'' else ''gh-skeleton gh-skeleton-avatar'')"

subsection \<open>Issues and pull requests\<close>

definition issueHasLabel :: "issue \<Rightarrow> uuid \<Rightarrow> bool" where
  "issueHasLabel iss lid = list_ex (\<lambda>l. lb_id l = lid) (iu_labels iss)"

definition issueBodyHTML :: "view \<Rightarrow> string \<Rightarrow> string" where
  "issueBodyHTML vw body = (case RenderMarkdown (vw_web vw) body of Inl e \<Rightarrow> body | Inr html \<Rightarrow> html)"

text \<open>Go's division of ints truncates; the limit is at least 1 (\<open>parsePageLimit\<close>).\<close>

definition go_quot :: "int \<Rightarrow> int \<Rightarrow> int" where
  "go_quot a b = sgn a * sgn b * (\<bar>a\<bar> div \<bar>b\<bar>)"

definition totalPagesForState :: "int \<Rightarrow> int \<Rightarrow> int \<Rightarrow> string \<Rightarrow> int" where
  "totalPagesForState openCount closedCount limit st =
     (let count = (if st = ''closed'' then closedCount else openCount)
      in if count \<le> 0 then 1 else go_quot (wrap64 (count + limit - 1)) limit)"

fun filter_state :: "string \<Rightarrow> pull_request list \<Rightarrow> pull_request list" where
  "filter_state st [] = []"
| "filter_state st (pr # prs) = (if pq_state pr = st then pr # filter_state st prs else filter_state st prs)"

definition filterPRs :: "pull_request list \<Rightarrow> string \<Rightarrow> pull_request list" where
  "filterPRs prs st = filter_state (if st = [] \<or> st = ''open'' then ''open'' else st) prs"

definition diffFilePath :: "diff_file \<Rightarrow> string" where
  "diffFilePath f = (if df_new f \<noteq> [] then df_new f else df_old f)"

definition diffLineClass :: "string \<Rightarrow> string" where
  "diffLineClass t = (if t = ''add'' then ''diff-add'' else if t = ''del'' then ''diff-del'' else [])"

definition diffPrefix :: "string \<Rightarrow> string" where
  "diffPrefix t = (if t = ''add'' then ''+'' else if t = ''del'' then ''-'' else [])"

definition lineNum :: "diff_line \<Rightarrow> int" where
  "lineNum l = (if dl_new l > 0 then dl_new l else dl_old l)"

definition lineNumStr :: "int \<Rightarrow> string" where
  "lineNumStr n = (if n \<le> 0 then [] else int_string n)"

definition runStatusLabel :: "web_run \<Rightarrow> string" where
  "runStatusLabel r = (if rw_conclusion r \<noteq> [] then rw_conclusion r else rw_status r)"

subsection \<open>Code and commits\<close>

definition web_shortSHA :: "string \<Rightarrow> string" where
  "web_shortSHA sha = (if length sha > 12 then take 12 sha else sha)"

definition web_formatTime :: "string \<Rightarrow> string" where
  "web_formatTime t = t"

text \<open>The lines of one file in a diff of several: from a header that mentions its name up to the next that does not.\<close>

definition diff_header :: string where "diff_header = ''diff --git ''"

fun file_diff_lines :: "string \<Rightarrow> bool \<Rightarrow> string list \<Rightarrow> string list" where
  "file_diff_lines filename inFile [] = []"
| "file_diff_lines filename inFile (line # ls) =
     (if prefix diff_header line \<and> contains line filename then line # file_diff_lines filename True ls
      else if prefix diff_header line then (if inFile then [] else file_diff_lines filename inFile ls)
      else if inFile then line # file_diff_lines filename inFile ls
      else file_diff_lines filename inFile ls)"

definition extractFileDiff :: "string \<Rightarrow> string \<Rightarrow> string" where
  "extractFileDiff diff filename =
     (if diff = [] then [] else join [CHR 0x0A] (file_diff_lines filename False (split_char (CHR 0x0A) diff)))"

fun total_lines :: "(changed_file \<Rightarrow> int) \<Rightarrow> int \<Rightarrow> changed_file list \<Rightarrow> int" where
  "total_lines n sofar [] = sofar"
| "total_lines n sofar (f # fs) = total_lines n (wrap64 (sofar + n f)) fs"

definition totalAdditions :: "changed_file list \<Rightarrow> string" where
  "totalAdditions files = int_string (total_lines cf_adds 0 files)"

definition totalDeletions :: "changed_file list \<Rightarrow> string" where
  "totalDeletions files = int_string (total_lines cf_dels 0 files)"

definition treeChildPath :: "string \<Rightarrow> string \<Rightarrow> string" where
  "treeChildPath basePath entryPath = (if basePath = [] then entryPath else basePath @ ''/'' @ entryPath)"

definition repoEntryURL :: "string \<Rightarrow> string \<Rightarrow> string \<Rightarrow> tree_entry \<Rightarrow> string" where
  "repoEntryURL fullName ref basePath e =
     (let p = (if basePath \<noteq> [] then basePath @ ''/'' @ tree_entry.te_path e else tree_entry.te_path e)
      in if tree_entry.te_type e = ''dir'' then ''/'' @ fullName @ ''/tree/'' @ p @ ''?ref='' @ ref
         else ''/'' @ fullName @ ''/blob/'' @ p @ ''?ref='' @ ref)"

subsection \<open>Search\<close>

definition searchPillClass :: "string \<Rightarrow> string \<Rightarrow> string" where
  "searchPillClass current pill =
     (if current = pill \<or> (current = [] \<and> pill = []) then ''gh-subhead-pill active'' else ''gh-subhead-pill'')"

definition type_param :: "string \<Rightarrow> string" where
  "type_param typ = (if typ \<noteq> [] then ''&type='' @ typ else [])"

definition sort_param :: "string \<Rightarrow> string" where
  "sort_param order = (if order \<noteq> [] \<and> order \<noteq> ''best_match'' then ''&sort='' @ order else [])"

definition searchExtraParams :: "string \<Rightarrow> string \<Rightarrow> string" where
  "searchExtraParams typ order = type_param typ @ sort_param order"

definition searchSortURL :: "string \<Rightarrow> string \<Rightarrow> string \<Rightarrow> string" where
  "searchSortURL query typ order = ''/search?q='' @ query @ type_param typ @ ''&sort='' @ order"

definition paginationURL :: "string \<Rightarrow> string \<Rightarrow> string \<Rightarrow> int \<Rightarrow> string" where
  "paginationURL query typ order pg =
     ''/search?q='' @ query @ ''&page='' @ int_string pg @ type_param typ @ sort_param order"

definition searchHitIcon :: "string \<Rightarrow> string" where
  "searchHitIcon typ =
     (if typ = ''issue'' then ''issue-opened'' else if typ = ''pull_request'' then ''git-pull-request''
      else if typ = ''wiki'' then ''book'' else ''repo'')"

definition searchHitURL :: "hit \<Rightarrow> string" where
  "searchHitURL h =
     (if ht_type h = ''repo'' \<and> ht_repo h \<noteq> [] then ''/'' @ ht_repo h
      else if ht_type h = ''issue'' \<and> ht_repo h \<noteq> [] \<and> ht_ref h \<noteq> [] then ''/'' @ ht_repo h @ ''/issues/'' @ ht_ref h
      else if ht_type h = ''pull_request'' \<and> ht_repo h \<noteq> [] \<and> ht_ref h \<noteq> [] then ''/'' @ ht_repo h @ ''/pulls/'' @ ht_ref h
      else if ht_type h = ''wiki'' \<and> ht_repo h \<noteq> [] \<and> ht_ref h \<noteq> [] then ''/'' @ ht_repo h @ ''/wiki/'' @ ht_ref h
      else ''/search?q='' @ ht_title h)"

subsection \<open>Lists of words and counts\<close>

fun joinStrings :: "string list \<Rightarrow> string" where
  "joinStrings [] = []"
| "joinStrings (s # ss) = fold (\<lambda>x out. out @ '', '' @ x) ss s"

fun scope_words :: "string \<Rightarrow> bool \<Rightarrow> string list \<Rightarrow> string" where
  "scope_words out later [] = out"
| "scope_words out later (s # ss) = scope_words ((if later then out @ '', '' else out) @ s) True ss"

definition joinScopes :: "string list \<Rightarrow> string" where
  "joinScopes scopes = (if scopes = [] then ''all'' else scope_words [] False scopes)"

definition pluralSuffix :: "int \<Rightarrow> string \<Rightarrow> string" where
  "pluralSuffix n noun = (if n = 1 then noun else noun @ ''s'')"

definition auditMeta :: "string option \<Rightarrow> string" where
  "auditMeta m = (case m of None \<Rightarrow> [] | Some s \<Rightarrow> s)"

definition notifItemClass :: "bool \<Rightarrow> string" where
  "notifItemClass isRead = (if isRead then [] else '' unread'')"

subsection \<open>Addresses of this site\<close>

lemma repoEntryURL_local [simp]: "prefix ''/'' (repoEntryURL fullName ref basePath e)"
  by (simp add: repoEntryURL_def Let_def)

lemma searchHitURL_local [simp]: "prefix ''/'' (searchHitURL h)"
  by (simp add: searchHitURL_def)

lemma paginationURL_local [simp]: "prefix ''/'' (paginationURL query typ order pg)"
  by (simp add: paginationURL_def)

lemma searchSortURL_local [simp]: "prefix ''/'' (searchSortURL query typ order)"
  by (simp add: searchSortURL_def)

subsection \<open>What the words amount to\<close>

text \<open>The number of pages is the one that holds all the counted rows and no more.\<close>

lemma go_quot_div: "0 \<le> a \<Longrightarrow> 0 < b \<Longrightarrow> go_quot a b = a div b"
  by (cases "a = 0") (simp_all add: go_quot_def)

lemma totalPages_enough:
  assumes "1 \<le> limit" and "limit \<le> 100" and "0 < count" and "count < 2 ^ 62"
    and "count = (if st = ''closed'' then closedCount else openCount)"
  shows "(totalPagesForState openCount closedCount limit st - 1) * limit < count
    \<and> count \<le> totalPagesForState openCount closedCount limit st * limit"
proof -
  have wrap: "wrap64 (count + limit - 1) = count + limit - 1"
    using assms(1-4) by (simp add: wrap64_def)
  have "totalPagesForState openCount closedCount limit st = (count + limit - 1) div limit"
    unfolding totalPagesForState_def Let_def assms(5) [symmetric] wrap using assms(1,3) by (simp add: go_quot_div)
  then obtain q where q: "totalPagesForState openCount closedCount limit st = q" "q = (count + limit - 1) div limit" by simp
  have "limit * q = count + limit - 1 - (count + limit - 1) mod limit"
    unfolding q(2) by (simp add: minus_mod_eq_mult_div [symmetric])
  moreover have "0 \<le> (count + limit - 1) mod limit" "(count + limit - 1) mod limit < limit" using assms(1) by simp_all
  ultimately have "limit * q \<le> count + limit - 1" "count \<le> limit * q" by linarith+
  then show ?thesis unfolding q(1) by (simp add: algebra_simps)
qed

text \<open>
  The list of issues is not filtered by state, so that with one open and thirty closed issues the pages
  end before the list does.
\<close>

lemma pages_of_open_issues: "totalPagesForState 1 30 25 ''open'' = 1"
  by (simp add: totalPagesForState_def go_quot_def wrap64_def)

lemma filterPRs_state: "set (filterPRs prs st) = {pr \<in> set prs. pq_state pr = (if st = [] then ''open'' else st)}"
proof -
  have "set (filter_state s prs) = {pr \<in> set prs. pq_state pr = s}" for s by (induction prs) auto
  then show ?thesis by (auto simp: filterPRs_def)
qed

lemma join_concat: "join sep (w # ws) = w @ concat (map (\<lambda>x. sep @ x) ws)"
  by (induction ws arbitrary: w) simp_all

lemma joinStrings_join: "joinStrings ss = join '', '' ss"
proof -
  have "fold (\<lambda>x out. out @ '', '' @ x) ws w = w @ concat (map (\<lambda>x. '', '' @ x) ws)" for w ws
    by (induction ws arbitrary: w) simp_all
  then show ?thesis by (cases ss) (simp_all add: join_concat)
qed

text \<open>A file is found by its name anywhere in a header: the diff of another file whose name holds it comes along.\<close>

lemma diff_of_other_file:
  "file_diff_lines ''a.c'' False [''diff --git a/a.c b/a.c'', ''+x'', ''diff --git a/aa.c b/aa.c'', ''+y'']
     = [''diff --git a/a.c b/a.c'', ''+x'', ''diff --git a/aa.c b/aa.c'', ''+y'']"
  by code_simp

text \<open>The words of a search go into the addresses as they are.\<close>

lemma search_words_cut:
  "values_get (query_part ''q=a'' @ query_part ''b'') ''q'' = ''a''"
  "searchSortURL ''a&b'' [] ''recently_updated'' = ''/search?q=a&b&sort=recently_updated''"
  by code_simp+

lemma two_repositories: "pluralSuffix 2 ''repository'' = ''repositorys''"
  by (simp add: pluralSuffix_def)

lemma initial_not_ascii: "avatarInitial (CHR 0xC3 # cs) = replacement"
  by simp

lemma raw_body_shown: "RenderMarkdown (vw_web vw) body = Inl e \<Longrightarrow> issueBodyHTML vw body = body"
  by (simp add: issueBodyHTML_def)

end
