(* ===== verification/ViewParts.thy ===== *)
theory ViewParts
  imports ViewText
begin

section \<open>The parts every page is built from (internal/web/components.templ)\<close>

text \<open>
  Icons, headers, tabs, list items, forms and their tokens. Each template is the component of the same name; a long one is cut into numbered parts, in the order of the file.
\<close>

declare if_cong [cong] if_split [split del]

subsection \<open>components\<close>

definition Icon :: "string \<Rightarrow> string \<Rightarrow> component" where
  \<open>Icon name cls = [Call (
    [Css [''gh-icon '' @ cls], Lit ''<svg class="'', Attr (VClass [''gh-icon '' @ cls]),
     Lit ''" aria-hidden="true"><use href="'', Attr (VUrl (''/static/icons.svg#'' @ name)), Lit ''"></use></svg>''])]\<close>

lemma scan_Icon [simp]: "scan k (Icon name cls) (Body, Outside) = (Body, Outside)"
  unfolding Icon_def by simp

lemma scan_Icon_form [simp]: "scan k (Icon name cls) (Body, Inside p t False None) = (Body, Inside p t False None)"
  unfolding Icon_def by simp

definition Avatar :: "string \<Rightarrow> string \<Rightarrow> component" where
  \<open>Avatar username0 sz = [Call (
    [Css [avatarClass sz], Lit ''<span class="'', Attr (VClass [avatarClass sz]), Lit ''" style="'',
     Style (''background:'' @ avatarColor username0), Lit ''">'', Esc (VStr (avatarInitial username0)),
     Lit ''</span>''])]\<close>

lemma scan_Avatar [simp]: "scan k (Avatar username0 sz) (Body, Outside) = (Body, Outside)"
  unfolding Avatar_def by simp

definition ErrorAlert :: "string \<Rightarrow> component" where
  \<open>ErrorAlert msg = [Call (
    (if msg \<noteq> []
     then [Lit ''<div class="alert alert-error">'', Esc (VStr msg), Lit ''</div>'']
     else []))]\<close>

lemma scan_ErrorAlert [simp]: "scan k (ErrorAlert msg) (Body, Outside) = (Body, Outside)"
  unfolding ErrorAlert_def by simp

definition Toast_view :: "string \<Rightarrow> string \<Rightarrow> component" where
  \<open>Toast_view message variant = [Call (
    [Css [''toast toast-'' @ variant], Lit ''<div class="'', Attr (VClass [''toast toast-'' @ variant]),
     Lit ''" role="status" aria-live="polite">'', Esc (VStr message), Lit ''</div>''])]\<close>

lemma scan_Toast_view [simp]: "scan k (Toast_view message variant) (Body, Outside) = (Body, Outside)"
  unfolding Toast_view_def by simp

definition RepoHeader_1 :: "repo_header \<Rightarrow> component" where
  \<open>RepoHeader_1 data = 
    [Lit ''<div class="gh-repo-band"><div class="gh-repo-head"><div><h1 class="gh-repo-title"><a href="'',
     Esc (VUrl (''/'' @ rp_owner_name (rh_repo data))), Lit ''" class="owner">'',
     Esc (VStr (rp_owner_name (rh_repo data))), Lit ''</a> <span class="sep">/</span> <a href="'',
     Esc (VUrl (''/'' @ rp_full_name (rh_repo data))), Lit ''" class="repo-name">'',
     Esc (VStr (rp_name (rh_repo data))), Lit ''</a></h1><div class="gh-repo-meta">'']
    @ (if (rp_desc (rh_repo data)) \<noteq> []
     then [Lit ''<span>'', Esc (VStr (rp_desc (rh_repo data))), Lit ''</span> '']
     else [])
    @ [Lit ''<span class="gh-visibility">'']
    @ (if rp_private (rh_repo data)
     then [Lit ''Private'']
     else [Lit ''Public''])
    @ [Lit ''</span> '']
    @ (if rp_fork (rh_repo data)
     then [Lit ''<span class="gh-visibility">Fork</span> '']
     else [])
    @ [Lit ''<a href="'', Esc (VUrl (''/'' @ rp_full_name (rh_repo data) @ ''/actions'')),
     Lit ''" class="inline-flex items-center ml-2 align-middle" title="CI status"><img src="'',
     Attr (VUrl (''/'' @ rp_full_name (rh_repo data) @ ''/actions/badge.svg'')),
     Lit ''" alt="CI status" height="20" loading="lazy"></a></div></div><div class="gh-repo-actions"><div class="gh-btn-group">'']\<close>

lemma scan_RepoHeader_1 [simp]: "scan k (RepoHeader_1 data) (Body, Outside) = (Body, Outside)"
  unfolding RepoHeader_1_def by simp

definition CSRFInput :: "string \<Rightarrow> component" where
  \<open>CSRFInput token = [Call (
    [Lit ''<input type="hidden" name="csrf_token" value="'', Attr (VStr token), Lit ''">''])]\<close>

lemma scan_CSRFInput_form [simp]:
  "token = k \<Longrightarrow>
     scan k (CSRFInput token) (Body, Inside p t False None) = (Body, Inside p True False None)"
  unfolding CSRFInput_def by simp

lemma scan_CSRFInput [simp]: "scan k (CSRFInput token) (Body, Outside) = (Body, Outside)"
  unfolding CSRFInput_def by simp

definition RepoHeader_2 :: "repo_header \<Rightarrow> component" where
  \<open>RepoHeader_2 data = 
    (if rh_starred data
     then [Lit ''<form method="post" action="'', Esc (VUrl (''/'' @ rp_full_name (rh_repo data) @ ''/unstar'')), Lit ''">'']
       @ CSRFInput (rh_csrf data)
       @ [Lit ''<button type="submit" class="gh-btn-seg">'']
       @ Icon ''star'' []
       @ [Lit ''Starred <span class="gh-counter">'', Esc (VStr (int_string (rp_stars (rh_repo data)))),
        Lit ''</span></button></form>'']
     else [Lit ''<form method="post" action="'', Esc (VUrl (''/'' @ rp_full_name (rh_repo data) @ ''/star'')), Lit ''">'']
       @ CSRFInput (rh_csrf data)
       @ [Lit ''<button type="submit" class="gh-btn-seg">'']
       @ Icon ''star'' []
       @ [Lit ''Star <span class="gh-counter">'', Esc (VStr (int_string (rp_stars (rh_repo data)))),
        Lit ''</span></button></form>''])\<close>

lemma scan_RepoHeader_2 [simp]:
  "rh_csrf data = k \<Longrightarrow>
     scan k (RepoHeader_2 data) (Body, Outside) = (Body, Outside)"
  unfolding RepoHeader_2_def by simp

definition LoadingSpinnerSmall :: "component" where
  \<open>LoadingSpinnerSmall = [Call (
    [Lit ''<span class="gh-spinner gh-spinner-sm" role="status" aria-label="Loading"></span>''])]\<close>

lemma scan_LoadingSpinnerSmall [simp]: "scan k LoadingSpinnerSmall (Body, Outside) = (Body, Outside)"
  unfolding LoadingSpinnerSmall_def by simp

lemma scan_LoadingSpinnerSmall_form [simp]: "scan k LoadingSpinnerSmall (Body, Inside p t False None) = (Body, Inside p t False None)"
  unfolding LoadingSpinnerSmall_def by simp

definition CloneDropdown :: "string \<Rightarrow> string \<Rightarrow> component" where
  \<open>CloneDropdown httpsURL sshURL = [Call (
    [Lit ''<details class="gh-clone-menu"><summary class="gh-clone-btn">'']
    @ Icon ''code'' []
    @ [Lit (''Code</summary><div class="gh-clone-panel card"><div class="gh-clone-tabs" role="tablist">'' @
       ''<button type="button" class="active" data-clone-tab="https" role="tab" aria-selected="true" onclick="switchCloneTab(this,'https')">HTTPS</button>'' @
       '' <button type="button" data-clone-tab="ssh" role="tab" aria-selected="false" onclick="switchCloneTab(this,'ssh')">SSH</button></div>'' @
       ''<p class="gh-clone-label text-sm m-0 mb-2">Clone</p><div class="gh-clone-url-row"><input type="text" class="input gh-clone-url" readonly value="''),
     Attr (VStr httpsURL), Lit ''" data-https="'', Attr (VStr httpsURL), Lit ''" data-ssh="'', Attr (VStr sshURL),
     Lit ''" aria-label="Clone URL"> <button type="button" class="gh-clone-copy gh-header-btn" aria-label="Copy" onclick="copyCloneUrl(this)">'']
    @ Icon ''copy'' []
    @ [Lit (''</button></div><p class="gh-clone-hint text-sm text-muted m-0 mt-2" data-https-hint="Use a personal access token from Settings for HTTPS auth."'' @
       '' data-ssh-hint="Use a password-protected SSH key from Settings.">Use a personal access token from Settings for HTTPS auth.</p></div></details>'')])]\<close>

lemma scan_CloneDropdown [simp]: "scan k (CloneDropdown httpsURL sshURL) (Body, Outside) = (Body, Outside)"
  unfolding CloneDropdown_def by simp

definition RepoHeader_3 :: "repo_header \<Rightarrow> component" where
  \<open>RepoHeader_3 data = 
    (if rh_watched data
     then [Lit ''<form method="post" action="'', Esc (VUrl (''/'' @ rp_full_name (rh_repo data) @ ''/unwatch'')),
        Lit ''">'']
       @ CSRFInput (rh_csrf data)
       @ [Lit ''<button type="submit" class="gh-btn-seg">'']
       @ Icon ''eye'' []
       @ [Lit ''Unwatch</button></form>'']
     else [Lit ''<form method="post" action="'', Esc (VUrl (''/'' @ rp_full_name (rh_repo data) @ ''/watch'')), Lit ''">'']
       @ CSRFInput (rh_csrf data)
       @ [Lit ''<button type="submit" class="gh-btn-seg">'']
       @ Icon ''eye'' []
       @ [Lit ''Watch</button></form>''])
    @ [Lit ''<button type="button" class="gh-btn-seg" hx-get="'',
     Attr (VUrl (''/'' @ rp_full_name (rh_repo data) @ ''/fork/dialog'')),
     Lit ''" hx-target="#fork-dialog-container" hx-swap="innerHTML" hx-trigger="click" hx-indicator="#fork-loading">'']
    @ Icon ''repo-forked'' []
    @ [Lit ''Fork</button><div id="fork-loading" class="htmx-indicator" style="display:inline-flex;align-items:center;gap:0.25rem">'']
    @ LoadingSpinnerSmall
    @ [Lit ''<span class="text-xs text-muted">Loading...</span></div></div>'']
    @ CloneDropdown (rh_https data) (rh_ssh data)
    @ [Lit ''</div></div></div>'']\<close>

lemma scan_RepoHeader_3 [simp]:
  "rh_csrf data = k \<Longrightarrow>
     scan k (RepoHeader_3 data) (Body, Outside) = (Body, Outside)"
  unfolding RepoHeader_3_def by simp

definition RepoHeader :: "repo_header \<Rightarrow> component" where
  \<open>RepoHeader data = [Call (
    RepoHeader_1 data
    @ RepoHeader_2 data
    @ RepoHeader_3 data)]\<close>

lemma scan_RepoHeader [simp]:
  "rh_csrf data = k \<Longrightarrow>
     scan k (RepoHeader data) (Body, Outside) = (Body, Outside)"
  unfolding RepoHeader_def by simp

definition repoTab :: "repo_nav \<Rightarrow> string \<Rightarrow> string \<Rightarrow> string \<Rightarrow> string \<Rightarrow> int \<Rightarrow> component" where
  \<open>repoTab data tb suffix0 icon title count = [Call (
    [Css [tabClass (rn_tab data) tb], Lit ''<a href="'',
     Esc (VUrl (''/'' @ rn_owner data @ ''/'' @ rn_repo data @ suffix0)), Lit ''" class="'',
     Attr (VClass [tabClass (rn_tab data) tb]), Lit ''" aria-current="'',
     Attr (VStr (tabAriaCurrent (rn_tab data) tb)), Lit ''">'']
    @ Icon (iconName icon tb) []
    @ [Esc (VStr title), Lit '' '']
    @ (if (count > 0) \<and> ((tb = ''issues'') \<or> (tb = ''pulls''))
     then [Lit ''<span class="gh-counter">'', Esc (VStr (int_string count)), Lit ''</span>'']
     else [])
    @ [Lit ''</a>''])]\<close>

lemma scan_repoTab [simp]: "scan k (repoTab data tb suffix0 icon title count) (Body, Outside) = (Body, Outside)"
  unfolding repoTab_def by simp

definition RepoNav :: "repo_nav \<Rightarrow> component" where
  \<open>RepoNav data = [Call (
    [Lit ''<nav class="gh-tab-nav">'']
    @ repoTab data ''code'' ''/'' ''code'' ''Code'' 0
    @ repoTab data ''issues'' ''/issues'' ''issue-opened'' ''Issues'' (int (rn_issues data))
    @ repoTab data ''pulls'' ''/pulls'' ''git-pull-request'' ''Pull requests'' (int (rn_pulls data))
    @ repoTab data ''milestones'' ''/milestones'' ''milestone'' ''Milestones'' 0
    @ repoTab data ''tags'' ''/tags'' ''tag'' ''Tags'' 0
    @ repoTab data ''actions'' ''/actions'' ''play'' ''Actions'' 0
    @ repoTab data ''releases'' ''/releases'' ''tag'' ''Releases'' 0
    @ repoTab data ''packages'' ''/packages'' ''package'' ''Packages'' 0
    @ repoTab data ''wiki'' ''/wiki'' ''book'' ''Wiki'' 0
    @ repoTab data ''settings'' ''/settings'' ''gear'' ''Settings'' 0
    @ [Lit ''</nav>''])]\<close>

lemma scan_RepoNav [simp]: "scan k (RepoNav data) (Body, Outside) = (Body, Outside)"
  unfolding RepoNav_def by simp

definition RepoPageShell :: "repo_header \<Rightarrow> repo_nav \<Rightarrow> component" where
  \<open>RepoPageShell header nav = [Call (
    [Lit ''<div class="max-w-7xl mx-auto">'']
    @ RepoHeader header
    @ RepoNav nav
    @ [Lit ''</div>''])]\<close>

lemma scan_RepoPageShell [simp]:
  "rh_csrf header = k \<Longrightarrow>
     scan k (RepoPageShell header nav) (Body, Outside) = (Body, Outside)"
  unfolding RepoPageShell_def by simp

definition EmptyState :: "string \<Rightarrow> component" where
  \<open>EmptyState msg = [Call (
    [Lit ''<p class="text-muted text-center py-4">'', Esc (VStr msg), Lit ''</p>''])]\<close>

lemma scan_EmptyState [simp]: "scan k (EmptyState msg) (Body, Outside) = (Body, Outside)"
  unfolding EmptyState_def by simp

definition PageHeader :: "string \<Rightarrow> component option \<Rightarrow> component" where
  \<open>PageHeader title actions = [Call (
    [Lit ''<div class="flex justify-between items-center mb-6 gap-3 flex-wrap"><h1 class="text-2xl font-bold m-0">'',
     Esc (VStr title), Lit ''</h1>'']
    @ (if actions \<noteq> None
     then [Lit ''<div class="flex gap-2 flex-wrap">'']
       @ the actions
       @ [Lit ''</div>'']
     else [])
    @ [Lit ''</div>''])]\<close>

lemma scan_PageHeader [simp]:
  "(case actions of None \<Rightarrow> True | Some c \<Rightarrow> scan k c (Body, Outside) = (Body, Outside)) \<Longrightarrow>
     scan k (PageHeader title actions) (Body, Outside) = (Body, Outside)"
  unfolding PageHeader_def by (cases actions) (simp_all cong del: scan_here)

definition CollapsibleForm :: "string \<Rightarrow> component \<Rightarrow> component" where
  \<open>CollapsibleForm title content0 = [Call (
    [Lit ''<details class="collapsible-form card mb-4"><summary class="collapsible-form-summary">'', Esc (VStr title),
     Lit ''</summary><div class="collapsible-form-body p-4">'']
    @ content0
    @ [Lit ''</div></details>''])]\<close>

lemma scan_CollapsibleForm [simp]:
  "sound_part k content0 \<Longrightarrow>
     scan k (CollapsibleForm title content0) (Body, Outside) = (Body, Outside)"
  unfolding CollapsibleForm_def sound_part_def by simp

definition FormField_1 :: "string \<Rightarrow> string \<Rightarrow> component" where
  \<open>FormField_1 caption ident = 
    [Lit ''<div class="form-field"><label class="text-sm" for="'', Attr (VStr ident), Lit ''">'', Esc (VStr caption),
     Lit ''</label> '']\<close>

lemma scan_FormField_1_form [simp]: "scan k (FormField_1 caption ident) (Body, Inside p t False None) = (Body, Inside p t False None)"
  unfolding FormField_1_def by simp

lemma scan_FormField_1 [simp]: "scan k (FormField_1 caption ident) (Body, Outside) = (Body, Outside)"
  unfolding FormField_1_def by simp

definition FormField_2 :: "string \<Rightarrow> string \<Rightarrow> string \<Rightarrow> string \<Rightarrow> bool \<Rightarrow> component" where
  \<open>FormField_2 ident inputType name val0 required = 
    (if inputType = ''textarea''
     then [Lit ''<textarea id="'', Attr (VStr ident), Lit ''" name="'', Attr (VStr name),
        Lit ''" class="input mt-2" rows="3">'', Esc (VStr val0), Lit ''</textarea>'']
     else [Lit ''<input type="'', Attr (VStr inputType), Lit ''" id="'', Attr (VStr ident), Lit ''" name="'',
        Attr (VStr name), Lit ''" value="'', Attr (VStr val0), Lit ''" class="input mt-2"'']
       @ (if required
        then [Lit '' required'']
        else [])
       @ [Lit ''>''])
    @ [Lit ''</div>'']\<close>

lemma scan_FormField_2_form [simp]:
  "scan k (FormField_2 ident inputType name val0 required) (Body, Inside p t False None) = (Body, Inside p t False None)"
  unfolding FormField_2_def by simp

lemma scan_FormField_2 [simp]: "scan k (FormField_2 ident inputType name val0 required) (Body, Outside) = (Body, Outside)"
  unfolding FormField_2_def by simp

definition FormField :: "string \<Rightarrow> string \<Rightarrow> string \<Rightarrow> string \<Rightarrow> string \<Rightarrow> bool \<Rightarrow> component" where
  \<open>FormField caption ident inputType name val0 required = [Call (
    FormField_1 caption ident
    @ FormField_2 ident inputType name val0 required)]\<close>

lemma scan_FormField_form [simp]:
  "scan k (FormField caption ident inputType name val0 required) (Body, Inside p t False None) = (Body, Inside p t False None)"
  unfolding FormField_def by simp

lemma scan_FormField [simp]: "scan k (FormField caption ident inputType name val0 required) (Body, Outside) = (Body, Outside)"
  unfolding FormField_def by simp

definition IssueSubhead :: "repo_nav \<Rightarrow> string \<Rightarrow> int \<Rightarrow> int \<Rightarrow> component" where
  \<open>IssueSubhead nav st openCount closedCount = [Call (
    [Lit ''<div class="gh-subhead">'', Css [subheadPillClass st ''open''], Lit ''<a href="'',
     Esc (VUrl (''/'' @ rn_owner nav @ ''/'' @ rn_repo nav @ ''/issues'')), Lit ''" class="'',
     Attr (VClass [subheadPillClass st ''open'']), Lit ''" aria-current="'',
     Attr (VStr (subheadAriaCurrent st ''open'')), Lit ''">'']
    @ Icon ''issue-opened'' []
    @ [Esc (VStr (int_string openCount)), Lit '' Open</a> '', Css [subheadPillClass st ''closed''], Lit ''<a href="'',
     Esc (VUrl (''/'' @ rn_owner nav @ ''/'' @ rn_repo nav @ ''/issues?state=closed'')), Lit ''" class="'',
     Attr (VClass [subheadPillClass st ''closed'']), Lit ''" aria-current="'',
     Attr (VStr (subheadAriaCurrent st ''closed'')), Lit ''">'']
    @ Icon ''issue-closed'' []
    @ [Esc (VStr (int_string closedCount)), Lit '' Closed</a></div>''])]\<close>

lemma scan_IssueSubhead [simp]: "scan k (IssueSubhead nav st openCount closedCount) (Body, Outside) = (Body, Outside)"
  unfolding IssueSubhead_def by simp

definition PRSubhead :: "repo_nav \<Rightarrow> pull_request list \<Rightarrow> string \<Rightarrow> component" where
  \<open>PRSubhead nav prs st = [Call (
    [Lit ''<div class="gh-subhead">'', Css [subheadPillClass st ''open''], Lit ''<a href="'',
     Esc (VUrl (''/'' @ rn_owner nav @ ''/'' @ rn_repo nav @ ''/pulls'')), Lit ''" class="'',
     Attr (VClass [subheadPillClass st ''open'']), Lit ''" aria-current="'',
     Attr (VStr (subheadAriaCurrent st ''open'')), Lit ''">'']
    @ Icon ''git-pull-request'' []
    @ [Esc (VStr (int_string (countPRsByState prs ''open''))), Lit '' Open</a> '', Css [subheadPillClass st ''closed''],
     Lit ''<a href="'', Esc (VUrl (''/'' @ rn_owner nav @ ''/'' @ rn_repo nav @ ''/pulls?state=closed'')),
     Lit ''" class="'', Attr (VClass [subheadPillClass st ''closed'']), Lit ''" aria-current="'',
     Attr (VStr (subheadAriaCurrent st ''closed'')), Lit ''">'']
    @ Icon ''git-pull-request'' []
    @ [Esc (VStr (int_string (countPRsByState prs ''closed''))), Lit '' Closed</a></div>''])]\<close>

lemma scan_PRSubhead [simp]: "scan k (PRSubhead nav prs st) (Body, Outside) = (Body, Outside)"
  unfolding PRSubhead_def by simp

definition IssueListItem :: "repo_nav \<Rightarrow> issue \<Rightarrow> component" where
  \<open>IssueListItem nav i = [Call (
    [Lit ''<a href="'',
     Esc (VUrl (''/'' @ rn_owner nav @ ''/'' @ rn_repo nav @ ''/issues/'' @ int_string (iu_number i))),
     Lit ''" class="gh-list-item">'', Css [''gh-list-item-icon '' @ issueIconClass (iu_state i)],
     Lit ''<span class="'', Attr (VClass [''gh-list-item-icon '' @ issueIconClass (iu_state i)]), Lit ''">'']
    @ (if (iu_state i) = ''open''
     then Icon ''issue-opened'' []
     else Icon ''issue-closed'' [])
    @ [Lit ''</span><div class="gh-list-item-body"><div class="gh-list-item-title">'', Esc (VStr (iu_title i)),
     Lit ''</div><div class="gh-list-item-meta">#'', Esc (VStr (int_string (iu_number i))), Lit '' '']
    @ (if (iu_author i) \<noteq> []
     then [Lit ''<span>opened by '', Esc (VStr (iu_author i)), Lit ''</span>'']
     else [])
    @ [Lit ''</div></div></a>''])]\<close>

lemma scan_IssueListItem [simp]: "scan k (IssueListItem nav i) (Body, Outside) = (Body, Outside)"
  unfolding IssueListItem_def by simp

definition PRListItem :: "repo_nav \<Rightarrow> pull_request \<Rightarrow> component" where
  \<open>PRListItem nav pr = [Call (
    [Lit ''<a href="'',
     Esc (VUrl (''/'' @ rn_owner nav @ ''/'' @ rn_repo nav @ ''/pulls/'' @ int_string (pq_number pr))),
     Lit ''" class="gh-list-item">'', Css [''gh-list-item-icon '' @ prIconClass pr], Lit ''<span class="'',
     Attr (VClass [''gh-list-item-icon '' @ prIconClass pr]), Lit ''">'']
    @ Icon (prIconName pr) []
    @ [Lit ''</span><div class="gh-list-item-body"><div class="gh-list-item-title">'', Esc (VStr (pq_title pr)),
     Lit ''</div><div class="gh-list-item-meta">#'', Esc (VStr (int_string (pq_number pr))),
     Lit ('' '' @ [CHR 0xC2, CHR 0xB7] @ '' ''), Esc (VStr (pq_head pr)),
     Lit ('' '' @ [CHR 0xE2, CHR 0x86, CHR 0x92] @ '' ''), Esc (VStr (pq_base pr)), Lit ''</div></div></a>''])]\<close>

lemma scan_PRListItem [simp]: "scan k (PRListItem nav pr) (Body, Outside) = (Body, Outside)"
  unfolding PRListItem_def by simp

definition BranchBar :: "string \<Rightarrow> string \<Rightarrow> string \<Rightarrow> string list \<Rightarrow> component" where
  \<open>BranchBar fullName ref path branches0 = [Call (
    [Lit (''<div class="gh-branch-bar"><label class="sr-only" for="branch-select">Branch</label> <select id="branch-select" class="gh-branch-selector input"'' @
       '' onchange="(function(s){var u=new URL(window.location.href);u.searchParams.set('ref',s.value);window.location=u})(this)">'')]
    @ concat (map (\<lambda>b.
       [Lit ''<option value="'', Attr (VStr b), Lit ''"'']
       @ (if b = ref
        then [Lit '' selected'']
        else [])
       @ [Lit ''>'', Esc (VStr b), Lit ''</option> '']) branches0)
    @ (if branches0 = []
     then [Lit ''<option value="'', Attr (VStr ref), Lit ''" selected>'', Esc (VStr ref), Lit ''</option>'']
     else [])
    @ [Lit ''</select> '']
    @ (if path \<noteq> []
     then [Lit ''<span class="gh-breadcrumb"><a href="'', Esc (VUrl (''/'' @ fullName @ ''?ref='' @ ref)), Lit ''">'',
        Esc (VStr fullName), Lit ''</a> <span>/ </span> '', Esc (VStr path), Lit ''</span>'']
     else [])
    @ [Lit ''</div>''])]\<close>

lemma scan_BranchBar [simp]: "scan k (BranchBar fullName ref path branches0) (Body, Outside) = (Body, Outside)"
  unfolding BranchBar_def by simp

definition FileTableRow :: "string \<Rightarrow> string \<Rightarrow> string \<Rightarrow> tree_entry \<Rightarrow> int \<Rightarrow> component" where
  \<open>FileTableRow fullName ref basePath e depth = [Call (
    [Lit ''<div class="gh-file-row" data-type="'', Attr (VStr (tree_entry.te_type e)), Lit ''">'']
    @ (if (tree_entry.te_type e) = ''dir''
     then [Lit ''<button type="button" class="gh-tree-toggle" data-url="'',
        Attr (VUrl (''/'' @ fullName @ ''/tree-partial/'' @ treeChildPath basePath (tree_entry.te_path e) @ ''?ref='' @ ref)),
        Lit ''" aria-label="'', Attr (VStr (''Expand '' @ tree_entry.te_path e)),
        Lit (''" onclick="return toggleTreeDir(event)"><svg class="gh-tree-toggle-icon" width="16" height="16" viewBox="0 0 16 16" fill="currentColor"'' @
       '' aria-hidden="true"><path d="M6.427 4.427l3.396 3.396a.25.25 0 010 .354l-3.396 3.396A.25.25 0 016 11.396V4.604a.25.25 0 01.427-.177z"></path></svg></button>'')]
       @ Icon ''file-directory'' []
     else [Lit ''<span class="gh-tree-toggle-placeholder"></span>'']
       @ Icon ''file'' [])
    @ [Lit ''<a href="'', Esc (VUrl (repoEntryURL fullName ref basePath e)), Lit ''">'',
     Esc (VStr (tree_entry.te_path e)), Lit ''</a> '']
    @ (if (tree_entry.te_type e) = ''dir''
     then [Lit ''<div class="gh-tree-children"></div>'']
     else [])
    @ [Lit ''</div>''])]\<close>

lemma scan_FileTableRow [simp]: "scan k (FileTableRow fullName ref basePath e depth) (Body, Outside) = (Body, Outside)"
  unfolding FileTableRow_def by simp

definition FileTable :: "string \<Rightarrow> string \<Rightarrow> string \<Rightarrow> tree_entry list \<Rightarrow> component" where
  \<open>FileTable fullName ref basePath entries = [Call (
    [Lit ''<div class="gh-file-table" data-root="'', Attr (VStr basePath), Lit ''">'']
    @ concat (map (\<lambda>e.
       FileTableRow fullName ref basePath e 0) entries)
    @ [Lit ''</div>''])]\<close>

lemma scan_FileTable [simp]: "scan k (FileTable fullName ref basePath entries) (Body, Outside) = (Body, Outside)"
  unfolding FileTable_def by simp

definition FileTableChildren_view :: "string \<Rightarrow> string \<Rightarrow> string \<Rightarrow> tree_entry list \<Rightarrow> component" where
  \<open>FileTableChildren_view fullName ref childPath entries = [Call (
    concat (map (\<lambda>e.
       FileTableRow fullName ref childPath e 0) entries))]\<close>

lemma scan_FileTableChildren_view [simp]: "scan k (FileTableChildren_view fullName ref childPath entries) (Body, Outside) = (Body, Outside)"
  unfolding FileTableChildren_view_def by simp

definition TreeLazyScript :: "component" where
  \<open>TreeLazyScript = [Call (
    [Lit (''<script>
		function toggleTreeDir(event) {
			var btn = event.currentTarget;
			var row = btn.closest('.gh-file-row');
			if (!row) return;
			var children = row.querySelector('.gh-tree-children');
			if (!children) return;
			var icon = btn.querySelector('.gh-tree-toggle-icon');

'' @
       ''			if (children.style.display === 'none' || children.innerHTML.trim() === '' @ [CHR 0x27] @ ''') {
				// Load children if not yet loaded
				if (children.innerHTML.trim() === '' @ [CHR 0x27] @ ''') {
					var url = btn.getAttribute('data-url');
					if (!url) return false;
					// Rotate icon to show loading/expanded state
'' @
       ''					if (icon) icon.style.transform = 'rotate(90deg)';
					row.classList.add('expanded');
					fetch(url)
						.then(function(r) {
							if (!r.ok) throw new Error('Failed to load');
							return r.text();
						})
						.then(function(html) {
							children.innerHTML = html;
							children.style.display = '' @ [CHR 0x27] @ ''';
'' @
       ''						})
						.catch(function() {
							children.innerHTML = '<div class="gh-file-row" style="color:var(--text-subtle);padding-left:2.5rem">Failed to load directory</div>';
							children.style.display = '' @ [CHR 0x27] @ ''';
						});
					return false;
				}
				// Already loaded, just show
				children.style.display = '' @ [CHR 0x27] @ ''';
'' @
       ''				if (icon) icon.style.transform = 'rotate(90deg)';
				row.classList.add('expanded');
			} else {
				children.style.display = 'none';
				if (icon) icon.style.transform = '' @ [CHR 0x27] @ ''';
				row.classList.remove('expanded');
			}
			return false;
		}
	</script>'')])]\<close>

lemma scan_TreeLazyScript [simp]: "scan k TreeLazyScript (Body, Outside) = (Body, Outside)"
  unfolding TreeLazyScript_def by simp

definition CommentBox :: "string \<Rightarrow> string \<Rightarrow> component \<Rightarrow> component" where
  \<open>CommentBox author action body = [Call (
    [Lit ''<li class="gh-timeline-item"><div class="gh-timeline-rail">'']
    @ Avatar author []
    @ [Lit ''</div><div class="gh-timeline-body"><div class="gh-timeline-header"><strong>'', Esc (VStr author),
     Lit ''</strong> '', Esc (VStr action), Lit ''</div><div class="gh-timeline-content">'']
    @ body
    @ [Lit ''</div></div></li>''])]\<close>

lemma scan_CommentBox [simp]:
  "sound_part k body \<Longrightarrow>
     scan k (CommentBox author action body) (Body, Outside) = (Body, Outside)"
  unfolding CommentBox_def sound_part_def by simp

definition StateBadge :: "string \<Rightarrow> component" where
  \<open>StateBadge st = [Call (
    (if st = ''open''
     then [Lit ''<span class="gh-state gh-state-open">'']
       @ Icon ''issue-opened'' []
       @ [Lit ''Open</span>'']
     else (if st = ''merged''
        then [Lit ''<span class="gh-state gh-state-merged">'']
          @ Icon ''git-merge'' []
          @ [Lit ''Merged</span>'']
        else [Lit ''<span class="gh-state gh-state-closed">'']
          @ Icon ''issue-closed'' []
          @ [Lit ''Closed</span>''])))]\<close>

lemma scan_StateBadge [simp]: "scan k (StateBadge st) (Body, Outside) = (Body, Outside)"
  unfolding StateBadge_def by simp

definition LabelBadge :: "view \<Rightarrow> string \<Rightarrow> string \<Rightarrow> component" where
  \<open>LabelBadge vw name color = [Call (
    [Lit ''<span class="gh-label" style="'',
     Style (''background:'' @ labelColor color @ '';color:'' @ labelTextColor vw color), Lit ''">'', Esc (VStr name),
     Lit ''</span>''])]\<close>

lemma scan_LabelBadge [simp]: "scan k (LabelBadge vw name color) (Body, Outside) = (Body, Outside)"
  unfolding LabelBadge_def by simp

definition SkeletonLine :: "component" where
  \<open>SkeletonLine = [Call (
    [Lit ''<div class="gh-skeleton gh-skeleton-text"></div>''])]\<close>

lemma scan_SkeletonLine [simp]: "scan k SkeletonLine (Body, Outside) = (Body, Outside)"
  unfolding SkeletonLine_def by simp

definition SkeletonLines :: "int \<Rightarrow> component" where
  \<open>SkeletonLines count = [Call (
    concat (map (\<lambda>i.
       [Lit ''<div class="gh-skeleton gh-skeleton-text"></div>'']) ([0..<nat count])))]\<close>

lemma scan_SkeletonLines [simp]: "scan k (SkeletonLines count) (Body, Outside) = (Body, Outside)"
  unfolding SkeletonLines_def by simp

definition SkeletonTitle :: "component" where
  \<open>SkeletonTitle = [Call (
    [Lit ''<div class="gh-skeleton gh-skeleton-title"></div>''])]\<close>

lemma scan_SkeletonTitle [simp]: "scan k SkeletonTitle (Body, Outside) = (Body, Outside)"
  unfolding SkeletonTitle_def by simp

definition SkeletonAvatar :: "component" where
  \<open>SkeletonAvatar = [Call (
    [Lit ''<div class="gh-skeleton gh-skeleton-avatar"></div>''])]\<close>

lemma scan_SkeletonAvatar [simp]: "scan k SkeletonAvatar (Body, Outside) = (Body, Outside)"
  unfolding SkeletonAvatar_def by simp

definition SkeletonAvatarSmall :: "component" where
  \<open>SkeletonAvatarSmall = [Call (
    [Lit ''<div class="gh-skeleton gh-skeleton-avatar-sm"></div>''])]\<close>

lemma scan_SkeletonAvatarSmall [simp]: "scan k SkeletonAvatarSmall (Body, Outside) = (Body, Outside)"
  unfolding SkeletonAvatarSmall_def by simp

definition SkeletonButton :: "component" where
  \<open>SkeletonButton = [Call (
    [Lit ''<div class="gh-skeleton gh-skeleton-button"></div>''])]\<close>

lemma scan_SkeletonButton [simp]: "scan k SkeletonButton (Body, Outside) = (Body, Outside)"
  unfolding SkeletonButton_def by simp

definition SkeletonCard :: "component list \<Rightarrow> component" where
  \<open>SkeletonCard children = [Call (
    [Lit ''<div class="gh-skeleton-card">'']
    @ concat (map (\<lambda>child.
       child) children)
    @ [Lit ''</div>''])]\<close>

lemma scan_SkeletonCard [simp]:
  "\<forall>c\<in>set children. scan k c (Body, Outside) = (Body, Outside) \<Longrightarrow>
     scan k (SkeletonCard children) (Body, Outside) = (Body, Outside)"
  unfolding SkeletonCard_def by simp

definition SkeletonListItem :: "bool \<Rightarrow> component" where
  \<open>SkeletonListItem hasTitle = [Call (
    [Lit ''<div class="gh-skeleton-list-item">'', Css [skeletonAvatarClass hasTitle], Lit ''<div class="'',
     Attr (VClass [skeletonAvatarClass hasTitle]),
     Lit (''"></div><div style="flex:1; min-width:0"><div class="gh-skeleton gh-skeleton-text" style="width:65%"></div>'' @
       ''<div class="gh-skeleton gh-skeleton-text" style="width:40%"></div></div></div>'')])]\<close>

lemma scan_SkeletonListItem [simp]: "scan k (SkeletonListItem hasTitle) (Body, Outside) = (Body, Outside)"
  unfolding SkeletonListItem_def by simp

definition SkeletonIssueList :: "int \<Rightarrow> component" where
  \<open>SkeletonIssueList count = [Call (
    [Lit ''<div class="gh-list">'']
    @ concat (map (\<lambda>i.
       SkeletonListItem True) ([0..<nat count]))
    @ [Lit ''</div>''])]\<close>

lemma scan_SkeletonIssueList [simp]: "scan k (SkeletonIssueList count) (Body, Outside) = (Body, Outside)"
  unfolding SkeletonIssueList_def by simp

definition LoadingSpinner :: "component" where
  \<open>LoadingSpinner = [Call (
    [Lit ''<span class="gh-spinner" role="status" aria-label="Loading"></span>''])]\<close>

lemma scan_LoadingSpinner [simp]: "scan k LoadingSpinner (Body, Outside) = (Body, Outside)"
  unfolding LoadingSpinner_def by simp

definition LoadingSpinnerLarge :: "component" where
  \<open>LoadingSpinnerLarge = [Call (
    [Lit ''<span class="gh-spinner gh-spinner-lg" role="status" aria-label="Loading"></span>''])]\<close>

lemma scan_LoadingSpinnerLarge [simp]: "scan k LoadingSpinnerLarge (Body, Outside) = (Body, Outside)"
  unfolding LoadingSpinnerLarge_def by simp

definition HXIndicator :: "string \<Rightarrow> component" where
  \<open>HXIndicator ident = [Call (
    [Lit ''<div id="'', Attr (VStr ident), Lit ''" class="htmx-indicator flex items-center justify-center py-4">'']
    @ LoadingSpinnerLarge
    @ [Lit ''<span class="text-muted text-sm ml-2">Loading...</span></div>''])]\<close>

lemma scan_HXIndicator [simp]: "scan k (HXIndicator ident) (Body, Outside) = (Body, Outside)"
  unfolding HXIndicator_def by simp

definition SkeletonTable :: "int \<Rightarrow> component" where
  \<open>SkeletonTable count = [Call (
    [Lit ''<div style="padding:1rem">'']
    @ concat (map (\<lambda>i.
       [Lit (''<div class="flex items-center gap-2" style="padding:0.5rem 0"><div class="gh-skeleton gh-skeleton-text" style="flex:2"></div>'' @
       ''<div class="gh-skeleton gh-skeleton-text" style="flex:1"></div><div class="gh-skeleton gh-skeleton-text" style="flex:1"></div></div>'')]
       @ (if (int i) < (wrap64 (count - 1))
        then [Lit ''<div class="gh-skeleton-line"></div>'']
        else [])) ([0..<nat count]))
    @ [Lit ''</div>''])]\<close>

lemma scan_SkeletonTable [simp]: "scan k (SkeletonTable count) (Body, Outside) = (Body, Outside)"
  unfolding SkeletonTable_def by simp

definition MarkdownTextarea :: "string \<Rightarrow> string \<Rightarrow> string \<Rightarrow> string \<Rightarrow> component" where
  \<open>MarkdownTextarea name placeholder val0 csrf = [Call (
    [Lit (''<div class="md-preview-container" data-md-container="true"><div class="md-tabs" data-md-tabs="true">'' @
       ''<button type="button" class="md-tab active" data-md-tab="write">Write</button> <button type="button" class="md-tab" data-md-tab="preview" data-csrf="''),
     Attr (VStr csrf), Lit ''">Preview</button></div><div class="md-write" data-md-write="true"><textarea name="'',
     Attr (VStr name), Lit ''" class="input" rows="4" placeholder="'', Attr (VStr placeholder),
     Lit ''" data-mention-enabled="true" data-emoji-enabled="true">'', Esc (VStr val0),
     Lit ''</textarea></div><div class="md-preview-content markdown" data-md-preview="true" style="display:none"></div></div>''])]\<close>

lemma scan_MarkdownTextarea [simp]: "scan k (MarkdownTextarea name placeholder val0 csrf) (Body, Outside) = (Body, Outside)"
  unfolding MarkdownTextarea_def by simp

lemma scan_MarkdownTextarea_form [simp]:
  "scan k (MarkdownTextarea name placeholder val0 csrf) (Body, Inside p t False None) = (Body, Inside p t False None)"
  unfolding MarkdownTextarea_def by simp

declare if_cong [cong del] if_split [split]

end
