(* ===== verification/ViewLayout.thy ===== *)
theory ViewLayout
  imports ViewParts
begin

section \<open>The frame of every page (internal/web/layout.templ)\<close>

text \<open>
  Head, navigation, notifications, the message of the last request, the page itself and the scripts.
\<close>

declare if_cong [cong] if_split [split del]

subsection \<open>layout\<close>

definition Layout_1 :: "layout_view \<Rightarrow> component" where
  \<open>Layout_1 data = 
    [Lit ''<!doctype html><html lang="en"><head><meta charset="UTF-8"><meta name="viewport" content="width=device-width, initial-scale=1.0"><meta name="csrf-token" content="'',
     Attr (VStr (ly_csrf data)), Lit ''"><title>'', Esc (VStr (ly_title data)),
     Lit (('' '' @ [CHR 0xC2, CHR 0xB7] @ '' Govnohub</title><link rel="stylesheet" href="/static/app.css"><link rel="stylesheet" href="/static/github-hl.css" id="hljs-theme">'' @
       ''<script src="/static/htmx.min.js"></script><script src="/static/highlight.min.js"></script><script>
				(function() {
					const stored = localStorage.getItem('theme');
					if (stored) {
						document.documentElement.classList.toggle('dark', stored === 'dark');
					} else {
'' @
       ''						document.documentElement.classList.toggle('dark', window.matchMedia('(prefers-color-scheme: dark)').matches);
					}
				})();
				function toggleTheme() {
					const dark = !document.documentElement.classList.contains('dark');
					document.documentElement.classList.toggle('dark', dark);
'' @
       ''					localStorage.setItem('theme', dark ? 'dark' : 'light');
					updateThemeIcon();
					updateHLTheme(dark);
				}
				function updateHLTheme(dark) {
					const link = document.getElementById('hljs-theme');
					if (link) link.href = dark ? '/static/github-dark-hl.css' : '/static/github-hl.css';
				}
'' @
       ''				function updateThemeIcon() {
					const dark = document.documentElement.classList.contains('dark');
					document.querySelectorAll('.theme-icon-sun').forEach(el => el.classList.toggle('hidden', dark));
					document.querySelectorAll('.theme-icon-moon').forEach(el => el.classList.toggle('hidden', !dark));
'' @
       ''					const btn = document.getElementById('theme-toggle');
					if (btn) btn.setAttribute('aria-pressed', dark ? 'true' : 'false');
					updateHLTheme(dark);
				}
				function highlightCodeBlocks() {
					document.querySelectorAll('.markdown pre code, .gh-code-block pre code').forEach(function(block) {
'' @
       ''						if (!block.dataset.highlighted) {
							hljs.highlightElement(block);
							block.dataset.highlighted = 'yes';
						}
					});
				}
				function updateRelativeTimes() {
					document.querySelectorAll('time[datetime]').forEach(function(el) {
						var dt = new Date(el.getAttribute('datetime'));
'' @
       ''						if (isNaN(dt.getTime())) return;
						var diff = Date.now() - dt.getTime();
						var seconds = Math.floor(diff / 1000);
						var minutes = Math.floor(seconds / 60);
						var hours = Math.floor(minutes / 60);
						var days = Math.floor(hours / 24);
						if (seconds < 60) {
'' @
       ''							el.textContent = 'just now';
						} else if (minutes < 2) {
							el.textContent = '1m ago';
						} else if (minutes < 60) {
							el.textContent = minutes + 'm ago';
						} else if (hours < 2) {
							el.textContent = '1h ago';
						} else if (hours < 24) {
							el.textContent = hours + 'h ago';
'' @
       ''						} else if (days < 2) {
							el.textContent = 'yesterday';
						} else if (days < 30) {
							el.textContent = days + 'd ago';
						} else {
							/* For old dates, keep the server-rendered text (e.g. "Jan 2") */
						}
					});
				}
				function toggleNotifications(btn) {
'' @
       ''					const drawer = document.getElementById('notif-drawer');
					const overlay = document.getElementById('notif-overlay');
					if (!drawer) return;
					const isOpen = drawer.classList.toggle('open');
					overlay.classList.toggle('open', isOpen);
					btn.setAttribute('aria-expanded', isOpen ? 'true' : 'false');
'' @
       ''					if (isOpen && drawer.querySelector('#notif-body').innerHTML.trim() === '' @ [CHR 0x27] @ ''') {
						htmx.ajax('GET', '/notifications', {target: '#notif-body', swap: 'innerHTML'});
					}
				}
				function closeNotifications() {
					const drawer = document.getElementById('notif-drawer');
'' @
       ''					const overlay = document.getElementById('notif-overlay');
					const btn = document.querySelector('.notif-bell button');
					if (drawer) drawer.classList.remove('open');
					if (overlay) overlay.classList.remove('open');
					if (btn) btn.setAttribute('aria-expanded', 'false');
				}
'' @
       ''				document.addEventListener('DOMContentLoaded', function() {
					updateThemeIcon();
					highlightCodeBlocks();
					updateRelativeTimes();
					/* Start auto-polling for new notification count */
					if (document.querySelector('.notif-bell')) {
						setInterval(function() {
'' @
       ''							const badge = document.getElementById('notif-badge');
							if (badge && !document.getElementById('notif-drawer').classList.contains('open')) {
								htmx.ajax('GET', '/notifications/count', {target: '#notif-badge', swap: 'outerHTML'});
							}
						}, 15000);
					}
				});
'' @
       ''				document.addEventListener('click', function(e) {
					const drawer = document.getElementById('notif-drawer');
					const bell = document.querySelector('.notif-bell');
					if (!drawer || !drawer.classList.contains('open')) return;
					if (bell && !bell.contains(e.target) && !drawer.contains(e.target)) {
'' @
       ''						closeNotifications();
					}
				});
				document.addEventListener('htmx:configRequest', function(evt) {
					const token = document.querySelector('meta[name="csrf-token"]');
					if (token) evt.detail.headers['X-CSRF-Token'] = token.content;
				});
				function switchCloneTab(btn, tab) {
'' @
       ''					const menu = btn.closest('.gh-clone-menu');
					if (!menu) return;
					menu.querySelectorAll('[data-clone-tab]').forEach(function(b) {
						const active = b === btn;
						b.classList.toggle('active', active);
						b.setAttribute('aria-selected', active ? 'true' : 'false');
					});
'' @
       ''					const input = menu.querySelector('.gh-clone-url');
					const hint = menu.querySelector('.gh-clone-hint');
					if (input) input.value = tab === 'ssh' ? input.dataset.ssh : input.dataset.https;
					if (hint) hint.textContent = tab === 'ssh' ? hint.dataset.sshHint : hint.dataset.httpsHint;
				}
'' @
       ''				function copyCloneUrl(btn) {
					const input = btn.closest('.gh-clone-url-row').querySelector('.gh-clone-url');
					if (!input) return;
					navigator.clipboard.writeText(input.value).then(function() {
						btn.setAttribute('aria-label', 'Copied');
'' @
       ''						setTimeout(function() { btn.setAttribute('aria-label', 'Copy'); }, 2000);
					});
				}
				/* Generic copy-to-clipboard with visual feedback */
				function copyToClipboard(text, btn) {
					navigator.clipboard.writeText(text).then(function() {
						var orig = btn.getAttribute('aria-label') || 'Copy';
'' @
       ''						btn.setAttribute('aria-label', 'Copied!');
						btn.classList.add('copied');
						setTimeout(function() {
							btn.setAttribute('aria-label', orig);
							btn.classList.remove('copied');
						}, 2000);
					}).catch(function() {
						/* Fallback: select a hidden input if clipboard API fails */
'' @
       ''						var input = document.createElement('input');
						input.value = text;
						input.style.position = 'fixed';
						input.style.opacity = '0';
						document.body.appendChild(input);
						input.select();
						document.execCommand('copy');
						document.body.removeChild(input);
'' @
       ''						btn.setAttribute('aria-label', 'Copied!');
						setTimeout(function() { btn.setAttribute('aria-label', orig); }, 2000);
					});
				}
				document.addEventListener('click', function(e) {
					document.querySelectorAll('.gh-clone-menu[open]').forEach(function(menu) {
'' @
       ''						if (!menu.contains(e.target)) menu.removeAttribute('open');
					});
				});

				/* Markdown preview toggle */
				function setupMarkdownPreview(container) {
					if (!container) return;
					const tabs = container.querySelector('[data-md-tabs]');
'' @
       ''					const writePane = container.querySelector('[data-md-write]');
					const previewPane = container.querySelector('[data-md-preview]');
					const textarea = writePane ? writePane.querySelector('textarea') : null;
					if (!tabs || !writePane || !previewPane || !textarea) return;

'' @
       ''					tabs.addEventListener('click', function(e) {
						const btn = e.target.closest('[data-md-tab]');
						if (!btn) return;

						const isWrite = btn.getAttribute('data-md-tab') === 'write';
						const csrf = btn.getAttribute('data-csrf') || '' @ [CHR 0x27] @ ''';
'' @
       ''						const metaToken = document.querySelector('meta[name="csrf-token"]');
						const token = csrf || (metaToken ? metaToken.content : '' @ [CHR 0x27] @ ''');

						tabs.querySelectorAll('[data-md-tab]').forEach(function(t) {
							t.classList.toggle('active', t === btn);
						});

						if (isWrite) {
'' @
       ''							writePane.style.display = '' @ [CHR 0x27] @ ''';
							previewPane.style.display = 'none';
						} else {
							writePane.style.display = 'none';
							previewPane.style.display = '' @ [CHR 0x27] @ ''';
							const body = textarea.value;
							if (body.trim() === '' @ [CHR 0x27] @ ''') {
'' @
       ''								previewPane.innerHTML = '<p class="text-muted text-sm">Nothing to preview.</p>';
								return;
							}
							previewPane.innerHTML = '<p class="text-muted text-sm">Loading preview...</p>';
							fetch('/preview-markdown', {
								method: 'POST',
								headers: {
'' @
       ''									'Content-Type': 'application/x-www-form-urlencoded',
									'X-CSRF-Token': token
								},
								body: 'body=' + encodeURIComponent(body)
							})
							.then(function(r) { return r.text(); })
							.then(function(html) { previewPane.innerHTML = html; })
'' @
       ''							.catch(function() { previewPane.innerHTML = '<p class="text-red text-sm">Preview failed.</p>'; });
						}
					});
				}

				document.addEventListener('DOMContentLoaded', function() {
					document.querySelectorAll('[data-md-container]').forEach(setupMarkdownPreview);
				});
'' @
       ''				document.addEventListener('htmx:afterSwap', function(evt) {
					if (evt.detail.target) {
						evt.detail.target.querySelectorAll('[data-md-container]').forEach(setupMarkdownPreview);
					}
				});
			/* --- Keyboard shortcuts --- */
			var _gk = null;
			function _clickNewIssue() {
'' @
       ''				/* Try to click the "New issue" <summary> toggle to expand the form */
				var summaries = document.querySelectorAll('.collapsible-form summary');
				for (var i = 0; i < summaries.length; i++) {
					if (summaries[i].textContent.trim() === 'New issue') {
						summaries[i].click();
						return;
					}
				}
'' @
       ''				/* Fallback: navigate to the issues page for the current repo */
				var m = window.location.pathname.match(/^'' @ [CHR 0x5C] @ ''/([^'' @ [CHR 0x5C] @ ''/]+)'' @ [CHR 0x5C] @ ''/([^'' @ [CHR 0x5C] @ ''/]+)'' @ [CHR 0x5C] @ ''/.+/);
				if (m) window.location.href = '/' + m[1] + '/' + m[2] + '/issues';
			}
			document.addEventListener('keydown', function(e) {
'' @
       ''				/* Ignore if focus is in an editable element */
				var tag = e.target.tagName;
				if (tag === 'INPUT' || tag === 'TEXTAREA' || tag === 'SELECT' || e.target.isContentEditable) return;
				/* Ignore modifier keys */
				if (e.ctrlKey || e.altKey || e.metaKey) return;

'' @
       ''				/* g leader sequence: wait for i or p within 1s */
				if (e.key === 'g') {
					_gk = 'g';
					setTimeout(function() { _gk = null; }, 1000);
					return;
				}
				if (_gk === 'g' && (e.key === 'i' || e.key === 'p')) {
					_gk = null;
					e.preventDefault();
'' @
       ''					/* Extract owner/repo from path if on a repo page: /{owner}/{repo}/... */
					var m = window.location.pathname.match(/^'' @ [CHR 0x5C] @ ''/([^'' @ [CHR 0x5C] @ ''/]+)'' @ [CHR 0x5C] @ ''/([^'' @ [CHR 0x5C] @ ''/]+)'' @ [CHR 0x5C] @ ''/.+/);
					var path;
					if (m) {
						path = '/' + m[1] + '/' + m[2] + (e.key === 'i' ? '/issues' : '/pulls');
					} else {
'' @
       ''						path = '/search?q=' + (e.key === 'i' ? 'is:issue' : 'is:pr');
					}
					window.location.href = path;
					return;
				}
				_gk = null;

				/* c '' @ [CHR 0xE2, CHR 0x86, CHR 0x92] @ '' new issue */
				if (e.key === 'c' && !e.shiftKey) {
					e.preventDefault();
					_clickNewIssue();
				}
			});
'' @
       ''			/* --- User mention (@username) autocomplete --- */
			var _mentionData = null;
			function setupMentionAutocomplete(container) {
				if (!container) return;
				var ta = container.querySelector('textarea[data-mention-enabled]');
				if (!ta || ta._mentionSetup) return;
				ta._mentionSetup = true;
'' @
       ''				ta.addEventListener('input', function(e) {
					var pos = ta.selectionStart;
					var val = ta.value;
					/* Find the @ before cursor: look backwards from cursor */
					var start = val.lastIndexOf('@', pos - 1);
'' @
       ''					if (start === -1 || (start > 0 && val[start-1] !== ' ' && val[start-1] !== '	' && val[start-1] !== '' @ [CHR 0x27, CHR 0x5C] @ ''n' && val[start-1] !== '' @ [CHR 0x27, CHR 0x5C] @ ''r')) {
						_removeMentionDropdown();
						return;
					}
					var query = val.substring(start + 1, pos);
					/* Must match word characters only */
'' @
       ''					if (query.length === 0 || !/^[a-zA-Z0-9_]+$/.test(query)) {
						_removeMentionDropdown();
						return;
					}
					_mentionData = { ta: ta, start: start, pos: pos, query: query };
					_fetchMentionSuggestions(query, ta);
				});
				ta.addEventListener('blur', function() {
'' @
       ''					setTimeout(_removeMentionDropdown, 200);
				});
				ta.addEventListener('keydown', function(e) {
					var dd = document.getElementById('mention-dropdown');
					if (!dd || !dd._visible) return;
					var items = dd.querySelectorAll('.mention-item');
'' @
       ''					var idx = Array.prototype.indexOf.call(items, dd.querySelector('.mention-item.active'));
					if (e.key === 'ArrowDown') {
						e.preventDefault();
						var next = idx < items.length - 1 ? idx + 1 : 0;
						items.forEach(function(i) { i.classList.remove('active'); });
'' @
       ''						items[next].classList.add('active');
					} else if (e.key === 'ArrowUp') {
						e.preventDefault();
						var prev = idx > 0 ? idx - 1 : items.length - 1;
						items.forEach(function(i) { i.classList.remove('active'); });
						items[prev].classList.add('active');
'' @
       ''					} else if (e.key === 'Enter' || e.key === 'Tab') {
						if (idx >= 0 && items[idx]) {
							e.preventDefault();
							_applyMention(items[idx].textContent.trim());
						}
					} else if (e.key === 'Escape') {
						_removeMentionDropdown();
					}
				});
			}
'' @
       ''			function _fetchMentionSuggestions(query, ta) {
				fetch('/users/search?q=' + encodeURIComponent(query))
					.then(function(r) { return r.json(); })
					.then(function(users) {
						if (!_mentionData || _mentionData.ta !== ta) return;
						if (!users || users.length === 0) {
							_removeMentionDropdown();
'' @
       ''							return;
						}
						_showMentionDropdown(users, ta);
					})
					.catch(function() { _removeMentionDropdown(); });
			}
			function _showMentionDropdown(users, ta) {
				_removeMentionDropdown();
				var dd = document.createElement('div');
				dd.id = 'mention-dropdown';
				dd._visible = true;
'' @
       ''				dd.className = 'mention-dropdown';
				users.forEach(function(u, i) {
					var item = document.createElement('div');
					item.className = 'mention-item' + (i === 0 ? ' active' : '' @ [CHR 0x27] @ ''');
					item.textContent = '@' + u;
					item.setAttribute('role', 'option');
					item.setAttribute('data-username', u);
'' @
       ''					item.addEventListener('mousedown', function(e) {
						e.preventDefault();
						_applyMention(u);
					});
					item.addEventListener('mouseenter', function() {
						dd.querySelectorAll('.mention-item').forEach(function(el) { el.classList.remove('active'); });
						item.classList.add('active');
					});
'' @
       ''					dd.appendChild(item);
				});
				/* Position below the textarea */
				var rect = ta.getBoundingClientRect();
				dd.style.position = 'fixed';
				dd.style.left = rect.left + 'px';
				dd.style.top = (rect.bottom + window.scrollY) + 'px';
				dd.style.minWidth = Math.max(rect.width * 0.4, 160) + 'px';
'' @
       ''				dd.style.zIndex = '9999';
				document.body.appendChild(dd);
			}
			function _applyMention(username) {
				if (!_mentionData) return;
				var ta = _mentionData.ta;
				var start = _mentionData.start;
				var pos = _mentionData.pos;
				var val = ta.value;
'' @
       ''				ta.value = val.substring(0, start) + '@' + username + ' ' + val.substring(pos);
				ta.selectionStart = ta.selectionEnd = start + username.length + 2;
				ta.focus();
				_removeMentionDropdown();
				_mentionData = null;
				/* Trigger input event for HTMX bindings */
'' @
       ''				var evt = new Event('input', { bubbles: true });
				ta.dispatchEvent(evt);
			}
			function _removeMentionDropdown() {
				var dd = document.getElementById('mention-dropdown');
				if (dd) {
					dd._visible = false;
					dd.remove();
				}
			}
			/* --- Emoji (:shortcode:) autocomplete --- */
'' @
       ''			var _emojiData = null;
			/* Standard GitHub emoji shortcodes '' @ [CHR 0xE2, CHR 0x80, CHR 0x94] @ '' most commonly used subset */
			var EMOJI_MAP = {
				"smile": "'' @ [CHR 0x5C] @ ''ud83d'' @ [CHR 0x5C] @ ''ude04", "smiley": "'' @ [CHR 0x5C] @ ''ud83d'' @ [CHR 0x5C] @ ''ude03", "grinning": "'' @ [CHR 0x5C] @ ''ud83d'' @ [CHR 0x5C] @ ''ude00", "blush": "'' @ [CHR 0x5C] @ ''ud83d'' @ [CHR 0x5C] @ ''ude0a",
'' @
       ''				"joy": "'' @ [CHR 0x5C] @ ''ud83d'' @ [CHR 0x5C] @ ''ude02", "sweat_smile": "'' @ [CHR 0x5C] @ ''ud83d'' @ [CHR 0x5C] @ ''ude05", "laughing": "'' @ [CHR 0x5C] @ ''ud83d'' @ [CHR 0x5C] @ ''ude06", "innocent": "'' @ [CHR 0x5C] @ ''ud83d'' @ [CHR 0x5C] @ ''ude07",
				"wink": "'' @ [CHR 0x5C] @ ''ud83d'' @ [CHR 0x5C] @ ''ude09", "heart_eyes": "'' @ [CHR 0x5C] @ ''ud83d'' @ [CHR 0x5C] @ ''ude0d", "kissing_heart": "'' @ [CHR 0x5C] @ ''ud83d'' @ [CHR 0x5C] @ ''ude18", "kissing": "'' @ [CHR 0x5C] @ ''ud83d'' @ [CHR 0x5C] @ ''ude17",
'' @
       ''				"yum": "'' @ [CHR 0x5C] @ ''ud83d'' @ [CHR 0x5C] @ ''ude0b", "stuck_out_tongue": "'' @ [CHR 0x5C] @ ''ud83d'' @ [CHR 0x5C] @ ''ude1b", "sunglasses": "'' @ [CHR 0x5C] @ ''ud83d'' @ [CHR 0x5C] @ ''ude0e", "smirk": "'' @ [CHR 0x5C] @ ''ud83d'' @ [CHR 0x5C] @ ''ude0f",
				"unamused": "'' @ [CHR 0x5C] @ ''ud83d'' @ [CHR 0x5C] @ ''ude12", "sweat": "'' @ [CHR 0x5C] @ ''ud83d'' @ [CHR 0x5C] @ ''ude13", "pensive": "'' @ [CHR 0x5C] @ ''ud83d'' @ [CHR 0x5C] @ ''ude14", "confounded": "'' @ [CHR 0x5C] @ ''ud83d'' @ [CHR 0x5C] @ ''ude16",
'' @
       ''				"cry": "'' @ [CHR 0x5C] @ ''ud83d'' @ [CHR 0x5C] @ ''ude22", "sob": "'' @ [CHR 0x5C] @ ''ud83d'' @ [CHR 0x5C] @ ''ude2d", "angry": "'' @ [CHR 0x5C] @ ''ud83d'' @ [CHR 0x5C] @ ''ude20", "rage": "'' @ [CHR 0x5C] @ ''ud83d'' @ [CHR 0x5C] @ ''ude21",
				"frowning": "'' @ [CHR 0x5C] @ ''ud83d'' @ [CHR 0x5C] @ ''ude26", "anguished": "'' @ [CHR 0x5C] @ ''ud83d'' @ [CHR 0x5C] @ ''ude27", "fearful": "'' @ [CHR 0x5C] @ ''ud83d'' @ [CHR 0x5C] @ ''ude28", "weary": "'' @ [CHR 0x5C] @ ''ud83d'' @ [CHR 0x5C] @ ''ude29",
'' @
       ''				"sleepy": "'' @ [CHR 0x5C] @ ''ud83d'' @ [CHR 0x5C] @ ''ude2a", "tired_face": "'' @ [CHR 0x5C] @ ''ud83d'' @ [CHR 0x5C] @ ''ude2b", "grimacing": "'' @ [CHR 0x5C] @ ''ud83d'' @ [CHR 0x5C] @ ''ude2c", "cold_sweat": "'' @ [CHR 0x5C] @ ''ud83d'' @ [CHR 0x5C] @ ''ude30",
				"scream": "'' @ [CHR 0x5C] @ ''ud83d'' @ [CHR 0x5C] @ ''ude31", "astonished": "'' @ [CHR 0x5C] @ ''ud83d'' @ [CHR 0x5C] @ ''ude32", "flushed": "'' @ [CHR 0x5C] @ ''ud83d'' @ [CHR 0x5C] @ ''ude33", "dizzy_face": "'' @ [CHR 0x5C] @ ''ud83d'' @ [CHR 0x5C] @ ''ude35",
'' @
       ''				"mask": "'' @ [CHR 0x5C] @ ''ud83d'' @ [CHR 0x5C] @ ''ude37", "neutral_face": "'' @ [CHR 0x5C] @ ''ud83d'' @ [CHR 0x5C] @ ''ude10", "expressionless": "'' @ [CHR 0x5C] @ ''ud83d'' @ [CHR 0x5C] @ ''ude11", "confused": "'' @ [CHR 0x5C] @ ''ud83d'' @ [CHR 0x5C] @ ''ude15",
				"thinking": "'' @ [CHR 0x5C] @ ''ud83e'' @ [CHR 0x5C] @ ''udd14", "slightly_smiling": "'' @ [CHR 0x5C] @ ''ud83d'' @ [CHR 0x5C] @ ''ude42", "slightly_frowning": "'' @ [CHR 0x5C] @ ''ud83d'' @ [CHR 0x5C] @ ''ude41",
'' @
       ''				"hugging": "'' @ [CHR 0x5C] @ ''ud83e'' @ [CHR 0x5C] @ ''udd17", "rolling_eyes": "'' @ [CHR 0x5C] @ ''ud83d'' @ [CHR 0x5C] @ ''ude44", "money_mouth": "'' @ [CHR 0x5C] @ ''ud83e'' @ [CHR 0x5C] @ ''udd11", "nerd": "'' @ [CHR 0x5C] @ ''ud83e'' @ [CHR 0x5C] @ ''udd13",
				"thumbsup": "'' @ [CHR 0x5C] @ ''ud83d'' @ [CHR 0x5C] @ ''udc4d", "+1": "'' @ [CHR 0x5C] @ ''ud83d'' @ [CHR 0x5C] @ ''udc4d", "thumbsdown": "'' @ [CHR 0x5C] @ ''ud83d'' @ [CHR 0x5C] @ ''udc4e", "-1": "'' @ [CHR 0x5C] @ ''ud83d'' @ [CHR 0x5C] @ ''udc4e",
'' @
       ''				"clap": "'' @ [CHR 0x5C] @ ''ud83d'' @ [CHR 0x5C] @ ''udc4f", "wave": "'' @ [CHR 0x5C] @ ''ud83d'' @ [CHR 0x5C] @ ''udc4b", "ok_hand": "'' @ [CHR 0x5C] @ ''ud83d'' @ [CHR 0x5C] @ ''udc4c", "v": "'' @ [CHR 0x5C] @ ''u270c'' @ [CHR 0x5C] @ ''ufe0f",
				"raised_hands": "'' @ [CHR 0x5C] @ ''ud83d'' @ [CHR 0x5C] @ ''ude4c", "pray": "'' @ [CHR 0x5C] @ ''ud83d'' @ [CHR 0x5C] @ ''ude4f", "point_up": "'' @ [CHR 0x5C] @ ''u261d'' @ [CHR 0x5C] @ ''ufe0f", "point_down": "'' @ [CHR 0x5C] @ ''ud83d'' @ [CHR 0x5C] @ ''udc47",
'' @
       ''				"point_left": "'' @ [CHR 0x5C] @ ''ud83d'' @ [CHR 0x5C] @ ''udc48", "point_right": "'' @ [CHR 0x5C] @ ''ud83d'' @ [CHR 0x5C] @ ''udc49", "muscle": "'' @ [CHR 0x5C] @ ''ud83d'' @ [CHR 0x5C] @ ''udcaa", "eyes": "'' @ [CHR 0x5C] @ ''ud83d'' @ [CHR 0x5C] @ ''udc40",
				"heart": "'' @ [CHR 0x5C] @ ''u2764'' @ [CHR 0x5C] @ ''ufe0f", "broken_heart": "'' @ [CHR 0x5C] @ ''ud83d'' @ [CHR 0x5C] @ ''udc94", "two_hearts": "'' @ [CHR 0x5C] @ ''ud83d'' @ [CHR 0x5C] @ ''udc95", "sparkling_heart": "'' @ [CHR 0x5C] @ ''ud83d'' @ [CHR 0x5C] @ ''udc96",
'' @
       ''				"heartpulse": "'' @ [CHR 0x5C] @ ''ud83d'' @ [CHR 0x5C] @ ''udc97", "cupid": "'' @ [CHR 0x5C] @ ''ud83d'' @ [CHR 0x5C] @ ''udc98", "star": "'' @ [CHR 0x5C] @ ''u2b50", "sparkles": "'' @ [CHR 0x5C] @ ''u2728",
				"zap": "'' @ [CHR 0x5C] @ ''u26a1", "fire": "'' @ [CHR 0x5C] @ ''ud83d'' @ [CHR 0x5C] @ ''udd25", "rocket": "'' @ [CHR 0x5C] @ ''ud83d'' @ [CHR 0x5C] @ ''ude80", "checkered_flag": "'' @ [CHR 0x5C] @ ''ud83c'' @ [CHR 0x5C] @ ''udfc1",
				"tada": "'' @ [CHR 0x5C] @ ''ud83c'' @ [CHR 0x5C] @ ''udf89", "party": "'' @ [CHR 0x5C] @ ''ud83c'' @ [CHR 0x5C] @ ''udf8a", "confetti": "'' @ [CHR 0x5C] @ ''ud83c'' @ [CHR 0x5C] @ ''udf8a", "balloon": "'' @ [CHR 0x5C] @ ''ud83c'' @ [CHR 0x5C] @ ''udf88",
'' @
       ''				"gift": "'' @ [CHR 0x5C] @ ''ud83c'' @ [CHR 0x5C] @ ''udf81", "crown": "'' @ [CHR 0x5C] @ ''ud83d'' @ [CHR 0x5C] @ ''udc51", "medal": "'' @ [CHR 0x5C] @ ''ud83c'' @ [CHR 0x5C] @ ''udfc5", "trophy": "'' @ [CHR 0x5C] @ ''ud83c'' @ [CHR 0x5C] @ ''udfc6",
				"100": "'' @ [CHR 0x5C] @ ''ud83d'' @ [CHR 0x5C] @ ''udcaf", "bookmark": "'' @ [CHR 0x5C] @ ''ud83d'' @ [CHR 0x5C] @ ''udd16", "link": "'' @ [CHR 0x5C] @ ''ud83d'' @ [CHR 0x5C] @ ''udd17", "pushpin": "'' @ [CHR 0x5C] @ ''ud83d'' @ [CHR 0x5C] @ ''udccc",
'' @
       ''				"round_pushpin": "'' @ [CHR 0x5C] @ ''ud83d'' @ [CHR 0x5C] @ ''udccd", "bulb": "'' @ [CHR 0x5C] @ ''ud83d'' @ [CHR 0x5C] @ ''udca1", "warning": "'' @ [CHR 0x5C] @ ''u26a0'' @ [CHR 0x5C] @ ''ufe0f", "no_entry": "'' @ [CHR 0x5C] @ ''u26d4",
				"x": "'' @ [CHR 0x5C] @ ''u274c", "white_check_mark": "'' @ [CHR 0x5C] @ ''u2705", "heavy_check_mark": "'' @ [CHR 0x5C] @ ''u2714'' @ [CHR 0x5C] @ ''ufe0f", "heavy_multiplication_x": "'' @ [CHR 0x5C] @ ''u2716'' @ [CHR 0x5C] @ ''ufe0f",
'' @
       ''				"memo": "'' @ [CHR 0x5C] @ ''ud83d'' @ [CHR 0x5C] @ ''udcdd", "pencil": "'' @ [CHR 0x5C] @ ''ud83d'' @ [CHR 0x5C] @ ''udcdd", "page_facing_up": "'' @ [CHR 0x5C] @ ''ud83d'' @ [CHR 0x5C] @ ''udcc4", "book": "'' @ [CHR 0x5C] @ ''ud83d'' @ [CHR 0x5C] @ ''udcd6",
				"books": "'' @ [CHR 0x5C] @ ''ud83d'' @ [CHR 0x5C] @ ''udcda", "mag": "'' @ [CHR 0x5C] @ ''ud83d'' @ [CHR 0x5C] @ ''udd0d", "mag_right": "'' @ [CHR 0x5C] @ ''ud83d'' @ [CHR 0x5C] @ ''udd0e", "toolbox": "'' @ [CHR 0x5C] @ ''ud83e'' @ [CHR 0x5C] @ ''uddf0",
'' @
       ''				"wrench": "'' @ [CHR 0x5C] @ ''ud83d'' @ [CHR 0x5C] @ ''udd27", "nut_and_bolt": "'' @ [CHR 0x5C] @ ''ud83d'' @ [CHR 0x5C] @ ''udd29", "hammer": "'' @ [CHR 0x5C] @ ''ud83d'' @ [CHR 0x5C] @ ''udd28", "gear": "'' @ [CHR 0x5C] @ ''u2699'' @ [CHR 0x5C] @ ''ufe0f",
				"bug": "'' @ [CHR 0x5C] @ ''ud83d'' @ [CHR 0x5C] @ ''udc1b", "ant": "'' @ [CHR 0x5C] @ ''ud83d'' @ [CHR 0x5C] @ ''udc1c", "beetle": "'' @ [CHR 0x5C] @ ''ud83d'' @ [CHR 0x5C] @ ''udc1e", "ladybug": "'' @ [CHR 0x5C] @ ''ud83d'' @ [CHR 0x5C] @ ''udc1e",
'' @
       ''				"test_tube": "'' @ [CHR 0x5C] @ ''ud83e'' @ [CHR 0x5C] @ ''uddea", "microscope": "'' @ [CHR 0x5C] @ ''ud83d'' @ [CHR 0x5C] @ ''udd2c", "telescope": "'' @ [CHR 0x5C] @ ''ud83d'' @ [CHR 0x5C] @ ''udd2d", "satellite": "'' @ [CHR 0x5C] @ ''ud83d'' @ [CHR 0x5C] @ ''udce1",
				"computer": "'' @ [CHR 0x5C] @ ''ud83d'' @ [CHR 0x5C] @ ''udcbb", "laptop": "'' @ [CHR 0x5C] @ ''ud83d'' @ [CHR 0x5C] @ ''udcbb", "keyboard": "'' @ [CHR 0x5C] @ ''u2328'' @ [CHR 0x5C] @ ''ufe0f", "mouse": "'' @ [CHR 0x5C] @ ''ud83d'' @ [CHR 0x5C] @ ''uddb1'' @ [CHR 0x5C] @ ''ufe0f",
'' @
       ''				"battery": "'' @ [CHR 0x5C] @ ''ud83d'' @ [CHR 0x5C] @ ''udd0b", "electric_plug": "'' @ [CHR 0x5C] @ ''ud83d'' @ [CHR 0x5C] @ ''udd0c", "globe": "'' @ [CHR 0x5C] @ ''ud83c'' @ [CHR 0x5C] @ ''udf10", "earth": "'' @ [CHR 0x5C] @ ''ud83c'' @ [CHR 0x5C] @ ''udf0d",
				"map": "'' @ [CHR 0x5C] @ ''ud83d'' @ [CHR 0x5C] @ ''uddfa'' @ [CHR 0x5C] @ ''ufe0f", "chart": "'' @ [CHR 0x5C] @ ''ud83d'' @ [CHR 0x5C] @ ''udcca", "bar_chart": "'' @ [CHR 0x5C] @ ''ud83d'' @ [CHR 0x5C] @ ''udcca", "file_folder": "'' @ [CHR 0x5C] @ ''ud83d'' @ [CHR 0x5C] @ ''udcc1",
'' @
       ''				"open_file_folder": "'' @ [CHR 0x5C] @ ''ud83d'' @ [CHR 0x5C] @ ''udcc2", "inbox_tray": "'' @ [CHR 0x5C] @ ''ud83d'' @ [CHR 0x5C] @ ''udce5", "outbox_tray": "'' @ [CHR 0x5C] @ ''ud83d'' @ [CHR 0x5C] @ ''udce4",
				"envelope": "'' @ [CHR 0x5C] @ ''u2709'' @ [CHR 0x5C] @ ''ufe0f", "mailbox": "'' @ [CHR 0x5C] @ ''ud83d'' @ [CHR 0x5C] @ ''udceb", "incoming_envelope": "'' @ [CHR 0x5C] @ ''ud83d'' @ [CHR 0x5C] @ ''udce8",
				"phone": "'' @ [CHR 0x5C] @ ''u260e'' @ [CHR 0x5C] @ ''ufe0f", "telephone": "'' @ [CHR 0x5C] @ ''u260e'' @ [CHR 0x5C] @ ''ufe0f", "camera": "'' @ [CHR 0x5C] @ ''ud83d'' @ [CHR 0x5C] @ ''udcf7", "video_camera": "'' @ [CHR 0x5C] @ ''ud83d'' @ [CHR 0x5C] @ ''udcf9",
'' @
       ''				"movie_camera": "'' @ [CHR 0x5C] @ ''ud83c'' @ [CHR 0x5C] @ ''udfa5", "clapper": "'' @ [CHR 0x5C] @ ''ud83c'' @ [CHR 0x5C] @ ''udfac", "musical_note": "'' @ [CHR 0x5C] @ ''ud83c'' @ [CHR 0x5C] @ ''udfb5", "notes": "'' @ [CHR 0x5C] @ ''ud83c'' @ [CHR 0x5C] @ ''udfb6",
				"musical_keyboard": "'' @ [CHR 0x5C] @ ''ud83c'' @ [CHR 0x5C] @ ''udfb9", "drum": "'' @ [CHR 0x5C] @ ''ud83e'' @ [CHR 0x5C] @ ''udd41", "guitar": "'' @ [CHR 0x5C] @ ''ud83c'' @ [CHR 0x5C] @ ''udfb8", "trumpet": "'' @ [CHR 0x5C] @ ''ud83c'' @ [CHR 0x5C] @ ''udfba",
'' @
       ''				"saxophone": "'' @ [CHR 0x5C] @ ''ud83c'' @ [CHR 0x5C] @ ''udfb7", "microphone": "'' @ [CHR 0x5C] @ ''ud83c'' @ [CHR 0x5C] @ ''udfa4", "headphones": "'' @ [CHR 0x5C] @ ''ud83c'' @ [CHR 0x5C] @ ''udfa7", "radio": "'' @ [CHR 0x5C] @ ''ud83d'' @ [CHR 0x5C] @ ''udcfb",
				"watch": "'' @ [CHR 0x5C] @ ''u231a", "hourglass": "'' @ [CHR 0x5C] @ ''u23f3", "alarm_clock": "'' @ [CHR 0x5C] @ ''u23f0", "calendar": "'' @ [CHR 0x5C] @ ''ud83d'' @ [CHR 0x5C] @ ''udcc5",
'' @
       ''				"crystal_ball": "'' @ [CHR 0x5C] @ ''ud83d'' @ [CHR 0x5C] @ ''udd2e", "bank": "'' @ [CHR 0x5C] @ ''ud83c'' @ [CHR 0x5C] @ ''udfe6", "hospital": "'' @ [CHR 0x5C] @ ''ud83c'' @ [CHR 0x5C] @ ''udfe5", "school": "'' @ [CHR 0x5C] @ ''ud83c'' @ [CHR 0x5C] @ ''udfeb",
				"factory": "'' @ [CHR 0x5C] @ ''ud83c'' @ [CHR 0x5C] @ ''udfed", "office": "'' @ [CHR 0x5C] @ ''ud83c'' @ [CHR 0x5C] @ ''udfe2", "house": "'' @ [CHR 0x5C] @ ''ud83c'' @ [CHR 0x5C] @ ''udfe0", "construction": "'' @ [CHR 0x5C] @ ''ud83c'' @ [CHR 0x5C] @ ''udfd7'' @ [CHR 0x5C] @ ''ufe0f",
'' @
       ''				"european_castle": "'' @ [CHR 0x5C] @ ''ud83c'' @ [CHR 0x5C] @ ''udff0", "japanese_castle": "'' @ [CHR 0x5C] @ ''ud83c'' @ [CHR 0x5C] @ ''udfef", "beach": "'' @ [CHR 0x5C] @ ''ud83c'' @ [CHR 0x5C] @ ''udfd6'' @ [CHR 0x5C] @ ''ufe0f", "desert": "'' @ [CHR 0x5C] @ ''ud83c'' @ [CHR 0x5C] @ ''udfdc'' @ [CHR 0x5C] @ ''ufe0f",
				"car": "'' @ [CHR 0x5C] @ ''ud83d'' @ [CHR 0x5C] @ ''ude97", "taxi": "'' @ [CHR 0x5C] @ ''ud83d'' @ [CHR 0x5C] @ ''ude95", "bus": "'' @ [CHR 0x5C] @ ''ud83d'' @ [CHR 0x5C] @ ''ude8c", "truck": "'' @ [CHR 0x5C] @ ''ud83d'' @ [CHR 0x5C] @ ''ude9a",
'' @
       ''				"ambulance": "'' @ [CHR 0x5C] @ ''ud83d'' @ [CHR 0x5C] @ ''ude91", "fire_engine": "'' @ [CHR 0x5C] @ ''ud83d'' @ [CHR 0x5C] @ ''ude92", "police_car": "'' @ [CHR 0x5C] @ ''ud83d'' @ [CHR 0x5C] @ ''ude93", "bicycle": "'' @ [CHR 0x5C] @ ''ud83d'' @ [CHR 0x5C] @ ''udeb2",
				"airplane": "'' @ [CHR 0x5C] @ ''u2708'' @ [CHR 0x5C] @ ''ufe0f", "helicopter": "'' @ [CHR 0x5C] @ ''ud83d'' @ [CHR 0x5C] @ ''ude81", "anchor": "'' @ [CHR 0x5C] @ ''u2693", "ship": "'' @ [CHR 0x5C] @ ''ud83d'' @ [CHR 0x5C] @ ''udea2",
'' @
       ''				"train": "'' @ [CHR 0x5C] @ ''ud83d'' @ [CHR 0x5C] @ ''ude82", "subway": "'' @ [CHR 0x5C] @ ''ud83d'' @ [CHR 0x5C] @ ''ude87", "rocket": "'' @ [CHR 0x5C] @ ''ud83d'' @ [CHR 0x5C] @ ''ude80", "star2": "'' @ [CHR 0x5C] @ ''ud83c'' @ [CHR 0x5C] @ ''udf1f",
				"sunny": "'' @ [CHR 0x5C] @ ''u2600'' @ [CHR 0x5C] @ ''ufe0f", "moon": "'' @ [CHR 0x5C] @ ''ud83c'' @ [CHR 0x5C] @ ''udf19", "cloud": "'' @ [CHR 0x5C] @ ''u2601'' @ [CHR 0x5C] @ ''ufe0f", "umbrella": "'' @ [CHR 0x5C] @ ''u2614",
'' @
       ''				"rainbow": "'' @ [CHR 0x5C] @ ''ud83c'' @ [CHR 0x5C] @ ''udf08", "snowflake": "'' @ [CHR 0x5C] @ ''u2744'' @ [CHR 0x5C] @ ''ufe0f", "snowman": "'' @ [CHR 0x5C] @ ''u26c4", "tornado": "'' @ [CHR 0x5C] @ ''ud83c'' @ [CHR 0x5C] @ ''udf2a'' @ [CHR 0x5C] @ ''ufe0f",
				"dog": "'' @ [CHR 0x5C] @ ''ud83d'' @ [CHR 0x5C] @ ''udc36", "cat": "'' @ [CHR 0x5C] @ ''ud83d'' @ [CHR 0x5C] @ ''udc31", "mouse": "'' @ [CHR 0x5C] @ ''ud83d'' @ [CHR 0x5C] @ ''udc2d", "hamster": "'' @ [CHR 0x5C] @ ''ud83d'' @ [CHR 0x5C] @ ''udc39",
'' @
       ''				"rabbit": "'' @ [CHR 0x5C] @ ''ud83d'' @ [CHR 0x5C] @ ''udc30", "fox": "'' @ [CHR 0x5C] @ ''ud83e'' @ [CHR 0x5C] @ ''udd8a", "bear": "'' @ [CHR 0x5C] @ ''ud83d'' @ [CHR 0x5C] @ ''udc3b", "panda_face": "'' @ [CHR 0x5C] @ ''ud83d'' @ [CHR 0x5C] @ ''udc3c",
				"koala": "'' @ [CHR 0x5C] @ ''ud83d'' @ [CHR 0x5C] @ ''udc28", "tiger": "'' @ [CHR 0x5C] @ ''ud83d'' @ [CHR 0x5C] @ ''udc2f", "lion": "'' @ [CHR 0x5C] @ ''ud83e'' @ [CHR 0x5C] @ ''udd81", "cow": "'' @ [CHR 0x5C] @ ''ud83d'' @ [CHR 0x5C] @ ''udc2e",
				"pig": "'' @ [CHR 0x5C] @ ''ud83d'' @ [CHR 0x5C] @ ''udc37", "frog": "'' @ [CHR 0x5C] @ ''ud83d'' @ [CHR 0x5C] @ ''udc38", "monkey": "'' @ [CHR 0x5C] @ ''ud83d'' @ [CHR 0x5C] @ ''udc35", "chicken": "'' @ [CHR 0x5C] @ ''ud83d'' @ [CHR 0x5C] @ ''udc14",
'' @
       ''				"baby_chick": "'' @ [CHR 0x5C] @ ''ud83d'' @ [CHR 0x5C] @ ''udc24", "bird": "'' @ [CHR 0x5C] @ ''ud83d'' @ [CHR 0x5C] @ ''udc26", "penguin": "'' @ [CHR 0x5C] @ ''ud83d'' @ [CHR 0x5C] @ ''udc27", "fish": "'' @ [CHR 0x5C] @ ''ud83d'' @ [CHR 0x5C] @ ''udc1f",
				"dolphin": "'' @ [CHR 0x5C] @ ''ud83d'' @ [CHR 0x5C] @ ''udc2c", "whale": "'' @ [CHR 0x5C] @ ''ud83d'' @ [CHR 0x5C] @ ''udc33", "octopus": "'' @ [CHR 0x5C] @ ''ud83d'' @ [CHR 0x5C] @ ''udc19", "turtle": "'' @ [CHR 0x5C] @ ''ud83d'' @ [CHR 0x5C] @ ''udc22",
'' @
       ''				"snake": "'' @ [CHR 0x5C] @ ''ud83d'' @ [CHR 0x5C] @ ''udc0d", "dragon": "'' @ [CHR 0x5C] @ ''ud83d'' @ [CHR 0x5C] @ ''udc09", "unicorn": "'' @ [CHR 0x5C] @ ''ud83e'' @ [CHR 0x5C] @ ''udd84", "horse": "'' @ [CHR 0x5C] @ ''ud83d'' @ [CHR 0x5C] @ ''udc0e",
				"cactus": "'' @ [CHR 0x5C] @ ''ud83c'' @ [CHR 0x5C] @ ''udf35", "palm_tree": "'' @ [CHR 0x5C] @ ''ud83c'' @ [CHR 0x5C] @ ''udf34", "tree": "'' @ [CHR 0x5C] @ ''ud83c'' @ [CHR 0x5C] @ ''udf33", "seedling": "'' @ [CHR 0x5C] @ ''ud83c'' @ [CHR 0x5C] @ ''udf31",
'' @
       ''				"herb": "'' @ [CHR 0x5C] @ ''ud83c'' @ [CHR 0x5C] @ ''udf3f", "four_leaf_clover": "'' @ [CHR 0x5C] @ ''ud83c'' @ [CHR 0x5C] @ ''udf40", "mushroom": "'' @ [CHR 0x5C] @ ''ud83c'' @ [CHR 0x5C] @ ''udf44", "cherry_blossom": "'' @ [CHR 0x5C] @ ''ud83c'' @ [CHR 0x5C] @ ''udf38",
				"rose": "'' @ [CHR 0x5C] @ ''ud83c'' @ [CHR 0x5C] @ ''udf39", "sunflower": "'' @ [CHR 0x5C] @ ''ud83c'' @ [CHR 0x5C] @ ''udf3b", "blossom": "'' @ [CHR 0x5C] @ ''ud83c'' @ [CHR 0x5C] @ ''udf3c", "tulip": "'' @ [CHR 0x5C] @ ''ud83c'' @ [CHR 0x5C] @ ''udf37",
'' @
       ''				"seedling": "'' @ [CHR 0x5C] @ ''ud83c'' @ [CHR 0x5C] @ ''udf31", "maple_leaf": "'' @ [CHR 0x5C] @ ''ud83c'' @ [CHR 0x5C] @ ''udf41", "fallen_leaf": "'' @ [CHR 0x5C] @ ''ud83c'' @ [CHR 0x5C] @ ''udf42", "leaf": "'' @ [CHR 0x5C] @ ''ud83c'' @ [CHR 0x5C] @ ''udf43",
				"grapes": "'' @ [CHR 0x5C] @ ''ud83c'' @ [CHR 0x5C] @ ''udf47", "melon": "'' @ [CHR 0x5C] @ ''ud83c'' @ [CHR 0x5C] @ ''udf48", "watermelon": "'' @ [CHR 0x5C] @ ''ud83c'' @ [CHR 0x5C] @ ''udf49", "tangerine": "'' @ [CHR 0x5C] @ ''ud83c'' @ [CHR 0x5C] @ ''udf4a",
'' @
       ''				"lemon": "'' @ [CHR 0x5C] @ ''ud83c'' @ [CHR 0x5C] @ ''udf4b", "banana": "'' @ [CHR 0x5C] @ ''ud83c'' @ [CHR 0x5C] @ ''udf4c", "pineapple": "'' @ [CHR 0x5C] @ ''ud83c'' @ [CHR 0x5C] @ ''udf4d", "apple": "'' @ [CHR 0x5C] @ ''ud83c'' @ [CHR 0x5C] @ ''udf4e",
				"green_apple": "'' @ [CHR 0x5C] @ ''ud83c'' @ [CHR 0x5C] @ ''udf4f", "pear": "'' @ [CHR 0x5C] @ ''ud83c'' @ [CHR 0x5C] @ ''udf50", "peach": "'' @ [CHR 0x5C] @ ''ud83c'' @ [CHR 0x5C] @ ''udf51", "cherries": "'' @ [CHR 0x5C] @ ''ud83c'' @ [CHR 0x5C] @ ''udf52",
'' @
       ''				"strawberry": "'' @ [CHR 0x5C] @ ''ud83c'' @ [CHR 0x5C] @ ''udf53", "hamburger": "'' @ [CHR 0x5C] @ ''ud83c'' @ [CHR 0x5C] @ ''udf54", "pizza": "'' @ [CHR 0x5C] @ ''ud83c'' @ [CHR 0x5C] @ ''udf55", "fries": "'' @ [CHR 0x5C] @ ''ud83c'' @ [CHR 0x5C] @ ''udf5f",
				"hotdog": "'' @ [CHR 0x5C] @ ''ud83c'' @ [CHR 0x5C] @ ''udf2d", "taco": "'' @ [CHR 0x5C] @ ''ud83c'' @ [CHR 0x5C] @ ''udf2e", "burrito": "'' @ [CHR 0x5C] @ ''ud83c'' @ [CHR 0x5C] @ ''udf2f", "popcorn": "'' @ [CHR 0x5C] @ ''ud83c'' @ [CHR 0x5C] @ ''udf7f",
'' @
       ''				"shrimp": "'' @ [CHR 0x5C] @ ''ud83e'' @ [CHR 0x5C] @ ''udd90", "egg": "'' @ [CHR 0x5C] @ ''ud83e'' @ [CHR 0x5C] @ ''udd5a", "bread": "'' @ [CHR 0x5C] @ ''ud83c'' @ [CHR 0x5C] @ ''udf5e", "cheese": "'' @ [CHR 0x5C] @ ''ud83e'' @ [CHR 0x5C] @ ''uddc0",
				"coffee": "'' @ [CHR 0x5C] @ ''u2615", "tea": "'' @ [CHR 0x5C] @ ''ud83c'' @ [CHR 0x5C] @ ''udf75", "beer": "'' @ [CHR 0x5C] @ ''ud83c'' @ [CHR 0x5C] @ ''udf7a", "cocktail": "'' @ [CHR 0x5C] @ ''ud83c'' @ [CHR 0x5C] @ ''udf78",
				"soccer": "'' @ [CHR 0x5C] @ ''u26bd", "basketball": "'' @ [CHR 0x5C] @ ''ud83c'' @ [CHR 0x5C] @ ''udfc0", "football": "'' @ [CHR 0x5C] @ ''ud83c'' @ [CHR 0x5C] @ ''udfc8", "baseball": "'' @ [CHR 0x5C] @ ''u26be",
'' @
       ''				"tennis": "'' @ [CHR 0x5C] @ ''ud83c'' @ [CHR 0x5C] @ ''udfbe", "golf": "'' @ [CHR 0x5C] @ ''u26f3", "ski": "'' @ [CHR 0x5C] @ ''ud83c'' @ [CHR 0x5C] @ ''udfbf", "swimmer": "'' @ [CHR 0x5C] @ ''ud83c'' @ [CHR 0x5C] @ ''udfca",
				"surfer": "'' @ [CHR 0x5C] @ ''ud83c'' @ [CHR 0x5C] @ ''udfc4", "video_game": "'' @ [CHR 0x5C] @ ''ud83c'' @ [CHR 0x5C] @ ''udfae", "game_die": "'' @ [CHR 0x5C] @ ''ud83c'' @ [CHR 0x5C] @ ''udfb2", "slot_machine": "'' @ [CHR 0x5C] @ ''ud83c'' @ [CHR 0x5C] @ ''udfb0",
'' @
       ''				"flag": "'' @ [CHR 0x5C] @ ''ud83c'' @ [CHR 0x5C] @ ''udfc1", "checkered_flag": "'' @ [CHR 0x5C] @ ''ud83c'' @ [CHR 0x5C] @ ''udfc1", "rainbow_flag": "'' @ [CHR 0x5C] @ ''ud83c'' @ [CHR 0x5C] @ ''udff3'' @ [CHR 0x5C] @ ''ufe0f'' @ [CHR 0x5C] @ ''u200d'' @ [CHR 0x5C] @ ''ud83c'' @ [CHR 0x5C] @ ''udf08"
			};
			/* Build an array of [shortcode, emoji] for ordering/searching */
			var EMOJI_ENTRIES = [];
			(function() {
				for (var key in EMOJI_MAP) {
					if (EMOJI_MAP.hasOwnProperty(key)) {
'' @
       ''						EMOJI_ENTRIES.push([key, EMOJI_MAP[key]]);
					}
				}
			})();
			function setupEmojiAutocomplete(container) {
				if (!container) return;
				var ta = container.querySelector('textarea[data-emoji-enabled]');
				if (!ta || ta._emojiSetup) return;
				ta._emojiSetup = true;
'' @
       ''				ta.addEventListener('input', function(e) {
					var pos = ta.selectionStart;
					var val = ta.value;
					/* Find the : before cursor: look backwards from cursor */
					var start = val.lastIndexOf(':', pos - 1);
'' @
       ''					if (start === -1 || start === 0 || (start > 0 && val[start-1] !== ' ' && val[start-1] !== '	' && val[start-1] !== '' @ [CHR 0x27, CHR 0x5C] @ ''n' && val[start-1] !== '' @ [CHR 0x27, CHR 0x5C] @ ''r'' @ [CHR 0x27] @
       '' && val[start-1] !== '(')) {
						_removeEmojiDropdown();
						return;
					}
					var query = val.substring(start + 1, pos);
					if (query.length === 0 || !/^[a-zA-Z0-9_+'' @ [CHR 0x5C] @ ''-]+$/.test(query)) {
						_removeEmojiDropdown();
						return;
					}
'' @
       ''					/* Check if we're inside a word '' @ [CHR 0xE2, CHR 0x80, CHR 0x94] @ '' after the colon we need word chars only */
					/* If the character before the colon was alphanumeric, this is probably not an emoji */
					if (start > 0 && /[a-zA-Z0-9_]/.test(val[start-1])) {
						_removeEmojiDropdown();
						return;
					}
'' @
       ''					_emojiData = { ta: ta, start: start, pos: pos, query: query };
					_showEmojiSuggestions(query, ta);
				});
				ta.addEventListener('blur', function() {
					/* Auto-replace complete shortcodes like :smile: */
					setTimeout(function() {
						if (!ta) return;
						var val = ta.value;
'' @
       ''						ta.value = val.replace(/:([a-zA-Z0-9_+'' @ [CHR 0x5C] @ ''-]+):/g, function(match, name) {
							return EMOJI_MAP[name.toLowerCase()] || match;
						});
					}, 300);
				});
				ta.addEventListener('keydown', function(e) {
					var dd = document.getElementById('emoji-dropdown');
					if (!dd || !dd._visible) return;
'' @
       ''					var items = dd.querySelectorAll('.emoji-item');
					var idx = Array.prototype.indexOf.call(items, dd.querySelector('.emoji-item.active'));
					if (e.key === 'ArrowDown') {
						e.preventDefault();
						var next = idx < items.length - 1 ? idx + 1 : 0;
'' @
       ''						items.forEach(function(i) { i.classList.remove('active'); });
						items[next].classList.add('active');
					} else if (e.key === 'ArrowUp') {
						e.preventDefault();
						var prev = idx > 0 ? idx - 1 : items.length - 1;
						items.forEach(function(i) { i.classList.remove('active'); });
'' @
       ''						items[prev].classList.add('active');
					} else if (e.key === 'Enter' || e.key === 'Tab') {
						if (idx >= 0 && items[idx]) {
							e.preventDefault();
							_applyEmoji(items[idx].dataset.emojiShortcode, items[idx].dataset.emojiChar);
						}
					} else if (e.key === 'Escape') {
'' @
       ''						_removeEmojiDropdown();
					}
				});
			}
			function _showEmojiSuggestions(query, ta) {
				_removeEmojiDropdown();
				var lq = query.toLowerCase();
				var matches = [];
				for (var i = 0; i < EMOJI_ENTRIES.length; i++) {
					var entry = EMOJI_ENTRIES[i];
					if (entry[0].indexOf(lq) !== -1) {
'' @
       ''						matches.push(entry);
						if (matches.length >= 8) break;
					}
				}
				if (matches.length === 0) return;
				var dd = document.createElement('div');
				dd.id = 'emoji-dropdown';
				dd._visible = true;
				dd.className = 'emoji-dropdown';
				matches.forEach(function(m, i) {
'' @
       ''					var item = document.createElement('div');
					item.className = 'emoji-item' + (i === 0 ? ' active' : '' @ [CHR 0x27] @ ''');
					item.dataset.emojiShortcode = m[0];
					item.dataset.emojiChar = m[1];
					var charSpan = document.createElement('span');
					charSpan.className = 'emoji-char';
					charSpan.textContent = m[1];
'' @
       ''					var labelSpan = document.createElement('span');
					labelSpan.className = 'emoji-label';
					labelSpan.textContent = ':' + m[0] + ':';
					item.appendChild(charSpan);
					item.appendChild(labelSpan);
					item.addEventListener('mousedown', function(e) {
						e.preventDefault();
'' @
       ''						_applyEmoji(this.dataset.emojiShortcode, this.dataset.emojiChar);
					});
					item.addEventListener('mouseenter', function() {
						dd.querySelectorAll('.emoji-item').forEach(function(el) { el.classList.remove('active'); });
						this.classList.add('active');
					});
					dd.appendChild(item);
				});
'' @
       ''				/* Position below the textarea */
				var rect = ta.getBoundingClientRect();
				dd.style.position = 'fixed';
				dd.style.left = rect.left + 'px';
				dd.style.top = (rect.bottom + window.scrollY) + 'px';
				dd.style.minWidth = Math.max(rect.width * 0.4, 180) + 'px';
				dd.style.zIndex = '9999';
'' @
       ''				document.body.appendChild(dd);
			}
			function _applyEmoji(shortcode, emoji) {
				if (!_emojiData) return;
				var ta = _emojiData.ta;
				var start = _emojiData.start;
				var pos = _emojiData.pos;
				var val = ta.value;
				ta.value = val.substring(0, start) + emoji + ' ' + val.substring(pos);
'' @
       ''				ta.selectionStart = ta.selectionEnd = start + emoji.length + 1;
				ta.focus();
				_removeEmojiDropdown();
				_emojiData = null;
				/* Trigger input event for HTMX bindings */
				var evt = new Event('input', { bubbles: true });
				ta.dispatchEvent(evt);
			}
			function _removeEmojiDropdown() {
'' @
       ''				var dd = document.getElementById('emoji-dropdown');
				if (dd) {
					dd._visible = false;
					dd.remove();
				}
			}
			document.addEventListener('DOMContentLoaded', function() {
				document.querySelectorAll('[data-md-container]').forEach(setupMentionAutocomplete);
'' @
       ''				document.querySelectorAll('[data-md-container]').forEach(setupEmojiAutocomplete);
			});
			document.addEventListener('htmx:afterSwap', function(evt) {
				if (evt.detail.target) {
					evt.detail.target.querySelectorAll('[data-md-container]').forEach(setupMentionAutocomplete);
'' @
       ''					evt.detail.target.querySelectorAll('[data-md-container]').forEach(setupEmojiAutocomplete);
					highlightCodeBlocks();
					updateRelativeTimes();
				}
			});
			/* --- Inline image paste support --- */
			function setupImagePaste(container) {
				if (!container) return;
'' @
       ''				var ta = container.querySelector('textarea');
				if (!ta || ta._pasteSetup) return;
				ta._pasteSetup = true;
				ta.addEventListener('paste', function(e) {
					var items = e.clipboardData && e.clipboardData.items;
					if (!items) return;
					var imageItem = null;
'' @
       ''					for (var i = 0; i < items.length; i++) {
						if (items[i].type.indexOf('image/') === 0) {
							imageItem = items[i];
							break;
						}
					}
					if (!imageItem) return;
					e.preventDefault();
					var file = imageItem.getAsFile();
					if (!file) return;
					/* Show an uploading indicator */
'' @
       ''					var pos = ta.selectionStart;
					var placeholder = '[Uploading image...]';
					ta.value = ta.value.substring(0, pos) + placeholder + ta.value.substring(ta.selectionEnd);
					ta.selectionStart = ta.selectionEnd = pos + placeholder.length;
					/* Determine repo context from URL path: /{owner}/{repo}/... */
'' @
       ''					var m = window.location.pathname.match(/^'' @ [CHR 0x5C] @ ''/([^'' @ [CHR 0x5C] @ ''/]+)'' @ [CHR 0x5C] @ ''/([^'' @ [CHR 0x5C] @ ''/]+)'' @ [CHR 0x5C] @ ''//);
					var uploadUrl = m ? '/' + m[1] + '/' + m[2] + '/upload-image' : '/upload-image';
					var formData = new FormData();
					formData.append('file', file, file.name || 'pasted-image.png');
'' @
       ''					var token = document.querySelector('meta[name="csrf-token"]');
					var headers = {};
					if (token) headers['X-CSRF-Token'] = token.content;
					fetch(uploadUrl, {
						method: 'POST',
						headers: headers,
						body: formData
					})
					.then(function(resp) {
'' @
       ''						if (!resp.ok) throw new Error('Upload failed: ' + resp.status);
						return resp.text();
					})
					.then(function(url) {
						var markdown = '![' + (file.name || 'image') + '](' + url + ')';
						var val = ta.value;
						var idx = val.indexOf(placeholder);
						if (idx !== -1) {
'' @
       ''							ta.value = val.substring(0, idx) + markdown + val.substring(idx + placeholder.length);
							ta.selectionStart = ta.selectionEnd = idx + markdown.length;
						} else {
							/* Fallback: append at end */
							ta.value = val + '' @ [CHR 0x27, CHR 0x5C] @ ''n' + markdown;
							ta.selectionStart = ta.selectionEnd = ta.value.length;
'' @
       ''						}
						ta.focus();
					})
					.catch(function(err) {
						var val = ta.value;
						var idx = val.indexOf(placeholder);
						if (idx !== -1) {
							ta.value = val.substring(0, idx) + val.substring(idx + placeholder.length);
						}
						ta.focus();
						/* Brief error flash */
'' @
       ''						var errEl = document.createElement('div');
						errEl.className = 'text-red text-xs mt-1';
						errEl.textContent = 'Image upload failed: ' + err.message;
						var parent = ta.closest('[data-md-container]');
						if (parent) parent.appendChild(errEl);
'' @
       ''						setTimeout(function() { if (errEl.parentNode) errEl.parentNode.removeChild(errEl); }, 3000);
					});
				});
			}
			document.addEventListener('DOMContentLoaded', function() {
				document.querySelectorAll('[data-md-container]').forEach(setupImagePaste);
			});
'' @
       ''			document.addEventListener('htmx:afterSwap', function(evt) {
				if (evt.detail.target) {
					evt.detail.target.querySelectorAll('[data-md-container]').forEach(setupImagePaste);
				}
			});
			</script></head><body class="min-h-screen"><a href="#main-content" class="skip-link">Skip to main content</a> ''))]\<close>

lemma scan_Layout_1 [simp]: "scan k (Layout_1 data) (Body, Outside) = (Body, Outside)"
  unfolding Layout_1_def by simp

definition Layout_2 :: "layout_view \<Rightarrow> component" where
  \<open>Layout_2 data = 
    [Lit (''<header class="gh-header"><div class="gh-header-inner"><button type="button" class="gh-header-btn gh-hamburger" aria-label="Toggle navigation"'' @
       '' aria-expanded="false" aria-controls="mobile-nav" onclick="document.getElementById('mobile-nav').classList.toggle('open');">'' @
       ''<svg class="gh-icon" aria-hidden="true" viewBox="0 0 16 16"><path fill="currentColor" d="M1 2.75A.75.75 0 011.75 2h12.5a.75.75 0 010 1.5H1.75A.75.75'' @
       '' 0 011 2.75zm0 5A.75.75 0 011.75 7h12.5a.75.75 0 010 1.5H1.75A.75.75 0 011 7.75zM1.75 12h12.5a.75.75 0 010 1.5H1.75a.75.75 0 010-1.5z"></path></svg>'' @
       ''</button> <a href="/" class="gh-header-mark" aria-label="Govnohub home" title="Govnohub">'')]
    @ Icon ''mark-github'' []
    @ [Lit ''</a> '']
    @ (if (ly_user data) \<noteq> None
     then [Lit ''<nav class="gh-global-nav" aria-label="Global">'', Css [globalNavClass (lv_nav data) ''dashboard''],
        Lit ''<a href="/" class="'', Attr (VClass [globalNavClass (lv_nav data) ''dashboard'']),
        Lit ''">Dashboard</a> '', Css [globalNavClass (lv_nav data) ''orgs''], Lit ''<a href="/orgs" class="'',
        Attr (VClass [globalNavClass (lv_nav data) ''orgs'']), Lit ''">Organizations</a> '',
        Css [globalNavClass (lv_nav data) ''search'' @ '' gh-header-search-mobile''], Lit ''<a href="/search" class="'',
        Attr (VClass [globalNavClass (lv_nav data) ''search'' @ '' gh-header-search-mobile'']),
        Lit ''">Search</a></nav><form action="/search" method="get" class="gh-header-search">'']
       @ Icon ''search'' []
       @ [Lit ''<input type="search" name="q" placeholder="Search or jump to..." aria-label="Search"></form>'']
     else [])
    @ [Lit ''<div class="gh-header-actions">'']
    @ (if (ly_user data) \<noteq> None
     then [Lit ''<a href="/search" class="gh-header-btn gh-header-search-mobile" aria-label="Search">'']
       @ Icon ''search'' []
       @ [Lit ''</a> '']
     else [])
    @ [Lit ''<button type="button" class="gh-header-btn" onclick="toggleTheme()" aria-label="Toggle theme" aria-pressed="false" id="theme-toggle"><span class="theme-icon-sun">'']
    @ Icon ''sun'' []
    @ [Lit ''</span> <span class="theme-icon-moon hidden">'']
    @ Icon ''moon'' []
    @ [Lit ''</span></button> '']\<close>

lemma scan_Layout_2 [simp]: "scan k (Layout_2 data) (Body, Outside) = (Body, Outside)"
  unfolding Layout_2_def by simp

definition Layout_3 :: "layout_view \<Rightarrow> component" where
  \<open>Layout_3 data = 
    (if (ly_user data) \<noteq> None
     then [Lit (''<div class="notif-bell"><button type="button" class="gh-header-btn" aria-label="Notifications" aria-expanded="false" aria-controls="notif-drawer"'' @
       '' onclick="toggleNotifications(this)" hx-indicator="#notif-loading">'')]
       @ Icon ''bell'' []
       @ [Lit ''</button> '']
       @ (if (ly_unread data) > 0
        then [Lit ''<span id="notif-badge" class="notif-count">'', Esc (VStr (unreadLabel (ly_unread data))), Lit ''</span>'']
        else [Lit ''<span id="notif-badge" class="notif-count" style="display:none">0</span>''])
       @ [Lit (''</div><!-- Notifications drawer --> <div id="notif-overlay" class="notif-overlay" onclick="closeNotifications()"></div>'' @
       ''<div id="notif-drawer" class="notif-drawer" aria-labelledby="notif-drawer-title" role="dialog" aria-modal="true"><div class="notif-drawer-header">'' @
       ''<h2 id="notif-drawer-title">Notifications</h2><button type="button" class="notif-drawer-close" onclick="closeNotifications()" aria-label="Close">'' @
       ''<svg class="gh-icon" aria-hidden="true" viewBox="0 0 16 16"><path fill="currentColor" d="M3.72 3.72a.75.75 0 011.06 0L8 6.94l3.22-3.22a.75.75 0'' @
       '' 111.06 1.06L9.06 8l3.22 3.22a.75.75 0 11-1.06 1.06L8 9.06l-3.22 3.22a.75.75 0 01-1.06-1.06L6.94 8 3.72 4.78a.75.75 0 010-1.06z"></path></svg>'' @
       ''</button></div><div id="notif-body" class="notif-drawer-body"><div class="notif-empty">'')]
       @ Icon ''bell'' []
       @ [Lit ''<p>No notifications</p></div></div></div><details class="gh-user-menu"><summary>'']
       @ Avatar (su_name (the (ly_user data))) []
       @ [Lit ''<span class="gh-header-link">'', Esc (VStr (su_name (the (ly_user data)))),
        Lit ''</span></summary><div class="gh-user-dropdown"><a href="/settings">Settings</a> '']
       @ (if ((su_user (the (ly_user data))) \<noteq> None) \<and> ((usr_role (the (su_user (the (ly_user data))))) = RoleAdmin)
        then [Lit ''<a href="/admin/users">Admin</a>'']
        else [])
       @ [Lit ''<form action="/logout" method="post"><input type="hidden" name="csrf_token" value="'',
        Attr (VStr (ly_csrf data)), Lit ''"> <button type="submit">Sign out</button></form></div></details>'']
     else [Lit ''<a href="/login" class="gh-header-link">Sign in</a>''])
    @ [Lit ''</div></div>'']\<close>

lemma scan_Layout_3 [simp]:
  "ly_csrf data = k \<Longrightarrow>
     scan k (Layout_3 data) (Body, Outside) = (Body, Outside)"
  unfolding Layout_3_def by simp

definition Layout_4 :: "layout_view \<Rightarrow> component" where
  \<open>Layout_4 data = 
    (if (ly_user data) \<noteq> None
     then [Lit ''<nav id="mobile-nav" class="gh-mobile-nav" aria-label="Mobile navigation">'',
        Css [globalNavClass (lv_nav data) ''dashboard''], Lit ''<a href="/" class="'',
        Attr (VClass [globalNavClass (lv_nav data) ''dashboard'']), Lit ''">'']
       @ Icon ''repo'' []
       @ [Lit ''Dashboard</a> '', Css [globalNavClass (lv_nav data) ''orgs''], Lit ''<a href="/orgs" class="'',
        Attr (VClass [globalNavClass (lv_nav data) ''orgs'']), Lit ''">'']
       @ Icon ''repo'' []
       @ [Lit ''Organizations</a> '', Css [globalNavClass (lv_nav data) ''search''], Lit ''<a href="/search" class="'',
        Attr (VClass [globalNavClass (lv_nav data) ''search'']), Lit ''">'']
       @ Icon ''search'' []
       @ [Lit ''Search</a></nav>'']
     else [])
    @ [Lit ''</header>'']\<close>

lemma scan_Layout_4 [simp]: "scan k (Layout_4 data) (Body, Outside) = (Body, Outside)"
  unfolding Layout_4_def by simp

definition Layout_5 :: "layout_view \<Rightarrow> component" where
  \<open>Layout_5 data = 
    [Css [layoutMainClass data], Lit ''<main id="main-content" class="'', Attr (VClass [layoutMainClass data]),
     Lit ''">'']
    @ (if (ly_flash data) \<noteq> []
     then (if ly_flash_err data
        then ErrorAlert (ly_flash data)
        else Toast_view (ly_flash data) ''success'')
     else [])
    @ lv_content data
    @ [Lit (''</main><div id="presence-indicator" class="gh-presence" style="display:none"></div><script>
				(function() {
					var _presenceInterval = null;
					var _presencePollInterval = null;

					function startPresence() {
						var m = window.location.pathname.match(/^'' @ [CHR 0x5C] @ ''/([^'' @ [CHR 0x5C] @ ''/]+)'' @ [CHR 0x5C] @ ''/([^'' @ [CHR 0x5C] @ ''/]+)/);
						if (!m) return;
'' @
       ''						var resource = m[1] + '/' + m[2];
						var indicator = document.getElementById('presence-indicator');
						if (!indicator) return;

						function heartbeat() {
							fetch('/api/v1/repos/' + resource + '/presence', { method: 'POST' }).catch(function() {});
						}

						function pollViewers() {
'' @
       ''							fetch('/api/v1/repos/' + resource + '/presence')
								.then(function(r) { return r.json(); })
								.then(function(data) {
									if (data.count > 0) {
										indicator.style.display = 'inline-flex';
'' @
       ''										indicator.innerHTML = '<span class="gh-presence-dot"></span> ' + data.count + ' viewer' + (data.count > 1 ? 's' : '' @ [CHR 0x27] @ ''');
									} else {
										indicator.style.display = 'none';
									}
								})
								.catch(function() {});
						}

						heartbeat();
						pollViewers();
'' @
       ''						_presenceInterval = setInterval(heartbeat, 30000);
						_presencePollInterval = setInterval(pollViewers, 30000);
					}

					function stopPresence() {
						if (_presenceInterval) { clearInterval(_presenceInterval); _presenceInterval = null; }
'' @
       ''						if (_presencePollInterval) { clearInterval(_presencePollInterval); _presencePollInterval = null; }
					}

					document.addEventListener('DOMContentLoaded', startPresence);
					/* Start auto-refreshing relative timestamps every 60 seconds */
					setInterval(updateRelativeTimes, 60000);

'' @
       ''					document.addEventListener('htmx:afterSwap', function() {
						stopPresence();
						startPresence();
					});
				})();
			</script></body></html>'')]\<close>

lemma scan_Layout_5 [simp]:
  "sound_part k (lv_content data) \<Longrightarrow>
     scan k (Layout_5 data) (Body, Outside) = (Body, Outside)"
  unfolding Layout_5_def sound_part_def by simp

definition Layout :: "layout_view \<Rightarrow> component" where
  \<open>Layout data = [Call (
    Layout_1 data
    @ (if \<not> (lv_hide data)
     then Layout_2 data
       @ Layout_3 data
       @ Layout_4 data
     else [])
    @ Layout_5 data)]\<close>

lemma scan_Layout [simp]:
  "ly_csrf data = k \<Longrightarrow>
     sound_part k (lv_content data) \<Longrightarrow>
     scan k (Layout data) (Body, Outside) = (Body, Outside)"
  unfolding Layout_def sound_part_def by simp

declare if_cong [cong del] if_split [split]

end
