(* ===== verification/ViewRepo.thy ===== *)
theory ViewRepo
  imports ViewLayout
begin

section \<open>The pages of a repository: code, forks, tags, wiki, packages\<close>

text \<open>
  The templates of the same names (internal/web/repo.templ, fork_dialog.templ, tags.templ, wiki.templ, packages.templ).
\<close>

declare if_cong [cong] if_split [split del]

subsection \<open>fork dialog\<close>

record fork_view =
  kv_owner :: string
  kv_repo :: string
  kv_full :: string
  kv_csrf :: string
  kv_namespaces :: "fork_namespace list"
  kv_forks :: "repository list"

definition ForkDialog_view_1 :: "fork_view \<Rightarrow> component" where
  \<open>ForkDialog_view_1 data = 
    [Lit (''<!-- Overlay --><div class="gh-overlay" onclick="closeForkDialog()" id="fork-overlay"></div><!-- Dialog -->'' @
       ''<div class="gh-dialog" id="fork-dialog" role="dialog" aria-label="Fork repository"><div class="gh-dialog-header">'' @
       ''<h3 class="gh-dialog-title">Fork repository</h3><button type="button" class="gh-dialog-close" onclick="closeForkDialog()" aria-label="Close">'' @
       ''<svg class="gh-icon" aria-hidden="true" width="16" height="16" viewBox="0 0 16 16">'' @
       ''<path fill="currentColor" d="M3.72 3.72a.75.75 0 0 1 1.06 0L8 6.94l3.22-3.22a.75.75 0 1 1 1.06 1.06L9.06 8l3.22 3.22a.75.75 0 1 1-1.06 1.06L8'' @
       '' 9.06l-3.22 3.22a.75.75 0 0 1-1.06-1.06L6.94 8 3.72 4.78a.75.75 0 0 1 0-1.06Z"></path></svg></button></div><form id="fork-form" method="post" action="''),
     Esc (VUrl (''/'' @ kv_full data @ ''/fork'')), Lit ''" hx-post="'',
     Attr (VUrl (''/'' @ kv_full data @ ''/fork'')),
     Lit ''" hx-target="body" hx-swap="innerHTML" hx-push-url="true" hx-disabled-elt="button[type=submit]"><input type="hidden" name="csrf_token" value="'',
     Attr (VStr (kv_csrf data)),
     Lit ''"> <input type="hidden" name="from_dialog" value="1"><div class="gh-dialog-body"><p class="text-sm text-muted mb-3">Create a fork of <strong>'',
     Esc (VStr (kv_owner data)), Lit ''/'', Esc (VStr (kv_repo data)), Lit ''</strong> in another namespace.</p>'']\<close>

lemma scan_ForkDialog_view_1 [simp]:
  "kv_csrf data = k \<Longrightarrow>
     scan k (ForkDialog_view_1 data) (Body, Outside) = (Body, Inside True True False None)"
  unfolding ForkDialog_view_1_def by simp

definition ForkDialog_view_2 :: "fork_view \<Rightarrow> component" where
  \<open>ForkDialog_view_2 data = 
    (if (kv_namespaces data) \<noteq> []
     then [Lit ''<label class="text-sm font-medium mb-1 inline-block">Owner</label><div class="gh-namespace-list">'']
       @ concat (map (\<lambda>ns.
          [Lit ''<label class="gh-namespace-item"><input type="radio" name="namespace" value="'', Attr (VStr (fn_name ns)),
           Lit ''"'']
          @ (if (fn_kind ns) = ''user''
           then [Lit '' checked'']
           else [])
          @ [Lit '' class="gh-namespace-radio"> <span class="gh-namespace-info">'']
          @ (if (fn_kind ns) = ''user''
           then [Lit ''<span class="gh-namespace-kind" aria-label="personal">'', Esc (VStr ''@''), Lit ''</span> '']
           else [Lit ''<span class="gh-namespace-kind" aria-label="organization">'', Esc (VStr ''O''), Lit ''</span> ''])
          @ [Lit ''<span class="gh-namespace-name">'', Esc (VStr (fn_display ns)),
           Lit ''</span> <span class="gh-namespace-type text-xs text-muted">'']
          @ (if (fn_kind ns) = ''user''
           then [Lit ''Personal'']
           else [Lit ''Organization''])
          @ [Lit ''</span></span></label>'']) (kv_namespaces data))
       @ [Lit ''</div>'']
     else [Lit ''<p class="text-sm text-muted">No namespaces available.</p>''])
    @ [Lit ''<div class="text-xs text-muted mt-3">'']
    @ Icon ''repo-forked'' []
    @ [Lit (''You can only fork a repository once per namespace.</div></div><div class="gh-dialog-footer">'' @
       ''<button type="button" class="gh-btn" onclick="closeForkDialog()">Cancel</button> <button type="submit" class="gh-btn-primary">'')]
    @ Icon ''repo-forked'' []
    @ [Lit ''Fork repository</button></div></form></div>'']\<close>

lemma scan_ForkDialog_view_2 [simp]: "scan k (ForkDialog_view_2 data) (Body, Inside True True False None) = (Body, Outside)"
  unfolding ForkDialog_view_2_def by simp

definition ForkDialog_view :: "fork_view \<Rightarrow> component" where
  \<open>ForkDialog_view data = [Call (
    ForkDialog_view_1 data
    @ ForkDialog_view_2 data)]\<close>

lemma scan_ForkDialog_view [simp]:
  "kv_csrf data = k \<Longrightarrow>
     scan k (ForkDialog_view data) (Body, Outside) = (Body, Outside)"
  unfolding ForkDialog_view_def by simp

definition ForkDialogScript :: "component" where
  \<open>ForkDialogScript = [Call (
    [Lit (''<script>
		function openForkDialog() {
			const overlay = document.getElementById('fork-overlay');
			const dialog = document.getElementById('fork-dialog');
			if (overlay && dialog) {
				overlay.classList.remove('hidden');
				dialog.classList.remove('hidden');
				document.body.classList.add('gh-no-scroll');
			}
'' @
       ''		}
		function closeForkDialog() {
			const overlay = document.getElementById('fork-overlay');
			const dialog = document.getElementById('fork-dialog');
			if (overlay && dialog) {
				overlay.classList.add('hidden');
				dialog.classList.add('hidden');
				document.body.classList.remove('gh-no-scroll');
			}
		}
'' @
       ''		// Close on Escape key
		document.addEventListener('keydown', function(e) {
			if (e.key === 'Escape') {
				closeForkDialog();
			}
		});
	</script>'')])]\<close>

lemma scan_ForkDialogScript [simp]: "scan k ForkDialogScript (Body, Outside) = (Body, Outside)"
  unfolding ForkDialogScript_def by simp

subsection \<open>repo\<close>

definition RepoContent_1 :: "repo_page_data \<Rightarrow> component" where
  \<open>RepoContent_1 data = 
    RepoPageShell (fst (rg_frame data)) (snd (rg_frame data))
    @ [Lit ''<div class="max-w-7xl mx-auto">'']
    @ (if (rg_flash data) \<noteq> []
     then (if rg_flash_err data
        then ErrorAlert (rg_flash data)
        else Toast_view (rg_flash data) ''success'')
     else [])
    @ BranchBar (rp_full_name (rg_repo data)) (rg_ref data) (rg_path data) (rg_branches data)\<close>

lemma scan_RepoContent_1 [simp]:
  "rh_csrf (fst (rg_frame data)) = k \<Longrightarrow>
     scan k (RepoContent_1 data) (Body, Outside) = (Body, Outside)"
  unfolding RepoContent_1_def by simp

definition RepoContent_2 :: "repo_page_data \<Rightarrow> component" where
  \<open>RepoContent_2 data = 
    [Lit ''<div class="gh-blame-header"><div class="flex items-center gap-2 mb-2 text-sm"><a href="'',
     Esc (VUrl (''/'' @ rp_full_name (rg_repo data) @ ''/blob/'' @ rg_path data @ ''?ref='' @ rg_ref data)),
     Lit (''" class="text-link">Source</a> <span class="text-subtle">|</span> <span class="font-semibold">Blame</span></div></div>'' @
       ''<div class="gh-code-block gh-blame-wrapper"><table class="gh-blame-table">'')]
    @ concat (map (\<lambda>line.
       [Lit ''<tr class="gh-blame-row"><td class="gh-blame-commit font-mono text-xs text-subtle whitespace-nowrap"><a href="'',
        Esc (VUrl (''/'' @ rp_full_name (rg_repo data) @ ''/commit/'' @ bl_sha line)),
        Lit ''" class="text-link hover:underline">'', Esc (VStr (bl_short line)),
        Lit ''</a></td><td class="gh-blame-author text-xs text-subtle whitespace-nowrap">'', Esc (VStr (bl_author line)),
        Lit ''</td><td class="gh-blame-date text-xs text-subtle whitespace-nowrap">'', Esc (VStr (bl_date line)),
        Lit ''</td><td class="gh-blame-lineno font-mono text-xs text-subtle text-right select-none"><a href="'',
        Esc (VUrl (''/'' @ rp_full_name (rg_repo data) @ ''/blob/'' @ rg_path data @ ''?ref='' @ rg_ref data @ ''#L'' @ int_string (int (bl_number line)))),
        Lit ''" class="text-link">'', Esc (VInt (int (bl_number line))),
        Lit ''</a></td><td class="gh-blame-content font-mono whitespace-pre-wrap">'', Esc (VStr (bl_content line)),
        Lit ''</td></tr>'']) (rg_blame data))
    @ [Lit ''</table></div>'']\<close>

lemma scan_RepoContent_2 [simp]: "scan k (RepoContent_2 data) (Body, Outside) = (Body, Outside)"
  unfolding RepoContent_2_def by simp

definition RepoContent_3 :: "repo_page_data \<Rightarrow> component" where
  \<open>RepoContent_3 data = 
    (if rg_binary data
     then [Lit ''<div class="card p-4"><p class="m-0 text-sm">Binary file not shown.</p><a href="'',
        Esc (VUrl (''/api/v1/repos/'' @ rp_full_name (rg_repo data) @ ''/contents/'' @ rg_path data @ ''?ref='' @ rg_ref data)),
        Lit ''" class="btn-secondary mt-3 inline-flex">Download</a></div>'']
     else (if (rg_content data) \<noteq> []
        then [Lit ''<div class="gh-code-block-header"><div class="flex items-center gap-2 text-sm"><span class="font-semibold">'',
           Esc (VStr (rg_path data)), Lit ''</span> <a href="'',
           Esc (VUrl (''/'' @ rp_full_name (rg_repo data) @ ''/blame/'' @ rg_path data @ ''?ref='' @ rg_ref data)),
           Lit ''" class="text-link">Blame</a></div></div><div class="gh-code-block"><pre class="font-mono whitespace-pre-wrap">'',
           Esc (VStr (rg_content data)), Lit ''</pre></div>'']
        else (if (rg_entries data) \<noteq> []
           then FileTable (rp_full_name (rg_repo data)) (rg_ref data) (rg_path data) (rg_entries data)
           else [Lit ''<div class="gh-file-table">'']
             @ EmptyState ''This repository is empty''
             @ [Lit ''</div>''])))\<close>

lemma scan_RepoContent_3 [simp]: "scan k (RepoContent_3 data) (Body, Outside) = (Body, Outside)"
  unfolding RepoContent_3_def by simp

definition FileFinder :: "string \<Rightarrow> string \<Rightarrow> component" where
  \<open>FileFinder fullName ref = [Call (
    [Lit (''<!-- File finder modal '' @ [CHR 0xE2, CHR 0x80, CHR 0x94] @ '' triggered by pressing `t` on repo page -->'' @
       ''<div id="file-finder-overlay" class="gh-overlay" style="display:none" onclick="closeFileFinder()"></div>'' @
       ''<div id="file-finder-modal" class="gh-modal gh-file-finder" role="dialog" aria-label="Find file" style="display:none"><div class="gh-modal-header">'' @
       ''<input type="text" id="file-finder-input" class="input" placeholder="Find file..." aria-label="Find file" autocomplete="off" spellcheck="false"'' @
       '' oninput="filterFiles()" onkeydown="handleFileFinderKeydown(event)"> <button type="button" class="gh-header-btn" onclick="closeFileFinder()"'' @
       '' aria-label="Close"><svg class="gh-icon" aria-hidden="true" viewBox="0 0 16 16">'' @
       ''<path fill="currentColor" d="M3.72 3.72a.75.75 0 011.06 0L8 6.94l3.22-3.22a.75.75 0 111.06 1.06L9.06 8l3.22 3.22a.75.75 0 11-1.06 1.06L8 9.06l-3.22'' @
       '' 3.22a.75.75 0 01-1.06-1.06L6.94 8 3.72 4.78a.75.75 0 010-1.06z"></path></svg></button></div>'' @
       ''<div id="file-finder-results" class="gh-file-finder-results"><div class="gh-file-finder-empty">Type to filter files...</div></div></div><script>
		var _fileFinderData = null;
		var _fileFinderFullName = { templ.JSScript(fullName) };
		var _fileFinderRef = { templ.JSScript(ref) };
		var _fileFinderSelected = 0;

'' @
       ''		function openFileFinder() {
			var overlay = document.getElementById('file-finder-overlay');
			var modal = document.getElementById('file-finder-modal');
			var input = document.getElementById('file-finder-input');
			var results = document.getElementById('file-finder-results');
'' @
       ''			if (!overlay || !modal || !input) return;

			if (_fileFinderData === null) {
				results.innerHTML = '<div class="gh-file-finder-empty">Loading files...</div>';
				modal.style.display = '' @ [CHR 0x27] @ ''';
				overlay.style.display = '' @ [CHR 0x27] @ ''';
'' @
       ''				fetch('/' + _fileFinderFullName + '/file-finder-data?ref=' + encodeURIComponent(_fileFinderRef))
					.then(function(r) { return r.json(); })
					.then(function(data) {
						_fileFinderData = data;
						input.value = '' @ [CHR 0x27] @ ''';
						_fileFinderSelected = 0;
						renderFiles(data);
						input.focus();
					})
'' @
       ''					.catch(function() {
						results.innerHTML = '<div class="gh-file-finder-empty">Failed to load files.</div>';
					});
			} else {
				modal.style.display = '' @ [CHR 0x27] @ ''';
				overlay.style.display = '' @ [CHR 0x27] @ ''';
				input.value = '' @ [CHR 0x27] @ ''';
				_fileFinderSelected = 0;
				renderFiles(_fileFinderData);
'' @
       ''				setTimeout(function() { input.focus(); }, 50);
			}
		}

		function closeFileFinder() {
			var overlay = document.getElementById('file-finder-overlay');
			var modal = document.getElementById('file-finder-modal');
			if (overlay) overlay.style.display = 'none';
			if (modal) modal.style.display = 'none';
		}

'' @
       ''		function renderFiles(files) {
			var results = document.getElementById('file-finder-results');
			if (!results) return;
			if (!files || files.length === 0) {
				results.innerHTML = '<div class="gh-file-finder-empty">No files found.</div>';
				return;
			}
			var html = '<div class="gh-file-finder-list">';
'' @
       ''			for (var i = 0; i < files.length; i++) {
				var cls = i === _fileFinderSelected ? 'gh-file-finder-item active' : 'gh-file-finder-item';
				html += '<div class="' + cls + '" data-index="' + i + '" onclick="navigateToFile(' + i + ')" onmouseover="selectFileFinderIndex(' + i + ')">';
'' @
       ''				html += '<svg class="gh-icon" aria-hidden="true" viewBox="0 0 16 16">'' @
       ''<path fill="currentColor" d="M2 1.75C2 .784 2.784 0 3.75 0h5.586c.464 0 .909.184 1.237.513l2.914 2.914c.329.328.513.773.513 1.237v9.586A1.75 1.75 0'' @
       '' 0112.25 16h-8.5A1.75 1.75 0 012 14.25V1.75zM3.75 1.5a.25.25 0 00-.25.25v12.5c0 .138.112.25.25.25h8.5a.25.25 0 00.25-.25V5.5h-2.25A1.75 1.75 0 018.5'' @
       '' 3.75V1.5H3.75z"/></svg>';
				html += '<span class="gh-file-finder-name">' + escapeHtml(files[i]) + '</span>';
				html += '</div>';
			}
			html += '</div>';
			results.innerHTML = html;
		}

		function filterFiles() {
			if (!_fileFinderData) return;
'' @
       ''			var q = document.getElementById('file-finder-input').value.toLowerCase();
			var filtered;
			if (q === '' @ [CHR 0x27] @ ''') {
				filtered = _fileFinderData.slice(0, 200);
			} else {
				filtered = [];
				for (var i = 0; i < _fileFinderData.length; i++) {
					var path = _fileFinderData[i].toLowerCase();
'' @
       ''					if (path.indexOf(q) !== -1) {
						filtered.push(_fileFinderData[i]);
					}
				}
			}
			_fileFinderSelected = 0;
			renderFiles(filtered);
		}

		function handleFileFinderKeydown(e) {
			if (e.key === 'Escape') {
				e.preventDefault();
				closeFileFinder();
				return;
			}
			if (e.key === 'ArrowDown') {
'' @
       ''				e.preventDefault();
				var items = document.querySelectorAll('.gh-file-finder-item');
				if (items.length === 0) return;
				_fileFinderSelected = Math.min(_fileFinderSelected + 1, items.length - 1);
				items.forEach(function(el, i) {
					el.classList.toggle('active', i === _fileFinderSelected);
				});
'' @
       ''				items[_fileFinderSelected].scrollIntoView({ block: 'nearest' });
				return;
			}
			if (e.key === 'ArrowUp') {
				e.preventDefault();
				var items = document.querySelectorAll('.gh-file-finder-item');
				if (items.length === 0) return;
				_fileFinderSelected = Math.max(_fileFinderSelected - 1, 0);
'' @
       ''				items.forEach(function(el, i) {
					el.classList.toggle('active', i === _fileFinderSelected);
				});
				items[_fileFinderSelected].scrollIntoView({ block: 'nearest' });
				return;
			}
			if (e.key === 'Enter') {
				e.preventDefault();
				var items = document.querySelectorAll('.gh-file-finder-item');
'' @
       ''				if (items.length > 0 && _fileFinderSelected < items.length) {
					navigateToFile(_fileFinderSelected);
				}
				return;
			}
		}

		function selectFileFinderIndex(idx) {
			_fileFinderSelected = idx;
			var items = document.querySelectorAll('.gh-file-finder-item');
			items.forEach(function(el, i) {
'' @
       ''				el.classList.toggle('active', i === idx);
			});
		}

		function navigateToFile(idx) {
			var items = document.querySelectorAll('.gh-file-finder-item');
			if (idx < items.length) {
				var nameEl = items[idx].querySelector('.gh-file-finder-name');
				if (nameEl) {
					var path = nameEl.textContent;
'' @
       ''					window.location.href = '/' + _fileFinderFullName + '/blob/' + path + '?ref=' + encodeURIComponent(_fileFinderRef);
				}
			}
		}

		function escapeHtml(s) {
			return s.replace(/&/g, '&amp;').replace(/</g, '&lt;').replace(/>/g, '&gt;').replace(/"/g, '&quot;');
		}

'' @
       ''		/* Add 't' key handler to existing keyboard shortcuts */
		document.addEventListener('keydown', function(e) {
			var tag = e.target.tagName;
			if (tag === 'INPUT' || tag === 'TEXTAREA' || tag === 'SELECT' || e.target.isContentEditable) return;
			if (e.ctrlKey || e.altKey || e.metaKey) return;
'' @
       ''			/* t '' @ [CHR 0xE2, CHR 0x86, CHR 0x92] @ '' open file finder (only on repo pages that have the file-finder-data route) */
			if (e.key === 't' && !e.shiftKey) {
				/* Check we are on a repo page by looking for the file-finder element */
				if (document.getElementById('file-finder-modal')) {
					e.preventDefault();
					openFileFinder();
				}
			}
'' @
       ''		});
	</script>'')])]\<close>

lemma scan_FileFinder [simp]: "scan k (FileFinder fullName ref) (Body, Outside) = (Body, Outside)"
  unfolding FileFinder_def by simp

definition RepoContent_4 :: "repo_page_data \<Rightarrow> component" where
  \<open>RepoContent_4 data = 
    [Lit ''</div><div id="fork-dialog-container"></div>'']
    @ ForkDialogScript
    @ FileFinder (rp_full_name (rg_repo data)) (rg_ref data)
    @ TreeLazyScript\<close>

lemma scan_RepoContent_4 [simp]: "scan k (RepoContent_4 data) (Body, Outside) = (Body, Outside)"
  unfolding RepoContent_4_def by simp

definition RepoContent :: "repo_page_data \<Rightarrow> component" where
  \<open>RepoContent data = [Call (
    RepoContent_1 data
    @ (if (rg_blame data) \<noteq> []
     then RepoContent_2 data
     else RepoContent_3 data)
    @ RepoContent_4 data)]\<close>

lemma scan_RepoContent [simp]:
  "rh_csrf (fst (rg_frame data)) = k \<Longrightarrow>
     scan k (RepoContent data) (Body, Outside) = (Body, Outside)"
  unfolding RepoContent_def by simp

definition RepoPage_view :: "repo_page_data \<Rightarrow> component" where
  \<open>RepoPage_view data = [Call (
    Layout \<lparr>ly_title = ly_title (rg_layout data), ly_user = ly_user (rg_layout data), ly_csrf = ly_csrf (rg_layout data), ly_unread = ly_unread (rg_layout data), ly_flash = ly_flash (rg_layout data), ly_flash_err = ly_flash_err (rg_layout data), lv_content = RepoContent data, lv_full = True, lv_hide = False, lv_nav = []\<rparr>)]\<close>

lemma scan_RepoPage_view [simp]:
  "ly_csrf (rg_layout data) = k \<Longrightarrow>
     rh_csrf (fst (rg_frame data)) = k \<Longrightarrow>
     scan k (RepoPage_view data) (Body, Outside) = (Body, Outside)"
  unfolding RepoPage_view_def by simp

subsection \<open>tags\<close>

definition TagCreateForm :: "repo_nav \<Rightarrow> string \<Rightarrow> component" where
  \<open>TagCreateForm nav csrf = [Call (
    [Lit ''<form method="post" action="'', Esc (VUrl (''/'' @ rn_owner nav @ ''/'' @ rn_repo nav @ ''/tags'')),
     Lit ''" class="grid grid-cols-2 gap-3">'']
    @ CSRFInput csrf
    @ [Lit (''<input type="text" name="name" placeholder="Tag name" required class="input"> <input type="text" name="ref" placeholder="Target (branch or SHA,'' @
       '' defaults to default branch)" class="input"> <button type="submit" class="btn col-span-2">Create tag</button></form>'')])]\<close>

lemma scan_TagCreateForm [simp]:
  "csrf = k \<Longrightarrow>
     scan k (TagCreateForm nav csrf) (Body, Outside) = (Body, Outside)"
  unfolding TagCreateForm_def by simp

definition TagsContent :: "repo_header \<Rightarrow> repo_nav \<Rightarrow> tag_info list \<Rightarrow> string \<Rightarrow> component" where
  \<open>TagsContent header nav tags csrf = [Call (
    RepoPageShell header nav
    @ [Lit ''<div class="max-w-7xl mx-auto"><h1 class="text-xl font-bold mb-4">Tags</h1>'']
    @ CollapsibleForm ''Create tag'' (TagCreateForm nav csrf)
    @ (if tags = []
     then EmptyState ''No tags''
     else [Lit ''<div class="card">'']
       @ concat (map (\<lambda>tag.
          [Lit ''<div class="gh-file-row">'']
          @ Icon ''tag'' []
          @ [Lit ''<div class="flex-1"><strong>'', Esc (VStr (tg_name tag)), Lit ''</strong> <a href="'',
           Esc (VUrl (''/'' @ rn_owner nav @ ''/'' @ rn_repo nav @ ''/commit/'' @ tg_sha tag)),
           Lit ''" class="text-muted ml-2 font-mono text-sm">'']
          @ (if length (tg_sha tag) < 8 then [Abort] else [Esc (VStr (take 8 (tg_sha tag)))])
          @ [Lit ''</a></div></div>'']) tags)
       @ [Lit ''</div>''])
    @ [Lit ''</div>''])]\<close>

lemma scan_TagsContent [simp]:
  "rh_csrf header = k \<Longrightarrow>
     csrf = k \<Longrightarrow>
     scan k (TagsContent header nav tags csrf) (Body, Outside) = (Body, Outside)"
  unfolding TagsContent_def by simp

definition TagsPage_view :: "layout_data \<Rightarrow> repo_header \<Rightarrow> repo_nav \<Rightarrow> tag_info list \<Rightarrow> string \<Rightarrow> component" where
  \<open>TagsPage_view layout header nav tags csrf = [Call (
    Layout \<lparr>ly_title = ly_title layout, ly_user = ly_user layout, ly_csrf = ly_csrf layout, ly_unread = ly_unread layout, ly_flash = ly_flash layout, ly_flash_err = ly_flash_err layout, lv_content = TagsContent header nav tags csrf, lv_full = True, lv_hide = False, lv_nav = []\<rparr>)]\<close>

lemma scan_TagsPage_view [simp]:
  "ly_csrf layout = k \<Longrightarrow>
     rh_csrf header = k \<Longrightarrow>
     csrf = k \<Longrightarrow>
     scan k (TagsPage_view layout header nav tags csrf) (Body, Outside) = (Body, Outside)"
  unfolding TagsPage_view_def by simp

subsection \<open>wiki\<close>

definition WikiListContent :: "repo_header \<Rightarrow> repo_nav \<Rightarrow> wiki_page list \<Rightarrow> component" where
  \<open>WikiListContent header nav pages = [Call (
    RepoPageShell header nav
    @ [Lit ''<div class="max-w-7xl mx-auto"><h1 class="text-xl font-bold mb-4">Wiki</h1><a href="'',
     Esc (VUrl (''/'' @ rn_owner nav @ ''/'' @ rn_repo nav @ ''/wiki/home/edit'')),
     Lit ''" class="btn mb-4">New page</a> '']
    @ (if pages = []
     then EmptyState ''No wiki pages''
     else [Lit ''<ul class="card">'']
       @ concat (map (\<lambda>p.
          [Lit ''<li class="border-b px-4 py-3"><a href="'',
           Esc (VUrl (''/'' @ rn_owner nav @ ''/'' @ rn_repo nav @ ''/wiki/'' @ wp_slug p)), Lit ''" class="font-medium">'',
           Esc (VStr (wp_title p)), Lit ''</a></li>'']) pages)
       @ [Lit ''</ul>''])
    @ [Lit ''</div>''])]\<close>

lemma scan_WikiListContent [simp]:
  "rh_csrf header = k \<Longrightarrow>
     scan k (WikiListContent header nav pages) (Body, Outside) = (Body, Outside)"
  unfolding WikiListContent_def by simp

definition WikiPage_view :: "layout_data \<Rightarrow> repo_header \<Rightarrow> repo_nav \<Rightarrow> wiki_page list \<Rightarrow> component" where
  \<open>WikiPage_view layout header nav pages = [Call (
    Layout \<lparr>ly_title = ly_title layout, ly_user = ly_user layout, ly_csrf = ly_csrf layout, ly_unread = ly_unread layout, ly_flash = ly_flash layout, ly_flash_err = ly_flash_err layout, lv_content = WikiListContent header nav pages, lv_full = True, lv_hide = False, lv_nav = []\<rparr>)]\<close>

lemma scan_WikiPage_view [simp]:
  "ly_csrf layout = k \<Longrightarrow>
     rh_csrf header = k \<Longrightarrow>
     scan k (WikiPage_view layout header nav pages) (Body, Outside) = (Body, Outside)"
  unfolding WikiPage_view_def by simp

definition WikiViewContent :: "repo_header \<Rightarrow> repo_nav \<Rightarrow> wiki_page \<Rightarrow> string \<Rightarrow> string \<Rightarrow> component" where
  \<open>WikiViewContent header nav pg html csrf = [Call (
    RepoPageShell header nav
    @ [Lit ''<div class="max-w-7xl mx-auto"><div class="flex justify-between items-center mb-4"><h1 class="text-xl font-bold m-0">'',
     Esc (VStr (wp_title pg)), Lit ''</h1><div class="flex gap-2"><a href="'',
     Esc (VUrl (''/'' @ rn_owner nav @ ''/'' @ rn_repo nav @ ''/wiki/'' @ wp_slug pg @ ''/edit'')),
     Lit ''" class="btn-secondary">Edit</a><form method="post" action="'',
     Esc (VUrl (''/'' @ rn_owner nav @ ''/'' @ rn_repo nav @ ''/wiki/'' @ wp_slug pg @ ''/delete'')),
     Lit ''" onsubmit="return confirm('Delete this wiki page?')">'']
    @ CSRFInput csrf
    @ [Lit ''<button type="submit" class="btn-secondary">Delete</button></form></div></div><div class="card p-6 markdown">'']
    @ [RawHtml html]
    @ [Lit ''</div></div>''])]\<close>

lemma scan_WikiViewContent [simp]:
  "rh_csrf header = k \<Longrightarrow>
     csrf = k \<Longrightarrow>
     closed_html html \<Longrightarrow>
     scan k (WikiViewContent header nav pg html csrf) (Body, Outside) = (Body, Outside)"
  unfolding WikiViewContent_def by simp

definition WikiViewPage_view :: "layout_data \<Rightarrow> repo_header \<Rightarrow> repo_nav \<Rightarrow> wiki_page \<Rightarrow> string \<Rightarrow> string \<Rightarrow> component" where
  \<open>WikiViewPage_view layout header nav pg html csrf = [Call (
    Layout \<lparr>ly_title = ly_title layout, ly_user = ly_user layout, ly_csrf = ly_csrf layout, ly_unread = ly_unread layout, ly_flash = ly_flash layout, ly_flash_err = ly_flash_err layout, lv_content = WikiViewContent header nav pg html csrf, lv_full = True, lv_hide = False, lv_nav = []\<rparr>)]\<close>

lemma scan_WikiViewPage_view [simp]:
  "ly_csrf layout = k \<Longrightarrow>
     rh_csrf header = k \<Longrightarrow>
     csrf = k \<Longrightarrow>
     closed_html html \<Longrightarrow>
     scan k (WikiViewPage_view layout header nav pg html csrf) (Body, Outside) = (Body, Outside)"
  unfolding WikiViewPage_view_def by simp

definition WikiEditContent :: "repo_header \<Rightarrow> repo_nav \<Rightarrow> string \<Rightarrow> string \<Rightarrow> string \<Rightarrow> string \<Rightarrow> component" where
  \<open>WikiEditContent header nav slug title content0 csrf = [Call (
    RepoPageShell header nav
    @ [Lit ''<div class="max-w-7xl mx-auto"><h1 class="text-xl font-bold mb-4">Edit wiki page</h1><form method="post" action="'',
     Esc (VUrl (''/'' @ rn_owner nav @ ''/'' @ rn_repo nav @ ''/wiki/'' @ slug)),
     Lit ''" class="card p-4 flex flex-col gap-3">'']
    @ CSRFInput csrf
    @ [Lit ''<input type="text" name="title" value="'', Attr (VStr title),
     Lit ''" placeholder="Title" required class="input"> <textarea name="content" class="input font-mono" rows="20">'',
     Esc (VStr content0), Lit ''</textarea> <button type="submit" class="btn self-start">Save</button></form></div>''])]\<close>

lemma scan_WikiEditContent [simp]:
  "rh_csrf header = k \<Longrightarrow>
     csrf = k \<Longrightarrow>
     scan k (WikiEditContent header nav slug title content0 csrf) (Body, Outside) = (Body, Outside)"
  unfolding WikiEditContent_def by simp

definition WikiEditPage_view :: "layout_data \<Rightarrow> repo_header \<Rightarrow> repo_nav \<Rightarrow> string \<Rightarrow> string \<Rightarrow> string \<Rightarrow> string \<Rightarrow> component" where
  \<open>WikiEditPage_view layout header nav slug title content0 csrf = [Call (
    Layout \<lparr>ly_title = ly_title layout, ly_user = ly_user layout, ly_csrf = ly_csrf layout, ly_unread = ly_unread layout, ly_flash = ly_flash layout, ly_flash_err = ly_flash_err layout, lv_content = WikiEditContent header nav slug title content0 csrf, lv_full = True, lv_hide = False, lv_nav = []\<rparr>)]\<close>

lemma scan_WikiEditPage_view [simp]:
  "ly_csrf layout = k \<Longrightarrow>
     rh_csrf header = k \<Longrightarrow>
     csrf = k \<Longrightarrow>
     scan k (WikiEditPage_view layout header nav slug title content0 csrf) (Body, Outside) = (Body, Outside)"
  unfolding WikiEditPage_view_def by simp

subsection \<open>packages\<close>

definition PackageCreateForm :: "repo_nav \<Rightarrow> string \<Rightarrow> component" where
  \<open>PackageCreateForm nav csrf = [Call (
    [Lit ''<form method="post" action="'', Esc (VUrl (''/'' @ rn_owner nav @ ''/'' @ rn_repo nav @ ''/packages'')),
     Lit ''" enctype="multipart/form-data" class="grid grid-cols-2 gap-3">'']
    @ CSRFInput csrf
    @ [Lit (''<input type="text" name="name" placeholder="Package name" required class="input"> <input type="text" name="version" placeholder="Version" required'' @
       '' class="input"> <input type="text" name="type" placeholder="Type (generic)" value="generic" class="input"> <input type="file" name="file" required'' @
       '' class="input"> <button type="submit" class="btn col-span-2">Publish package</button></form>'')])]\<close>

lemma scan_PackageCreateForm [simp]:
  "csrf = k \<Longrightarrow>
     scan k (PackageCreateForm nav csrf) (Body, Outside) = (Body, Outside)"
  unfolding PackageCreateForm_def by simp

definition PackagesContent :: "view \<Rightarrow> repo_header \<Rightarrow> repo_nav \<Rightarrow> package list \<Rightarrow> string \<Rightarrow> component" where
  \<open>PackagesContent vw header nav packages0 csrf = [Call (
    RepoPageShell header nav
    @ [Lit ''<div class="max-w-7xl mx-auto"><h1 class="text-xl font-bold mb-4">Packages</h1>'']
    @ CollapsibleForm ''Publish package'' (PackageCreateForm nav csrf)
    @ (if packages0 = []
     then EmptyState ''No packages published''
     else [Lit (''<div class="overflow-auto"><table class="card"><thead><tr><th scope="col">Name</th><th scope="col">Type</th><th scope="col">Version</th>'' @
       ''<th scope="col">Published</th></tr></thead> <tbody>'')]
       @ concat (map (\<lambda>p.
          [Lit ''<tr><td>'', Esc (VStr (pa_name p)), Lit ''</td><td>'', Esc (VStr (pa_type p)), Lit ''</td><td>'',
           Esc (VStr (pa_version p)), Lit ''</td><td class="text-sm text-muted"><time datetime="'',
           Attr (VStr (v_attr vw (pa_created p))), Lit ''" title="'', Attr (VStr (v_tooltip vw (pa_created p))), Lit ''">'',
           Esc (VStr (v_ago vw (pa_created p))), Lit ''</time></td></tr>'']) packages0)
       @ [Lit ''</tbody></table></div>''])
    @ [Lit ''</div>''])]\<close>

lemma scan_PackagesContent [simp]:
  "rh_csrf header = k \<Longrightarrow>
     csrf = k \<Longrightarrow>
     scan k (PackagesContent vw header nav packages0 csrf) (Body, Outside) = (Body, Outside)"
  unfolding PackagesContent_def by simp

definition PackagesPage_view :: "view \<Rightarrow> layout_data \<Rightarrow> repo_header \<Rightarrow> repo_nav \<Rightarrow> package list \<Rightarrow> string \<Rightarrow> component" where
  \<open>PackagesPage_view vw layout header nav packages0 csrf = [Call (
    Layout \<lparr>ly_title = ly_title layout, ly_user = ly_user layout, ly_csrf = ly_csrf layout, ly_unread = ly_unread layout, ly_flash = ly_flash layout, ly_flash_err = ly_flash_err layout, lv_content = PackagesContent vw header nav packages0 csrf, lv_full = True, lv_hide = False, lv_nav = []\<rparr>)]\<close>

lemma scan_PackagesPage_view [simp]:
  "ly_csrf layout = k \<Longrightarrow>
     rh_csrf header = k \<Longrightarrow>
     csrf = k \<Longrightarrow>
     scan k (PackagesPage_view vw layout header nav packages0 csrf) (Body, Outside) = (Body, Outside)"
  unfolding PackagesPage_view_def by simp

declare if_cong [cong del] if_split [split]

end
