(* ===== verification/ViewCommit.thy ===== *)
theory ViewCommit
  imports ViewLayout
begin

section \<open>The pages of a repository: commits, comparisons, settings\<close>

text \<open>
  The templates of the same names (internal/web/commit_detail.templ, compare.templ, repo_settings.templ).
\<close>

declare if_cong [cong] if_split [split del]

subsection \<open>commit detail\<close>

record commit_view =
  cv_frame :: repo_frame
  cv_commit :: commit_detail
  cv_csrf :: string

definition CommitDetailContent_1 :: "commit_view \<Rightarrow> component" where
  \<open>CommitDetailContent_1 data = 
    RepoPageShell (fst (cv_frame data)) (snd (cv_frame data))
    @ [Lit ''<div class="max-w-7xl mx-auto"><div class="commit-overview card mb-4"><div class="commit-header flex items-center gap-2 pb-3 border-b mb-3">'']
    @ Icon ''git-commit'' ''text-muted''
    @ [Lit ''<h2 class="text-lg font-bold m-0">Commit</h2><code class="commit-sha-full text-sm text-muted">'',
     Esc (VStr (cd_sha (cv_commit data))),
     Lit ''</code> <button type="button" class="gh-clone-copy gh-header-btn" id="copy-sha-btn" aria-label="Copy SHA" onclick="copyToClipboard('{ data.Commit.SHA }', this)">'']
    @ Icon ''copy'' []
    @ [Lit (''</button> <button type="button" class="gh-clone-copy gh-header-btn" id="copy-permalink-btn" aria-label="Copy permalink"'' @
       '' onclick="copyToClipboard(window.location.href, this)">'')]
    @ Icon ''link'' []
    @ [Lit ''<span class="ml-1">Permalink</span></button></div><div class="commit-message-box mb-4"><pre class="commit-message font-mono whitespace-pre-wrap text-sm m-0">'',
     Esc (VStr (cd_message (cv_commit data))),
     Lit ''</pre></div><div class="commit-meta flex flex-wrap gap-6 text-sm"><div><span class="text-muted">Author:</span><div class="flex items-center gap-2 mt-1">'']
    @ Avatar (sg_name (cd_author (cv_commit data))) []
    @ [Lit ''<div><strong>'', Esc (VStr (sg_name (cd_author (cv_commit data)))),
     Lit ''</strong> <span class="text-muted">&lt;'', Esc (VStr (sg_email (cd_author (cv_commit data)))),
     Lit ''&gt;</span><br><span class="text-muted">'', Esc (VStr (web_formatTime (cd_author_date (cv_commit data)))),
     Lit ''</span></div></div></div><div><span class="text-muted">Committer:</span><div class="flex items-center gap-2 mt-1">'']
    @ Avatar (sg_name (cd_committer (cv_commit data))) []
    @ [Lit ''<div><strong>'', Esc (VStr (sg_name (cd_committer (cv_commit data)))),
     Lit ''</strong> <span class="text-muted">&lt;'', Esc (VStr (sg_email (cd_committer (cv_commit data)))),
     Lit ''&gt;</span><br><span class="text-muted">'']\<close>

lemma scan_CommitDetailContent_1 [simp]:
  "rh_csrf (fst (cv_frame data)) = k \<Longrightarrow>
     scan k (CommitDetailContent_1 data) (Body, Outside) = (Body, Outside)"
  unfolding CommitDetailContent_1_def by simp

definition CommitDetailContent_2 :: "commit_view \<Rightarrow> component" where
  \<open>CommitDetailContent_2 data = 
    [Esc (VStr (web_formatTime (cd_committer_date (cv_commit data)))), Lit ''</span></div></div></div>'']
    @ (if (cd_pgp (cv_commit data)) \<noteq> []
     then [Lit ''<div><span class="text-muted">Verification:</span><div class="mt-1 flex items-center gap-1">'']
       @ (if (cd_sig_status (cv_commit data)) = ''verified''
        then [Lit ''<span class="badge badge-success flex items-center gap-1">'']
          @ Icon ''verified'' ''text-green''
          @ [Lit ''<span>Verified</span></span> '']
        else [Lit ''<span class="badge badge-warning flex items-center gap-1">'']
          @ Icon ''unverified'' ''text-yellow''
          @ [Lit ''<span>Unverified</span></span> ''])
       @ (if (cd_sig_key (cv_commit data)) \<noteq> []
        then [Lit ''<span class="text-xs text-muted ml-1">Key ID: '', Esc (VStr (cd_sig_key (cv_commit data))),
           Lit ''</span>'']
        else [])
       @ [Lit ''</div></div>'']
     else [])
    @ (if (cd_parents (cv_commit data)) \<noteq> []
     then [Lit ''<div><span class="text-muted">Parents:</span><div class="mt-1">'']
       @ concat (map (\<lambda>p.
          [Lit ''<a href="'', Esc (VUrl (''../'' @ p)), Lit ''" class="font-mono text-sm text-blue mr-2">'',
           Esc (VStr (web_shortSHA p)), Lit ''</a>'']) (cd_parents (cv_commit data)))
       @ [Lit ''</div></div>'']
     else [])
    @ [Lit ''</div></div><div class="commit-stats-bar card mb-4 flex items-center gap-4 text-sm"><span class="font-bold">'',
     Esc (VStr (int_string (int (cd_changed (cv_commit data))))), Lit '' files changed</span> '']\<close>

lemma scan_CommitDetailContent_2 [simp]: "scan k (CommitDetailContent_2 data) (Body, Outside) = (Body, Outside)"
  unfolding CommitDetailContent_2_def by simp

definition fileStatusIcon :: "string \<Rightarrow> component" where
  \<open>fileStatusIcon status = [Call (
    (if status = ''added''
     then [Lit ''<span class="text-green" title="Added">'']
       @ Icon ''diff-added'' []
       @ [Lit ''</span>'']
     else (if status = ''removed''
        then [Lit ''<span class="text-red" title="Removed">'']
          @ Icon ''diff-removed'' []
          @ [Lit ''</span>'']
        else [Lit ''<span class="text-muted" title="Modified">'']
          @ Icon ''diff-modified'' []
          @ [Lit ''</span>''])))]\<close>

lemma scan_fileStatusIcon [simp]: "scan k (fileStatusIcon status) (Body, Outside) = (Body, Outside)"
  unfolding fileStatusIcon_def by simp

definition diffSnippet :: "string \<Rightarrow> string \<Rightarrow> component" where
  \<open>diffSnippet diff filename = [Call (
    [Lit ''<pre class="font-mono text-xs overflow-x-auto max-h-48 overflow-y-auto">'',
     Esc (VStr (extractFileDiff diff filename)), Lit ''</pre>''])]\<close>

lemma scan_diffSnippet [simp]: "scan k (diffSnippet diff filename) (Body, Outside) = (Body, Outside)"
  unfolding diffSnippet_def by simp

definition CommitDetailContent_3 :: "commit_view \<Rightarrow> component" where
  \<open>CommitDetailContent_3 data = 
    (if (cd_adds (cv_commit data)) > 0
     then [Lit ''<span class="text-green font-bold">++'', Esc (VStr (int_string (cd_adds (cv_commit data)))),
        Lit ''</span> '']
     else [])
    @ (if (cd_dels (cv_commit data)) > 0
     then [Lit ''<span class="text-red font-bold">--'', Esc (VStr (int_string (cd_dels (cv_commit data)))), Lit ''</span>'']
     else [])
    @ [Lit ''</div><div class="commit-files">'']
    @ concat (map (\<lambda>f.
       [Lit ''<div class="commit-file-row card mb-2"><details class="commit-file-details"><summary class="commit-file-summary flex items-center gap-2 p-3 cursor-pointer">'']
       @ fileStatusIcon (cf_status f)
       @ [Lit ''<a href="'',
        Esc (VUrl (''/'' @ rn_owner (snd (cv_frame data)) @ ''/'' @ rn_repo (snd (cv_frame data)) @ ''/blob/'' @ cd_sha (cv_commit data) @ ''?ref='' @ cd_sha (cv_commit data))),
        Lit ''" class="font-mono text-sm">'', Esc (VStr (cf_name f)),
        Lit ''</a> <span class="ml-auto text-xs text-muted">'']
       @ (if (cf_adds f) > 0
        then [Lit ''<span class="text-green">+'', Esc (VStr (int_string (cf_adds f))), Lit ''</span> '']
        else [])
       @ (if (cf_dels f) > 0
        then [Lit ''<span class="text-red ml-1">-'', Esc (VStr (int_string (cf_dels f))), Lit ''</span>'']
        else [])
       @ [Lit ''</span></summary><div class="commit-file-diff p-2 border-t">'']
       @ diffSnippet (cd_diff (cv_commit data)) (cf_name f)
       @ [Lit ''</div></details></div>'']) (cd_files (cv_commit data)))
    @ [Lit ''</div></div>'']\<close>

lemma scan_CommitDetailContent_3 [simp]: "scan k (CommitDetailContent_3 data) (Body, Outside) = (Body, Outside)"
  unfolding CommitDetailContent_3_def by simp

definition CommitDetailContent :: "commit_view \<Rightarrow> component" where
  \<open>CommitDetailContent data = [Call (
    CommitDetailContent_1 data
    @ CommitDetailContent_2 data
    @ CommitDetailContent_3 data)]\<close>

lemma scan_CommitDetailContent [simp]:
  "rh_csrf (fst (cv_frame data)) = k \<Longrightarrow>
     scan k (CommitDetailContent data) (Body, Outside) = (Body, Outside)"
  unfolding CommitDetailContent_def by simp

definition CommitDetailPage_view :: "layout_data \<Rightarrow> commit_view \<Rightarrow> component" where
  \<open>CommitDetailPage_view layout data = [Call (
    Layout \<lparr>ly_title = ly_title layout, ly_user = ly_user layout, ly_csrf = ly_csrf layout, ly_unread = ly_unread layout, ly_flash = ly_flash layout, ly_flash_err = ly_flash_err layout, lv_content = CommitDetailContent data, lv_full = True, lv_hide = False, lv_nav = []\<rparr>)]\<close>

lemma scan_CommitDetailPage_view [simp]:
  "ly_csrf layout = k \<Longrightarrow>
     rh_csrf (fst (cv_frame data)) = k \<Longrightarrow>
     scan k (CommitDetailPage_view layout data) (Body, Outside) = (Body, Outside)"
  unfolding CommitDetailPage_view_def by simp

subsection \<open>compare\<close>

record compare_view =
  pv_frame :: repo_frame
  pv_result :: compare_result
  pv_base :: string
  pv_head :: string
  pv_csrf :: string

definition compareStatusBadge :: "string \<Rightarrow> component" where
  \<open>compareStatusBadge status = [Call (
    (if status = ''ahead''
     then [Lit ''<span class="gh-state gh-state-open">'']
       @ Icon ''arrow-up'' []
       @ [Lit ''Ahead</span>'']
     else (if status = ''behind''
        then [Lit ''<span class="gh-state gh-state-closed">'']
          @ Icon ''arrow-down'' []
          @ [Lit ''Behind</span>'']
        else (if status = ''diverged''
           then [Lit ''<span class="gh-state" style="background:#8250df;color:#fff;">'']
             @ Icon ''git-branch'' []
             @ [Lit ''Diverged</span>'']
           else [Lit ''<span class="gh-state gh-state-merged">'']
             @ Icon ''check'' []
             @ [Lit ''Identical</span>'']))))]\<close>

lemma scan_compareStatusBadge [simp]: "scan k (compareStatusBadge status) (Body, Outside) = (Body, Outside)"
  unfolding compareStatusBadge_def by simp

definition CompareContent_1 :: "compare_view \<Rightarrow> component" where
  \<open>CompareContent_1 data = 
    RepoPageShell (fst (pv_frame data)) (snd (pv_frame data))
    @ [Lit ''<div class="max-w-7xl mx-auto"><div class="compare-header card mb-4"><div class="compare-header-top flex items-center gap-3 pb-3 border-b mb-3">'']
    @ Icon ''git-compare'' ''text-muted''
    @ [Lit ''<h2 class="text-lg font-bold m-0">Comparing</h2><code class="font-mono text-sm text-muted bg-gray-100 px-2 py-1 rounded">'',
     Esc (VStr (pv_base data)),
     Lit ''</code> <span class="text-muted">...</span> <code class="font-mono text-sm text-muted bg-gray-100 px-2 py-1 rounded">'',
     Esc (VStr (pv_head data)),
     Lit ''</code></div><div class="compare-stats flex flex-wrap gap-6 text-sm mb-3"><div class="compare-status">'']
    @ compareStatusBadge (cmp_status (pv_result data))
    @ [Lit ''</div><div><span class="font-bold">'', Esc (VStr (int_string (cmp_ahead (pv_result data)))),
     Lit ''</span> <span class="text-muted">commits ahead</span></div>'']
    @ (if (cmp_behind (pv_result data)) > 0
     then [Lit ''<div><span class="font-bold">'', Esc (VStr (int_string (cmp_behind (pv_result data)))),
        Lit ''</span> <span class="text-muted">commits behind</span></div>'']
     else [])
    @ [Lit ''</div>'']
    @ (if (ci_sha (cmp_merge_base (pv_result data))) \<noteq> []
     then [Lit ''<div class="text-sm text-muted mb-2">Merge base: <code class="font-mono">'',
        Esc (VStr (web_shortSHA (ci_sha (cmp_merge_base (pv_result data))))), Lit ''</code></div>'']
     else [])
    @ [Lit ''</div>'']\<close>

lemma scan_CompareContent_1 [simp]:
  "rh_csrf (fst (pv_frame data)) = k \<Longrightarrow>
     scan k (CompareContent_1 data) (Body, Outside) = (Body, Outside)"
  unfolding CompareContent_1_def by simp

definition CompareContent_2 :: "compare_view \<Rightarrow> component" where
  \<open>CompareContent_2 data = 
    (if ((cmp_status (pv_result data)) \<noteq> ''identical'') \<and> ((cmp_commits (pv_result data)) \<noteq> [])
     then [Lit ''<div class="compare-commits card mb-4"><h3 class="text-md font-bold px-4 py-3 border-b m-0">Commits ('',
        Esc (VStr (int_string (int (cmp_total (pv_result data))))), Lit '')</h3><div class="compare-commit-list">'']
       @ concat (map (\<lambda>c.
          [Lit ''<div class="compare-commit-row flex items-center gap-3 px-4 py-2 border-b last:border-0">'']
          @ Avatar (ci_author c) []
          @ [Lit ''<div class="flex-1 min-w-0"><div class="commit-msg text-sm truncate">'', Esc (VStr (ci_message c)),
           Lit ''</div></div><code class="font-mono text-xs text-muted whitespace-nowrap">'',
           Esc (VStr (web_shortSHA (ci_sha c))), Lit ''</code> <a href="'',
           Esc (VUrl (''/'' @ rn_owner (snd (pv_frame data)) @ ''/'' @ rn_repo (snd (pv_frame data)) @ ''/commit/'' @ ci_sha c)),
           Lit ''" class="gh-header-btn" aria-label="View commit">'']
          @ Icon ''code'' []
          @ [Lit ''</a></div>'']) (cmp_commits (pv_result data)))
       @ [Lit ''</div></div>'']
     else [])\<close>

lemma scan_CompareContent_2 [simp]: "scan k (CompareContent_2 data) (Body, Outside) = (Body, Outside)"
  unfolding CompareContent_2_def by simp

definition CompareContent_3 :: "compare_view \<Rightarrow> component" where
  \<open>CompareContent_3 data = 
    [Lit ''<div class="compare-files"><div class="commit-stats-bar card mb-4 flex items-center gap-4 text-sm"><span class="font-bold">'',
     Esc (VStr (int_string (int (length (cmp_files (pv_result data)))))),
     Lit '' files changed</span> <span class="text-green font-bold">++'',
     Esc (VStr (totalAdditions (cmp_files (pv_result data)))), Lit ''</span> <span class="text-red font-bold">--'',
     Esc (VStr (totalDeletions (cmp_files (pv_result data)))), Lit ''</span></div>'']
    @ concat (map (\<lambda>f.
       [Lit ''<div class="commit-file-row card mb-2"><details class="commit-file-details"><summary class="commit-file-summary flex items-center gap-2 p-3 cursor-pointer">'']
       @ fileStatusIcon (cf_status f)
       @ [Lit ''<a href="'',
        Esc (VUrl (''/'' @ rn_owner (snd (pv_frame data)) @ ''/'' @ rn_repo (snd (pv_frame data)) @ ''/blob/'' @ pv_head data @ ''/'' @ cf_name f)),
        Lit ''" class="font-mono text-sm">'', Esc (VStr (cf_name f)),
        Lit ''</a> <span class="ml-auto text-xs text-muted">'']
       @ (if (cf_adds f) > 0
        then [Lit ''<span class="text-green">+'', Esc (VStr (int_string (cf_adds f))), Lit ''</span> '']
        else [])
       @ (if (cf_dels f) > 0
        then [Lit ''<span class="text-red ml-1">-'', Esc (VStr (int_string (cf_dels f))), Lit ''</span>'']
        else [])
       @ [Lit ''</span></summary><div class="commit-file-diff p-2 border-t"><pre class="font-mono text-xs overflow-x-auto max-h-48 overflow-y-auto">'',
        Esc (VStr (extractFileDiff (cmp_diff (pv_result data)) (cf_name f))), Lit ''</pre></div></details></div>'']) (cmp_files (pv_result data)))
    @ [Lit ''</div>'']\<close>

lemma scan_CompareContent_3 [simp]: "scan k (CompareContent_3 data) (Body, Outside) = (Body, Outside)"
  unfolding CompareContent_3_def by simp

definition CompareContent_4 :: "compare_view \<Rightarrow> component" where
  \<open>CompareContent_4 data = 
    (if (cmp_status (pv_result data)) = ''identical''
     then [Lit ''<div class="card p-4 text-center text-muted">'']
       @ Icon ''git-compare'' ''text-muted''
       @ [Lit ''<p class="mt-2">These branches are identical. There's nothing to compare.</p></div>'']
     else [])
    @ [Lit ''</div>'']\<close>

lemma scan_CompareContent_4 [simp]: "scan k (CompareContent_4 data) (Body, Outside) = (Body, Outside)"
  unfolding CompareContent_4_def by simp

definition CompareContent :: "compare_view \<Rightarrow> component" where
  \<open>CompareContent data = [Call (
    CompareContent_1 data
    @ CompareContent_2 data
    @ (if (cmp_files (pv_result data)) \<noteq> []
     then CompareContent_3 data
     else [])
    @ CompareContent_4 data)]\<close>

lemma scan_CompareContent [simp]:
  "rh_csrf (fst (pv_frame data)) = k \<Longrightarrow>
     scan k (CompareContent data) (Body, Outside) = (Body, Outside)"
  unfolding CompareContent_def by simp

definition ComparePage_view :: "layout_data \<Rightarrow> compare_view \<Rightarrow> component" where
  \<open>ComparePage_view layout data = [Call (
    Layout \<lparr>ly_title = ly_title layout, ly_user = ly_user layout, ly_csrf = ly_csrf layout, ly_unread = ly_unread layout, ly_flash = ly_flash layout, ly_flash_err = ly_flash_err layout, lv_content = CompareContent data, lv_full = True, lv_hide = False, lv_nav = []\<rparr>)]\<close>

lemma scan_ComparePage_view [simp]:
  "ly_csrf layout = k \<Longrightarrow>
     rh_csrf (fst (pv_frame data)) = k \<Longrightarrow>
     scan k (ComparePage_view layout data) (Body, Outside) = (Body, Outside)"
  unfolding ComparePage_view_def by simp

subsection \<open>repo settings\<close>

definition RepoSettingsContent_1 :: "repo_settings_data \<Rightarrow> component" where
  \<open>RepoSettingsContent_1 data = 
    RepoPageShell (fst (rd_frame data)) (snd (rd_frame data))
    @ [Lit (''<div class="max-w-7xl mx-auto"><h1 class="text-xl font-bold mb-4">Settings</h1><section class="mb-6">'' @
       ''<h2 class="text-lg font-semibold mb-3">Collaborators</h2><form method="post" action="''),
     Esc (VUrl (''/'' @ rn_owner (snd (rd_frame data)) @ ''/'' @ rn_repo (snd (rd_frame data)) @ ''/settings/collaborator'')),
     Lit ''" class="card p-4 mb-4 flex gap-3">'']
    @ CSRFInput (rd_csrf data)
    @ [Lit (''<input type="text" name="username" placeholder="Username" required class="input flex-1"> <select name="permission" class="input">'' @
       ''<option value="read">read</option> <option value="write">write</option></select> <button type="submit" class="btn">Add</button></form>'')]
    @ (if (rd_collaborators data) = []
     then EmptyState ''No collaborators''
     else [Lit ''<table class="card mb-4"><thead><tr><th>User</th><th>Permission</th><th></th></tr></thead> <tbody>'']
       @ concat (map (\<lambda>c.
          [Lit ''<tr><td>'', Esc (VStr (co_username c)), Lit ''</td><td>'', Esc (VStr (co_perm c)),
           Lit ''</td><td><form method="post" action="'',
           Esc (VUrl (''/'' @ rn_owner (snd (rd_frame data)) @ ''/'' @ rn_repo (snd (rd_frame data)) @ ''/settings/collaborator/'' @ co_username c @ ''/remove'')),
           Lit ''" onsubmit="return confirm('Remove this collaborator?')">'']
          @ CSRFInput (rd_csrf data)
          @ [Lit ''<button type="submit" class="btn-secondary text-sm">Remove</button></form></td></tr>'']) (rd_collaborators data))
       @ [Lit ''</tbody></table>''])
    @ [Lit ''</section><section class="mb-6"><h2 class="text-lg font-semibold mb-3">Branch protection</h2><form method="post" action="'',
     Esc (VUrl (''/'' @ rn_owner (snd (rd_frame data)) @ ''/'' @ rn_repo (snd (rd_frame data)) @ ''/settings/protection'')),
     Lit ''" class="card p-4 mb-4 flex flex-col gap-3">'']
    @ CSRFInput (rd_csrf data)
    @ [Lit (''<input type="text" name="branch" placeholder="Branch name" required class="input"> <input type="text" name="required_checks" placeholder="Required'' @
       '' checks (comma-separated job IDs)" class="input"> <input type="number" name="require_reviews" placeholder="Required reviews" min="0" value="0"'' @
       '' class="input"> <button type="submit" class="btn self-start">Protect branch</button></form>'')]\<close>

lemma scan_RepoSettingsContent_1 [simp]:
  "rh_csrf (fst (rd_frame data)) = k \<Longrightarrow>
     rd_csrf data = k \<Longrightarrow>
     scan k (RepoSettingsContent_1 data) (Body, Outside) = (Body, Outside)"
  unfolding RepoSettingsContent_1_def by simp

definition RepoSettingsContent_2 :: "view \<Rightarrow> repo_settings_data \<Rightarrow> component" where
  \<open>RepoSettingsContent_2 vw data = 
    (if (rd_protected data) = []
     then EmptyState ''No protected branches''
     else [Lit ''<table class="card mb-4"><thead><tr><th>Branch</th><th>Required checks</th><th>Reviews</th></tr></thead> <tbody>'']
       @ concat (map (\<lambda>pb.
          [Lit ''<tr><td>'', Esc (VStr (pbr_branch pb)), Lit ''</td><td class="text-sm">'',
           Esc (VStr (joinStrings (pbr_checks pb))), Lit ''</td><td>'', Esc (VInt (pbr_reviews pb)), Lit ''</td></tr>'']) (rd_protected data))
       @ [Lit ''</tbody></table>''])
    @ [Lit ''</section><section class="mb-6"><h2 class="text-lg font-semibold mb-3">Labels</h2><form method="post" action="'',
     Esc (VUrl (''/'' @ rn_owner (snd (rd_frame data)) @ ''/'' @ rn_repo (snd (rd_frame data)) @ ''/settings/label'')),
     Lit ''" class="card p-4 mb-4 flex gap-3">'']
    @ CSRFInput (rd_csrf data)
    @ [Lit (''<input type="text" name="name" placeholder="Label name" required class="input flex-1"> <input type="text" name="color" placeholder="#ff0000"'' @
       '' class="input"> <button type="submit" class="btn">Create label</button></form>'')]
    @ (if (rd_labels data) = []
     then EmptyState ''No labels''
     else [Lit ''<div class="flex flex-wrap gap-2 mb-4">'']
       @ concat (map (\<lambda>l.
          LabelBadge vw (lb_name l) (lb_color l)) (rd_labels data))
       @ [Lit ''</div>''])
    @ [Lit ''</section><section class="mb-6"><h2 class="text-lg font-semibold mb-3">Webhooks</h2><form method="post" action="'',
     Esc (VUrl (''/'' @ rn_owner (snd (rd_frame data)) @ ''/'' @ rn_repo (snd (rd_frame data)) @ ''/settings/webhook'')),
     Lit ''" class="card p-4 mb-4 flex flex-col gap-3">'']
    @ CSRFInput (rd_csrf data)
    @ [Lit (''<input type="url" name="url" placeholder="Payload URL" required class="input"> <input type="text" name="events" placeholder="Events'' @
       '' (comma-separated)" class="input"> <button type="submit" class="btn self-start">Add webhook</button></form>'')]\<close>

lemma scan_RepoSettingsContent_2 [simp]:
  "rd_csrf data = k \<Longrightarrow>
     scan k (RepoSettingsContent_2 vw data) (Body, Outside) = (Body, Outside)"
  unfolding RepoSettingsContent_2_def by simp

definition RepoSettingsContent_3 :: "view \<Rightarrow> repo_settings_data \<Rightarrow> component" where
  \<open>RepoSettingsContent_3 vw data = 
    (if (rd_webhooks data) = []
     then EmptyState ''No webhooks''
     else concat (map (\<lambda>wh.
          [Lit ''<div class="card p-4 mb-4"><p class="font-medium m-0">'', Esc (VStr (wk_url (fst wh))),
           Lit ''</p><p class="text-sm text-muted m-0 mt-1">'', Esc (VStr (wk_events (fst wh))), Lit ''</p>'']
          @ (if (snd wh) = []
           then [Lit ''<p class="text-sm text-muted mt-2 mb-0">No deliveries yet</p>'']
           else [Lit ''<table class="mt-3 w-full text-sm"><thead><tr><th>Event</th><th>Status</th><th>Time</th></tr></thead> <tbody>'']
             @ concat (map (\<lambda>d.
                [Lit ''<tr><td>'', Esc (VStr (dv_event d)), Lit ''</td><td>'', Esc (VInt (dv_status d)),
                 Lit ''</td><td class="text-muted"><time datetime="'', Attr (VStr (v_attr vw (dv_at d))), Lit ''" title="'',
                 Attr (VStr (v_tooltip vw (dv_at d))), Lit ''">'', Esc (VStr (v_ago vw (dv_at d))), Lit ''</time></td></tr>'']) (snd wh))
             @ [Lit ''</tbody></table>''])
          @ [Lit ''</div>'']) (rd_webhooks data)))
    @ [Lit (''</section><section class="mb-6 border-2 border-red-500 rounded-lg p-4"><h2 class="text-lg font-semibold mb-3 text-red-600">Danger Zone</h2>'' @
       ''<p class="text-sm text-muted mb-4">Once you delete a repository, its contents, issues, pull requests, and all associated data are permanently'' @
       '' removed. This action <strong>cannot</strong> be undone. Please type the repository name to confirm.</p><form method="post" action="'')]\<close>

lemma scan_RepoSettingsContent_3 [simp]:
  "scan k (RepoSettingsContent_3 vw data) (Body, Outside) = (Val ''form'' ''action'', Inside True False False None)"
  unfolding RepoSettingsContent_3_def by simp

definition RepoSettingsContent_4 :: "repo_settings_data \<Rightarrow> component" where
  \<open>RepoSettingsContent_4 data = 
    [Esc (VUrl (''/'' @ rn_owner (snd (rd_frame data)) @ ''/'' @ rn_repo (snd (rd_frame data)) @ ''/settings/delete'')),
     Lit ''" class="flex gap-3 items-start" onsubmit="return confirm('Are you absolutely sure you want to delete this repository? This cannot be undone.')">'']
    @ CSRFInput (rd_csrf data)
    @ [Lit ''<input type="text" name="confirm" placeholder="'',
     Attr (VUrl (''type "'' @ rn_repo (snd (rd_frame data)) @ ''" to confirm'')),
     Lit ''" required class="input flex-1"> <button type="submit" class="btn bg-red-600 text-white hover:bg-red-700 font-bold">Delete this repository</button></form></section></div>'']\<close>

lemma scan_RepoSettingsContent_4 [simp]:
  "rd_csrf data = k \<Longrightarrow>
     scan k (RepoSettingsContent_4 data) (Val ''form'' ''action'', Inside True False False None) = (Body, Outside)"
  unfolding RepoSettingsContent_4_def by simp

definition RepoSettingsContent :: "view \<Rightarrow> repo_settings_data \<Rightarrow> component" where
  \<open>RepoSettingsContent vw data = [Call (
    RepoSettingsContent_1 data
    @ RepoSettingsContent_2 vw data
    @ RepoSettingsContent_3 vw data
    @ RepoSettingsContent_4 data)]\<close>

lemma scan_RepoSettingsContent [simp]:
  "rh_csrf (fst (rd_frame data)) = k \<Longrightarrow>
     rd_csrf data = k \<Longrightarrow>
     scan k (RepoSettingsContent vw data) (Body, Outside) = (Body, Outside)"
  unfolding RepoSettingsContent_def by simp

definition RepoSettingsPage_view :: "view \<Rightarrow> layout_data \<Rightarrow> repo_settings_data \<Rightarrow> component" where
  \<open>RepoSettingsPage_view vw layout data = [Call (
    Layout \<lparr>ly_title = ly_title layout, ly_user = ly_user layout, ly_csrf = ly_csrf layout, ly_unread = ly_unread layout, ly_flash = ly_flash layout, ly_flash_err = ly_flash_err layout, lv_content = RepoSettingsContent vw data, lv_full = True, lv_hide = False, lv_nav = []\<rparr>)]\<close>

lemma scan_RepoSettingsPage_view [simp]:
  "ly_csrf layout = k \<Longrightarrow>
     rh_csrf (fst (rd_frame data)) = k \<Longrightarrow>
     rd_csrf data = k \<Longrightarrow>
     scan k (RepoSettingsPage_view vw layout data) (Body, Outside) = (Body, Outside)"
  unfolding RepoSettingsPage_view_def by simp

declare if_cong [cong del] if_split [split]

end
