(* ===== verification/ViewIssue.thy ===== *)
theory ViewIssue
  imports ViewLayout
begin

section \<open>The pages of issues, milestones and releases\<close>

text \<open>
  The templates of the same names (internal/web/issues.templ, issue_detail.templ, milestones.templ, releases.templ).
\<close>

declare if_cong [cong] if_split [split del]

subsection \<open>issues\<close>

definition IssueCreateForm :: "repo_nav \<Rightarrow> string \<Rightarrow> component" where
  \<open>IssueCreateForm nav csrf = [Call (
    [Lit ''<form method="post" action="'', Esc (VUrl (''/'' @ rn_owner nav @ ''/'' @ rn_repo nav @ ''/issues'')),
     Lit ''" class="flex flex-col gap-3">'']
    @ CSRFInput csrf
    @ FormField ''Title'' ''issue-title'' ''text'' ''title'' [] True
    @ [Lit ''<label class="text-sm">Description</label>'']
    @ MarkdownTextarea ''body'' ''Add a description for this issue'' [] csrf
    @ [Lit ''<button type="submit" class="btn self-start">Create issue</button></form>''])]\<close>

lemma scan_IssueCreateForm [simp]:
  "csrf = k \<Longrightarrow>
     scan k (IssueCreateForm nav csrf) (Body, Outside) = (Body, Outside)"
  unfolding IssueCreateForm_def by simp

definition issuePagination :: "repo_nav \<Rightarrow> string \<Rightarrow> int \<Rightarrow> int \<Rightarrow> int \<Rightarrow> int \<Rightarrow> component" where
  \<open>issuePagination nav st pg limit openCount closedCount = [Call (
    (if (totalPagesForState openCount closedCount limit st) > 1
     then [Lit ''<div class="flex justify-center gap-2 mt-4">'']
       @ (if pg > 1
        then [Lit ''<a href="'',
           Esc (VUrl (''/'' @ (rn_owner nav) @ ''/'' @ (rn_repo nav) @ ''/issues?state='' @ st @ ''&page='' @ int_string (wrap64 (pg - 1)) @ ''&limit='' @ int_string limit)),
           Lit ''" class="btn-secondary text-sm">Previous</a> '']
        else [])
       @ [Lit ''<span class="self-center text-sm text-gray-600 dark:text-gray-400">Page '', Esc (VStr (int_string pg)),
        Lit '' of '', Esc (VStr (int_string (totalPagesForState openCount closedCount limit st))), Lit ''</span> '']
       @ (if pg < (totalPagesForState openCount closedCount limit st)
        then [Lit ''<a href="'',
           Esc (VUrl (''/'' @ (rn_owner nav) @ ''/'' @ (rn_repo nav) @ ''/issues?state='' @ st @ ''&page='' @ int_string (wrap64 (pg + 1)) @ ''&limit='' @ int_string limit)),
           Lit ''" class="btn-secondary text-sm">Next</a>'']
        else [])
       @ [Lit ''</div>'']
     else []))]\<close>

lemma scan_issuePagination [simp]: "scan k (issuePagination nav st pg limit openCount closedCount) (Body, Outside) = (Body, Outside)"
  unfolding issuePagination_def by simp

definition IssuesContent :: "repo_header \<Rightarrow> repo_nav \<Rightarrow> issue list \<Rightarrow> string \<Rightarrow> string \<Rightarrow> int \<Rightarrow> int \<Rightarrow> int \<Rightarrow> int \<Rightarrow> component" where
  \<open>IssuesContent header nav issue_list st csrf pg limit openCount closedCount = [Call (
    RepoPageShell header nav
    @ [Lit ''<div class="max-w-7xl mx-auto"><div class="flex justify-between items-center mb-4 gap-3 flex-wrap">'']
    @ IssueSubhead nav st openCount closedCount
    @ CollapsibleForm ''New issue'' (IssueCreateForm nav csrf)
    @ [Lit ''</div>'']
    @ (if issue_list = []
     then EmptyState ''No issues found''
     else [Lit ''<div class="gh-list" id="issue-list">'']
       @ concat (map (\<lambda>i.
          IssueListItem nav i) issue_list)
       @ [Lit ''</div>'']
       @ issuePagination nav st pg limit openCount closedCount)
    @ [Lit ''</div>''])]\<close>

lemma scan_IssuesContent [simp]:
  "rh_csrf header = k \<Longrightarrow>
     csrf = k \<Longrightarrow>
     scan k (IssuesContent header nav issue_list st csrf pg limit openCount closedCount) (Body, Outside) = (Body, Outside)"
  unfolding IssuesContent_def by simp

definition IssuesPage_view :: "layout_data \<Rightarrow> repo_header \<Rightarrow> repo_nav \<Rightarrow> issue list \<Rightarrow> string \<Rightarrow> string \<Rightarrow> int \<Rightarrow> int \<Rightarrow> int \<Rightarrow> int \<Rightarrow> component" where
  \<open>IssuesPage_view layout header nav issue_list st csrf pg limit openCount closedCount = [Call (
    Layout \<lparr>ly_title = ly_title layout, ly_user = ly_user layout, ly_csrf = ly_csrf layout, ly_unread = ly_unread layout, ly_flash = ly_flash layout, ly_flash_err = ly_flash_err layout, lv_content = IssuesContent header nav issue_list st csrf pg limit openCount closedCount, lv_full = True, lv_hide = False, lv_nav = []\<rparr>)]\<close>

lemma scan_IssuesPage_view [simp]:
  "ly_csrf layout = k \<Longrightarrow>
     rh_csrf header = k \<Longrightarrow>
     csrf = k \<Longrightarrow>
     scan k (IssuesPage_view layout header nav issue_list st csrf pg limit openCount closedCount) (Body, Outside) = (Body, Outside)"
  unfolding IssuesPage_view_def by simp

subsection \<open>issue detail\<close>

definition issueBodyComponent :: "view \<Rightarrow> string \<Rightarrow> component" where
  \<open>issueBodyComponent vw body = [Call (
    [Lit ''<div class="markdown">'']
    @ [RawHtml (issueBodyHTML vw body)]
    @ [Lit ''</div>''])]\<close>

lemma scan_issueBodyComponent [simp]:
  "\<forall>s. closed_html (issueBodyHTML vw s) \<Longrightarrow>
     scan k (issueBodyComponent vw body) (Body, Outside) = (Body, Outside)"
  unfolding issueBodyComponent_def by simp

definition IssueDetailContent_1 :: "view \<Rightarrow> repo_header \<Rightarrow> repo_nav \<Rightarrow> issue \<Rightarrow> issue_comment list \<Rightarrow> string \<Rightarrow> component" where
  \<open>IssueDetailContent_1 vw header nav iss comments0 csrf = 
    RepoPageShell header nav
    @ [Lit ''<div class="max-w-7xl mx-auto"><div class="flex gap-4 max-md-flex-col"><div class="flex-1"><div class="flex items-center gap-2 mb-3">'']
    @ StateBadge (iu_state iss)
    @ [Lit ''<h1 class="gh-detail-title m-0">'', Esc (VStr (iu_title iss)), Lit '' <span class="num">#'',
     Esc (VInt (iu_number iss)), Lit ''</span></h1></div><ul class="gh-timeline">'']
    @ CommentBox (iu_author iss) ''opened this issue'' (issueBodyComponent vw (iu_body iss))
    @ concat (map (\<lambda>c.
       CommentBox (cm_author c) ''commented'' (issueBodyComponent vw (cm_body c))) comments0)
    @ [Lit ''</ul><form method="post" action="'',
     Esc (VUrl (''/'' @ rn_owner nav @ ''/'' @ rn_repo nav @ ''/issues/'' @ int_string (iu_number iss) @ ''/comment'')),
     Lit ''" class="mt-4">'']
    @ CSRFInput csrf
    @ MarkdownTextarea ''body'' ''Leave a comment'' [] csrf
    @ [Lit (''<button type="submit" class="btn mt-2">Comment</button></form></div><aside class="sidebar"><div id="issue-toast"></div><div class="gh-sidebar-panel">'' @
       ''<div class="gh-sidebar-section"><div class="gh-sidebar-label">Assignees</div><form hx-post="''),
     Attr (VStr (''/'' @ rn_owner nav @ ''/'' @ rn_repo nav @ ''/issues/'' @ int_string (iu_number iss) @ ''/assignee'')),
     Lit ''" hx-target="#issue-toast" hx-swap="innerHTML" hx-indicator="#assignee-indicator">'']
    @ CSRFInput csrf
    @ [Lit ''<select name="assignee" class="input" onchange="this.form.requestSubmit()"><option value="">No one assigned</option> '']\<close>

lemma scan_IssueDetailContent_1 [simp]:
  "rh_csrf header = k \<Longrightarrow>
     \<forall>s. closed_html (issueBodyHTML vw s) \<Longrightarrow>
     csrf = k \<Longrightarrow>
     scan k (IssueDetailContent_1 vw header nav iss comments0 csrf) (Body, Outside) = (Body, Inside False True False None)"
  unfolding IssueDetailContent_1_def by simp

definition IssueDetailContent_2 :: "view \<Rightarrow> repo_nav \<Rightarrow> issue \<Rightarrow> milestone list \<Rightarrow> string list \<Rightarrow> string \<Rightarrow> component" where
  \<open>IssueDetailContent_2 vw nav iss milestones0 user_list csrf = 
    concat (map (\<lambda>u.
       [Lit ''<option value="'', Attr (VStr u), Lit ''"'']
       @ (if (iu_assignee iss) = u
        then [Lit '' selected'']
        else [])
       @ [Lit ''>'', Esc (VStr u), Lit ''</option>'']) user_list)
    @ [Lit ''</select>'']
    @ LoadingSpinnerSmall
    @ [Lit (''<span id="assignee-indicator" class="htmx-indicator text-xs text-muted">Updating...</span></form></div><div class="gh-sidebar-section">'' @
       ''<div class="gh-sidebar-label">Milestone</div><form hx-post="''),
     Attr (VStr (''/'' @ rn_owner nav @ ''/'' @ rn_repo nav @ ''/issues/'' @ int_string (iu_number iss) @ ''/milestone'')),
     Lit ''" hx-target="#issue-toast" hx-swap="innerHTML" hx-indicator="#milestone-indicator">'']
    @ CSRFInput csrf
    @ [Lit ''<select name="milestone_id" class="input" onchange="this.form.requestSubmit()"><option value="">No milestone</option> '']
    @ concat (map (\<lambda>m.
       [Lit ''<option value="'', Attr (VStr (vw_uuid vw (ml_id m))), Lit ''"'']
       @ (if ((iu_milestone_id iss) \<noteq> None) \<and> ((vw_uuid vw (the (iu_milestone_id iss))) = (vw_uuid vw (ml_id m)))
        then [Lit '' selected'']
        else [])
       @ [Lit ''>'', Esc (VStr (ml_title m)), Lit ''</option>'']) milestones0)
    @ [Lit ''</select>'']
    @ LoadingSpinnerSmall
    @ [Lit (''<span id="milestone-indicator" class="htmx-indicator text-xs text-muted">Updating...</span></form></div><div class="gh-sidebar-section">'' @
       ''<div class="gh-sidebar-label">Labels</div><div class="flex flex-wrap gap-2 mb-3">'')]\<close>

lemma scan_IssueDetailContent_2 [simp]:
  "csrf = k \<Longrightarrow>
     scan k (IssueDetailContent_2 vw nav iss milestones0 user_list csrf) (Body, Inside False True False None) = (Body, Outside)"
  unfolding IssueDetailContent_2_def by simp

definition IssueDetailContent_3 :: "view \<Rightarrow> repo_nav \<Rightarrow> issue \<Rightarrow> label list \<Rightarrow> string \<Rightarrow> component" where
  \<open>IssueDetailContent_3 vw nav iss labels0 csrf = 
    concat (map (\<lambda>l.
       [Lit ''<span class="inline-flex items-center gap-1">'']
       @ LabelBadge vw (lb_name l) (lb_color l)
       @ [Lit ''<form method="post" action="'',
        Esc (VUrl (''/'' @ rn_owner nav @ ''/'' @ rn_repo nav @ ''/issues/'' @ int_string (iu_number iss) @ ''/labels/'' @ vw_uuid vw (lb_id l) @ ''/remove'')),
        Lit ''" class="inline">'']
       @ CSRFInput csrf
       @ [Lit ''<button type="submit" class="btn-secondary text-xs" aria-label="'',
        Attr (VStr (''Remove label '' @ lb_name l)), Lit (''">'' @ [CHR 0xC3, CHR 0x97] @ ''</button></form></span>'')]) (iu_labels iss))
    @ [Lit ''</div>'']
    @ concat (map (\<lambda>l.
       (if \<not> (issueHasLabel iss (lb_id l))
        then [Lit ''<form method="post" action="'',
           Esc (VUrl (''/'' @ rn_owner nav @ ''/'' @ rn_repo nav @ ''/issues/'' @ int_string (iu_number iss) @ ''/labels/'' @ vw_uuid vw (lb_id l))),
           Lit ''" class="inline mr-2">'']
          @ CSRFInput csrf
          @ [Lit ''<button type="submit" class="btn-secondary text-xs">+ '', Esc (VStr (lb_name l)), Lit ''</button></form>'']
        else [])) labels0)
    @ [Lit ''</div>'']
    @ (if (iu_state iss) = ''open''
     then [Lit ''<div class="gh-sidebar-section"><form method="post" action="'',
        Esc (VUrl (''/'' @ rn_owner nav @ ''/'' @ rn_repo nav @ ''/issues/'' @ int_string (iu_number iss) @ ''/close'')),
        Lit ''">'']
       @ CSRFInput csrf
       @ [Lit ''<button type="submit" class="btn-secondary w-full">Close issue</button></form></div>'']
     else [])
    @ [Lit ''</div></aside></div></div>'']\<close>

lemma scan_IssueDetailContent_3 [simp]:
  "csrf = k \<Longrightarrow>
     scan k (IssueDetailContent_3 vw nav iss labels0 csrf) (Body, Outside) = (Body, Outside)"
  unfolding IssueDetailContent_3_def by simp

definition IssueDetailContent :: "view \<Rightarrow> repo_header \<Rightarrow> repo_nav \<Rightarrow> issue \<Rightarrow> issue_comment list \<Rightarrow> label list \<Rightarrow> milestone list \<Rightarrow> string list \<Rightarrow> string \<Rightarrow> component" where
  \<open>IssueDetailContent vw header nav iss comments0 labels0 milestones0 user_list csrf = [Call (
    IssueDetailContent_1 vw header nav iss comments0 csrf
    @ IssueDetailContent_2 vw nav iss milestones0 user_list csrf
    @ IssueDetailContent_3 vw nav iss labels0 csrf)]\<close>

lemma scan_IssueDetailContent [simp]:
  "rh_csrf header = k \<Longrightarrow>
     \<forall>s. closed_html (issueBodyHTML vw s) \<Longrightarrow>
     csrf = k \<Longrightarrow>
     scan k (IssueDetailContent vw header nav iss comments0 labels0 milestones0 user_list csrf) (Body, Outside) = (Body, Outside)"
  unfolding IssueDetailContent_def by simp

definition IssueDetailPage_view :: "view \<Rightarrow> layout_data \<Rightarrow> repo_header \<Rightarrow> repo_nav \<Rightarrow> issue \<Rightarrow> issue_comment list \<Rightarrow> label list \<Rightarrow> milestone list \<Rightarrow> string list \<Rightarrow> string \<Rightarrow> component" where
  \<open>IssueDetailPage_view vw layout header nav iss comments0 labels0 milestones0 user_list csrf = [Call (
    Layout \<lparr>ly_title = ly_title layout, ly_user = ly_user layout, ly_csrf = ly_csrf layout, ly_unread = ly_unread layout, ly_flash = ly_flash layout, ly_flash_err = ly_flash_err layout, lv_content = IssueDetailContent vw header nav iss comments0 labels0 milestones0 user_list csrf, lv_full = True, lv_hide = False, lv_nav = []\<rparr>)]\<close>

lemma scan_IssueDetailPage_view [simp]:
  "ly_csrf layout = k \<Longrightarrow>
     rh_csrf header = k \<Longrightarrow>
     \<forall>s. closed_html (issueBodyHTML vw s) \<Longrightarrow>
     csrf = k \<Longrightarrow>
     scan k (IssueDetailPage_view vw layout header nav iss comments0 labels0 milestones0 user_list csrf) (Body, Outside) = (Body, Outside)"
  unfolding IssueDetailPage_view_def by simp

subsection \<open>milestones\<close>

definition MilestoneCreateForm :: "repo_nav \<Rightarrow> string \<Rightarrow> component" where
  \<open>MilestoneCreateForm nav csrf = [Call (
    [Lit ''<form method="post" action="'', Esc (VUrl (''/'' @ rn_owner nav @ ''/'' @ rn_repo nav @ ''/milestones'')),
     Lit ''" class="flex flex-col gap-3">'']
    @ CSRFInput csrf
    @ [Lit (''<input type="text" name="title" placeholder="Milestone title" required class="input"> <textarea name="description" placeholder="Description"'' @
       '' class="input" rows="2"></textarea> <button type="submit" class="btn self-start">Create milestone</button></form>'')])]\<close>

lemma scan_MilestoneCreateForm [simp]:
  "csrf = k \<Longrightarrow>
     scan k (MilestoneCreateForm nav csrf) (Body, Outside) = (Body, Outside)"
  unfolding MilestoneCreateForm_def by simp

definition MilestonesContent :: "view \<Rightarrow> repo_header \<Rightarrow> repo_nav \<Rightarrow> milestone list \<Rightarrow> string \<Rightarrow> component" where
  \<open>MilestonesContent vw header nav milestones0 csrf = [Call (
    RepoPageShell header nav
    @ [Lit ''<div class="max-w-7xl mx-auto"><h1 class="text-xl font-bold mb-4">Milestones</h1>'']
    @ CollapsibleForm ''Create milestone'' (MilestoneCreateForm nav csrf)
    @ (if milestones0 = []
     then EmptyState ''No milestones''
     else [Lit ''<ul class="card">'']
       @ concat (map (\<lambda>m.
          [Lit ''<li class="border-b px-4 py-3 flex justify-between items-center"><div><strong>'', Esc (VStr (ml_title m)),
           Lit ''</strong> <span class="badge ml-2">'', Esc (VStr (ml_state m)), Lit ''</span> '']
          @ (if (ml_desc m) \<noteq> []
           then [Lit ''<p class="text-sm text-muted m-0 mt-1">'', Esc (VStr (ml_desc m)), Lit ''</p>'']
           else [])
          @ [Lit ''</div>'']
          @ (if (ml_state m) = ''open''
           then [Lit ''<form method="post" action="'',
              Esc (VUrl (''/'' @ rn_owner nav @ ''/'' @ rn_repo nav @ ''/milestones/'' @ vw_uuid vw (ml_id m) @ ''/close'')),
              Lit ''">'']
             @ CSRFInput csrf
             @ [Lit ''<button type="submit" class="btn-secondary text-sm">Close</button></form>'']
           else [])
          @ [Lit ''</li>'']) milestones0)
       @ [Lit ''</ul>''])
    @ [Lit ''</div>''])]\<close>

lemma scan_MilestonesContent [simp]:
  "rh_csrf header = k \<Longrightarrow>
     csrf = k \<Longrightarrow>
     scan k (MilestonesContent vw header nav milestones0 csrf) (Body, Outside) = (Body, Outside)"
  unfolding MilestonesContent_def by simp

definition MilestonesPage_view :: "view \<Rightarrow> layout_data \<Rightarrow> repo_header \<Rightarrow> repo_nav \<Rightarrow> milestone list \<Rightarrow> string \<Rightarrow> component" where
  \<open>MilestonesPage_view vw layout header nav milestones0 csrf = [Call (
    Layout \<lparr>ly_title = ly_title layout, ly_user = ly_user layout, ly_csrf = ly_csrf layout, ly_unread = ly_unread layout, ly_flash = ly_flash layout, ly_flash_err = ly_flash_err layout, lv_content = MilestonesContent vw header nav milestones0 csrf, lv_full = True, lv_hide = False, lv_nav = []\<rparr>)]\<close>

lemma scan_MilestonesPage_view [simp]:
  "ly_csrf layout = k \<Longrightarrow>
     rh_csrf header = k \<Longrightarrow>
     csrf = k \<Longrightarrow>
     scan k (MilestonesPage_view vw layout header nav milestones0 csrf) (Body, Outside) = (Body, Outside)"
  unfolding MilestonesPage_view_def by simp

subsection \<open>releases\<close>

definition ReleaseCreateForm :: "repo_nav \<Rightarrow> string \<Rightarrow> component" where
  \<open>ReleaseCreateForm nav csrf = [Call (
    [Lit ''<form method="post" action="'', Esc (VUrl (''/'' @ rn_owner nav @ ''/'' @ rn_repo nav @ ''/releases'')),
     Lit ''" class="grid grid-cols-2 gap-3">'']
    @ CSRFInput csrf
    @ [Lit (''<input type="text" name="tag" placeholder="Tag" required class="input"> <input type="text" name="name" placeholder="Release name" class="input">'' @
       '' <textarea name="body" placeholder="Release notes" class="input col-span-2" rows="3">'' @
       ''</textarea> <button type="submit" class="btn col-span-2">Create release</button></form>'')])]\<close>

lemma scan_ReleaseCreateForm [simp]:
  "csrf = k \<Longrightarrow>
     scan k (ReleaseCreateForm nav csrf) (Body, Outside) = (Body, Outside)"
  unfolding ReleaseCreateForm_def by simp

definition ReleasesContent_1 :: "repo_header \<Rightarrow> repo_nav \<Rightarrow> string \<Rightarrow> component" where
  \<open>ReleasesContent_1 header nav csrf = 
    RepoPageShell header nav
    @ [Lit ''<div class="max-w-7xl mx-auto"><h1 class="text-xl font-bold mb-4">Releases</h1>'']
    @ CollapsibleForm ''Create release'' (ReleaseCreateForm nav csrf)\<close>

lemma scan_ReleasesContent_1 [simp]:
  "rh_csrf header = k \<Longrightarrow>
     csrf = k \<Longrightarrow>
     scan k (ReleasesContent_1 header nav csrf) (Body, Outside) = (Body, Outside)"
  unfolding ReleasesContent_1_def by simp

definition ReleasesContent_2 :: "view \<Rightarrow> release \<times> asset list \<Rightarrow> component" where
  \<open>ReleasesContent_2 vw row = 
    [Lit ''<div class="card p-4 mb-4"><strong>'', Esc (VStr (rs_tag (fst row))), Lit ''</strong> '']
    @ (if (rs_name (fst row)) \<noteq> []
     then [Lit ''<span class="ml-2">'', Esc (VStr (rs_name (fst row))), Lit ''</span>'']
     else [])
    @ [Lit ''<p class="text-sm text-muted m-0 mt-1"><time datetime="'', Attr (VStr (v_attr vw (rs_created (fst row)))),
     Lit ''" title="'', Attr (VStr (v_tooltip vw (rs_created (fst row)))), Lit ''">'',
     Esc (VStr (v_ago vw (rs_created (fst row)))), Lit ''</time></p>'']
    @ (if (rs_text (fst row)) \<noteq> []
     then [Lit ''<div class="markdown mt-3 mb-0 text-sm">'', Esc (VStr (rs_text (fst row))), Lit ''</div>'']
     else [])\<close>

lemma scan_ReleasesContent_2 [simp]: "scan k (ReleasesContent_2 vw row) (Body, Outside) = (Body, Outside)"
  unfolding ReleasesContent_2_def by simp

definition ReleasesContent_3 :: "repo_nav \<Rightarrow> string \<Rightarrow> release \<times> asset list \<Rightarrow> component" where
  \<open>ReleasesContent_3 nav csrf row = 
    (if (snd row) \<noteq> []
     then [Lit ''<ul class="mt-3 mb-0">'']
       @ concat (map (\<lambda>a.
          [Lit ''<li class="text-sm"><a href="'',
           Esc (VUrl (''/api/v1/repos/'' @ rn_owner nav @ ''/'' @ rn_repo nav @ ''/releases/'' @ rs_tag (fst row) @ ''/assets/'' @ at_name a)),
           Lit ''">'', Esc (VStr (at_name a)), Lit ''</a> <span class="text-muted ml-2">('',
           Esc (VStr (int_string (at_size a))), Lit '' bytes)</span></li>'']) (snd row))
       @ [Lit ''</ul>'']
     else [])
    @ [Lit ''<form method="post" action="'',
     Esc (VUrl (''/'' @ rn_owner nav @ ''/'' @ rn_repo nav @ ''/releases/'' @ rs_tag (fst row) @ ''/assets'')),
     Lit ''" enctype="multipart/form-data" class="mt-3 flex gap-2 items-center flex-wrap">'']
    @ CSRFInput csrf
    @ [Lit ''<input type="file" name="file" required class="input flex-1"> <button type="submit" class="btn-secondary">Upload asset</button></form></div>'']\<close>

lemma scan_ReleasesContent_3 [simp]:
  "csrf = k \<Longrightarrow>
     scan k (ReleasesContent_3 nav csrf row) (Body, Outside) = (Body, Outside)"
  unfolding ReleasesContent_3_def by simp

definition ReleasesContent_4 :: "component" where
  \<open>ReleasesContent_4 = 
    [Lit ''</div>'']\<close>

lemma scan_ReleasesContent_4 [simp]: "scan k ReleasesContent_4 (Body, Outside) = (Body, Outside)"
  unfolding ReleasesContent_4_def by simp

definition ReleasesContent :: "view \<Rightarrow> repo_header \<Rightarrow> repo_nav \<Rightarrow> (release \<times> asset list) list \<Rightarrow> string \<Rightarrow> component" where
  \<open>ReleasesContent vw header nav releases0 csrf = [Call (
    ReleasesContent_1 header nav csrf
    @ (if releases0 = []
     then EmptyState ''No releases''
     else concat (map (\<lambda>row.
          ReleasesContent_2 vw row
          @ ReleasesContent_3 nav csrf row) releases0))
    @ ReleasesContent_4)]\<close>

lemma scan_ReleasesContent [simp]:
  "rh_csrf header = k \<Longrightarrow>
     csrf = k \<Longrightarrow>
     scan k (ReleasesContent vw header nav releases0 csrf) (Body, Outside) = (Body, Outside)"
  unfolding ReleasesContent_def by simp

definition ReleasesPage_view :: "view \<Rightarrow> layout_data \<Rightarrow> repo_header \<Rightarrow> repo_nav \<Rightarrow> (release \<times> asset list) list \<Rightarrow> string \<Rightarrow> component" where
  \<open>ReleasesPage_view vw layout header nav releases0 csrf = [Call (
    Layout \<lparr>ly_title = ly_title layout, ly_user = ly_user layout, ly_csrf = ly_csrf layout, ly_unread = ly_unread layout, ly_flash = ly_flash layout, ly_flash_err = ly_flash_err layout, lv_content = ReleasesContent vw header nav releases0 csrf, lv_full = True, lv_hide = False, lv_nav = []\<rparr>)]\<close>

lemma scan_ReleasesPage_view [simp]:
  "ly_csrf layout = k \<Longrightarrow>
     rh_csrf header = k \<Longrightarrow>
     csrf = k \<Longrightarrow>
     scan k (ReleasesPage_view vw layout header nav releases0 csrf) (Body, Outside) = (Body, Outside)"
  unfolding ReleasesPage_view_def by simp

declare if_cong [cong del] if_split [split]

end
