(* ===== verification/ViewPull.thy ===== *)
theory ViewPull
  imports ViewLayout
begin

section \<open>The pages of pull requests and runs\<close>

text \<open>
  The templates of the same names (internal/web/pulls.templ, pr_detail.templ, actions.templ).
\<close>

declare if_cong [cong] if_split [split del]

subsection \<open>pulls\<close>

definition PRCreateForm :: "repo_nav \<Rightarrow> string \<Rightarrow> string \<Rightarrow> component" where
  \<open>PRCreateForm nav defaultBranch csrf = [Call (
    [Lit ''<form method="post" action="'', Esc (VUrl (''/'' @ rn_owner nav @ ''/'' @ rn_repo nav @ ''/pulls'')),
     Lit ''" class="grid grid-cols-2 gap-3">'']
    @ CSRFInput csrf
    @ [Lit (''<input type="text" name="title" placeholder="PR title" required class="input col-span-2"> <input type="text" name="head" placeholder="Head branch"'' @
       '' required class="input"> <input type="text" name="base" placeholder="Base branch" value="''),
     Attr (VStr defaultBranch),
     Lit (''" class="input"> <textarea name="body" placeholder="Description" class="input col-span-2" rows="3">'' @
       ''</textarea> <button type="submit" class="btn col-span-2">Open pull request</button></form>'')])]\<close>

lemma scan_PRCreateForm [simp]:
  "csrf = k \<Longrightarrow>
     scan k (PRCreateForm nav defaultBranch csrf) (Body, Outside) = (Body, Outside)"
  unfolding PRCreateForm_def by simp

definition PullsContent :: "repo_header \<Rightarrow> repo_nav \<Rightarrow> pull_request list \<Rightarrow> string \<Rightarrow> string \<Rightarrow> string \<Rightarrow> component" where
  \<open>PullsContent header nav prs st defaultBranch csrf = [Call (
    RepoPageShell header nav
    @ [Lit ''<div class="max-w-7xl mx-auto"><div class="flex justify-between items-center mb-4 gap-3 flex-wrap">'']
    @ PRSubhead nav prs st
    @ CollapsibleForm ''New pull request'' (PRCreateForm nav defaultBranch csrf)
    @ [Lit ''</div>'']
    @ (if (filterPRs prs st) = []
     then EmptyState ''No pull requests found''
     else [Lit ''<div class="gh-list">'']
       @ concat (map (\<lambda>pr.
          PRListItem nav pr) (filterPRs prs st))
       @ [Lit ''</div>''])
    @ [Lit ''</div>''])]\<close>

lemma scan_PullsContent [simp]:
  "rh_csrf header = k \<Longrightarrow>
     csrf = k \<Longrightarrow>
     scan k (PullsContent header nav prs st defaultBranch csrf) (Body, Outside) = (Body, Outside)"
  unfolding PullsContent_def by simp

definition PullsPage_view :: "layout_data \<Rightarrow> repo_header \<Rightarrow> repo_nav \<Rightarrow> pull_request list \<Rightarrow> string \<Rightarrow> string \<Rightarrow> string \<Rightarrow> component" where
  \<open>PullsPage_view layout header nav prs st defaultBranch csrf = [Call (
    Layout \<lparr>ly_title = ly_title layout, ly_user = ly_user layout, ly_csrf = ly_csrf layout, ly_unread = ly_unread layout, ly_flash = ly_flash layout, ly_flash_err = ly_flash_err layout, lv_content = PullsContent header nav prs st defaultBranch csrf, lv_full = True, lv_hide = False, lv_nav = []\<rparr>)]\<close>

lemma scan_PullsPage_view [simp]:
  "ly_csrf layout = k \<Longrightarrow>
     rh_csrf header = k \<Longrightarrow>
     csrf = k \<Longrightarrow>
     scan k (PullsPage_view layout header nav prs st defaultBranch csrf) (Body, Outside) = (Body, Outside)"
  unfolding PullsPage_view_def by simp

subsection \<open>pr detail\<close>

definition prBodyComponent :: "view \<Rightarrow> string \<Rightarrow> component" where
  \<open>prBodyComponent vw body = [Call (
    [Lit ''<div class="markdown">'']
    @ [RawHtml (issueBodyHTML vw body)]
    @ [Lit ''</div>''])]\<close>

lemma scan_prBodyComponent [simp]:
  "\<forall>s. closed_html (issueBodyHTML vw s) \<Longrightarrow>
     scan k (prBodyComponent vw body) (Body, Outside) = (Body, Outside)"
  unfolding prBodyComponent_def by simp

definition diffLineRow_1 :: "diff_file \<Rightarrow> diff_line \<Rightarrow> component" where
  \<open>diffLineRow_1 f line = 
    [Css [''diff-line clickable '' @ diffLineClass (dl_type line)], Lit ''<div class="'',
     Attr (VClass [''diff-line clickable '' @ diffLineClass (dl_type line)]), Lit ''" data-path="'',
     Attr (VStr (diffFilePath f)), Lit ''" data-line="'', Attr (VStr (int_string (lineNum line))),
     Lit ''"><span class="num">'', Esc (VStr (lineNumStr (dl_old line))), Lit ''</span> <span class="num">'',
     Esc (VStr (lineNumStr (dl_new line))), Lit ''</span> <span class="code">'',
     Esc (VStr (diffPrefix (dl_type line))), Esc (VStr (dl_content line)), Lit ''</span></div>'']\<close>

lemma scan_diffLineRow_1 [simp]: "scan k (diffLineRow_1 f line) (Body, Outside) = (Body, Outside)"
  unfolding diffLineRow_1_def by simp

definition diffLineRow_2 :: "diff_line \<Rightarrow> component" where
  \<open>diffLineRow_2 line = 
    [Css [''diff-line '' @ diffLineClass (dl_type line)], Lit ''<div class="'',
     Attr (VClass [''diff-line '' @ diffLineClass (dl_type line)]), Lit ''"><span class="num">'',
     Esc (VStr (lineNumStr (dl_old line))), Lit ''</span> <span class="num">'', Esc (VStr (lineNumStr (dl_new line))),
     Lit ''</span> <span class="code">'', Esc (VStr (dl_content line)), Lit ''</span></div>'']\<close>

lemma scan_diffLineRow_2 [simp]: "scan k (diffLineRow_2 line) (Body, Outside) = (Body, Outside)"
  unfolding diffLineRow_2_def by simp

definition diffLineRow :: "pr_detail_data \<Rightarrow> diff_file \<Rightarrow> diff_line \<Rightarrow> component" where
  \<open>diffLineRow data f line = [Call (
    (if (dl_type line) = ''hunk''
     then [Lit ''<div class="diff-line diff-hunk"><span class="code">'', Esc (VStr (dl_content line)),
        Lit ''</span></div>'']
     else (if ((dl_type line) = ''add'') \<or> ((dl_type line) = ''del'')
        then diffLineRow_1 f line
        else diffLineRow_2 line)))]\<close>

lemma scan_diffLineRow [simp]: "scan k (diffLineRow data f line) (Body, Outside) = (Body, Outside)"
  unfolding diffLineRow_def by simp

definition PRDetailContent_1 :: "view \<Rightarrow> pr_detail_data \<Rightarrow> component" where
  \<open>PRDetailContent_1 vw data = 
    RepoPageShell (fst (pd_frame data)) (snd (pd_frame data))
    @ [Lit ''<div class="max-w-7xl mx-auto"><div class="flex gap-4 max-md-flex-col"><div class="flex-1"><div class="flex items-center gap-2 mb-2">'']
    @ (if (pq_merged (pd_pr data)) \<noteq> None
     then StateBadge ''merged''
     else StateBadge (pq_state (pd_pr data)))
    @ [Lit ''<h1 class="gh-detail-title m-0">'', Esc (VStr (pq_title (pd_pr data))), Lit '' <span class="num">#'',
     Esc (VInt (pq_number (pd_pr data))), Lit ''</span></h1></div><p class="text-sm text-muted mb-4">'']
    @ Icon ''git-pull-request'' []
    @ [Lit ''<span class="ml-2">'', Esc (VStr (pq_head (pd_pr data))),
     Lit ('' '' @ [CHR 0xE2, CHR 0x86, CHR 0x92] @ '' ''), Esc (VStr (pq_base (pd_pr data))), Lit ''</span></p>'']
    @ (if (pq_body (pd_pr data)) \<noteq> []
     then [Lit ''<ul class="gh-timeline mb-4">'']
       @ CommentBox (pd_author data) ''commented on this pull request'' (prBodyComponent vw (pq_body (pd_pr data)))
       @ [Lit ''</ul>'']
     else [])
    @ concat (map (\<lambda>f.
       [Lit ''<div class="diff-file"><div class="diff-header">'', Esc (VStr (diffFilePath f)), Lit ''</div>'']
       @ concat (map (\<lambda>line.
          diffLineRow data f line) (df_lines f))
       @ [Lit ''</div>'']) (pd_files data))
    @ [Lit ''</div><aside class="sidebar">'']\<close>

lemma scan_PRDetailContent_1 [simp]:
  "rh_csrf (fst (pd_frame data)) = k \<Longrightarrow>
     \<forall>s. closed_html (issueBodyHTML vw s) \<Longrightarrow>
     scan k (PRDetailContent_1 vw data) (Body, Outside) = (Body, Outside)"
  unfolding PRDetailContent_1_def by simp

definition PRDetailContent_2 :: "pr_detail_data \<Rightarrow> component" where
  \<open>PRDetailContent_2 data = 
    (if (pq_state (pd_pr data)) = ''open''
     then [Lit ''<div class="gh-merge-box"><form method="post" action="'',
        Esc (VUrl (''/'' @ rn_owner (snd (pd_frame data)) @ ''/'' @ rn_repo (snd (pd_frame data)) @ ''/pulls/'' @ int_string (pq_number (pd_pr data)) @ ''/merge'')),
        Lit ''">'']
       @ CSRFInput (pd_csrf data)
       @ (if pd_mergeable data
        then [Lit ''<p class="text-sm m-0 mb-3">This branch has no conflicts with the base branch.</p><button type="submit" class="btn w-full">'']
          @ Icon ''git-merge'' []
          @ [Lit ''Merge pull request</button>'']
        else [Lit ''<p class="text-sm m-0 mb-3 text-red">This branch has conflicts that must be resolved.</p><button type="submit" class="btn w-full" disabled>Merge pull request</button>''])
       @ [Lit ''</form></div><div class="gh-sidebar-panel mb-4"><div class="gh-sidebar-section"><div class="gh-sidebar-label">Review changes</div><form method="post" action="'',
        Esc (VUrl (''/'' @ rn_owner (snd (pd_frame data)) @ ''/'' @ rn_repo (snd (pd_frame data)) @ ''/pulls/'' @ int_string (pq_number (pd_pr data)) @ ''/review'')),
        Lit ''">'']
       @ CSRFInput (pd_csrf data)
       @ [Lit (''<select name="state" class="input mb-2"><option value="approved">Approve</option> <option value="changes_requested">Request changes</option> <option'' @
       '' value="commented">Comment</option></select>'')]
       @ MarkdownTextarea ''body'' ''Leave a review comment'' [] (pd_csrf data)
       @ [Lit ''<button type="submit" class="btn-secondary w-full mt-2">Submit review</button></form></div></div>'']
     else [])
    @ [Lit ''<div class="gh-sidebar-panel mb-4"><div class="gh-sidebar-section"><div class="gh-sidebar-label">Reviews</div>'']
    @ concat (map (\<lambda>r.
       [Lit ''<div class="text-sm mb-2"><strong>'', Esc (VStr (rw_reviewer r)), Lit ''</strong>: '',
        Esc (VStr (rw_state r)), Lit ''</div>'']) (pd_reviews data))
    @ (if (pd_reviews data) = []
     then [Lit ''<p class="text-sm text-muted m-0">No reviews yet</p>'']
     else [])
    @ [Lit ''</div></div><div class="gh-sidebar-panel" id="inline-comments"><div class="gh-sidebar-section"><div class="gh-sidebar-label">Inline comments</div>'']\<close>

lemma scan_PRDetailContent_2 [simp]:
  "pd_csrf data = k \<Longrightarrow>
     scan k (PRDetailContent_2 data) (Body, Outside) = (Body, Outside)"
  unfolding PRDetailContent_2_def by simp

definition PRDetailContent_3 :: "pr_detail_data \<Rightarrow> component" where
  \<open>PRDetailContent_3 data = 
    concat (map (\<lambda>c.
       (if (lc_path c) \<noteq> []
        then [Lit ''<div class="text-sm mb-2 border-b pb-2"><strong>'', Esc (VStr (lc_author c)), Lit ''</strong> on '',
           Esc (VStr (lc_path c)), Lit '':'', Esc (VStr (int_string (lc_line c))), Lit ''<p class="m-0 mt-1">'',
           Esc (VStr (lc_body c)), Lit ''</p></div>'']
        else [])) (pd_comments data))
    @ [Lit ''<form method="post" action="'',
     Esc (VUrl (''/'' @ rn_owner (snd (pd_frame data)) @ ''/'' @ rn_repo (snd (pd_frame data)) @ ''/pulls/'' @ int_string (pq_number (pd_pr data)) @ ''/comment'')),
     Lit ''" class="mt-3">'']
    @ CSRFInput (pd_csrf data)
    @ [Lit ''<input type="hidden" name="path" id="comment-path"> <input type="hidden" name="line" id="comment-line">'']
    @ MarkdownTextarea ''body'' ''Add inline comment (click or focus a line)'' [] (pd_csrf data)
    @ [Lit (''<button type="submit" class="btn-secondary w-full mt-2">Add comment</button></form></div></div></aside></div></div><script>
		function selectDiffLine(el) {
			document.querySelectorAll('.diff-line.selected').forEach(n => n.classList.remove('selected'));
			el.classList.add('selected');
'' @
       ''			document.getElementById('comment-path').value = el.dataset.path;
			document.getElementById('comment-line').value = el.dataset.line;
		}
		document.querySelectorAll('.diff-line.clickable').forEach(el => {
			el.setAttribute('tabindex', '0');
			el.setAttribute('role', 'button');
'' @
       ''			el.setAttribute('aria-label', 'Comment on line ' + el.dataset.line);
			el.addEventListener('click', () => selectDiffLine(el));
			el.addEventListener('keydown', (e) => {
				if (e.key === 'Enter' || e.key === ' ') {
					e.preventDefault();
					selectDiffLine(el);
				}
			});
		});
	</script>'')]\<close>

lemma scan_PRDetailContent_3 [simp]:
  "pd_csrf data = k \<Longrightarrow>
     scan k (PRDetailContent_3 data) (Body, Outside) = (Body, Outside)"
  unfolding PRDetailContent_3_def by simp

definition PRDetailContent :: "view \<Rightarrow> pr_detail_data \<Rightarrow> component" where
  \<open>PRDetailContent vw data = [Call (
    PRDetailContent_1 vw data
    @ PRDetailContent_2 data
    @ PRDetailContent_3 data)]\<close>

lemma scan_PRDetailContent [simp]:
  "rh_csrf (fst (pd_frame data)) = k \<Longrightarrow>
     \<forall>s. closed_html (issueBodyHTML vw s) \<Longrightarrow>
     pd_csrf data = k \<Longrightarrow>
     scan k (PRDetailContent vw data) (Body, Outside) = (Body, Outside)"
  unfolding PRDetailContent_def by simp

definition PRDetailPage_view :: "view \<Rightarrow> layout_data \<Rightarrow> pr_detail_data \<Rightarrow> component" where
  \<open>PRDetailPage_view vw layout data = [Call (
    Layout \<lparr>ly_title = ly_title layout, ly_user = ly_user layout, ly_csrf = ly_csrf layout, ly_unread = ly_unread layout, ly_flash = ly_flash layout, ly_flash_err = ly_flash_err layout, lv_content = PRDetailContent vw data, lv_full = True, lv_hide = False, lv_nav = []\<rparr>)]\<close>

lemma scan_PRDetailPage_view [simp]:
  "ly_csrf layout = k \<Longrightarrow>
     rh_csrf (fst (pd_frame data)) = k \<Longrightarrow>
     \<forall>s. closed_html (issueBodyHTML vw s) \<Longrightarrow>
     pd_csrf data = k \<Longrightarrow>
     scan k (PRDetailPage_view vw layout data) (Body, Outside) = (Body, Outside)"
  unfolding PRDetailPage_view_def by simp

subsection \<open>actions\<close>

definition ActionsContent_1 :: "repo_header \<Rightarrow> repo_nav \<Rightarrow> web_workflow list \<Rightarrow> string \<Rightarrow> component" where
  \<open>ActionsContent_1 header nav workflows0 csrf = 
    RepoPageShell header nav
    @ [Lit ''<div class="max-w-7xl mx-auto"><h1 class="text-xl font-bold mb-4">Actions</h1>'']
    @ (if workflows0 \<noteq> []
     then [Lit ''<div class="card p-4 mb-6"><h2 class="text-sm font-semibold mb-3 m-0">Workflows</h2><div class="flex flex-col gap-3">'']
       @ concat (map (\<lambda>wf0.
          [Lit ''<div class="flex justify-between items-center gap-3 flex-wrap"><div><div class="font-medium">'',
           Esc (VStr (ww_name wf0)), Lit ''</div><div class="text-xs text-muted">'', Esc (VStr (ww_path wf0)),
           Lit ''</div></div><form method="post" action="'',
           Esc (VUrl (''/'' @ rn_owner nav @ ''/'' @ rn_repo nav @ ''/actions/trigger'')),
           Lit ''" class="flex gap-2 items-center">'']
          @ CSRFInput csrf
          @ [Lit ''<input type="hidden" name="workflow_id" value="'', Attr (VStr (ww_id wf0)),
           Lit (''"> <input type="text" name="branch" value="main" class="input text-sm" style="width:8rem" aria-label="Branch to run"> <button type="submit"'' @
       '' class="btn-secondary text-sm">Run workflow</button></form></div>'')]) workflows0)
       @ [Lit ''</div></div>'']
     else [])\<close>

lemma scan_ActionsContent_1 [simp]:
  "rh_csrf header = k \<Longrightarrow>
     csrf = k \<Longrightarrow>
     scan k (ActionsContent_1 header nav workflows0 csrf) (Body, Outside) = (Body, Outside)"
  unfolding ActionsContent_1_def by simp

definition RunStatusBadge :: "web_run \<Rightarrow> component" where
  \<open>RunStatusBadge run0 = [Call (
    (if (rw_conclusion run0) = ''success''
     then [Lit ''<span class="gh-state gh-state-open">'', Esc (VStr (runStatusLabel run0)), Lit ''</span>'']
     else (if (rw_conclusion run0) = ''failure''
        then [Lit ''<span class="gh-state gh-state-closed">'', Esc (VStr (runStatusLabel run0)), Lit ''</span>'']
        else [Lit ''<span class="badge">'', Esc (VStr (runStatusLabel run0)), Lit ''</span>''])))]\<close>

lemma scan_RunStatusBadge [simp]: "scan k (RunStatusBadge run0) (Body, Outside) = (Body, Outside)"
  unfolding RunStatusBadge_def by simp

definition ActionsContent_2 :: "repo_nav \<Rightarrow> web_run list \<Rightarrow> component" where
  \<open>ActionsContent_2 nav runs0 = 
    [Lit (''<div class="overflow-auto"><table class="card"><thead><tr><th scope="col">Run</th><th scope="col">Event</th><th scope="col">Branch</th>'' @
       ''<th scope="col">Status</th><th scope="col">Logs</th></tr></thead> <tbody>'')]
    @ concat (map (\<lambda>run0.
       [Lit ''<tr><td>#'', Esc (VInt (rw_number run0)), Lit ''</td><td>'', Esc (VStr (rw_event run0)), Lit ''</td><td>'',
        Esc (VStr (rw_head run0)), Lit ''</td><td>'']
       @ RunStatusBadge run0
       @ [Lit ''</td><td><button type="button" class="btn-secondary text-xs" hx-get="'',
        Attr (VStr (''/'' @ rn_owner nav @ ''/'' @ rn_repo nav @ ''/actions/runs/'' @ web_run.rw_id run0 @ ''/logs'')),
        Lit ''" hx-target="'', Attr (VStr (''#logs-'' @ web_run.rw_id run0)),
        Lit ''" hx-swap="innerHTML" hx-indicator="'', Attr (VStr (''#spinner-'' @ web_run.rw_id run0)),
        Lit ''">Show logs</button>'']
       @ LoadingSpinnerSmall
       @ [Lit ''<span id="'', Attr (VStr (''spinner-'' @ web_run.rw_id run0)),
        Lit ''" class="htmx-indicator gh-spinner gh-spinner-sm" aria-label="Loading logs"></span></td></tr><tr><td colspan="5" class="p-0 border-0"><div id="'',
        Attr (VStr (''logs-'' @ web_run.rw_id run0)), Lit ''" class="p-3"></div></td></tr>'']) runs0)
    @ [Lit ''</tbody></table></div>'']\<close>

lemma scan_ActionsContent_2 [simp]: "scan k (ActionsContent_2 nav runs0) (Body, Outside) = (Body, Outside)"
  unfolding ActionsContent_2_def by simp

definition ActionsContent_3 :: "component" where
  \<open>ActionsContent_3 = 
    [Lit ''</div>'']\<close>

lemma scan_ActionsContent_3 [simp]: "scan k ActionsContent_3 (Body, Outside) = (Body, Outside)"
  unfolding ActionsContent_3_def by simp

definition ActionsContent :: "repo_header \<Rightarrow> repo_nav \<Rightarrow> web_workflow list \<Rightarrow> web_run list \<Rightarrow> string \<Rightarrow> component" where
  \<open>ActionsContent header nav workflows0 runs0 csrf = [Call (
    ActionsContent_1 header nav workflows0 csrf
    @ (if runs0 = []
     then EmptyState ''No workflow runs''
     else ActionsContent_2 nav runs0)
    @ ActionsContent_3)]\<close>

lemma scan_ActionsContent [simp]:
  "rh_csrf header = k \<Longrightarrow>
     csrf = k \<Longrightarrow>
     scan k (ActionsContent header nav workflows0 runs0 csrf) (Body, Outside) = (Body, Outside)"
  unfolding ActionsContent_def by simp

definition ActionsPage_view :: "layout_data \<Rightarrow> repo_header \<Rightarrow> repo_nav \<Rightarrow> web_workflow list \<Rightarrow> web_run list \<Rightarrow> string \<Rightarrow> component" where
  \<open>ActionsPage_view layout header nav workflows0 runs0 csrf = [Call (
    Layout \<lparr>ly_title = ly_title layout, ly_user = ly_user layout, ly_csrf = ly_csrf layout, ly_unread = ly_unread layout, ly_flash = ly_flash layout, ly_flash_err = ly_flash_err layout, lv_content = ActionsContent header nav workflows0 runs0 csrf, lv_full = True, lv_hide = False, lv_nav = []\<rparr>)]\<close>

lemma scan_ActionsPage_view [simp]:
  "ly_csrf layout = k \<Longrightarrow>
     rh_csrf header = k \<Longrightarrow>
     csrf = k \<Longrightarrow>
     scan k (ActionsPage_view layout header nav workflows0 runs0 csrf) (Body, Outside) = (Body, Outside)"
  unfolding ActionsPage_view_def by simp

definition ActionLogsPartial_view :: "string \<Rightarrow> string \<Rightarrow> component" where
  \<open>ActionLogsPartial_view logs logURL = [Call (
    [Lit ''<pre class="m-0 p-3 bg-hover rounded text-xs overflow-auto max-h-64" hx-get="'', Attr (VStr logURL),
     Lit ''" hx-trigger="every 2s" hx-swap="outerHTML">'', Esc (VStr logs), Lit ''</pre>''])]\<close>

lemma scan_ActionLogsPartial_view [simp]:
  "local_address logURL \<Longrightarrow>
     scan k (ActionLogsPartial_view logs logURL) (Body, Outside) = (Body, Outside)"
  unfolding ActionLogsPartial_view_def by simp

declare if_cong [cong del] if_split [split]

end
