(* ===== verification/ViewUser.thy ===== *)
theory ViewUser
  imports ViewLayout
begin

section \<open>The pages of a user: login, dashboard, profile, search, settings\<close>

text \<open>
  The templates of the same names (internal/web/login.templ, dashboard.templ, profile.templ, search.templ, settings.templ).
\<close>

declare if_cong [cong] if_split [split del]

subsection \<open>login\<close>

definition loginContent :: "string \<Rightarrow> string \<Rightarrow> string \<Rightarrow> component" where
  \<open>loginContent csrf errMsg next0 = [Call (
    [Lit ''<div class="login-box card p-6"><h1 class="text-2xl font-bold mb-4">Sign in to Govnohub</h1>'']
    @ ErrorAlert errMsg
    @ [Lit ''<form method="post" action="/login" class="flex flex-col gap-4">'']
    @ CSRFInput csrf
    @ [Lit ''<input type="hidden" name="next" value="'', Attr (VStr next0), Lit ''">'']
    @ FormField ''Username or email'' ''login-username'' ''text'' ''username'' [] True
    @ FormField ''Password'' ''login-password'' ''password'' ''password'' [] True
    @ [Lit ''<button type="submit" class="btn w-full justify-center">Sign in</button></form></div>''])]\<close>

lemma scan_loginContent [simp]:
  "csrf = k \<Longrightarrow>
     scan k (loginContent csrf errMsg next0) (Body, Outside) = (Body, Outside)"
  unfolding loginContent_def by simp

definition LoginPage_view :: "string \<Rightarrow> string \<Rightarrow> string \<Rightarrow> component" where
  \<open>LoginPage_view csrf errMsg next0 = [Call (
    Layout \<lparr>ly_title = ''Sign in'', ly_user = None, ly_csrf = csrf, ly_unread = 0, ly_flash = [], ly_flash_err = False, lv_content = loginContent csrf errMsg next0, lv_full = False, lv_hide = True, lv_nav = []\<rparr>)]\<close>

lemma scan_LoginPage_view [simp]:
  "csrf = k \<Longrightarrow>
     scan k (LoginPage_view csrf errMsg next0) (Body, Outside) = (Body, Outside)"
  unfolding LoginPage_view_def by simp

subsection \<open>dashboard\<close>

definition DashboardActions :: "org list \<Rightarrow> string \<Rightarrow> component" where
  \<open>DashboardActions org_list csrf = [Call (
    [Lit (''<details class="collapsible-form"><summary class="btn">New repository</summary>'' @
       ''<form method="post" action="/repos/create" class="card p-4 mt-2 flex flex-col gap-3" style="min-width:16rem">'')]
    @ CSRFInput csrf
    @ FormField ''Name'' ''repo-name'' ''text'' ''name'' [] True
    @ FormField ''Description'' ''repo-desc'' ''text'' ''description'' [] False
    @ [Lit ''<button type="submit" class="btn self-start">Create</button></form></details> '']
    @ (if org_list \<noteq> []
     then [Lit ''<a href="'', Esc (VUrl (''/orgs/'' @ og_name (hd org_list))),
        Lit ''" class="btn-secondary">Create in org</a> '']
     else [])
    @ [Lit ''<a href="/orgs" class="btn-secondary">Browse orgs</a>''])]\<close>

lemma scan_DashboardActions [simp]:
  "csrf = k \<Longrightarrow>
     scan k (DashboardActions org_list csrf) (Body, Outside) = (Body, Outside)"
  unfolding DashboardActions_def by simp

definition DashboardContent_1 :: "org list \<Rightarrow> string \<Rightarrow> string \<Rightarrow> component" where
  \<open>DashboardContent_1 org_list csrf errMsg = 
    PageHeader ''Dashboard'' (Some (DashboardActions org_list csrf))
    @ (if errMsg \<noteq> []
     then ErrorAlert errMsg
     else [])
    @ [Lit ''<div class="grid grid-cols-2 gap-6"><section><h2 class="text-lg font-semibold mb-3">Your repositories</h2>'']\<close>

lemma scan_DashboardContent_1 [simp]:
  "csrf = k \<Longrightarrow>
     scan k (DashboardContent_1 org_list csrf errMsg) (Body, Outside) = (Body, Outside)"
  unfolding DashboardContent_1_def by simp

definition DashboardContent_2 :: "view \<Rightarrow> repository list \<Rightarrow> component" where
  \<open>DashboardContent_2 vw repo_list = 
    (if repo_list = []
     then EmptyState ''No repositories yet''
       @ [Lit '' <p class="text-sm text-muted mt-2">Use <strong>New repository</strong> above to get started.</p>'']
     else [Lit ''<div class="gh-list">'']
       @ concat (map (\<lambda>r.
          [Lit ''<a href="'', Esc (VUrl (''/'' @ rp_full_name r)),
           Lit ''" class="gh-list-item"><span class="gh-list-item-icon">'']
          @ Icon ''repo'' []
          @ [Lit ''</span><div class="gh-list-item-body"><div class="gh-list-item-title">'', Esc (VStr (rp_full_name r)),
           Lit ''</div><div class="gh-list-item-meta">'']
          @ (if rp_private r
           then [Lit ''<span class="gh-visibility">Private</span> '']
           else [Lit ''<span class="gh-visibility">Public</span> ''])
          @ (if (rp_desc r) \<noteq> []
           then [Lit (''<span>'' @ [CHR 0xC2, CHR 0xB7] @ '' ''), Esc (VStr (rp_desc r)), Lit ''</span> '']
           else [])
          @ [Lit (''<span>'' @ [CHR 0xC2, CHR 0xB7] @ '' Updated <time datetime="''), Attr (VStr (v_attr vw (rp_updated r))),
           Lit ''" title="'', Attr (VStr (v_tooltip vw (rp_updated r))), Lit ''">'', Esc (VStr (v_ago vw (rp_updated r))),
           Lit ''</time></span></div></div></a>'']) repo_list)
       @ [Lit ''</div>''])
    @ [Lit ''</section><section><h2 class="text-lg font-semibold mb-3">Organizations</h2>'']\<close>

lemma scan_DashboardContent_2 [simp]: "scan k (DashboardContent_2 vw repo_list) (Body, Outside) = (Body, Outside)"
  unfolding DashboardContent_2_def by simp

definition DashboardContent_3 :: "org list \<Rightarrow> component" where
  \<open>DashboardContent_3 org_list = 
    (if org_list = []
     then EmptyState ''No organizations''
     else [Lit ''<div class="gh-list">'']
       @ concat (map (\<lambda>og.
          [Lit ''<a href="'', Esc (VUrl (''/orgs/'' @ og_name og)),
           Lit ''" class="gh-list-item"><span class="gh-list-item-icon">'']
          @ Icon ''repo'' []
          @ [Lit ''</span><div class="gh-list-item-body"><div class="gh-list-item-title">'', Esc (VStr (og_name og)),
           Lit ''</div>'']
          @ (if (og_desc og) \<noteq> []
           then [Lit ''<div class="gh-list-item-meta">'', Esc (VStr (og_desc og)), Lit ''</div>'']
           else [])
          @ [Lit ''</div></a>'']) org_list)
       @ [Lit ''</div>''])
    @ [Lit ''<a href="/orgs" class="btn-secondary mt-4 inline-flex">View all orgs</a></section></div>'']\<close>

lemma scan_DashboardContent_3 [simp]: "scan k (DashboardContent_3 org_list) (Body, Outside) = (Body, Outside)"
  unfolding DashboardContent_3_def by simp

definition DashboardContent :: "view \<Rightarrow> repository list \<Rightarrow> org list \<Rightarrow> string \<Rightarrow> string \<Rightarrow> component" where
  \<open>DashboardContent vw repo_list org_list csrf errMsg = [Call (
    DashboardContent_1 org_list csrf errMsg
    @ DashboardContent_2 vw repo_list
    @ DashboardContent_3 org_list)]\<close>

lemma scan_DashboardContent [simp]:
  "csrf = k \<Longrightarrow>
     scan k (DashboardContent vw repo_list org_list csrf errMsg) (Body, Outside) = (Body, Outside)"
  unfolding DashboardContent_def by simp

definition DashboardPage_view :: "view \<Rightarrow> layout_data \<Rightarrow> repository list \<Rightarrow> org list \<Rightarrow> string \<Rightarrow> string \<Rightarrow> component" where
  \<open>DashboardPage_view vw layout repo_list org_list csrf errMsg = [Call (
    Layout \<lparr>ly_title = ly_title layout, ly_user = ly_user layout, ly_csrf = ly_csrf layout, ly_unread = ly_unread layout, ly_flash = ly_flash layout, ly_flash_err = ly_flash_err layout, lv_content = DashboardContent vw repo_list org_list csrf errMsg, lv_full = False, lv_hide = False, lv_nav = ''dashboard''\<rparr>)]\<close>

lemma scan_DashboardPage_view [simp]:
  "ly_csrf layout = k \<Longrightarrow>
     csrf = k \<Longrightarrow>
     scan k (DashboardPage_view vw layout repo_list org_list csrf errMsg) (Body, Outside) = (Body, Outside)"
  unfolding DashboardPage_view_def by simp

subsection \<open>profile\<close>

record profile_view =
  fv_user :: user
  fv_repos :: "repository list"
  fv_owner :: bool

definition UserProfileContent_1 :: "view \<Rightarrow> profile_view \<Rightarrow> component" where
  \<open>UserProfileContent_1 vw data = 
    [Lit ''<div class="flex gap-8"><div class="w-64 flex-shrink-0"><div class="text-center mb-6">'']
    @ Avatar (usr_name (fv_user data)) ''lg''
    @ [Lit ''<h1 class="text-2xl font-bold mt-3">'', Esc (VStr (usr_name (fv_user data))),
     Lit ''</h1><div class="text-muted text-sm mt-1">'', Esc (VStr (usr_role (fv_user data))),
     Lit ''</div></div><div class="text-sm text-muted space-y-2"><div class="flex items-center gap-2">'']
    @ Icon ''clock'' []
    @ [Lit ''<span>Joined <time datetime="'', Attr (VStr (v_attr vw (usr_created (fv_user data)))), Lit ''" title="'',
     Attr (VStr (v_tooltip vw (usr_created (fv_user data)))), Lit ''">'',
     Esc (VStr (v_ago vw (usr_created (fv_user data)))),
     Lit ''</time></span></div></div></div><div class="flex-1 min-w-0"><h2 class="text-lg font-semibold mb-3">'',
     Esc (VStr (int_string (int (length (fv_repos data))) @ '' '' @ pluralSuffix (int (length (fv_repos data))) ''repository'')),
     Lit ''</h2>'']\<close>

lemma scan_UserProfileContent_1 [simp]: "scan k (UserProfileContent_1 vw data) (Body, Outside) = (Body, Outside)"
  unfolding UserProfileContent_1_def by simp

definition UserProfileContent_2 :: "view \<Rightarrow> profile_view \<Rightarrow> component" where
  \<open>UserProfileContent_2 vw data = 
    (if (fv_repos data) = []
     then EmptyState ''No repositories yet''
     else [Lit ''<div class="gh-list">'']
       @ concat (map (\<lambda>r.
          [Lit ''<a href="'', Esc (VUrl (''/'' @ rp_full_name r)),
           Lit ''" class="gh-list-item"><span class="gh-list-item-icon">'']
          @ Icon ''repo'' []
          @ [Lit ''</span><div class="gh-list-item-body"><div class="gh-list-item-title">'', Esc (VStr (rp_full_name r)),
           Lit ''</div><div class="gh-list-item-meta">'']
          @ (if rp_private r
           then [Lit ''<span class="gh-visibility">Private</span> '']
           else [Lit ''<span class="gh-visibility">Public</span> ''])
          @ (if (rp_desc r) \<noteq> []
           then [Lit (''<span>'' @ [CHR 0xC2, CHR 0xB7] @ '' ''), Esc (VStr (rp_desc r)), Lit ''</span> '']
           else [])
          @ [Lit (''<span>'' @ [CHR 0xC2, CHR 0xB7] @ '' Updated <time datetime="''), Attr (VStr (v_attr vw (rp_updated r))),
           Lit ''" title="'', Attr (VStr (v_tooltip vw (rp_updated r))), Lit ''">'', Esc (VStr (v_ago vw (rp_updated r))),
           Lit ''</time></span></div></div></a>'']) (fv_repos data))
       @ [Lit ''</div>''])
    @ [Lit ''</div></div>'']\<close>

lemma scan_UserProfileContent_2 [simp]: "scan k (UserProfileContent_2 vw data) (Body, Outside) = (Body, Outside)"
  unfolding UserProfileContent_2_def by simp

definition UserProfileContent :: "view \<Rightarrow> profile_view \<Rightarrow> component" where
  \<open>UserProfileContent vw data = [Call (
    UserProfileContent_1 vw data
    @ UserProfileContent_2 vw data)]\<close>

lemma scan_UserProfileContent [simp]: "scan k (UserProfileContent vw data) (Body, Outside) = (Body, Outside)"
  unfolding UserProfileContent_def by simp

definition UserProfilePage_view :: "view \<Rightarrow> layout_data \<Rightarrow> profile_view \<Rightarrow> component" where
  \<open>UserProfilePage_view vw layout data = [Call (
    Layout \<lparr>ly_title = ly_title layout, ly_user = ly_user layout, ly_csrf = ly_csrf layout, ly_unread = ly_unread layout, ly_flash = ly_flash layout, ly_flash_err = ly_flash_err layout, lv_content = UserProfileContent vw data, lv_full = False, lv_hide = False, lv_nav = []\<rparr>)]\<close>

lemma scan_UserProfilePage_view [simp]:
  "ly_csrf layout = k \<Longrightarrow>
     scan k (UserProfilePage_view vw layout data) (Body, Outside) = (Body, Outside)"
  unfolding UserProfilePage_view_def by simp

subsection \<open>search\<close>

definition SearchContent_1 :: "string \<Rightarrow> string \<Rightarrow> string \<Rightarrow> component" where
  \<open>SearchContent_1 query typ order0 = 
    PageHeader ''Search'' (Some [])
    @ [Lit ''<form method="get" action="/search" class="mb-6"><div class="flex gap-2 flex-wrap items-center"><input type="search" name="q" value="'',
     Attr (VStr query), Lit ''" placeholder="Search repos, issues, pull requests..." class="input max-w-3xl flex-1"'']
    @ (if query = []
     then [Lit '' autofocus'']
     else [])
    @ [Lit ''> <button type="submit" class="btn">Search</button></div><input type="hidden" name="type" value="'',
     Attr (VStr typ), Lit ''"> <input type="hidden" name="sort" value="'', Attr (VStr order0), Lit ''"></form>'']\<close>

lemma scan_SearchContent_1 [simp]: "scan k (SearchContent_1 query typ order0) (Body, Outside) = (Body, Outside)"
  unfolding SearchContent_1_def by simp

definition SearchMeta :: "string \<Rightarrow> string \<Rightarrow> string \<Rightarrow> int \<Rightarrow> int \<Rightarrow> int \<Rightarrow> component" where
  \<open>SearchMeta query typ order0 total0 pg perPage = [Call (
    [Lit ''<div class="text-sm text-muted mb-4">'', Esc (VStr (int_string total0)), Lit '' results for "<strong>'',
     Esc (VStr query), Lit ''</strong>" '']
    @ (if typ \<noteq> []
     then [Lit ''<span>in <strong>'', Esc (VStr typ), Lit ''</strong></span>'']
     else [])
    @ [Lit ''</div>''])]\<close>

lemma scan_SearchMeta [simp]: "scan k (SearchMeta query typ order0 total0 pg perPage) (Body, Outside) = (Body, Outside)"
  unfolding SearchMeta_def by simp

definition searchFilterPill :: "string \<Rightarrow> string \<Rightarrow> string \<Rightarrow> string \<Rightarrow> string \<Rightarrow> component" where
  \<open>searchFilterPill caption typeValue currentType query order0 = [Call (
    [Css [searchPillClass currentType typeValue], Lit ''<a href="'',
     Esc (VUrl (''/search?q='' @ query @ searchExtraParams typeValue order0)), Lit ''" class="'',
     Attr (VClass [searchPillClass currentType typeValue]), Lit ''"'']
    @ (if (currentType = typeValue) \<or> ((currentType = []) \<and> (typeValue = []))
     then [Lit '' aria-current'']
     else [])
    @ [Lit ''>'', Esc (VStr caption), Lit ''</a>''])]\<close>

lemma scan_searchFilterPill [simp]: "scan k (searchFilterPill caption typeValue currentType query order0) (Body, Outside) = (Body, Outside)"
  unfolding searchFilterPill_def by simp

definition SearchFilters :: "string \<Rightarrow> string \<Rightarrow> string \<Rightarrow> component" where
  \<open>SearchFilters currentType query order0 = [Call (
    [Lit ''<div class="flex gap-2 flex-wrap items-center mb-4">'']
    @ searchFilterPill ''All'' [] currentType query order0
    @ searchFilterPill ''Repositories'' ''repo'' currentType query order0
    @ searchFilterPill ''Issues'' ''issue'' currentType query order0
    @ searchFilterPill ''Pull Requests'' ''pull_request'' currentType query order0
    @ searchFilterPill ''Wiki'' ''wiki'' currentType query order0
    @ [Lit (''<div class="ml-auto flex items-center gap-2"><label class="text-sm" for="search-sort">Sort:</label> <select id="search-sort" class="input"'' @
       '' onchange="window.location = this.value" aria-label="Sort results"><option value="''),
     Attr (VStr (searchSortURL query currentType ''best_match'')), Lit ''"'']
    @ (if (order0 = []) \<or> (order0 = ''best_match'')
     then [Lit '' selected'']
     else [])
    @ [Lit ''>Best match</option> <option value="'', Attr (VStr (searchSortURL query currentType ''recently_updated'')),
     Lit ''"'']
    @ (if order0 = ''recently_updated''
     then [Lit '' selected'']
     else [])
    @ [Lit ''>Recently updated</option></select></div></div>''])]\<close>

lemma scan_SearchFilters [simp]: "scan k (SearchFilters currentType query order0) (Body, Outside) = (Body, Outside)"
  unfolding SearchFilters_def by simp

definition SearchPagination :: "string \<Rightarrow> string \<Rightarrow> string \<Rightarrow> int \<Rightarrow> int \<Rightarrow> int \<Rightarrow> component" where
  \<open>SearchPagination query typ order0 total0 pg perPage = [Call (
    (if total0 > perPage
     then [Lit ''<div class="flex justify-center gap-4 mt-6">'']
       @ (if pg > 1
        then [Lit ''<a href="'', Esc (VUrl (paginationURL query typ order0 (wrap64 (pg - 1)))),
           Lit (''" class="btn">'' @ [CHR 0xE2, CHR 0x86, CHR 0x90] @ '' Previous</a> '')]
        else [])
       @ [Lit ''<span class="flex items-center text-sm text-muted">Page '', Esc (VStr (int_string pg)), Lit '' of '',
        Esc (VStr (int_string (go_quot (wrap64 ((wrap64 (total0 + perPage)) - 1)) perPage))), Lit ''</span> '']
       @ (if (wrap64 (pg * perPage)) < total0
        then [Lit ''<a href="'', Esc (VUrl (paginationURL query typ order0 (wrap64 (pg + 1)))),
           Lit (''" class="btn">Next '' @ [CHR 0xE2, CHR 0x86, CHR 0x92] @ ''</a>'')]
        else [])
       @ [Lit ''</div>'']
     else []))]\<close>

lemma scan_SearchPagination [simp]: "scan k (SearchPagination query typ order0 total0 pg perPage) (Body, Outside) = (Body, Outside)"
  unfolding SearchPagination_def by simp

definition SearchContent_2 :: "string \<Rightarrow> string \<Rightarrow> string \<Rightarrow> hit list \<Rightarrow> int \<Rightarrow> int \<Rightarrow> int \<Rightarrow> component" where
  \<open>SearchContent_2 query typ order0 hits total0 pg perPage = 
    SearchMeta query typ order0 total0 pg perPage
    @ [Lit '' '']
    @ SearchFilters typ query order0
    @ [Lit '' '']
    @ (if hits = []
     then EmptyState (''No results found for "'' @ query @ ''"'')
     else [Lit ''<div class="gh-list">'']
       @ concat (map (\<lambda>h.
          [Lit ''<a href="'', Esc (VUrl (searchHitURL h)), Lit ''" class="gh-list-item"><span class="gh-list-item-icon">'']
          @ Icon (searchHitIcon (ht_type h)) []
          @ [Lit ''</span><div class="gh-list-item-body"><div class="gh-list-item-title">'', Esc (VStr (ht_title h)),
           Lit ''</div><div class="gh-list-item-meta"><span class="badge">'', Esc (VStr (ht_type h)), Lit ''</span> '']
          @ (if (ht_repo h) \<noteq> []
           then [Lit (''<span>'' @ [CHR 0xC2, CHR 0xB7] @ '' ''), Esc (VStr (ht_repo h)), Lit ''</span>'']
           else [])
          @ [Lit ''</div>'']
          @ (if (ht_snippet h) \<noteq> []
           then [Lit ''<p class="text-sm m-0 mt-1">'', Esc (VStr (ht_snippet h)), Lit ''</p>'']
           else [])
          @ [Lit ''</div></a>'']) hits)
       @ [Lit ''</div>'']
       @ SearchPagination query typ order0 total0 pg perPage)\<close>

lemma scan_SearchContent_2 [simp]: "scan k (SearchContent_2 query typ order0 hits total0 pg perPage) (Body, Outside) = (Body, Outside)"
  unfolding SearchContent_2_def by simp

definition SearchContent :: "string \<Rightarrow> string \<Rightarrow> string \<Rightarrow> hit list \<Rightarrow> int \<Rightarrow> int \<Rightarrow> int \<Rightarrow> component" where
  \<open>SearchContent query typ order0 hits total0 pg perPage = [Call (
    SearchContent_1 query typ order0
    @ (if query \<noteq> []
     then SearchContent_2 query typ order0 hits total0 pg perPage
     else EmptyState ''Enter a search query to find repositories, issues, and pull requests''))]\<close>

lemma scan_SearchContent [simp]: "scan k (SearchContent query typ order0 hits total0 pg perPage) (Body, Outside) = (Body, Outside)"
  unfolding SearchContent_def by simp

definition SearchPage_view :: "layout_data \<Rightarrow> string \<Rightarrow> string \<Rightarrow> string \<Rightarrow> hit list \<Rightarrow> int \<Rightarrow> int \<Rightarrow> int \<Rightarrow> component" where
  \<open>SearchPage_view layout query typ order0 hits total0 pg perPage = [Call (
    Layout \<lparr>ly_title = ly_title layout, ly_user = ly_user layout, ly_csrf = ly_csrf layout, ly_unread = ly_unread layout, ly_flash = ly_flash layout, ly_flash_err = ly_flash_err layout, lv_content = SearchContent query typ order0 hits total0 pg perPage, lv_full = False, lv_hide = False, lv_nav = ''search''\<rparr>)]\<close>

lemma scan_SearchPage_view [simp]:
  "ly_csrf layout = k \<Longrightarrow>
     scan k (SearchPage_view layout query typ order0 hits total0 pg perPage) (Body, Outside) = (Body, Outside)"
  unfolding SearchPage_view_def by simp

subsection \<open>settings\<close>

definition SettingsContent_1 :: "string \<Rightarrow> string \<Rightarrow> string \<Rightarrow> component" where
  \<open>SettingsContent_1 csrf newPAT errMsg = 
    PageHeader ''Settings'' (Some [])
    @ ErrorAlert errMsg
    @ (if newPAT \<noteq> []
     then [Lit ''<div class="alert card p-4 mb-4"><strong>New token (copy now):</strong> <code class="block mt-2 font-mono text-sm">'',
        Esc (VStr newPAT), Lit ''</code></div>'']
     else [])
    @ [Lit (''<section class="mb-6"><h2 class="text-lg font-semibold mb-3">Personal access tokens</h2>'' @
       ''<form method="post" action="/settings/pat" class="card p-4 mb-4 flex flex-col gap-3">'')]
    @ CSRFInput csrf
    @ [Lit ''<div class="flex gap-3 items-end flex-wrap"><div class="flex-1">'']
    @ FormField ''Name'' ''pat-name'' ''text'' ''name'' [] True
    @ [Lit (''</div><button type="submit" class="btn">Create token</button></div><div class="flex flex-wrap gap-3 text-sm"><label>'' @
       ''<input type="checkbox" name="scope" value="repo"> repo</label> <label>'' @
       ''<input type="checkbox" name="scope" value="repo:write"> repo:write</label> <label>'' @
       ''<input type="checkbox" name="scope" value="workflow"> workflow</label> <label><input type="checkbox" name="scope" value="read:user"> read:user</label></div></form>'')]\<close>

lemma scan_SettingsContent_1 [simp]:
  "csrf = k \<Longrightarrow>
     scan k (SettingsContent_1 csrf newPAT errMsg) (Body, Outside) = (Body, Outside)"
  unfolding SettingsContent_1_def by simp

definition SettingsContent_2 :: "component" where
  \<open>SettingsContent_2 = 
    [Lit ''<table class="card"><thead><tr><th>Name</th><th>Scopes</th><th>Expires</th><th>Created</th><th></th></tr></thead> <tbody>'']\<close>

lemma scan_SettingsContent_2 [simp]: "scan k SettingsContent_2 (Body, Outside) = (Body, Outside)"
  unfolding SettingsContent_2_def by simp

definition SettingsContent_3 :: "view \<Rightarrow> pat_info \<Rightarrow> component" where
  \<open>SettingsContent_3 vw p = 
    [Lit ''<tr><td>'', Esc (VStr (pti_name p)), Lit ''</td><td class="text-sm">'',
     Esc (VStr (joinScopes (pti_scopes p))), Lit ''</td><td class="text-sm">'']
    @ (if (pti_expires p) \<noteq> None
     then (if ((the (pti_expires p)) - vw_now vw) < ((7 * 24) * hour)
        then [Lit ''<span class="text-danger font-semibold" title="Expiring soon">'',
           Esc (VStr (v_ago vw (the (pti_expires p)))), Lit ''</span>'']
        else [Lit ''<time datetime="'', Attr (VStr (v_attr vw (the (pti_expires p)))), Lit ''" title="'',
           Attr (VStr (v_tooltip vw (the (pti_expires p)))), Lit ''">'', Esc (VStr (v_ago vw (the (pti_expires p)))),
           Lit ''</time>''])
     else [Lit ''<span class="text-muted">Never</span>''])
    @ [Lit ''</td><td class="text-sm text-muted"><time datetime="'', Attr (VStr (v_attr vw (pti_created p))),
     Lit ''" title="'', Attr (VStr (v_tooltip vw (pti_created p))), Lit ''">'', Esc (VStr (v_ago vw (pti_created p)))]\<close>

lemma scan_SettingsContent_3 [simp]: "scan k (SettingsContent_3 vw p) (Body, Outside) = (Body, Outside)"
  unfolding SettingsContent_3_def by simp

definition SettingsContent_4 :: "view \<Rightarrow> string \<Rightarrow> pat_info \<Rightarrow> component" where
  \<open>SettingsContent_4 vw csrf p = 
    [Lit ''</time></td><td><form method="post" action="'',
     Esc (VUrl (''/settings/pat/'' @ vw_uuid vw (pti_id p) @ ''/revoke'')),
     Lit ''" onsubmit="return confirm('Revoke this token?')">'']
    @ CSRFInput csrf
    @ [Lit ''<button type="submit" class="btn-secondary text-sm">Revoke</button></form></td></tr>'']\<close>

lemma scan_SettingsContent_4 [simp]:
  "csrf = k \<Longrightarrow>
     scan k (SettingsContent_4 vw csrf p) (Body, Outside) = (Body, Outside)"
  unfolding SettingsContent_4_def by simp

definition SettingsContent_5 :: "component" where
  \<open>SettingsContent_5 = 
    [Lit ''</tbody></table>'']\<close>

lemma scan_SettingsContent_5 [simp]: "scan k SettingsContent_5 (Body, Outside) = (Body, Outside)"
  unfolding SettingsContent_5_def by simp

definition SettingsContent_6 :: "view \<Rightarrow> string \<Rightarrow> key_info list \<Rightarrow> component" where
  \<open>SettingsContent_6 vw csrf keys = 
    [Lit ''</section><section><h2 class="text-lg font-semibold mb-3">SSH keys</h2><form method="post" action="/settings/ssh-key" class="card p-4 mb-4 flex flex-col gap-3">'']
    @ CSRFInput csrf
    @ FormField ''Title'' ''ssh-title'' ''text'' ''title'' [] True
    @ FormField ''Public key'' ''ssh-key'' ''textarea'' ''key'' [] True
    @ [Lit ''<button type="submit" class="btn self-start">Add SSH key</button></form>'']
    @ (if keys = []
     then EmptyState ''No SSH keys''
     else [Lit ''<table class="card"><thead><tr><th>Title</th><th>Fingerprint</th><th></th></tr></thead> <tbody>'']
       @ concat (map (\<lambda>k.
          [Lit ''<tr><td>'', Esc (VStr (ki_title k)), Lit ''</td><td class="text-sm font-mono">'',
           Esc (VStr (ki_fingerprint k)), Lit ''</td><td><form method="post" action="'',
           Esc (VUrl (''/settings/ssh-key/'' @ vw_uuid vw (ki_id k) @ ''/delete'')),
           Lit ''" onsubmit="return confirm('Delete this SSH key?')">'']
          @ CSRFInput csrf
          @ [Lit ''<button type="submit" class="btn-secondary text-sm">Delete</button></form></td></tr>'']) keys)
       @ [Lit ''</tbody></table>''])
    @ [Lit ''</section>'']\<close>

lemma scan_SettingsContent_6 [simp]:
  "csrf = k \<Longrightarrow>
     scan k (SettingsContent_6 vw csrf keys) (Body, Outside) = (Body, Outside)"
  unfolding SettingsContent_6_def by simp

definition SettingsContent :: "view \<Rightarrow> string \<Rightarrow> pat_info list \<Rightarrow> key_info list \<Rightarrow> string \<Rightarrow> string \<Rightarrow> component" where
  \<open>SettingsContent vw csrf pats0 keys newPAT errMsg = [Call (
    SettingsContent_1 csrf newPAT errMsg
    @ (if pats0 = []
     then EmptyState ''No tokens''
     else SettingsContent_2
       @ concat (map (\<lambda>p.
          SettingsContent_3 vw p
          @ SettingsContent_4 vw csrf p) pats0)
       @ SettingsContent_5)
    @ SettingsContent_6 vw csrf keys)]\<close>

lemma scan_SettingsContent [simp]:
  "csrf = k \<Longrightarrow>
     scan k (SettingsContent vw csrf pats0 keys newPAT errMsg) (Body, Outside) = (Body, Outside)"
  unfolding SettingsContent_def by simp

definition SettingsPage_view :: "view \<Rightarrow> layout_data \<Rightarrow> pat_info list \<Rightarrow> key_info list \<Rightarrow> string \<Rightarrow> string \<Rightarrow> component" where
  \<open>SettingsPage_view vw layout pats0 keys newPAT errMsg = [Call (
    Layout \<lparr>ly_title = ly_title layout, ly_user = ly_user layout, ly_csrf = ly_csrf layout, ly_unread = ly_unread layout, ly_flash = ly_flash layout, ly_flash_err = ly_flash_err layout, lv_content = SettingsContent vw (ly_csrf layout) pats0 keys newPAT errMsg, lv_full = False, lv_hide = False, lv_nav = []\<rparr>)]\<close>

lemma scan_SettingsPage_view [simp]:
  "ly_csrf layout = k \<Longrightarrow>
     scan k (SettingsPage_view vw layout pats0 keys newPAT errMsg) (Body, Outside) = (Body, Outside)"
  unfolding SettingsPage_view_def by simp

declare if_cong [cong del] if_split [split]

end
