(* ===== verification/ViewOrg.thy ===== *)
theory ViewOrg
  imports ViewLayout
begin

section \<open>The pages of organisations, notifications and the administration\<close>

text \<open>
  The templates of the same names (internal/web/orgs.templ, notifications.templ, admin_users.templ, admin_audit.templ).
\<close>

declare if_cong [cong] if_split [split del]

subsection \<open>orgs\<close>

definition OrgCreateForm :: "string \<Rightarrow> component" where
  \<open>OrgCreateForm csrf = [Call (
    [Lit ''<form method="post" action="/orgs" class="grid grid-cols-2 gap-3">'']
    @ CSRFInput csrf
    @ [Lit (''<input type="text" name="name" placeholder="org-name" required class="input"> <input type="text" name="display_name" placeholder="Display name"'' @
       '' class="input"> <textarea name="description" placeholder="Description" class="input col-span-2" rows="2">'' @
       ''</textarea> <button type="submit" class="btn col-span-2">Create organization</button></form>'')])]\<close>

lemma scan_OrgCreateForm [simp]:
  "csrf = k \<Longrightarrow>
     scan k (OrgCreateForm csrf) (Body, Outside) = (Body, Outside)"
  unfolding OrgCreateForm_def by simp

definition OrgsContent :: "org list \<Rightarrow> string \<Rightarrow> component" where
  \<open>OrgsContent org_list csrf = [Call (
    PageHeader ''Organizations'' (Some [])
    @ CollapsibleForm ''New organization'' (OrgCreateForm csrf)
    @ (if org_list = []
     then EmptyState ''No organizations''
     else [Lit ''<div class="gh-list">'']
       @ concat (map (\<lambda>og.
          [Lit ''<a href="'', Esc (VUrl (''/orgs/'' @ og_name og)),
           Lit ''" class="gh-list-item"><span class="gh-list-item-icon">'']
          @ Icon ''repo'' []
          @ [Lit ''</span><div class="gh-list-item-body"><div class="gh-list-item-title">'', Esc (VStr (og_name og)),
           Lit ''</div><div class="gh-list-item-meta">'']
          @ (if (og_display og) \<noteq> []
           then [Lit ''<span>'', Esc (VStr (og_display og)), Lit ''</span> '']
           else [])
          @ (if (og_desc og) \<noteq> []
           then [Lit (''<span>'' @ [CHR 0xC2, CHR 0xB7] @ '' ''), Esc (VStr (og_desc og)), Lit ''</span>'']
           else [])
          @ [Lit ''</div></div></a>'']) org_list)
       @ [Lit ''</div>'']))]\<close>

lemma scan_OrgsContent [simp]:
  "csrf = k \<Longrightarrow>
     scan k (OrgsContent org_list csrf) (Body, Outside) = (Body, Outside)"
  unfolding OrgsContent_def by simp

definition OrgsPage_view :: "layout_data \<Rightarrow> org list \<Rightarrow> string \<Rightarrow> component" where
  \<open>OrgsPage_view layout org_list csrf = [Call (
    Layout \<lparr>ly_title = ly_title layout, ly_user = ly_user layout, ly_csrf = ly_csrf layout, ly_unread = ly_unread layout, ly_flash = ly_flash layout, ly_flash_err = ly_flash_err layout, lv_content = OrgsContent org_list csrf, lv_full = False, lv_hide = False, lv_nav = ''orgs''\<rparr>)]\<close>

lemma scan_OrgsPage_view [simp]:
  "ly_csrf layout = k \<Longrightarrow>
     csrf = k \<Longrightarrow>
     scan k (OrgsPage_view layout org_list csrf) (Body, Outside) = (Body, Outside)"
  unfolding OrgsPage_view_def by simp

definition OrgRepoCreateForm :: "string \<Rightarrow> string \<Rightarrow> component" where
  \<open>OrgRepoCreateForm orgName csrf = [Call (
    [Lit ''<form method="post" action="'', Esc (VUrl (''/orgs/'' @ orgName @ ''/repos'')),
     Lit ''" class="flex gap-3 flex-wrap">'']
    @ CSRFInput csrf
    @ [Lit (''<input type="text" name="name" placeholder="repo-name" required class="input flex-1"> <input type="text" name="description" placeholder="Description"'' @
       '' class="input flex-1"> <button type="submit" class="btn">Create repo</button></form>'')])]\<close>

lemma scan_OrgRepoCreateForm [simp]:
  "csrf = k \<Longrightarrow>
     scan k (OrgRepoCreateForm orgName csrf) (Body, Outside) = (Body, Outside)"
  unfolding OrgRepoCreateForm_def by simp

definition OrgDetailContent_1 :: "org \<Rightarrow> repository list \<Rightarrow> string \<Rightarrow> component" where
  \<open>OrgDetailContent_1 og repo_list csrf = 
    [Lit ''<nav class="text-sm text-muted mb-2"><a href="/orgs">Organizations</a> <span>/ </span> <span>'',
     Esc (VStr (og_name og)), Lit ''</span></nav><h1 class="text-2xl font-bold mb-2">'', Esc (VStr (og_name og)),
     Lit ''</h1>'']
    @ (if (og_desc og) \<noteq> []
     then [Lit ''<p class="text-muted mb-4">'', Esc (VStr (og_desc og)), Lit ''</p>'']
     else [])
    @ [Lit ''<div class="flex gap-3 mb-6"><a href="'', Esc (VUrl (''/orgs/'' @ og_name og @ ''/teams'')),
     Lit ''" class="btn-secondary">Teams</a></div><section class="mb-6"><h2 class="text-lg font-semibold mb-3">Repositories</h2>'']
    @ CollapsibleForm ''New repository'' (OrgRepoCreateForm (og_name og) csrf)
    @ (if repo_list = []
     then EmptyState ''No repositories''
     else [Lit ''<div class="gh-list mb-4">'']
       @ concat (map (\<lambda>r.
          [Lit ''<a href="'', Esc (VUrl (''/'' @ rp_full_name r)),
           Lit ''" class="gh-list-item"><span class="gh-list-item-icon">'']
          @ Icon ''repo'' []
          @ [Lit ''</span><div class="gh-list-item-body"><div class="gh-list-item-title">'', Esc (VStr (rp_full_name r)),
           Lit ''</div></div></a>'']) repo_list)
       @ [Lit ''</div>''])
    @ [Lit ''</section><h2 class="text-lg font-semibold mb-3">Members</h2><form method="post" action="'',
     Esc (VUrl (''/orgs/'' @ og_name og @ ''/members''))]\<close>

lemma scan_OrgDetailContent_1 [simp]:
  "csrf = k \<Longrightarrow>
     scan k (OrgDetailContent_1 og repo_list csrf) (Body, Outside) = (Val ''form'' ''action'', Inside True False False None)"
  unfolding OrgDetailContent_1_def by simp

definition OrgDetailContent_2 :: "member list \<Rightarrow> string \<Rightarrow> component" where
  \<open>OrgDetailContent_2 members0 csrf = 
    [Lit ''" class="card p-4 mb-4 flex gap-3 flex-wrap">'']
    @ CSRFInput csrf
    @ [Lit (''<input type="text" name="username" placeholder="Username" required class="input flex-1"> <select name="role" class="input">'' @
       ''<option value="member">member</option> <option value="admin">admin</option></select> <button type="submit" class="btn">Add member</button></form>'' @
       ''<div class="overflow-auto"><table class="card"><thead><tr><th scope="col">User</th><th scope="col">Role</th></tr></thead> <tbody>'')]
    @ concat (map (\<lambda>m.
       [Lit ''<tr><td>'', Esc (VStr (me_username m)), Lit ''</td><td>'', Esc (VStr (me_role m)), Lit ''</td></tr>'']) members0)
    @ [Lit ''</tbody></table></div>'']\<close>

lemma scan_OrgDetailContent_2 [simp]:
  "csrf = k \<Longrightarrow>
     scan k (OrgDetailContent_2 members0 csrf) (Val ''form'' ''action'', Inside True False False None) = (Body, Outside)"
  unfolding OrgDetailContent_2_def by simp

definition OrgDetailContent :: "org \<Rightarrow> member list \<Rightarrow> repository list \<Rightarrow> string \<Rightarrow> component" where
  \<open>OrgDetailContent og members0 repo_list csrf = [Call (
    OrgDetailContent_1 og repo_list csrf
    @ OrgDetailContent_2 members0 csrf)]\<close>

lemma scan_OrgDetailContent [simp]:
  "csrf = k \<Longrightarrow>
     scan k (OrgDetailContent og members0 repo_list csrf) (Body, Outside) = (Body, Outside)"
  unfolding OrgDetailContent_def by simp

definition OrgDetailPage_view :: "layout_data \<Rightarrow> org \<Rightarrow> member list \<Rightarrow> repository list \<Rightarrow> string \<Rightarrow> component" where
  \<open>OrgDetailPage_view layout og members0 repo_list csrf = [Call (
    Layout \<lparr>ly_title = ly_title layout, ly_user = ly_user layout, ly_csrf = ly_csrf layout, ly_unread = ly_unread layout, ly_flash = ly_flash layout, ly_flash_err = ly_flash_err layout, lv_content = OrgDetailContent og members0 repo_list csrf, lv_full = False, lv_hide = False, lv_nav = ''orgs''\<rparr>)]\<close>

lemma scan_OrgDetailPage_view [simp]:
  "ly_csrf layout = k \<Longrightarrow>
     csrf = k \<Longrightarrow>
     scan k (OrgDetailPage_view layout og members0 repo_list csrf) (Body, Outside) = (Body, Outside)"
  unfolding OrgDetailPage_view_def by simp

definition OrgTeamCreateForm :: "string \<Rightarrow> string \<Rightarrow> component" where
  \<open>OrgTeamCreateForm orgName csrf = [Call (
    [Lit ''<form method="post" action="'', Esc (VUrl (''/orgs/'' @ orgName @ ''/teams'')),
     Lit ''" class="flex flex-col gap-3">'']
    @ CSRFInput csrf
    @ [Lit (''<input type="text" name="name" placeholder="team-name" required class="input"> <textarea name="description" placeholder="Description" class="input"'' @
       '' rows="2"></textarea> <button type="submit" class="btn self-start">Create team</button></form>'')])]\<close>

lemma scan_OrgTeamCreateForm [simp]:
  "csrf = k \<Longrightarrow>
     scan k (OrgTeamCreateForm orgName csrf) (Body, Outside) = (Body, Outside)"
  unfolding OrgTeamCreateForm_def by simp

definition OrgTeamsContent :: "string \<Rightarrow> team list \<Rightarrow> string \<Rightarrow> component" where
  \<open>OrgTeamsContent orgName teams0 csrf = [Call (
    [Lit ''<nav class="text-sm text-muted mb-2"><a href="/orgs">Organizations</a> <span>/ </span> <a href="'',
     Esc (VUrl (''/orgs/'' @ orgName)), Lit ''">'', Esc (VStr orgName),
     Lit ''</a> <span>/ Teams</span></nav><h1 class="text-2xl font-bold mb-4">Teams</h1>'']
    @ CollapsibleForm ''New team'' (OrgTeamCreateForm orgName csrf)
    @ (if teams0 = []
     then EmptyState ''No teams''
     else [Lit ''<ul class="card">'']
       @ concat (map (\<lambda>t.
          [Lit ''<li class="border-b px-4 py-3"><a href="'',
           Esc (VUrl (''/orgs/'' @ orgName @ ''/teams/'' @ team.te_name t)), Lit ''" class="font-medium">'',
           Esc (VStr (team.te_name t)), Lit ''</a> '']
          @ (if (team.te_desc t) \<noteq> []
           then [Lit ''<p class="text-sm text-muted m-0 mt-1">'', Esc (VStr (team.te_desc t)), Lit ''</p>'']
           else [])
          @ [Lit ''</li>'']) teams0)
       @ [Lit ''</ul>'']))]\<close>

lemma scan_OrgTeamsContent [simp]:
  "csrf = k \<Longrightarrow>
     scan k (OrgTeamsContent orgName teams0 csrf) (Body, Outside) = (Body, Outside)"
  unfolding OrgTeamsContent_def by simp

definition OrgTeamsPage_view :: "layout_data \<Rightarrow> string \<Rightarrow> team list \<Rightarrow> string \<Rightarrow> component" where
  \<open>OrgTeamsPage_view layout orgName teams0 csrf = [Call (
    Layout \<lparr>ly_title = ly_title layout, ly_user = ly_user layout, ly_csrf = ly_csrf layout, ly_unread = ly_unread layout, ly_flash = ly_flash layout, ly_flash_err = ly_flash_err layout, lv_content = OrgTeamsContent orgName teams0 csrf, lv_full = False, lv_hide = False, lv_nav = ''orgs''\<rparr>)]\<close>

lemma scan_OrgTeamsPage_view [simp]:
  "ly_csrf layout = k \<Longrightarrow>
     csrf = k \<Longrightarrow>
     scan k (OrgTeamsPage_view layout orgName teams0 csrf) (Body, Outside) = (Body, Outside)"
  unfolding OrgTeamsPage_view_def by simp

definition TeamDetailContent :: "string \<Rightarrow> team \<Rightarrow> member list \<Rightarrow> string \<Rightarrow> component" where
  \<open>TeamDetailContent orgName team members0 csrf = [Call (
    [Lit ''<nav class="text-sm text-muted mb-2"><a href="/orgs">Organizations</a> <span>/ </span> <a href="'',
     Esc (VUrl (''/orgs/'' @ orgName)), Lit ''">'', Esc (VStr orgName), Lit ''</a> <span>/ </span> <a href="'',
     Esc (VUrl (''/orgs/'' @ orgName @ ''/teams'')), Lit ''">Teams</a> <span>/ '', Esc (VStr (team.te_name team)),
     Lit ''</span></nav><h1 class="text-2xl font-bold mb-4">'', Esc (VStr (team.te_name team)),
     Lit ''</h1><form method="post" action="'',
     Esc (VUrl (''/orgs/'' @ orgName @ ''/teams/'' @ team.te_name team @ ''/members'')),
     Lit ''" class="card p-4 mb-4 flex gap-3">'']
    @ CSRFInput csrf
    @ [Lit (''<input type="text" name="username" placeholder="Username" required class="input flex-1"> <button type="submit" class="btn">Add member</button></form>'' @
       ''<div class="overflow-auto"><table class="card"><thead><tr><th scope="col">User</th><th scope="col">Role</th></tr></thead> <tbody>'')]
    @ concat (map (\<lambda>m.
       [Lit ''<tr><td>'', Esc (VStr (me_username m)), Lit ''</td><td>'', Esc (VStr (me_role m)), Lit ''</td></tr>'']) members0)
    @ [Lit ''</tbody></table></div>''])]\<close>

lemma scan_TeamDetailContent [simp]:
  "csrf = k \<Longrightarrow>
     scan k (TeamDetailContent orgName team members0 csrf) (Body, Outside) = (Body, Outside)"
  unfolding TeamDetailContent_def by simp

definition TeamDetailPage_view :: "layout_data \<Rightarrow> string \<Rightarrow> team \<Rightarrow> member list \<Rightarrow> string \<Rightarrow> component" where
  \<open>TeamDetailPage_view layout orgName team members0 csrf = [Call (
    Layout \<lparr>ly_title = ly_title layout, ly_user = ly_user layout, ly_csrf = ly_csrf layout, ly_unread = ly_unread layout, ly_flash = ly_flash layout, ly_flash_err = ly_flash_err layout, lv_content = TeamDetailContent orgName team members0 csrf, lv_full = False, lv_hide = False, lv_nav = ''orgs''\<rparr>)]\<close>

lemma scan_TeamDetailPage_view [simp]:
  "ly_csrf layout = k \<Longrightarrow>
     csrf = k \<Longrightarrow>
     scan k (TeamDetailPage_view layout orgName team members0 csrf) (Body, Outside) = (Body, Outside)"
  unfolding TeamDetailPage_view_def by simp

subsection \<open>notifications\<close>

definition NotificationsPartial_view_1 :: "view \<Rightarrow> notification \<Rightarrow> component" where
  \<open>NotificationsPartial_view_1 vw n = 
    [Css [''notif-item'' @ notifItemClass (nf_read n)], Lit ''<div class="'',
     Attr (VClass [''notif-item'' @ notifItemClass (nf_read n)]), Lit ''"><div class="notif-item-icon">'']
    @ (if (nf_link n) \<noteq> []
     then (if contains (nf_link n) ''/pulls/''
        then Icon ''git-pull-request'' ''notif-icon-pr''
        else (if contains (nf_link n) ''/issues/''
           then Icon ''issue-opened'' ''notif-icon-issue''
           else (if contains (nf_link n) ''/releases/''
              then Icon ''tag'' ''notif-icon-release''
              else (if contains (nf_link n) ''/actions/''
                 then Icon ''play'' []
                 else (if (contains (nf_body n) ''review'') \<or> (contains (nf_title n) ''review'')
                    then Icon ''comment'' ''notif-icon-review''
                    else Icon ''bell'' ''notif-icon-comment'')))))
     else Icon ''bell'' ''notif-icon-comment'')
    @ [Lit ''</div><div class="notif-item-content"><p class="notif-item-title">'']
    @ (if \<not> (nf_read n)
     then [Lit ''<span class="notif-unread-dot" style="margin-right:0.375rem;vertical-align:middle"></span> '']
     else [])
    @ [Esc (VStr (nf_title n)), Lit ''</p>'']
    @ (if (nf_body n) \<noteq> []
     then [Lit ''<p class="notif-item-body">'', Esc (VStr (nf_body n)), Lit ''</p>'']
     else [])
    @ [Lit ''<div class="notif-item-meta">'']
    @ (if (nf_link n) \<noteq> []
     then [Lit ''<a href="'', Esc (VUrl (nf_link n)),
        Lit (''" class="text-xs">View</a> <span aria-hidden="true">'' @ [CHR 0xC2, CHR 0xB7] @ ''</span> '')]
     else [])
    @ [Lit ''<time datetime="'', Attr (VStr (v_attr vw (nf_created n)))]\<close>

lemma scan_NotificationsPartial_view_1 [simp]:
  "(nf_link n \<noteq> [] \<longrightarrow> local_address (nf_link n)) \<Longrightarrow>
     scan k (NotificationsPartial_view_1 vw n) (Body, Outside) = (Val ''time'' ''datetime'', Outside)"
  unfolding NotificationsPartial_view_1_def by simp

definition NotificationsPartial_view_2 :: "view \<Rightarrow> notification \<Rightarrow> component" where
  \<open>NotificationsPartial_view_2 vw n = 
    [Lit ''" title="'', Attr (VStr (v_tooltip vw (nf_created n))), Lit ''">'', Esc (VStr (v_ago vw (nf_created n))),
     Lit ''</time></div></div>'']
    @ (if \<not> (nf_read n)
     then [Lit ''<div class="notif-item-action"><button type="button" class="btn-secondary text-xs" style="padding:2px 6px;white-space:nowrap" hx-post="'',
        Attr (VStr (''/notifications/'' @ vw_uuid vw (nf_id n) @ ''/read'')),
        Lit ''" hx-target="#notif-body" hx-swap="innerHTML" title="Mark as read">'']
       @ Icon ''check'' []
       @ [Lit ''</button></div>'']
     else [])
    @ [Lit ''</div>'']\<close>

lemma scan_NotificationsPartial_view_2 [simp]: "scan k (NotificationsPartial_view_2 vw n) (Val ''time'' ''datetime'', Outside) = (Body, Outside)"
  unfolding NotificationsPartial_view_2_def by simp

definition NotificationsPartial_view :: "view \<Rightarrow> notification list \<Rightarrow> string \<Rightarrow> component" where
  \<open>NotificationsPartial_view vw notifs csrf = [Call (
    (if notifs = []
     then [Lit ''<div class="notif-empty">'']
       @ Icon ''bell'' []
       @ [Lit ''<p>No notifications</p></div>'']
     else concat (map (\<lambda>n.
          NotificationsPartial_view_1 vw n
          @ NotificationsPartial_view_2 vw n) notifs)))]\<close>

lemma scan_NotificationsPartial_view [simp]:
  "\<forall>n\<in>set notifs. (nf_link n \<noteq> [] \<longrightarrow> local_address (nf_link n)) \<Longrightarrow>
     scan k (NotificationsPartial_view vw notifs csrf) (Body, Outside) = (Body, Outside)"
  unfolding NotificationsPartial_view_def by simp

definition NotifBadge_view :: "int \<Rightarrow> component" where
  \<open>NotifBadge_view count = [Call (
    (if count > 0
     then [Lit ''<span id="notif-badge" class="notif-count">'', Esc (VStr (unreadLabel count)), Lit ''</span>'']
     else [Lit ''<span id="notif-badge" class="notif-count" style="display:none">0</span>'']))]\<close>

lemma scan_NotifBadge_view [simp]: "scan k (NotifBadge_view count) (Body, Outside) = (Body, Outside)"
  unfolding NotifBadge_view_def by simp

subsection \<open>admin users\<close>

definition AdminUserCreateForm :: "string \<Rightarrow> component" where
  \<open>AdminUserCreateForm csrf = [Call (
    [Lit ''<form method="post" action="/admin/users" class="grid grid-cols-2 gap-4">'']
    @ CSRFInput csrf
    @ FormField ''Username'' ''admin-username'' ''text'' ''username'' [] True
    @ FormField ''Email'' ''admin-email'' ''email'' ''email'' [] True
    @ FormField ''Password'' ''admin-password'' ''password'' ''password'' [] True
    @ [Lit (''<div class="form-field"><label class="text-sm" for="admin-role">Role</label> <select id="admin-role" name="role" class="input mt-2">'' @
       ''<option value="user">user</option> <option value="admin">admin</option></select></div><div class="col-span-2">'' @
       ''<button type="submit" class="btn">Create user</button></div></form>'')])]\<close>

lemma scan_AdminUserCreateForm [simp]:
  "csrf = k \<Longrightarrow>
     scan k (AdminUserCreateForm csrf) (Body, Outside) = (Body, Outside)"
  unfolding AdminUserCreateForm_def by simp

definition AdminUsersContent_1 :: "string \<Rightarrow> string \<Rightarrow> component" where
  \<open>AdminUsersContent_1 csrf errMsg = 
    PageHeader (''Admin '' @ [CHR 0xC2, CHR 0xB7] @ '' Users'') (Some [])
    @ [Lit ''<p class="mb-4"><a href="/admin/audit">Audit log</a></p>'']
    @ ErrorAlert errMsg
    @ CollapsibleForm ''Create user'' (AdminUserCreateForm csrf)
    @ [Lit (''<div class="overflow-auto"><table class="card"><thead><tr><th scope="col">Username</th><th scope="col">Email</th><th scope="col">Role</th>'' @
       ''<th scope="col">Created</th><th scope="col"></th></tr></thead> <tbody>'')]\<close>

lemma scan_AdminUsersContent_1 [simp]:
  "csrf = k \<Longrightarrow>
     scan k (AdminUsersContent_1 csrf errMsg) (Body, Outside) = (Body, Outside)"
  unfolding AdminUsersContent_1_def by simp

definition AdminUsersContent_2 :: "view \<Rightarrow> string \<Rightarrow> user list \<Rightarrow> component" where
  \<open>AdminUsersContent_2 vw csrf user_list = 
    concat (map (\<lambda>u.
       [Lit ''<tr><td>'', Esc (VStr (usr_name u)), Lit ''</td><td>'', Esc (VStr (usr_email u)),
        Lit ''</td><td><form method="post" action="'',
        Esc (VUrl (''/admin/users/'' @ vw_uuid vw (usr_id u) @ ''/role'')), Lit ''" class="flex items-center gap-2">'']
       @ CSRFInput csrf
       @ [Lit ''<select name="role" class="input text-sm py-1"><option value="user" selected="'',
        Attr (VBool ((usr_role u) = ''user'')), Lit ''">user</option> <option value="admin" selected="'',
        Attr (VBool ((usr_role u) = ''admin'')),
        Lit ''">admin</option></select> <button type="submit" class="btn-secondary text-sm">Change</button></form></td><td class="text-sm text-muted"><time datetime="'',
        Attr (VStr (v_attr vw (usr_created u))), Lit ''" title="'', Attr (VStr (v_tooltip vw (usr_created u))),
        Lit ''">'', Esc (VStr (v_ago vw (usr_created u))), Lit ''</time></td><td><form method="post" action="'',
        Esc (VUrl (''/admin/users/'' @ vw_uuid vw (usr_id u) @ ''/delete'')),
        Lit ''" onsubmit="return confirm('Delete this user?')">'']
       @ CSRFInput csrf
       @ [Lit ''<button type="submit" class="btn-secondary text-sm">Delete</button></form></td></tr>'']) user_list)\<close>

lemma scan_AdminUsersContent_2 [simp]:
  "csrf = k \<Longrightarrow>
     scan k (AdminUsersContent_2 vw csrf user_list) (Body, Outside) = (Body, Outside)"
  unfolding AdminUsersContent_2_def by simp

definition AdminUsersContent_3 :: "component" where
  \<open>AdminUsersContent_3 = 
    [Lit ''</tbody></table></div>'']\<close>

lemma scan_AdminUsersContent_3 [simp]: "scan k AdminUsersContent_3 (Body, Outside) = (Body, Outside)"
  unfolding AdminUsersContent_3_def by simp

definition AdminUsersContent :: "view \<Rightarrow> string \<Rightarrow> user list \<Rightarrow> string \<Rightarrow> component" where
  \<open>AdminUsersContent vw csrf user_list errMsg = [Call (
    AdminUsersContent_1 csrf errMsg
    @ AdminUsersContent_2 vw csrf user_list
    @ AdminUsersContent_3)]\<close>

lemma scan_AdminUsersContent [simp]:
  "csrf = k \<Longrightarrow>
     scan k (AdminUsersContent vw csrf user_list errMsg) (Body, Outside) = (Body, Outside)"
  unfolding AdminUsersContent_def by simp

definition AdminUsersPage_view :: "view \<Rightarrow> layout_data \<Rightarrow> user list \<Rightarrow> string \<Rightarrow> component" where
  \<open>AdminUsersPage_view vw layout user_list errMsg = [Call (
    Layout \<lparr>ly_title = ly_title layout, ly_user = ly_user layout, ly_csrf = ly_csrf layout, ly_unread = ly_unread layout, ly_flash = ly_flash layout, ly_flash_err = ly_flash_err layout, lv_content = AdminUsersContent vw (ly_csrf layout) user_list errMsg, lv_full = False, lv_hide = False, lv_nav = []\<rparr>)]\<close>

lemma scan_AdminUsersPage_view [simp]:
  "ly_csrf layout = k \<Longrightarrow>
     scan k (AdminUsersPage_view vw layout user_list errMsg) (Body, Outside) = (Body, Outside)"
  unfolding AdminUsersPage_view_def by simp

subsection \<open>admin audit\<close>

definition AdminAuditContent :: "view \<Rightarrow> audit_entry list \<Rightarrow> component" where
  \<open>AdminAuditContent vw entries = [Call (
    [Lit (''<h1 class="text-2xl font-bold mb-6">Admin '' @ [CHR 0xC2, CHR 0xB7] @ '' Audit log</h1><p class="mb-4"><a href="/admin/users">'' @ [CHR 0xE2, CHR 0x86, CHR 0x90] @ '' Users</a></p>'')]
    @ (if entries = []
     then EmptyState ''No audit entries''
     else [Lit ''<table class="card"><thead><tr><th>Time</th><th>Action</th><th>Resource</th><th>Details</th></tr></thead> <tbody>'']
       @ concat (map (\<lambda>e.
          [Lit ''<tr><td class="text-sm text-muted"><time datetime="'', Attr (VStr (v_attr vw (ae_created e))),
           Lit ''" title="'', Attr (VStr (v_tooltip vw (ae_created e))), Lit ''">'', Esc (VStr (v_ago vw (ae_created e))),
           Lit ''</time></td><td>'', Esc (VStr (ae_action e)), Lit ''</td><td class="text-sm">'', Esc (VStr (ae_rtype e)),
           Lit '' / '', Esc (VStr (ae_rid e)), Lit ''</td><td class="text-sm font-mono">'',
           Esc (VStr (auditMeta (ae_meta e))), Lit ''</td></tr>'']) entries)
       @ [Lit ''</tbody></table>'']))]\<close>

lemma scan_AdminAuditContent [simp]: "scan k (AdminAuditContent vw entries) (Body, Outside) = (Body, Outside)"
  unfolding AdminAuditContent_def by simp

definition AdminAuditPage_view :: "view \<Rightarrow> layout_data \<Rightarrow> audit_entry list \<Rightarrow> component" where
  \<open>AdminAuditPage_view vw layout entries = [Call (
    Layout \<lparr>ly_title = ly_title layout, ly_user = ly_user layout, ly_csrf = ly_csrf layout, ly_unread = ly_unread layout, ly_flash = ly_flash layout, ly_flash_err = ly_flash_err layout, lv_content = AdminAuditContent vw entries, lv_full = False, lv_hide = False, lv_nav = []\<rparr>)]\<close>

lemma scan_AdminAuditPage_view [simp]:
  "ly_csrf layout = k \<Longrightarrow>
     scan k (AdminAuditPage_view vw layout entries) (Body, Outside) = (Body, Outside)"
  unfolding AdminAuditPage_view_def by simp

declare if_cong [cong del] if_split [split]

end
