(* ===== verification/Views.thy ===== *)
theory Views
  imports ViewRepo ViewCommit ViewIssue ViewPull ViewUser ViewOrg WebGuard
begin

section \<open>The pages the front end serves\<close>

text \<open>
  Every page the handlers answer with, rendered by the template of its name; that no text of a user can add
  markup to it; and that every form that posts carries the form token of the request.
\<close>

subsection \<open>From the data of a page to its template\<close>

fun user_template :: "view \<Rightarrow> user_page \<Rightarrow> component" where
  "user_template vw (LoginPage csrf errMsg next_url) = LoginPage_view csrf errMsg next_url"
| "user_template vw (DashboardPage ly rs os csrf errMsg) = DashboardPage_view vw ly rs os csrf errMsg"
| "user_template vw (UserProfilePage ly u rs own) = UserProfilePage_view vw ly \<lparr>fv_user = u, fv_repos = rs, fv_owner = own\<rparr>"
| "user_template vw (SearchPage ly q typ srt hs n nr perPage) = SearchPage_view ly q typ srt hs n nr perPage"
| "user_template vw (SettingsPage ly ps ks newPAT errMsg) = SettingsPage_view vw ly ps ks newPAT errMsg"
| "user_template vw (NotificationsPartial ns csrf) = NotificationsPartial_view vw ns csrf"
| "user_template vw (NotifBadge n) = NotifBadge_view (int n)"
| "user_template vw (OrgsPage ly os csrf) = OrgsPage_view ly os csrf"
| "user_template vw (OrgDetailPage ly org ms rs csrf) = OrgDetailPage_view ly org ms rs csrf"
| "user_template vw (OrgTeamsPage ly org ts csrf) = OrgTeamsPage_view ly org ts csrf"
| "user_template vw (TeamDetailPage ly org t ms csrf) = TeamDetailPage_view ly org t ms csrf"
| "user_template vw (AdminUsersPage ly us errMsg) = AdminUsersPage_view vw ly us errMsg"
| "user_template vw (AdminAuditPage ly es) = AdminAuditPage_view vw ly es"

fun repo_template :: "view \<Rightarrow> repo_page \<Rightarrow> component" where
  "repo_template vw (RepoPage data) = RepoPage_view data"
| "repo_template vw (FileTableChildren fullName ref path es) = FileTableChildren_view fullName ref path es"
| "repo_template vw (CommitDetailPage ly fr cd csrf) = CommitDetailPage_view ly \<lparr>cv_frame = fr, cv_commit = cd, cv_csrf = csrf\<rparr>"
| "repo_template vw (ComparePage ly fr res base head csrf) =
     ComparePage_view ly \<lparr>pv_frame = fr, pv_result = res, pv_base = base, pv_head = head, pv_csrf = csrf\<rparr>"
| "repo_template vw (ForkDialog repo csrf ns) =
     ForkDialog_view \<lparr>kv_owner = rp_owner_name repo, kv_repo = rp_name repo, kv_full = rp_full_name repo, kv_csrf = csrf,
       kv_namespaces = ns, kv_forks = []\<rparr>"
| "repo_template vw (TagsPage ly fr ts csrf) = TagsPage_view ly (fst fr) (snd fr) ts csrf"
| "repo_template vw (RepoSettingsPage ly data) = RepoSettingsPage_view vw ly data"
| "repo_template vw (WikiPage ly fr ps) = WikiPage_view ly (fst fr) (snd fr) ps"
| "repo_template vw (WikiViewPage ly fr pg html csrf) = WikiViewPage_view ly (fst fr) (snd fr) pg html csrf"
| "repo_template vw (WikiEditPage ly fr slug title body csrf) = WikiEditPage_view ly (fst fr) (snd fr) slug title body csrf"
| "repo_template vw (PackagesPage ly fr ps csrf) = PackagesPage_view vw ly (fst fr) (snd fr) ps csrf"

fun issue_template :: "view \<Rightarrow> issue_page \<Rightarrow> component" where
  "issue_template vw (IssuesPage ly fr is st csrf nr limit nOpen nClosed) =
     IssuesPage_view ly (fst fr) (snd fr) is st csrf nr limit (int nOpen) (int nClosed)"
| "issue_template vw (IssueDetailPage ly fr i cs ls ms us csrf) = IssueDetailPage_view vw ly (fst fr) (snd fr) i cs ls ms us csrf"
| "issue_template vw (MilestonesPage ly fr ms csrf) = MilestonesPage_view vw ly (fst fr) (snd fr) ms csrf"
| "issue_template vw (PullsPage ly fr prs st branch csrf) = PullsPage_view ly (fst fr) (snd fr) prs st branch csrf"
| "issue_template vw (PRDetailPage ly data) = PRDetailPage_view vw ly data"
| "issue_template vw (ActionsPage ly fr ws rs csrf) = ActionsPage_view ly (fst fr) (snd fr) ws rs csrf"
| "issue_template vw (ActionLogsPartial logs url) = ActionLogsPartial_view logs url"
| "issue_template vw (ReleasesPage ly fr rs csrf) = ReleasesPage_view vw ly (fst fr) (snd fr) rs csrf"
| "issue_template vw (Toast msg variant) = Toast_view msg variant"

subsection \<open>The tokens and the foreign text of a page\<close>

text \<open>The form tokens in the data of a page.\<close>

fun user_tokens :: "user_page \<Rightarrow> string list" where
  "user_tokens (LoginPage csrf errMsg next_url) = [csrf]"
| "user_tokens (DashboardPage ly rs os csrf errMsg) = [ly_csrf ly, csrf]"
| "user_tokens (UserProfilePage ly u rs own) = [ly_csrf ly]"
| "user_tokens (SearchPage ly q typ srt hs n nr perPage) = [ly_csrf ly]"
| "user_tokens (SettingsPage ly ps ks newPAT errMsg) = [ly_csrf ly]"
| "user_tokens (NotificationsPartial ns csrf) = [csrf]"
| "user_tokens (NotifBadge n) = []"
| "user_tokens (OrgsPage ly os csrf) = [ly_csrf ly, csrf]"
| "user_tokens (OrgDetailPage ly org ms rs csrf) = [ly_csrf ly, csrf]"
| "user_tokens (OrgTeamsPage ly org ts csrf) = [ly_csrf ly, csrf]"
| "user_tokens (TeamDetailPage ly org t ms csrf) = [ly_csrf ly, csrf]"
| "user_tokens (AdminUsersPage ly us errMsg) = [ly_csrf ly]"
| "user_tokens (AdminAuditPage ly es) = [ly_csrf ly]"

fun repo_tokens :: "repo_page \<Rightarrow> string list" where
  "repo_tokens (RepoPage data) = [ly_csrf (rg_layout data), rh_csrf (fst (rg_frame data))]"
| "repo_tokens (FileTableChildren fullName ref path es) = []"
| "repo_tokens (CommitDetailPage ly fr cd csrf) = [ly_csrf ly, rh_csrf (fst fr), csrf]"
| "repo_tokens (ComparePage ly fr res base head csrf) = [ly_csrf ly, rh_csrf (fst fr), csrf]"
| "repo_tokens (ForkDialog repo csrf ns) = [csrf]"
| "repo_tokens (TagsPage ly fr ts csrf) = [ly_csrf ly, rh_csrf (fst fr), csrf]"
| "repo_tokens (RepoSettingsPage ly data) = [ly_csrf ly, rh_csrf (fst (rd_frame data)), rd_csrf data]"
| "repo_tokens (WikiPage ly fr ps) = [ly_csrf ly, rh_csrf (fst fr)]"
| "repo_tokens (WikiViewPage ly fr pg html csrf) = [ly_csrf ly, rh_csrf (fst fr), csrf]"
| "repo_tokens (WikiEditPage ly fr slug title body csrf) = [ly_csrf ly, rh_csrf (fst fr), csrf]"
| "repo_tokens (PackagesPage ly fr ps csrf) = [ly_csrf ly, rh_csrf (fst fr), csrf]"

fun issue_tokens :: "issue_page \<Rightarrow> string list" where
  "issue_tokens (IssuesPage ly fr is st csrf nr limit nOpen nClosed) = [ly_csrf ly, rh_csrf (fst fr), csrf]"
| "issue_tokens (IssueDetailPage ly fr i cs ls ms us csrf) = [ly_csrf ly, rh_csrf (fst fr), csrf]"
| "issue_tokens (MilestonesPage ly fr ms csrf) = [ly_csrf ly, rh_csrf (fst fr), csrf]"
| "issue_tokens (PullsPage ly fr prs st branch csrf) = [ly_csrf ly, rh_csrf (fst fr), csrf]"
| "issue_tokens (PRDetailPage ly data) = [ly_csrf ly, rh_csrf (fst (pd_frame data)), pd_csrf data]"
| "issue_tokens (ActionsPage ly fr ws rs csrf) = [ly_csrf ly, rh_csrf (fst fr), csrf]"
| "issue_tokens (ActionLogsPartial logs url) = []"
| "issue_tokens (ReleasesPage ly fr rs csrf) = [ly_csrf ly, rh_csrf (fst fr), csrf]"
| "issue_tokens (Toast msg variant) = []"

text \<open>
  What a page takes from elsewhere as it is: the text of a wiki page after rendering, the addresses of the
  notifications, the address of the log that is fetched again.
\<close>

fun user_foreign :: "user_page \<Rightarrow> bool" where
  "user_foreign (NotificationsPartial ns csrf) = list_all (\<lambda>n. nf_link n \<noteq> [] \<longrightarrow> local_address (nf_link n)) ns"
| "user_foreign p = True"

fun repo_foreign :: "repo_page \<Rightarrow> bool" where
  "repo_foreign (WikiViewPage ly fr pg html csrf) = closed_html html"
| "repo_foreign p = True"

fun issue_foreign :: "issue_page \<Rightarrow> bool" where
  "issue_foreign (ActionLogsPartial logs url) = local_address url"
| "issue_foreign p = True"

text \<open>The renderer of markdown never fails and closes every tag it opens.\<close>

definition markdown_closed :: "web_lib \<Rightarrow> bool" where
  "markdown_closed wb = (\<forall>s. \<exists>html. RenderMarkdown wb s = Inr html \<and> closed_html html)"

lemma markdown_closed_body: "markdown_closed (vw_web vw) \<Longrightarrow> \<forall>s. closed_html (issueBodyHTML vw s)"
  by (metis markdown_closed_def issueBodyHTML_def sum.simps(6))

lemma user_page_walk:
  assumes "list_all (\<lambda>t. t = k) (user_tokens p)" and "user_foreign p"
  shows "sound_part k (user_template vw p)"
  using assms by (cases p) (simp_all add: list_all_iff del: local_address_def)

lemma repo_page_walk:
  assumes "list_all (\<lambda>t. t = k) (repo_tokens p)" and "repo_foreign p"
  shows "sound_part k (repo_template vw p)"
  using assms by (cases p) simp_all

lemma issue_page_walk:
  assumes "list_all (\<lambda>t. t = k) (issue_tokens p)" and "issue_foreign p" and "markdown_closed (vw_web vw)"
  shows "sound_part k (issue_template vw p)"
  using assms(1,2) markdown_closed_body [OF assms(3)] by (cases p) simp_all

subsection \<open>Every page at once\<close>

datatype web_page = UserPg user_page | RepoPg repo_page | IssuePg issue_page

fun page_template :: "view \<Rightarrow> web_page \<Rightarrow> component" where
  "page_template vw (UserPg p) = user_template vw p"
| "page_template vw (RepoPg p) = repo_template vw p"
| "page_template vw (IssuePg p) = issue_template vw p"

fun page_tokens :: "web_page \<Rightarrow> string list" where
  "page_tokens (UserPg p) = user_tokens p"
| "page_tokens (RepoPg p) = repo_tokens p"
| "page_tokens (IssuePg p) = issue_tokens p"

fun page_foreign :: "web_page \<Rightarrow> bool" where
  "page_foreign (UserPg p) = user_foreign p"
| "page_foreign (RepoPg p) = repo_foreign p"
| "page_foreign (IssuePg p) = issue_foreign p"

lemma page_walk:
  assumes "list_all (\<lambda>t. t = k) (page_tokens p)" and "page_foreign p" and "markdown_closed (vw_web vw)"
  shows "sound_part k (page_template vw p)"
  using assms by (cases p) (simp_all add: user_page_walk repo_page_walk issue_page_walk)


subsection \<open>The handlers of the pages\<close>

fun answer_pages :: "'p web_answer \<Rightarrow> 'p list" where
  "answer_pages (Page p) = [p]"
| "answer_pages (Both a b) = answer_pages a @ answer_pages b"
| "answer_pages _ = []"

definition pages_out :: "('p, 'g) web_out \<Rightarrow> 'p list" where
  "pages_out out = answer_pages (wr_answer (fst out))"

text \<open>A handler all of whose pages have the form token of the request in every form that posts.\<close>

definition guards_forms :: "(view \<Rightarrow> 'p \<Rightarrow> component) \<Rightarrow> view \<Rightarrow> (web_ctx \<Rightarrow> 'g api_world \<Rightarrow> ('p, 'g) web_out) \<Rightarrow> bool" where
  "guards_forms tmpl vw h = (\<forall>c w. list_all (\<lambda>p. sound_part (wx_csrf c) (tmpl vw p)) (pages_out (h c w)))"

definition user_views :: "('g, 'k) server \<Rightarrow> web_lib \<Rightarrow> (web_ctx \<Rightarrow> 'g api_world \<Rightarrow> 'g user_out) list" where
  "user_views sv wb =
     [web_handleLoginGet, web_handleDashboard, web_handleUserProfile, web_handleSearch wb, web_handleSettings wb,
      web_handleNotificationsCount, web_handleOrgs, web_handleOrgDetail, web_handleOrgTeams, web_handleTeamDetail,
      web_handleAdminUsers, web_handleAdminAudit]"

definition repo_views :: "('g, 'k) server \<Rightarrow> web_lib \<Rightarrow> (web_ctx \<Rightarrow> 'g api_world \<Rightarrow> 'g repo_out) list" where
  "repo_views sv wb =
     [web_handleRepo sv wb, web_handleRepoTree sv wb, web_handleRepoTreeLazy sv, web_handleRepoBlob sv wb, web_handleRepoBlame sv wb,
      web_handleFileFinder sv, web_handleCommitDetail sv wb, web_handleCompare sv wb, web_handleForkDialog, web_handleTags sv wb,
      web_handleRepoSettings sv wb, web_handleWiki wb, web_handleWikiPage wb, web_handleWikiEdit wb, web_handlePackages wb]"

definition issue_views :: "('g, 'k) server \<Rightarrow> web_lib \<Rightarrow> (web_ctx \<Rightarrow> 'g api_world \<Rightarrow> 'g issue_out) list" where
  "issue_views sv wb =
     [web_handleIssues wb, web_handleIssueDetail wb, web_handleMilestones wb, web_handlePulls wb, web_handlePRDetail sv wb,
      web_handleActions sv wb, web_handleActionLogs sv, web_handleReleases wb]"

lemma pages_simps [simp]:
  "pages_out (reply (Page p) w) = [p]" "pages_out (redirect url w) = []" "pages_out (http_error n msg w) = []"
  "pages_out (not_found w) = []" "pages_out (reply (Names ns) w) = []" "pages_out (reply Panic w) = []"
  "pages_out (reply (HttpError n msg) w) = []" "pages_out (reply (Redirect url) w) = []"
  by (simp_all add: pages_out_def reply_def redirect_def http_error_def not_found_def)

lemma layout_token [simp]: "ly_csrf (web_layout c title w) = wx_csrf c"
  by (simp add: web_layout_def Let_def)

lemma frame_token [simp]: "rh_csrf (fst (repoPageCtx wb c repo tabname w)) = wx_csrf c"
  by (simp add: repoPageCtx_def)

lemma refused_pages: "repo_access perm c w = (Inl ans, w1) \<Longrightarrow> answer_pages ans = []"
  by (auto simp: repo_access_def split: sum.splits prod.splits option.splits if_splits)

lemma pages_getRepo:
  fixes k :: "repository \<Rightarrow> 'g api_world \<Rightarrow> ('p, 'g) web_out"
  assumes "\<And>repo w. list_all P (pages_out (k repo w))"
  shows "list_all P (pages_out (web_getRepo perm c k w))"
proof -
  obtain out :: "'p web_answer + repository" and w1 where acc: "repo_access perm c w = (out, w1)" by fastforce
  then show ?thesis
    by (cases out) (simp_all add: web_getRepo_def assms [unfolded pages_out_def] pages_out_def reply_def refused_pages)
qed

lemma pages_getRepo_or:
  fixes k :: "repository \<Rightarrow> 'g api_world \<Rightarrow> ('p, 'g) web_out"
  assumes "\<And>repo w. list_all P (pages_out (k repo w))"
  shows "list_all P (pages_out (web_getRepo_or (HttpError n msg) perm c k w))"
proof -
  obtain out :: "'p web_answer + repository" and w1 where acc: "repo_access perm c w = (out, w1)" by fastforce
  then show ?thesis
    by (cases out) (simp_all add: web_getRepo_or_def assms [unfolded pages_out_def] pages_out_def reply_def refused_pages)
qed

lemma pages_with_user: "(\<And>su w. list_all P (pages_out (k su w))) \<Longrightarrow> list_all P (pages_out (with_user c k w))"
  by (simp add: with_user_def split: option.split)

lemma pages_parseNum: "(\<And>n w. list_all P (pages_out (k n w))) \<Longrightarrow> list_all P (pages_out (parseNum c key k w))"
  by (simp add: parseNum_def split: prod.split)

lemma pages_parseUUID: "(\<And>x w. list_all P (pages_out (k x w))) \<Longrightarrow> list_all P (pages_out (parseUUIDParam sv c key k w))"
  by (simp add: parseUUIDParam_def split: option.split)

lemmas pages_rules = pages_getRepo pages_getRepo_or pages_with_user pages_parseNum pages_parseUUID

lemma guards_formsI:
  "(\<And>c w. list_all (\<lambda>p. sound_part (wx_csrf c) (tmpl vw p)) (pages_out (h c w))) \<Longrightarrow> guards_forms tmpl vw h"
  by (simp add: guards_forms_def)


lemma user_views_guarded:
  assumes "markdown_closed (vw_web vw)"
  shows "list_all (guards_forms user_template vw) (user_views sv wb)"
proof -
  note D = web_handleLoginGet_def web_handleDashboard_def dashboard_def web_handleUserProfile_def web_handleSearch_def
    web_handleSettings_def settings_page_def web_handleNotificationsCount_def web_handleOrgs_def web_handleOrgDetail_def
    web_handleOrgTeams_def web_handleTeamDetail_def web_handleAdminUsers_def admin_users_def web_handleAdminAudit_def
    org_param_def team_param_def
  have "user_foreign p \<Longrightarrow> list_all (\<lambda>t. t = k) (user_tokens p) \<Longrightarrow> sound_part k (user_template vw p)" for p k
    by (rule user_page_walk)
  then show ?thesis
    unfolding user_views_def
    by (simp del: user_template.simps, intro conjI guards_formsI; unfold D; (intro pages_rules)?;
        auto simp del: user_template.simps simp: Let_def split: option.split prod.split sum.split)
qed

lemma closed_wiki: "markdown_closed wb \<Longrightarrow> closed_html (drop_error [] (RenderMarkdown wb s))"
  unfolding markdown_closed_def by (metis drop_error_def sum.simps(6))

lemma repo_views_guarded:
  assumes "markdown_closed (vw_web vw)"
  shows "list_all (guards_forms repo_template vw) (repo_views sv (vw_web vw))"
proof -
  note D = web_handleRepo_def web_handleRepoTree_def web_handleRepoTreeLazy_def
    web_handleFileFinder_def web_handleCommitDetail_def web_handleCompare_def web_handleForkDialog_def web_handleTags_def
    web_handleRepoSettings_def web_handleWiki_def web_handleWikiPage_def web_handleWikiEdit_def web_handlePackages_def repo_page_def
  have walk: "repo_foreign p \<Longrightarrow> list_all (\<lambda>t. t = k) (repo_tokens p) \<Longrightarrow> sound_part k (repo_template vw p)" for p k
    by (rule repo_page_walk)
  have blob: "list_all (\<lambda>p. sound_part (wx_csrf c) (repo_template vw p)) (pages_out (web_handleRepoBlob sv (vw_web vw) c w))" for c w
    unfolding web_handleRepoBlob_def by (intro pages_rules) (simp add: Let_def repo_page_def walk del: repo_template.simps)
  show ?thesis
    using closed_wiki [OF assms] walk
    unfolding repo_views_def
    by (simp del: repo_template.simps, intro conjI guards_formsI; (unfold web_handleRepoBlame_def D)?; (intro pages_rules)?;
        auto simp del: repo_template.simps simp: Let_def blob split: option.split prod.split sum.split list.split)
qed

lemma issue_views_guarded:
  assumes "markdown_closed (vw_web vw)"
  shows "list_all (guards_forms issue_template vw) (issue_views sv (vw_web vw))"
proof -
  note D = web_handleIssues_def web_handleIssueDetail_def web_handleMilestones_def web_handlePulls_def web_handlePRDetail_def
    web_handleActions_def web_handleActionLogs_def web_handleReleases_def web_issue_def web_pull_def
  have "issue_foreign p \<Longrightarrow> list_all (\<lambda>t. t = k) (issue_tokens p) \<Longrightarrow> sound_part k (issue_template vw p)" for p k
    by (rule issue_page_walk [OF _ _ assms])
  then show ?thesis
    unfolding issue_views_def
    by (simp del: issue_template.simps, intro conjI guards_formsI; unfold D; (intro pages_rules)?;
        auto simp del: issue_template.simps simp: Let_def split: option.split prod.split sum.split)
qed


subsection \<open>The properties at concrete inputs\<close>

definition demo_view :: view where
  "demo_view = \<lparr>vw_web = demo_web\<lparr>wl_markdown := (\<lambda>s. Inr ''<p>text</p>'')\<rparr>, vw_uuid = (\<lambda>u. ''1''), vw_now = 0, vw_scan_hex = (\<lambda>s. (0, 0, 0))\<rparr>"

lemma demo_markdown: "markdown_closed (vw_web demo_view)"
  by (simp add: markdown_closed_def demo_view_def RenderMarkdown_def closed_html_def)



end
