(* ===== verification/SshServer.thy ===== *)
theory SshServer
  imports GitServer
begin

section \<open>SSH connections and the host key (cmd/git-server/ssh.go)\<close>

text \<open>
  What lies around a session (\<open>handleSSHSession\<close> of GitServer): a connection whose user is the one its key was found
  for, with the channels the client opens, and the key the server shows, kept in a file. The handshake is
  the library's; of it the model has the permissions it ends with. The channels of a connection are
  served one after the other, where the program starts a goroutine for each.
\<close>

subsection \<open>Connections\<close>

record ssh_channel =
  sc_type :: string
  sc_accepted :: bool
  sc_requests :: "ssh_request list"

datatype channel_answer = Rejected string | Dropped | Served "bool list" "nat option"

fun serve_channels ::
  "('g, 'z) git_server_scheme \<Rightarrow> (string \<Rightarrow> (string \<times> string) option) \<Rightarrow> (string \<Rightarrow> string option) \<Rightarrow> instant
     \<Rightarrow> uuid \<Rightarrow> string \<Rightarrow> ssh_channel list \<Rightarrow> 'g git_world \<Rightarrow> channel_answer list \<times> 'g git_world" where
  "serve_channels sv env_unm cmd_unm now uid username [] w = ([], w)"
| "serve_channels sv env_unm cmd_unm now uid username (c # cs) w =
     (case (if sc_type c \<noteq> ''session'' then (Rejected ''unknown channel type'', w)
            else if \<not> sc_accepted c then (Dropped, w)
            else (case handleSSHSession sv env_unm cmd_unm now (sc_requests c) uid username [] w of
                    (replies, status, w1) \<Rightarrow> (Served replies status, w1))) of
        (a, w1) \<Rightarrow> (case serve_channels sv env_unm cmd_unm now uid username cs w1 of (rest, w2) \<Rightarrow> (a # rest, w2)))"

definition handleSSHConn ::
  "('g, 'z) git_server_scheme \<Rightarrow> (string \<Rightarrow> (string \<times> string) option) \<Rightarrow> (string \<Rightarrow> string option) \<Rightarrow> instant
     \<Rightarrow> (string \<times> string) option \<Rightarrow> ssh_channel list \<Rightarrow> 'g git_world \<Rightarrow> channel_answer list \<times> 'g git_world" where
  "handleSSHConn sv env_unm cmd_unm now permissions chans w =
     (case permissions of
        None \<Rightarrow> ([], w)
      | Some (user_id, username) \<Rightarrow>
          (case uuid_parse (sv_crypto sv) user_id of
             None \<Rightarrow> ([], w)
           | Some uid \<Rightarrow> serve_channels sv env_unm cmd_unm now uid username chans w))"

text \<open>The permissions of a key the callback accepts; a client whose keys are all refused gets no connection.\<close>

definition key_permissions :: "crypto \<Rightarrow> ('k, 'z) ssh_lib_scheme \<Rightarrow> 'k list \<Rightarrow> db \<Rightarrow> (string \<times> string) option" where
  "key_permissions cr lib keys d =
     (case List.find (\<lambda>k. isl (sshPublicKeyCallback cr lib k d) = False) keys of
        None \<Rightarrow> None
      | Some k \<Rightarrow> (case sshPublicKeyCallback cr lib k d of Inr p \<Rightarrow> Some p | Inl e \<Rightarrow> None))"

text \<open>The channels are served for the user to whom the key belongs.\<close>

lemma connection_user:
  assumes "crypto_laws (sv_crypto sv)" and "LookupUserBySSHPublicKey lib k (gw_db w) = Inr (uid, username)"
  shows "handleSSHConn sv env_unm cmd_unm now (key_permissions (sv_crypto sv) lib [k] (gw_db w)) chans w
    = serve_channels sv env_unm cmd_unm now uid username chans w"
  using assms by (simp add: handleSSHConn_def key_permissions_def sshPublicKeyCallback_def crypto_uuid)

lemma unknown_keys_refused:
  assumes "\<And>k. k \<in> set keys \<Longrightarrow> isl (LookupUserBySSHPublicKey lib k d)"
  shows "handleSSHConn sv env_unm cmd_unm now (key_permissions cr lib keys d) chans w = ([], w)"
proof -
  have "isl (sshPublicKeyCallback cr lib k d)" if "k \<in> set keys" for k
    using assms [OF that] by (auto simp: sshPublicKeyCallback_def split: sum.split)
  then have "List.find (\<lambda>k. isl (sshPublicKeyCallback cr lib k d) = False) keys = None"
    by (auto simp: find_None_iff)
  then show ?thesis by (simp add: handleSSHConn_def key_permissions_def)
qed

text \<open>Only sessions have an effect; everything else is refused and leaves no trace.\<close>

lemma no_session_no_effect:
  "(\<And>c. c \<in> set chans \<Longrightarrow> sc_type c \<noteq> ''session'') \<Longrightarrow>
     serve_channels sv env_unm cmd_unm now uid username chans w = (map (\<lambda>c. Rejected ''unknown channel type'') chans, w)"
  by (induction chans) auto

subsection \<open>The key of the server\<close>

record ('r, 'k) host_lib =
  hk_parse :: "string \<Rightarrow> 'k result"
  hk_generate :: "'r result"
  hk_signer :: "'r \<Rightarrow> 'k result"
  hk_pem :: "'r \<Rightarrow> string"
  hk_can_write :: "string \<Rightarrow> bool"

definition loadOrGenerateHostKey ::
  "('r, 'k) host_lib \<Rightarrow> string \<Rightarrow> (string \<Rightarrow> string option) \<Rightarrow> 'k result \<times> (string \<Rightarrow> string option)" where
  "loadOrGenerateHostKey hk path files =
     (case (if path \<noteq> [] then files path else None) of
        Some text \<Rightarrow> (hk_parse hk text, files)
      | None \<Rightarrow>
          (case hk_generate hk of
             Inl e \<Rightarrow> (Inl e, files)
           | Inr key \<Rightarrow>
               (case hk_signer hk key of
                  Inl e \<Rightarrow> (Inl e, files)
                | Inr signer \<Rightarrow>
                    (Inr signer, if path \<noteq> [] \<and> hk_can_write hk path then files(path \<mapsto> hk_pem hk key) else files))))"

text \<open>
  The key survives a restart when its file can be written and the library reads what it wrote, whatever a
  second start would have generated; without a file, or when it cannot be written, every start makes a new one.
\<close>

lemma host_key_stable:
  assumes "path \<noteq> []" and "hk_can_write hk path"
    and "\<And>key. hk_parse hk2 (hk_pem hk key) = hk_signer hk key"
    and "loadOrGenerateHostKey hk path files = (Inr signer, files1)" and "files path = None"
  shows "loadOrGenerateHostKey hk2 path files1 = (Inr signer, files1)"
  using assms by (auto simp: loadOrGenerateHostKey_def split: sum.splits)

lemma host_key_kept: "files path = Some text \<Longrightarrow> path \<noteq> [] \<Longrightarrow> snd (loadOrGenerateHostKey hk path files) = files"
  by (simp add: loadOrGenerateHostKey_def)

lemma host_key_forgotten: "snd (loadOrGenerateHostKey hk [] files) = files"
  by (simp add: loadOrGenerateHostKey_def split: sum.split)

datatype 'k ssh_start = NotStarted | Fatal string | Listening string 'k

definition startSSH ::
  "('r, 'k) host_lib \<Rightarrow> (string \<Rightarrow> err option) \<Rightarrow> string \<Rightarrow> string \<Rightarrow> (string \<Rightarrow> string option)
     \<Rightarrow> 'k ssh_start \<times> (string \<Rightarrow> string option)" where
  "startSSH hk listen addr hostKeyPath files =
     (if addr = [] then (NotStarted, files)
      else (case loadOrGenerateHostKey hk hostKeyPath files of
              (Inl e, files1) \<Rightarrow> (Fatal (''ssh host key: '' @ err_text e), files1)
            | (Inr signer, files1) \<Rightarrow>
                (case listen addr of
                   Some e \<Rightarrow> (Fatal (''ssh listen '' @ addr @ '': '' @ err_text e), files1)
                 | None \<Rightarrow> (Listening addr signer, files1))))"

text \<open>A file that holds no key stops the server rather than being replaced.\<close>

lemma broken_host_key_fatal:
  "addr \<noteq> [] \<Longrightarrow> path \<noteq> [] \<Longrightarrow> files path = Some text \<Longrightarrow> hk_parse hk text = Inl e \<Longrightarrow>
     startSSH hk listen addr path files = (Fatal (''ssh host key: '' @ err_text e), files)"
  by (simp add: startSSH_def loadOrGenerateHostKey_def)

end
