(* ===== verification/Gate.thy ===== *)
theory Gate
  imports ApiCore RateLimit
begin

section \<open>The way to a handler (internal/api/server.go: NewServer, Router)\<close>

text \<open>
  What stands before the handlers of the API: six routes are open and counted by the address the client shows, all others
  ask for a token or a session first and are counted by the user, the health check is neither. The
  three limiters live in the memory of the server; the routing itself is the library's. \<open>later\<close> is the second reading of
  the clock.
\<close>

definition defaultWindow :: duration where "defaultWindow = hour"
definition anonWindow :: duration where "anonWindow = hour"
definition searchWindow :: duration where "searchWindow = hour"

record limiters =
  lm_anon :: rate_limiter
  lm_core :: rate_limiter
  lm_search :: rate_limiter

definition new_limiters :: limiters where
  "new_limiters = \<lparr>lm_anon = NewRateLimiter anonLimit anonWindow, lm_core = NewRateLimiter defaultLimit defaultWindow,
     lm_search = NewRateLimiter searchLimit searchWindow\<rparr>"

datatype 'a gate = Limited int | Through 'a

type_synonym ('a, 'g) gated = "'a gate \<times> limiters \<times> 'g api_world"

definition open_route ::
  "(uuid \<Rightarrow> string) \<Rightarrow> instant \<Rightarrow> instant \<Rightarrow> client \<Rightarrow> ('g api_world \<Rightarrow> 'a \<times> 'g api_world)
     \<Rightarrow> limiters \<Rightarrow> 'g api_world \<Rightarrow> ('a, 'g) gated" where
  "open_route show_uuid now later cl handler lm w =
     (case RateLimitMiddleware now later (rateLimitKey show_uuid cl uuid_nil) (lm_anon lm) of
        (Some wait, rl) \<Rightarrow> (Limited wait, lm\<lparr>lm_anon := rl\<rparr>, w)
      | (None, rl) \<Rightarrow> (case handler w of (x, w1) \<Rightarrow> (Through x, lm\<lparr>lm_anon := rl\<rparr>, w1)))"

definition user_route ::
  "('g, 'k) server \<Rightarrow> (uuid \<Rightarrow> string) \<Rightarrow> instant \<Rightarrow> client \<Rightarrow> string \<Rightarrow> request
     \<Rightarrow> (request \<Rightarrow> 'g api_world \<Rightarrow> ('a, 'g) outcome) \<Rightarrow> limiters \<Rightarrow> 'g api_world \<Rightarrow> ('a reply, 'g) gated" where
  "user_route sv show_uuid later cl header base handler lm w =
     (case authenticate sv header base w of
        None \<Rightarrow> (Through (JsonError 401 (if header = [] then ''missing authorization'' else ''invalid token'')), lm, w)
      | Some r \<Rightarrow>
          (case RateLimitMiddleware (cx_now r) later (rateLimitKey show_uuid cl (userIDFrom r)) (lm_core lm) of
             (Some wait, rl) \<Rightarrow> (Limited wait, lm\<lparr>lm_core := rl\<rparr>, w)
           | (None, rl) \<Rightarrow> (case handler r w of (x, w1) \<Rightarrow> (Through x, lm\<lparr>lm_core := rl\<rparr>, w1))))"

text \<open>The status of the limits is one of the open routes: behind it nobody is identified.\<close>

definition rate_limit_route ::
  "(uuid \<Rightarrow> string) \<Rightarrow> instant \<Rightarrow> instant \<Rightarrow> client \<Rightarrow> limiters \<Rightarrow> rate_limit_resource gate \<times> limiters" where
  "rate_limit_route show_uuid now later cl lm =
     (case RateLimitMiddleware now later (rateLimitKey show_uuid cl uuid_nil) (lm_anon lm) of
        (Some wait, rl) \<Rightarrow> (Limited wait, lm\<lparr>lm_anon := rl\<rparr>)
      | (None, rl) \<Rightarrow>
          (case handleRateLimit show_uuid now cl uuid_nil rl (lm_core lm) of
             (res, anon, core) \<Rightarrow> (Through res, lm\<lparr>lm_anon := anon, lm_core := core\<rparr>)))"

definition health_route :: "limiters \<Rightarrow> 'g api_world \<Rightarrow> (string, 'g) gated" where
  "health_route lm w = (Through ''ok'', lm, w)"

subsection \<open>What the gates guarantee\<close>

text \<open>Behind the gate of the user routes a handler only runs for the user the token names.\<close>

lemma user_route_identified:
  assumes "user_route sv show_uuid later cl header base handler lm w = (out, lm1, w1)"
    and "w1 \<noteq> w \<or> lm1 \<noteq> lm \<or> (\<exists>x. out = Through (OK x)) \<or> out = Through NoContent"
  obtains r where "authenticate sv header base w = Some r"
  using assms by (cases "authenticate sv header base w") (auto simp: user_route_def)

lemma user_route_handler:
  assumes "user_route sv show_uuid later cl header base handler lm w = (Through x, lm1, w1)"
    and "authenticate sv header base w = Some r"
  shows "handler r w = (x, w1)"
  using assms by (auto simp: user_route_def split: prod.splits option.splits)

text \<open>A request that is turned away for its number leaves the data alone.\<close>

lemma limited_no_effect:
  "open_route show_uuid now later cl h lm w = (Limited wait, lm1, w1) \<Longrightarrow> w1 = w"
  "user_route sv show_uuid later cl header base handler lm w = (Limited wait, lm1, w1) \<Longrightarrow> w1 = w"
  by (auto simp: open_route_def user_route_def split: prod.splits option.splits)

text \<open>Of a user all requests count together, from whatever address; of the open routes only the address counts.\<close>

lemma user_bucket: "uid \<noteq> uuid_nil \<Longrightarrow> rateLimitKey show_uuid cl uid = rateLimitKey show_uuid cl2 uid"
  by (simp add: rateLimitKey_def)

lemma open_bucket_forwarded:
  "cl_forwarded cl \<noteq> [] \<Longrightarrow> rateLimitKey show_uuid cl uuid_nil = ''ip:'' @ cl_forwarded cl"
  by (simp add: rateLimitKey_def)

text \<open>The limiter made for searches counts nothing: no route goes through it.\<close>

lemma search_limiter_idle:
  "lm_search (fst (snd (open_route show_uuid now later cl h lm w))) = lm_search lm"
  "lm_search (fst (snd (user_route sv show_uuid later cl header base handler lm w))) = lm_search lm"
  "lm_search (snd (rate_limit_route show_uuid now later cl lm)) = lm_search lm"
  "lm_search (fst (snd (health_route lm w))) = lm_search lm"
  by (simp_all add: open_route_def user_route_def rate_limit_route_def health_route_def split: prod.split option.split)

text \<open>The status shows the anonymous limit to everybody, a user with a token included, and leaves the other alone.\<close>

lemma rate_status_anonymous:
  assumes "rate_limit_route show_uuid now later cl lm = (Through res, lm1)"
  shows "rr_limit res = anonLimit \<and> lm_core lm1 = lm_core lm"
  using assms by (auto simp: rate_limit_route_def handleRateLimit_def Let_def split: prod.splits option.splits)

text \<open>Asking for it takes two requests off the quota: one in the gate, one in the handler that means to take none.\<close>

lemma status_costs_two:
  assumes "rate_limit_route show_uuid now later cl lm = (Through res, lm1)"
    and "rt_buckets (lm_anon lm) (rateLimitKey show_uuid cl uuid_nil) = Some b" and "now - bk_start b < rt_window (lm_anon lm)"
  shows "rt_buckets (lm_anon lm1) (rateLimitKey show_uuid cl uuid_nil) = Some (b\<lparr>bk_count := bk_count b + 2\<rparr>)"
  using assms by (auto simp: rate_limit_route_def handleRateLimit_def RateLimitMiddleware_def AllowIfPossible_def Let_def
      split: if_splits)

end
