(* ===== verification/Spec2Isabelle.thy ===== *)
theory Spec2Isabelle
  imports GitServer RunTypes Issue Pull Org Wiki Feeds Artifacts RateLimit JobQueue PackCache GitText GitStore Presence Aireview Api
    Config GoUrl Search Scanner Startup ApiMeta Cli CliApp WebText WebDiff WebCore WebUser WebRepo WebIssue WebGuard
    Templ ViewText ViewParts ViewLayout ViewRepo ViewCommit ViewIssue ViewPull ViewUser ViewOrg Views
    PreReceive SshServer Gate
begin

text \<open>
  A model of govnohub, a git hosting server in Go: the services over a Postgres database, the REST
  API, the web front end, the git server (HTTP and SSH), the store of git repositories, the controller that runs
  workflows on Kubernetes, the search index and its indexer, and the command line client.

  How the program is put together. \<open>cmd/api-server\<close> serves the API (\<open>internal/api\<close>), whose handlers
  identify the caller, find the repository, check the caller's permission, and call one or more
  services (\<open>internal/auth\<close>, \<open>repo\<close>, \<open>issue\<close>, \<open>pull\<close>, \<open>org\<close>, \<open>wiki\<close>, \<open>release\<close>, \<open>package\<close>, ...) and the git
  store (\<open>internal/git\<close>); below the same router the web front end (\<open>internal/web\<close>) serves pages and forms
  over the same services, with a session cookie and form tokens of its own. \<open>cmd/git-server\<close> answers git clients, with the same services for
  authentication and permissions. \<open>cmd/actions-controller\<close> polls the runs that pushes and the API
  queue, dispatches their jobs in the order of their needs, and records how they end.
  \<open>cmd/search-indexer\<close> puts documents into an external index, \<open>cmd/govnohub\<close> is a client of the API. Everything
  shares one database; caches, rate limiters, the presence tracker and the job queue live in the
  memory of a process.

  How it is modelled. The database is one record of tables (lists of row records, Schema); a query
  is a function of it and a statement gives a new one. Errors are values of a sum. Whatever is
  outside the repository's code is a record of functions given to the operations: bcrypt, JWT and UUID text
  (\<open>crypto\<close>), the git program and go-git (\<open>git_lib\<close>, with a state of its own), Kubernetes and YAML
  (\<open>ctl_lib\<close>), the disk, SHA-256. The clock and the identifiers the database generates are arguments. Where a
  property needs what such a library promises, it is a hypothesis (\<open>crypto_laws\<close>).

  The theories, and the code they model:
    \<^item> Prelude, GoStrings: table operations, strings, numbers and text of Go's standard library; no
      code of the repository.
    \<^item> Cache: \<open>internal/cache/cache.go\<close>, with a locale for what its clients rely on.
    \<^item> Schema: the tables, keys and cascades of \<open>internal/db/migrations\<close>, with a locale for keyed tables.
    \<^item> Auth, Tokens: \<open>internal/auth\<close> (accounts, lockout, sessions, roles; tokens, SSH and GPG keys).
    \<^item> Repo, Protection: \<open>internal/repo\<close> (repositories, stars, access, collaborators; branch protection).
    \<^item> Numbering, Issue, Pull, Org, Wiki, Feeds, Artifacts, Webhook: the services of the same names;
      Feeds has notifications, audit log and public events, Artifacts releases and packages.
    \<^item> GitProtocol, GitText, GitStore, PackCache: \<open>internal/git\<close> (the wire protocol; readers of what
      git prints; the operations of the store; the cache of answers to fetches).
    \<^item> GitServer, SshServer: \<open>cmd/git-server\<close>. PreReceive: the script \<open>hooks.go\<close> puts into every repository.
    \<^item> Actions, Controller, RunTypes: \<open>internal/actions\<close> and \<open>cmd/actions-controller\<close>, and the typing of
      the rows that the webhook service, the API and the controller write together.
    \<^item> RateLimit, JobQueue, Presence, Aireview: \<open>internal/api/rate_limit.go\<close>, \<open>internal/jobqueue\<close>,
      \<open>internal/presence\<close>, \<open>internal/aireview\<close>.
    \<^item> ApiCore, ApiUser, ApiRepo, ApiIssue, ApiPull, ApiActions: the handlers of \<open>internal/api\<close>, one
      definition each; Api: the routes below a repository as one relation, and what holds of all. ApiMeta: search, server
      information and queue statistics. Gate: the limiters and what a request passes before its handler.
    \<^item> WebCore: sessions, form tokens, middleware and the frame of the pages (\<open>auth.go\<close>, \<open>csrf.go\<close>, \<open>render.go\<close>,
      \<open>handler.go\<close> of \<open>internal/web\<close>); WebUser, WebRepo, WebIssue: its handlers (\<open>handlers.go\<close>), one definition
      \<open>web_handle...\<close> each; WebText, WebDiff: badges, times, the parser of diffs; WebGuard: the routes as relations, and what
      holds of all. A page is a constructor with the data it is rendered from.
    \<^item> Templ: what a template writes, as a list of pieces (fixed text, escaped text, raw text, addresses, values that
      go into scripts, a stop), how the pieces are rendered, and an automaton for the HTML they use that follows tags,
      attributes, quotes and forms. ViewText: the functions the templates call. ViewParts, ViewLayout, ViewRepo, ViewCommit,
      ViewIssue, ViewPull, ViewUser, ViewOrg: the templates (the files \<open>*_templ.go\<close> of \<open>internal/web\<close>), one definition each
      under the name of the template, a long one in numbered parts in the order of its statements; a name ending in \<open>_view\<close>
      stands for a template whose name a page constructor already has. Views: the template each page of the
      handlers is rendered with.
    \<^item> Search: \<open>internal/search\<close> and \<open>cmd/search-indexer\<close>. Scanner: \<open>internal/secrets\<close>. Config, Startup:
      \<open>internal/config\<close>, \<open>internal/db\<close>, \<open>cmd/api-server\<close>. Cli, CliApp: \<open>internal/cli\<close>, \<open>cmd/govnohub\<close>, with
      GoUrl for the encoding of addresses.

  What is shown, by groups.
    \<^item> Accounts: an administrator always remains when operations do not overlap (and need not when
      they do), the lockout follows an abstract lock, guesses of a password are bounded, tokens and
      sessions live as long as promised.
    \<^item> Repositories: the star count is the number of stars, cached lookups agree with the database,
      access to private repositories is exactly what roles and grants give.
    \<^item> API: every handler below a repository changes stored data only for callers with write access
      and answers only those with read access; what the handlers do not check is stated as
      properties too.
    \<^item> Web: no form below a repository changes stored data without a session with the permission and the
      token of the form; no page changes any or is shown without it; what is not checked is stated too.
      No text of a user adds markup to a page: whatever the data, the tags and attribute names a page consists of
      are those its templates write. Every form that posts carries the token of the session.
      Diffs, messages and form tokens survive their way out and back.
    \<^item> Search and start: retries are bounded in number and time, migrations run once and in order.
    \<^item> Scanner and client: the findings are exactly the matches of the patterns; a command acts with the token or
      does nothing.
    \<^item> Git: pushes over HTTP are guarded by permission and protection, those over SSH by permission
      only, and the hook that runs for both refuses nothing; the parsers of the wire protocol and of git's output invert the printers, or are shown not to.
    \<^item> Workflows: jobs are ordered after their needs, start only after these have succeeded, a run ends as
      its jobs did, the pass over the queue ends and empties it.
    \<^item> Memory: what the rate limiter lets through in any span of time, the books of the job queue, the
      tracker against a specification that forgets nothing.

  Fuel. \<open>process_loop\<close> gets the number of queued runs and one more: every turn takes one run out of
  the queue (\<open>queued_count_claim\<close>), so it always ends (\<open>queue_drained\<close>). All other loops are
  structural or have a measure.

  Not modelled. What a browser does with a page beyond the tags, attributes and forms the automaton of Templ follows; the
  templating library and the renderer of markdown are parameters, their escaping a hypothesis. Main programs and their
  listeners, signals and timers, the wiring of the services, static files, tests. Of what is modelled: failures of the database
  itself (a query that cannot be sent), the rounding of times to microseconds, Unicode in case
  conversion and white space (bytes outside ASCII are left alone), collations other than by bytes,
  the 32-bit range of integer columns, failures to start git
  or to write to a client. Goroutines that only send or notify run at once.
\<close>

end
